(* ===== verification/Fsd_Prelude.thy ===== *)
theory Fsd_Prelude
  imports Main "HOL-Library.Monad_Syntax"
begin

text \<open>
  Shared material of the development: the collections of facts the component proofs
  draw on, list and option lemmas that more than one component needs, the checked list
  access that models an index operation of the source, and the generic interface of a
  state machine with an invariant.
\<close>

named_theorems fsd_defs \<open>definitions of message codecs, unfolded together\<close>
named_theorems client_defs \<open>definitions of the operations of the FSD client\<close>

subsection \<open>Checked access to a list\<close>

text \<open>
  \<open>tokens[i]\<close> of the source asserts that the index is in range; reading outside is an
  error, here the value \<^term>\<open>None\<close>.
\<close>

definition at_opt :: "'a list \<Rightarrow> nat \<Rightarrow> 'a option" where
  "at_opt xs i = (if i < length xs then Some (xs ! i) else None)"

lemma at_opt_Nil [simp]: "at_opt [] i = None"
  by (simp add: at_opt_def)

lemma at_opt_Cons_0 [simp]: "at_opt (x # xs) 0 = Some x"
  by (simp add: at_opt_def)

lemma at_opt_Cons_Suc [simp]: "at_opt (x # xs) (Suc i) = at_opt xs i"
  by (simp add: at_opt_def)

lemma at_opt_Cons_numeral [simp]:
  "at_opt (x # xs) (numeral k) = at_opt xs (pred_numeral k)"
  by (simp add: numeral_eq_Suc)

lemma at_opt_Cons_1 [simp]: "at_opt (x # xs) 1 = at_opt xs 0"
  by (simp add: One_nat_def)

lemma at_opt_in_range: "i < length xs \<Longrightarrow> at_opt xs i = Some (xs ! i)"
  by (simp add: at_opt_def)

lemma at_opt_None_iff: "at_opt xs i = None \<longleftrightarrow> length xs \<le> i"
  by (simp add: at_opt_def)

text \<open>\<open>QList::value(i, default)\<close>: the default outside the range.\<close>

definition at_default :: "'a list \<Rightarrow> nat \<Rightarrow> 'a \<Rightarrow> 'a" where
  "at_default xs i d = (if i < length xs then xs ! i else d)"

lemma at_default_Nil [simp]: "at_default [] i d = d"
  by (simp add: at_default_def)

lemma at_default_Cons_0 [simp]: "at_default (x # xs) 0 d = x"
  by (simp add: at_default_def)

lemma at_default_Cons_Suc [simp]: "at_default (x # xs) (Suc i) d = at_default xs i d"
  by (simp add: at_default_def)

lemma at_default_Cons_numeral [simp]:
  "at_default (x # xs) (numeral k) d = at_default xs (pred_numeral k) d"
  by (simp add: numeral_eq_Suc)

subsection \<open>Lists\<close>

lemma dropWhile_id: "xs = [] \<or> \<not> P (hd xs) \<Longrightarrow> dropWhile P xs = xs"
  by (cases xs) auto

lemma dropWhile_idem [simp]: "dropWhile P (dropWhile P xs) = dropWhile P xs"
  by (induction xs) auto

lemma set_dropWhile_subset: "set (dropWhile P xs) \<subseteq> set xs"
  by (auto dest: set_dropWhileD)

lemma filter_idem_pred: "\<forall>x \<in> set xs. P x \<Longrightarrow> filter P xs = xs"
  by (induction xs) auto

subsection \<open>Machines with an invariant\<close>

text \<open>
  The components with state are step functions. An invariant every step keeps holds
  after any sequence of steps; this is proved once here and used through an
  interpretation per component.
\<close>

locale invariant_machine =
  fixes step :: "'s \<Rightarrow> 'e \<Rightarrow> 's"
    and inv :: "'s \<Rightarrow> bool"
  assumes step_inv: "inv s \<Longrightarrow> inv (step s e)"
begin

lemma run_inv: "inv s \<Longrightarrow> inv (foldl step s es)"
  by (induction es arbitrary: s) (auto intro: step_inv)

lemma run_append: "foldl step s (es @ fs) = foldl step (foldl step s es) fs"
  by simp

lemma prefix_inv: "inv s \<Longrightarrow> inv (foldl step s (take n es))"
  by (rule run_inv)

end

end
