(* ===== verification/Fsd_Queue.thy ===== *)
theory Fsd_Queue
  imports Fsd_Prelude
begin

text \<open>
  The queue of outgoing messages of \<open>CFSDClient\<close> (\<open>src/core/fsd/fsdclient.cpp\<close>,
  \<open>sendQueuedMessage\<close>): a timer takes one message, more of them the longer the queue is.
  Taking from an empty queue asserts in the source, here it is \<^term>\<open>None\<close>. The interface
  \<open>fifo_sender\<close> states what the rest of the client relies on: a tick sends a prefix of the
  queue in order, and a non-empty one from a non-empty queue.
\<close>

type_synonym send_state = "string list \<times> string list"

fun dequeueSend :: "send_state \<Rightarrow> send_state option" where
  "dequeueSend (sent, []) = None"
| "dequeueSend (sent, m # queue) = Some (sent @ [m], queue)"

fun dequeueTimes :: "nat \<Rightarrow> send_state \<Rightarrow> send_state option" where
  "dequeueTimes 0 st = Some st"
| "dequeueTimes (Suc n) st = Option.bind (dequeueSend st) (dequeueTimes n)"

definition dequeueIf :: "bool \<Rightarrow> send_state \<Rightarrow> send_state option" where
  "dequeueIf b st = (if b then dequeueSend st else Some st)"

definition sendQueuedMessage :: "string list \<Rightarrow> send_state option" where
  "sendQueuedMessage m_queuedFsdMessages =
     (if m_queuedFsdMessages = [] then Some ([], m_queuedFsdMessages)
      else let s = length m_queuedFsdMessages in do {
        st \<leftarrow> dequeueSend ([], m_queuedFsdMessages);
        st \<leftarrow> dequeueIf (5 < s) st;
        st \<leftarrow> dequeueIf (10 < s) st;
        st \<leftarrow> dequeueIf (20 < s) st;
        st \<leftarrow> dequeueIf (30 < s) st;
        if 50 < s
        then let sendNo = 10;
                 sendNo = (if 75 < s then 20 else sendNo);
                 sendNo = (if 100 < s then 30 else sendNo)
             in dequeueTimes sendNo st
        else Some st
      })"

text \<open>The number of messages of one tick.\<close>

definition burst :: "nat \<Rightarrow> nat" where
  "burst s =
     (if s = 0 then 0 else 1) + (if 5 < s then 1 else 0) + (if 10 < s then 1 else 0)
     + (if 20 < s then 1 else 0) + (if 30 < s then 1 else 0)
     + (if 100 < s then 30 else if 75 < s then 20 else if 50 < s then 10 else 0)"

lemma dequeueTimes_split:
  "n \<le> length q \<Longrightarrow> dequeueTimes n (sent, q) = Some (sent @ take n q, drop n q)"
proof (induction n arbitrary: sent q)
  case (Suc n)
  then obtain m r where q: "q = m # r" by (cases q) auto
  show ?case using Suc by (simp add: q)
qed simp

lemma bind_dequeueSend:
  "Option.bind (dequeueSend st) (dequeueTimes n) = dequeueTimes (Suc n) st"
  by simp

lemma bind_dequeueIf:
  "Option.bind (dequeueIf b st) (dequeueTimes n) = dequeueTimes ((if b then Suc 0 else 0) + n) st"
  by (simp add: dequeueIf_def)

lemma burst_le: "burst s \<le> s"
  unfolding burst_def by (auto split: if_split)

lemma burst_pos: "0 < s \<Longrightarrow> 0 < burst s"
  by (simp add: burst_def)

lemma burst_max: "burst s \<le> 35"
  by (simp add: burst_def)

lemma bulk_times:
  "(if b then dequeueTimes n st else Some st) = dequeueTimes (if b then n else 0) st"
  by simp

lemma sendQueuedMessage_times:
  "sendQueuedMessage q = dequeueTimes (burst (length q)) ([], q)"
proof (cases "q = []")
  case True
  then show ?thesis by (simp add: sendQueuedMessage_def burst_def)
next
  case False
  let ?s = "length q"
  have "sendQueuedMessage q = dequeueTimes (Suc ((if 5 < ?s then Suc 0 else 0)
      + ((if 10 < ?s then Suc 0 else 0) + ((if 20 < ?s then Suc 0 else 0)
      + ((if 30 < ?s then Suc 0 else 0)
      + (if 50 < ?s then if 100 < ?s then 30 else if 75 < ?s then 20 else 10 else 0)))))) ([], q)"
    unfolding sendQueuedMessage_def Let_def if_not_P [OF False]
    by (simp only: bulk_times bind_dequeueIf bind_dequeueSend)
  also have "\<dots> = dequeueTimes (burst ?s) ([], q)"
    using False by (intro arg_cong2 [where f = dequeueTimes] refl) (simp add: burst_def)
  finally show ?thesis .
qed

lemma sendQueuedMessage_split:
  "sendQueuedMessage q = Some (take (burst (length q)) q, drop (burst (length q)) q)"
  by (simp add: sendQueuedMessage_times dequeueTimes_split burst_le)

subsection \<open>The interface of the sender\<close>

fun ticks :: "('q \<Rightarrow> ('m list \<times> 'q) option) \<Rightarrow> nat \<Rightarrow> 'q \<Rightarrow> ('m list \<times> 'q) option" where
  "ticks tick 0 q = Some ([], q)"
| "ticks tick (Suc n) q =
     Option.bind (tick q) (\<lambda>(sent, q1). map_option (apfst (append sent)) (ticks tick n q1))"

locale fifo_sender =
  fixes tick :: "'q \<Rightarrow> ('m list \<times> 'q) option"
    and content :: "'q \<Rightarrow> 'm list"
  assumes tick_total: "tick q \<noteq> None"
    and tick_prefix: "tick q = Some (sent, q1) \<Longrightarrow> content q = sent @ content q1"
    and tick_progress: "tick q = Some (sent, q1) \<Longrightarrow> content q \<noteq> [] \<Longrightarrow> sent \<noteq> []"
begin

lemma ticks_total: "\<exists>sent q1. ticks tick n q = Some (sent, q1)"
proof (induction n arbitrary: q)
  case (Suc n)
  obtain sent q1 where "tick q = Some (sent, q1)" using tick_total [of q] by auto
  then show ?case using Suc [of q1] by auto
qed simp

lemma ticks_prefix: "ticks tick n q = Some (sent, q1) \<Longrightarrow> content q = sent @ content q1"
proof (induction n arbitrary: q sent)
  case (Suc n)
  then show ?case by (auto split: Option.bind_splits dest!: tick_prefix)
qed simp

lemma tick_shrinks:
  assumes "tick q = Some (sent, q1)" and "content q \<noteq> []"
  shows "length (content q1) < length (content q)"
proof -
  have "content q = sent @ content q1" using assms(1) by (rule tick_prefix)
  moreover have "sent \<noteq> []" using assms by (rule tick_progress)
  ultimately show ?thesis by (cases sent) simp_all
qed

lemma ticks_drain:
  "length (content q) \<le> n \<Longrightarrow> \<exists>q1. ticks tick n q = Some (content q, q1) \<and> content q1 = []"
proof (induction n arbitrary: q)
  case 0
  then show ?case by simp
next
  case (Suc n)
  obtain sent q1 where t: "tick q = Some (sent, q1)" using tick_total [of q] by auto
  have "length (content q1) \<le> n"
  proof (cases "content q = []")
    case True
    then show ?thesis using tick_prefix [OF t] by simp
  next
    case False
    then show ?thesis using tick_shrinks [OF t] Suc.prems by linarith
  qed
  from Suc.IH [OF this] obtain q2 where "ticks tick n q1 = Some (content q1, q2)" "content q2 = []"
    by blast
  then show ?case using t tick_prefix [OF t] by auto
qed

end

interpretation send_queue: fifo_sender sendQueuedMessage "\<lambda>q. q"
proof unfold_locales
  fix q sent q1
  show "sendQueuedMessage q \<noteq> None" by (simp add: sendQueuedMessage_split)
  show "q = sent @ q1" if "sendQueuedMessage q = Some (sent, q1)"
    using that by (auto simp: sendQueuedMessage_split)
  show "sent \<noteq> []" if "sendQueuedMessage q = Some (sent, q1)" "q \<noteq> []"
    using that burst_pos [of "length q"] by (auto simp: sendQueuedMessage_split)
qed

end
