(* ===== verification/Qt_Base.thy ===== *)
theory Qt_Base
  imports Fsd_Prelude "HOL-Library.Char_ord"
begin

text \<open>
  The string vocabulary of the program. A \<open>QString\<close> is a list of characters, a
  \<open>QStringList\<close> a list of such lists; the functions below are the documented behaviour
  of the operations the source calls on them (\<open>trimmed\<close>, \<open>split\<close>, \<open>join\<close>, \<open>mid\<close>,
  \<open>toUpper\<close>, \<open>toInt\<close>, \<open>number\<close>, ...). Characters are bytes: case mapping and the
  letter and digit classes are those of ASCII, the alphabet of FSD callsigns, commands
  and numbers; characters outside ASCII are left alone by case mapping and belong to no
  class. Decimal text of floating-point numbers is not defined here: it is a parameter
  of the definitions that use it (theory \<open>Fsd_Double\<close>).
\<close>

subsection \<open>Character classes\<close>

definition isSpace :: "char \<Rightarrow> bool" where
  "isSpace c \<longleftrightarrow> (let n = (of_char c :: nat) in (9 \<le> n \<and> n \<le> 13) \<or> n = 32 \<or> n = 133 \<or> n = 160)"

definition isUpperC :: "char \<Rightarrow> bool" where
  "isUpperC c \<longleftrightarrow> (let n = (of_char c :: nat) in 65 \<le> n \<and> n \<le> 90)"

definition isLowerC :: "char \<Rightarrow> bool" where
  "isLowerC c \<longleftrightarrow> (let n = (of_char c :: nat) in 97 \<le> n \<and> n \<le> 122)"

definition isDigitC :: "char \<Rightarrow> bool" where
  "isDigitC c \<longleftrightarrow> (let n = (of_char c :: nat) in 48 \<le> n \<and> n \<le> 57)"

definition isLetterOrNumber :: "char \<Rightarrow> bool" where
  "isLetterOrNumber c \<longleftrightarrow> isUpperC c \<or> isLowerC c \<or> isDigitC c"

definition toUpperC :: "char \<Rightarrow> char" where
  "toUpperC c = (if isLowerC c then char_of ((of_char c :: nat) - 32) else c)"

definition toLowerC :: "char \<Rightarrow> char" where
  "toLowerC c = (if isUpperC c then char_of ((of_char c :: nat) + 32) else c)"

abbreviation toUpper :: "string \<Rightarrow> string" where
  "toUpper \<equiv> map toUpperC"

abbreviation toLower :: "string \<Rightarrow> string" where
  "toLower \<equiv> map toLowerC"

lemma of_char_toUpperC:
  "(of_char (toUpperC c) :: nat) = (if isLowerC c then of_char c - 32 else of_char c)"
  by (auto simp: toUpperC_def isLowerC_def Let_def)

lemma of_char_toLowerC:
  "(of_char (toLowerC c) :: nat) = (if isUpperC c then of_char c + 32 else of_char c)"
  by (auto simp: toLowerC_def isUpperC_def Let_def)

lemma not_isLowerC_toUpperC [simp]: "\<not> isLowerC (toUpperC c)"
proof (cases "isLowerC c")
  case True
  then show ?thesis by (auto simp: isLowerC_def of_char_toUpperC Let_def)
next
  case False
  then show ?thesis by (simp add: toUpperC_def)
qed

lemma toUpperC_id [simp]: "\<not> isLowerC c \<Longrightarrow> toUpperC c = c"
  by (simp add: toUpperC_def)

lemma toUpperC_idem [simp]: "toUpperC (toUpperC c) = toUpperC c"
  by simp

lemma toUpper_idem [simp]: "toUpper (toUpper s) = toUpper s"
  by simp

lemma isUpperC_not_isLowerC: "isUpperC c \<Longrightarrow> \<not> isLowerC c"
  by (auto simp: isUpperC_def isLowerC_def Let_def)

lemma isDigitC_not_isLowerC: "isDigitC c \<Longrightarrow> \<not> isLowerC c"
  by (auto simp: isDigitC_def isLowerC_def Let_def)

lemma isSpace_not_isLetterOrNumber: "isSpace c \<Longrightarrow> \<not> isLetterOrNumber c"
  by (auto simp: isSpace_def isLetterOrNumber_def isUpperC_def isLowerC_def isDigitC_def Let_def)

lemma isSpace_toUpperC [simp]: "isSpace (toUpperC c) = isSpace c"
proof (cases "isLowerC c")
  case True
  then show ?thesis by (auto simp: isSpace_def of_char_toUpperC isLowerC_def Let_def)
qed simp

subsection \<open>trimmed\<close>

definition trimmed :: "string \<Rightarrow> string" where
  "trimmed s = rev (dropWhile isSpace (rev (dropWhile isSpace s)))"

definition no_outer_space :: "string \<Rightarrow> bool" where
  "no_outer_space s \<longleftrightarrow> s = [] \<or> (\<not> isSpace (hd s) \<and> \<not> isSpace (last s))"

lemma trimmed_Nil [simp]: "trimmed [] = []"
  by (simp add: trimmed_def)

lemma trimmed_id: "no_outer_space s \<Longrightarrow> trimmed s = s"
  by (auto simp: trimmed_def no_outer_space_def dropWhile_id hd_rev)

lemma dropWhile_hd: "dropWhile P xs \<noteq> [] \<Longrightarrow> \<not> P (hd (dropWhile P xs))"
  by (rule hd_dropWhile)

lemma no_outer_space_trimmed: "no_outer_space (trimmed s)"
proof (cases "trimmed s = []")
  case True
  then show ?thesis by (simp add: no_outer_space_def)
next
  case False
  let ?a = "dropWhile isSpace s"
  let ?b = "dropWhile isSpace (rev ?a)"
  have b: "?b \<noteq> []" using False by (simp add: trimmed_def)
  then have "\<not> isSpace (hd ?b)" by (rule dropWhile_hd)
  then have l: "\<not> isSpace (last (trimmed s))" using b by (simp add: trimmed_def last_rev)
  have a: "?a \<noteq> []" using b by (metis dropWhile.simps(1) rev.simps(1))
  then have ha: "\<not> isSpace (hd ?a)" by (rule dropWhile_hd)
  obtain c where c: "rev ?a = c @ ?b"
    using takeWhile_dropWhile_id [of isSpace "rev ?a", symmetric] by blast
  have "last (rev ?a) = last (c @ ?b)" using c by (rule arg_cong)
  then have "last (rev ?a) = last ?b" using b by simp
  then have "hd (rev ?b) = hd ?a" using a b by (simp add: last_rev hd_rev)
  then have "\<not> isSpace (hd (trimmed s))" using ha by (simp add: trimmed_def)
  with l show ?thesis by (simp add: no_outer_space_def)
qed

lemma trimmed_idem [simp]: "trimmed (trimmed s) = trimmed s"
  by (rule trimmed_id) (rule no_outer_space_trimmed)

lemma trimmed_filter_not_space:
  "\<forall>c \<in> set s. \<not> isSpace c \<Longrightarrow> trimmed s = s"
  by (rule trimmed_id) (cases s, auto simp: no_outer_space_def)

lemma trimmed_append_space:
  assumes "no_outer_space s" and "\<forall>c \<in> set w. isSpace c"
  shows "trimmed (s @ w) = s"
proof (cases "s = []")
  case True
  then show ?thesis using assms(2) by (auto simp: trimmed_def dest: set_dropWhileD)
next
  case False
  with assms(1) have h: "\<not> isSpace (hd s)" and l: "\<not> isSpace (last s)"
    by (auto simp: no_outer_space_def)
  have "dropWhile isSpace (s @ w) = s @ w"
    using False h by (intro dropWhile_id) simp
  moreover have "dropWhile isSpace (rev w @ rev s) = rev s"
    using assms(2) False l by (subst dropWhile_append2) (auto simp: hd_rev intro!: dropWhile_id)
  ultimately show ?thesis by (simp add: trimmed_def)
qed

lemma trimmed_map_toUpper: "trimmed (toUpper s) = toUpper (trimmed s)"
  by (simp add: trimmed_def dropWhile_map rev_map comp_def)

subsection \<open>split and join\<close>

fun qsplit :: "char \<Rightarrow> string \<Rightarrow> string list" where
  "qsplit sep [] = [[]]"
| "qsplit sep (c # cs) =
     (if c = sep then [] # qsplit sep cs
      else (case qsplit sep cs of [] \<Rightarrow> [[c]] | w # ws \<Rightarrow> (c # w) # ws))"

fun qjoin :: "string \<Rightarrow> string list \<Rightarrow> string" where
  "qjoin sep [] = []"
| "qjoin sep [t] = t"
| "qjoin sep (t # u # ts) = t @ sep @ qjoin sep (u # ts)"

lemma qsplit_nonempty [simp]: "qsplit sep s \<noteq> []"
  by (induction s) (auto split: list.splits)

lemma qsplit_no_sep: "sep \<notin> set s \<Longrightarrow> qsplit sep s = [s]"
  by (induction s) auto

lemma qsplit_append_sep:
  "sep \<notin> set t \<Longrightarrow> qsplit sep (t @ sep # s) = t # qsplit sep s"
  by (induction t) auto

lemma qsplit_qjoin:
  "ts \<noteq> [] \<Longrightarrow> \<forall>t \<in> set ts. sep \<notin> set t \<Longrightarrow> qsplit sep (qjoin [sep] ts) = ts"
  by (induction "[sep]" ts rule: qjoin.induct) (auto simp: qsplit_no_sep qsplit_append_sep)

lemma qjoin_Cons: "ts \<noteq> [] \<Longrightarrow> qjoin sep (t # ts) = t @ sep @ qjoin sep ts"
  by (cases ts) auto

lemma qjoin_qsplit: "qjoin [sep] (qsplit sep s) = s"
proof (induction s)
  case Nil
  then show ?case by simp
next
  case (Cons c cs)
  obtain w ws where w: "qsplit sep cs = w # ws"
    by (cases "qsplit sep cs") auto
  show ?case
  proof (cases "c = sep")
    case True
    then show ?thesis using Cons w by (simp add: qjoin_Cons)
  next
    case False
    then show ?thesis using Cons w by (cases ws) auto
  qed
qed

lemma qsplit_tokens_no_sep: "t \<in> set (qsplit sep s) \<Longrightarrow> sep \<notin> set t"
  by (induction s arbitrary: t) (auto split: if_splits list.splits)

lemma length_qsplit: "length (qsplit sep s) = Suc (count_list s sep)"
  by (induction s) (auto split: list.splits)

lemma set_qjoin: "set (qjoin sep ts) \<subseteq> set sep \<union> (\<Union>t \<in> set ts. set t)"
  by (induction sep ts rule: qjoin.induct) auto

lemma qjoin_eq_Nil_iff: "qjoin [c] ts = [] \<longleftrightarrow> ts = [] \<or> ts = [[]]"
  by (induction "[c]" ts rule: qjoin.induct) auto

lemma qjoin_append:
  "ts \<noteq> [] \<Longrightarrow> us \<noteq> [] \<Longrightarrow> qjoin sep (ts @ us) = qjoin sep ts @ sep @ qjoin sep us"
  by (induction sep ts rule: qjoin.induct) (auto simp: qjoin_Cons)

lemma no_outer_space_qjoin:
  assumes "ts \<noteq> []" and "\<not> isSpace sep"
    and "hd ts = [] \<or> \<not> isSpace (hd (hd ts))"
    and "last ts = [] \<or> \<not> isSpace (last (last ts))"
  shows "no_outer_space (qjoin [sep] ts)"
proof (cases "length ts = 1")
  case True
  then obtain t where "ts = [t]" by (auto simp: length_Suc_conv)
  with assms show ?thesis by (auto simp: no_outer_space_def)
next
  case False
  then obtain t us where ts: "ts = t # us" and us: "us \<noteq> []"
    using assms(1) by (cases ts) auto
  have h: "\<not> isSpace (hd (qjoin [sep] ts))"
    using assms(2,3) ts us by (cases t) (auto simp: qjoin_Cons)
  obtain vs v where v: "ts = vs @ [v]" and vs: "vs \<noteq> []"
    using ts us by (metis append_butlast_last_id butlast.simps(2) list.discI)
  have "qjoin [sep] ts = qjoin [sep] vs @ [sep] @ v"
    using v vs by (simp add: qjoin_append)
  then have "\<not> isSpace (last (qjoin [sep] ts))"
    using assms(2,4) v by (cases "v = []") auto
  with h show ?thesis by (simp add: no_outer_space_def)
qed

subsection \<open>Prefixes, suffixes, substrings\<close>

definition startsWith :: "string \<Rightarrow> string \<Rightarrow> bool" where
  "startsWith s p \<longleftrightarrow> take (length p) s = p"

definition endsWith :: "string \<Rightarrow> string \<Rightarrow> bool" where
  "endsWith s p \<longleftrightarrow> length p \<le> length s \<and> drop (length s - length p) s = p"

fun containsStr :: "string \<Rightarrow> string \<Rightarrow> bool" where
  "containsStr [] p = (p = [])"
| "containsStr (c # cs) p = (startsWith (c # cs) p \<or> containsStr cs p)"

definition left :: "string \<Rightarrow> nat \<Rightarrow> string" where
  "left s n = take n s"

definition right :: "string \<Rightarrow> nat \<Rightarrow> string" where
  "right s n = drop (length s - n) s"

definition mid :: "'a list \<Rightarrow> nat \<Rightarrow> 'a list" where
  "mid s n = drop n s"

lemma startsWith_append: "startsWith (p @ s) p"
  by (simp add: startsWith_def)

lemma startsWith_iff: "startsWith s p \<longleftrightarrow> (\<exists>r. s = p @ r)"
proof
  assume "startsWith s p"
  then have "s = p @ drop (length p) s"
    by (metis append_take_drop_id startsWith_def)
  then show "\<exists>r. s = p @ r" ..
qed (auto simp: startsWith_def)

lemma length_right: "length (right s n) = min n (length s)"
  by (simp add: right_def)

text \<open>\<open>removeChars\<close> and \<open>containsChar\<close> of \<open>misc/stringutils.h\<close>.\<close>

definition removeChars :: "string \<Rightarrow> (char \<Rightarrow> bool) \<Rightarrow> string" where
  "removeChars s p = filter (\<lambda>c. \<not> p c) s"

definition containsChar :: "string \<Rightarrow> (char \<Rightarrow> bool) \<Rightarrow> bool" where
  "containsChar s p \<longleftrightarrow> list_ex p s"

definition is09 :: "char \<Rightarrow> bool" where
  "is09 c \<longleftrightarrow> (of_char CHR ''0'' :: nat) \<le> of_char c \<and> of_char c \<le> (of_char CHR ''9'' :: nat)"

definition is09OnlyString :: "string \<Rightarrow> bool" where
  "is09OnlyString s \<longleftrightarrow> \<not> containsChar s (\<lambda>c. \<not> is09 c)"

definition isDigitsOnlyString :: "string \<Rightarrow> bool" where
  "isDigitsOnlyString s \<longleftrightarrow> \<not> containsChar s (\<lambda>c. \<not> isDigitC c)"

lemma containsChar_iff: "containsChar s p \<longleftrightarrow> (\<exists>c \<in> set s. p c)"
  by (simp add: containsChar_def list_ex_iff)

lemma set_removeChars: "set (removeChars s p) = {c \<in> set s. \<not> p c}"
  by (auto simp: removeChars_def)

lemma removeChars_idem [simp]: "removeChars (removeChars s p) p = removeChars s p"
  by (simp add: removeChars_def)

lemma removeChars_id: "\<not> containsChar s p \<Longrightarrow> removeChars s p = s"
  by (auto simp: removeChars_def containsChar_iff intro: filter_idem_pred)

lemma containsChar_removeChars [simp]: "\<not> containsChar (removeChars s p) p"
  by (simp add: containsChar_iff set_removeChars)

text \<open>The end of a line of \<open>QRegularExpression\<close>: \<open>$\<close> also matches before a final newline.\<close>

definition dollarEnd :: "string \<Rightarrow> string" where
  "dollarEnd s = (if s \<noteq> [] \<and> last s = CHR 0x0A then butlast s else s)"

lemma dollarEnd_id: "no_outer_space s \<Longrightarrow> dollarEnd s = s"
  by (auto simp: dollarEnd_def no_outer_space_def isSpace_def)

end
