(* ===== verification/Qt_Number.thy ===== *)
theory Qt_Number
  imports Qt_Base
begin

text \<open>
  Integers as text: \<open>QString::number\<close> in base 10 and 16, and the conversions
  \<open>toInt\<close>, \<open>toUInt\<close>, \<open>toUShort\<close>, \<open>toLongLong\<close>, \<open>toULongLong\<close> with their documented
  behaviour: surrounding white space is ignored, a sign is accepted, anything else or a
  value outside the type's range is a failure, and a failure reads as 0. The round-trip
  laws at the end are what every message codec rests on.
\<close>

subsection \<open>Digits in a base\<close>

definition digit_char :: "nat \<Rightarrow> char" where
  "digit_char d = (if d < 10 then char_of (48 + d) else char_of (87 + d))"

fun nat_digits :: "nat \<Rightarrow> nat \<Rightarrow> string" where
  "nat_digits b n =
     (if b < 2 \<or> n < b then [digit_char n] else nat_digits b (n div b) @ [digit_char (n mod b)])"

declare nat_digits.simps [simp del]

definition digit_val :: "char \<Rightarrow> nat option" where
  "digit_val c =
     (if isDigitC c then Some (of_char c - 48)
      else if isLowerC c then Some (of_char c - 87)
      else if isUpperC c then Some (of_char c - 55)
      else None)"

fun parse_acc :: "nat \<Rightarrow> nat \<Rightarrow> string \<Rightarrow> nat option" where
  "parse_acc b acc [] = Some acc"
| "parse_acc b acc (c # cs) =
     (case digit_val c of
        None \<Rightarrow> None
      | Some d \<Rightarrow> if d < b then parse_acc b (acc * b + d) cs else None)"

definition parse_nat :: "nat \<Rightarrow> string \<Rightarrow> nat option" where
  "parse_nat b cs = (if cs = [] then None else parse_acc b 0 cs)"

text \<open>In base 16 the C prefix \<open>0x\<close> is skipped.\<close>

definition skip_prefix :: "nat \<Rightarrow> string \<Rightarrow> string" where
  "skip_prefix b cs =
     (if b = 16 \<and> (startsWith cs ''0x'' \<or> startsWith cs ''0X'') \<and> 2 < length cs
      then drop 2 cs else cs)"

definition parse_int :: "nat \<Rightarrow> string \<Rightarrow> int option" where
  "parse_int b s =
     (case trimmed s of
        [] \<Rightarrow> None
      | c # cs \<Rightarrow>
          if c = CHR ''-'' then map_option (\<lambda>n. - int n) (parse_nat b (skip_prefix b cs))
          else if c = CHR ''+'' then map_option int (parse_nat b (skip_prefix b cs))
          else map_option int (parse_nat b (skip_prefix b (c # cs))))"

definition in_range_parse :: "int \<Rightarrow> int \<Rightarrow> nat \<Rightarrow> string \<Rightarrow> int option" where
  "in_range_parse lo hi b s =
     (case parse_int b s of
        None \<Rightarrow> None
      | Some v \<Rightarrow> if lo \<le> v \<and> v \<le> hi then Some v else None)"

definition value_or_0 :: "int option \<Rightarrow> int" where
  "value_or_0 r = (case r of None \<Rightarrow> 0 | Some v \<Rightarrow> v)"

subsection \<open>The conversions of the source\<close>

definition int32 :: "int \<Rightarrow> bool" where
  "int32 v \<longleftrightarrow> -2147483648 \<le> v \<and> v \<le> 2147483647"

definition toInt_ok :: "string \<Rightarrow> int option" where
  "toInt_ok s = in_range_parse (-2147483648) 2147483647 10 s"

definition toInt :: "string \<Rightarrow> int" where
  "toInt s = value_or_0 (toInt_ok s)"

definition toUInt :: "string \<Rightarrow> int" where
  "toUInt s = value_or_0 (in_range_parse 0 4294967295 10 s)"

definition toUShort16 :: "string \<Rightarrow> int" where
  "toUShort16 s = value_or_0 (in_range_parse 0 65535 16 s)"

definition toLongLong :: "string \<Rightarrow> int" where
  "toLongLong s = value_or_0 (in_range_parse (-9223372036854775808) 9223372036854775807 10 s)"

definition toULongLong :: "string \<Rightarrow> int" where
  "toULongLong s = value_or_0 (in_range_parse 0 18446744073709551615 10 s)"

definition number_base :: "nat \<Rightarrow> int \<Rightarrow> string" where
  "number_base b n = (if n < 0 then CHR ''-'' # nat_digits b (nat (- n)) else nat_digits b (nat n))"

abbreviation number :: "int \<Rightarrow> string" where
  "number \<equiv> number_base 10"

text \<open>32-bit addition and subtraction of \<open>int\<close>, with two's complement wrap-around.\<close>

definition wrap32 :: "int \<Rightarrow> int" where
  "wrap32 v = (v + 2147483648) mod 4294967296 - 2147483648"

lemma wrap32_id: "int32 v \<Longrightarrow> wrap32 v = v"
  by (simp add: wrap32_def int32_def)

lemma int32_wrap32 [simp]: "int32 (wrap32 v)"
  using pos_mod_bound [of 4294967296 "v + 2147483648"] pos_mod_sign [of 4294967296 "v + 2147483648"]
  by (simp add: wrap32_def int32_def)

lemma wrap32_add_cancel: "int32 p \<Longrightarrow> wrap32 (t + wrap32 (p - t)) = p"
proof -
  assume p: "int32 p"
  have "wrap32 (t + wrap32 (p - t)) = wrap32 p"
    unfolding wrap32_def by (simp add: mod_simps algebra_simps)
  then show ?thesis using p by (simp add: wrap32_id)
qed

subsection \<open>Digit facts\<close>

lemma of_char_digit_char:
  "d < 36 \<Longrightarrow> (of_char (digit_char d) :: nat) = (if d < 10 then 48 + d else 87 + d)"
  by (simp add: digit_char_def)

lemma digit_val_digit_char: "d < 36 \<Longrightarrow> digit_val (digit_char d) = Some d"
  by (auto simp: digit_val_def isDigitC_def isLowerC_def isUpperC_def of_char_digit_char Let_def)

lemma parse_acc_append:
  "parse_acc b a (xs @ ys) = Option.bind (parse_acc b a xs) (\<lambda>a'. parse_acc b a' ys)"
  by (induction xs arbitrary: a) (auto split: option.splits)

lemma parse_acc_nat_digits:
  "2 \<le> b \<Longrightarrow> b \<le> 36 \<Longrightarrow> parse_acc b 0 (nat_digits b n) = Some n"
proof (induction b n rule: nat_digits.induct)
  case (1 b n)
  show ?case
  proof (cases "n < b")
    case True
    with 1 show ?thesis by (simp add: nat_digits.simps [of b n] digit_val_digit_char)
  next
    case False
    have m: "n mod b < b" "n mod b < 36" using 1 by (auto intro: less_le_trans [OF mod_less_divisor])
    have "parse_acc b 0 (nat_digits b (n div b)) = Some (n div b)"
      using 1 False by simp
    with False m 1(2,3) show ?thesis
      by (simp add: nat_digits.simps [of b n] parse_acc_append digit_val_digit_char)
  qed
qed

lemma nat_digits_nonempty [simp]: "nat_digits b n \<noteq> []"
  by (subst nat_digits.simps) simp

lemma parse_nat_nat_digits: "2 \<le> b \<Longrightarrow> b \<le> 36 \<Longrightarrow> parse_nat b (nat_digits b n) = Some n"
  by (simp add: parse_nat_def parse_acc_nat_digits)

lemma nat_digits_chars:
  "2 \<le> b \<Longrightarrow> b \<le> 36 \<Longrightarrow> c \<in> set (nat_digits b n) \<Longrightarrow> \<exists>d < b. c = digit_char d"
proof (induction b n rule: nat_digits.induct)
  case (1 b n)
  show ?case
  proof (cases "n < b")
    case True
    with 1 show ?thesis by (auto simp: nat_digits.simps [of b n])
  next
    case False
    have m: "n mod b < b" using 1 by simp
    from "1.prems" False have "c \<in> set (nat_digits b (n div b)) \<or> c = digit_char (n mod b)"
      by (auto simp: nat_digits.simps [of b n])
    then show ?thesis
    proof
      assume "c \<in> set (nat_digits b (n div b))"
      with "1.IH" "1.prems" False show ?thesis by simp
    next
      assume "c = digit_char (n mod b)"
      with m show ?thesis by blast
    qed
  qed
qed

lemma of_char_nat_digits:
  assumes "2 \<le> b" and "b \<le> 16" and "c \<in> set (nat_digits b n)"
  shows "let k = (of_char c :: nat) in (48 \<le> k \<and> k \<le> 57) \<or> (97 \<le> k \<and> k \<le> 102)"
proof -
  obtain d where "d < b" and "c = digit_char d"
    using nat_digits_chars [of b c n] assms by auto
  then show ?thesis using assms(2) by (auto simp: of_char_digit_char Let_def)
qed

lemma of_char_neq: "(of_char a :: nat) \<noteq> of_char b \<Longrightarrow> a \<noteq> b"
  by auto

lemma nat_digits_clean:
  assumes "2 \<le> b" and "b \<le> 16" and "c \<in> set (nat_digits b n)"
  shows "\<not> isSpace c" and "c \<noteq> CHR '':''" and "c \<noteq> CHR ''-''" and "c \<noteq> CHR ''+''"
    and "c \<noteq> CHR ''x''" and "c \<noteq> CHR ''X''" and "c \<noteq> CHR ''&''" and "c \<noteq> CHR ''=''"
  using of_char_nat_digits [OF assms]
  by (auto simp: isSpace_def Let_def)

lemma number_clean:
  assumes "c \<in> set (number_base b n)" and "2 \<le> b" and "b \<le> 16"
  shows "\<not> isSpace c" and "c \<noteq> CHR '':''"
proof -
  have d: "c = CHR ''-'' \<or> c \<in> set (nat_digits b (nat (- n))) \<or> c \<in> set (nat_digits b (nat n))"
    using assms(1) by (auto simp: number_base_def split: if_splits)
  then show "\<not> isSpace c"
    using nat_digits_clean(1) [OF assms(2,3)] by (auto simp: isSpace_def)
  show "c \<noteq> CHR '':''"
    using d nat_digits_clean(2) [OF assms(2,3)] by fastforce
qed

lemma number_nonempty [simp]: "number_base b n \<noteq> []"
  by (simp add: number_base_def)

lemma number_no_colon [simp]: "2 \<le> b \<Longrightarrow> b \<le> 16 \<Longrightarrow> CHR '':'' \<notin> set (number_base b n)"
  using number_clean(2) by blast

lemma number_hd_last_not_space [simp]:
  assumes "2 \<le> b" and "b \<le> 16"
  shows "\<not> isSpace (hd (number_base b n))" and "\<not> isSpace (last (number_base b n))"
  using number_clean(1) [OF hd_in_set [OF number_nonempty]]
    number_clean(1) [OF last_in_set [OF number_nonempty]] assms by blast+

lemma number_no_outer_space [simp]: "2 \<le> b \<Longrightarrow> b \<le> 16 \<Longrightarrow> no_outer_space (number_base b n)"
  by (simp add: no_outer_space_def)

lemma skip_prefix_nat_digits:
  assumes "2 \<le> b" and "b \<le> 16"
  shows "skip_prefix b (nat_digits b n) = nat_digits b n"
proof -
  have "CHR ''x'' \<notin> set (nat_digits b n)" and "CHR ''X'' \<notin> set (nat_digits b n)"
    using nat_digits_clean(5,6) [OF assms, of _ n] by blast+
  then have "\<not> startsWith (nat_digits b n) ''0x''" and "\<not> startsWith (nat_digits b n) ''0X''"
    by (auto simp: startsWith_iff)
  then show ?thesis by (simp add: skip_prefix_def)
qed

subsection \<open>Round trips\<close>

lemma parse_int_number:
  assumes b: "2 \<le> b" "b \<le> 16"
  shows "parse_int b (number_base b n) = Some n"
proof (cases "n < 0")
  case True
  then have e: "number_base b n = CHR ''-'' # nat_digits b (nat (- n))"
    by (simp add: number_base_def)
  have "trimmed (number_base b n) = number_base b n"
    using b by (intro trimmed_id) simp
  then show ?thesis
    using True b by (simp add: parse_int_def e skip_prefix_nat_digits parse_nat_nat_digits)
next
  case False
  then have e: "number_base b n = nat_digits b (nat n)"
    by (simp add: number_base_def)
  obtain c cs where c: "nat_digits b (nat n) = c # cs"
    using nat_digits_nonempty [of b "nat n"] by (cases "nat_digits b (nat n)") blast+
  have "c \<noteq> CHR ''-''" and "c \<noteq> CHR ''+''"
    using nat_digits_clean(3,4) [OF b, of c "nat n"] c by auto
  moreover have "trimmed (number_base b n) = c # cs"
    using b trimmed_id [OF number_no_outer_space [of b n]] unfolding e c by blast
  moreover have "parse_nat b (skip_prefix b (c # cs)) = Some (nat n)"
    using b by (simp flip: c add: skip_prefix_nat_digits parse_nat_nat_digits)
  ultimately show ?thesis
    using False by (simp add: parse_int_def)
qed

lemma toInt_ok_number [simp]: "int32 n \<Longrightarrow> toInt_ok (number n) = Some n"
  by (simp add: toInt_ok_def in_range_parse_def parse_int_number int32_def)

lemma toInt_number [simp]: "int32 n \<Longrightarrow> toInt (number n) = n"
  by (simp add: toInt_def value_or_0_def)

lemma int32_toInt [simp]: "int32 (toInt s)"
  by (auto simp: toInt_def toInt_ok_def value_or_0_def in_range_parse_def int32_def split: option.splits)

lemma toUInt_number [simp]: "0 \<le> n \<Longrightarrow> n \<le> 4294967295 \<Longrightarrow> toUInt (number n) = n"
  by (simp add: toUInt_def in_range_parse_def parse_int_number value_or_0_def)

lemma toUShort16_number [simp]: "0 \<le> n \<Longrightarrow> n \<le> 65535 \<Longrightarrow> toUShort16 (number_base 16 n) = n"
  by (simp add: toUShort16_def in_range_parse_def parse_int_number value_or_0_def)

lemma toULongLong_number [simp]:
  "0 \<le> n \<Longrightarrow> n \<le> 18446744073709551615 \<Longrightarrow> toULongLong (number n) = n"
  by (simp add: toULongLong_def in_range_parse_def parse_int_number value_or_0_def)

lemma toLongLong_number [simp]:
  "-9223372036854775808 \<le> n \<Longrightarrow> n \<le> 9223372036854775807 \<Longrightarrow> toLongLong (number n) = n"
  by (simp add: toLongLong_def in_range_parse_def parse_int_number value_or_0_def)

lemma number_inj: "number m = number n \<Longrightarrow> m = n"
proof -
  assume e: "number m = number n"
  have "Some m = parse_int 10 (number m)" by (simp add: parse_int_number)
  also have "\<dots> = Some n" unfolding e by (simp add: parse_int_number)
  finally show ?thesis by simp
qed

lemma toInt_empty [simp]: "toInt [] = 0"
  by (simp add: toInt_def toInt_ok_def in_range_parse_def parse_int_def value_or_0_def)

end
