(* ===== verification/Fsd_Offset_Times.thy ===== *)
theory Fsd_Offset_Times
  imports Qt_Number
begin

text \<open>
  The dynamic offset times of position updates (\<open>receivedPositionFixTsAndGetOffsetTime\<close>,
  \<open>insertLatestOffsetTime\<close>, \<open>averageOffsetTimeMs\<close>, \<open>currentOffsetTime\<close> of
  \<open>src/core/fsd/fsdclient.cpp\<close>): per callsign the time of the last update and the latest
  distances between updates, newest first. The hash tables are maps from the normalised
  callsign; \<open>clock\<close> is the current time.
\<close>

definition c_positionTimeOffsetMsec :: int where "c_positionTimeOffsetMsec = 6000"
definition c_interimPositionTimeOffsetMsec :: int where "c_interimPositionTimeOffsetMsec = 1500"
definition c_maxOffsetTimes :: nat where "c_maxOffsetTimes = 6"

record OffsetTimes =
  m_lastPositionUpdate :: "string \<rightharpoonup> int"
  m_lastOffsetTimes :: "string \<rightharpoonup> int list"

definition offsets_of :: "OffsetTimes \<Rightarrow> string \<Rightarrow> int list" where
  "offsets_of ot callsign =
     (case m_lastOffsetTimes ot callsign of None \<Rightarrow> [] | Some offsets \<Rightarrow> offsets)"

definition insertLatestOffsetTime :: "string \<Rightarrow> int \<Rightarrow> OffsetTimes \<Rightarrow> OffsetTimes" where
  "insertLatestOffsetTime callsign offsetMs ot =
     (let offsets = offsetMs # offsets_of ot callsign;
          offsets = (if c_maxOffsetTimes < length offsets then butlast offsets else offsets)
      in ot\<lparr>m_lastOffsetTimes := (m_lastOffsetTimes ot)(callsign \<mapsto> offsets)\<rparr>)"

text \<open>The loop of \<open>averageOffsetTimeMs\<close>, with its break after the addition.\<close>

fun sumLatest :: "nat \<Rightarrow> nat \<Rightarrow> int \<Rightarrow> int list \<Rightarrow> nat \<times> int" where
  "sumLatest maxLastValues count acc [] = (count, acc)"
| "sumLatest maxLastValues count acc (v # vs) =
     (if maxLastValues < Suc count then (Suc count, acc + v)
      else sumLatest maxLastValues (Suc count) (acc + v) vs)"

text \<open>\<open>qRound\<close> of a quotient: the nearest integer, halves upwards.\<close>

definition qRound_quot :: "int \<Rightarrow> nat \<Rightarrow> int" where
  "qRound_quot acc count = (2 * acc + int count) div (2 * int count)"

definition averageOffsetTimeMs :: "nat \<Rightarrow> OffsetTimes \<Rightarrow> string \<Rightarrow> int \<times> nat" where
  "averageOffsetTimeMs maxLastValues ot callsign =
     (let offsets = offsets_of ot callsign in
      if length offsets < 1 then (-1, 0)
      else case sumLatest maxLastValues 0 0 offsets of (count, acc) \<Rightarrow>
        (qRound_quot acc count, count))"

definition receivedPositionFixTsAndGetOffsetTime ::
  "int \<Rightarrow> int \<Rightarrow> string \<Rightarrow> int \<Rightarrow> OffsetTimes \<Rightarrow> int \<times> OffsetTimes" where
  "receivedPositionFixTsAndGetOffsetTime clock m_additionalOffsetTime callsign markerTs ot =
     (let markerTs = (if markerTs < 0 then clock else markerTs) in
      case m_lastPositionUpdate ot callsign of
        None \<Rightarrow>
          (c_positionTimeOffsetMsec,
           ot\<lparr>m_lastPositionUpdate := (m_lastPositionUpdate ot)(callsign \<mapsto> markerTs)\<rparr>)
      | Some oldTs \<Rightarrow>
          let ot1 = ot\<lparr>m_lastPositionUpdate := (m_lastPositionUpdate ot)(callsign \<mapsto> markerTs)\<rparr>;
              diff = \<bar>markerTs - oldTs\<bar>;
              ot2 = insertLatestOffsetTime callsign diff ot1
          in case averageOffsetTimeMs 3 ot2 callsign of (avgTimeMs, count) \<Rightarrow>
            let offsetTime =
                  (if avgTimeMs < c_interimPositionTimeOffsetMsec \<and> 3 \<le> count
                   then c_interimPositionTimeOffsetMsec else c_positionTimeOffsetMsec)
            in (m_additionalOffsetTime + offsetTime, ot2))"

definition currentOffsetTime :: "OffsetTimes \<Rightarrow> string \<Rightarrow> int" where
  "currentOffsetTime ot callsign =
     (case offsets_of ot callsign of [] \<Rightarrow> c_positionTimeOffsetMsec | v # _ \<Rightarrow> v)"

definition clearOffsetTimes :: OffsetTimes where
  "clearOffsetTimes = \<lparr>m_lastPositionUpdate = Map.empty, m_lastOffsetTimes = Map.empty\<rparr>"

definition removeOffsetTimes :: "string \<Rightarrow> OffsetTimes \<Rightarrow> OffsetTimes" where
  "removeOffsetTimes callsign ot =
     \<lparr>m_lastPositionUpdate = (m_lastPositionUpdate ot)(callsign := None),
      m_lastOffsetTimes = (m_lastOffsetTimes ot)(callsign := None)\<rparr>"

lemmas offset_consts = c_positionTimeOffsetMsec_def c_interimPositionTimeOffsetMsec_def c_maxOffsetTimes_def

subsection \<open>The stored distances\<close>

definition offsets_inv :: "OffsetTimes \<Rightarrow> bool" where
  "offsets_inv ot \<longleftrightarrow>
     dom (m_lastOffsetTimes ot) \<subseteq> dom (m_lastPositionUpdate ot)
     \<and> (\<forall>cs \<in> dom (m_lastOffsetTimes ot).
          0 < length (offsets_of ot cs) \<and> length (offsets_of ot cs) \<le> c_maxOffsetTimes
          \<and> (\<forall>v \<in> set (offsets_of ot cs). 0 \<le> v))"

lemma offsets_of_update [simp]:
  "offsets_of (ot\<lparr>m_lastPositionUpdate := f\<rparr>) cs = offsets_of ot cs"
  by (simp add: offsets_of_def)

lemma offsets_of_insert:
  assumes "length (offsets_of ot cs) \<le> c_maxOffsetTimes"
  shows "offsets_of (insertLatestOffsetTime cs v ot) cs' =
     (if cs' = cs then take c_maxOffsetTimes (v # offsets_of ot cs) else offsets_of ot cs')"
proof -
  let ?os = "v # offsets_of ot cs"
  have "(if c_maxOffsetTimes < length ?os then butlast ?os else ?os) = take c_maxOffsetTimes ?os"
    using assms by (cases "length (offsets_of ot cs) = c_maxOffsetTimes") (auto simp: butlast_conv_take)
  then show ?thesis by (simp add: insertLatestOffsetTime_def Let_def) (simp add: offsets_of_def)
qed

lemma dom_insertLatest [simp]:
  "dom (m_lastOffsetTimes (insertLatestOffsetTime cs v ot)) = insert cs (dom (m_lastOffsetTimes ot))"
  "m_lastPositionUpdate (insertLatestOffsetTime cs v ot) = m_lastPositionUpdate ot"
  by (simp_all add: insertLatestOffsetTime_def Let_def)

lemma offsets_inv_entry:
  assumes "offsets_inv ot" and "m_lastOffsetTimes ot cs = Some a"
  shows "length a \<le> c_maxOffsetTimes" and "v \<in> set a \<Longrightarrow> 0 \<le> v"
proof -
  have "cs \<in> dom (m_lastOffsetTimes ot)" using assms(2) by blast
  then have "length (offsets_of ot cs) \<le> c_maxOffsetTimes \<and> (\<forall>v \<in> set (offsets_of ot cs). 0 \<le> v)"
    using assms(1) unfolding offsets_inv_def by blast
  then show "length a \<le> c_maxOffsetTimes" and "v \<in> set a \<Longrightarrow> 0 \<le> v"
    by (simp_all add: offsets_of_def assms(2))
qed

lemma offsets_inv_length:
  "offsets_inv ot \<Longrightarrow> length (offsets_of ot cs) \<le> c_maxOffsetTimes"
  using offsets_inv_entry(1) by (cases "m_lastOffsetTimes ot cs") (auto simp: offsets_of_def)

lemma offsets_inv_nonneg: "offsets_inv ot \<Longrightarrow> v \<in> set (offsets_of ot cs) \<Longrightarrow> 0 \<le> v"
  using offsets_inv_entry(2) by (cases "m_lastOffsetTimes ot cs") (auto simp: offsets_of_def)

lemma snd_received:
  "snd (receivedPositionFixTsAndGetOffsetTime clock add cs ts ot) =
     (let ts' = (if ts < 0 then clock else ts);
          ot1 = ot\<lparr>m_lastPositionUpdate := (m_lastPositionUpdate ot)(cs \<mapsto> ts')\<rparr>
      in case m_lastPositionUpdate ot cs of
           None \<Rightarrow> ot1
         | Some old \<Rightarrow> insertLatestOffsetTime cs \<bar>ts' - old\<bar> ot1)"
  by (simp add: receivedPositionFixTsAndGetOffsetTime_def Let_def case_prod_beta split: option.splits)

lemma received_inv:
  assumes "offsets_inv ot"
  shows "offsets_inv (snd (receivedPositionFixTsAndGetOffsetTime clock add cs ts ot))"
proof (cases "m_lastPositionUpdate ot cs")
  case None
  then show ?thesis using assms by (auto simp: snd_received offsets_inv_def Let_def)
next
  case (Some old)
  let ?t = "if ts < 0 then clock else ts"
  let ?o = "ot\<lparr>m_lastPositionUpdate := (m_lastPositionUpdate ot)(cs \<mapsto> ?t)\<rparr>"
  have l: "length (offsets_of ?o cs) \<le> c_maxOffsetTimes"
    using offsets_inv_length [OF assms] by simp
  have "offsets_inv (insertLatestOffsetTime cs \<bar>?t - old\<bar> ?o)"
    using assms offsets_inv_nonneg [OF assms] unfolding offsets_inv_def
    by (auto simp: offsets_of_insert [OF l] c_maxOffsetTimes_def dest: in_set_takeD)
  then show ?thesis using Some by (simp add: snd_received Let_def)
qed

lemma remove_inv: "offsets_inv ot \<Longrightarrow> offsets_inv (removeOffsetTimes cs ot)"
  by (auto simp: offsets_inv_def removeOffsetTimes_def offsets_of_def domIff split: if_splits)

lemma clear_inv: "offsets_inv clearOffsetTimes"
  by (simp add: offsets_inv_def clearOffsetTimes_def)

text \<open>The operations on the table as events.\<close>

datatype offset_event = Fix string int int | RemoveCallsign string | ClearAll

fun offset_step :: "int \<Rightarrow> OffsetTimes \<Rightarrow> offset_event \<Rightarrow> OffsetTimes" where
  "offset_step add ot (Fix cs clock ts) = snd (receivedPositionFixTsAndGetOffsetTime clock add cs ts ot)"
| "offset_step add ot (RemoveCallsign cs) = removeOffsetTimes cs ot"
| "offset_step add ot ClearAll = clearOffsetTimes"

lemma offset_step_inv: "offsets_inv ot \<Longrightarrow> offsets_inv (offset_step add ot e)"
  by (cases e) (simp_all add: received_inv remove_inv clear_inv)

interpretation offset_machine: invariant_machine "offset_step add" offsets_inv
  by unfold_locales (rule offset_step_inv)

subsection \<open>The average\<close>

lemma sumLatest_take:
  "count \<le> m \<Longrightarrow> sumLatest m count acc vs =
     (count + min (Suc m - count) (length vs), acc + sum_list (take (Suc m - count) vs))"
proof (induction vs arbitrary: count acc)
  case (Cons v vs)
  show ?case
  proof (cases "count = m")
    case True
    then show ?thesis by simp
  next
    case False
    then have "Suc m - count = Suc (Suc m - Suc count)" "Suc count \<le> m" using Cons.prems by auto
    then show ?thesis using Cons.IH [of "Suc count" "acc + v"] by simp
  qed
qed simp

text \<open>The average is over one value more than the limit.\<close>

lemma averageOffset_values:
  "offsets_of ot cs \<noteq> [] \<Longrightarrow> averageOffsetTimeMs m ot cs =
     (let used = take (Suc m) (offsets_of ot cs) in (qRound_quot (sum_list used) (length used), length used))"
  by (cases "offsets_of ot cs") (auto simp: averageOffsetTimeMs_def sumLatest_take Let_def min.commute)

lemma qRound_quot_less:
  assumes "0 < n" and "\<forall>v \<in> set vs. v < b" and "length vs = n"
  shows "qRound_quot (sum_list vs) n < b"
proof -
  have "sum_list vs \<le> int n * (b - 1)"
    using assms(2,3) sum_list_mono [of vs "\<lambda>v. v" "\<lambda>_. b - 1"]
    by (auto simp: sum_list_triv)
  then have "2 * sum_list vs + int n \<le> 2 * (int n * (b - 1)) + int n" by simp
  also have "\<dots> < b * (2 * int n)" using assms(1) by (simp add: algebra_simps)
  finally have less: "2 * sum_list vs + int n < b * (2 * int n)" .
  have "qRound_quot (sum_list vs) n * (2 * int n) \<le> 2 * sum_list vs + int n"
    using assms(1) by (simp add: qRound_quot_def minus_mod_eq_div_mult [symmetric])
  with less have "qRound_quot (sum_list vs) n * (2 * int n) < b * (2 * int n)" by simp
  then show ?thesis using assms(1) by (simp only: mult_less_cancel_right)
qed

lemma qRound_quot_ge:
  assumes "0 < n" and "\<forall>v \<in> set vs. b \<le> v" and "length vs = n"
  shows "b \<le> qRound_quot (sum_list vs) n"
proof -
  have "int n * b \<le> sum_list vs"
    using assms(2,3) sum_list_mono [of vs "\<lambda>_. b" "\<lambda>v. v"] by (auto simp: sum_list_triv)
  then have "b * (2 * int n) \<le> 2 * sum_list vs + int n" by (simp add: algebra_simps)
  then have "b * (2 * int n) div (2 * int n) \<le> (2 * sum_list vs + int n) div (2 * int n)"
    using assms(1) by (intro zdiv_mono1) simp_all
  then show ?thesis using assms(1) by (simp add: qRound_quot_def)
qed

lemma received_result:
  assumes i: "offsets_inv ot" and s: "m_lastPositionUpdate ot cs = Some old" and ts: "0 \<le> ts"
  defines "used \<equiv> take 4 (\<bar>ts - old\<bar> # offsets_of ot cs)"
  shows "fst (receivedPositionFixTsAndGetOffsetTime clock add cs ts ot) =
     add + (if qRound_quot (sum_list used) (length used) < 1500 \<and> 3 \<le> length used then 1500 else 6000)"
proof -
  let ?o = "insertLatestOffsetTime cs \<bar>ts - old\<bar>
    (ot\<lparr>m_lastPositionUpdate := (m_lastPositionUpdate ot)(cs \<mapsto> ts)\<rparr>)"
  have l: "length (offsets_of ot cs) \<le> c_maxOffsetTimes" by (rule offsets_inv_length [OF i])
  have o: "offsets_of ?o cs = take c_maxOffsetTimes (\<bar>ts - old\<bar> # offsets_of ot cs)"
    using offsets_of_insert [of "ot\<lparr>m_lastPositionUpdate := (m_lastPositionUpdate ot)(cs \<mapsto> ts)\<rparr>"] l by simp
  then have n: "offsets_of ?o cs \<noteq> []" by (simp add: c_maxOffsetTimes_def)
  have "take (Suc 3) (offsets_of ?o cs) = used"
    by (simp add: o used_def c_maxOffsetTimes_def)
  then have a: "averageOffsetTimeMs 3 ?o cs = (qRound_quot (sum_list used) (length used), length used)"
    by (simp add: averageOffset_values [OF n] Let_def)
  show ?thesis
    using s ts a
    by (simp add: receivedPositionFixTsAndGetOffsetTime_def Let_def offset_consts)
qed

end
