(* ===== verification/Fsd_Enums.thy ===== *)
theory Fsd_Enums
  imports Qt_Number "HOL-Library.Word"
begin

unbundle bit_operations_syntax

text \<open>
  The enumerations of \<open>src/core/fsd/enums.h\<close> and their text form, the overloads of
  \<open>toQString\<close> and \<open>fromQString\<close> in \<open>src/core/fsd/serializer.cpp\<close>. The interface
  \<open>enum_codec\<close> states what the message codecs rely on: a canonical value survives the
  trip through its text, and the text never contains the token separator. Every
  enumeration interprets it.
\<close>

subsection \<open>The interface of a serialised enumeration\<close>

locale enum_codec =
  fixes toStr :: "'e \<Rightarrow> string"
    and fromStr :: "string \<Rightarrow> 'e"
    and canonical :: "'e \<Rightarrow> bool"
  assumes from_to: "canonical e \<Longrightarrow> fromStr (toStr e) = e"
    and no_colon: "CHR '':'' \<notin> set (toStr e)"
    and outer: "no_outer_space (toStr e)"
    and from_canonical: "canonical (fromStr s)"
begin

lemma to_inj: "canonical a \<Longrightarrow> canonical b \<Longrightarrow> toStr a = toStr b \<Longrightarrow> a = b"
  using from_to by metis

lemma normalise: "fromStr (toStr (fromStr s)) = fromStr s"
  by (simp add: from_to from_canonical)

lemma canonical_iff: "canonical e \<longleftrightarrow> (\<exists>s. fromStr s = e)"
  using from_to from_canonical by metis

end

subsection \<open>ATC ratings\<close>

datatype AtcRating =
    Unknown | Observer | Student | Student2 | Student3 | Controller1 | Controller2
  | Controller3 | Instructor1 | Instructor2 | Instructor3 | Supervisor | Administrator

fun toQString_AtcRating :: "AtcRating \<Rightarrow> string" where
  "toQString_AtcRating AtcRating.Unknown = ''0''"
| "toQString_AtcRating AtcRating.Observer = ''1''"
| "toQString_AtcRating AtcRating.Student = ''2''"
| "toQString_AtcRating AtcRating.Student2 = ''3''"
| "toQString_AtcRating AtcRating.Student3 = ''4''"
| "toQString_AtcRating AtcRating.Controller1 = ''5''"
| "toQString_AtcRating AtcRating.Controller2 = ''6''"
| "toQString_AtcRating AtcRating.Controller3 = ''7''"
| "toQString_AtcRating AtcRating.Instructor1 = ''8''"
| "toQString_AtcRating AtcRating.Instructor2 = ''9''"
| "toQString_AtcRating AtcRating.Instructor3 = ''10''"
| "toQString_AtcRating AtcRating.Supervisor = ''11''"
| "toQString_AtcRating AtcRating.Administrator = ''12''"

text \<open>
  A \<open>fromQString\<close> returns the value together with a flag that says whether the string
  reached the diagnostic at the end of the function (the string is unknown and is
  reported once, see \<open>noteUnknown\<close> below).
\<close>

definition fromQString_AtcRating' :: "string \<Rightarrow> AtcRating \<times> bool" where
  "fromQString_AtcRating' str =
     (if str = [] then (AtcRating.Unknown, False)
      else if str = ''1'' then (AtcRating.Observer, False)
      else if str = ''2'' then (AtcRating.Student, False)
      else if str = ''3'' then (AtcRating.Student2, False)
      else if str = ''4'' then (AtcRating.Student3, False)
      else if str = ''5'' then (AtcRating.Controller1, False)
      else if str = ''6'' then (AtcRating.Controller2, False)
      else if str = ''7'' then (AtcRating.Controller3, False)
      else if str = ''8'' then (AtcRating.Instructor1, False)
      else if str = ''9'' then (AtcRating.Instructor2, False)
      else if str = ''10'' then (AtcRating.Instructor3, False)
      else if str = ''11'' then (AtcRating.Supervisor, False)
      else if str = ''12'' then (AtcRating.Administrator, False)
      else (AtcRating.Unknown, True))"

definition fromQString_AtcRating :: "string \<Rightarrow> AtcRating" where
  "fromQString_AtcRating str = fst (fromQString_AtcRating' str)"

text \<open>
  The static lists of \<open>namespace Private\<close>: an unknown string is appended the first time
  only, and only then is it logged (the second component says whether it is).
\<close>

definition noteUnknown :: "string list \<Rightarrow> string \<times> bool \<Rightarrow> string list \<times> bool" where
  "noteUnknown seen r =
     (let (str, unknown) = r in
      if unknown \<and> str \<notin> set seen then (seen @ [str], True) else (seen, False))"

subsection \<open>Pilot ratings\<close>

datatype PilotRating = Unknown | Student | VFR | IFR | Instructor | Supervisor

fun toQString_PilotRating :: "PilotRating \<Rightarrow> string" where
  "toQString_PilotRating PilotRating.Unknown = ''0''"
| "toQString_PilotRating PilotRating.Student = ''1''"
| "toQString_PilotRating PilotRating.VFR = ''2''"
| "toQString_PilotRating PilotRating.IFR = ''3''"
| "toQString_PilotRating PilotRating.Instructor = ''4''"
| "toQString_PilotRating PilotRating.Supervisor = ''5''"

definition fromQString_PilotRating' :: "string \<Rightarrow> PilotRating \<times> bool" where
  "fromQString_PilotRating' str =
     (if str = [] then (PilotRating.Unknown, False)
      else if str = ''0'' then (PilotRating.Unknown, False)
      else if str = ''1'' then (PilotRating.Student, False)
      else if str = ''2'' then (PilotRating.VFR, False)
      else if str = ''3'' then (PilotRating.IFR, False)
      else if str = ''4'' then (PilotRating.Instructor, False)
      else if str = ''5'' then (PilotRating.Supervisor, False)
      else (PilotRating.Unknown, True))"

definition fromQString_PilotRating :: "string \<Rightarrow> PilotRating" where
  "fromQString_PilotRating str = fst (fromQString_PilotRating' str)"

subsection \<open>Simulator types\<close>

datatype SimType =
    Unknown | MSFS95 | MSFS98 | MSCFS | MSFS2000 | MSCFS2 | MSFS2002 | MSCFS3 | MSFS2004
  | MSFSX | MSFS | MSFS2024 | XPLANE8 | XPLANE9 | XPLANE10 | XPLANE11 | XPLANE12
  | P3Dv1 | P3Dv2 | P3Dv3 | P3Dv4 | P3Dv5 | FlightGear

fun toQString_SimType :: "SimType \<Rightarrow> string" where
  "toQString_SimType SimType.Unknown = ''0''"
| "toQString_SimType MSFS95 = ''1''"
| "toQString_SimType MSFS98 = ''2''"
| "toQString_SimType MSCFS = ''3''"
| "toQString_SimType MSFS2000 = ''4''"
| "toQString_SimType MSCFS2 = ''5''"
| "toQString_SimType MSFS2002 = ''6''"
| "toQString_SimType MSCFS3 = ''7''"
| "toQString_SimType MSFS2004 = ''8''"
| "toQString_SimType MSFSX = ''9''"
| "toQString_SimType MSFS = ''10''"
| "toQString_SimType MSFS2024 = ''11''"
| "toQString_SimType XPLANE8 = ''12''"
| "toQString_SimType XPLANE9 = ''13''"
| "toQString_SimType XPLANE10 = ''14''"
| "toQString_SimType XPLANE11 = ''16''"
| "toQString_SimType FlightGear = ''25''"
| "toQString_SimType P3Dv1 = ''30''"
| "toQString_SimType P3Dv2 = ''30''"
| "toQString_SimType P3Dv3 = ''30''"
| "toQString_SimType P3Dv4 = ''30''"
| "toQString_SimType XPLANE12 = ''0''"
| "toQString_SimType P3Dv5 = ''0''"

definition fromQString_SimType' :: "string \<Rightarrow> SimType \<times> bool" where
  "fromQString_SimType' str =
     (if str = [] then (SimType.Unknown, False)
      else if str = ''0'' then (SimType.Unknown, False)
      else if str = ''1'' then (MSFS95, False)
      else if str = ''2'' then (MSFS98, False)
      else if str = ''3'' then (MSCFS, False)
      else if str = ''4'' then (MSFS2000, False)
      else if str = ''5'' then (MSCFS2, False)
      else if str = ''6'' then (MSFS2002, False)
      else if str = ''7'' then (MSCFS3, False)
      else if str = ''8'' then (MSFS2004, False)
      else if str = ''9'' then (MSFSX, False)
      else if str = ''10'' then (MSFS, False)
      else if str = ''11'' then (MSFS2024, False)
      else if str = ''12'' then (XPLANE8, False)
      else if str = ''13'' then (XPLANE9, False)
      else if str = ''14'' then (XPLANE10, False)
      else if str = ''16'' then (XPLANE11, False)
      else if str = ''25'' then (FlightGear, False)
      else if str = ''30'' then (P3Dv4, False)
      else (SimType.Unknown, True))"

definition fromQString_SimType :: "string \<Rightarrow> SimType" where
  "fromQString_SimType str = fst (fromQString_SimType' str)"

text \<open>The simulators whose code is read back as another simulator.\<close>

definition simType_canonical :: "SimType \<Rightarrow> bool" where
  "simType_canonical t \<longleftrightarrow> t \<notin> {P3Dv1, P3Dv2, P3Dv3, XPLANE12, P3Dv5}"

subsection \<open>Facility types\<close>

datatype FacilityType = OBS | FSS | DEL | GND | TWR | APP | CTR | Unknown

fun toQString_FacilityType :: "FacilityType \<Rightarrow> string" where
  "toQString_FacilityType OBS = ''0''"
| "toQString_FacilityType FSS = ''1''"
| "toQString_FacilityType DEL = ''2''"
| "toQString_FacilityType GND = ''3''"
| "toQString_FacilityType TWR = ''4''"
| "toQString_FacilityType APP = ''5''"
| "toQString_FacilityType CTR = ''6''"
| "toQString_FacilityType FacilityType.Unknown = []"

definition fromQString_FacilityType' :: "string \<Rightarrow> FacilityType \<times> bool" where
  "fromQString_FacilityType' str =
     (if str = [] then (FacilityType.Unknown, False)
      else if str = ''0'' then (OBS, False)
      else if str = ''1'' then (FSS, False)
      else if str = ''2'' then (DEL, False)
      else if str = ''3'' then (GND, False)
      else if str = ''4'' then (TWR, False)
      else if str = ''5'' then (APP, False)
      else if str = ''6'' then (CTR, False)
      else (FacilityType.Unknown, True))"

definition fromQString_FacilityType :: "string \<Rightarrow> FacilityType" where
  "fromQString_FacilityType str = fst (fromQString_FacilityType' str)"

subsection \<open>Client queries\<close>

datatype ClientQueryType =
    Unknown | IsValidATC | QCapabilities | Com1Freq | RealName | Server | ATIS | PublicIP
  | INF | FP | AircraftConfig | QEuroscopeSimData

fun toQString_ClientQueryType :: "ClientQueryType \<Rightarrow> string" where
  "toQString_ClientQueryType IsValidATC = ''ATC''"
| "toQString_ClientQueryType QCapabilities = ''CAPS''"
| "toQString_ClientQueryType Com1Freq = ''C?''"
| "toQString_ClientQueryType RealName = ''RN''"
| "toQString_ClientQueryType Server = ''SV''"
| "toQString_ClientQueryType ATIS = ''ATIS''"
| "toQString_ClientQueryType PublicIP = ''IP''"
| "toQString_ClientQueryType ClientQueryType.INF = ''INF''"
| "toQString_ClientQueryType FP = ''FP''"
| "toQString_ClientQueryType AircraftConfig = ''ACC''"
| "toQString_ClientQueryType QEuroscopeSimData = ''SIMDATA''"
| "toQString_ClientQueryType ClientQueryType.Unknown = ''Unknown query type''"

definition ignoredQueries :: "string list" where
  "ignoredQueries =
     [''BC'', ''BY'', ''DI'', ''DP'', ''DR'', ''FA'', ''HC'', ''HI'', ''HT'', ''ID'', ''IH'', ''IT'',
      ''PT'', ''SC'', ''ST'', ''TA'', ''VT'', ''VER'', ''WH'', ''HLP'', ''NOHLP'', ''NEWATIS'',
      ''NEWINFO'']"

definition fromQString_ClientQueryType' :: "string \<Rightarrow> ClientQueryType \<times> bool" where
  "fromQString_ClientQueryType' str =
     (if str = [] then (ClientQueryType.Unknown, False)
      else if str = ''ATC'' then (IsValidATC, False)
      else if str = ''CAPS'' then (QCapabilities, False)
      else if str = ''C?'' then (Com1Freq, False)
      else if str = ''RN'' then (RealName, False)
      else if str = ''SV'' then (Server, False)
      else if str = ''ATIS'' then (ATIS, False)
      else if str = ''IP'' then (PublicIP, False)
      else if str = ''INF'' then (ClientQueryType.INF, False)
      else if str = ''FP'' then (FP, False)
      else if str = ''ACC'' then (AircraftConfig, False)
      else if str \<in> set ignoredQueries then (ClientQueryType.Unknown, False)
      else (ClientQueryType.Unknown, True))"

definition fromQString_ClientQueryType :: "string \<Rightarrow> ClientQueryType" where
  "fromQString_ClientQueryType str = fst (fromQString_ClientQueryType' str)"

text \<open>
  \<open>SIMDATA\<close> has a text but no branch in \<open>fromQString\<close>, so it is not canonical; neither is
  it ever expected from the network.
\<close>

definition queryType_canonical :: "ClientQueryType \<Rightarrow> bool" where
  "queryType_canonical q \<longleftrightarrow> q \<noteq> QEuroscopeSimData"

subsection \<open>Flight types\<close>

datatype FlightType = IFR | VFR | SVFR | DVFR

fun toQString_FlightType :: "FlightType \<Rightarrow> string" where
  "toQString_FlightType FlightType.IFR = ''I''"
| "toQString_FlightType FlightType.VFR = ''V''"
| "toQString_FlightType SVFR = ''S''"
| "toQString_FlightType DVFR = ''D''"

definition fromQString_FlightType :: "string \<Rightarrow> FlightType" where
  "fromQString_FlightType str =
     (if str = ''I'' then FlightType.IFR
      else if str = ''V'' then FlightType.VFR
      else if str = ''S'' then SVFR
      else if str = ''D'' then DVFR
      else FlightType.IFR)"

subsection \<open>Transponder modes\<close>

datatype TransponderMode =
    StateStandby | ModeMil1 | ModeMil2 | ModeMil3 | ModeMil4 | ModeMil5 | StateIdent
  | ModeA | ModeC | ModeS

fun toQString_TransponderMode :: "TransponderMode \<Rightarrow> string" where
  "toQString_TransponderMode StateStandby = ''S''"
| "toQString_TransponderMode ModeMil1 = ''N''"
| "toQString_TransponderMode ModeMil2 = ''N''"
| "toQString_TransponderMode ModeMil3 = ''N''"
| "toQString_TransponderMode ModeMil4 = ''N''"
| "toQString_TransponderMode ModeMil5 = ''N''"
| "toQString_TransponderMode ModeA = ''N''"
| "toQString_TransponderMode ModeC = ''N''"
| "toQString_TransponderMode ModeS = ''N''"
| "toQString_TransponderMode StateIdent = ''Y''"

definition fromQString_TransponderMode :: "string \<Rightarrow> TransponderMode" where
  "fromQString_TransponderMode str =
     (if str = ''S'' then StateStandby
      else if str = ''N'' then ModeC
      else if str = ''Y'' then StateIdent
      else StateStandby)"

definition mode_canonical :: "TransponderMode \<Rightarrow> bool" where
  "mode_canonical m \<longleftrightarrow> m \<in> {StateStandby, ModeC, StateIdent}"

subsection \<open>Server errors\<close>

datatype ServerErrorCode =
    NoError | CallsignInUse | InvalidCallsign | AlreadyRegistered | SyntaxError
  | InvalidSrcCallsign | InvalidCidPassword | NoSuchCallsign | NoFlightPlan
  | NoWeatherProfile | InvalidRevision | RequestedLevelTooHigh | ServerFull | CidSuspended
  | InvalidCtrl | RatingTooLow | InvalidClient | AuthTimeout | Unknown
  | OtherCode int

text \<open>
  The enumerators are numbered from 0; \<open>static_cast\<close> from \<open>int\<close> accepts any value, one
  that names no enumerator is \<^term>\<open>OtherCode n\<close>.
\<close>

definition serverErrorCodes :: "ServerErrorCode list" where
  "serverErrorCodes =
     [NoError, CallsignInUse, InvalidCallsign, AlreadyRegistered, SyntaxError,
      InvalidSrcCallsign, InvalidCidPassword, NoSuchCallsign, NoFlightPlan,
      NoWeatherProfile, InvalidRevision, RequestedLevelTooHigh, ServerFull, CidSuspended,
      InvalidCtrl, RatingTooLow, InvalidClient, AuthTimeout, ServerErrorCode.Unknown]"

definition serverErrorCode_of_int :: "int \<Rightarrow> ServerErrorCode" where
  "serverErrorCode_of_int n =
     (if 0 \<le> n \<and> n < 19 then serverErrorCodes ! nat n else OtherCode n)"

fun int_of_serverErrorCode :: "ServerErrorCode \<Rightarrow> int" where
  "int_of_serverErrorCode NoError = 0"
| "int_of_serverErrorCode CallsignInUse = 1"
| "int_of_serverErrorCode InvalidCallsign = 2"
| "int_of_serverErrorCode AlreadyRegistered = 3"
| "int_of_serverErrorCode SyntaxError = 4"
| "int_of_serverErrorCode InvalidSrcCallsign = 5"
| "int_of_serverErrorCode InvalidCidPassword = 6"
| "int_of_serverErrorCode NoSuchCallsign = 7"
| "int_of_serverErrorCode NoFlightPlan = 8"
| "int_of_serverErrorCode NoWeatherProfile = 9"
| "int_of_serverErrorCode InvalidRevision = 10"
| "int_of_serverErrorCode RequestedLevelTooHigh = 11"
| "int_of_serverErrorCode ServerFull = 12"
| "int_of_serverErrorCode CidSuspended = 13"
| "int_of_serverErrorCode InvalidCtrl = 14"
| "int_of_serverErrorCode RatingTooLow = 15"
| "int_of_serverErrorCode InvalidClient = 16"
| "int_of_serverErrorCode AuthTimeout = 17"
| "int_of_serverErrorCode ServerErrorCode.Unknown = 18"
| "int_of_serverErrorCode (OtherCode n) = n"

definition errorCode_canonical :: "ServerErrorCode \<Rightarrow> bool" where
  "errorCode_canonical e \<longleftrightarrow>
     (case e of OtherCode n \<Rightarrow> int32 n \<and> \<not> (0 \<le> n \<and> n < 19) | _ \<Rightarrow> True)"

lemma serverErrorCode_roundtrip:
  "errorCode_canonical e \<Longrightarrow> serverErrorCode_of_int (int_of_serverErrorCode e) = e"
  by (cases e) (auto simp: serverErrorCode_of_int_def serverErrorCodes_def errorCode_canonical_def)

lemma int32_int_of_serverErrorCode:
  "errorCode_canonical e \<Longrightarrow> int32 (int_of_serverErrorCode e)"
  by (cases e) (auto simp: errorCode_canonical_def int32_def)


subsection \<open>Every enumeration is a codec\<close>

abbreviation always :: "'a \<Rightarrow> bool" where
  "always \<equiv> \<lambda>_. True"

interpretation atcRating: enum_codec toQString_AtcRating fromQString_AtcRating always
proof
  fix e s
  show "always e \<Longrightarrow> fromQString_AtcRating (toQString_AtcRating e) = e"
    by (cases e) (simp_all add: fromQString_AtcRating_def fromQString_AtcRating'_def)
  show "CHR '':'' \<notin> set (toQString_AtcRating e)"
    by (cases e) simp_all
  show "no_outer_space (toQString_AtcRating e)"
    by (cases e) (simp_all add: no_outer_space_def isSpace_def)
  show "always (fromQString_AtcRating s)"
    by (simp add: fromQString_AtcRating_def fromQString_AtcRating'_def)
qed

interpretation pilotRating: enum_codec toQString_PilotRating fromQString_PilotRating always
proof
  fix e s
  show "always e \<Longrightarrow> fromQString_PilotRating (toQString_PilotRating e) = e"
    by (cases e) (simp_all add: fromQString_PilotRating_def fromQString_PilotRating'_def)
  show "CHR '':'' \<notin> set (toQString_PilotRating e)"
    by (cases e) simp_all
  show "no_outer_space (toQString_PilotRating e)"
    by (cases e) (simp_all add: no_outer_space_def isSpace_def)
  show "always (fromQString_PilotRating s)"
    by (simp add: fromQString_PilotRating_def fromQString_PilotRating'_def)
qed

interpretation simType: enum_codec toQString_SimType fromQString_SimType simType_canonical
proof
  fix e s
  show "simType_canonical e \<Longrightarrow> fromQString_SimType (toQString_SimType e) = e"
    by (cases e) (simp_all add: fromQString_SimType_def fromQString_SimType'_def simType_canonical_def)
  show "CHR '':'' \<notin> set (toQString_SimType e)"
    by (cases e) simp_all
  show "no_outer_space (toQString_SimType e)"
    by (cases e) (simp_all add: no_outer_space_def isSpace_def)
  show "simType_canonical (fromQString_SimType s)"
    by (simp add: fromQString_SimType_def fromQString_SimType'_def simType_canonical_def)
qed

interpretation facilityType: enum_codec toQString_FacilityType fromQString_FacilityType always
proof
  fix e s
  show "always e \<Longrightarrow> fromQString_FacilityType (toQString_FacilityType e) = e"
    by (cases e) (simp_all add: fromQString_FacilityType_def fromQString_FacilityType'_def)
  show "CHR '':'' \<notin> set (toQString_FacilityType e)"
    by (cases e) simp_all
  show "no_outer_space (toQString_FacilityType e)"
    by (cases e) (simp_all add: no_outer_space_def isSpace_def)
  show "always (fromQString_FacilityType s)"
    by (simp add: fromQString_FacilityType_def fromQString_FacilityType'_def)
qed

interpretation clientQueryType: enum_codec toQString_ClientQueryType fromQString_ClientQueryType queryType_canonical
proof
  fix e s
  show "queryType_canonical e \<Longrightarrow> fromQString_ClientQueryType (toQString_ClientQueryType e) = e"
    by (cases e) (simp_all add: fromQString_ClientQueryType_def fromQString_ClientQueryType'_def queryType_canonical_def ignoredQueries_def)
  show "CHR '':'' \<notin> set (toQString_ClientQueryType e)"
    by (cases e) simp_all
  show "no_outer_space (toQString_ClientQueryType e)"
    by (cases e) (simp_all add: no_outer_space_def isSpace_def)
  show "queryType_canonical (fromQString_ClientQueryType s)"
    by (simp add: fromQString_ClientQueryType_def fromQString_ClientQueryType'_def queryType_canonical_def ignoredQueries_def)
qed

interpretation flightType: enum_codec toQString_FlightType fromQString_FlightType always
proof
  fix e s
  show "always e \<Longrightarrow> fromQString_FlightType (toQString_FlightType e) = e"
    by (cases e) (simp_all add: fromQString_FlightType_def)
  show "CHR '':'' \<notin> set (toQString_FlightType e)"
    by (cases e) simp_all
  show "no_outer_space (toQString_FlightType e)"
    by (cases e) (simp_all add: no_outer_space_def isSpace_def)
  show "always (fromQString_FlightType s)"
    by (simp add: fromQString_FlightType_def)
qed

interpretation transponderMode: enum_codec toQString_TransponderMode fromQString_TransponderMode mode_canonical
proof
  fix e s
  show "mode_canonical e \<Longrightarrow> fromQString_TransponderMode (toQString_TransponderMode e) = e"
    by (cases e) (simp_all add: fromQString_TransponderMode_def mode_canonical_def)
  show "CHR '':'' \<notin> set (toQString_TransponderMode e)"
    by (cases e) simp_all
  show "no_outer_space (toQString_TransponderMode e)"
    by (cases e) (simp_all add: no_outer_space_def isSpace_def)
  show "mode_canonical (fromQString_TransponderMode s)"
    by (simp add: fromQString_TransponderMode_def mode_canonical_def)
qed

lemma noteUnknown_distinct:
  "distinct seen \<Longrightarrow> distinct (fst (noteUnknown seen r))"
  by (cases r) (auto simp: noteUnknown_def)

lemma noteUnknown_known: "noteUnknown seen (str, False) = (seen, False)"
  by (simp add: noteUnknown_def)

interpretation unknown_log: invariant_machine "\<lambda>seen r. fst (noteUnknown seen r)" distinct
  by unfold_locales (rule noteUnknown_distinct)

text \<open>The report is given once per string.\<close>

lemma noteUnknown_once: "\<not> snd (noteUnknown (fst (noteUnknown seen (str, u))) (str, v))"
  if "u"
  using that by (auto simp: noteUnknown_def)

end
