(* ===== verification/Fsd_Capabilities.thy ===== *)
theory Fsd_Capabilities
  imports Fsd_Enums "HOL-Library.Word"
begin

unbundle bit_operations_syntax

text \<open>
  The capability negotiation of clients: the flags of \<open>src/core/fsd/enums.h\<close>, their text
  (\<open>src/core/fsd/serializer.cpp\<close>), the list a client answers with (\<open>sendClientResponse\<close>)
  and the way an answer is read (\<open>handleClientResponse\<close>, both \<open>fsdclient.cpp\<close>). A set of
  flags is the \<open>int\<close> of the source, here a 32-bit word.
\<close>

type_synonym Capabilities = "32 word"

definition CapNone :: Capabilities where "CapNone = 0x001"
definition AtcInfo :: Capabilities where "AtcInfo = 0x002"
definition SecondaryPos :: Capabilities where "SecondaryPos = 0x004"
definition AircraftInfo :: Capabilities where "AircraftInfo = 0x008"
definition OngoingCoord :: Capabilities where "OngoingCoord = 0x010"
definition InterminPos :: Capabilities where "InterminPos = 0x020"
definition FastPos :: Capabilities where "FastPos = 0x040"
definition VisPos :: Capabilities where "VisPos = 0x080"
definition Stealth :: Capabilities where "Stealth = 0x100"
definition CapAircraftConfig :: Capabilities where "CapAircraftConfig = 0x200"
definition IcaoEquipment :: Capabilities where "IcaoEquipment = 0x400"

definition toQString_Capabilities :: "Capabilities \<Rightarrow> string" where
  "toQString_Capabilities value =
     (if value = CapNone then []
      else if value = AtcInfo then ''ATCINFO''
      else if value = SecondaryPos then ''SECPOS''
      else if value = AircraftInfo then ''MODELDESC''
      else if value = OngoingCoord then ''ONGOINGCOORD''
      else if value = InterminPos then ''INTERIMPOS''
      else if value = VisPos then ''VISUPDATE''
      else if value = FastPos then ''FASTPOS''
      else if value = Stealth then ''STEALTH''
      else if value = CapAircraftConfig then ''ACCONFIG''
      else if value = IcaoEquipment then ''ICAOEQ''
      else [])"

definition fromQString_Capabilities :: "string \<Rightarrow> Capabilities" where
  "fromQString_Capabilities str =
     (if str = ''ATCINFO'' then AtcInfo
      else if str = ''SECPOS'' then SecondaryPos
      else if str = ''MODELDESC'' then AircraftInfo
      else if str = ''ONGOINGCOORD'' then OngoingCoord
      else if str = ''INTERIMPOS'' then InterminPos
      else if str = ''FASTPOS'' then FastPos
      else if str = ''VISUPDATE'' then VisPos
      else if str = ''STEALTH'' then Stealth
      else if str = ''ACCONFIG'' then CapAircraftConfig
      else if str = ''ICAOEQ'' then IcaoEquipment
      else CapNone)"

definition announcedCapabilities :: "Capabilities list" where
  "announcedCapabilities =
     [AtcInfo, SecondaryPos, AircraftInfo, OngoingCoord, InterminPos, FastPos, VisPos, Stealth,
      CapAircraftConfig, IcaoEquipment]"

text \<open>The response data of \<open>sendClientResponse(Capabilities)\<close>.\<close>

definition capabilitiesResponse :: "Capabilities \<Rightarrow> string list" where
  "capabilitiesResponse m_capabilities =
     concat (map (\<lambda>c. if m_capabilities AND c \<noteq> 0 then [toQString_Capabilities c @ ''=1''] else [])
               announcedCapabilities)"

text \<open>One turn of the loop of \<open>handleClientResponse\<close> over the response data.\<close>

definition readCapability :: "Capabilities \<Rightarrow> string \<Rightarrow> Capabilities" where
  "readCapability capabilities keyValuePair =
     (if count_list keyValuePair CHR ''='' \<noteq> 1 then capabilities
      else case qsplit CHR ''='' keyValuePair of
        key # val # _ \<Rightarrow>
          if val = ''1'' then capabilities OR fromQString_Capabilities key else capabilities
      | _ \<Rightarrow> capabilities)"

definition readCapabilities :: "string list \<Rightarrow> Capabilities" where
  "readCapabilities responseData = foldl readCapability CapNone responseData"

subsection \<open>The capabilities of a client\<close>

type_synonym ClientCapabilities = "32 word"

definition FsdWithInterimPositions :: ClientCapabilities where "FsdWithInterimPositions = 0x01"
definition FsdWithIcaoCodes :: ClientCapabilities where "FsdWithIcaoCodes = 0x02"
definition FsdAtisCanBeReceived :: ClientCapabilities where "FsdAtisCanBeReceived = 0x04"
definition FsdWithAircraftConfig :: ClientCapabilities where "FsdWithAircraftConfig = 0x08"
definition FsdWithGroundFlag :: ClientCapabilities where "FsdWithGroundFlag = 0x10"
definition FsdModelString :: ClientCapabilities where "FsdModelString = 0x20"
definition FsdWithVisualPositions :: ClientCapabilities where "FsdWithVisualPositions = 0x40"

definition clientCapabilities :: "Capabilities \<Rightarrow> ClientCapabilities" where
  "clientCapabilities capabilities =
     (let caps = 0;
          caps = (if capabilities AND AtcInfo \<noteq> 0 then caps OR FsdAtisCanBeReceived else caps);
          caps = (if capabilities AND FastPos \<noteq> 0 then caps OR FsdWithInterimPositions else caps);
          caps = (if capabilities AND VisPos \<noteq> 0 then caps OR FsdWithVisualPositions else caps);
          caps = (if capabilities AND AircraftInfo \<noteq> 0 then caps OR FsdWithIcaoCodes else caps);
          caps = (if capabilities AND CapAircraftConfig \<noteq> 0 then caps OR FsdWithAircraftConfig else caps)
      in caps)"

lemmas capability_defs =
  CapNone_def AtcInfo_def SecondaryPos_def AircraftInfo_def OngoingCoord_def InterminPos_def
  FastPos_def VisPos_def Stealth_def CapAircraftConfig_def IcaoEquipment_def

lemmas client_capability_defs =
  FsdWithInterimPositions_def FsdWithIcaoCodes_def FsdAtisCanBeReceived_def
  FsdWithAircraftConfig_def FsdWithGroundFlag_def FsdModelString_def FsdWithVisualPositions_def

subsection \<open>Every announced flag is read back\<close>

lemma capability_from_to:
  "c \<in> set announcedCapabilities \<Longrightarrow> fromQString_Capabilities (toQString_Capabilities c) = c"
  by (auto simp: announcedCapabilities_def toQString_Capabilities_def fromQString_Capabilities_def
      capability_defs)

lemma capability_text_plain:
  "c \<in> set announcedCapabilities \<Longrightarrow>
     CHR ''='' \<notin> set (toQString_Capabilities c) \<and> CHR '':'' \<notin> set (toQString_Capabilities c)"
  by (auto simp: announcedCapabilities_def toQString_Capabilities_def capability_defs)

lemma readCapability_announced:
  assumes "c \<in> set announcedCapabilities"
  shows "readCapability caps (toQString_Capabilities c @ ''=1'') = caps OR c"
proof -
  have "CHR ''='' \<notin> set (toQString_Capabilities c)" using capability_text_plain [OF assms] ..
  then have "count_list (toQString_Capabilities c @ ''=1'') CHR ''='' = 1"
    and "qsplit CHR ''='' (toQString_Capabilities c @ ''=1'') = [toQString_Capabilities c, ''1'']"
    by (simp_all add: qsplit_append_sep)
  then show ?thesis by (simp add: readCapability_def capability_from_to [OF assms])
qed

lemma fold_announced:
  "set cs \<subseteq> set announcedCapabilities \<Longrightarrow>
     foldl readCapability acc
       (concat (map (\<lambda>c. if caps AND c \<noteq> 0 then [toQString_Capabilities c @ ''=1''] else []) cs))
     = foldl (\<lambda>acc c. acc OR (if caps AND c \<noteq> 0 then c else 0)) acc cs"
  by (induction cs arbitrary: acc) (simp_all add: readCapability_announced)

lemma flag_if: "(if w AND 2 ^ n \<noteq> 0 then 2 ^ n else 0) = w AND 2 ^ n" for w :: "32 word"
proof (cases "bit w n")
  case True
  then have "w AND 2 ^ n = 2 ^ n" by (intro bit_eqI) (auto simp: bit_and_iff bit_exp_iff)
  then show ?thesis by simp
next
  case False
  then have "w AND 2 ^ n = 0" by (intro bit_eqI) (auto simp: bit_and_iff bit_exp_iff)
  then show ?thesis by simp
qed

lemma flag_is: "k = 2 ^ n \<Longrightarrow> (if w AND k \<noteq> 0 then k else 0) = w AND k" for w :: "32 word"
  by (simp only: flag_if)

lemma flags_if:
  fixes w :: "32 word"
  shows "(if w AND 2 \<noteq> 0 then 2 else 0) = w AND 2"
    and "(if w AND 4 \<noteq> 0 then 4 else 0) = w AND 4"
    and "(if w AND 8 \<noteq> 0 then 8 else 0) = w AND 8"
    and "(if w AND 16 \<noteq> 0 then 16 else 0) = w AND 16"
    and "(if w AND 32 \<noteq> 0 then 32 else 0) = w AND 32"
    and "(if w AND 64 \<noteq> 0 then 64 else 0) = w AND 64"
    and "(if w AND 128 \<noteq> 0 then 128 else 0) = w AND 128"
    and "(if w AND 256 \<noteq> 0 then 256 else 0) = w AND 256"
    and "(if w AND 512 \<noteq> 0 then 512 else 0) = w AND 512"
    and "(if w AND 1024 \<noteq> 0 then 1024 else 0) = w AND 1024"
proof -
  show "(if w AND 2 \<noteq> 0 then 2 else 0) = w AND 2"
    by (rule flag_is [where n = 1]) simp
  show "(if w AND 4 \<noteq> 0 then 4 else 0) = w AND 4"
    by (rule flag_is [where n = 2]) simp
  show "(if w AND 8 \<noteq> 0 then 8 else 0) = w AND 8"
    by (rule flag_is [where n = 3]) simp
  show "(if w AND 16 \<noteq> 0 then 16 else 0) = w AND 16"
    by (rule flag_is [where n = 4]) simp
  show "(if w AND 32 \<noteq> 0 then 32 else 0) = w AND 32"
    by (rule flag_is [where n = 5]) simp
  show "(if w AND 64 \<noteq> 0 then 64 else 0) = w AND 64"
    by (rule flag_is [where n = 6]) simp
  show "(if w AND 128 \<noteq> 0 then 128 else 0) = w AND 128"
    by (rule flag_is [where n = 7]) simp
  show "(if w AND 256 \<noteq> 0 then 256 else 0) = w AND 256"
    by (rule flag_is [where n = 8]) simp
  show "(if w AND 512 \<noteq> 0 then 512 else 0) = w AND 512"
    by (rule flag_is [where n = 9]) simp
  show "(if w AND 1024 \<noteq> 0 then 1024 else 0) = w AND 1024"
    by (rule flag_is [where n = 10]) simp
qed

lemma capabilities_read:
  "readCapabilities (capabilitiesResponse caps) = (caps AND 0x7FE) OR CapNone"
proof -
  have "readCapabilities (capabilitiesResponse caps)
      = foldl (\<lambda>acc c. acc OR (if caps AND c \<noteq> 0 then c else 0)) CapNone announcedCapabilities"
    unfolding readCapabilities_def capabilitiesResponse_def by (rule fold_announced) simp
  also have "\<dots> = CapNone OR (caps AND 2 OR caps AND 4 OR caps AND 8 OR caps AND 16 OR caps AND 32
      OR caps AND 64 OR caps AND 128 OR caps AND 256 OR caps AND 512 OR caps AND 1024)"
    by (simp only: announcedCapabilities_def capability_defs foldl.simps flags_if or.assoc)
  also have "\<dots> = (caps AND 0x7FE) OR CapNone"
    by (simp add: or.commute flip: bit.conj_disj_distrib)
  finally show ?thesis .
qed

text \<open>The answer of a client is one token per flag, none of them with a separator.\<close>

lemma capabilitiesResponse_no_colon:
  "t \<in> set (capabilitiesResponse caps) \<Longrightarrow> CHR '':'' \<notin> set t"
  using capability_text_plain by (auto simp: capabilitiesResponse_def split: if_splits)

end
