(* ===== verification/Fsd_Message.thy ===== *)
theory Fsd_Message
  imports Fsd_Enums "HOL-Library.Multiset" "HOL-Library.Sublist"
begin

text \<open>
  The frame every FSD message shares: \<open>MessageBase\<close> and \<open>messageToFSDString\<close>
  (\<open>src/core/fsd/messagebase.h\<close>), the table of commands and the line parser at the head
  of \<open>CFSDClient::parseMessage\<close> (\<open>src/core/fsd/fsdclient.cpp\<close>). The interface
  \<open>fsd_codec\<close> states what a message class promises: its token form is read back. From it
  follows once, for every class, that a message written to the wire by one client and
  parsed by another arrives unchanged, whatever the iteration order of the hash table.
\<close>

record MessageBase =
  m_sender :: string
  m_receiver :: string
  m_isValid :: bool

definition crlf :: string where
  "crlf = [CHR 0x0D, CHR 0x0A]"

definition messageToFSDString ::
  "string \<Rightarrow> ('a MessageBase_scheme \<Rightarrow> string list) \<Rightarrow> 'a MessageBase_scheme \<Rightarrow> string" where
  "messageToFSDString pdu toTokens message =
     (if \<not> m_isValid message then []
      else pdu @ qjoin '':'' (toTokens message) @ crlf)"

subsection \<open>Message types and their commands\<close>

datatype MessageType =
    Unknown | AddAtc | AddPilot | AtcDataUpdate | AuthChallenge | AuthResponse
  | ClientIdentification | ClientQuery | ClientResponse | DeleteATC | DeletePilot
  | EuroscopeSimData | FlightPlan | ProController | FsdIdentification | KillRequest
  | PilotDataUpdate | VisualPilotDataUpdate | VisualPilotDataPeriodic
  | VisualPilotDataStopped | VisualPilotDataToggle | Ping | Pong | ServerError
  | ServerHeartbeat | TextMessage | PilotClientCom | Rehost | Mute

definition messageTypeMapping :: "(string \<times> MessageType) list" where
  "messageTypeMapping =
     [(''#AA'', AddAtc), (''#AP'', AddPilot), (''%'', AtcDataUpdate), (''$ZC'', AuthChallenge),
      (''$ZR'', AuthResponse), (''$ID'', ClientIdentification), (''$CQ'', ClientQuery),
      (''$CR'', ClientResponse), (''#DA'', DeleteATC), (''#DP'', DeletePilot),
      (''$FP'', FlightPlan), (''#PC'', ProController), (''$DI'', FsdIdentification),
      (''$!!'', KillRequest), (''@'', PilotDataUpdate), (''^'', VisualPilotDataUpdate),
      (''#SL'', VisualPilotDataPeriodic), (''#ST'', VisualPilotDataStopped),
      (''$SF'', VisualPilotDataToggle), (''$PI'', Ping), (''$PO'', Pong),
      (''$ER'', ServerError), (''#DL'', ServerHeartbeat), (''#TM'', TextMessage),
      (''#SB'', PilotClientCom), (''$XX'', Rehost), (''#MU'', Mute),
      (''SIMDATA'', EuroscopeSimData)]"

text \<open>
  The parser walks the keys of a hash table, in an order the program does not control,
  and takes the first key the line starts with.
\<close>

definition matchCommand ::
  "(string \<times> MessageType) list \<Rightarrow> string \<Rightarrow> (string \<times> MessageType) option" where
  "matchCommand table line = find (\<lambda>(cmd, _). startsWith line cmd) table"

datatype parsed = UnknownPacket string | EmptyPayload | Packet MessageType "string list"

definition parseLine :: "(string \<times> MessageType) list \<Rightarrow> string \<Rightarrow> parsed" where
  "parseLine table lineRaw =
     (let line = trimmed lineRaw in
      case matchCommand table line of
        None \<Rightarrow> UnknownPacket line
      | Some (cmd, messageType) \<Rightarrow>
          let payload = trimmed (mid line (length cmd)) in
          if payload = [] then EmptyPayload
          else Packet messageType (qsplit CHR '':'' payload))"

text \<open>\<open>messageTypeToString\<close>: the first key that maps to the type, for the statistics.\<close>

definition messageTypeToString :: "(string \<times> MessageType) list \<Rightarrow> MessageType \<Rightarrow> string" where
  "messageTypeToString table mt =
     (case find (\<lambda>(_, t). t = mt) table of None \<Rightarrow> [] | Some (cmd, _) \<Rightarrow> cmd)"

subsection \<open>The commands are prefix-free\<close>

lemma startsWith_two:
  "startsWith s p \<Longrightarrow> startsWith s q \<Longrightarrow> startsWith p q \<or> startsWith q p"
  by (auto simp: startsWith_iff append_eq_append_conv2)

definition prefix_free :: "string list \<Rightarrow> bool" where
  "prefix_free ps \<longleftrightarrow> (\<forall>p \<in> set ps. \<forall>q \<in> set ps. startsWith p q \<longrightarrow> p = q)"

lemma commands_prefix_free: "prefix_free (map fst messageTypeMapping)"
  by (simp add: prefix_free_def messageTypeMapping_def startsWith_def)

lemma commands_distinct: "distinct (map fst messageTypeMapping)"
  by (simp add: messageTypeMapping_def)

lemma messageTypes_distinct: "distinct (map snd messageTypeMapping)"
  by (simp add: messageTypeMapping_def)

lemma commands_no_space:
  "(cmd, mt) \<in> set messageTypeMapping \<Longrightarrow> cmd \<noteq> [] \<and> \<not> isSpace (hd cmd) \<and> \<not> isSpace (last cmd)"
  by (auto simp: messageTypeMapping_def isSpace_def)

lemma find_unique:
  assumes "set xs = set ys"
    and "\<And>x y. x \<in> set xs \<Longrightarrow> y \<in> set xs \<Longrightarrow> P x \<Longrightarrow> P y \<Longrightarrow> x = y"
  shows "find P xs = find P ys"
proof (cases "find P xs")
  case None
  then show ?thesis using assms(1) by (metis find_None_iff)
next
  case (Some x)
  then have x: "P x" "x \<in> set xs" by (auto simp: find_Some_iff)
  then have "find P ys \<noteq> None" using assms(1) by (auto simp: find_None_iff)
  then obtain y where y: "find P ys = Some y" by blast
  then have "P y" "y \<in> set xs" using assms(1) by (auto simp: find_Some_iff)
  then show ?thesis using assms(2) x y Some by auto
qed

lemma find_the:
  assumes "x \<in> set xs" and "P x"
    and "\<And>y. y \<in> set xs \<Longrightarrow> P y \<Longrightarrow> y = x"
  shows "find P xs = Some x"
proof -
  have "find P xs \<noteq> None" using assms(1,2) by (auto simp: find_None_iff)
  then obtain y where "find P xs = Some y" by blast
  moreover then have "y \<in> set xs" "P y" by (auto simp: find_Some_iff)
  ultimately show ?thesis using assms(3) by auto
qed

lemma startsWith_unique:
  assumes "(c, t) \<in> set messageTypeMapping" and "(d, u) \<in> set messageTypeMapping"
    and "startsWith line c" and "startsWith line d"
  shows "(c, t) = (d, u)"
proof -
  have "c \<in> set (map fst messageTypeMapping)" "d \<in> set (map fst messageTypeMapping)"
    using assms(1,2) by force+
  moreover have "startsWith c d \<or> startsWith d c" using startsWith_two assms(3,4) by blast
  ultimately have "c = d" using commands_prefix_free unfolding prefix_free_def by metis
  then show ?thesis
    using map_of_is_SomeI [OF commands_distinct assms(1)]
      map_of_is_SomeI [OF commands_distinct assms(2)] by simp
qed

lemma matchCommand_order:
  assumes "mset table = mset messageTypeMapping"
  shows "matchCommand table line = matchCommand messageTypeMapping line"
proof -
  have s: "set table = set messageTypeMapping" using assms by (rule mset_eq_setD)
  show ?thesis
    unfolding matchCommand_def
    by (rule find_unique [OF s]) (use s startsWith_unique in \<open>auto split: prod.splits\<close>)
qed

lemma matchCommand_known:
  assumes "(cmd, mt) \<in> set messageTypeMapping"
  shows "matchCommand messageTypeMapping (cmd @ rest) = Some (cmd, mt)"
  unfolding matchCommand_def
proof (rule find_the [OF assms])
  show "case (cmd, mt) of (cmd', _) \<Rightarrow> startsWith (cmd @ rest) cmd'"
    by (simp add: startsWith_append)
  fix y
  assume "y \<in> set messageTypeMapping" and "case y of (cmd', _) \<Rightarrow> startsWith (cmd @ rest) cmd'"
  then have "(fst y, snd y) = (cmd, mt)"
    by (intro startsWith_unique [OF _ assms _ startsWith_append]) (simp_all add: case_prod_beta)
  then show "y = (cmd, mt)" by simp
qed

lemma parseLine_order:
  assumes "mset table = mset messageTypeMapping"
  shows "parseLine table line = parseLine messageTypeMapping line"
  unfolding parseLine_def matchCommand_order [OF assms] ..

lemma parseLine_known:
  assumes cmd: "(cmd, mt) \<in> set messageTypeMapping"
    and p: "payload \<noteq> []" "no_outer_space payload"
  shows "parseLine messageTypeMapping (cmd @ payload @ crlf) = Packet mt (qsplit CHR '':'' payload)"
proof -
  have "no_outer_space (cmd @ payload)"
    using commands_no_space [OF cmd] p by (auto simp: no_outer_space_def)
  then have "trimmed ((cmd @ payload) @ crlf) = cmd @ payload"
    by (rule trimmed_append_space) (simp add: crlf_def isSpace_def)
  then show ?thesis
    using p by (simp add: parseLine_def matchCommand_known [OF cmd] mid_def trimmed_id)
qed

subsection \<open>The interface of a message class\<close>

text \<open>
  \<open>tokens_wire\<close>: the tokens can be told apart again (none holds the separator), and
  the payload they form is not empty and not shortened by the trimming of the parser.
\<close>

definition tokens_wire :: "string list \<Rightarrow> bool" where
  "tokens_wire ts \<longleftrightarrow> ts \<noteq> [] \<and> ts \<noteq> [[]] \<and> (\<forall>t \<in> set ts. CHR '':'' \<notin> set t)
     \<and> (hd ts = [] \<or> \<not> isSpace (hd (hd ts)))
     \<and> (last ts = [] \<or> \<not> isSpace (last (last ts)))"

definition payload_wire :: "string \<Rightarrow> bool" where
  "payload_wire p \<longleftrightarrow> p \<noteq> [] \<and> no_outer_space p"

lemma isSpace_colon [simp]: "\<not> isSpace CHR '':''"
  by (simp add: isSpace_def)

lemma tokens_wire_payload: "tokens_wire ts \<Longrightarrow> payload_wire (qjoin '':'' ts)"
  using qjoin_eq_Nil_iff [of "CHR '':''" ts] no_outer_space_qjoin [of ts "CHR '':''"]
  by (auto simp: tokens_wire_def payload_wire_def)

lemma tokens_wire_split: "tokens_wire ts \<Longrightarrow> qsplit CHR '':'' (qjoin '':'' ts) = ts"
  by (rule qsplit_qjoin) (auto simp: tokens_wire_def)

text \<open>Reading a line as a message of one class.\<close>

definition receiveAs ::
  "MessageType \<Rightarrow> (string list \<Rightarrow> 'm option) \<Rightarrow> (string \<times> MessageType) list \<Rightarrow> string \<Rightarrow> 'm option" where
  "receiveAs mt fromTokens table line =
     (case parseLine table line of
        Packet t tokens \<Rightarrow> if t = mt then fromTokens tokens else None
      | _ \<Rightarrow> None)"

locale fsd_codec =
  fixes pdu :: string
    and mt :: MessageType
    and toTokens :: "'a MessageBase_scheme \<Rightarrow> string list"
    and fromTokens :: "string list \<Rightarrow> 'a MessageBase_scheme option"
    and wire_ok :: "'a MessageBase_scheme \<Rightarrow> bool"
  assumes pdu_known: "(pdu, mt) \<in> set messageTypeMapping"
    and wire_valid: "wire_ok m \<Longrightarrow> m_isValid m"
    and wire_payload: "wire_ok m \<Longrightarrow> payload_wire (qjoin '':'' (toTokens m))"
    and wire_read: "wire_ok m \<Longrightarrow> fromTokens (qsplit CHR '':'' (qjoin '':'' (toTokens m))) = Some m"
begin

lemma wire_parse:
  assumes "wire_ok m" and "mset table = mset messageTypeMapping"
  shows "parseLine table (messageToFSDString pdu toTokens m)
       = Packet mt (qsplit CHR '':'' (qjoin '':'' (toTokens m)))"
proof -
  have p: "qjoin '':'' (toTokens m) \<noteq> []" "no_outer_space (qjoin '':'' (toTokens m))"
    using wire_payload [OF assms(1)] by (simp_all add: payload_wire_def)
  show ?thesis
    using parseLine_known [OF pdu_known p] wire_valid [OF assms(1)]
    by (simp add: messageToFSDString_def parseLine_order [OF assms(2)])
qed

lemma wire_roundtrip:
  assumes "wire_ok m" and "mset table = mset messageTypeMapping"
  shows "receiveAs mt fromTokens table (messageToFSDString pdu toTokens m) = Some m"
  using wire_read [OF assms(1)] by (simp add: receiveAs_def wire_parse [OF assms])

lemma wire_inj:
  assumes "wire_ok a" and "wire_ok b"
    and "messageToFSDString pdu toTokens a = messageToFSDString pdu toTokens b"
  shows "a = b"
proof -
  have "Some a = receiveAs mt fromTokens messageTypeMapping (messageToFSDString pdu toTokens a)"
    by (rule wire_roundtrip [OF assms(1) refl, symmetric])
  also have "\<dots> = Some b"
    unfolding assms(3) by (rule wire_roundtrip [OF assms(2) refl])
  finally show ?thesis by simp
qed

end

text \<open>
  Most classes write each field as one token without a colon; for them reading back the
  tokens is enough.
\<close>

locale token_codec =
  fixes pdu :: string
    and mt :: MessageType
    and toTokens :: "'a MessageBase_scheme \<Rightarrow> string list"
    and fromTokens :: "string list \<Rightarrow> 'a MessageBase_scheme option"
    and canonical :: "'a MessageBase_scheme \<Rightarrow> bool"
  assumes command_known: "(pdu, mt) \<in> set messageTypeMapping"
    and read_tokens: "m_isValid m \<Longrightarrow> canonical m \<Longrightarrow> fromTokens (toTokens m) = Some m"
begin

definition sendable :: "'a MessageBase_scheme \<Rightarrow> bool" where
  "sendable m \<longleftrightarrow> m_isValid m \<and> tokens_wire (toTokens m) \<and> canonical m"

end

sublocale token_codec \<subseteq> fsd_codec pdu mt toTokens fromTokens sendable
  by unfold_locales
    (auto simp: sendable_def command_known tokens_wire_payload tokens_wire_split read_tokens)

end
