(* ===== verification/Fsd_Session_Messages.thy ===== *)
theory Fsd_Session_Messages
  imports Fsd_Message
begin

text \<open>
  The messages of a session: login and logoff of pilots and controllers, the
  authentication exchange, ping and pong, errors, kick, mute and rehost. For every class
  of \<open>src/core/fsd\<close>: a record extending \<open>MessageBase\<close>, its constructor (\<open>mk...\<close>), its
  default-constructed value, \<open>toTokens\<close> and \<open>fromTokens\<close>. A \<open>fromTokens\<close> returns the
  default value on too few tokens, as the code does; \<^term>\<open>None\<close> is a read beyond the token
  list. \<open>canonical\<close> names the messages that the token form identifies.
\<close>

subsection \<open>AddAtc\<close>

record AddAtc = MessageBase +
  aa_cid :: string
  aa_password :: string
  aa_rating :: AtcRating
  aa_protocolRevision :: int
  aa_realName :: string

definition AddAtc_pdu :: string where
  "AddAtc_pdu = ''#AA''"

definition mkAddAtc :: "string \<Rightarrow> string \<Rightarrow> string \<Rightarrow> string \<Rightarrow> AtcRating \<Rightarrow> int \<Rightarrow> AddAtc" where
  "mkAddAtc callsign realName cid password rating protocolRevision =
     \<lparr>m_sender = callsign,
      m_receiver = ''SERVER'',
      m_isValid = True,
      aa_cid = cid,
      aa_password = password,
      aa_rating = rating,
      aa_protocolRevision = protocolRevision,
      aa_realName = realName\<rparr>"

definition AddAtc_default :: "AddAtc" where
  "AddAtc_default =
     \<lparr>m_sender = [],
      m_receiver = [],
      m_isValid = True,
      aa_cid = [],
      aa_password = [],
      aa_rating = AtcRating.Unknown,
      aa_protocolRevision = 0,
      aa_realName = []\<rparr>"

definition AddAtc_toTokens :: "AddAtc \<Rightarrow> string list" where
  "AddAtc_toTokens m =
     [m_sender m, m_receiver m, aa_realName m, aa_cid m, aa_password m,
      toQString_AtcRating (aa_rating m), number (aa_protocolRevision m)]"

definition AddAtc_fromTokens :: "string list \<Rightarrow> AddAtc option" where
  "AddAtc_fromTokens tokens =
     (if length tokens < 7 then Some AddAtc_default
      else do {
       t0 \<leftarrow> at_opt tokens 0;
       t2 \<leftarrow> at_opt tokens 2;
       t3 \<leftarrow> at_opt tokens 3;
       t4 \<leftarrow> at_opt tokens 4;
       t5 \<leftarrow> at_opt tokens 5;
       t6 \<leftarrow> at_opt tokens 6;
       Some (mkAddAtc t0 t2 t3 t4 (fromQString_AtcRating t5) (toInt t6))
     })"

definition AddAtc_canonical :: "AddAtc \<Rightarrow> bool" where
  "AddAtc_canonical m \<longleftrightarrow>
     m_receiver m = ''SERVER'' \<and> int32 (aa_protocolRevision m)"

lemmas AddAtc_defs [fsd_defs] =
  AddAtc_pdu_def AddAtc_default_def AddAtc_toTokens_def AddAtc_fromTokens_def AddAtc_canonical_def mkAddAtc_def

lemma AddAtc_read:
  assumes "m_isValid m" and "AddAtc_canonical m"
  shows "AddAtc_fromTokens (AddAtc_toTokens m) = Some m"
  using assms by (cases m rule: AddAtc.cases) (simp add: AddAtc_defs atcRating.from_to)

interpretation addAtc: token_codec AddAtc_pdu MessageType.AddAtc AddAtc_toTokens AddAtc_fromTokens AddAtc_canonical
  by unfold_locales (simp add: AddAtc_pdu_def messageTypeMapping_def, rule AddAtc_read)

subsection \<open>AddPilot\<close>

text \<open>
  The guard asks for six tokens; the code then reads the tokens 6 and 7.
\<close>

record AddPilot = MessageBase +
  ap_cid :: string
  ap_password :: string
  ap_rating :: PilotRating
  ap_protocolRevision :: int
  ap_simType :: SimType
  ap_realName :: string

definition AddPilot_pdu :: string where
  "AddPilot_pdu = ''#AP''"

definition mkAddPilot :: "string \<Rightarrow> string \<Rightarrow> string \<Rightarrow> PilotRating \<Rightarrow> int \<Rightarrow> SimType \<Rightarrow> string \<Rightarrow> AddPilot" where
  "mkAddPilot callsign cid password rating protocolRevision simType realName =
     \<lparr>m_sender = callsign,
      m_receiver = ''SERVER'',
      m_isValid = True,
      ap_cid = cid,
      ap_password = password,
      ap_rating = rating,
      ap_protocolRevision = protocolRevision,
      ap_simType = simType,
      ap_realName = realName\<rparr>"

definition AddPilot_default :: "AddPilot" where
  "AddPilot_default =
     \<lparr>m_sender = [],
      m_receiver = [],
      m_isValid = True,
      ap_cid = [],
      ap_password = [],
      ap_rating = PilotRating.Unknown,
      ap_protocolRevision = 0,
      ap_simType = SimType.Unknown,
      ap_realName = []\<rparr>"

definition AddPilot_toTokens :: "AddPilot \<Rightarrow> string list" where
  "AddPilot_toTokens m =
     [m_sender m, m_receiver m, ap_cid m, ap_password m, toQString_PilotRating (ap_rating m),
      number (ap_protocolRevision m), toQString_SimType (ap_simType m), ap_realName m]"

definition AddPilot_fromTokens :: "string list \<Rightarrow> AddPilot option" where
  "AddPilot_fromTokens tokens =
     (if length tokens < 6 then Some AddPilot_default
      else do {
       t0 \<leftarrow> at_opt tokens 0;
       t2 \<leftarrow> at_opt tokens 2;
       t3 \<leftarrow> at_opt tokens 3;
       t4 \<leftarrow> at_opt tokens 4;
       t5 \<leftarrow> at_opt tokens 5;
       t6 \<leftarrow> at_opt tokens 6;
       t7 \<leftarrow> at_opt tokens 7;
       Some (mkAddPilot t0 t2 t3 (fromQString_PilotRating t4) (toInt t5) (fromQString_SimType t6) t7)
     })"

definition AddPilot_canonical :: "AddPilot \<Rightarrow> bool" where
  "AddPilot_canonical m \<longleftrightarrow>
     m_receiver m = ''SERVER'' \<and> int32 (ap_protocolRevision m) \<and> simType_canonical (ap_simType m)"

lemmas AddPilot_defs [fsd_defs] =
  AddPilot_pdu_def AddPilot_default_def AddPilot_toTokens_def AddPilot_fromTokens_def AddPilot_canonical_def mkAddPilot_def

lemma AddPilot_read:
  assumes "m_isValid m" and "AddPilot_canonical m"
  shows "AddPilot_fromTokens (AddPilot_toTokens m) = Some m"
  using assms by (cases m rule: AddPilot.cases) (simp add: AddPilot_defs pilotRating.from_to simType.from_to)

interpretation addPilot: token_codec AddPilot_pdu MessageType.AddPilot AddPilot_toTokens AddPilot_fromTokens AddPilot_canonical
  by unfold_locales (simp add: AddPilot_pdu_def messageTypeMapping_def, rule AddPilot_read)

subsection \<open>AuthChallenge\<close>

record AuthChallenge = MessageBase +
  zc_challengeKey :: string

definition AuthChallenge_pdu :: string where
  "AuthChallenge_pdu = ''$ZC''"

definition mkAuthChallenge :: "string \<Rightarrow> string \<Rightarrow> string \<Rightarrow> AuthChallenge" where
  "mkAuthChallenge sender receiver challengeKey =
     \<lparr>m_sender = sender,
      m_receiver = receiver,
      m_isValid = True,
      zc_challengeKey = challengeKey\<rparr>"

definition AuthChallenge_default :: "AuthChallenge" where
  "AuthChallenge_default =
     \<lparr>m_sender = [],
      m_receiver = [],
      m_isValid = True,
      zc_challengeKey = []\<rparr>"

definition AuthChallenge_toTokens :: "AuthChallenge \<Rightarrow> string list" where
  "AuthChallenge_toTokens m =
     [m_sender m, m_receiver m, zc_challengeKey m]"

definition AuthChallenge_fromTokens :: "string list \<Rightarrow> AuthChallenge option" where
  "AuthChallenge_fromTokens tokens =
     (if length tokens < 3 then Some AuthChallenge_default
      else do {
       t0 \<leftarrow> at_opt tokens 0;
       t1 \<leftarrow> at_opt tokens 1;
       t2 \<leftarrow> at_opt tokens 2;
       Some (mkAuthChallenge t0 t1 t2)
     })"

definition AuthChallenge_canonical :: "AuthChallenge \<Rightarrow> bool" where
  "AuthChallenge_canonical m \<longleftrightarrow>
     True"

lemmas AuthChallenge_defs [fsd_defs] =
  AuthChallenge_pdu_def AuthChallenge_default_def AuthChallenge_toTokens_def AuthChallenge_fromTokens_def AuthChallenge_canonical_def mkAuthChallenge_def

lemma AuthChallenge_read:
  assumes "m_isValid m" and "AuthChallenge_canonical m"
  shows "AuthChallenge_fromTokens (AuthChallenge_toTokens m) = Some m"
  using assms by (cases m rule: AuthChallenge.cases) (simp add: AuthChallenge_defs )

interpretation authChallenge: token_codec AuthChallenge_pdu MessageType.AuthChallenge AuthChallenge_toTokens AuthChallenge_fromTokens AuthChallenge_canonical
  by unfold_locales (simp add: AuthChallenge_pdu_def messageTypeMapping_def, rule AuthChallenge_read)

subsection \<open>AuthResponse\<close>

record AuthResponse = MessageBase +
  zr_response :: string

definition AuthResponse_pdu :: string where
  "AuthResponse_pdu = ''$ZR''"

definition mkAuthResponse :: "string \<Rightarrow> string \<Rightarrow> string \<Rightarrow> AuthResponse" where
  "mkAuthResponse sender receiver response =
     \<lparr>m_sender = sender,
      m_receiver = receiver,
      m_isValid = True,
      zr_response = response\<rparr>"

definition AuthResponse_default :: "AuthResponse" where
  "AuthResponse_default =
     \<lparr>m_sender = [],
      m_receiver = [],
      m_isValid = True,
      zr_response = []\<rparr>"

definition AuthResponse_toTokens :: "AuthResponse \<Rightarrow> string list" where
  "AuthResponse_toTokens m =
     [m_sender m, m_receiver m, zr_response m]"

definition AuthResponse_fromTokens :: "string list \<Rightarrow> AuthResponse option" where
  "AuthResponse_fromTokens tokens =
     (if length tokens < 3 then Some AuthResponse_default
      else do {
       t0 \<leftarrow> at_opt tokens 0;
       t1 \<leftarrow> at_opt tokens 1;
       t2 \<leftarrow> at_opt tokens 2;
       Some (mkAuthResponse t0 t1 t2)
     })"

definition AuthResponse_canonical :: "AuthResponse \<Rightarrow> bool" where
  "AuthResponse_canonical m \<longleftrightarrow>
     True"

lemmas AuthResponse_defs [fsd_defs] =
  AuthResponse_pdu_def AuthResponse_default_def AuthResponse_toTokens_def AuthResponse_fromTokens_def AuthResponse_canonical_def mkAuthResponse_def

lemma AuthResponse_read:
  assumes "m_isValid m" and "AuthResponse_canonical m"
  shows "AuthResponse_fromTokens (AuthResponse_toTokens m) = Some m"
  using assms by (cases m rule: AuthResponse.cases) (simp add: AuthResponse_defs )

interpretation authResponse: token_codec AuthResponse_pdu MessageType.AuthResponse AuthResponse_toTokens AuthResponse_fromTokens AuthResponse_canonical
  by unfold_locales (simp add: AuthResponse_pdu_def messageTypeMapping_def, rule AuthResponse_read)

subsection \<open>Ping\<close>

record Ping = MessageBase +
  pi_timestamp :: string

definition Ping_pdu :: string where
  "Ping_pdu = ''$PI''"

definition mkPing :: "string \<Rightarrow> string \<Rightarrow> string \<Rightarrow> Ping" where
  "mkPing sender receiver timestamp =
     \<lparr>m_sender = sender,
      m_receiver = receiver,
      m_isValid = True,
      pi_timestamp = timestamp\<rparr>"

definition Ping_default :: "Ping" where
  "Ping_default =
     \<lparr>m_sender = [],
      m_receiver = [],
      m_isValid = True,
      pi_timestamp = []\<rparr>"

definition Ping_toTokens :: "Ping \<Rightarrow> string list" where
  "Ping_toTokens m =
     [m_sender m, m_receiver m, pi_timestamp m]"

definition Ping_fromTokens :: "string list \<Rightarrow> Ping option" where
  "Ping_fromTokens tokens =
     (if length tokens < 3 then Some Ping_default
      else do {
       t0 \<leftarrow> at_opt tokens 0;
       t1 \<leftarrow> at_opt tokens 1;
       t2 \<leftarrow> at_opt tokens 2;
       Some (mkPing t0 t1 t2)
     })"

definition Ping_canonical :: "Ping \<Rightarrow> bool" where
  "Ping_canonical m \<longleftrightarrow>
     True"

lemmas Ping_defs [fsd_defs] =
  Ping_pdu_def Ping_default_def Ping_toTokens_def Ping_fromTokens_def Ping_canonical_def mkPing_def

lemma Ping_read:
  assumes "m_isValid m" and "Ping_canonical m"
  shows "Ping_fromTokens (Ping_toTokens m) = Some m"
  using assms by (cases m rule: Ping.cases) (simp add: Ping_defs )

interpretation ping: token_codec Ping_pdu MessageType.Ping Ping_toTokens Ping_fromTokens Ping_canonical
  by unfold_locales (simp add: Ping_pdu_def messageTypeMapping_def, rule Ping_read)

subsection \<open>Pong\<close>

record Pong = MessageBase +
  po_timestamp :: string

definition Pong_pdu :: string where
  "Pong_pdu = ''$PO''"

definition mkPong :: "string \<Rightarrow> string \<Rightarrow> string \<Rightarrow> Pong" where
  "mkPong sender receiver timestamp =
     \<lparr>m_sender = sender,
      m_receiver = receiver,
      m_isValid = True,
      po_timestamp = timestamp\<rparr>"

definition Pong_default :: "Pong" where
  "Pong_default =
     \<lparr>m_sender = [],
      m_receiver = [],
      m_isValid = True,
      po_timestamp = []\<rparr>"

definition Pong_toTokens :: "Pong \<Rightarrow> string list" where
  "Pong_toTokens m =
     [m_sender m, m_receiver m, po_timestamp m]"

definition Pong_fromTokens :: "string list \<Rightarrow> Pong option" where
  "Pong_fromTokens tokens =
     (if length tokens < 3 then Some Pong_default
      else do {
       t0 \<leftarrow> at_opt tokens 0;
       t1 \<leftarrow> at_opt tokens 1;
       t2 \<leftarrow> at_opt tokens 2;
       Some (mkPong t0 t1 t2)
     })"

definition Pong_canonical :: "Pong \<Rightarrow> bool" where
  "Pong_canonical m \<longleftrightarrow>
     True"

lemmas Pong_defs [fsd_defs] =
  Pong_pdu_def Pong_default_def Pong_toTokens_def Pong_fromTokens_def Pong_canonical_def mkPong_def

lemma Pong_read:
  assumes "m_isValid m" and "Pong_canonical m"
  shows "Pong_fromTokens (Pong_toTokens m) = Some m"
  using assms by (cases m rule: Pong.cases) (simp add: Pong_defs )

interpretation pong: token_codec Pong_pdu MessageType.Pong Pong_toTokens Pong_fromTokens Pong_canonical
  by unfold_locales (simp add: Pong_pdu_def messageTypeMapping_def, rule Pong_read)

subsection \<open>ClientIdentification\<close>

text \<open>
  The version of a default-constructed message is the version of the build, here the
  parameters \<open>major\<close> and \<open>minor\<close>.
\<close>

record ClientIdentification = MessageBase +
  id_clientId :: int
  id_clientName :: string
  id_clientVersionMajor :: int
  id_clientVersionMinor :: int
  id_userCid :: string
  id_sysUid :: string
  id_initialChallenge :: string

definition ClientIdentification_pdu :: string where
  "ClientIdentification_pdu = ''$ID''"

definition mkClientIdentification :: "string \<Rightarrow> int \<Rightarrow> string \<Rightarrow> int \<Rightarrow> int \<Rightarrow> string \<Rightarrow> string \<Rightarrow> string \<Rightarrow> ClientIdentification" where
  "mkClientIdentification sender clientId clientName clientVersionMajor clientVersionMinor userCid sysUid initialChallenge =
     \<lparr>m_sender = sender,
      m_receiver = ''SERVER'',
      m_isValid = True,
      id_clientId = clientId,
      id_clientName = clientName,
      id_clientVersionMajor = clientVersionMajor,
      id_clientVersionMinor = clientVersionMinor,
      id_userCid = userCid,
      id_sysUid = sysUid,
      id_initialChallenge = initialChallenge\<rparr>"

definition ClientIdentification_default :: "int \<Rightarrow> int \<Rightarrow> ClientIdentification" where
  "ClientIdentification_default major minor =
     \<lparr>m_sender = [],
      m_receiver = [],
      m_isValid = True,
      id_clientId = 0,
      id_clientName = [],
      id_clientVersionMajor = major,
      id_clientVersionMinor = minor,
      id_userCid = [],
      id_sysUid = [],
      id_initialChallenge = []\<rparr>"

definition ClientIdentification_toTokens :: "ClientIdentification \<Rightarrow> string list" where
  "ClientIdentification_toTokens m =
     [m_sender m, m_receiver m, number_base 16 (id_clientId m), id_clientName m,
      number (id_clientVersionMajor m), number (id_clientVersionMinor m), id_userCid m,
      id_sysUid m, id_initialChallenge m]"

definition ClientIdentification_fromTokens :: "int \<Rightarrow> int \<Rightarrow> string list \<Rightarrow> ClientIdentification option" where
  "ClientIdentification_fromTokens major minor tokens =
     (if length tokens < 8 then Some (ClientIdentification_default major minor)
      else do {
       t0 \<leftarrow> at_opt tokens 0;
       t2 \<leftarrow> at_opt tokens 2;
       t3 \<leftarrow> at_opt tokens 3;
       t4 \<leftarrow> at_opt tokens 4;
       t5 \<leftarrow> at_opt tokens 5;
       t6 \<leftarrow> at_opt tokens 6;
       t7 \<leftarrow> at_opt tokens 7;
       Some (mkClientIdentification t0 (toUShort16 t2) t3 (toInt t4) (toInt t5) t6 t7
              (at_default tokens 8 []))
     })"

definition ClientIdentification_canonical :: "ClientIdentification \<Rightarrow> bool" where
  "ClientIdentification_canonical m \<longleftrightarrow>
     m_receiver m = ''SERVER'' \<and> 0 \<le> id_clientId m \<and> id_clientId m \<le> 65535
     \<and> int32 (id_clientVersionMajor m) \<and> int32 (id_clientVersionMinor m)"

lemmas ClientIdentification_defs [fsd_defs] =
  ClientIdentification_pdu_def ClientIdentification_default_def ClientIdentification_toTokens_def ClientIdentification_fromTokens_def ClientIdentification_canonical_def mkClientIdentification_def

lemma ClientIdentification_read:
  assumes "m_isValid m" and "ClientIdentification_canonical m"
  shows "ClientIdentification_fromTokens major minor (ClientIdentification_toTokens m) = Some m"
  using assms by (cases m rule: ClientIdentification.cases) (simp add: ClientIdentification_defs )

interpretation clientIdentification: token_codec ClientIdentification_pdu MessageType.ClientIdentification ClientIdentification_toTokens
  "ClientIdentification_fromTokens major minor" ClientIdentification_canonical
  by unfold_locales (simp add: ClientIdentification_pdu_def messageTypeMapping_def, rule ClientIdentification_read)

subsection \<open>FSDIdentification\<close>

record FSDIdentification = MessageBase +
  di_serverVersion :: string
  di_initialChallenge :: string

definition FSDIdentification_pdu :: string where
  "FSDIdentification_pdu = ''$DI''"

definition mkFSDIdentification :: "string \<Rightarrow> string \<Rightarrow> string \<Rightarrow> string \<Rightarrow> FSDIdentification" where
  "mkFSDIdentification callsign receiver serverVersion initialChallenge =
     \<lparr>m_sender = callsign,
      m_receiver = receiver,
      m_isValid = True,
      di_serverVersion = serverVersion,
      di_initialChallenge = initialChallenge\<rparr>"

definition FSDIdentification_default :: "FSDIdentification" where
  "FSDIdentification_default =
     \<lparr>m_sender = [],
      m_receiver = [],
      m_isValid = True,
      di_serverVersion = [],
      di_initialChallenge = []\<rparr>"

definition FSDIdentification_toTokens :: "FSDIdentification \<Rightarrow> string list" where
  "FSDIdentification_toTokens m =
     [m_sender m, m_receiver m, di_serverVersion m, di_initialChallenge m]"

definition FSDIdentification_fromTokens :: "string list \<Rightarrow> FSDIdentification option" where
  "FSDIdentification_fromTokens tokens =
     (if length tokens < 4 then Some FSDIdentification_default
      else do {
       t0 \<leftarrow> at_opt tokens 0;
       t1 \<leftarrow> at_opt tokens 1;
       t2 \<leftarrow> at_opt tokens 2;
       t3 \<leftarrow> at_opt tokens 3;
       Some (mkFSDIdentification t0 t1 t2 t3)
     })"

definition FSDIdentification_canonical :: "FSDIdentification \<Rightarrow> bool" where
  "FSDIdentification_canonical m \<longleftrightarrow>
     True"

lemmas FSDIdentification_defs [fsd_defs] =
  FSDIdentification_pdu_def FSDIdentification_default_def FSDIdentification_toTokens_def FSDIdentification_fromTokens_def FSDIdentification_canonical_def mkFSDIdentification_def

lemma FSDIdentification_read:
  assumes "m_isValid m" and "FSDIdentification_canonical m"
  shows "FSDIdentification_fromTokens (FSDIdentification_toTokens m) = Some m"
  using assms by (cases m rule: FSDIdentification.cases) (simp add: FSDIdentification_defs )

interpretation fsdIdentification: token_codec FSDIdentification_pdu MessageType.FsdIdentification FSDIdentification_toTokens FSDIdentification_fromTokens FSDIdentification_canonical
  by unfold_locales (simp add: FSDIdentification_pdu_def messageTypeMapping_def, rule FSDIdentification_read)

subsection \<open>DeleteAtc\<close>

record DeleteAtc = MessageBase +
  da_cid :: string

definition DeleteAtc_pdu :: string where
  "DeleteAtc_pdu = ''#DA''"

definition mkDeleteAtc :: "string \<Rightarrow> string \<Rightarrow> DeleteAtc" where
  "mkDeleteAtc sender cid =
     \<lparr>m_sender = sender,
      m_receiver = [],
      m_isValid = True,
      da_cid = cid\<rparr>"

definition DeleteAtc_default :: "DeleteAtc" where
  "DeleteAtc_default =
     \<lparr>m_sender = [],
      m_receiver = [],
      m_isValid = True,
      da_cid = []\<rparr>"

definition DeleteAtc_toTokens :: "DeleteAtc \<Rightarrow> string list" where
  "DeleteAtc_toTokens m =
     [m_sender m, da_cid m]"

definition DeleteAtc_fromTokens :: "string list \<Rightarrow> DeleteAtc option" where
  "DeleteAtc_fromTokens tokens =
     (if tokens = [] then Some DeleteAtc_default
      else do {
       t0 \<leftarrow> at_opt tokens 0;
       Some (mkDeleteAtc t0 (at_default tokens 1 []))
     })"

definition DeleteAtc_canonical :: "DeleteAtc \<Rightarrow> bool" where
  "DeleteAtc_canonical m \<longleftrightarrow>
     m_receiver m = []"

lemmas DeleteAtc_defs [fsd_defs] =
  DeleteAtc_pdu_def DeleteAtc_default_def DeleteAtc_toTokens_def DeleteAtc_fromTokens_def DeleteAtc_canonical_def mkDeleteAtc_def

lemma DeleteAtc_read:
  assumes "m_isValid m" and "DeleteAtc_canonical m"
  shows "DeleteAtc_fromTokens (DeleteAtc_toTokens m) = Some m"
  using assms by (cases m rule: DeleteAtc.cases) (simp add: DeleteAtc_defs )

interpretation deleteAtc: token_codec DeleteAtc_pdu MessageType.DeleteATC DeleteAtc_toTokens DeleteAtc_fromTokens DeleteAtc_canonical
  by unfold_locales (simp add: DeleteAtc_pdu_def messageTypeMapping_def, rule DeleteAtc_read)

subsection \<open>DeletePilot\<close>

record DeletePilot = MessageBase +
  dp_cid :: string

definition DeletePilot_pdu :: string where
  "DeletePilot_pdu = ''#DP''"

definition mkDeletePilot :: "string \<Rightarrow> string \<Rightarrow> DeletePilot" where
  "mkDeletePilot callsign id' =
     \<lparr>m_sender = callsign,
      m_receiver = [],
      m_isValid = True,
      dp_cid = id'\<rparr>"

definition DeletePilot_default :: "DeletePilot" where
  "DeletePilot_default =
     \<lparr>m_sender = [],
      m_receiver = [],
      m_isValid = True,
      dp_cid = []\<rparr>"

definition DeletePilot_toTokens :: "DeletePilot \<Rightarrow> string list" where
  "DeletePilot_toTokens m =
     [m_sender m, dp_cid m]"

definition DeletePilot_fromTokens :: "string list \<Rightarrow> DeletePilot option" where
  "DeletePilot_fromTokens tokens =
     (if tokens = [] then Some DeletePilot_default
      else do {
       t0 \<leftarrow> at_opt tokens 0;
       Some (mkDeletePilot t0 (at_default tokens 1 []))
     })"

definition DeletePilot_canonical :: "DeletePilot \<Rightarrow> bool" where
  "DeletePilot_canonical m \<longleftrightarrow>
     m_receiver m = []"

lemmas DeletePilot_defs [fsd_defs] =
  DeletePilot_pdu_def DeletePilot_default_def DeletePilot_toTokens_def DeletePilot_fromTokens_def DeletePilot_canonical_def mkDeletePilot_def

lemma DeletePilot_read:
  assumes "m_isValid m" and "DeletePilot_canonical m"
  shows "DeletePilot_fromTokens (DeletePilot_toTokens m) = Some m"
  using assms by (cases m rule: DeletePilot.cases) (simp add: DeletePilot_defs )

interpretation deletePilot: token_codec DeletePilot_pdu MessageType.DeletePilot DeletePilot_toTokens DeletePilot_fromTokens DeletePilot_canonical
  by unfold_locales (simp add: DeletePilot_pdu_def messageTypeMapping_def, rule DeletePilot_read)

subsection \<open>KillRequest\<close>

record KillRequest = MessageBase +
  kr_reason :: string

definition KillRequest_pdu :: string where
  "KillRequest_pdu = ''$!!''"

definition mkKillRequest :: "string \<Rightarrow> string \<Rightarrow> string \<Rightarrow> KillRequest" where
  "mkKillRequest callsign receiver reason =
     \<lparr>m_sender = callsign,
      m_receiver = receiver,
      m_isValid = True,
      kr_reason = reason\<rparr>"

definition KillRequest_default :: "KillRequest" where
  "KillRequest_default =
     \<lparr>m_sender = [],
      m_receiver = [],
      m_isValid = True,
      kr_reason = []\<rparr>"

definition KillRequest_toTokens :: "KillRequest \<Rightarrow> string list" where
  "KillRequest_toTokens m =
     [m_sender m, m_receiver m, kr_reason m]"

definition KillRequest_fromTokens :: "string list \<Rightarrow> KillRequest option" where
  "KillRequest_fromTokens tokens =
     (if length tokens < 2 then Some KillRequest_default
      else do {
       t0 \<leftarrow> at_opt tokens 0;
       t1 \<leftarrow> at_opt tokens 1;
       Some (mkKillRequest t0 t1 (at_default tokens 2 []))
     })"

definition KillRequest_canonical :: "KillRequest \<Rightarrow> bool" where
  "KillRequest_canonical m \<longleftrightarrow>
     True"

lemmas KillRequest_defs [fsd_defs] =
  KillRequest_pdu_def KillRequest_default_def KillRequest_toTokens_def KillRequest_fromTokens_def KillRequest_canonical_def mkKillRequest_def

lemma KillRequest_read:
  assumes "m_isValid m" and "KillRequest_canonical m"
  shows "KillRequest_fromTokens (KillRequest_toTokens m) = Some m"
  using assms by (cases m rule: KillRequest.cases) (simp add: KillRequest_defs )

interpretation killRequest: token_codec KillRequest_pdu MessageType.KillRequest KillRequest_toTokens KillRequest_fromTokens KillRequest_canonical
  by unfold_locales (simp add: KillRequest_pdu_def messageTypeMapping_def, rule KillRequest_read)

lemma number_0_1: "number 0 = ''0''" "number 1 = ''1''"
  by code_simp+

lemma number_flag: "number (if b then 1 else 0) = (if b then ''1'' else ''0'')"
  using number_0_1 by (cases b) simp_all

subsection \<open>Mute\<close>

record Mute = MessageBase +
  mu_mute :: bool

definition Mute_pdu :: string where
  "Mute_pdu = ''#MU''"

definition mkMute :: "string \<Rightarrow> string \<Rightarrow> bool \<Rightarrow> Mute" where
  "mkMute sender receiver mute =
     \<lparr>m_sender = sender,
      m_receiver = receiver,
      m_isValid = True,
      mu_mute = mute\<rparr>"

definition Mute_default :: "Mute" where
  "Mute_default =
     \<lparr>m_sender = [],
      m_receiver = [],
      m_isValid = True,
      mu_mute = False\<rparr>"

definition Mute_toTokens :: "Mute \<Rightarrow> string list" where
  "Mute_toTokens m =
     [m_sender m, m_receiver m, number (if mu_mute m then 1 else 0)]"

definition Mute_fromTokens :: "string list \<Rightarrow> Mute option" where
  "Mute_fromTokens tokens =
     (if length tokens < 3 then Some Mute_default
      else do {
       t0 \<leftarrow> at_opt tokens 0;
       t1 \<leftarrow> at_opt tokens 1;
       t2 \<leftarrow> at_opt tokens 2;
       Some (mkMute t0 t1 (t2 = ''1''))
     })"

definition Mute_canonical :: "Mute \<Rightarrow> bool" where
  "Mute_canonical m \<longleftrightarrow>
     True"

lemmas Mute_defs [fsd_defs] =
  Mute_pdu_def Mute_default_def Mute_toTokens_def Mute_fromTokens_def Mute_canonical_def mkMute_def

lemma Mute_read:
  assumes "m_isValid m" and "Mute_canonical m"
  shows "Mute_fromTokens (Mute_toTokens m) = Some m"
  using assms by (cases m rule: Mute.cases) (simp add: Mute_defs number_flag)

interpretation mute: token_codec Mute_pdu MessageType.Mute Mute_toTokens Mute_fromTokens Mute_canonical
  by unfold_locales (simp add: Mute_pdu_def messageTypeMapping_def, rule Mute_read)

subsection \<open>Rehost\<close>

record Rehost = MessageBase +
  rh_hostname :: string

definition Rehost_pdu :: string where
  "Rehost_pdu = ''$XX''"

definition mkRehost :: "string \<Rightarrow> string \<Rightarrow> Rehost" where
  "mkRehost sender hostname =
     \<lparr>m_sender = sender,
      m_receiver = [],
      m_isValid = True,
      rh_hostname = hostname\<rparr>"

definition Rehost_default :: "Rehost" where
  "Rehost_default =
     \<lparr>m_sender = [],
      m_receiver = [],
      m_isValid = True,
      rh_hostname = []\<rparr>"

definition Rehost_toTokens :: "Rehost \<Rightarrow> string list" where
  "Rehost_toTokens m =
     [m_sender m, rh_hostname m]"

definition Rehost_fromTokens :: "string list \<Rightarrow> Rehost option" where
  "Rehost_fromTokens tokens =
     (if length tokens < 2 then Some Rehost_default
      else do {
       t0 \<leftarrow> at_opt tokens 0;
       t1 \<leftarrow> at_opt tokens 1;
       Some (mkRehost t0 t1)
     })"

definition Rehost_canonical :: "Rehost \<Rightarrow> bool" where
  "Rehost_canonical m \<longleftrightarrow>
     m_receiver m = []"

lemmas Rehost_defs [fsd_defs] =
  Rehost_pdu_def Rehost_default_def Rehost_toTokens_def Rehost_fromTokens_def Rehost_canonical_def mkRehost_def

lemma Rehost_read:
  assumes "m_isValid m" and "Rehost_canonical m"
  shows "Rehost_fromTokens (Rehost_toTokens m) = Some m"
  using assms by (cases m rule: Rehost.cases) (simp add: Rehost_defs )

interpretation rehost: token_codec Rehost_pdu MessageType.Rehost Rehost_toTokens Rehost_fromTokens Rehost_canonical
  by unfold_locales (simp add: Rehost_pdu_def messageTypeMapping_def, rule Rehost_read)

subsection \<open>ServerError\<close>

record ServerError = MessageBase +
  er_errorNumber :: ServerErrorCode
  er_causingParameter :: string
  er_description :: string

definition ServerError_pdu :: string where
  "ServerError_pdu = ''$ER''"

definition mkServerError :: "string \<Rightarrow> string \<Rightarrow> ServerErrorCode \<Rightarrow> string \<Rightarrow> string \<Rightarrow> ServerError" where
  "mkServerError sender receiver errorCode causingParameter description =
     \<lparr>m_sender = sender,
      m_receiver = receiver,
      m_isValid = True,
      er_errorNumber = errorCode,
      er_causingParameter = causingParameter,
      er_description = description\<rparr>"

definition ServerError_default :: "ServerError" where
  "ServerError_default =
     \<lparr>m_sender = [],
      m_receiver = [],
      m_isValid = True,
      er_errorNumber = NoError,
      er_causingParameter = [],
      er_description = []\<rparr>"

definition ServerError_toTokens :: "ServerError \<Rightarrow> string list" where
  "ServerError_toTokens m =
     [m_sender m, m_receiver m, number (int_of_serverErrorCode (er_errorNumber m)),
      er_causingParameter m, er_description m]"

definition ServerError_fromTokens :: "string list \<Rightarrow> ServerError option" where
  "ServerError_fromTokens tokens =
     (if length tokens < 5 then Some ServerError_default
      else do {
       t0 \<leftarrow> at_opt tokens 0;
       t1 \<leftarrow> at_opt tokens 1;
       t2 \<leftarrow> at_opt tokens 2;
       t3 \<leftarrow> at_opt tokens 3;
       t4 \<leftarrow> at_opt tokens 4;
       Some (mkServerError t0 t1 (serverErrorCode_of_int (toInt t2)) t3 t4)
     })"

definition ServerError_canonical :: "ServerError \<Rightarrow> bool" where
  "ServerError_canonical m \<longleftrightarrow>
     errorCode_canonical (er_errorNumber m)"

lemmas ServerError_defs [fsd_defs] =
  ServerError_pdu_def ServerError_default_def ServerError_toTokens_def ServerError_fromTokens_def ServerError_canonical_def mkServerError_def

lemma ServerError_read:
  assumes "m_isValid m" and "ServerError_canonical m"
  shows "ServerError_fromTokens (ServerError_toTokens m) = Some m"
  using assms by (cases m rule: ServerError.cases) (simp add: ServerError_defs serverErrorCode_roundtrip int32_int_of_serverErrorCode)

interpretation serverError: token_codec ServerError_pdu MessageType.ServerError ServerError_toTokens ServerError_fromTokens ServerError_canonical
  by unfold_locales (simp add: ServerError_pdu_def messageTypeMapping_def, rule ServerError_read)

subsection \<open>Fatal server errors\<close>

definition isFatalError :: "ServerError \<Rightarrow> bool" where
  "isFatalError m \<longleftrightarrow> er_errorNumber m \<in> set
     [CallsignInUse, InvalidCallsign, AlreadyRegistered, InvalidCidPassword, InvalidRevision,
      RequestedLevelTooHigh, ServerFull, CidSuspended, RatingTooLow, InvalidClient, AuthTimeout]"

definition getCausingParameter :: "ServerError \<Rightarrow> string" where
  "getCausingParameter m =
     (if er_causingParameter m = [] then ''no details'' else er_causingParameter m)"

definition getDescription :: "ServerError \<Rightarrow> string" where
  "getDescription m = (if er_description m = [] then ''no description'' else er_description m)"

end
