(* ===== verification/Fsd_Raw_Log.thy ===== *)
theory Fsd_Raw_Log
  imports Fsd_Session_Messages
begin

text \<open>
  The copy of each raw line for the log and the raw message window, \<open>emitRawFsdMessage\<close>
  (\<open>src/core/fsd/fsdclient.cpp\<close>): the password of the first login line is masked by the
  regular expression \<open>^(#AP\w+:SERVER:\d+:)[^:]+(:\d+:\d+:\d+:.+)$\<close>. No class of the
  expression before the last contains the separator, so the match is decided part by part.
\<close>

definition isWordC :: "char \<Rightarrow> bool" where
  "isWordC c \<longleftrightarrow> isUpperC c \<or> isLowerC c \<or> isDigitC c \<or> c = CHR ''_''"

definition digits1 :: "string \<Rightarrow> bool" where
  "digits1 s \<longleftrightarrow> s \<noteq> [] \<and> list_all isDigitC s"

definition newline :: char where
  "newline = CHR 0x0A"

definition maskedPassword :: string where
  "maskedPassword = ''<password>''"

definition maskPassword :: "string \<Rightarrow> string option" where
  "maskPassword line =
     (case qsplit CHR '':'' line of
        h # server # cid # password # a # b # c # rest \<Rightarrow>
          let tail = qjoin '':'' rest in
          if startsWith h ''#AP'' \<and> drop 3 h \<noteq> [] \<and> list_all isWordC (drop 3 h)
             \<and> server = ''SERVER'' \<and> digits1 cid \<and> password \<noteq> []
             \<and> digits1 a \<and> digits1 b \<and> digits1 c
             \<and> rest \<noteq> [] \<and> dollarEnd tail \<noteq> [] \<and> newline \<notin> set (dollarEnd tail)
          then Some (qjoin '':'' [h, server, cid, maskedPassword, a, b, c, tail])
          else None
      | _ \<Rightarrow> None)"

text \<open>The filtered line and the new value of \<open>m_filterPasswordFromLogin\<close>.\<close>

definition filterRawMessage :: "bool \<Rightarrow> string \<Rightarrow> string \<times> bool" where
  "filterRawMessage m_filterPasswordFromLogin fsdMessage =
     (if m_filterPasswordFromLogin \<and> startsWith fsdMessage ''#AP'' then
        (case maskPassword fsdMessage of None \<Rightarrow> fsdMessage | Some masked \<Rightarrow> masked, False)
      else (fsdMessage, m_filterPasswordFromLogin))"

text \<open>The raw line of a message: without the line end.\<close>

definition rawLine :: "string \<Rightarrow> string" where
  "rawLine message = trimmed message"

lemma digits1_number: "0 \<le> n \<Longrightarrow> digits1 (number n)"
proof -
  assume n: "0 \<le> n"
  have "isDigitC c" if c: "c \<in> set (nat_digits 10 (nat n))" for c
  proof -
    obtain d where "d < 10" "c = digit_char d" using nat_digits_chars [of 10 c "nat n"] c by auto
    then show ?thesis by (simp add: isDigitC_def of_char_digit_char Let_def)
  qed
  then show ?thesis using n by (auto simp: digits1_def number_base_def list_all_iff)
qed

lemma digits1_rating: "digits1 (toQString_PilotRating r)"
  by (cases r) (simp_all add: digits1_def isDigitC_def)

lemma digits1_simType: "digits1 (toQString_SimType s)"
  by (cases s) (simp_all add: digits1_def isDigitC_def)

lemma digits1_clean: "digits1 s \<Longrightarrow> CHR '':'' \<notin> set s"
  by (auto simp: digits1_def list_all_iff isDigitC_def)

lemma word_clean: "list_all isWordC s \<Longrightarrow> CHR '':'' \<notin> set s"
  by (auto simp: list_all_iff isWordC_def isUpperC_def isLowerC_def isDigitC_def)

text \<open>A login the expression matches.\<close>

definition loginMaskable :: "AddPilot \<Rightarrow> bool" where
  "loginMaskable m \<longleftrightarrow> m_isValid m \<and> m_receiver m = ''SERVER''
     \<and> m_sender m \<noteq> [] \<and> list_all isWordC (m_sender m) \<and> digits1 (ap_cid m)
     \<and> ap_password m \<noteq> [] \<and> CHR '':'' \<notin> set (ap_password m) \<and> 0 \<le> ap_protocolRevision m
     \<and> ap_realName m \<noteq> [] \<and> newline \<notin> set (ap_realName m) \<and> \<not> isSpace (last (ap_realName m))"

lemma login_line:
  assumes "loginMaskable m"
  shows "rawLine (messageToFSDString AddPilot_pdu AddPilot_toTokens m) =
     qjoin '':'' [''#AP'' @ m_sender m, ''SERVER'', ap_cid m, ap_password m,
       toQString_PilotRating (ap_rating m), number (ap_protocolRevision m),
       toQString_SimType (ap_simType m), ap_realName m]" (is "_ = ?l")
proof -
  have "no_outer_space ?l"
    using assms by (intro no_outer_space_qjoin) (auto simp: loginMaskable_def isSpace_def)
  then have "trimmed (?l @ crlf) = ?l"
    by (rule trimmed_append_space) (simp add: crlf_def isSpace_def)
  then show ?thesis
    using assms by (simp add: rawLine_def messageToFSDString_def AddPilot_pdu_def AddPilot_toTokens_def loginMaskable_def)
qed

lemma qsplit_login:
  assumes "\<forall>t \<in> {h, s, c, p, a, b, d}. CHR '':'' \<notin> set t"
  shows "qsplit CHR '':'' (qjoin '':'' [h, s, c, p, a, b, d, n]) = h # s # c # p # a # b # d # qsplit CHR '':'' n"
  using assms by (simp add: qsplit_append_sep)

lemma mask_login:
  assumes m: "loginMaskable m"
  shows "filterRawMessage True (rawLine (messageToFSDString AddPilot_pdu AddPilot_toTokens m)) =
     (qjoin '':'' [''#AP'' @ m_sender m, ''SERVER'', ap_cid m, maskedPassword,
       toQString_PilotRating (ap_rating m), number (ap_protocolRevision m),
       toQString_SimType (ap_simType m), ap_realName m], False)"
proof -
  let ?h = "''#AP'' @ m_sender m"
  note n = m [unfolded loginMaskable_def]
  have c: "\<forall>t \<in> {?h, ''SERVER'', ap_cid m, ap_password m, toQString_PilotRating (ap_rating m),
      number (ap_protocolRevision m), toQString_SimType (ap_simType m)}. CHR '':'' \<notin> set t"
    using n word_clean digits1_clean digits1_rating digits1_simType digits1_number by auto
  have d: "dollarEnd (ap_realName m) = ap_realName m"
    using n by (auto simp: dollarEnd_def isSpace_def)
  have "maskPassword (rawLine (messageToFSDString AddPilot_pdu AddPilot_toTokens m)) =
      Some (qjoin '':'' [?h, ''SERVER'', ap_cid m, maskedPassword, toQString_PilotRating (ap_rating m),
        number (ap_protocolRevision m), toQString_SimType (ap_simType m), ap_realName m])"
    using n d digits1_rating digits1_simType digits1_number
    unfolding login_line [OF m] maskPassword_def qsplit_login [OF c]
    by (simp add: qjoin_qsplit startsWith_def Let_def)
  then show ?thesis
    unfolding filterRawMessage_def using login_line [OF m] by (simp add: startsWith_def)
qed

text \<open>A line of another command is not touched.\<close>

lemma trimmed_prefix:
  assumes "s \<noteq> []" and "\<not> isSpace (hd s)"
  shows "\<exists>r. s = trimmed s @ r"
proof -
  have "dropWhile isSpace s = s" using assms by (cases s) auto
  then have t: "trimmed s = rev (dropWhile isSpace (rev s))" by (simp add: trimmed_def)
  have "rev s = takeWhile isSpace (rev s) @ dropWhile isSpace (rev s)" by simp
  then have "s = rev (dropWhile isSpace (rev s)) @ rev (takeWhile isSpace (rev s))"
    by (metis rev_append rev_rev_ident)
  then show ?thesis unfolding t by blast
qed

lemma filter_other:
  assumes "\<not> startsWith line ''#AP''" and "\<not> isSpace (hd line)" and "line \<noteq> []"
  shows "filterRawMessage masking (rawLine line) = (rawLine line, masking)"
proof -
  obtain r where "line = trimmed line @ r" using trimmed_prefix [OF assms(3,2)] by blast
  then have "\<not> startsWith (trimmed line) ''#AP''"
    using assms(1) unfolding startsWith_iff by (metis append_assoc)
  then show ?thesis by (simp add: filterRawMessage_def rawLine_def)
qed

end
