(* ===== verification/Fsd_Info_Messages.thy ===== *)
theory Fsd_Info_Messages
  imports Fsd_Message
begin

text \<open>
  The messages that carry information between clients: client queries and responses,
  text messages, flight plans and the aircraft model exchange of the \<open>#SB\<close> packet (all in
  \<open>src/core/fsd\<close>). Layout of a group as in \<open>Fsd_Session_Messages\<close>. A text message may hold
  the separator and a plane information writes several pairs as one token: both are shown
  to be codecs directly.
\<close>

subsection \<open>ClientQuery\<close>

record ClientQuery = MessageBase +
  cq_queryType :: ClientQueryType
  cq_queryData :: "string list"

definition ClientQuery_pdu :: string where
  "ClientQuery_pdu = ''$CQ''"

definition mkClientQuery :: "string \<Rightarrow> string \<Rightarrow> ClientQueryType \<Rightarrow> string list \<Rightarrow> ClientQuery" where
  "mkClientQuery sender clientToBeQueried queryType queryData =
     \<lparr>m_sender = sender,
      m_receiver = clientToBeQueried,
      m_isValid = True,
      cq_queryType = queryType,
      cq_queryData = queryData\<rparr>"

definition ClientQuery_default :: "ClientQuery" where
  "ClientQuery_default =
     \<lparr>m_sender = [],
      m_receiver = [],
      m_isValid = True,
      cq_queryType = ClientQueryType.Unknown,
      cq_queryData = []\<rparr>"

definition ClientQuery_toTokens :: "ClientQuery \<Rightarrow> string list" where
  "ClientQuery_toTokens m =
     [m_sender m, m_receiver m, toQString_ClientQueryType (cq_queryType m)] @ cq_queryData m"

definition ClientQuery_fromTokens :: "string list \<Rightarrow> ClientQuery option" where
  "ClientQuery_fromTokens tokens =
     (if length tokens < 3 then Some ClientQuery_default
      else do {
       t0 \<leftarrow> at_opt tokens 0;
       t1 \<leftarrow> at_opt tokens 1;
       t2 \<leftarrow> at_opt tokens 2;
       Some (mkClientQuery t0 t1 (fromQString_ClientQueryType t2)
              (if 3 < length tokens then mid tokens 3 else []))
     })"

definition ClientQuery_canonical :: "ClientQuery \<Rightarrow> bool" where
  "ClientQuery_canonical m \<longleftrightarrow>
     queryType_canonical (cq_queryType m)"

lemmas ClientQuery_defs [fsd_defs] =
  ClientQuery_pdu_def ClientQuery_default_def ClientQuery_toTokens_def ClientQuery_fromTokens_def ClientQuery_canonical_def mkClientQuery_def

lemma ClientQuery_read:
  assumes "m_isValid m" and "ClientQuery_canonical m"
  shows "ClientQuery_fromTokens (ClientQuery_toTokens m) = Some m"
  using assms by (cases m rule: ClientQuery.cases) (simp add: ClientQuery_defs clientQueryType.from_to mid_def)

interpretation clientQuery: token_codec ClientQuery_pdu MessageType.ClientQuery ClientQuery_toTokens ClientQuery_fromTokens ClientQuery_canonical
  by unfold_locales (simp add: ClientQuery_pdu_def messageTypeMapping_def, rule ClientQuery_read)

subsection \<open>ClientResponse\<close>

record ClientResponse = MessageBase +
  cr_queryType :: ClientQueryType
  cr_responseData :: "string list"

definition ClientResponse_pdu :: string where
  "ClientResponse_pdu = ''$CR''"

definition mkClientResponse :: "string \<Rightarrow> string \<Rightarrow> ClientQueryType \<Rightarrow> string list \<Rightarrow> ClientResponse" where
  "mkClientResponse sender receiver queryType responseData =
     \<lparr>m_sender = sender,
      m_receiver = receiver,
      m_isValid = True,
      cr_queryType = queryType,
      cr_responseData = responseData\<rparr>"

definition ClientResponse_default :: "ClientResponse" where
  "ClientResponse_default =
     \<lparr>m_sender = [],
      m_receiver = [],
      m_isValid = True,
      cr_queryType = ClientQueryType.Unknown,
      cr_responseData = []\<rparr>"

definition ClientResponse_toTokens :: "ClientResponse \<Rightarrow> string list" where
  "ClientResponse_toTokens m =
     [m_sender m, m_receiver m, toQString_ClientQueryType (cr_queryType m)] @ cr_responseData m"

definition ClientResponse_fromTokens :: "string list \<Rightarrow> ClientResponse option" where
  "ClientResponse_fromTokens tokens =
     (if length tokens < 3 then Some ClientResponse_default
      else do {
       t0 \<leftarrow> at_opt tokens 0;
       t1 \<leftarrow> at_opt tokens 1;
       t2 \<leftarrow> at_opt tokens 2;
       Some (mkClientResponse t0 t1 (fromQString_ClientQueryType t2)
              (if 3 < length tokens then mid tokens 3 else []))
     })"

definition ClientResponse_canonical :: "ClientResponse \<Rightarrow> bool" where
  "ClientResponse_canonical m \<longleftrightarrow>
     queryType_canonical (cr_queryType m)"

lemmas ClientResponse_defs [fsd_defs] =
  ClientResponse_pdu_def ClientResponse_default_def ClientResponse_toTokens_def ClientResponse_fromTokens_def ClientResponse_canonical_def mkClientResponse_def

lemma ClientResponse_read:
  assumes "m_isValid m" and "ClientResponse_canonical m"
  shows "ClientResponse_fromTokens (ClientResponse_toTokens m) = Some m"
  using assms by (cases m rule: ClientResponse.cases) (simp add: ClientResponse_defs clientQueryType.from_to mid_def)

interpretation clientResponse: token_codec ClientResponse_pdu MessageType.ClientResponse ClientResponse_toTokens ClientResponse_fromTokens ClientResponse_canonical
  by unfold_locales (simp add: ClientResponse_pdu_def messageTypeMapping_def, rule ClientResponse_read)

subsection \<open>FlightPlan\<close>

record FlightPlan = MessageBase +
  fp_flightType :: FlightType
  fp_aircraftIcaoType :: string
  fp_trueCruisingSpeed :: int
  fp_depAirport :: string
  fp_estimatedDepTime :: int
  fp_actualDepTime :: int
  fp_cruiseAlt :: string
  fp_destAirport :: string
  fp_hoursEnroute :: int
  fp_minutesEnroute :: int
  fp_fuelAvailHours :: int
  fp_fuelAvailMinutes :: int
  fp_altAirport :: string
  fp_remarks :: string
  fp_route :: string

definition FlightPlan_pdu :: string where
  "FlightPlan_pdu = ''$FP''"

definition mkFlightPlan :: "string \<Rightarrow> string \<Rightarrow> FlightType \<Rightarrow> string \<Rightarrow> int \<Rightarrow> string \<Rightarrow> int \<Rightarrow> int \<Rightarrow> string \<Rightarrow> string \<Rightarrow> int \<Rightarrow> int \<Rightarrow> int \<Rightarrow> int \<Rightarrow> string \<Rightarrow> string \<Rightarrow> string \<Rightarrow> FlightPlan" where
  "mkFlightPlan sender receiver flightType aircraftIcaoType trueCruisingSpeed depAirport estimatedDepTime actualDepTime cruiseAlt destAirport hoursEnroute minutesEnroute fuelAvailHours fuelAvailMinutes altAirport remarks route =
     \<lparr>m_sender = sender,
      m_receiver = receiver,
      m_isValid = True,
      fp_flightType = flightType,
      fp_aircraftIcaoType = aircraftIcaoType,
      fp_trueCruisingSpeed = trueCruisingSpeed,
      fp_depAirport = depAirport,
      fp_estimatedDepTime = estimatedDepTime,
      fp_actualDepTime = actualDepTime,
      fp_cruiseAlt = cruiseAlt,
      fp_destAirport = destAirport,
      fp_hoursEnroute = hoursEnroute,
      fp_minutesEnroute = minutesEnroute,
      fp_fuelAvailHours = fuelAvailHours,
      fp_fuelAvailMinutes = fuelAvailMinutes,
      fp_altAirport = altAirport,
      fp_remarks = remarks,
      fp_route = route\<rparr>"

definition FlightPlan_default :: "FlightPlan" where
  "FlightPlan_default =
     \<lparr>m_sender = [],
      m_receiver = [],
      m_isValid = True,
      fp_flightType = IFR,
      fp_aircraftIcaoType = [],
      fp_trueCruisingSpeed = 0,
      fp_depAirport = [],
      fp_estimatedDepTime = 0,
      fp_actualDepTime = 0,
      fp_cruiseAlt = [],
      fp_destAirport = [],
      fp_hoursEnroute = 0,
      fp_minutesEnroute = 0,
      fp_fuelAvailHours = 0,
      fp_fuelAvailMinutes = 0,
      fp_altAirport = [],
      fp_remarks = [],
      fp_route = []\<rparr>"

definition FlightPlan_toTokens :: "FlightPlan \<Rightarrow> string list" where
  "FlightPlan_toTokens m =
     [m_sender m, m_receiver m, toQString_FlightType (fp_flightType m),
      fp_aircraftIcaoType m, number (fp_trueCruisingSpeed m), fp_depAirport m,
      number (fp_estimatedDepTime m), number (fp_actualDepTime m), fp_cruiseAlt m,
      fp_destAirport m, number (fp_hoursEnroute m), number (fp_minutesEnroute m),
      number (fp_fuelAvailHours m), number (fp_fuelAvailMinutes m), fp_altAirport m,
      fp_remarks m, fp_route m]"

definition FlightPlan_fromTokens :: "string list \<Rightarrow> FlightPlan option" where
  "FlightPlan_fromTokens tokens =
     (if length tokens < 17 then Some FlightPlan_default
      else do {
       t0 \<leftarrow> at_opt tokens 0;
       t1 \<leftarrow> at_opt tokens 1;
       t2 \<leftarrow> at_opt tokens 2;
       t3 \<leftarrow> at_opt tokens 3;
       t4 \<leftarrow> at_opt tokens 4;
       t5 \<leftarrow> at_opt tokens 5;
       t6 \<leftarrow> at_opt tokens 6;
       t7 \<leftarrow> at_opt tokens 7;
       t8 \<leftarrow> at_opt tokens 8;
       t9 \<leftarrow> at_opt tokens 9;
       t10 \<leftarrow> at_opt tokens 10;
       t11 \<leftarrow> at_opt tokens 11;
       t12 \<leftarrow> at_opt tokens 12;
       t13 \<leftarrow> at_opt tokens 13;
       t14 \<leftarrow> at_opt tokens 14;
       t15 \<leftarrow> at_opt tokens 15;
       t16 \<leftarrow> at_opt tokens 16;
       Some (mkFlightPlan t0 t1 (fromQString_FlightType t2) t3 (toInt t4) t5
              (toInt t6) (toInt t7) t8 t9 (toInt t10) (toInt t11)
              (toInt t12) (toInt t13) t14 t15 t16)
     })"

definition FlightPlan_canonical :: "FlightPlan \<Rightarrow> bool" where
  "FlightPlan_canonical m \<longleftrightarrow>
     int32 (fp_trueCruisingSpeed m) \<and> int32 (fp_estimatedDepTime m)
     \<and> int32 (fp_actualDepTime m)
     \<and> int32 (fp_hoursEnroute m)
     \<and> int32 (fp_minutesEnroute m)
     \<and> int32 (fp_fuelAvailHours m)
     \<and> int32 (fp_fuelAvailMinutes m)"

lemmas FlightPlan_defs [fsd_defs] =
  FlightPlan_pdu_def FlightPlan_default_def FlightPlan_toTokens_def FlightPlan_fromTokens_def FlightPlan_canonical_def mkFlightPlan_def

lemma FlightPlan_read:
  assumes "m_isValid m" and "FlightPlan_canonical m"
  shows "FlightPlan_fromTokens (FlightPlan_toTokens m) = Some m"
  using assms by (cases m rule: FlightPlan.cases) (simp add: FlightPlan_defs flightType.from_to)

interpretation flightPlan: token_codec FlightPlan_pdu MessageType.FlightPlan FlightPlan_toTokens FlightPlan_fromTokens FlightPlan_canonical
  by unfold_locales (simp add: FlightPlan_pdu_def messageTypeMapping_def, rule FlightPlan_read)

subsection \<open>PlaneInfoRequest\<close>

type_synonym PlaneInfoRequest = MessageBase

definition PlaneInfoRequest_pdu :: string where
  "PlaneInfoRequest_pdu = ''#SB''"

definition mkPlaneInfoRequest :: "string \<Rightarrow> string \<Rightarrow> PlaneInfoRequest" where
  "mkPlaneInfoRequest sender receiver =
     \<lparr>m_sender = sender,
      m_receiver = receiver,
      m_isValid = True\<rparr>"

definition PlaneInfoRequest_default :: "PlaneInfoRequest" where
  "PlaneInfoRequest_default =
     \<lparr>m_sender = [],
      m_receiver = [],
      m_isValid = True\<rparr>"

definition PlaneInfoRequest_toTokens :: "PlaneInfoRequest \<Rightarrow> string list" where
  "PlaneInfoRequest_toTokens m =
     [m_sender m, m_receiver m, ''PIR'']"

definition PlaneInfoRequest_fromTokens :: "string list \<Rightarrow> PlaneInfoRequest option" where
  "PlaneInfoRequest_fromTokens tokens =
     (if length tokens < 3 then Some PlaneInfoRequest_default
      else do {
       t0 \<leftarrow> at_opt tokens 0;
       t1 \<leftarrow> at_opt tokens 1;
       Some (mkPlaneInfoRequest t0 t1)
     })"

definition PlaneInfoRequest_canonical :: "PlaneInfoRequest \<Rightarrow> bool" where
  "PlaneInfoRequest_canonical m \<longleftrightarrow>
     True"

lemmas PlaneInfoRequest_defs [fsd_defs] =
  PlaneInfoRequest_pdu_def PlaneInfoRequest_default_def PlaneInfoRequest_toTokens_def PlaneInfoRequest_fromTokens_def PlaneInfoRequest_canonical_def mkPlaneInfoRequest_def

lemma PlaneInfoRequest_read:
  assumes "m_isValid m" and "PlaneInfoRequest_canonical m"
  shows "PlaneInfoRequest_fromTokens (PlaneInfoRequest_toTokens m) = Some m"
  using assms by (cases m rule: MessageBase.cases) (simp add: PlaneInfoRequest_defs )

interpretation planeInfoRequest: token_codec PlaneInfoRequest_pdu MessageType.PilotClientCom PlaneInfoRequest_toTokens PlaneInfoRequest_fromTokens PlaneInfoRequest_canonical
  by unfold_locales (simp add: PlaneInfoRequest_pdu_def messageTypeMapping_def, rule PlaneInfoRequest_read)

subsection \<open>PlaneInfoRequestFsinn\<close>

record PlaneInfoRequestFsinn = MessageBase +
  fr_airlineIcao :: string
  fr_aircraftIcao :: string
  fr_aircraftIcaoCombinedType :: string
  fr_sendMModelString :: string

definition PlaneInfoRequestFsinn_pdu :: string where
  "PlaneInfoRequestFsinn_pdu = ''#SB''"

definition mkPlaneInfoRequestFsinn :: "string \<Rightarrow> string \<Rightarrow> string \<Rightarrow> string \<Rightarrow> string \<Rightarrow> string \<Rightarrow> PlaneInfoRequestFsinn" where
  "mkPlaneInfoRequestFsinn sender receiver airlineIcao aircraftIcao aircraftIcaoCombinedType sendMModelString =
     \<lparr>m_sender = sender,
      m_receiver = receiver,
      m_isValid = True,
      fr_airlineIcao = airlineIcao,
      fr_aircraftIcao = aircraftIcao,
      fr_aircraftIcaoCombinedType = aircraftIcaoCombinedType,
      fr_sendMModelString = sendMModelString\<rparr>"

definition PlaneInfoRequestFsinn_default :: "PlaneInfoRequestFsinn" where
  "PlaneInfoRequestFsinn_default =
     \<lparr>m_sender = [],
      m_receiver = [],
      m_isValid = True,
      fr_airlineIcao = [],
      fr_aircraftIcao = [],
      fr_aircraftIcaoCombinedType = [],
      fr_sendMModelString = []\<rparr>"

definition PlaneInfoRequestFsinn_toTokens :: "PlaneInfoRequestFsinn \<Rightarrow> string list" where
  "PlaneInfoRequestFsinn_toTokens m =
     [m_sender m, m_receiver m, ''FSIPIR'', ''0'', fr_airlineIcao m, fr_aircraftIcao m,
      [], [], [], [], fr_aircraftIcaoCombinedType m, fr_sendMModelString m]"

definition PlaneInfoRequestFsinn_fromTokens :: "string list \<Rightarrow> PlaneInfoRequestFsinn option" where
  "PlaneInfoRequestFsinn_fromTokens tokens =
     (if length tokens \<noteq> 12 then Some PlaneInfoRequestFsinn_default
      else do {
       t0 \<leftarrow> at_opt tokens 0;
       t1 \<leftarrow> at_opt tokens 1;
       t4 \<leftarrow> at_opt tokens 4;
       t5 \<leftarrow> at_opt tokens 5;
       t10 \<leftarrow> at_opt tokens 10;
       t11 \<leftarrow> at_opt tokens 11;
       Some (mkPlaneInfoRequestFsinn t0 t1 t4 t5 t10 t11)
     })"

definition PlaneInfoRequestFsinn_canonical :: "PlaneInfoRequestFsinn \<Rightarrow> bool" where
  "PlaneInfoRequestFsinn_canonical m \<longleftrightarrow>
     True"

lemmas PlaneInfoRequestFsinn_defs [fsd_defs] =
  PlaneInfoRequestFsinn_pdu_def PlaneInfoRequestFsinn_default_def PlaneInfoRequestFsinn_toTokens_def PlaneInfoRequestFsinn_fromTokens_def PlaneInfoRequestFsinn_canonical_def mkPlaneInfoRequestFsinn_def

lemma PlaneInfoRequestFsinn_read:
  assumes "m_isValid m" and "PlaneInfoRequestFsinn_canonical m"
  shows "PlaneInfoRequestFsinn_fromTokens (PlaneInfoRequestFsinn_toTokens m) = Some m"
  using assms by (cases m rule: PlaneInfoRequestFsinn.cases) (simp add: PlaneInfoRequestFsinn_defs )

interpretation planeInfoRequestFsinn: token_codec PlaneInfoRequestFsinn_pdu MessageType.PilotClientCom PlaneInfoRequestFsinn_toTokens PlaneInfoRequestFsinn_fromTokens PlaneInfoRequestFsinn_canonical
  by unfold_locales (simp add: PlaneInfoRequestFsinn_pdu_def messageTypeMapping_def, rule PlaneInfoRequestFsinn_read)

subsection \<open>PlaneInformationFsinn\<close>

record PlaneInformationFsinn = MessageBase +
  fi_airlineIcao :: string
  fi_aircraftIcao :: string
  fi_aircraftIcaoCombinedType :: string
  fi_sendMModelString :: string

definition PlaneInformationFsinn_pdu :: string where
  "PlaneInformationFsinn_pdu = ''#SB''"

definition mkPlaneInformationFsinn :: "string \<Rightarrow> string \<Rightarrow> string \<Rightarrow> string \<Rightarrow> string \<Rightarrow> string \<Rightarrow> PlaneInformationFsinn" where
  "mkPlaneInformationFsinn sender receiver airlineIcao aircraftIcao aircraftIcaoCombinedType sendMModelString =
     \<lparr>m_sender = sender,
      m_receiver = receiver,
      m_isValid = True,
      fi_airlineIcao = airlineIcao,
      fi_aircraftIcao = aircraftIcao,
      fi_aircraftIcaoCombinedType = aircraftIcaoCombinedType,
      fi_sendMModelString = sendMModelString\<rparr>"

definition PlaneInformationFsinn_default :: "PlaneInformationFsinn" where
  "PlaneInformationFsinn_default =
     \<lparr>m_sender = [],
      m_receiver = [],
      m_isValid = True,
      fi_airlineIcao = [],
      fi_aircraftIcao = [],
      fi_aircraftIcaoCombinedType = [],
      fi_sendMModelString = []\<rparr>"

definition PlaneInformationFsinn_toTokens :: "PlaneInformationFsinn \<Rightarrow> string list" where
  "PlaneInformationFsinn_toTokens m =
     [m_sender m, m_receiver m, ''FSIPI'', ''0'', fi_airlineIcao m, fi_aircraftIcao m,
      [], [], [], [], fi_aircraftIcaoCombinedType m, fi_sendMModelString m]"

definition PlaneInformationFsinn_fromTokens :: "string list \<Rightarrow> PlaneInformationFsinn option" where
  "PlaneInformationFsinn_fromTokens tokens =
     (if length tokens < 12 then Some PlaneInformationFsinn_default
      else do {
       t0 \<leftarrow> at_opt tokens 0;
       t1 \<leftarrow> at_opt tokens 1;
       t4 \<leftarrow> at_opt tokens 4;
       t5 \<leftarrow> at_opt tokens 5;
       t10 \<leftarrow> at_opt tokens 10;
       t11 \<leftarrow> at_opt tokens 11;
       Some (mkPlaneInformationFsinn t0 t1 t4 t5 t10 t11)
     })"

definition PlaneInformationFsinn_canonical :: "PlaneInformationFsinn \<Rightarrow> bool" where
  "PlaneInformationFsinn_canonical m \<longleftrightarrow>
     True"

lemmas PlaneInformationFsinn_defs [fsd_defs] =
  PlaneInformationFsinn_pdu_def PlaneInformationFsinn_default_def PlaneInformationFsinn_toTokens_def PlaneInformationFsinn_fromTokens_def PlaneInformationFsinn_canonical_def mkPlaneInformationFsinn_def

lemma PlaneInformationFsinn_read:
  assumes "m_isValid m" and "PlaneInformationFsinn_canonical m"
  shows "PlaneInformationFsinn_fromTokens (PlaneInformationFsinn_toTokens m) = Some m"
  using assms by (cases m rule: PlaneInformationFsinn.cases) (simp add: PlaneInformationFsinn_defs )

interpretation planeInformationFsinn: token_codec PlaneInformationFsinn_pdu MessageType.PilotClientCom PlaneInformationFsinn_toTokens PlaneInformationFsinn_fromTokens PlaneInformationFsinn_canonical
  by unfold_locales (simp add: PlaneInformationFsinn_pdu_def messageTypeMapping_def, rule PlaneInformationFsinn_read)

subsection \<open>PlaneInformation\<close>

record PlaneInformation = MessageBase +
  pl_aircraft :: string
  pl_airline :: string
  pl_livery :: string

definition PlaneInformation_pdu :: string where
  "PlaneInformation_pdu = ''#SB''"

definition mkPlaneInformation ::
  "string \<Rightarrow> string \<Rightarrow> string \<Rightarrow> string \<Rightarrow> string \<Rightarrow> PlaneInformation" where
  "mkPlaneInformation sender receiver aircraft airline livery =
     \<lparr>m_sender = sender, m_receiver = receiver, m_isValid = True,
      pl_aircraft = aircraft, pl_airline = airline, pl_livery = livery\<rparr>"

definition PlaneInformation_default :: PlaneInformation where
  "PlaneInformation_default =
     \<lparr>m_sender = [], m_receiver = [], m_isValid = True,
      pl_aircraft = [], pl_airline = [], pl_livery = []\<rparr>"

definition PlaneInformation_pairs :: "PlaneInformation \<Rightarrow> string list" where
  "PlaneInformation_pairs m =
     (if pl_aircraft m \<noteq> [] then [''EQUIPMENT='' @ pl_aircraft m] else [])
     @ (if pl_airline m \<noteq> [] then [''AIRLINE='' @ pl_airline m] else [])
     @ (if pl_livery m \<noteq> [] then [''LIVERY='' @ pl_livery m] else [])"

definition PlaneInformation_toTokens :: "PlaneInformation \<Rightarrow> string list" where
  "PlaneInformation_toTokens m =
     [m_sender m, m_receiver m, ''PI'', ''GEN'', qjoin '':'' (PlaneInformation_pairs m)]"

text \<open>One step of the loop over the tokens: a pair \<open>KEY=value\<close> sets its variable.\<close>

fun readPair :: "string \<times> string \<times> string \<Rightarrow> string \<Rightarrow> string \<times> string \<times> string" where
  "readPair (aircraft, airline, livery) token =
     (case qsplit CHR ''='' token of
        [key, value] \<Rightarrow>
          if key = ''EQUIPMENT'' then (value, airline, livery)
          else if key = ''AIRLINE'' then (aircraft, value, livery)
          else if key = ''LIVERY'' then (aircraft, airline, value)
          else (aircraft, airline, livery)
      | _ \<Rightarrow> (aircraft, airline, livery))"

definition PlaneInformation_fromTokens :: "string list \<Rightarrow> PlaneInformation option" where
  "PlaneInformation_fromTokens tokens =
     (if length tokens < 5 then Some PlaneInformation_default
      else do {
       t0 \<leftarrow> at_opt tokens 0;
       t1 \<leftarrow> at_opt tokens 1;
       Some (case foldl readPair ([], [], []) (mid tokens 4) of
               (aircraft, airline, livery) \<Rightarrow> mkPlaneInformation t0 t1 aircraft airline livery)
     })"

text \<open>The values that survive: neither separator occurs, nor a space at the ends.\<close>

definition PlaneInformation_wire :: "PlaneInformation \<Rightarrow> bool" where
  "PlaneInformation_wire m \<longleftrightarrow> m_isValid m
     \<and> (\<forall>t \<in> set [m_sender m, m_receiver m, pl_aircraft m, pl_airline m, pl_livery m].
          CHR '':'' \<notin> set t)
     \<and> (\<forall>t \<in> set [pl_aircraft m, pl_airline m, pl_livery m]. CHR ''='' \<notin> set t)
     \<and> no_outer_space (qjoin '':'' (PlaneInformation_toTokens m))"

lemmas PlaneInformation_defs [fsd_defs] =
  PlaneInformation_pdu_def mkPlaneInformation_def PlaneInformation_default_def
  PlaneInformation_pairs_def PlaneInformation_toTokens_def PlaneInformation_fromTokens_def
  PlaneInformation_wire_def

lemma readPair_pair:
  "CHR ''='' \<notin> set v \<Longrightarrow> qsplit CHR ''='' (''EQUIPMENT='' @ v) = [''EQUIPMENT'', v]"
  "CHR ''='' \<notin> set v \<Longrightarrow> qsplit CHR ''='' (''AIRLINE='' @ v) = [''AIRLINE'', v]"
  "CHR ''='' \<notin> set v \<Longrightarrow> qsplit CHR ''='' (''LIVERY='' @ v) = [''LIVERY'', v]"
  by (simp_all add: qsplit_no_sep)

lemma readPairs:
  assumes "\<forall>t \<in> set [pl_aircraft m, pl_airline m, pl_livery m]. CHR ''='' \<notin> set t"
  shows "foldl readPair ([], [], []) (PlaneInformation_pairs m)
       = (pl_aircraft m, pl_airline m, pl_livery m)"
  using assms by (simp add: PlaneInformation_pairs_def readPair_pair del: append.simps)

lemma PlaneInformation_split:
  assumes "PlaneInformation_wire m"
  shows "qsplit CHR '':'' (qjoin '':'' (PlaneInformation_toTokens m))
       = [m_sender m, m_receiver m, ''PI'', ''GEN'']
         @ (if PlaneInformation_pairs m = [] then [[]] else PlaneInformation_pairs m)"
proof -
  let ?p = "PlaneInformation_pairs m"
  have c: "\<forall>t \<in> set ?p. CHR '':'' \<notin> set t"
    using assms by (auto simp: PlaneInformation_pairs_def PlaneInformation_wire_def)
  have p: "qsplit CHR '':'' (qjoin '':'' ?p) = (if ?p = [] then [[]] else ?p)"
    using c by (simp add: qsplit_qjoin)
  show ?thesis
    using assms p by (simp add: PlaneInformation_toTokens_def PlaneInformation_wire_def qsplit_append_sep)
qed

lemma PlaneInformation_read:
  assumes w: "PlaneInformation_wire m"
  shows "PlaneInformation_fromTokens
           (qsplit CHR '':'' (qjoin '':'' (PlaneInformation_toTokens m))) = Some m"
proof -
  define q where
    "q = (if PlaneInformation_pairs m = [] then [[]] else PlaneInformation_pairs m)"
  have f: "foldl readPair ([], [], []) q = (pl_aircraft m, pl_airline m, pl_livery m)"
    using readPairs [of m] w by (auto simp: q_def PlaneInformation_wire_def)
  have "q \<noteq> []" by (simp add: q_def)
  then have n: "\<not> length ([m_sender m, m_receiver m, ''PI'', ''GEN''] @ q) < 5"
    by (cases q) auto
  have m: "mkPlaneInformation (m_sender m) (m_receiver m) (pl_aircraft m) (pl_airline m)
      (pl_livery m) = m"
    using w by (cases m rule: PlaneInformation.cases)
      (simp add: mkPlaneInformation_def PlaneInformation_wire_def)
  show ?thesis
    unfolding PlaneInformation_split [OF w] q_def [symmetric] PlaneInformation_fromTokens_def if_not_P [OF n]
    using f m by (simp add: mid_def)
qed

interpretation planeInformation: fsd_codec PlaneInformation_pdu MessageType.PilotClientCom
  PlaneInformation_toTokens PlaneInformation_fromTokens PlaneInformation_wire
proof unfold_locales
  fix m
  assume w: "PlaneInformation_wire m"
  then show "m_isValid m" by (simp add: PlaneInformation_wire_def)
  from w show "payload_wire (qjoin '':'' (PlaneInformation_toTokens m))"
    by (simp add: PlaneInformation_wire_def payload_wire_def PlaneInformation_toTokens_def)
  from w show "PlaneInformation_fromTokens
      (qsplit CHR '':'' (qjoin '':'' (PlaneInformation_toTokens m))) = Some m"
    by (rule PlaneInformation_read)
qed (simp add: PlaneInformation_pdu_def messageTypeMapping_def)

subsection \<open>TextMessage\<close>

datatype TextMessageType = PrivateMessage | RadioMessage

record TextMessage = MessageBase +
  tm_message :: string
  tm_type :: TextMessageType
  tm_frequencies :: "int list"

definition TextMessage_pdu :: string where
  "TextMessage_pdu = ''#TM''"

text \<open>\<open>@22800&@28520\<close>: the frequencies in kHz without the leading \<open>1\<close>.\<close>

definition receiverFrequencies :: "string \<Rightarrow> int list" where
  "receiverFrequencies receiver =
     map (\<lambda>frequencyString. wrap32 (toInt (drop 1 frequencyString) + 100000))
         (qsplit CHR ''&'' receiver)"

definition mkTextMessage :: "string \<Rightarrow> string \<Rightarrow> string \<Rightarrow> TextMessage" where
  "mkTextMessage sender receiver message =
     \<lparr>m_sender = sender, m_receiver = receiver, m_isValid = True,
      tm_message = message,
      tm_type = (if startsWith receiver ''@'' then RadioMessage else PrivateMessage),
      tm_frequencies = (if startsWith receiver ''@'' then receiverFrequencies receiver else [])\<rparr>"

definition TextMessage_default :: TextMessage where
  "TextMessage_default =
     \<lparr>m_sender = [], m_receiver = [], m_isValid = True,
      tm_message = [], tm_type = PrivateMessage, tm_frequencies = []\<rparr>"

definition TextMessage_toTokens :: "TextMessage \<Rightarrow> string list" where
  "TextMessage_toTokens m = [m_sender m, m_receiver m, tm_message m]"

definition TextMessage_fromTokens :: "string list \<Rightarrow> TextMessage option" where
  "TextMessage_fromTokens tokens =
     (if length tokens < 3 then Some TextMessage_default
      else do {
       t0 \<leftarrow> at_opt tokens 0;
       t1 \<leftarrow> at_opt tokens 1;
       Some (mkTextMessage t0 t1 (qjoin '':'' (mid tokens 2)))
     })"

text \<open>The text of the message may hold any character, the separator included.\<close>

definition TextMessage_wire :: "TextMessage \<Rightarrow> bool" where
  "TextMessage_wire m \<longleftrightarrow>
     m = mkTextMessage (m_sender m) (m_receiver m) (tm_message m)
     \<and> CHR '':'' \<notin> set (m_sender m) \<and> CHR '':'' \<notin> set (m_receiver m)
     \<and> (m_sender m = [] \<or> \<not> isSpace (hd (m_sender m)))
     \<and> (tm_message m = [] \<or> \<not> isSpace (last (tm_message m)))"

lemmas TextMessage_defs [fsd_defs] =
  TextMessage_pdu_def mkTextMessage_def TextMessage_default_def TextMessage_toTokens_def
  TextMessage_fromTokens_def TextMessage_wire_def

lemma TextMessage_wire_valid: "TextMessage_wire m \<Longrightarrow> m_isValid m"
  by (cases m rule: TextMessage.cases) (simp add: TextMessage_wire_def mkTextMessage_def)

lemma TextMessage_read:
  assumes w: "TextMessage_wire m"
  shows "TextMessage_fromTokens
           (qsplit CHR '':'' (qjoin '':'' (TextMessage_toTokens m))) = Some m"
proof -
  have s: "qsplit CHR '':'' (qjoin '':'' (TextMessage_toTokens m))
         = m_sender m # m_receiver m # qsplit CHR '':'' (tm_message m)"
    using w by (simp add: TextMessage_toTokens_def TextMessage_wire_def qsplit_append_sep)
  have "\<not> length (m_sender m # m_receiver m # qsplit CHR '':'' (tm_message m)) < 3"
    by (simp add: length_qsplit)
  then show ?thesis
    using w unfolding s TextMessage_fromTokens_def
    by (simp add: mid_def qjoin_qsplit TextMessage_wire_def)
qed

interpretation textMessage: fsd_codec TextMessage_pdu MessageType.TextMessage
  TextMessage_toTokens TextMessage_fromTokens TextMessage_wire
proof unfold_locales
  fix m
  assume w: "TextMessage_wire m"
  then show "m_isValid m" by (rule TextMessage_wire_valid)
  have "no_outer_space (qjoin '':'' (TextMessage_toTokens m))"
    using w by (intro no_outer_space_qjoin) (auto simp: TextMessage_toTokens_def TextMessage_wire_def)
  then show "payload_wire (qjoin '':'' (TextMessage_toTokens m))"
    by (simp add: payload_wire_def TextMessage_toTokens_def)
  from w show "TextMessage_fromTokens
      (qsplit CHR '':'' (qjoin '':'' (TextMessage_toTokens m))) = Some m"
    by (rule TextMessage_read)
qed (simp add: TextMessage_pdu_def messageTypeMapping_def)

end
