(* ===== verification/Fsd_Double.thy ===== *)
theory Fsd_Double
  imports Complex_Main Qt_Number
begin

text \<open>
  The program's \<open>double\<close> values. Their arithmetic and their decimal text
  (\<open>QString::number(x, 'f', n)\<close>, \<open>QString::number(x)\<close>, \<open>QString::toDouble\<close>) are a parameter of every
  definition that touches them: a value of the record \<open>dbl\<close>. The record
  \<open>dbl_rat\<close> is the instance of exact rational arithmetic, in which a number prints
  rounded to \<open>n\<close> decimals; it is the instance the witnesses evaluate, and the instance
  over which the quantisation error of the packed attitude is stated.
\<close>

record 'd dbl =
  dNumber :: "'d \<Rightarrow> nat \<Rightarrow> string"
  dGeneral :: "'d \<Rightarrow> string"
  dParse :: "string \<Rightarrow> 'd option"
  dOfInt :: "int \<Rightarrow> 'd"
  dMul :: "'d \<Rightarrow> 'd \<Rightarrow> 'd"
  dDiv :: "'d \<Rightarrow> 'd \<Rightarrow> 'd"
  dSub :: "'d \<Rightarrow> 'd \<Rightarrow> 'd"
  dNeg :: "'d \<Rightarrow> 'd"
  dAbs :: "'d \<Rightarrow> 'd"
  dLess :: "'d \<Rightarrow> 'd \<Rightarrow> bool"
  dFloor :: "'d \<Rightarrow> int"
  dTrunc :: "'d \<Rightarrow> int"

definition toDouble :: "'d dbl \<Rightarrow> string \<Rightarrow> 'd" where
  "toDouble D s = (case dParse D s of None \<Rightarrow> dOfInt D 0 | Some x \<Rightarrow> x)"

text \<open>A value that its text with \<open>n\<close> decimals identifies, and whose text is one token.\<close>

definition dExact :: "'d dbl \<Rightarrow> nat \<Rightarrow> 'd \<Rightarrow> bool" where
  "dExact D n x \<longleftrightarrow> dParse D (dNumber D x n) = Some x
     \<and> CHR '':'' \<notin> set (dNumber D x n)
     \<and> dNumber D x n \<noteq> [] \<and> no_outer_space (dNumber D x n)"

lemma toDouble_exact: "dExact D n x \<Longrightarrow> toDouble D (dNumber D x n) = x"
  by (simp add: dExact_def toDouble_def)

lemma dExact_no_colon: "dExact D n x \<Longrightarrow> CHR '':'' \<notin> set (dNumber D x n)"
  by (simp add: dExact_def)

lemma dExact_outer:
  assumes "dExact D n x"
  shows "dNumber D x n \<noteq> []" and "\<not> isSpace (hd (dNumber D x n))"
    and "\<not> isSpace (last (dNumber D x n))"
  using assms by (auto simp: dExact_def no_outer_space_def)

lemmas dExact_simps = toDouble_exact dExact_no_colon dExact_outer

subsection \<open>Exact decimals\<close>

definition pad0 :: "nat \<Rightarrow> string \<Rightarrow> string" where
  "pad0 n s = replicate (n - length s) CHR ''0'' @ s"

text \<open>The text of \<open>k / 10 ^ n\<close> with \<open>n\<close> decimals.\<close>

definition fixed_text :: "int \<Rightarrow> nat \<Rightarrow> string" where
  "fixed_text k n =
     (let a = nat \<bar>k\<bar>;
          t = nat_digits 10 (a div 10 ^ n) @
              (if n = 0 then [] else CHR ''.'' # pad0 n (nat_digits 10 (a mod 10 ^ n)))
      in if k < 0 then CHR ''-'' # t else t)"

definition parse_fixed_nat :: "string \<Rightarrow> (nat \<times> nat) option" where
  "parse_fixed_nat s =
     (let ip = takeWhile (\<lambda>c. c \<noteq> CHR ''.'') s;
          fp = tl (dropWhile (\<lambda>c. c \<noteq> CHR ''.'') s)
      in map_option (\<lambda>v. (v, length fp)) (parse_nat 10 (ip @ fp)))"

definition parse_fixed :: "string \<Rightarrow> rat option" where
  "parse_fixed s =
     (case s of
        [] \<Rightarrow> None
      | c # cs \<Rightarrow>
          if c = CHR ''-'' then map_option (\<lambda>(v, n). - (of_nat v / 10 ^ n)) (parse_fixed_nat cs)
          else map_option (\<lambda>(v, n). of_nat v / 10 ^ n) (parse_fixed_nat s))"

definition rat_trunc :: "rat \<Rightarrow> int" where
  "rat_trunc x = (if x < 0 then \<lceil>x\<rceil> else \<lfloor>x\<rfloor>)"

definition dbl_rat :: "rat dbl" where
  "dbl_rat =
     \<lparr>dNumber = (\<lambda>x n. fixed_text \<lfloor>x * 10 ^ n + 1 / 2\<rfloor> n),
      dGeneral = (\<lambda>x. fixed_text \<lfloor>x * 10 ^ 6 + 1 / 2\<rfloor> 6),
      dParse = parse_fixed,
      dOfInt = of_int,
      dMul = (*),
      dDiv = (/),
      dSub = (-),
      dNeg = uminus,
      dAbs = abs,
      dLess = (<),
      dFloor = floor,
      dTrunc = rat_trunc\<rparr>"

lemma dbl_rat_simps [simp]:
  "dNumber dbl_rat x n = fixed_text \<lfloor>x * 10 ^ n + 1 / 2\<rfloor> n"
  "dGeneral dbl_rat x = fixed_text \<lfloor>x * 10 ^ 6 + 1 / 2\<rfloor> 6"
  "dParse dbl_rat = parse_fixed"
  "dOfInt dbl_rat = of_int"
  "dMul dbl_rat = (*)"
  "dDiv dbl_rat = (/)"
  "dSub dbl_rat = (-)"
  "dNeg dbl_rat = uminus"
  "dAbs dbl_rat = abs"
  "dLess dbl_rat = (<)"
  "dFloor dbl_rat = floor"
  "dTrunc dbl_rat = rat_trunc"
  by (simp_all add: dbl_rat_def)

lemma parse_acc_shift:
  "parse_acc b a s = Some v \<Longrightarrow> \<exists>w. parse_acc b 0 s = Some w \<and> v = a * b ^ length s + w"
proof (induction s arbitrary: a v rule: rev_induct)
  case Nil
  then show ?case by simp
next
  case (snoc c s)
  from snoc.prems obtain u d where u: "parse_acc b a s = Some u"
    and d: "digit_val c = Some d" "d < b" and v: "v = u * b + d"
    by (auto simp: parse_acc_append bind_eq_Some_conv split: option.splits if_splits)
  obtain w where "parse_acc b 0 s = Some w" and "u = a * b ^ length s + w"
    using snoc.IH [OF u] by blast
  then show ?case using d v by (simp add: parse_acc_append algebra_simps)
qed

lemma parse_acc_zeros:
  "2 \<le> b \<Longrightarrow> parse_acc b 0 (replicate m CHR ''0'' @ s) = parse_acc b 0 s"
  by (induction m) (auto simp: digit_val_def isDigitC_def)

lemma parse_acc_from:
  "parse_acc b 0 s = Some w \<Longrightarrow> parse_acc b a s = Some (a * b ^ length s + w)"
proof (induction s arbitrary: w rule: rev_induct)
  case Nil
  then show ?case by simp
next
  case (snoc c s)
  from snoc.prems obtain u d where u: "parse_acc b 0 s = Some u"
    and d: "digit_val c = Some d" "d < b" and w: "w = u * b + d"
    by (auto simp: parse_acc_append bind_eq_Some_conv split: option.splits if_splits)
  show ?case using snoc.IH [OF u] d w by (simp add: parse_acc_append algebra_simps)
qed

lemma length_nat_digits_le: "n < 10 ^ m \<Longrightarrow> 0 < m \<Longrightarrow> length (nat_digits 10 n) \<le> m"
proof (induction m arbitrary: n)
  case 0
  then show ?case by simp
next
  case (Suc m)
  show ?case
  proof (cases "n < 10")
    case True
    then show ?thesis by (simp add: nat_digits.simps [of 10 n])
  next
    case False
    then have m: "0 < m" using Suc.prems(1) by (cases m) auto
    have "n div 10 < 10 ^ m" using Suc.prems(1) by (simp add: less_mult_imp_div_less mult.commute)
    with Suc.IH m False show ?thesis by (simp add: nat_digits.simps [of 10 n])
  qed
qed

lemma length_pad0: "n < 10 ^ m \<Longrightarrow> 0 < m \<Longrightarrow> length (pad0 m (nat_digits 10 n)) = m"
  using length_nat_digits_le [of n m] by (simp add: pad0_def)

lemma nat_digits_no_dot: "c \<in> set (nat_digits 10 n) \<Longrightarrow> c \<noteq> CHR ''.'' \<and> c \<noteq> CHR ''-'' \<and> c \<noteq> CHR '':'' \<and> \<not> isSpace c"
  using of_char_nat_digits [of 10 c n] by (auto simp: isSpace_def Let_def)

lemma parse_fixed_nat_text:
  "parse_fixed_nat (nat_digits 10 (a div 10 ^ n) @
     (if n = 0 then [] else CHR ''.'' # pad0 n (nat_digits 10 (a mod 10 ^ n)))) = Some (a, n)"
proof (cases "n = 0")
  case True
  have "\<forall>c \<in> set (nat_digits 10 a). c \<noteq> CHR ''.''" using nat_digits_no_dot by blast
  then have tw: "takeWhile (\<lambda>c. c \<noteq> CHR ''.'') (nat_digits 10 a) = nat_digits 10 a"
    and dw: "dropWhile (\<lambda>c. c \<noteq> CHR ''.'') (nat_digits 10 a) = []"
    by (simp_all add: takeWhile_eq_all_conv)
  show ?thesis using True by (simp add: parse_fixed_nat_def tw dw parse_nat_nat_digits)
next
  case False
  let ?i = "nat_digits 10 (a div 10 ^ n)" and ?f = "pad0 n (nat_digits 10 (a mod 10 ^ n))"
  have nd: "\<forall>c \<in> set ?i. c \<noteq> CHR ''.''" using nat_digits_no_dot by blast
  have tw: "takeWhile (\<lambda>c. c \<noteq> CHR ''.'') (?i @ CHR ''.'' # ?f) = ?i"
    using nd by (subst takeWhile_append2) auto
  have dw: "dropWhile (\<lambda>c. c \<noteq> CHR ''.'') (?i @ CHR ''.'' # ?f) = CHR ''.'' # ?f"
    using nd by (subst dropWhile_append2) auto
  have f: "parse_acc 10 0 ?f = Some (a mod 10 ^ n)"
    by (simp add: pad0_def parse_acc_zeros parse_acc_nat_digits)
  have l: "length ?f = n" using False by (simp add: length_pad0)
  have "parse_nat 10 (?i @ ?f) = Some (a div 10 ^ n * 10 ^ n + a mod 10 ^ n)"
    using parse_acc_from [OF f] l by (simp add: parse_nat_def parse_acc_append parse_acc_nat_digits)
  then have "parse_nat 10 (?i @ ?f) = Some a" by (simp only: div_mult_mod_eq)
  then show ?thesis using False tw dw l by (simp add: parse_fixed_nat_def)
qed

lemma fixed_text_chars:
  "c \<in> set (fixed_text k n) \<Longrightarrow> \<not> isSpace c \<and> c \<noteq> CHR '':''"
  using nat_digits_no_dot
  by (auto simp: fixed_text_def Let_def pad0_def isSpace_def split: if_splits)

lemma fixed_text_nonempty: "fixed_text k n \<noteq> []"
  by (simp add: fixed_text_def Let_def)

lemma parse_fixed_text: "parse_fixed (fixed_text k n) = Some (of_int k / 10 ^ n)"
proof (cases "k < 0")
  case True
  then have "(of_nat (nat \<bar>k\<bar>) :: rat) = - of_int k" by simp
  then show ?thesis using True
    by (simp add: fixed_text_def parse_fixed_def Let_def parse_fixed_nat_text)
next
  case False
  let ?t = "nat_digits 10 (nat \<bar>k\<bar> div 10 ^ n) @
     (if n = 0 then [] else CHR ''.'' # pad0 n (nat_digits 10 (nat \<bar>k\<bar> mod 10 ^ n)))"
  have e: "fixed_text k n = ?t" using False by (simp add: fixed_text_def Let_def)
  obtain c cs where c: "nat_digits 10 (nat \<bar>k\<bar> div 10 ^ n) = c # cs"
    by (cases "nat_digits 10 (nat \<bar>k\<bar> div 10 ^ n)") auto
  have m: "c \<noteq> CHR ''-''" using nat_digits_no_dot [of c "nat \<bar>k\<bar> div 10 ^ n"] c by simp
  have t: "?t = c # (cs @ (if n = 0 then [] else CHR ''.'' # pad0 n (nat_digits 10 (nat \<bar>k\<bar> mod 10 ^ n))))"
    using c by simp
  have p: "parse_fixed_nat ?t = Some (nat \<bar>k\<bar>, n)" by (rule parse_fixed_nat_text)
  have "parse_fixed ?t = map_option (\<lambda>(v, n). of_nat v / 10 ^ n) (parse_fixed_nat ?t)"
    using m unfolding t parse_fixed_def by simp
  then show ?thesis using p False e by simp
qed

text \<open>A rational with at most \<open>n\<close> decimals is exact at \<open>n\<close> decimals.\<close>

lemma dExact_rat: "x = of_int k / 10 ^ n \<Longrightarrow> dExact dbl_rat n x"
proof -
  assume x: "x = of_int k / 10 ^ n"
  have "(of_int k + 1 / 2 :: rat) = of_int k + (1 / 2)" by simp
  then have "\<lfloor>x * 10 ^ n + 1 / 2\<rfloor> = k" using x by (simp add: floor_eq_iff)
  then show ?thesis
    using x fixed_text_chars [of _ k n] fixed_text_nonempty [of k n] parse_fixed_text [of k n]
    by (auto simp: dExact_def no_outer_space_def)
qed

lemma dExact_rat_int: "dExact dbl_rat n (of_int k)"
  by (rule dExact_rat [of _ "k * 10 ^ n"]) simp

end
