(* ===== verification/Fsd_Pbh.thy ===== *)
theory Fsd_Pbh
  imports Fsd_Double "HOL-Library.Word"
begin

unbundle bit_operations_syntax

text \<open>
  The packed attitude of position messages, \<open>src/core/fsd/pbh.h\<close>: pitch, bank, heading
  and the on-ground flag in the bit fields of one 32-bit word. The union is laid out from
  the least significant bit, as the compilers of the supported platforms do: unused bit,
  on-ground flag, heading (10 bits, unsigned), bank and pitch (10 bits each, signed).
\<close>

type_synonym pbh_word = "32 word"

definition packFields :: "int \<Rightarrow> int \<Rightarrow> int \<Rightarrow> bool \<Rightarrow> pbh_word" where
  "packFields pitch bank hdg onGround =
     push_bit 22 (take_bit 10 (word_of_int pitch))
     OR push_bit 12 (take_bit 10 (word_of_int bank))
     OR push_bit 2 (take_bit 10 (word_of_int hdg))
     OR push_bit 1 (of_bool onGround)"

definition pbh_pitch :: "pbh_word \<Rightarrow> int" where
  "pbh_pitch w = signed_take_bit 9 (uint (drop_bit 22 w))"

definition pbh_bank :: "pbh_word \<Rightarrow> int" where
  "pbh_bank w = signed_take_bit 9 (uint (drop_bit 12 w))"

definition pbh_hdg :: "pbh_word \<Rightarrow> int" where
  "pbh_hdg w = take_bit 10 (uint (drop_bit 2 w))"

definition pbh_onground :: "pbh_word \<Rightarrow> bool" where
  "pbh_onground w = bit w 1"

subsection \<open>The bit fields are independent\<close>

lemma bit_packFields:
  "bit (packFields p b h g) n \<longleftrightarrow>
     n < 32 \<and> ((22 \<le> n \<and> bit p (n - 22)) \<or> (12 \<le> n \<and> n < 22 \<and> bit b (n - 12))
       \<or> (2 \<le> n \<and> n < 12 \<and> bit h (n - 2)) \<or> (n = 1 \<and> g))"
  by (simp only: packFields_def bit_or_iff bit_push_bit_iff bit_take_bit_iff bit_word_of_int_iff
      bit_of_bool_iff) auto

lemma pbh_pitch_packFields: "pbh_pitch (packFields p b h g) = signed_take_bit 9 p"
  by (rule bit_eqI)
    (auto simp: pbh_pitch_def bit_signed_take_bit_iff bit_uint_iff bit_drop_bit_eq bit_packFields min_def)

lemma pbh_bank_packFields: "pbh_bank (packFields p b h g) = signed_take_bit 9 b"
  by (rule bit_eqI)
    (auto simp: pbh_bank_def bit_signed_take_bit_iff bit_uint_iff bit_drop_bit_eq bit_packFields min_def)

lemma pbh_hdg_packFields: "pbh_hdg (packFields p b h g) = take_bit 10 h"
  by (rule bit_eqI)
    (auto simp: pbh_hdg_def bit_take_bit_iff bit_uint_iff bit_drop_bit_eq bit_packFields)

lemma pbh_onground_packFields: "pbh_onground (packFields p b h g) = g"
  by (simp add: pbh_onground_def bit_packFields)

lemmas pbh_fields = pbh_pitch_packFields pbh_bank_packFields pbh_hdg_packFields pbh_onground_packFields

lemma uint_pbh_bounds: "0 \<le> uint (w :: pbh_word)" "uint (w :: pbh_word) \<le> 4294967295"
  using uint_lt2p [of w] by simp_all

lemma signed_take_bit_9_id: "-512 \<le> x \<Longrightarrow> x < 512 \<Longrightarrow> signed_take_bit 9 (x :: int) = x"
  by (simp add: signed_take_bit_int_eq_self_iff)

lemma take_bit_10_id: "0 \<le> x \<Longrightarrow> x < 1024 \<Longrightarrow> take_bit 10 (x :: int) = x"
  by (simp add: take_bit_int_eq_self_iff)

subsection \<open>Packing and unpacking angles\<close>

definition pitchMultiplier :: "'d dbl \<Rightarrow> 'd" where
  "pitchMultiplier D = dDiv D (dOfInt D 256) (dOfInt D 90)"

definition bankMultiplier :: "'d dbl \<Rightarrow> 'd" where
  "bankMultiplier D = dDiv D (dOfInt D 512) (dOfInt D 180)"

definition headingMultiplier :: "'d dbl \<Rightarrow> 'd" where
  "headingMultiplier D = dDiv D (dOfInt D 1024) (dOfInt D 360)"

definition packPBH :: "'d dbl \<Rightarrow> 'd \<Rightarrow> 'd \<Rightarrow> 'd \<Rightarrow> bool \<Rightarrow> pbh_word" where
  "packPBH D pitch bank heading onGround =
     packFields
       (dFloor D (dMul D pitch (dNeg D (pitchMultiplier D))))
       (dFloor D (dMul D bank (dNeg D (bankMultiplier D))))
       (dTrunc D (dMul D heading (headingMultiplier D)))
       onGround"

definition unpackPBH :: "'d dbl \<Rightarrow> pbh_word \<Rightarrow> 'd \<times> 'd \<times> 'd \<times> bool" where
  "unpackPBH D w =
     (dOfInt D (dFloor D (dDiv D (dOfInt D (pbh_pitch w)) (dNeg D (pitchMultiplier D)))),
      dOfInt D (dFloor D (dDiv D (dOfInt D (pbh_bank w)) (dNeg D (bankMultiplier D)))),
      dDiv D (dOfInt D (pbh_hdg w)) (headingMultiplier D),
      pbh_onground w)"

text \<open>An attitude the packed word identifies.\<close>

definition pbhExact :: "'d dbl \<Rightarrow> 'd \<Rightarrow> 'd \<Rightarrow> 'd \<Rightarrow> bool" where
  "pbhExact D pitch bank heading \<longleftrightarrow>
     (case unpackPBH D (packPBH D pitch bank heading False) of
        (p, b, h, g) \<Rightarrow> p = pitch \<and> b = bank \<and> h = heading)"

lemma unpack_pack_exact:
  "pbhExact D p b h \<Longrightarrow> unpackPBH D (packPBH D p b h g) = (p, b, h, g)"
  by (simp add: pbhExact_def unpackPBH_def packPBH_def pbh_fields)

lemma onground_pack: "snd (snd (snd (unpackPBH D (packPBH D p b h g)))) = g"
  by (simp add: unpackPBH_def packPBH_def pbh_fields)

subsection \<open>Quantisation in exact arithmetic\<close>

text \<open>
  Whole degrees of pitch and bank in (-180, 180] survive; the heading is quantised down to
  a multiple of 360/1024 degrees.
\<close>

lemma scaled_floor_bounds:
  fixes p :: int and m :: rat
  assumes "-180 < p" and "p \<le> 180" and m: "m = 256 / 90"
  shows "-512 \<le> \<lfloor>of_int p * - m\<rfloor>" and "\<lfloor>of_int p * - m\<rfloor> < 512"
proof -
  have p: "(-180 :: rat) < of_int p" "of_int p \<le> (180 :: rat)" using assms(1,2) by linarith+
  show "-512 \<le> \<lfloor>of_int p * - m\<rfloor>" using p by (simp add: m le_floor_iff)
  show "\<lfloor>of_int p * - m\<rfloor> < 512" using p by (simp add: m floor_less_iff)
qed

lemma unscale_floor:
  fixes p :: int and m :: rat
  assumes "1 \<le> m"
  shows "\<lfloor>of_int \<lfloor>of_int p * - m\<rfloor> / - m\<rfloor> = p"
proof -
  define k where "k = \<lfloor>of_int p * - m\<rfloor>"
  have le: "(of_int k :: rat) \<le> - (of_int p * m)"
    using of_int_floor_le [of "of_int p * - m"] by (simp add: k_def)
  have gt: "- (of_int p * m) < (of_int k :: rat) + 1"
    unfolding k_def by (simp, linarith)
  have "\<lfloor>of_int k / - m\<rfloor> = p"
  proof (rule floor_unique)
    show "of_int p \<le> of_int k / - m" using le assms by (simp add: field_simps)
    have "- (of_int k :: rat) < of_int p * m + m" using gt assms by linarith
    then show "of_int k / - m < of_int p + 1" using assms by (simp add: field_simps)
  qed
  then show ?thesis by (simp add: k_def)
qed

lemma bank_is_pitch_multiplier: "(512 / 180 :: rat) = 256 / 90"
  by simp

lemma pitchMultiplier_rat: "pitchMultiplier dbl_rat = 256 / 90"
  by (simp add: pitchMultiplier_def)

lemma bankMultiplier_rat: "bankMultiplier dbl_rat = 256 / 90"
  by (simp add: bankMultiplier_def)

lemma headingMultiplier_rat: "headingMultiplier dbl_rat = 1024 / 360"
  by (simp add: headingMultiplier_def)

lemma pitch_roundtrip_rat:
  fixes p :: int
  assumes "-180 < p" and "p \<le> 180"
  shows "fst (unpackPBH dbl_rat (packPBH dbl_rat (of_int p) b h g)) = of_int p"
proof -
  define m where "m = pitchMultiplier dbl_rat"
  have m: "m = 256 / 90" "1 \<le> m" by (simp_all add: m_def pitchMultiplier_rat)
  show ?thesis
    using scaled_floor_bounds [OF assms m(1)] unscale_floor [OF m(2), of p]
    by (simp add: unpackPBH_def packPBH_def pbh_fields signed_take_bit_9_id flip: m_def)
qed

lemma bank_roundtrip_rat:
  fixes b :: int
  assumes "-180 < b" and "b \<le> 180"
  shows "fst (snd (unpackPBH dbl_rat (packPBH dbl_rat p (of_int b) h g))) = of_int b"
proof -
  define m where "m = bankMultiplier dbl_rat"
  have m: "m = 256 / 90" "1 \<le> m" by (simp_all add: m_def bankMultiplier_rat)
  show ?thesis
    using scaled_floor_bounds [OF assms m(1)] unscale_floor [OF m(2), of b]
    by (simp add: unpackPBH_def packPBH_def pbh_fields signed_take_bit_9_id flip: m_def)
qed

lemma scaled_trunc:
  fixes h m :: rat
  assumes "0 \<le> h" and "h < 360" and "m = 1024 / 360"
  shows "0 \<le> rat_trunc (h * m)" and "rat_trunc (h * m) < 1024"
    and "of_int (rat_trunc (h * m)) \<le> h * m" and "h * m < of_int (rat_trunc (h * m)) + 1"
proof -
  have nn: "0 \<le> h * m" using assms by simp
  then have t: "rat_trunc (h * m) = \<lfloor>h * m\<rfloor>" by (simp add: rat_trunc_def)
  have "h * m < 1024" using assms(2) by (simp add: assms(3))
  then show "rat_trunc (h * m) < 1024" by (simp add: t floor_less_iff)
  show "0 \<le> rat_trunc (h * m)" using nn by (simp add: t)
  show "of_int (rat_trunc (h * m)) \<le> h * m" by (simp only: t of_int_floor_le)
  show "h * m < of_int (rat_trunc (h * m)) + 1" unfolding t by linarith
qed

lemma heading_error_rat:
  fixes p b h :: rat and g :: bool
  assumes "0 \<le> h" and "h < 360"
  defines "r \<equiv> fst (snd (snd (unpackPBH dbl_rat (packPBH dbl_rat p b h g))))"
  shows "r \<le> h" and "h - r < 360 / 1024"
proof -
  define m where "m = headingMultiplier dbl_rat"
  have m: "m = 1024 / 360" "0 < m" by (simp_all add: m_def headingMultiplier_rat)
  note t = scaled_trunc [OF assms(1,2) m(1)]
  have r: "r = of_int (rat_trunc (h * m)) / m"
    using t(1,2) by (simp add: r_def unpackPBH_def packPBH_def pbh_fields take_bit_10_id flip: m_def)
  show "r \<le> h" using t(3) m(2) by (simp add: r field_simps)
  have "h * m - of_int (rat_trunc (h * m)) < 1" using t(4) by simp
  then have "(h - r) * m < 1" using m(2) by (simp add: r left_diff_distrib)
  then show "h - r < 360 / 1024" using m by (simp add: field_simps)
qed

end
