(* ===== verification/Aircraft_Lights.thy ===== *)
theory Aircraft_Lights
  imports Fsd_Prelude
begin

text \<open>
  The lights of an aircraft, \<open>CAircraftLights\<close> (\<open>src/misc/aviation/aircraftlights.cpp\<close> and
  its header): the value class with its constructors, the operations on all lights, the
  access by property index and the text form.
\<close>

record CAircraftLights =
  m_isNull :: bool
  m_strobeOn :: bool
  m_landingOn :: bool
  m_taxiOn :: bool
  m_beaconOn :: bool
  m_navOn :: bool
  m_logoOn :: bool
  m_recognitionOn :: bool
  m_cabinOn :: bool
  m_wingOn :: bool

definition CAircraftLights_default :: CAircraftLights where
  "CAircraftLights_default =
     \<lparr>m_isNull = False, m_strobeOn = False, m_landingOn = False, m_taxiOn = False,
      m_beaconOn = False, m_navOn = False, m_logoOn = False, m_recognitionOn = False,
      m_cabinOn = False, m_wingOn = False\<rparr>"

definition CAircraftLights_null :: CAircraftLights where
  "CAircraftLights_null = CAircraftLights_default\<lparr>m_isNull := True\<rparr>"

definition mkLights6 ::
  "bool \<Rightarrow> bool \<Rightarrow> bool \<Rightarrow> bool \<Rightarrow> bool \<Rightarrow> bool \<Rightarrow> CAircraftLights" where
  "mkLights6 strobeOn landingOn taxiOn beaconOn navOn logoOn =
     CAircraftLights_default\<lparr>m_strobeOn := strobeOn, m_landingOn := landingOn,
       m_taxiOn := taxiOn, m_beaconOn := beaconOn, m_navOn := navOn, m_logoOn := logoOn\<rparr>"

definition mkLights8 ::
  "bool \<Rightarrow> bool \<Rightarrow> bool \<Rightarrow> bool \<Rightarrow> bool \<Rightarrow> bool \<Rightarrow> bool \<Rightarrow> bool \<Rightarrow> CAircraftLights" where
  "mkLights8 strobeOn landingOn taxiOn beaconOn navOn logoOn recognition cabin =
     CAircraftLights_default\<lparr>m_strobeOn := strobeOn, m_landingOn := landingOn,
       m_taxiOn := taxiOn, m_beaconOn := beaconOn, m_navOn := navOn, m_logoOn := logoOn,
       m_recognitionOn := recognition, m_cabinOn := cabin\<rparr>"

definition mkLights9 ::
  "bool \<Rightarrow> bool \<Rightarrow> bool \<Rightarrow> bool \<Rightarrow> bool \<Rightarrow> bool \<Rightarrow> bool \<Rightarrow> bool \<Rightarrow> bool \<Rightarrow> CAircraftLights" where
  "mkLights9 strobeOn landingOn taxiOn beaconOn navOn logoOn recognition cabin wing =
     CAircraftLights_default\<lparr>m_strobeOn := strobeOn, m_landingOn := landingOn,
       m_taxiOn := taxiOn, m_beaconOn := beaconOn, m_navOn := navOn, m_logoOn := logoOn,
       m_recognitionOn := recognition, m_cabinOn := cabin, m_wingOn := wing\<rparr>"

definition allLightsOn :: CAircraftLights where
  "allLightsOn = mkLights9 True True True True True True True True True"

definition allLightsOff :: CAircraftLights where
  "allLightsOff = mkLights9 False False False False False False False False False"

definition setAllOn :: "CAircraftLights \<Rightarrow> CAircraftLights" where
  "setAllOn l = l\<lparr>m_beaconOn := True, m_landingOn := True, m_logoOn := True, m_navOn := True,
     m_strobeOn := True, m_taxiOn := True, m_cabinOn := True, m_recognitionOn := True,
     m_wingOn := True\<rparr>"

definition setAllOff :: "CAircraftLights \<Rightarrow> CAircraftLights" where
  "setAllOff l = l\<lparr>m_beaconOn := False, m_landingOn := False, m_logoOn := False,
     m_navOn := False, m_strobeOn := False, m_taxiOn := False, m_recognitionOn := False,
     m_cabinOn := False, m_wingOn := False\<rparr>"

subsection \<open>Access by index\<close>

datatype LightsIndex =
    IndexIsNull | IndexStrobe | IndexLanding | IndexTaxi | IndexBeacon | IndexNav | IndexLogo
  | IndexRecognition | IndexCabin | IndexWing

fun lights_propertyByIndex :: "LightsIndex \<Rightarrow> CAircraftLights \<Rightarrow> bool" where
  "lights_propertyByIndex IndexIsNull l = m_isNull l"
| "lights_propertyByIndex IndexBeacon l = m_beaconOn l"
| "lights_propertyByIndex IndexLanding l = m_landingOn l"
| "lights_propertyByIndex IndexLogo l = m_logoOn l"
| "lights_propertyByIndex IndexNav l = m_navOn l"
| "lights_propertyByIndex IndexStrobe l = m_strobeOn l"
| "lights_propertyByIndex IndexTaxi l = m_taxiOn l"
| "lights_propertyByIndex IndexRecognition l = m_recognitionOn l"
| "lights_propertyByIndex IndexCabin l = m_cabinOn l"
| "lights_propertyByIndex IndexWing l = m_wingOn l"

fun lights_setPropertyByIndex :: "LightsIndex \<Rightarrow> bool \<Rightarrow> CAircraftLights \<Rightarrow> CAircraftLights" where
  "lights_setPropertyByIndex IndexIsNull v l = l\<lparr>m_isNull := v\<rparr>"
| "lights_setPropertyByIndex IndexBeacon v l = l\<lparr>m_beaconOn := v\<rparr>"
| "lights_setPropertyByIndex IndexLanding v l = l\<lparr>m_landingOn := v\<rparr>"
| "lights_setPropertyByIndex IndexLogo v l = l\<lparr>m_logoOn := v\<rparr>"
| "lights_setPropertyByIndex IndexNav v l = l\<lparr>m_navOn := v\<rparr>"
| "lights_setPropertyByIndex IndexStrobe v l = l\<lparr>m_strobeOn := v\<rparr>"
| "lights_setPropertyByIndex IndexTaxi v l = l\<lparr>m_taxiOn := v\<rparr>"
| "lights_setPropertyByIndex IndexCabin v l = l\<lparr>m_cabinOn := v\<rparr>"
| "lights_setPropertyByIndex IndexRecognition v l = l\<lparr>m_recognitionOn := v\<rparr>"
| "lights_setPropertyByIndex IndexWing v l = l\<lparr>m_wingOn := v\<rparr>"

definition compare_bool :: "bool \<Rightarrow> bool \<Rightarrow> int" where
  "compare_bool a b = (if \<not> a \<and> b then -1 else if a \<and> \<not> b then 1 else 0)"

definition lights_comparePropertyByIndex ::
  "LightsIndex \<Rightarrow> CAircraftLights \<Rightarrow> CAircraftLights \<Rightarrow> int" where
  "lights_comparePropertyByIndex i l compareValue =
     compare_bool (lights_propertyByIndex i l) (lights_propertyByIndex i compareValue)"

text \<open>A property store: what was set at an index is read there and nothing else changes.\<close>

locale property_store =
  fixes get :: "'i \<Rightarrow> 's \<Rightarrow> 'v"
    and set' :: "'i \<Rightarrow> 'v \<Rightarrow> 's \<Rightarrow> 's"
  assumes get_set: "get i (set' i v s) = v"
    and get_set_other: "i \<noteq> j \<Longrightarrow> get j (set' i v s) = get j s"
    and state_eqI: "(\<And>i. get i s = get i t) \<Longrightarrow> s = t"
begin

lemma set_same: "set' i (get i s) s = s"
  by (rule state_eqI) (metis get_set get_set_other)

lemma set_twice: "set' i v (set' i w s) = set' i v s"
  by (rule state_eqI) (metis get_set get_set_other)

lemma set_commute: "i \<noteq> j \<Longrightarrow> set' i v (set' j w s) = set' j w (set' i v s)"
  by (rule state_eqI) (metis get_set get_set_other)

end

lemma lights_eqI:
  "(\<And>i. lights_propertyByIndex i s = lights_propertyByIndex i t) \<Longrightarrow> s = t"
proof -
  assume e: "\<And>i. lights_propertyByIndex i s = lights_propertyByIndex i t"
  show "s = t"
    using e [of IndexIsNull] e [of IndexStrobe] e [of IndexLanding] e [of IndexTaxi]
      e [of IndexBeacon] e [of IndexNav] e [of IndexLogo] e [of IndexRecognition]
      e [of IndexCabin] e [of IndexWing] by simp
qed

interpretation lights_store: property_store lights_propertyByIndex lights_setPropertyByIndex
proof unfold_locales
  fix i j :: LightsIndex and v s t
  show "lights_propertyByIndex i (lights_setPropertyByIndex i v s) = v"
    by (cases i) simp_all
  show "i \<noteq> j \<Longrightarrow> lights_propertyByIndex j (lights_setPropertyByIndex i v s)
      = lights_propertyByIndex j s"
    by (cases i; cases j) simp_all
  show "s = t" if "\<And>i. lights_propertyByIndex i s = lights_propertyByIndex i t" for s t
    using that by (rule lights_eqI)
qed

lemma setAllOn_index: "i \<noteq> IndexIsNull \<Longrightarrow> lights_propertyByIndex i (setAllOn l)"
  by (cases i) (simp_all add: setAllOn_def)

lemma setAllOff_index: "i \<noteq> IndexIsNull \<Longrightarrow> \<not> lights_propertyByIndex i (setAllOff l)"
  by (cases i) (simp_all add: setAllOff_def)

lemma compare_bool_0_iff: "compare_bool a b = 0 \<longleftrightarrow> a = b"
  by (auto simp: compare_bool_def)

lemma lights_compare_all_0:
  "(\<forall>i. lights_comparePropertyByIndex i l r = 0) \<longleftrightarrow> l = r"
  by (auto simp: lights_comparePropertyByIndex_def compare_bool_0_iff intro: lights_eqI)

end
