(* ===== verification/Fsd_Position_Messages.thy ===== *)
theory Fsd_Position_Messages
  imports Fsd_Session_Messages Fsd_Pbh Aircraft_Lights
begin

unbundle bit_operations_syntax

text \<open>
  The position messages of pilots and controllers (\<open>src/core/fsd\<close>). The arithmetic and the
  text of floating-point numbers is the parameter \<open>D\<close> (theory \<open>Fsd_Double\<close>); the attitude
  is packed as in \<open>Fsd_Pbh\<close>. \<open>canonical\<close> asks that each number is one its text
  identifies.
\<close>

text \<open>The packed attitude as it is read from a token.\<close>

definition readPBH :: "'d dbl \<Rightarrow> string \<Rightarrow> 'd \<times> 'd \<times> 'd \<times> bool" where
  "readPBH D token = unpackPBH D (word_of_int (toUInt token))"

lemma readPBH_pack:
  "pbhExact D p b h \<Longrightarrow> readPBH D (number (uint (packPBH D p b h g))) = (p, b, h, g)"
  by (simp add: readPBH_def uint_pbh_bounds unpack_pack_exact)

lemma wrap32_cancel: "int32 p \<Longrightarrow> wrap32 (wrap32 (p - t) + t) = p"
  using wrap32_add_cancel [of p t] by (simp add: add.commute)

subsection \<open>AtcDataUpdate\<close>

text \<open>
  The guard asks for seven tokens; the code then reads token 7.
\<close>

record 'd AtcDataUpdate = MessageBase +
  ad_frequencykHz :: int
  ad_facility :: FacilityType
  ad_visibleRange :: int
  ad_rating :: AtcRating
  ad_latitude :: "'d"
  ad_longitude :: "'d"
  ad_elevation :: int

definition AtcDataUpdate_pdu :: string where
  "AtcDataUpdate_pdu = ''%''"

definition mkAtcDataUpdate :: "string \<Rightarrow> int \<Rightarrow> FacilityType \<Rightarrow> int \<Rightarrow> AtcRating \<Rightarrow> 'd \<Rightarrow> 'd \<Rightarrow> int \<Rightarrow> 'd AtcDataUpdate" where
  "mkAtcDataUpdate sender frequencykHz facility visibleRange rating latitude longitude elevation =
     \<lparr>m_sender = sender,
      m_receiver = [],
      m_isValid = True,
      ad_frequencykHz = frequencykHz,
      ad_facility = facility,
      ad_visibleRange = visibleRange,
      ad_rating = rating,
      ad_latitude = latitude,
      ad_longitude = longitude,
      ad_elevation = elevation\<rparr>"

definition AtcDataUpdate_default :: "'d dbl \<Rightarrow> 'd AtcDataUpdate" where
  "AtcDataUpdate_default D =
     \<lparr>m_sender = [],
      m_receiver = [],
      m_isValid = True,
      ad_frequencykHz = 0,
      ad_facility = FacilityType.Unknown,
      ad_visibleRange = 0,
      ad_rating = AtcRating.Unknown,
      ad_latitude = dOfInt D 0,
      ad_longitude = dOfInt D 0,
      ad_elevation = 0\<rparr>"

definition AtcDataUpdate_toTokens :: "'d dbl \<Rightarrow> 'd AtcDataUpdate \<Rightarrow> string list" where
  "AtcDataUpdate_toTokens D m =
     [m_sender m, number (wrap32 (ad_frequencykHz m - 100000)),
      toQString_FacilityType (ad_facility m), number (ad_visibleRange m),
      toQString_AtcRating (ad_rating m), dNumber D (ad_latitude m) 5, dNumber D (ad_longitude m) 5,
      number (ad_elevation m)]"

definition AtcDataUpdate_fromTokens :: "'d dbl \<Rightarrow> string list \<Rightarrow> 'd AtcDataUpdate option" where
  "AtcDataUpdate_fromTokens D tokens =
     (if length tokens < 7 then Some (AtcDataUpdate_default D)
      else do {
       t0 \<leftarrow> at_opt tokens 0;
       t1 \<leftarrow> at_opt tokens 1;
       t2 \<leftarrow> at_opt tokens 2;
       t3 \<leftarrow> at_opt tokens 3;
       t4 \<leftarrow> at_opt tokens 4;
       t5 \<leftarrow> at_opt tokens 5;
       t6 \<leftarrow> at_opt tokens 6;
       t7 \<leftarrow> at_opt tokens 7;
       Some (mkAtcDataUpdate t0 (wrap32 (toInt t1 + 100000)) (fromQString_FacilityType t2)
              (toInt t3) (fromQString_AtcRating t4) (toDouble D t5) (toDouble D t6) (toInt t7))
     })"

definition AtcDataUpdate_canonical :: "'d dbl \<Rightarrow> 'd AtcDataUpdate \<Rightarrow> bool" where
  "AtcDataUpdate_canonical D m \<longleftrightarrow>
     m_receiver m = [] \<and> int32 (ad_frequencykHz m) \<and> int32 (ad_visibleRange m)
     \<and> int32 (ad_elevation m) \<and> dExact D 5 (ad_latitude m) \<and> dExact D 5 (ad_longitude m)"

lemmas AtcDataUpdate_defs [fsd_defs] =
  AtcDataUpdate_pdu_def AtcDataUpdate_default_def AtcDataUpdate_toTokens_def AtcDataUpdate_fromTokens_def AtcDataUpdate_canonical_def mkAtcDataUpdate_def

lemma AtcDataUpdate_read:
  assumes "m_isValid m" and "AtcDataUpdate_canonical D m"
  shows "AtcDataUpdate_fromTokens D (AtcDataUpdate_toTokens D m) = Some m"
  using assms by (cases m rule: AtcDataUpdate.cases) (simp add: AtcDataUpdate_defs wrap32_cancel dExact_simps atcRating.from_to facilityType.from_to)

interpretation atcDataUpdate: token_codec AtcDataUpdate_pdu MessageType.AtcDataUpdate "AtcDataUpdate_toTokens D" "AtcDataUpdate_fromTokens D" "AtcDataUpdate_canonical D"
  by unfold_locales (simp add: AtcDataUpdate_pdu_def messageTypeMapping_def, rule AtcDataUpdate_read)

subsection \<open>PilotDataUpdate\<close>

record 'd PilotDataUpdate = MessageBase +
  pd_transponderMode :: TransponderMode
  pd_transponderCode :: int
  pd_rating :: PilotRating
  pd_latitude :: "'d"
  pd_longitude :: "'d"
  pd_altitudeTrue :: int
  pd_altitudePressure :: int
  pd_groundSpeed :: int
  pd_pitch :: "'d"
  pd_bank :: "'d"
  pd_heading :: "'d"
  pd_onGround :: bool

definition PilotDataUpdate_pdu :: string where
  "PilotDataUpdate_pdu = ''@''"

definition mkPilotDataUpdate :: "TransponderMode \<Rightarrow> string \<Rightarrow> int \<Rightarrow> PilotRating \<Rightarrow> 'd \<Rightarrow> 'd \<Rightarrow> int \<Rightarrow> int \<Rightarrow> int \<Rightarrow> 'd \<Rightarrow> 'd \<Rightarrow> 'd \<Rightarrow> bool \<Rightarrow> 'd PilotDataUpdate" where
  "mkPilotDataUpdate transponderMode sender transponderCode rating latitude longitude altitudeTrue altitudePressure groundSpeed pitch bank heading onGround =
     \<lparr>m_sender = sender,
      m_receiver = [],
      m_isValid = True,
      pd_transponderMode = transponderMode,
      pd_transponderCode = transponderCode,
      pd_rating = rating,
      pd_latitude = latitude,
      pd_longitude = longitude,
      pd_altitudeTrue = altitudeTrue,
      pd_altitudePressure = altitudePressure,
      pd_groundSpeed = groundSpeed,
      pd_pitch = pitch,
      pd_bank = bank,
      pd_heading = heading,
      pd_onGround = onGround\<rparr>"

definition PilotDataUpdate_default :: "'d dbl \<Rightarrow> 'd PilotDataUpdate" where
  "PilotDataUpdate_default D =
     \<lparr>m_sender = [],
      m_receiver = [],
      m_isValid = True,
      pd_transponderMode = StateStandby,
      pd_transponderCode = 0,
      pd_rating = PilotRating.Unknown,
      pd_latitude = dOfInt D 0,
      pd_longitude = dOfInt D 0,
      pd_altitudeTrue = 0,
      pd_altitudePressure = 0,
      pd_groundSpeed = 0,
      pd_pitch = dOfInt D 0,
      pd_bank = dOfInt D 0,
      pd_heading = dOfInt D 0,
      pd_onGround = False\<rparr>"

definition PilotDataUpdate_toTokens :: "'d dbl \<Rightarrow> 'd PilotDataUpdate \<Rightarrow> string list" where
  "PilotDataUpdate_toTokens D m =
     [toQString_TransponderMode (pd_transponderMode m), m_sender m, number (pd_transponderCode m),
      toQString_PilotRating (pd_rating m), dNumber D (pd_latitude m) 5, dNumber D (pd_longitude m) 5,
      number (pd_altitudeTrue m), number (pd_groundSpeed m),
      number (uint (packPBH D (pd_pitch m) (pd_bank m) (pd_heading m) (pd_onGround m))),
      number (wrap32 (pd_altitudePressure m - pd_altitudeTrue m))]"

definition PilotDataUpdate_fromTokens :: "'d dbl \<Rightarrow> string list \<Rightarrow> 'd PilotDataUpdate option" where
  "PilotDataUpdate_fromTokens D tokens =
     (if length tokens < 10 then Some (PilotDataUpdate_default D)
      else do {
       t0 \<leftarrow> at_opt tokens 0;
       t1 \<leftarrow> at_opt tokens 1;
       t2 \<leftarrow> at_opt tokens 2;
       t3 \<leftarrow> at_opt tokens 3;
       t4 \<leftarrow> at_opt tokens 4;
       t5 \<leftarrow> at_opt tokens 5;
       t6 \<leftarrow> at_opt tokens 6;
       t7 \<leftarrow> at_opt tokens 7;
       t8 \<leftarrow> at_opt tokens 8;
       t9 \<leftarrow> at_opt tokens 9;
       Some (case readPBH D t8 of (pitch, bank, heading, onGround) \<Rightarrow>
              mkPilotDataUpdate (fromQString_TransponderMode t0) t1 (toInt t2)
                (fromQString_PilotRating t3) (toDouble D t4) (toDouble D t5) (toInt t6)
                (wrap32 (toInt t6 + toInt t9)) (toInt t7) pitch bank heading onGround)
     })"

definition PilotDataUpdate_canonical :: "'d dbl \<Rightarrow> 'd PilotDataUpdate \<Rightarrow> bool" where
  "PilotDataUpdate_canonical D m \<longleftrightarrow>
     m_receiver m = [] \<and> mode_canonical (pd_transponderMode m) \<and> int32 (pd_transponderCode m)
     \<and> int32 (pd_altitudeTrue m) \<and> int32 (pd_altitudePressure m) \<and> int32 (pd_groundSpeed m)
     \<and> dExact D 5 (pd_latitude m) \<and> dExact D 5 (pd_longitude m)
     \<and> pbhExact D (pd_pitch m) (pd_bank m) (pd_heading m)"

lemmas PilotDataUpdate_defs [fsd_defs] =
  PilotDataUpdate_pdu_def PilotDataUpdate_default_def PilotDataUpdate_toTokens_def PilotDataUpdate_fromTokens_def PilotDataUpdate_canonical_def mkPilotDataUpdate_def

lemma PilotDataUpdate_read:
  assumes "m_isValid m" and "PilotDataUpdate_canonical D m"
  shows "PilotDataUpdate_fromTokens D (PilotDataUpdate_toTokens D m) = Some m"
  using assms by (cases m rule: PilotDataUpdate.cases) (simp add: PilotDataUpdate_defs wrap32_add_cancel dExact_simps readPBH_pack transponderMode.from_to pilotRating.from_to)

interpretation pilotDataUpdate: token_codec PilotDataUpdate_pdu MessageType.PilotDataUpdate "PilotDataUpdate_toTokens D" "PilotDataUpdate_fromTokens D" "PilotDataUpdate_canonical D"
  by unfold_locales (simp add: PilotDataUpdate_pdu_def messageTypeMapping_def, rule PilotDataUpdate_read)

subsection \<open>InterimPilotDataUpdate\<close>

record 'd InterimPilotDataUpdate = MessageBase +
  ip_latitude :: "'d"
  ip_longitude :: "'d"
  ip_altitudeTrue :: int
  ip_groundSpeed :: int
  ip_pitch :: "'d"
  ip_bank :: "'d"
  ip_heading :: "'d"
  ip_onGround :: bool

definition InterimPilotDataUpdate_pdu :: string where
  "InterimPilotDataUpdate_pdu = ''#SB''"

definition mkInterimPilotDataUpdate :: "string \<Rightarrow> string \<Rightarrow> 'd \<Rightarrow> 'd \<Rightarrow> int \<Rightarrow> int \<Rightarrow> 'd \<Rightarrow> 'd \<Rightarrow> 'd \<Rightarrow> bool \<Rightarrow> 'd InterimPilotDataUpdate" where
  "mkInterimPilotDataUpdate sender receiver latitude longitude altitudeTrue groundSpeed pitch bank heading onGround =
     \<lparr>m_sender = sender,
      m_receiver = receiver,
      m_isValid = True,
      ip_latitude = latitude,
      ip_longitude = longitude,
      ip_altitudeTrue = altitudeTrue,
      ip_groundSpeed = groundSpeed,
      ip_pitch = pitch,
      ip_bank = bank,
      ip_heading = heading,
      ip_onGround = onGround\<rparr>"

definition InterimPilotDataUpdate_default :: "'d dbl \<Rightarrow> 'd InterimPilotDataUpdate" where
  "InterimPilotDataUpdate_default D =
     \<lparr>m_sender = [],
      m_receiver = [],
      m_isValid = True,
      ip_latitude = dOfInt D 0,
      ip_longitude = dOfInt D 0,
      ip_altitudeTrue = 0,
      ip_groundSpeed = 0,
      ip_pitch = dOfInt D 0,
      ip_bank = dOfInt D 0,
      ip_heading = dOfInt D 0,
      ip_onGround = False\<rparr>"

definition InterimPilotDataUpdate_toTokens :: "'d dbl \<Rightarrow> 'd InterimPilotDataUpdate \<Rightarrow> string list" where
  "InterimPilotDataUpdate_toTokens D m =
     [m_sender m, m_receiver m, ''VI'', dNumber D (ip_latitude m) 5, dNumber D (ip_longitude m) 5,
      number (ip_altitudeTrue m), number (ip_groundSpeed m),
      number (uint (packPBH D (ip_pitch m) (ip_bank m) (ip_heading m) (ip_onGround m)))]"

definition InterimPilotDataUpdate_fromTokens :: "'d dbl \<Rightarrow> string list \<Rightarrow> 'd InterimPilotDataUpdate option" where
  "InterimPilotDataUpdate_fromTokens D tokens =
     (if length tokens < 8 then Some (InterimPilotDataUpdate_default D)
      else do {
       t0 \<leftarrow> at_opt tokens 0;
       t1 \<leftarrow> at_opt tokens 1;
       t3 \<leftarrow> at_opt tokens 3;
       t4 \<leftarrow> at_opt tokens 4;
       t5 \<leftarrow> at_opt tokens 5;
       t6 \<leftarrow> at_opt tokens 6;
       t7 \<leftarrow> at_opt tokens 7;
       Some (case readPBH D t7 of (pitch, bank, heading, onGround) \<Rightarrow>
              mkInterimPilotDataUpdate t0 t1 (toDouble D t3) (toDouble D t4) (toInt t5) (toInt t6)
                pitch bank heading onGround)
     })"

definition InterimPilotDataUpdate_canonical :: "'d dbl \<Rightarrow> 'd InterimPilotDataUpdate \<Rightarrow> bool" where
  "InterimPilotDataUpdate_canonical D m \<longleftrightarrow>
     int32 (ip_altitudeTrue m) \<and> int32 (ip_groundSpeed m)
     \<and> dExact D 5 (ip_latitude m) \<and> dExact D 5 (ip_longitude m)
     \<and> pbhExact D (ip_pitch m) (ip_bank m) (ip_heading m)"

lemmas InterimPilotDataUpdate_defs [fsd_defs] =
  InterimPilotDataUpdate_pdu_def InterimPilotDataUpdate_default_def InterimPilotDataUpdate_toTokens_def InterimPilotDataUpdate_fromTokens_def InterimPilotDataUpdate_canonical_def mkInterimPilotDataUpdate_def

lemma InterimPilotDataUpdate_read:
  assumes "m_isValid m" and "InterimPilotDataUpdate_canonical D m"
  shows "InterimPilotDataUpdate_fromTokens D (InterimPilotDataUpdate_toTokens D m) = Some m"
  using assms by (cases m rule: InterimPilotDataUpdate.cases) (simp add: InterimPilotDataUpdate_defs dExact_simps readPBH_pack)

interpretation interimPilotDataUpdate: token_codec InterimPilotDataUpdate_pdu MessageType.PilotClientCom "InterimPilotDataUpdate_toTokens D" "InterimPilotDataUpdate_fromTokens D" "InterimPilotDataUpdate_canonical D"
  by unfold_locales (simp add: InterimPilotDataUpdate_pdu_def messageTypeMapping_def, rule InterimPilotDataUpdate_read)

subsection \<open>VisualPilotDataUpdate\<close>

record 'd VisualPilotDataUpdate = MessageBase +
  vu_latitude :: "'d"
  vu_longitude :: "'d"
  vu_altitudeTrue :: "'d"
  vu_heightAgl :: "'d"
  vu_pitch :: "'d"
  vu_bank :: "'d"
  vu_heading :: "'d"
  vu_xVelocity :: "'d"
  vu_yVelocity :: "'d"
  vu_zVelocity :: "'d"
  vu_pitchRadPerSec :: "'d"
  vu_bankRadPerSec :: "'d"
  vu_headingRadPerSec :: "'d"
  vu_noseGearAngle :: "'d"

definition VisualPilotDataUpdate_pdu :: string where
  "VisualPilotDataUpdate_pdu = ''^''"

definition mkVisualPilotDataUpdate :: "string \<Rightarrow> 'd \<Rightarrow> 'd \<Rightarrow> 'd \<Rightarrow> 'd \<Rightarrow> 'd \<Rightarrow> 'd \<Rightarrow> 'd \<Rightarrow> 'd \<Rightarrow> 'd \<Rightarrow> 'd \<Rightarrow> 'd \<Rightarrow> 'd \<Rightarrow> 'd \<Rightarrow> 'd \<Rightarrow> 'd VisualPilotDataUpdate" where
  "mkVisualPilotDataUpdate sender latitude longitude altitudeTrue heightAgl pitch bank heading xVelocity yVelocity zVelocity pitchRadPerSec bankRadPerSec headingRadPerSec noseGearAngle =
     \<lparr>m_sender = sender,
      m_receiver = [],
      m_isValid = True,
      vu_latitude = latitude,
      vu_longitude = longitude,
      vu_altitudeTrue = altitudeTrue,
      vu_heightAgl = heightAgl,
      vu_pitch = pitch,
      vu_bank = bank,
      vu_heading = heading,
      vu_xVelocity = xVelocity,
      vu_yVelocity = yVelocity,
      vu_zVelocity = zVelocity,
      vu_pitchRadPerSec = pitchRadPerSec,
      vu_bankRadPerSec = bankRadPerSec,
      vu_headingRadPerSec = headingRadPerSec,
      vu_noseGearAngle = noseGearAngle\<rparr>"

definition VisualPilotDataUpdate_default :: "'d dbl \<Rightarrow> 'd VisualPilotDataUpdate" where
  "VisualPilotDataUpdate_default D =
     \<lparr>m_sender = [],
      m_receiver = [],
      m_isValid = True,
      vu_latitude = dOfInt D 0,
      vu_longitude = dOfInt D 0,
      vu_altitudeTrue = dOfInt D 0,
      vu_heightAgl = dOfInt D 0,
      vu_pitch = dOfInt D 0,
      vu_bank = dOfInt D 0,
      vu_heading = dOfInt D 0,
      vu_xVelocity = dOfInt D 0,
      vu_yVelocity = dOfInt D 0,
      vu_zVelocity = dOfInt D 0,
      vu_pitchRadPerSec = dOfInt D 0,
      vu_bankRadPerSec = dOfInt D 0,
      vu_headingRadPerSec = dOfInt D 0,
      vu_noseGearAngle = dOfInt D 0\<rparr>"

definition VisualPilotDataUpdate_toTokens :: "'d dbl \<Rightarrow> 'd VisualPilotDataUpdate \<Rightarrow> string list" where
  "VisualPilotDataUpdate_toTokens D m =
     [m_sender m, dNumber D (vu_latitude m) 7, dNumber D (vu_longitude m) 7,
      dNumber D (vu_altitudeTrue m) 2, dNumber D (vu_heightAgl m) 2,
      number (uint (packPBH D (vu_pitch m) (vu_bank m) (vu_heading m) False)),
      dNumber D (vu_xVelocity m) 4, dNumber D (vu_yVelocity m) 4, dNumber D (vu_zVelocity m) 4,
      dNumber D (vu_pitchRadPerSec m) 4, dNumber D (vu_headingRadPerSec m) 4,
      dNumber D (vu_bankRadPerSec m) 4, dNumber D (vu_noseGearAngle m) 2]"

definition VisualPilotDataUpdate_fromTokens :: "'d dbl \<Rightarrow> string list \<Rightarrow> 'd VisualPilotDataUpdate option" where
  "VisualPilotDataUpdate_fromTokens D tokens =
     (if length tokens < 12 then Some (VisualPilotDataUpdate_default D)
      else do {
       t0 \<leftarrow> at_opt tokens 0;
       t1 \<leftarrow> at_opt tokens 1;
       t2 \<leftarrow> at_opt tokens 2;
       t3 \<leftarrow> at_opt tokens 3;
       t4 \<leftarrow> at_opt tokens 4;
       t5 \<leftarrow> at_opt tokens 5;
       t6 \<leftarrow> at_opt tokens 6;
       t7 \<leftarrow> at_opt tokens 7;
       t8 \<leftarrow> at_opt tokens 8;
       t9 \<leftarrow> at_opt tokens 9;
       t10 \<leftarrow> at_opt tokens 10;
       t11 \<leftarrow> at_opt tokens 11;
       Some (case readPBH D t5 of (pitch, bank, heading, unused) \<Rightarrow>
              mkVisualPilotDataUpdate t0 (toDouble D t1) (toDouble D t2) (toDouble D t3) (toDouble D t4)
                pitch bank heading (toDouble D t6) (toDouble D t7) (toDouble D t8) (toDouble D t9)
                (toDouble D t11) (toDouble D t10) (toDouble D (at_default tokens 12 ''0'')))
     })"

definition VisualPilotDataUpdate_canonical :: "'d dbl \<Rightarrow> 'd VisualPilotDataUpdate \<Rightarrow> bool" where
  "VisualPilotDataUpdate_canonical D m \<longleftrightarrow>
     m_receiver m = []
     \<and> dExact D 7 (vu_latitude m) \<and> dExact D 7 (vu_longitude m)
     \<and> dExact D 2 (vu_altitudeTrue m) \<and> dExact D 2 (vu_heightAgl m)
     \<and> dExact D 4 (vu_xVelocity m) \<and> dExact D 4 (vu_yVelocity m) \<and> dExact D 4 (vu_zVelocity m)
     \<and> dExact D 4 (vu_pitchRadPerSec m) \<and> dExact D 4 (vu_bankRadPerSec m) \<and> dExact D 4 (vu_headingRadPerSec m)
     \<and> dExact D 2 (vu_noseGearAngle m) \<and> pbhExact D (vu_pitch m) (vu_bank m) (vu_heading m)"

lemmas VisualPilotDataUpdate_defs [fsd_defs] =
  VisualPilotDataUpdate_pdu_def VisualPilotDataUpdate_default_def VisualPilotDataUpdate_toTokens_def VisualPilotDataUpdate_fromTokens_def VisualPilotDataUpdate_canonical_def mkVisualPilotDataUpdate_def

lemma VisualPilotDataUpdate_read:
  assumes "m_isValid m" and "VisualPilotDataUpdate_canonical D m"
  shows "VisualPilotDataUpdate_fromTokens D (VisualPilotDataUpdate_toTokens D m) = Some m"
  using assms by (cases m rule: VisualPilotDataUpdate.cases) (simp add: VisualPilotDataUpdate_defs dExact_simps readPBH_pack)

interpretation visualPilotDataUpdate: token_codec VisualPilotDataUpdate_pdu MessageType.VisualPilotDataUpdate "VisualPilotDataUpdate_toTokens D" "VisualPilotDataUpdate_fromTokens D" "VisualPilotDataUpdate_canonical D"
  by unfold_locales (simp add: VisualPilotDataUpdate_pdu_def messageTypeMapping_def, rule VisualPilotDataUpdate_read)

subsection \<open>VisualPilotDataPeriodic\<close>

record 'd VisualPilotDataPeriodic = MessageBase +
  vp_latitude :: "'d"
  vp_longitude :: "'d"
  vp_altitudeTrue :: "'d"
  vp_heightAgl :: "'d"
  vp_pitch :: "'d"
  vp_bank :: "'d"
  vp_heading :: "'d"
  vp_xVelocity :: "'d"
  vp_yVelocity :: "'d"
  vp_zVelocity :: "'d"
  vp_pitchRadPerSec :: "'d"
  vp_bankRadPerSec :: "'d"
  vp_headingRadPerSec :: "'d"
  vp_noseGearAngle :: "'d"

definition VisualPilotDataPeriodic_pdu :: string where
  "VisualPilotDataPeriodic_pdu = ''#SL''"

definition mkVisualPilotDataPeriodic :: "string \<Rightarrow> 'd \<Rightarrow> 'd \<Rightarrow> 'd \<Rightarrow> 'd \<Rightarrow> 'd \<Rightarrow> 'd \<Rightarrow> 'd \<Rightarrow> 'd \<Rightarrow> 'd \<Rightarrow> 'd \<Rightarrow> 'd \<Rightarrow> 'd \<Rightarrow> 'd \<Rightarrow> 'd \<Rightarrow> 'd VisualPilotDataPeriodic" where
  "mkVisualPilotDataPeriodic sender latitude longitude altitudeTrue heightAgl pitch bank heading xVelocity yVelocity zVelocity pitchRadPerSec bankRadPerSec headingRadPerSec noseGearAngle =
     \<lparr>m_sender = sender,
      m_receiver = [],
      m_isValid = True,
      vp_latitude = latitude,
      vp_longitude = longitude,
      vp_altitudeTrue = altitudeTrue,
      vp_heightAgl = heightAgl,
      vp_pitch = pitch,
      vp_bank = bank,
      vp_heading = heading,
      vp_xVelocity = xVelocity,
      vp_yVelocity = yVelocity,
      vp_zVelocity = zVelocity,
      vp_pitchRadPerSec = pitchRadPerSec,
      vp_bankRadPerSec = bankRadPerSec,
      vp_headingRadPerSec = headingRadPerSec,
      vp_noseGearAngle = noseGearAngle\<rparr>"

definition VisualPilotDataPeriodic_default :: "'d dbl \<Rightarrow> 'd VisualPilotDataPeriodic" where
  "VisualPilotDataPeriodic_default D =
     \<lparr>m_sender = [],
      m_receiver = [],
      m_isValid = True,
      vp_latitude = dOfInt D 0,
      vp_longitude = dOfInt D 0,
      vp_altitudeTrue = dOfInt D 0,
      vp_heightAgl = dOfInt D 0,
      vp_pitch = dOfInt D 0,
      vp_bank = dOfInt D 0,
      vp_heading = dOfInt D 0,
      vp_xVelocity = dOfInt D 0,
      vp_yVelocity = dOfInt D 0,
      vp_zVelocity = dOfInt D 0,
      vp_pitchRadPerSec = dOfInt D 0,
      vp_bankRadPerSec = dOfInt D 0,
      vp_headingRadPerSec = dOfInt D 0,
      vp_noseGearAngle = dOfInt D 0\<rparr>"

definition VisualPilotDataPeriodic_toTokens :: "'d dbl \<Rightarrow> 'd VisualPilotDataPeriodic \<Rightarrow> string list" where
  "VisualPilotDataPeriodic_toTokens D m =
     [m_sender m, dNumber D (vp_latitude m) 7, dNumber D (vp_longitude m) 7,
      dNumber D (vp_altitudeTrue m) 2, dNumber D (vp_heightAgl m) 2,
      number (uint (packPBH D (vp_pitch m) (vp_bank m) (vp_heading m) False)),
      dNumber D (vp_xVelocity m) 4, dNumber D (vp_yVelocity m) 4, dNumber D (vp_zVelocity m) 4,
      dNumber D (vp_pitchRadPerSec m) 4, dNumber D (vp_headingRadPerSec m) 4,
      dNumber D (vp_bankRadPerSec m) 4, dNumber D (vp_noseGearAngle m) 2]"

definition VisualPilotDataPeriodic_fromTokens :: "'d dbl \<Rightarrow> string list \<Rightarrow> 'd VisualPilotDataPeriodic option" where
  "VisualPilotDataPeriodic_fromTokens D tokens =
     (if length tokens < 12 then Some (VisualPilotDataPeriodic_default D)
      else do {
       t0 \<leftarrow> at_opt tokens 0;
       t1 \<leftarrow> at_opt tokens 1;
       t2 \<leftarrow> at_opt tokens 2;
       t3 \<leftarrow> at_opt tokens 3;
       t4 \<leftarrow> at_opt tokens 4;
       t5 \<leftarrow> at_opt tokens 5;
       t6 \<leftarrow> at_opt tokens 6;
       t7 \<leftarrow> at_opt tokens 7;
       t8 \<leftarrow> at_opt tokens 8;
       t9 \<leftarrow> at_opt tokens 9;
       t10 \<leftarrow> at_opt tokens 10;
       t11 \<leftarrow> at_opt tokens 11;
       Some (case readPBH D t5 of (pitch, bank, heading, unused) \<Rightarrow>
              mkVisualPilotDataPeriodic t0 (toDouble D t1) (toDouble D t2) (toDouble D t3) (toDouble D t4)
                pitch bank heading (toDouble D t6) (toDouble D t7) (toDouble D t8) (toDouble D t9)
                (toDouble D t11) (toDouble D t10) (toDouble D (at_default tokens 12 ''0'')))
     })"

definition VisualPilotDataPeriodic_canonical :: "'d dbl \<Rightarrow> 'd VisualPilotDataPeriodic \<Rightarrow> bool" where
  "VisualPilotDataPeriodic_canonical D m \<longleftrightarrow>
     m_receiver m = []
     \<and> dExact D 7 (vp_latitude m) \<and> dExact D 7 (vp_longitude m)
     \<and> dExact D 2 (vp_altitudeTrue m) \<and> dExact D 2 (vp_heightAgl m)
     \<and> dExact D 4 (vp_xVelocity m) \<and> dExact D 4 (vp_yVelocity m) \<and> dExact D 4 (vp_zVelocity m)
     \<and> dExact D 4 (vp_pitchRadPerSec m) \<and> dExact D 4 (vp_bankRadPerSec m) \<and> dExact D 4 (vp_headingRadPerSec m)
     \<and> dExact D 2 (vp_noseGearAngle m) \<and> pbhExact D (vp_pitch m) (vp_bank m) (vp_heading m)"

lemmas VisualPilotDataPeriodic_defs [fsd_defs] =
  VisualPilotDataPeriodic_pdu_def VisualPilotDataPeriodic_default_def VisualPilotDataPeriodic_toTokens_def VisualPilotDataPeriodic_fromTokens_def VisualPilotDataPeriodic_canonical_def mkVisualPilotDataPeriodic_def

lemma VisualPilotDataPeriodic_read:
  assumes "m_isValid m" and "VisualPilotDataPeriodic_canonical D m"
  shows "VisualPilotDataPeriodic_fromTokens D (VisualPilotDataPeriodic_toTokens D m) = Some m"
  using assms by (cases m rule: VisualPilotDataPeriodic.cases) (simp add: VisualPilotDataPeriodic_defs dExact_simps readPBH_pack)

interpretation visualPilotDataPeriodic: token_codec VisualPilotDataPeriodic_pdu MessageType.VisualPilotDataPeriodic "VisualPilotDataPeriodic_toTokens D" "VisualPilotDataPeriodic_fromTokens D" "VisualPilotDataPeriodic_canonical D"
  by unfold_locales (simp add: VisualPilotDataPeriodic_pdu_def messageTypeMapping_def, rule VisualPilotDataPeriodic_read)

subsection \<open>VisualPilotDataStopped\<close>

text \<open>
  The nose gear angle is written as token 6 and read as token 12.
\<close>

record 'd VisualPilotDataStopped = MessageBase +
  vs_latitude :: "'d"
  vs_longitude :: "'d"
  vs_altitudeTrue :: "'d"
  vs_heightAgl :: "'d"
  vs_pitch :: "'d"
  vs_bank :: "'d"
  vs_heading :: "'d"
  vs_noseGearAngle :: "'d"

definition VisualPilotDataStopped_pdu :: string where
  "VisualPilotDataStopped_pdu = ''#ST''"

definition mkVisualPilotDataStopped :: "string \<Rightarrow> 'd \<Rightarrow> 'd \<Rightarrow> 'd \<Rightarrow> 'd \<Rightarrow> 'd \<Rightarrow> 'd \<Rightarrow> 'd \<Rightarrow> 'd \<Rightarrow> 'd VisualPilotDataStopped" where
  "mkVisualPilotDataStopped sender latitude longitude altitudeTrue heightAgl pitch bank heading noseGearAngle =
     \<lparr>m_sender = sender,
      m_receiver = [],
      m_isValid = True,
      vs_latitude = latitude,
      vs_longitude = longitude,
      vs_altitudeTrue = altitudeTrue,
      vs_heightAgl = heightAgl,
      vs_pitch = pitch,
      vs_bank = bank,
      vs_heading = heading,
      vs_noseGearAngle = noseGearAngle\<rparr>"

definition VisualPilotDataStopped_default :: "'d dbl \<Rightarrow> 'd VisualPilotDataStopped" where
  "VisualPilotDataStopped_default D =
     \<lparr>m_sender = [],
      m_receiver = [],
      m_isValid = True,
      vs_latitude = dOfInt D 0,
      vs_longitude = dOfInt D 0,
      vs_altitudeTrue = dOfInt D 0,
      vs_heightAgl = dOfInt D 0,
      vs_pitch = dOfInt D 0,
      vs_bank = dOfInt D 0,
      vs_heading = dOfInt D 0,
      vs_noseGearAngle = dOfInt D 0\<rparr>"

definition VisualPilotDataStopped_toTokens :: "'d dbl \<Rightarrow> 'd VisualPilotDataStopped \<Rightarrow> string list" where
  "VisualPilotDataStopped_toTokens D m =
     [m_sender m, dNumber D (vs_latitude m) 7, dNumber D (vs_longitude m) 7,
      dNumber D (vs_altitudeTrue m) 2, dNumber D (vs_heightAgl m) 2,
      number (uint (packPBH D (vs_pitch m) (vs_bank m) (vs_heading m) False)),
      dNumber D (vs_noseGearAngle m) 2]"

definition VisualPilotDataStopped_fromTokens :: "'d dbl \<Rightarrow> string list \<Rightarrow> 'd VisualPilotDataStopped option" where
  "VisualPilotDataStopped_fromTokens D tokens =
     (if length tokens < 6 then Some (VisualPilotDataStopped_default D)
      else do {
       t0 \<leftarrow> at_opt tokens 0;
       t1 \<leftarrow> at_opt tokens 1;
       t2 \<leftarrow> at_opt tokens 2;
       t3 \<leftarrow> at_opt tokens 3;
       t4 \<leftarrow> at_opt tokens 4;
       t5 \<leftarrow> at_opt tokens 5;
       Some (case readPBH D t5 of (pitch, bank, heading, unused) \<Rightarrow>
              mkVisualPilotDataStopped t0 (toDouble D t1) (toDouble D t2) (toDouble D t3) (toDouble D t4)
                pitch bank heading (toDouble D (at_default tokens 12 ''0'')))
     })"

definition VisualPilotDataStopped_canonical :: "'d dbl \<Rightarrow> 'd VisualPilotDataStopped \<Rightarrow> bool" where
  "VisualPilotDataStopped_canonical D m \<longleftrightarrow>
     m_receiver m = []
     \<and> dExact D 7 (vs_latitude m) \<and> dExact D 7 (vs_longitude m)
     \<and> dExact D 2 (vs_altitudeTrue m) \<and> dExact D 2 (vs_heightAgl m)
     \<and> toDouble D ''0'' = vs_noseGearAngle m \<and> pbhExact D (vs_pitch m) (vs_bank m) (vs_heading m)"

lemmas VisualPilotDataStopped_defs [fsd_defs] =
  VisualPilotDataStopped_pdu_def VisualPilotDataStopped_default_def VisualPilotDataStopped_toTokens_def VisualPilotDataStopped_fromTokens_def VisualPilotDataStopped_canonical_def mkVisualPilotDataStopped_def

lemma VisualPilotDataStopped_read:
  assumes "m_isValid m" and "VisualPilotDataStopped_canonical D m"
  shows "VisualPilotDataStopped_fromTokens D (VisualPilotDataStopped_toTokens D m) = Some m"
  using assms by (cases m rule: VisualPilotDataStopped.cases) (simp add: VisualPilotDataStopped_defs dExact_simps readPBH_pack)

interpretation visualPilotDataStopped: token_codec VisualPilotDataStopped_pdu MessageType.VisualPilotDataStopped "VisualPilotDataStopped_toTokens D" "VisualPilotDataStopped_fromTokens D" "VisualPilotDataStopped_canonical D"
  by unfold_locales (simp add: VisualPilotDataStopped_pdu_def messageTypeMapping_def, rule VisualPilotDataStopped_read)

subsection \<open>VisualPilotDataToggle\<close>

record VisualPilotDataToggle = MessageBase +
  vt_client :: string
  vt_active :: bool

definition VisualPilotDataToggle_pdu :: string where
  "VisualPilotDataToggle_pdu = ''$SF''"

definition mkVisualPilotDataToggle :: "string \<Rightarrow> string \<Rightarrow> bool \<Rightarrow> VisualPilotDataToggle" where
  "mkVisualPilotDataToggle sender client active =
     \<lparr>m_sender = sender,
      m_receiver = [],
      m_isValid = True,
      vt_client = client,
      vt_active = active\<rparr>"

definition VisualPilotDataToggle_default :: "VisualPilotDataToggle" where
  "VisualPilotDataToggle_default =
     \<lparr>m_sender = [],
      m_receiver = [],
      m_isValid = True,
      vt_client = [],
      vt_active = False\<rparr>"

definition VisualPilotDataToggle_toTokens :: "VisualPilotDataToggle \<Rightarrow> string list" where
  "VisualPilotDataToggle_toTokens m =
     [m_sender m, vt_client m, number (if vt_active m then 1 else 0)]"

definition VisualPilotDataToggle_fromTokens :: "string list \<Rightarrow> VisualPilotDataToggle option" where
  "VisualPilotDataToggle_fromTokens tokens =
     (if length tokens < 3 then Some VisualPilotDataToggle_default
      else do {
       t0 \<leftarrow> at_opt tokens 0;
       t1 \<leftarrow> at_opt tokens 1;
       t2 \<leftarrow> at_opt tokens 2;
       Some (mkVisualPilotDataToggle t0 t1 (t2 = ''1''))
     })"

definition VisualPilotDataToggle_canonical :: "VisualPilotDataToggle \<Rightarrow> bool" where
  "VisualPilotDataToggle_canonical m \<longleftrightarrow>
     m_receiver m = []"

lemmas VisualPilotDataToggle_defs [fsd_defs] =
  VisualPilotDataToggle_pdu_def VisualPilotDataToggle_default_def VisualPilotDataToggle_toTokens_def VisualPilotDataToggle_fromTokens_def VisualPilotDataToggle_canonical_def mkVisualPilotDataToggle_def

lemma VisualPilotDataToggle_read:
  assumes "m_isValid m" and "VisualPilotDataToggle_canonical m"
  shows "VisualPilotDataToggle_fromTokens (VisualPilotDataToggle_toTokens m) = Some m"
  using assms by (cases m rule: VisualPilotDataToggle.cases) (simp add: VisualPilotDataToggle_defs number_flag)

interpretation visualPilotDataToggle: token_codec VisualPilotDataToggle_pdu MessageType.VisualPilotDataToggle VisualPilotDataToggle_toTokens VisualPilotDataToggle_fromTokens VisualPilotDataToggle_canonical
  by unfold_locales (simp add: VisualPilotDataToggle_pdu_def messageTypeMapping_def, rule VisualPilotDataToggle_read)

subsection \<open>Conversions between the visual messages\<close>

definition toPeriodic :: "'d VisualPilotDataUpdate \<Rightarrow> 'd VisualPilotDataPeriodic" where
  "toPeriodic m = mkVisualPilotDataPeriodic (m_sender m) (vu_latitude m) (vu_longitude m) (vu_altitudeTrue m) (vu_heightAgl m)
     (vu_pitch m) (vu_bank m) (vu_heading m) (vu_xVelocity m)
     (vu_yVelocity m) (vu_zVelocity m) (vu_pitchRadPerSec m) (vu_bankRadPerSec m)
     (vu_headingRadPerSec m) (vu_noseGearAngle m)"

definition toStopped :: "'d VisualPilotDataUpdate \<Rightarrow> 'd VisualPilotDataStopped" where
  "toStopped m = mkVisualPilotDataStopped (m_sender m) (vu_latitude m) (vu_longitude m) (vu_altitudeTrue m) (vu_heightAgl m)
     (vu_pitch m) (vu_bank m) (vu_heading m) (vu_noseGearAngle m)"

definition periodic_toUpdate :: "'d VisualPilotDataPeriodic \<Rightarrow> 'd VisualPilotDataUpdate" where
  "periodic_toUpdate m = mkVisualPilotDataUpdate (m_sender m) (vp_latitude m) (vp_longitude m) (vp_altitudeTrue m) (vp_heightAgl m)
     (vp_pitch m) (vp_bank m) (vp_heading m) (vp_xVelocity m)
     (vp_yVelocity m) (vp_zVelocity m) (vp_pitchRadPerSec m) (vp_bankRadPerSec m)
     (vp_headingRadPerSec m) (vp_noseGearAngle m)"

definition stopped_toUpdate :: "'d dbl \<Rightarrow> 'd VisualPilotDataStopped \<Rightarrow> 'd VisualPilotDataUpdate" where
  "stopped_toUpdate D m = mkVisualPilotDataUpdate (m_sender m) (vs_latitude m) (vs_longitude m) (vs_altitudeTrue m) (vs_heightAgl m)
     (vs_pitch m) (vs_bank m) (vs_heading m)
     (dOfInt D 0) (dOfInt D 0) (dOfInt D 0) (dOfInt D 0) (dOfInt D 0) (dOfInt D 0)
     (vs_noseGearAngle m)"

subsection \<open>Simulator data for controllers\<close>

text \<open>The lights as flags of an \<open>int\<close>.\<close>

definition toFlags :: "CAircraftLights \<Rightarrow> int" where
  "toFlags lights =
     (if m_beaconOn lights then 0x002 else 0) OR (if m_cabinOn lights then 0x400 else 0)
     OR (if m_landingOn lights then 0x020 else 0) OR (if m_logoOn lights then 0x200 else 0)
     OR (if m_navOn lights then 0x008 else 0) OR (if m_recognitionOn lights then 0x080 else 0)
     OR (if m_strobeOn lights then 0x004 else 0) OR (if m_taxiOn lights then 0x040 else 0)"

definition fromFlags :: "int \<Rightarrow> CAircraftLights" where
  "fromFlags n =
     mkLights8 (n AND 0x4 \<noteq> 0) (n AND 0x20 \<noteq> 0) (n AND 0x40 \<noteq> 0) (n AND 0x2 \<noteq> 0)
       (n AND 0x8 \<noteq> 0) (n AND 0x200 \<noteq> 0) (n AND 0x80 \<noteq> 0) (n AND 0x400 \<noteq> 0)"

text \<open>The lights the flags can express.\<close>

definition flag_lights :: "CAircraftLights \<Rightarrow> bool" where
  "flag_lights l \<longleftrightarrow> \<not> m_isNull l \<and> \<not> m_wingOn l"

lemma fromFlags_toFlags:
  "flag_lights l \<Longrightarrow> fromFlags (toFlags l) = l"
proof (cases l)
  case (fields n s la t b na lo r c w)
  assume "flag_lights l"
  then have "\<not> n" "\<not> w" using fields by (simp_all add: flag_lights_def)
  then show ?thesis
    by (cases s; cases la; cases t; cases b; cases na; cases lo; cases r; cases c)
      (simp_all add: fields toFlags_def fromFlags_def mkLights8_def CAircraftLights_default_def)
qed

lemma int32_toFlags: "int32 (toFlags l)"
  by (simp add: toFlags_def int32_def)

text \<open>An integer the text of which reads back as a double that truncates to it.\<close>

definition intText :: "'d dbl \<Rightarrow> int \<Rightarrow> bool" where
  "intText D n \<longleftrightarrow> dTrunc D (toDouble D (number n)) = n"

lemma toInt_flag: "toInt ''1'' \<noteq> 0" "toInt ''0'' = 0"
  by code_simp+

subsection \<open>EuroscopeSimData\<close>

text \<open>
  The gear and thrust percentages are integers in the message and doubles in the
  constructor: reading truncates them.
\<close>

record 'd EuroscopeSimData = MessageBase +
  es_model :: string
  es_livery :: string
  es_timestamp :: int
  es_latitude :: "'d"
  es_longitude :: "'d"
  es_altitude :: "'d"
  es_heading :: "'d"
  es_bank :: int
  es_pitch :: int
  es_groundSpeed :: int
  es_onGround :: bool
  es_gearPercent :: int
  es_thrustPercent :: int
  es_lights :: CAircraftLights

definition EuroscopeSimData_pdu :: string where
  "EuroscopeSimData_pdu = ''SIMDATA''"

definition mkEuroscopeSimData :: "'d dbl \<Rightarrow> string \<Rightarrow> string \<Rightarrow> string \<Rightarrow> int \<Rightarrow> 'd \<Rightarrow> 'd \<Rightarrow> 'd \<Rightarrow> 'd \<Rightarrow> int \<Rightarrow> int \<Rightarrow> int \<Rightarrow> bool \<Rightarrow> 'd \<Rightarrow> 'd \<Rightarrow> CAircraftLights \<Rightarrow> 'd EuroscopeSimData" where
  "mkEuroscopeSimData D sender model livery timestamp latitude longitude altitude heading bank pitch groundSpeed onGround gearPercent thrustPercent lights =
     \<lparr>m_sender = sender,
      m_receiver = [],
      m_isValid = True,
      es_model = model,
      es_livery = livery,
      es_timestamp = timestamp,
      es_latitude = latitude,
      es_longitude = longitude,
      es_altitude = altitude,
      es_heading = heading,
      es_bank = bank,
      es_pitch = pitch,
      es_groundSpeed = groundSpeed,
      es_onGround = onGround,
      es_gearPercent = dTrunc D gearPercent,
      es_thrustPercent = dTrunc D thrustPercent,
      es_lights = lights\<rparr>"

definition EuroscopeSimData_default :: "'d dbl \<Rightarrow> 'd EuroscopeSimData" where
  "EuroscopeSimData_default D =
     \<lparr>m_sender = [],
      m_receiver = [],
      m_isValid = True,
      es_model = [],
      es_livery = [],
      es_timestamp = 0,
      es_latitude = dOfInt D 0,
      es_longitude = dOfInt D 0,
      es_altitude = dOfInt D 0,
      es_heading = dOfInt D 0,
      es_bank = 0,
      es_pitch = 0,
      es_groundSpeed = 0,
      es_onGround = False,
      es_gearPercent = 0,
      es_thrustPercent = 0,
      es_lights = CAircraftLights_default\<rparr>"

definition EuroscopeSimData_toTokens :: "'d dbl \<Rightarrow> 'd EuroscopeSimData \<Rightarrow> string list" where
  "EuroscopeSimData_toTokens D m =
     [[], m_sender m, es_model m, es_livery m, number (es_timestamp m),
      dNumber D (es_latitude m) 7, dNumber D (es_longitude m) 7, dNumber D (es_altitude m) 1,
      dNumber D (es_heading m) 2, number (es_bank m), number (es_pitch m), number (es_groundSpeed m),
      (if es_onGround m then ''1'' else ''0''), number (es_gearPercent m),
      number (es_thrustPercent m), ''0'', ''0.0'', number (toFlags (es_lights m))]"

definition EuroscopeSimData_fromTokens :: "'d dbl \<Rightarrow> string list \<Rightarrow> 'd EuroscopeSimData option" where
  "EuroscopeSimData_fromTokens D tokens =
     (if length tokens < 18 then Some (EuroscopeSimData_default D)
      else do {
       t1 \<leftarrow> at_opt tokens 1;
       t2 \<leftarrow> at_opt tokens 2;
       t3 \<leftarrow> at_opt tokens 3;
       t4 \<leftarrow> at_opt tokens 4;
       t5 \<leftarrow> at_opt tokens 5;
       t6 \<leftarrow> at_opt tokens 6;
       t7 \<leftarrow> at_opt tokens 7;
       t8 \<leftarrow> at_opt tokens 8;
       t9 \<leftarrow> at_opt tokens 9;
       t10 \<leftarrow> at_opt tokens 10;
       t11 \<leftarrow> at_opt tokens 11;
       t12 \<leftarrow> at_opt tokens 12;
       t13 \<leftarrow> at_opt tokens 13;
       t14 \<leftarrow> at_opt tokens 14;
       t17 \<leftarrow> at_opt tokens 17;
       Some (mkEuroscopeSimData D t1 t2 t3 (toULongLong t4) (toDouble D t5) (toDouble D t6)
              (toDouble D t7) (toDouble D t8) (toInt t9) (toInt t10) (toInt t11) (toInt t12 \<noteq> 0)
              (toDouble D t13) (toDouble D t14) (fromFlags (toInt t17)))
     })"

definition EuroscopeSimData_canonical :: "'d dbl \<Rightarrow> 'd EuroscopeSimData \<Rightarrow> bool" where
  "EuroscopeSimData_canonical D m \<longleftrightarrow>
     m_receiver m = [] \<and> 0 \<le> es_timestamp m \<and> es_timestamp m \<le> 18446744073709551615
     \<and> dExact D 7 (es_latitude m) \<and> dExact D 7 (es_longitude m)
     \<and> dExact D 1 (es_altitude m) \<and> dExact D 2 (es_heading m)
     \<and> int32 (es_bank m) \<and> int32 (es_pitch m) \<and> int32 (es_groundSpeed m)
     \<and> intText D (es_gearPercent m) \<and> intText D (es_thrustPercent m) \<and> flag_lights (es_lights m)"

lemmas EuroscopeSimData_defs [fsd_defs] =
  EuroscopeSimData_pdu_def EuroscopeSimData_default_def EuroscopeSimData_toTokens_def EuroscopeSimData_fromTokens_def EuroscopeSimData_canonical_def mkEuroscopeSimData_def

lemma EuroscopeSimData_read:
  assumes "m_isValid m" and "EuroscopeSimData_canonical D m"
  shows "EuroscopeSimData_fromTokens D (EuroscopeSimData_toTokens D m) = Some m"
  using assms by (cases m rule: EuroscopeSimData.cases) (simp add: EuroscopeSimData_defs dExact_simps fromFlags_toFlags int32_toFlags intText_def toInt_flag)

interpretation euroscopeSimData: token_codec EuroscopeSimData_pdu MessageType.EuroscopeSimData "EuroscopeSimData_toTokens D" "EuroscopeSimData_fromTokens D" "EuroscopeSimData_canonical D"
  by unfold_locales (simp add: EuroscopeSimData_pdu_def messageTypeMapping_def, rule EuroscopeSimData_read)

end
