(* ===== verification/Aviation_Callsign.thy ===== *)
theory Aviation_Callsign
  imports Qt_Number
begin

text \<open>
  Callsigns, \<open>CCallsign\<close> (\<open>src/misc/aviation/callsign.cpp\<close>): the normalised form
  (\<open>unifyCallsign\<close>), suffixes, the classification of callsigns, their validity and the
  split into airline prefix and flight number. Callsigns are compared and hashed by their
  normalised string only.
\<close>

datatype TypeHint = NoHint | Aircraft | Atc

record CCallsign =
  cs_callsignAsSet :: string
  cs_callsign :: string
  cs_telephonyDesignator :: string
  cs_typeHint :: TypeHint

definition atcCallsignSuffixes :: "string list" where
  "atcCallsignSuffixes = [''APP'', ''GND'', ''DEP'', ''TWR'', ''DEL'', ''CTR'']"

definition atcAlikeCallsignSuffixes :: "string list" where
  "atcAlikeCallsignSuffixes =
     [''ATIS'', ''APP'', ''GND'', ''OBS'', ''DEP'', ''TWR'', ''DEL'', ''CTR'', ''SUP'', ''FSS'', ''INS'']"

definition looksLikeAtcCallsign :: "string \<Rightarrow> bool" where
  "looksLikeAtcCallsign callsign \<longleftrightarrow>
     CHR ''_'' \<in> set callsign
     \<and> list_ex (\<lambda>r. endsWith (toUpper callsign) r) atcAlikeCallsignSuffixes"

definition notAtcChar :: "char \<Rightarrow> bool" where
  "notAtcChar c \<longleftrightarrow> \<not> isLetterOrNumber c \<and> c \<noteq> CHR ''_'' \<and> c \<noteq> CHR ''-''"

definition notAircraftChar :: "char \<Rightarrow> bool" where
  "notAircraftChar c \<longleftrightarrow> \<not> isLetterOrNumber c \<and> c \<noteq> CHR ''_''"

definition unifyCallsign :: "string \<Rightarrow> TypeHint \<Rightarrow> string" where
  "unifyCallsign callsign hint =
     (let ucCallsign = toUpper (trimmed callsign) in
      case hint of
        Atc \<Rightarrow> removeChars ucCallsign notAtcChar
      | Aircraft \<Rightarrow> removeChars ucCallsign notAircraftChar
      | NoHint \<Rightarrow>
          if looksLikeAtcCallsign ucCallsign then removeChars ucCallsign notAtcChar
          else removeChars ucCallsign notAircraftChar)"

definition mkCallsign :: "string \<Rightarrow> TypeHint \<Rightarrow> CCallsign" where
  "mkCallsign callsign hint =
     \<lparr>cs_callsignAsSet = trimmed callsign, cs_callsign = unifyCallsign callsign hint,
      cs_telephonyDesignator = [], cs_typeHint = hint\<rparr>"

definition mkCallsignTel :: "string \<Rightarrow> string \<Rightarrow> TypeHint \<Rightarrow> CCallsign" where
  "mkCallsignTel callsign telephonyDesignator hint =
     \<lparr>cs_callsignAsSet = trimmed callsign, cs_callsign = unifyCallsign callsign hint,
      cs_telephonyDesignator = trimmed telephonyDesignator, cs_typeHint = hint\<rparr>"

definition emptyCallsign :: CCallsign where
  "emptyCallsign =
     \<lparr>cs_callsignAsSet = [], cs_callsign = [], cs_telephonyDesignator = [], cs_typeHint = NoHint\<rparr>"

definition cs_isEmpty :: "CCallsign \<Rightarrow> bool" where
  "cs_isEmpty cs \<longleftrightarrow> cs_callsignAsSet cs = []"

definition cs_equal :: "CCallsign \<Rightarrow> CCallsign \<Rightarrow> bool" where
  "cs_equal a b \<longleftrightarrow> toUpper (cs_callsign a) = toUpper (cs_callsign b)"

definition equalsString :: "CCallsign \<Rightarrow> string \<Rightarrow> bool" where
  "equalsString cs callsignString = cs_equal (mkCallsign callsignString NoHint) cs"

subsection \<open>Suffixes\<close>

definition suffixOrder :: "string list" where
  "suffixOrder =
     [''FSS'', ''CTR'', ''APP'', ''DEP'', ''TWR'', ''GND'', ''DEL'', ''ATIS'', ''SUP'', ''OBS'',
      ''INS'', ''ADM'', ''VATGOV'', ''VATSIM'', ''EXAM'']"

fun indexFrom :: "int \<Rightarrow> string list \<Rightarrow> string \<Rightarrow> int option" where
  "indexFrom n [] s = None"
| "indexFrom n (x # xs) s = (if x = s then Some n else indexFrom (n + 1) xs s)"

definition suffixToSortOrder :: "string \<Rightarrow> int" where
  "suffixToSortOrder suffix =
     (case indexFrom 1 suffixOrder suffix of Some n \<Rightarrow> n | None \<Rightarrow> 2147483647)"

definition hasSuffix :: "CCallsign \<Rightarrow> bool" where
  "hasSuffix cs \<longleftrightarrow> CHR ''_'' \<in> set (cs_callsignAsSet cs)"

text \<open>\<open>section('_', -1)\<close>: the part after the last underscore.\<close>

definition getSuffix :: "CCallsign \<Rightarrow> string" where
  "getSuffix cs =
     (if hasSuffix cs then toUpper (last (qsplit CHR ''_'' (cs_callsignAsSet cs))) else [])"

definition hasAtcSuffix :: "CCallsign \<Rightarrow> bool" where
  "hasAtcSuffix cs \<longleftrightarrow> getSuffix cs \<noteq> [] \<and> getSuffix cs \<in> set atcCallsignSuffixes"

definition getSuffixSortOrder :: "CCallsign \<Rightarrow> int" where
  "getSuffixSortOrder cs = suffixToSortOrder (getSuffix cs)"

definition isAtcCallsign :: "CCallsign \<Rightarrow> bool" where
  "isAtcCallsign cs \<longleftrightarrow>
     (if cs_typeHint cs = Atc then True
      else if \<not> hasSuffix cs then False
      else toUpper (getSuffix cs) \<in> set atcCallsignSuffixes)"

definition isAtcAlikeCallsign :: "CCallsign \<Rightarrow> bool" where
  "isAtcAlikeCallsign cs \<longleftrightarrow>
     (if cs_typeHint cs = Aircraft then False
      else if \<not> hasSuffix cs then False
      else toUpper (getSuffix cs) \<in> set atcAlikeCallsignSuffixes)"

subsection \<open>Classification\<close>

definition isSupervisorCallsign :: "CCallsign \<Rightarrow> bool" where
  "isSupervisorCallsign cs \<longleftrightarrow>
     (if cs_typeHint cs = Aircraft then False else endsWith (cs_callsign cs) ''SUP'')"

definition isBroadcastCallsign :: "CCallsign \<Rightarrow> bool" where
  "isBroadcastCallsign cs \<longleftrightarrow>
     cs_callsignAsSet cs = ''*'' \<or> cs_callsign cs = ''*'' \<or> cs_callsignAsSet cs = ''BROADCAST''"

definition markAsBroadcastCallsign :: "CCallsign \<Rightarrow> CCallsign" where
  "markAsBroadcastCallsign cs = cs\<lparr>cs_callsignAsSet := ''BROADCAST'', cs_callsign := ''BROADCAST''\<rparr>"

definition markAsWallopCallsign :: "CCallsign \<Rightarrow> CCallsign" where
  "markAsWallopCallsign cs = cs\<lparr>cs_callsignAsSet := ''SUP'', cs_callsign := ''SUP''\<rparr>"

definition isMaybeCopilotCallsign :: "CCallsign \<Rightarrow> CCallsign \<Rightarrow> bool" where
  "isMaybeCopilotCallsign cs pilotCallsign \<longleftrightarrow>
     startsWith (cs_callsign cs) (cs_callsign pilotCallsign)
     \<and> length (cs_callsign cs) = length (cs_callsign pilotCallsign) + 1
     \<and> isUpperC (cs_callsign cs ! (length (cs_callsign cs) - 1))"

definition getFsdCallsignString :: "CCallsign \<Rightarrow> string" where
  "getFsdCallsignString cs =
     (if startsWith (cs_callsignAsSet cs) ''*'' then cs_callsignAsSet cs else cs_callsign cs)"

definition isSameAsSet :: "CCallsign \<Rightarrow> bool" where
  "isSameAsSet cs \<longleftrightarrow> cs_callsign cs = cs_callsignAsSet cs"

definition getIcaoCode :: "CCallsign \<Rightarrow> string" where
  "getIcaoCode cs =
     (if isAtcCallsign cs \<and> 4 \<le> length (cs_callsign cs) then toUpper (left (cs_callsign cs) 4) else [])"

definition endsWithObs :: "string \<Rightarrow> bool" where
  "endsWithObs s \<longleftrightarrow> endsWith (toUpper s) ''_OBS''"

definition isObserverCallsign :: "CCallsign \<Rightarrow> bool" where
  "isObserverCallsign cs \<longleftrightarrow> endsWithObs (cs_callsignAsSet cs)"

text \<open>\<open>left(lastIndexOf('_'))\<close>: without the part from the last underscore.\<close>

definition beforeLast :: "char \<Rightarrow> string \<Rightarrow> string" where
  "beforeLast c s = qjoin [c] (butlast (qsplit c s))"

definition getAsObserverCallsignString :: "CCallsign \<Rightarrow> string" where
  "getAsObserverCallsignString cs =
     (if cs_isEmpty cs then []
      else let obs = cs_callsignAsSet cs in
        if endsWithObs obs then obs
        else let base = (if CHR ''_'' \<in> set obs then beforeLast CHR ''_'' obs else obs)
             in toUpper (base @ ''_OBS''))"

subsection \<open>Airline prefix and flight number\<close>

text \<open>
  The match of \<open>(^[A-Z]{3,})(\d+)\<close>: the letters are followed by a digit, so the greedy
  match is the only one.
\<close>

definition prefixMatch :: "string \<Rightarrow> (string \<times> string) option" where
  "prefixMatch s =
     (let a = takeWhile isUpperC s; f = takeWhile isDigitC (dropWhile isUpperC s)
      in if 3 \<le> length a \<and> f \<noteq> [] then Some (a, f) else None)"

text \<open>The result: airline, flight number, flight identification.\<close>

definition getAirlinePrefix :: "CCallsign \<Rightarrow> string \<times> string \<times> string" where
  "getAirlinePrefix cs =
     (let s = cs_callsign cs in
      if length s < 3 \<or> isAtcCallsign cs then ([], [], [])
      else case prefixMatch s of
        None \<Rightarrow> ([], [], [])
      | Some (airline, flightNumber) \<Rightarrow>
          if length airline = 3 then
            (airline, flightNumber, if 3 < length s then mid s 3 else [])
          else if length airline = 4 \<and> startsWith airline ''V'' then
            (airline, flightNumber, if 4 < length s then mid s 4 else [])
          else if 1 \<le> length flightNumber \<and> length airline = 4 then
            (left airline 3, flightNumber, mid s 3)
          else ([], flightNumber, []))"

definition getFlightIndentification :: "CCallsign \<Rightarrow> string" where
  "getFlightIndentification cs =
     (if isAtcCallsign cs then []
      else case getAirlinePrefix cs of (airline, _, identification) \<Rightarrow>
        if airline = [] then [] else identification)"

definition getFlightNumber :: "CCallsign \<Rightarrow> string" where
  "getFlightNumber cs =
     (if isAtcCallsign cs then []
      else case getAirlinePrefix cs of (airline, flightNumber, _) \<Rightarrow>
        if airline = [] then [] else flightNumber)"

definition getFlightNumberInt :: "CCallsign \<Rightarrow> int" where
  "getFlightNumberInt cs =
     (if isAtcCallsign cs then -1
      else case toInt_ok (getFlightNumber cs) of Some fn \<Rightarrow> fn | None \<Rightarrow> -1)"

subsection \<open>Validity\<close>

definition isValidAircraftCallsign :: "string \<Rightarrow> bool" where
  "isValidAircraftCallsign callsign \<longleftrightarrow>
     \<not> (length callsign < 2 \<or> 10 < length callsign)
     \<and> \<not> containsChar callsign (\<lambda>c. \<not> isUpperC c \<and> \<not> isDigitC c)"

definition isValidAtcCallsign :: "string \<Rightarrow> bool" where
  "isValidAtcCallsign callsign \<longleftrightarrow>
     \<not> (length callsign < 2 \<or> 10 < length callsign)
     \<and> \<not> containsChar callsign
           (\<lambda>c. c \<noteq> CHR ''-'' \<and> c \<noteq> CHR ''_'' \<and> \<not> isUpperC c \<and> \<not> isDigitC c)"

definition cs_isValid :: "CCallsign \<Rightarrow> bool" where
  "cs_isValid cs =
     (case cs_typeHint cs of
        Atc \<Rightarrow> isValidAtcCallsign (cs_callsign cs)
      | Aircraft \<Rightarrow> isValidAircraftCallsign (cs_callsign cs)
      | NoHint \<Rightarrow> \<not> cs_isEmpty cs)"

subsection \<open>The normalised form\<close>

lemma endsWith_iff: "endsWith s p \<longleftrightarrow> (\<exists>r. s = r @ p)"
  by (auto simp: endsWith_def) (metis append_take_drop_id)

lemma removeChars_append: "removeChars (a @ b) p = removeChars a p @ removeChars b p"
  by (simp add: removeChars_def)

lemma upper_removeChars: "toUpper (removeChars (toUpper s) p) = removeChars (toUpper s) p"
  by (rule map_idI) (auto simp: removeChars_def)

lemma notAtcChar_notAircraftChar: "notAtcChar c \<Longrightarrow> notAircraftChar c"
  by (simp add: notAtcChar_def notAircraftChar_def)

lemma notAtcChar_space: "isSpace c \<Longrightarrow> notAtcChar c"
  by (auto simp: notAtcChar_def isSpace_def isLetterOrNumber_def isUpperC_def isLowerC_def isDigitC_def Let_def)

lemma trimmed_no_space: "\<forall>c \<in> set s. \<not> notAtcChar c \<Longrightarrow> trimmed s = s"
  using trimmed_filter_not_space notAtcChar_space by blast

lemma suffix_letters:
  "r \<in> set atcAlikeCallsignSuffixes \<Longrightarrow> c \<in> set r \<Longrightarrow> isUpperC c"
  by (auto simp: atcAlikeCallsignSuffixes_def isUpperC_def Let_def)

lemma removeChars_suffix:
  "r \<in> set atcAlikeCallsignSuffixes \<Longrightarrow> removeChars r notAtcChar = r"
  using suffix_letters
  by (fastforce simp: removeChars_def notAtcChar_def isLetterOrNumber_def intro: filter_idem_pred)

text \<open>Cleaning an ATC-like callsign keeps it ATC-like.\<close>

lemma looksLike_removeChars:
  assumes "looksLikeAtcCallsign (toUpper s)"
  shows "looksLikeAtcCallsign (removeChars (toUpper s) notAtcChar)"
proof -
  from assms obtain r where r: "r \<in> set atcAlikeCallsignSuffixes" and e: "endsWith (toUpper s) r"
    and u: "CHR ''_'' \<in> set (toUpper s)"
    unfolding looksLikeAtcCallsign_def toUpper_idem list_ex_iff by blast
  obtain q where "toUpper s = q @ r" using e by (auto simp: endsWith_iff)
  then have "removeChars (toUpper s) notAtcChar = removeChars q notAtcChar @ r"
    using removeChars_suffix [OF r] by (simp add: removeChars_append)
  then have "endsWith (removeChars (toUpper s) notAtcChar) r" by (auto simp: endsWith_iff)
  moreover have "CHR ''_'' \<in> set (removeChars (toUpper s) notAtcChar)"
    using u by (simp add: set_removeChars notAtcChar_def)
  ultimately show ?thesis
    using r by (auto simp: looksLikeAtcCallsign_def list_ex_iff upper_removeChars)
qed

lemma unify_cases:
  obtains (atc) "unifyCallsign s hint = removeChars (toUpper (trimmed s)) notAtcChar"
      "hint = NoHint \<Longrightarrow> looksLikeAtcCallsign (toUpper (trimmed s))" "hint \<noteq> Aircraft"
    | (aircraft) "unifyCallsign s hint = removeChars (toUpper (trimmed s)) notAircraftChar"
      "hint \<noteq> Atc"
  by (cases hint; cases "looksLikeAtcCallsign (toUpper (trimmed s))") (auto simp: unifyCallsign_def)

lemma unify_fixed:
  assumes "\<forall>c \<in> set s. \<not> notAtcChar c \<and> \<not> isLowerC c"
    and "hint = Atc \<or> (hint = NoHint \<and> looksLikeAtcCallsign s) \<or> (\<forall>c \<in> set s. \<not> notAircraftChar c)"
  shows "unifyCallsign s hint = s"
proof -
  have t: "trimmed s = s" using assms(1) by (intro trimmed_no_space) blast
  have u: "toUpper s = s" using assms(1) by (auto intro: map_idI)
  have "removeChars s notAtcChar = s"
    using assms(1) by (intro removeChars_id) (auto simp: containsChar_iff)
  moreover have "(\<forall>c \<in> set s. \<not> notAircraftChar c) \<Longrightarrow> removeChars s notAircraftChar = s"
    by (intro removeChars_id) (auto simp: containsChar_iff)
  ultimately show ?thesis
    using assms(2) by (auto simp: unifyCallsign_def t u split: TypeHint.splits)
qed

lemma unify_upper: "c \<in> set (unifyCallsign s hint) \<Longrightarrow> \<not> isLowerC c"
  by (cases s hint rule: unify_cases) (auto simp: set_removeChars)

lemma unify_chars: "c \<in> set (unifyCallsign s hint) \<Longrightarrow> \<not> notAtcChar c"
  by (cases s hint rule: unify_cases)
    (auto simp: set_removeChars dest: notAtcChar_notAircraftChar)

lemma unify_unify: "unifyCallsign (unifyCallsign s hint) hint = unifyCallsign s hint"
proof (rule unify_fixed)
  show "\<forall>c \<in> set (unifyCallsign s hint). \<not> notAtcChar c \<and> \<not> isLowerC c"
    using unify_upper unify_chars by blast
  show "hint = Atc \<or> hint = NoHint \<and> looksLikeAtcCallsign (unifyCallsign s hint)
      \<or> (\<forall>c \<in> set (unifyCallsign s hint). \<not> notAircraftChar c)"
  proof (cases s hint rule: unify_cases)
    case atc
    then show ?thesis using looksLike_removeChars by (cases hint) auto
  next
    case aircraft
    then show ?thesis by (auto simp: set_removeChars)
  qed
qed

lemma callsign_char_token:
  assumes "\<not> notAtcChar c"
  shows "\<not> isSpace c" and "c \<noteq> CHR '':''" and "c \<noteq> CHR ''@''" and "c \<noteq> CHR ''*''" and "c \<noteq> CHR ''&''"
proof -
  show "\<not> isSpace c" using assms notAtcChar_space by blast
qed (use assms in \<open>auto simp: notAtcChar_def isLetterOrNumber_def isUpperC_def isLowerC_def isDigitC_def\<close>)

lemma unify_token:
  "CHR '':'' \<notin> set (unifyCallsign s hint)" "no_outer_space (unifyCallsign s hint)"
proof -
  show "CHR '':'' \<notin> set (unifyCallsign s hint)" using unify_chars callsign_char_token(2) by blast
  show "no_outer_space (unifyCallsign s hint)"
    unfolding no_outer_space_def
    using callsign_char_token(1) [OF unify_chars] hd_in_set last_in_set by blast
qed

lemma unify_not_broadcast: "unifyCallsign s hint \<noteq> ''*''"
  using unify_chars [of "CHR ''*''" s hint] callsign_char_token(4) [of "CHR ''*''"] by auto

lemma valid_aircraft_unify:
  assumes "isValidAircraftCallsign s"
  shows "unifyCallsign s hint = s"
proof (rule unify_fixed)
  have c: "\<forall>c \<in> set s. isUpperC c \<or> isDigitC c"
    using assms by (auto simp: isValidAircraftCallsign_def containsChar_iff)
  then show "\<forall>c \<in> set s. \<not> notAtcChar c \<and> \<not> isLowerC c"
    by (auto simp: notAtcChar_def isLetterOrNumber_def isUpperC_not_isLowerC isDigitC_not_isLowerC)
  from c show "hint = Atc \<or> hint = NoHint \<and> looksLikeAtcCallsign s \<or> (\<forall>c \<in> set s. \<not> notAircraftChar c)"
    by (auto simp: notAircraftChar_def isLetterOrNumber_def)
qed

lemma valid_atc_unify:
  assumes "isValidAtcCallsign s"
  shows "unifyCallsign s Atc = s"
proof (rule unify_fixed)
  have l: "\<not> isLowerC CHR ''-''" "\<not> isLowerC CHR ''_''" by (simp_all add: isLowerC_def)
  show "\<forall>c \<in> set s. \<not> notAtcChar c \<and> \<not> isLowerC c"
  proof
    fix c
    assume "c \<in> set s"
    then consider "c = CHR ''-''" | "c = CHR ''_''" | "isUpperC c" | "isDigitC c"
      using assms by (auto simp: isValidAtcCallsign_def containsChar_iff)
    then show "\<not> notAtcChar c \<and> \<not> isLowerC c"
      by cases (simp_all add: notAtcChar_def isLetterOrNumber_def l isUpperC_not_isLowerC
          isDigitC_not_isLowerC)
  qed
qed simp

subsection \<open>Suffixes and observers\<close>

lemma qsplit_beforeLast:
  assumes "CHR ''_'' \<in> set s"
  shows "s = beforeLast CHR ''_'' s @ ''_'' @ last (qsplit CHR ''_'' s)"
proof -
  let ?w = "qsplit CHR ''_'' s"
  have l: "1 < length ?w" using assms by (simp add: length_qsplit count_list_0_iff flip: neq0_conv)
  then have b: "butlast ?w \<noteq> []" by (cases ?w) auto
  have "s = qjoin ''_'' (butlast ?w @ [last ?w])"
    using qjoin_qsplit [of "CHR ''_''" s] append_butlast_last_id [OF qsplit_nonempty] by simp
  then show ?thesis unfolding qjoin_append [OF b not_Cons_self2] by (simp add: beforeLast_def)
qed

lemma endsWithObs_append: "endsWithObs (toUpper (s @ ''_OBS''))"
  by (auto simp: endsWithObs_def endsWith_iff toUpperC_def isLowerC_def)

lemma asObserver_obs:
  "\<not> cs_isEmpty cs \<Longrightarrow> endsWithObs (getAsObserverCallsignString cs)"
  by (simp add: getAsObserverCallsignString_def Let_def endsWithObs_append del: map_append)

lemma indexFrom_inj:
  "indexFrom n xs a = Some i \<Longrightarrow> indexFrom n xs b = Some i \<Longrightarrow> a = b"
proof (induction xs arbitrary: n)
  case (Cons x xs)
  have ge: "indexFrom m ys s = Some j \<Longrightarrow> m \<le> j" for m j ys s
    by (induction ys arbitrary: m) (force split: if_splits)+
  show ?case using Cons ge [of "n + 1" xs a i] ge [of "n + 1" xs b i] by (auto split: if_splits)
qed simp

lemma indexFrom_None: "indexFrom n xs s = None \<longleftrightarrow> s \<notin> set xs"
  by (induction xs arbitrary: n) auto

lemma indexFrom_bounds: "indexFrom n xs s = Some i \<Longrightarrow> n \<le> i \<and> i < n + int (length xs)"
  by (induction xs arbitrary: n) (force split: if_splits)+

subsection \<open>The airline prefix is a prefix\<close>

lemma prefixMatch_split:
  assumes "prefixMatch s = Some (a, f)"
  shows "\<exists>r. s = a @ f @ r" and "3 \<le> length a" and "f \<noteq> []"
    and "\<forall>c \<in> set a. isUpperC c" and "\<forall>c \<in> set f. isDigitC c"
proof -
  have a: "a = takeWhile isUpperC s" and f: "f = takeWhile isDigitC (dropWhile isUpperC s)"
    using assms by (auto simp: prefixMatch_def Let_def split: if_splits)
  have "s = a @ f @ dropWhile isDigitC (dropWhile isUpperC s)" by (simp add: a f)
  then show "\<exists>r. s = a @ f @ r" by blast
  show "3 \<le> length a" "f \<noteq> []" using assms by (auto simp: prefixMatch_def Let_def split: if_splits)
  show "\<forall>c \<in> set a. isUpperC c" unfolding a by (auto dest: set_takeWhileD)
  show "\<forall>c \<in> set f. isDigitC c" unfolding f by (auto dest: set_takeWhileD)
qed

lemma airlinePrefix_split:
  assumes "getAirlinePrefix cs = (airline, n, ident)" and "airline \<noteq> []"
  shows "cs_callsign cs = airline @ ident"
    and "length airline = 3 \<or> length airline = 4 \<and> startsWith airline ''V''"
    and "n \<noteq> [] \<and> (\<forall>c \<in> set n. isDigitC c)"
proof -
  let ?s = "cs_callsign cs"
  obtain a f where m: "prefixMatch ?s = Some (a, f)"
    using assms by (auto simp: getAirlinePrefix_def Let_def split: if_splits option.splits)
  note p = prefixMatch_split [OF m]
  obtain r where r: "?s = a @ f @ r" using p(1) by blast
  have l: "length a < length ?s" using p(3) r by (cases f) auto
  have f: "n = f" using assms m by (auto simp: getAirlinePrefix_def Let_def split: if_splits)
  show "n \<noteq> [] \<and> (\<forall>c \<in> set n. isDigitC c)" using p(3,5) f by simp
  show "?s = airline @ ident"
    using assms m r l
    by (auto simp: getAirlinePrefix_def Let_def mid_def left_def split: if_splits)
  show "length airline = 3 \<or> length airline = 4 \<and> startsWith airline ''V''"
    using assms m by (auto simp: getAirlinePrefix_def Let_def left_def split: if_splits)
qed

end
