(* ===== verification/Aviation_Com.thy ===== *)
theory Aviation_Com
  imports Qt_Base "HOL-Library.Signed_Division"
begin

text \<open>
  Radios, \<open>CComSystem\<close> (\<open>src/misc/aviation/comsystem.cpp\<close>) and its base \<open>CModulator\<close>
  (\<open>modulator.cpp\<close>). A frequency is \<^term>\<open>None\<close> (the null frequency) or a whole number of
  kHz, the unit in which the class does its integer comparisons and the one the network
  messages carry; fractions of a kHz are not modelled. The remainder of the source is the
  one of truncated division (\<open>smod\<close>).
\<close>

type_synonym CFrequency = "int option"

subsection \<open>Channels\<close>

definition isValid8_33kHzChannel :: "int \<Rightarrow> bool" where
  "isValid8_33kHzChannel fKHz \<longleftrightarrow>
     (let lastDigits = fKHz smod 100
      in fKHz smod 5 = 0 \<and> lastDigits \<noteq> 20 \<and> lastDigits \<noteq> 45 \<and> lastDigits \<noteq> 70 \<and> lastDigits \<noteq> 95)"

definition clamp :: "int \<Rightarrow> int \<Rightarrow> int \<Rightarrow> int" where
  "clamp v lo hi = (if v < lo then lo else if hi < v then hi else v)"

text \<open>The local variables \<open>lower\<close> and \<open>upper\<close> of the rounding.\<close>

definition lower8_33 :: "int \<Rightarrow> int" where
  "lower8_33 fKHz =
     (let diff = fKHz smod 5;
          lower = fKHz - diff
      in if \<not> isValid8_33kHzChannel lower then lower - 5 else lower)"

definition upper8_33 :: "int \<Rightarrow> int" where
  "upper8_33 fKHz =
     (let diff = fKHz smod 5;
          upper = fKHz + (5 - diff)
      in if \<not> isValid8_33kHzChannel upper then upper + 5 else upper)"

definition round8_33kHzChannel :: "int \<Rightarrow> int" where
  "round8_33kHzChannel fKHz =
     (if \<not> isValid8_33kHzChannel fKHz then
        let lowerDiff = \<bar>fKHz - lower8_33 fKHz\<bar>;
            upperDiff = \<bar>fKHz - upper8_33 fKHz\<bar>;
            f = (if lowerDiff < upperDiff then lower8_33 fKHz else upper8_33 fKHz)
        in clamp f 118000 136990
      else fKHz)"

datatype ChannelSpacing = ChannelSpacing50KHz | ChannelSpacing25KHz | ChannelSpacing8_33KHz

definition roundToSpacing :: "int \<Rightarrow> int \<Rightarrow> int" where
  "roundToSpacing fKHz channelSpacingKHz =
     (let dDown = fKHz sdiv channelSpacingKHz;
          fDownKHz = dDown * channelSpacingKHz;
          fUpKHz = (dDown + 1) * channelSpacingKHz;
          down = \<bar>fKHz - fDownKHz\<bar> < \<bar>fUpKHz - fKHz\<bar>
      in if down then fDownKHz else fUpKHz)"

definition roundToChannelSpacing :: "CFrequency \<Rightarrow> ChannelSpacing \<Rightarrow> CFrequency" where
  "roundToChannelSpacing frequency channelSpacing =
     (case frequency of
        None \<Rightarrow> None
      | Some fKHz \<Rightarrow>
          (case channelSpacing of
             ChannelSpacing8_33KHz \<Rightarrow> Some (round8_33kHzChannel fKHz)
           | ChannelSpacing50KHz \<Rightarrow> Some (roundToSpacing fKHz 50)
           | ChannelSpacing25KHz \<Rightarrow> Some (roundToSpacing fKHz 25)))"

definition isWithin25kHzChannel :: "int \<Rightarrow> bool" where
  "isWithin25kHzChannel fKHz \<longleftrightarrow>
     (let e = fKHz smod 100 in e = 0 \<or> e = 25 \<or> e = 50 \<or> e = 75)"

definition isExclusiveWithin8_33kHzChannel :: "int \<Rightarrow> bool" where
  "isExclusiveWithin8_33kHzChannel freqKHz \<longleftrightarrow>
     (if freqKHz < 118000 \<or> 137000 \<le> freqKHz \<or> \<not> isValid8_33kHzChannel freqKHz then False
      else \<not> isWithin25kHzChannel freqKHz)"

definition isValidCivilAviationFrequency :: "CFrequency \<Rightarrow> bool" where
  "isValidCivilAviationFrequency f \<longleftrightarrow>
     (case f of None \<Rightarrow> False | Some fr \<Rightarrow> 118000 \<le> fr \<and> fr \<le> 136990)"

definition isValidMilitaryFrequency :: "CFrequency \<Rightarrow> bool" where
  "isValidMilitaryFrequency f \<longleftrightarrow>
     (case f of None \<Rightarrow> False | Some fr \<Rightarrow> 220000 \<le> fr \<and> fr \<le> 399950)"

definition isValidComFrequency :: "CFrequency \<Rightarrow> bool" where
  "isValidComFrequency f \<longleftrightarrow>
     (case f of None \<Rightarrow> False
      | Some _ \<Rightarrow> isValidCivilAviationFrequency f \<or> isValidMilitaryFrequency f)"

definition normalizeFrequency :: "int \<Rightarrow> int" where
  "normalizeFrequency freq =
     (let freq_end = freq smod 100 in if freq_end = 20 \<or> freq_end = 70 then freq + 5 else freq)"

definition isSameFrequency :: "CFrequency \<Rightarrow> CFrequency \<Rightarrow> bool" where
  "isSameFrequency freq1 freq2 \<longleftrightarrow>
     (case (freq1, freq2) of
        (Some f1, Some f2) \<Rightarrow> normalizeFrequency f1 = normalizeFrequency f2
      | _ \<Rightarrow> False)"

subsection \<open>The radio\<close>

record CComSystem =
  m_name :: string
  m_frequencyActive :: CFrequency
  m_frequencyStandby :: CFrequency
  m_volumeTransmit :: int
  m_volumeReceive :: int
  m_transmitEnabled :: bool
  m_receiveEnabled :: bool
  m_channelSpacing :: ChannelSpacing

definition mkComSystem :: "string \<Rightarrow> CFrequency \<Rightarrow> CFrequency \<Rightarrow> CComSystem" where
  "mkComSystem name activeFrequency standbyFrequency =
     \<lparr>m_name = name, m_frequencyActive = activeFrequency,
      m_frequencyStandby = (if standbyFrequency = None then activeFrequency else standbyFrequency),
      m_volumeTransmit = 100, m_volumeReceive = 100,
      m_transmitEnabled = True, m_receiveEnabled = True,
      m_channelSpacing = ChannelSpacing8_33KHz\<rparr>"

definition toggleActiveStandby :: "CComSystem \<Rightarrow> CComSystem" where
  "toggleActiveStandby c =
     c\<lparr>m_frequencyActive := m_frequencyStandby c, m_frequencyStandby := m_frequencyActive c\<rparr>"

definition setFrequencyActive :: "CFrequency \<Rightarrow> CComSystem \<Rightarrow> CComSystem" where
  "setFrequencyActive frequency c =
     (if frequency = m_frequencyActive c then c
      else let fRounded = roundToChannelSpacing frequency (m_channelSpacing c)
           in c\<lparr>m_frequencyActive := fRounded\<rparr>)"

definition setFrequencyStandby :: "CFrequency \<Rightarrow> CComSystem \<Rightarrow> CComSystem" where
  "setFrequencyStandby frequency c =
     (if frequency = m_frequencyStandby c then c
      else let fRounded = roundToChannelSpacing frequency (m_channelSpacing c)
           in c\<lparr>m_frequencyStandby := fRounded\<rparr>)"

definition FrequencyUnicom :: CFrequency where
  "FrequencyUnicom = Some 122800"

definition setActiveUnicom :: "CComSystem \<Rightarrow> CComSystem" where
  "setActiveUnicom c = setFrequencyActive FrequencyUnicom (toggleActiveStandby c)"

definition isActiveFrequencySameFrequency :: "CComSystem \<Rightarrow> CFrequency \<Rightarrow> bool" where
  "isActiveFrequencySameFrequency c comFrequency =
     isSameFrequency (m_frequencyActive c) comFrequency"

definition setVolumeReceive :: "int \<Rightarrow> CComSystem \<Rightarrow> CComSystem" where
  "setVolumeReceive volume c =
     (if 100 \<le> volume then c\<lparr>m_volumeReceive := 100\<rparr>
      else if volume \<le> 0 then c\<lparr>m_volumeReceive := 0\<rparr>
      else c\<lparr>m_volumeReceive := volume\<rparr>)"

definition setVolumeTransmit :: "int \<Rightarrow> CComSystem \<Rightarrow> CComSystem" where
  "setVolumeTransmit volume c =
     (if 100 \<le> volume then c\<lparr>m_volumeTransmit := 100\<rparr>
      else if volume \<le> 0 then c\<lparr>m_volumeTransmit := 0\<rparr>
      else c\<lparr>m_volumeTransmit := volume\<rparr>)"

definition setTransmitEnabled :: "bool \<Rightarrow> CComSystem \<Rightarrow> CComSystem" where
  "setTransmitEnabled enable c = c\<lparr>m_transmitEnabled := enable\<rparr>"

definition setReceiveEnabled :: "bool \<Rightarrow> CComSystem \<Rightarrow> CComSystem" where
  "setReceiveEnabled enable c = c\<lparr>m_receiveEnabled := enable\<rparr>"

subsection \<open>Rounding to a channel\<close>

lemma smod_pos: "0 \<le> a \<Longrightarrow> 0 < b \<Longrightarrow> (a :: int) smod b = a mod b"
  by (simp add: signed_modulo_int_def signed_divide_int_def sgn_if minus_div_mult_eq_mod)

lemma sdiv_pos: "0 \<le> a \<Longrightarrow> 0 < b \<Longrightarrow> (a :: int) sdiv b = a div b"
  by (simp add: signed_divide_int_def sgn_if)

text \<open>
  A channel is a multiple of 5 kHz that is not the fifth of its 25 kHz block. A frequency is
  written \<open>25 * q + 5 * b + d\<close>.
\<close>

lemma block_form:
  assumes "0 \<le> (f :: int)"
  obtains q b d where "f = 25 * q + 5 * b + d" "0 \<le> q" "0 \<le> b" "b \<le> 4" "0 \<le> d" "d \<le> 4"
proof
  let ?r = "f mod 25"
  have r: "0 \<le> ?r" "?r < 25" by simp_all
  show "f = 25 * (f div 25) + 5 * (?r div 5) + ?r mod 5" by simp
  show "0 \<le> f div 25" using assms by (simp add: pos_imp_zdiv_nonneg_iff)
  show "0 \<le> ?r div 5" "0 \<le> ?r mod 5" using r by (simp_all add: pos_imp_zdiv_nonneg_iff)
  show "?r div 5 \<le> 4" using r by linarith
  show "?r mod 5 \<le> 4" using pos_mod_bound [of 5 ?r] by simp
qed

lemma last_digits:
  assumes "0 \<le> q" and "0 \<le> x" and "x < (25 :: int)"
  shows "\<exists>k. 0 \<le> k \<and> k < 4 \<and> (25 * q + x) mod 100 = 25 * k + x"
proof (intro exI conjI)
  have "25 * q + x = 100 * (q div 4) + (25 * (q mod 4) + x)"
    using mult_div_mod_eq [of 4 q] by linarith
  moreover have "0 \<le> 25 * (q mod 4) + x" "25 * (q mod 4) + x < 100"
    using pos_mod_bound [of 4 q] assms by simp_all
  ultimately show "(25 * q + x) mod 100 = 25 * (q mod 4) + x"
    by (metis mod_mult_self4 mod_pos_pos_trivial)
qed simp_all

lemma block_mod_5: "0 \<le> d \<Longrightarrow> d \<le> 4 \<Longrightarrow> (25 * q + 5 * b + d) mod 5 = (d :: int)"
proof -
  assume d: "0 \<le> d" "d \<le> 4"
  have "25 * q + 5 * b + d = 5 * (5 * q + b) + d" by simp
  moreover have "(5 * (5 * q + b) + d) mod 5 = d mod 5" by (rule mod_mult_self4)
  moreover have "d mod 5 = d" using d by simp
  ultimately show ?thesis by simp
qed

lemma valid_channel:
  assumes "0 \<le> q" and "0 \<le> b" and "b \<le> 4" and "0 \<le> d" and "d \<le> 4"
  shows "isValid8_33kHzChannel (25 * q + 5 * b + d) \<longleftrightarrow> d = 0 \<and> b \<le> 3"
proof -
  obtain k where k: "0 \<le> k" "k < 4" "(25 * q + (5 * b + d)) mod 100 = 25 * k + (5 * b + d)"
    using last_digits [of q "5 * b + d"] assms by auto
  then have m: "(25 * q + 5 * b + d) mod 100 = 25 * k + 5 * b + d" by (simp add: add.assoc)
  have "0 \<le> 25 * q + 5 * b + d" using assms by simp
  then have v: "isValid8_33kHzChannel (25 * q + 5 * b + d) \<longleftrightarrow>
      d = 0 \<and> (let g = 25 * k + 5 * b + d in g \<noteq> 20 \<and> g \<noteq> 45 \<and> g \<noteq> 70 \<and> g \<noteq> 95)"
    using assms(4,5) block_mod_5 [of d q b]
    by (simp add: isValid8_33kHzChannel_def smod_pos m Let_def)
  have "k = 0 \<or> k = 1 \<or> k = 2 \<or> k = 3" "b = 0 \<or> b = 1 \<or> b = 2 \<or> b = 3 \<or> b = 4"
    using k(1,2) assms(2,3) by arith+
  then show ?thesis unfolding v Let_def by (cases "d = 0") (elim disjE, simp_all)
qed

text \<open>The neighbouring channels of a frequency that is none, and the choice between them.\<close>

definition lowerChannel :: "int \<Rightarrow> int \<Rightarrow> int" where
  "lowerChannel q b = 25 * q + 5 * min b 3"

definition upperChannel :: "int \<Rightarrow> int \<Rightarrow> int" where
  "upperChannel q b = (if b \<le> 2 then 25 * q + 5 * (b + 1) else 25 * (q + 1))"

lemma channel_neighbours:
  assumes f: "f = 25 * q + 5 * b + d" and q: "0 \<le> q" and b: "0 \<le> b" "b \<le> 4" and d: "0 \<le> d" "d \<le> 4"
  shows "lower8_33 f = lowerChannel q b" and "upper8_33 f = upperChannel q b"
    and "isValid8_33kHzChannel (lowerChannel q b)" and "isValid8_33kHzChannel (upperChannel q b)"
proof -
  have f0: "0 \<le> f" using f q b d by simp
  have diff: "f smod 5 = d" using f0 d block_mod_5 by (simp add: smod_pos f)
  have vl: "isValid8_33kHzChannel (f - d) \<longleftrightarrow> b \<le> 3"
    using valid_channel [OF q b, of 0] by (simp add: f)
  show "lower8_33 f = lowerChannel q b"
    unfolding lower8_33_def Let_def diff vl using b by (simp add: lowerChannel_def f min_def)
  have vu: "isValid8_33kHzChannel (f + (5 - d)) \<longleftrightarrow> b \<noteq> 3"
    using valid_channel [OF q, of "b + 1" 0] valid_channel [of "q + 1" 0 0] q b
    by (cases "b = 4") (auto simp: f algebra_simps)
  show "upper8_33 f = upperChannel q b"
    unfolding upper8_33_def Let_def diff vu using b by (simp add: upperChannel_def f)
  show "isValid8_33kHzChannel (lowerChannel q b)"
    using valid_channel [OF q, of "min b 3" 0] b by (simp add: lowerChannel_def)
  show "isValid8_33kHzChannel (upperChannel q b)"
    using valid_channel [OF q, of "b + 1" 0] valid_channel [of "q + 1" 0 0] q b
    by (auto simp: upperChannel_def)
qed

lemma round_form:
  assumes f: "f = 25 * q + 5 * b + d" and q: "0 \<le> q" and b: "0 \<le> b" "b \<le> 4" and d: "0 \<le> d" "d \<le> 4"
    and n: "\<not> isValid8_33kHzChannel f"
  shows "round8_33kHzChannel f =
     clamp (if f - lowerChannel q b < upperChannel q b - f
            then lowerChannel q b else upperChannel q b) 118000 136990"
proof -
  have "lowerChannel q b \<le> f" "f \<le> upperChannel q b"
    using f b d by (auto simp: lowerChannel_def upperChannel_def min_def)
  then show ?thesis
    using n channel_neighbours(1,2) [OF f q b d] by (simp add: round8_33kHzChannel_def Let_def)
qed

text \<open>No channel lies between the neighbours.\<close>

lemma neighbours:
  assumes f: "f = 25 * q + 5 * b + d" and q: "0 \<le> q" and b: "0 \<le> b" "b \<le> 4" and d: "0 \<le> d" "d \<le> 4"
    and n: "\<not> isValid8_33kHzChannel f" and c: "isValid8_33kHzChannel c" "0 \<le> c"
  shows "c \<le> lowerChannel q b \<or> upperChannel q b \<le> c"
proof -
  obtain q' b' d' where c': "c = 25 * q' + 5 * b' + d'" "0 \<le> q'" "0 \<le> b'" "b' \<le> 4" "0 \<le> d'" "d' \<le> 4"
    using block_form [OF c(2)] by blast
  have "d' = 0" "b' \<le> 3" using c(1) valid_channel [OF c'(2-6)] by (simp_all add: c'(1))
  then have c5: "c = 5 * (5 * q' + b')" by (simp add: c'(1))
  show ?thesis
  proof (cases "5 * q' + b' \<le> 5 * q + min b 3")
    case True
    then have "c \<le> lowerChannel q b" unfolding c5 lowerChannel_def by (simp add: algebra_simps)
    then show ?thesis ..
  next
    case far: False
    have "5 * q + (if b \<le> 2 then b + 1 else 5) \<le> 5 * q' + b'"
    proof (cases "b \<le> 2")
      case True
      then show ?thesis using far by (simp add: min_def split: if_splits)
    next
      case False
      then have "5 * q + 4 \<le> 5 * q' + b'" using far by (simp add: min_def split: if_splits)
      then have "q < q'" using \<open>b' \<le> 3\<close> by linarith
      then show ?thesis using False c'(3) by simp
    qed
    then have "upperChannel q b \<le> c" unfolding c5 upperChannel_def by (simp split: if_splits)
    then show ?thesis ..
  qed
qed

lemma lower_upper:
  assumes "f = 25 * q + 5 * b + d" and "0 \<le> b" "b \<le> 4" and "0 \<le> d" "d \<le> 4"
  shows "lowerChannel q b \<le> f" and "f \<le> upperChannel q b"
  using assms by (auto simp: lowerChannel_def upperChannel_def min_def)

lemma range_neighbours:
  assumes f: "f = 25 * q + 5 * b + d" and b: "0 \<le> b" "b \<le> 4" and d: "0 \<le> d" "d \<le> 4"
    and r: "118000 \<le> f" "f \<le> 136990"
  shows "118000 \<le> lowerChannel q b" and "b = 4 \<or> d \<noteq> 0 \<Longrightarrow> upperChannel q b \<le> 136990"
proof -
  have "4720 \<le> q" using assms by arith
  then show "118000 \<le> lowerChannel q b" using b by (simp add: lowerChannel_def)
  have "q \<le> 5479" using assms by arith
  then show "b = 4 \<or> d \<noteq> 0 \<Longrightarrow> upperChannel q b \<le> 136990"
    using assms by (cases "q = 5479") (auto simp: upperChannel_def)
qed

text \<open>The assertions of the rounding hold for every frequency that is not negative.\<close>

lemma round_asserts:
  assumes "0 \<le> f"
  shows "isValid8_33kHzChannel (lower8_33 f)" and "isValid8_33kHzChannel (upper8_33 f)"
  using block_form [OF assms] channel_neighbours by metis+

lemma round_nearest:
  assumes r: "118000 \<le> f" "f \<le> 136990"
  shows "isValid8_33kHzChannel (round8_33kHzChannel f)"
    and "118000 \<le> round8_33kHzChannel f" and "round8_33kHzChannel f \<le> 136990"
    and "\<And>c. isValid8_33kHzChannel c \<Longrightarrow> 0 \<le> c \<Longrightarrow> \<bar>round8_33kHzChannel f - f\<bar> \<le> \<bar>c - f\<bar>"
proof -
  let ?x = "round8_33kHzChannel f"
  have "isValid8_33kHzChannel ?x \<and> 118000 \<le> ?x \<and> ?x \<le> 136990
      \<and> (\<forall>c. isValid8_33kHzChannel c \<longrightarrow> 0 \<le> c \<longrightarrow> \<bar>?x - f\<bar> \<le> \<bar>c - f\<bar>)"
  proof (cases "isValid8_33kHzChannel f")
    case True
    then show ?thesis using r by (simp add: round8_33kHzChannel_def)
  next
    case False
    have "0 \<le> f" using r by simp
    then obtain q b d where f: "f = 25 * q + 5 * b + d"
      and q: "0 \<le> q" and b: "0 \<le> b" "b \<le> 4" and d: "0 \<le> d" "d \<le> 4"
      by (rule block_form)
    let ?l = "lowerChannel q b" and ?u = "upperChannel q b"
    have bd: "b = 4 \<or> d \<noteq> 0" using False valid_channel [OF q b d] b by (auto simp: f)
    note lu = lower_upper [OF f b d] and rg = range_neighbours [OF f b d r]
    have x: "?x = (if f - ?l < ?u - f then ?l else ?u)"
      using round_form [OF f q b d False] lu rg(1) rg(2) [OF bd] r by (simp add: clamp_def)
    have "\<bar>?x - f\<bar> \<le> \<bar>c - f\<bar>" if "isValid8_33kHzChannel c" "0 \<le> c" for c
      using neighbours [OF f q b d False that] lu x by (auto split: if_splits)
    moreover have "isValid8_33kHzChannel ?x" using channel_neighbours(3,4) [OF f q b d] x by simp
    moreover have "118000 \<le> ?x" "?x \<le> 136990" using x lu rg(1) rg(2) [OF bd] r by auto
    ultimately show ?thesis by blast
  qed
  then show "isValid8_33kHzChannel ?x" and "118000 \<le> ?x" and "?x \<le> 136990"
    and "\<And>c. isValid8_33kHzChannel c \<Longrightarrow> 0 \<le> c \<Longrightarrow> \<bar>?x - f\<bar> \<le> \<bar>c - f\<bar>" by blast+
qed

lemma roundToSpacing_multiple: "roundToSpacing f s = s * (f sdiv s) \<or> roundToSpacing f s = s * (f sdiv s + 1)"
  by (simp add: roundToSpacing_def Let_def algebra_simps)

lemma roundToSpacing_near:
  assumes "0 \<le> f" and "0 < s"
  shows "2 * \<bar>roundToSpacing f s - f\<bar> \<le> s"
proof -
  define p where "p = f div s * s"
  have f: "f = p + f mod s" by (simp add: p_def)
  have r: "0 \<le> f mod s" "f mod s < s" using assms by simp_all
  have "roundToSpacing f s = (if \<bar>f - p\<bar> < \<bar>p + s - f\<bar> then p else p + s)"
    unfolding roundToSpacing_def Let_def sdiv_pos [OF assms] distrib_right mult_1 p_def ..
  then show ?thesis using f r by (simp split: if_splits)
qed

end
