(* ===== verification/Aviation_Selcal.thy ===== *)
theory Aviation_Selcal
  imports Qt_Base
begin

text \<open>
  SELCAL codes, \<open>CSelcal\<close> (\<open>src/misc/aviation/selcal.cpp\<close>): two pairs of letters out of
  sixteen, each pair in alphabetical order, and the audio frequencies they stand for (in
  tenths of Hz). An index into the table of frequencies the source asserts is an option.
\<close>

definition validCharacters :: string where
  "validCharacters = ''ABCDEFGHJKLMPQRS''"

fun indexOf :: "string \<Rightarrow> char \<Rightarrow> int" where
  "indexOf [] c = -1"
| "indexOf (x # xs) c =
     (if x = c then 0 else if indexOf xs c < 0 then -1 else indexOf xs c + 1)"

definition isValidCharacter :: "char \<Rightarrow> bool" where
  "isValidCharacter c \<longleftrightarrow> toUpperC c \<in> set validCharacters"

definition isValidCode :: "string \<Rightarrow> bool" where
  "isValidCode code =
     (if length code \<noteq> 4 then False
      else let codeUpper = toUpper code;
               p1 = indexOf validCharacters (codeUpper ! 0);
               p2 = indexOf validCharacters (codeUpper ! 1);
               p3 = indexOf validCharacters (codeUpper ! 2);
               p4 = indexOf validCharacters (codeUpper ! 3)
           in if p1 < 0 then False
              else if p2 < 0 then False
              else if p3 < 0 then False
              else if p4 < 0 then False
              else if p1 \<ge> p2 \<or> p3 \<ge> p4 then False
              else if p1 = p3 \<or> p2 = p3 \<or> p2 = p4 \<or> p3 = p4 then False
              else True)"

definition unifyCode :: "string \<Rightarrow> string" where
  "unifyCode selcalCandidate =
     (let s = filter isValidCharacter selcalCandidate in if isValidCode s then s else [])"

definition selcal_equalsString :: "string \<Rightarrow> string \<Rightarrow> bool" where
  "selcal_equalsString m_code code =
     (if code = [] then False else toUpper m_code = toUpper code)"

definition audioFrequencyEquivalents :: "nat list" where
  "audioFrequencyEquivalents =
     [3127, 3467, 3846, 4266, 4732, 5248, 5821, 6457, 7161, 7943, 8810, 9772, 10839, 12023,
      13335, 14791]"

definition audioFrequencyEquivalent :: "char \<Rightarrow> nat option" where
  "audioFrequencyEquivalent c =
     (let pos = indexOf validCharacters c
      in if pos < 0 then None else at_opt audioFrequencyEquivalents (nat pos))"

definition getFrequencies :: "string \<Rightarrow> nat list option" where
  "getFrequencies m_code =
     (if \<not> isValidCode m_code then Some []
      else those (map audioFrequencyEquivalent m_code))"

text \<open>The two nested loops of \<open>selcalCodePairs\<close>.\<close>

definition codePairs :: "string list" where
  "codePairs =
     concat (map (\<lambda>p1. map (\<lambda>p2. [validCharacters ! p1, validCharacters ! p2])
                         [p1 + 1 ..< length validCharacters])
               [0 ..< length validCharacters - 1])"

subsection \<open>Positions of letters\<close>

lemma indexOf_bounds: "-1 \<le> indexOf xs c" "indexOf xs c < int (length xs)"
  by (induction xs) auto

lemma indexOf_nonneg: "0 \<le> indexOf xs c \<longleftrightarrow> c \<in> set xs"
proof (induction xs)
  case (Cons x xs)
  then show ?case by (auto simp: not_less)
qed simp

lemma nth_indexOf: "0 \<le> indexOf xs c \<Longrightarrow> xs ! nat (indexOf xs c) = c"
proof (induction xs)
  case (Cons x xs)
  then show ?case by (auto simp: nat_add_distrib split: if_splits)
qed simp

lemma indexOf_inj: "0 \<le> indexOf xs c \<Longrightarrow> indexOf xs c = indexOf xs d \<Longrightarrow> c = d"
  using nth_indexOf by metis

lemma valid_upper: "c \<in> set validCharacters \<Longrightarrow> isUpperC c"
  by (auto simp: validCharacters_def isUpperC_def Let_def)

lemma audio_defined: "c \<in> set validCharacters \<Longrightarrow> audioFrequencyEquivalent c \<noteq> None"
  using indexOf_nonneg [of validCharacters c] indexOf_bounds(2) [of validCharacters c]
  by (auto simp: audioFrequencyEquivalent_def at_opt_def validCharacters_def
      audioFrequencyEquivalents_def Let_def)

lemma isValidCode_chars:
  assumes "isValidCode code" and "c \<in> set code"
  shows "toUpperC c \<in> set validCharacters"
proof -
  from assms(2) obtain i where i: "i < length code" "code ! i = c" by (auto simp: in_set_conv_nth)
  have l: "length code = 4" using assms(1) by (auto simp: isValidCode_def split: if_splits)
  then have "i = 0 \<or> i = 1 \<or> i = 2 \<or> i = 3" using i by auto
  then have "0 \<le> indexOf validCharacters (toUpper code ! i)"
    using assms(1) by (auto simp: isValidCode_def Let_def split: if_splits)
  then show ?thesis using i l by (simp add: indexOf_nonneg)
qed

lemma isValidCode_toUpper: "isValidCode (toUpper code) = isValidCode code"
  by (simp add: isValidCode_def del: map_map)

lemma unifyCode_valid: "unifyCode s \<noteq> [] \<Longrightarrow> isValidCode (unifyCode s)"
  by (simp add: unifyCode_def Let_def split: if_splits)

lemma unifyCode_id: "isValidCode s \<Longrightarrow> unifyCode s = s"
  using isValidCode_chars
  by (simp add: unifyCode_def isValidCharacter_def filter_idem_pred)

lemma unifyCode_idem: "unifyCode (unifyCode s) = unifyCode s"
proof (cases "unifyCode s = []")
  case True
  then show ?thesis by (simp add: unifyCode_def isValidCode_def)
next
  case False
  then show ?thesis by (intro unifyCode_id unifyCode_valid)
qed

lemma those_Some: "\<forall>x \<in> set xs. f x \<noteq> None \<Longrightarrow> those (map f xs) = Some (map (the \<circ> f) xs)"
  by (induction xs) auto

lemma getFrequencies_upper:
  assumes "toUpper code = code"
  shows "getFrequencies code = Some (if isValidCode code then map (the \<circ> audioFrequencyEquivalent) code else [])"
proof (cases "isValidCode code")
  case True
  have "\<forall>c \<in> set code. audioFrequencyEquivalent c \<noteq> None"
  proof
    fix c
    assume c: "c \<in> set code"
    then have "toUpperC c = c" using assms by (metis map_eq_conv map_ident)
    then show "audioFrequencyEquivalent c \<noteq> None"
      using audio_defined isValidCode_chars [OF True c] by simp
  qed
  then show ?thesis using True by (simp add: getFrequencies_def those_Some)
qed (simp add: getFrequencies_def)

end
