(* ===== verification/Network_Text_Message.thy ===== *)
theory Network_Text_Message
  imports Aviation_Callsign Aviation_Com Aviation_Selcal
begin

text \<open>
  Text messages of the user interface, \<open>CTextMessage\<close> (\<open>src/misc/network/textmessage.cpp\<close>):
  private and radio messages, their consolidation, the relay of messages to the partner of a
  shared cockpit, SELCAL messages. Time stamps are not modelled.
\<close>

record CTextMessage =
  m_message :: string
  m_senderCallsign :: CCallsign
  m_recipientCallsign :: CCallsign
  m_frequency :: CFrequency
  m_wasSent :: bool
  m_relayedMessage :: bool

text \<open>\<open>QString::simplified\<close>: trimmed, and each run of white space is one space.\<close>

fun squeeze :: "string \<Rightarrow> string" where
  "squeeze [] = []"
| "squeeze (c # cs) =
     (if isSpace c then
        (case squeeze cs of
           [] \<Rightarrow> [CHR '' '']
         | d # ds \<Rightarrow> if d = CHR '' '' then d # ds else CHR '' '' # d # ds)
      else c # squeeze cs)"

definition simplified :: "string \<Rightarrow> string" where
  "simplified s = squeeze (trimmed s)"

definition cleanMessage :: "string \<Rightarrow> string" where
  "cleanMessage message = trimmed (simplified message)"

definition setMessage :: "string \<Rightarrow> CTextMessage \<Rightarrow> CTextMessage" where
  "setMessage message tm = tm\<lparr>m_message := cleanMessage message\<rparr>"

definition mkRadioMessage :: "string \<Rightarrow> CFrequency \<Rightarrow> CCallsign \<Rightarrow> CTextMessage" where
  "mkRadioMessage message frequency senderCallsign =
     \<lparr>m_message = cleanMessage message, m_senderCallsign = senderCallsign,
      m_recipientCallsign = emptyCallsign, m_frequency = frequency,
      m_wasSent = False, m_relayedMessage = False\<rparr>"

definition mkPrivateMessage :: "string \<Rightarrow> CCallsign \<Rightarrow> CCallsign \<Rightarrow> CTextMessage" where
  "mkPrivateMessage message senderCallsign recipientCallsign =
     \<lparr>m_message = cleanMessage message, m_senderCallsign = senderCallsign,
      m_recipientCallsign = recipientCallsign, m_frequency = None,
      m_wasSent = False, m_relayedMessage = False\<rparr>"

definition tm_isEmpty :: "CTextMessage \<Rightarrow> bool" where
  "tm_isEmpty tm \<longleftrightarrow> m_message tm = []"

definition isPrivateMessage :: "CTextMessage \<Rightarrow> bool" where
  "isPrivateMessage tm \<longleftrightarrow>
     \<not> cs_isEmpty (m_senderCallsign tm) \<and> \<not> cs_isEmpty (m_recipientCallsign tm)"

definition isRadioMessage :: "CTextMessage \<Rightarrow> bool" where
  "isRadioMessage tm = isValidCivilAviationFrequency (m_frequency tm)"

definition isBroadcastMessage :: "CTextMessage \<Rightarrow> bool" where
  "isBroadcastMessage tm = isBroadcastCallsign (m_recipientCallsign tm)"

definition isSupervisorMessage :: "CTextMessage \<Rightarrow> bool" where
  "isSupervisorMessage tm \<longleftrightarrow>
     (if isBroadcastMessage tm then False else isSupervisorCallsign (m_senderCallsign tm))"

definition isWallopMessage :: "CTextMessage \<Rightarrow> bool" where
  "isWallopMessage tm \<longleftrightarrow> cs_callsignAsSet (m_recipientCallsign tm) = ''*S''"

definition isServerMessage :: "CTextMessage \<Rightarrow> bool" where
  "isServerMessage tm \<longleftrightarrow>
     (if \<not> isPrivateMessage tm then False
      else startsWith (toUpper (cs_callsign (m_senderCallsign tm))) ''SERVER'')"

definition isSendToFrequency :: "CFrequency \<Rightarrow> CTextMessage \<Rightarrow> bool" where
  "isSendToFrequency frequency tm \<longleftrightarrow>
     (if \<not> isRadioMessage tm then False else m_frequency tm = frequency)"

definition isSendToUnicom :: "CTextMessage \<Rightarrow> bool" where
  "isSendToUnicom tm = isSendToFrequency FrequencyUnicom tm"

definition hasValidRecipient :: "CTextMessage \<Rightarrow> bool" where
  "hasValidRecipient tm \<longleftrightarrow>
     (if \<not> cs_isEmpty (m_recipientCallsign tm) then True
      else isValidCivilAviationFrequency (m_frequency tm))"

definition mentionsCallsign :: "CCallsign \<Rightarrow> CTextMessage \<Rightarrow> bool" where
  "mentionsCallsign callsign tm \<longleftrightarrow>
     (if cs_isEmpty callsign then False
      else if length (m_message tm) < length (cs_callsign callsign) then False
      else containsStr (toUpper (m_message tm)) (toUpper (cs_callsign callsign)))"

definition tm_markAsSent :: "CTextMessage \<Rightarrow> CTextMessage" where
  "tm_markAsSent tm = tm\<lparr>m_wasSent := True\<rparr>"

definition toggleSenderRecipient :: "CTextMessage \<Rightarrow> CTextMessage" where
  "toggleSenderRecipient tm =
     tm\<lparr>m_senderCallsign := m_recipientCallsign tm, m_recipientCallsign := m_senderCallsign tm\<rparr>"

subsection \<open>Consolidation\<close>

definition canBeAppended :: "CTextMessage \<Rightarrow> CTextMessage \<Rightarrow> bool" where
  "canBeAppended tm textMessage \<longleftrightarrow>
     (if tm_isEmpty textMessage then False
      else if \<not> cs_equal (m_senderCallsign tm) (m_senderCallsign textMessage) then False
      else if isRadioMessage tm \<and> isRadioMessage textMessage
      then m_frequency tm = m_frequency textMessage
      else if isPrivateMessage tm \<and> isPrivateMessage textMessage
      then cs_equal (m_recipientCallsign tm) (m_recipientCallsign textMessage)
      else False)"

definition appendIfPossible :: "CTextMessage \<Rightarrow> CTextMessage \<Rightarrow> bool \<times> CTextMessage" where
  "appendIfPossible tm textMessage =
     (if tm_isEmpty textMessage then (False, tm)
      else if \<not> canBeAppended tm textMessage then (False, tm)
      else (True, tm\<lparr>m_message := m_message tm @ '' '' @ m_message textMessage\<rparr>))"

fun appendToFirst :: "CTextMessage list \<Rightarrow> CTextMessage \<Rightarrow> CTextMessage list" where
  "appendToFirst [] message = [message]"
| "appendToFirst (tm # tms) message =
     (case appendIfPossible tm message of
        (True, tm1) \<Rightarrow> tm1 # tms
      | (False, _) \<Rightarrow> tm # appendToFirst tms message)"

definition addConsolidatedTextMessage :: "CTextMessage list \<Rightarrow> CTextMessage \<Rightarrow> CTextMessage list" where
  "addConsolidatedTextMessage tms message =
     (if tm_isEmpty message then tms else appendToFirst tms message)"

subsection \<open>Relayed messages\<close>

definition swiftRelayMessage :: string where
  "swiftRelayMessage = ''swift relayed: ''"

definition isRelayedMessage :: "CTextMessage \<Rightarrow> bool" where
  "isRelayedMessage tm \<longleftrightarrow> m_relayedMessage tm \<or> startsWith (m_message tm) swiftRelayMessage"

definition makeRelayedMessage :: "CCallsign \<Rightarrow> CTextMessage \<Rightarrow> CTextMessage" where
  "makeRelayedMessage partnerCallsign tm =
     (if startsWith (m_message tm) swiftRelayMessage then tm
      else let sender = cs_callsign (m_senderCallsign tm);
               recipient = cs_callsign (m_recipientCallsign tm)
           in tm\<lparr>m_relayedMessage := True,
                 m_recipientCallsign := partnerCallsign\<lparr>cs_typeHint := Aircraft\<rparr>,
                 m_message := swiftRelayMessage @ sender @ '' '' @ recipient @ '';'' @ m_message tm\<rparr>)"

text \<open>\<open>QString::remove(str)\<close>: every occurrence, from the left; \<open>fuel\<close> is the length.\<close>

fun removeAll :: "nat \<Rightarrow> string \<Rightarrow> string \<Rightarrow> string" where
  "removeAll 0 p s = s"
| "removeAll (Suc fuel) p s =
     (case s of
        [] \<Rightarrow> []
      | c # cs \<Rightarrow>
          if p \<noteq> [] \<and> startsWith s p then removeAll fuel p (drop (length p) s)
          else c # removeAll fuel p cs)"

definition removeStr :: "string \<Rightarrow> string \<Rightarrow> string" where
  "removeStr p s = removeAll (length s) p s"

definition relayedMessageToPrivateMessage :: "CTextMessage \<Rightarrow> bool \<times> CTextMessage" where
  "relayedMessageToPrivateMessage tm =
     (if \<not> isRelayedMessage tm then (False, tm)
      else let index = length (takeWhile (\<lambda>c. c \<noteq> CHR '';'') (m_message tm)) in
        if index = length (m_message tm) \<or> index < length swiftRelayMessage then (False, tm)
        else if length (m_message tm) \<le> index + 1 then (False, tm)
        else let senderRecipient =
                   trimmed (removeStr swiftRelayMessage (left (m_message tm) index));
                 sr = qsplit CHR '' '' senderRecipient
             in case sr of
                  [originalSender, originalRecipient] \<Rightarrow>
                    (True, tm\<lparr>m_senderCallsign := mkCallsign originalSender NoHint,
                              m_recipientCallsign := mkCallsign originalRecipient NoHint,
                              m_message := mid (m_message tm) (index + 1)\<rparr>)
                | _ \<Rightarrow> (False, tm))"

subsection \<open>SELCAL messages\<close>

definition isLetterC :: "char \<Rightarrow> bool" where
  "isLetterC c \<longleftrightarrow> isUpperC c \<or> isLowerC c"

definition getSelcalCode :: "CTextMessage \<Rightarrow> string" where
  "getSelcalCode tm =
     (if tm_isEmpty tm then []
      else if isPrivateMessage tm then []
      else if \<not> startsWith (toUpper (m_message tm)) ''SELCAL'' then []
      else if 15 < length (m_message tm) \<or> length (m_message tm) < 10 then []
      else let candidate = removeChars (m_message tm) (\<lambda>c. \<not> isLetterC c)
           in if length candidate \<noteq> 10 then [] else toUpper (right candidate 4))"

definition isSelcalMessage :: "CTextMessage \<Rightarrow> bool" where
  "isSelcalMessage tm \<longleftrightarrow>
     (if tm_isEmpty tm then False
      else if isPrivateMessage tm then False
      else if 15 < length (m_message tm) \<or> length (m_message tm) < 10 then False
      else length (getSelcalCode tm) = 4)"

definition isSelcalMessageFor :: "string \<Rightarrow> CTextMessage \<Rightarrow> bool" where
  "isSelcalMessageFor selcal tm \<longleftrightarrow>
     (if \<not> isValidCode selcal then False else toUpper selcal = getSelcalCode tm)"

subsection \<open>The clean form of a message\<close>

lemma squeeze_Nil_iff [simp]: "squeeze s = [] \<longleftrightarrow> s = []"
  by (cases s) (auto split: list.splits)

lemma isSpace_blank [simp]: "isSpace CHR '' ''"
  by (simp add: isSpace_def)

lemma hd_squeeze: "s \<noteq> [] \<Longrightarrow> hd (squeeze s) = (if isSpace (hd s) then CHR '' '' else hd s)"
  by (cases s) (auto split: list.splits)

lemma last_squeeze:
  "s \<noteq> [] \<Longrightarrow> last (squeeze s) = (if isSpace (last s) then CHR '' '' else last s)"
proof (induction s)
  case (Cons c cs)
  show ?case
  proof (cases "cs = []")
    case False
    then obtain d ds where d: "squeeze cs = d # ds" by (cases "squeeze cs") auto
    then show ?thesis using Cons False by auto
  qed simp
qed simp

lemma squeeze_idem: "squeeze (squeeze s) = squeeze s"
proof (induction s)
  case (Cons c cs)
  show ?case
  proof (cases "isSpace c")
    case False
    then show ?thesis using Cons by simp
  next
    case True
    then show ?thesis
    proof (cases "squeeze cs")
      case (Cons d ds)
      then have sq: "squeeze (d # ds) = d # ds" using Cons.IH by simp
      show ?thesis
      proof (cases "d = CHR '' ''")
        case True
        then show ?thesis using \<open>isSpace c\<close> Cons sq by simp
      next
        case False
        have "squeeze (CHR '' '' # d # ds) = CHR '' '' # d # ds"
          using False sq by (simp only: squeeze.simps(2) [of "CHR '' ''"]) simp
        then show ?thesis using False \<open>isSpace c\<close> Cons by simp
      qed
    qed simp
  qed
qed simp

lemma no_outer_squeeze: "no_outer_space s \<Longrightarrow> no_outer_space (squeeze s)"
  by (cases "s = []") (auto simp: no_outer_space_def hd_squeeze last_squeeze)

lemma cleanMessage_simplified: "cleanMessage s = simplified s"
  unfolding cleanMessage_def simplified_def
  by (intro trimmed_id no_outer_squeeze no_outer_space_trimmed)

lemma cleanMessage_outer: "no_outer_space (cleanMessage s)"
  by (simp add: cleanMessage_def no_outer_space_trimmed)

lemma cleanMessage_idem: "cleanMessage (cleanMessage s) = cleanMessage s"
proof -
  have "cleanMessage (cleanMessage s) = squeeze (trimmed (cleanMessage s))"
    by (simp only: cleanMessage_simplified [of "cleanMessage s"] simplified_def)
  also have "\<dots> = squeeze (cleanMessage s)" by (simp only: trimmed_id [OF cleanMessage_outer])
  also have "\<dots> = cleanMessage s" by (simp only: cleanMessage_simplified simplified_def squeeze_idem)
  finally show ?thesis .
qed

subsection \<open>Relaying and restoring a message\<close>

definition relayable :: "CCallsign \<Rightarrow> bool" where
  "relayable cs \<longleftrightarrow> cs_callsign cs \<noteq> [] \<and> unifyCallsign (cs_callsign cs) NoHint = cs_callsign cs"

lemma relayable_chars:
  assumes "relayable cs" and "c \<in> set (cs_callsign cs)"
  shows "\<not> isSpace c" and "\<not> isLowerC c" and "c \<noteq> CHR '';''" and "c \<noteq> CHR '' ''"
proof -
  have "c \<in> set (unifyCallsign (cs_callsign cs) NoHint)" using assms by (simp add: relayable_def)
  then have n: "\<not> notAtcChar c" and u: "\<not> isLowerC c" by (rule unify_chars, rule unify_upper)
  show "\<not> isSpace c" by (rule callsign_char_token [OF n])
  then show "c \<noteq> CHR '' ''" by auto
  show "\<not> isLowerC c" by (rule u)
  show "c \<noteq> CHR '';''"
    using n by (auto simp: notAtcChar_def isLetterOrNumber_def isUpperC_def isLowerC_def isDigitC_def)
qed

lemma removeAll_none: "\<forall>c \<in> set s. c \<noteq> hd p \<Longrightarrow> p \<noteq> [] \<Longrightarrow> removeAll n p s = s"
proof (induction n arbitrary: s)
  case (Suc n)
  show ?case
  proof (cases s)
    case (Cons c cs)
    then have "\<not> startsWith s p" using Suc.prems by (cases p) (auto simp: startsWith_def)
    then show ?thesis using Suc Cons by simp
  qed simp
qed simp

lemma removeStr_prefix:
  assumes "\<forall>c \<in> set s. c \<noteq> hd p" and "p \<noteq> []"
  shows "removeStr p (p @ s) = s"
proof -
  obtain c q where p: "p = c # q" using assms(2) by (cases p) auto
  have "removeStr p (p @ s) = removeAll (length (q @ s)) p s"
    by (simp add: removeStr_def p startsWith_append [of "c # q" s, simplified] del: removeAll.simps)
      (simp add: startsWith_append [of "c # q" s, simplified])
  then show ?thesis using removeAll_none [OF assms] by simp
qed

lemma relay_restore:
  assumes "relayable (m_senderCallsign tm)" and "relayable (m_recipientCallsign tm)"
    and m: "m_message tm \<noteq> []" and n: "\<not> startsWith (m_message tm) swiftRelayMessage"
  shows "relayedMessageToPrivateMessage (makeRelayedMessage partner tm) =
     (True, tm\<lparr>m_relayedMessage := True,
       m_senderCallsign := mkCallsign (cs_callsign (m_senderCallsign tm)) NoHint,
       m_recipientCallsign := mkCallsign (cs_callsign (m_recipientCallsign tm)) NoHint\<rparr>)"
proof -
  let ?s = "cs_callsign (m_senderCallsign tm)" and ?r = "cs_callsign (m_recipientCallsign tm)"
  let ?h = "swiftRelayMessage @ ?s @ '' '' @ ?r"
  note sc = relayable_chars [OF assms(1)] and rc = relayable_chars [OF assms(2)]
  have ne: "?s \<noteq> []" "?r \<noteq> []" using assms(1,2) by (simp_all add: relayable_def)
  have h: "\<forall>c \<in> set ?h. c \<noteq> CHR '';''"
    using sc(3) rc(3) by (auto simp: swiftRelayMessage_def)
  have tw: "takeWhile (\<lambda>c. c \<noteq> CHR '';'') (?h @ '';'' @ m_message tm) = ?h"
    using h by (subst takeWhile_append2) auto
  have rm: "removeStr swiftRelayMessage ?h = ?s @ '' '' @ ?r"
  proof (rule removeStr_prefix)
    have "isLowerC (hd swiftRelayMessage)" by (simp add: swiftRelayMessage_def isLowerC_def)
    moreover have "\<not> isLowerC CHR '' ''" by (simp add: isLowerC_def)
    ultimately show "\<forall>c \<in> set (?s @ '' '' @ ?r). c \<noteq> hd swiftRelayMessage"
      using sc(2) rc(2) by auto
  qed (simp add: swiftRelayMessage_def)
  have tr: "trimmed (?s @ '' '' @ ?r) = ?s @ '' '' @ ?r"
    using ne sc(1) [OF hd_in_set] rc(1) [OF last_in_set] by (intro trimmed_id) (simp add: no_outer_space_def)
  have sp: "qsplit CHR '' '' (?s @ '' '' @ ?r) = [?s, ?r]"
    using sc(4) rc(4) by (simp add: qsplit_append_sep qsplit_no_sep) (metis qsplit_append_sep qsplit_no_sep)
  let ?m = "makeRelayedMessage partner tm"
  have mm: "m_message ?m = ?h @ '';'' @ m_message tm"
    using n by (simp add: makeRelayedMessage_def Let_def)
  have rel: "isRelayedMessage ?m"
    using n by (simp add: isRelayedMessage_def makeRelayedMessage_def Let_def)
  show ?thesis
    using rel m tw rm tr sp n
    by (simp add: relayedMessageToPrivateMessage_def mm Let_def left_def mid_def)
      (simp add: makeRelayedMessage_def Let_def)
qed

subsection \<open>Consolidation keeps the text\<close>

lemma appendIfPossible_text:
  "appendIfPossible tm message = (True, tm1) \<Longrightarrow> m_message tm1 = m_message tm @ '' '' @ m_message message"
  by (auto simp: appendIfPossible_def split: if_splits)

lemma appendToFirst_text:
  "\<exists>tm \<in> set (appendToFirst tms message). \<exists>r. m_message tm = r @ m_message message"
proof (induction tms)
  case (Cons tm tms)
  obtain b tm1 where a: "appendIfPossible tm message = (b, tm1)" by (cases "appendIfPossible tm message")
  show ?case
  proof (cases b)
    case True
    have "m_message tm1 = (m_message tm @ '' '') @ m_message message"
      using appendIfPossible_text a True by simp
    then have "\<exists>r. m_message tm1 = r @ m_message message" by blast
    then show ?thesis using a True by simp
  next
    case False
    then show ?thesis using Cons a by simp
  qed
qed simp

lemma appendToFirst_length:
  "length (appendToFirst tms message) =
     (if \<exists>tm \<in> set tms. fst (appendIfPossible tm message) then length tms else Suc (length tms))"
  by (induction tms) (auto split: prod.splits bool.splits)

end
