(* ===== verification/Token_Bucket.thy ===== *)
theory Token_Bucket
  imports Qt_Number "HOL-Library.Signed_Division"
begin

text \<open>
  The rate limiter of aircraft configuration messages, \<open>CTokenBucket\<close>
  (\<open>src/misc/tokenbucket.cpp\<close>). Tokens are replenished lazily, when a consumption finds
  the stock too small. The clock is an argument: \<open>clock\<close> is the result of
  \<open>QDateTime::currentMSecsSinceEpoch\<close>, used when no positive time stamp is passed. The
  division of the source truncates towards zero (\<open>sdiv\<close>), and the number of new tokens
  is cast to \<open>int\<close> (\<open>wrap32\<close>).
\<close>

record CTokenBucket =
  m_capacity :: int
  m_availableTokens :: int
  m_numTokensToRefill :: int
  m_intervalMs :: int
  m_lastReplenishmentTime :: int

definition mkTokenBucket :: "int \<Rightarrow> int \<Rightarrow> int \<Rightarrow> int \<Rightarrow> CTokenBucket" where
  "mkTokenBucket clock capacity intervalMs numTokensToRefill =
     \<lparr>m_capacity = capacity, m_availableTokens = 10, m_numTokensToRefill = numTokensToRefill,
      m_intervalMs = intervalMs, m_lastReplenishmentTime = clock\<rparr>"

definition nowOr :: "int \<Rightarrow> int \<Rightarrow> int" where
  "nowOr clock msSinceEpoch = (if 0 < msSinceEpoch then msSinceEpoch else clock)"

definition newTokens :: "int \<Rightarrow> CTokenBucket \<Rightarrow> int" where
  "newTokens now tb =
     wrap32 ((m_numTokensToRefill tb * (now - m_lastReplenishmentTime tb)) sdiv m_intervalMs tb)"

definition getTokens :: "int \<Rightarrow> int \<Rightarrow> CTokenBucket \<Rightarrow> int \<times> CTokenBucket" where
  "getTokens clock msSinceEpoch tb =
     (let now = nowOr clock msSinceEpoch;
          numberOfTokens = newTokens now tb
      in (numberOfTokens,
          if 0 < numberOfTokens then tb\<lparr>m_lastReplenishmentTime := now\<rparr> else tb))"

definition tryConsume :: "int \<Rightarrow> int \<Rightarrow> int \<Rightarrow> CTokenBucket \<Rightarrow> bool \<times> CTokenBucket" where
  "tryConsume clock numTokens msSinceEpoch tb =
     (if numTokens \<le> m_availableTokens tb
      then (True, tb\<lparr>m_availableTokens := m_availableTokens tb - numTokens\<rparr>)
      else case getTokens clock msSinceEpoch tb of (tokens, tb1) \<Rightarrow>
        let replenishedTokens = min (m_capacity tb1) tokens;
            available = min (m_availableTokens tb1 + replenishedTokens) (m_capacity tb1)
        in if numTokens \<le> available
           then (True, tb1\<lparr>m_availableTokens := available - numTokens\<rparr>)
           else (False, tb1\<lparr>m_availableTokens := available\<rparr>))"

definition setNumberOfTokensToRefill :: "int \<Rightarrow> CTokenBucket \<Rightarrow> CTokenBucket" where
  "setNumberOfTokensToRefill numTokens tb = tb\<lparr>m_numTokensToRefill := numTokens\<rparr>"

definition setCapacity :: "int \<Rightarrow> CTokenBucket \<Rightarrow> CTokenBucket" where
  "setCapacity capacity tb = tb\<lparr>m_capacity := capacity\<rparr>"

definition setCapacityAndTokensToRefill :: "int \<Rightarrow> CTokenBucket \<Rightarrow> CTokenBucket" where
  "setCapacityAndTokensToRefill numTokens tb =
     setNumberOfTokensToRefill numTokens (setCapacity numTokens tb)"

definition setInterval :: "int \<Rightarrow> CTokenBucket \<Rightarrow> CTokenBucket" where
  "setInterval intervalMs tb = tb\<lparr>m_intervalMs := intervalMs\<rparr>"

definition getTokensPerSecond :: "CTokenBucket \<Rightarrow> int" where
  "getTokensPerSecond tb =
     (if m_intervalMs tb < 1 then 0 else (m_numTokensToRefill tb * 1000) sdiv m_intervalMs tb)"

text \<open>A sequence of requests (number of tokens, clock) and the tokens granted in it.\<close>

fun consumeAll :: "CTokenBucket \<Rightarrow> (int \<times> int) list \<Rightarrow> int \<times> CTokenBucket" where
  "consumeAll tb [] = (0, tb)"
| "consumeAll tb ((n, clock) # rs) =
     (case tryConsume clock n (-1) tb of (ok, tb1) \<Rightarrow>
        case consumeAll tb1 rs of (granted, tb2) \<Rightarrow> ((if ok then n else 0) + granted, tb2))"

subsection \<open>Bounds\<close>

definition bucket_policy :: "CTokenBucket \<Rightarrow> bool" where
  "bucket_policy tb \<longleftrightarrow> 0 \<le> m_numTokensToRefill tb \<and> 0 < m_intervalMs tb \<and> 0 \<le> m_capacity tb"

text \<open>Requests whose times do not run backwards and for which a token count is positive.\<close>

fun times_from :: "int \<Rightarrow> (int \<times> int) list \<Rightarrow> bool" where
  "times_from t [] \<longleftrightarrow> True"
| "times_from t ((n, clock) # rs) \<longleftrightarrow> 0 < n \<and> t \<le> clock \<and> times_from clock rs"

definition lastTime :: "int \<Rightarrow> (int \<times> int) list \<Rightarrow> int" where
  "lastTime t rs = (if rs = [] then t else snd (last rs))"

lemma sdiv_nonneg: "0 \<le> a \<Longrightarrow> 0 < b \<Longrightarrow> (a :: int) sdiv b = a div b"
  by (simp add: signed_divide_int_def sgn_if)

lemma wrap32_le: "0 \<le> v \<Longrightarrow> wrap32 v \<le> v"
  using zmod_le_nonneg_dividend [of "v + 2147483648" 4294967296] by (simp add: wrap32_def)

lemma newTokens_le:
  assumes "bucket_policy tb" and "m_lastReplenishmentTime tb \<le> now"
  shows "newTokens now tb \<le> m_numTokensToRefill tb * (now - m_lastReplenishmentTime tb) div m_intervalMs tb"
proof -
  have "0 \<le> m_numTokensToRefill tb * (now - m_lastReplenishmentTime tb)"
    using assms by (simp add: bucket_policy_def)
  moreover then have "0 \<le> m_numTokensToRefill tb * (now - m_lastReplenishmentTime tb) div m_intervalMs tb"
    using assms(1) by (simp add: bucket_policy_def pos_imp_zdiv_nonneg_iff)
  ultimately show ?thesis
    using assms(1) wrap32_le by (simp add: newTokens_def bucket_policy_def sdiv_nonneg)
qed

lemma div_superadd:
  "0 < (i :: int) \<Longrightarrow> r * (b - a) div i + r * (c - b) div i \<le> r * (c - a) div i"
proof -
  assume i: "0 < i"
  let ?x = "r * (b - a)" and ?y = "r * (c - b)"
  have "i * (?x div i) \<le> ?x" "i * (?y div i) \<le> ?y"
    using i pos_mod_sign [OF i, of ?x] pos_mod_sign [OF i, of ?y]
    by (simp_all add: minus_mod_eq_mult_div [symmetric])
  then have "i * (?x div i + ?y div i) \<le> ?x + ?y" by (simp add: distrib_left)
  also have "?x + ?y = r * (c - a)" by (simp add: algebra_simps)
  finally have "(?x div i + ?y div i) * i \<le> r * (c - a)" by (simp add: mult.commute)
  from zdiv_mono1 [OF this i] show ?thesis using i by simp
qed

subsection \<open>The stock stays within its bounds\<close>

definition stock_ok :: "CTokenBucket \<Rightarrow> bool" where
  "stock_ok tb \<longleftrightarrow> m_availableTokens tb \<le> max 10 (m_capacity tb)"

lemma tryConsume_policy [simp]:
  "m_capacity (snd (tryConsume clock n ms tb)) = m_capacity tb"
  "m_numTokensToRefill (snd (tryConsume clock n ms tb)) = m_numTokensToRefill tb"
  "m_intervalMs (snd (tryConsume clock n ms tb)) = m_intervalMs tb"
  by (auto simp: tryConsume_def getTokens_def Let_def)

lemma tryConsume_stock:
  "0 < n \<Longrightarrow> stock_ok tb \<Longrightarrow> stock_ok (snd (tryConsume clock n ms tb))"
  by (auto simp: tryConsume_def getTokens_def Let_def stock_ok_def)

lemma tryConsume_capacity:
  "0 < n \<Longrightarrow> m_availableTokens tb \<le> m_capacity tb
     \<Longrightarrow> m_availableTokens (snd (tryConsume clock n ms tb)) \<le> m_capacity tb"
  by (auto simp: tryConsume_def getTokens_def Let_def)

subsection \<open>The rate\<close>

text \<open>What a bucket can still give until the time \<open>t\<close>.\<close>

definition potential :: "CTokenBucket \<Rightarrow> int \<Rightarrow> int" where
  "potential tb t =
     m_availableTokens tb
     + m_numTokensToRefill tb * (t - m_lastReplenishmentTime tb) div m_intervalMs tb"

lemma potential_mono:
  assumes "bucket_policy tb" and "t \<le> u"
  shows "potential tb t \<le> potential tb u"
proof -
  have "m_numTokensToRefill tb * (t - m_lastReplenishmentTime tb)
      \<le> m_numTokensToRefill tb * (u - m_lastReplenishmentTime tb)"
    using assms by (intro mult_left_mono) (simp_all add: bucket_policy_def)
  then show ?thesis
    using assms(1) by (simp add: potential_def bucket_policy_def zdiv_mono1)
qed

lemma potential_refill:
  assumes p: "bucket_policy tb" and l: "m_lastReplenishmentTime tb \<le> now" and u: "now \<le> t"
  shows "potential
      (tb\<lparr>m_availableTokens := m_availableTokens tb + newTokens now tb,
          m_lastReplenishmentTime := now\<rparr>) t \<le> potential tb t"
  using newTokens_le [OF p l] div_superadd [of "m_intervalMs tb" "m_numTokensToRefill tb"
      now "m_lastReplenishmentTime tb" t] p
  by (simp add: potential_def bucket_policy_def)

lemma tryConsume_potential:
  assumes p: "bucket_policy tb" and l: "m_lastReplenishmentTime tb \<le> clock" and u: "clock \<le> t"
    and c: "0 < clock"
  shows "(if fst (tryConsume clock n (-1) tb) then n else 0)
      + potential (snd (tryConsume clock n (-1) tb)) t \<le> potential tb t"
proof (cases "n \<le> m_availableTokens tb")
  case True
  then show ?thesis by (simp add: tryConsume_def potential_def)
next
  case False
  show ?thesis
  proof (cases "0 < newTokens clock tb")
    case True
    then show ?thesis
      using False potential_refill [OF p l u]
      by (auto simp: tryConsume_def getTokens_def nowOr_def Let_def potential_def)
  next
    case n: False
    then show ?thesis
      using False by (auto simp: tryConsume_def getTokens_def nowOr_def Let_def potential_def)
  qed
qed

lemma tryConsume_last:
  "m_lastReplenishmentTime tb \<le> clock \<Longrightarrow> m_lastReplenishmentTime (snd (tryConsume clock n (-1) tb)) \<le> clock"
  by (auto simp: tryConsume_def getTokens_def nowOr_def Let_def)

lemma times_from_last: "times_from t rs \<Longrightarrow> t \<le> lastTime t rs"
proof (induction t rs rule: times_from.induct)
  case (2 t n clock rs)
  then show ?case by (auto simp: lastTime_def split: if_splits)
qed (simp add: lastTime_def)

lemma consumeAll_bound:
  "bucket_policy tb \<Longrightarrow> m_lastReplenishmentTime tb \<le> t \<Longrightarrow> 0 < t \<Longrightarrow> times_from t rs \<Longrightarrow> lastTime t rs \<le> u
   \<Longrightarrow> fst (consumeAll tb rs) + potential (snd (consumeAll tb rs)) u \<le> potential tb u"
proof (induction rs arbitrary: tb t)
  case Nil
  then show ?case by simp
next
  case (Cons r rs)
  obtain n clock where r: "r = (n, clock)" by (cases r)
  let ?c = "tryConsume clock n (-1) tb"
  have t: "t \<le> clock" "times_from clock rs" using Cons.prems(4) r by auto
  have last: "lastTime clock rs \<le> u" using Cons.prems(5) r by (auto simp: lastTime_def split: if_splits)
  have u: "clock \<le> u" using times_from_last [OF t(2)] last by simp
  have l: "m_lastReplenishmentTime tb \<le> clock" using Cons.prems(2) t(1) by simp
  have "bucket_policy (snd ?c)" using Cons.prems(1) by (simp add: bucket_policy_def)
  then have "fst (consumeAll (snd ?c) rs) + potential (snd (consumeAll (snd ?c) rs)) u
      \<le> potential (snd ?c) u"
    using Cons.prems(3) t tryConsume_last [OF l] last by (intro Cons.IH [of _ clock]) simp_all
  moreover have "(if fst ?c then n else 0) + potential (snd ?c) u \<le> potential tb u"
    using Cons.prems(1,3) l u t(1) by (intro tryConsume_potential) simp_all
  ultimately show ?case by (simp add: r case_prod_beta)
qed

text \<open>The stock does not become negative while the clock does not run backwards.\<close>

lemma tryConsume_nonneg:
  assumes "0 \<le> m_availableTokens tb" and "0 \<le> newTokens (nowOr clock ms) tb" and "0 \<le> m_capacity tb"
  shows "0 \<le> m_availableTokens (snd (tryConsume clock n ms tb))"
  using assms by (auto simp: tryConsume_def getTokens_def Let_def)

text \<open>No overflow: all the tokens refilled until the time \<open>u\<close> fit into an \<open>int\<close>.\<close>

definition refill_fits :: "CTokenBucket \<Rightarrow> int \<Rightarrow> bool" where
  "refill_fits tb u \<longleftrightarrow> m_numTokensToRefill tb * (u - m_lastReplenishmentTime tb) div m_intervalMs tb < 2 ^ 31"

lemma newTokens_fit:
  assumes p: "bucket_policy tb" and l: "m_lastReplenishmentTime tb \<le> now" "now \<le> u" and f: "refill_fits tb u"
  shows "0 \<le> newTokens now tb"
proof -
  let ?k = "m_numTokensToRefill tb * (now - m_lastReplenishmentTime tb)"
  have k: "0 \<le> ?k" using p l by (simp add: bucket_policy_def)
  have "?k div m_intervalMs tb \<le> m_numTokensToRefill tb * (u - m_lastReplenishmentTime tb) div m_intervalMs tb"
    using p l by (intro zdiv_mono1 mult_left_mono) (simp_all add: bucket_policy_def)
  moreover have nn: "0 \<le> ?k div m_intervalMs tb"
    using k p by (simp add: bucket_policy_def pos_imp_zdiv_nonneg_iff)
  ultimately have "int32 (?k div m_intervalMs tb)"
    using f by (simp add: int32_def refill_fits_def)
  then show ?thesis
    using k p nn by (simp add: newTokens_def sdiv_nonneg wrap32_id bucket_policy_def)
qed

lemma refill_fits_step:
  assumes p: "bucket_policy tb" and l: "m_lastReplenishmentTime tb \<le> clock" and c: "0 < clock"
    and f: "refill_fits tb u"
  shows "refill_fits (snd (tryConsume clock n (-1) tb)) u"
proof -
  let ?tb = "snd (tryConsume clock n (-1) tb)"
  have "m_lastReplenishmentTime tb \<le> m_lastReplenishmentTime ?tb"
    using l by (auto simp: tryConsume_def getTokens_def nowOr_def Let_def)
  then have "m_numTokensToRefill tb * (u - m_lastReplenishmentTime ?tb) div m_intervalMs tb
      \<le> m_numTokensToRefill tb * (u - m_lastReplenishmentTime tb) div m_intervalMs tb"
    using p by (intro zdiv_mono1 mult_left_mono) (simp_all add: bucket_policy_def)
  then show ?thesis using f by (simp add: refill_fits_def)
qed

lemma consumeAll_potential:
  "bucket_policy tb \<Longrightarrow> m_lastReplenishmentTime tb \<le> t \<Longrightarrow> 0 < t \<Longrightarrow> times_from t rs \<Longrightarrow> lastTime t rs \<le> u
   \<Longrightarrow> refill_fits tb u \<Longrightarrow> 0 \<le> m_availableTokens tb \<Longrightarrow> 0 \<le> potential (snd (consumeAll tb rs)) u"
proof (induction rs arbitrary: tb t)
  case Nil
  then show ?case
    by (simp add: potential_def bucket_policy_def lastTime_def pos_imp_zdiv_nonneg_iff)
next
  case (Cons r rs)
  obtain n clock where r: "r = (n, clock)" by (cases r)
  let ?tb = "snd (tryConsume clock n (-1) tb)"
  have t: "t \<le> clock" "times_from clock rs" using Cons.prems(4) r by auto
  have last: "lastTime clock rs \<le> u" using Cons.prems(5) r by (auto simp: lastTime_def split: if_splits)
  have u: "clock \<le> u" using times_from_last [OF t(2)] last by simp
  have l: "m_lastReplenishmentTime tb \<le> clock" using Cons.prems(2) t(1) by simp
  have "0 \<le> m_availableTokens ?tb"
  proof (rule tryConsume_nonneg [OF Cons.prems(7)])
    show "0 \<le> newTokens (nowOr clock (-1)) tb"
      using newTokens_fit [OF Cons.prems(1) l u Cons.prems(6)] by (simp add: nowOr_def)
    show "0 \<le> m_capacity tb" using Cons.prems(1) by (simp add: bucket_policy_def)
  qed
  moreover have "bucket_policy ?tb" using Cons.prems(1) by (simp add: bucket_policy_def)
  moreover have "refill_fits ?tb u"
    using refill_fits_step [OF Cons.prems(1) l _ Cons.prems(6)] Cons.prems(3) t(1) by simp
  ultimately have "0 \<le> potential (snd (consumeAll ?tb rs)) u"
    using Cons.prems(3) t tryConsume_last [OF l] last by (intro Cons.IH [of _ clock]) simp_all
  then show ?case by (simp add: r case_prod_beta)
qed

interpretation bucket_machine: invariant_machine
  "\<lambda>tb (n :: nat, clock, ms). snd (tryConsume clock (1 + int n) ms tb)" stock_ok
  by unfold_locales (auto intro!: tryConsume_stock)

end
