(* ===== verification/Fsd_Client.thy ===== *)
theory Fsd_Client
  imports Fsd_Queue Fsd_Offset_Times Fsd_Capabilities Fsd_Raw_Log Fsd_Info_Messages
    Fsd_Position_Messages Network_Text_Message Token_Bucket
begin

text \<open>
  The state of \<open>CFSDClient\<close> (\<open>src/core/fsd/fsdclient.h\<close>) and its life cycle
  (\<open>src/core/fsd/fsdclient.cpp\<close>): sending, the connection status, timers, login and
  logoff. A client is a record; an operation returns the new record. What an operation
  does to the outside, bytes written to the transport and signals emitted, is appended to
  the field \<open>c_out\<close> in order. The configuration (server, login mode, own callsign) is part
  of the record; the own aircraft and the clock are arguments. The aircraft parts sent last
  are kept as their JSON text, empty for no parts. The operations run in the
  thread of the client, as the source enforces.
\<close>

datatype ConnectionStatus = Connected | Connecting | Disconnecting | Disconnected
datatype LoginMode = Pilot | ModeObserver

record FsdServer =
  s_usesWebSocket :: bool
  s_address :: string
  s_cid :: string
  s_password :: string
  s_realName :: string
  s_realNameAndHomeBase :: string
  s_receiveEuroscopeSimData :: bool
  s_sendInterimPositions :: bool
  s_receiveInterimPositions :: bool
  s_sendVisualPositions :: bool
  s_receiveAircraftParts :: bool
  s_sendAircraftParts :: bool
  s_force3LetterAirlineCodes :: bool

record AtcStation =
  as_callsign :: CCallsign
  as_frequencykHz :: int

record AtisMessage =
  at_voiceRoom :: string
  at_textLines :: "string list"
  at_zuluLogoff :: string
  at_lineCount :: int

datatype FlightRules = FpVFR | FpIFR | FpSVFR | FpDVFR

datatype 'd Signal =
    ConnectionStatusChanged ConnectionStatus ConnectionStatus
  | SevereNetworkError string
  | RawFsdMessage string
  | PongReceived string int
  | KillRequestReceived string
  | MuteRequestReceived bool
  | DeleteAtcReceived string
  | DeletePilotReceived string
  | ValidAtcResponseReceived string bool
  | CapabilityResponseReceived string ClientCapabilities
  | Com1FrequencyResponseReceived string 'd
  | RealNameResponseReceived string string
  | ServerResponseReceived string string
  | AtisLogoffTimeReplyReceived CCallsign string
  | AtisReplyReceived CCallsign string
  | TextMessagesReceived "CTextMessage list"
  | TextMessageSent CTextMessage
  | PlaneInformationReceived string string string string
  | PlaneInformationFsinnReceived string string string string string
  | CustomPilotPacketReceived string "string list"
  | AircraftConfigReceived string string int
  | AtcDataUpdateReceived CCallsign int 'd 'd int
  | PilotDataUpdateReceived "'d PilotDataUpdate" int int TransponderMode
  | InterimPilotDataUpdatedReceived "'d InterimPilotDataUpdate" int
  | EuroscopeSimDataUpdatedReceived "'d EuroscopeSimData" int int
  | FlightPlanReceived CCallsign FlightRules string string string FlightPlan

datatype 'd Effect = Write string | Emit "'d Signal"

record 'd FsdClient =
  c_server :: FsdServer
  c_ownCallsign :: CCallsign
  c_loginMode :: LoginMode
  c_protocolRevision :: int
  c_clientName :: string
  c_hostApplication :: string
  c_version :: "int \<times> int"
  c_capabilities :: Capabilities
  c_simType :: SimType
  c_pilotRating :: PilotRating
  c_atcRating :: AtcRating
  c_usesVatsimAtisMessages :: bool
  c_sendModelString :: bool
  c_sendLiveryString :: bool
  c_ownModelString :: string
  c_ownLivery :: string
  c_unitTestMode :: bool
  c_rawFsdMessagesEnabled :: bool
  c_additionalOffsetTime :: int
  c_interimPositionReceivers :: "CCallsign list"
  c_transportOpen :: bool
  c_transportConnected :: bool
  c_webSocketReadBuffer :: string
  c_connectionStatus :: ConnectionStatus
  c_loginSince :: int
  c_rehosting :: bool
  c_filterPasswordFromLogin :: bool
  c_queue :: "string list"
  c_positionTimer :: bool
  c_interimTimer :: bool
  c_visualTimer :: bool
  c_configTimer :: bool
  c_sendTimer :: bool
  c_stoppedSendingVisualPositions :: bool
  c_serverWantsVisualPositions :: bool
  c_visualPositionUpdateSentCount :: "32 word"
  c_textMessagesToConsolidate :: "CTextMessage list"
  c_pendingAtisQueries :: "string \<rightharpoonup> int \<times> string list"
  c_mapAtisMessages :: "string \<rightharpoonup> AtisMessage"
  c_offsets :: OffsetTimes
  c_atcStations :: "AtcStation list"
  c_sentAircraftConfig :: string
  c_tokenBucket :: CTokenBucket
  c_out :: "'d Effect list"

definition emitSignal :: "'d Signal \<Rightarrow> 'd FsdClient \<Rightarrow> 'd FsdClient" where
  "emitSignal sig c = c\<lparr>c_out := c_out c @ [Emit sig]\<rparr>"

definition writeTransportData :: "string \<Rightarrow> 'd FsdClient \<Rightarrow> 'd FsdClient" where
  "writeTransportData data c = c\<lparr>c_out := c_out c @ [Write data]\<rparr>"

definition ownCallsignString :: "'d FsdClient \<Rightarrow> string" where
  "ownCallsignString c = cs_callsign (c_ownCallsign c)"

subsection \<open>Sending\<close>

definition emitRawFsdMessage :: "string \<Rightarrow> bool \<Rightarrow> 'd FsdClient \<Rightarrow> 'd FsdClient" where
  "emitRawFsdMessage fsdMessage isSent c =
     (if \<not> c_unitTestMode c \<and> \<not> c_rawFsdMessagesEnabled c then c
      else case filterRawMessage (c_filterPasswordFromLogin c) fsdMessage of
        (filtered, flag) \<Rightarrow>
          emitSignal (RawFsdMessage ((if isSent then ''FSD Sent=>'' else ''FSD Recv=>'') @ filtered))
            (c\<lparr>c_filterPasswordFromLogin := flag\<rparr>))"

definition sendMessageString :: "string \<Rightarrow> 'd FsdClient \<Rightarrow> 'd FsdClient" where
  "sendMessageString message c =
     (if message = [] then c
      else emitRawFsdMessage (trimmed message) True
             (if \<not> c_unitTestMode c then writeTransportData message c else c))"

definition sendDirectMessage ::
  "string \<Rightarrow> ('a MessageBase_scheme \<Rightarrow> string list) \<Rightarrow> 'a MessageBase_scheme \<Rightarrow> 'd FsdClient \<Rightarrow> 'd FsdClient" where
  "sendDirectMessage pdu toTokens message c =
     (if \<not> m_isValid message then c
      else sendMessageString (messageToFSDString pdu toTokens message) c)"

definition queueMessage ::
  "string \<Rightarrow> ('a MessageBase_scheme \<Rightarrow> string list) \<Rightarrow> 'a MessageBase_scheme \<Rightarrow> 'd FsdClient \<Rightarrow> 'd FsdClient" where
  "queueMessage pdu toTokens message c =
     (if \<not> m_isValid message then c
      else if c_unitTestMode c then sendDirectMessage pdu toTokens message c
      else c\<lparr>c_queue := c_queue c @ [messageToFSDString pdu toTokens message]\<rparr>)"

text \<open>The timeout of \<open>m_fsdSendMessageTimer\<close>.\<close>

definition sendQueued :: "'d FsdClient \<Rightarrow> 'd FsdClient option" where
  "sendQueued c =
     map_option (\<lambda>(sent, queue). fold sendMessageString sent (c\<lparr>c_queue := queue\<rparr>))
       (sendQueuedMessage (c_queue c))"

subsection \<open>Timers and state\<close>

definition startPositionTimers :: "'d FsdClient \<Rightarrow> 'd FsdClient" where
  "startPositionTimers c =
     c\<lparr>c_positionTimer := True, c_configTimer := True, c_sendTimer := True,
       c_queue := [],
       c_interimTimer := s_sendInterimPositions (c_server c),
       c_visualTimer := s_sendVisualPositions (c_server c)\<rparr>"

definition stopPositionTimers :: "'d FsdClient \<Rightarrow> 'd FsdClient" where
  "stopPositionTimers c =
     c\<lparr>c_positionTimer := False, c_interimTimer := False, c_visualTimer := False,
       c_configTimer := False, c_sendTimer := False\<rparr>"

definition clearState :: "'d FsdClient \<Rightarrow> 'd FsdClient" where
  "clearState c =
     c\<lparr>c_rehosting := False, c_stoppedSendingVisualPositions := False,
       c_serverWantsVisualPositions := False, c_visualPositionUpdateSentCount := 0,
       c_textMessagesToConsolidate := [], c_pendingAtisQueries := Map.empty,
       c_offsets := clearOffsetTimes, c_atcStations := [], c_queue := [], c_sentAircraftConfig := [], c_loginSince := -1\<rparr>"

definition clearStateCallsign :: "CCallsign \<Rightarrow> 'd FsdClient \<Rightarrow> 'd FsdClient" where
  "clearStateCallsign callsign c =
     (if cs_isEmpty callsign then c
      else let cs = cs_callsign callsign in
        c\<lparr>c_pendingAtisQueries := (c_pendingAtisQueries c)(cs := None),
          c_interimPositionReceivers :=
            filter (\<lambda>r. \<not> cs_equal r callsign) (c_interimPositionReceivers c),
          c_offsets := removeOffsetTimes cs (c_offsets c)\<rparr>)"

definition updateConnectionStatus :: "ConnectionStatus \<Rightarrow> 'd FsdClient \<Rightarrow> 'd FsdClient" where
  "updateConnectionStatus newStatus c =
     (if c_connectionStatus c = newStatus then c
      else let c1 = (if newStatus = Disconnected then clearState (stopPositionTimers c) else c);
               oldStatus = c_connectionStatus c1
           in emitSignal (ConnectionStatusChanged oldStatus newStatus)
                (c1\<lparr>c_connectionStatus := newStatus\<rparr>))"

text \<open>
  Closing the transport. A closed TCP socket is no longer open; a web socket reports its
  end with a signal (\<open>handleWebSocketDisconnected\<close>).
\<close>

definition closeTransport :: "'d FsdClient \<Rightarrow> 'd FsdClient" where
  "closeTransport c =
     (if s_usesWebSocket (c_server c)
      then c\<lparr>c_transportConnected := False, c_webSocketReadBuffer := []\<rparr>
      else c\<lparr>c_transportConnected := False, c_transportOpen := False\<rparr>)"

subsection \<open>Login, logoff\<close>

definition sendDeletePilot :: "'d FsdClient \<Rightarrow> 'd FsdClient" where
  "sendDeletePilot c =
     queueMessage DeletePilot_pdu DeletePilot_toTokens
       (mkDeletePilot (getFsdCallsignString (c_ownCallsign c)) (s_cid (c_server c))) c"

definition sendDeleteAtc :: "'d FsdClient \<Rightarrow> 'd FsdClient" where
  "sendDeleteAtc c =
     queueMessage DeleteAtc_pdu DeleteAtc_toTokens
       (mkDeleteAtc (ownCallsignString c) (s_cid (c_server c))) c"

definition disconnectFromServer :: "'d FsdClient \<Rightarrow> 'd FsdClient" where
  "disconnectFromServer c =
     (let c1 = updateConnectionStatus Disconnecting (stopPositionTimers c);
          c2 = (if c_transportConnected c1
                then if c_loginMode c1 = Pilot then sendDeletePilot c1
                     else if c_loginMode c1 = ModeObserver then sendDeleteAtc c1 else c1
                else c1)
      in clearState (updateConnectionStatus Disconnected (closeTransport c2)))"

definition sendQuery :: "ClientQueryType \<Rightarrow> string \<Rightarrow> string list \<Rightarrow> 'd FsdClient \<Rightarrow> 'd FsdClient" where
  "sendQuery queryType receiver queryData c =
     queueMessage ClientQuery_pdu ClientQuery_toTokens
       (mkClientQuery (ownCallsignString c) receiver queryType queryData) c"

definition sendClientQuery ::
  "int \<Rightarrow> ClientQueryType \<Rightarrow> CCallsign \<Rightarrow> string list \<Rightarrow> 'd FsdClient \<Rightarrow> 'd FsdClient" where
  "sendClientQuery now queryType receiver queryData c =
     (let receiverCallsign = getFsdCallsignString receiver in
      case queryType of
        ClientQueryType.Unknown \<Rightarrow> c
      | IsValidATC \<Rightarrow> sendQuery IsValidATC ''SERVER'' queryData c
      | QCapabilities \<Rightarrow> sendQuery QCapabilities receiverCallsign [] c
      | Com1Freq \<Rightarrow> sendQuery Com1Freq receiverCallsign [] c
      | RealName \<Rightarrow> sendQuery RealName receiverCallsign [] c
      | Server \<Rightarrow> sendQuery Server receiverCallsign [] c
      | ATIS \<Rightarrow>
          let c1 = sendQuery ATIS receiverCallsign [] c
          in c1\<lparr>c_pendingAtisQueries := (c_pendingAtisQueries c1)(cs_callsign receiver \<mapsto> (now, []))\<rparr>
      | PublicIP \<Rightarrow> sendQuery PublicIP receiverCallsign [] c
      | ClientQueryType.INF \<Rightarrow> sendQuery ClientQueryType.INF receiverCallsign [] c
      | FP \<Rightarrow> if queryData = [] then c else sendQuery FP ''SERVER'' queryData c
      | AircraftConfig \<Rightarrow>
          if queryData = [] then c else sendQuery AircraftConfig receiverCallsign queryData c
      | QEuroscopeSimData \<Rightarrow> sendQuery QEuroscopeSimData ''@94835'' [''1''] c)"

definition sendLogin :: "int \<Rightarrow> string \<Rightarrow> 'd FsdClient \<Rightarrow> 'd FsdClient" where
  "sendLogin now token c =
     (let s = c_server c;
          cid = s_cid s;
          password = (if token = [] then s_password s else token);
          name = s_realNameAndHomeBase s;
          callsign = ownCallsignString c;
          c1 = (if c_loginMode c = Pilot then
                  queueMessage AddPilot_pdu AddPilot_toTokens
                    (mkAddPilot callsign cid password (c_pilotRating c) (c_protocolRevision c)
                       (c_simType c) name) c
                else if c_loginMode c = ModeObserver then
                  queueMessage AddAtc_pdu AddAtc_toTokens
                    (mkAddAtc callsign name cid password (c_atcRating c) (c_protocolRevision c)) c
                else c)
      in if s_receiveEuroscopeSimData s
         then sendClientQuery now QEuroscopeSimData emptyCallsign [] c1 else c1)"

definition PROTOCOL_REVISION_CLASSIC :: int where
  "PROTOCOL_REVISION_CLASSIC = 9"

definition handleSocketConnected :: "int \<Rightarrow> 'd FsdClient \<Rightarrow> 'd FsdClient" where
  "handleSocketConnected now c =
     (if c_protocolRevision c = PROTOCOL_REVISION_CLASSIC
      then updateConnectionStatus Connected (sendLogin now [] c) else c)"

subsection \<open>Connecting, timeouts and errors\<close>

text \<open>Without load balancing: the host is connected to at once.\<close>

definition initiateConnection :: "'d FsdClient \<Rightarrow> 'd FsdClient" where
  "initiateConnection c = startPositionTimers (c\<lparr>c_transportOpen := True\<rparr>)"

text \<open>
  The assertions on the configuration are the caller's duty; \<open>hostApplication\<close> is the name
  of the simulator, used when none was set.
\<close>

definition connectToServer :: "int \<Rightarrow> string \<Rightarrow> 'd FsdClient \<Rightarrow> 'd FsdClient" where
  "connectToServer now hostApplication c =
     (if c_transportOpen c then c
      else let c1 = (if c_hostApplication c = []
                     then c\<lparr>c_hostApplication := map (\<lambda>ch. if ch = CHR '':'' then CHR '' '' else ch) hostApplication\<rparr>
                     else c);
               c2 = (clearState c1)\<lparr>c_filterPasswordFromLogin := True, c_loginSince := now\<rparr>
           in initiateConnection (updateConnectionStatus Connecting c2))"

definition isPendingConnection :: "'d FsdClient \<Rightarrow> bool" where
  "isPendingConnection c \<longleftrightarrow>
     c_connectionStatus c = Connecting \<or> c_connectionStatus c = Disconnecting"

definition PendingConnectionTimeoutMs :: int where
  "PendingConnectionTimeoutMs = 7500"

definition pendingTimeoutCheck :: "int \<Rightarrow> 'd FsdClient \<Rightarrow> 'd FsdClient" where
  "pendingTimeoutCheck now c =
     (if \<not> isPendingConnection c then c
      else if now - c_loginSince c < PendingConnectionTimeoutMs then c
      else disconnectFromServer c)"

definition handleSocketError :: "bool \<Rightarrow> string \<Rightarrow> 'd FsdClient \<Rightarrow> 'd FsdClient" where
  "handleSocketError remoteHostClosed error c =
     (if c_rehosting c then c
      else if remoteHostClosed then disconnectFromServer (emitSignal (SevereNetworkError error) c)
      else c)"

definition handleWebSocketDisconnected :: "string \<Rightarrow> 'd FsdClient \<Rightarrow> 'd FsdClient" where
  "handleWebSocketDisconnected closeReason c =
     (if c_rehosting c \<or> c_connectionStatus c = Disconnected \<or> c_connectionStatus c = Disconnecting
      then c
      else let error = (if closeReason = [] then ''WebSocket connection closed'' else closeReason)
           in disconnectFromServer (emitSignal (SevereNetworkError error) c))"

lemmas life_cycle_defs [client_defs] =
  emitSignal_def writeTransportData_def startPositionTimers_def stopPositionTimers_def
  clearState_def closeTransport_def initiateConnection_def

end
