(* ===== verification/Fsd_Sending.thy ===== *)
theory Fsd_Sending
  imports Fsd_Client
begin

text \<open>
  What \<open>CFSDClient\<close> (\<open>src/core/fsd/fsdclient.cpp\<close>) sends: the position updates of the
  timers, text messages, flight plans, plane information and aircraft configuration. The
  providers and libraries the client asks (the clock, the own aircraft, JSON, the range
  check) are the record \<open>ClientEnv\<close>: \<open>e_readConfig\<close> is what the JSON reader makes of an
  aircraft configuration packet, \<open>e_incremental\<close> the text of the difference of two
  configurations, \<open>e_distance\<close> the distance of a station from the own aircraft.
\<close>

datatype ConfigPacket = BadJson | FullRequest | EmptyConfig | Config string

record 'd ClientEnv =
  e_now :: int
  e_com1 :: CFrequency
  e_com2 :: CFrequency
  e_transponderMode :: TransponderMode
  e_transponderCode :: int
  e_aircraftDesignator :: string
  e_combinedType :: string
  e_airlineDesignator :: string
  e_airlineVDesignator :: string
  e_modelString :: string
  e_swiftLivery :: string
  e_latitude :: 'd
  e_longitude :: 'd
  e_altitude :: 'd
  e_altitudeFt :: int
  e_pressureAltitudeFt :: int
  e_groundElevation :: 'd
  e_groundSpeedKts :: int
  e_pitch :: 'd
  e_bank :: 'd
  e_heading :: 'd
  e_onGround :: bool
  e_velocity :: "'d \<times> 'd \<times> 'd"
  e_rotation :: "'d \<times> 'd \<times> 'd"
  e_localAddress :: string
  e_inRange :: "string \<Rightarrow> bool"
  e_readConfig :: "string \<Rightarrow> ConfigPacket"
  e_ownParts :: string
  e_ownPartsJson :: string
  e_incremental :: "string \<Rightarrow> string \<Rightarrow> string"
  e_distance :: "AtcStation \<Rightarrow> int"

subsection \<open>Position updates\<close>

definition sendAtcDataUpdate :: "'d dbl \<Rightarrow> 'd \<Rightarrow> 'd \<Rightarrow> 'd FsdClient \<Rightarrow> 'd FsdClient" where
  "sendAtcDataUpdate D latitude longitude c =
     queueMessage AtcDataUpdate_pdu (AtcDataUpdate_toTokens D)
       (mkAtcDataUpdate (ownCallsignString c) 199998 OBS 300 AtcRating.Observer latitude longitude 0) c"

definition minVelocity :: "'d dbl \<Rightarrow> 'd" where
  "minVelocity D = dDiv D (dOfInt D 5) (dOfInt D 100000)"

definition isSlow :: "'d dbl \<Rightarrow> 'd \<times> 'd \<times> 'd \<Rightarrow> bool" where
  "isSlow D v = (case v of (x, y, z) \<Rightarrow>
     dLess D (dAbs D x) (minVelocity D) \<and> dLess D (dAbs D y) (minVelocity D)
     \<and> dLess D (dAbs D z) (minVelocity D))"

definition ownVisualUpdate :: "'d dbl \<Rightarrow> 'd ClientEnv \<Rightarrow> 'd FsdClient \<Rightarrow> 'd VisualPilotDataUpdate" where
  "ownVisualUpdate D env c =
     (case (e_velocity env, e_rotation env) of ((vx, vy, vz), (pitch', roll', heading')) \<Rightarrow>
        mkVisualPilotDataUpdate (ownCallsignString c) (e_latitude env) (e_longitude env)
          (e_altitude env) (dSub D (e_altitude env) (e_groundElevation env))
          (e_pitch env) (e_bank env) (e_heading env) vx vy vz pitch' roll' heading' (dOfInt D 0))"

text \<open>The tail of \<open>sendVisualPilotDataUpdate\<close>: which of the three packets is sent.\<close>

definition sendVisual :: "'d dbl \<Rightarrow> 'd ClientEnv \<Rightarrow> 'd FsdClient \<Rightarrow> 'd FsdClient" where
  "sendVisual D env c =
     (let u = ownVisualUpdate D env c in
      if c_stoppedSendingVisualPositions c then
        queueMessage VisualPilotDataStopped_pdu (VisualPilotDataStopped_toTokens D) (toStopped u) c
      else
        let n = c_visualPositionUpdateSentCount c;
            c1 = c\<lparr>c_visualPositionUpdateSentCount := n + 1\<rparr>
        in if n mod 25 = 0 then
             queueMessage VisualPilotDataPeriodic_pdu (VisualPilotDataPeriodic_toTokens D) (toPeriodic u) c1
           else queueMessage VisualPilotDataUpdate_pdu (VisualPilotDataUpdate_toTokens D) u c1)"

definition sendVisualPilotDataUpdate ::
  "'d dbl \<Rightarrow> 'd ClientEnv \<Rightarrow> bool \<Rightarrow> 'd FsdClient \<Rightarrow> 'd FsdClient" where
  "sendVisualPilotDataUpdate D env slowUpdate c =
     (if c_connectionStatus c = Disconnected \<and> \<not> c_unitTestMode c then c
      else if c_loginMode c = ModeObserver \<or> \<not> s_sendVisualPositions (c_server c) then c
      else if slowUpdate then sendVisual D env c
      else if isSlow D (e_velocity env) \<and> isSlow D (e_rotation env) then
        if c_stoppedSendingVisualPositions c then c
        else let c1 = c\<lparr>c_stoppedSendingVisualPositions := True,
                         c_visualPositionUpdateSentCount := 0\<rparr>
             in if c_serverWantsVisualPositions c1 then sendVisual D env c1 else c1
      else let c1 = c\<lparr>c_stoppedSendingVisualPositions := False\<rparr>
           in if c_serverWantsVisualPositions c1 then sendVisual D env c1 else c1)"

text \<open>The cast of the transponder code to a 16 bit integer.\<close>

definition qint16 :: "int \<Rightarrow> int" where
  "qint16 i = sint (word_of_int i :: 16 word)"

definition sendPilotDataUpdate :: "'d dbl \<Rightarrow> 'd ClientEnv \<Rightarrow> 'd FsdClient \<Rightarrow> 'd FsdClient" where
  "sendPilotDataUpdate D env c =
     (if c_connectionStatus c = Disconnected \<and> \<not> c_unitTestMode c then c
      else if c_loginMode c = ModeObserver then
        sendAtcDataUpdate D (e_latitude env) (e_longitude env) c
      else
        let c1 = (if s_sendVisualPositions (c_server c)
                  then sendVisualPilotDataUpdate D env True c else c)
        in queueMessage PilotDataUpdate_pdu (PilotDataUpdate_toTokens D)
             (mkPilotDataUpdate (e_transponderMode env) (ownCallsignString c1)
                (qint16 (e_transponderCode env)) (c_pilotRating c1) (e_latitude env)
                (e_longitude env) (e_altitudeFt env) (e_pressureAltitudeFt env)
                (e_groundSpeedKts env) (e_pitch env) (e_bank env) (e_heading env)
                (e_onGround env)) c1)"

definition sendInterimTo :: "'d dbl \<Rightarrow> 'd ClientEnv \<Rightarrow> CCallsign \<Rightarrow> 'd FsdClient \<Rightarrow> 'd FsdClient" where
  "sendInterimTo D env receiver c =
     queueMessage InterimPilotDataUpdate_pdu (InterimPilotDataUpdate_toTokens D)
       (mkInterimPilotDataUpdate (ownCallsignString c) (cs_callsign receiver) (e_latitude env)
          (e_longitude env) (e_altitudeFt env) (e_groundSpeedKts env) (e_pitch env)
          (e_bank env) (e_heading env) (e_onGround env)) c"

definition sendInterimPilotDataUpdate :: "'d dbl \<Rightarrow> 'd ClientEnv \<Rightarrow> 'd FsdClient \<Rightarrow> 'd FsdClient" where
  "sendInterimPilotDataUpdate D env c =
     (if c_connectionStatus c = Disconnected then c
      else fold (sendInterimTo D env) (c_interimPositionReceivers c) c)"

definition sendPing :: "'d ClientEnv \<Rightarrow> string \<Rightarrow> 'd FsdClient \<Rightarrow> 'd FsdClient" where
  "sendPing env receiver c =
     queueMessage Ping_pdu Ping_toTokens
       (mkPing (ownCallsignString c) receiver (number (e_now env))) c"

subsection \<open>Text messages\<close>

definition sendRadioMessage :: "int list \<Rightarrow> string \<Rightarrow> 'd FsdClient \<Rightarrow> 'd FsdClient" where
  "sendRadioMessage frequencieskHz message c =
     queueMessage TextMessage_pdu TextMessage_toTokens
       (mkTextMessage (ownCallsignString c)
          (qjoin ''&'' (map (\<lambda>f. ''@'' @ number (wrap32 (f - 100000))) frequencieskHz)) message) c"

definition findIfFrequencyIsWithinSpacing :: "CFrequency \<Rightarrow> AtcStation list \<Rightarrow> AtcStation list" where
  "findIfFrequencyIsWithinSpacing frequency stations =
     (if frequency = None then []
      else filter (\<lambda>s. isSameFrequency frequency (Some (as_frequencykHz s))) stations)"

text \<open>The nearest station, the first one of several at the same distance.\<close>

fun findClosest :: "(AtcStation \<Rightarrow> int) \<Rightarrow> AtcStation \<Rightarrow> AtcStation list \<Rightarrow> AtcStation" where
  "findClosest distance s [] = s"
| "findClosest distance s (t # ts) =
     findClosest distance (if distance t < distance s then t else s) ts"

definition radioFrequency :: "'d ClientEnv \<Rightarrow> AtcStation list \<Rightarrow> CFrequency \<Rightarrow> CFrequency" where
  "radioFrequency env atcStations frequency =
     (case findIfFrequencyIsWithinSpacing frequency atcStations of
        [] \<Rightarrow> frequency
      | s # stations \<Rightarrow> Some (as_frequencykHz (findClosest (e_distance env) s stations)))"

definition sendPrivate :: "CTextMessage \<Rightarrow> 'd FsdClient \<Rightarrow> 'd FsdClient" where
  "sendPrivate message c =
     (if cs_isEmpty (m_recipientCallsign message) then c
      else emitSignal (TextMessageSent (tm_markAsSent message))
        (queueMessage TextMessage_pdu TextMessage_toTokens
           (mkTextMessage (ownCallsignString c)
              (getFsdCallsignString (m_recipientCallsign message)) (m_message message)) c))"

text \<open>A null frequency has the integer value 0.\<close>

definition sendRadio :: "'d ClientEnv \<Rightarrow> CTextMessage \<Rightarrow> 'd FsdClient \<Rightarrow> 'd FsdClient" where
  "sendRadio env message c =
     emitSignal (TextMessageSent (tm_markAsSent message))
       (sendRadioMessage
          [case radioFrequency env (c_atcStations c) (m_frequency message) of
             None \<Rightarrow> 0 | Some kHz \<Rightarrow> kHz]
          (m_message message) c)"

definition sendTextMessages :: "'d ClientEnv \<Rightarrow> CTextMessage list \<Rightarrow> 'd FsdClient \<Rightarrow> 'd FsdClient" where
  "sendTextMessages env messages c =
     fold (sendRadio env) (filter isRadioMessage messages)
       (fold sendPrivate (filter isPrivateMessage messages) c)"

datatype TextMessageGroups = AllClients | AllAtcClients | AllPilotClients | AllSups

fun groupReceiver :: "TextMessageGroups \<Rightarrow> string" where
  "groupReceiver AllClients = ''*''"
| "groupReceiver AllAtcClients = ''*A''"
| "groupReceiver AllPilotClients = ''*P''"
| "groupReceiver AllSups = ''*S''"

definition sendTextMessageGroup ::
  "TextMessageGroups \<Rightarrow> string \<Rightarrow> 'd FsdClient \<Rightarrow> 'd FsdClient" where
  "sendTextMessageGroup receiverGroup message c =
     (if message = [] then c
      else let receiver = groupReceiver receiverGroup;
               c1 = queueMessage TextMessage_pdu TextMessage_toTokens
                      (mkTextMessage (ownCallsignString c) receiver message) c
           in if receiverGroup = AllSups
              then emitSignal (TextMessageSent (tm_markAsSent
                     (mkPrivateMessage message (mkCallsign (ownCallsignString c) NoHint)
                        (mkCallsign receiver NoHint)))) c1
              else c1)"

subsection \<open>Flight plans\<close>

text \<open>
  The flight plan as entered: texts of the altitude and the aircraft type, times as hours
  and minutes.
\<close>

record CFlightPlan =
  f_flightRules :: FlightRules
  f_aircraftIcaoString :: string
  f_aircraftFaaString :: string
  f_trueAirspeedKts :: int
  f_origin :: string
  f_takeoffPlanned :: int
  f_takeoffActual :: int
  f_vatsimAltitude :: string
  f_destination :: string
  f_enroute :: "int \<times> int"
  f_fuel :: "int \<times> int"
  f_alternate :: string
  f_remarks :: string
  f_route :: string

fun getFlightType :: "FlightRules \<Rightarrow> FlightType" where
  "getFlightType FpIFR = FlightType.IFR"
| "getFlightType FpVFR = FlightType.VFR"
| "getFlightType FpSVFR = SVFR"
| "getFlightType FpDVFR = DVFR"

definition noColons :: "string \<Rightarrow> string" where
  "noColons input = removeChars input (\<lambda>ch. ch = CHR '':'')"

definition sendFlightPlan :: "bool \<Rightarrow> CFlightPlan \<Rightarrow> 'd FsdClient \<Rightarrow> 'd FsdClient" where
  "sendFlightPlan icaoEquipment flightPlan c =
     queueMessage FlightPlan_pdu FlightPlan_toTokens
       (mkFlightPlan (ownCallsignString c) ''SERVER''
          (getFlightType (f_flightRules flightPlan))
          (if icaoEquipment then f_aircraftIcaoString flightPlan else f_aircraftFaaString flightPlan)
          (f_trueAirspeedKts flightPlan) (f_origin flightPlan)
          (f_takeoffPlanned flightPlan) (f_takeoffActual flightPlan)
          (f_vatsimAltitude flightPlan) (f_destination flightPlan)
          (fst (f_enroute flightPlan)) (snd (f_enroute flightPlan))
          (fst (f_fuel flightPlan)) (snd (f_fuel flightPlan)) (f_alternate flightPlan)
          (noColons (f_remarks flightPlan)) (noColons (f_route flightPlan))) c"

subsection \<open>Plane information and aircraft configuration\<close>

definition noModelString :: string where
  "noModelString = ''swift empty string''"

definition getConfiguredModelString :: "'d ClientEnv \<Rightarrow> 'd FsdClient \<Rightarrow> string" where
  "getConfiguredModelString env c =
     (if \<not> c_sendModelString c then noModelString
      else let ms = (if c_ownModelString c = [] then e_modelString env else c_ownModelString c)
           in if ms = [] then noModelString else ms)"

definition getConfiguredLiveryString :: "'d ClientEnv \<Rightarrow> 'd FsdClient \<Rightarrow> string" where
  "getConfiguredLiveryString env c =
     (if \<not> c_sendLiveryString c then []
      else if c_ownLivery c = [] then e_swiftLivery env else c_ownLivery c)"

definition sendPlaneInfoRequest :: "CCallsign \<Rightarrow> 'd FsdClient \<Rightarrow> 'd FsdClient" where
  "sendPlaneInfoRequest receiver c =
     queueMessage PlaneInfoRequest_pdu PlaneInfoRequest_toTokens
       (mkPlaneInfoRequest (ownCallsignString c) (cs_callsign receiver)) c"

definition sendPlaneInfoRequestFsinn :: "'d ClientEnv \<Rightarrow> CCallsign \<Rightarrow> 'd FsdClient \<Rightarrow> 'd FsdClient" where
  "sendPlaneInfoRequestFsinn env callsign c =
     (if c_connectionStatus c \<noteq> Connected then c
      else queueMessage PlaneInfoRequestFsinn_pdu PlaneInfoRequestFsinn_toTokens
             (mkPlaneInfoRequestFsinn (ownCallsignString c) (cs_callsign callsign)
                (e_airlineDesignator env) (e_aircraftDesignator env) (e_combinedType env)
                (getConfiguredModelString env c)) c)"

definition sendPlaneInformation ::
  "string \<Rightarrow> string \<Rightarrow> string \<Rightarrow> string \<Rightarrow> 'd FsdClient \<Rightarrow> 'd FsdClient" where
  "sendPlaneInformation receiver aircraft airline livery c =
     queueMessage PlaneInformation_pdu PlaneInformation_toTokens
       (mkPlaneInformation (ownCallsignString c) receiver aircraft airline livery) c"

definition sendPlaneInformationFsinn :: "'d ClientEnv \<Rightarrow> CCallsign \<Rightarrow> 'd FsdClient \<Rightarrow> 'd FsdClient" where
  "sendPlaneInformationFsinn env callsign c =
     (if c_connectionStatus c = Disconnected \<and> \<not> c_unitTestMode c then c
      else queueMessage PlaneInformationFsinn_pdu PlaneInformationFsinn_toTokens
             (mkPlaneInformationFsinn (ownCallsignString c) (cs_callsign callsign)
                (e_airlineDesignator env) (e_aircraftDesignator env) (e_combinedType env)
                (getConfiguredModelString env c)) c)"

text \<open>Characters beyond ASCII as a backslash, u and four hexadecimal digits.\<close>

definition convertToUnicodeEscaped :: "string \<Rightarrow> string" where
  "convertToUnicodeEscaped str =
     concat (map (\<lambda>ch. let code = (of_char ch :: nat) in
                  if code < 128 then [ch]
                  else [CHR 0x5C, CHR ''u''] @ (let h = number_base 16 (int code)
                                 in replicate (4 - length h) CHR ''0'' @ h)) str)"

definition sendAircraftConfiguration :: "string \<Rightarrow> string \<Rightarrow> 'd FsdClient \<Rightarrow> 'd FsdClient" where
  "sendAircraftConfiguration receiver aircraftConfigJson c =
     (if aircraftConfigJson = [] then c
      else queueMessage ClientQuery_pdu ClientQuery_toTokens
             (mkClientQuery (ownCallsignString c) receiver AircraftConfig [aircraftConfigJson]) c)"

definition sendIncrementalAircraftConfig :: "'d ClientEnv \<Rightarrow> 'd FsdClient \<Rightarrow> 'd FsdClient" where
  "sendIncrementalAircraftConfig env c =
     (if \<not> c_unitTestMode c
         \<and> (c_connectionStatus c \<noteq> Connected \<or> \<not> s_sendAircraftParts (c_server c)) then c
      else if c_sentAircraftConfig c = e_ownParts env then c
      else case tryConsume (e_now env) 1 (-1) (c_tokenBucket c) of (granted, bucket) \<Rightarrow>
        let c1 = c\<lparr>c_tokenBucket := bucket\<rparr> in
        if \<not> granted then c1
        else (sendAircraftConfiguration ''@94836''
                (convertToUnicodeEscaped
                   (e_incremental env (c_sentAircraftConfig c1) (e_ownParts env))) c1)
               \<lparr>c_sentAircraftConfig := e_ownParts env\<rparr>)"

end
