(* ===== verification/Aviation_Transponder.thy ===== *)
theory Aviation_Transponder
  imports Fsd_Enums
begin

text \<open>
  Transponders, \<open>CTransponder\<close> (\<open>src/misc/aviation/transponder.cpp\<close>): codes of four octal
  digits, kept as the decimal number with these digits, and modes. The class is a pair of
  code and mode; a conversion of text the source asserts to succeed is an option.
\<close>

record CTransponder =
  m_transponderCode :: int
  m_transponderMode :: TransponderMode

definition mkTransponder :: "int \<Rightarrow> TransponderMode \<Rightarrow> CTransponder" where
  "mkTransponder transponderCode transponderMode =
     \<lparr>m_transponderCode = transponderCode, m_transponderMode = transponderMode\<rparr>"

definition transponder_default :: CTransponder where
  "transponder_default = mkTransponder 0 StateStandby"

definition startsWithCI :: "string \<Rightarrow> string \<Rightarrow> bool" where
  "startsWithCI s p \<longleftrightarrow> startsWith (toUpper s) (toUpper p)"

definition modeFromString :: "string \<Rightarrow> TransponderMode" where
  "modeFromString modeString =
     (if startsWithCI modeString ''I'' then StateIdent
      else if startsWithCI modeString ''S'' then StateStandby
      else if startsWithCI modeString ''Mode C'' then ModeC
      else if startsWithCI modeString ''C'' then ModeC
      else if startsWithCI modeString ''Mode S'' then ModeS
      else if CHR ''1'' \<in> set modeString then ModeMil1
      else if CHR ''2'' \<in> set modeString then ModeMil2
      else if CHR ''3'' \<in> set modeString then ModeMil3
      else if CHR ''4'' \<in> set modeString then ModeMil4
      else if CHR ''5'' \<in> set modeString then ModeMil5
      else StateStandby)"

text \<open>\<^term>\<open>None\<close> is the fatal branch of the source, taken for \<open>ModeA\<close> only.\<close>

fun modeAsString :: "TransponderMode \<Rightarrow> string option" where
  "modeAsString StateIdent = Some ''Ident''"
| "modeAsString StateStandby = Some ''Standby''"
| "modeAsString ModeC = Some ''Mode C''"
| "modeAsString ModeS = Some ''Mode S''"
| "modeAsString ModeMil1 = Some ''Mil.Mode 1''"
| "modeAsString ModeMil2 = Some ''Mil.Mode 2''"
| "modeAsString ModeMil3 = Some ''Mil.Mode 3''"
| "modeAsString ModeMil4 = Some ''Mil.Mode 4''"
| "modeAsString ModeMil5 = Some ''Mil.Mode 5''"
| "modeAsString ModeA = None"

fun modeAsShortString :: "TransponderMode \<Rightarrow> string option" where
  "modeAsShortString StateIdent = Some ''I''"
| "modeAsShortString StateStandby = Some ''S''"
| "modeAsShortString ModeC = Some ''C''"
| "modeAsShortString ModeS = Some ''S''"
| "modeAsShortString ModeMil1 = Some ''1''"
| "modeAsShortString ModeMil2 = Some ''2''"
| "modeAsShortString ModeMil3 = Some ''3''"
| "modeAsShortString ModeMil4 = Some ''4''"
| "modeAsShortString ModeMil5 = Some ''5''"
| "modeAsShortString ModeA = None"

definition setTransponderMode :: "TransponderMode \<Rightarrow> CTransponder \<Rightarrow> bool \<times> CTransponder" where
  "setTransponderMode mode t =
     (if mode = m_transponderMode t then (False, t) else (True, t\<lparr>m_transponderMode := mode\<rparr>))"

definition setModeAsString :: "string \<Rightarrow> CTransponder \<Rightarrow> CTransponder" where
  "setModeAsString mode t = snd (setTransponderMode (modeFromString mode) t)"

definition mkTransponderMS :: "int \<Rightarrow> string \<Rightarrow> CTransponder" where
  "mkTransponderMS transponderCode transponderMode =
     setModeAsString transponderMode (mkTransponder transponderCode StateStandby)"

definition mkTransponderSC :: "string \<Rightarrow> TransponderMode \<Rightarrow> CTransponder" where
  "mkTransponderSC transponderCode transponderMode =
     mkTransponder (case toInt_ok transponderCode of Some n \<Rightarrow> n | None \<Rightarrow> -1) transponderMode"

definition isInNormalSendingMode :: "CTransponder \<Rightarrow> bool" where
  "isInNormalSendingMode t \<longleftrightarrow>
     m_transponderMode t \<in> set [ModeA, ModeC, ModeMil1, ModeMil2, ModeMil3, ModeMil4, ModeMil5]"

definition isInStandby :: "CTransponder \<Rightarrow> bool" where
  "isInStandby t \<longleftrightarrow> StateStandby = m_transponderMode t"

definition isIdentifying :: "CTransponder \<Rightarrow> bool" where
  "isIdentifying t \<longleftrightarrow> StateIdent = m_transponderMode t"

definition toggleTransponderMode :: "CTransponder \<Rightarrow> CTransponder" where
  "toggleTransponderMode t =
     (if m_transponderMode t = StateIdent \<or> isInNormalSendingMode t
      then snd (setTransponderMode StateStandby t)
      else snd (setTransponderMode ModeC t))"

definition getTransponderCodeFormatted :: "CTransponder \<Rightarrow> string" where
  "getTransponderCodeFormatted t = right (''0000'' @ number (m_transponderCode t)) 4"

definition getTransponderCodeAndModeFormatted :: "CTransponder \<Rightarrow> string option" where
  "getTransponderCodeAndModeFormatted t =
     map_option (\<lambda>s. getTransponderCodeFormatted t @ '' '' @ s) (modeAsString (m_transponderMode t))"

definition isOctal :: "char \<Rightarrow> bool" where
  "isOctal c \<longleftrightarrow> (let n = (of_char c :: nat) in 48 \<le> n \<and> n \<le> 55)"

definition isValidTransponderCodeStr :: "string \<Rightarrow> bool" where
  "isValidTransponderCodeStr transponderCode \<longleftrightarrow>
     \<not> (transponderCode = [] \<or> 4 < length transponderCode)
     \<and> (case toInt_ok transponderCode of
          None \<Rightarrow> False
        | Some tc \<Rightarrow> \<not> (tc < 0 \<or> 7777 < tc) \<and> list_all isOctal (dollarEnd transponderCode)
            \<and> dollarEnd transponderCode \<noteq> [])"

definition isValidTransponderCode :: "int \<Rightarrow> bool" where
  "isValidTransponderCode transponderCode \<longleftrightarrow>
     (if transponderCode < 0 \<or> 7777 < transponderCode then False
      else isValidTransponderCodeStr (number transponderCode))"

definition validValues :: "CTransponder \<Rightarrow> bool" where
  "validValues t = isValidTransponderCode (m_transponderCode t)"

text \<open>\<^term>\<open>None\<close>: the assertion on an illegal code.\<close>

definition setTransponderCodeStr :: "string \<Rightarrow> CTransponder \<Rightarrow> CTransponder option" where
  "setTransponderCodeStr transponderCode t =
     (if isValidTransponderCodeStr transponderCode
      then Some (t\<lparr>m_transponderCode := toInt transponderCode\<rparr>) else None)"

definition setEmergency :: "CTransponder \<Rightarrow> CTransponder" where
  "setEmergency t = t\<lparr>m_transponderCode := 7700\<rparr>"

definition setVFR :: "CTransponder \<Rightarrow> CTransponder" where
  "setVFR t = t\<lparr>m_transponderCode := 7000\<rparr>"

definition setIFR :: "CTransponder \<Rightarrow> CTransponder" where
  "setIFR t = t\<lparr>m_transponderCode := 2000\<rparr>"

subsection \<open>Modes\<close>

lemma startsWith_code [simp]: "startsWith (c # s) (d # p) \<longleftrightarrow> c = d \<and> startsWith s p"
  "startsWith s []" "\<not> startsWith [] (d # p)"
  by (auto simp: startsWith_def)

lemma mode_roundtrip: "modeAsString m = Some s \<Longrightarrow> modeFromString s = m"
  by (cases m) (auto simp: modeFromString_def startsWithCI_def toUpperC_def isLowerC_def)

lemma toggle_cases:
  "m_transponderMode (toggleTransponderMode t) =
     (if m_transponderMode t \<in> {StateStandby, ModeS} then ModeC else StateStandby)"
  by (cases "m_transponderMode t")
    (simp_all add: toggleTransponderMode_def setTransponderMode_def isInNormalSendingMode_def)

subsection \<open>Codes\<close>

lemma digit_char_octal: "d < 10 \<Longrightarrow> isOctal (digit_char d) \<longleftrightarrow> d < 8"
  by (auto simp: isOctal_def of_char_digit_char Let_def)

text \<open>A code of four decimal digits, each below 8.\<close>

lemma list_all_nat_digits:
  "list_all isOctal (nat_digits 10 n) \<longleftrightarrow> (\<forall>k. n div 10 ^ k mod 10 < 8)"
proof (induction n rule: less_induct)
  case (less n)
  show ?case
  proof (cases "n < 10")
    case True
    then have "n div 10 ^ k mod 10 = (if k = 0 then n else 0)" for k
      by (cases k) (auto simp: div_mult2_eq)
    then show ?thesis using True by (simp add: nat_digits.simps [of 10 n] digit_char_octal)
  next
    case False
    then have "n div 10 < n" by simp
    moreover have "(\<forall>k. n div 10 ^ k mod 10 < 8)
        \<longleftrightarrow> n mod 10 < 8 \<and> (\<forall>k. n div 10 div 10 ^ k mod 10 < 8)" (is "?l \<longleftrightarrow> ?r")
    proof
      assume l: ?l
      have "n div 10 div 10 ^ k mod 10 < 8" for k
        using spec [OF l, of "Suc k"] by (simp add: div_mult2_eq)
      then show ?r using spec [OF l, of 0] by simp
    next
      assume r: ?r
      show ?l
      proof
        fix k
        show "n div 10 ^ k mod 10 < 8" using r by (cases k) (simp_all add: div_mult2_eq)
      qed
    qed
    ultimately show ?thesis
      using less False by (auto simp: nat_digits.simps [of 10 n] digit_char_octal)
  qed
qed

lemma length_number_4: "0 \<le> n \<Longrightarrow> n \<le> 7777 \<Longrightarrow> length (number n) \<le> 4"
  by (auto simp: number_base_def nat_digits.simps)

lemma valid_code_digits:
  "isValidTransponderCode n \<longleftrightarrow> 0 \<le> n \<and> n \<le> 7777 \<and> (\<forall>k. nat n div 10 ^ k mod 10 < 8)"
proof (cases "0 \<le> n \<and> n \<le> 7777")
  case True
  then have "int32 n" by (simp add: int32_def)
  then show ?thesis
    using True length_number_4 [of n]
    by (simp add: isValidTransponderCode_def isValidTransponderCodeStr_def dollarEnd_id)
      (simp add: number_base_def list_all_nat_digits)
qed (auto simp: isValidTransponderCode_def)

lemma length_codeFormatted: "length (getTransponderCodeFormatted t) = 4"
  by (simp add: getTransponderCodeFormatted_def length_right)

end
