(* ===== verification/Fsd_Handlers.thy ===== *)
theory Fsd_Handlers
  imports Fsd_Sending Aviation_Transponder
begin

text \<open>
  What \<open>CFSDClient\<close> (\<open>src/core/fsd/fsdclient.cpp\<close>) does with a received line: \<open>parseMessage\<close>
  and its handlers, in the build without the VATSIM authentication library. A handler
  returns the new client, or \<^term>\<open>None\<close> where the source reads beyond the token list.
\<close>

subsection \<open>ATC stations\<close>

definition containsCI :: "string \<Rightarrow> string \<Rightarrow> bool" where
  "containsCI s p \<longleftrightarrow> containsStr (toUpper s) (toUpper p)"

definition maxOrNotNull :: "int option \<Rightarrow> int option \<Rightarrow> int option" where
  "maxOrNotNull l1 l2 =
     (case l1 of None \<Rightarrow> l2
      | Some a \<Rightarrow> (case l2 of None \<Rightarrow> l1 | Some b \<Rightarrow> if b > a then l2 else l1))"

text \<open>Ranges are whole nautical miles.\<close>

definition fixAtcRange :: "int option \<Rightarrow> CCallsign \<Rightarrow> int option" where
  "fixAtcRange networkRange cs =
     (let suffix = getSuffix cs in
      if containsCI suffix ''ATIS'' then maxOrNotNull networkRange (Some 150)
      else if containsCI suffix ''GND'' then maxOrNotNull networkRange (Some 10)
      else if containsCI suffix ''TWR'' then maxOrNotNull networkRange (Some 25)
      else if containsCI suffix ''DEP'' then maxOrNotNull networkRange (Some 150)
      else if containsCI suffix ''APP'' then maxOrNotNull networkRange (Some 150)
      else if containsCI suffix ''CTR'' then maxOrNotNull networkRange (Some 300)
      else if containsCI suffix ''FSS'' then maxOrNotNull networkRange (Some 1500)
      else networkRange)"

definition removeStation :: "CCallsign \<Rightarrow> AtcStation list \<Rightarrow> AtcStation list" where
  "removeStation cs stations = filter (\<lambda>s. \<not> cs_equal (as_callsign s) cs) stations"

definition replaceOrAddStation :: "AtcStation \<Rightarrow> AtcStation list \<Rightarrow> AtcStation list" where
  "replaceOrAddStation station stations =
     (if cs_isEmpty (as_callsign station) then stations
      else removeStation (as_callsign station) stations @ [station])"

definition handleAtcDataUpdate :: "'d dbl \<Rightarrow> string list \<Rightarrow> 'd FsdClient \<Rightarrow> 'd FsdClient option" where
  "handleAtcDataUpdate D tokens c = do {
     m \<leftarrow> AtcDataUpdate_fromTokens D tokens;
     let cs = mkCallsign (m_sender m) Atc;
     Some (if ad_facility m = FacilityType.Unknown \<and> \<not> isObserverCallsign cs then c
           else if ad_facility m = OBS \<and> \<not> hasSuffix cs then c
           else let freq = ad_frequencykHz m;
                    range = fixAtcRange (Some (ad_visibleRange m)) cs;
                    c1 = emitSignal (AtcDataUpdateReceived cs freq (ad_latitude m) (ad_longitude m)
                           (case range of Some r \<Rightarrow> r | None \<Rightarrow> 0)) c
                in c1\<lparr>c_atcStations :=
                       replaceOrAddStation \<lparr>as_callsign = cs, as_frequencykHz = freq\<rparr> (c_atcStations c1)\<rparr>)
   }"

definition handleDeleteATC :: "string list \<Rightarrow> 'd FsdClient \<Rightarrow> 'd FsdClient option" where
  "handleDeleteATC tokens c = do {
     m \<leftarrow> DeleteAtc_fromTokens tokens;
     let c1 = emitSignal (DeleteAtcReceived (da_cid m)) c;
     Some (c1\<lparr>c_atcStations := removeStation (mkCallsign (da_cid m) NoHint) (c_atcStations c1)\<rparr>)
   }"

definition handleDeletePilot :: "string list \<Rightarrow> 'd FsdClient \<Rightarrow> 'd FsdClient option" where
  "handleDeletePilot tokens c = do {
     m \<leftarrow> DeletePilot_fromTokens tokens;
     let cs = mkCallsign (m_sender m) Aircraft;
     Some (emitSignal (DeletePilotReceived (dp_cid m)) (clearStateCallsign cs c))
   }"

subsection \<open>Text messages and ATIS\<close>

definition consolidateTextMessage :: "CTextMessage \<Rightarrow> 'd FsdClient \<Rightarrow> 'd FsdClient" where
  "consolidateTextMessage textMessage c =
     (if isSupervisorMessage textMessage then emitSignal (TextMessagesReceived [textMessage]) c
      else c\<lparr>c_textMessagesToConsolidate :=
               addConsolidatedTextMessage (c_textMessagesToConsolidate c) textMessage\<rparr>)"

definition emitConsolidatedTextMessages :: "'d FsdClient \<Rightarrow> 'd FsdClient" where
  "emitConsolidatedTextMessages c =
     (emitSignal (TextMessagesReceived (c_textMessagesToConsolidate c)) c)\<lparr>c_textMessagesToConsolidate := []\<rparr>"

text \<open>The expression \<open>^\d{0,4}z$\<close>.\<close>

definition isLogoffLine :: "string \<Rightarrow> bool" where
  "isLogoffLine message \<longleftrightarrow>
     (let t = dollarEnd message in
      t \<noteq> [] \<and> last t = CHR ''z'' \<and> length (butlast t) \<le> 4 \<and> list_all isDigitC (butlast t))"

definition appendLine :: "string \<Rightarrow> string \<Rightarrow> string" where
  "appendLine atisMessage line = (if atisMessage \<noteq> [] then atisMessage @ [newline] else []) @ line"

definition maybeHandleAtisReply ::
  "int \<Rightarrow> CCallsign \<Rightarrow> CCallsign \<Rightarrow> string \<Rightarrow> 'd FsdClient \<Rightarrow> 'd FsdClient" where
  "maybeHandleAtisReply now sender receiver message c =
     (let cs = cs_callsign sender in
      case c_pendingAtisQueries c cs of
        None \<Rightarrow> c
      | Some (queryTime, lines0) \<Rightarrow>
          let lines = lines0 @ [message];
              c1 = c\<lparr>c_pendingAtisQueries := (c_pendingAtisQueries c)(cs \<mapsto> (queryTime, lines))\<rparr>
          in if 5 < (now - queryTime) sdiv 1000 then
               let tm = mkPrivateMessage (qjoin [newline] lines) sender receiver;
                   c2 = consolidateTextMessage tm c1
               in c2\<lparr>c_pendingAtisQueries := (c_pendingAtisQueries c2)(cs := None)\<rparr>
             else if isLogoffLine message then
               let c2 = emitSignal (AtisLogoffTimeReplyReceived sender message) c1;
                   atisMessage = foldl appendLine [] lines;
                   c3 = emitSignal (AtisReplyReceived (mkCallsign cs Atc) atisMessage) c2
               in c3\<lparr>c_pendingAtisQueries := (c_pendingAtisQueries c3)(cs := None)\<rparr>
             else c1)"

definition handleTextMessage :: "'d ClientEnv \<Rightarrow> string list \<Rightarrow> 'd FsdClient \<Rightarrow> 'd FsdClient option" where
  "handleTextMessage env tokens c = do {
     m \<leftarrow> TextMessage_fromTokens tokens;
     let sender = mkCallsign (m_sender m) NoHint;
     let receiver = mkCallsign (m_receiver m) NoHint;
     Some (case tm_type m of
       PrivateMessage \<Rightarrow>
         if \<not> c_usesVatsimAtisMessages c \<and> ownCallsignString c = m_receiver m
            \<and> c_pendingAtisQueries c (cs_callsign sender) \<noteq> None
         then maybeHandleAtisReply (e_now env) sender receiver (tm_message m) c
         else consolidateTextMessage (mkPrivateMessage (tm_message m) sender receiver) c
     | RadioMessage \<Rightarrow>
         let frequencies =
               filter (\<lambda>f. Some f = e_com1 env \<or> Some f = e_com2 env)
                 (map round8_33kHzChannel (tm_frequencies m))
         in if frequencies = [] then c
            else emitSignal (TextMessagesReceived
                   (map (\<lambda>f. mkRadioMessage (tm_message m) (Some f) sender) frequencies)) c)
   }"

datatype AtisLineType = AtisUnknown | VoiceRoom | AtisTextMessage | ZuluLogoff | LineCount

definition fromQString_AtisLineType :: "string \<Rightarrow> AtisLineType" where
  "fromQString_AtisLineType str =
     (if str = ''V'' then VoiceRoom
      else if str = ''Z'' then ZuluLogoff
      else if str = ''T'' then AtisTextMessage
      else if str = ''E'' then LineCount
      else AtisUnknown)"

definition emptyAtis :: AtisMessage where
  "emptyAtis = \<lparr>at_voiceRoom = [], at_textLines = [], at_zuluLogoff = [], at_lineCount = 0\<rparr>"

definition atis_of :: "'d FsdClient \<Rightarrow> string \<Rightarrow> AtisMessage" where
  "atis_of c callsign = (case c_mapAtisMessages c callsign of None \<Rightarrow> emptyAtis | Some a \<Rightarrow> a)"

text \<open>The loop over the lines; \<^term>\<open>None\<close> is its early return on a placeholder line.\<close>

definition isPlaceholder :: "string \<Rightarrow> bool" where
  "isPlaceholder fixed \<longleftrightarrow>
     (let test = removeChars (toLower fixed) (\<lambda>ch. ch \<in> {CHR 0x0A, CHR 0x09, CHR 0x0D})
      in test = ''z'' \<or> (startsWith test ''z'' \<and> length test = 2) \<or> length test = 1)"

fun atisText :: "string list \<Rightarrow> string \<Rightarrow> string option" where
  "atisText [] atisMessage = Some atisMessage"
| "atisText (tm # lines) atisMessage =
     (let fixed = trimmed tm in
      if fixed \<noteq> [] then
        if isPlaceholder fixed then None else atisText lines (appendLine atisMessage fixed)
      else atisText lines atisMessage)"

definition updateAtisMap :: "string \<Rightarrow> AtisLineType \<Rightarrow> string \<Rightarrow> 'd FsdClient \<Rightarrow> 'd FsdClient" where
  "updateAtisMap callsign type line c =
     (let a = atis_of c callsign;
          put = (\<lambda>a. c\<lparr>c_mapAtisMessages := (c_mapAtisMessages c)(callsign \<mapsto> a)\<rparr>)
      in if type = VoiceRoom then
           put (a\<lparr>at_voiceRoom := line, at_lineCount := at_lineCount a + 1\<rparr>)
         else if type = AtisTextMessage then
           put (a\<lparr>at_textLines := at_textLines a @ [line], at_lineCount := at_lineCount a + 1\<rparr>)
         else if type = ZuluLogoff then
           put (a\<lparr>at_zuluLogoff := line, at_lineCount := at_lineCount a + 1\<rparr>)
         else if c_mapAtisMessages c callsign = None then c
         else let c1 = put (a\<lparr>at_lineCount := at_lineCount a + 1\<rparr>);
                  cs = mkCallsign callsign Atc;
                  c2 = emitSignal (AtisLogoffTimeReplyReceived cs (at_zuluLogoff a)) c1
              in case atisText (at_textLines a) [] of
                   None \<Rightarrow> c2
                 | Some atisMessage \<Rightarrow>
                     let c3 = emitSignal (AtisReplyReceived cs atisMessage) c2
                     in c3\<lparr>c_mapAtisMessages := (c_mapAtisMessages c3)(callsign := None)\<rparr>)"

subsection \<open>Positions\<close>

definition receivedFix :: "int \<Rightarrow> CCallsign \<Rightarrow> 'd FsdClient \<Rightarrow> int \<times> 'd FsdClient" where
  "receivedFix now callsign c =
     (case receivedPositionFixTsAndGetOffsetTime now (c_additionalOffsetTime c)
             (cs_callsign callsign) now (c_offsets c) of
        (offset, ot) \<Rightarrow> (offset, c\<lparr>c_offsets := ot\<rparr>))"

definition handlePilotDataUpdate ::
  "'d dbl \<Rightarrow> 'd ClientEnv \<Rightarrow> string list \<Rightarrow> 'd FsdClient \<Rightarrow> 'd FsdClient option" where
  "handlePilotDataUpdate D env tokens c = do {
     m \<leftarrow> PilotDataUpdate_fromTokens D tokens;
     let callsign = mkCallsign (m_sender m) Aircraft;
     Some (case receivedFix (e_now env) callsign c of (offsetTimeMs, c1) \<Rightarrow>
       if isValidTransponderCode (pd_transponderCode m)
       then emitSignal (PilotDataUpdateReceived m offsetTimeMs (pd_transponderCode m)
              (pd_transponderMode m)) c1
       else emitSignal (PilotDataUpdateReceived m offsetTimeMs 2000 StateStandby) c1)
   }"

definition handleEuroscopeSimData ::
  "'d dbl \<Rightarrow> 'd ClientEnv \<Rightarrow> string list \<Rightarrow> 'd FsdClient \<Rightarrow> 'd FsdClient option" where
  "handleEuroscopeSimData D env tokens c = do {
     m \<leftarrow> EuroscopeSimData_fromTokens D tokens;
     let callsign = mkCallsign (m_sender m) Aircraft;
     Some (case receivedFix (e_now env) callsign c of (offsetTimeMs, c1) \<Rightarrow>
       emitSignal (EuroscopeSimDataUpdatedReceived m offsetTimeMs
         (currentOffsetTime (c_offsets c1) (cs_callsign (mkCallsign (m_sender m) NoHint)))) c1)
   }"

definition handleVisualPilotDataToggle :: "string list \<Rightarrow> 'd FsdClient \<Rightarrow> 'd FsdClient option" where
  "handleVisualPilotDataToggle tokens c = do {
     m \<leftarrow> VisualPilotDataToggle_fromTokens tokens;
     Some (c\<lparr>c_serverWantsVisualPositions := vt_active m\<rparr>)
   }"

text \<open>The received visual positions are not used.\<close>

definition handleVisualPilotDataUpdate :: "string list \<Rightarrow> 'd FsdClient \<Rightarrow> 'd FsdClient option" where
  "handleVisualPilotDataUpdate tokens c = Some c"

subsection \<open>Ping, kick, flight plans\<close>

definition sendPong :: "string \<Rightarrow> string \<Rightarrow> 'd FsdClient \<Rightarrow> 'd FsdClient" where
  "sendPong receiver timestamp c =
     queueMessage Pong_pdu Pong_toTokens (mkPong (ownCallsignString c) receiver timestamp) c"

definition handlePing :: "string list \<Rightarrow> 'd FsdClient \<Rightarrow> 'd FsdClient option" where
  "handlePing tokens c = do {
     m \<leftarrow> Ping_fromTokens tokens;
     Some (sendPong (m_sender m) (pi_timestamp m) c)
   }"

definition handlePong :: "'d ClientEnv \<Rightarrow> string list \<Rightarrow> 'd FsdClient \<Rightarrow> 'd FsdClient option" where
  "handlePong env tokens c = do {
     m \<leftarrow> Pong_fromTokens tokens;
     let elapsedTime = e_now env - toLongLong (po_timestamp m);
     Some (emitSignal (PongReceived (m_sender m) elapsedTime) c)
   }"

definition handleKillRequest :: "string list \<Rightarrow> 'd FsdClient \<Rightarrow> 'd FsdClient option" where
  "handleKillRequest tokens c = do {
     m \<leftarrow> KillRequest_fromTokens tokens;
     Some (disconnectFromServer (emitSignal (KillRequestReceived (kr_reason m)) c))
   }"

fun rulesOfFlightType :: "FlightType \<Rightarrow> FlightRules" where
  "rulesOfFlightType FlightType.VFR = FpVFR"
| "rulesOfFlightType FlightType.IFR = FpIFR"
| "rulesOfFlightType DVFR = FpDVFR"
| "rulesOfFlightType SVFR = FpSVFR"

text \<open>A cruise altitude of digits only is taken as feet or as a flight level.\<close>

definition fixCruiseAltitude :: "FlightRules \<Rightarrow> string \<Rightarrow> string" where
  "fixCruiseAltitude rules cruiseAlt =
     (let cruiseAltString = trimmed cruiseAlt in
      if cruiseAltString \<noteq> [] \<and> is09OnlyString cruiseAltString then
        let ca = toInt cruiseAltString in
        if rules = FpIFR then
          (if 1000 \<le> ca then ''FL'' @ number (ca sdiv 100) else ''FL'' @ cruiseAltString)
        else
          (if 5000 \<le> ca then ''FL'' @ number (ca sdiv 100) else cruiseAltString @ ''ft'')
      else cruiseAltString)"

text \<open>A departure time as four digits.\<close>

definition hhmm :: "int \<Rightarrow> string" where
  "hhmm t = right (''0000'' @ number t) 4"

definition handleFlightPlan :: "string list \<Rightarrow> 'd FsdClient \<Rightarrow> 'd FsdClient option" where
  "handleFlightPlan tokens c = do {
     fp \<leftarrow> FlightPlan_fromTokens tokens;
     let rules = rulesOfFlightType (fp_flightType fp);
     Some (emitSignal (FlightPlanReceived (mkCallsign (m_sender fp) Aircraft) rules
             (fixCruiseAltitude rules (fp_cruiseAlt fp)) (hhmm (fp_estimatedDepTime fp))
             (hhmm (fp_actualDepTime fp)) fp) c)
   }"

subsection \<open>Client queries\<close>

definition respond :: "ClientQueryType \<Rightarrow> string \<Rightarrow> string list \<Rightarrow> 'd FsdClient \<Rightarrow> 'd FsdClient" where
  "respond queryType receiver responseData c =
     queueMessage ClientResponse_pdu ClientResponse_toTokens
       (mkClientResponse (ownCallsignString c) receiver queryType responseData) c"

definition userInfo :: "'d dbl \<Rightarrow> 'd ClientEnv \<Rightarrow> 'd FsdClient \<Rightarrow> string" where
  "userInfo D env c =
     ''CID='' @ s_cid (c_server c) @ '' '' @ c_clientName c @ '' IP='' @ e_localAddress env
     @ '' SYS_UID='' @ '' FSVER='' @ c_hostApplication c @ '' LT='' @ dGeneral D (e_latitude env)
     @ '' LO='' @ dGeneral D (e_longitude env) @ '' AL='' @ number (e_altitudeFt env) @ '' ''
     @ s_realName (c_server c)"

definition com1Text :: "'d dbl \<Rightarrow> 'd ClientEnv \<Rightarrow> string" where
  "com1Text D env =
     (case e_com1 env of
        None \<Rightarrow> dNumber D (dOfInt D 0) 3
      | Some kHz \<Rightarrow> dNumber D (dDiv D (dOfInt D kHz) (dOfInt D 1000)) 3)"

definition sendClientResponse ::
  "'d dbl \<Rightarrow> 'd ClientEnv \<Rightarrow> ClientQueryType \<Rightarrow> string \<Rightarrow> 'd FsdClient \<Rightarrow> 'd FsdClient" where
  "sendClientResponse D env queryType receiver c =
     (case queryType of
        QCapabilities \<Rightarrow> respond QCapabilities receiver (capabilitiesResponse (c_capabilities c)) c
      | Com1Freq \<Rightarrow> respond Com1Freq receiver [com1Text D env] c
      | RealName \<Rightarrow>
          respond RealName receiver
            [s_realNameAndHomeBase (c_server c), [],
             if c_loginMode c = ModeObserver then toQString_AtcRating (c_atcRating c)
             else toQString_PilotRating (c_pilotRating c)] c
      | Server \<Rightarrow> respond Server receiver [s_address (c_server c)] c
      | ClientQueryType.INF \<Rightarrow>
          queueMessage TextMessage_pdu TextMessage_toTokens
            (mkTextMessage (ownCallsignString c) receiver (userInfo D env c)) c
      | _ \<Rightarrow> c)"

definition handleClientQuery ::
  "'d dbl \<Rightarrow> 'd ClientEnv \<Rightarrow> string list \<Rightarrow> 'd FsdClient \<Rightarrow> 'd FsdClient option" where
  "handleClientQuery D env tokens c = do {
     m \<leftarrow> ClientQuery_fromTokens tokens;
     Some (case cq_queryType m of
       QCapabilities \<Rightarrow> sendClientResponse D env QCapabilities (m_sender m) c
     | Com1Freq \<Rightarrow> sendClientResponse D env Com1Freq (m_sender m) c
     | RealName \<Rightarrow> sendClientResponse D env RealName (m_sender m) c
     | Server \<Rightarrow> sendClientResponse D env Server (m_sender m) c
     | ClientQueryType.INF \<Rightarrow> sendClientResponse D env ClientQueryType.INF (m_sender m) c
     | AircraftConfig \<Rightarrow>
         let aircraftConfigJson = qjoin '':'' (mid tokens 3);
             callsign = cs_callsign (mkCallsign (m_sender m) Aircraft)
         in (case e_readConfig env aircraftConfigJson of
               BadJson \<Rightarrow> c
             | FullRequest \<Rightarrow>
                 sendAircraftConfiguration (m_sender m) (convertToUnicodeEscaped (e_ownPartsJson env)) c
             | EmptyConfig \<Rightarrow> c
             | Config config \<Rightarrow>
                 if \<not> e_inRange env callsign then c
                 else if \<not> s_receiveAircraftParts (c_server c) then c
                 else emitSignal (AircraftConfigReceived (m_sender m) config
                        (currentOffsetTime (c_offsets c) callsign)) c)
     | _ \<Rightarrow> c)
   }"

definition handleClientResponse ::
  "'d dbl \<Rightarrow> string list \<Rightarrow> 'd FsdClient \<Rightarrow> 'd FsdClient option" where
  "handleClientResponse D tokens c = do {
     m \<leftarrow> ClientResponse_fromTokens tokens;
     let responseData1 = at_default (cr_responseData m) 0 [];
     let responseData2 = at_default (cr_responseData m) 1 [];
     Some (case cr_queryType m of
       IsValidATC \<Rightarrow> emitSignal (ValidAtcResponseReceived responseData2 (responseData1 = ''Y'')) c
     | QCapabilities \<Rightarrow>
         emitSignal (CapabilityResponseReceived (m_sender m)
           (clientCapabilities (readCapabilities (cr_responseData m)))) c
     | Com1Freq \<Rightarrow>
         if responseData1 = [] then c
         else (case dParse D responseData1 of
                 None \<Rightarrow> c
               | Some freqMHz \<Rightarrow> emitSignal (Com1FrequencyResponseReceived (m_sender m) freqMHz) c)
     | RealName \<Rightarrow> emitSignal (RealNameResponseReceived (m_sender m) responseData1) c
     | Server \<Rightarrow> emitSignal (ServerResponseReceived (m_sender m) responseData1) c
     | ATIS \<Rightarrow> updateAtisMap (m_sender m) (fromQString_AtisLineType responseData1) responseData2 c
     | _ \<Rightarrow> c)
   }"

end
