(* ===== verification/Fsd_Parse.thy ===== *)
theory Fsd_Parse
  imports Fsd_Handlers
begin

text \<open>
  The rest of the handlers of \<open>src/core/fsd/fsdclient.cpp\<close>, \<open>parseMessage\<close> which calls
  them, reading from the two kinds of transport, and the client as a machine: \<open>client_step\<close>
  performs one event of its event loop, \<open>client_run\<close> a sequence of events. \<^term>\<open>None\<close> is
  a run in which a handler reads beyond its tokens.
\<close>

subsection \<open>Server errors, rehosting, muting\<close>

definition handleServerError :: "string list \<Rightarrow> 'd FsdClient \<Rightarrow> 'd FsdClient option" where
  "handleServerError tokens c = do {
     m \<leftarrow> ServerError_fromTokens tokens;
     Some (if isFatalError m then disconnectFromServer c else c)
   }"

definition handleRehost :: "string list \<Rightarrow> 'd FsdClient \<Rightarrow> 'd FsdClient option" where
  "handleRehost tokens c = do {
     m \<leftarrow> Rehost_fromTokens tokens;
     Some (if s_usesWebSocket (c_server c) then c else c\<lparr>c_rehosting := True\<rparr>)
   }"

text \<open>The socket of the new host is connected; or it failed, and the old socket is or is not
  connected still.\<close>

definition rehostConnected :: "'d FsdClient \<Rightarrow> 'd FsdClient" where
  "rehostConnected c = c\<lparr>c_rehosting := False, c_transportOpen := True, c_transportConnected := True\<rparr>"

definition rehostFailed :: "'d FsdClient \<Rightarrow> 'd FsdClient" where
  "rehostFailed c =
     (let c1 = c\<lparr>c_rehosting := False\<rparr>
      in if c_transportConnected c1 then c1 else updateConnectionStatus Disconnected c1)"

definition handleMute :: "string list \<Rightarrow> 'd FsdClient \<Rightarrow> 'd FsdClient option" where
  "handleMute tokens c = do {
     m \<leftarrow> Mute_fromTokens tokens;
     Some (if m_receiver m \<noteq> ownCallsignString c then c
           else emitSignal (MuteRequestReceived (mu_mute m)) c)
   }"

subsection \<open>Custom pilot packets\<close>

definition handlePlaneInfoRequest :: "'d ClientEnv \<Rightarrow> string list \<Rightarrow> 'd FsdClient \<Rightarrow> 'd FsdClient option" where
  "handlePlaneInfoRequest env tokens c = do {
     m \<leftarrow> PlaneInfoRequest_fromTokens tokens;
     let airlineIcao = (if s_force3LetterAirlineCodes (c_server c) then e_airlineDesignator env
                        else e_airlineVDesignator env);
     Some (sendPlaneInformation (m_sender m) (e_aircraftDesignator env) airlineIcao
             (getConfiguredLiveryString env c) c)
   }"

definition handlePlaneInformation :: "string list \<Rightarrow> 'd FsdClient \<Rightarrow> 'd FsdClient option" where
  "handlePlaneInformation tokens c =
     (if 6 < length tokens \<and> tokens ! 3 = ''X'' then Some c
      else if 4 < length tokens \<and> tokens ! 3 = ''GEN'' then do {
        m \<leftarrow> PlaneInformation_fromTokens tokens;
        Some (emitSignal (PlaneInformationReceived (m_sender m) (pl_aircraft m) (pl_airline m)
                (pl_livery m)) c)
      }
      else Some c)"

definition handleInterimUpdate ::
  "'d dbl \<Rightarrow> 'd ClientEnv \<Rightarrow> string list \<Rightarrow> 'd FsdClient \<Rightarrow> 'd FsdClient option" where
  "handleInterimUpdate D env tokens c =
     (if \<not> s_receiveInterimPositions (c_server c) then Some c
      else do {
        m \<leftarrow> InterimPilotDataUpdate_fromTokens D tokens;
        let callsign = mkCallsign (m_sender m) Aircraft;
        Some (case receivedFix (e_now env) callsign c of (offsetTimeMs, c1) \<Rightarrow>
          emitSignal (InterimPilotDataUpdatedReceived m offsetTimeMs) c1)
      })"

definition handlePlaneInformationFsinn :: "string list \<Rightarrow> 'd FsdClient \<Rightarrow> 'd FsdClient option" where
  "handlePlaneInformationFsinn tokens c = do {
     m \<leftarrow> PlaneInformationFsinn_fromTokens tokens;
     Some (emitSignal (PlaneInformationFsinnReceived (m_sender m) (fi_airlineIcao m)
             (fi_aircraftIcao m) (fi_aircraftIcaoCombinedType m) (fi_sendMModelString m)) c)
   }"

definition handlePlaneInfoRequestFsinn ::
  "'d ClientEnv \<Rightarrow> string list \<Rightarrow> 'd FsdClient \<Rightarrow> 'd FsdClient option" where
  "handlePlaneInfoRequestFsinn env tokens c = do {
     m \<leftarrow> PlaneInfoRequestFsinn_fromTokens tokens;
     Some (emitSignal (PlaneInformationFsinnReceived (m_sender m) (fr_airlineIcao m)
             (fr_aircraftIcao m) (fr_aircraftIcaoCombinedType m) (fr_sendMModelString m))
             (sendPlaneInformationFsinn env (mkCallsign (m_sender m) NoHint) c))
   }"

definition handleCustomPilotPacket ::
  "'d dbl \<Rightarrow> 'd ClientEnv \<Rightarrow> string list \<Rightarrow> 'd FsdClient \<Rightarrow> 'd FsdClient option" where
  "handleCustomPilotPacket D env tokens c = do {
     subType \<leftarrow> at_opt tokens 2;
     if subType = ''PIR'' then handlePlaneInfoRequest env tokens c
     else if subType = ''PI'' then handlePlaneInformation tokens c
     else if subType = ''I'' then Some c
     else if subType = ''VI'' then handleInterimUpdate D env tokens c
     else if subType = ''FSIPI'' then handlePlaneInformationFsinn tokens c
     else if subType = ''FSIPIR'' then handlePlaneInfoRequestFsinn env tokens c
     else Some (emitSignal (CustomPilotPacketReceived (at_default tokens 0 []) (mid tokens 3)) c)
   }"

subsection \<open>The parser\<close>

text \<open>
  The \<open>switch\<close> of \<open>parseMessage\<close>. A packet of a type without a case, among them those of the
  VATSIM authentication, is unknown and ignored with a warning.
\<close>

definition handlePacket ::
  "'d dbl \<Rightarrow> 'd ClientEnv \<Rightarrow> MessageType \<Rightarrow> string list \<Rightarrow> 'd FsdClient \<Rightarrow> 'd FsdClient option" where
  "handlePacket D env messageType tokens c =
     (case messageType of
        AtcDataUpdate \<Rightarrow> handleAtcDataUpdate D tokens c
      | ClientQuery \<Rightarrow> handleClientQuery D env tokens c
      | ClientResponse \<Rightarrow> handleClientResponse D tokens c
      | DeleteATC \<Rightarrow> handleDeleteATC tokens c
      | DeletePilot \<Rightarrow> handleDeletePilot tokens c
      | MessageType.FlightPlan \<Rightarrow> handleFlightPlan tokens c
      | KillRequest \<Rightarrow> handleKillRequest tokens c
      | PilotDataUpdate \<Rightarrow> handlePilotDataUpdate D env tokens c
      | Ping \<Rightarrow> handlePing tokens c
      | Pong \<Rightarrow> handlePong env tokens c
      | ServerError \<Rightarrow> handleServerError tokens c
      | TextMessage \<Rightarrow> handleTextMessage env tokens c
      | PilotClientCom \<Rightarrow> handleCustomPilotPacket D env tokens c
      | VisualPilotDataUpdate \<Rightarrow> handleVisualPilotDataUpdate tokens c
      | VisualPilotDataPeriodic \<Rightarrow> handleVisualPilotDataUpdate tokens c
      | VisualPilotDataStopped \<Rightarrow> handleVisualPilotDataUpdate tokens c
      | VisualPilotDataToggle \<Rightarrow> handleVisualPilotDataToggle tokens c
      | EuroscopeSimData \<Rightarrow> handleEuroscopeSimData D env tokens c
      | Rehost \<Rightarrow> handleRehost tokens c
      | Mute \<Rightarrow> handleMute tokens c
      | _ \<Rightarrow> Some c)"

definition parseMessage ::
  "'d dbl \<Rightarrow> 'd ClientEnv \<Rightarrow> (string \<times> MessageType) list \<Rightarrow> string \<Rightarrow> 'd FsdClient \<Rightarrow> 'd FsdClient option" where
  "parseMessage D env table lineRaw c =
     (let c1 = emitRawFsdMessage (trimmed lineRaw) False c in
      case parseLine table lineRaw of
        UnknownPacket line \<Rightarrow> Some c1
      | EmptyPayload \<Rightarrow> Some c1
      | Packet messageType tokens \<Rightarrow> handlePacket D env messageType tokens c1)"

subsection \<open>Reading\<close>

text \<open>
  \<open>readDataFromSocketMaxLines\<close>: the complete lines in the socket's buffer, at most 75 of them
  (or the given number); the rest is read by a call scheduled with a larger maximum. The
  result has the lines left and the maximum of that call, if one is scheduled.
\<close>

fun readLines ::
  "'d dbl \<Rightarrow> 'd ClientEnv \<Rightarrow> (string \<times> MessageType) list \<Rightarrow> int \<Rightarrow> int \<Rightarrow> string list \<Rightarrow> 'd FsdClient
   \<Rightarrow> ('d FsdClient \<times> string list \<times> int option) option" where
  "readLines D env table maxLines lines [] c = Some (c, [], None)"
| "readLines D env table maxLines lines (l # ls) c =
     (if l = [] then readLines D env table maxLines lines ls c
      else case parseMessage D env table l c of
        None \<Rightarrow> None
      | Some c1 \<Rightarrow>
          let maxLines1 = (if maxLines < 0 then 74 else maxLines) in
          if maxLines1 < lines + 1 then Some (c1, ls, Some (qRound_quot (12 * (lines + 1)) 10))
          else readLines D env table maxLines1 (lines + 1) ls c1)"

text \<open>
  \<open>readDataFromWebSocket\<close>: complete lines are cut from the buffer, the rest waits for the next
  message. The fuel is the length of the buffer, of which every pass takes a character.
\<close>

fun drainWebSocket ::
  "'d dbl \<Rightarrow> 'd ClientEnv \<Rightarrow> (string \<times> MessageType) list \<Rightarrow> nat \<Rightarrow> 'd FsdClient \<Rightarrow> 'd FsdClient option" where
  "drainWebSocket D env table 0 c = Some c"
| "drainWebSocket D env table (Suc fuel) c =
     (let buffer = c_webSocketReadBuffer c in
      if newline \<notin> set buffer then Some c
      else let line = takeWhile (\<lambda>ch. ch \<noteq> newline) buffer @ [newline];
               c1 = c\<lparr>c_webSocketReadBuffer := drop (length line) buffer\<rparr>
           in if trimmed line = [] then drainWebSocket D env table fuel c1
              else case parseMessage D env table line c1 of
                     None \<Rightarrow> None
                   | Some c2 \<Rightarrow> drainWebSocket D env table fuel c2)"

definition readDataFromWebSocket ::
  "'d dbl \<Rightarrow> 'd ClientEnv \<Rightarrow> (string \<times> MessageType) list \<Rightarrow> string \<Rightarrow> 'd FsdClient \<Rightarrow> 'd FsdClient option" where
  "readDataFromWebSocket D env table message c =
     (if message = [] then Some c
      else let c1 = c\<lparr>c_webSocketReadBuffer := c_webSocketReadBuffer c @ message\<rparr>
           in drainWebSocket D env table (length (c_webSocketReadBuffer c1)) c1)"

subsection \<open>The client as a machine\<close>

text \<open>
  The events of the client's thread: calls of its users, time-outs of its timers and signals
  of the transport. A timer that is stopped does not fire.
\<close>

datatype Event =
    ConnectToServer string
  | DisconnectFromServer
  | TransportConnected
  | SocketError bool string
  | WebSocketClosed string
  | LineReceived string
  | WebSocketData string
  | PendingTimeout
  | SendTimer
  | PositionTimer
  | InterimTimer
  | VisualTimer
  | ConfigTimer
  | ConsolidationTimer
  | RehostConnected
  | RehostFailed
  | SendTexts "CTextMessage list"
  | SendGroupText TextMessageGroups string
  | SendFlightPlan bool CFlightPlan
  | SendClientQuery ClientQueryType CCallsign "string list"
  | SendPing string
  | SendPlaneInfoRequest CCallsign
  | SendPlaneInfoRequestFsinn CCallsign
  | SetInterimReceivers "CCallsign list"

definition client_step ::
  "'d dbl \<Rightarrow> (string \<times> MessageType) list \<Rightarrow> 'd ClientEnv \<Rightarrow> Event \<Rightarrow> 'd FsdClient \<Rightarrow> 'd FsdClient option" where
  "client_step D table env event c =
     (case event of
        ConnectToServer host \<Rightarrow> Some (connectToServer (e_now env) host c)
      | DisconnectFromServer \<Rightarrow> Some (disconnectFromServer c)
      | TransportConnected \<Rightarrow>
          Some (handleSocketConnected (e_now env) (c\<lparr>c_transportOpen := True, c_transportConnected := True\<rparr>))
      | SocketError remoteHostClosed error \<Rightarrow>
          Some (handleSocketError remoteHostClosed error
                  (if remoteHostClosed then c\<lparr>c_transportConnected := False\<rparr> else c))
      | WebSocketClosed reason \<Rightarrow>
          Some (handleWebSocketDisconnected reason
                  (c\<lparr>c_transportOpen := False, c_transportConnected := False\<rparr>))
      | LineReceived line \<Rightarrow> parseMessage D env table line c
      | WebSocketData message \<Rightarrow> readDataFromWebSocket D env table message c
      | PendingTimeout \<Rightarrow> Some (pendingTimeoutCheck (e_now env) c)
      | SendTimer \<Rightarrow> if c_sendTimer c then sendQueued c else Some c
      | PositionTimer \<Rightarrow> Some (if c_positionTimer c then sendPilotDataUpdate D env c else c)
      | InterimTimer \<Rightarrow> Some (if c_interimTimer c then sendInterimPilotDataUpdate D env c else c)
      | VisualTimer \<Rightarrow>
          Some (if c_visualTimer c then sendVisualPilotDataUpdate D env False c else c)
      | ConfigTimer \<Rightarrow> Some (if c_configTimer c then sendIncrementalAircraftConfig env c else c)
      | ConsolidationTimer \<Rightarrow> Some (emitConsolidatedTextMessages c)
      | RehostConnected \<Rightarrow> Some (rehostConnected c)
      | RehostFailed \<Rightarrow> Some (rehostFailed c)
      | SendTexts messages \<Rightarrow> Some (sendTextMessages env messages c)
      | SendGroupText receiverGroup message \<Rightarrow> Some (sendTextMessageGroup receiverGroup message c)
      | SendFlightPlan icaoEquipment flightPlan \<Rightarrow> Some (sendFlightPlan icaoEquipment flightPlan c)
      | SendClientQuery queryType receiver queryData \<Rightarrow>
          Some (sendClientQuery (e_now env) queryType receiver queryData c)
      | SendPing receiver \<Rightarrow> Some (sendPing env receiver c)
      | SendPlaneInfoRequest receiver \<Rightarrow> Some (sendPlaneInfoRequest receiver c)
      | SendPlaneInfoRequestFsinn callsign \<Rightarrow> Some (sendPlaneInfoRequestFsinn env callsign c)
      | SetInterimReceivers receivers \<Rightarrow> Some (c\<lparr>c_interimPositionReceivers := receivers\<rparr>))"

fun client_run ::
  "'d dbl \<Rightarrow> (string \<times> MessageType) list \<Rightarrow> ('d ClientEnv \<times> Event) list \<Rightarrow> 'd FsdClient \<Rightarrow> 'd FsdClient option" where
  "client_run D table [] c = Some c"
| "client_run D table ((env, event) # events) c =
     (case client_step D table env event c of
        None \<Rightarrow> None
      | Some c1 \<Rightarrow> client_run D table events c1)"

end
