(* ===== verification/Fsd_Sending_Laws.thy ===== *)
theory Fsd_Sending_Laws
  imports Fsd_Parse
begin

text \<open>
  What the timers of the positions queue over several ticks: the sequence of visual position
  packets of a moving and of a parked aircraft, one interim packet per receiver. And what the
  collected lines of an ATIS become.
\<close>

subsection \<open>Visual positions\<close>

definition visual_ready :: "'d FsdClient \<Rightarrow> bool" where
  "visual_ready c \<longleftrightarrow> c_connectionStatus c \<noteq> Disconnected \<and> \<not> c_unitTestMode c
     \<and> c_loginMode c = Pilot \<and> s_sendVisualPositions (c_server c)"

lemma visual_ready_update [simp]:
  "visual_ready (c\<lparr>c_queue := q\<rparr>) = visual_ready c"
  "visual_ready (c\<lparr>c_stoppedSendingVisualPositions := b\<rparr>) = visual_ready c"
  "visual_ready (c\<lparr>c_visualPositionUpdateSentCount := n\<rparr>) = visual_ready c"
  by (simp_all add: visual_ready_def)

definition stopped_packet :: "'d dbl \<Rightarrow> 'd ClientEnv \<Rightarrow> 'd FsdClient \<Rightarrow> string" where
  "stopped_packet D env c =
     messageToFSDString VisualPilotDataStopped_pdu (VisualPilotDataStopped_toTokens D)
       (toStopped (ownVisualUpdate D env c))"

definition moving_packet :: "'d dbl \<Rightarrow> 'd ClientEnv \<Rightarrow> 'd FsdClient \<Rightarrow> 32 word \<Rightarrow> string" where
  "moving_packet D env c n =
     (if n mod 25 = 0
      then messageToFSDString VisualPilotDataPeriodic_pdu (VisualPilotDataPeriodic_toTokens D)
             (toPeriodic (ownVisualUpdate D env c))
      else messageToFSDString VisualPilotDataUpdate_pdu (VisualPilotDataUpdate_toTokens D)
             (ownVisualUpdate D env c))"

lemma own_update_kept [simp]:
  "ownVisualUpdate D env (c\<lparr>c_queue := q\<rparr>) = ownVisualUpdate D env c"
  "ownVisualUpdate D env (c\<lparr>c_stoppedSendingVisualPositions := b\<rparr>) = ownVisualUpdate D env c"
  "ownVisualUpdate D env (c\<lparr>c_visualPositionUpdateSentCount := n\<rparr>) = ownVisualUpdate D env c"
  by (simp_all add: ownVisualUpdate_def ownCallsignString_def)

lemma own_update_valid [simp]:
  "m_isValid (ownVisualUpdate D env c)"
  "m_isValid (toStopped (ownVisualUpdate D env c))"
  "m_isValid (toPeriodic (ownVisualUpdate D env c))"
  by (simp_all add: ownVisualUpdate_def mkVisualPilotDataUpdate_def toStopped_def toPeriodic_def
        mkVisualPilotDataStopped_def mkVisualPilotDataPeriodic_def split: prod.split)

lemma moving_packet_kept [simp]:
  "moving_packet D env (c\<lparr>c_queue := q\<rparr>) n = moving_packet D env c n"
  "moving_packet D env (c\<lparr>c_stoppedSendingVisualPositions := b\<rparr>) n = moving_packet D env c n"
  "moving_packet D env (c\<lparr>c_visualPositionUpdateSentCount := m\<rparr>) n = moving_packet D env c n"
  by (simp_all add: moving_packet_def)

lemma queue_of_visual:
  "\<not> c_unitTestMode c \<Longrightarrow> sendVisual D env c =
     (if c_stoppedSendingVisualPositions c then c\<lparr>c_queue := c_queue c @ [stopped_packet D env c]\<rparr>
      else c\<lparr>c_visualPositionUpdateSentCount := c_visualPositionUpdateSentCount c + 1,
             c_queue := c_queue c @ [moving_packet D env c (c_visualPositionUpdateSentCount c)]\<rparr>)"
  by (simp add: sendVisual_def queueMessage_def Let_def stopped_packet_def moving_packet_def)

lemma visual_moving:
  assumes "visual_ready c" and "\<not> (isSlow D (e_velocity env) \<and> isSlow D (e_rotation env))"
  shows "sendVisualPilotDataUpdate D env False c =
    (if c_serverWantsVisualPositions c
     then c\<lparr>c_stoppedSendingVisualPositions := False,
            c_visualPositionUpdateSentCount := c_visualPositionUpdateSentCount c + 1,
            c_queue := c_queue c @ [moving_packet D env c (c_visualPositionUpdateSentCount c)]\<rparr>
     else c\<lparr>c_stoppedSendingVisualPositions := False\<rparr>)"
  using assms
  by (auto simp: sendVisualPilotDataUpdate_def visual_ready_def queue_of_visual Let_def moving_packet_def)

text \<open>The ticks of a flight: every 25th packet is the periodic one.\<close>

lemma visual_flight:
  assumes "visual_ready c" and "c_serverWantsVisualPositions c"
    and "\<forall>env \<in> set envs. \<not> (isSlow D (e_velocity env) \<and> isSlow D (e_rotation env))"
  shows "c_queue (fold (\<lambda>env. sendVisualPilotDataUpdate D env False) envs c)
       = c_queue c @ map (\<lambda>(k, env). moving_packet D env c (c_visualPositionUpdateSentCount c + of_nat k))
           (zip [0..<length envs] envs)"
  using assms
proof (induction envs arbitrary: c rule: list.induct)
  case (Cons env envs)
  let ?n = "c_visualPositionUpdateSentCount c"
  let ?c1 = "sendVisualPilotDataUpdate D env False c"
  have c1: "?c1 = c\<lparr>c_stoppedSendingVisualPositions := False, c_visualPositionUpdateSentCount := ?n + 1,
                   c_queue := c_queue c @ [moving_packet D env c ?n]\<rparr>"
    using visual_moving [OF Cons.prems(1)] Cons.prems(2,3) by simp
  have z: "zip [0..<Suc (length envs)] (env # envs) = (0, env) # map (\<lambda>(k, e). (Suc k, e)) (zip [0..<length envs] envs)"
    by (subst upt_conv_Cons) (simp_all add: map_Suc_upt [symmetric] zip_map1 del: upt_Suc)
  have "c_queue (fold (\<lambda>env. sendVisualPilotDataUpdate D env False) (env # envs) c)
     = c_queue ?c1 @ map (\<lambda>(k, e). moving_packet D e ?c1 (c_visualPositionUpdateSentCount ?c1 + of_nat k))
           (zip [0..<length envs] envs)"
    unfolding fold_simps by (rule Cons.IH) (use Cons.prems c1 in simp_all)
  also have "\<dots> = c_queue c @ map (\<lambda>(k, e). moving_packet D e c (?n + of_nat k))
      (zip [0..<length (env # envs)] (env # envs))"
    unfolding c1 using z by (simp add: add.assoc case_prod_beta o_def del: upt_Suc)
  finally show ?case .
qed simp

text \<open>An aircraft that comes to a halt sends one packet that says so, and no other.\<close>

lemma visual_halt:
  assumes "visual_ready c" and "c_serverWantsVisualPositions c"
    and "\<not> c_stoppedSendingVisualPositions c"
    and "\<forall>env \<in> set (env # envs). isSlow D (e_velocity env) \<and> isSlow D (e_rotation env)"
  shows "c_queue (fold (\<lambda>env. sendVisualPilotDataUpdate D env False) (env # envs) c)
       = c_queue c @ [stopped_packet D env c]"
proof -
  have rest: "fold (\<lambda>env. sendVisualPilotDataUpdate D env False) envs c1 = c1"
    if "visual_ready c1" "c_stoppedSendingVisualPositions c1"
      "\<forall>env \<in> set envs. isSlow D (e_velocity env) \<and> isSlow D (e_rotation env)" for c1 envs
    using that by (induction envs) (auto simp: sendVisualPilotDataUpdate_def)
  let ?c1 = "c\<lparr>c_stoppedSendingVisualPositions := True, c_visualPositionUpdateSentCount := 0,
              c_queue := c_queue c @ [stopped_packet D env c]\<rparr>"
  have "sendVisualPilotDataUpdate D env False c = ?c1"
    using assms by (simp add: sendVisualPilotDataUpdate_def visual_ready_def queue_of_visual Let_def
        stopped_packet_def)
  then show ?thesis using rest [of ?c1 envs] assms by simp
qed

subsection \<open>Interim positions\<close>

definition interim_packet :: "'d dbl \<Rightarrow> 'd ClientEnv \<Rightarrow> 'd FsdClient \<Rightarrow> CCallsign \<Rightarrow> string" where
  "interim_packet D env c receiver =
     messageToFSDString InterimPilotDataUpdate_pdu (InterimPilotDataUpdate_toTokens D)
       (mkInterimPilotDataUpdate (ownCallsignString c) (cs_callsign receiver) (e_latitude env)
          (e_longitude env) (e_altitudeFt env) (e_groundSpeedKts env) (e_pitch env)
          (e_bank env) (e_heading env) (e_onGround env))"

lemma interim_sent:
  assumes "\<not> c_unitTestMode c" and "c_connectionStatus c \<noteq> Disconnected"
  shows "sendInterimPilotDataUpdate D env c =
     c\<lparr>c_queue := c_queue c @ map (interim_packet D env c) (c_interimPositionReceivers c)\<rparr>"
proof -
  have "fold (sendInterimTo D env) rs c = c\<lparr>c_queue := c_queue c @ map (interim_packet D env c) rs\<rparr>"
    if "\<not> c_unitTestMode c" for rs and c :: "'a FsdClient"
    using that
    by (induction rs arbitrary: c)
       (auto simp: sendInterimTo_def queueMessage_def mkInterimPilotDataUpdate_def interim_packet_def
             ownCallsignString_def)
  then show ?thesis using assms by (simp add: sendInterimPilotDataUpdate_def)
qed

subsection \<open>ATIS\<close>

definition atisLines :: "string list \<Rightarrow> string list" where
  "atisLines lines = filter (\<lambda>l. l \<noteq> []) (map trimmed lines)"

lemma atisText_lines:
  assumes "\<forall>l \<in> set (atisLines lines). \<not> isPlaceholder l"
  shows "atisText lines acc = Some (foldl appendLine acc (atisLines lines))"
  using assms by (induction lines arbitrary: acc) (auto simp: atisLines_def Let_def)

lemma appendLine_join: "acc \<noteq> [] \<Longrightarrow> foldl appendLine acc ls = qjoin [newline] (acc # ls)"
proof (induction ls arbitrary: acc)
  case (Cons l ls)
  have "appendLine acc l = acc @ newline # l" using Cons.prems by (simp add: appendLine_def)
  then have "foldl appendLine acc (l # ls) = qjoin [newline] ((acc @ newline # l) # ls)"
    using Cons.IH [of "acc @ newline # l"] by simp
  also have "\<dots> = qjoin [newline] (acc # l # ls)" by (cases ls) simp_all
  finally show ?case .
qed simp

lemma appendLine_all: "\<forall>l \<in> set ls. l \<noteq> [] \<Longrightarrow> foldl appendLine [] ls = qjoin [newline] ls"
  using appendLine_join by (cases ls) (auto simp: appendLine_def)

lemma put_put: "c\<lparr>c_mapAtisMessages := f\<rparr>\<lparr>c_mapAtisMessages := g\<rparr> = c\<lparr>c_mapAtisMessages := g\<rparr>"
  by simp

lemma get_put: "c_mapAtisMessages (c\<lparr>c_mapAtisMessages := f\<rparr>) = f"
  by simp

lemma atis_collected:
  assumes "c_mapAtisMessages c cs = Some a"
  shows "\<exists>n. fold (updateAtisMap cs AtisTextMessage) lines c
     = c\<lparr>c_mapAtisMessages := (c_mapAtisMessages c)(cs \<mapsto> a\<lparr>at_textLines := at_textLines a @ lines, at_lineCount := n\<rparr>)\<rparr>"
  using assms
proof (induction lines arbitrary: c a)
  case Nil
  then show ?case by (intro exI [of _ "at_lineCount a"]) (simp add: fun_upd_idem)
next
  case (Cons l lines)
  let ?a1 = "a\<lparr>at_textLines := at_textLines a @ [l], at_lineCount := at_lineCount a + 1\<rparr>"
  let ?c1 = "c\<lparr>c_mapAtisMessages := (c_mapAtisMessages c)(cs \<mapsto> ?a1)\<rparr>"
  have l: "updateAtisMap cs AtisTextMessage l c = ?c1"
    using Cons.prems by (simp add: updateAtisMap_def atis_of_def Let_def)
  have m: "c_mapAtisMessages ?c1 cs = Some ?a1" by simp
  from Cons.IH [OF m] obtain n where ls: "fold (updateAtisMap cs AtisTextMessage) lines ?c1
      = ?c1\<lparr>c_mapAtisMessages := (c_mapAtisMessages ?c1)(cs \<mapsto>
          ?a1\<lparr>at_textLines := at_textLines ?a1 @ lines, at_lineCount := n\<rparr>)\<rparr>" by blast
  show ?case
    unfolding fold_simps l ls put_put get_put fun_upd_upd
    by (intro exI [of _ n]) (simp, simp only: fun_upd_def)
qed

lemma atis_reply:
  assumes "c_mapAtisMessages c cs = None"
    and plain: "\<forall>l \<in> set (atisLines (l0 # lines)). \<not> isPlaceholder l"
  shows "let c' = updateAtisMap cs LineCount x (fold (updateAtisMap cs AtisTextMessage) (l0 # lines) c)
         in c_mapAtisMessages c' cs = None
            \<and> c_out c' = c_out c @ [Emit (AtisLogoffTimeReplyReceived (mkCallsign cs Atc) []),
                Emit (AtisReplyReceived (mkCallsign cs Atc) (qjoin [newline] (atisLines (l0 # lines))))]"
proof -
  let ?a = "emptyAtis\<lparr>at_textLines := [l0], at_lineCount := 1\<rparr>"
  let ?c1 = "c\<lparr>c_mapAtisMessages := (c_mapAtisMessages c)(cs \<mapsto> ?a)\<rparr>"
  have c1: "updateAtisMap cs AtisTextMessage l0 c = ?c1"
    using assms(1) by (simp add: updateAtisMap_def atis_of_def emptyAtis_def Let_def)
  obtain n where c2: "fold (updateAtisMap cs AtisTextMessage) lines ?c1
      = ?c1\<lparr>c_mapAtisMessages := (c_mapAtisMessages ?c1)(cs \<mapsto> ?a\<lparr>at_textLines := l0 # lines, at_lineCount := n\<rparr>)\<rparr>"
    using atis_collected [of ?c1 cs ?a lines] by (auto simp: fun_upd_def)
  have t: "atisText (l0 # lines) [] = Some (qjoin [newline] (atisLines (l0 # lines)))"
    unfolding atisText_lines [OF plain] by (simp add: appendLine_all atisLines_def)
  show ?thesis
    unfolding fold_simps c1 c2
    using t by (simp add: updateAtisMap_def atis_of_def emptyAtis_def emitSignal_def Let_def del: atisText.simps)
qed

subsection \<open>The list of stations is a map\<close>

text \<open>The abstraction of the list of ATC stations: the frequency of each callsign, without case.\<close>

definition stationKey :: "CCallsign \<Rightarrow> string" where
  "stationKey cs = toUpper (cs_callsign cs)"

definition stationMap :: "AtcStation list \<Rightarrow> string \<rightharpoonup> int" where
  "stationMap stations = map_of (map (\<lambda>s. (stationKey (as_callsign s), as_frequencykHz s)) stations)"

lemma stationMap_remove: "stationMap (removeStation cs ss) = (stationMap ss)(stationKey cs := None)"
  by (induction ss) (auto simp: stationMap_def removeStation_def cs_equal_def stationKey_def)

lemma stationMap_replace:
  "\<not> cs_isEmpty (as_callsign s) \<Longrightarrow>
     stationMap (replaceOrAddStation s ss) = (stationMap ss)(stationKey (as_callsign s) \<mapsto> as_frequencykHz s)"
proof -
  assume "\<not> cs_isEmpty (as_callsign s)"
  then have "stationMap (replaceOrAddStation s ss)
      = stationMap [s] ++ stationMap (removeStation (as_callsign s) ss)"
    unfolding replaceOrAddStation_def stationMap_def
    by (simp add: map_add_def fun_eq_iff split: option.split)
  then show ?thesis
    unfolding stationMap_remove by (auto simp: stationMap_def map_add_def fun_eq_iff split: option.split)
qed

subsection \<open>Logging in\<close>

definition login_packet :: "'d FsdClient \<Rightarrow> string" where
  "login_packet c =
     messageToFSDString AddPilot_pdu AddPilot_toTokens
       (mkAddPilot (ownCallsignString c) (s_cid (c_server c)) (s_password (c_server c)) (c_pilotRating c)
          (c_protocolRevision c) (c_simType c) (s_realNameAndHomeBase (c_server c)))"

definition pilot_setup :: "'d FsdClient \<Rightarrow> bool" where
  "pilot_setup c \<longleftrightarrow> \<not> c_transportOpen c \<and> \<not> c_unitTestMode c \<and> c_loginMode c = Pilot
     \<and> c_protocolRevision c = PROTOCOL_REVISION_CLASSIC
     \<and> \<not> s_receiveEuroscopeSimData (c_server c)"

lemma connect_state:
  assumes "\<not> c_transportOpen c"
  shows "c_queue (connectToServer now host c) = []" "c_connectionStatus (connectToServer now host c) = Connecting"
    "c_sendTimer (connectToServer now host c)" "c_transportOpen (connectToServer now host c)"
    "c_unitTestMode (connectToServer now host c) = c_unitTestMode c"
    "c_loginMode (connectToServer now host c) = c_loginMode c"
    "c_protocolRevision (connectToServer now host c) = c_protocolRevision c"
    "c_server (connectToServer now host c) = c_server c"
    "login_packet (connectToServer now host c) = login_packet c"
  using assms
  by (simp_all add: connectToServer_def Let_def initiateConnection_def startPositionTimers_def
        updateConnectionStatus_def emitSignal_def clearState_def login_packet_def ownCallsignString_def)

lemma login_queued:
  assumes "\<not> c_unitTestMode c" "c_loginMode c = Pilot" "c_protocolRevision c = PROTOCOL_REVISION_CLASSIC"
    "\<not> s_receiveEuroscopeSimData (c_server c)"
  shows "c_queue (handleSocketConnected now c) = c_queue c @ [login_packet c]"
    "c_connectionStatus (handleSocketConnected now c) = Connected"
    "c_sendTimer (handleSocketConnected now c) = c_sendTimer c"
  using assms
  by (simp_all add: handleSocketConnected_def sendLogin_def Let_def queueMessage_def mkAddPilot_def
        updateConnectionStatus_def emitSignal_def login_packet_def)

lemma login_first:
  assumes "pilot_setup c"
  shows "\<exists>c'. client_run D table [(env, ConnectToServer host), (env', TransportConnected)] c = Some c'
     \<and> c_queue c' = [login_packet c] \<and> c_connectionStatus c' = Connected \<and> c_sendTimer c'"
proof -
  let ?c1 = "connectToServer (e_now env) host c"
  let ?c2 = "?c1\<lparr>c_transportOpen := True, c_transportConnected := True\<rparr>"
  note s = assms [unfolded pilot_setup_def]
  have p: "login_packet ?c2 = login_packet ?c1" by (simp add: login_packet_def ownCallsignString_def)
  show ?thesis
    using login_queued [of ?c2 "e_now env'"] s connect_state [of c "e_now env" host] p
    by (simp add: client_step_def)
qed

end
