(* ===== verification/Fsd_Client_Laws.thy ===== *)
theory Fsd_Client_Laws
  imports Fsd_Parse
begin

text \<open>
  Laws of the client. The locale \<open>client_frame\<close> is the contract of a relation between the
  client before and after an operation that is kept by the primitive steps of which the
  handlers are made: an update of session data, a signal, a packet added to the queue. Its
  lemmas carry the relation to every handler; \<open>session_frame\<close> adds the logoff and gives it
  for \<open>parseMessage\<close>, \<open>machine_frame\<close> the connection status and gives it for the events.
  The interpretations instantiate the relation.
\<close>

subsection \<open>Updates of session data\<close>

definition stations_distinct :: "AtcStation list \<Rightarrow> bool" where
  "stations_distinct stations \<longleftrightarrow> distinct (map (cs_callsign \<circ> as_callsign) stations)"

text \<open>
  Two clients that differ at most in the data of the session the laws do not speak about;
  the tables may change, but stay well formed.
\<close>

definition same_session :: "'d FsdClient \<Rightarrow> 'd FsdClient \<Rightarrow> bool" where
  "same_session a b \<longleftrightarrow>
     c_server b = c_server a \<and> c_ownCallsign b = c_ownCallsign a \<and> c_loginMode b = c_loginMode a
     \<and> c_unitTestMode b = c_unitTestMode a \<and> c_connectionStatus b = c_connectionStatus a
     \<and> c_queue b = c_queue a \<and> c_out b = c_out a
     \<and> c_webSocketReadBuffer b = c_webSocketReadBuffer a
     \<and> c_positionTimer b = c_positionTimer a \<and> c_interimTimer b = c_interimTimer a
     \<and> c_visualTimer b = c_visualTimer a \<and> c_configTimer b = c_configTimer a
     \<and> c_sendTimer b = c_sendTimer a
     \<and> (offsets_inv (c_offsets a) \<longrightarrow> offsets_inv (c_offsets b))
     \<and> (stations_distinct (c_atcStations a) \<longrightarrow> stations_distinct (c_atcStations b))"

lemma same_session_refl [simp]: "same_session c c"
  by (simp add: same_session_def)

lemma stations_remove: "stations_distinct ss \<Longrightarrow> stations_distinct (removeStation cs ss)"
  by (simp add: stations_distinct_def removeStation_def distinct_map_filter)

lemma stations_replace: "stations_distinct ss \<Longrightarrow> stations_distinct (replaceOrAddStation s ss)"
  using stations_remove [of ss "as_callsign s"]
  by (auto simp: replaceOrAddStation_def stations_distinct_def removeStation_def cs_equal_def)

lemma queueMessage_cases:
  obtains "queueMessage pdu toTokens m c = c"
  | s where "s \<noteq> []"
      "queueMessage pdu toTokens m c = emitRawFsdMessage (trimmed s) True c" "c_unitTestMode c"
  | s where "s \<noteq> []" "queueMessage pdu toTokens m c = c\<lparr>c_queue := c_queue c @ [s]\<rparr>"
      "\<not> c_unitTestMode c"
proof (cases "m_isValid m")
  case False
  then show ?thesis by (intro that(1)) (simp add: queueMessage_def)
next
  case True
  let ?s = "messageToFSDString pdu toTokens m"
  have s: "?s \<noteq> []" using True by (simp add: messageToFSDString_def crlf_def)
  show ?thesis
  proof (cases "c_unitTestMode c")
    case unit: True
    with True s have "queueMessage pdu toTokens m c = emitRawFsdMessage (trimmed ?s) True c"
      by (simp add: queueMessage_def sendDirectMessage_def sendMessageString_def)
    then show ?thesis by (rule that(2) [OF s _ unit])
  next
    case unit: False
    with True have "queueMessage pdu toTokens m c = c\<lparr>c_queue := c_queue c @ [?s]\<rparr>"
      by (simp add: queueMessage_def)
    then show ?thesis by (rule that(3) [OF s _ unit])
  qed
qed

subsection \<open>The frame of the handlers\<close>

locale client_frame =
  fixes R :: "'d FsdClient \<Rightarrow> 'd FsdClient \<Rightarrow> bool"
  assumes frame_trans: "R a b \<Longrightarrow> R b c \<Longrightarrow> R a c"
    and frame_local: "same_session a b \<Longrightarrow> R a b"
    and frame_emit: "R c (emitSignal sig c)"
    and frame_push: "s \<noteq> [] \<Longrightarrow> R c (c\<lparr>c_queue := c_queue c @ [s]\<rparr>)"
begin

lemma frame_refl: "R c c"
  by (rule frame_local) simp

lemma frame_emit_step: "R a b \<Longrightarrow> R a (emitSignal sig b)"
  using frame_trans frame_emit by blast

lemma frame_local_step: "R a b \<Longrightarrow> same_session b c \<Longrightarrow> R a c"
  using frame_trans frame_local by blast

lemma frame_raw: "R a c \<Longrightarrow> R a (emitRawFsdMessage msg sent c)"
  by (auto simp: emitRawFsdMessage_def split: prod.split
           intro!: frame_emit_step frame_local_step [of a c] simp: same_session_def)

lemma frame_queue: "R a c \<Longrightarrow> R a (queueMessage pdu toTokens m c)"
  by (rule queueMessage_cases [of pdu toTokens m c])
     (auto intro: frame_raw frame_push frame_trans)

text \<open>Updates of one field.\<close>

lemma frame_updates:
  assumes "R a b"
  shows "R a (b\<lparr>c_textMessagesToConsolidate := x0\<rparr>)"
    and "R a (b\<lparr>c_pendingAtisQueries := x1\<rparr>)"
    and "R a (b\<lparr>c_mapAtisMessages := x2\<rparr>)"
    and "R a (b\<lparr>c_interimPositionReceivers := x3\<rparr>)"
    and "R a (b\<lparr>c_serverWantsVisualPositions := x4\<rparr>)"
    and "R a (b\<lparr>c_rehosting := x5\<rparr>)"
    and "R a (b\<lparr>c_stoppedSendingVisualPositions := x6\<rparr>)"
    and "R a (b\<lparr>c_visualPositionUpdateSentCount := x7\<rparr>)"
    and "R a (b\<lparr>c_sentAircraftConfig := x8\<rparr>)"
    and "R a (b\<lparr>c_tokenBucket := x9\<rparr>)"
    and "R a (b\<lparr>c_transportOpen := x10\<rparr>)"
    and "R a (b\<lparr>c_transportConnected := x11\<rparr>)"
  by (rule frame_local_step [OF assms], simp add: same_session_def)+

lemma frame_stations:
  "R a b \<Longrightarrow> (stations_distinct (c_atcStations b) \<Longrightarrow> stations_distinct ss) \<Longrightarrow> R a (b\<lparr>c_atcStations := ss\<rparr>)"
  by (erule frame_local_step) (simp add: same_session_def)

lemma frame_offsets:
  "R a b \<Longrightarrow> (offsets_inv (c_offsets b) \<Longrightarrow> offsets_inv ot) \<Longrightarrow> R a (b\<lparr>c_offsets := ot\<rparr>)"
  by (erule frame_local_step) (simp add: same_session_def)

lemmas frame_intros =
  frame_emit_step frame_queue frame_raw frame_updates frame_refl

subsubsection \<open>Sending\<close>

lemma frame_sendClientQuery: "R a c \<Longrightarrow> R a (sendClientQuery now q r qd c)"
  by (cases q) (auto simp: sendClientQuery_def sendQuery_def Let_def intro!: frame_intros)

lemma frame_sendLogin: "R c (sendLogin now token c)"
  by (auto simp: sendLogin_def Let_def intro!: frame_intros frame_sendClientQuery)

lemma frame_sendVisual: "R a c \<Longrightarrow> R a (sendVisual D env c)"
  by (auto simp: sendVisual_def Let_def intro!: frame_intros)

lemma frame_sendVisualPilotDataUpdate: "R a c \<Longrightarrow> R a (sendVisualPilotDataUpdate D env slow c)"
  by (auto simp: sendVisualPilotDataUpdate_def Let_def intro!: frame_intros frame_sendVisual)

lemma frame_sendPilotDataUpdate: "R c (sendPilotDataUpdate D env c)"
  by (auto simp: sendPilotDataUpdate_def sendAtcDataUpdate_def Let_def
           intro!: frame_intros frame_sendVisualPilotDataUpdate)

lemma frame_fold: "(\<And>x c. R c (f x c)) \<Longrightarrow> R a c \<Longrightarrow> R a (fold f xs c)"
proof (induction xs arbitrary: c)
  case (Cons x xs)
  have "R a (f x c)" using Cons.prems frame_trans by blast
  then show ?case using Cons by simp
qed simp

lemma frame_sendInterim: "R c (sendInterimPilotDataUpdate D env c)"
  by (auto simp: sendInterimPilotDataUpdate_def sendInterimTo_def intro!: frame_intros frame_fold)

lemma frame_sendTextMessages: "R c (sendTextMessages env messages c)"
  by (auto simp: sendTextMessages_def sendRadio_def sendRadioMessage_def sendPrivate_def
           intro!: frame_fold frame_intros)

lemma frame_sendGroup: "R c (sendTextMessageGroup g message c)"
  by (auto simp: sendTextMessageGroup_def Let_def intro!: frame_intros)

lemma frame_sendOthers:
  "R c (sendPing env receiver c)" "R c (sendFlightPlan icao fp c)"
  "R c (sendPlaneInfoRequest cs c)" "R c (sendPlaneInfoRequestFsinn env cs c)"
  by (auto simp: sendPing_def sendFlightPlan_def sendPlaneInfoRequest_def
           sendPlaneInfoRequestFsinn_def intro!: frame_intros)

lemma frame_sendConfiguration: "R a c \<Longrightarrow> R a (sendAircraftConfiguration receiver json c)"
  by (auto simp: sendAircraftConfiguration_def intro!: frame_intros)

lemma frame_sendIncremental: "R c (sendIncrementalAircraftConfig env c)"
  by (auto simp: sendIncrementalAircraftConfig_def Let_def split: prod.split
           intro!: frame_intros frame_sendConfiguration)

lemma frame_consolidation:
  "R a c \<Longrightarrow> R a (consolidateTextMessage m c)" "R c (emitConsolidatedTextMessages c)"
  by (auto simp: consolidateTextMessage_def emitConsolidatedTextMessages_def intro!: frame_intros)

subsubsection \<open>Handlers\<close>

lemma frame_handleAtcDataUpdate: "handleAtcDataUpdate D tokens c = Some c' \<Longrightarrow> R c c'"
  by (auto simp: handleAtcDataUpdate_def Let_def emitSignal_def [symmetric] split: Option.bind_splits if_splits
           intro!: frame_stations frame_intros stations_replace)

lemma frame_handleDeleteATC: "handleDeleteATC tokens c = Some c' \<Longrightarrow> R c c'"
  by (auto simp: handleDeleteATC_def Let_def split: Option.bind_splits
           intro!: frame_stations frame_intros stations_remove)

lemma frame_clearCallsign: "R c (clearStateCallsign cs c)"
  by (rule frame_local) (simp add: clearStateCallsign_def same_session_def Let_def remove_inv)

lemma frame_handleDeletePilot: "handleDeletePilot tokens c = Some c' \<Longrightarrow> R c c'"
  by (auto simp: handleDeletePilot_def Let_def split: Option.bind_splits
           intro!: frame_emit_step frame_clearCallsign frame_refl)

lemma frame_atisReply: "R c (maybeHandleAtisReply now s r message c)"
  by (auto simp: maybeHandleAtisReply_def Let_def split: option.split
           intro!: frame_intros frame_consolidation)

lemma frame_handleTextMessage: "handleTextMessage env tokens c = Some c' \<Longrightarrow> R c c'"
  by (auto simp: handleTextMessage_def Let_def split: Option.bind_splits TextMessageType.splits if_splits
           intro!: frame_intros frame_atisReply frame_consolidation)

lemma frame_receivedFix: "R a c \<Longrightarrow> R a (snd (receivedFix now cs c))"
  using received_inv [of "c_offsets c" now "c_additionalOffsetTime c" "cs_callsign cs" now]
  by (auto simp: receivedFix_def split: prod.splits intro!: frame_offsets)

lemma frame_atisMap: "R c (updateAtisMap cs type line c)"
  by (auto simp: updateAtisMap_def Let_def split: option.split intro!: frame_intros)

lemma frame_sendClientResponse: "R c (sendClientResponse D env q r c)"
  by (cases q) (auto simp: sendClientResponse_def respond_def intro!: frame_intros)

lemma frame_handleClientQuery: "handleClientQuery D env tokens c = Some c' \<Longrightarrow> R c c'"
  by (auto simp: handleClientQuery_def Let_def
           split: Option.bind_splits ClientQueryType.splits ConfigPacket.splits if_splits
           intro!: frame_intros frame_sendClientResponse frame_sendConfiguration)

lemma frame_handleClientResponse: "handleClientResponse D tokens c = Some c' \<Longrightarrow> R c c'"
  by (auto simp: handleClientResponse_def Let_def
           split: Option.bind_splits ClientQueryType.splits option.splits if_splits
           intro!: frame_intros frame_atisMap)

lemma frame_fixes:
  "handlePilotDataUpdate D env tokens c = Some c' \<Longrightarrow> R c c'"
  "handleEuroscopeSimData D env tokens c = Some c' \<Longrightarrow> R c c'"
  "handleInterimUpdate D env tokens c = Some c' \<Longrightarrow> R c c'"
  by (auto simp: handlePilotDataUpdate_def handleEuroscopeSimData_def handleInterimUpdate_def Let_def
           case_prod_beta split: Option.bind_splits if_splits intro!: frame_emit_step frame_receivedFix frame_refl)

lemma frame_information:
  "handlePlaneInfoRequest env tokens c = Some c' \<Longrightarrow> R c c'"
  "handlePlaneInformation tokens c = Some c' \<Longrightarrow> R c c'"
  "handlePlaneInformationFsinn tokens c = Some c' \<Longrightarrow> R c c'"
  "handlePlaneInfoRequestFsinn env tokens c = Some c' \<Longrightarrow> R c c'"
  by (auto simp: handlePlaneInfoRequest_def handlePlaneInformation_def handlePlaneInformationFsinn_def
        handlePlaneInfoRequestFsinn_def sendPlaneInformation_def sendPlaneInformationFsinn_def Let_def
      split: Option.bind_splits if_splits intro!: frame_intros)

lemma frame_handleCustomPilotPacket: "handleCustomPilotPacket D env tokens c = Some c' \<Longrightarrow> R c c'"
  by (auto simp: handleCustomPilotPacket_def split: Option.bind_splits if_splits
           intro: frame_intros frame_fixes frame_information)

lemma frame_simple:
  "handleVisualPilotDataToggle tokens c = Some c' \<Longrightarrow> R c c'"
  "handleVisualPilotDataUpdate tokens c = Some c' \<Longrightarrow> R c c'"
  "handlePing tokens c = Some c' \<Longrightarrow> R c c'"
  "handlePong env tokens c = Some c' \<Longrightarrow> R c c'"
  "handleFlightPlan tokens c = Some c' \<Longrightarrow> R c c'"
  "handleRehost tokens c = Some c' \<Longrightarrow> R c c'"
  "handleMute tokens c = Some c' \<Longrightarrow> R c c'"
  by (auto simp: handleVisualPilotDataToggle_def handleVisualPilotDataUpdate_def handlePing_def
        sendPong_def handlePong_def handleFlightPlan_def handleRehost_def handleMute_def Let_def
      split: Option.bind_splits if_splits intro!: frame_intros)

lemmas frame_handlers =
  frame_handleAtcDataUpdate frame_handleDeleteATC frame_handleDeletePilot frame_handleTextMessage
  frame_handleClientQuery frame_handleClientResponse frame_handleCustomPilotPacket
  frame_fixes frame_simple

text \<open>Every packet but a kill request and a server error.\<close>

lemma frame_handlePacket:
  assumes "handlePacket D env mt tokens c = Some c'"
    and "mt \<noteq> MessageType.KillRequest" and "mt \<noteq> MessageType.ServerError"
  shows "R c c'"
  using assms by (cases mt) (auto simp: handlePacket_def frame_refl dest: frame_handlers)

end

subsection \<open>The frame of the session and of the machine\<close>

locale session_frame = client_frame +
  assumes frame_disconnect: "R c (disconnectFromServer c)"
begin

lemma frame_disconnect_step: "R a c \<Longrightarrow> R a (disconnectFromServer c)"
  using frame_trans frame_disconnect by blast

lemma frame_end_of_session:
  "handleKillRequest tokens c = Some c' \<Longrightarrow> R c c'"
  "handleServerError tokens c = Some c' \<Longrightarrow> R c c'"
  by (auto simp: handleKillRequest_def handleServerError_def split: Option.bind_splits if_splits
           intro!: frame_disconnect_step frame_intros)

lemma frame_packet:
  assumes "handlePacket D env mt tokens c = Some c'"
  shows "R c c'"
proof (cases "mt = MessageType.KillRequest \<or> mt = MessageType.ServerError")
  case True
  then show ?thesis using assms frame_end_of_session by (auto simp: handlePacket_def)
next
  case False
  then show ?thesis using assms frame_handlePacket by blast
qed

lemma frame_parseMessage:
  assumes "parseMessage D env table line c = Some c'"
  shows "R c c'"
proof -
  let ?c1 = "emitRawFsdMessage (trimmed line) False c"
  have c1: "R c ?c1" by (intro frame_raw frame_refl)
  show ?thesis
    using assms c1 by (auto simp: parseMessage_def Let_def split: parsed.splits intro: frame_trans [OF _ frame_packet])
qed

lemma frame_socket:
  "R c (handleSocketError remoteHostClosed error c)"
  "R c (handleWebSocketDisconnected reason c)"
  "R c (pendingTimeoutCheck now c)"
  by (auto simp: handleSocketError_def handleWebSocketDisconnected_def pendingTimeoutCheck_def Let_def
           intro!: frame_disconnect_step frame_intros)

end

locale machine_frame = session_frame +
  assumes frame_status: "R c (updateConnectionStatus Connected c)" "R c (updateConnectionStatus Disconnected c)"
    and frame_buffer: "R c (c\<lparr>c_webSocketReadBuffer := buffer\<rparr>)"
begin

lemma frame_drain: "drainWebSocket D env table fuel c = Some c' \<Longrightarrow> R c c'"
proof (induction fuel arbitrary: c)
  case (Suc fuel)
  let ?b = "c_webSocketReadBuffer c"
  let ?line = "takeWhile (\<lambda>ch. ch \<noteq> newline) ?b @ [newline]"
  let ?c1 = "c\<lparr>c_webSocketReadBuffer := drop (length ?line) ?b\<rparr>"
  have c1: "R c ?c1" by (rule frame_buffer)
  show ?case
  proof (cases "newline \<in> set ?b \<and> trimmed ?line \<noteq> []")
    case True
    with Suc.prems obtain c2 where c2: "parseMessage D env table ?line ?c1 = Some c2"
      and d: "drainWebSocket D env table fuel c2 = Some c'"
      by (auto simp: Let_def split: option.splits)
    have "R c c2" using c1 frame_parseMessage [OF c2] by (rule frame_trans)
    then show ?thesis using Suc.IH [OF d] by (rule frame_trans)
  next
    case False
    then show ?thesis
      using Suc.prems Suc.IH [of ?c1] frame_trans [OF c1] frame_refl
      by (auto simp: Let_def split: if_splits)
  qed
qed (simp add: frame_refl)

lemma frame_read: "readDataFromWebSocket D env table message c = Some c' \<Longrightarrow> R c c'"
  by (auto simp: readDataFromWebSocket_def Let_def split: if_splits
           intro: frame_refl frame_trans [OF frame_buffer frame_drain])

lemma frame_connected: "R a c \<Longrightarrow> R a (handleSocketConnected now c)"
  using frame_trans [OF _ frame_status(1)] frame_trans [OF _ frame_sendLogin]
  by (auto simp: handleSocketConnected_def)

lemma frame_rehost: "R c (rehostConnected c)" "R c (rehostFailed c)"
  by (auto simp: rehostConnected_def rehostFailed_def Let_def
           intro!: frame_intros intro: frame_trans [OF _ frame_status(2)])

text \<open>Every event but connecting and the ticks of the sender.\<close>

lemma frame_step:
  assumes step: "client_step D table env event c = Some c'"
    and "\<And>host. event \<noteq> ConnectToServer host" and "event \<noteq> SendTimer"
  shows "R c c'"
proof (cases event)
  case TransportConnected
  have "R c (c\<lparr>c_transportOpen := True, c_transportConnected := True\<rparr>)" by (intro frame_intros)
  with TransportConnected show ?thesis using step frame_connected by (auto simp: client_step_def)
next
  case (SocketError closed error)
  have "R c (if closed then c\<lparr>c_transportConnected := False\<rparr> else c)"
    by (auto intro!: frame_intros)
  with SocketError show ?thesis
    using step frame_trans [OF _ frame_socket(1)] by (auto simp: client_step_def)
next
  case (WebSocketClosed reason)
  have "R c (c\<lparr>c_transportOpen := False, c_transportConnected := False\<rparr>)" by (intro frame_intros)
  with WebSocketClosed show ?thesis
    using step frame_trans [OF _ frame_socket(2)] by (auto simp: client_step_def)
qed (use assms in \<open>auto simp: client_step_def intro: frame_disconnect frame_parseMessage frame_read
       frame_socket frame_sendPilotDataUpdate frame_sendInterim frame_sendVisualPilotDataUpdate
       frame_sendIncremental frame_consolidation frame_rehost frame_sendTextMessages frame_sendGroup
       frame_sendOthers frame_sendClientQuery frame_intros split: if_splits\<close>)

end

end
