(* ===== verification/Fsd_Client_Runs.thy ===== *)
theory Fsd_Client_Runs
  imports Fsd_Client_Laws
begin

text \<open>
  The client over sequences of events: the interpretations of the frames of
  \<open>Fsd_Client_Laws\<close>, the invariant of the client, what reaches the transport and what a
  logoff leaves behind.
\<close>

subsection \<open>What is written to the transport\<close>

definition written :: "'d Effect list \<Rightarrow> string list" where
  "written out = concat (map (\<lambda>e. case e of Write s \<Rightarrow> [s] | Emit _ \<Rightarrow> []) out)"

definition wire :: "'d FsdClient \<Rightarrow> string list" where
  "wire c = written (c_out c)"

lemma written_append [simp]: "written (a @ b) = written a @ written b"
  by (simp add: written_def)

lemma written_Emit [simp]: "written [Emit sig] = []"
  by (simp add: written_def)

lemma written_Write [simp]: "written [Write s] = [s]"
  by (simp add: written_def)

lemma written_Nil [simp]: "written [] = []"
  by (simp add: written_def)

lemma wire_emit [simp]: "wire (emitSignal sig c) = wire c"
  by (simp add: wire_def emitSignal_def)

lemma wire_raw [simp]: "wire (emitRawFsdMessage msg sent c) = wire c"
  by (simp add: emitRawFsdMessage_def wire_def emitSignal_def split: prod.split)

lemma raw_fields [simp]:
  "c_queue (emitRawFsdMessage msg sent c) = c_queue c"
  "c_unitTestMode (emitRawFsdMessage msg sent c) = c_unitTestMode c"
  "c_connectionStatus (emitRawFsdMessage msg sent c) = c_connectionStatus c"
  "c_sendTimer (emitRawFsdMessage msg sent c) = c_sendTimer c"
  "c_positionTimer (emitRawFsdMessage msg sent c) = c_positionTimer c"
  "c_interimTimer (emitRawFsdMessage msg sent c) = c_interimTimer c"
  "c_visualTimer (emitRawFsdMessage msg sent c) = c_visualTimer c"
  "c_configTimer (emitRawFsdMessage msg sent c) = c_configTimer c"
  "c_offsets (emitRawFsdMessage msg sent c) = c_offsets c"
  "c_atcStations (emitRawFsdMessage msg sent c) = c_atcStations c"
  by (simp_all add: emitRawFsdMessage_def emitSignal_def split: prod.split)

lemma wire_write [simp]: "wire (writeTransportData s c) = wire c @ [s]"
  by (simp add: wire_def writeTransportData_def)

text \<open>Every packet has its end of line, so none is empty.\<close>

lemma send_fields [simp]:
  "c_queue (sendMessageString s c) = c_queue c"
  "c_unitTestMode (sendMessageString s c) = c_unitTestMode c"
  "c_connectionStatus (sendMessageString s c) = c_connectionStatus c"
  "c_sendTimer (sendMessageString s c) = c_sendTimer c"
  "c_positionTimer (sendMessageString s c) = c_positionTimer c"
  "c_interimTimer (sendMessageString s c) = c_interimTimer c"
  "c_visualTimer (sendMessageString s c) = c_visualTimer c"
  "c_configTimer (sendMessageString s c) = c_configTimer c"
  "c_offsets (sendMessageString s c) = c_offsets c"
  "c_atcStations (sendMessageString s c) = c_atcStations c"
  by (simp_all add: sendMessageString_def writeTransportData_def)

lemma send_one: "\<not> c_unitTestMode c \<Longrightarrow> s \<noteq> [] \<Longrightarrow> wire (sendMessageString s c) = wire c @ [s]"
  by (simp add: sendMessageString_def)

lemma send_all:
  assumes "\<not> c_unitTestMode c" and "[] \<notin> set ss"
  shows "wire (fold sendMessageString ss c) = wire c @ ss"
  using assms by (induction ss arbitrary: c) (auto simp: send_one)

lemma send_all_fields [simp]:
  "c_queue (fold sendMessageString ss c) = c_queue c"
  "c_unitTestMode (fold sendMessageString ss c) = c_unitTestMode c"
  "c_connectionStatus (fold sendMessageString ss c) = c_connectionStatus c"
  "c_sendTimer (fold sendMessageString ss c) = c_sendTimer c"
  "c_positionTimer (fold sendMessageString ss c) = c_positionTimer c"
  "c_interimTimer (fold sendMessageString ss c) = c_interimTimer c"
  "c_visualTimer (fold sendMessageString ss c) = c_visualTimer c"
  "c_configTimer (fold sendMessageString ss c) = c_configTimer c"
  "c_offsets (fold sendMessageString ss c) = c_offsets c"
  "c_atcStations (fold sendMessageString ss c) = c_atcStations c"
  by (induction ss arbitrary: c) simp_all

text \<open>A tick of the sender moves the first packets of the queue to the transport.\<close>

lemma sendQueued_some:
  "sendQueued c = Some (fold sendMessageString (take (burst (length (c_queue c))) (c_queue c))
     (c\<lparr>c_queue := drop (burst (length (c_queue c))) (c_queue c)\<rparr>))"
  by (simp add: sendQueued_def sendQueuedMessage_split)

lemma wire_queue_update [simp]: "wire (c\<lparr>c_queue := q\<rparr>) = wire c"
  by (simp add: wire_def)

lemma sendQueued_wire:
  assumes "\<not> c_unitTestMode c" and "[] \<notin> set (c_queue c)" and "sendQueued c = Some c'"
  shows "wire c' = wire c @ take (burst (length (c_queue c))) (c_queue c)"
    and "c_queue c' = drop (burst (length (c_queue c))) (c_queue c)"
    and "c_unitTestMode c' = c_unitTestMode c" and "c_sendTimer c' = c_sendTimer c"
  using assms send_all [of "c\<lparr>c_queue := drop (burst (length (c_queue c))) (c_queue c)\<rparr>"
      "take (burst (length (c_queue c))) (c_queue c)"]
  by (auto simp: sendQueued_some dest: in_set_takeD)

subsection \<open>Logoff\<close>

lemma status_wire [simp]: "wire (updateConnectionStatus st c) = wire c"
  by (simp add: updateConnectionStatus_def Let_def wire_def emitSignal_def clearState_def
        stopPositionTimers_def)

lemma queue_wire [simp]: "wire (queueMessage pdu toTokens m c) = wire c"
  by (rule queueMessage_cases [of pdu toTokens m c]) simp_all

lemma delete_wire [simp]: "wire (sendDeletePilot c) = wire c" "wire (sendDeleteAtc c) = wire c"
  by (simp_all add: sendDeletePilot_def sendDeleteAtc_def)

lemma plain_wire [simp]:
  "wire (stopPositionTimers c) = wire c" "wire (closeTransport c) = wire c"
  "wire (clearState c) = wire c"
  by (simp_all add: wire_def stopPositionTimers_def closeTransport_def clearState_def)

lemma queue_timers [simp]:
  "c_sendTimer (queueMessage pdu toTokens m c) = c_sendTimer c"
  "c_positionTimer (queueMessage pdu toTokens m c) = c_positionTimer c"
  "c_interimTimer (queueMessage pdu toTokens m c) = c_interimTimer c"
  "c_visualTimer (queueMessage pdu toTokens m c) = c_visualTimer c"
  "c_configTimer (queueMessage pdu toTokens m c) = c_configTimer c"
  "c_connectionStatus (queueMessage pdu toTokens m c) = c_connectionStatus c"
  by (rule queueMessage_cases [of pdu toTokens m c]; simp)+

definition timers_off :: "'d FsdClient \<Rightarrow> bool" where
  "timers_off c \<longleftrightarrow> \<not> c_positionTimer c \<and> \<not> c_interimTimer c \<and> \<not> c_visualTimer c
     \<and> \<not> c_configTimer c \<and> \<not> c_sendTimer c"

lemma status_result [simp]: "c_connectionStatus (updateConnectionStatus st c) = st"
  by (simp add: updateConnectionStatus_def Let_def emitSignal_def)

lemma status_kept [simp]:
  "c_connectionStatus (closeTransport c) = c_connectionStatus c"
  "c_connectionStatus (clearState c) = c_connectionStatus c"
  "c_connectionStatus (sendDeletePilot c) = c_connectionStatus c"
  "c_connectionStatus (sendDeleteAtc c) = c_connectionStatus c"
  by (simp_all add: closeTransport_def clearState_def sendDeletePilot_def sendDeleteAtc_def)

lemma timers_off_status:
  "c_connectionStatus c \<noteq> Disconnected \<Longrightarrow> timers_off (updateConnectionStatus Disconnected c)"
  by (simp add: timers_off_def updateConnectionStatus_def Let_def emitSignal_def clearState_def
        stopPositionTimers_def)

lemma timers_off_clear [simp]: "timers_off (clearState c) = timers_off c"
  by (simp add: timers_off_def clearState_def)

lemma clearState_tables [simp]:
  "c_queue (clearState c) = []" "c_offsets (clearState c) = clearOffsetTimes"
  "c_atcStations (clearState c) = []"
  by (simp_all add: clearState_def)

text \<open>
  The packet of the logoff is queued after the timer of the sender is stopped, and the queue
  is cleared before any tick: it never leaves the client.
\<close>

lemma disconnect_result:
  "wire (disconnectFromServer c) = wire c"
  "c_queue (disconnectFromServer c) = []"
  "c_connectionStatus (disconnectFromServer c) = Disconnected"
  "timers_off (disconnectFromServer c)"
  "c_offsets (disconnectFromServer c) = clearOffsetTimes"
  "c_atcStations (disconnectFromServer c) = []"
  by (simp_all add: disconnectFromServer_def Let_def timers_off_status)

lemma timers_off_send: "timers_off c \<Longrightarrow> \<not> c_sendTimer c"
  by (simp add: timers_off_def)

subsection \<open>The relations kept\<close>

text \<open>Nothing is written, and the sender is not started.\<close>

definition silent :: "'d FsdClient \<Rightarrow> 'd FsdClient \<Rightarrow> bool" where
  "silent a b \<longleftrightarrow> wire b = wire a \<and> (c_sendTimer b \<longrightarrow> c_sendTimer a)"

lemma same_session_silent: "same_session a b \<Longrightarrow> silent a b"
  by (simp add: same_session_def silent_def wire_def)

lemma status_timer: "c_sendTimer (updateConnectionStatus st c) \<Longrightarrow> c_sendTimer c"
  by (auto simp: updateConnectionStatus_def Let_def emitSignal_def clearState_def
           stopPositionTimers_def split: if_splits)

interpretation silent: machine_frame silent
proof unfold_locales
  fix c :: "'d FsdClient"
  show "silent c (disconnectFromServer c)"
    using timers_off_send [OF disconnect_result(4)] by (auto simp: silent_def disconnect_result)
qed (auto simp: silent_def same_session_def wire_def emitSignal_def status_wire [unfolded wire_def]
       dest: status_timer)

text \<open>The invariant of the client.\<close>

definition client_inv :: "'d FsdClient \<Rightarrow> bool" where
  "client_inv c \<longleftrightarrow>
     (c_connectionStatus c = Disconnected \<longrightarrow> timers_off c)
     \<and> [] \<notin> set (c_queue c) \<and> offsets_inv (c_offsets c) \<and> stations_distinct (c_atcStations c)"

lemma stations_Nil [simp]: "stations_distinct []"
  by (simp add: stations_distinct_def)

lemma client_inv_disconnect: "client_inv (disconnectFromServer c)"
  by (simp add: client_inv_def disconnect_result clear_inv)

lemma client_inv_status:
  "client_inv c \<Longrightarrow> client_inv (updateConnectionStatus st c)"
  by (auto simp: client_inv_def updateConnectionStatus_def Let_def emitSignal_def clearState_def
        stopPositionTimers_def timers_off_def clear_inv)

interpretation inv: machine_frame "\<lambda>a b. client_inv a \<longrightarrow> client_inv b"
  by unfold_locales
     (auto simp: client_inv_disconnect client_inv_status,
      auto simp: client_inv_def same_session_def emitSignal_def timers_off_def)

text \<open>
  What a packet other than a kill request and a server error leaves alone: the connection and
  the timers stay, and packets are only added at the end of the queue.
\<close>

definition only_queues :: "'d FsdClient \<Rightarrow> 'd FsdClient \<Rightarrow> bool" where
  "only_queues a b \<longleftrightarrow>
     c_connectionStatus b = c_connectionStatus a \<and> wire b = wire a
     \<and> c_sendTimer b = c_sendTimer a \<and> c_positionTimer b = c_positionTimer a
     \<and> c_server b = c_server a \<and> c_ownCallsign b = c_ownCallsign a
     \<and> (\<exists>packets. c_queue b = c_queue a @ packets)"

interpretation queues: client_frame only_queues
  by unfold_locales (auto simp: only_queues_def same_session_def emitSignal_def wire_def)

text \<open>The read buffer of the web socket: handlers leave it alone, a logoff may clear it.\<close>

interpretation reading: client_frame "\<lambda>a b. c_webSocketReadBuffer b = c_webSocketReadBuffer a"
  by unfold_locales (auto simp: same_session_def emitSignal_def)

lemma buffer_kept [simp]:
  "c_webSocketReadBuffer (updateConnectionStatus st c) = c_webSocketReadBuffer c"
  "c_webSocketReadBuffer (clearState c) = c_webSocketReadBuffer c"
  "c_webSocketReadBuffer (stopPositionTimers c) = c_webSocketReadBuffer c"
  "c_webSocketReadBuffer (sendDeletePilot c) = c_webSocketReadBuffer c"
  "c_webSocketReadBuffer (sendDeleteAtc c) = c_webSocketReadBuffer c"
  by (simp_all add: updateConnectionStatus_def Let_def emitSignal_def clearState_def
        stopPositionTimers_def sendDeletePilot_def sendDeleteAtc_def reading.frame_queue)

lemma buffer_close:
  "c_webSocketReadBuffer (closeTransport c) = c_webSocketReadBuffer c \<or> c_webSocketReadBuffer (closeTransport c) = []"
  by (simp add: closeTransport_def)

interpretation buffer: session_frame
  "\<lambda>a b. c_webSocketReadBuffer b = c_webSocketReadBuffer a \<or> c_webSocketReadBuffer b = []"
proof unfold_locales
  fix c :: "'d FsdClient"
  show "c_webSocketReadBuffer (disconnectFromServer c) = c_webSocketReadBuffer c
        \<or> c_webSocketReadBuffer (disconnectFromServer c) = []"
    by (simp add: disconnectFromServer_def Let_def closeTransport_def)
qed (auto simp: same_session_def emitSignal_def)

lemma drain_complete:
  assumes "drainWebSocket D env table fuel c = Some c'"
    and "length (c_webSocketReadBuffer c) \<le> fuel"
  shows "newline \<notin> set (c_webSocketReadBuffer c')"
  using assms
proof (induction fuel arbitrary: c)
  case (Suc fuel)
  let ?b = "c_webSocketReadBuffer c"
  let ?line = "takeWhile (\<lambda>ch. ch \<noteq> newline) ?b @ [newline]"
  let ?c1 = "c\<lparr>c_webSocketReadBuffer := drop (length ?line) ?b\<rparr>"
  show ?case
  proof (cases "newline \<in> set ?b")
    case True
    then have "?b \<noteq> []" by auto
    then have short: "length (c_webSocketReadBuffer ?c1) \<le> fuel" using Suc.prems(2) by auto
    show ?thesis
    proof (cases "trimmed ?line = []")
      case trim: True
      have "drainWebSocket D env table fuel ?c1 = Some c'"
        using Suc.prems(1) True trim by (simp add: Let_def)
      then show ?thesis using short by (rule Suc.IH)
    next
      case False
      with Suc.prems(1) True obtain c2 where p: "parseMessage D env table ?line ?c1 = Some c2"
        and d: "drainWebSocket D env table fuel c2 = Some c'"
        by (auto simp: Let_def split: option.splits)
      have "length (c_webSocketReadBuffer c2) \<le> fuel"
        using buffer.frame_parseMessage [OF p] short by auto
      with d show ?thesis by (rule Suc.IH)
    qed
  next
    case False
    then show ?thesis using Suc.prems(1) by (simp add: Let_def)
  qed
qed simp

lemma read_complete:
  assumes "readDataFromWebSocket D env table message c = Some c'"
    and "newline \<notin> set (c_webSocketReadBuffer c)"
  shows "newline \<notin> set (c_webSocketReadBuffer c')"
  using assms drain_complete [of D env table]
  by (auto simp: readDataFromWebSocket_def Let_def split: if_splits)

subsection \<open>Runs\<close>

lemma client_inv_connect: "client_inv c \<Longrightarrow> client_inv (connectToServer now host c)"
  by (auto simp: client_inv_def connectToServer_def initiateConnection_def startPositionTimers_def
        clear_inv Let_def)
     (simp_all add: updateConnectionStatus_def Let_def emitSignal_def clear_inv)

lemma client_inv_send: "client_inv c \<Longrightarrow> sendQueued c = Some c' \<Longrightarrow> client_inv c'"
  by (auto simp: client_inv_def sendQueued_some timers_off_def dest: in_set_dropD)

lemma client_inv_step:
  assumes "client_inv c" and step: "client_step D table env event c = Some c'"
  shows "client_inv c'"
proof (cases "event = SendTimer \<or> (\<exists>host. event = ConnectToServer host)")
  case True
  then show ?thesis
    using assms client_inv_connect client_inv_send by (auto simp: client_step_def split: if_splits)
next
  case False
  then show ?thesis using inv.frame_step [OF step] assms(1) by blast
qed

definition next_state ::
  "'d dbl \<Rightarrow> (string \<times> MessageType) list \<Rightarrow> 'd FsdClient option \<Rightarrow> 'd ClientEnv \<times> Event \<Rightarrow> 'd FsdClient option" where
  "next_state D table s e = Option.bind s (client_step D table (fst e) (snd e))"

lemma next_None: "foldl (next_state D table) None events = None"
  by (induction events) (simp_all add: next_state_def)

lemma client_run_foldl: "client_run D table events c = foldl (next_state D table) (Some c) events"
  by (induction events arbitrary: c)
     (auto simp: next_state_def next_None split: option.split)

interpretation client: invariant_machine "next_state D table" "\<lambda>s. \<forall>c. s = Some c \<longrightarrow> client_inv c"
  by unfold_locales (auto simp: next_state_def intro: client_inv_step split: Option.bind_splits)

lemma client_inv_run:
  assumes "client_inv c" and "client_run D table events c = Some c'"
  shows "client_inv c'"
  using client.run_inv [of "Some c"] assms by (auto simp: client_run_foldl)

lemma silent_step:
  assumes "\<not> c_sendTimer c" and "\<And>host. event \<noteq> ConnectToServer host"
    and step: "client_step D table env event c = Some c'"
  shows "silent c c'"
proof (cases "event = SendTimer")
  case True
  then show ?thesis using assms by (simp add: client_step_def silent_def)
next
  case False
  then show ?thesis using silent.frame_step [OF step assms(2)] by simp
qed

lemma silent_run:
  assumes "client_run D table events c = Some c'" and "\<not> c_sendTimer c"
    and "\<forall>(env, event) \<in> set events. \<forall>host. event \<noteq> ConnectToServer host"
  shows "wire c' = wire c"
  using assms
proof (induction events arbitrary: c)
  case (Cons e events)
  obtain env event where e: "e = (env, event)" by (cases e)
  with Cons.prems obtain c1 where step: "client_step D table env event c = Some c1"
    and run: "client_run D table events c1 = Some c'" by (auto split: option.splits)
  have "silent c c1"
    using silent_step [OF Cons.prems(2) _ step] Cons.prems(3) e by auto
  then show ?case
    using Cons.IH [OF run] Cons.prems by (auto simp: silent_def)
qed simp

text \<open>Ticks of the sender write the whole queue, in its order.\<close>

lemma send_ticks:
  assumes "\<not> c_unitTestMode c" and "[] \<notin> set (c_queue c)" and "c_sendTimer c"
  shows "\<exists>c'. client_run D table (replicate n (env, SendTimer)) c = Some c'
     \<and> wire c' @ c_queue c' = wire c @ c_queue c
     \<and> length (c_queue c') \<le> length (c_queue c) - n"
  using assms
proof (induction n arbitrary: c)
  case (Suc n)
  obtain c1 where c1: "sendQueued c = Some c1" by (simp add: sendQueued_some)
  note w = sendQueued_wire [OF Suc.prems(1,2) c1]
  have short: "length (c_queue c1) \<le> length (c_queue c) - 1"
    using burst_pos [of "length (c_queue c)"] by (cases "c_queue c = []") (auto simp: w)
  have "[] \<notin> set (c_queue c1)" using Suc.prems(2) by (auto simp: w dest: in_set_dropD)
  with Suc.IH [of c1] Suc.prems obtain c' where
    c': "client_run D table (replicate n (env, SendTimer)) c1 = Some c'"
      "wire c' @ c_queue c' = wire c1 @ c_queue c1"
      "length (c_queue c') \<le> length (c_queue c1) - n" by (auto simp: w)
  have "client_run D table (replicate (Suc n) (env, SendTimer)) c = Some c'"
    using c1 c'(1) Suc.prems(3) by (simp add: client_step_def)
  moreover have "wire c' @ c_queue c' = wire c @ c_queue c" using c'(2) by (simp add: w)
  moreover have "length (c_queue c') \<le> length (c_queue c) - Suc n" using c'(3) short by linarith
  ultimately show ?case by blast
qed simp

end
