(* ===== verification/Fsd_Dialogue.thy ===== *)
theory Fsd_Dialogue
  imports Fsd_Client_Runs
begin

text \<open>
  Two clients that talk: what one queues, the other one reads. The lemmas follow a packet from
  the operation that queues it through the parser of the receiver to the signal it emits.
  Also: the packets no handler can read (all others are handled, so the parser is total on
  them).
\<close>

subsection \<open>The lines the parser cannot handle\<close>

lemma fromTokens_total [simp]:
  "ClientQuery_fromTokens tokens \<noteq> None" "ClientResponse_fromTokens tokens \<noteq> None"
  "DeleteAtc_fromTokens tokens \<noteq> None" "DeletePilot_fromTokens tokens \<noteq> None"
  "FlightPlan_fromTokens tokens \<noteq> None" "KillRequest_fromTokens tokens \<noteq> None"
  "PilotDataUpdate_fromTokens D tokens \<noteq> None" "Ping_fromTokens tokens \<noteq> None"
  "Pong_fromTokens tokens \<noteq> None" "ServerError_fromTokens tokens \<noteq> None"
  "TextMessage_fromTokens tokens \<noteq> None" "VisualPilotDataToggle_fromTokens tokens \<noteq> None"
  "EuroscopeSimData_fromTokens D tokens \<noteq> None" "Rehost_fromTokens tokens \<noteq> None"
  "Mute_fromTokens tokens \<noteq> None" "InterimPilotDataUpdate_fromTokens D tokens \<noteq> None"
  "PlaneInfoRequest_fromTokens tokens \<noteq> None" "PlaneInformation_fromTokens tokens \<noteq> None"
  "PlaneInfoRequestFsinn_fromTokens tokens \<noteq> None" "PlaneInformationFsinn_fromTokens tokens \<noteq> None"
  by (simp_all add: at_opt_def Let_def ClientQuery_fromTokens_def ClientResponse_fromTokens_def
        DeleteAtc_fromTokens_def DeletePilot_fromTokens_def FlightPlan_fromTokens_def
        KillRequest_fromTokens_def PilotDataUpdate_fromTokens_def Ping_fromTokens_def
        Pong_fromTokens_def ServerError_fromTokens_def TextMessage_fromTokens_def
        VisualPilotDataToggle_fromTokens_def EuroscopeSimData_fromTokens_def Rehost_fromTokens_def
        Mute_fromTokens_def InterimPilotDataUpdate_fromTokens_def PlaneInfoRequest_fromTokens_def
        PlaneInformation_fromTokens_def PlaneInfoRequestFsinn_fromTokens_def
        PlaneInformationFsinn_fromTokens_def split: prod.split)

lemma AtcDataUpdate_None: "AtcDataUpdate_fromTokens D tokens = None \<longleftrightarrow> length tokens = 7"
  by (auto simp: AtcDataUpdate_fromTokens_def at_opt_def)

lemma bind_None_iff: "Option.bind m f = None \<longleftrightarrow> m = None \<or> (\<exists>x. m = Some x \<and> f x = None)"
  by (cases m) simp_all

lemma custom_total:
  "handlePlaneInfoRequest env tokens c \<noteq> None" "handlePlaneInformation tokens c \<noteq> None"
  "handleInterimUpdate D env tokens c \<noteq> None" "handlePlaneInformationFsinn tokens c \<noteq> None"
  "handlePlaneInfoRequestFsinn env tokens c \<noteq> None"
  by (simp_all add: handlePlaneInfoRequest_def handlePlaneInformation_def handleInterimUpdate_def
        handlePlaneInformationFsinn_def handlePlaneInfoRequestFsinn_def bind_None_iff Let_def
        del: not_None_eq)

lemma custom_None: "handleCustomPilotPacket D env tokens c = None \<longleftrightarrow> length tokens < 3"
  using custom_total
  by (cases "at_opt tokens 2") (auto simp: handleCustomPilotPacket_def at_opt_def split: if_splits)

lemma handlePacket_None:
  "handlePacket D env mt tokens c = None \<longleftrightarrow>
     mt = MessageType.AtcDataUpdate \<and> length tokens = 7
     \<or> mt = MessageType.PilotClientCom \<and> length tokens < 3"
proof (cases mt)
  case AtcDataUpdate
  then show ?thesis
    by (simp add: handlePacket_def handleAtcDataUpdate_def bind_None_iff AtcDataUpdate_None Let_def)
next
  case PilotClientCom
  then show ?thesis by (simp add: handlePacket_def custom_None)
qed (simp_all add: handlePacket_def handleClientQuery_def handleClientResponse_def handleDeleteATC_def
       handleDeletePilot_def handleFlightPlan_def handleKillRequest_def handlePilotDataUpdate_def
       handlePing_def handlePong_def handleServerError_def handleTextMessage_def
       handleVisualPilotDataUpdate_def handleVisualPilotDataToggle_def handleEuroscopeSimData_def
       handleRehost_def handleMute_def bind_None_iff Let_def)

lemma parseMessage_None:
  "parseMessage D env table line c = None \<longleftrightarrow>
     (\<exists>mt tokens. parseLine table line = Packet mt tokens
        \<and> (mt = MessageType.AtcDataUpdate \<and> length tokens = 7
           \<or> mt = MessageType.PilotClientCom \<and> length tokens < 3))"
  by (auto simp: parseMessage_def Let_def handlePacket_None split: parsed.splits)

subsection \<open>From the queue of one client to the handlers of another\<close>

definition plain :: "string \<Rightarrow> bool" where
  "plain s \<longleftrightarrow> s \<noteq> [] \<and> CHR '':'' \<notin> set s \<and> no_outer_space s"

lemma plainD: "plain s \<Longrightarrow> s \<noteq> [] \<and> CHR '':'' \<notin> set s \<and> \<not> isSpace (hd s) \<and> \<not> isSpace (last s)"
  by (auto simp: plain_def no_outer_space_def)

lemma queueMessage_queue:
  "m_isValid m \<Longrightarrow> \<not> c_unitTestMode c \<Longrightarrow>
     queueMessage pdu toTokens m c = c\<lparr>c_queue := c_queue c @ [messageToFSDString pdu toTokens m]\<rparr>"
  by (simp add: queueMessage_def)

lemma parseMessage_packet:
  "parseLine table line = Packet mt tokens \<Longrightarrow>
     parseMessage D env table line c = handlePacket D env mt tokens (emitRawFsdMessage (trimmed line) False c)"
  by (simp add: parseMessage_def Let_def)

lemma raw_more [simp]:
  "c_ownCallsign (emitRawFsdMessage msg sent c) = c_ownCallsign c"
  "c_capabilities (emitRawFsdMessage msg sent c) = c_capabilities c"
  "c_usesVatsimAtisMessages (emitRawFsdMessage msg sent c) = c_usesVatsimAtisMessages c"
  "c_pendingAtisQueries (emitRawFsdMessage msg sent c) = c_pendingAtisQueries c"
  "c_textMessagesToConsolidate (emitRawFsdMessage msg sent c) = c_textMessagesToConsolidate c"
  "c_mapAtisMessages (emitRawFsdMessage msg sent c) = c_mapAtisMessages c"
  by (simp_all add: emitRawFsdMessage_def emitSignal_def split: prod.split)

lemma raw_out: "\<exists>es. c_out (emitRawFsdMessage msg sent c) = c_out c @ es"
  by (simp add: emitRawFsdMessage_def emitSignal_def split: prod.split)

lemma number_plain: "plain (number n)"
  by (simp add: plain_def)

lemma ping_sendable:
  "plain a \<Longrightarrow> plain b \<Longrightarrow> ping.sendable (mkPing a b (number t))"
  "plain a \<Longrightarrow> plain b \<Longrightarrow> pong.sendable (mkPong a b (number t))"
  using plainD [of a] plainD [of b] plainD [OF number_plain]
  by (auto simp: ping.sendable_def pong.sendable_def tokens_wire_def Ping_defs Pong_defs)

lemma ping_parse:
  assumes "plain a" "plain b" and table: "mset table = mset messageTypeMapping"
  shows "parseMessage D env table (messageToFSDString Ping_pdu Ping_toTokens (mkPing a b (number t))) c
       = Some (sendPong a (number t)
           (emitRawFsdMessage (trimmed (messageToFSDString Ping_pdu Ping_toTokens (mkPing a b (number t)))) False c))"
  using ping.wire_parse [OF ping_sendable(1) [OF assms(1,2)] table]
    ping.wire_read [OF ping_sendable(1) [OF assms(1,2)]]
  by (simp add: parseMessage_packet handlePacket_def handlePing_def) (simp add: mkPing_def)

lemma pong_parse:
  assumes "plain a" "plain b" and table: "mset table = mset messageTypeMapping"
    and t: "-9223372036854775808 \<le> t" "t \<le> 9223372036854775807"
  shows "parseMessage D env table (messageToFSDString Pong_pdu Pong_toTokens (mkPong a b (number t))) c
       = Some (emitSignal (PongReceived a (e_now env - t))
           (emitRawFsdMessage (trimmed (messageToFSDString Pong_pdu Pong_toTokens (mkPong a b (number t)))) False c))"
  using pong.wire_parse [OF ping_sendable(2) [OF assms(1,2)] table]
    pong.wire_read [OF ping_sendable(2) [OF assms(1,2)]] t
  by (simp add: parseMessage_packet handlePacket_def handlePong_def Let_def) (simp add: mkPong_def)

lemma ping_dialogue:
  assumes table: "mset table = mset messageTypeMapping"
    and names: "plain (ownCallsignString a)" "plain (ownCallsignString b)"
    and units: "\<not> c_unitTestMode a" "\<not> c_unitTestMode b"
    and t: "-9223372036854775808 \<le> e_now env" "e_now env \<le> 9223372036854775807"
  shows "\<exists>ping pong b' a'.
     c_queue (sendPing env (ownCallsignString b) a) = c_queue a @ [ping]
     \<and> parseMessage D envb table ping b = Some b' \<and> c_queue b' = c_queue b @ [pong]
     \<and> parseMessage D enva table pong a = Some a'
     \<and> last (c_out a') = Emit (PongReceived (ownCallsignString b) (e_now enva - e_now env))"
proof -
  let ?a = "ownCallsignString a" and ?b = "ownCallsignString b" and ?t = "number (e_now env)"
  let ?ping = "messageToFSDString Ping_pdu Ping_toTokens (mkPing ?a ?b ?t)"
  let ?pong = "messageToFSDString Pong_pdu Pong_toTokens (mkPong ?b ?a ?t)"
  have "c_queue (sendPing env ?b a) = c_queue a @ [?ping]"
    using units by (simp add: sendPing_def queueMessage_queue mkPing_def)
  moreover obtain b' where b': "parseMessage D envb table ?ping b = Some b'"
      "c_queue b' = c_queue b @ [?pong]"
    using ping_parse [OF names table, of D envb "e_now env" b] units
    by (simp add: sendPong_def queueMessage_queue mkPong_def ownCallsignString_def)
  moreover have "parseMessage D enva table ?pong a
      = Some (emitSignal (PongReceived ?b (e_now enva - e_now env)) (emitRawFsdMessage (trimmed ?pong) False a))"
    by (rule pong_parse [OF names(2,1) table t])
  moreover have "last (c_out (emitSignal sig c)) = Emit sig" for sig :: "'d Signal" and c
    by (simp add: emitSignal_def)
  ultimately show ?thesis by blast
qed

subsection \<open>Capabilities\<close>

lemma query_sendable:
  "plain a \<Longrightarrow> plain b \<Longrightarrow> queryType_canonical q \<Longrightarrow> clientQuery.sendable (mkClientQuery a b q [])"
  using plainD [of a] plainD [of b] clientQueryType.no_colon [of q] clientQueryType.outer [of q]
  by (auto simp: clientQuery.sendable_def tokens_wire_def ClientQuery_defs no_outer_space_def)

lemma capability_token:
  "t \<in> set (capabilitiesResponse caps) \<Longrightarrow> t \<noteq> [] \<and> last t = CHR ''1''"
  by (auto simp: capabilitiesResponse_def split: if_splits)

lemma response_sendable:
  assumes "plain a" "plain b"
  shows "clientResponse.sendable (mkClientResponse a b QCapabilities (capabilitiesResponse caps))"
proof -
  let ?data = "capabilitiesResponse caps"
  have "last (a # b # ''CAPS'' # ?data) = [] \<or> \<not> isSpace (last (last (a # b # ''CAPS'' # ?data)))"
    using capability_token [OF last_in_set, of caps] by (cases "?data = []") (auto simp: isSpace_def)
  then show ?thesis
    using plainD [OF assms(1)] plainD [OF assms(2)] capabilitiesResponse_no_colon [of _ caps]
    by (auto simp: clientResponse.sendable_def tokens_wire_def ClientResponse_defs queryType_canonical_def)
qed

lemma capability_query_parse:
  assumes "plain a" "plain b" and table: "mset table = mset messageTypeMapping"
  shows "parseMessage D env table (messageToFSDString ClientQuery_pdu ClientQuery_toTokens
           (mkClientQuery a b QCapabilities [])) c
       = Some (respond QCapabilities a (capabilitiesResponse (c_capabilities c))
           (emitRawFsdMessage (trimmed (messageToFSDString ClientQuery_pdu ClientQuery_toTokens
              (mkClientQuery a b QCapabilities []))) False c))"
proof -
  have s: "clientQuery.sendable (mkClientQuery a b QCapabilities [])"
    by (rule query_sendable [OF assms(1,2)]) (simp add: queryType_canonical_def)
  show ?thesis
    using clientQuery.wire_parse [OF s table] clientQuery.wire_read [OF s]
    by (simp add: parseMessage_packet handlePacket_def handleClientQuery_def)
       (simp add: mkClientQuery_def sendClientResponse_def)
qed

lemma capability_response_parse:
  assumes "plain a" "plain b" and table: "mset table = mset messageTypeMapping"
  shows "parseMessage D env table (messageToFSDString ClientResponse_pdu ClientResponse_toTokens
           (mkClientResponse a b QCapabilities (capabilitiesResponse caps))) c
       = Some (emitSignal (CapabilityResponseReceived a (clientCapabilities ((caps AND 0x7FE) OR CapNone)))
           (emitRawFsdMessage (trimmed (messageToFSDString ClientResponse_pdu ClientResponse_toTokens
              (mkClientResponse a b QCapabilities (capabilitiesResponse caps)))) False c))"
  using clientResponse.wire_parse [OF response_sendable [OF assms(1,2)] table]
    clientResponse.wire_read [OF response_sendable [OF assms(1,2)]]
  by (simp add: parseMessage_packet handlePacket_def handleClientResponse_def Let_def)
     (simp add: mkClientResponse_def capabilities_read)

lemma capability_dialogue:
  assumes table: "mset table = mset messageTypeMapping"
    and names: "plain (ownCallsignString a)" "plain (ownCallsignString b)"
    and units: "\<not> c_unitTestMode a" "\<not> c_unitTestMode b"
    and receiver: "getFsdCallsignString receiver = ownCallsignString b"
  shows "\<exists>query response b' a'.
     c_queue (sendClientQuery now QCapabilities receiver [] a) = c_queue a @ [query]
     \<and> parseMessage D envb table query b = Some b' \<and> c_queue b' = c_queue b @ [response]
     \<and> parseMessage D enva table response a = Some a'
     \<and> last (c_out a') = Emit (CapabilityResponseReceived (ownCallsignString b)
          (clientCapabilities ((c_capabilities b AND 0x7FE) OR CapNone)))"
proof -
  let ?a = "ownCallsignString a" and ?b = "ownCallsignString b"
  let ?query = "messageToFSDString ClientQuery_pdu ClientQuery_toTokens (mkClientQuery ?a ?b QCapabilities [])"
  let ?response = "messageToFSDString ClientResponse_pdu ClientResponse_toTokens
      (mkClientResponse ?b ?a QCapabilities (capabilitiesResponse (c_capabilities b)))"
  have "c_queue (sendClientQuery now QCapabilities receiver [] a) = c_queue a @ [?query]"
    using units receiver by (simp add: sendClientQuery_def sendQuery_def queueMessage_queue mkClientQuery_def)
  moreover obtain b' where "parseMessage D envb table ?query b = Some b'"
      "c_queue b' = c_queue b @ [?response]"
    using capability_query_parse [OF names table, of D envb b] units
    by (simp add: respond_def queueMessage_queue mkClientResponse_def ownCallsignString_def)
  moreover note capability_response_parse [OF names(2,1) table, of D enva "c_capabilities b" a]
  moreover have "last (c_out (emitSignal sig c)) = Emit sig" for sig :: "'d Signal" and c
    by (simp add: emitSignal_def)
  ultimately show ?thesis by blast
qed

subsection \<open>Text messages\<close>

lemma text_wire:
  assumes "plain a" "plain b" "no_outer_space message"
  shows "TextMessage_wire (mkTextMessage a b message)"
  using assms plainD [of a] plainD [of b]
  by (auto simp: TextMessage_wire_def mkTextMessage_def no_outer_space_def)

lemma text_parse:
  assumes "plain a" "plain b" "no_outer_space message" and table: "mset table = mset messageTypeMapping"
  shows "parseMessage D env table (messageToFSDString TextMessage_pdu TextMessage_toTokens (mkTextMessage a b message)) c
       = handleTextMessage env
           (qsplit CHR '':'' (qjoin '':'' (TextMessage_toTokens (mkTextMessage a b message))))
           (emitRawFsdMessage (trimmed (messageToFSDString TextMessage_pdu TextMessage_toTokens (mkTextMessage a b message))) False c)"
  using textMessage.wire_parse [OF text_wire [OF assms(1-3)] table]
  by (simp add: parseMessage_packet handlePacket_def)

lemma private_parse:
  assumes names: "plain a" "plain b" "no_outer_space message" and at: "\<not> startsWith b ''@''"
    and table: "mset table = mset messageTypeMapping"
    and idle: "c_usesVatsimAtisMessages c \<or> c_pendingAtisQueries c (cs_callsign (mkCallsign a NoHint)) = None"
  shows "parseMessage D env table (messageToFSDString TextMessage_pdu TextMessage_toTokens (mkTextMessage a b message)) c
       = Some (consolidateTextMessage (mkPrivateMessage message (mkCallsign a NoHint) (mkCallsign b NoHint))
           (emitRawFsdMessage (trimmed (messageToFSDString TextMessage_pdu TextMessage_toTokens (mkTextMessage a b message))) False c))"
  using textMessage.wire_read [OF text_wire [OF names]] at idle
  unfolding text_parse [OF names table] handleTextMessage_def
  by (auto simp: mkTextMessage_def Let_def)

lemma number_no_ampersand: "CHR ''&'' \<notin> set (number n)"
proof
  assume "CHR ''&'' \<in> set (number n)"
  then have "CHR ''&'' \<in> set (nat_digits 10 (nat (- n))) \<or> CHR ''&'' \<in> set (nat_digits 10 (nat n))"
    by (auto simp: number_base_def split: if_splits)
  then show False using of_char_nat_digits [of 10 "CHR ''&''"] by auto
qed

lemma radio_parse:
  assumes names: "plain a" "no_outer_space message"
    and table: "mset table = mset messageTypeMapping" and f: "int32 f" "int32 (f - 100000)"
  shows "parseMessage D env table
           (messageToFSDString TextMessage_pdu TextMessage_toTokens (mkTextMessage a (''@'' @ number (f - 100000)) message)) c
       = Some (let c1 = emitRawFsdMessage (trimmed (messageToFSDString TextMessage_pdu TextMessage_toTokens
                          (mkTextMessage a (''@'' @ number (f - 100000)) message))) False c;
                   heard = Some (round8_33kHzChannel f)
               in if heard = e_com1 env \<or> heard = e_com2 env
                  then emitSignal (TextMessagesReceived [mkRadioMessage message heard (mkCallsign a NoHint)]) c1
                  else c1)"
proof -
  let ?b = "''@'' @ number (f - 100000)"
  have b: "plain ?b" using number_plain [of "f - 100000"] by (auto simp: plain_def no_outer_space_def isSpace_def)
  have "qsplit CHR ''&'' ?b = [?b]" by (rule qsplit_no_sep) (simp add: number_no_ampersand)
  then have "receiverFrequencies ?b = [f]"
    using f by (simp add: receiverFrequencies_def wrap32_id)
  then show ?thesis
    using textMessage.wire_read [OF text_wire [OF names(1) b names(2)]]
    unfolding text_parse [OF names(1) b names(2) table] handleTextMessage_def
    by (simp add: mkTextMessage_def Let_def startsWith_def)
qed

end
