(* ===== verification/Fsd_Any_Message.thy ===== *)
theory Fsd_Any_Message
  imports Fsd_Session_Messages Fsd_Info_Messages Fsd_Position_Messages
begin

text \<open>
  All message classes of \<open>src/core/fsd\<close> in one type, and what a peer makes of the line of a
  message: \<open>parseMessage\<close> of \<open>fsdclient.cpp\<close> selects the class by the command and, for custom
  pilot packets, \<open>handleCustomPilotPacket\<close> by the third token; the class reads its tokens.
\<close>

datatype 'd Message =
     MsgAddAtc AddAtc
  | MsgAddPilot AddPilot
  | MsgAtcDataUpdate "'d AtcDataUpdate"
  | MsgAuthChallenge AuthChallenge
  | MsgAuthResponse AuthResponse
  | MsgClientIdentification ClientIdentification
  | MsgClientQuery ClientQuery
  | MsgClientResponse ClientResponse
  | MsgDeleteAtc DeleteAtc
  | MsgDeletePilot DeletePilot
  | MsgFlightPlan FlightPlan
  | MsgFSDIdentification FSDIdentification
  | MsgKillRequest KillRequest
  | MsgPilotDataUpdate "'d PilotDataUpdate"
  | MsgVisualPilotDataUpdate "'d VisualPilotDataUpdate"
  | MsgVisualPilotDataPeriodic "'d VisualPilotDataPeriodic"
  | MsgVisualPilotDataStopped "'d VisualPilotDataStopped"
  | MsgVisualPilotDataToggle VisualPilotDataToggle
  | MsgPing Ping
  | MsgPong Pong
  | MsgServerError ServerError
  | MsgTextMessage TextMessage
  | MsgEuroscopeSimData "'d EuroscopeSimData"
  | MsgRehost Rehost
  | MsgMute Mute
  | MsgPlaneInfoRequest PlaneInfoRequest
  | MsgPlaneInformation PlaneInformation
  | MsgInterimPilotDataUpdate "'d InterimPilotDataUpdate"
  | MsgPlaneInformationFsinn PlaneInformationFsinn
  | MsgPlaneInfoRequestFsinn PlaneInfoRequestFsinn

fun messageLine :: "'d dbl \<Rightarrow> 'd Message \<Rightarrow> string" where
  "messageLine D (MsgAddAtc m) = messageToFSDString AddAtc_pdu AddAtc_toTokens m"
| "messageLine D (MsgAddPilot m) = messageToFSDString AddPilot_pdu AddPilot_toTokens m"
| "messageLine D (MsgAtcDataUpdate m) = messageToFSDString AtcDataUpdate_pdu (AtcDataUpdate_toTokens D) m"
| "messageLine D (MsgAuthChallenge m) = messageToFSDString AuthChallenge_pdu AuthChallenge_toTokens m"
| "messageLine D (MsgAuthResponse m) = messageToFSDString AuthResponse_pdu AuthResponse_toTokens m"
| "messageLine D (MsgClientIdentification m) = messageToFSDString ClientIdentification_pdu ClientIdentification_toTokens m"
| "messageLine D (MsgClientQuery m) = messageToFSDString ClientQuery_pdu ClientQuery_toTokens m"
| "messageLine D (MsgClientResponse m) = messageToFSDString ClientResponse_pdu ClientResponse_toTokens m"
| "messageLine D (MsgDeleteAtc m) = messageToFSDString DeleteAtc_pdu DeleteAtc_toTokens m"
| "messageLine D (MsgDeletePilot m) = messageToFSDString DeletePilot_pdu DeletePilot_toTokens m"
| "messageLine D (MsgFlightPlan m) = messageToFSDString FlightPlan_pdu FlightPlan_toTokens m"
| "messageLine D (MsgFSDIdentification m) = messageToFSDString FSDIdentification_pdu FSDIdentification_toTokens m"
| "messageLine D (MsgKillRequest m) = messageToFSDString KillRequest_pdu KillRequest_toTokens m"
| "messageLine D (MsgPilotDataUpdate m) = messageToFSDString PilotDataUpdate_pdu (PilotDataUpdate_toTokens D) m"
| "messageLine D (MsgVisualPilotDataUpdate m) = messageToFSDString VisualPilotDataUpdate_pdu (VisualPilotDataUpdate_toTokens D) m"
| "messageLine D (MsgVisualPilotDataPeriodic m) = messageToFSDString VisualPilotDataPeriodic_pdu (VisualPilotDataPeriodic_toTokens D) m"
| "messageLine D (MsgVisualPilotDataStopped m) = messageToFSDString VisualPilotDataStopped_pdu (VisualPilotDataStopped_toTokens D) m"
| "messageLine D (MsgVisualPilotDataToggle m) = messageToFSDString VisualPilotDataToggle_pdu VisualPilotDataToggle_toTokens m"
| "messageLine D (MsgPing m) = messageToFSDString Ping_pdu Ping_toTokens m"
| "messageLine D (MsgPong m) = messageToFSDString Pong_pdu Pong_toTokens m"
| "messageLine D (MsgServerError m) = messageToFSDString ServerError_pdu ServerError_toTokens m"
| "messageLine D (MsgTextMessage m) = messageToFSDString TextMessage_pdu TextMessage_toTokens m"
| "messageLine D (MsgEuroscopeSimData m) = messageToFSDString EuroscopeSimData_pdu (EuroscopeSimData_toTokens D) m"
| "messageLine D (MsgRehost m) = messageToFSDString Rehost_pdu Rehost_toTokens m"
| "messageLine D (MsgMute m) = messageToFSDString Mute_pdu Mute_toTokens m"
| "messageLine D (MsgPlaneInfoRequest m) = messageToFSDString PlaneInfoRequest_pdu PlaneInfoRequest_toTokens m"
| "messageLine D (MsgPlaneInformation m) = messageToFSDString PlaneInformation_pdu PlaneInformation_toTokens m"
| "messageLine D (MsgInterimPilotDataUpdate m) = messageToFSDString InterimPilotDataUpdate_pdu (InterimPilotDataUpdate_toTokens D) m"
| "messageLine D (MsgPlaneInformationFsinn m) = messageToFSDString PlaneInformationFsinn_pdu PlaneInformationFsinn_toTokens m"
| "messageLine D (MsgPlaneInfoRequestFsinn m) = messageToFSDString PlaneInfoRequestFsinn_pdu PlaneInfoRequestFsinn_toTokens m"

text \<open>The messages whose fields survive the protocol.\<close>

fun deliverable :: "'d dbl \<Rightarrow> 'd Message \<Rightarrow> bool" where
  "deliverable D (MsgAddAtc m) \<longleftrightarrow> addAtc.sendable m"
| "deliverable D (MsgAddPilot m) \<longleftrightarrow> addPilot.sendable m"
| "deliverable D (MsgAtcDataUpdate m) \<longleftrightarrow> atcDataUpdate.sendable D m"
| "deliverable D (MsgAuthChallenge m) \<longleftrightarrow> authChallenge.sendable m"
| "deliverable D (MsgAuthResponse m) \<longleftrightarrow> authResponse.sendable m"
| "deliverable D (MsgClientIdentification m) \<longleftrightarrow> clientIdentification.sendable m"
| "deliverable D (MsgClientQuery m) \<longleftrightarrow> clientQuery.sendable m"
| "deliverable D (MsgClientResponse m) \<longleftrightarrow> clientResponse.sendable m"
| "deliverable D (MsgDeleteAtc m) \<longleftrightarrow> deleteAtc.sendable m"
| "deliverable D (MsgDeletePilot m) \<longleftrightarrow> deletePilot.sendable m"
| "deliverable D (MsgFlightPlan m) \<longleftrightarrow> flightPlan.sendable m"
| "deliverable D (MsgFSDIdentification m) \<longleftrightarrow> fsdIdentification.sendable m"
| "deliverable D (MsgKillRequest m) \<longleftrightarrow> killRequest.sendable m"
| "deliverable D (MsgPilotDataUpdate m) \<longleftrightarrow> pilotDataUpdate.sendable D m"
| "deliverable D (MsgVisualPilotDataUpdate m) \<longleftrightarrow> visualPilotDataUpdate.sendable D m"
| "deliverable D (MsgVisualPilotDataPeriodic m) \<longleftrightarrow> visualPilotDataPeriodic.sendable D m"
| "deliverable D (MsgVisualPilotDataStopped m) \<longleftrightarrow> visualPilotDataStopped.sendable D m"
| "deliverable D (MsgVisualPilotDataToggle m) \<longleftrightarrow> visualPilotDataToggle.sendable m"
| "deliverable D (MsgPing m) \<longleftrightarrow> ping.sendable m"
| "deliverable D (MsgPong m) \<longleftrightarrow> pong.sendable m"
| "deliverable D (MsgServerError m) \<longleftrightarrow> serverError.sendable m"
| "deliverable D (MsgTextMessage m) \<longleftrightarrow> TextMessage_wire m"
| "deliverable D (MsgEuroscopeSimData m) \<longleftrightarrow> euroscopeSimData.sendable D m"
| "deliverable D (MsgRehost m) \<longleftrightarrow> rehost.sendable m"
| "deliverable D (MsgMute m) \<longleftrightarrow> mute.sendable m"
| "deliverable D (MsgPlaneInfoRequest m) \<longleftrightarrow> planeInfoRequest.sendable m"
| "deliverable D (MsgPlaneInformation m) \<longleftrightarrow> PlaneInformation_wire m"
| "deliverable D (MsgInterimPilotDataUpdate m) \<longleftrightarrow> interimPilotDataUpdate.sendable D m"
| "deliverable D (MsgPlaneInformationFsinn m) \<longleftrightarrow> planeInformationFsinn.sendable m"
| "deliverable D (MsgPlaneInfoRequestFsinn m) \<longleftrightarrow> planeInfoRequestFsinn.sendable m"

text \<open>The selection of the class of a custom pilot packet.\<close>

definition readCustom :: "'d dbl \<Rightarrow> string list \<Rightarrow> 'd Message option" where
  "readCustom D tokens = do {
     subType \<leftarrow> at_opt tokens 2;
     if subType = ''PIR'' then map_option MsgPlaneInfoRequest (PlaneInfoRequest_fromTokens tokens)
     else if subType = ''PI'' then
       if 6 < length tokens \<and> tokens ! 3 = ''X'' then None
       else if 4 < length tokens \<and> tokens ! 3 = ''GEN''
       then map_option MsgPlaneInformation (PlaneInformation_fromTokens tokens)
       else None
     else if subType = ''VI'' then map_option MsgInterimPilotDataUpdate (InterimPilotDataUpdate_fromTokens D tokens)
     else if subType = ''FSIPI'' then map_option MsgPlaneInformationFsinn (PlaneInformationFsinn_fromTokens tokens)
     else if subType = ''FSIPIR'' then map_option MsgPlaneInfoRequestFsinn (PlaneInfoRequestFsinn_fromTokens tokens)
     else None
   }"

definition readPacket :: "'d dbl \<Rightarrow> int \<Rightarrow> int \<Rightarrow> MessageType \<Rightarrow> string list \<Rightarrow> 'd Message option" where
  "readPacket D major minor mt tokens =
     (case mt of
         MessageType.AddAtc \<Rightarrow> map_option MsgAddAtc (AddAtc_fromTokens tokens)
      | MessageType.AddPilot \<Rightarrow> map_option MsgAddPilot (AddPilot_fromTokens tokens)
      | MessageType.AtcDataUpdate \<Rightarrow> map_option MsgAtcDataUpdate (AtcDataUpdate_fromTokens D tokens)
      | MessageType.AuthChallenge \<Rightarrow> map_option MsgAuthChallenge (AuthChallenge_fromTokens tokens)
      | MessageType.AuthResponse \<Rightarrow> map_option MsgAuthResponse (AuthResponse_fromTokens tokens)
      | MessageType.ClientIdentification \<Rightarrow> map_option MsgClientIdentification (ClientIdentification_fromTokens major minor tokens)
      | MessageType.ClientQuery \<Rightarrow> map_option MsgClientQuery (ClientQuery_fromTokens tokens)
      | MessageType.ClientResponse \<Rightarrow> map_option MsgClientResponse (ClientResponse_fromTokens tokens)
      | MessageType.DeleteATC \<Rightarrow> map_option MsgDeleteAtc (DeleteAtc_fromTokens tokens)
      | MessageType.DeletePilot \<Rightarrow> map_option MsgDeletePilot (DeletePilot_fromTokens tokens)
      | MessageType.FlightPlan \<Rightarrow> map_option MsgFlightPlan (FlightPlan_fromTokens tokens)
      | MessageType.FsdIdentification \<Rightarrow> map_option MsgFSDIdentification (FSDIdentification_fromTokens tokens)
      | MessageType.KillRequest \<Rightarrow> map_option MsgKillRequest (KillRequest_fromTokens tokens)
      | MessageType.PilotDataUpdate \<Rightarrow> map_option MsgPilotDataUpdate (PilotDataUpdate_fromTokens D tokens)
      | MessageType.VisualPilotDataUpdate \<Rightarrow> map_option MsgVisualPilotDataUpdate (VisualPilotDataUpdate_fromTokens D tokens)
      | MessageType.VisualPilotDataPeriodic \<Rightarrow> map_option MsgVisualPilotDataPeriodic (VisualPilotDataPeriodic_fromTokens D tokens)
      | MessageType.VisualPilotDataStopped \<Rightarrow> map_option MsgVisualPilotDataStopped (VisualPilotDataStopped_fromTokens D tokens)
      | MessageType.VisualPilotDataToggle \<Rightarrow> map_option MsgVisualPilotDataToggle (VisualPilotDataToggle_fromTokens tokens)
      | MessageType.Ping \<Rightarrow> map_option MsgPing (Ping_fromTokens tokens)
      | MessageType.Pong \<Rightarrow> map_option MsgPong (Pong_fromTokens tokens)
      | MessageType.ServerError \<Rightarrow> map_option MsgServerError (ServerError_fromTokens tokens)
      | MessageType.TextMessage \<Rightarrow> map_option MsgTextMessage (TextMessage_fromTokens tokens)
      | MessageType.EuroscopeSimData \<Rightarrow> map_option MsgEuroscopeSimData (EuroscopeSimData_fromTokens D tokens)
      | MessageType.Rehost \<Rightarrow> map_option MsgRehost (Rehost_fromTokens tokens)
      | MessageType.Mute \<Rightarrow> map_option MsgMute (Mute_fromTokens tokens)
      | MessageType.PilotClientCom \<Rightarrow> readCustom D tokens
      | _ \<Rightarrow> None)"

definition readMessage ::
  "'d dbl \<Rightarrow> int \<Rightarrow> int \<Rightarrow> (string \<times> MessageType) list \<Rightarrow> string \<Rightarrow> 'd Message option" where
  "readMessage D major minor table line =
     (case parseLine table line of
        Packet mt tokens \<Rightarrow> readPacket D major minor mt tokens
      | _ \<Rightarrow> None)"

subsection \<open>What is sent is what is read\<close>

lemma custom_token:
  "readCustom D (a # b # ''PIR'' # ts) = map_option MsgPlaneInfoRequest (PlaneInfoRequest_fromTokens (a # b # ''PIR'' # ts))"
  "readCustom D (a # b # ''VI'' # ts) = map_option MsgInterimPilotDataUpdate (InterimPilotDataUpdate_fromTokens D (a # b # ''VI'' # ts))"
  "readCustom D (a # b # ''FSIPI'' # ts) = map_option MsgPlaneInformationFsinn (PlaneInformationFsinn_fromTokens (a # b # ''FSIPI'' # ts))"
  "readCustom D (a # b # ''FSIPIR'' # ts) = map_option MsgPlaneInfoRequestFsinn (PlaneInfoRequestFsinn_fromTokens (a # b # ''FSIPIR'' # ts))"
  "readCustom D (a # b # ''PI'' # ''GEN'' # t # ts) = map_option MsgPlaneInformation (PlaneInformation_fromTokens (a # b # ''PI'' # ''GEN'' # t # ts))"
  by (simp_all add: readCustom_def)

lemma read_custom_packets:
  "planeInfoRequest.sendable m30 \<Longrightarrow> readCustom D (qsplit CHR '':'' (qjoin '':'' (PlaneInfoRequest_toTokens m30))) = Some (MsgPlaneInfoRequest m30)"
    "PlaneInformation_wire m20 \<Longrightarrow> readCustom D (qsplit CHR '':'' (qjoin '':'' (PlaneInformation_toTokens m20))) = Some (MsgPlaneInformation m20)"
    "interimPilotDataUpdate.sendable D m21 \<Longrightarrow> readCustom D (qsplit CHR '':'' (qjoin '':'' (InterimPilotDataUpdate_toTokens D m21))) = Some (MsgInterimPilotDataUpdate m21)"
    "planeInformationFsinn.sendable m50 \<Longrightarrow> readCustom D (qsplit CHR '':'' (qjoin '':'' (PlaneInformationFsinn_toTokens m50))) = Some (MsgPlaneInformationFsinn m50)"
    "planeInfoRequestFsinn.sendable m60 \<Longrightarrow> readCustom D (qsplit CHR '':'' (qjoin '':'' (PlaneInfoRequestFsinn_toTokens m60))) = Some (MsgPlaneInfoRequestFsinn m60)"
proof -
  show "readCustom D (qsplit CHR '':'' (qjoin '':'' (PlaneInfoRequest_toTokens m30))) = Some (MsgPlaneInfoRequest m30)" if "planeInfoRequest.sendable m30"
    using planeInfoRequest.wire_read [OF that] tokens_wire_split [of "PlaneInfoRequest_toTokens m30"] that
    by (simp add: planeInfoRequest.sendable_def PlaneInfoRequest_toTokens_def custom_token)
  show "readCustom D (qsplit CHR '':'' (qjoin '':'' (PlaneInformation_toTokens m20))) = Some (MsgPlaneInformation m20)" if "PlaneInformation_wire m20"
    using planeInformation.wire_read [OF that] unfolding PlaneInformation_split [OF that]
    by (cases "PlaneInformation_pairs m20") (simp_all add: custom_token)
  show "readCustom D (qsplit CHR '':'' (qjoin '':'' (InterimPilotDataUpdate_toTokens D m21))) = Some (MsgInterimPilotDataUpdate m21)" if "interimPilotDataUpdate.sendable D m21"
    using interimPilotDataUpdate.wire_read [OF that] tokens_wire_split [of "InterimPilotDataUpdate_toTokens D m21"] that
    by (simp add: interimPilotDataUpdate.sendable_def InterimPilotDataUpdate_toTokens_def custom_token)
  show "readCustom D (qsplit CHR '':'' (qjoin '':'' (PlaneInformationFsinn_toTokens m50))) = Some (MsgPlaneInformationFsinn m50)" if "planeInformationFsinn.sendable m50"
    using planeInformationFsinn.wire_read [OF that] tokens_wire_split [of "PlaneInformationFsinn_toTokens m50"] that
    by (simp add: planeInformationFsinn.sendable_def PlaneInformationFsinn_toTokens_def custom_token)
  show "readCustom D (qsplit CHR '':'' (qjoin '':'' (PlaneInfoRequestFsinn_toTokens m60))) = Some (MsgPlaneInfoRequestFsinn m60)" if "planeInfoRequestFsinn.sendable m60"
    using planeInfoRequestFsinn.wire_read [OF that] tokens_wire_split [of "PlaneInfoRequestFsinn_toTokens m60"] that
    by (simp add: planeInfoRequestFsinn.sendable_def PlaneInfoRequestFsinn_toTokens_def custom_token)
qed

lemma read_sent:
  assumes "deliverable D m" and table: "mset table = mset messageTypeMapping"
  shows "readMessage D major minor table (messageLine D m) = Some m"
proof (cases m)
  case (MsgAddAtc x)
  with assms have s: "addAtc.sendable x" by simp
  show ?thesis
    unfolding MsgAddAtc messageLine.simps readMessage_def addAtc.wire_parse [OF s table]
    by (simp add: readPacket_def addAtc.wire_read [OF s])
next
  case (MsgAddPilot x)
  with assms have s: "addPilot.sendable x" by simp
  show ?thesis
    unfolding MsgAddPilot messageLine.simps readMessage_def addPilot.wire_parse [OF s table]
    by (simp add: readPacket_def addPilot.wire_read [OF s])
next
  case (MsgAtcDataUpdate x)
  with assms have s: "atcDataUpdate.sendable D x" by simp
  show ?thesis
    unfolding MsgAtcDataUpdate messageLine.simps readMessage_def atcDataUpdate.wire_parse [OF s table]
    by (simp add: readPacket_def atcDataUpdate.wire_read [OF s])
next
  case (MsgAuthChallenge x)
  with assms have s: "authChallenge.sendable x" by simp
  show ?thesis
    unfolding MsgAuthChallenge messageLine.simps readMessage_def authChallenge.wire_parse [OF s table]
    by (simp add: readPacket_def authChallenge.wire_read [OF s])
next
  case (MsgAuthResponse x)
  with assms have s: "authResponse.sendable x" by simp
  show ?thesis
    unfolding MsgAuthResponse messageLine.simps readMessage_def authResponse.wire_parse [OF s table]
    by (simp add: readPacket_def authResponse.wire_read [OF s])
next
  case (MsgClientIdentification x)
  with assms have s: "clientIdentification.sendable x" by simp
  show ?thesis
    unfolding MsgClientIdentification messageLine.simps readMessage_def clientIdentification.wire_parse [OF s table]
    by (simp add: readPacket_def clientIdentification.wire_read [OF s])
next
  case (MsgClientQuery x)
  with assms have s: "clientQuery.sendable x" by simp
  show ?thesis
    unfolding MsgClientQuery messageLine.simps readMessage_def clientQuery.wire_parse [OF s table]
    by (simp add: readPacket_def clientQuery.wire_read [OF s])
next
  case (MsgClientResponse x)
  with assms have s: "clientResponse.sendable x" by simp
  show ?thesis
    unfolding MsgClientResponse messageLine.simps readMessage_def clientResponse.wire_parse [OF s table]
    by (simp add: readPacket_def clientResponse.wire_read [OF s])
next
  case (MsgDeleteAtc x)
  with assms have s: "deleteAtc.sendable x" by simp
  show ?thesis
    unfolding MsgDeleteAtc messageLine.simps readMessage_def deleteAtc.wire_parse [OF s table]
    by (simp add: readPacket_def deleteAtc.wire_read [OF s])
next
  case (MsgDeletePilot x)
  with assms have s: "deletePilot.sendable x" by simp
  show ?thesis
    unfolding MsgDeletePilot messageLine.simps readMessage_def deletePilot.wire_parse [OF s table]
    by (simp add: readPacket_def deletePilot.wire_read [OF s])
next
  case (MsgFlightPlan x)
  with assms have s: "flightPlan.sendable x" by simp
  show ?thesis
    unfolding MsgFlightPlan messageLine.simps readMessage_def flightPlan.wire_parse [OF s table]
    by (simp add: readPacket_def flightPlan.wire_read [OF s])
next
  case (MsgFSDIdentification x)
  with assms have s: "fsdIdentification.sendable x" by simp
  show ?thesis
    unfolding MsgFSDIdentification messageLine.simps readMessage_def fsdIdentification.wire_parse [OF s table]
    by (simp add: readPacket_def fsdIdentification.wire_read [OF s])
next
  case (MsgKillRequest x)
  with assms have s: "killRequest.sendable x" by simp
  show ?thesis
    unfolding MsgKillRequest messageLine.simps readMessage_def killRequest.wire_parse [OF s table]
    by (simp add: readPacket_def killRequest.wire_read [OF s])
next
  case (MsgPilotDataUpdate x)
  with assms have s: "pilotDataUpdate.sendable D x" by simp
  show ?thesis
    unfolding MsgPilotDataUpdate messageLine.simps readMessage_def pilotDataUpdate.wire_parse [OF s table]
    by (simp add: readPacket_def pilotDataUpdate.wire_read [OF s])
next
  case (MsgVisualPilotDataUpdate x)
  with assms have s: "visualPilotDataUpdate.sendable D x" by simp
  show ?thesis
    unfolding MsgVisualPilotDataUpdate messageLine.simps readMessage_def visualPilotDataUpdate.wire_parse [OF s table]
    by (simp add: readPacket_def visualPilotDataUpdate.wire_read [OF s])
next
  case (MsgVisualPilotDataPeriodic x)
  with assms have s: "visualPilotDataPeriodic.sendable D x" by simp
  show ?thesis
    unfolding MsgVisualPilotDataPeriodic messageLine.simps readMessage_def visualPilotDataPeriodic.wire_parse [OF s table]
    by (simp add: readPacket_def visualPilotDataPeriodic.wire_read [OF s])
next
  case (MsgVisualPilotDataStopped x)
  with assms have s: "visualPilotDataStopped.sendable D x" by simp
  show ?thesis
    unfolding MsgVisualPilotDataStopped messageLine.simps readMessage_def visualPilotDataStopped.wire_parse [OF s table]
    by (simp add: readPacket_def visualPilotDataStopped.wire_read [OF s])
next
  case (MsgVisualPilotDataToggle x)
  with assms have s: "visualPilotDataToggle.sendable x" by simp
  show ?thesis
    unfolding MsgVisualPilotDataToggle messageLine.simps readMessage_def visualPilotDataToggle.wire_parse [OF s table]
    by (simp add: readPacket_def visualPilotDataToggle.wire_read [OF s])
next
  case (MsgPing x)
  with assms have s: "ping.sendable x" by simp
  show ?thesis
    unfolding MsgPing messageLine.simps readMessage_def ping.wire_parse [OF s table]
    by (simp add: readPacket_def ping.wire_read [OF s])
next
  case (MsgPong x)
  with assms have s: "pong.sendable x" by simp
  show ?thesis
    unfolding MsgPong messageLine.simps readMessage_def pong.wire_parse [OF s table]
    by (simp add: readPacket_def pong.wire_read [OF s])
next
  case (MsgServerError x)
  with assms have s: "serverError.sendable x" by simp
  show ?thesis
    unfolding MsgServerError messageLine.simps readMessage_def serverError.wire_parse [OF s table]
    by (simp add: readPacket_def serverError.wire_read [OF s])
next
  case (MsgTextMessage x)
  with assms have s: "TextMessage_wire x" by simp
  show ?thesis
    unfolding MsgTextMessage messageLine.simps readMessage_def textMessage.wire_parse [OF s table]
    by (simp add: readPacket_def textMessage.wire_read [OF s])
next
  case (MsgEuroscopeSimData x)
  with assms have s: "euroscopeSimData.sendable D x" by simp
  show ?thesis
    unfolding MsgEuroscopeSimData messageLine.simps readMessage_def euroscopeSimData.wire_parse [OF s table]
    by (simp add: readPacket_def euroscopeSimData.wire_read [OF s])
next
  case (MsgRehost x)
  with assms have s: "rehost.sendable x" by simp
  show ?thesis
    unfolding MsgRehost messageLine.simps readMessage_def rehost.wire_parse [OF s table]
    by (simp add: readPacket_def rehost.wire_read [OF s])
next
  case (MsgMute x)
  with assms have s: "mute.sendable x" by simp
  show ?thesis
    unfolding MsgMute messageLine.simps readMessage_def mute.wire_parse [OF s table]
    by (simp add: readPacket_def mute.wire_read [OF s])
next
  case (MsgPlaneInfoRequest x)
  with assms have s: "planeInfoRequest.sendable x" by simp
  show ?thesis
    unfolding MsgPlaneInfoRequest messageLine.simps readMessage_def planeInfoRequest.wire_parse [OF s table]
    by (simp add: readPacket_def read_custom_packets s)
next
  case (MsgPlaneInformation x)
  with assms have s: "PlaneInformation_wire x" by simp
  show ?thesis
    unfolding MsgPlaneInformation messageLine.simps readMessage_def planeInformation.wire_parse [OF s table]
    by (simp add: readPacket_def read_custom_packets s)
next
  case (MsgInterimPilotDataUpdate x)
  with assms have s: "interimPilotDataUpdate.sendable D x" by simp
  show ?thesis
    unfolding MsgInterimPilotDataUpdate messageLine.simps readMessage_def interimPilotDataUpdate.wire_parse [OF s table]
    by (simp add: readPacket_def read_custom_packets s)
next
  case (MsgPlaneInformationFsinn x)
  with assms have s: "planeInformationFsinn.sendable x" by simp
  show ?thesis
    unfolding MsgPlaneInformationFsinn messageLine.simps readMessage_def planeInformationFsinn.wire_parse [OF s table]
    by (simp add: readPacket_def read_custom_packets s)
next
  case (MsgPlaneInfoRequestFsinn x)
  with assms have s: "planeInfoRequestFsinn.sendable x" by simp
  show ?thesis
    unfolding MsgPlaneInfoRequestFsinn messageLine.simps readMessage_def planeInfoRequestFsinn.wire_parse [OF s table]
    by (simp add: readPacket_def read_custom_packets s)
qed

lemma line_inj:
  assumes "deliverable D a" and "deliverable D b" and "messageLine D a = messageLine D b"
  shows "a = b"
  using read_sent [OF assms(1) refl] read_sent [OF assms(2) refl] assms(3) by (metis option.inject)

end
