(* ===== verification/Fsd_Samples.thy ===== *)
theory Fsd_Samples
  imports Fsd_Sending_Laws Fsd_Dialogue Fsd_Any_Message
begin

text \<open>
  Concrete clients and surroundings, over the exact arithmetic \<open>dbl_rat\<close>, at which the
  properties of the root theory are instantiated.
\<close>

definition sampleServer :: FsdServer where
  "sampleServer =
     \<lparr>s_usesWebSocket = False, s_address = ''fsd.example'', s_cid = ''100'', s_password = ''secret'',
      s_realName = ''Jo'', s_realNameAndHomeBase = ''Jo EDDF'', s_receiveEuroscopeSimData = False,
      s_sendInterimPositions = True, s_receiveInterimPositions = True, s_sendVisualPositions = True,
      s_receiveAircraftParts = True, s_sendAircraftParts = True, s_force3LetterAirlineCodes = True\<rparr>"

definition sampleClient :: "string \<Rightarrow> rat FsdClient" where
  "sampleClient callsign =
     \<lparr>c_server = sampleServer, c_ownCallsign = mkCallsign callsign Aircraft, c_loginMode = Pilot,
      c_protocolRevision = 9, c_clientName = ''swift'', c_hostApplication = ''sim'', c_version = (1, 0),
      c_capabilities = 0x7FE, c_simType = MSFS, c_pilotRating = PilotRating.Student,
      c_atcRating = AtcRating.Observer, c_usesVatsimAtisMessages = True, c_sendModelString = True,
      c_sendLiveryString = True, c_ownModelString = [], c_ownLivery = [], c_unitTestMode = False,
      c_rawFsdMessagesEnabled = False, c_additionalOffsetTime = 0,
      c_interimPositionReceivers = [mkCallsign ''BAW12'' Aircraft], c_transportOpen = True,
      c_transportConnected = True, c_webSocketReadBuffer = [], c_connectionStatus = Connected,
      c_loginSince = 1000, c_rehosting = False, c_filterPasswordFromLogin = False, c_queue = [],
      c_positionTimer = True, c_interimTimer = True, c_visualTimer = True, c_configTimer = True,
      c_sendTimer = True, c_stoppedSendingVisualPositions = False, c_serverWantsVisualPositions = True,
      c_visualPositionUpdateSentCount = 0, c_textMessagesToConsolidate = [],
      c_pendingAtisQueries = Map.empty, c_mapAtisMessages = Map.empty, c_offsets = clearOffsetTimes,
      c_atcStations = [], c_sentAircraftConfig = [], c_tokenBucket = mkTokenBucket 0 10 5000 1,
      c_out = []\<rparr>"

definition sampleEnv :: "int \<Rightarrow> rat \<Rightarrow> rat ClientEnv" where
  "sampleEnv now speed =
     \<lparr>e_now = now, e_com1 = Some 122800, e_com2 = None, e_transponderMode = ModeC,
      e_transponderCode = 2000, e_aircraftDesignator = ''A320'', e_combinedType = ''L2J'',
      e_airlineDesignator = ''DLH'', e_airlineVDesignator = ''DLH'', e_modelString = ''model'',
      e_swiftLivery = ''livery'', e_latitude = 50, e_longitude = 8, e_altitude = 1000,
      e_altitudeFt = 1000, e_pressureAltitudeFt = 1000, e_groundElevation = 300,
      e_groundSpeedKts = 100, e_pitch = 0, e_bank = 0, e_heading = 90, e_onGround = False,
      e_velocity = (speed, 0, 0), e_rotation = (0, 0, 0), e_localAddress = ''127.0.0.1'',
      e_inRange = (\<lambda>_. True), e_readConfig = (\<lambda>_. BadJson), e_ownParts = [], e_ownPartsJson = [],
      e_incremental = (\<lambda>_ _. []), e_distance = (\<lambda>_. 0)\<rparr>"

lemma sample_callsigns [simp]:
  "cs_callsign (mkCallsign ''DLH1'' Aircraft) = ''DLH1''"
  "cs_callsign (mkCallsign ''BAW12'' Aircraft) = ''BAW12''"
  by (code_simp, code_simp)

lemma sample_plain [simp]: "plain ''DLH1''" "plain ''BAW12''"
  by (simp_all add: plain_def no_outer_space_def isSpace_def)

lemma sample_own [simp]:
  "ownCallsignString (sampleClient s) = cs_callsign (mkCallsign s Aircraft)"
  by (simp add: ownCallsignString_def sampleClient_def)

lemma sample_fields [simp]:
  "c_unitTestMode (sampleClient s) = False" "c_queue (sampleClient s) = []"
  "c_sendTimer (sampleClient s) = True" "c_connectionStatus (sampleClient s) = Connected"
  "c_capabilities (sampleClient s) = 0x7FE" "c_usesVatsimAtisMessages (sampleClient s) = True"
  "c_mapAtisMessages (sampleClient s) = Map.empty" "c_webSocketReadBuffer (sampleClient s) = []"
  "c_stoppedSendingVisualPositions (sampleClient s) = False"
  "c_serverWantsVisualPositions (sampleClient s) = True"
  "c_visualPositionUpdateSentCount (sampleClient s) = 0"
  "c_loginSince (sampleClient s) = 1000" "c_atcStations (sampleClient s) = []" "c_out (sampleClient s) = []"
  by (simp_all add: sampleClient_def)

lemma sample_inv [simp]: "client_inv (sampleClient s)"
  by (simp add: client_inv_def sampleClient_def clear_inv)

lemma sample_ready [simp]: "visual_ready (sampleClient s)"
  by (simp add: visual_ready_def sampleClient_def sampleServer_def)

lemma sample_env [simp]:
  "e_now (sampleEnv now v) = now" "e_com1 (sampleEnv now v) = Some 122800"
  "e_com2 (sampleEnv now v) = None" "e_velocity (sampleEnv now v) = (v, 0, 0)"
  "e_rotation (sampleEnv now v) = (0, 0, 0)"
  by (simp_all add: sampleEnv_def)

lemma sample_slow [simp]: "isSlow dbl_rat (0, 0, 0)" "\<not> isSlow dbl_rat (70, 0, 0)"
  by (simp_all add: isSlow_def minVelocity_def)

lemma sample_zero: "toDouble dbl_rat ''0'' = 0"
proof -
  have "digit_char 0 = CHR ''0''" by code_simp
  then have "dNumber dbl_rat 0 0 = ''0''" by (simp add: fixed_text_def nat_digits.simps)
  with toDouble_exact [OF dExact_rat_int [of 0 0]] show ?thesis by simp
qed

lemma sample_level: "pbhExact dbl_rat 0 0 0"
  using pitch_roundtrip_rat [of 0 0 0 False] bank_roundtrip_rat [of 0 0 0 False]
  by (simp add: pbhExact_def unpackPBH_def packPBH_def pbh_fields headingMultiplier_rat rat_trunc_def case_prod_beta)

lemma sample_exact: "dExact dbl_rat n 0"
  using dExact_rat_int [of n 0] by simp

end
