(* ===== verification/Replica_Protocol.thy ===== *)
theory Replica_Protocol
  imports Main
begin

text \<open>
  The protocol by which copies of a value are kept alike (\<open>src/misc/valuecache.cpp\<close>). A
  client holds a copy and counts its own changes that have not come back yet. A change is
  shown at once and submitted; the centre takes the submissions of all clients in one order
  and sends each to every client. A client takes its own changes as acknowledgments and
  ignores the changes of others while one of its own is under way. The same scheme is used
  between the pages of a process and its cache, and between the caches of several
  processes, so the interface of a client and the argument are stated once.
\<close>

locale replica =
  fixes content :: "'m \<Rightarrow> 'v"
    and accepts :: "'v \<Rightarrow> bool"
    and shown :: "'c \<Rightarrow> 'v"
    and pending :: "'c \<Rightarrow> int"
    and receive :: "bool \<Rightarrow> 'm \<Rightarrow> 'c \<Rightarrow> 'c"
  assumes own_shown: "shown (receive True m c) = shown c"
    and own_pending: "pending (receive True m c) = pending c - 1"
    and foreign_pending: "pending (receive False m c) = pending c"
    and foreign_busy: "pending c \<noteq> 0 \<Longrightarrow> shown (receive False m c) = shown c"
    and foreign_idle: "pending c = 0 \<Longrightarrow>
          shown (receive False m c) = (if accepts (content m) then content m else shown c)"
begin

definition settle :: "(bool \<times> 'm) list \<Rightarrow> 'c \<Rightarrow> 'c" where
  "settle incoming c = fold (\<lambda>(own, m). receive own m) incoming c"

definition owns :: "(bool \<times> 'm) list \<Rightarrow> int" where
  "owns incoming = int (length (filter fst incoming))"

text \<open>
  \<open>outgoing\<close> are the submissions not yet taken, \<open>incoming\<close> the messages of the centre not yet
  received, \<open>centre\<close> what the centre holds.
\<close>

definition synced :: "'m list \<Rightarrow> (bool \<times> 'm) list \<Rightarrow> 'v \<Rightarrow> 'c \<Rightarrow> bool" where
  "synced outgoing incoming centre c \<longleftrightarrow>
     pending c = int (length outgoing) + owns incoming
     \<and> (outgoing \<noteq> [] \<longrightarrow> shown c = content (last outgoing))
     \<and> (outgoing = [] \<longrightarrow> accepts centre \<longrightarrow> shown (settle incoming c) = centre)"

lemma owns_simps [simp]:
  "owns [] = 0" "owns (m # ms) = (if fst m then 1 else 0) + owns ms" "owns (xs @ ys) = owns xs + owns ys"
  by (simp_all add: owns_def)

lemma owns_nonneg: "0 \<le> owns ms"
  by (simp add: owns_def)

lemma settle_simps [simp]:
  "settle [] c = c" "settle ((own, m) # ms) c = settle ms (receive own m c)"
  "settle (ms @ [(own, m)]) c = receive own m (settle ms c)"
  by (simp_all add: settle_def)

lemma settle_pending: "pending (settle ms c) = pending c - owns ms"
  by (induction ms arbitrary: c) (auto simp: own_pending foreign_pending split_paired_all)

lemma settle_busy: "owns ms < pending c \<Longrightarrow> shown (settle ms c) = shown c"
proof (induction ms arbitrary: c)
  case (Cons m ms)
  obtain own p where m: "m = (own, p)" by fastforce
  have "pending c \<noteq> 0" using Cons.prems owns_nonneg [of ms] by (cases own) (auto simp: m)
  with Cons show ?case
    by (cases own) (simp_all add: m own_shown own_pending foreign_pending foreign_busy)
qed simp

lemma synced_start: "pending c = 0 \<Longrightarrow> (accepts v \<longrightarrow> shown c = v) \<Longrightarrow> synced [] [] v c"
  by (simp add: synced_def)

lemma synced_submit:
  assumes "synced out inc v c" and "shown c' = content m" and "pending c' = pending c + 1"
  shows "synced (out @ [m]) inc v c'"
  using assms by (simp add: synced_def)

lemma synced_taken:
  assumes "synced (m # out) inc v c"
  shows "synced out (inc @ [(True, m)]) (content m) c"
proof (cases out)
  case Nil
  have "owns inc < pending c" and "shown c = content m" using assms by (simp_all add: synced_def Nil)
  with assms show ?thesis by (simp add: synced_def Nil own_shown settle_busy)
qed (use assms in \<open>simp add: synced_def\<close>)

lemma synced_other:
  assumes "synced out inc v c"
  shows "synced out (inc @ [(False, m)]) (content m) c"
  using assms by (auto simp: synced_def settle_pending foreign_idle)

lemma synced_receive:
  assumes "synced out ((own, m) # inc) v c"
  shows "synced out inc v (receive own m c)"
proof (cases out)
  case (Cons o os)
  have "pending c \<noteq> 0" using assms owns_nonneg [of inc] by (cases own) (auto simp: synced_def Cons)
  with assms show ?thesis
    by (cases own) (simp_all add: synced_def Cons own_shown own_pending foreign_pending foreign_busy)
qed (use assms in \<open>cases own; simp add: synced_def own_pending foreign_pending\<close>)

lemma synced_pending: "synced out inc v c \<Longrightarrow> 0 \<le> pending c"
  using owns_nonneg [of inc] by (simp add: synced_def)

lemma synced_quiet: "synced [] [] v c \<Longrightarrow> pending c = 0 \<and> (accepts v \<longrightarrow> shown c = v)"
  by (simp add: synced_def)

text \<open>A client that shows the same and counts the same is as good.\<close>

lemma settle_same:
  assumes "shown c' = shown c" and "pending c' = pending c"
  shows "shown (settle ms c') = shown (settle ms c)"
  using assms
proof (induction ms arbitrary: c c')
  case (Cons m ms)
  obtain own p where m: "m = (own, p)" by fastforce
  have "shown (receive own p c') = shown (receive own p c)" and "pending (receive own p c') = pending (receive own p c)"
    using Cons.prems by (cases own; cases "pending c = 0";
      simp add: own_shown own_pending foreign_pending foreign_busy foreign_idle)+
  from Cons.IH [OF this] show ?case by (simp add: m)
qed simp

lemma synced_same:
  assumes "synced out inc v c" and "shown c' = shown c" and "pending c' = pending c"
  shows "synced out inc v c'"
  using assms settle_same [OF assms(2,3)] by (simp add: synced_def)

end

end
