(* ===== verification/Value_Cache.thy ===== *)
theory Value_Cache
  imports Qt_Base Replica_Protocol "HOL-Library.AList"
begin

text \<open>
  The cache of settings and data, \<open>CValueCache\<close>, and the pages through which the objects of a
  process use it, \<open>CValuePage\<close> (\<open>src/misc/valuecache.cpp\<close>). A value is \<^term>\<open>None\<close> when the
  variant of the source is not valid. A map that a packet carries is its list of entries in
  the order in which the loops visit them; the elements are maps from keys. A validator
  stands for the type check and the validator of an element. Signals are returned in the
  order of emission. Files, notification call-backs and log messages are not modelled.
\<close>

record 'v Element =
  e_value :: "'v option"
  e_pendingChanges :: int
  e_saved :: bool
  e_timestamp :: int

record 'v CValueCachePacket =
  p_values :: "(string \<times> 'v option \<times> int) list"
  p_saved :: bool
  p_valuesChanged :: bool

type_synonym 'v Elements = "string \<rightharpoonup> 'v Element"

definition newElement :: "'v Element" where
  "newElement = \<lparr>e_value = None, e_pendingChanges = 0, e_saved = False, e_timestamp = 0\<rparr>"

definition mkPacket :: "(string \<times> 'v option) list \<Rightarrow> int \<Rightarrow> bool \<Rightarrow> bool \<Rightarrow> 'v CValueCachePacket" where
  "mkPacket values timestamp saved changed =
     \<lparr>p_values = map (\<lambda>(k, v). (k, v, timestamp)) values, p_saved = saved, p_valuesChanged = changed\<rparr>"

subsection \<open>The cache\<close>

datatype 'v CacheSignal =
    ValuesChanged "'v CValueCachePacket" "nat option"
  | ValuesChangedByLocal "'v CValueCachePacket"
  | ValuesSaveRequested "'v CValueCachePacket"

definition getElement :: "string \<Rightarrow> 'v Elements \<Rightarrow> 'v Element" where
  "getElement key m_elements = (case m_elements key of Some e \<Rightarrow> e | None \<Rightarrow> newElement)"

definition getValue :: "string \<Rightarrow> 'v Elements \<Rightarrow> 'v option \<times> int \<times> bool" where
  "getValue key m_elements =
     (let e = getElement key m_elements in (e_value e, e_timestamp e, e_saved e))"

text \<open>One turn of the loop of \<open>changeValues\<close>.\<close>

definition changeElement ::
  "'v CValueCachePacket \<Rightarrow> string \<times> 'v option \<times> int \<Rightarrow> 'v Elements \<Rightarrow> 'v Elements" where
  "changeElement values = (\<lambda>(key, v, t) m_elements.
     let e = getElement key m_elements;
         e1 = (if p_valuesChanged values
               then e\<lparr>e_pendingChanges := e_pendingChanges e + 1, e_value := v, e_timestamp := t\<rparr>
               else e)
     in m_elements(key \<mapsto> e1\<lparr>e_saved := p_saved values\<rparr>))"

text \<open>
  One turn of the loop of \<open>changeValuesFromRemote\<close>, with the changes ratified and
  acknowledged so far. \<open>own\<close>: the originator is this process.
\<close>

definition remoteElement ::
  "bool \<Rightarrow> 'v CValueCachePacket \<Rightarrow> string \<times> 'v option \<times> int
   \<Rightarrow> 'v Elements \<times> (string \<times> 'v option \<times> int) list \<times> (string \<times> 'v option \<times> int) list
   \<Rightarrow> 'v Elements \<times> (string \<times> 'v option \<times> int) list \<times> (string \<times> 'v option \<times> int) list" where
  "remoteElement own values = (\<lambda>(key, v, t) (m_elements, ratified, acked).
     let e = getElement key m_elements in
     if own then
       (m_elements(key \<mapsto> e\<lparr>e_pendingChanges := e_pendingChanges e - 1\<rparr>), ratified, acked @ [(key, v, t)])
     else if e_pendingChanges e = 0 then
       (m_elements(key \<mapsto> e\<lparr>e_value := v, e_timestamp := t, e_saved := p_saved values\<rparr>),
        ratified @ [(key, v, t)], acked)
     else (m_elements(key \<mapsto> e), ratified, acked))"

definition changeValuesFromRemote ::
  "bool \<Rightarrow> 'v CValueCachePacket \<Rightarrow> 'v Elements \<Rightarrow> 'v Elements \<times> 'v CacheSignal list" where
  "changeValuesFromRemote own values m_elements =
     (if p_values values = [] then (m_elements, [])
      else if \<not> p_valuesChanged values then
        (m_elements, if p_saved values then [ValuesSaveRequested values] else [])
      else case fold (remoteElement own values) (p_values values) (m_elements, [], []) of
        (elements, ratified, acked) \<Rightarrow>
          let ratifiedChanges = \<lparr>p_values = ratified, p_saved = p_saved values, p_valuesChanged = True\<rparr>;
              ackedChanges = \<lparr>p_values = acked, p_saved = p_saved values, p_valuesChanged = True\<rparr>
          in (elements,
              (if ratified \<noteq> []
               then (if p_saved ratifiedChanges then [ValuesSaveRequested ratifiedChanges] else [])
                    @ [ValuesChanged ratifiedChanges None]
               else [])
              @ (if acked \<noteq> [] \<and> p_saved ackedChanges then [ValuesSaveRequested ackedChanges] else [])))"

text \<open>\<open>hub\<close>: \<open>valuesChangedByLocal\<close> is connected.\<close>

definition changeValues ::
  "bool \<Rightarrow> nat option \<Rightarrow> 'v CValueCachePacket \<Rightarrow> 'v Elements \<Rightarrow> 'v Elements \<times> 'v CacheSignal list" where
  "changeValues hub sender values m_elements =
     (if p_values values = [] then (m_elements, [])
      else
        let elements = fold (changeElement values) (p_values values) m_elements;
            sent = (if p_valuesChanged values then [ValuesChanged values sender] else [])
                   @ [ValuesChangedByLocal values]
        in if hub then (elements, sent)
           else case changeValuesFromRemote True values elements of
             (elements', signals) \<Rightarrow> (elements', sent @ signals))"

definition insertValues :: "bool \<Rightarrow> 'v CValueCachePacket \<Rightarrow> 'v Elements \<Rightarrow> 'v Elements \<times> 'v CacheSignal list" where
  "insertValues hub values m_elements = changeValues hub None values m_elements"

definition markAllAsSaved :: "string \<Rightarrow> 'v Elements \<Rightarrow> 'v Elements" where
  "markAllAsSaved keyPrefix m_elements =
     (\<lambda>key. if startsWith key keyPrefix then map_option (\<lambda>e. e\<lparr>e_saved := True\<rparr>) (m_elements key)
            else m_elements key)"

subsection \<open>The pages\<close>

record 'v CValuePage =
  pg_elements :: "'v Elements"
  pg_validator :: "string \<Rightarrow> 'v \<Rightarrow> bool"
  pg_batchMode :: int
  pg_batchedValues :: "(string \<times> 'v option) list"

definition validate :: "('v \<Rightarrow> bool) \<Rightarrow> 'v option \<Rightarrow> bool" where
  "validate validator value = (case value of None \<Rightarrow> False | Some v \<Rightarrow> validator v)"

definition createElement :: "string \<Rightarrow> 'v option \<Rightarrow> 'v Elements \<Rightarrow> 'v CValuePage \<Rightarrow> 'v CValuePage" where
  "createElement key defaultValue cache pg =
     (case getValue key cache of (v, t, s) \<Rightarrow>
        let v1 = (if validate (pg_validator pg key) v then v else defaultValue)
        in pg\<lparr>pg_elements := (pg_elements pg)(key \<mapsto>
             \<lparr>e_value = v1, e_pendingChanges = 0, e_saved = s, e_timestamp = t\<rparr>)\<rparr>)"

text \<open>The result has the packets emitted and whether the status is a success.\<close>

definition setValue ::
  "int \<Rightarrow> string \<Rightarrow> 'v option \<Rightarrow> int \<Rightarrow> bool \<Rightarrow> 'v CValuePage
   \<Rightarrow> 'v CValuePage \<times> 'v CValueCachePacket list \<times> bool" where
  "setValue now key v t save pg =
     (case pg_elements pg key of
        None \<Rightarrow> (pg, [], False)
      | Some e \<Rightarrow>
          let timestamp = (if t = 0 then now else t);
              value = (if v = None then e_value e else v);
              changed = (e_timestamp e \<noteq> timestamp \<or> e_value e \<noteq> value)
          in if \<not> changed \<and> \<not> save then (pg, [], True)
             else if \<not> validate (pg_validator pg key) value then (pg, [], False)
             else if \<not> changed then
               (pg\<lparr>pg_elements := (pg_elements pg)(key \<mapsto> e\<lparr>e_saved := save\<rparr>)\<rparr>,
                [mkPacket [(key, value)] 0 save False], True)
             else if 0 < pg_batchMode pg then
               (pg\<lparr>pg_batchedValues := AList.update key value (pg_batchedValues pg)\<rparr>, [], True)
             else
               (pg\<lparr>pg_elements := (pg_elements pg)(key \<mapsto>
                  e\<lparr>e_pendingChanges := e_pendingChanges e + 1, e_saved := save,
                    e_timestamp := timestamp, e_value := value\<rparr>)\<rparr>,
                [mkPacket [(key, value)] timestamp save True], True))"

definition isSaved :: "'v Element \<Rightarrow> bool" where
  "isSaved e \<longleftrightarrow> e_saved e \<and> e_pendingChanges e = 0"

definition isSaving :: "'v Element \<Rightarrow> bool" where
  "isSaving e \<longleftrightarrow> e_saved e \<and> e_pendingChanges e \<noteq> 0"

text \<open>One turn of the loop of \<open>setValuesFromCache\<close>. \<open>own\<close>: the change is one of this page.\<close>

definition elementFromCache ::
  "bool \<Rightarrow> 'v CValueCachePacket \<Rightarrow> ('v \<Rightarrow> bool) \<Rightarrow> 'v option \<times> int \<Rightarrow> 'v Element \<Rightarrow> 'v Element" where
  "elementFromCache own values validator = (\<lambda>(v, t) e.
     if own then e\<lparr>e_pendingChanges := e_pendingChanges e - 1\<rparr>
     else if e_pendingChanges e = 0 then
       if validate validator v then e\<lparr>e_value := v, e_timestamp := t, e_saved := p_saved values\<rparr>
       else e
     else e)"

definition pageElementFromCache ::
  "bool \<Rightarrow> 'v CValueCachePacket \<Rightarrow> string \<times> 'v option \<times> int \<Rightarrow> 'v CValuePage \<Rightarrow> 'v CValuePage" where
  "pageElementFromCache own values = (\<lambda>(key, vt) pg.
     case pg_elements pg key of
       None \<Rightarrow> pg
     | Some e \<Rightarrow> pg\<lparr>pg_elements := (pg_elements pg)(key \<mapsto>
         elementFromCache own values (pg_validator pg key) vt e)\<rparr>)"

definition setValuesFromCache :: "bool \<Rightarrow> 'v CValueCachePacket \<Rightarrow> 'v CValuePage \<Rightarrow> 'v CValuePage" where
  "setValuesFromCache own values pg = fold (pageElementFromCache own values) (p_values values) pg"

definition beginBatch :: "'v CValuePage \<Rightarrow> 'v CValuePage" where
  "beginBatch pg =
     (let pg1 = (if pg_batchMode pg \<le> 0 then pg\<lparr>pg_batchedValues := []\<rparr> else pg)
      in pg1\<lparr>pg_batchMode := pg_batchMode pg1 + 1\<rparr>)"

definition abandonBatch :: "'v CValuePage \<Rightarrow> 'v CValuePage" where
  "abandonBatch pg = pg\<lparr>pg_batchMode := pg_batchMode pg - 1\<rparr>"

text \<open>One turn of the loop of \<open>endBatch\<close>.\<close>

definition applyBatched :: "int \<Rightarrow> string \<times> 'v option \<Rightarrow> 'v CValuePage \<Rightarrow> 'v CValuePage" where
  "applyBatched timestamp = (\<lambda>(key, v) pg.
     case pg_elements pg key of
       None \<Rightarrow> pg
     | Some e \<Rightarrow> pg\<lparr>pg_elements := (pg_elements pg)(key \<mapsto>
         e\<lparr>e_pendingChanges := e_pendingChanges e + 1, e_value := v,
           e_timestamp := timestamp, e_saved := False\<rparr>)\<rparr>)"

definition endBatch :: "int \<Rightarrow> 'v CValuePage \<Rightarrow> 'v CValuePage \<times> 'v CValueCachePacket list" where
  "endBatch now pg =
     (let pg1 = pg\<lparr>pg_batchMode := pg_batchMode pg - 1\<rparr> in
      if pg_batchMode pg1 \<le> 0 \<and> pg_batchedValues pg1 \<noteq> []
      then (fold (applyBatched now) (pg_batchedValues pg1) pg1,
            [mkPacket (pg_batchedValues pg1) now False True])
      else (pg1, []))"

subsection \<open>Elements as clients of the protocol\<close>

text \<open>
  The common behaviour of the elements of a cache and of a page: a message has a value, its
  time stamp and whether it is saved.
\<close>

definition elementContent :: "'v Element \<Rightarrow> 'v option \<times> int" where
  "elementContent e = (e_value e, e_timestamp e)"

definition elementReceive ::
  "('v option \<Rightarrow> bool) \<Rightarrow> bool \<Rightarrow> ('v option \<times> int) \<times> bool \<Rightarrow> 'v Element \<Rightarrow> 'v Element" where
  "elementReceive accepts own = (\<lambda>((v, t), s) e.
     if own then e\<lparr>e_pendingChanges := e_pendingChanges e - 1\<rparr>
     else if e_pendingChanges e = 0 \<and> accepts v
     then e\<lparr>e_value := v, e_timestamp := t, e_saved := s\<rparr>
     else e)"

interpretation element: replica fst "accepts \<circ> fst" elementContent e_pendingChanges "elementReceive accepts"
  for accepts :: "'v option \<Rightarrow> bool"
  by unfold_locales (auto simp: elementContent_def elementReceive_def split_paired_all split: if_splits)

text \<open>What a packet says about a key.\<close>

definition packetView :: "string \<Rightarrow> 'v CValueCachePacket \<Rightarrow> (('v option \<times> int) \<times> bool) option" where
  "packetView key p =
     (if p_valuesChanged p then map_option (\<lambda>vt. (vt, p_saved p)) (map_of (p_values p) key) else None)"

definition packet_ok :: "'v CValueCachePacket \<Rightarrow> bool" where
  "packet_ok p \<longleftrightarrow> distinct (map fst (p_values p))"

lemma packet_ok_mkPacket [simp]: "packet_ok (mkPacket vs t s c) \<longleftrightarrow> distinct (map fst vs)"
  by (simp add: packet_ok_def mkPacket_def comp_def case_prod_beta)

lemma packetView_mkPacket:
  "packetView k (mkPacket vs t s c) = (if c then map_option (\<lambda>v. ((v, t), s)) (map_of vs k) else None)"
  by (induction vs) (auto simp: packetView_def mkPacket_def)

lemma getElement_upd [simp]: "getElement k (els(k' \<mapsto> e)) = (if k = k' then e else getElement k els)"
  by (simp add: getElement_def)

text \<open>A loop over the entries of a packet acts on each key by itself.\<close>

lemma fold_entries:
  assumes "distinct (map fst vs)" and "\<And>k vt els. step (k, vt) els = els(k \<mapsto> f vt (getElement k els))"
  shows "getElement k (fold step vs els) =
    (case map_of vs k of None \<Rightarrow> getElement k els | Some vt \<Rightarrow> f vt (getElement k els))"
  using assms(1)
proof (induction vs arbitrary: els)
  case (Cons e vs)
  obtain k' vt where e: "e = (k', vt)" by fastforce
  have "k' \<notin> set (map fst vs)" using Cons.prems by (simp add: e)
  then have "map_of vs k' = None" by (metis map_of_eq_None_iff list.set_map)
  with Cons show ?case by (auto simp: e assms(2) split: option.split)
qed simp

lemma changeElement_step:
  "changeElement p (k, vt) els = els(k \<mapsto>
     ((if p_valuesChanged p
       then (getElement k els)\<lparr>e_pendingChanges := e_pendingChanges (getElement k els) + 1,
              e_value := fst vt, e_timestamp := snd vt\<rparr>
       else getElement k els)\<lparr>e_saved := p_saved p\<rparr>))"
  by (cases vt) (simp add: changeElement_def Let_def)

definition receiveEntry ::
  "bool \<Rightarrow> bool \<Rightarrow> string \<times> 'v option \<times> int \<Rightarrow> 'v Elements \<Rightarrow> 'v Elements" where
  "receiveEntry own s = (\<lambda>(k, vt) els. els(k \<mapsto> elementReceive (\<lambda>_. True) own (vt, s) (getElement k els)))"

lemma remoteElement_step:
  "remoteElement own p (k, vt) (els, r, a) =
    (receiveEntry own (p_saved p) (k, vt) els,
     r @ (if \<not> own \<and> e_pendingChanges (getElement k els) = 0 then [(k, vt)] else []),
     a @ (if own then [(k, vt)] else []))"
  by (cases vt) (simp add: remoteElement_def receiveEntry_def elementReceive_def Let_def)

lemma fold_remote:
  assumes "distinct (map fst vs)"
  shows "fold (remoteElement own p) vs (els, r, a) =
    (fold (receiveEntry own (p_saved p)) vs els,
     r @ (if own then [] else filter (\<lambda>(k, _). e_pendingChanges (getElement k els) = 0) vs),
     a @ (if own then vs else []))"
  using assms
proof (induction vs arbitrary: els r a)
  case (Cons e vs)
  obtain k vt where e: "e = (k, vt)" by (cases e) auto
  have k: "\<forall>x \<in> set vs. fst x \<noteq> k" using Cons.prems by (auto simp: e)
  have "filter (\<lambda>(k', _). e_pendingChanges (getElement k' (receiveEntry own (p_saved p) (k, vt) els)) = 0) vs
      = filter (\<lambda>(k', _). e_pendingChanges (getElement k' els) = 0) vs"
    using k by (intro filter_cong) (auto simp: receiveEntry_def)
  then show ?case using Cons.IH Cons.prems by (cases own) (simp_all add: e remoteElement_step)
qed simp

lemma getElement_receive:
  assumes "distinct (map fst vs)"
  shows "getElement k (fold (receiveEntry own s) vs els) =
    (case map_of vs k of None \<Rightarrow> getElement k els
     | Some vt \<Rightarrow> elementReceive (\<lambda>_. True) own (vt, s) (getElement k els))"
  using assms by (rule fold_entries) (simp add: receiveEntry_def fun_upd_def)

lemma getElement_change:
  assumes "distinct (map fst vs)"
  shows "getElement k (fold (changeElement p) vs els) =
    (case map_of vs k of None \<Rightarrow> getElement k els
     | Some vt \<Rightarrow>
       (if p_valuesChanged p
        then (getElement k els)\<lparr>e_pendingChanges := e_pendingChanges (getElement k els) + 1,
               e_value := fst vt, e_timestamp := snd vt\<rparr>
        else getElement k els)\<lparr>e_saved := p_saved p\<rparr>)"
  using assms by (rule fold_entries) (rule changeElement_step)

end
