(* ===== verification/Value_Cache_Runs.thy ===== *)
theory Value_Cache_Runs
  imports Value_Cache
begin

text \<open>
  Caches, pages and processes as one system. A page and its cache live in different threads,
  the signals between them (\<open>connectPage\<close>) wait in a queue each way; the caches of several
  processes exchange their changes through \<open>IContextApplication::changeSettings\<close> of the core
  process (\<open>src/core/context/contextapplicationimpl.cpp\<close>), which sends each change to every
  process in the order of its arrival. The lemmas show that every page and every cache is a
  synced client of the protocol of \<open>Replica_Protocol\<close> in every reachable state.
\<close>

record 'v PageLink =
  l_page :: "'v CValuePage"
  l_toCache :: "'v CValueCachePacket list"
  l_fromCache :: "(bool \<times> 'v CValueCachePacket) list"

record 'v Process =
  pr_elements :: "'v Elements"
  pr_hub :: bool
  pr_links :: "'v PageLink list"
  pr_toHub :: "'v CValueCachePacket list"
  pr_fromHub :: "(bool \<times> 'v CValueCachePacket) list"
  pr_saveRequests :: "'v CValueCachePacket list"

subsection \<open>Steps\<close>

definition updateAt :: "nat \<Rightarrow> ('a \<Rightarrow> 'a) \<Rightarrow> 'a list \<Rightarrow> 'a list" where
  "updateAt i f xs = (if i < length xs then xs[i := f (xs ! i)] else xs)"

definition changesFor :: "nat \<Rightarrow> 'v CacheSignal list \<Rightarrow> (bool \<times> 'v CValueCachePacket) list" where
  "changesFor n = List.map_filter
     (\<lambda>sig. case sig of ValuesChanged p sender \<Rightarrow> Some (sender = Some n, p) | _ \<Rightarrow> None)"

definition localChanges :: "'v CacheSignal list \<Rightarrow> 'v CValueCachePacket list" where
  "localChanges = List.map_filter (\<lambda>sig. case sig of ValuesChangedByLocal p \<Rightarrow> Some p | _ \<Rightarrow> None)"

definition saveRequests :: "'v CacheSignal list \<Rightarrow> 'v CValueCachePacket list" where
  "saveRequests = List.map_filter (\<lambda>sig. case sig of ValuesSaveRequested p \<Rightarrow> Some p | _ \<Rightarrow> None)"

text \<open>The cache takes new elements and its signals reach the queues.\<close>

definition cacheStep :: "'v Elements \<times> 'v CacheSignal list \<Rightarrow> 'v Process \<Rightarrow> 'v Process" where
  "cacheStep r pr =
     pr\<lparr>pr_elements := fst r,
        pr_links := map (\<lambda>(n, l). l\<lparr>l_fromCache := l_fromCache l @ changesFor n (snd r)\<rparr>)
          (enumerate 0 (pr_links pr)),
        pr_toHub := pr_toHub pr @ (if pr_hub pr then localChanges (snd r) else []),
        pr_saveRequests := pr_saveRequests pr @ saveRequests (snd r)\<rparr>"

definition onPage ::
  "('v CValuePage \<Rightarrow> 'v CValuePage \<times> 'v CValueCachePacket list) \<Rightarrow> 'v PageLink \<Rightarrow> 'v PageLink" where
  "onPage f l = (case f (l_page l) of (pg, packets) \<Rightarrow>
     l\<lparr>l_page := pg, l_toCache := l_toCache l @ packets\<rparr>)"

definition onLink :: "nat \<Rightarrow> ('v PageLink \<Rightarrow> 'v PageLink) \<Rightarrow> 'v Process \<Rightarrow> 'v Process" where
  "onLink n f pr = pr\<lparr>pr_links := updateAt n f (pr_links pr)\<rparr>"

definition pageToCache :: "nat \<Rightarrow> 'v Process \<Rightarrow> 'v Process" where
  "pageToCache n pr =
     (if n < length (pr_links pr) then
        case l_toCache (pr_links pr ! n) of
          [] \<Rightarrow> pr
        | p # ps \<Rightarrow> cacheStep (changeValues (pr_hub pr) (Some n) p (pr_elements pr))
                      (onLink n (\<lambda>l. l\<lparr>l_toCache := ps\<rparr>) pr)
      else pr)"

definition cacheToPage :: "'v PageLink \<Rightarrow> 'v PageLink" where
  "cacheToPage l = (case l_fromCache l of
       [] \<Rightarrow> l
     | (own, p) # ms \<Rightarrow> l\<lparr>l_page := setValuesFromCache own p (l_page l), l_fromCache := ms\<rparr>)"

definition hubToCache :: "'v Process \<Rightarrow> 'v Process" where
  "hubToCache pr = (case pr_fromHub pr of
       [] \<Rightarrow> pr
     | (own, p) # ms \<Rightarrow>
         cacheStep (changeValuesFromRemote own p (pr_elements pr)) (pr\<lparr>pr_fromHub := ms\<rparr>))"

text \<open>\<open>changeSettings\<close> of the core process: the change of process \<open>i\<close> is sent to all.\<close>

definition changeSettings :: "nat \<Rightarrow> 'v Process list \<Rightarrow> 'v Process list" where
  "changeSettings i prs =
     (if i < length prs then
        case pr_toHub (prs ! i) of
          [] \<Rightarrow> prs
        | p # ps \<Rightarrow>
            map (\<lambda>(j, pr). if pr_hub pr then pr\<lparr>pr_fromHub := pr_fromHub pr @ [(j = i, p)]\<rparr> else pr)
              (enumerate 0 (updateAt i (\<lambda>pr. pr\<lparr>pr_toHub := ps\<rparr>) prs))
      else prs)"

datatype 'v CacheEvent =
    SetValue nat nat int string "'v option" int bool
  | BeginBatch nat nat
  | AbandonBatch nat nat
  | EndBatch nat nat int
  | InsertValues nat "'v CValueCachePacket"
  | MarkAllAsSaved nat string
  | PageToCache nat nat
  | CacheToPage nat nat
  | CacheToHub nat
  | HubToCache nat

fun caches_step :: "'v CacheEvent \<Rightarrow> 'v Process list \<Rightarrow> 'v Process list" where
  "caches_step (SetValue i n now key v t save) prs =
     updateAt i (onLink n (onPage (\<lambda>pg. case setValue now key v t save pg of (pg', ps, _) \<Rightarrow> (pg', ps)))) prs"
| "caches_step (BeginBatch i n) prs = updateAt i (onLink n (onPage (\<lambda>pg. (beginBatch pg, [])))) prs"
| "caches_step (AbandonBatch i n) prs = updateAt i (onLink n (onPage (\<lambda>pg. (abandonBatch pg, [])))) prs"
| "caches_step (EndBatch i n now) prs = updateAt i (onLink n (onPage (endBatch now))) prs"
| "caches_step (InsertValues i p) prs =
     updateAt i (\<lambda>pr. cacheStep (insertValues (pr_hub pr) p (pr_elements pr)) pr) prs"
| "caches_step (MarkAllAsSaved i keyPrefix) prs =
     updateAt i (\<lambda>pr. pr\<lparr>pr_elements := markAllAsSaved keyPrefix (pr_elements pr)\<rparr>) prs"
| "caches_step (PageToCache i n) prs = updateAt i (pageToCache n) prs"
| "caches_step (CacheToPage i n) prs = updateAt i (onLink n cacheToPage) prs"
| "caches_step (CacheToHub i) prs = changeSettings i prs"
| "caches_step (HubToCache i) prs = updateAt i hubToCache prs"

definition caches_run :: "'v CacheEvent list \<Rightarrow> 'v Process list \<Rightarrow> 'v Process list" where
  "caches_run events prs = fold caches_step events prs"

subsection \<open>The messages about one key\<close>

definition views :: "string \<Rightarrow> 'v CValueCachePacket list \<Rightarrow> (('v option \<times> int) \<times> bool) list" where
  "views k = List.map_filter (packetView k)"

definition incomingViews ::
  "string \<Rightarrow> (bool \<times> 'v CValueCachePacket) list \<Rightarrow> (bool \<times> ('v option \<times> int) \<times> bool) list" where
  "incomingViews k = List.map_filter (\<lambda>(own, p). map_option (Pair own) (packetView k p))"

definition announced ::
  "string \<Rightarrow> 'v CacheSignal list \<Rightarrow> (nat option \<times> ('v option \<times> int) \<times> bool) list" where
  "announced k = List.map_filter
     (\<lambda>sig. case sig of ValuesChanged p s \<Rightarrow> map_option (Pair s) (packetView k p) | _ \<Rightarrow> None)"

lemma map_filter_append [simp]:
  "List.map_filter f (xs @ ys) = List.map_filter f xs @ List.map_filter f ys"
  by (simp add: List.map_filter_def)

lemma views_simps [simp]:
  "views k [] = []" "views k (xs @ ys) = views k xs @ views k ys"
  "views k (p # ps) = (case packetView k p of None \<Rightarrow> views k ps | Some m \<Rightarrow> m # views k ps)"
  by (simp_all add: views_def split: option.split)

lemma incomingViews_simps [simp]:
  "incomingViews k [] = []" "incomingViews k (xs @ ys) = incomingViews k xs @ incomingViews k ys"
  "incomingViews k ((own, p) # ps) =
     (case packetView k p of None \<Rightarrow> incomingViews k ps | Some m \<Rightarrow> (own, m) # incomingViews k ps)"
  by (simp_all add: incomingViews_def split: option.split)

lemma announced_simps [simp]:
  "announced k [] = []" "announced k (xs @ ys) = announced k xs @ announced k ys"
  "announced k (ValuesChanged p s # sigs) =
     (case packetView k p of None \<Rightarrow> announced k sigs | Some m \<Rightarrow> (s, m) # announced k sigs)"
  "announced k (ValuesChangedByLocal p # sigs) = announced k sigs"
  "announced k (ValuesSaveRequested p # sigs) = announced k sigs"
  by (simp_all add: announced_def split: option.split)

lemma signals_simps [simp]:
  "changesFor n [] = []" "localChanges [] = []"
  "changesFor n (sig # sigs) = (case sig of ValuesChanged p s \<Rightarrow> (s = Some n, p) # changesFor n sigs | _ \<Rightarrow> changesFor n sigs)"
  "localChanges (sig # sigs) = (case sig of ValuesChangedByLocal p \<Rightarrow> p # localChanges sigs | _ \<Rightarrow> localChanges sigs)"
  "changesFor n (sigs @ sigs') = changesFor n sigs @ changesFor n sigs'"
  "localChanges (sigs @ sigs') = localChanges sigs @ localChanges sigs'"
  by (simp_all add: changesFor_def localChanges_def split: CacheSignal.split)

lemma incomingViews_changes:
  "incomingViews k (changesFor n sigs) = map (\<lambda>(s, m). (s = Some n, m)) (announced k sigs)"
  by (induction sigs) (auto split: CacheSignal.split option.split)

subsection \<open>What the operations say about one key\<close>

text \<open>An element submits at most one message, the one it shows from then on.\<close>

definition submits ::
  "(('v option \<times> int) \<times> bool) list \<Rightarrow> 'v Element \<Rightarrow> 'v Element \<Rightarrow> bool" where
  "submits ms e e' \<longleftrightarrow>
     ms = [] \<and> elementContent e' = elementContent e \<and> e_pendingChanges e' = e_pendingChanges e
     \<or> (\<exists>m. ms = [m] \<and> elementContent e' = fst m \<and> e_pendingChanges e' = e_pendingChanges e + 1)"

lemma synced_submits:
  assumes "element.synced accepts out inc v e" and "submits ms e e'"
  shows "element.synced accepts (out @ ms) inc v e'"
  using assms element.synced_submit [of accepts out inc v e] element.synced_same [of accepts out inc v e]
  by (auto simp: submits_def)

definition page_submits :: "'v CValuePage \<Rightarrow> 'v CValueCachePacket list \<Rightarrow> 'v CValuePage \<Rightarrow> bool" where
  "page_submits pg ps pg' \<longleftrightarrow>
     pg_validator pg' = pg_validator pg
     \<and> (\<forall>p \<in> set ps. packet_ok p)
     \<and> (distinct (map fst (pg_batchedValues pg)) \<longrightarrow> distinct (map fst (pg_batchedValues pg')))
     \<and> (\<forall>k. case pg_elements pg k of
          None \<Rightarrow> pg_elements pg' k = None
        | Some e \<Rightarrow> \<exists>e'. pg_elements pg' k = Some e' \<and> submits (views k ps) e e')"

lemma page_submits_same:
  assumes "pg_elements pg' = pg_elements pg" and "pg_validator pg' = pg_validator pg"
    and "distinct (map fst (pg_batchedValues pg)) \<longrightarrow> distinct (map fst (pg_batchedValues pg'))"
  shows "page_submits pg [] pg'"
  using assms by (auto simp: page_submits_def submits_def split: option.split)

lemma setValue_submits:
  "setValue now key v t save pg = (pg', ps, ok) \<Longrightarrow> page_submits pg ps pg'"
  by (auto simp: setValue_def Let_def distinct_update split: option.splits if_splits
      intro!: page_submits_same)
     (auto simp: page_submits_def submits_def packetView_mkPacket elementContent_def split: option.split)

lemma batch_submits: "page_submits pg [] (beginBatch pg)" "page_submits pg [] (abandonBatch pg)"
  by (rule page_submits_same; simp add: beginBatch_def abandonBatch_def Let_def)+

text \<open>A loop over entries on the elements of a page, by key.\<close>

lemma fold_page:
  assumes "distinct (map fst vs)"
    and "\<And>k x pg. step (k, x) pg = (case pg_elements pg k of None \<Rightarrow> pg
        | Some e \<Rightarrow> pg\<lparr>pg_elements := (pg_elements pg)(k \<mapsto> f (pg_validator pg k) x e)\<rparr>)"
  shows "pg_validator (fold step vs pg) = pg_validator pg
    \<and> pg_batchedValues (fold step vs pg) = pg_batchedValues pg
    \<and> pg_elements (fold step vs pg) k = map_option
        (\<lambda>e. case map_of vs k of None \<Rightarrow> e | Some x \<Rightarrow> f (pg_validator pg k) x e) (pg_elements pg k)"
  using assms(1)
proof (induction vs arbitrary: pg)
  case (Cons a vs)
  obtain key x where a: "a = (key, x)" by fastforce
  have "map_of vs key = None" using Cons.prems by (simp add: a map_of_eq_None_iff)
  with Cons show ?case by (cases "map_of vs k") (auto simp: a assms(2) split: option.split)
qed (simp add: option.map_ident)

lemma endBatch_submits:
  assumes "distinct (map fst (pg_batchedValues pg))"
  shows "page_submits pg (snd (endBatch now pg)) (fst (endBatch now pg))"
proof -
  let ?pg1 = "pg\<lparr>pg_batchMode := pg_batchMode pg - 1\<rparr>"
  let ?f = "\<lambda>_ v e. e\<lparr>e_pendingChanges := e_pendingChanges e + 1, e_value := v,
                e_timestamp := now, e_saved := False\<rparr>"
  have "pg_validator (fold (applyBatched now) (pg_batchedValues ?pg1) ?pg1) = pg_validator ?pg1
    \<and> pg_batchedValues (fold (applyBatched now) (pg_batchedValues ?pg1) ?pg1) = pg_batchedValues ?pg1
    \<and> pg_elements (fold (applyBatched now) (pg_batchedValues ?pg1) ?pg1) k = map_option
        (\<lambda>e. case map_of (pg_batchedValues ?pg1) k of None \<Rightarrow> e | Some v \<Rightarrow> ?f (pg_validator ?pg1 k) v e)
        (pg_elements ?pg1 k)" for k
    using assms by (intro fold_page) (simp_all add: applyBatched_def)
  then show ?thesis
    using assms
    by (auto simp: endBatch_def Let_def page_submits_def submits_def packetView_mkPacket elementContent_def
        split: option.split)
qed

definition sent_ok :: "'v CValueCachePacket \<Rightarrow> bool" where
  "sent_ok p \<longleftrightarrow> packet_ok p \<and> p_valuesChanged p"

lemma map_of_filter_idle:
  assumes "distinct (map fst vs)"
  shows "map_of (filter (\<lambda>(k, _). idle k) vs) k = (if idle k then map_of vs k else None)"
  using assms by (induction vs) (auto simp: map_of_eq_None_iff split: option.split)

lemma remote_element:
  assumes "packet_ok p"
  shows "getElement k (fst (changeValuesFromRemote own p els)) =
    (case packetView k p of None \<Rightarrow> getElement k els
     | Some m \<Rightarrow> elementReceive (\<lambda>_. True) own m (getElement k els))"
  using assms
  by (cases "map_of (p_values p) k")
     (auto simp: changeValuesFromRemote_def packet_ok_def packetView_def fold_remote getElement_receive Let_def)

lemma remote_announced:
  assumes "packet_ok p"
  shows "announced k (snd (changeValuesFromRemote own p els)) =
    (case packetView k p of None \<Rightarrow> []
     | Some m \<Rightarrow> if own \<or> e_pendingChanges (getElement k els) \<noteq> 0 then [] else [(None, m)])"
proof -
  let ?ratified = "if own then [] else filter (\<lambda>(k, _). e_pendingChanges (getElement k els) = 0) (p_values p)"
  have "map_of ?ratified k = (if own \<or> e_pendingChanges (getElement k els) \<noteq> 0 then None else map_of (p_values p) k)"
    using assms by (simp add: packet_ok_def map_of_filter_idle)
  then show ?thesis
    using assms
    by (cases "map_of (p_values p) k")
       (auto simp: changeValuesFromRemote_def packet_ok_def packetView_def fold_remote Let_def)
qed

lemma remote_signals:
  assumes "packet_ok p"
  shows "localChanges (snd (changeValuesFromRemote own p els)) = []"
    and "\<forall>(b, q) \<in> set (changesFor n (snd (changeValuesFromRemote own p els))). sent_ok q"
  using assms
  by (auto simp: changeValuesFromRemote_def packet_ok_def fold_remote Let_def sent_ok_def distinct_map_filter)

lemma changeValues_shape:
  assumes "packet_ok p"
  shows "getElement k (fst (changeValues hub s p els)) =
    (case map_of (p_values p) k of None \<Rightarrow> getElement k els
     | Some vt \<Rightarrow>
       (if p_valuesChanged p
        then (getElement k els)\<lparr>e_pendingChanges := e_pendingChanges (getElement k els) + (if hub then 1 else 0),
               e_value := fst vt, e_timestamp := snd vt\<rparr>
        else getElement k els)\<lparr>e_saved := p_saved p\<rparr>)"
  using assms
  by (cases "map_of (p_values p) k")
     (auto simp: changeValues_def Let_def case_prod_beta remote_element getElement_change packet_ok_def
        packetView_def elementReceive_def)

lemma changeValues_local:
  "views k (localChanges (snd (changeValues True s p els))) =
     (case packetView k p of None \<Rightarrow> [] | Some m \<Rightarrow> [m])"
  by (auto simp: changeValues_def Let_def packetView_def split: option.split)

lemma changeValues_submits:
  assumes "packet_ok p"
  shows "submits (views k (localChanges (snd (changeValues True s p els))))
     (getElement k els) (getElement k (fst (changeValues True s p els)))"
  unfolding changeValues_local changeValues_shape [OF assms]
  by (cases "map_of (p_values p) k") (auto simp: submits_def elementContent_def packetView_def)

lemma changeValues_announced:
  assumes "packet_ok p"
  shows "announced k (snd (changeValues hub s p els)) = (case packetView k p of None \<Rightarrow> [] | Some m \<Rightarrow> [(s, m)])"
  using assms
  by (auto simp: changeValues_def Let_def case_prod_beta remote_announced packetView_def
      split: option.split)

lemma changeValues_content:
  assumes "packet_ok p"
  shows "elementContent (getElement k (fst (changeValues hub s p els))) =
    (case packetView k p of None \<Rightarrow> elementContent (getElement k els) | Some m \<Rightarrow> fst m)"
  using assms
  by (cases "map_of (p_values p) k")
     (auto simp: changeValues_shape elementContent_def packetView_def)

lemma changeValues_signals:
  assumes "packet_ok p"
  shows "\<forall>q \<in> set (localChanges (snd (changeValues hub s p els))). packet_ok q"
    and "\<forall>(b, q) \<in> set (changesFor n (snd (changeValues hub s p els))). sent_ok q"
  using assms remote_signals [OF assms, where own = True]
  by (auto simp: changeValues_def Let_def case_prod_beta sent_ok_def)

lemma fromCache_page:
  assumes "sent_ok p"
  shows "pg_validator (setValuesFromCache own p pg) = pg_validator pg"
    and "pg_batchedValues (setValuesFromCache own p pg) = pg_batchedValues pg"
    and "pg_elements (setValuesFromCache own p pg) k = map_option
        (\<lambda>e. case packetView k p of None \<Rightarrow> e
              | Some m \<Rightarrow> elementReceive (validate (pg_validator pg k)) own m e) (pg_elements pg k)"
proof -
  let ?f = "\<lambda>valid vt e. elementReceive (validate valid) own (vt, p_saved p) e"
  have "pg_validator (fold (pageElementFromCache own p) (p_values p) pg) = pg_validator pg
    \<and> pg_batchedValues (fold (pageElementFromCache own p) (p_values p) pg) = pg_batchedValues pg
    \<and> pg_elements (fold (pageElementFromCache own p) (p_values p) pg) k = map_option
        (\<lambda>e. case map_of (p_values p) k of None \<Rightarrow> e | Some x \<Rightarrow> ?f (pg_validator pg k) x e) (pg_elements pg k)" for k
    using assms
    by (intro fold_page)
       (auto simp: sent_ok_def packet_ok_def pageElementFromCache_def elementFromCache_def elementReceive_def
          split: option.split)
  then show "pg_validator (setValuesFromCache own p pg) = pg_validator pg"
    and "pg_batchedValues (setValuesFromCache own p pg) = pg_batchedValues pg"
    and "pg_elements (setValuesFromCache own p pg) k = map_option
        (\<lambda>e. case packetView k p of None \<Rightarrow> e
              | Some m \<Rightarrow> elementReceive (validate (pg_validator pg k)) own m e) (pg_elements pg k)"
    using assms by (cases "map_of (p_values p) k"; simp add: setValuesFromCache_def packetView_def sent_ok_def)+
qed

subsection \<open>The invariant of the system\<close>

definition link_synced :: "'v Elements \<Rightarrow> 'v PageLink \<Rightarrow> string \<Rightarrow> bool" where
  "link_synced els l k \<longleftrightarrow>
     (\<forall>e. pg_elements (l_page l) k = Some e \<longrightarrow>
        element.synced (validate (pg_validator (l_page l) k)) (views k (l_toCache l))
          (incomingViews k (l_fromCache l)) (elementContent (getElement k els)) e)"

definition link_ok :: "'v PageLink \<Rightarrow> bool" where
  "link_ok l \<longleftrightarrow>
     (\<forall>p \<in> set (l_toCache l). packet_ok p) \<and> (\<forall>(own, p) \<in> set (l_fromCache l). sent_ok p)
     \<and> distinct (map fst (pg_batchedValues (l_page l)))"

definition packets_ok :: "'v Process \<Rightarrow> bool" where
  "packets_ok pr \<longleftrightarrow>
     (\<forall>p \<in> set (pr_toHub pr). packet_ok p) \<and> (\<forall>(own, p) \<in> set (pr_fromHub pr). packet_ok p)
     \<and> (\<forall>l \<in> set (pr_links pr). link_ok l)"

definition process_ok :: "'v Process \<Rightarrow> bool" where
  "process_ok pr \<longleftrightarrow>
     packets_ok pr \<and> (\<forall>l \<in> set (pr_links pr). \<forall>k. link_synced (pr_elements pr) l k)"

definition hub_synced :: "(string \<Rightarrow> 'v option \<times> int) \<Rightarrow> 'v Process \<Rightarrow> bool" where
  "hub_synced centre pr \<longleftrightarrow>
     pr_hub pr \<longrightarrow> (\<forall>k. element.synced (\<lambda>_. True) (views k (pr_toHub pr))
        (incomingViews k (pr_fromHub pr)) (centre k) (getElement k (pr_elements pr)))"

definition caches_inv :: "'v Process list \<Rightarrow> bool" where
  "caches_inv prs \<longleftrightarrow> (\<exists>centre. \<forall>pr \<in> set prs. process_ok pr \<and> hub_synced centre pr)"

lemma updateAt_set: "x \<in> set (updateAt i f xs) \<Longrightarrow> x \<in> set xs \<or> (\<exists>y \<in> set xs. x = f y)"
  by (auto simp: updateAt_def split: if_splits dest!: set_update_subset_insert [THEN subsetD])

lemma updateAt_all:
  assumes "\<forall>x \<in> set xs. P x" and "\<And>x. x \<in> set xs \<Longrightarrow> P x \<Longrightarrow> P (f x)"
  shows "\<forall>x \<in> set (updateAt i f xs). P x"
  using assms updateAt_set by metis

text \<open>An action of a page keeps the link synced: what it submits is what it shows.\<close>

lemma link_onPage:
  assumes "link_ok l" and "link_synced els l k" and "page_submits (l_page l) ps pg"
    and "f (l_page l) = (pg, ps)"
  shows "link_ok (onPage f l) \<and> link_synced els (onPage f l) k"
proof
  show "link_ok (onPage f l)"
    using assms by (auto simp: link_ok_def onPage_def page_submits_def)
  show "link_synced els (onPage f l) k"
    unfolding link_synced_def
  proof (intro allI impI)
    fix e assume e: "pg_elements (l_page (onPage f l)) k = Some e"
    then obtain e0 where e0: "pg_elements (l_page l) k = Some e0" "submits (views k ps) e0 e"
      using assms(3,4) by (auto simp: onPage_def page_submits_def split: option.splits dest!: spec [of _ k])
    with assms(2) have "element.synced (validate (pg_validator (l_page l) k)) (views k (l_toCache l))
        (incomingViews k (l_fromCache l)) (elementContent (getElement k els)) e0"
      by (simp add: link_synced_def)
    from synced_submits [OF this e0(2)] assms(3,4)
    show "element.synced (validate (pg_validator (l_page (onPage f l)) k)) (views k (l_toCache (onPage f l)))
        (incomingViews k (l_fromCache (onPage f l))) (elementContent (getElement k els)) e"
      by (simp add: onPage_def page_submits_def)
  qed
qed

lemma process_onLink:
  assumes "process_ok pr" and "\<And>l. link_ok l \<Longrightarrow> \<forall>k. link_synced (pr_elements pr) l k
      \<Longrightarrow> link_ok (f l) \<and> (\<forall>k. link_synced (pr_elements pr) (f l) k)"
  shows "process_ok (onLink n f pr)"
proof -
  have "\<forall>l \<in> set (updateAt n f (pr_links pr)). link_ok l \<and> (\<forall>k. link_synced (pr_elements pr) l k)"
    using assms by (intro updateAt_all) (auto simp: process_ok_def packets_ok_def)
  with assms(1) show ?thesis by (simp add: process_ok_def packets_ok_def onLink_def)
qed

lemma hub_onLink [simp]: "hub_synced centre (onLink n f pr) = hub_synced centre pr"
  by (simp add: hub_synced_def onLink_def)

lemma process_onPage:
  assumes "process_ok pr" and "\<And>pg. distinct (map fst (pg_batchedValues pg)) \<Longrightarrow> page_submits pg (snd (f pg)) (fst (f pg))"
  shows "process_ok (onLink n (onPage f) pr)"
  using assms(1)
proof (rule process_onLink)
  fix l :: "'a PageLink"
  assume "link_ok l" and "\<forall>k. link_synced (pr_elements pr) l k"
  then show "link_ok (onPage f l) \<and> (\<forall>k. link_synced (pr_elements pr) (onPage f l) k)"
    using link_onPage [of l "pr_elements pr" _ "snd (f (l_page l))" "fst (f (l_page l))" f] assms(2)
    by (simp add: link_ok_def)
qed

lemma link_cacheToPage:
  assumes "link_ok l" and "\<forall>k. link_synced els l k"
  shows "link_ok (cacheToPage l) \<and> (\<forall>k. link_synced els (cacheToPage l) k)"
proof (cases "l_fromCache l")
  case (Cons m ms)
  obtain own p where m: "m = (own, p)" by fastforce
  have p: "sent_ok p" using assms(1) by (simp add: link_ok_def Cons m)
  show ?thesis
  proof
    show "link_ok (cacheToPage l)"
      using assms(1) by (simp add: link_ok_def cacheToPage_def Cons m fromCache_page [OF p])
    show "\<forall>k. link_synced els (cacheToPage l) k"
    proof
      fix k show "link_synced els (cacheToPage l) k"
        using assms(2) [THEN spec, of k]
        by (cases "packetView k p")
           (auto simp: link_synced_def cacheToPage_def Cons m fromCache_page [OF p] intro: element.synced_receive)
    qed
  qed
qed (use assms in \<open>simp add: cacheToPage_def\<close>)

text \<open>
  A change of the cache reaches a page as the change of somebody else, or as the
  acknowledgment of the submission that the cache has just taken from that page.
\<close>

lemma link_told:
  assumes "link_synced els l k"
    and "announced k sigs = (case mo of None \<Rightarrow> [] | Some m \<Rightarrow> [(s, m)])" and "s \<noteq> Some n"
    and "elementContent (getElement k els') = (case mo of None \<Rightarrow> elementContent (getElement k els) | Some m \<Rightarrow> fst m)"
  shows "link_synced els' (l\<lparr>l_fromCache := l_fromCache l @ changesFor n sigs\<rparr>) k"
  using assms by (cases mo) (auto simp: link_synced_def incomingViews_changes intro: element.synced_other)

lemma link_taken:
  assumes "link_synced els l k" and "l_toCache l = p # ps"
    and "announced k sigs = (case packetView k p of None \<Rightarrow> [] | Some m \<Rightarrow> [(Some n, m)])"
    and "elementContent (getElement k els') =
      (case packetView k p of None \<Rightarrow> elementContent (getElement k els) | Some m \<Rightarrow> fst m)"
  shows "link_synced els' (l\<lparr>l_toCache := ps, l_fromCache := l_fromCache l @ changesFor n sigs\<rparr>) k"
  using assms
  by (cases "packetView k p") (auto simp: link_synced_def incomingViews_changes intro: element.synced_taken)

lemma set_cacheStep_links:
  "l \<in> set (pr_links (cacheStep r pr)) \<longleftrightarrow> (\<exists>n < length (pr_links pr).
     l = (pr_links pr ! n)\<lparr>l_fromCache := l_fromCache (pr_links pr ! n) @ changesFor n (snd r)\<rparr>)"
  by (force simp: cacheStep_def in_set_enumerate_eq image_iff Bex_def)

lemma process_cacheStep:
  assumes "packets_ok pr"
    and "\<forall>q \<in> set (localChanges (snd r)). packet_ok q"
    and "\<And>n. \<forall>(b, q) \<in> set (changesFor n (snd r)). sent_ok q"
    and "\<And>n k. n < length (pr_links pr) \<Longrightarrow> link_synced (fst r)
       ((pr_links pr ! n)\<lparr>l_fromCache := l_fromCache (pr_links pr ! n) @ changesFor n (snd r)\<rparr>) k"
  shows "process_ok (cacheStep r pr)"
proof -
  have "link_ok l \<and> (\<forall>k. link_synced (fst r) l k)" if l: "l \<in> set (pr_links (cacheStep r pr))" for l
  proof -
    obtain n where n: "n < length (pr_links pr)"
        "l = (pr_links pr ! n)\<lparr>l_fromCache := l_fromCache (pr_links pr ! n) @ changesFor n (snd r)\<rparr>"
      using l by (auto simp: set_cacheStep_links)
    then have "link_ok (pr_links pr ! n)" using assms(1) by (simp add: packets_ok_def)
    then have "link_ok l" using assms(3) [of n] by (auto simp: n(2) link_ok_def)
    with assms(4) [OF n(1)] show ?thesis by (simp add: n(2))
  qed
  moreover have "pr_elements (cacheStep r pr) = fst r" "pr_fromHub (cacheStep r pr) = pr_fromHub pr"
      "\<forall>q \<in> set (pr_toHub (cacheStep r pr)). packet_ok q"
    using assms(1,2) by (auto simp: cacheStep_def packets_ok_def)
  ultimately show ?thesis using assms(1) by (simp add: process_ok_def packets_ok_def)
qed

lemma process_told:
  assumes "process_ok pr" and "s = None"
    and "\<forall>q \<in> set (localChanges (snd r)). packet_ok q"
    and "\<And>n. \<forall>(b, q) \<in> set (changesFor n (snd r)). sent_ok q"
    and "\<And>k. announced k (snd r) = (case mo k of None \<Rightarrow> [] | Some m \<Rightarrow> [(s, m)])"
    and "\<And>k. elementContent (getElement k (fst r)) =
      (case mo k of None \<Rightarrow> elementContent (getElement k (pr_elements pr)) | Some m \<Rightarrow> fst m)"
  shows "process_ok (cacheStep r pr)"
proof (rule process_cacheStep [OF _ assms(3,4)])
  show "packets_ok pr" using assms(1) by (simp add: process_ok_def)
next
  fix n k assume "n < length (pr_links pr)"
  then have "link_synced (pr_elements pr) (pr_links pr ! n) k" using assms(1) by (simp add: process_ok_def)
  from link_told [OF this assms(5) _ assms(6)] assms(2)
  show "link_synced (fst r)
       ((pr_links pr ! n)\<lparr>l_fromCache := l_fromCache (pr_links pr ! n) @ changesFor n (snd r)\<rparr>) k"
    by simp
qed

lemma process_insert:
  assumes "process_ok pr" and "packet_ok p"
  shows "process_ok (cacheStep (insertValues (pr_hub pr) p (pr_elements pr)) pr)"
  using assms(1) refl changeValues_signals [OF assms(2)] changeValues_announced [OF assms(2)]
    changeValues_content [OF assms(2)]
  unfolding insertValues_def by (rule process_told)

lemma process_hubToCache:
  assumes "process_ok pr"
  shows "process_ok (hubToCache pr)"
proof (cases "pr_fromHub pr")
  case (Cons m ms)
  obtain own p where m: "m = (own, p)" by fastforce
  let ?pr = "pr\<lparr>pr_fromHub := ms\<rparr>" and ?r = "changeValuesFromRemote own p (pr_elements pr)"
  have p: "packet_ok p" and ok: "process_ok ?pr" using assms by (auto simp: process_ok_def packets_ok_def Cons m)
  let ?mo = "\<lambda>k. if own \<or> e_pendingChanges (getElement k (pr_elements pr)) \<noteq> 0 then None else packetView k p"
  have "process_ok (cacheStep ?r ?pr)"
    using ok refl
  proof (rule process_told [where mo = ?mo])
    show "elementContent (getElement k (fst ?r)) =
      (case ?mo k of None \<Rightarrow> elementContent (getElement k (pr_elements ?pr)) | Some m \<Rightarrow> fst m)" for k
      by (cases "packetView k p") (auto simp: remote_element [OF p] elementReceive_def elementContent_def split_paired_all)
  qed (use remote_signals [OF p] in \<open>auto simp: remote_announced [OF p] split: option.split\<close>)
  then show ?thesis by (simp add: hubToCache_def Cons m)
qed (use assms in \<open>simp add: hubToCache_def\<close>)

lemma process_pageToCache:
  assumes "process_ok pr"
  shows "process_ok (pageToCache n pr)"
proof (cases "n < length (pr_links pr) \<and> l_toCache (pr_links pr ! n) \<noteq> []")
  case True
  then obtain p ps where q: "l_toCache (pr_links pr ! n) = p # ps" and n: "n < length (pr_links pr)"
    by (auto simp: neq_Nil_conv)
  have l: "link_ok (pr_links pr ! n')" "link_synced (pr_elements pr) (pr_links pr ! n') k" if "n' < length (pr_links pr)" for n' k
    using assms that by (auto simp: process_ok_def packets_ok_def)
  have p: "packet_ok p" using l(1) [OF n] by (simp add: link_ok_def q)
  let ?r = "changeValues (pr_hub pr) (Some n) p (pr_elements pr)"
  let ?links = "(pr_links pr)[n := (pr_links pr ! n)\<lparr>l_toCache := ps\<rparr>]"
  let ?pr = "onLink n (\<lambda>l. l\<lparr>l_toCache := ps\<rparr>) pr"
  have links: "pr_links ?pr = ?links" "pr_elements ?pr = pr_elements pr" "pr_hub ?pr = pr_hub pr"
    using n by (simp_all add: onLink_def updateAt_def)
  have new: "link_synced (fst ?r) ((?links ! n')\<lparr>l_fromCache := l_fromCache (?links ! n') @ changesFor n' (snd ?r)\<rparr>) k"
    if "n' < length (pr_links pr)" for n' k
  proof (cases "n' = n")
    case True
    show ?thesis
      using link_taken [OF l(2) [OF n] q changeValues_announced [OF p] changeValues_content [OF p]] n
      by (simp add: True)
  next
    case False
    show ?thesis
      using link_told [OF l(2) [OF that] changeValues_announced [OF p] _ changeValues_content [OF p]] False
      by simp
  qed
  have "link_ok l'" if "l' \<in> set ?links" for l'
    using that l(1) [OF n] assms set_update_subset_insert [of "pr_links pr" n] q
    by (fastforce simp: link_ok_def process_ok_def packets_ok_def)
  then have "packets_ok ?pr" using assms by (simp add: process_ok_def packets_ok_def onLink_def updateAt_def n)
  then have "process_ok (cacheStep ?r ?pr)"
    by (rule process_cacheStep [OF _ changeValues_signals [OF p]])
       (use new n in \<open>simp add: links\<close>)
  then show ?thesis by (simp add: pageToCache_def q n)
next
  case False
  then show ?thesis using assms by (auto simp: pageToCache_def)
qed

lemma hub_changed:
  assumes "hub_synced centre pr" and "packet_ok p"
    and "pr_toHub pr' = pr_toHub pr" "pr_fromHub pr' = pr_fromHub pr" "pr_hub pr' = pr_hub pr"
  shows "hub_synced centre (cacheStep (changeValues (pr_hub pr) s p (pr_elements pr)) pr')"
  using assms
  by (auto simp: hub_synced_def cacheStep_def intro: synced_submits changeValues_submits [OF assms(2)])

lemma hub_pageToCache:
  assumes "process_ok pr" and "hub_synced centre pr"
  shows "hub_synced centre (pageToCache n pr)"
proof (cases "n < length (pr_links pr) \<and> l_toCache (pr_links pr ! n) \<noteq> []")
  case True
  then obtain p ps where q: "l_toCache (pr_links pr ! n) = p # ps" and n: "n < length (pr_links pr)"
    by (auto simp: neq_Nil_conv)
  have "link_ok (pr_links pr ! n)" using assms(1) n by (auto simp: process_ok_def packets_ok_def)
  then have "packet_ok p" by (simp add: link_ok_def q)
  from hub_changed [OF assms(2) this] show ?thesis by (simp add: pageToCache_def q n onLink_def)
next
  case False
  then show ?thesis using assms by (auto simp: pageToCache_def)
qed

lemma hub_hubToCache:
  assumes "process_ok pr" and "hub_synced centre pr"
  shows "hub_synced centre (hubToCache pr)"
proof (cases "pr_fromHub pr")
  case (Cons m ms)
  obtain own p where m: "m = (own, p)" by fastforce
  have p: "packet_ok p" using assms(1) by (auto simp: process_ok_def packets_ok_def Cons m)
  show ?thesis
    unfolding hub_synced_def
  proof (intro impI allI)
    fix k assume "pr_hub (hubToCache pr)"
    then have "pr_hub pr" by (simp add: hubToCache_def Cons m cacheStep_def)
    with assms(2) have "element.synced (\<lambda>_. True) (views k (pr_toHub pr))
        (incomingViews k (pr_fromHub pr)) (centre k) (getElement k (pr_elements pr))"
      by (simp add: hub_synced_def)
    then show "element.synced (\<lambda>_. True) (views k (pr_toHub (hubToCache pr)))
        (incomingViews k (pr_fromHub (hubToCache pr))) (centre k) (getElement k (pr_elements (hubToCache pr)))"
      by (cases "packetView k p")
         (auto simp: hubToCache_def Cons m cacheStep_def remote_signals [OF p] remote_element [OF p]
           intro: element.synced_receive)
  qed
qed (use assms in \<open>simp add: hubToCache_def\<close>)

lemma getElement_saved:
  "elementContent (getElement k (markAllAsSaved pre els)) = elementContent (getElement k els)"
  "e_pendingChanges (getElement k (markAllAsSaved pre els)) = e_pendingChanges (getElement k els)"
  by (cases "els k"; simp add: markAllAsSaved_def getElement_def elementContent_def)+

lemma saved_inv:
  assumes "process_ok pr" and "hub_synced centre pr"
  shows "process_ok (pr\<lparr>pr_elements := markAllAsSaved pre (pr_elements pr)\<rparr>)
    \<and> hub_synced centre (pr\<lparr>pr_elements := markAllAsSaved pre (pr_elements pr)\<rparr>)"
  using assms
  by (auto simp: process_ok_def packets_ok_def link_synced_def hub_synced_def getElement_saved
      intro: element.synced_same)

lemma changeSettings_inv:
  assumes "\<forall>pr \<in> set prs. process_ok pr \<and> hub_synced centre pr"
  shows "\<exists>centre. \<forall>pr \<in> set (changeSettings i prs). process_ok pr \<and> hub_synced centre pr"
proof (cases "i < length prs \<and> pr_toHub (prs ! i) \<noteq> []")
  case True
  then obtain p ps where q: "pr_toHub (prs ! i) = p # ps" and i: "i < length prs"
    by (auto simp: neq_Nil_conv)
  have p: "packet_ok p" using assms i q by (auto simp: process_ok_def packets_ok_def dest!: nth_mem)
  let ?centre = "\<lambda>k. case packetView k p of None \<Rightarrow> centre k | Some m \<Rightarrow> fst m"
  let ?prs = "prs[i := (prs ! i)\<lparr>pr_toHub := ps\<rparr>]"
  have "process_ok pr \<and> hub_synced ?centre pr" if pr: "pr \<in> set (changeSettings i prs)" for pr
  proof -
    obtain j where j: "j < length prs" and pr: "pr = (let pr = ?prs ! j in
        if pr_hub pr then pr\<lparr>pr_fromHub := pr_fromHub pr @ [(j = i, p)]\<rparr> else pr)"
      using pr i by (auto simp: changeSettings_def q updateAt_def in_set_enumerate_eq Let_def)
    have old: "process_ok (prs ! j)" "hub_synced centre (prs ! j)" using assms j by simp_all
    have "process_ok pr" using old(1) p i q by (auto simp: pr process_ok_def packets_ok_def Let_def nth_list_update)
    moreover have "hub_synced ?centre pr"
      unfolding hub_synced_def
    proof (intro impI allI)
      fix k assume "pr_hub pr"
      then have hub: "pr_hub (prs ! j)" using i by (auto simp: pr Let_def nth_list_update split: if_splits)
      with old(2) have "element.synced (\<lambda>_. True) (views k (pr_toHub (prs ! j)))
          (incomingViews k (pr_fromHub (prs ! j))) (centre k) (getElement k (pr_elements (prs ! j)))"
        by (simp add: hub_synced_def)
      with i hub show "element.synced (\<lambda>_. True) (views k (pr_toHub pr))
          (incomingViews k (pr_fromHub pr)) (?centre k) (getElement k (pr_elements pr))"
        by (cases "packetView k p"; cases "j = i")
           (auto simp: pr Let_def q nth_list_update intro: element.synced_taken element.synced_other)
    qed
    ultimately show ?thesis ..
  qed
  then show ?thesis by blast
next
  case False
  then show ?thesis using assms by (auto simp: changeSettings_def)
qed

fun event_ok :: "'v CacheEvent \<Rightarrow> bool" where
  "event_ok (InsertValues i p) = packet_ok p"
| "event_ok _ = True"

lemma updateAt_inv:
  assumes "caches_inv prs"
    and "\<And>pr centre. process_ok pr \<Longrightarrow> hub_synced centre pr \<Longrightarrow> process_ok (f pr) \<and> hub_synced centre (f pr)"
  shows "caches_inv (updateAt i f prs)"
proof -
  obtain centre where "\<forall>pr \<in> set prs. process_ok pr \<and> hub_synced centre pr"
    using assms(1) by (auto simp: caches_inv_def)
  then have "\<forall>pr \<in> set (updateAt i f prs). process_ok pr \<and> hub_synced centre pr"
    by (rule updateAt_all) (use assms(2) in blast)
  then show ?thesis by (auto simp: caches_inv_def)
qed

lemma caches_inv_step:
  assumes "caches_inv prs" and "event_ok event"
  shows "caches_inv (caches_step event prs)"
proof (cases event)
  case (SetValue i n now key v t save)
  have "page_submits pg (snd (case setValue now key v t save pg of (pg', ps, _) \<Rightarrow> (pg', ps)))
      (fst (case setValue now key v t save pg of (pg', ps, _) \<Rightarrow> (pg', ps)))" for pg :: "'a CValuePage"
    by (cases "setValue now key v t save pg") (simp add: setValue_submits)
  then show ?thesis using assms by (auto simp: SetValue intro!: updateAt_inv process_onPage)
next
  case (EndBatch i n now)
  then show ?thesis using assms by (auto intro!: updateAt_inv process_onPage endBatch_submits)
next
  case (InsertValues i p)
  then show ?thesis
    using assms by (auto simp: insertValues_def intro!: updateAt_inv process_insert [unfolded insertValues_def] hub_changed)
next
  case (MarkAllAsSaved i pre)
  then show ?thesis using assms saved_inv by (auto intro!: updateAt_inv)
next
  case (CacheToPage i n)
  then show ?thesis using assms link_cacheToPage by (auto intro!: updateAt_inv process_onLink)
next
  case (CacheToHub i)
  then show ?thesis using assms changeSettings_inv by (auto simp: caches_inv_def)
qed (use assms in \<open>auto intro!: updateAt_inv process_onPage batch_submits process_pageToCache hub_pageToCache
    process_hubToCache hub_hubToCache\<close>)

lemma caches_inv_run:
  assumes "caches_inv prs" and "\<forall>event \<in> set events. event_ok event"
  shows "caches_inv (caches_run events prs)"
  using assms
  by (induction events arbitrary: prs) (simp_all add: caches_run_def caches_inv_step)

end
