(* ===== verification/Value_Cache_Progress.thy ===== *)
theory Value_Cache_Progress
  imports Value_Cache_Runs
begin

text \<open>
  What the invariant of \<open>Value_Cache_Runs\<close> comes to: started processes satisfy it, when all
  messages are delivered all copies are alike, and the delivery of messages ends.
\<close>

subsection \<open>Started processes\<close>

definition freshPage :: "(string \<Rightarrow> 'v \<Rightarrow> bool) \<Rightarrow> (string \<times> 'v option) list \<Rightarrow> 'v Elements \<Rightarrow> 'v CValuePage" where
  "freshPage validator defaults els =
     fold (\<lambda>(key, d). createElement key d els) defaults
       \<lparr>pg_elements = Map.empty, pg_validator = validator, pg_batchMode = 0, pg_batchedValues = []\<rparr>"

definition freshProcess ::
  "'v Elements \<Rightarrow> ((string \<Rightarrow> 'v \<Rightarrow> bool) \<times> (string \<times> 'v option) list) list \<Rightarrow> 'v Process" where
  "freshProcess els pages =
     \<lparr>pr_elements = els, pr_hub = True,
      pr_links = map (\<lambda>(validator, defaults).
        \<lparr>l_page = freshPage validator defaults els, l_toCache = [], l_fromCache = []\<rparr>) pages,
      pr_toHub = [], pr_fromHub = [], pr_saveRequests = []\<rparr>"

definition page_fresh :: "'v Elements \<Rightarrow> 'v CValuePage \<Rightarrow> bool" where
  "page_fresh els pg \<longleftrightarrow> pg_batchedValues pg = []
     \<and> (\<forall>k e. pg_elements pg k = Some e \<longrightarrow> e_pendingChanges e = 0
          \<and> (validate (pg_validator pg k) (e_value (getElement k els))
              \<longrightarrow> elementContent e = elementContent (getElement k els)))"

lemma createElement_fresh:
  assumes "page_fresh els pg"
  shows "page_fresh els (createElement key d els pg)"
  using assms
  by (cases "validate (pg_validator pg key) (e_value (getElement key els))")
     (simp_all add: page_fresh_def createElement_def getValue_def Let_def elementContent_def)

lemma freshPage_fresh: "page_fresh els (freshPage validator defaults els)"
proof -
  have fold_fresh: "page_fresh els (fold (\<lambda>(key, d). createElement key d els) ds pg)"
    if "page_fresh els pg" for ds pg
    using that
  proof (induction ds arbitrary: pg)
    case (Cons x ds)
    obtain key d where x: "x = (key, d)" by fastforce
    show ?case using Cons.IH [OF createElement_fresh [OF Cons.prems, of key d]] by (simp only: x fold_simps prod.case)
  qed (simp only: fold_simps)
  show ?thesis unfolding freshPage_def by (rule fold_fresh) (simp add: page_fresh_def)
qed

lemma fresh_inv:
  assumes "\<forall>k. e_pendingChanges (getElement k els) = 0"
  shows "caches_inv (map (freshProcess els) pagess)"
proof -
  have "process_ok (freshProcess els pages)" for pages
    using freshPage_fresh [of els]
    by (auto simp: process_ok_def packets_ok_def link_ok_def link_synced_def freshProcess_def page_fresh_def
        elementContent_def intro!: element.synced_start)
  moreover have "hub_synced (\<lambda>k. elementContent (getElement k els)) (freshProcess els pages)" for pages
    using assms by (auto simp: hub_synced_def freshProcess_def intro: element.synced_start)
  ultimately show ?thesis by (auto simp: caches_inv_def)
qed

subsection \<open>All messages delivered\<close>

definition quiet_process :: "'v Process \<Rightarrow> bool" where
  "quiet_process pr \<longleftrightarrow> pr_toHub pr = [] \<and> pr_fromHub pr = []
     \<and> (\<forall>l \<in> set (pr_links pr). l_toCache l = [] \<and> l_fromCache l = [])"

lemma quiet_caches:
  assumes "caches_inv prs" and "pr \<in> set prs" and "pr' \<in> set prs" and "quiet_process pr" and "quiet_process pr'"
    and "pr_hub pr" and "pr_hub pr'"
  shows "elementContent (getElement k (pr_elements pr)) = elementContent (getElement k (pr_elements pr'))
     \<and> e_pendingChanges (getElement k (pr_elements pr)) = 0"
proof -
  obtain centre where c: "\<forall>pr \<in> set prs. hub_synced centre pr" using assms(1) by (auto simp: caches_inv_def)
  have "elementContent (getElement k (pr_elements pr)) = centre k \<and> e_pendingChanges (getElement k (pr_elements pr)) = 0"
    if "pr \<in> set prs" "quiet_process pr" "pr_hub pr" for pr
    using c that element.synced_quiet [of "\<lambda>_. True" "centre k" "getElement k (pr_elements pr)"]
    by (auto simp: hub_synced_def quiet_process_def)
  with assms show ?thesis by metis
qed

lemma quiet_page:
  assumes "caches_inv prs" and "pr \<in> set prs" and "quiet_process pr" and "l \<in> set (pr_links pr)"
    and "pg_elements (l_page l) k = Some e"
  shows "e_pendingChanges e = 0 \<and> (validate (pg_validator (l_page l) k) (e_value (getElement k (pr_elements pr)))
     \<longrightarrow> elementContent e = elementContent (getElement k (pr_elements pr)))"
proof -
  have "link_synced (pr_elements pr) l k" using assms by (auto simp: caches_inv_def process_ok_def)
  then show ?thesis
    using assms element.synced_quiet [of "validate (pg_validator (l_page l) k)"
        "elementContent (getElement k (pr_elements pr))" e]
    by (auto simp: link_synced_def quiet_process_def elementContent_def)
qed

lemma counters_nonneg:
  assumes "caches_inv prs" and "pr \<in> set prs"
  shows "l \<in> set (pr_links pr) \<Longrightarrow> pg_elements (l_page l) k = Some e \<Longrightarrow> 0 \<le> e_pendingChanges e"
    and "pr_hub pr \<Longrightarrow> 0 \<le> e_pendingChanges (getElement k (pr_elements pr))"
proof -
  obtain centre where c: "process_ok pr" "hub_synced centre pr" using assms by (auto simp: caches_inv_def)
  show "0 \<le> e_pendingChanges e" if "l \<in> set (pr_links pr)" "pg_elements (l_page l) k = Some e"
    using c(1) that by (auto simp: process_ok_def link_synced_def intro: element.synced_pending)
  show "0 \<le> e_pendingChanges (getElement k (pr_elements pr))" if "pr_hub pr"
    using c(2) that by (auto simp: hub_synced_def intro: element.synced_pending)
qed

subsection \<open>Delivery ends\<close>

text \<open>
  The work that the messages under way can still cause, for at most \<open>P\<close> pages in a process
  and \<open>M\<close> processes.
\<close>

definition hubCost :: "nat \<Rightarrow> nat \<Rightarrow> nat" where "hubCost P M = M * (P + 1) + 1"
definition linkLoad :: "nat \<Rightarrow> nat \<Rightarrow> 'v PageLink \<Rightarrow> nat" where
  "linkLoad P M l = (P + hubCost P M + 1) * length (l_toCache l) + length (l_fromCache l)"
definition processLoad :: "nat \<Rightarrow> nat \<Rightarrow> 'v Process \<Rightarrow> nat" where
  "processLoad P M pr = sum_list (map (linkLoad P M) (pr_links pr))
     + hubCost P M * length (pr_toHub pr) + (P + 1) * length (pr_fromHub pr)"
definition load :: "nat \<Rightarrow> nat \<Rightarrow> 'v Process list \<Rightarrow> nat" where
  "load P M prs = sum_list (map (processLoad P M) prs)"

lemma sum_updateAt:
  fixes f :: "'a \<Rightarrow> nat"
  assumes "i < length xs" and "f (g (xs ! i)) < f (xs ! i)"
  shows "sum_list (map f (updateAt i g xs)) < sum_list (map f xs)"
  using assms elem_le_sum_list [of i "map f xs"]
  by (simp add: updateAt_def map_update sum_list_update)

lemma changes_one:
  assumes "packet_ok p"
  shows "length (changesFor n (snd (changeValues hub s p els))) \<le> 1"
    and "length (localChanges (snd (changeValues hub s p els))) \<le> 1"
    and "length (changesFor n (snd (changeValuesFromRemote own p els))) \<le> 1"
  using assms
  by (auto simp: changeValues_def changeValuesFromRemote_def packet_ok_def fold_remote Let_def)

lemma sum_list_add_bound:
  fixes f g :: "'a \<Rightarrow> nat"
  assumes "\<And>x. x \<in> set xs \<Longrightarrow> f x \<le> g x + c"
  shows "sum_list (map f xs) \<le> sum_list (map g xs) + length xs * c"
  using assms
proof (induction xs)
  case (Cons x xs)
  then show ?case using Cons.prems [of x] by fastforce
qed simp

lemma map_enumerate_snd: "map (g \<circ> snd) (enumerate n xs) = map g xs"
  by (metis map_map map_snd_enumerate)

lemma load_cacheStep:
  assumes "\<And>n. length (changesFor n (snd r)) \<le> 1"
  shows "processLoad P M (cacheStep r pr) \<le> processLoad P M pr + length (pr_links pr)
     + hubCost P M * (if pr_hub pr then length (localChanges (snd r)) else 0)"
proof -
  let ?put = "\<lambda>(n, l). l\<lparr>l_fromCache := l_fromCache l @ changesFor n (snd r)\<rparr>"
  have "sum_list (map (linkLoad P M \<circ> ?put) (enumerate 0 (pr_links pr)))
      \<le> sum_list (map (linkLoad P M \<circ> snd) (enumerate 0 (pr_links pr))) + length (enumerate 0 (pr_links pr)) * 1"
    using assms by (intro sum_list_add_bound) (auto simp: linkLoad_def)
  then have "sum_list (map (linkLoad P M) (pr_links (cacheStep r pr)))
      \<le> sum_list (map (linkLoad P M) (pr_links pr)) + length (pr_links pr)"
    by (simp add: cacheStep_def map_enumerate_snd)
  then show ?thesis by (simp add: processLoad_def cacheStep_def add_mult_distrib2)
qed

definition sized :: "nat \<Rightarrow> nat \<Rightarrow> 'v Process list \<Rightarrow> bool" where
  "sized P M prs \<longleftrightarrow> length prs \<le> M \<and> (\<forall>pr \<in> set prs. length (pr_links pr) \<le> P)"

text \<open>The events that deliver a message, and those that find one.\<close>

fun is_delivery :: "'v CacheEvent \<Rightarrow> bool" where
  "is_delivery (PageToCache i n) \<longleftrightarrow> True"
| "is_delivery (CacheToPage i n) \<longleftrightarrow> True"
| "is_delivery (CacheToHub i) \<longleftrightarrow> True"
| "is_delivery (HubToCache i) \<longleftrightarrow> True"
| "is_delivery _ \<longleftrightarrow> False"

fun delivers :: "'v CacheEvent \<Rightarrow> 'v Process list \<Rightarrow> bool" where
  "delivers (PageToCache i n) prs \<longleftrightarrow>
     i < length prs \<and> n < length (pr_links (prs ! i)) \<and> l_toCache (pr_links (prs ! i) ! n) \<noteq> []"
| "delivers (CacheToPage i n) prs \<longleftrightarrow>
     i < length prs \<and> n < length (pr_links (prs ! i)) \<and> l_fromCache (pr_links (prs ! i) ! n) \<noteq> []"
| "delivers (CacheToHub i) prs \<longleftrightarrow> i < length prs \<and> pr_toHub (prs ! i) \<noteq> []"
| "delivers (HubToCache i) prs \<longleftrightarrow> i < length prs \<and> pr_fromHub (prs ! i) \<noteq> []"
| "delivers _ prs \<longleftrightarrow> False"

lemma load_pageToCache:
  assumes "process_ok pr" and "length (pr_links pr) \<le> P"
    and "n < length (pr_links pr)" and "l_toCache (pr_links pr ! n) \<noteq> []"
  shows "processLoad P M (pageToCache n pr) < processLoad P M pr"
proof -
  obtain p ps where q: "l_toCache (pr_links pr ! n) = p # ps" using assms(4) by (auto simp: neq_Nil_conv)
  have "link_ok (pr_links pr ! n)" using assms(1,3) by (auto simp: process_ok_def packets_ok_def)
  then have p: "packet_ok p" by (simp add: link_ok_def q)
  let ?r = "changeValues (pr_hub pr) (Some n) p (pr_elements pr)"
  let ?pr = "onLink n (\<lambda>l. l\<lparr>l_toCache := ps\<rparr>) pr"
  have "sum_list (map (linkLoad P M) (pr_links ?pr)) + (P + hubCost P M + 1)
      = sum_list (map (linkLoad P M) (pr_links pr))"
    using assms(3) elem_le_sum_list [of n "map (linkLoad P M) (pr_links pr)"]
    by (simp add: onLink_def updateAt_def map_update sum_list_update linkLoad_def q)
  then have "processLoad P M ?pr + (P + hubCost P M + 1) = processLoad P M pr"
    by (simp add: processLoad_def onLink_def)
  moreover have "processLoad P M (cacheStep ?r ?pr) \<le> processLoad P M ?pr + length (pr_links ?pr)
      + hubCost P M * (if pr_hub ?pr then length (localChanges (snd ?r)) else 0)"
    by (rule load_cacheStep) (rule changes_one [OF p])
  moreover have "hubCost P M * (if pr_hub ?pr then length (localChanges (snd ?r)) else 0) \<le> hubCost P M"
    using changes_one(2) [OF p, of "pr_hub pr" "Some n" "pr_elements pr"] by auto
  moreover have "length (pr_links ?pr) \<le> P" using assms(2) by (simp add: onLink_def updateAt_def)
  ultimately have "processLoad P M (cacheStep ?r ?pr) < processLoad P M pr" by linarith
  then show ?thesis by (simp add: pageToCache_def q assms(3))
qed

lemma load_hubToCache:
  assumes "process_ok pr" and "length (pr_links pr) \<le> P" and "pr_fromHub pr \<noteq> []"
  shows "processLoad P M (hubToCache pr) < processLoad P M pr"
proof -
  obtain own p ms where q: "pr_fromHub pr = (own, p) # ms" using assms(3) by (auto simp: neq_Nil_conv)
  have p: "packet_ok p" using assms(1) by (auto simp: process_ok_def packets_ok_def q)
  let ?r = "changeValuesFromRemote own p (pr_elements pr)" and ?pr = "pr\<lparr>pr_fromHub := ms\<rparr>"
  have "processLoad P M (cacheStep ?r ?pr) \<le> processLoad P M ?pr + length (pr_links ?pr)
      + hubCost P M * (if pr_hub ?pr then length (localChanges (snd ?r)) else 0)"
    by (rule load_cacheStep) (rule changes_one [OF p])
  moreover have "processLoad P M ?pr + (P + 1) = processLoad P M pr" by (simp add: processLoad_def q)
  moreover have "localChanges (snd ?r) = []" by (rule remote_signals [OF p])
  ultimately show ?thesis using assms(2) by (cases "pr_hub pr") (simp_all add: hubToCache_def q)
qed

lemma load_cacheToPage:
  assumes "n < length (pr_links pr)" and "l_fromCache (pr_links pr ! n) \<noteq> []"
  shows "processLoad P M (onLink n cacheToPage pr) < processLoad P M pr"
proof -
  have "linkLoad P M (cacheToPage (pr_links pr ! n)) < linkLoad P M (pr_links pr ! n)"
    using assms(2) by (auto simp: linkLoad_def cacheToPage_def neq_Nil_conv)
  from sum_updateAt [where f = "linkLoad P M" and g = cacheToPage, OF assms(1) this]
  show ?thesis by (simp add: processLoad_def onLink_def)
qed

lemma load_changeSettings:
  assumes "length prs \<le> M" and "i < length prs" and "pr_toHub (prs ! i) \<noteq> []"
  shows "load P M (changeSettings i prs) < load P M prs"
proof -
  obtain p ps where q: "pr_toHub (prs ! i) = p # ps" using assms(3) by (auto simp: neq_Nil_conv)
  let ?prs = "updateAt i (\<lambda>pr. pr\<lparr>pr_toHub := ps\<rparr>) prs"
  let ?put = "\<lambda>(j, pr). if pr_hub pr then pr\<lparr>pr_fromHub := pr_fromHub pr @ [(j = i, p)]\<rparr> else pr"
  have "sum_list (map (processLoad P M \<circ> ?put) (enumerate 0 ?prs))
      \<le> sum_list (map (processLoad P M \<circ> snd) (enumerate 0 ?prs)) + length (enumerate 0 ?prs) * (P + 1)"
    by (intro sum_list_add_bound) (auto simp: processLoad_def)
  then have "load P M (changeSettings i prs) \<le> load P M ?prs + length prs * (P + 1)"
    using assms(2) by (simp add: changeSettings_def q load_def map_enumerate_snd updateAt_def)
  moreover have "length prs * (P + 1) \<le> M * (P + 1)" using assms(1) by (rule mult_le_mono1)
  moreover have "load P M ?prs + hubCost P M = load P M prs"
    using assms(2) elem_le_sum_list [of i "map (processLoad P M) prs"]
    by (simp add: load_def updateAt_def map_update sum_list_update processLoad_def q)
  ultimately show ?thesis by (simp add: hubCost_def)
qed

lemma delivery_load:
  assumes "caches_inv prs" and "sized P M prs" and "delivers event prs"
  shows "load P M (caches_step event prs) < load P M prs"
proof -
  have ok: "process_ok (prs ! i)" "length (pr_links (prs ! i)) \<le> P" if "i < length prs" for i
    using assms(1,2) that by (auto simp: caches_inv_def sized_def)
  show ?thesis
    using assms(2,3) ok
    by (cases event)
       (auto simp: load_def sized_def intro!: sum_updateAt load_pageToCache load_hubToCache load_cacheToPage
          load_changeSettings [unfolded load_def])
qed

lemma map_updateAt: "(\<And>x. f (g x) = f x) \<Longrightarrow> map f (updateAt i g xs) = map f xs"
  by (simp add: updateAt_def map_update) (metis list_update_id nth_map)

lemma length_updateAt [simp]: "length (updateAt i f xs) = length xs"
  by (simp add: updateAt_def)

lemma links_length [simp]:
  "length (pr_links (cacheStep r pr)) = length (pr_links pr)"
  "length (pr_links (onLink n f pr)) = length (pr_links pr)"
  "length (pr_links (pageToCache n pr)) = length (pr_links pr)"
  "length (pr_links (hubToCache pr)) = length (pr_links pr)"
  by (simp_all add: cacheStep_def onLink_def pageToCache_def hubToCache_def split: list.split)

lemma shape_changeSettings:
  "map (length \<circ> pr_links) (changeSettings i prs) = map (length \<circ> pr_links) prs"
proof (cases "i < length prs \<and> pr_toHub (prs ! i) \<noteq> []")
  case True
  then obtain p ps where q: "pr_toHub (prs ! i) = p # ps" and i: "i < length prs"
    by (auto simp: neq_Nil_conv)
  let ?prs = "updateAt i (\<lambda>pr. pr\<lparr>pr_toHub := ps\<rparr>) prs"
  have "map (length \<circ> pr_links) (changeSettings i prs) = map ((length \<circ> pr_links) \<circ> snd) (enumerate 0 ?prs)"
    by (auto simp: changeSettings_def q i)
  also have "\<dots> = map (length \<circ> pr_links) prs" by (simp only: map_enumerate_snd) (simp add: map_updateAt)
  finally show ?thesis .
qed (auto simp: changeSettings_def)

lemma shape_step: "map (length \<circ> pr_links) (caches_step event prs) = map (length \<circ> pr_links) prs"
  by (cases event) (simp_all add: map_updateAt shape_changeSettings)

lemma hub_changeSettings: "map pr_hub (changeSettings i prs) = map pr_hub prs"
proof (cases "i < length prs \<and> pr_toHub (prs ! i) \<noteq> []")
  case True
  then obtain p ps where q: "pr_toHub (prs ! i) = p # ps" and i: "i < length prs"
    by (auto simp: neq_Nil_conv)
  let ?prs = "updateAt i (\<lambda>pr. pr\<lparr>pr_toHub := ps\<rparr>) prs"
  have "map pr_hub (changeSettings i prs) = map (pr_hub \<circ> snd) (enumerate 0 ?prs)"
    by (auto simp: changeSettings_def q i split: if_split_asm)
  also have "\<dots> = map pr_hub prs" by (simp only: map_enumerate_snd) (simp add: map_updateAt)
  finally show ?thesis .
qed (auto simp: changeSettings_def)

lemma hub_simps [simp]:
  "pr_hub (cacheStep r pr) = pr_hub pr" "pr_hub (onLink n f pr) = pr_hub pr"
  "pr_hub (pageToCache n pr) = pr_hub pr" "pr_hub (hubToCache pr) = pr_hub pr"
  by (simp_all add: cacheStep_def onLink_def pageToCache_def hubToCache_def split: list.split)

lemma hub_run: "map pr_hub (caches_run events prs) = map pr_hub prs"
proof (induction events arbitrary: prs)
  case (Cons event events)
  have "map pr_hub (caches_step event prs) = map pr_hub prs"
    by (cases event) (simp_all add: map_updateAt hub_changeSettings)
  with Cons show ?case by (simp add: caches_run_def)
qed (simp add: caches_run_def)

lemma run_connected:
  assumes "pr \<in> set (caches_run events (map (freshProcess els) pagess))"
  shows "pr_hub pr"
proof -
  have "pr_hub pr \<in> set (map pr_hub (caches_run events (map (freshProcess els) pagess)))" using assms by simp
  then show ?thesis unfolding hub_run by (auto simp: freshProcess_def)
qed

lemma sized_shape: "sized P M prs \<longleftrightarrow> length (map (length \<circ> pr_links) prs) \<le> M
    \<and> (\<forall>n \<in> set (map (length \<circ> pr_links) prs). n \<le> P)"
  by (auto simp: sized_def)

lemma sized_step: "sized P M prs \<Longrightarrow> sized P M (caches_step event prs)"
  unfolding sized_shape shape_step .

lemma sized_run: "sized P M prs \<Longrightarrow> sized P M (caches_run events prs)"
  by (induction events arbitrary: prs) (simp_all add: caches_run_def sized_step)

lemma delivers_busy: "delivers event prs \<Longrightarrow> \<not> (\<forall>pr \<in> set prs. quiet_process pr)"
proof
  assume d: "delivers event prs" and "\<forall>pr \<in> set prs. quiet_process pr"
  then have "quiet_process (prs ! i)" if "i < length prs" for i using that by simp
  with d show False by (cases event) (auto simp: quiet_process_def)
qed

lemma some_delivery:
  assumes "\<not> (\<forall>pr \<in> set prs. quiet_process pr)"
  shows "\<exists>event. delivers event prs"
proof -
  obtain i where i: "i < length prs" and "\<not> quiet_process (prs ! i)" using assms by (auto simp: in_set_conv_nth)
  then consider "pr_toHub (prs ! i) \<noteq> []" | "pr_fromHub (prs ! i) \<noteq> []"
    | n where "n < length (pr_links (prs ! i))" "l_toCache (pr_links (prs ! i) ! n) \<noteq> []"
    | n where "n < length (pr_links (prs ! i))" "l_fromCache (pr_links (prs ! i) ! n) \<noteq> []"
    by (auto simp: quiet_process_def in_set_conv_nth)
  then show ?thesis
  proof cases
    case 1 then show ?thesis using i by (intro exI [of _ "CacheToHub i"]) simp
  next
    case 2 then show ?thesis using i by (intro exI [of _ "HubToCache i"]) simp
  next
    case (3 n) then show ?thesis using i by (intro exI [of _ "PageToCache i n"]) simp
  next
    case (4 n) then show ?thesis using i by (intro exI [of _ "CacheToPage i n"]) simp
  qed
qed

text \<open>From every state all messages can be delivered, in at most as many steps as the load.\<close>

lemma delivery_ends:
  assumes "caches_inv prs" and "sized P M prs"
  shows "\<exists>events. (\<forall>event \<in> set events. is_delivery event) \<and> length events \<le> load P M prs
     \<and> (\<forall>pr \<in> set (caches_run events prs). quiet_process pr)"
  using assms
proof (induction "load P M prs" arbitrary: prs rule: less_induct)
  case less
  show ?case
  proof (cases "\<forall>pr \<in> set prs. quiet_process pr")
    case True
    then show ?thesis by (intro exI [of _ "[]"]) (simp add: caches_run_def)
  next
    case False
    then obtain event where d: "delivers event prs" using some_delivery by blast
    then have ok: "event_ok event" "is_delivery event" by (cases event; simp)+
    have l: "load P M (caches_step event prs) < load P M prs" by (rule delivery_load [OF less.prems d])
    from less.hyps [OF l caches_inv_step [OF less.prems(1) ok(1)] sized_step [OF less.prems(2)]]
    obtain events where "\<forall>e \<in> set events. is_delivery e" "length events \<le> load P M (caches_step event prs)"
        "\<forall>pr \<in> set (caches_run events (caches_step event prs)). quiet_process pr" by blast
    with l ok show ?thesis by (intro exI [of _ "event # events"]) (simp add: caches_run_def)
  qed
qed

end
