(* ===== verification/Afv_Channel.thy ===== *)
theory Afv_Channel
  imports "HOL-Library.Word"
begin

text \<open>
  The encrypted channel of voice data, \<open>CCryptoDtoChannel\<close>
  (\<open>src/core/afv/crypto/cryptodtochannel.cpp\<close>): the keys, the sequence number of the next
  packet and the window of received sequence numbers against replays. A \<open>uint\<close> is a 32-bit
  word, a byte array a list of bytes. The time stamps, which nothing reads, are left out.
\<close>

type_synonym byte = "8 word"

datatype CryptoDtoMode = ModeUndefined | ModeNone | AEAD_ChaCha20Poly1305

record CryptoDtoChannelConfigDto =
  cfg_channelTag :: string
  cfg_aeadReceiveKey :: "byte list"
  cfg_aeadTransmitKey :: "byte list"
  cfg_hmacKey :: "byte list"

record CCryptoDtoChannel =
  m_aeadTransmitKey :: "byte list"
  m_aeadReceiveKey :: "byte list"
  m_transmitSequence :: "32 word"
  m_receiveSequenceHistory :: "32 word list"
  m_receiveSequenceHistoryDepth :: nat
  m_receiveSequenceSizeMaxSize :: nat
  m_hmacKey :: "byte list"
  m_channelTag :: string

datatype ChannelError = WrongTransmitKeySize | WrongReceiveKeySize

definition KEYBYTES :: nat where "KEYBYTES = 32"

text \<open>The constructor throws on a key of the wrong size.\<close>

definition mkChannel :: "CryptoDtoChannelConfigDto \<Rightarrow> int \<Rightarrow> ChannelError + CCryptoDtoChannel" where
  "mkChannel channelConfig receiveSequenceHistorySize =
     (if length (cfg_aeadTransmitKey channelConfig) \<noteq> KEYBYTES then Inl WrongTransmitKeySize
      else if length (cfg_aeadReceiveKey channelConfig) \<noteq> KEYBYTES then Inl WrongReceiveKeySize
      else let maxSize = nat (max receiveSequenceHistorySize 1) in
        Inr \<lparr>m_aeadTransmitKey = cfg_aeadTransmitKey channelConfig,
             m_aeadReceiveKey = cfg_aeadReceiveKey channelConfig,
             m_transmitSequence = 0,
             m_receiveSequenceHistory = replicate maxSize 0,
             m_receiveSequenceHistoryDepth = 0,
             m_receiveSequenceSizeMaxSize = maxSize,
             m_hmacKey = cfg_hmacKey channelConfig,
             m_channelTag = cfg_channelTag channelConfig\<rparr>)"

fun getTransmitKey :: "CryptoDtoMode \<Rightarrow> CCryptoDtoChannel \<Rightarrow> byte list" where
  "getTransmitKey AEAD_ChaCha20Poly1305 ch = m_aeadTransmitKey ch"
| "getTransmitKey _ ch = []"

text \<open>The overload that takes the next sequence number.\<close>

definition getTransmitKeySequence ::
  "CryptoDtoMode \<Rightarrow> CCryptoDtoChannel \<Rightarrow> byte list \<times> 32 word \<times> CCryptoDtoChannel" where
  "getTransmitKeySequence mode ch =
     (getTransmitKey mode ch, m_transmitSequence ch,
      ch\<lparr>m_transmitSequence := m_transmitSequence ch + 1\<rparr>)"

fun getReceiveKey :: "CryptoDtoMode \<Rightarrow> CCryptoDtoChannel \<Rightarrow> byte list" where
  "getReceiveKey AEAD_ChaCha20Poly1305 ch = m_aeadReceiveKey ch"
| "getReceiveKey _ ch = []"

definition historyContains :: "32 word \<Rightarrow> CCryptoDtoChannel \<Rightarrow> bool" where
  "historyContains sequence ch \<longleftrightarrow>
     list_ex (\<lambda>s. s = sequence) (take (m_receiveSequenceHistoryDepth ch) (m_receiveSequenceHistory ch))"

text \<open>The loop of \<open>getMin\<close>: index and least value so far, the last index of several.\<close>

fun minLoop :: "nat \<Rightarrow> 32 word \<times> int \<Rightarrow> 32 word list \<Rightarrow> 32 word \<times> int" where
  "minLoop i (minValue, minIndex) [] = (minValue, minIndex)"
| "minLoop i (minValue, minIndex) (s # ss) =
     minLoop (Suc i) (if s \<le> minValue then (s, int i) else (minValue, minIndex)) ss"

definition getMin :: "CCryptoDtoChannel \<Rightarrow> 32 word \<times> int" where
  "getMin ch =
     minLoop 0 (- 1, -1) (take (m_receiveSequenceHistoryDepth ch) (m_receiveSequenceHistory ch))"

definition checkReceivedSequence :: "32 word \<Rightarrow> CCryptoDtoChannel \<Rightarrow> bool \<times> CCryptoDtoChannel" where
  "checkReceivedSequence sequenceReceived ch =
     (if historyContains sequenceReceived ch then (False, ch)
      else if m_receiveSequenceHistoryDepth ch < m_receiveSequenceSizeMaxSize ch then
        (True, ch\<lparr>m_receiveSequenceHistory :=
            (m_receiveSequenceHistory ch)[m_receiveSequenceHistoryDepth ch := sequenceReceived],
          m_receiveSequenceHistoryDepth := Suc (m_receiveSequenceHistoryDepth ch)\<rparr>)
      else case getMin ch of (minValue, minIndex) \<Rightarrow>
        if sequenceReceived < minValue then (False, ch)
        else (True, ch\<lparr>m_receiveSequenceHistory :=
               (m_receiveSequenceHistory ch)[nat minIndex := sequenceReceived]\<rparr>))"

subsection \<open>The window\<close>

text \<open>
  The history holds the greatest of the accepted numbers: \<open>accepted\<close> is the set of all numbers
  that were accepted so far.
\<close>

definition window :: "CCryptoDtoChannel \<Rightarrow> 32 word list" where
  "window ch = take (m_receiveSequenceHistoryDepth ch) (m_receiveSequenceHistory ch)"

definition channel_ok :: "CCryptoDtoChannel \<Rightarrow> bool" where
  "channel_ok ch \<longleftrightarrow>
     0 < m_receiveSequenceSizeMaxSize ch
     \<and> length (m_receiveSequenceHistory ch) = m_receiveSequenceSizeMaxSize ch
     \<and> m_receiveSequenceHistoryDepth ch \<le> m_receiveSequenceSizeMaxSize ch"

definition represents :: "CCryptoDtoChannel \<Rightarrow> 32 word set \<Rightarrow> bool" where
  "represents ch accepted \<longleftrightarrow>
     channel_ok ch \<and> distinct (window ch) \<and> set (window ch) \<subseteq> accepted
     \<and> (accepted - set (window ch) \<noteq> {} \<longrightarrow> length (window ch) = m_receiveSequenceSizeMaxSize ch)
     \<and> (\<forall>a \<in> accepted - set (window ch). \<forall>w \<in> set (window ch). a < w)"

text \<open>What the window promises: a new number that fewer than \<open>n\<close> accepted ones exceed.\<close>

definition admissible :: "nat \<Rightarrow> 32 word set \<Rightarrow> 32 word \<Rightarrow> bool" where
  "admissible n accepted s \<longleftrightarrow> s \<notin> accepted \<and> card {a \<in> accepted. s < a} < n"

lemma minLoop_min:
  assumes "minLoop i (v0, j) ss = (v, k)"
  shows "(v = v0 \<and> k = j \<and> (\<forall>s \<in> set ss. v0 < s))
    \<or> (i \<le> nat k \<and> 0 \<le> k \<and> nat k - i < length ss \<and> ss ! (nat k - i) = v \<and> v \<le> v0 \<and> (\<forall>s \<in> set ss. v \<le> s))"
  using assms
proof (induction ss arbitrary: i v0 j)
  case (Cons s ss)
  show ?case
  proof (cases "s \<le> v0")
    case True
    with Cons.prems have "minLoop (Suc i) (s, int i) ss = (v, k)" by simp
    from Cons.IH [OF this] True show ?thesis
      by (auto simp: Suc_diff_le nth_Cons' Suc_le_eq dest: order_less_imp_le order_trans)
  next
    case False
    with Cons.prems have "minLoop (Suc i) (v0, j) ss = (v, k)" by simp
    from Cons.IH [OF this] False show ?thesis
      by (auto simp: nth_Cons' Suc_le_eq dest: order_trans)
  qed
qed simp

lemma getMin_window:
  assumes "window ch \<noteq> []" and "getMin ch = (v, k)"
  shows "nat k < length (window ch) \<and> window ch ! nat k = v \<and> (\<forall>s \<in> set (window ch). v \<le> s)"
proof -
  have "minLoop 0 (- 1, -1) (window ch) = (v, k)" using assms(2) by (simp add: getMin_def window_def)
  from minLoop_min [OF this] assms(1) show ?thesis
    by (auto simp: neq_Nil_conv)
qed

lemma set_update_distinct:
  assumes "distinct xs" and "k < length xs"
  shows "set (xs[k := x]) = insert x (set xs - {xs ! k})"
  using assms by (simp add: set_update_distinct)

lemma represents_new:
  assumes "represents ch accepted" and "s \<notin> set (window ch)"
    and "m_receiveSequenceHistoryDepth ch < m_receiveSequenceSizeMaxSize ch"
  defines "ch' \<equiv> ch\<lparr>m_receiveSequenceHistory :=
            (m_receiveSequenceHistory ch)[m_receiveSequenceHistoryDepth ch := s],
          m_receiveSequenceHistoryDepth := Suc (m_receiveSequenceHistoryDepth ch)\<rparr>"
  shows "accepted = set (window ch)" and "represents ch' (insert s accepted)"
proof -
  have len: "length (window ch) = m_receiveSequenceHistoryDepth ch"
    using assms(1) by (simp add: represents_def channel_ok_def window_def)
  then show A: "accepted = set (window ch)" using assms(1,3) by (auto simp: represents_def)
  have "window ch' = window ch @ [s]"
    using assms(1,3) by (simp add: ch'_def window_def represents_def channel_ok_def take_Suc_conv_app_nth)
  then show "represents ch' (insert s accepted)"
    using assms(1-3) by (simp add: represents_def A ch'_def channel_ok_def)
qed

lemma represents_replace:
  assumes "represents ch accepted" and "s \<notin> set (window ch)"
    and "\<not> m_receiveSequenceHistoryDepth ch < m_receiveSequenceSizeMaxSize ch"
    and "getMin ch = (v, k)" and "\<not> s < v"
  defines "ch' \<equiv> ch\<lparr>m_receiveSequenceHistory := (m_receiveSequenceHistory ch)[nat k := s]\<rparr>"
  shows "represents ch' (insert s accepted)" and "s \<notin> accepted"
    and "{a \<in> accepted. s < a} \<subseteq> set (window ch) - {v}" and "v \<in> set (window ch)"
proof -
  have len: "length (window ch) = m_receiveSequenceSizeMaxSize ch" and pos: "window ch \<noteq> []"
    using assms(1,3) by (auto simp: represents_def channel_ok_def window_def)
  note m = getMin_window [OF pos assms(4)]
  then show v: "v \<in> set (window ch)" by (metis nth_mem)
  then have vs: "v < s" using assms(2,5) by (metis order.not_eq_order_implies_strict linorder_not_less)
  show "s \<notin> accepted"
  proof
    assume "s \<in> accepted"
    with assms(1,2) v have "s < v" by (auto simp: represents_def)
    with vs show False by simp
  qed
  show "{a \<in> accepted. s < a} \<subseteq> set (window ch) - {v}"
  proof
    fix a assume a: "a \<in> {a \<in> accepted. s < a}"
    then have "v < a" using vs by auto
    moreover have "a < v" if "a \<notin> set (window ch)" using assms(1) a v that by (auto simp: represents_def)
    ultimately show "a \<in> set (window ch) - {v}" by (metis Diff_iff order_less_imp_not_less order_less_irrefl singletonD)
  qed
  have w': "window ch' = (window ch)[nat k := s]" by (simp add: ch'_def window_def take_update_swap)
  have set_w': "set (window ch') = insert s (set (window ch) - {v})"
    using m assms(1) by (simp add: w' set_update_distinct represents_def)
  have "distinct (window ch')"
    using m assms(1,2) by (simp add: w' represents_def distinct_list_update)
  moreover have "a < w" if "a \<in> insert s accepted - set (window ch')" "w \<in> set (window ch')" for a w
  proof -
    have "a = v \<or> a \<in> accepted - set (window ch)" using that(1) by (auto simp: set_w')
    moreover have "w = s \<or> w \<in> set (window ch) \<and> v < w" using that(2) m by (auto simp: set_w' order_less_le)
    moreover have "a < v" if "a \<in> accepted - set (window ch)"
      using that assms(1) v by (simp add: represents_def)
    moreover have "v < w" using calculation(2) vs by auto
    ultimately show ?thesis by (metis order.strict_trans)
  qed
  moreover have "set (window ch') \<subseteq> insert s accepted" using assms(1) by (auto simp: set_w' represents_def)
  moreover have "channel_ok ch'" "length (window ch') = m_receiveSequenceSizeMaxSize ch'"
    using assms(1) len by (simp_all add: ch'_def represents_def channel_ok_def w') (simp add: window_def)
  ultimately show "represents ch' (insert s accepted)" by (simp add: represents_def)
qed

lemma check_refines:
  assumes "represents ch accepted" and "finite accepted"
  shows "fst (checkReceivedSequence s ch) = admissible (m_receiveSequenceSizeMaxSize ch) accepted s"
    and "represents (snd (checkReceivedSequence s ch))
      (if admissible (m_receiveSequenceSizeMaxSize ch) accepted s then insert s accepted else accepted)"
    and "m_receiveSequenceSizeMaxSize (snd (checkReceivedSequence s ch)) = m_receiveSequenceSizeMaxSize ch"
proof -
  let ?n = "m_receiveSequenceSizeMaxSize ch" and ?d = "m_receiveSequenceHistoryDepth ch"
  have len: "length (window ch) = ?d" and dist: "distinct (window ch)" and sub: "set (window ch) \<subseteq> accepted"
    using assms(1) by (auto simp: represents_def channel_ok_def window_def)
  have card_w: "card (set (window ch)) = ?d" using dist len by (simp add: distinct_card)
  have con: "historyContains s ch \<longleftrightarrow> s \<in> set (window ch)"
    by (auto simp: historyContains_def window_def list_ex_iff)
  show "m_receiveSequenceSizeMaxSize (snd (checkReceivedSequence s ch)) = ?n"
    by (simp add: checkReceivedSequence_def split: prod.split)
  consider (seen) "s \<in> set (window ch)" | (space) "s \<notin> set (window ch)" "?d < ?n"
    | (full) "s \<notin> set (window ch)" "\<not> ?d < ?n" by blast
  then have "fst (checkReceivedSequence s ch) = admissible ?n accepted s
    \<and> represents (snd (checkReceivedSequence s ch)) (if admissible ?n accepted s then insert s accepted else accepted)"
  proof cases
    case seen
    then show ?thesis using assms(1) con sub by (auto simp: checkReceivedSequence_def admissible_def)
  next
    case space
    note new = represents_new [OF assms(1) space]
    have "card {a \<in> accepted. s < a} \<le> card (set (window ch))" using new(1) by (intro card_mono) auto
    with space new card_w con show ?thesis by (simp add: checkReceivedSequence_def admissible_def)
  next
    case full
    obtain v k where m: "getMin ch = (v, k)" by fastforce
    show ?thesis
    proof (cases "s < v")
      case True
      have "window ch \<noteq> []" using full len assms(1) by (auto simp: represents_def channel_ok_def)
      then have "set (window ch) \<subseteq> {a \<in> accepted. s < a}" using getMin_window [OF _ m] sub True by fastforce
      then have "?d \<le> card {a \<in> accepted. s < a}" using card_mono assms(2) card_w by (metis (lifting) finite_subset mem_Collect_eq subsetI)
      with full True m con assms(1) show ?thesis by (simp add: checkReceivedSequence_def admissible_def)
    next
      case False
      note r = represents_replace [OF assms(1) full m False]
      have "card {a \<in> accepted. s < a} \<le> card (set (window ch) - {v})" by (rule card_mono) (use r(3) in auto)
      also have "\<dots> < ?d" using r(4) card_w by (metis card_Diff1_less finite_set)
      also have "\<dots> \<le> ?n" using assms(1) by (simp add: represents_def channel_ok_def)
      finally show ?thesis using full False m con r by (simp add: checkReceivedSequence_def admissible_def)
    qed
  qed
  then show "fst (checkReceivedSequence s ch) = admissible ?n accepted s"
    and "represents (snd (checkReceivedSequence s ch))
      (if admissible ?n accepted s then insert s accepted else accepted)" by simp_all
qed

subsection \<open>A channel in use\<close>

fun checkAll :: "32 word list \<Rightarrow> CCryptoDtoChannel \<Rightarrow> 32 word list \<times> CCryptoDtoChannel" where
  "checkAll [] ch = ([], ch)"
| "checkAll (s # ss) ch =
     (case checkReceivedSequence s ch of (ok, ch1) \<Rightarrow>
        case checkAll ss ch1 of (accepted, ch2) \<Rightarrow> ((if ok then [s] else []) @ accepted, ch2))"

lemma checkAll_represents:
  assumes "represents ch A" and "finite A" and "checkAll ss ch = (acc, ch')"
  shows "represents ch' (A \<union> set acc) \<and> distinct acc \<and> A \<inter> set acc = {}
    \<and> m_receiveSequenceSizeMaxSize ch' = m_receiveSequenceSizeMaxSize ch"
  using assms
proof (induction ss arbitrary: ch A acc)
  case (Cons s ss)
  obtain ok ch1 where c: "checkReceivedSequence s ch = (ok, ch1)" by fastforce
  obtain acc1 where r: "checkAll ss ch1 = (acc1, ch')" and acc: "acc = (if ok then [s] else []) @ acc1"
    using Cons.prems(3) by (auto simp: c split: prod.splits)
  note ref = check_refines [OF Cons.prems(1,2), of s, unfolded c fst_conv snd_conv]
  let ?A = "if ok then insert s A else A"
  have "represents ch1 ?A" "finite ?A" using ref Cons.prems(2) by simp_all
  from Cons.IH [OF this r] have "represents ch' (?A \<union> set acc1) \<and> distinct acc1 \<and> ?A \<inter> set acc1 = {}
      \<and> m_receiveSequenceSizeMaxSize ch' = m_receiveSequenceSizeMaxSize ch" by (simp add: ref(3))
  then show ?case using ref(1) by (cases ok) (auto simp: acc admissible_def)
qed simp

lemma mkChannel_represents:
  assumes "mkChannel cfg n = Inr ch"
  shows "represents ch {}" and "m_receiveSequenceSizeMaxSize ch = nat (max n 1)"
  using assms by (auto simp: mkChannel_def represents_def channel_ok_def window_def Let_def split: if_splits)

text \<open>The sequence numbers of \<open>n\<close> packets.\<close>

fun sequencesToSend :: "nat \<Rightarrow> CCryptoDtoChannel \<Rightarrow> 32 word list" where
  "sequencesToSend 0 ch = []"
| "sequencesToSend (Suc n) ch =
     (case getTransmitKeySequence AEAD_ChaCha20Poly1305 ch of (_, s, ch1) \<Rightarrow> s # sequencesToSend n ch1)"

lemma sequencesToSend_nth:
  "sequencesToSend n ch = map (\<lambda>i. m_transmitSequence ch + of_nat i) [0..<n]"
proof (induction n arbitrary: ch)
  case (Suc n)
  have "map (\<lambda>i. m_transmitSequence ch + of_nat i) [0..<Suc n]
      = m_transmitSequence ch # map (\<lambda>i. m_transmitSequence ch + 1 + of_nat i) [0..<n]"
    by (simp add: upt_conv_Cons map_Suc_upt [symmetric] comp_def ac_simps del: upt_Suc)
  with Suc show ?case by (simp add: getTransmitKeySequence_def)
qed simp

lemma sequences_distinct:
  assumes "n \<le> 4294967296"
  shows "distinct (sequencesToSend n ch)"
proof -
  have "inj_on (\<lambda>i. m_transmitSequence ch + of_nat i) {0..<n}"
    using assms by (intro inj_onI) (simp add: word_of_nat_eq_iff take_bit_nat_def)
  then show ?thesis by (simp add: sequencesToSend_nth distinct_map)
qed

end
