(* ===== verification/Afv_Serializer.thy ===== *)
theory Afv_Serializer
  imports Afv_Channel
begin

text \<open>
  The packets of voice data, \<open>CryptoDtoSerializer\<close>
  (\<open>src/core/afv/crypto/cryptodtoserializer.h\<close> and \<open>.cpp\<close>). A packet has the length of the
  header, the header and the encrypted payload; the payload has the name of the data and the
  data, each with its length. The libraries are parameters: \<open>msgpack\<close> for the header and the
  data, \<open>libsodium\<close> for the cipher. The decrypted payload is written to a buffer of 500
  bytes: a longer one is a write beyond the buffer.
\<close>

record CryptoDtoHeaderDto =
  h_ChannelTag :: string
  h_Sequence :: "64 word"
  h_Mode :: CryptoDtoMode

text \<open>
  The functions of the libraries the serializer calls; a packing may fail to be unpacked.
\<close>

record Crypto =
  packHeader :: "CryptoDtoHeaderDto \<Rightarrow> byte list"
  unpackHeader :: "byte list \<Rightarrow> CryptoDtoHeaderDto option"
  aeadEncrypt :: "byte list \<Rightarrow> byte list \<Rightarrow> byte list \<Rightarrow> byte list \<Rightarrow> byte list"
  aeadDecrypt :: "byte list \<Rightarrow> byte list \<Rightarrow> byte list \<Rightarrow> byte list \<Rightarrow> byte list option"

text \<open>A 16-bit length as the two bytes of a little endian machine; the cast truncates.\<close>

definition le16 :: "nat \<Rightarrow> byte list" where
  "le16 n = [of_nat n, of_nat (n div 256)]"

fun readLe16 :: "byte list \<Rightarrow> (nat \<times> byte list) option" where
  "readLe16 (a # b # rest) = Some (unat a + 256 * unat b, rest)"
| "readLe16 _ = None"

text \<open>Four zero bytes and the eight bytes of the sequence number.\<close>

definition nonceOf :: "64 word \<Rightarrow> byte list" where
  "nonceOf s = replicate 4 0 @ map (\<lambda>i. ucast (drop_bit (8 * i) s)) [0..<8]"

definition serialize ::
  "Crypto \<Rightarrow> string \<Rightarrow> CryptoDtoMode \<Rightarrow> byte list \<Rightarrow> 32 word \<Rightarrow> byte list \<Rightarrow> byte list \<Rightarrow> byte list" where
  "serialize C channelTag mode transmitKey sequenceToBeSent dtoShortName dto =
     (let header = \<lparr>h_ChannelTag = channelTag, h_Sequence = ucast sequenceToBeSent, h_Mode = mode\<rparr>;
          headerBuffer = packHeader C header
      in if h_Mode header = AEAD_ChaCha20Poly1305 then
           let aePayload = le16 (length dtoShortName) @ dtoShortName @ le16 (length dto) @ dto;
               adPayload = le16 (length headerBuffer) @ headerBuffer;
               aeadPayload = aeadEncrypt C transmitKey (nonceOf (h_Sequence header)) adPayload aePayload
           in le16 (length headerBuffer) @ headerBuffer @ aeadPayload
         else [])"

definition serializeOn ::
  "Crypto \<Rightarrow> CryptoDtoMode \<Rightarrow> byte list \<Rightarrow> byte list \<Rightarrow> CCryptoDtoChannel \<Rightarrow> byte list \<times> CCryptoDtoChannel" where
  "serializeOn C mode dtoShortName dto channel =
     (case getTransmitKeySequence mode channel of (transmitKey, sequenceToSend, channel1) \<Rightarrow>
        (serialize C (m_channelTag channel1) mode transmitKey sequenceToSend dtoShortName dto, channel1))"

datatype DecodeError =
    Uninitialised \<comment> \<open>a length is read from fewer than two bytes\<close>
  | BadHeader \<comment> \<open>the library throws\<close>
  | BufferOverflow

record Deserializer =
  d_header :: CryptoDtoHeaderDto
  d_dtoNameBuffer :: "byte list"
  d_dataBuffer :: "byte list"
  d_verified :: bool

definition readPayload :: "CryptoDtoHeaderDto \<Rightarrow> byte list \<Rightarrow> DecodeError + Deserializer" where
  "readPayload header payload =
     (case readLe16 payload of
        None \<Rightarrow> Inl Uninitialised
      | Some (dtoNameLength, rest) \<Rightarrow>
          (case readLe16 (drop dtoNameLength rest) of
             None \<Rightarrow> Inl Uninitialised
           | Some (dataLength, rest') \<Rightarrow>
               Inr \<lparr>d_header = header, d_dtoNameBuffer = take dtoNameLength rest,
                    d_dataBuffer = take dataLength rest', d_verified = True\<rparr>))"

definition deserialize ::
  "Crypto \<Rightarrow> CCryptoDtoChannel \<Rightarrow> byte list \<Rightarrow> bool \<Rightarrow> DecodeError + Deserializer" where
  "deserialize C channel bytes loopback =
     (case readLe16 bytes of
        None \<Rightarrow> Inl Uninitialised
      | Some (headerLength, rest) \<Rightarrow>
          (case unpackHeader C (take headerLength rest) of
             None \<Rightarrow> Inl BadHeader
           | Some header \<Rightarrow>
               let failed = \<lparr>d_header = header, d_dtoNameBuffer = [], d_dataBuffer = [], d_verified = False\<rparr>
               in if h_Mode header = AEAD_ChaCha20Poly1305 then
                    let aePayload = drop headerLength rest;
                        adBuffer = take (2 + headerLength) bytes;
                        key = (if loopback then getTransmitKey AEAD_ChaCha20Poly1305 channel
                               else getReceiveKey AEAD_ChaCha20Poly1305 channel)
                    in case aeadDecrypt C key (nonceOf (h_Sequence header)) adBuffer aePayload of
                         None \<Rightarrow> Inr failed
                       | Some decrypted \<Rightarrow>
                           if 500 < length decrypted then Inl BufferOverflow
                           else readPayload header decrypted
                  else Inr failed))"

subsection \<open>A packet is read as it was sent\<close>

text \<open>
  The documented behaviour of the libraries: an unpacked packing and a decrypted encryption
  are the original, and a decryption under other data fails.
\<close>

definition crypto_laws :: "Crypto \<Rightarrow> bool" where
  "crypto_laws C \<longleftrightarrow>
     (\<forall>h. unpackHeader C (packHeader C h) = Some h)
     \<and> (\<forall>key nonce ad m. aeadDecrypt C key nonce ad (aeadEncrypt C key nonce ad m) = Some m)"

lemma readLe16_le16: "n < 65536 \<Longrightarrow> readLe16 (le16 n @ xs) = Some (n, xs)"
  by (simp add: le16_def unat_of_nat)

lemma le16_length [simp]: "length (le16 n) = 2"
  by (simp add: le16_def)

lemma readPayload_sent:
  assumes "length name < 65536" and "length dto < 65536"
  shows "readPayload header (le16 (length name) @ name @ le16 (length dto) @ dto)
    = Inr \<lparr>d_header = header, d_dtoNameBuffer = name, d_dataBuffer = dto, d_verified = True\<rparr>"
  using assms readLe16_le16 [of "length dto" dto] by (simp add: readPayload_def readLe16_le16)

lemma deserialize_sent:
  assumes "crypto_laws C" and "length (packHeader C header) < 65536"
    and "header = \<lparr>h_ChannelTag = tag, h_Sequence = ucast sequence, h_Mode = AEAD_ChaCha20Poly1305\<rparr>"
    and "key = (if loopback then m_aeadTransmitKey ch else m_aeadReceiveKey ch)"
    and "length name < 65536" and "length dto < 65536"
  shows "deserialize C ch (serialize C tag AEAD_ChaCha20Poly1305 key sequence name dto) loopback =
    (if 496 < length name + length dto then Inl BufferOverflow
     else Inr \<lparr>d_header = header, d_dtoNameBuffer = name, d_dataBuffer = dto, d_verified = True\<rparr>)"
proof -
  let ?hb = "packHeader C header"
  let ?payload = "le16 (length name) @ name @ le16 (length dto) @ dto"
  let ?ad = "le16 (length ?hb) @ ?hb"
  let ?ae = "aeadEncrypt C key (nonceOf (ucast sequence)) ?ad ?payload"
  have ser: "serialize C tag AEAD_ChaCha20Poly1305 key sequence name dto = le16 (length ?hb) @ ?hb @ ?ae"
    by (simp add: serialize_def assms(3) Let_def)
  have key: "(if loopback then getTransmitKey AEAD_ChaCha20Poly1305 ch
      else getReceiveKey AEAD_ChaCha20Poly1305 ch) = key"
    by (simp add: assms(4))
  have h: "h_Mode header = AEAD_ChaCha20Poly1305" "h_Sequence header = ucast sequence"
    by (simp_all add: assms(3))
  have "unpackHeader C ?hb = Some header" "aeadDecrypt C key (nonceOf (ucast sequence)) ?ad ?ae = Some ?payload"
    using assms(1) by (simp_all add: crypto_laws_def)
  moreover have "take (2 + length ?hb) (le16 (length ?hb) @ ?hb @ ?ae) = ?ad" by simp
  ultimately show ?thesis
    unfolding deserialize_def ser readLe16_le16 [OF assms(2)]
    by (simp add: key h readPayload_sent [OF assms(5,6)] Let_def)
qed

subsection \<open>Concrete libraries\<close>

text \<open>An encoding of headers and a cipher that satisfy the laws, for the examples.\<close>

fun modeByte :: "CryptoDtoMode \<Rightarrow> byte" where
  "modeByte ModeUndefined = 0" | "modeByte ModeNone = 1" | "modeByte AEAD_ChaCha20Poly1305 = 2"

definition byteMode :: "byte \<Rightarrow> CryptoDtoMode" where
  "byteMode b = (if b = 2 then AEAD_ChaCha20Poly1305 else if b = 1 then ModeNone else ModeUndefined)"

definition sampleCrypto :: Crypto where
  "sampleCrypto =
     \<lparr>packHeader = (\<lambda>h. modeByte (h_Mode h) # replicate (unat (h_Sequence h)) 0
        @ 1 # map (\<lambda>c. of_nat (of_char c)) (h_ChannelTag h)),
      unpackHeader = (\<lambda>bs. let n = length (takeWhile ((=) 0) (tl bs)) in
        Some \<lparr>h_ChannelTag = map (\<lambda>b. char_of (unat b)) (drop (n + 2) bs),
          h_Sequence = of_nat n, h_Mode = byteMode (hd bs)\<rparr>),
      aeadEncrypt = (\<lambda>key nonce ad m. m), aeadDecrypt = (\<lambda>key nonce ad m. Some m)\<rparr>"

lemma sample_laws: "crypto_laws sampleCrypto"
proof -
  have tag: "map (\<lambda>b. char_of (unat b)) (map (\<lambda>c. of_nat (of_char c) :: byte) t) = t" for t :: string
    by (induction t) (simp_all add: unat_of_nat)
  have mode: "byteMode (modeByte m) = m" for m by (cases m) (simp_all add: byteMode_def)
  have zeros: "takeWhile ((=) 0) (replicate n 0 @ (1 :: byte) # t) = replicate n 0" for n t
    by (induction n) simp_all
  show ?thesis by (simp add: crypto_laws_def sampleCrypto_def zeros tag mode Let_def del: map_map)
qed

lemma sample_header: "length (packHeader sampleCrypto h) = unat (h_Sequence h) + 2 + length (h_ChannelTag h)"
  by (simp add: sampleCrypto_def)

end
