(* ===== verification/Airspace_Analyzer.thy ===== *)
theory Airspace_Analyzer
  imports Fsd_Client "HOL-Library.AList" "HOL-Library.Product_Lexorder" "HOL-Library.List_Lexorder"
    "HOL-Library.Char_ord"
begin

text \<open>
  The watchdog and the snapshots of the airspace, \<open>CAirspaceAnalyzer\<close>
  (\<open>src/core/airspaceanalyzer.cpp\<close>) and \<open>CAirspaceAircraftSnapshot\<close>
  (\<open>src/misc/simulation/airspaceaircraftsnapshot.cpp\<close>). A server does not tell the others when
  a client crashes; the watchdog reports a callsign that has been silent for too long. A hash
  table of time stamps is a list of entries with different keys; the order in which callsigns
  are reported is the one of the list. Times are in ms, distances whole metres.
\<close>

subsection \<open>Snapshots\<close>

record CSimulatedAircraft =
  sa_callsign :: string
  sa_enabled :: bool
  sa_vtol :: bool
  sa_rendered :: bool
  sa_relativeDistance :: int

record CAirspaceAircraftSnapshot =
  sn_timestampMsSinceEpoch :: int
  sn_restricted :: bool
  sn_renderingEnabled :: bool
  sn_restrictionChanged :: bool
  sn_aircraft :: "string set"
  sn_enabledAircraft :: "string set"
  sn_disabledAircraft :: "string set"
  sn_vtolAircraft :: "string set"
  sn_enabledVtolAircraft :: "string set"

definition snapshot_default :: CAirspaceAircraftSnapshot where
  "snapshot_default =
     \<lparr>sn_timestampMsSinceEpoch = -1, sn_restricted = False, sn_renderingEnabled = True,
      sn_restrictionChanged = False, sn_aircraft = {}, sn_enabledAircraft = {},
      sn_disabledAircraft = {}, sn_vtolAircraft = {}, sn_enabledVtolAircraft = {}\<rparr>"

text \<open>One turn of the loop over the aircraft, with the number of those enabled so far.\<close>

definition restrictAircraft ::
  "int \<Rightarrow> int option \<Rightarrow> CSimulatedAircraft \<Rightarrow> int \<times> CAirspaceAircraftSnapshot
   \<Rightarrow> int \<times> CAirspaceAircraftSnapshot" where
  "restrictAircraft maxAircraft maxRenderedDistance a = (\<lambda>(count, sn).
     let cs = sa_callsign a;
         disabled = (count, sn\<lparr>sn_disabledAircraft := insert cs (sn_disabledAircraft sn)\<rparr>)
     in if sa_enabled a then
          if maxAircraft \<le> count
             \<or> (case maxRenderedDistance of None \<Rightarrow> False | Some d \<Rightarrow> d \<le> sa_relativeDistance a)
          then disabled
          else (count + 1,
                sn\<lparr>sn_enabledAircraft := insert cs (sn_enabledAircraft sn),
                   sn_enabledVtolAircraft := (if sa_vtol a then {cs} else {}) \<union> sn_enabledVtolAircraft sn\<rparr>)
        else disabled)"

text \<open>By distance, the rendered ones first, then by callsign.\<close>

definition sortAircraft :: "CSimulatedAircraft list \<Rightarrow> CSimulatedAircraft list" where
  "sortAircraft = sort_key (\<lambda>a. (sa_relativeDistance a, \<not> sa_rendered a, sa_callsign a))"

text \<open>An ordered set of callsigns (\<open>CCallsignSet\<close>): the order of insertion is lost.\<close>

definition getCallsigns :: "CSimulatedAircraft list \<Rightarrow> string set" where
  "getCallsigns aircraft = set (map sa_callsign aircraft)"

definition mkSnapshot ::
  "int \<Rightarrow> CSimulatedAircraft list \<Rightarrow> bool \<Rightarrow> bool \<Rightarrow> int \<Rightarrow> int option \<Rightarrow> CAirspaceAircraftSnapshot" where
  "mkSnapshot now allAircraft restricted renderingEnabled maxAircraft maxRenderedDistance =
     (let sn = snapshot_default\<lparr>sn_timestampMsSinceEpoch := now, sn_restricted := restricted,
                 sn_renderingEnabled := renderingEnabled\<rparr>
      in if allAircraft = [] then sn
         else
           let aircraft = sortAircraft allAircraft;
               vtolAircraft = filter sa_vtol aircraft;
               sn1 = sn\<lparr>sn_aircraft := getCallsigns aircraft,
                        sn_vtolAircraft := getCallsigns vtolAircraft\<rparr>
           in if \<not> restricted then
                sn1\<lparr>sn_enabledAircraft := getCallsigns (filter sa_enabled aircraft),
                    sn_disabledAircraft := getCallsigns (filter (Not \<circ> sa_enabled) aircraft),
                    sn_enabledVtolAircraft := getCallsigns (filter sa_enabled vtolAircraft)\<rparr>
              else if \<not> renderingEnabled then
                sn1\<lparr>sn_disabledAircraft := getCallsigns aircraft\<rparr>
              else snd (fold (restrictAircraft maxAircraft maxRenderedDistance) aircraft (0, sn1)))"

definition isValidSnapshot :: "CAirspaceAircraftSnapshot \<Rightarrow> bool" where
  "isValidSnapshot sn \<longleftrightarrow> 0 < sn_timestampMsSinceEpoch sn"

definition setRestrictionChanged ::
  "CAirspaceAircraftSnapshot \<Rightarrow> CAirspaceAircraftSnapshot \<Rightarrow> CAirspaceAircraftSnapshot" where
  "setRestrictionChanged snapshot sn =
     sn\<lparr>sn_restrictionChanged :=
          (if isValidSnapshot sn = isValidSnapshot snapshot
           then sn_restricted snapshot \<noteq> sn_restricted sn
                \<or> sn_renderingEnabled snapshot \<noteq> sn_renderingEnabled sn
           else True)\<rparr>"

subsection \<open>The analyzer\<close>

type_synonym CCallsignTimestampSet = "(string \<times> int) list"

datatype AnalyzerSignal =
    TimeoutAircraft string
  | TimeoutAtc string
  | AirspaceAircraftSnapshot CAirspaceAircraftSnapshot

record CAirspaceAnalyzer =
  an_aircraftCallsignTimestamps :: CCallsignTimestampSet
  an_atcCallsignTimestamps :: CCallsignTimestampSet
  an_timeoutAircraftMs :: int
  an_timeoutAtcMs :: int
  an_lastWatchdogCallMsSinceEpoch :: int
  an_doNotRunAgainBefore :: int
  an_enabledWatchdog :: bool
  an_timerRunning :: bool
  an_latestAircraftSnapshot :: CAirspaceAircraftSnapshot
  an_restricted :: bool
  an_renderingEnabled :: bool
  an_maxRenderedAircraft :: int
  an_maxRenderedDistance :: "int option"

definition updateInterval :: int where "updateInterval = 7500"

definition mkAnalyzer :: "int \<Rightarrow> CAirspaceAnalyzer" where
  "mkAnalyzer now =
     \<lparr>an_aircraftCallsignTimestamps = [], an_atcCallsignTimestamps = [],
      an_timeoutAircraftMs = 15000, an_timeoutAtcMs = 50000,
      an_lastWatchdogCallMsSinceEpoch = now, an_doNotRunAgainBefore = -1,
      an_enabledWatchdog = True, an_timerRunning = True,
      an_latestAircraftSnapshot = snapshot_default, an_restricted = False,
      an_renderingEnabled = True, an_maxRenderedAircraft = -1, an_maxRenderedDistance = None\<rparr>"

definition setSimulatorRenderRestrictionsChanged ::
  "bool \<Rightarrow> bool \<Rightarrow> int \<Rightarrow> int option \<Rightarrow> CAirspaceAnalyzer \<Rightarrow> CAirspaceAnalyzer" where
  "setSimulatorRenderRestrictionsChanged restricted enabled maxAircraft maxRenderedDistance an =
     an\<lparr>an_restricted := restricted, an_renderingEnabled := enabled,
        an_maxRenderedAircraft := maxAircraft, an_maxRenderedDistance := maxRenderedDistance\<rparr>"

definition watchdogTouchAircraftCallsign :: "int \<Rightarrow> string \<Rightarrow> CAirspaceAnalyzer \<Rightarrow> CAirspaceAnalyzer" where
  "watchdogTouchAircraftCallsign now cs an =
     an\<lparr>an_aircraftCallsignTimestamps := AList.update cs now (an_aircraftCallsignTimestamps an)\<rparr>"

definition watchdogTouchAtcCallsign :: "int \<Rightarrow> string \<Rightarrow> CAirspaceAnalyzer \<Rightarrow> CAirspaceAnalyzer" where
  "watchdogTouchAtcCallsign now cs an =
     an\<lparr>an_atcCallsignTimestamps := AList.update cs now (an_atcCallsignTimestamps an)\<rparr>"

definition watchdogRemoveAircraftCallsign :: "string \<Rightarrow> CAirspaceAnalyzer \<Rightarrow> CAirspaceAnalyzer" where
  "watchdogRemoveAircraftCallsign cs an =
     an\<lparr>an_aircraftCallsignTimestamps := AList.delete cs (an_aircraftCallsignTimestamps an)\<rparr>"

definition watchdogRemoveAtcCallsign :: "string \<Rightarrow> CAirspaceAnalyzer \<Rightarrow> CAirspaceAnalyzer" where
  "watchdogRemoveAtcCallsign cs an =
     an\<lparr>an_atcCallsignTimestamps := AList.delete cs (an_atcCallsignTimestamps an)\<rparr>"

definition clearAnalyzer :: "CAirspaceAnalyzer \<Rightarrow> CAirspaceAnalyzer" where
  "clearAnalyzer an =
     an\<lparr>an_aircraftCallsignTimestamps := [], an_atcCallsignTimestamps := [],
        an_latestAircraftSnapshot := snapshot_default\<rparr>"

definition onConnectionStatusChanged :: "ConnectionStatus \<Rightarrow> CAirspaceAnalyzer \<Rightarrow> CAirspaceAnalyzer" where
  "onConnectionStatusChanged newStatus an =
     (if newStatus = Disconnected then (clearAnalyzer an)\<lparr>an_timerRunning := False\<rparr>
      else if newStatus = Connected then an\<lparr>an_timerRunning := True\<rparr>
      else an)"

text \<open>The value of a callsign that is not in the table is 0.\<close>

definition timestampOf :: "string \<Rightarrow> CCallsignTimestampSet \<Rightarrow> int" where
  "timestampOf cs ts = (case map_of ts cs of Some t \<Rightarrow> t | None \<Rightarrow> 0)"

text \<open>One turn of each of the two loops of \<open>watchdogCheckTimeouts\<close>.\<close>

definition checkAircraft ::
  "bool \<Rightarrow> int \<Rightarrow> string \<Rightarrow> CAirspaceAnalyzer \<times> AnalyzerSignal list \<Rightarrow> CAirspaceAnalyzer \<times> AnalyzerSignal list" where
  "checkAircraft enabled timeoutEpochMs cs = (\<lambda>(an, sigs).
     let an1 = (if \<not> enabled
                then an\<lparr>an_aircraftCallsignTimestamps :=
                         AList.update cs (timeoutEpochMs + 1000) (an_aircraftCallsignTimestamps an)\<rparr>
                else an);
         tsv = timestampOf cs (an_aircraftCallsignTimestamps an1)
     in if timeoutEpochMs < tsv then (an1, sigs)
        else (watchdogRemoveAircraftCallsign cs an1, sigs @ [TimeoutAircraft cs]))"

definition checkAtc ::
  "bool \<Rightarrow> int \<Rightarrow> string \<Rightarrow> CAirspaceAnalyzer \<times> AnalyzerSignal list \<Rightarrow> CAirspaceAnalyzer \<times> AnalyzerSignal list" where
  "checkAtc enabled timeoutEpochMs cs = (\<lambda>(an, sigs).
     let an1 = (if \<not> enabled
                then an\<lparr>an_aircraftCallsignTimestamps :=
                         AList.update cs (timeoutEpochMs + 1000) (an_aircraftCallsignTimestamps an)\<rparr>
                else an);
         tsv = timestampOf cs (an_atcCallsignTimestamps an1)
     in if timeoutEpochMs < tsv then (an1, sigs)
        else (watchdogRemoveAtcCallsign cs an1, sigs @ [TimeoutAtc cs]))"

definition watchdogCheckTimeouts :: "int \<Rightarrow> CAirspaceAnalyzer \<Rightarrow> CAirspaceAnalyzer \<times> AnalyzerSignal list" where
  "watchdogCheckTimeouts now an =
     (let callDiffMs = now - an_lastWatchdogCallMsSinceEpoch an;
          callThresholdMs = updateInterval * 3 div 2;
          an1 = an\<lparr>an_lastWatchdogCallMsSinceEpoch := now\<rparr>
      in if callThresholdMs < callDiffMs then
           (an1\<lparr>an_doNotRunAgainBefore := now + 2 * callThresholdMs\<rparr>, [])
         else if now < an_doNotRunAgainBefore an1 then (an1, [])
         else
           let an2 = an1\<lparr>an_doNotRunAgainBefore := -1\<rparr>;
               enabled = an_enabledWatchdog an2;
               r = fold (checkAircraft enabled (now - an_timeoutAircraftMs an2))
                     (map fst (an_aircraftCallsignTimestamps an2)) (an2, [])
           in fold (checkAtc enabled (now - an_timeoutAtcMs an2))
                (map fst (an_atcCallsignTimestamps (fst r))) r)"

definition analyzeAirspace ::
  "int \<Rightarrow> CSimulatedAircraft list \<Rightarrow> CAirspaceAnalyzer \<Rightarrow> CAirspaceAnalyzer \<times> AnalyzerSignal list" where
  "analyzeAirspace now aircraftInRange an =
     (let snapshot = mkSnapshot now aircraftInRange (an_restricted an) (an_renderingEnabled an)
                       (an_maxRenderedAircraft an) (an_maxRenderedDistance an);
          wasValid = isValidSnapshot (an_latestAircraftSnapshot an);
          snapshot = (if wasValid then setRestrictionChanged (an_latestAircraftSnapshot an) snapshot
                      else snapshot);
          an1 = an\<lparr>an_latestAircraftSnapshot := snapshot\<rparr>
      in (an1, if wasValid then [AirspaceAircraftSnapshot snapshot] else []))"

definition onTimeout ::
  "int \<Rightarrow> bool \<Rightarrow> CSimulatedAircraft list \<Rightarrow> CAirspaceAnalyzer \<Rightarrow> CAirspaceAnalyzer \<times> AnalyzerSignal list" where
  "onTimeout now isEnabled aircraftInRange an =
     (if \<not> isEnabled then (an, [])
      else case analyzeAirspace now aircraftInRange an of (an1, sigs1) \<Rightarrow>
        case watchdogCheckTimeouts now an1 of (an2, sigs2) \<Rightarrow> (an2, sigs1 @ sigs2))"

subsection \<open>The nearest aircraft are kept\<close>

definition canRender :: "int option \<Rightarrow> CSimulatedAircraft \<Rightarrow> bool" where
  "canRender maxRenderedDistance a \<longleftrightarrow> sa_enabled a
     \<and> (case maxRenderedDistance of None \<Rightarrow> True | Some d \<Rightarrow> sa_relativeDistance a < d)"

lemma restrict_step:
  "restrictAircraft n d a (m, sn) =
     (if canRender d a \<and> m < n
      then (m + 1, sn\<lparr>sn_enabledAircraft := insert (sa_callsign a) (sn_enabledAircraft sn),
              sn_enabledVtolAircraft := (if sa_vtol a then {sa_callsign a} else {}) \<union> sn_enabledVtolAircraft sn\<rparr>)
      else (m, sn\<lparr>sn_disabledAircraft := insert (sa_callsign a) (sn_disabledAircraft sn)\<rparr>))"
  by (auto simp: restrictAircraft_def canRender_def Let_def split: option.splits)

lemma fold_restrict_enabled:
  "sn_enabledAircraft (snd (fold (restrictAircraft n d) xs (m, sn)))
     = sa_callsign ` set (take (nat (n - m)) (filter (canRender d) xs)) \<union> sn_enabledAircraft sn"
proof (induction xs arbitrary: m sn)
  case (Cons a xs)
  have "nat (n - m) = (if m < n then Suc (nat (n - (m + 1))) else 0)"
    by (simp split: if_split; linarith)
  with Cons show ?case by (simp add: restrict_step)
qed simp

lemma fold_restrict_all:
  "sn_enabledAircraft (snd (fold (restrictAircraft n d) xs (m, sn)))
       \<union> sn_disabledAircraft (snd (fold (restrictAircraft n d) xs (m, sn)))
     = sa_callsign ` set xs \<union> sn_enabledAircraft sn \<union> sn_disabledAircraft sn"
proof (induction xs arbitrary: m sn)
  case (Cons a xs)
  then show ?case by (auto simp: restrict_step)
qed simp

lemma sortAircraft_sorted: "sorted (map sa_relativeDistance (sortAircraft xs))"
proof -
  have "sorted (map (\<lambda>a. (sa_relativeDistance a, \<not> sa_rendered a, sa_callsign a)) (sortAircraft xs))"
    by (simp add: sortAircraft_def)
  then show ?thesis
    unfolding sorted_map by (rule sorted_wrt_mono_rel [rotated]) (auto simp: less_eq_prod_def)
qed

lemma set_sortAircraft [simp]: "set (sortAircraft xs) = set xs" "mset (sortAircraft xs) = mset xs"
  by (simp_all add: sortAircraft_def)

lemma snapshot_restricted:
  assumes "xs \<noteq> []"
  shows "\<exists>sn. sn_enabledAircraft sn = {} \<and> sn_disabledAircraft sn = {}
    \<and> mkSnapshot now xs True True n d = snd (fold (restrictAircraft n d) (sortAircraft xs) (0, sn))"
  by (rule exI [of _ "snapshot_default\<lparr>sn_timestampMsSinceEpoch := now, sn_restricted := True,
          sn_renderingEnabled := True, sn_aircraft := getCallsigns (sortAircraft xs),
          sn_vtolAircraft := getCallsigns (filter sa_vtol (sortAircraft xs))\<rparr>"])
     (simp add: mkSnapshot_def Let_def snapshot_default_def assms)

lemma snapshot_enabled:
  "sn_enabledAircraft (mkSnapshot now xs True True n d)
     = sa_callsign ` set (take (nat n) (filter (canRender d) (sortAircraft xs)))"
proof (cases "xs = []")
  case False
  then show ?thesis
    using snapshot_restricted [OF False, of now n d] by (auto simp: fold_restrict_enabled)
qed (simp add: mkSnapshot_def snapshot_default_def Let_def sortAircraft_def)

lemma snapshot_complete:
  "sn_enabledAircraft (mkSnapshot now xs True True n d) \<union> sn_disabledAircraft (mkSnapshot now xs True True n d)
     = sa_callsign ` set xs"
proof (cases "xs = []")
  case False
  then obtain sn where "sn_enabledAircraft sn = {}" "sn_disabledAircraft sn = {}"
    "mkSnapshot now xs True True n d = snd (fold (restrictAircraft n d) (sortAircraft xs) (0, sn))"
    using snapshot_restricted by blast
  then show ?thesis by (simp add: fold_restrict_all)
qed (simp add: mkSnapshot_def snapshot_default_def Let_def)

lemma snapshot_bounded: "card (sn_enabledAircraft (mkSnapshot now xs True True n d)) \<le> nat n"
proof -
  have "card (sa_callsign ` set ys) \<le> length ys" for ys :: "CSimulatedAircraft list"
    using card_image_le [of "set ys" sa_callsign] card_length [of ys] by simp
  then show ?thesis unfolding snapshot_enabled by (metis length_take min.cobounded2 le_trans)
qed

lemma kept_nearest:
  assumes "distinct (map sa_callsign xs)" and "a \<in> set xs" and "b \<in> set xs" and "canRender d b"
    and "sa_callsign a \<in> sn_enabledAircraft (mkSnapshot now xs True True n d)"
    and "sa_callsign b \<notin> sn_enabledAircraft (mkSnapshot now xs True True n d)"
  shows "sa_relativeDistance a \<le> sa_relativeDistance b"
proof -
  let ?ys = "filter (canRender d) (sortAircraft xs)"
  obtain a' where a': "a' \<in> set (take (nat n) ?ys)" "sa_callsign a' = sa_callsign a"
    using assms(5) by (auto simp: snapshot_enabled)
  then have "a' \<in> set xs" by (auto dest: in_set_takeD)
  with a' assms(1,2) have a: "a \<in> set (take (nat n) ?ys)" by (auto simp: distinct_map inj_on_def)
  have "b \<in> set ?ys" and "b \<notin> set (take (nat n) ?ys)" using assms(3,4,6) by (auto simp: snapshot_enabled)
  then have b: "b \<in> set (drop (nat n) ?ys)" by (metis append_take_drop_id Un_iff set_append)
  have "sorted (map sa_relativeDistance ?ys)" by (rule sorted_filter) (rule sortAircraft_sorted)
  then have "sorted (map sa_relativeDistance (take (nat n) ?ys @ drop (nat n) ?ys))" by simp
  with a b show ?thesis by (simp add: sorted_append del: append_take_drop_id)
qed

subsection \<open>The watchdog\<close>

text \<open>The check does its work when the previous one was not long ago.\<close>

definition runs :: "int \<Rightarrow> CAirspaceAnalyzer \<Rightarrow> bool" where
  "runs now an \<longleftrightarrow> now - an_lastWatchdogCallMsSinceEpoch an \<le> 11250 \<and> an_doNotRunAgainBefore an \<le> now"

definition tables_ok :: "CAirspaceAnalyzer \<Rightarrow> bool" where
  "tables_ok an \<longleftrightarrow> distinct (map fst (an_aircraftCallsignTimestamps an))
     \<and> distinct (map fst (an_atcCallsignTimestamps an))"

definition silentSince :: "int \<Rightarrow> CCallsignTimestampSet \<Rightarrow> string list" where
  "silentSince t ts = map fst (filter (\<lambda>(cs, tsv). tsv \<le> t) ts)"

definition heardSince :: "int \<Rightarrow> CCallsignTimestampSet \<Rightarrow> CCallsignTimestampSet" where
  "heardSince t ts = filter (\<lambda>(cs, tsv). t < tsv) ts"

lemma filter_other_keys: "cs \<notin> fst ` set xs \<Longrightarrow> filter (\<lambda>(k, _). cs \<noteq> k) xs = xs"
  by (induction xs) auto

lemma table_middle:
  assumes "distinct (map fst (pre @ (cs, v) # ts))"
  shows "timestampOf cs (pre @ (cs, v) # ts) = v" "AList.delete cs (pre @ (cs, v) # ts) = pre @ ts"
proof -
  have cs: "cs \<notin> fst ` set pre" "cs \<notin> fst ` set ts" using assms by auto
  then have "map_of pre cs = None" by (simp add: map_of_eq_None_iff)
  then show "timestampOf cs (pre @ (cs, v) # ts) = v" by (simp add: timestampOf_def map_add_def)
  show "AList.delete cs (pre @ (cs, v) # ts) = pre @ ts"
    using cs by (simp add: AList.delete_eq filter_other_keys)
qed

lemma fold_aircraft:
  assumes "distinct (map fst (pre @ ts))" and "an_aircraftCallsignTimestamps an = pre @ ts"
  shows "fold (checkAircraft True t) (map fst ts) (an, sigs) =
    (an\<lparr>an_aircraftCallsignTimestamps := pre @ heardSince t ts\<rparr>,
     sigs @ map TimeoutAircraft (silentSince t ts))"
  using assms
proof (induction ts arbitrary: pre an sigs)
  case (Cons x ts)
  obtain cs tsv where x: "x = (cs, tsv)" by fastforce
  note m = table_middle [OF Cons.prems(1) [unfolded x]]
  show ?case
  proof (cases "t < tsv")
    case True
    with m Cons.prems(2) have "checkAircraft True t cs (an, sigs) = (an, sigs)"
      by (simp add: checkAircraft_def x)
    with True Cons.IH [of "pre @ [(cs, tsv)]" an sigs] Cons.prems show ?thesis
      by (simp add: x silentSince_def heardSince_def)
  next
    case False
    let ?an = "an\<lparr>an_aircraftCallsignTimestamps := pre @ ts\<rparr>"
    from False m Cons.prems(2) have "checkAircraft True t cs (an, sigs) = (?an, sigs @ [TimeoutAircraft cs])"
      by (simp add: checkAircraft_def watchdogRemoveAircraftCallsign_def x)
    with False Cons.IH [of "pre" ?an "sigs @ [TimeoutAircraft cs]"] Cons.prems show ?thesis
      by (simp add: x silentSince_def heardSince_def)
  qed
qed (simp add: silentSince_def heardSince_def)

lemma fold_atc:
  assumes "distinct (map fst (pre @ ts))" and "an_atcCallsignTimestamps an = pre @ ts"
  shows "fold (checkAtc True t) (map fst ts) (an, sigs) =
    (an\<lparr>an_atcCallsignTimestamps := pre @ heardSince t ts\<rparr>,
     sigs @ map TimeoutAtc (silentSince t ts))"
  using assms
proof (induction ts arbitrary: pre an sigs)
  case (Cons x ts)
  obtain cs tsv where x: "x = (cs, tsv)" by fastforce
  note m = table_middle [OF Cons.prems(1) [unfolded x]]
  show ?case
  proof (cases "t < tsv")
    case True
    with m Cons.prems(2) have "checkAtc True t cs (an, sigs) = (an, sigs)"
      by (simp add: checkAtc_def x)
    with True Cons.IH [of "pre @ [(cs, tsv)]" an sigs] Cons.prems show ?thesis
      by (simp add: x silentSince_def heardSince_def)
  next
    case False
    let ?an = "an\<lparr>an_atcCallsignTimestamps := pre @ ts\<rparr>"
    from False m Cons.prems(2) have "checkAtc True t cs (an, sigs) = (?an, sigs @ [TimeoutAtc cs])"
      by (simp add: checkAtc_def watchdogRemoveAtcCallsign_def x)
    with False Cons.IH [of "pre" ?an "sigs @ [TimeoutAtc cs]"] Cons.prems show ?thesis
      by (simp add: x silentSince_def heardSince_def)
  qed
qed (simp add: silentSince_def heardSince_def)

lemma watchdog_enabled:
  assumes "tables_ok an" and "an_enabledWatchdog an" and "runs now an"
  shows "watchdogCheckTimeouts now an =
    (an\<lparr>an_lastWatchdogCallMsSinceEpoch := now, an_doNotRunAgainBefore := -1,
        an_aircraftCallsignTimestamps := heardSince (now - an_timeoutAircraftMs an) (an_aircraftCallsignTimestamps an),
        an_atcCallsignTimestamps := heardSince (now - an_timeoutAtcMs an) (an_atcCallsignTimestamps an)\<rparr>,
     map TimeoutAircraft (silentSince (now - an_timeoutAircraftMs an) (an_aircraftCallsignTimestamps an))
     @ map TimeoutAtc (silentSince (now - an_timeoutAtcMs an) (an_atcCallsignTimestamps an)))"
  using assms
  by (simp add: watchdogCheckTimeouts_def runs_def updateInterval_def Let_def tables_ok_def
      fold_aircraft [where pre = "[]"] fold_atc [where pre = "[]"])

text \<open>With the watchdog disabled, the loop over the aircraft reports nothing: every time stamp
  is replaced by a recent one. The loop over the ATC stations does the same, to the table of the
  aircraft: the stations are not excused, and their callsigns are entered as aircraft.\<close>

lemma checkAircraft_disabled:
  "checkAircraft False t cs (an, sigs) =
     (an\<lparr>an_aircraftCallsignTimestamps := AList.update cs (t + 1000) (an_aircraftCallsignTimestamps an)\<rparr>, sigs)"
  by (simp add: checkAircraft_def Let_def timestampOf_def update_conv')

lemma checkAtc_disabled:
  assumes "an_atcCallsignTimestamps an = [(cs, tsv)]" and "tsv \<le> t"
  shows "checkAtc False t cs (an, sigs) =
     (an\<lparr>an_aircraftCallsignTimestamps := AList.update cs (t + 1000) (an_aircraftCallsignTimestamps an),
         an_atcCallsignTimestamps := []\<rparr>, sigs @ [TimeoutAtc cs])"
  using assms by (simp add: checkAtc_def timestampOf_def watchdogRemoveAtcCallsign_def)

lemma watchdog_disabled:
  assumes "\<not> an_enabledWatchdog an" and "runs now an" and "an_aircraftCallsignTimestamps an = []"
    and "an_atcCallsignTimestamps an = [(cs, tsv)]" and "tsv \<le> now - an_timeoutAtcMs an"
  shows "snd (watchdogCheckTimeouts now an) = [TimeoutAtc cs]"
    and "an_aircraftCallsignTimestamps (fst (watchdogCheckTimeouts now an))
           = [(cs, now - an_timeoutAtcMs an + 1000)]"
  using assms
  by (simp_all add: watchdogCheckTimeouts_def runs_def updateInterval_def Let_def
      checkAtc_disabled [where tsv = tsv])

text \<open>The tables keep their form.\<close>

lemma tables_touch:
  "tables_ok an \<Longrightarrow> tables_ok (watchdogTouchAircraftCallsign now cs an)"
  "tables_ok an \<Longrightarrow> tables_ok (watchdogTouchAtcCallsign now cs an)"
  "tables_ok an \<Longrightarrow> tables_ok (watchdogRemoveAircraftCallsign cs an)"
  "tables_ok an \<Longrightarrow> tables_ok (watchdogRemoveAtcCallsign cs an)"
  "tables_ok (clearAnalyzer an)" "tables_ok (mkAnalyzer now)"
  by (simp_all add: tables_ok_def watchdogTouchAircraftCallsign_def watchdogTouchAtcCallsign_def
      watchdogRemoveAircraftCallsign_def watchdogRemoveAtcCallsign_def clearAnalyzer_def mkAnalyzer_def
      distinct_update distinct_delete)

end
