(* ===== verification/Timestamp_List.thy ===== *)
theory Timestamp_List
  imports Main "HOL-Library.Multiset" "HOL-Library.Signed_Division"
begin

text \<open>
  Lists of objects with a time stamp, \<open>ITimestampObjectList\<close> and
  \<open>ITimestampWithOffsetObjectList\<close> (\<open>src/misc/timestampobjectlist.h\<close>), of objects with a
  time stamp and an offset (\<open>src/misc/timestampbased.h\<close>). The objects are records that extend
  the record of the base class. The list of an aircraft's situations and parts is such a list,
  the latest first. A default constructed object, the result for an empty list, is
  \<^term>\<open>None\<close>. The library's sort is a parameter: it leaves open in which order objects of
  the same time stamp come.
\<close>

record ITimestampWithOffsetBased =
  m_timestampMSecsSinceEpoch :: int
  m_timeOffsetMs :: int

type_synonym 'z timed = "'z ITimestampWithOffsetBased_scheme"
type_synonym 'z sorter = "('z timed \<Rightarrow> int) \<Rightarrow> 'z timed list \<Rightarrow> 'z timed list"

definition sorts :: "'z sorter \<Rightarrow> bool" where
  "sorts srt \<longleftrightarrow> (\<forall>f xs. mset (srt f xs) = mset xs \<and> sorted (map f (srt f xs)))"

lemma sort_key_sorts [simp]: "sorts sort_key"
  by (simp add: sorts_def)

abbreviation getMSecsSinceEpoch :: "'z timed \<Rightarrow> int" where
  "getMSecsSinceEpoch \<equiv> m_timestampMSecsSinceEpoch"

definition getAdjustedMSecsSinceEpoch :: "'z timed \<Rightarrow> int" where
  "getAdjustedMSecsSinceEpoch obj = m_timestampMSecsSinceEpoch obj + m_timeOffsetMs obj"

definition hasValidTimestamp :: "'z timed \<Rightarrow> bool" where
  "hasValidTimestamp obj \<longleftrightarrow> 0 \<le> m_timestampMSecsSinceEpoch obj"

definition isNewerThan :: "'z timed \<Rightarrow> int \<Rightarrow> bool" where
  "isNewerThan obj t \<longleftrightarrow> t < m_timestampMSecsSinceEpoch obj"

definition isOlderThan :: "'z timed \<Rightarrow> int \<Rightarrow> bool" where
  "isOlderThan obj t \<longleftrightarrow> m_timestampMSecsSinceEpoch obj < t"

definition isNewerThanAdjusted :: "'z timed \<Rightarrow> int \<Rightarrow> bool" where
  "isNewerThanAdjusted obj t \<longleftrightarrow> t < getAdjustedMSecsSinceEpoch obj"

definition isOlderThanAdjusted :: "'z timed \<Rightarrow> int \<Rightarrow> bool" where
  "isOlderThanAdjusted obj t \<longleftrightarrow> getAdjustedMSecsSinceEpoch obj < t"

subsection \<open>Searching\<close>

text \<open>\<open>std::min_element\<close> and \<open>std::max_element\<close>: the first of several.\<close>

fun minElement :: "('a \<Rightarrow> int) \<Rightarrow> 'a list \<Rightarrow> 'a option" where
  "minElement f [] = None"
| "minElement f (x # xs) =
     (case minElement f xs of None \<Rightarrow> Some x | Some y \<Rightarrow> if f y < f x then Some y else Some x)"

definition maxElement :: "('a \<Rightarrow> int) \<Rightarrow> 'a list \<Rightarrow> 'a option" where
  "maxElement f = minElement (\<lambda>x. - f x)"

definition findBefore :: "int \<Rightarrow> 'z timed list \<Rightarrow> 'z timed list" where
  "findBefore t xs = filter (\<lambda>obj. isOlderThan obj t) xs"

definition findAfter :: "int \<Rightarrow> 'z timed list \<Rightarrow> 'z timed list" where
  "findAfter t xs = filter (\<lambda>obj. isNewerThan obj t) xs"

definition latestObject :: "'z timed list \<Rightarrow> 'z timed option" where
  "latestObject xs = maxElement getMSecsSinceEpoch xs"

definition oldestObject :: "'z timed list \<Rightarrow> 'z timed option" where
  "oldestObject xs = minElement getMSecsSinceEpoch xs"

definition findObjectBeforeOrDefault :: "int \<Rightarrow> 'z timed list \<Rightarrow> 'z timed option" where
  "findObjectBeforeOrDefault t xs = latestObject (findBefore t xs)"

definition findObjectAfterOrDefault :: "int \<Rightarrow> 'z timed list \<Rightarrow> 'z timed option" where
  "findObjectAfterOrDefault t xs = oldestObject (findAfter t xs)"

definition findClosestTimeDistance :: "int \<Rightarrow> 'z timed list \<Rightarrow> 'z timed option" where
  "findClosestTimeDistance t xs = minElement (\<lambda>obj. \<bar>t - m_timestampMSecsSinceEpoch obj\<bar>) xs"

definition latestTimestampMsecsSinceEpoch :: "'z timed list \<Rightarrow> int" where
  "latestTimestampMsecsSinceEpoch xs = (case latestObject xs of
       None \<Rightarrow> -1
     | Some obj \<Rightarrow> if hasValidTimestamp obj then m_timestampMSecsSinceEpoch obj else -1)"

definition oldestTimestampMsecsSinceEpoch :: "'z timed list \<Rightarrow> int" where
  "oldestTimestampMsecsSinceEpoch xs = (case oldestObject xs of
       None \<Rightarrow> -1
     | Some obj \<Rightarrow> if hasValidTimestamp obj then m_timestampMSecsSinceEpoch obj else -1)"

text \<open>The list without the removed objects, and how many were removed.\<close>

definition removeBefore :: "int \<Rightarrow> 'z timed list \<Rightarrow> 'z timed list \<times> nat" where
  "removeBefore t xs = (let ys = filter (\<lambda>obj. \<not> isOlderThan obj t) xs in (ys, length xs - length ys))"

definition findBeforeAndRemove :: "int \<Rightarrow> 'z timed list \<Rightarrow> 'z timed list \<times> 'z timed list" where
  "findBeforeAndRemove t xs = (findBefore t xs, fst (removeBefore t xs))"

definition findAfterAdjusted :: "int \<Rightarrow> 'z timed list \<Rightarrow> 'z timed list" where
  "findAfterAdjusted t xs = filter (\<lambda>obj. isNewerThanAdjusted obj t) xs"

definition findBeforeAdjusted :: "int \<Rightarrow> 'z timed list \<Rightarrow> 'z timed list" where
  "findBeforeAdjusted t xs = filter (\<lambda>obj. isOlderThanAdjusted obj t) xs"

text \<open>With the hint that the list is sorted the ends are taken without a look.\<close>

definition latestAdjustedObject :: "bool \<Rightarrow> 'z timed list \<Rightarrow> 'z timed option" where
  "latestAdjustedObject hint xs =
     (if xs = [] then None
      else if hint then Some (hd xs) else maxElement getAdjustedMSecsSinceEpoch xs)"

definition oldestAdjustedObject :: "bool \<Rightarrow> 'z timed list \<Rightarrow> 'z timed option" where
  "oldestAdjustedObject hint xs =
     (if xs = [] then None
      else if hint then Some (last xs) else minElement getAdjustedMSecsSinceEpoch xs)"

text \<open>A list that was searched for has no hint.\<close>

definition findObjectBeforeAdjustedOrDefault :: "int \<Rightarrow> 'z timed list \<Rightarrow> 'z timed option" where
  "findObjectBeforeAdjustedOrDefault t xs = latestAdjustedObject False (findBeforeAdjusted t xs)"

definition findObjectAfterAdjustedOrDefault :: "int \<Rightarrow> 'z timed list \<Rightarrow> 'z timed option" where
  "findObjectAfterAdjustedOrDefault t xs = oldestAdjustedObject False (findAfterAdjusted t xs)"

definition findClosestTimeDistanceAdjusted :: "int \<Rightarrow> 'z timed list \<Rightarrow> 'z timed option" where
  "findClosestTimeDistanceAdjusted t xs = minElement (\<lambda>obj. \<bar>getAdjustedMSecsSinceEpoch obj - t\<bar>) xs"

subsection \<open>Sorting\<close>

definition sortOldestFirst :: "'z sorter \<Rightarrow> 'z timed list \<Rightarrow> 'z timed list" where
  "sortOldestFirst srt xs = srt getMSecsSinceEpoch xs"

definition sortLatestFirst :: "'z sorter \<Rightarrow> 'z timed list \<Rightarrow> 'z timed list" where
  "sortLatestFirst srt xs = rev (sortOldestFirst srt xs)"

definition sortAdjustedOldestFirst :: "'z sorter \<Rightarrow> 'z timed list \<Rightarrow> 'z timed list" where
  "sortAdjustedOldestFirst srt xs = srt getAdjustedMSecsSinceEpoch xs"

definition sortAdjustedLatestFirst :: "'z sorter \<Rightarrow> 'z timed list \<Rightarrow> 'z timed list" where
  "sortAdjustedLatestFirst srt xs = rev (sortAdjustedOldestFirst srt xs)"

definition getLatestAdjustedTwoObjects :: "'z sorter \<Rightarrow> bool \<Rightarrow> 'z timed list \<Rightarrow> 'z timed list" where
  "getLatestAdjustedTwoObjects srt alreadySortedLatestFirst xs =
     (if length xs < 2 then []
      else take 2 (if alreadySortedLatestFirst then xs else sortAdjustedLatestFirst srt xs))"

text \<open>The loops of the four checks, with the greatest or least 64-bit number so far.\<close>

fun descending :: "('z timed \<Rightarrow> int) \<Rightarrow> int \<Rightarrow> 'z timed list \<Rightarrow> bool" where
  "descending f least [] \<longleftrightarrow> True"
| "descending f least (obj # xs) \<longleftrightarrow>
     hasValidTimestamp obj \<and> \<not> least < f obj \<and> descending f (f obj) xs"

fun ascending :: "('z timed \<Rightarrow> int) \<Rightarrow> int \<Rightarrow> 'z timed list \<Rightarrow> bool" where
  "ascending f greatest [] \<longleftrightarrow> True"
| "ascending f greatest (obj # xs) \<longleftrightarrow>
     hasValidTimestamp obj \<and> \<not> f obj < greatest \<and> ascending f (f obj) xs"

definition maxInt64 :: int where "maxInt64 = 9223372036854775807"

definition isSortedLatestFirst :: "'z timed list \<Rightarrow> bool" where
  "isSortedLatestFirst xs \<longleftrightarrow> length xs < 2 \<or> descending getMSecsSinceEpoch maxInt64 xs"

definition isSortedLatestLast :: "'z timed list \<Rightarrow> bool" where
  "isSortedLatestLast xs \<longleftrightarrow> length xs < 2 \<or> ascending getMSecsSinceEpoch (-1) xs"

definition isSortedAdjustedLatestFirst :: "'z timed list \<Rightarrow> bool" where
  "isSortedAdjustedLatestFirst xs \<longleftrightarrow> length xs < 2 \<or> descending getAdjustedMSecsSinceEpoch maxInt64 xs"

definition isSortedAdjustedLatestLast :: "'z timed list \<Rightarrow> bool" where
  "isSortedAdjustedLatestLast xs \<longleftrightarrow>
     xs \<noteq> [] \<and> (length xs < 2 \<or> ascending getAdjustedMSecsSinceEpoch (-1) xs)"

subsection \<open>Inserting\<close>

definition truncate_to :: "int \<Rightarrow> 'a list \<Rightarrow> 'a list" where
  "truncate_to maxElements xs = (if 0 < maxElements then take (nat maxElements) xs else xs)"

definition push_frontKeepLatestFirst ::
  "'z sorter \<Rightarrow> 'z timed \<Rightarrow> bool \<Rightarrow> int \<Rightarrow> 'z timed list \<Rightarrow> 'z timed list" where
  "push_frontKeepLatestFirst srt value replaceSameTimestamp maxElements c =
     (if replaceSameTimestamp \<and> c \<noteq> [] \<and> m_timestampMSecsSinceEpoch (hd c) = m_timestampMSecsSinceEpoch value
      then truncate_to maxElements (value # tl c)
      else
        let c1 = (if 0 < maxElements then take (nat (maxElements - 1)) c else c);
            needSort = (c1 \<noteq> [] \<and> isOlderThan value (m_timestampMSecsSinceEpoch (hd c1)));
            c2 = value # c1
        in if needSort then sortLatestFirst srt c2 else c2)"

definition push_frontKeepLatestAdjustedFirst ::
  "'z sorter \<Rightarrow> 'z timed \<Rightarrow> bool \<Rightarrow> int \<Rightarrow> 'z timed list \<Rightarrow> 'z timed list" where
  "push_frontKeepLatestAdjustedFirst srt value replaceSameTimestamp maxElements c =
     (if replaceSameTimestamp \<and> c \<noteq> [] \<and> m_timestampMSecsSinceEpoch (hd c) = m_timestampMSecsSinceEpoch value
      then truncate_to maxElements (value # tl c)
      else
        let c1 = (if 0 < maxElements then take (nat (maxElements - 1)) c else c);
            needSort = (c1 \<noteq> [] \<and> isOlderThanAdjusted value (getAdjustedMSecsSinceEpoch (hd c1)));
            c2 = value # c1
        in if needSort then sortAdjustedLatestFirst srt c2 else c2)"

text \<open>The front gets a larger offset when it is not newer than the second one.\<close>

definition adjustFrontOffset :: "'z timed list \<Rightarrow> 'z timed list" where
  "adjustFrontOffset c = (case c of
       front # second # rest \<Rightarrow>
         if \<not> isNewerThanAdjusted front (getAdjustedMSecsSinceEpoch second) then
           let minReqOs = getAdjustedMSecsSinceEpoch second - m_timestampMSecsSinceEpoch front;
               avgOs = (m_timeOffsetMs front + m_timeOffsetMs second) sdiv 2;
               os = max (minReqOs + 1) avgOs
           in front\<lparr>m_timeOffsetMs := os\<rparr> # second # rest
         else c
     | _ \<Rightarrow> c)"

definition push_frontKeepLatestFirstAdjustOffset ::
  "'z sorter \<Rightarrow> 'z timed \<Rightarrow> bool \<Rightarrow> int \<Rightarrow> 'z timed list \<Rightarrow> 'z timed list" where
  "push_frontKeepLatestFirstAdjustOffset srt value replaceSameTimestamp maxElements c =
     adjustFrontOffset (push_frontKeepLatestFirst srt value replaceSameTimestamp maxElements c)"

definition push_frontKeepLatestFirstIgnoreOverlapping ::
  "'z sorter \<Rightarrow> 'z timed \<Rightarrow> bool \<Rightarrow> int \<Rightarrow> 'z timed list \<Rightarrow> 'z timed list" where
  "push_frontKeepLatestFirstIgnoreOverlapping srt value replaceSameTimestamp maxElements c =
     (if 1 < length c \<and> getAdjustedMSecsSinceEpoch value \<le> getAdjustedMSecsSinceEpoch (hd c) then c
      else push_frontKeepLatestFirst srt value replaceSameTimestamp maxElements c)"

definition prefillLatestAdjustedFirst :: "'z timed \<Rightarrow> nat \<Rightarrow> int \<Rightarrow> 'z timed list" where
  "prefillLatestAdjustedFirst value elements deltaTimeMs =
     (let os = - \<bar>if deltaTimeMs < 0 then m_timeOffsetMs value else deltaTimeMs\<bar>
      in value # map (\<lambda>i. value\<lparr>m_timestampMSecsSinceEpoch := m_timestampMSecsSinceEpoch value + os * int i\<rparr>)
                   [1..<elements])"

definition push_backOverrideTimestamp :: "'z timed \<Rightarrow> int \<Rightarrow> 'z timed list \<Rightarrow> 'z timed list" where
  "push_backOverrideTimestamp newObject newTs c = c @ [newObject\<lparr>m_timestampMSecsSinceEpoch := newTs\<rparr>]"

definition push_backIncreaseTimestamp :: "'z timed \<Rightarrow> 'z timed list \<Rightarrow> 'z timed list" where
  "push_backIncreaseTimestamp newObject c =
     (if c = [] then [newObject]
      else
        let newMs = m_timestampMSecsSinceEpoch newObject;
            oldMs = m_timestampMSecsSinceEpoch (last c)
        in if oldMs < newMs then c @ [newObject]
           else push_backOverrideTimestamp newObject (oldMs + 1) c)"

definition replaceIfSameTimestamp :: "'z timed \<Rightarrow> 'z timed list \<Rightarrow> 'z timed list \<times> nat" where
  "replaceIfSameTimestamp newObject c =
     (let same = (\<lambda>obj. m_timestampMSecsSinceEpoch obj = m_timestampMSecsSinceEpoch newObject)
      in (map (\<lambda>obj. if same obj then newObject else obj) c, length (filter same c)))"

text \<open>From the last object to the first.\<close>

fun stampFrom :: "int \<Rightarrow> int \<Rightarrow> 'z timed list \<Rightarrow> 'z timed list" where
  "stampFrom t delta [] = []"
| "stampFrom t delta (obj # xs) = obj\<lparr>m_timestampMSecsSinceEpoch := t\<rparr> # stampFrom (t + delta) delta xs"

definition setNewTimestampStartingLast :: "int \<Rightarrow> int \<Rightarrow> 'z timed list \<Rightarrow> 'z timed list" where
  "setNewTimestampStartingLast startTimeStampMs deltaTimeMs c =
     rev (stampFrom startTimeStampMs deltaTimeMs (rev c))"

definition addMsecs :: "int \<Rightarrow> 'z timed list \<Rightarrow> 'z timed list" where
  "addMsecs ms c =
     (if ms = 0 then c
      else map (\<lambda>obj. obj\<lparr>m_timestampMSecsSinceEpoch := m_timestampMSecsSinceEpoch obj + ms\<rparr>) c)"

definition addMsecsToOffset :: "int \<Rightarrow> 'z timed list \<Rightarrow> 'z timed list" where
  "addMsecsToOffset ms c = map (\<lambda>obj. obj\<lparr>m_timeOffsetMs := m_timeOffsetMs obj + ms\<rparr>) c"

definition containsZeroOrNegativeOffsetTime :: "'z timed list \<Rightarrow> bool" where
  "containsZeroOrNegativeOffsetTime c \<longleftrightarrow> list_ex (\<lambda>obj. m_timeOffsetMs obj \<le> 0) c"

definition containsNegativeOffsetTime :: "'z timed list \<Rightarrow> bool" where
  "containsNegativeOffsetTime c \<longleftrightarrow> list_ex (\<lambda>obj. m_timeOffsetMs obj < 0) c"

subsection \<open>Minimum, maximum and mean\<close>

record MillisecondsMinMaxMean =
  mmm_min :: int
  mmm_max :: int
  mmm_mean :: int

definition mmm_reset :: MillisecondsMinMaxMean where
  "mmm_reset = \<lparr>mmm_min = -1, mmm_max = -1, mmm_mean = -1\<rparr>"

definition minInt64 :: int where "minInt64 = -9223372036854775808"

text \<open>The mean divides by the number of objects, not of differences.\<close>

definition getTimestampDifferenceMinMaxMean :: "'z sorter \<Rightarrow> bool \<Rightarrow> 'z timed list \<Rightarrow> MillisecondsMinMaxMean" where
  "getTimestampDifferenceMinMaxMean srt hint c =
     (if length c < 2 then mmm_reset
      else
        let xs = (if hint then c else sortLatestFirst srt c);
            diffs = map2 (\<lambda>l obj. \<bar>m_timestampMSecsSinceEpoch obj - m_timestampMSecsSinceEpoch l\<bar>) xs (tl xs)
        in \<lparr>mmm_min = fold min diffs maxInt64, mmm_max = fold max diffs minInt64,
            mmm_mean = sum_list diffs sdiv int (length xs)\<rparr>)"

definition getOffsetMinMaxMean :: "'z timed list \<Rightarrow> MillisecondsMinMaxMean" where
  "getOffsetMinMaxMean c =
     (if c = [] then mmm_reset
      else
        let offsets = filter (\<lambda>os. os \<noteq> 0) (map m_timeOffsetMs c)
        in \<lparr>mmm_min = fold min offsets maxInt64, mmm_max = fold max offsets minInt64,
            mmm_mean = (if offsets = [] then -1 else sum_list offsets sdiv int (length offsets))\<rparr>)"

end
