(* ===== verification/Timestamp_List_Laws.thy ===== *)
theory Timestamp_List_Laws
  imports Timestamp_List Fsd_Prelude
begin

text \<open>
  What the lists of \<open>Timestamp_List\<close> keep: the order and the bound whatever arrives, the
  adjusted order when objects arrive in the order of their time stamps. Order and bound are an
  instance of \<open>invariant_machine\<close>.
\<close>

subsection \<open>Order\<close>

definition sortedBy :: "('z timed \<Rightarrow> int) \<Rightarrow> 'z timed list \<Rightarrow> bool" where
  "sortedBy f xs \<longleftrightarrow> sorted_wrt (\<lambda>a b. f b \<le> f a) xs"

definition strictlyBy :: "('z timed \<Rightarrow> int) \<Rightarrow> 'z timed list \<Rightarrow> bool" where
  "strictlyBy f xs \<longleftrightarrow> sorted_wrt (\<lambda>a b. f b < f a) xs"

lemma sortedBy_simps [simp]:
  "sortedBy f []" "sortedBy f (x # xs) \<longleftrightarrow> (\<forall>y \<in> set xs. f y \<le> f x) \<and> sortedBy f xs"
  by (simp_all add: sortedBy_def)

lemma strictlyBy_simps [simp]:
  "strictlyBy f []" "strictlyBy f (x # xs) \<longleftrightarrow> (\<forall>y \<in> set xs. f y < f x) \<and> strictlyBy f xs"
  by (simp_all add: strictlyBy_def)

lemma strictlyBy_sortedBy: "strictlyBy f xs \<Longrightarrow> sortedBy f xs"
  by (induction xs) (auto intro: order_less_imp_le)

lemma sortedBy_take: "sortedBy f xs \<Longrightarrow> sortedBy f (take n xs)"
  by (auto simp: sortedBy_def intro: sorted_wrt_take)

lemma strictlyBy_take: "strictlyBy f xs \<Longrightarrow> strictlyBy f (take n xs)"
  by (auto simp: strictlyBy_def intro: sorted_wrt_take)

lemma sortedBy_rev_srt: "sorts srt \<Longrightarrow> sortedBy f (rev (srt f xs))"
  by (simp add: sorts_def sortedBy_def sorted_wrt_rev sorted_map)

lemma mset_srt: "sorts srt \<Longrightarrow> mset (srt f xs) = mset xs"
  by (simp add: sorts_def)

lemma set_srt: "sorts srt \<Longrightarrow> set (srt f xs) = set xs" "sorts srt \<Longrightarrow> length (srt f xs) = length xs"
  by (metis mset_srt set_mset_mset) (metis mset_srt size_mset)

lemma descending_sortedBy:
  "descending f m xs \<longleftrightarrow> (\<forall>x \<in> set xs. hasValidTimestamp x \<and> f x \<le> m) \<and> sortedBy f xs"
  by (induction f m xs rule: descending.induct) (auto simp: not_less intro: order_trans)

text \<open>The check of the source agrees with the order, for time stamps of 64 bits.\<close>

lemma isSortedLatestFirst_iff:
  assumes "\<forall>x \<in> set xs. hasValidTimestamp x \<and> m_timestampMSecsSinceEpoch x \<le> maxInt64"
  shows "isSortedLatestFirst xs \<longleftrightarrow> sortedBy getMSecsSinceEpoch xs"
proof (cases "length xs < 2")
  case True
  then have "xs = [] \<or> (\<exists>x. xs = [x])" by (cases xs rule: list.exhaust) (auto simp: less_Suc_eq_0_disj)
  with True show ?thesis by (auto simp: isSortedLatestFirst_def)
qed (use assms in \<open>auto simp: isSortedLatestFirst_def descending_sortedBy\<close>)

subsection \<open>Arrivals in any order\<close>

lemma push_front_sorted:
  assumes "sorts srt" and "sortedBy getMSecsSinceEpoch c"
  shows "sortedBy getMSecsSinceEpoch (push_frontKeepLatestFirst srt value rep n c)"
proof (cases "rep \<and> c \<noteq> [] \<and> m_timestampMSecsSinceEpoch (hd c) = m_timestampMSecsSinceEpoch value")
  case True
  then have "sortedBy getMSecsSinceEpoch (value # tl c)" using assms(2) by (cases c) auto
  with True show ?thesis by (simp add: push_frontKeepLatestFirst_def truncate_to_def sortedBy_take)
next
  case False
  define c1 where "c1 = (if 0 < n then take (nat (n - 1)) c else c)"
  have c1: "sortedBy getMSecsSinceEpoch c1" using assms(2) by (simp add: c1_def sortedBy_take)
  have "sortedBy getMSecsSinceEpoch (value # c1)"
    if "\<not> (c1 \<noteq> [] \<and> isOlderThan value (m_timestampMSecsSinceEpoch (hd c1)))"
    using that c1 by (cases c1) (auto simp: isOlderThan_def dest: order_trans)
  then show ?thesis
    using False assms(1)
    by (auto simp: push_frontKeepLatestFirst_def Let_def c1_def [symmetric] sortLatestFirst_def
        sortOldestFirst_def sortedBy_rev_srt simp del: sortedBy_simps)
qed

lemma push_front_elems:
  assumes "sorts srt"
  shows "value \<in> set (push_frontKeepLatestFirst srt value rep n c)"
    and "set (push_frontKeepLatestFirst srt value rep n c) \<subseteq> insert value (set c)"
  using assms
  by (auto simp: push_frontKeepLatestFirst_def truncate_to_def Let_def sortLatestFirst_def sortOldestFirst_def
      set_srt take_Cons' dest: in_set_takeD list.set_sel(2))

lemma push_front_bounded:
  assumes "sorts srt" and "0 < n" and "length c \<le> nat n"
  shows "length (push_frontKeepLatestFirst srt value rep n c) \<le> nat n"
  using assms
  by (cases c) (auto simp: push_frontKeepLatestFirst_def truncate_to_def Let_def sortLatestFirst_def
      sortOldestFirst_def set_srt)

text \<open>The offset is all that is changed.\<close>

lemma adjust_stamps: "map m_timestampMSecsSinceEpoch (adjustFrontOffset c) = map m_timestampMSecsSinceEpoch c"
  by (simp add: adjustFrontOffset_def Let_def split: list.split)

lemma adjust_length [simp]: "length (adjustFrontOffset c) = length c"
  by (metis adjust_stamps length_map)

lemma sortedBy_stamps:
  "sortedBy getMSecsSinceEpoch xs \<longleftrightarrow> sorted_wrt (\<ge>) (map m_timestampMSecsSinceEpoch xs)"
  by (simp add: sortedBy_def sorted_wrt_map)

lemma adjust_sorted: "sortedBy getMSecsSinceEpoch (adjustFrontOffset c) \<longleftrightarrow> sortedBy getMSecsSinceEpoch c"
  by (simp only: sortedBy_stamps adjust_stamps)

lemma adjust_front_newer:
  "adjustFrontOffset c = front # second # rest
   \<Longrightarrow> getAdjustedMSecsSinceEpoch second < getAdjustedMSecsSinceEpoch front"
  by (auto simp: adjustFrontOffset_def getAdjustedMSecsSinceEpoch_def isNewerThanAdjusted_def Let_def
      split: list.splits if_splits)

subsection \<open>Arrivals in order\<close>

text \<open>An object that is not older than the front.\<close>

lemma push_front_in_order:
  assumes "c = [] \<or> m_timestampMSecsSinceEpoch (hd c) < m_timestampMSecsSinceEpoch value"
  shows "push_frontKeepLatestFirst srt value rep n c
    = value # (if 0 < n then take (nat (n - 1)) c else c)"
  using assms by (cases c) (auto simp: push_frontKeepLatestFirst_def isOlderThan_def Let_def hd_take take_Cons')

lemma push_front_truncate:
  assumes "c = [] \<or> m_timestampMSecsSinceEpoch (hd c) < m_timestampMSecsSinceEpoch value" and "0 < n"
  shows "push_frontKeepLatestFirst srt value rep n c = take (nat n) (value # c)"
  using push_front_in_order [OF assms(1)] assms(2) by (simp add: take_Cons' nat_diff_distrib)

lemma adjust_strict:
  assumes "strictlyBy getAdjustedMSecsSinceEpoch c"
  shows "strictlyBy getAdjustedMSecsSinceEpoch (adjustFrontOffset (value # c))"
proof (cases c)
  case (Cons second rest)
  obtain front where f: "adjustFrontOffset (value # second # rest) = front # second # rest"
    by (cases "isNewerThanAdjusted value (getAdjustedMSecsSinceEpoch second)")
       (simp_all add: adjustFrontOffset_def Let_def)
  from adjust_front_newer [OF f] assms show ?thesis by (auto simp: Cons f dest: order_less_trans)
qed (simp add: adjustFrontOffset_def)

lemma push_adjusted_in_order:
  assumes "strictlyBy getAdjustedMSecsSinceEpoch c" and "0 < n"
    and "c = [] \<or> m_timestampMSecsSinceEpoch (hd c) \<le> m_timestampMSecsSinceEpoch value"
  shows "strictlyBy getAdjustedMSecsSinceEpoch (push_frontKeepLatestFirstAdjustOffset srt value True n c)"
proof (cases "c \<noteq> [] \<and> m_timestampMSecsSinceEpoch (hd c) = m_timestampMSecsSinceEpoch value")
  case True
  then have "push_frontKeepLatestFirstAdjustOffset srt value True n c
      = adjustFrontOffset (value # take (nat (n - 1)) (tl c))"
    using assms(2)
    by (simp add: push_frontKeepLatestFirstAdjustOffset_def push_frontKeepLatestFirst_def truncate_to_def
        take_Cons' nat_diff_distrib)
  moreover have "strictlyBy getAdjustedMSecsSinceEpoch (tl c)" using assms(1) by (cases c) auto
  ultimately show ?thesis using adjust_strict strictlyBy_take by metis
next
  case False
  then have "c = [] \<or> m_timestampMSecsSinceEpoch (hd c) < m_timestampMSecsSinceEpoch value"
    using assms(3) by auto
  from push_front_in_order [OF this] show ?thesis
    using adjust_strict [OF strictlyBy_take [OF assms(1)]] assms(2)
    by (simp add: push_frontKeepLatestFirstAdjustOffset_def)
qed

text \<open>The list that is filled for the first object.\<close>

lemma strictlyBy_map_upt:
  assumes "\<And>i j. a \<le> i \<Longrightarrow> i < j \<Longrightarrow> f (g j) < f (g i)"
  shows "strictlyBy f (map g [a..<b])"
  unfolding strictlyBy_def sorted_wrt_map
  by (rule sorted_wrt_mono_rel [OF _ sorted_wrt_upt]) (auto intro: assms)

lemma prefill_strict:
  assumes "0 < m_timeOffsetMs value"
  shows "strictlyBy getMSecsSinceEpoch (prefillLatestAdjustedFirst value n (-1))"
    and "strictlyBy getAdjustedMSecsSinceEpoch (prefillLatestAdjustedFirst value n (-1))"
proof -
  let ?older = "\<lambda>i. value\<lparr>m_timestampMSecsSinceEpoch := m_timestampMSecsSinceEpoch value + - m_timeOffsetMs value * int i\<rparr>"
  have eq: "prefillLatestAdjustedFirst value n (-1) = value # map ?older [1..<n]"
    using assms by (simp add: prefillLatestAdjustedFirst_def Let_def)
  show "strictlyBy getMSecsSinceEpoch (prefillLatestAdjustedFirst value n (-1))"
    unfolding eq strictlyBy_simps using assms by (auto intro!: strictlyBy_map_upt)
  show "strictlyBy getAdjustedMSecsSinceEpoch (prefillLatestAdjustedFirst value n (-1))"
    unfolding eq strictlyBy_simps
    using assms by (auto simp: getAdjustedMSecsSinceEpoch_def intro!: strictlyBy_map_upt)
qed

lemma prefill_length: "length (prefillLatestAdjustedFirst value (Suc n) d) = Suc n"
  by (simp add: prefillLatestAdjustedFirst_def Let_def)

subsection \<open>Any number of arrivals\<close>

abbreviation arrive :: "'z sorter \<Rightarrow> int \<Rightarrow> 'z timed list \<Rightarrow> 'z timed \<Rightarrow> 'z timed list" where
  "arrive srt n c value \<equiv> push_frontKeepLatestFirstAdjustOffset srt value True n c"

interpretation arrivals: invariant_machine "arrive srt n"
  "\<lambda>c. sorts srt \<and> 0 < n \<and> sortedBy getMSecsSinceEpoch c \<and> length c \<le> nat n" for srt n
  by unfold_locales
     (auto simp: push_frontKeepLatestFirstAdjustOffset_def adjust_sorted push_front_sorted push_front_bounded)

text \<open>Apart from the offsets, arrivals in order leave the latest objects, the latest first.\<close>

definition content :: "'z timed \<Rightarrow> 'z timed" where
  "content obj = obj\<lparr>m_timeOffsetMs := 0\<rparr>"

lemma adjust_content: "map content (adjustFrontOffset c) = map content c"
  by (simp add: adjustFrontOffset_def Let_def content_def split: list.split)

lemma content_stamp: "m_timestampMSecsSinceEpoch (content obj) = m_timestampMSecsSinceEpoch obj"
  by (simp add: content_def)

lemma arrive_in_order:
  assumes "strictlyBy getMSecsSinceEpoch (rev vs @ c)" and "0 < n" and "length c \<le> nat n"
    and "strictlyBy getAdjustedMSecsSinceEpoch c"
  shows "map content (foldl (arrive srt n) c vs) = map content (take (nat n) (rev vs @ c))
    \<and> strictlyBy getAdjustedMSecsSinceEpoch (foldl (arrive srt n) c vs)"
  using assms(1)
proof (induction vs rule: rev_induct)
  case (snoc v vs)
  let ?c = "foldl (arrive srt n) c vs"
  have IH: "map content ?c = map content (take (nat n) (rev vs @ c))" "strictlyBy getAdjustedMSecsSinceEpoch ?c"
    using snoc by auto
  have older: "?c = [] \<or> m_timestampMSecsSinceEpoch (hd ?c) < m_timestampMSecsSinceEpoch v"
  proof (cases ?c)
    case (Cons x xs)
    then obtain y ys where y: "rev vs @ c = y # ys" "content x = content y"
      using IH(1) assms(2) by (cases "rev vs @ c") (auto simp: take_Cons' split: if_splits)
    then have "m_timestampMSecsSinceEpoch x = m_timestampMSecsSinceEpoch y" by (metis content_stamp)
    moreover have "y \<in> set (rev vs @ c)" unfolding y(1) by simp
    then have "m_timestampMSecsSinceEpoch y < m_timestampMSecsSinceEpoch v" using snoc.prems by auto
    ultimately show ?thesis by (simp add: Cons)
  qed simp
  have "map content (arrive srt n ?c v) = take (nat n) (content v # map content ?c)"
    using push_front_truncate [OF older assms(2), of srt True]
    by (simp add: push_frontKeepLatestFirstAdjustOffset_def adjust_content take_map [symmetric])
  also have "\<dots> = take (nat n) (content v # map content (rev vs @ c))"
    unfolding IH(1) using assms(2) by (simp add: take_Cons' take_map min_def)
  finally have "map content (arrive srt n ?c v) = map content (take (nat n) (v # rev vs @ c))"
    by (simp add: take_map [symmetric])
  moreover have "strictlyBy getAdjustedMSecsSinceEpoch (arrive srt n ?c v)"
    by (rule push_adjusted_in_order) (use IH(2) older assms(2) in auto)
  ultimately show ?case by simp
qed (use assms in \<open>simp add: take_all_iff\<close>)

subsection \<open>Searching\<close>

lemma minElement_None [simp]: "minElement f xs = None \<longleftrightarrow> xs = []"
  by (cases xs) (auto split: option.split)

lemma minElement_least:
  "minElement f xs = Some x \<Longrightarrow> x \<in> set xs \<and> (\<forall>y \<in> set xs. f x \<le> f y)"
proof (induction xs arbitrary: x)
  case (Cons a xs)
  show ?case
  proof (cases "minElement f xs")
    case None
    with Cons.prems show ?thesis by simp
  next
    case (Some y)
    from Cons.IH [OF this] Cons.prems Some show ?thesis by (fastforce split: if_splits)
  qed
qed simp

text \<open>The two objects around a time, between which positions are interpolated.\<close>

lemma find_around:
  assumes "findObjectBeforeAdjustedOrDefault t xs = Some a" and "findObjectAfterAdjustedOrDefault t xs = Some b"
  shows "a \<in> set xs \<and> b \<in> set xs \<and> getAdjustedMSecsSinceEpoch a < t \<and> t < getAdjustedMSecsSinceEpoch b
    \<and> (\<forall>c \<in> set xs. getAdjustedMSecsSinceEpoch a < getAdjustedMSecsSinceEpoch c
          \<and> getAdjustedMSecsSinceEpoch c < getAdjustedMSecsSinceEpoch b \<longrightarrow> getAdjustedMSecsSinceEpoch c = t)"
proof -
  have a: "a \<in> set (findBeforeAdjusted t xs)"
      "\<forall>y \<in> set (findBeforeAdjusted t xs). getAdjustedMSecsSinceEpoch y \<le> getAdjustedMSecsSinceEpoch a"
    using assms(1) minElement_least [of "\<lambda>x. - getAdjustedMSecsSinceEpoch x" "findBeforeAdjusted t xs" a]
    by (auto simp: findObjectBeforeAdjustedOrDefault_def latestAdjustedObject_def maxElement_def split: if_splits)
  have b: "b \<in> set (findAfterAdjusted t xs)"
      "\<forall>y \<in> set (findAfterAdjusted t xs). getAdjustedMSecsSinceEpoch b \<le> getAdjustedMSecsSinceEpoch y"
    using assms(2) minElement_least [of getAdjustedMSecsSinceEpoch "findAfterAdjusted t xs" b]
    by (auto simp: findObjectAfterAdjustedOrDefault_def oldestAdjustedObject_def split: if_splits)
  have "getAdjustedMSecsSinceEpoch c = t" if c: "c \<in> set xs" "getAdjustedMSecsSinceEpoch a < getAdjustedMSecsSinceEpoch c"
      "getAdjustedMSecsSinceEpoch c < getAdjustedMSecsSinceEpoch b" for c
    using a(2) b(2) c by (force simp: findBeforeAdjusted_def findAfterAdjusted_def isOlderThanAdjusted_def isNewerThanAdjusted_def)
  with a b show ?thesis
    by (auto simp: findBeforeAdjusted_def findAfterAdjusted_def isOlderThanAdjusted_def isNewerThanAdjusted_def)
qed

text \<open>With a true hint the ends are what the search finds.\<close>

lemma hint_latest:
  assumes "strictlyBy getAdjustedMSecsSinceEpoch xs"
  shows "latestAdjustedObject True xs = latestAdjustedObject False xs"
proof (cases xs)
  case (Cons x ys)
  have "maxElement getAdjustedMSecsSinceEpoch xs = Some y \<Longrightarrow> y = x" for y
    using assms minElement_least [of "\<lambda>x. - getAdjustedMSecsSinceEpoch x" xs y]
    by (auto simp: Cons maxElement_def simp del: minElement.simps)
  then show ?thesis by (cases "maxElement getAdjustedMSecsSinceEpoch xs")
      (auto simp: Cons latestAdjustedObject_def maxElement_def simp del: minElement.simps)
qed (simp add: latestAdjustedObject_def)

text \<open>The mean of one difference is half of it.\<close>

lemma mean_of_two:
  assumes "m_timestampMSecsSinceEpoch b \<le> m_timestampMSecsSinceEpoch a"
    and "m_timestampMSecsSinceEpoch a - m_timestampMSecsSinceEpoch b = 2 * d" and "d < maxInt64 div 2"
  shows "getTimestampDifferenceMinMaxMean srt True [a, b] = \<lparr>mmm_min = 2 * d, mmm_max = 2 * d, mmm_mean = d\<rparr>"
proof -
  have "\<bar>m_timestampMSecsSinceEpoch b - m_timestampMSecsSinceEpoch a\<bar> = 2 * d" "0 \<le> d" using assms by auto
  moreover have "2 * d sdiv 2 = d" if "0 \<le> d" for d :: int
    using that by (cases "d = 0") (simp_all add: signed_divide_int_def sgn_if)
  ultimately show ?thesis using assms(3)
    by (simp add: getTimestampDifferenceMinMaxMean_def Let_def maxInt64_def minInt64_def)
qed

end
