(* ===== verification/Physical_Quantity.thy ===== *)
theory Physical_Quantity
  imports Complex_Main
begin

text \<open>
  Physical quantities, \<open>CPhysicalQuantity\<close> (\<open>src/misc/pq/physicalquantity.cpp\<close>), in one unit:
  a quantity is a rational number or null. Numbers that differ by at most the epsilon of the unit
  are equal, so that the order is not transitive. Values are exact; the conversion between
  units of one dimension is left out (lengths are in feet, speeds in knots, angles in degrees).
\<close>

type_synonym PQ = "rat option"

definition getEpsilon :: rat where "getEpsilon = 1 / 1000000000"

definition equals :: "PQ \<Rightarrow> PQ \<Rightarrow> bool" where
  "equals a b = (case a of
       None \<Rightarrow> b = None
     | Some x \<Rightarrow> (case b of None \<Rightarrow> False | Some y \<Rightarrow> \<bar>x - y\<bar> \<le> getEpsilon))"

text \<open>A quantity is less than null.\<close>

definition lessThan :: "PQ \<Rightarrow> PQ \<Rightarrow> bool" where
  "lessThan a b \<longleftrightarrow> \<not> equals a b
     \<and> (case a of None \<Rightarrow> False | Some x \<Rightarrow> (case b of None \<Rightarrow> True | Some y \<Rightarrow> x < y))"

definition isZeroEpsilonConsidered :: "PQ \<Rightarrow> bool" where
  "isZeroEpsilonConsidered a = (case a of None \<Rightarrow> False | Some x \<Rightarrow> \<bar>x\<bar> \<le> getEpsilon)"

text \<open>The value of null is 0.\<close>

definition pqValue :: "PQ \<Rightarrow> rat" where
  "pqValue a = (case a of None \<Rightarrow> 0 | Some x \<Rightarrow> x)"

definition isPositiveWithEpsilonConsidered :: "PQ \<Rightarrow> bool" where
  "isPositiveWithEpsilonConsidered a \<longleftrightarrow> \<not> isZeroEpsilonConsidered a \<and> 0 < pqValue a"

definition isNegativeWithEpsilonConsidered :: "PQ \<Rightarrow> bool" where
  "isNegativeWithEpsilonConsidered a \<longleftrightarrow> \<not> isZeroEpsilonConsidered a \<and> pqValue a < 0"

definition pqAbs :: "PQ \<Rightarrow> PQ" where
  "pqAbs a = map_option abs a"

text \<open>The result has the unit of the first operand, a null operand counts as 0.\<close>

definition pqPlus :: "PQ \<Rightarrow> PQ \<Rightarrow> PQ" where
  "pqPlus a b = map_option (\<lambda>x. x + pqValue b) a"

definition pqMinus :: "PQ \<Rightarrow> PQ \<Rightarrow> PQ" where
  "pqMinus a b = map_option (\<lambda>x. x - pqValue b) a"

definition pqTimes :: "rat \<Rightarrow> PQ \<Rightarrow> PQ" where
  "pqTimes r a = map_option (\<lambda>x. x * r) a"

text \<open>\<open>CAltitude::withOffset\<close>\<close>

definition withOffset :: "PQ \<Rightarrow> PQ \<Rightarrow> PQ" where
  "withOffset offset a =
     (if a = None then None
      else if offset \<noteq> None \<and> \<not> isZeroEpsilonConsidered offset then pqPlus a offset else a)"

lemma epsilon_pos [simp]: "0 < getEpsilon"
  by (simp add: getEpsilon_def)

lemma equals_refl [simp]: "equals a a"
  by (cases a) (simp_all add: equals_def order_less_imp_le)

lemma equals_sym: "equals a b = equals b a"
  by (auto simp: equals_def abs_minus_commute split: option.splits)

lemma lessThan_irrefl [simp]: "\<not> lessThan a a"
  by (simp add: lessThan_def)

lemma lessThan_asym: "lessThan a b \<Longrightarrow> \<not> lessThan b a"
  by (auto simp: lessThan_def split: option.splits)

text \<open>Two quantities are in exactly one of the three relations.\<close>

lemma lessThan_total: "equals a b \<or> lessThan a b \<or> lessThan b a"
proof -
  have "x < y \<or> y < x" if "\<not> equals (Some x) (Some y)" for x y
    using that by (metis equals_refl linorder_neqE)
  then show ?thesis by (cases a; cases b) (auto simp: lessThan_def equals_sym [of b a] equals_def)
qed

lemma lessThan_less: "lessThan (Some x) (Some y) \<Longrightarrow> x < y"
  by (simp add: lessThan_def)

lemma not_negative: "\<not> isNegativeWithEpsilonConsidered (Some x) \<Longrightarrow> - getEpsilon \<le> x"
  using epsilon_pos
  by (auto simp: isNegativeWithEpsilonConsidered_def isZeroEpsilonConsidered_def pqValue_def simp del: epsilon_pos)

text \<open>The relation of equal quantities is not transitive.\<close>

lemma equals_not_transitive: "\<exists>a b c. equals a b \<and> equals b c \<and> \<not> equals a c"
proof -
  have "equals (Some 0) (Some getEpsilon)" "equals (Some getEpsilon) (Some (2 * getEpsilon))"
    "\<not> equals (Some 0) (Some (2 * getEpsilon))"
    by (simp_all add: equals_def getEpsilon_def)
  then show ?thesis by blast
qed

end
