(* ===== verification/Aircraft_Situation.thy ===== *)
theory Aircraft_Situation
  imports Timestamp_List_Laws Physical_Quantity Aircraft_Lights
begin

text \<open>
  Situations of aircraft, \<open>CAircraftSituation\<close> and \<open>CAircraftSituationList\<close>
  (\<open>src/misc/aviation/aircraftsituation.cpp\<close>, \<open>aircraftsituationlist.cpp\<close>), with the ground:
  the elevation below an aircraft and how good it is known, the flag whether the aircraft is on
  the ground and where it comes from (\<open>ongroundinfo.cpp\<close>), the correction of the altitude.
  Lengths are in feet, speeds in knots, angles in degrees. Great circle distances and the equality
  of positions are floating point geometry and are a parameter, the record \<open>Geo\<close>.
\<close>

record 'p Geo =
  g_distance :: "'p \<Rightarrow> 'p \<Rightarrow> rat"
  g_equal :: "'p \<Rightarrow> 'p \<Rightarrow> bool"

definition feet :: "rat \<Rightarrow> rat" where "feet metres = metres * 10000 / 3048"
definition inMetres :: "rat \<Rightarrow> rat" where "inMetres ft = ft * 3048 / 10000"

subsection \<open>On the ground or not\<close>

datatype IsOnGround = NotOnGround | OnGround | OnGroundSituationUnknown

datatype OnGroundDetails =
    NotSetGroundDetails
  | OnGroundByInterpolation
  | OnGroundByElevationAndCG
  | OnGroundByGuessing
  | InFromNetwork
  | InFromParts
  | OutOnGroundOwnAircraft

record COnGroundInfo =
  gi_details :: OnGroundDetails
  gi_factor :: rat

definition COnGroundInfo_default :: COnGroundInfo where
  "COnGroundInfo_default = \<lparr>gi_details = NotSetGroundDetails, gi_factor = -1\<rparr>"

fun mkOnGroundInfo :: "IsOnGround \<Rightarrow> OnGroundDetails \<Rightarrow> COnGroundInfo" where
  "mkOnGroundInfo OnGroundSituationUnknown details = \<lparr>gi_details = details, gi_factor = -1\<rparr>"
| "mkOnGroundInfo OnGround details = \<lparr>gi_details = details, gi_factor = 1\<rparr>"
| "mkOnGroundInfo NotOnGround details = \<lparr>gi_details = details, gi_factor = 0\<rparr>"

definition deltaNearGround :: PQ where "deltaNearGround = Some (feet (1 / 2))"

text \<open>
  From the center of gravity and the distance to the ground. The last assignment of the
  constructor follows the chain of conditions.
\<close>

definition onGroundInfoByCG :: "PQ \<Rightarrow> PQ \<Rightarrow> COnGroundInfo" where
  "onGroundInfoByCG cg groundDistance =
     (let factor =
        (if groundDistance = None then (-1 :: rat)
         else if isNegativeWithEpsilonConsidered groundDistance then 1
         else if lessThan (pqAbs groundDistance) deltaNearGround then 1
         else if cg \<noteq> None \<and> lessThan (pqAbs groundDistance) (pqAbs (pqTimes (1 / 10) cg)) then 1
         else -1);
        factor = 0
      in \<lparr>gi_details = OnGroundByElevationAndCG, gi_factor = factor\<rparr>)"

definition onGroundInfoInterpolated :: "rat \<Rightarrow> COnGroundInfo" where
  "onGroundInfoInterpolated gndFactor =
     \<lparr>gi_details = OnGroundByInterpolation,
      gi_factor =
        (if gndFactor < - 1 / 10 then -1
         else if gndFactor < 1 / 1000 then 0
         else if 999 / 1000 < gndFactor then 1
         else gndFactor)\<rparr>"

definition getOnGround :: "COnGroundInfo \<Rightarrow> IsOnGround" where
  "getOnGround info =
     (if gi_factor info < 0 then OnGroundSituationUnknown
      else if (if gi_details info = OnGroundByInterpolation then 95 / 100 < gi_factor info
               else \<bar>gi_factor info - 1\<bar> \<le> 1 / 1000000)
      then OnGround else NotOnGround)"

subsection \<open>Positions and elevations\<close>

record 'p CCoordinateGeodetic =
  co_vector :: "'p option"
  co_height :: PQ
  co_aboveGround :: bool

record 'p CElevationPlane = "'p CCoordinateGeodetic" +
  ep_radius :: PQ

definition isNullCoordinate :: "('p, 'z) CCoordinateGeodetic_scheme \<Rightarrow> bool" where
  "isNullCoordinate c \<longleftrightarrow> co_height c = None \<or> co_vector c = None"

definition isNullPlane :: "'p CElevationPlane \<Rightarrow> bool" where
  "isNullPlane ep \<longleftrightarrow> ep_radius ep = None \<or> isNullCoordinate ep"

definition nullPlane :: "'p CElevationPlane" where
  "nullPlane = \<lparr>co_vector = None, co_height = None, co_aboveGround = False, ep_radius = None\<rparr>"

definition calculateGreatCircleDistance ::
  "'p Geo \<Rightarrow> ('p, 'y) CCoordinateGeodetic_scheme \<Rightarrow> ('p, 'z) CCoordinateGeodetic_scheme \<Rightarrow> PQ" where
  "calculateGreatCircleDistance G a b =
     (if isNullCoordinate a \<or> isNullCoordinate b then None
      else Some (g_distance G (the (co_vector a)) (the (co_vector b))))"

definition singlePointRadius :: PQ where "singlePointRadius = Some (feet 50)"

definition getRadiusOrMinimumRadius :: "PQ \<Rightarrow> PQ" where
  "getRadiusOrMinimumRadius radius =
     (if radius = None \<or> lessThan radius singlePointRadius then singlePointRadius else radius)"

definition isWithinRange :: "'p Geo \<Rightarrow> ('p, 'z) CCoordinateGeodetic_scheme \<Rightarrow> 'p CElevationPlane \<Rightarrow> bool" where
  "isWithinRange G coordinate ep \<longleftrightarrow>
     \<not> isNullCoordinate coordinate \<and> \<not> isNullPlane ep
     \<and> \<not> lessThan (ep_radius ep) (calculateGreatCircleDistance G ep coordinate)"

subsection \<open>Situations\<close>

text \<open>The best information about the elevation last.\<close>

datatype GndElevationInfo =
    NoElevationInfo | Test | SituationChange | Extrapolated | Average | Interpolated
  | FromCache | FromProvider

fun elevationRank :: "GndElevationInfo \<Rightarrow> int" where
  "elevationRank NoElevationInfo = 0" | "elevationRank Test = 1" | "elevationRank SituationChange = 2"
| "elevationRank Extrapolated = 3" | "elevationRank Average = 4" | "elevationRank Interpolated = 5"
| "elevationRank FromCache = 6" | "elevationRank FromProvider = 7"

datatype AltitudeCorrection = NoCorrection | Underflow | DraggedToGround | AGL | NoElevation | UnknownCorrection

record 'p CAircraftSituation = ITimestampWithOffsetBased +
  s_callsign :: string
  s_position :: "'p CCoordinateGeodetic"
  s_groundElevationPlane :: "'p CElevationPlane"
  s_pitch :: PQ
  s_bank :: PQ
  s_groundSpeed :: PQ
  s_cg :: PQ
  s_hasVelocity :: bool
  s_isElvInfoTransferred :: bool
  s_elvInfo :: GndElevationInfo
  s_onGroundInfo :: COnGroundInfo

record CAircraftParts = ITimestampWithOffsetBased +
  ap_isOnGround :: bool

definition getAltitude :: "'p CAircraftSituation \<Rightarrow> PQ" where
  "getAltitude s = co_height (s_position s)"

definition getGroundElevation :: "'p CAircraftSituation \<Rightarrow> PQ" where
  "getGroundElevation s = co_height (s_groundElevationPlane s)"

definition hasGroundElevation :: "'p CAircraftSituation \<Rightarrow> bool" where
  "hasGroundElevation s \<longleftrightarrow> getGroundElevation s \<noteq> None"

definition isNullSituation :: "'p CAircraftSituation \<Rightarrow> bool" where
  "isNullSituation s \<longleftrightarrow> isNullCoordinate (s_position s)"

definition getGroundElevationInfo :: "'p CAircraftSituation \<Rightarrow> GndElevationInfo" where
  "getGroundElevationInfo s = (if hasGroundElevation s then s_elvInfo s else NoElevationInfo)"

definition hasInboundGroundDetails :: "'p CAircraftSituation \<Rightarrow> bool" where
  "hasInboundGroundDetails s \<longleftrightarrow>
     gi_details (s_onGroundInfo s) = InFromParts \<or> gi_details (s_onGroundInfo s) = InFromNetwork"

definition shouldGuessOnGround :: "'p CAircraftSituation \<Rightarrow> bool" where
  "shouldGuessOnGround s \<longleftrightarrow> \<not> hasInboundGroundDetails s"

definition isOnGround :: "'p CAircraftSituation \<Rightarrow> bool" where
  "isOnGround s \<longleftrightarrow> getOnGround (s_onGroundInfo s) = OnGround"

definition isOnGroundFromParts :: "'p CAircraftSituation \<Rightarrow> bool" where
  "isOnGroundFromParts s \<longleftrightarrow> isOnGround s \<and> gi_details (s_onGroundInfo s) = InFromParts"

definition isOnGroundFromNetwork :: "'p CAircraftSituation \<Rightarrow> bool" where
  "isOnGroundFromNetwork s \<longleftrightarrow> isOnGround s \<and> gi_details (s_onGroundInfo s) = InFromNetwork"

definition isOnGroundInfoAvailable :: "'p CAircraftSituation \<Rightarrow> bool" where
  "isOnGroundInfoAvailable s \<longleftrightarrow> hasInboundGroundDetails s
     \<or> getOnGround (s_onGroundInfo s) \<noteq> OnGroundSituationUnknown
       \<and> gi_details (s_onGroundInfo s) \<noteq> NotSetGroundDetails"

definition setOnGroundDetails :: "OnGroundDetails \<Rightarrow> 'p CAircraftSituation \<Rightarrow> 'p CAircraftSituation" where
  "setOnGroundDetails details s = s\<lparr>s_onGroundInfo := (s_onGroundInfo s)\<lparr>gi_details := details\<rparr>\<rparr>"

definition isMoving :: "'p CAircraftSituation \<Rightarrow> bool" where
  "isMoving s \<longleftrightarrow> 25 / 10 \<le> pqValue (s_groundSpeed s) * 1852 / 1000"

definition getGroundDistance :: "PQ \<Rightarrow> 'p CAircraftSituation \<Rightarrow> PQ" where
  "getGroundDistance centerOfGravity s =
     (if centerOfGravity = None \<or> \<not> hasGroundElevation s then None
      else pqMinus (getAltitude s) (withOffset centerOfGravity (getGroundElevation s)))"

definition getHeightAboveGround :: "'p CAircraftSituation \<Rightarrow> PQ" where
  "getHeightAboveGround s =
     (if getAltitude s = None then None
      else if co_aboveGround (s_position s) then getAltitude s
      else if getGroundElevation s = None then None
      else pqMinus (getAltitude s) (getGroundElevation s))"

definition canLikelySkipNearGroundInterpolation :: "'p CAircraftSituation \<Rightarrow> bool" where
  "canLikelySkipNearGroundInterpolation s =
     (if isNullSituation s then True
      else if isOnGround s \<and> hasInboundGroundDetails s then False
      else if 225 < pqValue (s_groundSpeed s) then True
      else hasGroundElevation s \<and> getHeightAboveGround s \<noteq> None
           \<and> \<not> lessThan (getHeightAboveGround s) (Some (feet 400)))"

definition guessLights :: "'p CAircraftSituation \<Rightarrow> CAircraftLights" where
  "guessLights s =
     (let lights = CAircraftLights_default\<lparr>m_cabinOn := True, m_recognitionOn := True,
                     m_beaconOn := True, m_navOn := True\<rparr>;
          gsKts = pqValue (s_groundSpeed s)
      in if isOnGround s then
           if 30 < gsKts then lights\<lparr>m_taxiOn := False, m_landingOn := True\<rparr>
           else if 5 < gsKts then lights\<lparr>m_taxiOn := True, m_landingOn := False\<rparr>
           else lights\<lparr>m_taxiOn := False, m_landingOn := False\<rparr>
         else lights\<lparr>m_taxiOn := False, m_landingOn := (pqValue (getAltitude s) < 10000)\<rparr>)"

subsection \<open>Elevation\<close>

definition isOtherElevationInfoBetter :: "GndElevationInfo \<Rightarrow> bool \<Rightarrow> 'p CAircraftSituation \<Rightarrow> bool" where
  "isOtherElevationInfoBetter otherInfo transferred s =
     (if otherInfo = NoElevationInfo \<or> otherInfo = Test then False
      else if elevationRank (s_elvInfo s) < elevationRank otherInfo then True
      else if otherInfo = s_elvInfo s then
        if s_isElvInfoTransferred s = transferred then False else \<not> transferred
      else False)"

definition setGroundElevation ::
  "'p CElevationPlane \<Rightarrow> GndElevationInfo \<Rightarrow> bool \<Rightarrow> 'p CAircraftSituation \<Rightarrow> bool \<times> 'p CAircraftSituation" where
  "setGroundElevation elevationPlane info transferred s =
     (if isNullPlane elevationPlane then
        (False, s\<lparr>s_groundElevationPlane := nullPlane, s_isElvInfoTransferred := False,
                  s_elvInfo := NoElevationInfo\<rparr>)
      else
        (True, s\<lparr>s_groundElevationPlane :=
                   elevationPlane\<lparr>ep_radius := getRadiusOrMinimumRadius (ep_radius elevationPlane)\<rparr>,
                 s_isElvInfoTransferred := transferred, s_elvInfo := info\<rparr>))"

definition setGroundElevationChecked ::
  "'p Geo \<Rightarrow> 'p CElevationPlane \<Rightarrow> GndElevationInfo \<Rightarrow> bool \<Rightarrow> 'p CAircraftSituation \<Rightarrow> bool \<times> 'p CAircraftSituation" where
  "setGroundElevationChecked G elevationPlane info transferred s =
     (if isNullPlane elevationPlane then (False, s)
      else
        let distance = calculateGreatCircleDistance G (s_position s) elevationPlane
        in if lessThan (getRadiusOrMinimumRadius (ep_radius elevationPlane)) distance then (False, s)
           else if isNullPlane (s_groundElevationPlane s) \<or> isOtherElevationInfoBetter info transferred s then
             let s1 = snd (setGroundElevation elevationPlane info transferred s)
             in (True, s1\<lparr>s_groundElevationPlane :=
                  (s_groundElevationPlane s1)\<lparr>ep_radius := getRadiusOrMinimumRadius distance\<rparr>\<rparr>)
           else (False, s))"

definition resetGroundElevation :: "'p CAircraftSituation \<Rightarrow> 'p CAircraftSituation" where
  "resetGroundElevation s = s\<lparr>s_groundElevationPlane := nullPlane, s_elvInfo := NoElevationInfo\<rparr>"

definition canTransferGroundElevation ::
  "'p Geo \<Rightarrow> 'p CAircraftSituation \<Rightarrow> PQ \<Rightarrow> 'p CAircraftSituation \<Rightarrow> bool" where
  "canTransferGroundElevation G transferTo radius s =
     (if \<not> hasGroundElevation s then False
      else if getGroundElevationInfo transferTo = FromProvider then False
      else if getGroundElevationInfo s \<noteq> FromProvider \<and> getGroundElevationInfo transferTo = FromCache then False
      else \<not> lessThan radius (calculateGreatCircleDistance G (s_groundElevationPlane s) (s_position transferTo)))"

definition transferGroundElevationToMe ::
  "'p Geo \<Rightarrow> 'p CAircraftSituation \<Rightarrow> PQ \<Rightarrow> bool \<Rightarrow> 'p CAircraftSituation \<Rightarrow> bool \<times> 'p CAircraftSituation" where
  "transferGroundElevationToMe G fromSituation radius transferred s =
     (if \<not> canTransferGroundElevation G s radius fromSituation then (False, s)
      else setGroundElevation (s_groundElevationPlane fromSituation) (getGroundElevationInfo fromSituation) transferred s)"

text \<open>\<open>None\<close> for the null plane. The difference of the elevations is not taken by its amount.\<close>

definition interpolatedElevation ::
  "'p Geo \<Rightarrow> 'p CAircraftSituation \<Rightarrow> 'p CAircraftSituation \<Rightarrow> 'p CAircraftSituation \<Rightarrow> PQ \<Rightarrow> 'p CElevationPlane option" where
  "interpolatedElevation G situation oldSituation newSituation distance =
     (let oldPlane = s_groundElevationPlane oldSituation;
          newPlane = s_groundElevationPlane newSituation;
          newElvFt = pqValue (getGroundElevation newSituation);
          oldElvFt = pqValue (getGroundElevation oldSituation);
          deltaElvFt = newElvFt - oldElvFt;
          planeAt = (\<lambda>s elv. \<lparr>co_vector = co_vector (s_position s), co_height = Some elv, co_aboveGround = False,
                  ep_radius = singlePointRadius\<rparr>)
      in if isNullSituation oldSituation \<or> isNullSituation newSituation then None
         else if \<not> hasGroundElevation oldSituation \<or> \<not> hasGroundElevation newSituation then None
         else if g_equal G (the (co_vector (s_position oldSituation))) (the (co_vector (s_position newSituation)))
           then Some newPlane
         else if 25 < deltaElvFt then None
         else if \<not> isNullSituation situation then
           let distanceSituationNewM =
                 inMetres (pqValue (calculateGreatCircleDistance G (s_position situation) (s_position newSituation)));
               distanceOldNewM = inMetres (pqValue (if distance = None
                 then calculateGreatCircleDistance G (s_position oldSituation) (s_position newSituation) else distance));
               distRatio = distanceSituationNewM / distanceOldNewM
           in if distanceSituationNewM < 5 then Some newPlane
              else if distanceOldNewM < 5 then Some oldPlane
              else if distRatio < 5 / 100 then Some newPlane
              else if 95 / 100 < distRatio then Some oldPlane
              else Some (planeAt situation (newElvFt - distRatio * deltaElvFt))
         else Some (planeAt newSituation ((oldElvFt + newElvFt) / 2)))"

subsection \<open>Altitude\<close>

definition getCorrectedAltitude :: "PQ \<Rightarrow> bool \<Rightarrow> 'p CAircraftSituation \<Rightarrow> PQ \<times> AltitudeCorrection" where
  "getCorrectedAltitude centerOfGravity enableDragToGround s =
     (if \<not> hasGroundElevation s then (getAltitude s, NoElevation)
      else if co_aboveGround (s_position s) then (getAltitude s, AGL)
      else
        let groundPlusCG = withOffset centerOfGravity (getGroundElevation s);
            groundDistance = pqMinus (getAltitude s) groundPlusCG
        in if groundPlusCG = None then (getAltitude s, NoElevation)
           else if isNegativeWithEpsilonConsidered groundDistance then (groundPlusCG, Underflow)
           else if lessThan (pqAbs groundDistance) deltaNearGround then (groundPlusCG, NoCorrection)
           else if enableDragToGround \<and> isOnGround s
                   \<and> (hasInboundGroundDetails s \<or> gi_details (s_onGroundInfo s) = OnGroundByGuessing)
             then (groundPlusCG, DraggedToGround)
           else (getAltitude s, NoCorrection))"

definition setAltitude :: "PQ \<Rightarrow> 'p CAircraftSituation \<Rightarrow> 'p CAircraftSituation" where
  "setAltitude altitude s = s\<lparr>s_position := (s_position s)\<lparr>co_height := altitude\<rparr>\<rparr>"

definition correctAltitude :: "PQ \<Rightarrow> bool \<Rightarrow> 'p CAircraftSituation \<Rightarrow> AltitudeCorrection \<times> 'p CAircraftSituation" where
  "correctAltitude centerOfGravity enableDragToGround s =
     (case getCorrectedAltitude centerOfGravity enableDragToGround s of (altitude, correction) \<Rightarrow>
        (correction, (setAltitude altitude s)\<lparr>s_cg := centerOfGravity\<rparr>))"

definition addAltitudeOffset :: "PQ \<Rightarrow> 'p CAircraftSituation \<Rightarrow> 'p CAircraftSituation" where
  "addAltitudeOffset offset s =
     (if offset = None then s else setAltitude (withOffset offset (getAltitude s)) s)"

subsection \<open>The flag from the parts\<close>

definition getAdjustedTimeDifferenceMs :: "'z timed \<Rightarrow> int \<Rightarrow> int" where
  "getAdjustedTimeDifferenceMs s compareTime = getAdjustedMSecsSinceEpoch s - compareTime"

definition flagOf :: "CAircraftParts \<Rightarrow> COnGroundInfo" where
  "flagOf parts = mkOnGroundInfo (if ap_isOnGround parts then OnGround else NotOnGround) InFromParts"

definition adjustGroundFlag ::
  "CAircraftParts \<Rightarrow> bool \<Rightarrow> rat \<Rightarrow> 'p CAircraftSituation \<Rightarrow> bool \<times> 'p CAircraftSituation" where
  "adjustGroundFlag parts alwaysSetDetails timeDeviationFactor s =
     (if gi_details (s_onGroundInfo s) = InFromNetwork then (False, s)
      else
        let s1 = (if alwaysSetDetails then setOnGroundDetails InFromParts s else s);
            d = getAdjustedTimeDifferenceMs s1 (getAdjustedMSecsSinceEpoch parts);
            adjust = (0 \<le> d \<or> of_int \<bar>d\<bar> < timeDeviationFactor * of_int (m_timeOffsetMs parts))
        in if \<not> adjust then (False, s1) else (True, s1\<lparr>s_onGroundInfo := flagOf parts\<rparr>))"

text \<open>The loop over a list of parts: the closest so far, and its distance.\<close>

fun bestParts ::
  "'p CAircraftSituation \<Rightarrow> rat \<Rightarrow> CAircraftParts list \<Rightarrow> (CAircraftParts \<times> int) option \<Rightarrow> (CAircraftParts \<times> int) option" where
  "bestParts s factor [] best = best"
| "bestParts s factor (parts # ps) best =
     (let d = getAdjustedTimeDifferenceMs s (getAdjustedMSecsSinceEpoch parts);
          candidate = (0 \<le> d \<or> of_int \<bar>d\<bar> < factor * of_int (m_timeOffsetMs parts))
      in if \<not> candidate \<or> (case best of None \<Rightarrow> False | Some (_, bestDistance) \<Rightarrow> bestDistance \<le> \<bar>d\<bar>)
         then bestParts s factor ps best
         else if d = 0 then Some (parts, 0)
         else bestParts s factor ps (Some (parts, \<bar>d\<bar>)))"

definition adjustGroundFlagByList ::
  "CAircraftParts list \<Rightarrow> bool \<Rightarrow> rat \<Rightarrow> 'p CAircraftSituation \<Rightarrow> bool \<times> 'p CAircraftSituation" where
  "adjustGroundFlagByList partsList alwaysSetDetails timeDeviationFactor s =
     (if gi_details (s_onGroundInfo s) = InFromNetwork then (False, s)
      else
        let s1 = (if alwaysSetDetails then setOnGroundDetails InFromParts s else s)
        in case bestParts s1 timeDeviationFactor partsList None of
             None \<Rightarrow> (False, s1)
           | Some (parts, _) \<Rightarrow> (True, s1\<lparr>s_onGroundInfo := flagOf parts\<rparr>))"

subsection \<open>What the operations guarantee\<close>

lemma position_setAltitude [simp]:
  "getAltitude (setAltitude a s) = a" "getGroundElevation (setAltitude a s) = getGroundElevation s"
  "hasGroundElevation (setAltitude a s) = hasGroundElevation s"
  "co_aboveGround (s_position (setAltitude a s)) = co_aboveGround (s_position s)"
  "s_onGroundInfo (setAltitude a s) = s_onGroundInfo s"
  by (simp_all add: setAltitude_def getAltitude_def getGroundElevation_def hasGroundElevation_def)

lemma getCorrectedAltitude_cases:
  assumes "getCorrectedAltitude cg drag s = (a, c)"
  obtains "a = getAltitude s"
  | "\<not> co_aboveGround (s_position s)" "hasGroundElevation s" "a = withOffset cg (getGroundElevation s)" "a \<noteq> None"
  using assms by (auto simp: getCorrectedAltitude_def Let_def split: if_splits)

text \<open>The altitude that is written is at or above the ground with the center of gravity.\<close>

lemma corrected_above_ground:
  assumes "hasGroundElevation s" "\<not> co_aboveGround (s_position s)"
    and "withOffset cg (getGroundElevation s) = Some g" "fst (getCorrectedAltitude cg drag s) = Some a"
  shows "g - getEpsilon \<le> a"
proof -
  have eps: "g \<le> g + getEpsilon" by (simp add: order_less_imp_le)
  consider "a = g" | "getAltitude s = Some a" "\<not> isNegativeWithEpsilonConsidered (Some (a - g))"
    using assms by (auto simp: getCorrectedAltitude_def Let_def pqMinus_def pqValue_def split: if_splits)
  then show ?thesis
  proof cases
    case 2
    from not_negative [OF 2(2)] show ?thesis by simp
  qed (use eps in simp)
qed

lemma near_zero: "lessThan (Some 0) deltaNearGround" "\<not> isNegativeWithEpsilonConsidered (Some 0)"
  by (simp_all add: lessThan_def equals_def deltaNearGround_def feet_def getEpsilon_def
      isNegativeWithEpsilonConsidered_def pqValue_def)

text \<open>A corrected altitude is not corrected again.\<close>

lemma corrected_twice:
  "fst (getCorrectedAltitude cg drag (setAltitude (fst (getCorrectedAltitude cg drag s)) s))
     = fst (getCorrectedAltitude cg drag s)"
proof -
  obtain a c where ac: "getCorrectedAltitude cg drag s = (a, c)" by fastforce
  then show ?thesis
  proof (cases rule: getCorrectedAltitude_cases)
    case 1
    then have "setAltitude a s = s" by (simp add: setAltitude_def getAltitude_def)
    with ac show ?thesis by simp
  next
    case 2
    then obtain g where "a = Some g" by blast
    with 2 show ?thesis unfolding ac fst_conv
      by (simp add: getCorrectedAltitude_def Let_def pqMinus_def pqValue_def pqAbs_def near_zero)
  qed
qed

lemma onGroundInfoByCG_not: "getOnGround (onGroundInfoByCG cg d) = NotOnGround"
  by (simp add: getOnGround_def onGroundInfoByCG_def)

lemma getOnGround_mk [simp]: "details \<noteq> OnGroundByInterpolation \<Longrightarrow> getOnGround (mkOnGroundInfo g details) = g"
  by (cases g) (simp_all add: getOnGround_def)

text \<open>Elevations of checked changes only get better.\<close>

definition elevation_wf :: "'p CAircraftSituation \<Rightarrow> bool" where
  "elevation_wf s \<longleftrightarrow> (isNullPlane (s_groundElevationPlane s) \<longrightarrow> \<not> hasGroundElevation s)"

lemma minimum_radius [simp]: "getRadiusOrMinimumRadius r \<noteq> None" "\<exists>y. getRadiusOrMinimumRadius r = Some y"
  by (auto simp: getRadiusOrMinimumRadius_def singlePointRadius_def)

lemma isNullPlane_radius [simp]:
  "isNullPlane (ep\<lparr>ep_radius := r\<rparr>) \<longleftrightarrow> r = None \<or> isNullCoordinate ep"
  by (simp add: isNullPlane_def isNullCoordinate_def)

lemma checked_elevation:
  assumes "elevation_wf s" "setGroundElevationChecked G ep info transferred s = (changed, s')"
  shows "elevation_wf s' \<and> elevationRank (getGroundElevationInfo s) \<le> elevationRank (getGroundElevationInfo s')"
proof -
  have ranks: "0 \<le> elevationRank i" for i by (cases i) simp_all
  have "s' = s \<or> \<not> isNullPlane ep
      \<and> (isNullPlane (s_groundElevationPlane s) \<or> isOtherElevationInfoBetter info transferred s)
      \<and> hasGroundElevation s' \<and> s_elvInfo s' = info \<and> \<not> isNullPlane (s_groundElevationPlane s')"
    using assms(2)
    by (simp add: setGroundElevationChecked_def setGroundElevation_def Let_def hasGroundElevation_def
        getGroundElevation_def split: if_split_asm) (auto simp: isNullPlane_def isNullCoordinate_def)
  then consider "s' = s"
    | "isNullPlane (s_groundElevationPlane s) \<or> isOtherElevationInfoBetter info transferred s"
      "hasGroundElevation s'" "s_elvInfo s' = info" "\<not> isNullPlane (s_groundElevationPlane s')"
    by blast
  then show ?thesis
  proof cases
    case 2
    then show ?thesis
      using assms(1) ranks
      by (auto simp: elevation_wf_def getGroundElevationInfo_def isOtherElevationInfoBetter_def split: if_splits)
  qed (use assms in simp)
qed

text \<open>The parts that set the flag are the closest in time of those that are considered.\<close>

definition considered :: "rat \<Rightarrow> 'p CAircraftSituation \<Rightarrow> CAircraftParts \<Rightarrow> bool" where
  "considered factor s parts \<longleftrightarrow>
     0 \<le> getAdjustedTimeDifferenceMs s (getAdjustedMSecsSinceEpoch parts)
     \<or> of_int \<bar>getAdjustedTimeDifferenceMs s (getAdjustedMSecsSinceEpoch parts)\<bar> < factor * of_int (m_timeOffsetMs parts)"

abbreviation partsDistance :: "'p CAircraftSituation \<Rightarrow> CAircraftParts \<Rightarrow> int" where
  "partsDistance s parts \<equiv> \<bar>getAdjustedTimeDifferenceMs s (getAdjustedMSecsSinceEpoch parts)\<bar>"

definition closestIn ::
  "rat \<Rightarrow> 'p CAircraftSituation \<Rightarrow> CAircraftParts set \<Rightarrow> (CAircraftParts \<times> int) option \<Rightarrow> bool" where
  "closestIn factor s A best \<longleftrightarrow> (case best of
       None \<Rightarrow> \<forall>q \<in> A. \<not> considered factor s q
     | Some (p, n) \<Rightarrow> p \<in> A \<and> considered factor s p \<and> n = partsDistance s p
         \<and> (\<forall>q \<in> A. considered factor s q \<longrightarrow> n \<le> partsDistance s q))"

lemma bestParts_skip:
  assumes "\<not> considered factor s q \<or> (\<exists>p n. best = Some (p, n) \<and> n \<le> partsDistance s q)"
  shows "bestParts s factor (q # ps) best = bestParts s factor ps best"
    and "closestIn factor s A best \<Longrightarrow> closestIn factor s (insert q A) best"
  using assms by (auto simp: considered_def closestIn_def Let_def split: option.split)

lemma bestParts_take:
  assumes "considered factor s q" "\<not> (\<exists>p n. best = Some (p, n) \<and> n \<le> partsDistance s q)"
  shows "bestParts s factor (q # ps) best
    = (if partsDistance s q = 0 then Some (q, 0) else bestParts s factor ps (Some (q, partsDistance s q)))"
  using assms by (auto simp: considered_def Let_def split: option.split)

lemma closestIn_take:
  assumes "considered factor s q" "\<not> (\<exists>p n. best = Some (p, n) \<and> n \<le> partsDistance s q)" "closestIn factor s A best"
  shows "closestIn factor s (insert q A) (Some (q, partsDistance s q))"
  using assms by (cases best) (force simp: closestIn_def)+

lemma bestParts_closest: "closestIn factor s A best \<Longrightarrow> closestIn factor s (A \<union> set ps) (bestParts s factor ps best)"
proof (induction ps arbitrary: best A)
  case (Cons q ps)
  show ?case
  proof (cases "\<not> considered factor s q \<or> (\<exists>p n. best = Some (p, n) \<and> n \<le> partsDistance s q)")
    case True
    from Cons.IH [OF bestParts_skip(2) [OF True Cons.prems]] show ?thesis
      unfolding bestParts_skip(1) [OF True] by simp
  next
    case False
    then have c: "considered factor s q" and nb: "\<not> (\<exists>p n. best = Some (p, n) \<and> n \<le> partsDistance s q)" by auto
    show ?thesis
    proof (cases "partsDistance s q = 0")
      case True
      with c show ?thesis unfolding bestParts_take [OF c nb] by (simp add: closestIn_def)
    next
      case False
      from Cons.IH [OF closestIn_take [OF c nb Cons.prems]] False show ?thesis
        unfolding bestParts_take [OF c nb] by simp
    qed
  qed
qed simp

lemma closest_parts: "closestIn factor s (set ps) (bestParts s factor ps None)"
  using bestParts_closest [of factor s "{}" None ps] by (simp add: closestIn_def)

end
