(* ===== verification/Situation_List.thy ===== *)
theory Situation_List
  imports Aircraft_Situation
begin

text \<open>
  Lists of situations, \<open>CAircraftSituationList\<close> (\<open>src/misc/aviation/aircraftsituationlist.cpp\<close>):
  what a history of situations, the latest first, says about the movement of an aircraft, and the
  changes to all situations of a history. The mean and the standard deviation are those of
  \<open>CMathUtils\<close> (\<open>src/misc/math/mathutils.cpp\<close>) with exact numbers; the square root is a
  parameter.
\<close>

subsection \<open>Mean and deviation\<close>

definition meanOf :: "rat list \<Rightarrow> rat" where
  "meanOf values = sum_list values / of_nat (length values)"

definition squaredDifferences :: "rat list \<Rightarrow> rat \<Rightarrow> rat list" where
  "squaredDifferences values meanValue = map (\<lambda>v. (v - meanValue) * (v - meanValue)) values"

definition standardDeviationAndMean :: "(rat \<Rightarrow> rat) \<Rightarrow> rat list \<Rightarrow> rat \<times> rat" where
  "standardDeviationAndMean sq values =
     (let m = meanOf values in (sq (meanOf (squaredDifferences values m)), m))"

definition pitchValues :: "'p CAircraftSituation list \<Rightarrow> rat list" where
  "pitchValues xs = map (\<lambda>s. pqValue (s_pitch s)) xs"

definition notNull :: "PQ list \<Rightarrow> rat list" where
  "notNull xs = map the (filter (\<lambda>x. x \<noteq> None) xs)"

definition groundSpeedValues :: "'p CAircraftSituation list \<Rightarrow> rat list" where
  "groundSpeedValues xs = notNull (map s_groundSpeed xs)"

definition elevationValues :: "'p CAircraftSituation list \<Rightarrow> rat list" where
  "elevationValues xs = notNull (map getGroundElevation xs)"

definition altitudeValues :: "'p CAircraftSituation list \<Rightarrow> rat list" where
  "altitudeValues xs = notNull (map getAltitude xs)"

definition pqPair :: "rat \<times> rat \<Rightarrow> PQ \<times> PQ" where
  "pqPair p = (Some (fst p), Some (snd p))"

definition groundSpeedStandardDeviationAndMean :: "(rat \<Rightarrow> rat) \<Rightarrow> 'p CAircraftSituation list \<Rightarrow> PQ \<times> PQ" where
  "groundSpeedStandardDeviationAndMean sq xs =
     (if length (groundSpeedValues xs) \<noteq> length xs then (None, None)
      else pqPair (standardDeviationAndMean sq (groundSpeedValues xs)))"

definition pitchStandardDeviationAndMean :: "(rat \<Rightarrow> rat) \<Rightarrow> 'p CAircraftSituation list \<Rightarrow> PQ \<times> PQ" where
  "pitchStandardDeviationAndMean sq xs =
     (if length (pitchValues xs) \<noteq> length xs then (None, None)
      else pqPair (standardDeviationAndMean sq (pitchValues xs)))"

subsection \<open>What a history says\<close>

definition onGroundOf :: "'p CAircraftSituation \<Rightarrow> IsOnGround" where
  "onGroundOf s = getOnGround (s_onGroundInfo s)"

definition containsNullPositionOrHeight :: "'p CAircraftSituation list \<Rightarrow> bool" where
  "containsNullPositionOrHeight xs \<longleftrightarrow> list_ex (\<lambda>s. isNullSituation s \<or> getAltitude s = None) xs"

definition containsOnGroundDetails :: "OnGroundDetails \<Rightarrow> 'p CAircraftSituation list \<Rightarrow> bool" where
  "containsOnGroundDetails details xs \<longleftrightarrow> list_ex (\<lambda>s. gi_details (s_onGroundInfo s) = details) xs"

definition areAllOnGroundDetailsSame :: "OnGroundDetails \<Rightarrow> 'p CAircraftSituation list \<Rightarrow> bool" where
  "areAllOnGroundDetailsSame details xs \<longleftrightarrow> list_all (\<lambda>s. gi_details (s_onGroundInfo s) = details) xs"

definition isConstOnGround :: "'p CAircraftSituation list \<Rightarrow> bool" where
  "isConstOnGround xs \<longleftrightarrow> xs \<noteq> [] \<and> \<not> containsNullPositionOrHeight xs \<and> list_all isOnGround xs"

definition isConstNotOnGround :: "'p CAircraftSituation list \<Rightarrow> bool" where
  "isConstNotOnGround xs \<longleftrightarrow> xs \<noteq> [] \<and> \<not> containsNullPositionOrHeight xs
     \<and> list_all (\<lambda>s. onGroundOf s = NotOnGround) xs"

text \<open>The operations below get a list that is sorted, the latest first.\<close>

definition latestFirst :: "'z sorter \<Rightarrow> bool \<Rightarrow> 'z timed list \<Rightarrow> 'z timed list" where
  "latestFirst srt alreadySortedLatestFirst xs =
     (if alreadySortedLatestFirst then xs else sortAdjustedLatestFirst srt xs)"

text \<open>The loops over neighbours: the newer altitude or speed, null before the first.\<close>

fun altitudeSteps :: "(PQ \<Rightarrow> bool) \<Rightarrow> 'p CAircraftSituation option \<Rightarrow> 'p CAircraftSituation list \<Rightarrow> bool" where
  "altitudeSteps ok newer [] \<longleftrightarrow> True"
| "altitudeSteps ok newer (s # xs) \<longleftrightarrow>
     (case newer of None \<Rightarrow> True
      | Some n \<Rightarrow> isNullSituation n \<or> ok (pqMinus (getAltitude n) (getAltitude s)))
     \<and> altitudeSteps ok (Some s) xs"

fun speedSteps :: "(PQ \<Rightarrow> bool) \<Rightarrow> PQ \<Rightarrow> 'p CAircraftSituation list \<Rightarrow> bool" where
  "speedSteps ok newerGs [] \<longleftrightarrow> True"
| "speedSteps ok newerGs (s # xs) \<longleftrightarrow>
     (newerGs \<noteq> None \<longrightarrow> ok (pqMinus newerGs (s_groundSpeed s))) \<and> speedSteps ok (s_groundSpeed s) xs"

definition isConstDescending :: "'p CAircraftSituation list \<Rightarrow> bool" where
  "isConstDescending xs \<longleftrightarrow> 2 \<le> length xs \<and> \<not> containsNullPositionOrHeight xs
     \<and> altitudeSteps isNegativeWithEpsilonConsidered None xs"

definition isConstAscending :: "'p CAircraftSituation list \<Rightarrow> bool" where
  "isConstAscending xs \<longleftrightarrow> 2 \<le> length xs \<and> \<not> containsNullPositionOrHeight xs
     \<and> altitudeSteps isPositiveWithEpsilonConsidered None xs"

definition isConstAccelerating :: "'p CAircraftSituation list \<Rightarrow> bool" where
  "isConstAccelerating xs \<longleftrightarrow> 2 \<le> length xs \<and> \<not> containsNullPositionOrHeight xs
     \<and> speedSteps isPositiveWithEpsilonConsidered None xs"

definition isConstDecelarating :: "'p CAircraftSituation list \<Rightarrow> bool" where
  "isConstDecelarating xs \<longleftrightarrow> 2 \<le> length xs \<and> \<not> containsNullPositionOrHeight xs
     \<and> speedSteps isNegativeWithEpsilonConsidered None xs"

text \<open>
  The first situation with another flag than the front is taken without a look at its flag.
  \<^term>\<open>None\<close>: jitter.
\<close>

fun flagLoop :: "IsOnGround \<Rightarrow> IsOnGround \<Rightarrow> bool \<Rightarrow> 'p CAircraftSituation list \<Rightarrow> bool option" where
  "flagLoop f t changed [] = Some changed"
| "flagLoop f t changed (s # xs) =
     (if \<not> changed \<and> onGroundOf s = f then flagLoop f t changed xs
      else if \<not> changed then flagLoop f t True xs
      else if onGroundOf s \<noteq> t then None
      else flagLoop f t changed xs)"

definition isGndFlagStableChanging :: "'p CAircraftSituation list \<Rightarrow> bool \<times> IsOnGround" where
  "isGndFlagStableChanging xs =
     (if length xs < 2 then (False, OnGroundSituationUnknown)
      else
        let f = onGroundOf (hd xs); t = onGroundOf (last xs)
        in if f = t then (False, f)
           else (case flagLoop f t False xs of None \<Rightarrow> (False, f) | Some changed \<Rightarrow> (changed, f)))"

definition countOnGround :: "IsOnGround \<Rightarrow> 'p CAircraftSituation list \<Rightarrow> nat" where
  "countOnGround og xs = length (filter (\<lambda>s. onGroundOf s = og) xs)"

definition isJustTakingOff :: "'p CAircraftSituation list \<Rightarrow> bool" where
  "isJustTakingOff xs \<longleftrightarrow> 2 \<le> length xs \<and> onGroundOf (hd xs) = NotOnGround
     \<and> length xs - 1 = countOnGround OnGround xs"

definition isJustTouchingDown :: "'p CAircraftSituation list \<Rightarrow> bool" where
  "isJustTouchingDown xs \<longleftrightarrow> 2 \<le> length xs \<and> onGroundOf (hd xs) = OnGround
     \<and> length xs - 1 = countOnGround NotOnGround xs"

definition isRotatingUp :: "(rat \<Rightarrow> rat) \<Rightarrow> 'p CAircraftSituation list \<Rightarrow> bool" where
  "isRotatingUp sq xs \<longleftrightarrow> 2 \<le> length xs
     \<and> (let pitches = pitchValues xs; d = standardDeviationAndMean sq pitches in fst d + snd d < hd pitches)"

definition containsPushBack :: "'p CAircraftSituation list \<Rightarrow> bool" where
  "containsPushBack xs \<longleftrightarrow> list_ex (\<lambda>s. isNegativeWithEpsilonConsidered (s_groundSpeed s)) xs"

subsection \<open>Elevations of a history\<close>

text \<open>The situation and its distance so far.\<close>

fun closestElevation :: "'p Geo \<Rightarrow> ('p, 'z) CCoordinateGeodetic_scheme \<Rightarrow> PQ
    \<Rightarrow> ('p CAircraftSituation \<times> PQ) option \<Rightarrow> 'p CAircraftSituation list \<Rightarrow> ('p CAircraftSituation \<times> PQ) option" where
  "closestElevation G coordinate r best [] = best"
| "closestElevation G coordinate r best (s # xs) =
     (let distance = calculateGreatCircleDistance G (s_groundElevationPlane s) coordinate
      in if \<not> hasGroundElevation s \<or> lessThan r distance then closestElevation G coordinate r best xs
         else if (case best of None \<Rightarrow> True | Some (_, d) \<Rightarrow> d = None \<or> lessThan distance d)
         then closestElevation G coordinate r (Some (s, distance)) xs
         else closestElevation G coordinate r best xs)"

definition findClosestElevationWithinRange ::
  "'p Geo \<Rightarrow> ('p, 'z) CCoordinateGeodetic_scheme \<Rightarrow> PQ \<Rightarrow> 'p CAircraftSituation list \<Rightarrow> 'p CAircraftSituation option" where
  "findClosestElevationWithinRange G coordinate maxRange xs =
     map_option fst (closestElevation G coordinate (getRadiusOrMinimumRadius maxRange) None xs)"

definition allowedAltitudeDeviation :: PQ where "allowedAltitudeDeviation = Some 3"

text \<open>
  The loop goes over the whole list, not over the situations in range that were counted.
\<close>

definition averageElevationOfTaxiingOnGroundAircraft ::
  "(rat \<Rightarrow> rat) \<Rightarrow> 'p Geo \<Rightarrow> 'p CAircraftSituation \<Rightarrow> PQ \<Rightarrow> nat \<Rightarrow> nat \<Rightarrow> 'p CAircraftSituation list
   \<Rightarrow> 'p CElevationPlane" where
  "averageElevationOfTaxiingOnGroundAircraft sq G reference maxRange minValues sufficientValues xs =
     (let inRange = filter (\<lambda>s. \<not> co_aboveGround (s_position s) \<and> getAltitude s \<noteq> None
            \<and> \<not> lessThan maxRange (calculateGreatCircleDistance G (s_position s) (s_position reference))) xs;
          usable = filter (\<lambda>s. getGroundElevationInfo s = FromProvider
            \<and> (\<not> isMoving s \<or> isOnGroundFromNetwork s \<or> isOnGroundFromParts s)) xs;
          valuesInFt = map (\<lambda>s. pqValue (getGroundElevation s)) (take (max 1 sufficientValues) usable);
          elvStdDevMean = standardDeviationAndMean sq valuesInFt
      in if length xs < minValues \<or> length inRange < minValues \<or> length valuesInFt < minValues then nullPlane
         else if 3 < fst elvStdDevMean then nullPlane
         else \<lparr>co_vector = co_vector (s_position reference), co_height = Some (snd elvStdDevMean),
               co_aboveGround = False, ep_radius = singlePointRadius\<rparr>)"

subsection \<open>Changing all situations\<close>

text \<open>How often an operation reports success, with the changed list.\<close>

definition eachSituation ::
  "('p CAircraftSituation \<Rightarrow> bool \<times> 'p CAircraftSituation) \<Rightarrow> 'p CAircraftSituation list
   \<Rightarrow> nat \<times> 'p CAircraftSituation list" where
  "eachSituation f xs = (length (filter (\<lambda>s. fst (f s)) xs), map (\<lambda>s. snd (f s)) xs)"

definition setGroundElevationCheckedAll ::
  "'p Geo \<Rightarrow> 'p CElevationPlane \<Rightarrow> GndElevationInfo \<Rightarrow> int \<Rightarrow> 'p CAircraftSituation list
   \<Rightarrow> nat \<times> 'p CAircraftSituation list" where
  "setGroundElevationCheckedAll G elevationPlane info newerThanAdjustedMs xs =
     (if isNullPlane elevationPlane then (0, xs)
      else eachSituation (\<lambda>s. if 0 \<le> newerThanAdjustedMs \<and> getAdjustedMSecsSinceEpoch s \<le> newerThanAdjustedMs
                              then (False, s) else setGroundElevationChecked G elevationPlane info False s) xs)"

text \<open>The details are overwritten before they are asked for.\<close>

definition adjustGroundFlagAll ::
  "CAircraftParts \<Rightarrow> rat \<Rightarrow> 'p CAircraftSituation list \<Rightarrow> nat \<times> 'p CAircraftSituation list" where
  "adjustGroundFlagAll parts timeDeviationFactor xs =
     eachSituation (\<lambda>s. adjustGroundFlag parts True timeDeviationFactor (setOnGroundDetails InFromParts s)) xs"

definition addAltitudeOffsetAll :: "PQ \<Rightarrow> 'p CAircraftSituation list \<Rightarrow> nat \<times> 'p CAircraftSituation list" where
  "addAltitudeOffsetAll offset xs =
     (if offset = None \<or> xs = [] then (0, xs) else eachSituation (\<lambda>s. (True, addAltitudeOffset offset s)) xs)"

text \<open>From each situation to the one before it in the list, the newer one.\<close>

fun transferElevationForward ::
  "'p Geo \<Rightarrow> PQ \<Rightarrow> 'p CAircraftSituation list \<Rightarrow> nat \<times> 'p CAircraftSituation list" where
  "transferElevationForward G radius (newer # older # xs) =
     (let (ok, newer1) = transferGroundElevationToMe G older radius True newer;
          (c, ys) = transferElevationForward G radius (older # xs)
      in (c + (if ok then 1 else 0), newer1 # ys))"
| "transferElevationForward G radius xs = (0, xs)"

subsection \<open>What the operations guarantee\<close>

lemma cons2: "2 \<le> length (s # xs) \<longleftrightarrow> xs \<noteq> []"
  by (cases xs) auto

lemma filter_length_all: "length (filter P xs) = length xs \<longleftrightarrow> (\<forall>x \<in> set xs. P x)"
  by (metis filter_True filter_id_conv length_filter_less less_irrefl)

text \<open>All situations but the latest one are on the ground.\<close>

lemma justTakingOff_iff:
  "isJustTakingOff (s # xs) \<longleftrightarrow> xs \<noteq> [] \<and> onGroundOf s = NotOnGround \<and> (\<forall>x \<in> set xs. onGroundOf x = OnGround)"
  unfolding isJustTakingOff_def cons2
  using filter_length_all [of "\<lambda>x. onGroundOf x = OnGround" xs] by (auto simp: countOnGround_def)

lemma justTouchingDown_iff:
  "isJustTouchingDown (s # xs) \<longleftrightarrow> xs \<noteq> [] \<and> onGroundOf s = OnGround \<and> (\<forall>x \<in> set xs. onGroundOf x = NotOnGround)"
  unfolding isJustTouchingDown_def cons2
  using filter_length_all [of "\<lambda>x. onGroundOf x = NotOnGround" xs] by (auto simp: countOnGround_def)

text \<open>A constant ascent is an order of the altitudes, each above all older ones.\<close>

lemma positive_minus:
  "isPositiveWithEpsilonConsidered (pqMinus a b) \<Longrightarrow> a \<noteq> None \<and> pqValue b < pqValue a"
  by (cases a) (auto simp: isPositiveWithEpsilonConsidered_def pqMinus_def pqValue_def)

lemma negative_minus:
  "a \<noteq> None \<Longrightarrow> isNegativeWithEpsilonConsidered (pqMinus a b) \<Longrightarrow> pqValue a < pqValue b"
  by (cases a) (auto simp: isNegativeWithEpsilonConsidered_def pqMinus_def pqValue_def)

lemma steps_sorted:
  assumes "\<forall>s \<in> set (n # xs). \<not> isNullSituation s" "altitudeSteps ok (Some n) xs"
    and "\<And>a b. ok (pqMinus a b) \<Longrightarrow> a \<noteq> None \<Longrightarrow> R (pqValue a) (pqValue b)" "transp R"
  shows "sorted_wrt (\<lambda>a b. R (pqValue (getAltitude a)) (pqValue (getAltitude b))) (n # xs)"
  using assms(1,2)
proof (induction xs arbitrary: n)
  case (Cons s xs)
  have "getAltitude n \<noteq> None" using Cons.prems(1) by (auto simp: isNullSituation_def isNullCoordinate_def getAltitude_def)
  then have R: "R (pqValue (getAltitude n)) (pqValue (getAltitude s))" using Cons.prems assms(3) by auto
  have "sorted_wrt (\<lambda>a b. R (pqValue (getAltitude a)) (pqValue (getAltitude b))) (s # xs)"
    using Cons.IH [of s] Cons.prems by auto
  with R show ?case using assms(4) by (auto dest: transpD)
qed simp

lemma ascending_sorted:
  assumes "isConstAscending xs"
  shows "sorted_wrt (\<lambda>newer older. pqValue (getAltitude older) < pqValue (getAltitude newer)) xs"
proof (cases xs)
  case (Cons n ys)
  show ?thesis unfolding Cons
    by (rule steps_sorted [of _ _ isPositiveWithEpsilonConsidered "\<lambda>a b. b < a"])
       (use assms in \<open>auto simp: Cons isConstAscending_def containsNullPositionOrHeight_def list_ex_iff
          intro: transpI dest: positive_minus\<close>)
qed simp

lemma descending_sorted:
  assumes "isConstDescending xs"
  shows "sorted_wrt (\<lambda>newer older. pqValue (getAltitude newer) < pqValue (getAltitude older)) xs"
proof (cases xs)
  case (Cons n ys)
  show ?thesis unfolding Cons
    by (rule steps_sorted [of _ _ isNegativeWithEpsilonConsidered "\<lambda>a b. a < b"])
       (use assms in \<open>auto simp: Cons isConstDescending_def containsNullPositionOrHeight_def list_ex_iff
          intro: transpI negative_minus\<close>)
qed simp

lemma not_both_ways: "isConstAscending xs \<Longrightarrow> \<not> isConstDescending xs"
proof
  assume a: "isConstAscending xs" "isConstDescending xs"
  then obtain x y zs where "xs = x # y # zs"
    by (cases xs rule: remdups_adj.cases) (auto simp: isConstAscending_def)
  with ascending_sorted [OF a(1)] descending_sorted [OF a(2)] show False by simp
qed

text \<open>One change of the flag, whatever the flag at the change itself.\<close>

lemma flagLoop_changed: "flagLoop f t True xs = (if \<forall>x \<in> set xs. onGroundOf x = t then Some True else None)"
  by (induction xs) auto

lemma flagLoop_iff: "flagLoop f t False xs = Some True
  \<longleftrightarrow> (case dropWhile (\<lambda>s. onGroundOf s = f) xs of [] \<Rightarrow> False | b # bs \<Rightarrow> \<forall>c \<in> set bs. onGroundOf c = t)"
  by (induction xs) (auto simp: flagLoop_changed)

text \<open>The flag of the network is lost.\<close>

lemma adjusted_all_from_parts:
  assumes "(n, ys) = adjustGroundFlagAll parts factor xs"
  shows "\<forall>s \<in> set ys. gi_details (s_onGroundInfo s) = InFromParts"
  using assms
  by (auto simp: adjustGroundFlagAll_def eachSituation_def adjustGroundFlag_def setOnGroundDetails_def flagOf_def Let_def)

lemma eachSituation_length [simp]: "length (snd (eachSituation f xs)) = length xs"
  by (simp add: eachSituation_def)

lemma transferElevationForward_length: "length (snd (transferElevationForward G r xs)) = length xs"
  by (induction xs rule: induct_list012) (auto split: prod.splits)

text \<open>Elevations of a history get better at every position.\<close>

lemma checked_all:
  assumes "\<forall>s \<in> set xs. elevation_wf s"
  shows "list_all2 (\<lambda>s s'. elevation_wf s' \<and> elevationRank (getGroundElevationInfo s) \<le> elevationRank (getGroundElevationInfo s'))
    xs (snd (setGroundElevationCheckedAll G ep info t xs))"
proof -
  have "elevation_wf (snd (setGroundElevationChecked G ep info False s))
     \<and> elevationRank (getGroundElevationInfo s) \<le> elevationRank (getGroundElevationInfo (snd (setGroundElevationChecked G ep info False s)))"
    if "s \<in> set xs" for s
    using checked_elevation [of s G ep info False] assms that by (metis prod.collapse)
  with assms show ?thesis
    by (auto simp: setGroundElevationCheckedAll_def eachSituation_def list_all2_map2 list_all2_same)
qed

end
