(* ===== verification/Aircraft_Icao.thy ===== *)
theory Aircraft_Icao
  imports Qt_Number Physical_Quantity
begin

text \<open>
  Aircraft types, \<open>CAircraftIcaoCode\<close> (\<open>src/misc/aviation/aircrafticaocode.cpp\<close>): the
  designator and the combined type (kind of aircraft, number of engines, kind of engines), how
  well two types fit, what is guessed from a type, and the category of a type
  (\<open>aircraftcategory.cpp\<close>). The comparison of short strings is \<open>fuzzyShortStringComparision\<close>
  (\<open>src/misc/stringutils.cpp\<close>), with exact numbers. The result of an operation that reads a
  character which a string does not have is \<^term>\<open>None\<close>.
\<close>

subsection \<open>Comparing short strings\<close>

definition caseInsensitiveStringCompare :: "string \<Rightarrow> string \<Rightarrow> bool" where
  "caseInsensitiveStringCompare c1 c2 \<longleftrightarrow> length c1 = length c2 \<and> startsWith (toLower c1) (toLower c2)"

definition qRound :: "rat \<Rightarrow> int" where
  "qRound x = (if 0 \<le> x then \<lfloor>x + 1 / 2\<rfloor> else - \<lfloor>1 / 2 - x\<rfloor>)"

definition fold_case :: "bool \<Rightarrow> string \<Rightarrow> string" where
  "fold_case insensitive s = (if insensitive then toLower s else s)"

text \<open>The points of one position of the longer string.\<close>

definition charPoints :: "string \<Rightarrow> string \<Rightarrow> nat \<Rightarrow> rat" where
  "charPoints aStr bStr p =
     (if p < length bStr \<and> aStr ! p = bStr ! p then 1
      else if p + 1 < length bStr \<and> aStr ! p = bStr ! (p + 1) then 1 / 2
      else if 1 \<le> p \<and> p - 1 < length bStr \<and> aStr ! p = bStr ! (p - 1) then 1 / 2
      else 0)"

definition fuzzyShortStringComparision :: "string \<Rightarrow> string \<Rightarrow> bool \<Rightarrow> int" where
  "fuzzyShortStringComparision str1 str2 insensitive =
     (if (if insensitive then caseInsensitiveStringCompare str1 str2 else str1 = str2) then 100
      else if str1 = [] \<or> str2 = [] then 0
      else
        let aStr = (if length str2 \<le> length str1 then str1 else str2);
            bStr = (if length str2 \<le> length str1 then str2 else str1);
            s1 = of_nat (length aStr);
            s2 = of_nat (length bStr);
            a = fold_case insensitive aStr;
            b = fold_case insensitive bStr
        in if endsWith a b then qRound (s1 / s2 * 100)
           else if startsWith a b then qRound (s1 / s2 * 100)
           else if containsStr a b then qRound (s1 / s2 * 100)
           else qRound ((\<Sum>p \<leftarrow> [0..<length aStr]. charPoints aStr bStr p) / s1 * 100))"

subsection \<open>Categories\<close>

record CAircraftCategory =
  cat_dbKey :: int
  cat_timestamp :: int
  cat_name :: string
  cat_description :: string
  cat_path :: string
  cat_assignable :: bool
  m_l1 :: int
  m_l2 :: int
  m_l3 :: int

definition CAircraftCategory_default :: CAircraftCategory where
  "CAircraftCategory_default = \<lparr>cat_dbKey = -1, cat_timestamp = -1, cat_name = [], cat_description = [], cat_path = [],
     cat_assignable = True, m_l1 = 0, m_l2 = 0, m_l3 = 0\<rparr>"

definition isNullCategory :: "CAircraftCategory \<Rightarrow> bool" where
  "isNullCategory c \<longleftrightarrow> cat_name c = [] \<and> cat_description c = []"

definition isSameLevel :: "CAircraftCategory \<Rightarrow> CAircraftCategory \<Rightarrow> bool" where
  "isSameLevel category c \<longleftrightarrow> \<not> isNullCategory category
     \<and> m_l1 category = m_l1 c \<and> m_l2 category = m_l2 c \<and> m_l3 category = m_l3 c"

definition getLevel :: "CAircraftCategory \<Rightarrow> int list" where
  "getLevel c = filter (\<lambda>l. 0 < l) [m_l1 c, m_l2 c, m_l3 c]"

definition isFirstLevel :: "CAircraftCategory \<Rightarrow> bool" where
  "isFirstLevel c \<longleftrightarrow> m_l3 c = 0 \<and> m_l2 c = 0 \<and> 0 < m_l1 c"

definition getDepth :: "CAircraftCategory \<Rightarrow> int" where
  "getDepth c = (if isFirstLevel c then 1 else if m_l3 c = 0 \<and> 0 < m_l2 c \<and> 0 < m_l1 c then 2 else 3)"

definition matchesLevel :: "int \<Rightarrow> int \<Rightarrow> int \<Rightarrow> CAircraftCategory \<Rightarrow> bool" where
  "matchesLevel l1 l2 l3 c \<longleftrightarrow>
     l1 = m_l1 c \<and> \<not> (0 < l2 \<and> l2 \<noteq> m_l2 c) \<and> \<not> (0 < l3 \<and> l3 \<noteq> m_l3 c)"

definition matchesLevelList :: "int list \<Rightarrow> CAircraftCategory \<Rightarrow> bool" where
  "matchesLevelList level c = (case level of
       [] \<Rightarrow> False
     | l1 # ls \<Rightarrow> matchesLevel l1 (if 1 < length level then level ! 1 else 0)
                              (if 2 < length level then level ! 2 else 0) c)"

subsection \<open>Codes\<close>

datatype WakeTurbulenceCategory = UNKNOWN | LIGHT | MEDIUM | HEAVY | SUPER

definition wtcOfLetter :: "char \<Rightarrow> WakeTurbulenceCategory" where
  "wtcOfLetter letter =
     (let l = toUpperC letter
      in if l = CHR ''L'' then LIGHT else if l = CHR ''M'' then MEDIUM
         else if l = CHR ''H'' then HEAVY else if l = CHR ''J'' then SUPER else UNKNOWN)"

fun wtcToString :: "WakeTurbulenceCategory \<Rightarrow> string" where
  "wtcToString LIGHT = ''L''" | "wtcToString MEDIUM = ''M''" | "wtcToString HEAVY = ''H''"
| "wtcToString SUPER = ''J''" | "wtcToString UNKNOWN = ''-''"

record CAircraftIcaoCode =
  ic_dbKey :: int
  ic_timestamp :: int
  ic_designator :: string
  ic_iataCode :: string
  ic_family :: string
  ic_combinedType :: string
  ic_manufacturer :: string
  ic_modelDescription :: string
  ic_modelIataDescription :: string
  ic_modelSwiftDescription :: string
  ic_wtc :: WakeTurbulenceCategory
  ic_realWorld :: bool
  ic_legacy :: bool
  ic_military :: bool
  ic_rank :: int
  ic_category :: CAircraftCategory

definition CAircraftIcaoCode_default :: CAircraftIcaoCode where
  "CAircraftIcaoCode_default = \<lparr>ic_dbKey = -1, ic_timestamp = -1, ic_designator = [], ic_iataCode = [],
     ic_family = [], ic_combinedType = [], ic_manufacturer = [], ic_modelDescription = [],
     ic_modelIataDescription = [], ic_modelSwiftDescription = [], ic_wtc = UNKNOWN, ic_realWorld = True,
     ic_legacy = False, ic_military = False, ic_rank = 10, ic_category = CAircraftCategory_default\<rparr>"

definition mkShortIcao :: "string \<Rightarrow> string \<Rightarrow> CAircraftIcaoCode" where
  "mkShortIcao icao combinedType = CAircraftIcaoCode_default
     \<lparr>ic_designator := toUpper (trimmed icao), ic_combinedType := toUpper (trimmed combinedType)\<rparr>"

definition limitRank :: "int \<Rightarrow> int" where
  "limitRank rank = (if rank < 0 \<or> 10 \<le> rank then 10 else rank)"

definition mkIcao ::
  "string \<Rightarrow> string \<Rightarrow> string \<Rightarrow> string \<Rightarrow> string \<Rightarrow> string \<Rightarrow> string \<Rightarrow> string \<Rightarrow> WakeTurbulenceCategory
   \<Rightarrow> bool \<Rightarrow> bool \<Rightarrow> bool \<Rightarrow> int \<Rightarrow> CAircraftIcaoCode" where
  "mkIcao icao iata family combinedType manufacturer model modelIata modelSwift wtc realworld legacy military rank =
     \<lparr>ic_dbKey = -1, ic_timestamp = -1, ic_designator = toUpper (trimmed icao), ic_iataCode = toUpper (trimmed iata),
      ic_family = toUpper (trimmed family), ic_combinedType = toUpper (trimmed combinedType),
      ic_manufacturer = trimmed manufacturer, ic_modelDescription = trimmed model,
      ic_modelIataDescription = trimmed modelIata, ic_modelSwiftDescription = trimmed modelSwift,
      ic_wtc = wtc, ic_realWorld = realworld, ic_legacy = legacy, ic_military = military,
      ic_rank = limitRank rank, ic_category = CAircraftCategory_default\<rparr>"

definition setDesignator :: "string \<Rightarrow> CAircraftIcaoCode \<Rightarrow> CAircraftIcaoCode" where
  "setDesignator s c = c\<lparr>ic_designator := toUpper (trimmed s)\<rparr>"

definition setFamily :: "string \<Rightarrow> CAircraftIcaoCode \<Rightarrow> CAircraftIcaoCode" where
  "setFamily s c = c\<lparr>ic_family := trimmed (toUpper s)\<rparr>"

definition setIataCode :: "string \<Rightarrow> CAircraftIcaoCode \<Rightarrow> CAircraftIcaoCode" where
  "setIataCode s c = c\<lparr>ic_iataCode := trimmed (toUpper s)\<rparr>"

definition setCombinedType :: "string \<Rightarrow> CAircraftIcaoCode \<Rightarrow> CAircraftIcaoCode" where
  "setCombinedType s c = c\<lparr>ic_combinedType := toUpper (trimmed s)\<rparr>"

definition setManufacturer :: "string \<Rightarrow> CAircraftIcaoCode \<Rightarrow> CAircraftIcaoCode" where
  "setManufacturer s c = c\<lparr>ic_manufacturer := trimmed s\<rparr>"

definition setModelDescription :: "string \<Rightarrow> CAircraftIcaoCode \<Rightarrow> CAircraftIcaoCode" where
  "setModelDescription s c = c\<lparr>ic_modelDescription := trimmed s\<rparr>"

definition setModelIataDescription :: "string \<Rightarrow> CAircraftIcaoCode \<Rightarrow> CAircraftIcaoCode" where
  "setModelIataDescription s c = c\<lparr>ic_modelIataDescription := trimmed s\<rparr>"

definition setModelSwiftDescription :: "string \<Rightarrow> CAircraftIcaoCode \<Rightarrow> CAircraftIcaoCode" where
  "setModelSwiftDescription s c = c\<lparr>ic_modelSwiftDescription := trimmed s\<rparr>"

definition setRank :: "int \<Rightarrow> CAircraftIcaoCode \<Rightarrow> CAircraftIcaoCode" where
  "setRank rank c = c\<lparr>ic_rank := limitRank rank\<rparr>"

definition setCategoryId :: "int \<Rightarrow> CAircraftIcaoCode \<Rightarrow> CAircraftIcaoCode" where
  "setCategoryId key c = c\<lparr>ic_category := (ic_category c)\<lparr>cat_dbKey := key\<rparr>\<rparr>"

definition compareInt :: "int \<Rightarrow> int \<Rightarrow> int" where
  "compareInt a b = (if a < b then -1 else if b < a then 1 else 0)"

definition compareByLevel :: "CAircraftCategory \<Rightarrow> CAircraftCategory \<Rightarrow> int" where
  "compareByLevel a b =
     (let c1 = compareInt (m_l1 a) (m_l1 b); c2 = compareInt (m_l2 a) (m_l2 b); c3 = compareInt (m_l3 a) (m_l3 b)
      in if c1 \<noteq> 0 then c1 else if c2 \<noteq> 0 then c2 else c3)"

definition isHigherLevel :: "CAircraftCategory \<Rightarrow> CAircraftCategory \<Rightarrow> bool" where
  "isHigherLevel a b \<longleftrightarrow> compareByLevel a b < 0"

subsection \<open>What a code says\<close>

definition isValidDesignator :: "string \<Rightarrow> bool" where
  "isValidDesignator d \<longleftrightarrow>
     2 \<le> length d \<and> length d \<le> 5 \<and> isUpperC (hd d)
     \<and> \<not> containsChar d (\<lambda>c. \<not> isUpperC c \<and> \<not> isDigitC c)"

definition isValidCombinedType :: "string \<Rightarrow> bool" where
  "isValidCombinedType t \<longleftrightarrow>
     length t = 3 \<and> t ! 0 \<in> set ''AGHSLT'' \<and> isDigitC (t ! 1) \<and> t ! 2 \<in> set ''EJPT-''"

definition getUnassignedDesignator :: string where "getUnassignedDesignator = ''ZZZZ''"

definition getSpecialDesignators :: "string list" where
  "getSpecialDesignators = [''ZZZZ'', ''SHIP'', ''BALL'', ''GLID'', ''ULAC'', ''GYRO'', ''UHEL'']"

definition hasValidDesignator :: "CAircraftIcaoCode \<Rightarrow> bool" where
  "hasValidDesignator c \<longleftrightarrow> isValidDesignator (ic_designator c)"

definition hasKnownDesignator :: "CAircraftIcaoCode \<Rightarrow> bool" where
  "hasKnownDesignator c \<longleftrightarrow> hasValidDesignator c \<and> ic_designator c \<noteq> getUnassignedDesignator"

definition hasSpecialDesignator :: "CAircraftIcaoCode \<Rightarrow> bool" where
  "hasSpecialDesignator c \<longleftrightarrow> ic_designator c \<noteq> [] \<and> ic_designator c \<in> set getSpecialDesignators"

definition isIataSameAsDesignator :: "CAircraftIcaoCode \<Rightarrow> bool" where
  "isIataSameAsDesignator c \<longleftrightarrow> ic_designator c \<noteq> [] \<and> ic_iataCode c \<noteq> [] \<and> ic_iataCode c = ic_designator c"

definition isFamilySameAsDesignator :: "CAircraftIcaoCode \<Rightarrow> bool" where
  "isFamilySameAsDesignator c \<longleftrightarrow> ic_family c \<noteq> [] \<and> ic_designator c \<noteq> [] \<and> ic_designator c = ic_family c"

definition hasValidCombinedType :: "CAircraftIcaoCode \<Rightarrow> bool" where
  "hasValidCombinedType c \<longleftrightarrow> isValidCombinedType (ic_combinedType c)"

definition hasValidDbKey :: "int \<Rightarrow> bool" where "hasValidDbKey key \<longleftrightarrow> 0 \<le> key"

definition isDbEqual :: "CAircraftIcaoCode \<Rightarrow> CAircraftIcaoCode \<Rightarrow> bool" where
  "isDbEqual a b \<longleftrightarrow> hasValidDbKey (ic_dbKey b) \<and> hasValidDbKey (ic_dbKey a) \<and> ic_dbKey b = ic_dbKey a"

definition hasCategory :: "CAircraftIcaoCode \<Rightarrow> bool" where
  "hasCategory c \<longleftrightarrow> \<not> isNullCategory (ic_category c)"

definition hasCompleteData :: "CAircraftIcaoCode \<Rightarrow> bool" where
  "hasCompleteData c \<longleftrightarrow> hasValidCombinedType c \<and> ic_designator c \<noteq> [] \<and> ic_wtc c \<noteq> UNKNOWN \<and> ic_manufacturer c \<noteq> []"

definition isNullIcao :: "CAircraftIcaoCode \<Rightarrow> bool" where
  "isNullIcao c \<longleftrightarrow> ic_designator c = [] \<and> ic_manufacturer c = [] \<and> ic_modelDescription c = []"

text \<open>The number of digits is one, so that the result is a number from 0 to 9, or -1.\<close>

definition digitValue :: "char \<Rightarrow> int" where
  "digitValue c = (if isDigitC c then int (of_char c) - 48 else -1)"

definition getEngineType :: "CAircraftIcaoCode \<Rightarrow> string" where
  "getEngineType c = (if length (ic_combinedType c) \<noteq> 3 then [] else right (ic_combinedType c) 1)"

definition getEnginesCount :: "CAircraftIcaoCode \<Rightarrow> int" where
  "getEnginesCount c =
     (if length (ic_combinedType c) < 2 then -1
      else if ic_combinedType c ! 1 = CHR ''-'' then -1
      else digitValue (ic_combinedType c ! 1))"

definition getEngineCountString :: "CAircraftIcaoCode \<Rightarrow> string" where
  "getEngineCountString c = (if length (ic_combinedType c) < 2 then [] else [ic_combinedType c ! 1])"

definition getAircraftType :: "CAircraftIcaoCode \<Rightarrow> string" where
  "getAircraftType c =
     (if ic_combinedType c = [] then []
      else if hd (ic_combinedType c) = CHR ''-'' then [] else [hd (ic_combinedType c)])"

definition isVtol :: "CAircraftIcaoCode \<Rightarrow> bool" where
  "isVtol c \<longleftrightarrow>
     length (ic_designator c) = 4 \<and> ic_designator c \<in> set [''BALL'', ''SHIP'', ''GYRO'', ''UHEL'']
     \<or> ic_combinedType c \<noteq> [] \<and> (hd (ic_combinedType c) = CHR ''H'' \<or> hd (ic_combinedType c) = CHR ''T'')"

definition isEPTEngineType :: "char \<Rightarrow> bool" where
  "isEPTEngineType engineType \<longleftrightarrow> toUpperC engineType \<in> set ''PET''"

definition removeDuplicates :: "string list \<Rightarrow> string list" where
  "removeDuplicates xs = rev (remdups (rev xs))"

definition getCombinedModelDescription :: "CAircraftIcaoCode \<Rightarrow> string" where
  "getCombinedModelDescription c =
     (if ic_modelIataDescription c = [] \<and> ic_modelSwiftDescription c = [] then ic_modelDescription c
      else qjoin '', '' (removeDuplicates ([ic_modelDescription c]
             @ (if ic_modelIataDescription c \<noteq> [] then [ic_modelIataDescription c] else [])
             @ (if ic_modelSwiftDescription c \<noteq> [] then [ic_modelSwiftDescription c] else []))))"

definition isDbDuplicate :: "CAircraftIcaoCode \<Rightarrow> bool" where
  "isDbDuplicate c \<longleftrightarrow> startsWith (toLower (ic_modelIataDescription c)) ''duplicate''
     \<or> startsWith (toLower (ic_modelSwiftDescription c)) ''do not''"

definition getDbKeyAsStringInParentheses :: "string \<Rightarrow> int \<Rightarrow> string" where
  "getDbKeyAsStringInParentheses prefix key = (if 0 \<le> key then prefix @ ''('' @ number_base 10 key @ '')'' else [])"

definition getCombinedIcaoStringWithKey :: "CAircraftIcaoCode \<Rightarrow> string" where
  "getCombinedIcaoStringWithKey c =
     (if ic_designator c \<noteq> [] then ic_designator c else ''????'')
     @ (if ic_manufacturer c \<noteq> [] then CHR '' '' # ic_manufacturer c else [])
     @ (if ic_modelDescription c \<noteq> [] then CHR '' '' # ic_modelDescription c else [])
     @ getDbKeyAsStringInParentheses '' '' (ic_dbKey c)"

subsection \<open>Matching\<close>

text \<open>
  The similarity is compared with the limit before it is stored: the stored number is 1 or 0,
  and is compared with the limit again. The second component is the number that is returned
  to the caller, when it is set.
\<close>

definition matchesText :: "string \<Rightarrow> string \<Rightarrow> int \<Rightarrow> bool \<times> int option" where
  "matchesText own text fuzzyMatch =
     (if text = [] then (False, None)
      else
        let d = toUpper (trimmed text)
        in if 0 \<le> fuzzyMatch then
             let r = (if fuzzyMatch \<le> fuzzyShortStringComparision own d False then 1 else 0)
             in (fuzzyMatch \<le> r, Some r)
           else (own = d, Some (if own = d then 100 else 0)))"

definition matchesDesignator :: "string \<Rightarrow> int \<Rightarrow> CAircraftIcaoCode \<Rightarrow> bool \<times> int option" where
  "matchesDesignator designator fuzzyMatch c = matchesText (ic_designator c) designator fuzzyMatch"

definition matchesIataCode :: "string \<Rightarrow> int \<Rightarrow> CAircraftIcaoCode \<Rightarrow> bool \<times> int option" where
  "matchesIataCode iata fuzzyMatch c = matchesText (ic_iataCode c) iata fuzzyMatch"

definition matchesFamily :: "string \<Rightarrow> int \<Rightarrow> CAircraftIcaoCode \<Rightarrow> bool \<times> int option" where
  "matchesFamily family fuzzyMatch c = matchesText (ic_family c) family fuzzyMatch"

definition matchesDesignatorOrIata :: "string \<Rightarrow> CAircraftIcaoCode \<Rightarrow> bool" where
  "matchesDesignatorOrIata s c \<longleftrightarrow> s \<noteq> [] \<and> (fst (matchesDesignator s (-1) c) \<or> fst (matchesIataCode s (-1) c))"

definition matchesDesignatorIataOrFamily :: "string \<Rightarrow> CAircraftIcaoCode \<Rightarrow> bool" where
  "matchesDesignatorIataOrFamily s c \<longleftrightarrow> s \<noteq> []
     \<and> (fst (matchesDesignator s (-1) c) \<or> fst (matchesIataCode s (-1) c) \<or> fst (matchesFamily s (-1) c))"

definition matchesManufacturer :: "string \<Rightarrow> CAircraftIcaoCode \<Rightarrow> bool" where
  "matchesManufacturer manufacturer c \<longleftrightarrow> manufacturer \<noteq> [] \<and> length manufacturer = length (ic_manufacturer c)
     \<and> startsWith (toLower (ic_manufacturer c)) (toLower manufacturer)"

definition matchesAnyDescription :: "string \<Rightarrow> CAircraftIcaoCode \<Rightarrow> bool" where
  "matchesAnyDescription candidate c \<longleftrightarrow>
     ic_modelDescription c \<noteq> [] \<and> containsStr (toLower (ic_modelDescription c)) (toLower candidate)
     \<or> ic_modelIataDescription c \<noteq> [] \<and> containsStr (toLower (ic_modelIataDescription c)) (toLower candidate)
     \<or> ic_modelSwiftDescription c \<noteq> [] \<and> containsStr (toLower (ic_modelSwiftDescription c)) (toLower candidate)"

text \<open>The length is that of the argument, the characters are those of the trimmed string.\<close>

definition wildcards :: "string \<Rightarrow> string" where
  "wildcards s = map (\<lambda>c. if c = CHR '' '' \<or> c = CHR ''-'' then CHR ''*'' else c) s"

definition matchesCombinedType :: "string \<Rightarrow> CAircraftIcaoCode \<Rightarrow> bool option" where
  "matchesCombinedType combinedType c =
     (let cc = wildcards (trimmed (toUpper combinedType))
      in if length combinedType \<noteq> 3 then Some False
         else if cc = ic_combinedType c then Some True
         else if CHR ''*'' \<notin> set cc then Some False
         else if length cc < 3 then None
         else if cc ! 0 \<noteq> CHR ''*'' \<and> (getAircraftType c = [] \<or> hd (getAircraftType c) \<noteq> cc ! 0) then Some False
         else if cc ! 1 \<noteq> CHR ''*'' \<and> getEnginesCount c \<noteq> digitValue (cc ! 1) then Some False
         else if cc ! 2 = CHR ''*'' then Some True
         else Some (length (getEngineType c) = 1 \<and> hd (getEngineType c) = cc ! 2))"

definition matchesCombinedTypeAndManufacturer :: "string \<Rightarrow> string \<Rightarrow> CAircraftIcaoCode \<Rightarrow> bool option" where
  "matchesCombinedTypeAndManufacturer combinedType manufacturer c =
     map_option (\<lambda>b. b \<and> matchesManufacturer manufacturer c) (matchesCombinedType combinedType c)"

subsection \<open>Scores\<close>

text \<open>Both kinds of engines are those of the code itself.\<close>

definition engineCountScore :: "int \<Rightarrow> int \<Rightarrow> int" where
  "engineCountScore eMy eOther =
     (if eMy = eOther \<and> 0 \<le> eMy then 4
      else if 0 < eMy \<and> 0 < eOther then
        (let eDiff = \<bar>eMy - eOther\<bar> in if eDiff = 1 then 2 else if eDiff = 2 then 1 else 0)
      else 0)"

definition combinedPartsScore :: "CAircraftIcaoCode \<Rightarrow> CAircraftIcaoCode \<Rightarrow> int" where
  "combinedPartsScore c otherCode =
     (let tMy = getEngineType c;
          tOther = getEngineType c
      in engineCountScore (getEnginesCount c) (getEnginesCount otherCode)
         + (if tMy = tOther then 4
            else if tMy \<noteq> [] \<and> tOther \<noteq> [] \<and> isEPTEngineType (hd tMy) \<and> isEPTEngineType (hd tOther) then 2
            else 0)
         + (if getAircraftType c = getAircraftType otherCode then 7
            else if isVtol c \<and> isVtol otherCode then 4 else 0))"

definition rankScore :: "int \<Rightarrow> int" where
  "rankScore rank = (if rank = 0 then 15 else if rank = 1 then 12 else if rank < 10 then 10 - rank else 0)"

definition typeScore :: "CAircraftIcaoCode \<Rightarrow> CAircraftIcaoCode \<Rightarrow> int" where
  "typeScore c otherCode =
     (if hasValidDesignator c \<and> ic_designator c = ic_designator otherCode then 50 + rankScore (ic_rank c)
      else if ic_family c \<noteq> [] \<and> ic_family c = ic_family otherCode then 40
      else if hasValidCombinedType c \<and> ic_combinedType otherCode = ic_combinedType c then 30
      else if hasValidCombinedType c then combinedPartsScore c otherCode
      else 0)"

definition manufacturerScore :: "CAircraftIcaoCode \<Rightarrow> CAircraftIcaoCode \<Rightarrow> int" where
  "manufacturerScore c otherCode =
     (if ic_manufacturer c \<noteq> [] \<and> ic_manufacturer otherCode \<noteq> [] then
        if matchesManufacturer (ic_manufacturer otherCode) c then 10
        else if containsStr (toLower (ic_manufacturer c)) (toLower (ic_manufacturer otherCode)) then 5
        else 0
      else 0)"

definition flagScore :: "CAircraftIcaoCode \<Rightarrow> CAircraftIcaoCode \<Rightarrow> int" where
  "flagScore c otherCode =
     (if hasCategory c \<and> hasCategory otherCode \<and> ic_category c = ic_category otherCode then 8
      else if ic_military c = ic_military otherCode then 8
      else 0)"

definition calculateScore :: "CAircraftIcaoCode \<Rightarrow> CAircraftIcaoCode \<Rightarrow> int" where
  "calculateScore c otherCode =
     (if isDbEqual c otherCode then 100
      else typeScore c otherCode + manufacturerScore c otherCode + flagScore c otherCode)"

subsection \<open>Guessing\<close>

definition metres :: "rat \<Rightarrow> rat" where "metres m = m * 10000 / 3048"
definition kmh :: "rat \<Rightarrow> rat" where "kmh v = v * 1000 / 1852"

text \<open>Center of gravity in feet and speed in knots, when nothing is known yet.\<close>

definition guessedModelParameters :: "CAircraftIcaoCode \<Rightarrow> rat \<times> rat" where
  "guessedModelParameters c =
     (let engines = getEnginesCount c;
          engineType = (if length (getEngineType c) = 1 then map toUpperC (getEngineType c) else []);
          more = (\<lambda>(cg, vRotate).
            let vRotate1 = (if engineType = ''J'' then
                  if ic_military c then vRotate * 12 / 10
                  else if fst (matchesDesignator ''CONC'' (-1) c) then 199 else vRotate
                else vRotate)
            in (cg, if isVtol c then 0 else vRotate1))
      in if engines = 1 then
           if engineType = ''T'' then (metres 2, kmh 70) else more (metres (15 / 10), kmh 70)
         else if engines = 2 then
           if engineType = ''T'' then (metres 2, 100)
           else if engineType = ''J'' then (metres (25 / 10), 120)
           else more (metres 2, 100)
         else if 2 < engines then
           if engineType = ''J'' then (metres 6, 140) else more (metres 4, 70)
         else more (metres (15 / 10), kmh 70))"

definition guessModelParameters :: "CAircraftIcaoCode \<Rightarrow> PQ \<times> PQ \<Rightarrow> PQ \<times> PQ" where
  "guessModelParameters c out =
     (case out of (guessedCGOut, guessedVRotateOut) \<Rightarrow>
        if guessedCGOut \<noteq> None \<and> guessedVRotateOut \<noteq> None then out
        else (if guessedCGOut = None then Some (fst (guessedModelParameters c)) else guessedCGOut,
              if guessedVRotateOut = None then Some (snd (guessedModelParameters c)) else guessedVRotateOut))"

subsection \<open>Other codes\<close>

definition normalizeDesignator :: "string \<Rightarrow> string" where
  "normalizeDesignator candidate =
     removeChars (takeWhile (\<lambda>c. \<not> isSpace c) (toUpper (trimmed candidate))) (\<lambda>c. \<not> isLetterOrNumber c)"

text \<open>The values of a key of a \<open>QMultiMap\<close> come in the order last inserted first.\<close>

definition knownCodes :: "(string \<times> string) list" where
  "knownCodes = [(''L1P'', ''L2P''), (''L1P'', ''S1P''), (''L2J'', ''L3J''), (''L2J'', ''L4J''), (''L3J'', ''L4J'')]"

definition alternativeCombinedCodes :: "string \<Rightarrow> string list option" where
  "alternativeCombinedCodes code =
     (if isValidCombinedType code then Some []
      else if code \<in> fst ` set knownCodes then Some (map snd (rev (filter (\<lambda>kv. fst kv = code) knownCodes)))
      else if endsWith code ''E'' then Some [left code 2 @ ''P'']
      else if startsWith code ''T'' then Some [''H'' @ right code 2]
      else if length code < 2 then None
      else if digitValue (code ! 1) \<le> 1 then Some []
      else if length code < 3 then None
      else Some (map (\<lambda>c. [code ! 0] @ number_base 10 c @ [code ! 2])
                     (filter (\<lambda>c. c \<noteq> digitValue (code ! 1)) [2, 3, 4])))"

definition createdCombinedString :: "string \<Rightarrow> string \<Rightarrow> string \<Rightarrow> string" where
  "createdCombinedString type engineCount engine =
     (if type = [] then ''-'' else toUpper (left (trimmed type) 1))
     @ (if engineCount = [] then ''-'' else trimmed engineCount)
     @ (if engine = [] then ''-'' else toUpper (left (trimmed engine) 1))"

definition createdCombinedStringOfInt :: "string \<Rightarrow> int \<Rightarrow> string \<Rightarrow> string" where
  "createdCombinedStringOfInt type engineCount engine =
     createdCombinedString type (if 0 \<le> engineCount \<and> engineCount < 10 then number_base 10 engineCount else []) engine"

definition updateMissingParts :: "CAircraftIcaoCode \<Rightarrow> CAircraftIcaoCode \<Rightarrow> CAircraftIcaoCode" where
  "updateMissingParts c other =
     (let c1 = (if \<not> hasValidDesignator c \<and> hasValidDesignator other then setDesignator (ic_designator other) c else c);
          c2 = (if ic_wtc c1 = UNKNOWN \<and> ic_wtc other \<noteq> UNKNOWN then c1\<lparr>ic_wtc := ic_wtc other\<rparr> else c1);
          c3 = (if \<not> hasValidCombinedType c2 \<and> hasValidCombinedType other
                then setCombinedType (ic_combinedType other) c2 else c2);
          c4 = (if ic_manufacturer c3 = [] then setManufacturer (ic_manufacturer other) c3 else c3);
          c5 = (if ic_modelDescription c4 = [] then setModelDescription (ic_modelDescription other) c4 else c4);
          c6 = (if ic_modelIataDescription c5 = []
                then setModelIataDescription (ic_modelIataDescription other) c5 else c5);
          c7 = (if ic_modelSwiftDescription c6 = []
                then setModelSwiftDescription (ic_modelSwiftDescription other) c6 else c6);
          c8 = (if ic_family c7 = [] then setFamily (ic_family other) c7 else c7)
      in if \<not> hasValidDbKey (ic_dbKey c8)
         then c8\<lparr>ic_dbKey := ic_dbKey other, ic_timestamp := ic_timestamp other\<rparr> else c8)"

text \<open>The errors of a code, by their texts.\<close>

definition validateIcao :: "CAircraftIcaoCode \<Rightarrow> string list" where
  "validateIcao c =
     (if hasValidDbKey (ic_dbKey c) \<and> ic_designator c = getUnassignedDesignator then []
      else (if \<not> hasKnownDesignator c then [''Aircraft ICAO: unknown designator''] else [])
         @ (if \<not> hasValidCombinedType c then [''Aircraft ICAO: invalid combined type''] else [])
         @ (if ic_wtc c = UNKNOWN then [''Aircraft ICAO: wrong WTC''] else [])
         @ (if ic_manufacturer c = [] then [''Aircraft ICAO: missing manufacturer''] else [])
         @ (if ic_modelDescription c = [] then [''Aircraft ICAO: no description''] else []))"

end
