(* ===== verification/Aircraft_Icao_Laws.thy ===== *)
theory Aircraft_Icao_Laws
  imports Aircraft_Icao
begin

text \<open>
  What the operations on aircraft types guarantee: bounds of the scores, the matching of combined
  types position by position, what completing a code achieves, the strings that are built.
\<close>

subsection \<open>Scores\<close>

lemma engineCountScore_bounds: "0 \<le> engineCountScore a b \<and> engineCountScore a b \<le> 4"
  by (simp add: engineCountScore_def Let_def)

lemma combinedPartsScore_bounds: "0 \<le> combinedPartsScore c d \<and> combinedPartsScore c d \<le> 15"
  using engineCountScore_bounds [of "getEnginesCount c" "getEnginesCount d"]
  by (simp add: combinedPartsScore_def)

lemma typeScore_bounds: "0 \<le> ic_rank c \<Longrightarrow> 0 \<le> typeScore c d \<and> typeScore c d \<le> 65"
  using combinedPartsScore_bounds [of c d] by (auto simp: typeScore_def rankScore_def)

lemma manufacturerScore_bounds: "0 \<le> manufacturerScore c d \<and> manufacturerScore c d \<le> 10"
  by (simp add: manufacturerScore_def)

lemma flagScore_bounds: "0 \<le> flagScore c d \<and> flagScore c d \<le> 8"
  by (simp add: flagScore_def)

lemma calculateScore_bounds:
  assumes "0 \<le> ic_rank c"
  shows "0 \<le> calculateScore c d \<and> calculateScore c d \<le> (if isDbEqual c d then 100 else 83)"
  using typeScore_bounds [OF assms, of d] manufacturerScore_bounds [of c d] flagScore_bounds [of c d]
  by (simp add: calculateScore_def)

text \<open>The kind of the other code's engines has no influence.\<close>

lemma three_chars: "length t = 3 \<Longrightarrow> \<exists>a n e. t = [a, n, e]"
  by (auto simp: length_Suc_conv numeral_3_eq_3)

lemma valid_combined: "isValidCombinedType t \<longleftrightarrow>
    (\<exists>a n e. t = [a, n, e] \<and> a \<in> set ''AGHSLT'' \<and> isDigitC n \<and> e \<in> set ''EJPT-'')"
  using three_chars [of t] by (auto simp only: isValidCombinedType_def) auto

lemma parts_same_engines:
  assumes "ic_combinedType d = [a, n, e]" "ic_combinedType d' = [a, n, e']" "ic_designator d' = ic_designator d"
  shows "combinedPartsScore c d = combinedPartsScore c d'"
  using assms
  by (simp add: combinedPartsScore_def getEnginesCount_def getAircraftType_def isVtol_def)

subsection \<open>Strings\<close>

lemma fuzzy_refl [simp]: "fuzzyShortStringComparision s s insensitive = 100"
  by (simp add: fuzzyShortStringComparision_def caseInsensitiveStringCompare_def startsWith_def)

lemma qRound_mono_int: "of_int n \<le> x \<Longrightarrow> 0 \<le> n \<Longrightarrow> n \<le> qRound x"
proof -
  assume n: "of_int n \<le> x" "0 \<le> n"
  then have "0 \<le> x" by (meson of_int_0_le_iff order_trans)
  moreover have "of_int n \<le> x + 1 / 2" using n(1) by linarith
  ultimately show "n \<le> qRound x" by (simp add: qRound_def le_floor_iff)
qed

text \<open>A string that contains the other, shorter one counts as at least as similar as an equal one.\<close>

lemma fuzzy_contains:
  assumes "b \<noteq> []" "length b < length a" "containsStr a b"
  shows "100 \<le> fuzzyShortStringComparision a b False"
proof -
  have "(of_nat (length b) :: rat) \<le> of_nat (length a)" "(0 :: rat) < of_nat (length b)" using assms by auto
  then have "(1 :: rat) \<le> of_nat (length a) / of_nat (length b)" by simp
  then have "of_int 100 \<le> of_nat (length a) / of_nat (length b) * (100 :: rat)"
    by (metis mult_right_mono mult_1 of_int_numeral zero_le_numeral)
  from qRound_mono_int [OF this] show ?thesis
    using assms by (auto simp: fuzzyShortStringComparision_def Let_def fold_case_def)
qed

text \<open>With a limit from 2 on nothing is similar enough, not even the text itself.\<close>

lemma matchesText_limit:
  assumes "2 \<le> fuzzyMatch"
  shows "\<not> fst (matchesText own text fuzzyMatch)"
  using assms by (simp add: matchesText_def Let_def)

lemma matchesText_exact: "text \<noteq> [] \<Longrightarrow> fst (matchesText own text (-1)) \<longleftrightarrow> own = toUpper (trimmed text)"
  by (simp add: matchesText_def Let_def)

lemma letterOrNumber_toUpper [simp]: "isLetterOrNumber (toUpperC c) = isLetterOrNumber c"
proof (cases "isLowerC c")
  case True
  then show ?thesis by (auto simp: isLetterOrNumber_def isUpperC_def of_char_toUpperC isLowerC_def Let_def)
qed simp

lemma normal_id:
  assumes "\<forall>c \<in> set s. isLetterOrNumber c \<and> toUpperC c = c"
  shows "normalizeDesignator s = s"
proof -
  have "trimmed s = s"
    using assms isSpace_not_isLetterOrNumber by (intro trimmed_filter_not_space) blast
  moreover have "toUpper s = s" using assms by (simp add: map_idI)
  moreover have "takeWhile (\<lambda>c. \<not> isSpace c) s = s"
    unfolding takeWhile_eq_all_conv using assms isSpace_not_isLetterOrNumber by blast
  moreover have "removeChars s (\<lambda>c. \<not> isLetterOrNumber c) = s"
    using assms by (auto simp: containsChar_iff intro!: removeChars_id)
  ultimately show ?thesis by (simp only: normalizeDesignator_def)
qed

lemma normal_form: "\<forall>c \<in> set (normalizeDesignator s). isLetterOrNumber c \<and> toUpperC c = c"
  by (auto simp: normalizeDesignator_def set_removeChars dest!: set_takeWhileD)

lemma normalize_idem: "normalizeDesignator (normalizeDesignator s) = normalizeDesignator s"
  by (rule normal_id [OF normal_form])

subsection \<open>Combined types\<close>

lemma digitValue_digit: "isDigitC c \<Longrightarrow> 0 \<le> digitValue c"
  by (simp add: digitValue_def isDigitC_def Let_def)

lemma digit_no_symbol: "isDigitC c \<Longrightarrow> c \<noteq> CHR ''-'' \<and> c \<noteq> CHR ''*'' \<and> c \<noteq> CHR '' ''"
  by (auto simp: isDigitC_def)

lemma digitValue_inj: "isDigitC a \<Longrightarrow> digitValue a = digitValue b \<longleftrightarrow> a = b"
  using digitValue_digit [of a] by (auto simp: digitValue_def split: if_splits)

lemma isUpperC_toUpperC: "isLowerC c \<Longrightarrow> isUpperC (toUpperC c)"
  by (auto simp: isUpperC_def of_char_toUpperC isLowerC_def Let_def)

lemma toUpperC_symbol: "\<not> isUpperC x \<Longrightarrow> \<not> isLowerC x \<Longrightarrow> toUpperC q = x \<longleftrightarrow> q = x"
  by (metis isUpperC_toUpperC toUpperC_id)

lemma symbols: "\<not> isUpperC CHR ''*''" "\<not> isLowerC CHR ''*''" "\<not> isUpperC CHR ''-''" "\<not> isLowerC CHR ''-''"
    "\<not> isUpperC CHR '' ''" "\<not> isLowerC CHR '' ''"
  by (simp_all add: isUpperC_def isLowerC_def)

definition positionMatches :: "char \<Rightarrow> char \<Rightarrow> bool" where
  "positionMatches p c \<longleftrightarrow> p \<in> {CHR ''*'', CHR ''-'', CHR '' ''} \<or> toUpperC p = c"

text \<open>A pattern of three characters matches a valid type when each of its positions does.\<close>

lemma matches_positions:
  assumes "hasValidCombinedType c" "length p = 3" "no_outer_space p"
  shows "matchesCombinedType p c = Some (list_all2 positionMatches p (ic_combinedType c))"
proof -
  obtain a n e where t: "ic_combinedType c = [a, n, e]" and v: "a \<in> set ''AGHSLT''" "isDigitC n" "e \<in> set ''EJPT-''"
    using assms(1) by (auto simp: hasValidCombinedType_def valid_combined)
  obtain p0 p1 p2 where p: "p = [p0, p1, p2]" using assms(2) by (auto simp: length_Suc_conv numeral_3_eq_3)
  have tr: "trimmed (toUpper p) = toUpper p"
    by (rule trimmed_id) (use assms(3) in \<open>simp add: p no_outer_space_def\<close>)
  have count: "getEnginesCount c = digitValue n" "getAircraftType c = [a]" "getEngineType c = [e]"
    using v digit_no_symbol [OF v(2)] by (auto simp: getEnginesCount_def getAircraftType_def getEngineType_def right_def t)
  define w where "w q = (if toUpperC q = CHR '' '' \<or> toUpperC q = CHR ''-'' then CHR ''*'' else toUpperC q)" for q
  have w: "positionMatches q x \<longleftrightarrow> w q = CHR ''*'' \<or> w q = x" if "x \<noteq> CHR ''*''" for q x
    using that by (auto simp: positionMatches_def w_def toUpperC_symbol symbols)
  have no_star: "a \<noteq> CHR ''*''" "n \<noteq> CHR ''*''" "e \<noteq> CHR ''*''" using v digit_no_symbol by auto
  have cc: "wildcards (trimmed (toUpper p)) = [w p0, w p1, w p2]" unfolding tr by (simp add: p wildcards_def w_def)
  have positions: "list_all2 positionMatches p (ic_combinedType c)
    \<longleftrightarrow> (w p0 = CHR ''*'' \<or> w p0 = a) \<and> (w p1 = CHR ''*'' \<or> w p1 = n) \<and> (w p2 = CHR ''*'' \<or> w p2 = e)"
    by (simp add: p t w no_star)
  show ?thesis
    unfolding positions unfolding matchesCombinedType_def cc Let_def count t
    by (simp add: assms(2) digitValue_inj [OF v(2)] no_star) (use no_star in auto)
qed

subsection \<open>Completing a code\<close>

text \<open>The strings of a code are kept in a normal form.\<close>

definition upperForm :: "string \<Rightarrow> bool" where
  "upperForm s \<longleftrightarrow> toUpper (trimmed s) = s"

definition icao_wf :: "CAircraftIcaoCode \<Rightarrow> bool" where
  "icao_wf c \<longleftrightarrow> upperForm (ic_designator c) \<and> upperForm (ic_iataCode c) \<and> upperForm (ic_family c)
     \<and> upperForm (ic_combinedType c) \<and> trimmed (ic_manufacturer c) = ic_manufacturer c
     \<and> trimmed (ic_modelDescription c) = ic_modelDescription c
     \<and> trimmed (ic_modelIataDescription c) = ic_modelIataDescription c
     \<and> trimmed (ic_modelSwiftDescription c) = ic_modelSwiftDescription c
     \<and> 0 \<le> ic_rank c \<and> ic_rank c \<le> 10"

lemma upperForm_upper [simp]: "upperForm (toUpper (trimmed s))" "upperForm []"
  by (simp_all add: upperForm_def trimmed_map_toUpper)

lemma mkIcao_wf: "icao_wf (mkIcao icao iata family comb man model modelIata modelSwift wtc rw legacy mil rank)"
  by (simp add: icao_wf_def mkIcao_def limitRank_def)

lemma mkShortIcao_wf: "icao_wf (mkShortIcao icao comb)"
  by (simp add: icao_wf_def mkShortIcao_def CAircraftIcaoCode_default_def)

lemmas setters = setDesignator_def setCombinedType_def setManufacturer_def setModelDescription_def
  setModelIataDescription_def setModelSwiftDescription_def setFamily_def

lemma wf_trims:
  assumes "icao_wf c"
  shows "toUpper (trimmed (ic_designator c)) = ic_designator c"
    and "toUpper (trimmed (ic_combinedType c)) = ic_combinedType c"
    and "trimmed (toUpper (ic_family c)) = ic_family c"
    and "trimmed (ic_manufacturer c) = ic_manufacturer c"
    and "trimmed (ic_modelDescription c) = ic_modelDescription c"
    and "trimmed (ic_modelIataDescription c) = ic_modelIataDescription c"
    and "trimmed (ic_modelSwiftDescription c) = ic_modelSwiftDescription c"
  using assms by (simp_all add: icao_wf_def upperForm_def trimmed_map_toUpper)

text \<open>Every part is taken over where it is missing.\<close>

lemma conditional_setters:
  fixes c :: CAircraftIcaoCode
  shows "(if P then setDesignator x c else c) = c\<lparr>ic_designator := if P then toUpper (trimmed x) else ic_designator c\<rparr>"
    and "(if P then c\<lparr>ic_wtc := w\<rparr> else c) = c\<lparr>ic_wtc := if P then w else ic_wtc c\<rparr>"
    and "(if P then setCombinedType x c else c) = c\<lparr>ic_combinedType := if P then toUpper (trimmed x) else ic_combinedType c\<rparr>"
    and "(if P then setManufacturer x c else c) = c\<lparr>ic_manufacturer := if P then trimmed x else ic_manufacturer c\<rparr>"
    and "(if P then setModelDescription x c else c)
      = c\<lparr>ic_modelDescription := if P then trimmed x else ic_modelDescription c\<rparr>"
    and "(if P then setModelIataDescription x c else c)
      = c\<lparr>ic_modelIataDescription := if P then trimmed x else ic_modelIataDescription c\<rparr>"
    and "(if P then setModelSwiftDescription x c else c)
      = c\<lparr>ic_modelSwiftDescription := if P then trimmed x else ic_modelSwiftDescription c\<rparr>"
    and "(if P then setFamily x c else c) = c\<lparr>ic_family := if P then trimmed (toUpper x) else ic_family c\<rparr>"
    and "(if P then c\<lparr>ic_dbKey := k, ic_timestamp := t\<rparr> else c)
      = c\<lparr>ic_dbKey := if P then k else ic_dbKey c, ic_timestamp := if P then t else ic_timestamp c\<rparr>"
  by (simp_all add: setters)

lemma updated_parts:
  assumes "icao_wf other"
  shows "updateMissingParts c other = c\<lparr>
     ic_designator := (if hasValidDesignator c \<or> \<not> hasValidDesignator other then ic_designator c else ic_designator other),
     ic_wtc := (if ic_wtc c = UNKNOWN then ic_wtc other else ic_wtc c),
     ic_combinedType := (if hasValidCombinedType c \<or> \<not> hasValidCombinedType other
                         then ic_combinedType c else ic_combinedType other),
     ic_manufacturer := (if ic_manufacturer c = [] then ic_manufacturer other else ic_manufacturer c),
     ic_modelDescription := (if ic_modelDescription c = [] then ic_modelDescription other else ic_modelDescription c),
     ic_modelIataDescription := (if ic_modelIataDescription c = [] then ic_modelIataDescription other else ic_modelIataDescription c),
     ic_modelSwiftDescription := (if ic_modelSwiftDescription c = [] then ic_modelSwiftDescription other else ic_modelSwiftDescription c),
     ic_family := (if ic_family c = [] then ic_family other else ic_family c),
     ic_dbKey := (if hasValidDbKey (ic_dbKey c) then ic_dbKey c else ic_dbKey other),
     ic_timestamp := (if hasValidDbKey (ic_dbKey c) then ic_timestamp c else ic_timestamp other)\<rparr>"
proof -
  note trims = wf_trims [OF assms]
  show ?thesis
    unfolding updateMissingParts_def conditional_setters trims
    by (simp add: Let_def hasValidDesignator_def hasValidCombinedType_def cong: if_cong)
qed

lemma updated_wf:
  assumes "icao_wf c" "icao_wf other"
  shows "icao_wf (updateMissingParts c other)"
  unfolding updated_parts [OF assms(2)] using assms unfolding icao_wf_def by simp

text \<open>What is still missing is missing in the other code, too: a second time changes nothing.\<close>

lemma updated_again:
  assumes "icao_wf other"
    and "hasValidDesignator d \<or> \<not> hasValidDesignator other" "hasValidCombinedType d \<or> \<not> hasValidCombinedType other"
    and "ic_wtc d = UNKNOWN \<Longrightarrow> ic_wtc other = UNKNOWN"
    and "ic_manufacturer d = [] \<Longrightarrow> ic_manufacturer other = []"
    and "ic_modelDescription d = [] \<Longrightarrow> ic_modelDescription other = []"
    and "ic_modelIataDescription d = [] \<Longrightarrow> ic_modelIataDescription other = []"
    and "ic_modelSwiftDescription d = [] \<Longrightarrow> ic_modelSwiftDescription other = []"
    and "ic_family d = [] \<Longrightarrow> ic_family other = []"
    and "\<not> hasValidDbKey (ic_dbKey d) \<Longrightarrow> ic_dbKey d = ic_dbKey other \<and> ic_timestamp d = ic_timestamp other"
  shows "updateMissingParts d other = d"
  unfolding updated_parts [OF assms(1)] using assms(2-)
  by (cases d) (auto simp: hasValidDesignator_def hasValidCombinedType_def)

lemma update_twice:
  assumes "icao_wf other"
  shows "updateMissingParts (updateMissingParts c other) other = updateMissingParts c other"
  by (rule updated_again [OF assms])
     (simp_all add: updated_parts [OF assms] hasValidDesignator_def hasValidCombinedType_def split: if_splits)

text \<open>A code without errors repairs any code that does not call itself unassigned.\<close>

lemma validateIcao_Nil:
  "validateIcao c = [] \<longleftrightarrow> hasValidDbKey (ic_dbKey c) \<and> ic_designator c = getUnassignedDesignator
     \<or> hasKnownDesignator c \<and> hasValidCombinedType c \<and> ic_wtc c \<noteq> UNKNOWN \<and> ic_manufacturer c \<noteq> []
       \<and> ic_modelDescription c \<noteq> []"
  by (simp add: validateIcao_def)

lemma update_repairs:
  assumes "icao_wf other" "hasKnownDesignator other" "validateIcao other = []" "ic_designator c \<noteq> getUnassignedDesignator"
  shows "validateIcao (updateMissingParts c other) = [] \<and> hasCompleteData (updateMissingParts c other)"
proof -
  have o: "hasKnownDesignator other \<and> hasValidCombinedType other \<and> ic_wtc other \<noteq> UNKNOWN
      \<and> ic_manufacturer other \<noteq> [] \<and> ic_modelDescription other \<noteq> []"
    using assms(2,3) by (auto simp: validateIcao_Nil hasKnownDesignator_def)
  have "isValidDesignator d \<Longrightarrow> d \<noteq> []" for d by (auto simp: isValidDesignator_def)
  with o assms(4) show ?thesis
    unfolding updated_parts [OF assms(1)]
    by (auto simp: validateIcao_Nil hasCompleteData_def hasKnownDesignator_def hasValidDesignator_def
        hasValidCombinedType_def)
qed

subsection \<open>Guessed parameters and built strings\<close>

lemma guess_complete:
  assumes "guessModelParameters c (cg, v) = (cg', v')"
  shows "cg' \<noteq> None \<and> v' \<noteq> None \<and> (cg \<noteq> None \<longrightarrow> cg' = cg) \<and> (v \<noteq> None \<longrightarrow> v' = v)"
  using assms by (auto simp: guessModelParameters_def split: if_splits)

lemma guessed_positive: "0 < fst (guessedModelParameters c) \<and> 0 \<le> snd (guessedModelParameters c)"
  by (simp add: guessedModelParameters_def Let_def metres_def kmh_def)

text \<open>No speed is guessed as 0 unless the aircraft is no aircraft that has to roll.\<close>

lemma guessed_zero: "snd (guessedModelParameters c) = 0 \<Longrightarrow> isVtol c"
  by (simp add: guessedModelParameters_def Let_def metres_def kmh_def split: if_splits)

lemma alternatives_of_valid: "isValidCombinedType code \<Longrightarrow> alternativeCombinedCodes code = Some []"
  by (simp add: alternativeCombinedCodes_def)

lemma number_digit:
  assumes "0 \<le> n" "n < 10"
  shows "number_base 10 n = [digit_char (nat n)] \<and> isDigitC (digit_char (nat n))"
proof -
  have "nat_digits 10 (nat n) = [digit_char (nat n)]" using assms by (simp add: nat_digits.simps)
  then show ?thesis using assms by (simp add: number_base_def digit_char_def isDigitC_def of_char_of Let_def)
qed

text \<open>The combined type that is built of the columns of the data base.\<close>

lemma built_type:
  assumes "trimmed t = t" "t \<noteq> []" "trimmed e = e" "e \<noteq> []"
  shows "isValidCombinedType (createdCombinedStringOfInt t n e) \<longleftrightarrow>
    0 \<le> n \<and> n < 10 \<and> toUpperC (hd t) \<in> set ''AGHSLT'' \<and> toUpperC (hd e) \<in> set ''EJPT-''"
proof (cases "0 \<le> n \<and> n < 10")
  case True
  then obtain d where d: "number_base 10 n = [d]" "isDigitC d" using number_digit by blast
  have "trimmed [d] = [d]" by (rule trimmed_id) (use d isSpace_not_isLetterOrNumber in \<open>auto simp: no_outer_space_def isLetterOrNumber_def\<close>)
  with True d assms show ?thesis
    by (cases t; cases e) (simp_all add: createdCombinedStringOfInt_def createdCombinedString_def left_def isValidCombinedType_def)
next
  case False
  with assms show ?thesis
    by (cases t; cases e) (auto simp: createdCombinedStringOfInt_def createdCombinedString_def left_def isValidCombinedType_def
        isDigitC_def)
qed

end
