(* ===== verification/Airline_Icao.thy ===== *)
theory Airline_Icao
  imports Aircraft_Icao Aviation_Callsign
begin

text \<open>
  Countries (\<open>src/misc/country.cpp\<close>, \<open>countrylist.cpp\<close>) and airlines
  (\<open>src/misc/aviation/airlineicaocode.cpp\<close>, \<open>airlineicaocodelist.cpp\<close>): the designator, with
  the leading V of a virtual airline, what an airline is matched by, the score of two airlines,
  the merge of the data of two objects, and the searches in a list of airlines. The log
  parameters of the source collect texts only and are left out. \<^const>\<open>None\<close> of the result of a
  search by key is the default object of the source.
\<close>

subsection \<open>Texts\<close>

text \<open>
  \<open>simplifyAccents\<close> (\<open>stringutils.cpp\<close>): the letters of the source's table that a character of the
  model can be. The list runs from the code 192, with the codes that are kept as they are.
\<close>

definition accentTable :: "string list" where
  "accentTable =
     [''A'', ''A'', ''A'', ''A'', ''A'', ''A'', ''AE'', ''C'', ''E'', ''E'', ''E'', ''E'', ''I'', ''I'', ''I'', ''I'',
      ''D'', ''N'', ''O'', ''O'', ''O'', ''O'', ''O'', [CHR 0xD7], ''O'', ''U'', ''U'', ''U'', ''U'', ''Y'', [CHR 0xDE],
      ''s'', ''a'', ''a'', ''a'', ''a'', ''a'', ''a'', ''ae'', ''c'', ''e'', ''e'', ''e'', ''e'', ''i'', ''i'', ''i'',
      ''i'', ''o'', ''n'', ''o'', ''o'', ''o'', ''o'', ''o'', [CHR 0xF7], ''o'', ''u'', ''u'', ''u'', ''u'', ''y'',
      [CHR 0xFE], ''y'']"

definition simplifyAccent :: "char \<Rightarrow> string" where
  "simplifyAccent c =
     (let n = (of_char c :: nat)
      in if n = 165 then ''Y'' else if n = 181 then ''u''
         else if 192 \<le> n \<and> n < 192 + length accentTable then accentTable ! (n - 192) else [c])"

definition simplifyAccents :: "string \<Rightarrow> string" where
  "simplifyAccents candidate = concat (map simplifyAccent candidate)"

definition simplifyNameForSearch :: "string \<Rightarrow> string" where
  "simplifyNameForSearch name = removeChars (toUpper name) (\<lambda>c. \<not> isUpperC c)"

definition containsCI :: "string \<Rightarrow> string \<Rightarrow> bool" where
  "containsCI s p \<longleftrightarrow> containsStr (toLower s) (toLower p)"

definition startsWithCI :: "string \<Rightarrow> string \<Rightarrow> bool" where
  "startsWithCI s p \<longleftrightarrow> startsWith (toLower s) (toLower p)"

subsection \<open>Countries\<close>

record CCountry =
  co_dbKey :: string
  co_loadedFromDb :: bool
  co_timestamp :: int
  co_iso3 :: string
  co_name :: string
  co_simplifiedName :: string
  co_alias1 :: string
  co_alias2 :: string
  co_historic :: bool

definition CCountry_default :: CCountry where
  "CCountry_default = \<lparr>co_dbKey = [], co_loadedFromDb = False, co_timestamp = -1, co_iso3 = [], co_name = [],
     co_simplifiedName = [], co_alias1 = [], co_alias2 = [], co_historic = False\<rparr>"

definition setSimplifiedNameIfNotSame :: "CCountry \<Rightarrow> CCountry" where
  "setSimplifiedNameIfNotSame c =
     (let simplified = simplifyAccents (co_name c)
      in c\<lparr>co_simplifiedName := if co_name c = simplified then [] else simplified\<rparr>)"

definition mkCountry :: "string \<Rightarrow> string \<Rightarrow> CCountry" where
  "mkCountry isoText name =
     setSimplifiedNameIfNotSame (CCountry_default\<lparr>co_dbKey := toUpper (trimmed isoText), co_name := trimmed name\<rparr>)"

definition setIsoCode :: "string \<Rightarrow> CCountry \<Rightarrow> CCountry" where
  "setIsoCode isoText c = (let code = toUpper (trimmed isoText) in c\<lparr>co_dbKey := if length code = 2 then code else []\<rparr>)"

definition setIso3Code :: "string \<Rightarrow> CCountry \<Rightarrow> CCountry" where
  "setIso3Code isoText c = (let code = toUpper (trimmed isoText) in c\<lparr>co_iso3 := if length code = 3 then code else []\<rparr>)"

definition setCountryAlias1 :: "string \<Rightarrow> CCountry \<Rightarrow> CCountry" where
  "setCountryAlias1 a c = c\<lparr>co_alias1 := toUpper (trimmed a)\<rparr>"

definition setCountryAlias2 :: "string \<Rightarrow> CCountry \<Rightarrow> CCountry" where
  "setCountryAlias2 a c = c\<lparr>co_alias2 := toUpper (trimmed a)\<rparr>"

definition setCountryName :: "string \<Rightarrow> CCountry \<Rightarrow> CCountry" where
  "setCountryName name c = setSimplifiedNameIfNotSame (c\<lparr>co_name := trimmed name\<rparr>)"

definition hasIsoCode :: "CCountry \<Rightarrow> bool" where "hasIsoCode c \<longleftrightarrow> length (co_dbKey c) = 2"

definition hasIso3Code :: "CCountry \<Rightarrow> bool" where "hasIso3Code c \<longleftrightarrow> length (co_iso3 c) = 3"

definition isValidCountry :: "CCountry \<Rightarrow> bool" where
  "isValidCountry c \<longleftrightarrow> length (co_dbKey c) = 2 \<and> co_name c \<noteq> []"

definition getCombinedStringIsoName :: "CCountry \<Rightarrow> string" where
  "getCombinedStringIsoName c =
     (if \<not> hasIsoCode c then []
      else if co_name c = [] then co_dbKey c
      else '' ('' @ co_name c @ '')'')"

definition getCombinedStringNameIso :: "CCountry \<Rightarrow> string" where
  "getCombinedStringNameIso c = (if \<not> isValidCountry c then [] else co_name c @ '' -  '' @ co_dbKey c)"

definition matchesCountryName :: "string \<Rightarrow> CCountry \<Rightarrow> bool" where
  "matchesCountryName name c \<longleftrightarrow>
     (if name = [] \<or> co_name c = [] then False
      else if caseInsensitiveStringCompare name (co_dbKey c) then True
      else if caseInsensitiveStringCompare name (co_iso3 c) then True
      else if length name < 5 then
        caseInsensitiveStringCompare name (co_name c) \<or> caseInsensitiveStringCompare name (co_simplifiedName c)
      else containsCI (co_name c) name \<or> containsCI (co_simplifiedName c) name)"

definition matchesAlias :: "string \<Rightarrow> CCountry \<Rightarrow> bool" where
  "matchesAlias a c \<longleftrightarrow> caseInsensitiveStringCompare a (co_alias1 c) \<or> caseInsensitiveStringCompare a (co_alias2 c)"

definition isValidIsoCode :: "string \<Rightarrow> bool" where "isValidIsoCode isoCode \<longleftrightarrow> length isoCode = 2"

definition frontOrDefault :: "'a \<Rightarrow> 'a list \<Rightarrow> 'a" where
  "frontOrDefault d xs = (case xs of [] \<Rightarrow> d | x # _ \<Rightarrow> x)"

definition findFirstByOrDefault :: "'a \<Rightarrow> ('a \<Rightarrow> bool) \<Rightarrow> 'a list \<Rightarrow> 'a" where
  "findFirstByOrDefault d p xs = (case find p xs of None \<Rightarrow> d | Some x \<Rightarrow> x)"

definition findByIsoCode :: "string \<Rightarrow> CCountry list \<Rightarrow> CCountry" where
  "findByIsoCode isoCode cs =
     (if \<not> isValidIsoCode (toUpper (trimmed isoCode)) then CCountry_default
      else findFirstByOrDefault CCountry_default (\<lambda>c. co_dbKey c = isoCode) cs)"

definition findFirstByAlias :: "string \<Rightarrow> CCountry list \<Rightarrow> CCountry" where
  "findFirstByAlias a cs =
     (if a = [] then CCountry_default
      else findFirstByOrDefault CCountry_default (matchesAlias (trimmed (toUpper a))) cs)"

definition isLetterC :: "char \<Rightarrow> bool" where "isLetterC c \<longleftrightarrow> isUpperC c \<or> isLowerC c"

text \<open>The letters at the front of the candidate, the whole candidate when there is none.\<close>

definition countrySearchName :: "string \<Rightarrow> string" where
  "countrySearchName candidate =
     (let front = takeWhile isLetterC candidate in if front = [] then candidate else front)"

definition findBestMatchByCountryName :: "string \<Rightarrow> CCountry list \<Rightarrow> CCountry" where
  "findBestMatchByCountryName candidate cs =
     (if candidate = [] then CCountry_default
      else
        let cn = countrySearchName candidate;
            countries = filter (matchesCountryName cn) cs
        in case countries of
             [] \<Rightarrow> findFirstByAlias cn cs
           | [c] \<Rightarrow> c
           | c # _ # _ \<Rightarrow>
               findFirstByOrDefault c (\<lambda>c. co_name c = cn \<or> startsWithCI (co_name c) cn \<or> startsWithCI cn (co_name c))
                 countries)"

subsection \<open>Airlines\<close>

record CAirlineIcaoCode =
  al_dbKey :: int
  al_timestamp :: int
  al_designator :: string
  al_iataCode :: string
  al_name :: string
  al_telephony :: string
  al_groupDesignator :: string
  al_groupName :: string
  al_country :: CCountry
  al_groupId :: int
  al_isVa :: bool
  al_isOperating :: bool
  al_isMilitary :: bool

definition CAirlineIcaoCode_default :: CAirlineIcaoCode where
  "CAirlineIcaoCode_default = \<lparr>al_dbKey = -1, al_timestamp = -1, al_designator = [], al_iataCode = [], al_name = [],
     al_telephony = [], al_groupDesignator = [], al_groupName = [], al_country = CCountry_default,
     al_groupId = -1, al_isVa = False, al_isOperating = True, al_isMilitary = False\<rparr>"

definition airline_setDesignator :: "string \<Rightarrow> CAirlineIcaoCode \<Rightarrow> CAirlineIcaoCode" where
  "airline_setDesignator icaoDesignator c =
     (let d = toUpper (trimmed icaoDesignator)
      in if length d = 4 \<and> startsWith d ''V'' then c\<lparr>al_isVa := True, al_designator := right d 3\<rparr>
         else c\<lparr>al_designator := d\<rparr>)"

definition airline_checkDesignator :: "CAirlineIcaoCode \<Rightarrow> CAirlineIcaoCode" where
  "airline_checkDesignator c =
     (if length (al_designator c) = 4 then airline_setDesignator (al_designator c) c else c)"

definition mkAirline :: "string \<Rightarrow> CAirlineIcaoCode" where
  "mkAirline airlineDesignator =
     airline_checkDesignator (CAirlineIcaoCode_default\<lparr>al_designator := toUpper (trimmed airlineDesignator)\<rparr>)"

definition mkAirlineFull :: "string \<Rightarrow> string \<Rightarrow> CCountry \<Rightarrow> string \<Rightarrow> bool \<Rightarrow> bool \<Rightarrow> CAirlineIcaoCode" where
  "mkAirlineFull airlineDesignator airlineName country telephony virtualAirline operating =
     airline_checkDesignator (CAirlineIcaoCode_default
       \<lparr>al_designator := toUpper (trimmed airlineDesignator), al_name := airlineName, al_telephony := telephony,
        al_country := country, al_isVa := virtualAirline, al_isOperating := operating\<rparr>)"

definition airline_setIataCode :: "string \<Rightarrow> CAirlineIcaoCode \<Rightarrow> CAirlineIcaoCode" where
  "airline_setIataCode s c = c\<lparr>al_iataCode := toUpper (trimmed s)\<rparr>"

definition airline_setName :: "string \<Rightarrow> CAirlineIcaoCode \<Rightarrow> CAirlineIcaoCode" where
  "airline_setName s c = c\<lparr>al_name := trimmed s\<rparr>"

definition setTelephonyDesignator :: "string \<Rightarrow> CAirlineIcaoCode \<Rightarrow> CAirlineIcaoCode" where
  "setTelephonyDesignator s c = c\<lparr>al_telephony := toUpper (trimmed s)\<rparr>"

definition setGroupDesignator :: "string \<Rightarrow> CAirlineIcaoCode \<Rightarrow> CAirlineIcaoCode" where
  "setGroupDesignator s c = c\<lparr>al_groupDesignator := toUpper (trimmed s)\<rparr>"

definition setGroupName :: "string \<Rightarrow> CAirlineIcaoCode \<Rightarrow> CAirlineIcaoCode" where
  "setGroupName s c = c\<lparr>al_groupName := trimmed s\<rparr>"

definition hasGroupMembership :: "CAirlineIcaoCode \<Rightarrow> bool" where
  "hasGroupMembership c \<longleftrightarrow> 0 \<le> al_groupId c \<and> al_groupDesignator c \<noteq> []"

definition getVDesignator :: "CAirlineIcaoCode \<Rightarrow> string" where
  "getVDesignator c = (if \<not> al_isVa c then al_designator c else CHR ''V'' # al_designator c)"

definition getVDesignatorDbKey :: "CAirlineIcaoCode \<Rightarrow> string" where
  "getVDesignatorDbKey c =
     (if hasValidDbKey (al_dbKey c) then getVDesignator c @ getDbKeyAsStringInParentheses '' '' (al_dbKey c)
      else getVDesignator c)"

definition airline_getDesignatorDbKey :: "CAirlineIcaoCode \<Rightarrow> string" where
  "airline_getDesignatorDbKey c =
     (if hasValidDbKey (al_dbKey c) then al_designator c @ '' '' @ getDbKeyAsStringInParentheses [] (al_dbKey c)
      else al_designator c)"

definition getDesignatorNameCountry :: "CAirlineIcaoCode \<Rightarrow> string" where
  "getDesignatorNameCountry c =
     al_designator c @ (if al_name c \<noteq> [] then CHR '' '' # al_name c else [])
     @ (if isValidCountry (al_country c) then CHR '' '' # co_dbKey (al_country c) else [])"

definition getSimplifiedName :: "CAirlineIcaoCode \<Rightarrow> string" where
  "getSimplifiedName c = simplifyNameForSearch (al_name c)"

definition isValidAirlineDesignator :: "string \<Rightarrow> bool" where
  "isValidAirlineDesignator airline \<longleftrightarrow>
     \<not> (length airline < 2 \<or> 5 < length airline) \<and> \<not> containsChar airline (\<lambda>c. \<not> isUpperC c \<and> \<not> isDigitC c)"

definition isValidIataCode :: "string \<Rightarrow> bool" where
  "isValidIataCode iataCode \<longleftrightarrow> length iataCode = 2 \<and> isValidAirlineDesignator iataCode"

definition hasValidAirline :: "CAirlineIcaoCode \<Rightarrow> bool" where
  "hasValidAirline c \<longleftrightarrow> isValidAirlineDesignator (al_designator c)"

definition airline_matchesDesignator :: "string \<Rightarrow> CAirlineIcaoCode \<Rightarrow> bool" where
  "airline_matchesDesignator designator c \<longleftrightarrow> designator \<noteq> [] \<and> al_designator c \<noteq> []
     \<and> caseInsensitiveStringCompare (al_designator c) (trimmed designator)"

definition matchesVDesignator :: "string \<Rightarrow> CAirlineIcaoCode \<Rightarrow> bool" where
  "matchesVDesignator designator c \<longleftrightarrow> designator \<noteq> [] \<and> al_designator c \<noteq> []
     \<and> caseInsensitiveStringCompare (getVDesignator c) (trimmed designator)"

definition airline_matchesIataCode :: "string \<Rightarrow> CAirlineIcaoCode \<Rightarrow> bool" where
  "airline_matchesIataCode iata c \<longleftrightarrow> iata \<noteq> [] \<and> al_iataCode c \<noteq> []
     \<and> caseInsensitiveStringCompare (al_iataCode c) (trimmed iata)"

definition matchesDesignatorOrIataCode :: "string \<Rightarrow> CAirlineIcaoCode \<Rightarrow> bool" where
  "matchesDesignatorOrIataCode candidate c \<longleftrightarrow>
     candidate \<noteq> [] \<and> (airline_matchesDesignator candidate c \<or> airline_matchesIataCode candidate c)"

definition matchesVDesignatorOrIataCode :: "string \<Rightarrow> CAirlineIcaoCode \<Rightarrow> bool" where
  "matchesVDesignatorOrIataCode candidate c \<longleftrightarrow>
     candidate \<noteq> [] \<and> (matchesVDesignator candidate c \<or> airline_matchesIataCode candidate c)"

definition matchesTelephonyDesignator :: "string \<Rightarrow> CAirlineIcaoCode \<Rightarrow> bool" where
  "matchesTelephonyDesignator candidate c \<longleftrightarrow> candidate \<noteq> [] \<and> al_telephony c \<noteq> []
     \<and> caseInsensitiveStringCompare (al_telephony c) (trimmed candidate)"

text \<open>The candidate is searched as it is, only the name is reduced to its letters.\<close>

definition isContainedInSimplifiedName :: "string \<Rightarrow> CAirlineIcaoCode \<Rightarrow> bool" where
  "isContainedInSimplifiedName candidate c \<longleftrightarrow> candidate \<noteq> [] \<and> al_name c \<noteq> []
     \<and> containsStr (toUpper (filter isLetterC (al_name c))) (toUpper candidate)"

definition matchesNamesOrTelephonyDesignator :: "string \<Rightarrow> CAirlineIcaoCode \<Rightarrow> bool" where
  "matchesNamesOrTelephonyDesignator candidate c \<longleftrightarrow>
     (let cand = trimmed (toUpper candidate)
      in if containsCI (al_name c) cand \<or> containsCI (al_telephony c) cand then True
         else isContainedInSimplifiedName candidate c)"

definition hasSimplifiedName :: "CAirlineIcaoCode \<Rightarrow> bool" where
  "hasSimplifiedName c \<longleftrightarrow> al_name c \<noteq> [] \<and> getSimplifiedName c \<noteq> []"

definition airline_hasCompleteData :: "CAirlineIcaoCode \<Rightarrow> bool" where
  "airline_hasCompleteData c \<longleftrightarrow> hasValidAirline c \<and> isValidCountry (al_country c) \<and> al_name c \<noteq> []"

definition specialValidDesignators :: "string list" where "specialValidDesignators = [''VV'', ''VM'']"

definition airline_normalizeDesignator :: "string \<Rightarrow> string" where
  "airline_normalizeDesignator candidate =
     removeChars (takeWhile (\<lambda>c. \<not> isSpace c) (toUpper (trimmed candidate))) (\<lambda>c. \<not> isLetterOrNumber c)"

definition airline_getCombinedStringWithKey :: "CAirlineIcaoCode \<Rightarrow> string" where
  "airline_getCombinedStringWithKey c =
     (if hasValidAirline c then getVDesignator c else [])
     @ (if al_name c \<noteq> [] then CHR '' '' # al_name c else []) @ getDbKeyAsStringInParentheses '' '' (al_dbKey c)"

definition getNameWithKey :: "CAirlineIcaoCode \<Rightarrow> string" where
  "getNameWithKey c =
     (if \<not> hasValidDbKey (al_dbKey c) then al_name c
      else if al_name c \<noteq> [] then al_name c @ '' '' @ getDbKeyAsStringInParentheses [] (al_dbKey c)
      else getDbKeyAsStringInParentheses [] (al_dbKey c))"

definition validateAirline :: "CAirlineIcaoCode \<Rightarrow> string list" where
  "validateAirline c =
     (if \<not> hasValidAirline c then [''Airline: missing designator''] else [])
     @ (if \<not> isValidCountry (al_country c) then [''Airline: missing country''] else [])
     @ (if al_name c = [] then [''Airline: no name''] else [])"

text \<open>A string that was never set and an empty one are the same here: \<open>isNull\<close> of \<open>QString\<close> is emptiness.\<close>

definition isNullAirline :: "CAirlineIcaoCode \<Rightarrow> bool" where
  "isNullAirline c \<longleftrightarrow> al_designator c = [] \<and> al_iataCode c = [] \<and> al_telephony c = []"

definition thisOrCallsignCode :: "CCallsign \<Rightarrow> CAirlineIcaoCode \<Rightarrow> CAirlineIcaoCode" where
  "thisOrCallsignCode cs c =
     (if hasValidDbKey (al_dbKey c) then c
      else if cs_isEmpty cs then c
      else
        let callsignAirline = fst (getAirlinePrefix cs)
        in if callsignAirline = [] then c
           else if callsignAirline = al_designator c then c
           else
             let callsignIcao = mkAirline callsignAirline
             in if al_designator c = [] then callsignIcao
                else if al_isVa callsignIcao \<and> endsWith (al_designator callsignIcao) (al_designator c) then callsignIcao
                else c)"

definition airline_isDbEqual :: "CAirlineIcaoCode \<Rightarrow> CAirlineIcaoCode \<Rightarrow> bool" where
  "airline_isDbEqual a b \<longleftrightarrow> hasValidDbKey (al_dbKey b) \<and> hasValidDbKey (al_dbKey a) \<and> al_dbKey b = al_dbKey a"

text \<open>The IATA code is not among the compared members, and the key of a country is compared without case.\<close>

definition airline_compared :: "CAirlineIcaoCode \<Rightarrow> CAirlineIcaoCode" where
  "airline_compared a =
     a\<lparr>al_iataCode := [], al_country := (al_country a)\<lparr>co_dbKey := toLower (co_dbKey (al_country a))\<rparr>\<rparr>"

definition airline_equal :: "CAirlineIcaoCode \<Rightarrow> CAirlineIcaoCode \<Rightarrow> bool" where
  "airline_equal a b \<longleftrightarrow> airline_compared a = airline_compared b"

text \<open>The missing parts of the first are taken from the second.\<close>

definition airline_fillParts :: "CAirlineIcaoCode \<Rightarrow> CAirlineIcaoCode \<Rightarrow> CAirlineIcaoCode" where
  "airline_fillParts c other =
     (let c1 = (if \<not> hasValidAirline c then airline_setDesignator (al_designator other) c else c);
          c2 = (if \<not> isValidCountry (al_country c1) then c1\<lparr>al_country := al_country other\<rparr> else c1);
          c3 = (if al_name c2 = [] then airline_setName (al_name other) c2 else c2);
          c4 = (if al_telephony c3 = [] then setTelephonyDesignator (al_telephony other) c3 else c3)
      in if \<not> hasValidDbKey (al_dbKey c4)
         then c4\<lparr>al_dbKey := al_dbKey other, al_timestamp := al_timestamp other\<rparr> else c4)"

text \<open>With data of the database only in the other one, the roles change.\<close>

definition airline_updateMissingParts :: "CAirlineIcaoCode \<Rightarrow> CAirlineIcaoCode \<Rightarrow> CAirlineIcaoCode" where
  "airline_updateMissingParts c other =
     (if \<not> hasValidDbKey (al_dbKey c) \<and> hasValidDbKey (al_dbKey other) then airline_fillParts other c
      else airline_fillParts c other)"

definition airline_nameScore :: "CAirlineIcaoCode \<Rightarrow> CAirlineIcaoCode \<Rightarrow> int" where
  "airline_nameScore c other =
     (if al_name c \<noteq> [] \<and> al_name c = al_name other then 20
      else if al_telephony c \<noteq> [] \<and> al_telephony c = al_telephony other then 15
      else if hasSimplifiedName c \<and> getSimplifiedName c = getSimplifiedName other then 10
      else 0)"

definition airline_calculateScore :: "CAirlineIcaoCode \<Rightarrow> CAirlineIcaoCode \<Rightarrow> int" where
  "airline_calculateScore c other =
     (if airline_isDbEqual c other then 100
      else (if hasValidAirline other \<and> al_designator c = al_designator other then 60 else 0)
         + (if hasValidDbKey (al_dbKey c) \<and> hasValidDbKey (al_dbKey other) \<and> al_isVa c = al_isVa other then 20 else 0)
         + airline_nameScore c other)"

subsection \<open>Lists of airlines\<close>

definition findByDesignator :: "string \<Rightarrow> CAirlineIcaoCode list \<Rightarrow> CAirlineIcaoCode list" where
  "findByDesignator designator l =
     (if \<not> isValidAirlineDesignator designator then [] else filter (airline_matchesDesignator designator) l)"

definition findByIataCode :: "string \<Rightarrow> CAirlineIcaoCode list \<Rightarrow> CAirlineIcaoCode list" where
  "findByIataCode iata l = (if \<not> isValidIataCode iata then [] else filter (airline_matchesIataCode iata) l)"

definition uniqueOrDefault :: "CAirlineIcaoCode list \<Rightarrow> CAirlineIcaoCode" where
  "uniqueOrDefault codes = (case codes of [c] \<Rightarrow> c | _ \<Rightarrow> CAirlineIcaoCode_default)"

definition findByUniqueIataCodeOrDefault :: "string \<Rightarrow> CAirlineIcaoCode list \<Rightarrow> CAirlineIcaoCode" where
  "findByUniqueIataCodeOrDefault iata l = uniqueOrDefault (findByIataCode iata l)"

definition findByDesignatorOrIataCode :: "string \<Rightarrow> CAirlineIcaoCode list \<Rightarrow> CAirlineIcaoCode list" where
  "findByDesignatorOrIataCode s l = (if s = [] then [] else filter (matchesDesignatorOrIataCode s) l)"

definition findByVDesignator :: "string \<Rightarrow> CAirlineIcaoCode list \<Rightarrow> CAirlineIcaoCode list" where
  "findByVDesignator designator l =
     (if \<not> isValidAirlineDesignator designator then [] else filter (matchesVDesignator designator) l)"

definition findByUniqueVDesignatorOrDefault :: "string \<Rightarrow> bool \<Rightarrow> CAirlineIcaoCode list \<Rightarrow> CAirlineIcaoCode" where
  "findByUniqueVDesignatorOrDefault designator preferOperatingAirlines l =
     (let codes = findByVDesignator designator l
      in uniqueOrDefault (if 1 < length codes \<and> preferOperatingAirlines then filter al_isOperating codes else codes))"

definition findByVDesignatorOrIataCode :: "string \<Rightarrow> CAirlineIcaoCode list \<Rightarrow> CAirlineIcaoCode list" where
  "findByVDesignatorOrIataCode s l = (if s = [] then [] else filter (matchesVDesignatorOrIataCode s) l)"

definition findByCountryIsoCode :: "string \<Rightarrow> CAirlineIcaoCode list \<Rightarrow> CAirlineIcaoCode list" where
  "findByCountryIsoCode isoCode l =
     (if length isoCode \<noteq> 2 then [] else filter (\<lambda>c. co_dbKey (al_country c) = toUpper isoCode) l)"

definition findBySimplifiedNameContaining :: "string \<Rightarrow> CAirlineIcaoCode list \<Rightarrow> CAirlineIcaoCode list" where
  "findBySimplifiedNameContaining s l = (if s = [] then [] else filter (isContainedInSimplifiedName s) l)"

definition findByTelephonyDesignator :: "string \<Rightarrow> CAirlineIcaoCode list \<Rightarrow> CAirlineIcaoCode list" where
  "findByTelephonyDesignator s l = (if s = [] then [] else filter (matchesTelephonyDesignator s) l)"

definition findByNamesOrTelephonyDesignator :: "string \<Rightarrow> CAirlineIcaoCode list \<Rightarrow> CAirlineIcaoCode list" where
  "findByNamesOrTelephonyDesignator s l = (if s = [] then [] else filter (matchesNamesOrTelephonyDesignator s) l)"

text \<open>
  A reduction that found nothing, or everything, leaves the list as it was. The last step of the
  source compares the size with that of the list it started with.
\<close>

definition airline_reduceStep ::
  "string \<Rightarrow> (string \<Rightarrow> CAirlineIcaoCode list \<Rightarrow> CAirlineIcaoCode list) \<Rightarrow> nat
   \<Rightarrow> CAirlineIcaoCode list \<times> bool \<Rightarrow> CAirlineIcaoCode list \<times> bool" where
  "airline_reduceStep s findBy allSize step =
     (let found = (if s = [] then fst step else findBy s (fst step))
      in if found = [] \<or> length found = allSize then step else (found, True))"

definition ifPossibleReduceNameTelephonyCountry ::
  "string \<Rightarrow> string \<Rightarrow> string \<Rightarrow> CAirlineIcaoCode list \<Rightarrow> CAirlineIcaoCode list \<times> bool" where
  "ifPossibleReduceNameTelephonyCountry airlineName telephony countryIso l =
     (if l = [] then (l, False)
      else if telephony = [] \<and> airlineName = [] \<and> countryIso = [] then (l, False)
      else
        let step1 = airline_reduceStep airlineName findByNamesOrTelephonyDesignator (length l) (l, False)
        in if length (fst step1) = 1 then step1
           else
             let step2 = airline_reduceStep telephony findByNamesOrTelephonyDesignator (length l) step1
             in if length (fst step2) = 1 then step2
                else airline_reduceStep countryIso findByCountryIsoCode (length l) step2)"

definition ifPossibleReduceByCountry :: "string \<Rightarrow> CAirlineIcaoCode list \<Rightarrow> CAirlineIcaoCode list" where
  "ifPossibleReduceByCountry countryIso l =
     (if countryIso = [] \<or> l = [] then l
      else let found = findByCountryIsoCode countryIso l
           in if length found = length l \<or> found = [] then l else found)"

definition ifPossibleReduceByTelephonyDesignator :: "string \<Rightarrow> CAirlineIcaoCode list \<Rightarrow> CAirlineIcaoCode list" where
  "ifPossibleReduceByTelephonyDesignator telephonyDesignator l =
     (if telephonyDesignator = [] \<or> l = [] then l
      else let found = findByTelephonyDesignator telephonyDesignator l
           in if length found = length l \<or> found = [] then l else found)"

definition smartAirlineIcaoSelector :: "CAirlineIcaoCode \<Rightarrow> CCallsign \<Rightarrow> CAirlineIcaoCode list \<Rightarrow> CAirlineIcaoCode" where
  "smartAirlineIcaoSelector icaoPattern cs l =
     (if hasValidDbKey (al_dbKey icaoPattern) then icaoPattern
      else
        let patternUsed = thisOrCallsignCode cs icaoPattern;
            codesFound =
              (if hasValidAirline patternUsed then
                 if al_isVa patternUsed then findByVDesignator (getVDesignator patternUsed) l
                 else findByDesignator (al_designator patternUsed) l
               else findByIataCode (al_iataCode patternUsed) l)
        in if length codesFound = 1 then hd codesFound
           else if codesFound = [] then
             frontOrDefault CAirlineIcaoCode_default
               (ifPossibleReduceByCountry (co_dbKey (al_country patternUsed))
                 (ifPossibleReduceByTelephonyDesignator (al_telephony patternUsed)
                   (findByNamesOrTelephonyDesignator (al_name patternUsed) l)))
           else
             frontOrDefault CAirlineIcaoCode_default
               (fst (ifPossibleReduceNameTelephonyCountry (al_name patternUsed) (al_telephony patternUsed)
                       (co_dbKey (al_country patternUsed)) codesFound)))"

definition findBestMatchByCallsign :: "CCallsign \<Rightarrow> CAirlineIcaoCode list \<Rightarrow> CAirlineIcaoCode" where
  "findBestMatchByCallsign cs l =
     (if l = [] \<or> cs_isEmpty cs then CAirlineIcaoCode_default
      else
        let airline = toUpper (fst (getAirlinePrefix cs))
        in if airline = [] then CAirlineIcaoCode_default
           else if length airline = 3
           then findFirstByOrDefault CAirlineIcaoCode_default (\<lambda>c. al_designator c = airline) l
           else findFirstByOrDefault CAirlineIcaoCode_default (\<lambda>c. getVDesignator c = airline) l)"

definition containsDesignator :: "string \<Rightarrow> CAirlineIcaoCode list \<Rightarrow> bool" where
  "containsDesignator designator l \<longleftrightarrow>
     designator \<noteq> [] \<and> list_ex (\<lambda>c. al_designator c = toUpper designator) l"

definition containsVDesignator :: "string \<Rightarrow> CAirlineIcaoCode list \<Rightarrow> bool" where
  "containsVDesignator vDesignator l \<longleftrightarrow>
     (if vDesignator = [] then False
      else if length vDesignator < 4 then containsDesignator vDesignator l
      else list_ex (\<lambda>c. getVDesignator c = toUpper vDesignator) l)"

end
