(* ===== verification/Aircraft_Livery.thy ===== *)
theory Aircraft_Livery
  imports Airline_Icao
begin

text \<open>
  Colors (\<open>src/misc/rgbcolor.cpp\<close>) and liveries (\<open>src/misc/aviation/livery.cpp\<close>,
  \<open>liverylist.cpp\<close>): the distance of colors, the codes of color liveries and standard liveries,
  the score of two liveries, the merge of the data of two objects, and the searches in a list of
  liveries. The numbers of type \<open>double\<close> are exact; the conversion to \<open>int\<close> drops the
  fraction.
\<close>

subsection \<open>Colors\<close>

record CRgbColor =
  rgb_r :: int
  rgb_g :: int
  rgb_b :: int

definition CRgbColor_default :: CRgbColor where
  "CRgbColor_default = \<lparr>rgb_r = -1, rgb_g = -1, rgb_b = -1\<rparr>"

definition color_isValid :: "CRgbColor \<Rightarrow> bool" where
  "color_isValid c \<longleftrightarrow> 0 \<le> rgb_r c \<and> 0 \<le> rgb_g c \<and> 0 \<le> rgb_b c"

definition colorRange :: "CRgbColor \<Rightarrow> rat" where
  "colorRange c =
     (if \<not> color_isValid c then 255
      else if rgb_b c < 256 \<and> rgb_g c < 256 \<and> rgb_r c < 256 then 255
      else if rgb_b c < 4096 \<and> rgb_g c < 4096 \<and> rgb_r c < 4096 then 4095
      else 65535)"

definition normalizedRed :: "CRgbColor \<Rightarrow> rat" where "normalizedRed c = of_int (rgb_r c) / colorRange c"
definition normalizedGreen :: "CRgbColor \<Rightarrow> rat" where "normalizedGreen c = of_int (rgb_g c) / colorRange c"
definition normalizedBlue :: "CRgbColor \<Rightarrow> rat" where "normalizedBlue c = of_int (rgb_b c) / colorRange c"

definition colorDistance :: "CRgbColor \<Rightarrow> CRgbColor \<Rightarrow> rat" where
  "colorDistance c color =
     (if \<not> color_isValid c \<and> \<not> color_isValid color then 0
      else if \<not> color_isValid c \<or> \<not> color_isValid color then 1
      else if c = color then 0
      else
        let rd = normalizedRed c - normalizedRed color;
            bd = normalizedBlue c - normalizedBlue color;
            gd = normalizedGreen c - normalizedGreen color
        in (rd * rd + bd * bd + gd * gd) / 3)"

definition color_compare :: "CRgbColor \<Rightarrow> CRgbColor \<Rightarrow> int" where
  "color_compare a b =
     (let c = compareInt (rgb_r a) (rgb_r b)
      in if c \<noteq> 0 then c
         else let c = compareInt (rgb_g a) (rgb_g b)
              in if c \<noteq> 0 then c else compareInt (rgb_b a) (rgb_b b))"

definition intToHex :: "int \<Rightarrow> nat \<Rightarrow> string" where
  "intToHex h digits =
     (let hex = toUpper (number_base 16 h)
      in if digits \<le> length hex then right hex digits else replicate (digits - length hex) CHR ''0'' @ hex)"

definition color_hex :: "bool \<Rightarrow> CRgbColor \<Rightarrow> string" where
  "color_hex withHash c =
     (if \<not> color_isValid c then []
      else let h = intToHex (rgb_r c) 2 @ intToHex (rgb_g c) 2 @ intToHex (rgb_b c) 2
           in if withHash then CHR ''#'' # h else h)"

subsection \<open>Liveries\<close>

record CLivery =
  lv_dbKey :: int
  lv_timestamp :: int
  lv_airline :: CAirlineIcaoCode
  lv_combinedCode :: string
  lv_description :: string
  lv_colorFuselage :: CRgbColor
  lv_colorTail :: CRgbColor
  lv_military :: bool

definition CLivery_default :: CLivery where
  "CLivery_default = \<lparr>lv_dbKey = -1, lv_timestamp = -1, lv_airline = CAirlineIcaoCode_default, lv_combinedCode = [],
     lv_description = [], lv_colorFuselage = CRgbColor_default, lv_colorTail = CRgbColor_default,
     lv_military = False\<rparr>"

definition mkLivery ::
  "int \<Rightarrow> string \<Rightarrow> CAirlineIcaoCode \<Rightarrow> string \<Rightarrow> CRgbColor \<Rightarrow> CRgbColor \<Rightarrow> bool \<Rightarrow> CLivery" where
  "mkLivery dbKey combinedCode airline description colorFuselage colorTail isMilitary =
     \<lparr>lv_dbKey = dbKey, lv_timestamp = -1, lv_airline = airline, lv_combinedCode = toUpper (trimmed combinedCode),
      lv_description = trimmed description, lv_colorFuselage = colorFuselage, lv_colorTail = colorTail,
      lv_military = isMilitary\<rparr>"

definition standardLiveryMarker :: string where "standardLiveryMarker = ''_STD''"

definition colorLiveryMarker :: string where "colorLiveryMarker = ''_CC''"

definition tempLiveryCode :: string where "tempLiveryCode = ''_CC_NOCOLOR''"

definition getStandardCode :: "CAirlineIcaoCode \<Rightarrow> string" where
  "getStandardCode airline =
     (let code = getVDesignator airline in if code = [] then [] else code @ ''.'' @ standardLiveryMarker)"

definition isValidCombinedCode :: "string \<Rightarrow> bool" where
  "isValidCombinedCode candidate \<longleftrightarrow>
     (if candidate = [] then False
      else if startsWith candidate colorLiveryMarker then length colorLiveryMarker + 1 < length candidate
      else if count_list candidate CHR ''.'' \<noteq> 1 then False
      else 2 < length candidate)"

definition setCombinedCode :: "string \<Rightarrow> CLivery \<Rightarrow> CLivery" where
  "setCombinedCode code l = l\<lparr>lv_combinedCode := toUpper (trimmed code)\<rparr>"

definition livery_setAirlineIcaoCode :: "CAirlineIcaoCode \<Rightarrow> CLivery \<Rightarrow> CLivery \<times> bool" where
  "livery_setAirlineIcaoCode airlineIcao l =
     (if airline_equal (lv_airline l) airlineIcao then (l, False) else (l\<lparr>lv_airline := airlineIcao\<rparr>, True))"

definition setAirlineIcaoCodeDesignator :: "string \<Rightarrow> CLivery \<Rightarrow> CLivery \<times> bool" where
  "setAirlineIcaoCodeDesignator d l =
     (if al_designator (lv_airline l) = d then (l, False)
      else (l\<lparr>lv_airline := airline_setDesignator d (lv_airline l)\<rparr>, True))"

definition hasCombinedCode :: "CLivery \<Rightarrow> bool" where "hasCombinedCode l \<longleftrightarrow> lv_combinedCode l \<noteq> []"

definition hasColorFuselage :: "CLivery \<Rightarrow> bool" where "hasColorFuselage l \<longleftrightarrow> color_isValid (lv_colorFuselage l)"
definition hasColorTail :: "CLivery \<Rightarrow> bool" where "hasColorTail l \<longleftrightarrow> color_isValid (lv_colorTail l)"
definition hasValidColors :: "CLivery \<Rightarrow> bool" where "hasValidColors l \<longleftrightarrow> hasColorFuselage l \<and> hasColorTail l"

definition isAirlineLivery :: "CLivery \<Rightarrow> bool" where "isAirlineLivery l \<longleftrightarrow> hasValidAirline (lv_airline l)"

definition isAirlineOperating :: "CLivery \<Rightarrow> bool" where
  "isAirlineOperating l \<longleftrightarrow> isAirlineLivery l \<and> al_isOperating (lv_airline l)"

definition isColorLivery :: "CLivery \<Rightarrow> bool" where
  "isColorLivery l \<longleftrightarrow> startsWith (lv_combinedCode l) colorLiveryMarker"

definition isAirlineStandardLivery :: "CLivery \<Rightarrow> bool" where
  "isAirlineStandardLivery l \<longleftrightarrow>
     \<not> isColorLivery l \<and> hasValidAirline (lv_airline l) \<and> endsWith (lv_combinedCode l) standardLiveryMarker"

definition livery_hasCompleteData :: "CLivery \<Rightarrow> bool" where
  "livery_hasCompleteData l \<longleftrightarrow> lv_description l \<noteq> [] \<and> lv_combinedCode l \<noteq> []"

definition matchesCombinedCode :: "string \<Rightarrow> CLivery \<Rightarrow> bool" where
  "matchesCombinedCode candidate l \<longleftrightarrow>
     \<not> (candidate = [] \<or> \<not> hasCombinedCode l) \<and> toUpper (trimmed candidate) = lv_combinedCode l"

definition matchesColors :: "CRgbColor \<Rightarrow> CRgbColor \<Rightarrow> CLivery \<Rightarrow> bool" where
  "matchesColors fuselage tail l \<longleftrightarrow> lv_colorFuselage l = fuselage \<and> lv_colorTail l = tail"

definition getColorDistance :: "CRgbColor \<Rightarrow> CRgbColor \<Rightarrow> CLivery \<Rightarrow> rat" where
  "getColorDistance fuselage tail l =
     (if \<not> color_isValid fuselage \<or> \<not> color_isValid tail then 1
      else if color_isValid (lv_colorFuselage l) \<and> color_isValid (lv_colorTail l) then
        if matchesColors fuselage tail l then 0
        else let xDist = colorDistance (lv_colorFuselage l) fuselage;
                 yDist = colorDistance (lv_colorTail l) tail
             in (xDist * xDist + yDist * yDist) / 2
      else 1)"

definition liveryDistance :: "CLivery \<Rightarrow> CLivery \<Rightarrow> rat" where
  "liveryDistance l other = getColorDistance (lv_colorFuselage other) (lv_colorTail other) l"

definition getCombinedCodePlusInfo :: "CLivery \<Rightarrow> string" where
  "getCombinedCodePlusInfo l = lv_combinedCode l @ (if lv_description l = [] then [] else CHR '' '' # lv_description l)"

definition getCombinedCodePlusId :: "CLivery \<Rightarrow> string" where
  "getCombinedCodePlusId l = lv_combinedCode l @ getDbKeyAsStringInParentheses '' '' (lv_dbKey l)"

definition getCombinedCodePlusInfoAndId :: "CLivery \<Rightarrow> string" where
  "getCombinedCodePlusInfoAndId l = getCombinedCodePlusInfo l @ getDbKeyAsStringInParentheses '' '' (lv_dbKey l)"

definition isNullLivery :: "CLivery \<Rightarrow> bool" where
  "isNullLivery l \<longleftrightarrow> isNullAirline (lv_airline l) \<and> lv_combinedCode l = [] \<and> lv_description l = []"

definition validateLivery :: "CLivery \<Rightarrow> string list" where
  "validateLivery l =
     (if \<not> hasCombinedCode l then [''Livery: missing livery code''] else [])
     @ (if \<not> hasColorFuselage l then [''Livery: no fuselage color''] else [])
     @ (if \<not> hasColorTail l then [''Livery: no tail color''] else [])
     @ (if isColorLivery l then
          if al_designator (lv_airline l) \<noteq> [] then [''Livery: color livery, but airline looks odd''] else []
        else validateAirline (lv_airline l))"

definition livery_isDbEqual :: "CLivery \<Rightarrow> CLivery \<Rightarrow> bool" where
  "livery_isDbEqual a b \<longleftrightarrow> hasValidDbKey (lv_dbKey b) \<and> hasValidDbKey (lv_dbKey a) \<and> lv_dbKey b = lv_dbKey a"

definition livery_fillParts :: "CLivery \<Rightarrow> CLivery \<Rightarrow> CLivery" where
  "livery_fillParts l other =
     (let l1 = (if \<not> color_isValid (lv_colorFuselage l) then l\<lparr>lv_colorFuselage := lv_colorFuselage other\<rparr> else l);
          l2 = (if \<not> color_isValid (lv_colorTail l1) then l1\<lparr>lv_colorTail := lv_colorTail other\<rparr> else l1);
          l3 = (if lv_combinedCode l2 = [] then setCombinedCode (lv_combinedCode other) l2 else l2);
          l4 = (if lv_description l3 = [] then l3\<lparr>lv_description := lv_description other\<rparr> else l3);
          l5 = l4\<lparr>lv_airline := airline_updateMissingParts (lv_airline l4) (lv_airline other)\<rparr>
      in if \<not> hasValidDbKey (lv_dbKey l5)
         then l5\<lparr>lv_dbKey := lv_dbKey other, lv_timestamp := lv_timestamp other\<rparr> else l5)"

definition livery_updateMissingParts :: "CLivery \<Rightarrow> CLivery \<Rightarrow> CLivery" where
  "livery_updateMissingParts l other =
     (if \<not> hasValidDbKey (lv_dbKey l) \<and> hasValidDbKey (lv_dbKey other) then livery_fillParts other l
      else livery_fillParts l other)"

text \<open>The conversion of a number to \<open>int\<close>.\<close>

definition truncRat :: "rat \<Rightarrow> int" where
  "truncRat x = (if 0 \<le> x then \<lfloor>x\<rfloor> else - \<lfloor>- x\<rfloor>)"

definition livery_calculateScore :: "CLivery \<Rightarrow> bool \<Rightarrow> CLivery \<Rightarrow> int" where
  "livery_calculateScore other preferColorLiveries l =
     (if livery_isDbEqual l other then 100
      else
        let colorMultiplier = 1 - liveryDistance l other
        in if isColorLivery l \<and> isColorLivery other then truncRat (25 + 60 * colorMultiplier)
           else if isAirlineLivery l \<and> isAirlineLivery other then
             truncRat (of_int (qRound (of_int (airline_calculateScore (lv_airline l) (lv_airline other)) / 2))
                       + 25 * colorMultiplier)
             + (if lv_military l = lv_military other then 10 else 0)
           else if isColorLivery l \<and> isAirlineLivery other \<or> isColorLivery other \<and> isAirlineLivery l then
             truncRat ((if preferColorLiveries then 25 else 0) + 25 * colorMultiplier)
           else 0)"

subsection \<open>Lists of liveries\<close>

definition liveries_findByAirlineIcaoDesignator :: "string \<Rightarrow> CLivery list \<Rightarrow> CLivery list" where
  "liveries_findByAirlineIcaoDesignator icao ls =
     (let icaoCode = toUpper (trimmed icao)
      in if icaoCode = [] then [] else filter (\<lambda>l. al_designator (lv_airline l) = icaoCode) ls)"

text \<open>The loop over the liveries: the livery that is returned at once, or the candidates.\<close>

fun stdLiveryCandidates :: "CAirlineIcaoCode \<Rightarrow> CLivery list \<Rightarrow> CLivery list \<Rightarrow> CLivery + CLivery list" where
  "stdLiveryCandidates icao [] candidates = Inr candidates"
| "stdLiveryCandidates icao (livery # ls) candidates =
     (let livIcao = lv_airline livery
      in if \<not> isAirlineStandardLivery livery then stdLiveryCandidates icao ls candidates
         else if airline_isDbEqual livIcao icao then Inl livery
         else if getVDesignator livIcao \<noteq> getVDesignator icao then stdLiveryCandidates icao ls candidates
         else if 5 < length (al_name icao) \<and> containsCI (lv_description livery) (al_name icao) then Inl livery
         else stdLiveryCandidates icao ls (candidates @ [livery]))"

definition findStdLiveryByAirlineIcaoVDesignator :: "CAirlineIcaoCode \<Rightarrow> CLivery list \<Rightarrow> CLivery" where
  "findStdLiveryByAirlineIcaoVDesignator icao ls =
     (if ls = [] \<or> \<not> hasValidAirline icao then CLivery_default
      else case stdLiveryCandidates icao ls [] of
        Inl livery \<Rightarrow> livery
      | Inr candidates \<Rightarrow>
          if length candidates < 2 then frontOrDefault CLivery_default candidates
          else let operatingAirlines = filter isAirlineOperating candidates
               in if operatingAirlines \<noteq> [] then frontOrDefault CLivery_default operatingAirlines
                  else frontOrDefault CLivery_default candidates)"

definition findStdLiveryByVDesignatorString :: "string \<Rightarrow> CLivery list \<Rightarrow> CLivery" where
  "findStdLiveryByVDesignatorString icao ls =
     (let icaoDesignator = toUpper (trimmed icao)
      in if icaoDesignator = [] then CLivery_default
         else findFirstByOrDefault CLivery_default
                (\<lambda>l. isAirlineStandardLivery l \<and> matchesVDesignator icaoDesignator (lv_airline l)) ls)"

definition findStdLiveriesBySimplifiedAirlineName :: "string \<Rightarrow> CLivery list \<Rightarrow> CLivery list" where
  "findStdLiveriesBySimplifiedAirlineName containedString ls =
     (if containedString = [] then []
      else filter (\<lambda>l. isAirlineStandardLivery l \<and> isContainedInSimplifiedName containedString (lv_airline l)) ls)"

definition findStdLiveriesByNamesOrTelephonyDesignator :: "string \<Rightarrow> CLivery list \<Rightarrow> CLivery list" where
  "findStdLiveriesByNamesOrTelephonyDesignator candidate ls =
     (if candidate = [] then []
      else filter (\<lambda>l. isAirlineStandardLivery l \<and> matchesNamesOrTelephonyDesignator candidate (lv_airline l)) ls)"

definition findColorLiveryOrDefault :: "CRgbColor \<Rightarrow> CRgbColor \<Rightarrow> CLivery list \<Rightarrow> CLivery" where
  "findColorLiveryOrDefault fuselage tail ls =
     (if \<not> color_isValid fuselage \<or> \<not> color_isValid tail then CLivery_default
      else findFirstByOrDefault CLivery_default (\<lambda>l. isColorLivery l \<and> matchesColors fuselage tail l) ls)"

fun closestColorLivery :: "CRgbColor \<Rightarrow> CRgbColor \<Rightarrow> CLivery list \<Rightarrow> CLivery \<Rightarrow> rat \<Rightarrow> CLivery" where
  "closestColorLivery fuselage tail [] bestMatch bestDistance = bestMatch"
| "closestColorLivery fuselage tail (livery # ls) bestMatch bestDistance =
     (if \<not> isColorLivery livery then closestColorLivery fuselage tail ls bestMatch bestDistance
      else
        let d = getColorDistance fuselage tail livery
        in if d = 0 then livery
           else if d < bestDistance then closestColorLivery fuselage tail ls livery d
           else closestColorLivery fuselage tail ls bestMatch bestDistance)"

definition findClosestColorLiveryOrDefault :: "CRgbColor \<Rightarrow> CRgbColor \<Rightarrow> CLivery list \<Rightarrow> CLivery" where
  "findClosestColorLiveryOrDefault fuselage tail ls =
     (if \<not> color_isValid fuselage \<or> \<not> color_isValid tail then CLivery_default
      else closestColorLivery fuselage tail ls CLivery_default 1)"

definition liveries_findByCombinedCode :: "string \<Rightarrow> CLivery list \<Rightarrow> CLivery" where
  "liveries_findByCombinedCode combinedCode ls =
     (if \<not> isValidCombinedCode combinedCode then CLivery_default
      else findFirstByOrDefault CLivery_default (matchesCombinedCode combinedCode) ls)"

definition smartLiveryByAirline :: "CLivery \<Rightarrow> CLivery list \<Rightarrow> CLivery option" where
  "smartLiveryByAirline liveryPattern ls =
     (let icao = al_designator (lv_airline liveryPattern);
          l = findStdLiveryByVDesignatorString icao ls;
          liveries = liveries_findByAirlineIcaoDesignator icao ls
      in if livery_hasCompleteData l then Some l
         else case liveries of
           [] \<Rightarrow> None
         | [livery] \<Rightarrow> Some livery
         | livery # _ \<Rightarrow>
             if al_name (lv_airline liveryPattern) \<noteq> [] then
               (case findStdLiveriesBySimplifiedAirlineName (al_name (lv_airline liveryPattern)) liveries of
                  [] \<Rightarrow> Some livery
                | byName # _ \<Rightarrow> Some byName)
             else Some livery)"

definition smartLiveryByName :: "CLivery \<Rightarrow> CLivery list \<Rightarrow> CLivery" where
  "smartLiveryByName liveryPattern ls =
     (if al_name (lv_airline liveryPattern) = [] then CLivery_default
      else frontOrDefault CLivery_default
             (findStdLiveriesByNamesOrTelephonyDesignator (getSimplifiedName (lv_airline liveryPattern)) ls))"

definition smartLiverySelector :: "CLivery \<Rightarrow> CLivery list \<Rightarrow> CLivery" where
  "smartLiverySelector liveryPattern ls =
     (if hasValidDbKey (lv_dbKey liveryPattern) then liveryPattern
      else if hasCombinedCode liveryPattern
              \<and> livery_hasCompleteData (liveries_findByCombinedCode (lv_combinedCode liveryPattern) ls)
      then liveries_findByCombinedCode (lv_combinedCode liveryPattern) ls
      else if isAirlineLivery liveryPattern then
        (case smartLiveryByAirline liveryPattern ls of
           Some l \<Rightarrow> l
         | None \<Rightarrow> smartLiveryByName liveryPattern ls)
      else smartLiveryByName liveryPattern ls)"

end
