(* ===== verification/Simulator_Info.thy ===== *)
theory Simulator_Info
  imports Qt_Number "HOL-Library.Word" "HOL-Library.Multiset"
begin

unbundle bit_operations_syntax

text \<open>
  The simulators a model is made for, \<open>CSimulatorInfo\<close>, and the counts per simulator,
  \<open>CCountPerSimulator\<close> (\<open>src/misc/simulation/simulatorinfo.cpp\<close>), and lists whose
  elements have an order number, \<open>IOrderable\<close> and \<open>IOrderableList\<close> (\<open>src/misc/orderable.cpp\<close>,
  \<open>orderablelist.h\<close>). The flags are an \<open>int\<close>, compared with its sign. A list with order
  numbers is over any type, with the functions that read and set the number; the sort of the
  library is a parameter.
\<close>

subsection \<open>Simulators\<close>

type_synonym CSimulatorInfo = "32 word"

definition NoSimulator :: CSimulatorInfo where "NoSimulator = 0"
definition FSX :: CSimulatorInfo where "FSX = 1"
definition FS9 :: CSimulatorInfo where "FS9 = 2"
definition XPLANE :: CSimulatorInfo where "XPLANE = 4"
definition P3D :: CSimulatorInfo where "P3D = 8"
definition FG :: CSimulatorInfo where "FG = 16"
definition MSFS :: CSimulatorInfo where "MSFS = 32"
definition MSFS2024 :: CSimulatorInfo where "MSFS2024 = 64"
definition AllFsFamily :: CSimulatorInfo where "AllFsFamily = FSX OR FS9 OR P3D OR MSFS OR MSFS2024"

definition AllSimulators :: CSimulatorInfo where
  "AllSimulators = FSX OR FS9 OR XPLANE OR P3D OR FG OR MSFS OR MSFS2024"

lemmas simulator_flags = NoSimulator_def FSX_def FS9_def XPLANE_def P3D_def FG_def MSFS_def MSFS2024_def
  AllFsFamily_def AllSimulators_def

text \<open>\<open>testFlag\<close> of \<open>QFlags\<close>: all the bits of the flag are set, and 0 is only in 0.\<close>

definition testFlag :: "32 word \<Rightarrow> 32 word \<Rightarrow> bool" where
  "testFlag flags flag \<longleftrightarrow> (if flag = 0 then flags = 0 else flags AND flag = flag)"

definition isUnspecified :: "CSimulatorInfo \<Rightarrow> bool" where "isUnspecified s \<longleftrightarrow> sint s < 1"
definition isNoSimulator :: "CSimulatorInfo \<Rightarrow> bool" where "isNoSimulator s \<longleftrightarrow> s = 0"

definition isAnySimulator :: "CSimulatorInfo \<Rightarrow> bool" where
  "isAnySimulator s \<longleftrightarrow> testFlag s FSX \<or> testFlag s FS9 \<or> testFlag s XPLANE \<or> testFlag s P3D \<or> testFlag s FG
     \<or> testFlag s MSFS \<or> testFlag s MSFS2024"

definition isAllSimulators :: "CSimulatorInfo \<Rightarrow> bool" where
  "isAllSimulators s \<longleftrightarrow> testFlag s FSX \<and> testFlag s FS9 \<and> testFlag s XPLANE \<and> testFlag s P3D \<and> testFlag s FG
     \<and> testFlag s MSFS \<and> testFlag s MSFS2024"

definition isMicrosoftSimulator :: "CSimulatorInfo \<Rightarrow> bool" where
  "isMicrosoftSimulator s \<longleftrightarrow> testFlag s FSX \<or> testFlag s FS9 \<or> testFlag s MSFS \<or> testFlag s MSFS2024"

definition isMicrosoftOrPrepare3DSimulator :: "CSimulatorInfo \<Rightarrow> bool" where
  "isMicrosoftOrPrepare3DSimulator s \<longleftrightarrow> isMicrosoftSimulator s \<or> testFlag s P3D"

definition isFsxP3DFamily :: "CSimulatorInfo \<Rightarrow> bool" where
  "isFsxP3DFamily s \<longleftrightarrow> testFlag s FSX \<or> testFlag s P3D \<or> testFlag s MSFS \<or> testFlag s MSFS2024"

definition numberSimulators :: "CSimulatorInfo \<Rightarrow> int" where
  "numberSimulators s = (if testFlag s FS9 then 1 else 0) + (if testFlag s FSX then 1 else 0)
     + (if testFlag s XPLANE then 1 else 0) + (if testFlag s P3D then 1 else 0) + (if testFlag s FG then 1 else 0)
     + (if testFlag s MSFS then 1 else 0) + (if testFlag s MSFS2024 then 1 else 0)"

definition isSingleSimulator :: "CSimulatorInfo \<Rightarrow> bool" where "isSingleSimulator s \<longleftrightarrow> numberSimulators s = 1"
definition isMultipleSimulators :: "CSimulatorInfo \<Rightarrow> bool" where "isMultipleSimulators s \<longleftrightarrow> 1 < numberSimulators s"

definition matchesAll :: "CSimulatorInfo \<Rightarrow> CSimulatorInfo \<Rightarrow> bool" where
  "matchesAll other s \<longleftrightarrow> s AND other = other"

definition matchesAny :: "CSimulatorInfo \<Rightarrow> CSimulatorInfo \<Rightarrow> bool" where
  "matchesAny other s \<longleftrightarrow> 0 < sint (s AND other)"

definition matchesAnyOrNone :: "CSimulatorInfo \<Rightarrow> CSimulatorInfo \<Rightarrow> bool" where
  "matchesAnyOrNone other s \<longleftrightarrow> isNoSimulator s \<or> matchesAny other s"

text \<open>The new value and the delta that is returned.\<close>

definition addSimulators :: "CSimulatorInfo \<Rightarrow> CSimulatorInfo \<Rightarrow> CSimulatorInfo \<times> CSimulatorInfo" where
  "addSimulators other s =
     (if isUnspecified other then (s, NoSimulator)
      else if matchesAll other s then (s, NoSimulator)
      else (s OR other, (s OR other) AND other))"

definition invertSimulators :: "CSimulatorInfo \<Rightarrow> CSimulatorInfo" where
  "invertSimulators s = (s XOR AllSimulators) AND AllSimulators"

definition singleSimulators :: "CSimulatorInfo list" where
  "singleSimulators = [FSX, FS9, P3D, FG, XPLANE, MSFS, MSFS2024]"

text \<open>The set as the list of its insertions.\<close>

definition asSingleSimulatorSet :: "CSimulatorInfo \<Rightarrow> CSimulatorInfo list" where
  "asSingleSimulatorSet s = filter (\<lambda>f. s AND f \<noteq> 0) singleSimulators"

definition boolToFlag :: "bool \<Rightarrow> bool \<Rightarrow> bool \<Rightarrow> bool \<Rightarrow> bool \<Rightarrow> bool \<Rightarrow> bool \<Rightarrow> CSimulatorInfo" where
  "boolToFlag fsx fs9 xp p3d fg msfs msfs2024 =
     (if fsx then FSX else NoSimulator) OR (if fs9 then FS9 else 0) OR (if xp then XPLANE else 0)
     OR (if p3d then P3D else 0) OR (if fg then FG else 0) OR (if msfs then MSFS else 0)
     OR (if msfs2024 then MSFS2024 else 0)"

definition identifierToSimulator :: "string \<Rightarrow> CSimulatorInfo" where
  "identifierToSimulator identifier =
     (let i = removeChars (trimmed (toLower identifier)) (\<lambda>c. c = CHR '' '' \<or> c = CHR ''-'')
      in if i = [] then NoSimulator
         else
           let s = (if containsStr i ''fsx'' \<or> containsStr i ''fs10'' then FSX else 0)
                   OR (if containsStr i ''fs9'' \<or> containsStr i ''2004'' then FS9 else 0)
                   OR (if containsStr i ''plane'' \<or> containsStr i ''xp'' then XPLANE else 0)
                   OR (if containsStr i ''gear'' \<or> length identifier = 2 \<and> startsWith ''fg'' (toLower identifier)
                       then FG else 0)
                   OR (if containsStr i ''3d'' \<or> containsStr i ''prepar'' \<or> containsStr i ''martin''
                          \<or> containsStr i ''lm'' \<or> containsStr i ''lock'' then P3D else 0)
           in if containsStr i ''msfs2024'' then s OR MSFS2024
              else if containsStr i ''msfs'' then s OR MSFS else s)"

definition simulatorToString :: "CSimulatorInfo \<Rightarrow> string" where
  "simulatorToString s = trimmed
     ((if testFlag s FSX then ''FSX '' else []) @ (if testFlag s FS9 then ''FS9 '' else [])
      @ (if testFlag s P3D then ''P3D '' else []) @ (if testFlag s XPLANE then ''XPlane '' else [])
      @ (if testFlag s FG then ''FG '' else []) @ (if testFlag s MSFS then ''MSFS '' else [])
      @ (if testFlag s MSFS2024 then ''MSFS2024 '' else []))"

text \<open>The error of a model's simulators, or its absence.\<close>

definition validateSimulatorsForModel :: "CSimulatorInfo \<Rightarrow> string option" where
  "validateSimulatorsForModel s =
     (if \<not> isAnySimulator s then Some ''No simulator''
      else if isMicrosoftOrPrepare3DSimulator s \<and> testFlag s XPLANE then Some ''Cannot combine XPlane and FS simulators''
      else if isMicrosoftOrPrepare3DSimulator s \<and> testFlag s FG then Some ''Cannot combine FG and FS simulators''
      else if testFlag s XPLANE \<and> testFlag s FG then Some ''Cannot combine FG and XPlane simulators''
      else None)"

subsection \<open>Counts per simulator\<close>

type_synonym CCountPerSimulator = "int list"

definition NumberOfSimulators :: nat where "NumberOfSimulators = 7"

definition emptyCounts :: CCountPerSimulator where "emptyCounts = replicate (NumberOfSimulators + 1) 0"

definition internalIndex :: "CSimulatorInfo \<Rightarrow> nat" where
  "internalIndex s =
     (if s = FSX then 0 else if s = P3D then 1 else if s = FS9 then 2 else if s = XPLANE then 3
      else if s = FG then 4 else if s = MSFS then 5 else if s = MSFS2024 then 6 else NumberOfSimulators)"

definition simulatorOfIndex :: "nat \<Rightarrow> CSimulatorInfo" where
  "simulatorOfIndex i = (if i < 7 then [FSX, P3D, FS9, XPLANE, FG, MSFS, MSFS2024] ! i else NoSimulator)"

definition simCount :: "CSimulatorInfo \<Rightarrow> CCountPerSimulator \<Rightarrow> int" where
  "simCount s counts = counts ! internalIndex s"

definition setCount :: "int \<Rightarrow> CSimulatorInfo \<Rightarrow> CCountPerSimulator \<Rightarrow> CCountPerSimulator" where
  "setCount n s counts = counts[internalIndex s := n]"

definition getCountForUnknownSimulators :: "CCountPerSimulator \<Rightarrow> int" where
  "getCountForUnknownSimulators counts = counts ! NumberOfSimulators"

definition getCountForFsFamilySimulators :: "CCountPerSimulator \<Rightarrow> int" where
  "getCountForFsFamilySimulators counts =
     simCount FSX counts + simCount P3D counts + simCount FS9 counts + simCount MSFS counts + simCount MSFS2024 counts"

definition getCountForFsxFamilySimulators :: "CCountPerSimulator \<Rightarrow> int" where
  "getCountForFsxFamilySimulators counts =
     simCount FSX counts + simCount P3D counts + simCount MSFS counts + simCount MSFS2024 counts"

definition getMaximum :: "CCountPerSimulator \<Rightarrow> int" where "getMaximum counts = Min (set counts)"
definition getMinimum :: "CCountPerSimulator \<Rightarrow> int" where "getMinimum counts = Max (set counts)"

definition simulatorsRepresented :: "CCountPerSimulator \<Rightarrow> nat" where
  "simulatorsRepresented counts = length (filter (\<lambda>n. 0 < n) (butlast counts))"

definition increaseAt :: "bool \<Rightarrow> nat \<Rightarrow> CCountPerSimulator \<Rightarrow> CCountPerSimulator" where
  "increaseAt b i counts = (if b then counts[i := counts ! i + 1] else counts)"

definition increaseSimulatorCounts :: "CSimulatorInfo \<Rightarrow> CCountPerSimulator \<Rightarrow> CCountPerSimulator" where
  "increaseSimulatorCounts s counts =
     (if isNoSimulator s \<or> isUnspecified s then increaseAt True 6 counts
      else increaseAt (testFlag s MSFS2024) 6 (increaseAt (testFlag s MSFS) 5 (increaseAt (testFlag s FG) 4
            (increaseAt (testFlag s XPLANE) 3 (increaseAt (testFlag s FS9) 2 (increaseAt (testFlag s P3D) 1
              (increaseAt (testFlag s FSX) 0 counts)))))))"

subsection \<open>Order numbers\<close>

text \<open>The library's sort by a number leaves open in which order equal elements come.\<close>

type_synonym 'a keySorter = "('a \<Rightarrow> int) \<Rightarrow> 'a list \<Rightarrow> 'a list"

definition keySorts :: "'a keySorter \<Rightarrow> bool" where
  "keySorts srt \<longleftrightarrow> (\<forall>f xs. mset (srt f xs) = mset xs \<and> sorted (map f (srt f xs)))"

lemma sort_key_keySorts [simp]: "keySorts sort_key"
  by (simp add: keySorts_def)

definition hasValidOrder :: "int \<Rightarrow> bool" where "hasValidOrder order \<longleftrightarrow> 0 \<le> order"

definition compareOrder :: "int \<Rightarrow> int \<Rightarrow> int" where
  "compareOrder a b =
     (let o1 = (if hasValidOrder a then a else 2 ^ 31 - 1); o2 = (if hasValidOrder b then b else 2 ^ 31 - 1)
      in if o1 < o2 then -1 else if o2 < o1 then 1 else 0)"

fun resetOrder :: "(int \<Rightarrow> 'a \<Rightarrow> 'a) \<Rightarrow> int \<Rightarrow> 'a list \<Rightarrow> 'a list" where
  "resetOrder setOrder offset [] = []"
| "resetOrder setOrder offset (x # xs) = setOrder offset x # resetOrder setOrder (offset + 1) xs"

fun freezeOrderDown :: "(int \<Rightarrow> 'a \<Rightarrow> 'a) \<Rightarrow> int \<Rightarrow> 'a list \<Rightarrow> 'a list" where
  "freezeOrderDown setOrder c [] = []"
| "freezeOrderDown setOrder c (x # xs) = setOrder c x # freezeOrderDown setOrder (c - 1) xs"

definition freezeOrderReverse :: "(int \<Rightarrow> 'a \<Rightarrow> 'a) \<Rightarrow> 'a list \<Rightarrow> 'a list" where
  "freezeOrderReverse setOrder xs = freezeOrderDown setOrder (int (length xs) - 1) xs"

definition needsOrder :: "('a \<Rightarrow> int) \<Rightarrow> 'a list \<Rightarrow> bool" where
  "needsOrder getOrder xs \<longleftrightarrow> list_ex (\<lambda>x. \<not> hasValidOrder (getOrder x)) xs"

definition orderValues :: "('a \<Rightarrow> int) \<Rightarrow> 'a list \<Rightarrow> int list" where
  "orderValues getOrder xs = filter hasValidOrder (map getOrder xs)"

definition withoutItemsOfSameOrder :: "('a \<Rightarrow> int) \<Rightarrow> 'a list \<Rightarrow> 'a list \<Rightarrow> 'a list" where
  "withoutItemsOfSameOrder getOrder items xs =
     (let orders = orderValues getOrder items
      in if orders = [] then xs else filter (\<lambda>x. getOrder x \<notin> set orders) xs)"

definition sortDescendingByOrder :: "'a keySorter \<Rightarrow> ('a \<Rightarrow> int) \<Rightarrow> 'a list \<Rightarrow> 'a list" where
  "sortDescendingByOrder srt getOrder xs = rev (srt getOrder xs)"

definition moveTo :: "'a keySorter \<Rightarrow> ('a \<Rightarrow> int) \<Rightarrow> (int \<Rightarrow> 'a \<Rightarrow> 'a) \<Rightarrow> 'a list \<Rightarrow> int \<Rightarrow> 'a list \<Rightarrow> 'a list" where
  "moveTo srt getOrder setOrder items targetOrder xs =
     (if items = [] then xs
      else
        let newContainer = resetOrder setOrder 0 (srt getOrder (withoutItemsOfSameOrder getOrder items xs));
            shift = int (length items)
        in map (\<lambda>x. if getOrder x < targetOrder then x else setOrder (getOrder x + shift) x) newContainer
           @ resetOrder setOrder targetOrder (srt getOrder items))"

fun minOrderFrom :: "('a \<Rightarrow> int) \<Rightarrow> 'a \<Rightarrow> 'a list \<Rightarrow> 'a" where
  "minOrderFrom getOrder m [] = m"
| "minOrderFrom getOrder m (x # xs) =
     minOrderFrom getOrder (if hasValidOrder (getOrder x) \<and> getOrder x < getOrder m then x else m) xs"

fun maxOrderFrom :: "('a \<Rightarrow> int) \<Rightarrow> 'a \<Rightarrow> 'a list \<Rightarrow> 'a" where
  "maxOrderFrom getOrder m [] = m"
| "maxOrderFrom getOrder m (x # xs) =
     maxOrderFrom getOrder (if hasValidOrder (getOrder x) \<and> getOrder m < getOrder x then x else m) xs"

definition minOrderOrDefault :: "('a \<Rightarrow> int) \<Rightarrow> 'a \<Rightarrow> 'a list \<Rightarrow> 'a" where
  "minOrderOrDefault getOrder d xs = (case xs of [] \<Rightarrow> d | x # _ \<Rightarrow> minOrderFrom getOrder x xs)"

definition maxOrderOrDefault :: "('a \<Rightarrow> int) \<Rightarrow> 'a \<Rightarrow> 'a list \<Rightarrow> 'a" where
  "maxOrderOrDefault getOrder d xs = (case xs of [] \<Rightarrow> d | x # _ \<Rightarrow> maxOrderFrom getOrder x xs)"

end
