(* ===== verification/Aircraft_Distributor.thy ===== *)
theory Aircraft_Distributor
  imports Simulator_Info Airline_Icao
begin

text \<open>
  The distributors of models, \<open>CDistributor\<close>, their lists and the preferred distributors per
  simulator (\<open>src/misc/simulation/distributor.cpp\<close>, \<open>distributorlist.cpp\<close>,
  \<open>distributorlistpreferences.cpp\<close>).
\<close>

record CDistributor =
  di_dbKey :: string
  di_loadedFromDb :: bool
  di_timestamp :: int
  di_order :: int
  di_description :: string
  di_alias1 :: string
  di_alias2 :: string
  di_simulator :: CSimulatorInfo

definition CDistributor_default :: CDistributor where
  "CDistributor_default = \<lparr>di_dbKey = [], di_loadedFromDb = False, di_timestamp = -1, di_order = -1,
     di_description = [], di_alias1 = [], di_alias2 = [], di_simulator = NoSimulator\<rparr>"

text \<open>X-CSL becomes XCSL.\<close>

definition unifyKeyOrAlias :: "string \<Rightarrow> string" where
  "unifyKeyOrAlias v = removeChars (toUpper (trimmed v)) (\<lambda>c. \<not> isLetterOrNumber c)"

definition distributor_setDbKey :: "string \<Rightarrow> CDistributor \<Rightarrow> CDistributor" where
  "distributor_setDbKey key d = d\<lparr>di_dbKey := toUpper (trimmed key)\<rparr>"

definition mkDistributorKey :: "string \<Rightarrow> CDistributor" where
  "mkDistributorKey key = distributor_setDbKey (unifyKeyOrAlias key) CDistributor_default"

definition mkDistributor :: "string \<Rightarrow> string \<Rightarrow> string \<Rightarrow> string \<Rightarrow> CSimulatorInfo \<Rightarrow> CDistributor" where
  "mkDistributor key description alias1 alias2 simulator =
     distributor_setDbKey (unifyKeyOrAlias key) (CDistributor_default
       \<lparr>di_description := description, di_alias1 := alias1, di_alias2 := alias2, di_simulator := simulator\<rparr>)"

definition distributor_hasValidDbKey :: "CDistributor \<Rightarrow> bool" where
  "distributor_hasValidDbKey d \<longleftrightarrow> di_dbKey d \<noteq> []"

definition distributor_isDbEqual :: "CDistributor \<Rightarrow> CDistributor \<Rightarrow> bool" where
  "distributor_isDbEqual a b \<longleftrightarrow> di_loadedFromDb b \<and> di_loadedFromDb a \<and> di_dbKey b = di_dbKey a"

definition setDistributorDescription :: "string \<Rightarrow> CDistributor \<Rightarrow> CDistributor" where
  "setDistributorDescription s d = d\<lparr>di_description := trimmed s\<rparr>"

definition getIdAndDescription :: "CDistributor \<Rightarrow> string" where
  "getIdAndDescription d =
     (if di_dbKey d \<noteq> [] \<and> di_description d \<noteq> [] then di_dbKey d @ '' '' @ di_description d
      else if di_dbKey d \<noteq> [] then di_dbKey d else [])"

definition matchesKeyOrAlias :: "string \<Rightarrow> CDistributor \<Rightarrow> bool" where
  "matchesKeyOrAlias keyOrAlias d \<longleftrightarrow>
     (let s = toUpper (trimmed keyOrAlias)
      in s \<noteq> [] \<and> (di_dbKey d = s \<or> di_alias1 d = s \<or> di_alias2 d = s))"

definition matchesDistributor :: "CDistributor \<Rightarrow> CDistributor \<Rightarrow> bool" where
  "matchesDistributor other d \<longleftrightarrow>
     distributor_hasValidDbKey other \<and> matchesKeyOrAlias (di_dbKey other) d
     \<or> di_alias1 other \<noteq> [] \<and> matchesKeyOrAlias (di_alias1 other) d
     \<or> di_alias2 other \<noteq> [] \<and> matchesKeyOrAlias (di_alias2 other) d"

definition distributor_hasCompleteData :: "CDistributor \<Rightarrow> bool" where
  "distributor_hasCompleteData d \<longleftrightarrow> di_description d \<noteq> [] \<and> di_dbKey d \<noteq> []"

definition validateDistributor :: "CDistributor \<Rightarrow> string list" where
  "validateDistributor d =
     (if \<not> distributor_hasValidDbKey d then [''Distributor: missing id''] else [])
     @ (if di_description d = [] then [''Distributor: missing description''] else [])"

text \<open>A missing second alias is looked for, but the first one is set.\<close>

definition distributor_fillParts :: "CDistributor \<Rightarrow> CDistributor \<Rightarrow> CDistributor" where
  "distributor_fillParts d other =
     (let d1 = (if di_alias1 d = [] then d\<lparr>di_alias1 := di_alias1 other\<rparr> else d);
          d2 = (if di_alias2 d1 = [] then d1\<lparr>di_alias1 := di_alias2 other\<rparr> else d1)
      in if di_description d2 = [] then setDistributorDescription (di_description other) d2 else d2)"

definition distributor_updateMissingParts :: "CDistributor \<Rightarrow> CDistributor \<Rightarrow> CDistributor" where
  "distributor_updateMissingParts d other =
     (if \<not> distributor_hasValidDbKey d \<and> distributor_hasValidDbKey other then distributor_fillParts other d
      else distributor_fillParts d other)"

definition standardAllFsFamily :: "string list" where
  "standardAllFsFamily = [''FS9'', ''FSX'', ''P3D'', ''MSFS'', ''MSFS2024'']"

definition xplaneMostPopular :: "string list" where "xplaneMostPopular = [''BB'', ''XCSL'']"

subsection \<open>Lists of distributors\<close>

definition findByKeyOrAlias :: "string \<Rightarrow> CDistributor list \<Rightarrow> CDistributor" where
  "findByKeyOrAlias keyOrAlias ds =
     (if keyOrAlias = [] then CDistributor_default
      else findFirstByOrDefault CDistributor_default (matchesKeyOrAlias keyOrAlias) ds)"

definition findFsFamilyStandard :: "CDistributor list \<Rightarrow> CDistributor list" where
  "findFsFamilyStandard ds = filter (\<lambda>d. di_dbKey d \<in> set standardAllFsFamily) ds"

definition smartDistributorSelector :: "CDistributor \<Rightarrow> CDistributor list \<Rightarrow> CDistributor" where
  "smartDistributorSelector distributor ds =
     (if di_loadedFromDb distributor then distributor
      else if distributor_hasValidDbKey distributor then
        let key = di_dbKey distributor;
            d = findFirstByOrDefault CDistributor_default (\<lambda>d. di_dbKey d = key) ds
        in if distributor_hasCompleteData d then d else findByKeyOrAlias key ds
      else CDistributor_default)"

definition matchesAnyKeyOrAlias :: "string \<Rightarrow> CDistributor list \<Rightarrow> bool" where
  "matchesAnyKeyOrAlias keyOrAlias ds \<longleftrightarrow> list_ex (matchesKeyOrAlias keyOrAlias) ds"

definition getDbKeysAndAliases :: "CDistributor list \<Rightarrow> string list" where
  "getDbKeysAndAliases ds = concat (map (\<lambda>d.
     if \<not> distributor_hasValidDbKey d then []
     else [di_dbKey d] @ (if di_alias1 d \<noteq> [] then [di_alias1 d] else [])
          @ (if di_alias2 d \<noteq> [] then [di_alias2 d] else [])) ds)"

definition distributorsForSimulator :: "CSimulatorInfo \<Rightarrow> CDistributor list \<Rightarrow> CDistributor list" where
  "distributorsForSimulator simulator ds = filter (\<lambda>d. matchesAny simulator (di_simulator d)) ds"

definition matchesAnyFsFamily :: "CDistributor list \<Rightarrow> CDistributor list" where
  "matchesAnyFsFamily ds = distributorsForSimulator AllFsFamily ds"

definition isCompletelyFromDb :: "CDistributor list \<Rightarrow> bool" where
  "isCompletelyFromDb ds \<longleftrightarrow> list_all di_loadedFromDb ds"

definition distributorsFromDb :: "CDistributor list \<Rightarrow> CDistributor list" where
  "distributorsFromDb ds = filter di_loadedFromDb ds"

subsection \<open>Preferences\<close>

record CDistributorListPreferences =
  dp_fsx :: "CDistributor list"
  dp_p3d :: "CDistributor list"
  dp_fs9 :: "CDistributor list"
  dp_fg :: "CDistributor list"
  dp_xplane :: "CDistributor list"
  dp_msfs :: "CDistributor list"
  dp_msfs2024 :: "CDistributor list"
  dp_lastUpdatedSimulator :: CSimulatorInfo

definition getDistributors :: "CSimulatorInfo \<Rightarrow> CDistributorListPreferences \<Rightarrow> CDistributor list" where
  "getDistributors simulator p =
     (if simulator = FSX then dp_fsx p else if simulator = P3D then dp_p3d p else if simulator = FS9 then dp_fs9 p
      else if simulator = FG then dp_fg p else if simulator = XPLANE then dp_xplane p
      else if simulator = MSFS then dp_msfs p else if simulator = MSFS2024 then dp_msfs2024 p else [])"

definition getFirstOrDefaultDistributor :: "CSimulatorInfo \<Rightarrow> CDistributorListPreferences \<Rightarrow> CDistributor" where
  "getFirstOrDefaultDistributor simulator p = frontOrDefault CDistributor_default (getDistributors simulator p)"

definition setDistributors ::
  "CDistributor keySorter \<Rightarrow> CDistributor list \<Rightarrow> CSimulatorInfo \<Rightarrow> CDistributorListPreferences
   \<Rightarrow> CDistributorListPreferences" where
  "setDistributors srt distributors simulator p =
     (let d = srt di_order distributors; q = p\<lparr>dp_lastUpdatedSimulator := simulator\<rparr>
      in if simulator = FSX then q\<lparr>dp_fsx := d\<rparr> else if simulator = P3D then q\<lparr>dp_p3d := d\<rparr>
         else if simulator = FS9 then q\<lparr>dp_fs9 := d\<rparr> else if simulator = FG then q\<lparr>dp_fg := d\<rparr>
         else if simulator = XPLANE then q\<lparr>dp_xplane := d\<rparr> else if simulator = MSFS then q\<lparr>dp_msfs := d\<rparr>
         else if simulator = MSFS2024 then q\<lparr>dp_msfs2024 := d\<rparr> else q)"

end
