(* ===== verification/Aircraft_Model.thy ===== *)
theory Aircraft_Model
  imports Aircraft_Livery Aircraft_Distributor
begin

text \<open>
  Aircraft models, \<open>CAircraftModel\<close> (\<open>src/misc/simulation/aircraftmodel.cpp\<close>): the model
  string with its alias, the aircraft type, the livery, the simulators and the distributor, the
  string that names the database ids of these in the network protocol, the merge of the data of
  two models, the score of two models, and the checks before a model is published. File names
  are texts; what asks the file system is left out.
\<close>

subsection \<open>Data\<close>

datatype ModelType = TypeUnknown | TypeQueriedFromNetwork | TypeFSInnData | TypeReverseLookup | TypeModelMatching
  | TypeModelMatchingDefaultModel | TypeDatabaseEntry | TypeManuallySet | TypeOwnSimulatorModel | TypeVPilotRuleBased
  | TypeTerrainProbe

datatype ModelMode = UndefinedMode | Include | Exclude

fun modelTypeToString :: "ModelType \<Rightarrow> string" where
  "modelTypeToString TypeQueriedFromNetwork = ''queried''"
| "modelTypeToString TypeModelMatching = ''matching''"
| "modelTypeToString TypeDatabaseEntry = ''database''"
| "modelTypeToString TypeManuallySet = ''manually set''"
| "modelTypeToString TypeFSInnData = ''FSInn''"
| "modelTypeToString TypeTerrainProbe = ''probe''"
| "modelTypeToString TypeReverseLookup = ''reverse lookup''"
| "modelTypeToString TypeOwnSimulatorModel = ''own simulator''"
| "modelTypeToString TypeModelMatchingDefaultModel = ''map.default''"
| "modelTypeToString TypeUnknown = ''unknown''"
| "modelTypeToString TypeVPilotRuleBased = ''unknown''"

fun modelModeToString :: "ModelMode \<Rightarrow> string" where
  "modelModeToString Include = ''Include''"
| "modelModeToString Exclude = ''Exclude''"
| "modelModeToString UndefinedMode = ''Include''"

definition modelModeFromString :: "string \<Rightarrow> ModelMode" where
  "modelModeFromString mode =
     (if mode = [] \<or> startsWithCI mode ''I'' then Include
      else if startsWithCI mode ''E'' then Exclude
      else Include)"

fun modelModeBits :: "ModelMode \<Rightarrow> 32 word" where
  "modelModeBits UndefinedMode = 0"
| "modelModeBits Include = 1"
| "modelModeBits Exclude = 2"

record CAircraftModel =
  am_dbKey :: int
  am_timestamp :: int
  am_order :: int
  am_callsign :: CCallsign
  am_aircraftIcao :: CAircraftIcaoCode
  am_livery :: CLivery
  am_simulator :: CSimulatorInfo
  am_distributor :: CDistributor
  am_cg :: PQ
  am_supportedParts :: string
  am_modelString :: string
  am_modelStringAlias :: string
  am_name :: string
  am_description :: string
  am_fileName :: string
  am_fileTimestamp :: int
  am_modelType :: ModelType
  am_modelMode :: ModelMode

definition CCallsign_default :: CCallsign where
  "CCallsign_default = \<lparr>cs_callsignAsSet = [], cs_callsign = [], cs_telephonyDesignator = [], cs_typeHint = NoHint\<rparr>"

definition defaultModel :: CAircraftModel where
  "defaultModel = \<lparr>am_dbKey = -1, am_timestamp = -1, am_order = -1, am_callsign = CCallsign_default,
     am_aircraftIcao = CAircraftIcaoCode_default, am_livery = CLivery_default, am_simulator = NoSimulator,
     am_distributor = CDistributor_default, am_cg = None, am_supportedParts = [], am_modelString = [],
     am_modelStringAlias = [], am_name = [], am_description = [], am_fileName = [], am_fileTimestamp = -1,
     am_modelType = TypeUnknown, am_modelMode = Include\<rparr>"

definition mkModel :: "string \<Rightarrow> ModelType \<Rightarrow> CSimulatorInfo \<Rightarrow> string \<Rightarrow> string \<Rightarrow> CAircraftIcaoCode \<Rightarrow> CLivery \<Rightarrow> CAircraftModel" where
  "mkModel model modelType simulator name description icao livery = defaultModel
     \<lparr>am_aircraftIcao := icao, am_livery := livery, am_simulator := simulator, am_modelString := toUpper (trimmed model),
      am_name := trimmed name, am_description := trimmed description, am_modelType := modelType\<rparr>"

definition supportedParts :: string where "supportedParts = ''EFGLS''"

definition cleanUpPartsString :: "string \<Rightarrow> string" where
  "cleanUpPartsString p =
     (if p = [] then [] else sort (removeChars (toUpper p) (\<lambda>c. c \<notin> set supportedParts)))"

definition setModelCallsign :: "CCallsign \<Rightarrow> CAircraftModel \<Rightarrow> CAircraftModel" where
  "setModelCallsign cs m = m\<lparr>am_callsign := cs\<lparr>cs_typeHint := Aircraft\<rparr>\<rparr>"

definition setModelString :: "string \<Rightarrow> CAircraftModel \<Rightarrow> CAircraftModel" where
  "setModelString s m = m\<lparr>am_modelString := toUpper (trimmed s)\<rparr>"

definition setModelStringAlias :: "string \<Rightarrow> CAircraftModel \<Rightarrow> CAircraftModel" where
  "setModelStringAlias s m = m\<lparr>am_modelStringAlias := toUpper (trimmed s)\<rparr>"

definition setQueriedModelString :: "string \<Rightarrow> CAircraftModel \<Rightarrow> CAircraftModel" where
  "setQueriedModelString s m = m\<lparr>am_modelString := s, am_modelType := TypeQueriedFromNetwork\<rparr>"

definition setSupportedParts :: "string \<Rightarrow> CAircraftModel \<Rightarrow> CAircraftModel" where
  "setSupportedParts s m = m\<lparr>am_supportedParts := cleanUpPartsString s\<rparr>"

definition model_setAircraftIcaoCode :: "CAircraftIcaoCode \<Rightarrow> CAircraftModel \<Rightarrow> CAircraftModel \<times> bool" where
  "model_setAircraftIcaoCode icao m =
     (if am_aircraftIcao m = icao then (m, False) else (m\<lparr>am_aircraftIcao := icao\<rparr>, True))"

definition setAircraftIcaoCodes :: "CAircraftIcaoCode \<Rightarrow> CAirlineIcaoCode \<Rightarrow> CAircraftModel \<Rightarrow> CAircraftModel" where
  "setAircraftIcaoCodes icao airline m =
     m\<lparr>am_aircraftIcao := icao, am_livery := fst (livery_setAirlineIcaoCode airline (am_livery m))\<rparr>"

definition setFileTimestamp :: "int \<Rightarrow> CAircraftModel \<Rightarrow> CAircraftModel" where
  "setFileTimestamp t m = m\<lparr>am_fileTimestamp := if t < 0 then -1 else t\<rparr>"

subsection \<open>What a model says\<close>

definition canInitializeFromFsd :: "CAircraftModel \<Rightarrow> bool" where
  "canInitializeFromFsd m \<longleftrightarrow> am_modelType m \<in> {TypeQueriedFromNetwork, TypeFSInnData, TypeUnknown}"

definition am_airline :: "CAircraftModel \<Rightarrow> CAirlineIcaoCode" where "am_airline m = lv_airline (am_livery m)"

definition am_designator :: "CAircraftModel \<Rightarrow> string" where "am_designator m = ic_designator (am_aircraftIcao m)"

definition model_hasModelString :: "CAircraftModel \<Rightarrow> bool" where
  "model_hasModelString m \<longleftrightarrow> am_modelString m \<noteq> []"

definition hasModelStringAlias :: "CAircraftModel \<Rightarrow> bool" where
  "hasModelStringAlias m \<longleftrightarrow> am_modelStringAlias m \<noteq> []"

definition getModelStringAndDbKey :: "CAircraftModel \<Rightarrow> string" where
  "getModelStringAndDbKey m =
     (if hasValidDbKey (am_dbKey m) then
        if model_hasModelString m then am_modelString m @ getDbKeyAsStringInParentheses '' '' (am_dbKey m)
        else number_base 10 (am_dbKey m)
      else am_modelString m)"

definition getAllModelStringsAndAliases :: "CAircraftModel \<Rightarrow> string" where
  "getAllModelStringsAndAliases m =
     (if \<not> hasModelStringAlias m then am_modelString m
      else if \<not> model_hasModelString m then am_modelStringAlias m
      else am_modelString m @ '', '' @ am_modelStringAlias m)"

definition getAllModelStringsAliasesAndDbKey :: "CAircraftModel \<Rightarrow> string" where
  "getAllModelStringsAliasesAndDbKey m =
     (if \<not> hasModelStringAlias m \<or> am_modelString m = [] then getModelStringAndDbKey m
      else if \<not> hasValidDbKey (am_dbKey m) then getAllModelStringsAndAliases m
      else getAllModelStringsAndAliases m @ '' '' @ getDbKeyAsStringInParentheses [] (am_dbKey m))"

definition model_isVtol :: "CAircraftModel \<Rightarrow> bool" where "model_isVtol m \<longleftrightarrow> isVtol (am_aircraftIcao m)"

definition hasAircraftDesignator :: "CAircraftModel \<Rightarrow> bool" where
  "hasAircraftDesignator m \<longleftrightarrow> ic_designator (am_aircraftIcao m) \<noteq> []"

definition hasKnownAircraftDesignator :: "CAircraftModel \<Rightarrow> bool" where
  "hasKnownAircraftDesignator m \<longleftrightarrow> hasKnownDesignator (am_aircraftIcao m)"

definition model_hasCategory :: "CAircraftModel \<Rightarrow> bool" where
  "model_hasCategory m \<longleftrightarrow> hasCategory (am_aircraftIcao m)"

definition hasAirlineDesignator :: "CAircraftModel \<Rightarrow> bool" where
  "hasAirlineDesignator m \<longleftrightarrow> hasValidAirline (am_airline m)"

definition hasValidAircraftAndAirlineDesignator :: "CAircraftModel \<Rightarrow> bool" where
  "hasValidAircraftAndAirlineDesignator m \<longleftrightarrow> hasKnownAircraftDesignator m \<and> hasAirlineDesignator m"

definition hasAircraftAndAirlineDesignator :: "CAircraftModel \<Rightarrow> bool" where
  "hasAircraftAndAirlineDesignator m \<longleftrightarrow> hasAircraftDesignator m \<and> hasAirlineDesignator m"

definition model_isMilitary :: "CAircraftModel \<Rightarrow> bool" where
  "model_isMilitary m \<longleftrightarrow> ic_military (am_aircraftIcao m) \<or> lv_military (am_livery m)"

definition isCivilian :: "CAircraftModel \<Rightarrow> bool" where "isCivilian m \<longleftrightarrow> \<not> model_isMilitary m"

definition hasDbDistributor :: "CAircraftModel \<Rightarrow> bool" where
  "hasDbDistributor m \<longleftrightarrow> di_loadedFromDb (am_distributor m)"

definition hasDistributor :: "CAircraftModel \<Rightarrow> bool" where
  "hasDistributor m \<longleftrightarrow> distributor_hasValidDbKey (am_distributor m)"

definition setDistributorOrder :: "int \<Rightarrow> CAircraftModel \<Rightarrow> CAircraftModel \<times> bool" where
  "setDistributorOrder order m =
     (if order < 0 \<or> \<not> hasDbDistributor m then (m, False)
      else (m\<lparr>am_distributor := (am_distributor m)\<lparr>di_order := order\<rparr>\<rparr>, True))"

definition setDistributorOrderOf :: "CDistributor list \<Rightarrow> CAircraftModel \<Rightarrow> CAircraftModel \<times> bool" where
  "setDistributorOrderOf distributors m =
     (if distributors = [] then (m, False)
      else
        let d = findByKeyOrAlias (di_dbKey (am_distributor m)) distributors;
            found = (hasDbDistributor m \<and> distributor_hasValidDbKey d)
        in (m\<lparr>am_distributor := (am_distributor m)\<lparr>di_order := if found then di_order d else int (length distributors)\<rparr>\<rparr>,
            found))"

definition matchesDbDistributor :: "CDistributor \<Rightarrow> CAircraftModel \<Rightarrow> bool" where
  "matchesDbDistributor d m \<longleftrightarrow> di_loadedFromDb d \<and> hasDbDistributor m \<and> di_dbKey (am_distributor m) = di_dbKey d"

definition matchesAnyDbDistributor :: "CDistributor list \<Rightarrow> CAircraftModel \<Rightarrow> bool" where
  "matchesAnyDbDistributor ds m \<longleftrightarrow> ds \<noteq> [] \<and> hasDbDistributor m \<and> matchesAnyKeyOrAlias (di_dbKey (am_distributor m)) ds"

definition matchesMode :: "32 word \<Rightarrow> CAircraftModel \<Rightarrow> bool" where
  "matchesMode mode m \<longleftrightarrow> mode = 3 \<or> 0 < sint (mode AND modelModeBits (am_modelMode m))"

definition model_matchesSimulator :: "CSimulatorInfo \<Rightarrow> CAircraftModel \<Rightarrow> bool" where
  "model_matchesSimulator simulator m \<longleftrightarrow> 0 < sint (simulator AND am_simulator m)"

definition autoGenerated :: string where "autoGenerated = ''swift auto generated''"

definition model_hasDescription :: "bool \<Rightarrow> CAircraftModel \<Rightarrow> bool" where
  "model_hasDescription ignoreAutoGenerated m \<longleftrightarrow>
     (if am_description m = [] then False
      else if \<not> ignoreAutoGenerated then True
      else \<not> startsWithCI (am_description m) autoGenerated)"

definition hasQueriedModelString :: "CAircraftModel \<Rightarrow> bool" where
  "hasQueriedModelString m \<longleftrightarrow> am_modelType m = TypeQueriedFromNetwork \<and> model_hasModelString m"

definition hasManuallySetString :: "CAircraftModel \<Rightarrow> bool" where
  "hasManuallySetString m \<longleftrightarrow> am_modelType m = TypeManuallySet \<and> model_hasModelString m"

definition getMembersDbStatus :: "CAircraftModel \<Rightarrow> string" where
  "getMembersDbStatus m =
     (if hasValidDbKey (am_dbKey m) then ''M'' else ''m'')
     @ (if di_loadedFromDb (am_distributor m) then ''D'' else ''d'')
     @ (if hasValidDbKey (ic_dbKey (am_aircraftIcao m)) then ''A'' else ''a'')
     @ (if hasValidDbKey (lv_dbKey (am_livery m)) \<and> isColorLivery (am_livery m) then ''C-''
        else (if hasValidDbKey (lv_dbKey (am_livery m)) then ''L'' else ''l'')
             @ (if hasValidDbKey (al_dbKey (am_airline m)) then ''A'' else ''a''))"

definition stringCompare :: "bool \<Rightarrow> string \<Rightarrow> string \<Rightarrow> bool" where
  "stringCompare caseSensitive c1 c2 \<longleftrightarrow> (if caseSensitive then c1 = c2 else caseInsensitiveStringCompare c1 c2)"

definition matchesModelString :: "bool \<Rightarrow> string \<Rightarrow> CAircraftModel \<Rightarrow> bool" where
  "matchesModelString caseSensitive modelString m \<longleftrightarrow> stringCompare caseSensitive modelString (am_modelString m)"

definition matchesModelStringOrAlias :: "bool \<Rightarrow> string \<Rightarrow> CAircraftModel \<Rightarrow> bool" where
  "matchesModelStringOrAlias caseSensitive modelString m \<longleftrightarrow>
     matchesModelString caseSensitive modelString m \<or> stringCompare caseSensitive modelString (am_modelStringAlias m)"

subsection \<open>The ids in the livery string of the network\<close>

record DBTripleIds =
  id_model :: int
  id_livery :: int
  id_aircraft :: int

definition DBTripleIds_default :: DBTripleIds where
  "DBTripleIds_default = \<lparr>id_model = -1, id_livery = -1, id_aircraft = -1\<rparr>"

definition hasAnyId :: "DBTripleIds \<Rightarrow> bool" where
  "hasAnyId ids \<longleftrightarrow> 0 \<le> id_model ids \<or> 0 \<le> id_livery ids \<or> 0 \<le> id_aircraft ids"

definition liveryStringPrefix :: string where "liveryStringPrefix = ''swift_''"

definition isSwiftLiveryString :: "string \<Rightarrow> bool" where
  "isSwiftLiveryString liveryString \<longleftrightarrow>
     length liveryStringPrefix < length liveryString \<and> startsWithCI liveryString liveryStringPrefix"

definition idPart :: "bool \<Rightarrow> char \<Rightarrow> int \<Rightarrow> string" where
  "idPart wanted letter key = (if wanted \<and> hasValidDbKey key then letter # number_base 10 key else [])"

definition getSwiftLiveryString :: "bool \<Rightarrow> bool \<Rightarrow> bool \<Rightarrow> CAircraftModel \<Rightarrow> string" where
  "getSwiftLiveryString aircraftIcao livery model m =
     (if \<not> aircraftIcao \<and> \<not> livery \<and> \<not> model then []
      else
        let l = idPart livery CHR ''l'' (lv_dbKey (am_livery m))
                @ idPart aircraftIcao CHR ''a'' (ic_dbKey (am_aircraftIcao m))
                @ idPart model CHR ''m'' (am_dbKey m)
        in if l = [] then [] else liveryStringPrefix @ l)"

definition getSwiftLiveryStringForSim :: "CSimulatorInfo \<Rightarrow> CAircraftModel \<Rightarrow> string" where
  "getSwiftLiveryStringForSim sim m =
     (if testFlag sim FG then getSwiftLiveryString True False False m else getSwiftLiveryString True True True m)"

definition setTripleId :: "char \<Rightarrow> int \<Rightarrow> DBTripleIds \<Rightarrow> DBTripleIds" where
  "setTripleId letter key ids =
     (if letter = CHR ''m'' then ids\<lparr>id_model := key\<rparr>
      else if letter = CHR ''a'' then ids\<lparr>id_aircraft := key\<rparr>
      else if letter = CHR ''l'' then ids\<lparr>id_livery := key\<rparr>
      else ids)"

text \<open>The loop over the characters; a letter without digits is skipped.\<close>

function parseTripleIds :: "string \<Rightarrow> DBTripleIds \<Rightarrow> DBTripleIds" where
  "parseTripleIds [] ids = ids"
| "parseTripleIds (m # ls) ids =
     (if m \<in> set ''mal'' \<and> takeWhile isDigitC ls \<noteq> [] then
        parseTripleIds (dropWhile isDigitC ls) (setTripleId m (toInt (takeWhile isDigitC ls)) ids)
      else parseTripleIds ls ids)"
  by pat_completeness auto

termination
  by (relation "measure (\<lambda>(s, ids). length s)") (auto simp: less_Suc_eq_le length_dropWhile_le)

definition parseNetworkLiveryString :: "string \<Rightarrow> DBTripleIds" where
  "parseNetworkLiveryString liveryString =
     (if \<not> isSwiftLiveryString liveryString then DBTripleIds_default
      else parseTripleIds (toLower (mid liveryString (length liveryStringPrefix))) DBTripleIds_default)"

subsection \<open>Merging two models\<close>

definition updateLocalFileNames :: "CAircraftModel \<Rightarrow> CAircraftModel \<Rightarrow> CAircraftModel" where
  "updateLocalFileNames m other =
     (if am_modelType m = TypeOwnSimulatorModel then m
      else if am_modelType other = TypeOwnSimulatorModel then m\<lparr>am_fileName := am_fileName other\<rparr>
      else if am_fileName m = [] then m\<lparr>am_fileName := am_fileName other\<rparr>
      else m)"

definition updateFileTimestamp :: "CAircraftModel \<Rightarrow> CAircraftModel \<Rightarrow> CAircraftModel" where
  "updateFileTimestamp m other =
     (if am_fileTimestamp m < 0 \<or> am_fileTimestamp m < am_fileTimestamp other
      then setFileTimestamp (am_fileTimestamp other) m else m)"

text \<open>With an undefined mode it is the type that is taken from the other model.\<close>

definition model_fillParts :: "CAircraftModel \<Rightarrow> CAircraftModel \<Rightarrow> CAircraftModel" where
  "model_fillParts m other =
     (let m1 = (if cs_isEmpty (am_callsign m) then setModelCallsign (am_callsign other) m else m);
          m2 = (if am_modelString m1 = [] then setModelString (am_modelString other) m1 else m1);
          m3 = (if am_name m2 = [] then m2\<lparr>am_name := trimmed (am_name other)\<rparr> else m2);
          m4 = (if am_modelType m3 = TypeUnknown then m3\<lparr>am_modelType := am_modelType other\<rparr> else m3);
          m5 = (if am_modelMode m4 = UndefinedMode then m4\<lparr>am_modelType := am_modelType other\<rparr> else m4);
          m6 = (if am_description m5 = [] \<or> startsWithCI (am_description m5) autoGenerated
                then m5\<lparr>am_description := trimmed (am_description other)\<rparr> else m5);
          m7 = (if isUnspecified (am_simulator m6) then m6\<lparr>am_simulator := am_simulator other\<rparr> else m6);
          m8 = (if am_timestamp m7 < 0 then m7\<lparr>am_timestamp := am_timestamp other\<rparr> else m7)
      in m8\<lparr>am_livery := livery_updateMissingParts (am_livery m8) (am_livery other),
            am_aircraftIcao := updateMissingParts (am_aircraftIcao m8) (am_aircraftIcao other),
            am_distributor := distributor_updateMissingParts (am_distributor m8) (am_distributor other)\<rparr>)"

definition model_updateParts :: "CAircraftModel \<Rightarrow> CAircraftModel \<Rightarrow> CAircraftModel" where
  "model_updateParts m other =
     (let m1 = updateFileTimestamp (updateLocalFileNames m other) other
      in if hasValidDbKey (am_dbKey m) \<and> hasValidDbKey (am_dbKey other) then m1 else model_fillParts m1 other)"

definition model_updateMissingParts :: "CAircraftModel \<Rightarrow> bool \<Rightarrow> CAircraftModel \<Rightarrow> CAircraftModel" where
  "model_updateMissingParts m dbModelPriority other =
     (if dbModelPriority \<and> \<not> hasValidDbKey (am_dbKey m) \<and> hasValidDbKey (am_dbKey other)
      then model_updateParts other m else model_updateParts m other)"

subsection \<open>Scores and checks\<close>

definition model_calculateScore :: "CAircraftModel \<Rightarrow> bool \<Rightarrow> CAircraftModel \<Rightarrow> int" where
  "model_calculateScore compareModel preferColorLiveries m =
     (let icaoScore = calculateScore (am_aircraftIcao m) (am_aircraftIcao compareModel);
          liveryScore = livery_calculateScore (am_livery compareModel) preferColorLiveries (am_livery m)
      in qRound (of_int (icaoScore + liveryScore) / 2))"

definition hasValidSimulator :: "CAircraftModel \<Rightarrow> bool" where
  "hasValidSimulator m \<longleftrightarrow> isAnySimulator (am_simulator m)"

definition validateModel :: "bool \<Rightarrow> CAircraftModel \<Rightarrow> string list" where
  "validateModel withNestedObjects m =
     (if \<not> model_hasModelString m then [''Model: missing model string (aka key)''] else [])
     @ (if \<not> hasValidSimulator m then [''Model: no simulator set''] else [])
     @ (if withNestedObjects
        then validateIcao (am_aircraftIcao m) @ validateLivery (am_livery m) @ validateDistributor (am_distributor m)
        else [])"

text \<open>The attributes that differ, in the order of the checks; none with a model that is not of the database.\<close>

definition publishingChanges :: "CAircraftModel \<Rightarrow> CAircraftModel \<Rightarrow> string list" where
  "publishingChanges dbModel m =
     (if livery_isDbEqual (am_livery dbModel) (am_livery m) then [] else [''livery''])
     @ (if isDbEqual (am_aircraftIcao dbModel) (am_aircraftIcao m) then [] else [''aircraft ICAO''])
     @ (if distributor_isDbEqual (am_distributor dbModel) (am_distributor m) then [] else [''distributor''])
     @ (if am_simulator dbModel = am_simulator m then [] else [''simulator''])
     @ (if am_description dbModel = am_description m then [] else [''description''])
     @ (if am_name dbModel = am_name m then [] else [''name''])
     @ (if am_modelMode dbModel = am_modelMode m then [] else [''mode''])
     @ (if equals (am_cg dbModel) (am_cg m) then [] else [''CG''])
     @ (if am_supportedParts dbModel = am_supportedParts m then [] else [''Supported parts''])"

definition isEqualForPublishing :: "CAircraftModel \<Rightarrow> CAircraftModel \<Rightarrow> bool" where
  "isEqualForPublishing dbModel m \<longleftrightarrow> hasValidDbKey (am_dbKey dbModel) \<and> publishingChanges dbModel m = []"

text \<open>\<open>CDistributorList::findByModelData\<close>\<close>

definition findByModelData :: "CAircraftModel \<Rightarrow> CDistributor list \<Rightarrow> CDistributor" where
  "findByModelData m ds =
     (if distributor_hasValidDbKey (am_distributor m) then am_distributor m
      else if startsWithCI (am_modelString m) ''WOA'' then findByKeyOrAlias ''WOAI'' ds
      else if containsCI (am_description m) ''WOA'' then findByKeyOrAlias ''WOAI'' ds
      else if containsCI (am_description m) ''IVAO'' then findByKeyOrAlias ''IVAO'' ds
      else if startsWithCI (am_modelString m) ''PAI '' then findByKeyOrAlias ''PAI'' ds
      else if startsWithCI (am_description m) ''Project AI '' then findByKeyOrAlias ''PAI'' ds
      else CDistributor_default)"

definition smartDistributorSelectorForModel :: "CDistributor \<Rightarrow> CAircraftModel \<Rightarrow> CDistributor list \<Rightarrow> CDistributor" where
  "smartDistributorSelectorForModel distributorPattern m ds =
     (let d = smartDistributorSelector distributorPattern ds
      in if distributor_hasCompleteData d then d else findByModelData m ds)"

end
