(* ===== verification/Situation_Change.thy ===== *)
theory Situation_Change
  imports Situation_List Aircraft_Icao_Laws Aircraft_Model
begin

text \<open>
  Changes of a history of situations, \<open>CAircraftSituationChange\<close>
  (\<open>src/misc/aviation/aircraftsituationchange.cpp\<close>), and the guess whether an aircraft is on the
  ground, for aircraft whose clients do not say so.
\<close>

datatype GuessedSceneryDeviation = NoDeviationInfo | AllOnGround | WasOnGround | SmallAGLDeviationNearGround

record CAircraftSituationChange = ITimestampWithOffsetBased +
  ch_situationsCount :: int
  ch_correspondingCallsign :: string
  ch_oldestTimestamp :: int
  ch_oldestAdjustedTimestamp :: int
  ch_latestAdjustedTimestamp :: int
  m_constAscending :: bool
  m_constDescending :: bool
  m_constOnGround :: bool
  m_wasOnGround :: bool
  m_constNotOnGround :: bool
  m_wasNotOnGround :: bool
  m_justTakeoff :: bool
  m_justTouchdown :: bool
  m_rotateUp :: bool
  m_constAccelerating :: bool
  m_constDecelerating :: bool
  m_containsPushBack :: bool
  ch_sceneryDeviationHint :: GuessedSceneryDeviation
  m_altStdDev :: PQ
  m_altMean :: PQ
  m_elvStdDev :: PQ
  m_elvMean :: PQ
  m_gsStdDev :: PQ
  m_gsMean :: PQ
  m_pitchStdDev :: PQ
  m_pitchMean :: PQ
  m_gndDistStdDev :: PQ
  m_gndDistMean :: PQ
  ch_sceneryDeviation :: PQ
  ch_sceneryDeviationCG :: PQ
  m_maxGroundDistance :: PQ
  m_minGroundDistance :: PQ

definition CAircraftSituationChange_default :: CAircraftSituationChange where
  "CAircraftSituationChange_default =
     \<lparr>m_timestampMSecsSinceEpoch = -1, m_timeOffsetMs = 0, ch_situationsCount = -1, ch_correspondingCallsign = [],
      ch_oldestTimestamp = -1, ch_oldestAdjustedTimestamp = -1, ch_latestAdjustedTimestamp = -1,
      m_constAscending = False, m_constDescending = False, m_constOnGround = False, m_wasOnGround = False,
      m_constNotOnGround = False, m_wasNotOnGround = False, m_justTakeoff = False, m_justTouchdown = False,
      m_rotateUp = False, m_constAccelerating = False, m_constDecelerating = False, m_containsPushBack = False,
      ch_sceneryDeviationHint = NoDeviationInfo,
      m_altStdDev = None, m_altMean = None, m_elvStdDev = None, m_elvMean = None, m_gsStdDev = None, m_gsMean = None,
      m_pitchStdDev = None, m_pitchMean = None, m_gndDistStdDev = None, m_gndDistMean = None,
      ch_sceneryDeviation = None, ch_sceneryDeviationCG = None, m_maxGroundDistance = None, m_minGroundDistance = None\<rparr>"

definition isNullChange :: "CAircraftSituationChange \<Rightarrow> bool" where
  "isNullChange ch \<longleftrightarrow> ch_situationsCount ch < 2"

text \<open>The getter returns the member for the acceleration.\<close>

definition change_isConstDecelarating :: "CAircraftSituationChange \<Rightarrow> bool" where
  "change_isConstDecelarating ch = m_constAccelerating ch"

definition hasSceneryDeviation :: "CAircraftSituationChange \<Rightarrow> bool" where
  "hasSceneryDeviation ch \<longleftrightarrow> ch_sceneryDeviation ch \<noteq> None"

definition hasElevationDevWithinAllowedRange :: "CAircraftSituationChange \<Rightarrow> bool" where
  "hasElevationDevWithinAllowedRange ch \<longleftrightarrow> m_elvStdDev ch \<noteq> None \<and> lessThan (m_elvStdDev ch) allowedAltitudeDeviation"

definition hasAltitudeDevWithinAllowedRange :: "CAircraftSituationChange \<Rightarrow> bool" where
  "hasAltitudeDevWithinAllowedRange ch \<longleftrightarrow> m_altStdDev ch \<noteq> None \<and> lessThan (m_altStdDev ch) allowedAltitudeDeviation"

subsection \<open>Deviation of the scenery\<close>

definition setSceneryDeviation ::
  "PQ \<Rightarrow> PQ \<Rightarrow> GuessedSceneryDeviation \<Rightarrow> CAircraftSituationChange \<Rightarrow> CAircraftSituationChange" where
  "setSceneryDeviation deviation cg hint ch =
     ch\<lparr>ch_sceneryDeviation := deviation,
        ch_sceneryDeviationCG := (if cg = None then None else pqMinus deviation cg),
        ch_sceneryDeviationHint := hint\<rparr>"

definition guessSceneryDeviation :: "PQ \<Rightarrow> CAircraftSituationChange \<Rightarrow> CAircraftSituationChange" where
  "guessSceneryDeviation cg ch =
     (let ch0 = ch\<lparr>ch_sceneryDeviation := None, ch_sceneryDeviationHint := NoDeviationInfo\<rparr>;
          maxDeviation = Some 2
      in if m_gndDistStdDev ch0 = None \<or> m_gndDistMean ch0 = None then ch0
         else if lessThan maxDeviation (m_gndDistStdDev ch0) then ch0
         else if m_constOnGround ch0 then setSceneryDeviation (m_gndDistMean ch0) cg AllOnGround ch0
         else if m_wasNotOnGround ch0 then setSceneryDeviation (m_gndDistMean ch0) cg WasOnGround ch0
         else if m_altStdDev ch0 \<noteq> None \<and> \<not> lessThan maxDeviation (m_altStdDev ch0)
                 \<and> m_maxGroundDistance ch0 \<noteq> None \<and> lessThan (m_maxGroundDistance ch0) cg \<and> m_constOnGround ch0
           then setSceneryDeviation (m_gndDistMean ch0) cg SmallAGLDeviationNearGround ch0
         else ch0)"

definition calculateStdDeviations ::
  "(rat \<Rightarrow> rat) \<Rightarrow> 'p CAircraftSituation list \<Rightarrow> PQ \<Rightarrow> CAircraftSituationChange \<Rightarrow> bool \<times> CAircraftSituationChange" where
  "calculateStdDeviations sq xs cg ch =
     (if xs = [] then (False, ch)
      else
        let gs = groundSpeedStandardDeviationAndMean sq xs;
            pitch = pitchStandardDeviationAndMean sq xs;
            altValues = altitudeValues xs;
            elvValues = elevationValues xs;
            alt = standardDeviationAndMean sq altValues;
            elv = standardDeviationAndMean sq elvValues;
            ch1 = ch\<lparr>m_gsStdDev := fst gs, m_gsMean := snd gs, m_pitchStdDev := fst pitch, m_pitchMean := snd pitch\<rparr>;
            ch2 = (if length altValues = length xs
                   then ch1\<lparr>m_altStdDev := Some (fst alt), m_altMean := Some (snd alt)\<rparr> else ch1);
            ch3 = (if length elvValues = length xs
                   then ch2\<lparr>m_elvStdDev := Some (fst elv), m_elvMean := Some (snd elv)\<rparr> else ch2);
            distances = map2 (\<lambda>a e. a - e) altValues elvValues;
            d = standardDeviationAndMean sq distances
        in if length elvValues = length xs \<and> length altValues = length xs
           then (True, guessSceneryDeviation cg
                  (ch3\<lparr>m_gndDistStdDev := Some (fst d), m_gndDistMean := Some (snd d),
                       m_minGroundDistance := Some (Min (set distances)),
                       m_maxGroundDistance := Some (Max (set distances))\<rparr>))
           else (True, ch3))"

subsection \<open>The change of a history\<close>

definition mkSituationChange ::
  "(('p CAircraftSituation \<Rightarrow> int) \<Rightarrow> 'p CAircraftSituation list \<Rightarrow> 'p CAircraftSituation list)
   \<Rightarrow> (rat \<Rightarrow> rat) \<Rightarrow> 'p CAircraftSituation list \<Rightarrow> PQ
   \<Rightarrow> bool \<Rightarrow> bool \<Rightarrow> bool \<Rightarrow> CAircraftSituationChange" where
  "mkSituationChange srt sq situations cg vtol alreadySortedLatestFirst calcStdDeviations =
     (if length situations < 2 then CAircraftSituationChange_default
      else
        let xs = latestFirst srt alreadySortedLatestFirst situations;
            latest = hd xs;
            oldest = last xs;
            ch = CAircraftSituationChange_default
              \<lparr>ch_situationsCount := int (length situations), ch_correspondingCallsign := s_callsign latest,
               m_timestampMSecsSinceEpoch := m_timestampMSecsSinceEpoch latest, m_timeOffsetMs := m_timeOffsetMs latest,
               ch_oldestTimestamp := m_timestampMSecsSinceEpoch oldest,
               ch_latestAdjustedTimestamp := getAdjustedMSecsSinceEpoch latest,
               ch_oldestAdjustedTimestamp := getAdjustedMSecsSinceEpoch oldest,
               m_constAscending := isConstAscending xs, m_constDescending := isConstDescending xs,
               m_constOnGround := isConstOnGround xs, m_constNotOnGround := isConstNotOnGround xs,
               m_justTakeoff := isJustTakingOff xs, m_justTouchdown := isJustTouchingDown xs,
               m_constAccelerating := isConstAccelerating xs, m_constDecelerating := isConstDecelarating xs,
               m_containsPushBack := (\<not> vtol \<and> containsPushBack xs)\<rparr>;
            ch1 = (if 3 \<le> length xs
                   then ch\<lparr>m_wasNotOnGround := isConstNotOnGround (tl xs), m_wasOnGround := isConstOnGround (tl xs)\<rparr>
                   else ch)
        in if calcStdDeviations then
             let ch2 = snd (calculateStdDeviations sq situations cg ch1)
             in ch2\<lparr>m_rotateUp := lessThan (pqPlus (m_pitchMean ch2) (m_pitchStdDev ch2)) (s_pitch latest)\<rparr>
           else ch1\<lparr>m_rotateUp := isRotatingUp sq xs\<rparr>)"

subsection \<open>Guessing\<close>

definition guessInfo :: "IsOnGround \<Rightarrow> COnGroundInfo" where
  "guessInfo g = mkOnGroundInfo g OnGroundByGuessing"

text \<open>Center of gravity and speed of the model, for a speed that makes sense.\<close>

definition guessedCgAndSpeed :: "CAircraftModel \<Rightarrow> 'p CAircraftSituation \<Rightarrow> PQ \<times> PQ" where
  "guessedCgAndSpeed model s =
     (let cg0 = (if s_cg s \<noteq> None then s_cg s else am_cg model);
          guessed = guessModelParameters (am_aircraftIcao model) (cg0, None)
      in (fst guessed,
          case snd guessed of None \<Rightarrow> None
          | Some v \<Rightarrow> Some (if 5 < v * 1852 / 1000 then v else 80)))"

text \<open>The guess, and whether it is one; the elevation asks for the situation as it would be.\<close>

definition guessedInfo ::
  "CAircraftModel \<Rightarrow> CAircraftSituationChange \<Rightarrow> 'p CAircraftSituation \<Rightarrow> bool \<times> COnGroundInfo" where
  "guessedInfo model ch s =
     (let vtol = isVtol (am_aircraftIcao model);
          (cg, guessedRotateSpeed) = guessedCgAndSpeed model s;
          sureRotateSpeed = (if guessedRotateSpeed = None then Some 130 else pqTimes (125 / 100) guessedRotateSpeed);
          og = onGroundInfoByCG cg (getGroundDistance cg s)
      in if \<not> vtol \<and> isNegativeWithEpsilonConsidered (s_groundSpeed s) then (True, guessInfo OnGround)
         else if \<not> vtol \<and> \<not> isMoving s then (True, guessInfo OnGround)
         else if 20 < \<bar>pqValue (s_pitch s)\<bar> then (True, guessInfo NotOnGround)
         else if 10 < \<bar>pqValue (s_bank s)\<bar> then (True, guessInfo NotOnGround)
         else if lessThan sureRotateSpeed (s_groundSpeed s) then (True, guessInfo NotOnGround)
         else if getOnGround og = OnGround then (True, og\<lparr>gi_details := OnGroundByGuessing\<rparr>)
         else if \<not> isNullChange ch \<and> \<not> vtol \<and> m_wasOnGround ch then
           (True, guessInfo (if m_rotateUp ch then NotOnGround else OnGround))
         else if \<not> isNullChange ch \<and> m_constAscending ch then (True, guessInfo NotOnGround)
         else if vtol then (False, mkOnGroundInfo OnGroundSituationUnknown NotSetGroundDetails)
         else if guessedRotateSpeed \<noteq> None \<and> lessThan (s_groundSpeed s) guessedRotateSpeed
           then (True, guessInfo OnGround)
         else (True, guessInfo NotOnGround))"

definition guessOnGround ::
  "CAircraftModel \<Rightarrow> CAircraftSituationChange \<Rightarrow> 'p CAircraftSituation \<Rightarrow> bool \<times> 'p CAircraftSituation" where
  "guessOnGround model ch s =
     (if \<not> shouldGuessOnGround s then (False, s)
      else case guessedInfo model ch s of (guessed, info) \<Rightarrow> (guessed, s\<lparr>s_onGroundInfo := info\<rparr>))"

subsection \<open>What is guessed\<close>

text \<open>Only the flag is changed, and a flag that came with the situation is kept.\<close>

lemma guess_frame:
  "guessOnGround model ch s = (b, s') \<Longrightarrow> s' = s\<lparr>s_onGroundInfo := s_onGroundInfo s'\<rparr>"
  by (auto simp: guessOnGround_def split: if_splits prod.splits)

lemma guess_inbound: "hasInboundGroundDetails s \<Longrightarrow> guessOnGround model ch s = (False, s)"
  by (simp add: guessOnGround_def shouldGuessOnGround_def)

lemma guessInfo_simps [simp]:
  "gi_details (guessInfo g) = OnGroundByGuessing" "getOnGround (guessInfo g) = g"
proof -
  show "gi_details (guessInfo g) = OnGroundByGuessing" by (cases g) (simp_all add: guessInfo_def)
  show "getOnGround (guessInfo g) = g" by (simp add: guessInfo_def)
qed

lemma guessedInfo_cases:
  obtains g where "g \<noteq> OnGroundSituationUnknown" "guessedInfo model ch s = (True, guessInfo g)"
  | "isVtol (am_aircraftIcao model)"
    "guessedInfo model ch s = (False, mkOnGroundInfo OnGroundSituationUnknown NotSetGroundDetails)"
proof -
  have "(\<exists>g. g \<noteq> OnGroundSituationUnknown \<and> guessedInfo model ch s = (True, guessInfo g))
    \<or> isVtol (am_aircraftIcao model)
       \<and> guessedInfo model ch s = (False, mkOnGroundInfo OnGroundSituationUnknown NotSetGroundDetails)"
    by (auto simp: guessedInfo_def Let_def onGroundInfoByCG_not split: prod.split)
  with that show ?thesis by blast
qed

text \<open>A guess is a flag with the details of a guess.\<close>

lemma guess_details:
  assumes "guessOnGround model ch s = (True, s')"
  shows "gi_details (s_onGroundInfo s') = OnGroundByGuessing \<and> onGroundOf s' \<noteq> OnGroundSituationUnknown"
  using assms
  by (cases rule: guessedInfo_cases [of model ch s]) (auto simp: guessOnGround_def onGroundOf_def split: if_splits)

text \<open>Only for aircraft that start vertically there is no guess.\<close>

lemma guess_succeeds:
  assumes "shouldGuessOnGround s" "\<not> isVtol (am_aircraftIcao model)"
  shows "fst (guessOnGround model ch s)"
  using assms by (cases rule: guessedInfo_cases [of model ch s]) (auto simp: guessOnGround_def)

text \<open>The elevation of the ground and the altitude have no influence on the guess.\<close>

lemma guess_ignores_ground:
  "guessedInfo model ch (s\<lparr>s_groundElevationPlane := ep, s_position := pos\<rparr>) = guessedInfo model ch s"
proof -
  let ?s = "s\<lparr>s_groundElevationPlane := ep, s_position := pos\<rparr>"
  have "guessedCgAndSpeed model ?s = guessedCgAndSpeed model s" "isMoving ?s = isMoving s"
    by (simp_all add: guessedCgAndSpeed_def isMoving_def)
  then show ?thesis
    by (cases "guessedCgAndSpeed model s") (simp add: guessedInfo_def onGroundInfoByCG_not Let_def)
qed

lemma slow_is_on_ground:
  assumes "shouldGuessOnGround s" "\<not> isVtol (am_aircraftIcao model)" "\<not> isMoving s"
  shows "onGroundOf (snd (guessOnGround model ch s)) = OnGround"
  using assms by (simp add: guessOnGround_def guessedInfo_def Let_def onGroundOf_def split: prod.split)

text \<open>The last kind of a hint is never given.\<close>

lemma never_small_deviation: "ch_sceneryDeviationHint (guessSceneryDeviation cg ch) \<noteq> SmallAGLDeviationNearGround"
  by (auto simp: guessSceneryDeviation_def setSceneryDeviation_def Let_def)

lemma deviation_hint:
  assumes "ch_sceneryDeviationHint (guessSceneryDeviation cg ch) = WasOnGround"
  shows "m_wasNotOnGround ch"
  using assms by (auto simp: guessSceneryDeviation_def setSceneryDeviation_def Let_def split: if_splits)

text \<open>What a change that is not null says of the sorted list.\<close>

lemma change_of:
  assumes "2 \<le> length xs"
  shows "m_justTakeoff (mkSituationChange srt sq xs cg vtol True False) = isJustTakingOff xs
    \<and> m_constAscending (mkSituationChange srt sq xs cg vtol True False) = isConstAscending xs
    \<and> \<not> isNullChange (mkSituationChange srt sq xs cg vtol True False)"
  using assms by (simp add: mkSituationChange_def latestFirst_def Let_def isNullChange_def)

end
