(* ===== verification/Flight_Equipment.thy ===== *)
theory Flight_Equipment
  imports Aircraft_Icao Network_Text_Message
begin

text \<open>
  The equipment of an aircraft in a flight plan: the COM/NAV equipment (field 10a,
  \<open>src/misc/aviation/comnavequipment.cpp\<close>), the SSR equipment (field 10b,
  \<open>ssrequipment.cpp\<close>) and the aircraft information with its ICAO and FAA forms
  (\<open>flightplanaircraftinfo.cpp\<close>). A set of flags is a set of options. The lemmas show
  that a text of codes is read as the codes it was made of, although the source only looks
  for each code somewhere in the text and takes it out.
\<close>

subsection \<open>COM/NAV equipment\<close>

datatype ComNavEquipmentOption =
    Standard | Gbas | Lpv | LoranC | Dme | FmcAcars | DFisAcars | PdcAcars | Adf | Gnss | HfRtf
  | InertiaNavigation | Mls | Ils | NoEquip | Vor | Pbn | Tacan | UhfRtf | VhfRtf | Rvsm | Mnps
  | Vhf833 | OtherEquip

datatype CpdlcSatcomEquipmentOption =
    CpdlcAtn | CpdlcFansHfdl | CpdlcFansVdlA | CpdlcFansVdl2 | CpdlcFansSatcomInmarsat
  | CpdlcFansSatcomMtsat | CpdlcFansSatcomIridium | AtcSatvoiceInmarsat | AtcSatvoiceMtsat
  | AtcSatvoiceIridium | CpdlcRcp400 | CpdlcRcp240 | SatvoiceRcp400

fun comNavFlagToString :: "ComNavEquipmentOption \<Rightarrow> string" where
  "comNavFlagToString Standard = ''S''" | "comNavFlagToString Gbas = ''A''"
| "comNavFlagToString Lpv = ''B''" | "comNavFlagToString LoranC = ''C''"
| "comNavFlagToString Dme = ''D''" | "comNavFlagToString FmcAcars = ''E1''"
| "comNavFlagToString DFisAcars = ''E2''" | "comNavFlagToString PdcAcars = ''E3''"
| "comNavFlagToString Adf = ''F''" | "comNavFlagToString Gnss = ''G''"
| "comNavFlagToString HfRtf = ''H''" | "comNavFlagToString InertiaNavigation = ''I''"
| "comNavFlagToString Mls = ''K''" | "comNavFlagToString Ils = ''L''"
| "comNavFlagToString NoEquip = ''N''" | "comNavFlagToString Vor = ''O''"
| "comNavFlagToString Pbn = ''R''" | "comNavFlagToString Tacan = ''T''"
| "comNavFlagToString UhfRtf = ''U''" | "comNavFlagToString VhfRtf = ''V''"
| "comNavFlagToString Rvsm = ''W''" | "comNavFlagToString Mnps = ''X''"
| "comNavFlagToString Vhf833 = ''Y''" | "comNavFlagToString OtherEquip = ''Z''"

fun satcomFlagToString :: "CpdlcSatcomEquipmentOption \<Rightarrow> string" where
  "satcomFlagToString CpdlcAtn = ''J1''" | "satcomFlagToString CpdlcFansHfdl = ''J2''"
| "satcomFlagToString CpdlcFansVdlA = ''J3''" | "satcomFlagToString CpdlcFansVdl2 = ''J4''"
| "satcomFlagToString CpdlcFansSatcomInmarsat = ''J5''" | "satcomFlagToString CpdlcFansSatcomMtsat = ''J6''"
| "satcomFlagToString CpdlcFansSatcomIridium = ''J7''" | "satcomFlagToString AtcSatvoiceInmarsat = ''M1''"
| "satcomFlagToString AtcSatvoiceMtsat = ''M2''" | "satcomFlagToString AtcSatvoiceIridium = ''M3''"
| "satcomFlagToString CpdlcRcp400 = ''P1''" | "satcomFlagToString CpdlcRcp240 = ''P2''"
| "satcomFlagToString SatvoiceRcp400 = ''P3''"

record CComNavEquipment =
  cn_equipment :: "ComNavEquipmentOption set"
  cn_satcom :: "CpdlcSatcomEquipmentOption set"

definition CComNavEquipment_default :: CComNavEquipment where
  "CComNavEquipment_default = \<lparr>cn_equipment = {Standard}, cn_satcom = {}\<rparr>"

definition mkComNavEquipment ::
  "ComNavEquipmentOption set \<Rightarrow> CpdlcSatcomEquipmentOption set \<Rightarrow> CComNavEquipment" where
  "mkComNavEquipment equipment satcom =
     \<lparr>cn_equipment = (if equipment = {} then {NoEquip} else equipment), cn_satcom = satcom\<rparr>"

text \<open>\<open>append_equipment_flag_if_exist\<close>: the rest of the text and the flags found.\<close>

definition appendFlagIfExist :: "('a \<Rightarrow> string) \<Rightarrow> 'a \<Rightarrow> string \<times> 'a set \<Rightarrow> string \<times> 'a set" where
  "appendFlagIfExist flagToString flag = (\<lambda>(equipment, flags).
     if containsStr equipment (flagToString flag)
     then (removeStr (flagToString flag) equipment, insert flag flags) else (equipment, flags))"

text \<open>The order in which the constructor looks for the codes.\<close>

definition comNavOrder :: "ComNavEquipmentOption list" where
  "comNavOrder = [Standard, Gbas, Lpv, LoranC, Dme, FmcAcars, DFisAcars, PdcAcars, Adf, Gnss, HfRtf,
     InertiaNavigation, Mls, Ils, NoEquip, Vor, Pbn, Tacan, UhfRtf, VhfRtf, Rvsm, Mnps, Vhf833, OtherEquip]"

definition satcomOrder :: "CpdlcSatcomEquipmentOption list" where
  "satcomOrder = [CpdlcAtn, CpdlcFansHfdl, CpdlcFansVdlA, CpdlcFansVdl2, CpdlcFansSatcomInmarsat,
     CpdlcFansSatcomMtsat, CpdlcFansSatcomIridium, AtcSatvoiceInmarsat, AtcSatvoiceMtsat, AtcSatvoiceIridium,
     CpdlcRcp400, CpdlcRcp240, SatvoiceRcp400]"

definition comNavOfString :: "string \<Rightarrow> CComNavEquipment" where
  "comNavOfString equipment =
     (if equipment = [] then CComNavEquipment_default
      else
        let (equipment1, flags) = fold (appendFlagIfExist comNavFlagToString) comNavOrder (equipment, {});
            (equipment2, satcom) = fold (appendFlagIfExist satcomFlagToString) satcomOrder (equipment1, {})
        in if equipment2 \<noteq> [] \<and> flags = {} then \<lparr>cn_equipment = {NoEquip}, cn_satcom = {}\<rparr>
           else \<lparr>cn_equipment = flags, cn_satcom = satcom\<rparr>)"

text \<open>The order in which the codes are written.\<close>

definition comNavLetters :: "(ComNavEquipmentOption + CpdlcSatcomEquipmentOption) list" where
  "comNavLetters =
     [Inl Standard, Inl Gbas, Inl Lpv, Inl LoranC, Inl Dme, Inl FmcAcars, Inl DFisAcars, Inl PdcAcars, Inl Adf,
      Inl Gnss, Inl HfRtf, Inl InertiaNavigation,
      Inr CpdlcAtn, Inr CpdlcFansHfdl, Inr CpdlcFansVdlA, Inr CpdlcFansVdl2, Inr CpdlcFansSatcomInmarsat,
      Inr CpdlcFansSatcomMtsat, Inr CpdlcFansSatcomIridium,
      Inl Mls, Inl Ils, Inr AtcSatvoiceInmarsat, Inr AtcSatvoiceMtsat, Inr AtcSatvoiceIridium,
      Inl NoEquip, Inl Vor, Inr CpdlcRcp400, Inr CpdlcRcp240, Inr SatvoiceRcp400,
      Inl Pbn, Inl Tacan, Inl UhfRtf, Inl VhfRtf, Inl Rvsm, Inl Mnps, Inl Vhf833, Inl OtherEquip]"

definition hasComNav :: "ComNavEquipmentOption + CpdlcSatcomEquipmentOption \<Rightarrow> CComNavEquipment \<Rightarrow> bool" where
  "hasComNav flag e = (case flag of Inl f \<Rightarrow> f \<in> cn_equipment e | Inr f \<Rightarrow> f \<in> cn_satcom e)"

definition comNav_enabledOptions :: "CComNavEquipment \<Rightarrow> string list" where
  "comNav_enabledOptions e =
     map (case_sum comNavFlagToString satcomFlagToString) (filter (\<lambda>flag. hasComNav flag e) comNavLetters)"

definition comNav_toQString :: "CComNavEquipment \<Rightarrow> string" where
  "comNav_toQString e = concat (comNav_enabledOptions e)"

definition comNav_allEquipmentLetters :: "string list" where
  "comNav_allEquipmentLetters =
     [''S'',  ''A'',  ''B'',  ''C'',  ''D'',  ''E1'', ''E2'', ''E3'', ''F'',  ''G'',  ''H'',  ''I'', ''J1'',
      ''J2'', ''J3'', ''J4'', ''J5'', ''J6'', ''J7'', ''K'',  ''L'',  ''M1'', ''M2'', ''M3'', ''N'', ''O'',
      ''P1'', ''P2'', ''P3'', ''R'',  ''T'',  ''U'',  ''V'',  ''W'',  ''X'',  ''Y'',  ''Z'']"

subsection \<open>SSR equipment\<close>

datatype SsrEquipmentOption =
    None_ssr | ModeA_ssr | ModeAC | ModeSTypeE | ModeSTypeH | ModeSTypeI | ModeSTypeL | ModeSTypeX
  | ModeSTypeP | ModeSTypeS | AdsBB1 | AdsBB2 | AdsBU1 | AdsBU2 | AdsBV1 | AdsBV2 | AdsCD1 | AdsCG1

fun ssrFlagToString :: "SsrEquipmentOption \<Rightarrow> string" where
  "ssrFlagToString None_ssr = ''N''" | "ssrFlagToString ModeA_ssr = ''A''" | "ssrFlagToString ModeAC = ''C''"
| "ssrFlagToString ModeSTypeE = ''E''" | "ssrFlagToString ModeSTypeH = ''H''" | "ssrFlagToString ModeSTypeI = ''I''"
| "ssrFlagToString ModeSTypeL = ''L''" | "ssrFlagToString ModeSTypeX = ''X''" | "ssrFlagToString ModeSTypeP = ''P''"
| "ssrFlagToString ModeSTypeS = ''S''" | "ssrFlagToString AdsBB1 = ''B1''" | "ssrFlagToString AdsBB2 = ''B2''"
| "ssrFlagToString AdsBU1 = ''U1''" | "ssrFlagToString AdsBU2 = ''U2''" | "ssrFlagToString AdsBV1 = ''V1''"
| "ssrFlagToString AdsBV2 = ''V2''" | "ssrFlagToString AdsCD1 = ''D1''" | "ssrFlagToString AdsCG1 = ''G1''"

type_synonym CSsrEquipment = "SsrEquipmentOption set"

definition CSsrEquipment_default :: CSsrEquipment where "CSsrEquipment_default = {None_ssr}"

definition mkSsrEquipment :: "SsrEquipmentOption set \<Rightarrow> CSsrEquipment" where
  "mkSsrEquipment equipment = (if equipment = {} then {None_ssr} else equipment)"

definition ssrOrder :: "SsrEquipmentOption list" where
  "ssrOrder = [None_ssr, ModeA_ssr, ModeAC, ModeSTypeE, ModeSTypeH, ModeSTypeI, ModeSTypeL, ModeSTypeX, ModeSTypeP,
     ModeSTypeS, AdsBB1, AdsBB2, AdsBU1, AdsBU2, AdsBV1, AdsBV2, AdsCD1, AdsCG1]"

definition ssrOfString :: "string \<Rightarrow> CSsrEquipment" where
  "ssrOfString equipment =
     (if equipment = [] then CSsrEquipment_default
      else case fold (appendFlagIfExist ssrFlagToString) ssrOrder (equipment, {}) of (equipment1, flags) \<Rightarrow>
        if equipment1 \<noteq> [] \<and> flags = {} then {None_ssr} else flags)"

definition ssr_enabledOptions :: "CSsrEquipment \<Rightarrow> string list" where
  "ssr_enabledOptions e = map ssrFlagToString (filter (\<lambda>flag. flag \<in> e) ssrOrder)"

definition ssr_toQString :: "CSsrEquipment \<Rightarrow> string" where
  "ssr_toQString e = concat (ssr_enabledOptions e)"

definition ssr_allEquipmentLetters :: "string list" where
  "ssr_allEquipmentLetters =
     [''N'', ''A'', ''C'', ''E'', ''H'', ''I'', ''L'', ''X'', ''P'', ''S'', ''B1'', ''B2'', ''U1'', ''U2'',
      ''V1'', ''V2'', ''D1'', ''G1'']"

subsection \<open>Reading a text of codes\<close>

text \<open>
  An alphabet of codes: a letter, or a letter and a digit, a letter always in the same way.
  A text of codes then has only one reading, and looking for a code finds the codes.
\<close>

definition letterCodes :: "string list \<Rightarrow> bool" where
  "letterCodes codes \<longleftrightarrow>
     list_all (\<lambda>t. t \<noteq> [] \<and> isUpperC (hd t) \<and> list_all isDigitC (tl t)) codes
     \<and> list_all (\<lambda>t. list_all (\<lambda>u. hd t = hd u \<longrightarrow> length t = length u) codes) codes"

locale letter_codes =
  fixes codes :: "string list"
  assumes letterCodes: "letterCodes codes"
begin

lemma code_shape: "t \<in> set codes \<Longrightarrow> t \<noteq> [] \<and> isUpperC (hd t) \<and> list_all isDigitC (tl t)"
  using letterCodes unfolding letterCodes_def list_all_iff by blast

lemma code_kind: "t \<in> set codes \<Longrightarrow> u \<in> set codes \<Longrightarrow> hd t = hd u \<Longrightarrow> length t = length u"
  using letterCodes unfolding letterCodes_def list_all_iff by blast

lemma code_cases:
  assumes "t \<in> set codes"
  obtains c ds where "t = c # ds" and "list_all isDigitC ds"
  using code_shape [OF assms] by (cases t) auto

lemma starts_with_code:
  assumes "t \<in> set codes" and "u \<in> set codes"
  shows "startsWith (u @ s) t \<longleftrightarrow> t = u"
proof
  assume "startsWith (u @ s) t"
  then obtain r where r: "u @ s = t @ r" by (auto simp: startsWith_iff)
  have "hd u = hd t" using r code_shape [OF assms(1)] code_shape [OF assms(2)] by (metis hd_append2)
  then have "length u = length t" using code_kind [OF assms(2,1)] by blast
  then show "t = u" using r by simp
qed (simp add: startsWith_append)

lemma no_code_at_digit: "t \<in> set codes \<Longrightarrow> isDigitC c \<Longrightarrow> \<not> startsWith (c # s) t"
  using code_shape [of t]
  by (cases t) (auto simp: startsWith_def isDigitC_def isUpperC_def Let_def)

lemma skip_digits_contains:
  "t \<in> set codes \<Longrightarrow> list_all isDigitC ds \<Longrightarrow> containsStr (ds @ s) t \<longleftrightarrow> containsStr s t"
  by (induction ds) (auto simp: no_code_at_digit)

lemma contains_code:
  assumes "t \<in> set codes"
  shows "set us \<subseteq> set codes \<Longrightarrow> containsStr (concat us) t \<longleftrightarrow> t \<in> set us"
proof (induction us)
  case Nil
  then show ?case using code_shape [OF assms] by simp
next
  case (Cons u us)
  then have u: "u \<in> set codes" by simp
  then obtain c ds where c: "u = c # ds" "list_all isDigitC ds" by (rule code_cases)
  have "containsStr (concat (u # us)) t \<longleftrightarrow> startsWith (u @ concat us) t \<or> containsStr (ds @ concat us) t"
    using c by simp
  then show ?case using Cons starts_with_code [OF assms u] skip_digits_contains [OF assms c(2)] by simp
qed

lemma skip_digits_remove:
  "t \<in> set codes \<Longrightarrow> list_all isDigitC ds \<Longrightarrow> length ds \<le> n \<Longrightarrow>
     removeAll n t (ds @ s) = ds @ removeAll (n - length ds) t s"
proof (induction ds arbitrary: n)
  case (Cons d ds)
  then show ?case by (cases n) (auto simp: no_code_at_digit)
qed simp

lemma remove_code_fuel:
  assumes "t \<in> set codes"
  shows "set us \<subseteq> set codes \<Longrightarrow> length (concat us) \<le> n \<Longrightarrow>
    removeAll n t (concat us) = concat (filter (\<lambda>u. u \<noteq> t) us)"
proof (induction us arbitrary: n)
  case Nil
  then show ?case by (cases n) auto
next
  case (Cons u us)
  then have u: "u \<in> set codes" by simp
  then obtain c ds where c: "u = c # ds" "list_all isDigitC ds" by (rule code_cases)
  with Cons.prems obtain k where k: "n = Suc k" by (cases n) auto
  show ?case
  proof (cases "t = u")
    case True
    then show ?thesis using Cons c k by (simp add: startsWith_def)
  next
    case False
    then have "\<not> startsWith (c # ds @ concat us) t" using starts_with_code [OF assms u, of "concat us"] c by simp
    then show ?thesis using Cons c k False skip_digits_remove [OF assms c(2), of k "concat us"] by simp
  qed
qed

lemma remove_code:
  "t \<in> set codes \<Longrightarrow> set us \<subseteq> set codes \<Longrightarrow> removeStr t (concat us) = concat (filter (\<lambda>u. u \<noteq> t) us)"
  by (simp add: removeStr_def remove_code_fuel)

lemma read_codes:
  assumes "txt ` set flags \<subseteq> set codes" and "distinct (map txt flags)"
  shows "set us \<subseteq> set codes \<Longrightarrow> fold (appendFlagIfExist txt) flags (concat us, S)
      = (concat (filter (\<lambda>u. u \<notin> txt ` set flags) us), S \<union> {f \<in> set flags. txt f \<in> set us})"
  using assms
proof (induction flags arbitrary: us S)
  case Nil
  then show ?case by simp
next
  case (Cons f fs)
  have f: "txt f \<in> set codes" and fs: "txt ` set fs \<subseteq> set codes" "distinct (map txt fs)"
    and new: "txt f \<notin> txt ` set fs"
    using Cons.prems by auto
  let ?us = "filter (\<lambda>u. u \<noteq> txt f) us" and ?S = "if txt f \<in> set us then insert f S else S"
  have "?us = us" if "txt f \<notin> set us" using that by (auto intro!: filter_True)
  then have step: "appendFlagIfExist txt f (concat us, S) = (concat ?us, ?S)"
    using contains_code [OF f Cons.prems(1)] remove_code [OF f Cons.prems(1)]
    by (simp add: appendFlagIfExist_def)
  have rest: "filter (\<lambda>u. u \<notin> txt ` set fs) ?us = filter (\<lambda>u. u \<notin> txt ` set (f # fs)) us"
    by (auto intro!: filter_cong)
  have "{g \<in> set fs. txt g \<in> set ?us} = {g \<in> set fs. txt g \<in> set us}" using new by (force simp: image_iff)
  then have "?S \<union> {g \<in> set fs. txt g \<in> set ?us} = S \<union> {g \<in> set (f # fs). txt g \<in> set us}" by auto
  moreover have us: "set ?us \<subseteq> set codes" using Cons.prems(1) by auto
  ultimately show ?case
    by (simp only: fold_simps o_apply step Cons.IH [OF us fs] rest)
qed

end

interpretation comnav: letter_codes comNav_allEquipmentLetters
  by unfold_locales code_simp

interpretation ssr: letter_codes ssr_allEquipmentLetters
  by unfold_locales code_simp

lemma comNav_texts:
  "set (comNav_enabledOptions e) \<subseteq> set comNav_allEquipmentLetters"
  "comNavFlagToString ` set comNavOrder \<subseteq> set comNav_allEquipmentLetters"
  "satcomFlagToString ` set satcomOrder \<subseteq> set comNav_allEquipmentLetters"
  "distinct (map comNavFlagToString comNavOrder)" "distinct (map satcomFlagToString satcomOrder)"
proof -
  have "set (comNav_enabledOptions e) \<subseteq> set (map (case_sum comNavFlagToString satcomFlagToString) comNavLetters)"
    by (auto simp: comNav_enabledOptions_def)
  also have "map (case_sum comNavFlagToString satcomFlagToString) comNavLetters = comNav_allEquipmentLetters"
    by (simp add: comNavLetters_def comNav_allEquipmentLetters_def)
  finally show "set (comNav_enabledOptions e) \<subseteq> set comNav_allEquipmentLetters" .
qed (simp_all add: comNavOrder_def satcomOrder_def comNav_allEquipmentLetters_def)

lemma comNav_order: "f \<in> set comNavOrder"
  by (cases f) (simp_all add: comNavOrder_def)

lemma satcom_order: "g \<in> set satcomOrder"
  by (cases g) (simp_all add: satcomOrder_def)

lemma ssr_texts:
  "set (ssr_enabledOptions e) \<subseteq> set ssr_allEquipmentLetters"
  "ssrFlagToString ` set ssrOrder \<subseteq> set ssr_allEquipmentLetters" "distinct (map ssrFlagToString ssrOrder)"
proof -
  have "set (ssr_enabledOptions e) \<subseteq> set (map ssrFlagToString ssrOrder)" by (auto simp: ssr_enabledOptions_def)
  also have "map ssrFlagToString ssrOrder = ssr_allEquipmentLetters"
    by (simp add: ssrOrder_def ssr_allEquipmentLetters_def)
  finally show "set (ssr_enabledOptions e) \<subseteq> set ssr_allEquipmentLetters" .
qed (simp_all add: ssrOrder_def ssr_allEquipmentLetters_def)

lemma ssr_order: "f \<in> set ssrOrder"
  by (cases f) (simp_all add: ssrOrder_def)

lemma comNav_inj: "comNavFlagToString f = comNavFlagToString f' \<longleftrightarrow> f = f'"
  using comNav_texts(4) comNav_order by (metis distinct_map inj_onD)

lemma satcom_inj: "satcomFlagToString g = satcomFlagToString g' \<longleftrightarrow> g = g'"
  using comNav_texts(5) satcom_order by (metis distinct_map inj_onD)

lemma ssr_inj: "ssrFlagToString f = ssrFlagToString f' \<longleftrightarrow> f = f'"
  using ssr_texts(3) ssr_order by (metis distinct_map inj_onD)

lemma comNav_satcom: "comNavFlagToString f \<noteq> satcomFlagToString g"
proof -
  have "hd (comNavFlagToString f) \<notin> set ''JMP''" by (cases f) simp_all
  moreover have "hd (satcomFlagToString g) \<in> set ''JMP''" by (cases g) simp_all
  ultimately show ?thesis by metis
qed

lemma comNav_letters: "Inl f \<in> set comNavLetters" "Inr g \<in> set comNavLetters"
  by (cases f; simp add: comNavLetters_def) (cases g; simp add: comNavLetters_def)

lemma comNav_enabledOptions_set:
  "set (comNav_enabledOptions e) = comNavFlagToString ` cn_equipment e \<union> satcomFlagToString ` cn_satcom e"
  using comNav_letters
  by (force simp: comNav_enabledOptions_def hasComNav_def image_iff split: sum.splits)

lemma comNav_enabled:
  "comNavFlagToString f \<in> set (comNav_enabledOptions e) \<longleftrightarrow> f \<in> cn_equipment e"
  "satcomFlagToString g \<in> set (comNav_enabledOptions e) \<longleftrightarrow> g \<in> cn_satcom e"
  unfolding comNav_enabledOptions_set using comNav_inj satcom_inj comNav_satcom by (auto simp: image_iff) metis+

lemma ssr_enabled: "ssrFlagToString f \<in> set (ssr_enabledOptions e) \<longleftrightarrow> f \<in> e"
  using ssr_order ssr_inj by (auto simp: ssr_enabledOptions_def)

text \<open>The text of an equipment that is not empty is read as the same equipment.\<close>

lemma concat_codes_nonempty: "[] \<notin> set ts \<Longrightarrow> concat ts = [] \<longleftrightarrow> ts = []"
  by (cases ts) auto

lemma comNav_nonempty:
  assumes "cn_equipment e \<noteq> {} \<or> cn_satcom e \<noteq> {}"
  shows "comNav_toQString e \<noteq> []"
proof -
  have "comNav_enabledOptions e \<noteq> []"
    using assms comNav_enabled [of _ e] by (metis ex_in_conv empty_iff list.set(1))
  moreover have "[] \<notin> set (comNav_enabledOptions e)" using comNav_texts(1) comnav.code_shape by blast
  ultimately show ?thesis unfolding comNav_toQString_def using concat_codes_nonempty by blast
qed

lemma ssr_nonempty:
  assumes "e \<noteq> {}"
  shows "ssr_toQString e \<noteq> []"
proof -
  have "ssr_enabledOptions e \<noteq> []" using assms ssr_enabled [of _ e] by (metis ex_in_conv empty_iff list.set(1))
  moreover have "[] \<notin> set (ssr_enabledOptions e)" using ssr_texts(1) ssr.code_shape by blast
  ultimately show ?thesis unfolding ssr_toQString_def using concat_codes_nonempty by blast
qed

lemma comNav_roundtrip:
  assumes "cn_equipment e \<noteq> {} \<or> cn_satcom e \<noteq> {}"
  shows "comNavOfString (comNav_toQString e) = e"
proof -
  let ?ts = "comNav_enabledOptions e"
  note nonempty = comNav_nonempty [OF assms]
  let ?us = "filter (\<lambda>u. u \<notin> comNavFlagToString ` set comNavOrder) ?ts"
  have us: "set ?us \<subseteq> set comNav_allEquipmentLetters" using comNav_texts(1) by auto
  have "satcomFlagToString g \<in> set ?us \<longleftrightarrow> g \<in> cn_satcom e" for g
    using comNav_enabled(2) comNav_satcom by (auto simp: image_iff) metis
  then have satcom: "{g \<in> set satcomOrder. satcomFlagToString g \<in> set ?us} = cn_satcom e"
    using satcom_order by auto
  have equipment: "{f \<in> set comNavOrder. comNavFlagToString f \<in> set ?ts} = cn_equipment e"
    using comNav_order comNav_enabled(1) by auto
  have "set ?ts \<subseteq> comNavFlagToString ` set comNavOrder \<union> satcomFlagToString ` set satcomOrder"
    using comNav_order satcom_order by (simp add: comNav_enabledOptions_set) blast
  then have rest: "filter (\<lambda>u. u \<notin> satcomFlagToString ` set satcomOrder) ?us = []"
    by (auto simp: filter_empty_conv)
  have "fold (appendFlagIfExist comNavFlagToString) comNavOrder (comNav_toQString e, {}) = (concat ?us, cn_equipment e)"
    unfolding comNav_toQString_def comnav.read_codes [OF comNav_texts(2,4,1)] equipment by simp
  moreover have "fold (appendFlagIfExist satcomFlagToString) satcomOrder (concat ?us, {}) = ([], cn_satcom e)"
    unfolding comnav.read_codes [OF comNav_texts(3,5) us] satcom rest by simp
  ultimately show ?thesis
    using nonempty by (simp add: comNavOfString_def)
qed

lemma ssr_roundtrip:
  assumes "e \<noteq> {}"
  shows "ssrOfString (ssr_toQString e) = e"
proof -
  let ?ts = "ssr_enabledOptions e"
  note nonempty = ssr_nonempty [OF assms]
  have flags: "{f \<in> set ssrOrder. ssrFlagToString f \<in> set ?ts} = e" using ssr_order ssr_enabled by auto
  have "filter (\<lambda>u. u \<notin> ssrFlagToString ` set ssrOrder) ?ts = []"
    using ssr_order by (auto simp: filter_empty_conv ssr_enabledOptions_def)
  then have "fold (appendFlagIfExist ssrFlagToString) ssrOrder (ssr_toQString e, {}) = ([], e)"
    unfolding ssr_toQString_def ssr.read_codes [OF ssr_texts(2,3,1)] flags by simp
  then show ?thesis using nonempty assms by (simp add: ssrOfString_def)
qed

end
