(* ===== verification/Flight_Aircraft_Info.thy ===== *)
theory Flight_Aircraft_Info
  imports Flight_Equipment
begin

text \<open>
  The aircraft of a flight plan, \<open>CFlightPlanAircraftInfo\<close>
  (\<open>src/misc/aviation/flightplanaircraftinfo.cpp\<close>): type, equipment and wake turbulence
  category, written and read in the ICAO form (type/category-equipment/SSR) and in the FAA
  form (prefix/type/letter). The lemmas are the round trips of both forms.
\<close>

record CFlightPlanAircraftInfo =
  fi_aircraftIcao :: CAircraftIcaoCode
  fi_comNavEquipment :: CComNavEquipment
  fi_ssrEquipment :: CSsrEquipment
  fi_wtc :: WakeTurbulenceCategory

definition CFlightPlanAircraftInfo_default :: CFlightPlanAircraftInfo where
  "CFlightPlanAircraftInfo_default =
     \<lparr>fi_aircraftIcao = CAircraftIcaoCode_default, fi_comNavEquipment = CComNavEquipment_default,
      fi_ssrEquipment = CSsrEquipment_default, fi_wtc = UNKNOWN\<rparr>"

subsection \<open>The letters of the FAA\<close>

definition faaCodeToEquipment :: "char \<Rightarrow> CComNavEquipment \<times> CSsrEquipment" where
  "faaCodeToEquipment c =
     (if c \<in> set ''HOW'' then mkComNavEquipment {Rvsm} {}
      else if c = CHR ''Z'' then mkComNavEquipment {Rvsm, Pbn} {}
      else if c = CHR ''L'' then mkComNavEquipment {Rvsm, Gnss} {}
      else if c \<in> set ''XTU'' then mkComNavEquipment {} {}
      else if c \<in> set ''DBA'' then mkComNavEquipment {Dme} {}
      else if c \<in> set ''MNP'' then mkComNavEquipment {Tacan} {}
      else if c \<in> set ''YCI'' then mkComNavEquipment {Pbn} {}
      else if c \<in> set ''VSG'' then mkComNavEquipment {Gnss} {}
      else CComNavEquipment_default,
      if c \<in> set ''WZLUAPIG'' then mkSsrEquipment {ModeAC}
      else if c \<in> set ''HOXDMYV'' then mkSsrEquipment {None_ssr}
      else if c \<in> set ''TBNCS'' then mkSsrEquipment {ModeA_ssr}
      else CSsrEquipment_default)"

definition bySsr :: "CSsrEquipment \<Rightarrow> char \<Rightarrow> char \<Rightarrow> char \<Rightarrow> char" where
  "bySsr ssr none modeAC other = (if None_ssr \<in> ssr then none else if ModeAC \<in> ssr then modeAC else other)"

definition equipmentToFaaCode :: "CComNavEquipment \<Rightarrow> CSsrEquipment \<Rightarrow> char" where
  "equipmentToFaaCode e ssr =
     (let equip = cn_equipment e
      in if Rvsm \<in> equip
         then (if None_ssr \<in> ssr then CHR ''H''
               else if Gnss \<in> equip then CHR ''L'' else if Pbn \<in> equip then CHR ''Z'' else CHR ''W'')
         else if Gnss \<in> equip then bySsr ssr CHR ''V'' CHR ''G'' CHR ''S''
         else if Tacan \<in> equip then bySsr ssr CHR ''M'' CHR ''P'' CHR ''N''
         else if Pbn \<in> equip then bySsr ssr CHR ''Y'' CHR ''I'' CHR ''C''
         else if Dme \<in> equip then bySsr ssr CHR ''D'' CHR ''A'' CHR ''B''
         else bySsr ssr CHR ''X'' CHR ''U'' CHR ''T'')"

subsection \<open>Writing\<close>

definition asIcaoString :: "CFlightPlanAircraftInfo \<Rightarrow> string" where
  "asIcaoString i =
     ic_designator (fi_aircraftIcao i) @ ''/''
     @ wtcToString (if fi_wtc i = UNKNOWN then MEDIUM else fi_wtc i) @ ''-''
     @ comNav_toQString (fi_comNavEquipment i) @ ''/'' @ ssr_toQString (fi_ssrEquipment i)"

definition asFaaString :: "CFlightPlanAircraftInfo \<Rightarrow> string" where
  "asFaaString i =
     (if fi_wtc i = HEAVY then ''H/'' else if fi_wtc i = SUPER then ''J/'' else [])
     @ ic_designator (fi_aircraftIcao i) @ ''/''
     @ [equipmentToFaaCode (fi_comNavEquipment i) (fi_ssrEquipment i)]"

subsection \<open>Reading\<close>

definition parseIcaoEquipmentCode :: "string \<Rightarrow> CFlightPlanAircraftInfo" where
  "parseIcaoEquipmentCode equipment =
     (let firstSplit = qsplit CHR ''/'' equipment;
          i = CFlightPlanAircraftInfo_default
      in if \<not> isValidDesignator (firstSplit ! 0) \<or> firstSplit ! 1 = [] \<or> firstSplit ! 2 = [] then i
         else
           let i1 = i\<lparr>fi_aircraftIcao := mkShortIcao (firstSplit ! 0) [],
                      fi_ssrEquipment := ssrOfString (firstSplit ! 2)\<rparr>;
               secondSplit = qsplit CHR ''-'' (firstSplit ! 1)
           in if length secondSplit \<noteq> 2 then i1
              else i1\<lparr>fi_wtc := (if secondSplit ! 0 \<noteq> [] then wtcOfLetter (hd (secondSplit ! 0)) else UNKNOWN),
                      fi_comNavEquipment := comNavOfString (secondSplit ! 1)\<rparr>)"

definition parseFaaEquipmentCode :: "string \<Rightarrow> CFlightPlanAircraftInfo" where
  "parseFaaEquipmentCode equipment =
     (let split = qsplit CHR ''/'' equipment;
          i = CFlightPlanAircraftInfo_default;
          beforeLast = split ! (length split - 2);
          lastPart = split ! (length split - 1);
          (icao, missing) =
            (if isValidDesignator beforeLast then (mkShortIcao beforeLast [], False)
             else if isValidDesignator lastPart then (mkShortIcao lastPart [], True)
             else (CAircraftIcaoCode_default, False));
          i1 = i\<lparr>fi_aircraftIcao := icao\<rparr>;
          (i2, missingEquipmentCode) =
            (if length split = 3
             then (if split ! 0 = ''H'' \<or> split ! 0 = ''J'' then i1\<lparr>fi_wtc := wtcOfLetter (hd (split ! 0))\<rparr> else i1, missing)
             else if length split = 2 \<and> length (split ! 0) = 1
             then (i1\<lparr>fi_wtc := wtcOfLetter (hd (split ! 0))\<rparr>, True)
             else (i1\<lparr>fi_wtc := UNKNOWN\<rparr>, missing))
      in if missingEquipmentCode \<or> lastPart = [] then i2
         else case faaCodeToEquipment (hd lastPart) of (comNavEquipment, ssrEquipment) \<Rightarrow>
           i2\<lparr>fi_comNavEquipment := comNavEquipment, fi_ssrEquipment := ssrEquipment\<rparr>)"

definition parseUnknownEquipmentCode :: "string \<Rightarrow> CFlightPlanAircraftInfo" where
  "parseUnknownEquipmentCode equipment =
     (let first = hd (qsplit CHR ''/'' equipment)
      in if 1 < length first \<and> isValidDesignator first
         then CFlightPlanAircraftInfo_default\<lparr>fi_aircraftIcao := mkShortIcao first []\<rparr>
         else CFlightPlanAircraftInfo_default)"

definition mkAircraftInfo :: "string \<Rightarrow> CFlightPlanAircraftInfo" where
  "mkAircraftInfo equipmentCodeAndAircraft =
     (let equipment = removeStr '' '' (toUpper (trimmed equipmentCodeAndAircraft));
          numberSlash = count_list equipment CHR ''/'';
          numberHyphen = count_list equipment CHR ''-''
      in if numberHyphen = 1 \<and> numberSlash = 2 then parseIcaoEquipmentCode equipment
         else if 1 \<le> numberSlash \<and> numberSlash \<le> 2 \<and> numberHyphen = 0 then parseFaaEquipmentCode equipment
         else parseUnknownEquipmentCode equipment)"

subsection \<open>Round trips\<close>

text \<open>The characters of both forms: no reading step of the constructor changes them.\<close>

definition formChar :: "char \<Rightarrow> bool" where
  "formChar c \<longleftrightarrow> isUpperC c \<or> isDigitC c \<or> c = CHR ''/'' \<or> c = CHR ''-''"

definition plainChar :: "char \<Rightarrow> bool" where
  "plainChar c \<longleftrightarrow> isUpperC c \<or> isDigitC c"

lemma plainChar_formChar: "plainChar c \<Longrightarrow> formChar c"
  by (auto simp: plainChar_def formChar_def)

lemma plainChar_no_sep: "plainChar c \<Longrightarrow> c \<noteq> CHR ''/''" "plainChar c \<Longrightarrow> c \<noteq> CHR ''-''"
  by (auto simp: plainChar_def isUpperC_def isDigitC_def Let_def)

lemma formChar_fixed: "formChar c \<Longrightarrow> \<not> isSpace c" "formChar c \<Longrightarrow> toUpperC c = c"
  by (auto simp: formChar_def isSpace_def isUpperC_def isDigitC_def isLowerC_def Let_def)

lemma removeAll_absent: "c \<notin> set s \<Longrightarrow> removeAll n [c] s = s"
proof (induction n arbitrary: s)
  case (Suc n)
  then show ?case by (cases s) (auto simp: startsWith_def)
qed simp

lemma clean_form:
  assumes "\<forall>c \<in> set s. formChar c"
  shows "removeStr '' '' (toUpper (trimmed s)) = s"
proof -
  have "trimmed s = s" using assms formChar_fixed by (intro trimmed_filter_not_space) blast
  moreover have "toUpper s = s" using assms formChar_fixed by (intro map_idI) blast
  moreover have "CHR '' '' \<notin> set s" using assms by (auto simp: formChar_def isUpperC_def isDigitC_def)
  ultimately show ?thesis by (simp add: removeStr_def removeAll_absent)
qed

lemma designator_chars: "isValidDesignator d \<Longrightarrow> \<forall>c \<in> set d. plainChar c"
  by (auto simp: isValidDesignator_def containsChar_iff plainChar_def)

lemma code_chars:
  assumes "letterCodes codes" and "t \<in> set codes"
  shows "\<forall>c \<in> set t. plainChar c"
  using letter_codes.code_shape [OF letter_codes.intro [OF assms(1)] assms(2)]
  by (cases t) (auto simp: plainChar_def list_all_iff)

lemma equipment_chars:
  "\<forall>c \<in> set (comNav_toQString e). plainChar c" "\<forall>c \<in> set (ssr_toQString f). plainChar c"
  using code_chars [OF comnav.letterCodes] comNav_texts(1) code_chars [OF ssr.letterCodes] ssr_texts(1)
  by (auto simp: comNav_toQString_def ssr_toQString_def) blast+

lemma faa_chars: "\<forall>c \<in> set [equipmentToFaaCode e f]. plainChar c"
  by (simp add: equipmentToFaaCode_def bySsr_def plainChar_def isUpperC_def Let_def)

lemma wtc_letter: "w \<noteq> UNKNOWN \<Longrightarrow> \<exists>c. wtcToString w = [c] \<and> plainChar c \<and> wtcOfLetter c = w"
  by (cases w) (auto simp: plainChar_def isUpperC_def wtcOfLetter_def isLowerC_def)

lemma mkShortIcao_designator:
  assumes "isValidDesignator d"
  shows "mkShortIcao d [] = CAircraftIcaoCode_default\<lparr>ic_designator := d\<rparr>"
proof -
  have f: "\<forall>c \<in> set d. formChar c" using designator_chars [OF assms] plainChar_formChar by blast
  have "trimmed d = d" using f formChar_fixed by (intro trimmed_filter_not_space) blast
  moreover have "toUpper d = d" using f formChar_fixed by (intro map_idI) blast
  ultimately show ?thesis by (simp add: mkShortIcao_def CAircraftIcaoCode_default_def)
qed

lemma count_list_absent: "\<forall>c \<in> set s. plainChar c \<Longrightarrow> count_list s CHR ''/'' = 0 \<and> count_list s CHR ''-'' = 0"
  using plainChar_no_sep by (auto simp: count_list_0_iff)

lemma icao_form_read:
  assumes d: "isValidDesignator d" and w: "w \<noteq> UNKNOWN"
    and e: "cn_equipment e \<noteq> {} \<or> cn_satcom e \<noteq> {}" and f: "f \<noteq> {}"
  shows "mkAircraftInfo (d @ ''/'' @ wtcToString w @ ''-'' @ comNav_toQString e @ ''/'' @ ssr_toQString f)
    = \<lparr>fi_aircraftIcao = mkShortIcao d [], fi_comNavEquipment = e, fi_ssrEquipment = f, fi_wtc = w\<rparr>"
proof -
  obtain c where c: "wtcToString w = [c]" "plainChar c" "wtcOfLetter c = w" using wtc_letter [OF w] by blast
  let ?cn = "comNav_toQString e" and ?ss = "ssr_toQString f"
  let ?s = "d @ ''/'' @ [c] @ ''-'' @ ?cn @ ''/'' @ ?ss"
  note chars = designator_chars [OF d] equipment_chars(1) [of e] equipment_chars(2) [of f] c(2)
  have "\<forall>x \<in> set ?s. formChar x" using chars plainChar_formChar by (auto simp: formChar_def)
  then have clean: "removeStr '' '' (toUpper (trimmed ?s)) = ?s" by (rule clean_form)
  have no_slash: "CHR ''/'' \<notin> set d" "CHR ''/'' \<notin> set ?cn" "CHR ''/'' \<notin> set ?ss" "c \<noteq> CHR ''/''"
    and no_hyphen: "CHR ''-'' \<notin> set ?cn" "c \<noteq> CHR ''-''"
    using chars plainChar_no_sep by blast+
  have counts: "count_list ?s CHR ''/'' = 2" "count_list ?s CHR ''-'' = 1"
    using count_list_absent chars by (auto simp: c(2)) (use no_slash(4) no_hyphen(2) in auto)
  have first: "qsplit CHR ''/'' ?s = [d, [c] @ ''-'' @ ?cn, ?ss]"
    using no_slash by (simp add: qsplit_append_sep qsplit_append_sep [of _ "c # CHR ''-'' # ?cn", simplified] qsplit_no_sep)
  have second: "qsplit CHR ''-'' ([c] @ ''-'' @ ?cn) = [[c], ?cn]"
    using no_hyphen by (simp add: qsplit_no_sep)
  show ?thesis
    using d clean counts first second comNav_roundtrip [OF e] ssr_roundtrip [OF f] ssr_nonempty [OF f] c
    by (simp add: mkAircraftInfo_def parseIcaoEquipmentCode_def Let_def CFlightPlanAircraftInfo_default_def)
qed

lemma icao_string_read:
  assumes "isValidDesignator (ic_designator (fi_aircraftIcao i))"
    and "fi_aircraftIcao i = mkShortIcao (ic_designator (fi_aircraftIcao i)) []"
    and "cn_equipment (fi_comNavEquipment i) \<noteq> {} \<or> cn_satcom (fi_comNavEquipment i) \<noteq> {}"
    and "fi_ssrEquipment i \<noteq> {}"
  shows "mkAircraftInfo (asIcaoString i) = i\<lparr>fi_wtc := if fi_wtc i = UNKNOWN then MEDIUM else fi_wtc i\<rparr>"
  using icao_form_read [OF assms(1) _ assms(3,4), of "if fi_wtc i = UNKNOWN then MEDIUM else fi_wtc i"] assms(2)
  by (simp add: asIcaoString_def)

definition faaLetters :: string where "faaLetters = ''HWZLXTUDBAMNPYCIVSG''"

lemma faa_letter:
  "c \<in> set faaLetters \<Longrightarrow> (case faaCodeToEquipment c of (e, f) \<Rightarrow> equipmentToFaaCode e f) = c"
  by (auto simp: faaLetters_def faaCodeToEquipment_def equipmentToFaaCode_def bySsr_def mkComNavEquipment_def
      mkSsrEquipment_def)

lemma faa_letter_range: "equipmentToFaaCode e f \<in> set faaLetters"
  by (simp add: equipmentToFaaCode_def bySsr_def faaLetters_def Let_def)

text \<open>The prefix of the FAA form.\<close>

definition faaPrefix :: "WakeTurbulenceCategory \<Rightarrow> string" where
  "faaPrefix w = (if w = HEAVY then ''H/'' else if w = SUPER then ''J/'' else [])"

definition faaCategory :: "WakeTurbulenceCategory \<Rightarrow> WakeTurbulenceCategory" where
  "faaCategory w = (if w = HEAVY \<or> w = SUPER then w else UNKNOWN)"

lemma faa_form_read:
  assumes d: "isValidDesignator d" and c: "c \<in> set faaLetters"
  shows "mkAircraftInfo (faaPrefix w @ d @ ''/'' @ [c])
    = \<lparr>fi_aircraftIcao = mkShortIcao d [], fi_comNavEquipment = fst (faaCodeToEquipment c),
       fi_ssrEquipment = snd (faaCodeToEquipment c), fi_wtc = faaCategory w\<rparr>"
proof -
  let ?s = "faaPrefix w @ d @ ''/'' @ [c]"
  have pc: "plainChar c" using c by (auto simp: faaLetters_def plainChar_def isUpperC_def)
  note chars = designator_chars [OF d]
  have "\<forall>x \<in> set ?s. formChar x"
    using chars pc plainChar_formChar by (auto simp: formChar_def faaPrefix_def isUpperC_def)
  then have clean: "removeStr '' '' (toUpper (trimmed ?s)) = ?s" by (rule clean_form)
  have no_sep: "CHR ''/'' \<notin> set d" "c \<noteq> CHR ''/''" "c \<noteq> CHR ''-''"
    using chars pc plainChar_no_sep by blast+
  have counts: "count_list ?s CHR ''-'' = 0" "1 \<le> count_list ?s CHR ''/''" "count_list ?s CHR ''/'' \<le> 2"
    using count_list_absent [OF chars] no_sep by (auto simp: faaPrefix_def)
  have "length d \<noteq> 1" using d by (auto simp: isValidDesignator_def)
  then show ?thesis
    using d clean counts no_sep
    by (cases "faaCodeToEquipment c"; cases w)
      (auto simp: mkAircraftInfo_def parseFaaEquipmentCode_def Let_def CFlightPlanAircraftInfo_default_def
        faaPrefix_def faaCategory_def qsplit_append_sep qsplit_no_sep wtcOfLetter_def isLowerC_def)
qed

lemma asFaaString_form:
  "asFaaString i = faaPrefix (fi_wtc i) @ ic_designator (fi_aircraftIcao i) @ ''/''
     @ [equipmentToFaaCode (fi_comNavEquipment i) (fi_ssrEquipment i)]"
  by (simp add: asFaaString_def faaPrefix_def)

text \<open>Reading the FAA form and writing it again does not change it.\<close>

lemma faa_string_stable:
  assumes "isValidDesignator (ic_designator (fi_aircraftIcao i))"
  shows "asFaaString (mkAircraftInfo (asFaaString i)) = asFaaString i"
proof -
  let ?c = "equipmentToFaaCode (fi_comNavEquipment i) (fi_ssrEquipment i)"
  have "equipmentToFaaCode (fst (faaCodeToEquipment ?c)) (snd (faaCodeToEquipment ?c)) = ?c"
    using faa_letter [OF faa_letter_range] by (simp add: case_prod_beta)
  moreover have "faaPrefix (faaCategory (fi_wtc i)) = faaPrefix (fi_wtc i)"
    by (simp add: faaPrefix_def faaCategory_def)
  ultimately show ?thesis
    using mkShortIcao_designator [OF assms]
    unfolding asFaaString_form [of i] faa_form_read [OF assms faa_letter_range]
    by (simp add: asFaaString_form CAircraftIcaoCode_default_def)
qed

end
