(* ===== verification/Flight_Plan.thy ===== *)
theory Flight_Plan
  imports Airline_Icao Aviation_Selcal Flight_Aircraft_Info
begin

text \<open>
  Flight plans: the voice capabilities (\<open>src/misc/network/voicecapabilities.cpp\<close>), airports
  (\<open>src/misc/aviation/airporticaocode.cpp\<close>), the remarks with the data that are parsed from
  them and the plan itself (\<open>src/misc/aviation/flightplan.cpp\<close>). A time is the number of ms
  since the epoch, negative without a time stamp. The formats of other programs, which need an
  XML reader, are not modelled.
\<close>

subsection \<open>Texts\<close>

text \<open>\<open>QString::indexOf\<close> of a text.\<close>

fun indexOfStr :: "string \<Rightarrow> string \<Rightarrow> nat option" where
  "indexOfStr [] p = (if p = [] then Some 0 else None)"
| "indexOfStr (c # cs) p = (if startsWith (c # cs) p then Some 0 else map_option Suc (indexOfStr cs p))"

text \<open>\<open>QString::replace\<close>: every occurrence, from the left; \<open>fuel\<close> is the length.\<close>

fun replaceFrom :: "nat \<Rightarrow> (string \<Rightarrow> string \<Rightarrow> bool) \<Rightarrow> string \<Rightarrow> string \<Rightarrow> string \<Rightarrow> string" where
  "replaceFrom 0 at_start before after s = s"
| "replaceFrom (Suc fuel) at_start before after s =
     (case s of
        [] \<Rightarrow> []
      | c # cs \<Rightarrow>
          if before \<noteq> [] \<and> at_start s before
          then after @ replaceFrom fuel at_start before after (drop (length before) s)
          else c # replaceFrom fuel at_start before after cs)"

definition replaceStrCI :: "string \<Rightarrow> string \<Rightarrow> string \<Rightarrow> string" where
  "replaceStrCI before after s = replaceFrom (length s) startsWithCI before after s"

definition asciiOnlyString :: "string \<Rightarrow> string" where
  "asciiOnlyString s = removeChars (simplified s) (\<lambda>c. 127 < (of_char c :: nat))"

definition replaceChar :: "char \<Rightarrow> char \<Rightarrow> string \<Rightarrow> string" where
  "replaceChar before after s = map (\<lambda>c. if c = before then after else c) s"

subsection \<open>Voice capabilities\<close>

datatype CVoiceCapabilities = UnknownVoice | Voice | VoiceReceivingOnly | TextOnly

fun toFlightPlanRemarks :: "CVoiceCapabilities \<Rightarrow> string" where
  "toFlightPlanRemarks Voice = ''/V/''" | "toFlightPlanRemarks TextOnly = ''/T/''"
| "toFlightPlanRemarks UnknownVoice = []" | "toFlightPlanRemarks VoiceReceivingOnly = ''/R/''"

fun voice_toQString :: "CVoiceCapabilities \<Rightarrow> string" where
  "voice_toQString Voice = ''voice''" | "voice_toQString TextOnly = ''text only''"
| "voice_toQString VoiceReceivingOnly = ''voice listening only''" | "voice_toQString UnknownVoice = ''unknown''"

definition voiceOfRemarks :: "string \<Rightarrow> CVoiceCapabilities" where
  "voiceOfRemarks flightPlanRemarks =
     (let r = trimmed (toUpper flightPlanRemarks)
      in if flightPlanRemarks = [] then UnknownVoice
         else if containsStr r ''/V/'' then Voice
         else if containsStr r ''/T/'' then TextOnly
         else if containsStr r ''/R/'' then VoiceReceivingOnly
         else if containsStr r ''/VOICE/'' then Voice
         else if containsStr r ''/TEXT/'' then TextOnly
         else UnknownVoice)"

definition voiceOfText :: "string \<Rightarrow> CVoiceCapabilities" where
  "voiceOfText text =
     (if startsWith text ''/'' then voiceOfRemarks text
      else if containsCI text ''TEXT'' then TextOnly
      else if containsCI text ''ONLY'' then TextOnly
      else if containsCI text ''RECEIVE'' then VoiceReceivingOnly
      else if containsCI text ''VOICE'' then Voice
      else UnknownVoice)"

definition allCapabilities :: "CVoiceCapabilities list" where
  "allCapabilities = [UnknownVoice, Voice, VoiceReceivingOnly, TextOnly]"

subsection \<open>Airports\<close>

definition validCodeLength :: "nat \<Rightarrow> bool \<Rightarrow> bool" where
  "validCodeLength l strict \<longleftrightarrow> (if strict then l = 4 else 3 \<le> l \<and> l \<le> 6)"

definition unifyAirportCode :: "string \<Rightarrow> string" where
  "unifyAirportCode icaoCode =
     (let code = toUpper (trimmed icaoCode)
      in if \<not> validCodeLength (length icaoCode) False then []
         else if containsChar code (\<lambda>c. \<not> isLetterOrNumber c) then []
         else code)"

definition isValidIcaoDesignator :: "string \<Rightarrow> bool \<Rightarrow> bool" where
  "isValidIcaoDesignator icaoCode strict \<longleftrightarrow> validCodeLength (length (unifyAirportCode icaoCode)) strict"

definition containsNumbers :: "string \<Rightarrow> bool" where
  "containsNumbers icaoCode \<longleftrightarrow> containsChar icaoCode isDigitC"

definition airport_equalsString :: "string \<Rightarrow> string \<Rightarrow> bool" where
  "airport_equalsString icaoCode m_icaoCode \<longleftrightarrow> toUpper (unifyAirportCode icaoCode) = toUpper m_icaoCode"

subsection \<open>Remarks\<close>

record CFlightPlanRemarks =
  fr_remarks :: string
  fr_radioTelephony :: string
  fr_flightOperator :: string
  fr_registration :: CCallsign
  fr_selcalCode :: string
  fr_airlineIcao :: CAirlineIcaoCode
  fr_voiceCapabilities :: CVoiceCapabilities
  fr_isParsed :: bool

definition CFlightPlanRemarks_default :: CFlightPlanRemarks where
  "CFlightPlanRemarks_default = \<lparr>fr_remarks = [], fr_radioTelephony = [], fr_flightOperator = [],
     fr_registration = emptyCallsign, fr_selcalCode = [], fr_airlineIcao = CAirlineIcaoCode_default,
     fr_voiceCapabilities = UnknownVoice, fr_isParsed = False\<rparr>"

definition cleanRemarks :: "string \<Rightarrow> string" where
  "cleanRemarks remarksIn = asciiOnlyString (simplifyAccents (replaceChar CHR '':'' CHR '' '' remarksIn))"

text \<open>
  The position of the first match of \<open>\s+\w*/|$\<close>. Spaces, word characters and the slash are
  disjoint, so there is one way to match at a position.
\<close>

definition isWordChar :: "char \<Rightarrow> bool" where
  "isWordChar c \<longleftrightarrow> isLetterOrNumber c \<or> c = CHR ''_''"

definition startsMarker :: "string \<Rightarrow> bool" where
  "startsMarker s \<longleftrightarrow> s \<noteq> [] \<and> isSpace (hd s) \<and> startsWith (dropWhile isWordChar (dropWhile isSpace s)) ''/''"

fun nextMarker :: "string \<Rightarrow> nat" where
  "nextMarker [] = 0"
| "nextMarker (c # cs) = (if startsMarker (c # cs) then 0 else Suc (nextMarker cs))"

text \<open>The end of the value that starts at the beginning of the text: its length.\<close>

definition valueLength :: "string \<Rightarrow> nat" where
  "valueLength s = Suc (min (nextMarker (tl s)) (length (takeWhile (\<lambda>c. c \<noteq> CHR ''/'') (tl s))))"

definition getRemark :: "string \<Rightarrow> string \<Rightarrow> string" where
  "getRemark remarks marker =
     (case indexOfStr remarks marker of
        None \<Rightarrow> []
      | Some i \<Rightarrow>
          let f = i + length marker
          in if length remarks \<le> f + 1 then []
             else simplified (take (valueLength (drop f remarks)) (drop f remarks)))"

definition replaceRemark :: "string \<Rightarrow> string \<Rightarrow> string \<Rightarrow> string" where
  "replaceRemark remarks marker newRemark =
     (let appendTo = (\<lambda>r. if r = [] then newRemark else r @ '' '' @ newRemark)
      in case indexOfStr remarks marker of
           None \<Rightarrow> appendTo remarks
         | Some i \<Rightarrow>
             let f = i + length marker
             in if length remarks \<le> f + 1 then remarks
                else appendTo (take f remarks @ drop (valueLength (drop f remarks)) (drop f remarks)))"

definition setSelcalCode :: "string \<Rightarrow> CFlightPlanRemarks \<Rightarrow> bool \<times> CFlightPlanRemarks" where
  "setSelcalCode selcal r =
     (if fr_selcalCode r = unifyCode selcal \<or> length selcal \<noteq> 4 then (False, r)
      else (True, r\<lparr>fr_remarks := replaceRemark (fr_remarks r) ''SEL/'' (''SEL/'' @ selcal)\<rparr>))"

definition replaceVoiceCapabilities :: "string \<Rightarrow> string \<Rightarrow> string" where
  "replaceVoiceCapabilities newCapRemarks oldRemarks =
     (if newCapRemarks = [] then oldRemarks
      else if oldRemarks = [] then newCapRemarks
      else if containsCI oldRemarks ''/V/'' then replaceStrCI ''/V/'' newCapRemarks oldRemarks
      else if containsCI oldRemarks ''/R/'' then replaceStrCI ''/R/'' newCapRemarks oldRemarks
      else if containsCI oldRemarks ''/T/'' then replaceStrCI ''/T/'' newCapRemarks oldRemarks
      else newCapRemarks @ '' '' @ oldRemarks)"

definition remarks_setVoiceCapabilities :: "CVoiceCapabilities \<Rightarrow> CFlightPlanRemarks \<Rightarrow> CFlightPlanRemarks" where
  "remarks_setVoiceCapabilities capabilities r =
     r\<lparr>fr_voiceCapabilities := capabilities,
       fr_remarks := replaceVoiceCapabilities (toFlightPlanRemarks capabilities) (fr_remarks r)\<rparr>"

definition textToVoiceCapabilitiesRemarks :: "string \<Rightarrow> string" where
  "textToVoiceCapabilitiesRemarks text = toFlightPlanRemarks (voiceOfText text)"

definition parseFlightPlanRemarks :: "bool \<Rightarrow> CFlightPlanRemarks \<Rightarrow> CFlightPlanRemarks" where
  "parseFlightPlanRemarks force r =
     (if \<not> force \<and> fr_isParsed r then r
      else if fr_remarks r = [] then r\<lparr>fr_isParsed := True\<rparr>
      else
        let remarks = toUpper (fr_remarks r);
            callsign = unifyCallsign (getRemark remarks ''REG/'') NoHint;
            flightOperator = getRemark remarks ''OPR/'';
            radioTelephony = getRemark remarks ''CALLSIGN/'';
            r1 = r\<lparr>fr_isParsed := True,
                   fr_registration := (if isValidAircraftCallsign callsign then mkCallsign callsign Aircraft else fr_registration r),
                   fr_voiceCapabilities := (if fr_voiceCapabilities r = UnknownVoice then voiceOfRemarks (fr_remarks r)
                                            else fr_voiceCapabilities r),
                   fr_flightOperator := flightOperator,
                   fr_selcalCode := unifyCode (getRemark remarks ''SEL/''),
                   fr_radioTelephony := (if radioTelephony = [] then getRemark remarks ''RT/'' else radioTelephony)\<rparr>
        in if flightOperator \<noteq> [] \<and> isValidAirlineDesignator flightOperator
           then r1\<lparr>fr_airlineIcao := mkAirline flightOperator, fr_flightOperator := []\<rparr>
           else r1)"

definition mkRemarks :: "string \<Rightarrow> bool \<Rightarrow> CFlightPlanRemarks" where
  "mkRemarks remarks parse =
     (let r = CFlightPlanRemarks_default\<lparr>fr_remarks := cleanRemarks remarks\<rparr>
      in if parse then parseFlightPlanRemarks False r else r)"

definition mkRemarksWithVoice :: "string \<Rightarrow> CVoiceCapabilities \<Rightarrow> bool \<Rightarrow> CFlightPlanRemarks" where
  "mkRemarksWithVoice remarks voiceCapabilities parse =
     (let r = CFlightPlanRemarks_default\<lparr>fr_remarks := cleanRemarks remarks, fr_voiceCapabilities := voiceCapabilities\<rparr>
      in if parse then parseFlightPlanRemarks False r else r)"

definition hasParsedAirlineRemarks :: "CFlightPlanRemarks \<Rightarrow> bool" where
  "hasParsedAirlineRemarks r \<longleftrightarrow>
     fr_isParsed r \<and> (fr_radioTelephony r \<noteq> [] \<or> fr_flightOperator r \<noteq> [] \<or> hasValidAirline (fr_airlineIcao r))"

definition hasAnyParsedRemarks :: "CFlightPlanRemarks \<Rightarrow> bool" where
  "hasAnyParsedRemarks r \<longleftrightarrow>
     fr_isParsed r \<and> (hasParsedAirlineRemarks r \<or> isValidCode (fr_selcalCode r) \<or> fr_voiceCapabilities r \<noteq> UnknownVoice)"

subsection \<open>Plans\<close>

datatype FlightRulesFull = VFR | IFR | SVFR | DVFR | UnknownRules

fun flightRulesToString :: "FlightRulesFull \<Rightarrow> string" where
  "flightRulesToString VFR = ''VFR''" | "flightRulesToString IFR = ''IFR''" | "flightRulesToString SVFR = ''SVFR''"
| "flightRulesToString DVFR = ''DVFR''" | "flightRulesToString UnknownRules = ''???''"

definition stringToFlightRules :: "string \<Rightarrow> FlightRulesFull" where
  "stringToFlightRules flightRules =
     (let fr = trimmed (toUpper flightRules)
      in if length flightRules < 3 then UnknownRules
         else if startsWith fr ''DVFR'' then DVFR
         else if startsWith fr ''SVFR'' then SVFR
         else if startsWith fr ''VFR'' then VFR
         else if startsWith fr ''IFR'' then IFR
         else UnknownRules)"

definition isVFRRules :: "FlightRulesFull \<Rightarrow> bool" where
  "isVFRRules rule \<longleftrightarrow> rule = VFR \<or> rule = DVFR \<or> rule = SVFR"

definition isIFRRules :: "FlightRulesFull \<Rightarrow> bool" where
  "isIFRRules rule \<longleftrightarrow> rule = IFR"

definition MaxRemarksLength :: nat where "MaxRemarksLength = 512"
definition MaxRouteLength :: nat where "MaxRouteLength = 512"

record CFlightPlanFull =
  fp_timestamp :: int
  fp_callsign :: CCallsign
  fp_aircraftInfo :: CFlightPlanAircraftInfo
  fp_originAirportIcao :: string
  fp_destinationAirportIcao :: string
  fp_alternateAirportIcao :: string
  fp_takeoffTimePlanned :: int
  fp_takeoffTimeActual :: int
  fp_enrouteTime :: "rat option"
  fp_fuelTime :: "rat option"
  fp_cruiseAltitude :: "rat option"
  fp_cruiseTrueAirspeed :: "rat option"
  fp_flightRules :: FlightRulesFull
  fp_route :: string
  fp_remarks :: CFlightPlanRemarks

definition CFlightPlan_default :: CFlightPlanFull where
  "CFlightPlan_default = \<lparr>fp_timestamp = -1, fp_callsign = emptyCallsign,
     fp_aircraftInfo = CFlightPlanAircraftInfo_default, fp_originAirportIcao = [], fp_destinationAirportIcao = [],
     fp_alternateAirportIcao = [], fp_takeoffTimePlanned = -1, fp_takeoffTimeActual = -1, fp_enrouteTime = Some 0,
     fp_fuelTime = Some 0, fp_cruiseAltitude = Some 0, fp_cruiseTrueAirspeed = Some 0, fp_flightRules = VFR,
     fp_route = [], fp_remarks = CFlightPlanRemarks_default\<rparr>"

definition mkFlightPlanFull ::
  "CCallsign \<Rightarrow> CFlightPlanAircraftInfo \<Rightarrow> string \<Rightarrow> string \<Rightarrow> string \<Rightarrow> int \<Rightarrow> int \<Rightarrow> rat option \<Rightarrow> rat option
   \<Rightarrow> rat option \<Rightarrow> rat option \<Rightarrow> FlightRulesFull \<Rightarrow> string \<Rightarrow> string \<Rightarrow> CFlightPlanFull" where
  "mkFlightPlanFull callsign aircraftInfo origin destination alternate takeoffPlanned takeoffActual enrouteTime fuelTime
     cruiseAltitude cruiseTrueAirspeed flightRules route remarks =
     \<lparr>fp_timestamp = -1, fp_callsign = callsign\<lparr>cs_typeHint := Aircraft\<rparr>, fp_aircraftInfo = aircraftInfo,
      fp_originAirportIcao = origin, fp_destinationAirportIcao = destination, fp_alternateAirportIcao = alternate,
      fp_takeoffTimePlanned = takeoffPlanned, fp_takeoffTimeActual = takeoffActual, fp_enrouteTime = enrouteTime,
      fp_fuelTime = fuelTime, fp_cruiseAltitude = cruiseAltitude, fp_cruiseTrueAirspeed = cruiseTrueAirspeed,
      fp_flightRules = flightRules, fp_route = toUpper (left (trimmed route) MaxRouteLength),
      fp_remarks = mkRemarks (toUpper (left (trimmed remarks) MaxRemarksLength)) True\<rparr>"

definition plan_setCallsign :: "CCallsign \<Rightarrow> CFlightPlanFull \<Rightarrow> CFlightPlanFull" where
  "plan_setCallsign callsign p = p\<lparr>fp_callsign := callsign\<lparr>cs_typeHint := Aircraft\<rparr>\<rparr>"

definition setFlightRule :: "string \<Rightarrow> CFlightPlanFull \<Rightarrow> CFlightPlanFull" where
  "setFlightRule flightRule p = p\<lparr>fp_flightRules := stringToFlightRules flightRule\<rparr>"

definition setRoute :: "string \<Rightarrow> CFlightPlanFull \<Rightarrow> CFlightPlanFull" where
  "setRoute route p =
     p\<lparr>fp_route := toUpper (left (asciiOnlyString (replaceChar CHR '':'' CHR '' '' route)) MaxRouteLength)\<rparr>"

definition setRemarks :: "string \<Rightarrow> CFlightPlanFull \<Rightarrow> CFlightPlanFull" where
  "setRemarks remarks p = p\<lparr>fp_remarks := mkRemarks remarks True\<rparr>"

definition plan_setVoiceCapabilities :: "string \<Rightarrow> CFlightPlanFull \<Rightarrow> CFlightPlanFull" where
  "plan_setVoiceCapabilities capabilities p =
     p\<lparr>fp_remarks := remarks_setVoiceCapabilities (voiceOfText capabilities) (fp_remarks p)\<rparr>"

definition setWhenLastSentOrLoaded :: "int \<Rightarrow> CFlightPlanFull \<Rightarrow> CFlightPlanFull" where
  "setWhenLastSentOrLoaded t p = p\<lparr>fp_timestamp := t\<rparr>"

definition wasSentOrLoaded :: "CFlightPlanFull \<Rightarrow> bool" where
  "wasSentOrLoaded p \<longleftrightarrow> 0 \<le> fp_timestamp p"

definition timeDiffSentOrLoadedMs :: "int \<Rightarrow> CFlightPlanFull \<Rightarrow> int" where
  "timeDiffSentOrLoadedMs currentTime p =
     (if fp_timestamp p < 0 then currentTime else currentTime - fp_timestamp p)"

end
