(* ===== verification/Network_User.thy ===== *)
theory Network_User
  imports Flight_Plan
begin

text \<open>
  Users, \<open>CUser\<close> (\<open>src/misc/network/user.cpp\<close>): the real name with the home base that is split
  off, its normal form, the numeric id, and the exchange of missing parts. The decryption of an
  obfuscated text (\<open>src/misc/obfuscation.cpp\<close>) is the parameter \<open>decrypt\<close>, as the cipher is a
  library.
\<close>

record CUser =
  us_id :: string
  us_realname :: string
  us_email :: string
  us_password :: string
  us_callsign :: CCallsign
  us_homebase :: string

definition CUser_default :: CUser where
  "CUser_default = \<lparr>us_id = [], us_realname = [], us_email = [], us_password = [], us_callsign = emptyCallsign,
     us_homebase = []\<rparr>"

subsection \<open>Obfuscated texts\<close>

definition obfuscationPrefix :: string where "obfuscationPrefix = ''OBF:''"

definition decodeObfuscated :: "(string \<Rightarrow> string) \<Rightarrow> string \<Rightarrow> string" where
  "decodeObfuscated decrypt inString =
     (if \<not> startsWith inString obfuscationPrefix then trimmed inString
      else if length inString = length obfuscationPrefix then []
      else trimmed (decrypt (mid inString (length obfuscationPrefix))))"

definition encodeObfuscated :: "(string \<Rightarrow> string) \<Rightarrow> string \<Rightarrow> string" where
  "encodeObfuscated encrypt inString = obfuscationPrefix @ encrypt (trimmed inString)"

subsection \<open>Real names\<close>

text \<open>
  The loop over the characters of a name: whether it is in mixed case. The counters are
  checked before a character is counted.
\<close>

fun mixedCase :: "nat \<Rightarrow> nat \<Rightarrow> string \<Rightarrow> bool" where
  "mixedCase uc lc [] = False"
| "mixedCase uc lc (c # cs) =
     (if 1 < uc \<and> 2 < lc \<and> uc < lc then True
      else if isLowerC c then mixedCase uc (lc + 1) cs
      else if isUpperC c then mixedCase (uc + 1) lc cs
      else mixedCase uc lc cs)"

fun titleCase :: "bool \<Rightarrow> string \<Rightarrow> string" where
  "titleCase upperNextChar [] = []"
| "titleCase upperNextChar (c # cs) =
     (if isSpace c \<or> c = CHR ''-'' then c # titleCase True cs
      else if upperNextChar then toUpperC c # titleCase False cs
      else c # titleCase upperNextChar cs)"

definition beautifyRealName :: "string \<Rightarrow> string" where
  "beautifyRealName realName =
     (let newRealName = trimmed (simplified realName)
      in if newRealName = [] then newRealName
         else if is09OnlyString newRealName then newRealName
         else if mixedCase 0 0 realName then newRealName
         else titleCase True (toLower newRealName))"

text \<open>
  The match of \<open>(-\s*|\s)([A-Z]{4})$\<close>: the part before it and the four letters. A dash before
  the white space starts the match; otherwise it is the last white space character.
\<close>

definition homeBaseSuffix :: "string \<Rightarrow> (string \<times> string) option" where
  "homeBaseSuffix rn =
     (let icao = right rn 4; before = take (length rn - 4) rn;
          rest = dropWhile isSpace (rev before)
      in if length icao \<noteq> 4 \<or> \<not> list_all isUpperC icao then None
         else if rest \<noteq> [] \<and> hd rest = CHR ''-'' then Some (rev (tl rest), icao)
         else if before \<noteq> [] \<and> isSpace (last before) then Some (butlast before, icao)
         else None)"

definition setRealName :: "(string \<Rightarrow> string) \<Rightarrow> string \<Rightarrow> CUser \<Rightarrow> CUser" where
  "setRealName decrypt realname u =
     (let rn = simplifyAccents (simplified (decodeObfuscated decrypt realname))
      in if rn = [] then u\<lparr>us_realname := []\<rparr>
         else if us_homebase u \<noteq> [] then u\<lparr>us_realname := beautifyRealName rn\<rparr>
         else case homeBaseSuffix rn of
                None \<Rightarrow> u\<lparr>us_realname := beautifyRealName rn\<rparr>
              | Some (name, icao) \<Rightarrow>
                  u\<lparr>us_homebase := unifyAirportCode icao, us_realname := beautifyRealName (trimmed name)\<rparr>)"

subsection \<open>Callsign and home base\<close>

definition deriveHomeBaseFromCallsign :: "CUser \<Rightarrow> CUser" where
  "deriveHomeBaseFromCallsign u =
     (if cs_isEmpty (us_callsign u) then u
      else if us_homebase u = [] \<and> isAtcCallsign (us_callsign u) \<and> \<not> isObserverCallsign (us_callsign u)
      then u\<lparr>us_homebase := unifyAirportCode (getIcaoCode (us_callsign u))\<rparr>
      else u)"

definition userOfCallsign :: "CCallsign \<Rightarrow> CUser" where
  "userOfCallsign callsign = deriveHomeBaseFromCallsign (CUser_default\<lparr>us_callsign := callsign\<rparr>)"

definition mkUser :: "(string \<Rightarrow> string) \<Rightarrow> string \<Rightarrow> string \<Rightarrow> CCallsign \<Rightarrow> CUser" where
  "mkUser decrypt ident realname callsign =
     (let u = deriveHomeBaseFromCallsign (CUser_default\<lparr>us_id := decodeObfuscated decrypt ident,
                us_realname := decodeObfuscated decrypt realname, us_callsign := callsign\<rparr>)
      in setRealName decrypt (us_realname u) u)"

definition mkUserWithPassword ::
  "(string \<Rightarrow> string) \<Rightarrow> string \<Rightarrow> string \<Rightarrow> string \<Rightarrow> string \<Rightarrow> CCallsign \<Rightarrow> CUser" where
  "mkUserWithPassword decrypt ident realname email password callsign =
     (let u = deriveHomeBaseFromCallsign (CUser_default\<lparr>us_id := decodeObfuscated decrypt ident,
                us_realname := decodeObfuscated decrypt realname, us_email := decodeObfuscated decrypt email,
                us_password := decodeObfuscated decrypt password, us_callsign := callsign\<rparr>)
      in setRealName decrypt (us_realname u) u)"

definition user_setCallsign :: "CCallsign \<Rightarrow> CUser \<Rightarrow> bool \<times> CUser" where
  "user_setCallsign callsign u =
     (if cs_equal (us_callsign u) callsign then (False, u)
      else (True, deriveHomeBaseFromCallsign (u\<lparr>us_callsign := callsign\<rparr>)))"

definition user_hasCallsign :: "CUser \<Rightarrow> bool" where "user_hasCallsign u \<longleftrightarrow> \<not> cs_isEmpty (us_callsign u)"
definition hasRealName :: "CUser \<Rightarrow> bool" where "hasRealName u \<longleftrightarrow> us_realname u \<noteq> []"
definition hasId :: "CUser \<Rightarrow> bool" where "hasId u \<longleftrightarrow> us_id u \<noteq> []"
definition user_isNull :: "CUser \<Rightarrow> bool" where "user_isNull u \<longleftrightarrow> us_realname u = [] \<and> us_id u = []"
definition hasCredentials :: "CUser \<Rightarrow> bool" where "hasCredentials u \<longleftrightarrow> \<not> user_isNull u \<and> us_password u \<noteq> []"

definition hasValidHomeBase :: "CUser \<Rightarrow> bool" where
  "hasValidHomeBase u \<longleftrightarrow> isValidIcaoDesignator (us_homebase u) False"

definition hasValidOrEmptyHomeBase :: "CUser \<Rightarrow> bool" where
  "hasValidOrEmptyHomeBase u \<longleftrightarrow> us_homebase u = [] \<or> hasValidHomeBase u"

definition getRealNameAndHomeBase :: "string \<Rightarrow> CUser \<Rightarrow> string" where
  "getRealNameAndHomeBase separator u =
     (if us_homebase u = [] then us_realname u
      else if \<not> hasRealName u then us_homebase u
      else us_realname u @ separator @ us_homebase u)"

definition getRealNameAndId :: "CUser \<Rightarrow> string" where
  "getRealNameAndId u =
     (if hasRealName u
      then if hasId u then us_realname u @ '' ('' @ us_id u @ '')'' else us_realname u
      else us_id u)"

definition user_toQString :: "CUser \<Rightarrow> string" where
  "user_toQString u =
     (if us_realname u = [] then ''<no realname>''
      else us_realname u @ (if hasId u then '' ('' @ us_id u @ '')'' else [])
           @ (if user_hasCallsign u then '' '' @ cs_callsignAsSet (us_callsign u) else []))"

definition validateUser :: "CUser \<Rightarrow> string list" where
  "validateUser u =
     (if \<not> hasId u then [''Invalid id''] else []) @ (if \<not> hasRealName u then [''Invalid real name''] else [])
     @ (if \<not> hasCredentials u then [''Invalid credentials''] else [])"

subsection \<open>Ids\<close>

definition hasNumericId :: "CUser \<Rightarrow> bool" where "hasNumericId u \<longleftrightarrow> us_id u \<noteq> [] \<and> is09OnlyString (us_id u)"

definition get7DigitId :: "CUser \<Rightarrow> string" where
  "get7DigitId u =
     (if \<not> hasNumericId u then us_id u
      else if 6 < length (us_id u) then us_id u
      else left ''0000000'' (7 - length (us_id u)) @ us_id u)"

definition getIntegerId :: "CUser \<Rightarrow> int" where
  "getIntegerId u = (if us_id u = [] then -1 else if is09OnlyString (us_id u) then toInt (us_id u) else -1)"

definition isValidVatsimId :: "string \<Rightarrow> bool" where
  "isValidVatsimId ident \<longleftrightarrow>
     ident \<noteq> [] \<and> is09OnlyString ident \<and> 100000 \<le> toInt ident \<and> toInt ident \<le> 9999999"

subsection \<open>Missing parts\<close>

definition user_updateMissingParts :: "(string \<Rightarrow> string) \<Rightarrow> CUser \<Rightarrow> CUser \<Rightarrow> CUser" where
  "user_updateMissingParts decrypt otherUser u =
     (let u1 = (if \<not> hasRealName u then setRealName decrypt (us_realname otherUser) u else u);
          u2 = (if \<not> hasId u1 then u1\<lparr>us_id := decodeObfuscated decrypt (us_id otherUser)\<rparr> else u1);
          u3 = (if us_email u2 = [] then u2\<lparr>us_email := decodeObfuscated decrypt (us_email otherUser)\<rparr> else u2)
      in if \<not> user_hasCallsign u3 then snd (user_setCallsign (us_callsign otherUser) u3) else u3)"

definition synchronizeData :: "(string \<Rightarrow> string) \<Rightarrow> CUser \<Rightarrow> CUser \<Rightarrow> CUser \<times> CUser" where
  "synchronizeData decrypt u otherUser =
     (let u1 = user_updateMissingParts decrypt otherUser u
      in (u1, user_updateMissingParts decrypt u1 otherUser))"

subsection \<open>The normal form of a name\<close>

lemma length_titleCase [simp]: "length (titleCase b s) = length s"
  by (induction b s rule: titleCase.induct) auto

text \<open>
  A name is in mixed case when the counters pass the limits before its last character: the
  last character itself is never counted.
\<close>

definition mixedCounts :: "nat \<Rightarrow> nat \<Rightarrow> string \<Rightarrow> bool" where
  "mixedCounts uc lc s \<longleftrightarrow>
     (let u = uc + length (filter isUpperC s); l = lc + length (filter isLowerC s) in 1 < u \<and> 2 < l \<and> u < l)"

lemma mixedCase_iff: "mixedCase uc lc s \<longleftrightarrow> (\<exists>k < length s. mixedCounts uc lc (take k s))"
proof (induction uc lc s rule: mixedCase.induct)
  case (2 uc lc c cs)
  have now: "mixedCounts uc lc [] \<longleftrightarrow> 1 < uc \<and> 2 < lc \<and> uc < lc" by (simp add: mixedCounts_def)
  have later: "mixedCounts uc lc (c # t) \<longleftrightarrow>
      (if isLowerC c then mixedCounts uc (lc + 1) t
       else if isUpperC c then mixedCounts (uc + 1) lc t else mixedCounts uc lc t)" for t
    using isUpperC_not_isLowerC [of c] by (auto simp: mixedCounts_def)
  have split: "(\<exists>k < length (c # cs). mixedCounts uc lc (take k (c # cs))) \<longleftrightarrow>
      mixedCounts uc lc [] \<or> (\<exists>k < length cs. mixedCounts uc lc (c # take k cs))"
    by (metis length_Cons less_Suc_eq_0_disj take_0 take_Suc_Cons zero_less_Suc)
  show ?case
    unfolding split now later using 2 by auto
qed simp

text \<open>So a name whose last letter decides loses its inner capital.\<close>

lemma inner_capital_lost: "beautifyRealName ''Al McArt'' = ''Al Mcart''" "beautifyRealName ''Al McArth'' = ''Al McArth''"
  by code_simp+

lemma home_base_split:
  assumes "name \<noteq> []" and "\<not> isSpace (last name)" and "last name \<noteq> CHR ''-''"
    and "length icao = 4" and "list_all isUpperC icao"
  shows "homeBaseSuffix (name @ '' '' @ icao) = Some (name, icao)"
    and "homeBaseSuffix (name @ ''-'' @ icao) = Some (name, icao)"
proof -
  have len: "length (name @ [x] @ icao) - 4 = Suc (length name)" for x using assms(4) by simp
  have r: "right (name @ [x] @ icao) 4 = icao" "take (length (name @ [x] @ icao) - 4) (name @ [x] @ icao) = name @ [x]" for x
    unfolding right_def len by simp_all
  have "hd (rev name) \<noteq> CHR ''-''" "\<not> isSpace (hd (rev name))" using assms(1-3) by (simp_all add: hd_rev)
  then have "dropWhile isSpace (rev name) = rev name" by (intro dropWhile_id) simp
  then show "homeBaseSuffix (name @ '' '' @ icao) = Some (name, icao)"
    using r [of "CHR '' ''"] assms \<open>hd (rev name) \<noteq> CHR ''-''\<close>
    by (simp add: homeBaseSuffix_def Let_def isSpace_def)
  show "homeBaseSuffix (name @ ''-'' @ icao) = Some (name, icao)"
    using r [of "CHR ''-''"] assms by (simp add: homeBaseSuffix_def Let_def isSpace_def)
qed

lemma get7DigitId_length: "hasNumericId u \<Longrightarrow> 7 \<le> length (get7DigitId u)"
  by (auto simp: get7DigitId_def left_def hasNumericId_def)

end
