(* ===== verification/Remote_Aircraft.thy ===== *)
theory Remote_Aircraft
  imports Situation_Change Network_User Aviation_Com Aviation_Transponder
begin

text \<open>
  The aircraft in range with their histories, \<open>CRemoteAircraftProvider\<close>
  (\<open>src/misc/simulation/remoteaircraftprovider.cpp\<close>): the situations and the parts of each
  callsign, the changes, the elevations on the ground, the flags of the aircraft. An operation
  holds the locks of what it uses and is one step; the signals are recorded in the order they
  are sent. The clock, the square root, the sort and the geometry are parameters.
\<close>

record 'p CSimulatedAircraftFull =
  ra_callsign :: string
  ra_callsignObject :: CCallsign
  ra_pilot :: CUser
  ra_situation :: "'p CAircraftSituation"
  ra_com1 :: CComSystem
  ra_com2 :: CComSystem
  ra_transponder :: CTransponder
  ra_parts :: CAircraftParts
  ra_model :: CAircraftModel
  ra_networkModel :: CAircraftModel
  ra_enabled :: bool
  ra_rendered :: bool
  ra_fastPositionUpdates :: bool
  ra_partsSynchronized :: bool
  ra_supportsGndFlag :: bool
  ra_relativeDistance :: PQ
  ra_relativeBearing :: PQ

datatype 'p providerSignal =
    addedAircraft "'p CSimulatedAircraftFull"
  | changedAircraftInRange
  | addedAircraftSituation "'p CAircraftSituation"
  | addedAircraftParts string CAircraftParts
  | removedAircraft string

record 'p CRemoteAircraftProvider =
  m_aircraftInRange :: "string \<rightharpoonup> 'p CSimulatedAircraftFull"
  m_situationsByCallsign :: "string \<rightharpoonup> 'p CAircraftSituation list"
  m_latestSituationByCallsign :: "string \<rightharpoonup> 'p CAircraftSituation"
  m_latestOnGroundProviderElevation :: "string \<rightharpoonup> 'p CAircraftSituation"
  m_partsByCallsign :: "string \<rightharpoonup> CAircraftParts list"
  m_aircraftWithParts :: "string set"
  m_changesByCallsign :: "string \<rightharpoonup> CAircraftSituationChange list"
  m_situationsAdded :: int
  m_partsAdded :: int
  m_situationsLastModified :: "string \<rightharpoonup> int"
  m_partsLastModified :: "string \<rightharpoonup> int"
  m_testOffset :: "string \<rightharpoonup> PQ"
  m_dbCGPerCallsign :: "string \<rightharpoonup> PQ"
  m_dbCGPerModelString :: "string \<rightharpoonup> PQ"
  m_reverseLookupMessages :: "string \<rightharpoonup> string list"
  m_aircraftPartsMessages :: "string \<rightharpoonup> string list"
  m_enableReverseLookupMsgs :: bool
  rp_signals :: "'p providerSignal list"

text \<open>What the operations use of the surroundings.\<close>

record 'p providerEnv =
  pe_geo :: "'p Geo"
  pe_sqrt :: "rat \<Rightarrow> rat"
  pe_sort :: "('p CAircraftSituation \<Rightarrow> int) \<Rightarrow> 'p CAircraftSituation list \<Rightarrow> 'p CAircraftSituation list"
  pe_sortParts :: "(CAircraftParts \<Rightarrow> int) \<Rightarrow> CAircraftParts list \<Rightarrow> CAircraftParts list"
  pe_sortChanges :: "(CAircraftSituationChange \<Rightarrow> int) \<Rightarrow> CAircraftSituationChange list \<Rightarrow> CAircraftSituationChange list"

definition MaxSituationsPerCallsign :: nat where "MaxSituationsPerCallsign = 50"
definition MaxPartsPerCallsign :: nat where "MaxPartsPerCallsign = 50"
definition MaxPartsAgePerCallsignSecs :: int where "MaxPartsAgePerCallsignSecs = 60"

definition sendSignal :: "'p providerSignal \<Rightarrow> 'p CRemoteAircraftProvider \<Rightarrow> 'p CRemoteAircraftProvider" where
  "sendSignal sig p = p\<lparr>rp_signals := rp_signals p @ [sig]\<rparr>"

subsection \<open>Reading\<close>

definition valuesOr :: "'a list option \<Rightarrow> 'a list" where
  "valuesOr v = (case v of None \<Rightarrow> [] | Some xs \<Rightarrow> xs)"

definition isAircraftInRange :: "string \<Rightarrow> 'p CRemoteAircraftProvider \<Rightarrow> bool" where
  "isAircraftInRange callsign p \<longleftrightarrow> callsign \<noteq> [] \<and> m_aircraftInRange p callsign \<noteq> None"

definition remoteAircraftSituations :: "string \<Rightarrow> 'p CRemoteAircraftProvider \<Rightarrow> 'p CAircraftSituation list" where
  "remoteAircraftSituations callsign p = valuesOr (m_situationsByCallsign p callsign)"

definition remoteAircraftSituation :: "string \<Rightarrow> int \<Rightarrow> 'p CRemoteAircraftProvider \<Rightarrow> 'p CAircraftSituation option" where
  "remoteAircraftSituation callsign index p =
     (let situations = remoteAircraftSituations callsign p
      in if index < 0 \<or> int (length situations) \<le> index then None else Some (situations ! nat index))"

definition remoteAircraftSituationsCount :: "string \<Rightarrow> 'p CRemoteAircraftProvider \<Rightarrow> int" where
  "remoteAircraftSituationsCount callsign p =
     (case m_situationsByCallsign p callsign of None \<Rightarrow> -1 | Some xs \<Rightarrow> int (length xs))"

text \<open>The result is about the offsets, not about differences of the time stamps.\<close>

definition remoteAircraftSituationsTimestampDifferenceMinMaxMean ::
  "string \<Rightarrow> 'p CRemoteAircraftProvider \<Rightarrow> MillisecondsMinMaxMean" where
  "remoteAircraftSituationsTimestampDifferenceMinMaxMean callsign p =
     getOffsetMinMaxMean (remoteAircraftSituations callsign p)"

definition remoteAircraftParts :: "string \<Rightarrow> 'p CRemoteAircraftProvider \<Rightarrow> CAircraftParts list" where
  "remoteAircraftParts callsign p = valuesOr (m_partsByCallsign p callsign)"

definition remoteAircraftPartsCount :: "string \<Rightarrow> 'p CRemoteAircraftProvider \<Rightarrow> int" where
  "remoteAircraftPartsCount callsign p =
     (case m_partsByCallsign p callsign of None \<Rightarrow> -1 | Some xs \<Rightarrow> int (length xs))"

definition isRemoteAircraftSupportingParts :: "string \<Rightarrow> 'p CRemoteAircraftProvider \<Rightarrow> bool" where
  "isRemoteAircraftSupportingParts callsign p \<longleftrightarrow> callsign \<in> m_aircraftWithParts p"

definition remoteAircraftSituationChanges :: "string \<Rightarrow> 'p CRemoteAircraftProvider \<Rightarrow> CAircraftSituationChange list" where
  "remoteAircraftSituationChanges callsign p = valuesOr (m_changesByCallsign p callsign)"

definition getLatestAircraftParts :: "string \<Rightarrow> 'p CRemoteAircraftProvider \<Rightarrow> CAircraftParts option" where
  "getLatestAircraftParts callsign p = latestObject (remoteAircraftParts callsign p)"

definition getCGFromDB :: "string \<Rightarrow> 'p CRemoteAircraftProvider \<Rightarrow> PQ" where
  "getCGFromDB callsign p = (case m_dbCGPerCallsign p callsign of None \<Rightarrow> None | Some cg \<Rightarrow> cg)"

text \<open>The overload for a model string looks in the table of the callsigns.\<close>

definition getCGFromDBForModelString :: "string \<Rightarrow> 'p CRemoteAircraftProvider \<Rightarrow> PQ" where
  "getCGFromDBForModelString modelString p =
     (case m_dbCGPerCallsign p modelString of None \<Rightarrow> None | Some cg \<Rightarrow> cg)"

definition rememberCGFromDB :: "PQ \<Rightarrow> string \<Rightarrow> 'p CRemoteAircraftProvider \<Rightarrow> 'p CRemoteAircraftProvider" where
  "rememberCGFromDB cgFromDB callsign p = p\<lparr>m_dbCGPerCallsign := (m_dbCGPerCallsign p)(callsign \<mapsto> cgFromDB)\<rparr>"

definition rememberCGFromDBForModelString :: "PQ \<Rightarrow> string \<Rightarrow> 'p CRemoteAircraftProvider \<Rightarrow> 'p CRemoteAircraftProvider" where
  "rememberCGFromDBForModelString cgFromDB modelString p =
     p\<lparr>m_dbCGPerModelString := (m_dbCGPerModelString p)(modelString \<mapsto> cgFromDB)\<rparr>"

subsection \<open>Aircraft in range\<close>

definition addNewAircraftInRange ::
  "'p CSimulatedAircraftFull \<Rightarrow> 'p CRemoteAircraftProvider \<Rightarrow> bool \<times> 'p CRemoteAircraftProvider" where
  "addNewAircraftInRange aircraft p =
     (if isAircraftInRange (ra_callsign aircraft) p then (False, p)
      else (True, sendSignal changedAircraftInRange (sendSignal (addedAircraft aircraft)
             (p\<lparr>m_aircraftInRange := (m_aircraftInRange p)(ra_callsign aircraft \<mapsto> aircraft)\<rparr>))))"

text \<open>An operation on one aircraft, with the result for a callsign that is not in range.\<close>

definition updateAircraft ::
  "string \<Rightarrow> ('p CSimulatedAircraftFull \<Rightarrow> bool \<times> 'p CSimulatedAircraftFull) \<Rightarrow> 'p CRemoteAircraftProvider
   \<Rightarrow> bool \<times> 'p CRemoteAircraftProvider" where
  "updateAircraft callsign f p = (case m_aircraftInRange p callsign of
       None \<Rightarrow> (False, p)
     | Some a \<Rightarrow> (case f a of (ok, a1) \<Rightarrow> (ok, p\<lparr>m_aircraftInRange := (m_aircraftInRange p)(callsign \<mapsto> a1)\<rparr>)))"

text \<open>The setter of the velocity marks the situation, also for a velocity that was never set.\<close>

definition setSituation :: "'p CAircraftSituation \<Rightarrow> 'p CSimulatedAircraftFull \<Rightarrow> 'p CSimulatedAircraftFull" where
  "setSituation situation a =
     a\<lparr>ra_situation := situation\<lparr>s_hasVelocity := True, s_callsign := ra_callsign a\<rparr>,
       ra_supportsGndFlag := hasInboundGroundDetails situation\<rparr>"

definition updateAircraftInRangeDistanceBearing ::
  "string \<Rightarrow> 'p CAircraftSituation \<Rightarrow> PQ \<Rightarrow> PQ \<Rightarrow> 'p CRemoteAircraftProvider \<Rightarrow> bool \<times> 'p CRemoteAircraftProvider" where
  "updateAircraftInRangeDistanceBearing callsign situation distance bearing p =
     updateAircraft callsign (\<lambda>a.
       let a1 = setSituation situation a;
           a2 = (if bearing \<noteq> None then a1\<lparr>ra_relativeBearing := bearing\<rparr> else a1)
       in (True, if distance \<noteq> None then a2\<lparr>ra_relativeDistance := distance\<rparr> else a2)) p"

definition setEnabled :: "bool \<Rightarrow> 'p CSimulatedAircraftFull \<Rightarrow> bool \<times> 'p CSimulatedAircraftFull" where
  "setEnabled enabled a = (if ra_enabled a = enabled then (False, a) else (True, a\<lparr>ra_enabled := enabled\<rparr>))"

definition setRendered :: "bool \<Rightarrow> 'p CSimulatedAircraftFull \<Rightarrow> bool \<times> 'p CSimulatedAircraftFull" where
  "setRendered rendered a = (if ra_rendered a = rendered then (False, a) else (True, a\<lparr>ra_rendered := rendered\<rparr>))"

definition setFastPositionUpdates :: "bool \<Rightarrow> 'p CSimulatedAircraftFull \<Rightarrow> bool \<times> 'p CSimulatedAircraftFull" where
  "setFastPositionUpdates fast a =
     (if ra_fastPositionUpdates a = fast then (False, a) else (True, a\<lparr>ra_fastPositionUpdates := fast\<rparr>))"

definition updateAircraftEnabled :: "string \<Rightarrow> bool \<Rightarrow> 'p CRemoteAircraftProvider \<Rightarrow> bool \<times> 'p CRemoteAircraftProvider" where
  "updateAircraftEnabled callsign enabled p = updateAircraft callsign (setEnabled enabled) p"

definition updateAircraftRendered :: "string \<Rightarrow> bool \<Rightarrow> 'p CRemoteAircraftProvider \<Rightarrow> bool \<times> 'p CRemoteAircraftProvider" where
  "updateAircraftRendered callsign rendered p = updateAircraft callsign (setRendered rendered) p"

definition updateFastPositionEnabled :: "string \<Rightarrow> bool \<Rightarrow> 'p CRemoteAircraftProvider \<Rightarrow> bool \<times> 'p CRemoteAircraftProvider" where
  "updateFastPositionEnabled callsign fast p = updateAircraft callsign (setFastPositionUpdates fast) p"

text \<open>The loops over a set of callsigns, in the order of the set: how many were changed.\<close>

fun updateMultiple ::
  "('p CSimulatedAircraftFull \<Rightarrow> bool \<times> 'p CSimulatedAircraftFull) \<Rightarrow> string list \<Rightarrow> 'p CRemoteAircraftProvider
   \<Rightarrow> nat \<times> 'p CRemoteAircraftProvider" where
  "updateMultiple f [] p = (0, p)"
| "updateMultiple f (callsign # cs) p =
     (let (ok, p1) = updateAircraft callsign f p; (c, p2) = updateMultiple f cs p1
      in ((if ok then 1 else 0) + c, p2))"

definition updateMultipleAircraftEnabled ::
  "string list \<Rightarrow> bool \<Rightarrow> 'p CRemoteAircraftProvider \<Rightarrow> nat \<times> 'p CRemoteAircraftProvider" where
  "updateMultipleAircraftEnabled callsigns enabled p = updateMultiple (setEnabled enabled) callsigns p"

definition updateMultipleAircraftRendered ::
  "string list \<Rightarrow> bool \<Rightarrow> 'p CRemoteAircraftProvider \<Rightarrow> nat \<times> 'p CRemoteAircraftProvider" where
  "updateMultipleAircraftRendered callsigns rendered p = updateMultiple (setRendered rendered) callsigns p"

definition updateMarkAllAsNotRendered :: "'p CRemoteAircraftProvider \<Rightarrow> 'p CRemoteAircraftProvider" where
  "updateMarkAllAsNotRendered p =
     p\<lparr>m_aircraftInRange := (\<lambda>cs. map_option (\<lambda>a. snd (setRendered False a)) (m_aircraftInRange p cs))\<rparr>"

text \<open>Both models of an aircraft get the center of gravity; null is no value.\<close>

definition setCG :: "PQ \<Rightarrow> 'p CSimulatedAircraftFull \<Rightarrow> 'p CSimulatedAircraftFull" where
  "setCG cg a =
     (if cg = None then a
      else a\<lparr>ra_model := (if equals (am_cg (ra_model a)) cg then ra_model a else (ra_model a)\<lparr>am_cg := cg\<rparr>),
             ra_networkModel := (if equals (am_cg (ra_networkModel a)) cg then ra_networkModel a
                                 else (ra_networkModel a)\<lparr>am_cg := cg\<rparr>)\<rparr>)"

definition aircraft_setModelString :: "string \<Rightarrow> 'p CSimulatedAircraftFull \<Rightarrow> 'p CSimulatedAircraftFull" where
  "aircraft_setModelString modelString a =
     a\<lparr>ra_model := (ra_model a)\<lparr>am_modelString := toUpper (trimmed modelString)\<rparr>\<rparr>"

definition updateCG :: "string \<Rightarrow> PQ \<Rightarrow> 'p CRemoteAircraftProvider \<Rightarrow> bool \<times> 'p CRemoteAircraftProvider" where
  "updateCG callsign cg p = updateAircraft callsign (\<lambda>a. (True, setCG cg a)) p"

definition updateCGAndModelString ::
  "string \<Rightarrow> PQ \<Rightarrow> string \<Rightarrow> 'p CRemoteAircraftProvider \<Rightarrow> bool \<times> 'p CRemoteAircraftProvider" where
  "updateCGAndModelString callsign cg modelString p =
     updateAircraft callsign (\<lambda>a.
       let a1 = (if cg \<noteq> None then setCG cg a else a)
       in (True, if modelString \<noteq> [] then aircraft_setModelString modelString a1 else a1)) p"

text \<open>The callsigns that were changed, and the provider.\<close>

definition hasModelString :: "string \<Rightarrow> 'p CSimulatedAircraftFull \<Rightarrow> bool" where
  "hasModelString modelString a \<longleftrightarrow> caseInsensitiveStringCompare (am_modelString (ra_model a)) modelString"

definition updateCGForModel ::
  "string \<Rightarrow> PQ \<Rightarrow> 'p CRemoteAircraftProvider \<Rightarrow> string set \<times> 'p CRemoteAircraftProvider" where
  "updateCGForModel modelString cg p =
     (if modelString = [] then ({}, p)
      else ({ra_callsign a | cs a. m_aircraftInRange p cs = Some a \<and> hasModelString modelString a},
            p\<lparr>m_aircraftInRange := (\<lambda>cs. map_option
                 (\<lambda>a. if hasModelString modelString a then setCG cg a else a) (m_aircraftInRange p cs))\<rparr>))"

definition getAircraftInRangeModelForCallsign :: "string \<Rightarrow> 'p CRemoteAircraftProvider \<Rightarrow> CAircraftModel" where
  "getAircraftInRangeModelForCallsign callsign p =
     (case m_aircraftInRange p callsign of None \<Rightarrow> defaultModel | Some a \<Rightarrow> ra_model a)"

definition isVtolAircraft :: "string \<Rightarrow> 'p CRemoteAircraftProvider \<Rightarrow> bool" where
  "isVtolAircraft callsign p \<longleftrightarrow>
     callsign \<noteq> [] \<and> isVtol (am_aircraftIcao (getAircraftInRangeModelForCallsign callsign p))"

subsection \<open>Storing situations\<close>

definition testAltitudeOffsetCallsign :: string where "testAltitudeOffsetCallsign = ''ZZZZ''"

definition testAddAltitudeOffset :: "string \<Rightarrow> PQ \<Rightarrow> 'p CRemoteAircraftProvider \<Rightarrow> bool \<times> 'p CRemoteAircraftProvider" where
  "testAddAltitudeOffset callsign offset p =
     (if offset = None \<or> isZeroEpsilonConsidered offset
      then (False, p\<lparr>m_testOffset := (m_testOffset p)(callsign := None)\<rparr>)
      else (True, p\<lparr>m_testOffset := (m_testOffset p)(callsign \<mapsto> offset)\<rparr>))"

definition addTestAltitudeOffsetToSituation ::
  "'p CRemoteAircraftProvider \<Rightarrow> 'p CAircraftSituation \<Rightarrow> 'p CAircraftSituation" where
  "addTestAltitudeOffsetToSituation p situation =
     (let cs = s_callsign situation;
          global = (m_testOffset p testAltitudeOffsetCallsign \<noteq> None);
          os = (case m_testOffset p cs of Some o1 \<Rightarrow> o1
                | None \<Rightarrow> (case m_testOffset p testAltitudeOffsetCallsign of Some o2 \<Rightarrow> o2 | None \<Rightarrow> None))
      in if \<not> global \<and> \<not> (cs \<noteq> [] \<and> m_testOffset p cs \<noteq> None) then situation
         else if os = None \<or> isZeroEpsilonConsidered os then situation
         else addAltitudeOffset os situation)"

definition storeChange ::
  "'p providerEnv \<Rightarrow> CAircraftSituationChange \<Rightarrow> 'p CRemoteAircraftProvider \<Rightarrow> 'p CRemoteAircraftProvider" where
  "storeChange env change p =
     (let cs = ch_correspondingCallsign change
      in p\<lparr>m_changesByCallsign := (m_changesByCallsign p)(cs \<mapsto>
             push_frontKeepLatestAdjustedFirst (pe_sortChanges env) change True (int MaxSituationsPerCallsign)
               (remoteAircraftSituationChanges cs p))\<rparr>)"

text \<open>
  The new list of a callsign: filled at the first situation, \<^term>\<open>None\<close> when the situation
  is dropped, as the front has a velocity and it has none.
\<close>

definition addedSituation ::
  "'p providerEnv \<Rightarrow> 'p CAircraftSituation \<Rightarrow> 'p CAircraftSituation \<Rightarrow> 'p CAircraftSituation list
   \<Rightarrow> 'p CAircraftSituation list option" where
  "addedSituation env situation situationCorrected xs =
     (if xs = [] then Some (prefillLatestAdjustedFirst situationCorrected MaxSituationsPerCallsign (-1))
      else if \<not> s_hasVelocity situationCorrected \<and> s_hasVelocity (hd xs) then None
      else
        let xs1 = push_frontKeepLatestFirstAdjustOffset (pe_sort env) situationCorrected True
                    (int MaxSituationsPerCallsign) xs;
            xs2 = snd (transferElevationForward (pe_geo env) singlePointRadius xs1)
        in Some (if hasInboundGroundDetails situation
                 then map (setOnGroundDetails (gi_details (s_onGroundInfo situation))) xs2 else xs2))"

text \<open>
  The change for the guess is made of the list that is filled only after the guess: it is the
  change of an empty list.
\<close>

definition guessFront ::
  "'p providerEnv \<Rightarrow> CAircraftModel \<Rightarrow> 'p CAircraftSituation \<Rightarrow> 'p CAircraftSituation list \<Rightarrow> 'p CAircraftSituation list" where
  "guessFront env model situationCorrected xs =
     (let updatedSituations = [];
          simpleChange = mkSituationChange (pe_sort env) (pe_sqrt env) (updatedSituations :: 'p CAircraftSituation list)
                           (s_cg situationCorrected) (isVtol (am_aircraftIcao model)) True False
      in (case xs of [] \<Rightarrow> [] | front # rest \<Rightarrow> snd (guessOnGround model simpleChange front) # rest))"

definition storeAircraftSituation ::
  "'p providerEnv \<Rightarrow> bool \<Rightarrow> int \<Rightarrow> 'p CAircraftSituation \<Rightarrow> 'p CRemoteAircraftProvider
   \<Rightarrow> 'p CAircraftSituation \<times> 'p CRemoteAircraftProvider" where
  "storeAircraftSituation env allowTestAltitudeOffset currentTime situation p =
     (let cs = s_callsign situation
      in if cs = [] then (situation, p)
         else
           let situationCorrected =
                 (if allowTestAltitudeOffset then addTestAltitudeOffsetToSituation p situation else situation);
               model = getAircraftInRangeModelForCallsign cs p;
               p1 = (if s_cg situation \<noteq> None \<and> \<not> equals (am_cg model) (s_cg situation)
                     then snd (updateCG cs (s_cg situation) p) else p);
               p2 = p1\<lparr>m_situationsAdded := m_situationsAdded p1 + 1,
                       m_situationsLastModified := (m_situationsLastModified p1)(cs \<mapsto> currentTime)\<rparr>
           in case addedSituation env situation situationCorrected (remoteAircraftSituations cs p2) of
                None \<Rightarrow> (situationCorrected, p2)
              | Some xs \<Rightarrow>
                  let xs1 = (if hasInboundGroundDetails situation then xs
                             else guessFront env model situationCorrected xs);
                      p3 = p2\<lparr>m_latestSituationByCallsign := (m_latestSituationByCallsign p2)(cs \<mapsto> situationCorrected),
                              m_situationsByCallsign := (m_situationsByCallsign p2)(cs \<mapsto> xs1)\<rparr>;
                      change = mkSituationChange (pe_sort env) (pe_sqrt env) xs1 (s_cg situationCorrected)
                                 (isVtol (am_aircraftIcao model)) True True
                  in (situationCorrected, sendSignal (addedAircraftSituation situationCorrected) (storeChange env change p3)))"

subsection \<open>Storing parts\<close>

definition removeOutdatedParts :: "CAircraftParts list \<Rightarrow> CAircraftParts list" where
  "removeOutdatedParts partsList =
     (if partsList = [] then []
      else fst (removeBefore (latestTimestampMsecsSinceEpoch partsList - MaxPartsAgePerCallsignSecs * 1000) partsList))"

text \<open>The factor is the default of \<open>adjustGroundFlag\<close>.\<close>

definition storeAircraftParts ::
  "'p providerEnv \<Rightarrow> int \<Rightarrow> string \<Rightarrow> CAircraftParts \<Rightarrow> bool \<Rightarrow> 'p CRemoteAircraftProvider \<Rightarrow> 'p CRemoteAircraftProvider" where
  "storeAircraftParts env currentTime callsign parts removeOutdated p =
     (if callsign = [] then p
      else
        let partsList = push_frontKeepLatestFirstAdjustOffset (pe_sortParts env) parts True (int MaxPartsPerCallsign)
                          (remoteAircraftParts callsign p);
            partsList1 = (if removeOutdated then removeOutdatedParts partsList else partsList);
            p1 = p\<lparr>m_partsAdded := m_partsAdded p + 1,
                   m_partsLastModified := (m_partsLastModified p)(callsign \<mapsto> currentTime),
                   m_partsByCallsign := (m_partsByCallsign p)(callsign \<mapsto> partsList1)\<rparr>;
            (c, situations) = adjustGroundFlagAll parts (1 / 10) (remoteAircraftSituations callsign p1);
            p2 = (if partsList1 \<noteq> [] then p1\<lparr>m_situationsByCallsign := (m_situationsByCallsign p1)(callsign \<mapsto> situations)\<rparr> else p1);
            p3 = (if partsList1 \<noteq> [] \<and> 0 < c
                  then p2\<lparr>m_situationsLastModified := (m_situationsLastModified p2)(callsign \<mapsto> currentTime)\<rparr> else p2);
            p4 = snd (updateAircraft callsign (\<lambda>a. (True, a\<lparr>ra_parts := parts, ra_partsSynchronized := True\<rparr>)) p3)
        in sendSignal (addedAircraftParts callsign parts)
             (p4\<lparr>m_aircraftWithParts := insert callsign (m_aircraftWithParts p4)\<rparr>))"

subsection \<open>Elevations\<close>

text \<open>One situation of the loop: the change is the null change but for the latest.\<close>

definition checkAndGuess ::
  "'p Geo \<Rightarrow> 'p CElevationPlane \<Rightarrow> GndElevationInfo \<Rightarrow> CAircraftModel \<Rightarrow> CAircraftSituationChange
   \<Rightarrow> 'p CAircraftSituation \<Rightarrow> bool \<times> 'p CAircraftSituation" where
  "checkAndGuess G elevationPlane info model change s =
     (case setGroundElevationChecked G elevationPlane info False s of (isSet, s1) \<Rightarrow>
        if isSet then (True, snd (guessOnGround model change s1)) else (False, s1))"

definition setGroundElevationCheckedAndGuessGround ::
  "'p providerEnv \<Rightarrow> 'p CElevationPlane \<Rightarrow> GndElevationInfo \<Rightarrow> CAircraftModel \<Rightarrow> 'p CAircraftSituation list
   \<Rightarrow> nat \<times> bool \<times> CAircraftSituationChange \<times> 'p CAircraftSituation list" where
  "setGroundElevationCheckedAndGuessGround env elevationPlane info model situations =
     (case situations of
        [] \<Rightarrow> (0, False, CAircraftSituationChange_default, [])
      | front # rest \<Rightarrow>
          if isNullPlane elevationPlane then (0, False, CAircraftSituationChange_default, situations)
          else
            let vtol = isVtol (am_aircraftIcao model);
                simpleChange = mkSituationChange (pe_sort env) (pe_sqrt env) situations (am_cg model) vtol True False;
                results = checkAndGuess (pe_geo env) elevationPlane info model simpleChange front
                          # map (checkAndGuess (pe_geo env) elevationPlane info model CAircraftSituationChange_default) rest;
                situations1 = map snd results
            in (length (filter fst results),
                list_ex (\<lambda>(isSet, s). isSet \<and> hasInboundGroundDetails s \<and> isOnGround s) results,
                mkSituationChange (pe_sort env) (pe_sqrt env) situations1 (am_cg model) vtol True True,
                situations1))"

text \<open>How many situations were changed, and whether one of them says on ground itself.\<close>

definition updateAircraftGroundElevation ::
  "'p providerEnv \<Rightarrow> int \<Rightarrow> string \<Rightarrow> 'p CElevationPlane \<Rightarrow> GndElevationInfo \<Rightarrow> 'p CRemoteAircraftProvider
   \<Rightarrow> nat \<times> bool \<times> 'p CRemoteAircraftProvider" where
  "updateAircraftGroundElevation env currentTime callsign elevation info p =
     (if \<not> isAircraftInRange callsign p then (0, False, p)
      else
        let model = getAircraftInRangeModelForCallsign callsign p;
            situations = remoteAircraftSituations callsign p
        in if situations = []
           then (0, False, p\<lparr>m_situationsByCallsign := (m_situationsByCallsign p)(callsign \<mapsto> [])\<rparr>)
           else
             let (updated, onGnd, change, situations1) =
                   setGroundElevationCheckedAndGuessGround env elevation info model situations
             in if updated < 1 then (0, False, p)
                else
                  let p1 = p\<lparr>m_situationsByCallsign := (m_situationsByCallsign p)(callsign \<mapsto> situations1),
                             m_situationsLastModified := (m_situationsLastModified p)(callsign \<mapsto> currentTime)\<rparr>;
                      latest = hd situations1;
                      p2 = (if info = FromProvider \<and> isOnGround latest
                            then p1\<lparr>m_latestOnGroundProviderElevation :=
                                       (m_latestOnGroundProviderElevation p1)(callsign \<mapsto> latest)\<rparr> else p1);
                      p3 = (if \<not> isNullChange change then storeChange env change p2 else p2);
                      p4 = snd (updateAircraft callsign (\<lambda>a. (True, a\<lparr>ra_situation :=
                             snd (setGroundElevationChecked (pe_geo env) elevation info False (ra_situation a))\<rparr>)) p3)
                  in (updated, onGnd, p4))"

text \<open>The order of the situations is that of the hash.\<close>

definition averageElevationOfNonMovingAircraft ::
  "'p providerEnv \<Rightarrow> 'p CAircraftSituation list \<Rightarrow> 'p CAircraftSituation \<Rightarrow> PQ \<Rightarrow> nat \<Rightarrow> nat \<Rightarrow> 'p CElevationPlane" where
  "averageElevationOfNonMovingAircraft env values reference maxRange minValues sufficientValues =
     averageElevationOfTaxiingOnGroundAircraft (pe_sqrt env) (pe_geo env) reference maxRange minValues sufficientValues values"

subsection \<open>Removing\<close>

text \<open>The changes, the offset for tests and the messages of the matching stay.\<close>

definition removeAircraft :: "string \<Rightarrow> 'p CRemoteAircraftProvider \<Rightarrow> bool \<times> 'p CRemoteAircraftProvider" where
  "removeAircraft callsign p =
     (m_aircraftInRange p callsign \<noteq> None,
      p\<lparr>m_partsByCallsign := (m_partsByCallsign p)(callsign := None),
        m_aircraftWithParts := m_aircraftWithParts p - {callsign},
        m_partsLastModified := (m_partsLastModified p)(callsign := None),
        m_situationsByCallsign := (m_situationsByCallsign p)(callsign := None),
        m_latestSituationByCallsign := (m_latestSituationByCallsign p)(callsign := None),
        m_latestOnGroundProviderElevation := (m_latestOnGroundProviderElevation p)(callsign := None),
        m_situationsLastModified := (m_situationsLastModified p)(callsign := None),
        m_aircraftPartsMessages := (m_aircraftPartsMessages p)(callsign := None),
        m_dbCGPerCallsign := (m_dbCGPerCallsign p)(callsign := None),
        m_aircraftInRange := (m_aircraftInRange p)(callsign := None)\<rparr>)"

text \<open>The callsigns in the order of the set.\<close>

definition removeAllAircraft :: "string list \<Rightarrow> 'p CRemoteAircraftProvider \<Rightarrow> 'p CRemoteAircraftProvider" where
  "removeAllAircraft callsigns p =
     fold (\<lambda>cs. sendSignal (removedAircraft cs)) callsigns
       (p\<lparr>m_partsByCallsign := Map.empty, m_aircraftWithParts := {}, m_partsAdded := 0, m_partsLastModified := Map.empty,
          m_situationsByCallsign := Map.empty, m_latestSituationByCallsign := Map.empty,
          m_latestOnGroundProviderElevation := Map.empty, m_situationsAdded := 0, m_situationsLastModified := Map.empty,
          m_testOffset := Map.empty, m_changesByCallsign := Map.empty, m_aircraftPartsMessages := Map.empty,
          m_reverseLookupMessages := Map.empty, m_aircraftInRange := Map.empty, m_dbCGPerCallsign := Map.empty\<rparr>)"

subsection \<open>Messages\<close>

definition addReverseLookupMessages :: "string \<Rightarrow> string list \<Rightarrow> 'p CRemoteAircraftProvider \<Rightarrow> 'p CRemoteAircraftProvider" where
  "addReverseLookupMessages callsign messages p =
     (if callsign = [] \<or> messages = [] \<or> \<not> m_enableReverseLookupMsgs p then p
      else p\<lparr>m_reverseLookupMessages := (m_reverseLookupMessages p)(callsign \<mapsto>
               valuesOr (m_reverseLookupMessages p callsign) @ messages)\<rparr>)"

definition addReverseLookupMessage :: "string \<Rightarrow> string \<Rightarrow> 'p CRemoteAircraftProvider \<Rightarrow> 'p CRemoteAircraftProvider" where
  "addReverseLookupMessage callsign message p =
     (if callsign = [] \<or> message = [] then p else addReverseLookupMessages callsign [message] p)"

definition removeReverseLookupMessages :: "string \<Rightarrow> 'p CRemoteAircraftProvider \<Rightarrow> 'p CRemoteAircraftProvider" where
  "removeReverseLookupMessages callsign p =
     p\<lparr>m_reverseLookupMessages := (m_reverseLookupMessages p)(callsign := None)\<rparr>"

end
