(* ===== verification/Remote_Aircraft_Laws.thy ===== *)
theory Remote_Aircraft_Laws
  imports Remote_Aircraft
begin

text \<open>
  The histories of the aircraft in range over any sequence of operations: order and bound of the
  histories, what belongs together for a callsign, the order of arrivals, and what is left when an
  aircraft is removed. The invariant is an instance of \<open>invariant_machine\<close>.
\<close>

subsection \<open>What keeps the time stamps\<close>

definition stamps :: "'z timed list \<Rightarrow> (int \<times> int) list" where
  "stamps xs = map (\<lambda>s. (m_timestampMSecsSinceEpoch s, m_timeOffsetMs s)) xs"

lemma stamps_simps [simp]:
  "stamps [] = []" "stamps (s # xs) = (m_timestampMSecsSinceEpoch s, m_timeOffsetMs s) # stamps xs"
  by (simp_all add: stamps_def)

lemma stamps_map: "(\<And>s. m_timestampMSecsSinceEpoch (f s) = m_timestampMSecsSinceEpoch s \<and> m_timeOffsetMs (f s) = m_timeOffsetMs s)
    \<Longrightarrow> stamps (map f xs) = stamps xs"
  by (simp add: stamps_def)

lemma stamps_sorted: "stamps xs = stamps ys \<Longrightarrow> sortedBy getMSecsSinceEpoch xs = sortedBy getMSecsSinceEpoch ys"
proof -
  assume "stamps xs = stamps ys"
  then have "map fst (stamps xs) = map fst (stamps ys)" by simp
  then show ?thesis by (simp add: sortedBy_stamps stamps_def comp_def)
qed

lemma strictly_stamps:
  "strictlyBy getAdjustedMSecsSinceEpoch zs = sorted_wrt (>) (map (\<lambda>t. fst t + snd t) (stamps zs))"
  "strictlyBy getMSecsSinceEpoch zs = sorted_wrt (>) (map fst (stamps zs))"
  by (simp_all add: strictlyBy_def stamps_def sorted_wrt_map getAdjustedMSecsSinceEpoch_def)

lemma stamps_strict:
  assumes "stamps xs = stamps ys"
  shows "strictlyBy getAdjustedMSecsSinceEpoch xs = strictlyBy getAdjustedMSecsSinceEpoch ys"
    and "strictlyBy getMSecsSinceEpoch xs = strictlyBy getMSecsSinceEpoch ys"
  by (simp_all only: strictly_stamps assms)

lemma stamps_length: "stamps xs = stamps ys \<Longrightarrow> length xs = length ys"
  by (metis stamps_def length_map)

lemma stamps_hd: "stamps xs = stamps ys \<Longrightarrow> xs \<noteq> [] \<Longrightarrow> m_timestampMSecsSinceEpoch (hd xs) = m_timestampMSecsSinceEpoch (hd ys)"
  by (cases xs; cases ys) auto

lemma time_details [simp]: "m_timestampMSecsSinceEpoch (setOnGroundDetails d s) = m_timestampMSecsSinceEpoch s"
  "m_timeOffsetMs (setOnGroundDetails d s) = m_timeOffsetMs s"
  by (simp_all add: setOnGroundDetails_def)

lemma time_guess [simp]: "m_timestampMSecsSinceEpoch (snd (guessOnGround model ch s)) = m_timestampMSecsSinceEpoch s"
  "m_timeOffsetMs (snd (guessOnGround model ch s)) = m_timeOffsetMs s"
  by (simp_all add: guessOnGround_def split: prod.split)

lemma time_adjust [simp]: "m_timestampMSecsSinceEpoch (snd (adjustGroundFlag parts alwaysSet factor s)) = m_timestampMSecsSinceEpoch s"
  "m_timeOffsetMs (snd (adjustGroundFlag parts alwaysSet factor s)) = m_timeOffsetMs s"
  by (simp_all add: adjustGroundFlag_def Let_def)

lemma time_elevation [simp]:
  "m_timestampMSecsSinceEpoch (snd (setGroundElevation ep info tr s)) = m_timestampMSecsSinceEpoch s"
  "m_timeOffsetMs (snd (setGroundElevation ep info tr s)) = m_timeOffsetMs s"
  by (simp_all add: setGroundElevation_def)

lemma time_checked [simp]:
  "m_timestampMSecsSinceEpoch (snd (setGroundElevationChecked G ep info tr s)) = m_timestampMSecsSinceEpoch s"
  "m_timeOffsetMs (snd (setGroundElevationChecked G ep info tr s)) = m_timeOffsetMs s"
  by (simp_all add: setGroundElevationChecked_def Let_def)

lemma time_checkAndGuess [simp]:
  "m_timestampMSecsSinceEpoch (snd (checkAndGuess G ep info model ch s)) = m_timestampMSecsSinceEpoch s"
  "m_timeOffsetMs (snd (checkAndGuess G ep info model ch s)) = m_timeOffsetMs s"
proof -
  obtain b s1 where "setGroundElevationChecked G ep info False s = (b, s1)" by fastforce
  with time_checked [of G ep info False s]
  show "m_timestampMSecsSinceEpoch (snd (checkAndGuess G ep info model ch s)) = m_timestampMSecsSinceEpoch s"
    "m_timeOffsetMs (snd (checkAndGuess G ep info model ch s)) = m_timeOffsetMs s"
    by (simp_all add: checkAndGuess_def)
qed

lemma time_transfer [simp]:
  "m_timestampMSecsSinceEpoch (snd (transferGroundElevationToMe G from r tr s)) = m_timestampMSecsSinceEpoch s"
  "m_timeOffsetMs (snd (transferGroundElevationToMe G from r tr s)) = m_timeOffsetMs s"
  by (simp_all add: transferGroundElevationToMe_def)

lemma stamps_transfer: "stamps (snd (transferElevationForward G r xs)) = stamps xs"
proof (induction xs rule: induct_list012)
  case (3 x y zs)
  obtain b x1 c ys where "transferGroundElevationToMe G y r True x = (b, x1)"
    "transferElevationForward G r (y # zs) = (c, ys)" by fastforce
  with 3 time_transfer [of G y r True x] show ?case by simp
qed simp_all

lemma stamps_guessFront: "stamps (guessFront env model s xs) = stamps xs"
  by (simp add: guessFront_def Let_def split: list.split)

lemma stamps_flags: "stamps (snd (adjustGroundFlagAll parts factor xs)) = stamps xs"
  by (simp add: adjustGroundFlagAll_def eachSituation_def stamps_def)

lemma stamps_elevations:
  assumes "setGroundElevationCheckedAndGuessGround env ep info model xs = (n, b, ch, ys)"
  shows "stamps ys = stamps xs"
  using arg_cong [OF assms, of "\<lambda>r. stamps (snd (snd (snd r)))"]
  by (simp add: setGroundElevationCheckedAndGuessGround_def Let_def comp_def stamps_map
      split: list.splits if_splits)

subsection \<open>A history\<close>

definition history_ok :: "'z timed list \<Rightarrow> bool" where
  "history_ok xs \<longleftrightarrow> sortedBy getMSecsSinceEpoch xs \<and> length xs \<le> 50"

lemma history_stamps: "stamps xs = stamps ys \<Longrightarrow> history_ok xs = history_ok ys"
  using stamps_sorted stamps_length unfolding history_ok_def by metis

lemma history_Nil [simp]: "history_ok []"
  by (simp add: history_ok_def)

lemma push_history:
  assumes "sorts srt" "history_ok xs"
  shows "history_ok (push_frontKeepLatestFirstAdjustOffset srt v rep (int 50) xs)"
  using push_front_sorted [OF assms(1), of xs v rep "int 50"] push_front_bounded [OF assms(1), of "int 50" xs v rep] assms(2)
  by (simp add: history_ok_def push_frontKeepLatestFirstAdjustOffset_def adjust_sorted)

lemma prefill_history: "history_ok (prefillLatestAdjustedFirst v 50 (-1))"
proof -
  have "sortedBy getMSecsSinceEpoch (prefillLatestAdjustedFirst v n (-1))" for n
  proof -
    have "sorted_wrt (\<lambda>a b. m_timestampMSecsSinceEpoch b \<le> m_timestampMSecsSinceEpoch a)
        (map (\<lambda>i. v\<lparr>m_timestampMSecsSinceEpoch := m_timestampMSecsSinceEpoch v + - \<bar>m_timeOffsetMs v\<bar> * int i\<rparr>) [1..<n])"
      unfolding sorted_wrt_map
      by (rule sorted_wrt_mono_rel [OF _ sorted_wrt_upt]) (auto intro: mult_left_mono)
    then show ?thesis by (auto simp: prefillLatestAdjustedFirst_def Let_def sortedBy_def)
  qed
  moreover have "length (prefillLatestAdjustedFirst v 50 (-1)) = 50"
    using prefill_length [of v 49 "-1"] by simp
  ultimately show ?thesis by (simp add: history_ok_def)
qed

lemma added_history:
  assumes "sorts (pe_sort env)" "history_ok xs" "addedSituation env s sc xs = Some ys"
  shows "history_ok ys \<and> ys \<noteq> []"
proof (cases "xs = []")
  case True
  then have ys: "ys = prefillLatestAdjustedFirst sc 50 (-1)"
    using assms(3) by (simp add: addedSituation_def MaxSituationsPerCallsign_def)
  then show ?thesis by (simp only: prefill_history) (simp add: ys prefillLatestAdjustedFirst_def Let_def)
next
  case False
  let ?p = "push_frontKeepLatestFirstAdjustOffset (pe_sort env) sc True (int 50) xs"
  have "stamps ys = stamps ?p"
    using False assms(3)
    by (auto simp: addedSituation_def MaxSituationsPerCallsign_def Let_def stamps_map stamps_transfer split: if_splits)
  moreover have "sc \<in> set (push_frontKeepLatestFirst (pe_sort env) sc True (int 50) xs)"
    by (rule push_front_elems [OF assms(1)])
  then have "?p \<noteq> []" by (metis push_frontKeepLatestFirstAdjustOffset_def adjust_length empty_iff list.set(1) length_0_conv)
  ultimately show ?thesis using push_history [OF assms(1,2), of sc True]
    by (metis history_stamps stamps_length length_0_conv)
qed

lemma outdated_history: "history_ok xs \<Longrightarrow> history_ok (removeOutdatedParts xs)"
  by (auto simp: history_ok_def removeOutdatedParts_def removeBefore_def Let_def sortedBy_def
      intro: sorted_wrt_filter order_trans [OF length_filter_le])

text \<open>The latest parts are never removed, for valid time stamps.\<close>

lemma outdated_keeps:
  assumes "x \<in> set xs" "hasValidTimestamp x"
  shows "removeOutdatedParts xs \<noteq> []"
proof -
  have ne: "xs \<noteq> []" using assms(1) by auto
  obtain l where l: "latestObject xs = Some l" using ne by (cases "latestObject xs") (auto simp: latestObject_def maxElement_def)
  then have mem: "l \<in> set xs" "m_timestampMSecsSinceEpoch x \<le> m_timestampMSecsSinceEpoch l"
    using minElement_least [of "\<lambda>x. - m_timestampMSecsSinceEpoch x" xs l] assms(1)
    by (auto simp: latestObject_def maxElement_def)
  then have "\<not> isOlderThan l (latestTimestampMsecsSinceEpoch xs - MaxPartsAgePerCallsignSecs * 1000)"
    using assms(2)
    by (simp add: latestTimestampMsecsSinceEpoch_def l isOlderThan_def MaxPartsAgePerCallsignSecs_def hasValidTimestamp_def)
  with mem ne show ?thesis by (auto simp: removeOutdatedParts_def removeBefore_def Let_def filter_empty_conv)
qed

subsection \<open>The invariant of the provider\<close>

text \<open>What is kept of a callsign belongs to it, and the histories are ordered and bounded.\<close>

definition provider_inv :: "'p CRemoteAircraftProvider \<Rightarrow> bool" where
  "provider_inv p \<longleftrightarrow>
     (\<forall>cs xs. m_situationsByCallsign p cs = Some xs \<longrightarrow> history_ok xs)
     \<and> (\<forall>cs xs. m_partsByCallsign p cs = Some xs \<longrightarrow> history_ok xs)
     \<and> (\<forall>cs a. m_aircraftInRange p cs = Some a \<longrightarrow> ra_callsign a = cs \<and> cs \<noteq> [])
     \<and> m_aircraftWithParts p \<subseteq> dom (m_partsByCallsign p)
     \<and> dom (m_latestSituationByCallsign p) \<subseteq> dom (m_situationsByCallsign p)
     \<and> dom (m_latestOnGroundProviderElevation p) \<subseteq> dom (m_situationsByCallsign p)"

lemma inv_situations: "provider_inv p \<Longrightarrow> history_ok (remoteAircraftSituations cs p)"
  by (cases "m_situationsByCallsign p cs") (auto simp: provider_inv_def remoteAircraftSituations_def valuesOr_def)

lemma inv_parts: "provider_inv p \<Longrightarrow> history_ok (remoteAircraftParts cs p)"
  by (cases "m_partsByCallsign p cs") (auto simp: provider_inv_def remoteAircraftParts_def valuesOr_def)

text \<open>New histories, and changes of the aircraft that keep the callsign.\<close>

lemma inv_store_situations:
  "provider_inv p \<Longrightarrow> history_ok xs \<Longrightarrow> provider_inv (p\<lparr>m_situationsByCallsign := (m_situationsByCallsign p)(cs \<mapsto> xs)\<rparr>)"
  by (auto simp: provider_inv_def)

lemma inv_store_parts:
  "provider_inv p \<Longrightarrow> history_ok xs \<Longrightarrow> provider_inv (p\<lparr>m_partsByCallsign := (m_partsByCallsign p)(cs \<mapsto> xs)\<rparr>)"
  by (auto simp: provider_inv_def)

lemma inv_other_fields [simp]:
  "provider_inv (m_situationsAdded_update f p) = provider_inv p"
  "provider_inv (m_partsAdded_update f p) = provider_inv p"
  "provider_inv (m_situationsLastModified_update g p) = provider_inv p"
  "provider_inv (m_partsLastModified_update g p) = provider_inv p"
  "provider_inv (m_testOffset_update h p) = provider_inv p"
  "provider_inv (m_dbCGPerCallsign_update h p) = provider_inv p"
  "provider_inv (m_changesByCallsign_update k p) = provider_inv p"
  "provider_inv (m_reverseLookupMessages_update l p) = provider_inv p"
  "provider_inv (sendSignal sig p) = provider_inv p"
  by (simp_all add: provider_inv_def sendSignal_def)

lemma inv_updateAircraft:
  assumes "provider_inv p" "\<And>a. ra_callsign (snd (f a)) = ra_callsign a"
  shows "provider_inv (snd (updateAircraft cs f p))"
proof (cases "m_aircraftInRange p cs")
  case (Some a)
  obtain ok a1 where "f a = (ok, a1)" by fastforce
  with assms(2) [of a] Some assms(1) show ?thesis by (auto simp: updateAircraft_def provider_inv_def)
qed (use assms in \<open>simp add: updateAircraft_def\<close>)

lemma inv_storeChange: "provider_inv p \<Longrightarrow> provider_inv (storeChange env change p)"
  by (simp add: storeChange_def Let_def)

lemma callsign_setters [simp]:
  "ra_callsign (setCG cg a) = ra_callsign a" "ra_callsign (aircraft_setModelString ms a) = ra_callsign a"
  "ra_callsign (snd (setRendered b a)) = ra_callsign a" "ra_callsign (snd (setEnabled b a)) = ra_callsign a"
  "ra_callsign (snd (setFastPositionUpdates b a)) = ra_callsign a" "ra_callsign (setSituation s a) = ra_callsign a"
  by (simp_all add: setCG_def aircraft_setModelString_def setRendered_def setEnabled_def setFastPositionUpdates_def setSituation_def)

lemma inv_updateCG: "provider_inv p \<Longrightarrow> provider_inv (snd (updateCG cs cg p))"
  unfolding updateCG_def by (rule inv_updateAircraft) simp_all

lemma inv_updateMultiple:
  assumes "\<And>a. ra_callsign (snd (f a)) = ra_callsign a"
  shows "provider_inv p \<Longrightarrow> provider_inv (snd (updateMultiple f cs p))"
proof (induction cs arbitrary: p)
  case (Cons c cs)
  obtain ok p1 n p2 where "updateAircraft c f p = (ok, p1)" "updateMultiple f cs p1 = (n, p2)" by fastforce
  with Cons.IH [of p1] inv_updateAircraft [of p f c] Cons.prems assms show ?case by simp
qed simp

lemma inv_storeSituation:
  assumes "provider_inv p" "sorts (pe_sort env)"
  shows "provider_inv (snd (storeAircraftSituation env allow t s p))"
proof -
  let ?cs = "s_callsign s"
  let ?sc = "if allow then addTestAltitudeOffsetToSituation p s else s"
  let ?model = "getAircraftInRangeModelForCallsign ?cs p"
  define p1 where "p1 = (if s_cg s \<noteq> None \<and> \<not> equals (am_cg ?model) (s_cg s) then snd (updateCG ?cs (s_cg s) p) else p)"
  define p2 where "p2 = p1\<lparr>m_situationsAdded := m_situationsAdded p1 + 1,
      m_situationsLastModified := (m_situationsLastModified p1)(?cs \<mapsto> t)\<rparr>"
  have p2: "provider_inv p2" using inv_updateCG [OF assms(1)] assms(1) by (simp add: p2_def p1_def)
  have latest: "provider_inv (q\<lparr>m_latestSituationByCallsign := (m_latestSituationByCallsign q)(cs \<mapsto> x),
      m_situationsByCallsign := (m_situationsByCallsign q)(cs \<mapsto> ys)\<rparr>)"
    if "provider_inv q" "history_ok ys" for q cs x ys
    using that by (auto simp: provider_inv_def)
  have "provider_inv (snd (storeAircraftSituation env allow t s p))"
    if added: "addedSituation env s ?sc (remoteAircraftSituations ?cs p2) = Some xs" and ne: "?cs \<noteq> []" for xs
  proof -
    have "history_ok xs" using added_history [OF assms(2) inv_situations [OF p2] added] by simp
    then have "history_ok (if hasInboundGroundDetails s then xs else guessFront env ?model ?sc xs)"
      using history_stamps [OF stamps_guessFront] by metis
    from latest [OF p2 this] show ?thesis
      using added ne unfolding storeAircraftSituation_def Let_def p1_def [symmetric] p2_def [symmetric]
      by (simp add: inv_storeChange)
  qed
  moreover have "provider_inv (snd (storeAircraftSituation env allow t s p))"
    if "addedSituation env s ?sc (remoteAircraftSituations ?cs p2) = None" "?cs \<noteq> []"
    using that p2 unfolding storeAircraftSituation_def Let_def p1_def [symmetric] p2_def [symmetric] by simp
  ultimately show ?thesis using assms(1)
    by (cases "?cs = []"; cases "addedSituation env s ?sc (remoteAircraftSituations ?cs p2)")
       (auto simp: storeAircraftSituation_def)
qed

lemma inv_storeParts:
  assumes "provider_inv p" "sorts (pe_sortParts env)"
  shows "provider_inv (storeAircraftParts env t cs parts removeOutdated p)"
proof (cases "cs = []")
  case False
  let ?xs = "push_frontKeepLatestFirstAdjustOffset (pe_sortParts env) parts True (int MaxPartsPerCallsign) (remoteAircraftParts cs p)"
  define xs where "xs = (if removeOutdated then removeOutdatedParts ?xs else ?xs)"
  have "history_ok ?xs" using push_history [OF assms(2) inv_parts [OF assms(1)]] by (simp add: MaxPartsPerCallsign_def)
  then have "history_ok xs" using outdated_history by (simp add: xs_def)
  define p1 where "p1 = p\<lparr>m_partsAdded := m_partsAdded p + 1,
     m_partsLastModified := (m_partsLastModified p)(cs \<mapsto> t), m_partsByCallsign := (m_partsByCallsign p)(cs \<mapsto> xs)\<rparr>"
  have p1: "provider_inv p1" "cs \<in> dom (m_partsByCallsign p1)"
    using assms(1) \<open>history_ok xs\<close> by (auto simp: p1_def provider_inv_def)
  obtain c ys where ys: "adjustGroundFlagAll parts (1 / 10) (remoteAircraftSituations cs p1) = (c, ys)" by fastforce
  have "history_ok ys"
    using history_stamps [OF stamps_flags, of parts "1 / 10" "remoteAircraftSituations cs p1"] inv_situations [OF p1(1)]
    by (simp add: ys)
  define p2 where "p2 = (if xs \<noteq> [] then p1\<lparr>m_situationsByCallsign := (m_situationsByCallsign p1)(cs \<mapsto> ys)\<rparr> else p1)"
  define p3 where "p3 = (if xs \<noteq> [] \<and> 0 < c
      then p2\<lparr>m_situationsLastModified := (m_situationsLastModified p2)(cs \<mapsto> t)\<rparr> else p2)"
  have p3: "provider_inv p3" "cs \<in> dom (m_partsByCallsign p3)"
    using inv_store_situations [OF p1(1) \<open>history_ok ys\<close>] p1 by (auto simp: p3_def p2_def)
  let ?f = "\<lambda>a. (True, a\<lparr>ra_parts := parts, ra_partsSynchronized := True\<rparr>)"
  have p4: "provider_inv (snd (updateAircraft cs ?f p3))" by (rule inv_updateAircraft [OF p3(1)]) simp
  have "m_partsByCallsign (snd (updateAircraft cs ?f p3)) = m_partsByCallsign p3"
    by (simp add: updateAircraft_def split: option.split)
  with p4 p3(2) have "provider_inv (snd (updateAircraft cs ?f p3)
      \<lparr>m_aircraftWithParts := insert cs (m_aircraftWithParts (snd (updateAircraft cs ?f p3)))\<rparr>)"
    by (auto simp: provider_inv_def)
  then show ?thesis
    using False unfolding storeAircraftParts_def Let_def xs_def [symmetric] p1_def [symmetric] ys prod.case
      p2_def [symmetric] p3_def [symmetric] by simp
qed (use assms in \<open>simp add: storeAircraftParts_def\<close>)

lemma inv_elevation:
  assumes "provider_inv p"
  shows "provider_inv (snd (snd (updateAircraftGroundElevation env t cs ep info p)))"
proof (cases "isAircraftInRange cs p \<and> remoteAircraftSituations cs p \<noteq> []")
  case True
  let ?xs = "remoteAircraftSituations cs p"
  obtain n g ch ys where r: "setGroundElevationCheckedAndGuessGround env ep info (getAircraftInRangeModelForCallsign cs p) ?xs
      = (n, g, ch, ys)" by (metis prod.exhaust)
  have ys: "history_ok ys" using history_stamps [OF stamps_elevations [OF r]] inv_situations [OF assms] by simp
  define p1 where "p1 = p\<lparr>m_situationsByCallsign := (m_situationsByCallsign p)(cs \<mapsto> ys),
      m_situationsLastModified := (m_situationsLastModified p)(cs \<mapsto> t)\<rparr>"
  define p2 where "p2 = (if info = FromProvider \<and> isOnGround (hd ys) then p1\<lparr>m_latestOnGroundProviderElevation :=
      (m_latestOnGroundProviderElevation p1)(cs \<mapsto> hd ys)\<rparr> else p1)"
  define p3 where "p3 = (if \<not> isNullChange ch then storeChange env ch p2 else p2)"
  have "provider_inv p2" using assms ys by (auto simp: p2_def p1_def provider_inv_def)
  then have p3: "provider_inv p3" by (simp add: p3_def inv_storeChange)
  let ?f = "\<lambda>a. (True, a\<lparr>ra_situation := snd (setGroundElevationChecked (pe_geo env) ep info False (ra_situation a))\<rparr>)"
  have "provider_inv (snd (updateAircraft cs ?f p3))" by (rule inv_updateAircraft [OF p3]) simp
  then show ?thesis
    using True assms unfolding updateAircraftGroundElevation_def Let_def r prod.case
      p1_def [symmetric] p2_def [symmetric] p3_def [symmetric] by simp
next
  case False
  then show ?thesis using inv_store_situations [OF assms, of "[]"] assms
    by (auto simp: updateAircraftGroundElevation_def)
qed

lemma inv_remove: "provider_inv p \<Longrightarrow> provider_inv (snd (removeAircraft cs p))"
  by (auto simp: provider_inv_def removeAircraft_def)

lemma inv_removeAll: "provider_inv (removeAllAircraft css p)"
proof -
  have "provider_inv (fold (\<lambda>cs. sendSignal (removedAircraft cs)) css q) = provider_inv q" for q :: "'a CRemoteAircraftProvider"
    by (induction css arbitrary: q) simp_all
  then show ?thesis by (simp add: removeAllAircraft_def provider_inv_def)
qed

lemma inv_add: "provider_inv p \<Longrightarrow> ra_callsign a \<noteq> [] \<Longrightarrow> provider_inv (snd (addNewAircraftInRange a p))"
  by (auto simp: addNewAircraftInRange_def) (auto simp: provider_inv_def)

subsection \<open>Sequences of operations\<close>

datatype 'p providerOp =
    StoreSituation bool int "'p CAircraftSituation"
  | StoreParts int string CAircraftParts bool
  | GroundElevation int string "'p CElevationPlane" GndElevationInfo
  | Add "'p CSimulatedAircraftFull"
  | Remove string
  | RemoveAll "string list"
  | Rendered "string list" bool
  | Enabled "string list" bool
  | FastPositions string bool
  | Distance string "'p CAircraftSituation" PQ PQ
  | CenterOfGravity string PQ string

fun providerStep :: "'p providerEnv \<Rightarrow> 'p CRemoteAircraftProvider \<Rightarrow> 'p providerOp \<Rightarrow> 'p CRemoteAircraftProvider" where
  "providerStep env p (StoreSituation allow t s) = snd (storeAircraftSituation env allow t s p)"
| "providerStep env p (StoreParts t cs parts removeOutdated) = storeAircraftParts env t cs parts removeOutdated p"
| "providerStep env p (GroundElevation t cs ep info) = snd (snd (updateAircraftGroundElevation env t cs ep info p))"
| "providerStep env p (Add a) = (if ra_callsign a = [] then p else snd (addNewAircraftInRange a p))"
| "providerStep env p (Remove cs) = snd (removeAircraft cs p)"
| "providerStep env p (RemoveAll css) = removeAllAircraft css p"
| "providerStep env p (Rendered css b) = snd (updateMultipleAircraftRendered css b p)"
| "providerStep env p (Enabled css b) = snd (updateMultipleAircraftEnabled css b p)"
| "providerStep env p (FastPositions cs b) = snd (updateFastPositionEnabled cs b p)"
| "providerStep env p (Distance cs s distance bearing) = snd (updateAircraftInRangeDistanceBearing cs s distance bearing p)"
| "providerStep env p (CenterOfGravity cs cg modelString) = snd (updateCGAndModelString cs cg modelString p)"

lemma inv_step:
  assumes "provider_inv p" "sorts (pe_sort env)" "sorts (pe_sortParts env)"
  shows "provider_inv (providerStep env p op)"
  using assms
  by (cases op)
     (auto simp: inv_storeSituation inv_storeParts inv_elevation inv_add inv_remove inv_removeAll
        updateMultipleAircraftRendered_def updateMultipleAircraftEnabled_def updateFastPositionEnabled_def
        updateAircraftInRangeDistanceBearing_def updateCGAndModelString_def Let_def
        intro!: inv_updateMultiple inv_updateAircraft)

interpretation provider: invariant_machine "providerStep env"
  "\<lambda>p. provider_inv p \<and> sorts (pe_sort env) \<and> sorts (pe_sortParts env)" for env
  by unfold_locales (auto intro: inv_step)

definition emptyProvider :: "'p CRemoteAircraftProvider" where
  "emptyProvider = \<lparr>m_aircraftInRange = Map.empty, m_situationsByCallsign = Map.empty,
     m_latestSituationByCallsign = Map.empty, m_latestOnGroundProviderElevation = Map.empty,
     m_partsByCallsign = Map.empty, m_aircraftWithParts = {}, m_changesByCallsign = Map.empty,
     m_situationsAdded = 0, m_partsAdded = 0, m_situationsLastModified = Map.empty, m_partsLastModified = Map.empty,
     m_testOffset = Map.empty, m_dbCGPerCallsign = Map.empty, m_dbCGPerModelString = Map.empty,
     m_reverseLookupMessages = Map.empty, m_aircraftPartsMessages = Map.empty, m_enableReverseLookupMsgs = True,
     rp_signals = []\<rparr>"

lemma inv_empty: "provider_inv emptyProvider"
  by (simp add: provider_inv_def emptyProvider_def)

subsection \<open>Arrivals of several callsigns\<close>

text \<open>A situation goes to the history of its callsign and to no other.\<close>

definition pushed :: "'p providerEnv \<Rightarrow> 'p CAircraftSituation list \<Rightarrow> 'p CAircraftSituation \<Rightarrow> 'p CAircraftSituation list" where
  "pushed env xs v =
     (if xs = [] then prefillLatestAdjustedFirst v 50 (-1)
      else push_frontKeepLatestFirstAdjustOffset (pe_sort env) v True (int 50) xs)"

lemma added_pushed:
  assumes "s_hasVelocity s"
  shows "\<exists>ys. addedSituation env s s xs = Some ys \<and> stamps ys = stamps (pushed env xs s)"
  using assms
  by (auto simp: addedSituation_def pushed_def MaxSituationsPerCallsign_def Let_def stamps_map stamps_transfer)

lemma situations_updateCG: "m_situationsByCallsign (snd (updateCG cs cg p)) = m_situationsByCallsign p"
  by (simp add: updateCG_def updateAircraft_def split: option.split)

lemma stored_stamps:
  assumes "s_hasVelocity s"
  shows "stamps (remoteAircraftSituations cs (snd (storeAircraftSituation env False t s p)))
    = stamps (if s_callsign s = cs \<and> cs \<noteq> [] then pushed env (remoteAircraftSituations cs p) s
              else remoteAircraftSituations cs p)"
proof (cases "s_callsign s = []")
  case False
  let ?cs = "s_callsign s" and ?model = "getAircraftInRangeModelForCallsign (s_callsign s) p"
  define p1 where "p1 = (if s_cg s \<noteq> None \<and> \<not> equals (am_cg ?model) (s_cg s) then snd (updateCG ?cs (s_cg s) p) else p)"
  define p2 where "p2 = p1\<lparr>m_situationsAdded := m_situationsAdded p1 + 1,
      m_situationsLastModified := (m_situationsLastModified p1)(?cs \<mapsto> t)\<rparr>"
  have p2: "m_situationsByCallsign p2 = m_situationsByCallsign p"
    by (simp add: p2_def p1_def situations_updateCG)
  then have xs: "remoteAircraftSituations c p2 = remoteAircraftSituations c p" for c
    by (simp add: remoteAircraftSituations_def)
  obtain ys where ys: "addedSituation env s s (remoteAircraftSituations ?cs p2) = Some ys"
      "stamps ys = stamps (pushed env (remoteAircraftSituations ?cs p) s)"
    using added_pushed [OF assms] xs by metis
  define zs where "zs = (if hasInboundGroundDetails s then ys else guessFront env ?model s ys)"
  have zs: "stamps zs = stamps ys" by (simp add: zs_def stamps_guessFront)
  have "m_situationsByCallsign (snd (storeAircraftSituation env False t s p)) = (m_situationsByCallsign p)(?cs \<mapsto> zs)"
    using False ys(1) unfolding storeAircraftSituation_def Let_def p1_def [symmetric] p2_def [symmetric]
    by (simp add: sendSignal_def storeChange_def Let_def p2 zs_def)
  then show ?thesis using False ys(2) zs by (simp add: remoteAircraftSituations_def valuesOr_def)
next
  case True
  then show ?thesis by (auto simp: storeAircraftSituation_def)
qed

text \<open>The time stamps of the first situation's list but its own, the ones made up.\<close>

definition madeUp :: "'p CAircraftSituation \<Rightarrow> int list" where
  "madeUp v = map m_timestampMSecsSinceEpoch (tl (prefillLatestAdjustedFirst v 50 (-1)))"

definition inOrder :: "'p CAircraftSituation list \<Rightarrow> 'p CAircraftSituation list \<Rightarrow> bool" where
  "inOrder vs xs \<longleftrightarrow> strictlyBy getAdjustedMSecsSinceEpoch xs
     \<and> map m_timestampMSecsSinceEpoch xs = take 50 (rev (map m_timestampMSecsSinceEpoch vs) @ madeUp (hd vs))"

lemma inOrder_stamps: "stamps xs = stamps ys \<Longrightarrow> inOrder vs xs = inOrder vs ys"
proof -
  assume a: "stamps xs = stamps ys"
  then have "map fst (stamps xs) = map fst (stamps ys)" by simp
  then show ?thesis using stamps_strict(1) [OF a] by (simp add: inOrder_def stamps_def comp_def)
qed

lemma inOrder_first:
  assumes "0 < m_timeOffsetMs v"
  shows "inOrder [v] (prefillLatestAdjustedFirst v 50 (-1))"
proof -
  have "length (prefillLatestAdjustedFirst v 50 (-1)) = 50" using prefill_length [of v 49 "-1"] by simp
  then have "length (m_timestampMSecsSinceEpoch v # madeUp v) \<le> 50" by (simp add: madeUp_def)
  moreover have "map m_timestampMSecsSinceEpoch (prefillLatestAdjustedFirst v 50 (-1)) = m_timestampMSecsSinceEpoch v # madeUp v"
    by (simp add: madeUp_def prefillLatestAdjustedFirst_def Let_def)
  ultimately show ?thesis using prefill_strict(2) [OF assms] by (simp add: inOrder_def)
qed

lemma take_again: "take 50 (a # take 50 xs) = take 50 (a # xs)"
  by (simp add: take_Cons' min_def)

lemma inOrder_next:
  assumes "inOrder vs xs" "vs \<noteq> []" "m_timestampMSecsSinceEpoch (last vs) < m_timestampMSecsSinceEpoch v"
  shows "inOrder (vs @ [v]) (push_frontKeepLatestFirstAdjustOffset srt v True (int 50) xs)"
proof -
  obtain us u where us: "vs = us @ [u]" using assms(2) by (cases vs rule: rev_cases) auto
  have xs: "map m_timestampMSecsSinceEpoch xs
      = take 50 (m_timestampMSecsSinceEpoch u # rev (map m_timestampMSecsSinceEpoch us) @ madeUp (hd vs))"
    using assms(1) by (simp add: inOrder_def us)
  then obtain x xs' where x: "xs = x # xs'" by (cases xs) auto
  have older: "xs = [] \<or> m_timestampMSecsSinceEpoch (hd xs) < m_timestampMSecsSinceEpoch v"
    using xs assms(3) by (simp add: x us)
  have "strictlyBy getAdjustedMSecsSinceEpoch (push_frontKeepLatestFirstAdjustOffset srt v True (int 50) xs)"
    by (rule push_adjusted_in_order) (use assms(1) older in \<open>auto simp: inOrder_def\<close>)
  moreover have "map m_timestampMSecsSinceEpoch (push_frontKeepLatestFirstAdjustOffset srt v True (int 50) xs)
      = take 50 (m_timestampMSecsSinceEpoch v # map m_timestampMSecsSinceEpoch xs)"
    using push_front_truncate [OF older, of "int 50" srt True]
    by (simp add: push_frontKeepLatestFirstAdjustOffset_def adjust_stamps take_map)
  moreover have "take 50 (m_timestampMSecsSinceEpoch v # map m_timestampMSecsSinceEpoch xs)
      = take 50 (rev (map m_timestampMSecsSinceEpoch (vs @ [v])) @ madeUp (hd (vs @ [v])))"
  proof -
    have eq: "map m_timestampMSecsSinceEpoch xs
        = take 50 (rev (map m_timestampMSecsSinceEpoch vs) @ madeUp (hd vs))"
      using assms(1) by (simp only: inOrder_def)
    show ?thesis unfolding eq take_again using assms(2) by simp
  qed
  ultimately show ?thesis by (simp add: inOrder_def)
qed

text \<open>The situations of one callsign, in the order of their time stamps, among any others.\<close>

fun storeAll :: "'p providerEnv \<Rightarrow> (int \<times> 'p CAircraftSituation) list \<Rightarrow> 'p CRemoteAircraftProvider \<Rightarrow> 'p CRemoteAircraftProvider" where
  "storeAll env [] p = p"
| "storeAll env ((t, s) # es) p = storeAll env es (snd (storeAircraftSituation env False t s p))"

definition ofCallsign :: "string \<Rightarrow> (int \<times> 'p CAircraftSituation) list \<Rightarrow> 'p CAircraftSituation list" where
  "ofCallsign cs es = filter (\<lambda>s. s_callsign s = cs) (map snd es)"

lemma storeAll_inOrder:
  assumes "\<forall>e \<in> set es. s_hasVelocity (snd e)" "cs \<noteq> []"
    and "vs \<noteq> []" "inOrder vs (remoteAircraftSituations cs p)"
    and "sorted_wrt (\<lambda>a b. m_timestampMSecsSinceEpoch a < m_timestampMSecsSinceEpoch b) (vs @ ofCallsign cs es)"
  shows "inOrder (vs @ ofCallsign cs es) (remoteAircraftSituations cs (storeAll env es p))"
  using assms
proof (induction es arbitrary: vs p)
  case (Cons e es)
  obtain t s where e: "e = (t, s)" by fastforce
  let ?p = "snd (storeAircraftSituation env False t s p)"
  have vel: "s_hasVelocity s" using Cons.prems(1) by (simp add: e)
  have ne: "remoteAircraftSituations cs p \<noteq> []"
    using Cons.prems(3,4) by (auto simp: inOrder_def)
  show ?case
  proof (cases "s_callsign s = cs")
    case True
    have "m_timestampMSecsSinceEpoch (last vs) < m_timestampMSecsSinceEpoch s"
      using Cons.prems(3,5) True by (simp add: ofCallsign_def e sorted_wrt_append)
    then have "inOrder (vs @ [s]) (pushed env (remoteAircraftSituations cs p) s)"
      using inOrder_next [OF Cons.prems(4,3)] ne by (simp add: pushed_def)
    then have "inOrder (vs @ [s]) (remoteAircraftSituations cs ?p)"
      using inOrder_stamps [OF stored_stamps [OF vel, of cs env t p], of "vs @ [s]"] True Cons.prems(2) by simp
    from Cons.IH [OF _ Cons.prems(2) _ this] Cons.prems(1,5) show ?thesis
      by (simp add: e ofCallsign_def True sorted_wrt_append)
  next
    case False
    then have "inOrder vs (remoteAircraftSituations cs ?p)"
      using inOrder_stamps [OF stored_stamps [OF vel, of cs env t p], of vs] Cons.prems(4) by simp
    from Cons.IH [OF _ Cons.prems(2,3) this] Cons.prems(1,5) False show ?thesis
      by (simp add: e ofCallsign_def)
  qed
qed (simp add: ofCallsign_def)

text \<open>The same from a provider that has no situation of the callsign.\<close>

lemma storeAll_from_nothing:
  assumes "\<forall>e \<in> set es. s_hasVelocity (snd e)" "cs \<noteq> []" "remoteAircraftSituations cs p = []"
    and "ofCallsign cs es = v # vs" "0 < m_timeOffsetMs v"
    and "sorted_wrt (\<lambda>a b. m_timestampMSecsSinceEpoch a < m_timestampMSecsSinceEpoch b) (v # vs)"
  shows "inOrder (v # vs) (remoteAircraftSituations cs (storeAll env es p))"
  using assms
proof (induction es arbitrary: p)
  case (Cons e es)
  obtain t s where e: "e = (t, s)" by fastforce
  let ?p = "snd (storeAircraftSituation env False t s p)"
  have vel: "s_hasVelocity s" using Cons.prems(1) by (simp add: e)
  show ?case
  proof (cases "s_callsign s = cs")
    case True
    then have s: "s = v" "ofCallsign cs es = vs" using Cons.prems(4) by (auto simp: ofCallsign_def e)
    have "inOrder [v] (remoteAircraftSituations cs ?p)"
      using inOrder_stamps [OF stored_stamps [OF vel, of cs env t p], of "[v]"] True Cons.prems(2,3)
        inOrder_first [OF Cons.prems(5)] by (simp add: pushed_def s)
    from storeAll_inOrder [OF _ Cons.prems(2) _ this, of es env] Cons.prems(1,6) show ?thesis
      by (simp add: e s)
  next
    case False
    have "stamps (remoteAircraftSituations cs ?p) = []"
      using stored_stamps [OF vel, of cs env t p] False Cons.prems(3) by simp
    then have "remoteAircraftSituations cs ?p = []" by (simp add: stamps_def)
    from Cons.IH [OF _ Cons.prems(2) this _ Cons.prems(5,6)] Cons.prems(1,4) False show ?thesis
      by (simp add: e ofCallsign_def)
  qed
qed (simp add: ofCallsign_def)

subsection \<open>The guess for a new situation\<close>

text \<open>No history enters the guess: it is the guess of a change that is null.\<close>

lemma guessFront_alone:
  "guessFront env model s (front # rest)
     = snd (guessOnGround model CAircraftSituationChange_default front) # rest"
  by (simp add: guessFront_def mkSituationChange_def Let_def)

text \<open>The guess of a null change for an aircraft that does not start vertically: by its speed alone,
  but for extreme attitudes.\<close>

lemma guess_by_speed:
  assumes "shouldGuessOnGround s" "\<not> isVtol (am_aircraftIcao model)"
    and "\<bar>pqValue (s_pitch s)\<bar> \<le> 20" "\<bar>pqValue (s_bank s)\<bar> \<le> 10"
  shows "onGroundOf (snd (guessOnGround model CAircraftSituationChange_default s)) =
    (if isNegativeWithEpsilonConsidered (s_groundSpeed s) \<or> \<not> isMoving s
        \<or> (\<not> lessThan (pqTimes (125 / 100) (snd (guessedCgAndSpeed model s))) (s_groundSpeed s)
           \<and> lessThan (s_groundSpeed s) (snd (guessedCgAndSpeed model s)))
     then OnGround else NotOnGround)"
proof -
  obtain cg v where cv: "guessedCgAndSpeed model s = (cg, v)" by fastforce
  obtain w where "v = Some w"
    using cv by (auto simp: guessedCgAndSpeed_def Let_def guessModelParameters_def split: if_splits option.splits)
  moreover have "isNullChange CAircraftSituationChange_default"
    by (simp add: isNullChange_def CAircraftSituationChange_default_def)
  moreover have "\<not> 20 < \<bar>pqValue (s_pitch s)\<bar>" "\<not> 10 < \<bar>pqValue (s_bank s)\<bar>" using assms(3,4) by simp_all
  ultimately show ?thesis
    using assms(1,2)
    by (simp add: guessOnGround_def guessedInfo_def cv onGroundInfoByCG_not onGroundOf_def Let_def split: prod.split)
qed

subsection \<open>What stays of a removed aircraft\<close>

lemma removed_forgotten:
  "snd (removeAircraft cs p) = q \<Longrightarrow>
     \<not> isAircraftInRange cs q \<and> remoteAircraftSituations cs q = [] \<and> remoteAircraftParts cs q = []
     \<and> \<not> isRemoteAircraftSupportingParts cs q \<and> getCGFromDB cs q = None
     \<and> remoteAircraftSituationChanges cs q = remoteAircraftSituationChanges cs p
     \<and> m_testOffset q = m_testOffset p
     \<and> (\<forall>cs'. cs' \<noteq> cs \<longrightarrow> m_aircraftInRange q cs' = m_aircraftInRange p cs'
          \<and> remoteAircraftSituations cs' q = remoteAircraftSituations cs' p)"
  by (auto simp: removeAircraft_def isAircraftInRange_def remoteAircraftSituations_def remoteAircraftParts_def valuesOr_def
      isRemoteAircraftSupportingParts_def getCGFromDB_def remoteAircraftSituationChanges_def)

text \<open>The center of gravity that was stored for a model is not found by its name.\<close>

lemma stored_cg_not_found:
  "getCGFromDBForModelString ms (rememberCGFromDBForModelString cg ms p) = getCGFromDBForModelString ms p"
  by (simp add: getCGFromDBForModelString_def rememberCGFromDBForModelString_def)

lemma stored_cg_found: "getCGFromDB cs (rememberCGFromDB cg cs p) = cg"
  by (simp add: getCGFromDB_def rememberCGFromDB_def)

end
