(* ===== verification/Icao_List.thy ===== *)
theory Icao_List
  imports Aircraft_Model Aircraft_Icao_Laws "HOL-Library.List_Lexorder"
begin

text \<open>
  Lists of aircraft types, \<open>CAircraftIcaoCodeList\<close>
  (\<open>src/misc/aviation/aircrafticaocodelist.cpp\<close>), and lists of their categories,
  \<open>CAircraftCategoryList\<close> (\<open>aircraftcategorylist.cpp\<close>), with the operations of a category that
  only these use (\<open>aircraftcategory.cpp\<close>). The library's sort is a parameter. A map with keys
  is the list of its pairs in the order of the keys. The result of an operation that reads a
  level that is not there is \<^const>\<open>None\<close>.
\<close>

subsection \<open>Types\<close>

definition sortUnique :: "'a::linorder list \<Rightarrow> 'a list" where
  "sortUnique xs = remdups (sort xs)"

definition icaos_findByDesignator :: "string \<Rightarrow> int \<Rightarrow> CAircraftIcaoCode list \<Rightarrow> CAircraftIcaoCode list" where
  "icaos_findByDesignator designator fuzzySearch l =
     (if fuzzySearch = 0 \<and> \<not> isValidDesignator designator then []
      else if fuzzySearch \<noteq> 0 \<and> length designator < 2 then []
      else filter (\<lambda>c. fst (matchesDesignator designator fuzzySearch c)) l)"

text \<open>The loop with the number of the last match, the best number so far and the type found so far.\<close>

fun fuzzyMatchLoop ::
  "string \<Rightarrow> int \<Rightarrow> CAircraftIcaoCode list \<Rightarrow> int \<Rightarrow> int \<Rightarrow> CAircraftIcaoCode \<Rightarrow> CAircraftIcaoCode" where
  "fuzzyMatchLoop d cutoff [] best current found = found"
| "fuzzyMatchLoop d cutoff (code # l) best current found =
     (let m = matchesDesignator d cutoff code;
          current = (case snd m of None \<Rightarrow> current | Some r \<Rightarrow> r)
      in if \<not> fst m then fuzzyMatchLoop d cutoff l best current found
         else if current = 100 then code
         else fuzzyMatchLoop d cutoff l best current (if best < current then code else found))"

definition findBestFuzzyMatchOrDefault :: "string \<Rightarrow> int \<Rightarrow> CAircraftIcaoCode list \<Rightarrow> CAircraftIcaoCode" where
  "findBestFuzzyMatchOrDefault designator cutoff l =
     (if length designator < 2 then CAircraftIcaoCode_default
      else fuzzyMatchLoop (toUpper (trimmed designator)) cutoff l 0 0 CAircraftIcaoCode_default)"

definition findByValidDesignator :: "CAircraftIcaoCode list \<Rightarrow> CAircraftIcaoCode list" where
  "findByValidDesignator l = filter hasValidDesignator l"

definition findByInvalidDesignator :: "CAircraftIcaoCode list \<Rightarrow> CAircraftIcaoCode list" where
  "findByInvalidDesignator l = filter (\<lambda>c. \<not> hasValidDesignator c) l"

definition icaos_findByDesignatorOrIataCode :: "string \<Rightarrow> CAircraftIcaoCode list \<Rightarrow> CAircraftIcaoCode list" where
  "icaos_findByDesignatorOrIataCode s l = (if s = [] then [] else filter (matchesDesignatorOrIata s) l)"

definition findByDesignatorIataOrFamily :: "string \<Rightarrow> CAircraftIcaoCode list \<Rightarrow> CAircraftIcaoCode list" where
  "findByDesignatorIataOrFamily s l = (if s = [] then [] else filter (matchesDesignatorIataOrFamily s) l)"

definition findEndingWith :: "string \<Rightarrow> CAircraftIcaoCode list \<Rightarrow> CAircraftIcaoCode list" where
  "findEndingWith icaoEnding l =
     (let ends = toUpper (trimmed icaoEnding);
          icaosDesignator = filter (\<lambda>c. endsWith (ic_designator c) ends) l;
          icaosFamily = filter (\<lambda>c. \<not> endsWith (ic_designator c) ends \<and> endsWith (ic_family c) ends) l
      in if ends = [] then [] else if icaosDesignator = [] then icaosFamily else icaosDesignator)"

definition icaos_findByIataCode :: "string \<Rightarrow> int \<Rightarrow> CAircraftIcaoCode list \<Rightarrow> CAircraftIcaoCode list" where
  "icaos_findByIataCode iata fuzzySearch l =
     (if iata = [] then [] else filter (\<lambda>c. fst (matchesIataCode iata fuzzySearch c)) l)"

definition icaos_findByFamily :: "string \<Rightarrow> int \<Rightarrow> CAircraftIcaoCode list \<Rightarrow> CAircraftIcaoCode list" where
  "icaos_findByFamily family fuzzySearch l =
     (if family = [] then [] else filter (\<lambda>c. fst (matchesFamily family fuzzySearch c)) l)"

definition icaos_findByManufacturer :: "string \<Rightarrow> CAircraftIcaoCode list \<Rightarrow> CAircraftIcaoCode list" where
  "icaos_findByManufacturer manufacturer l =
     (if manufacturer = [] then [] else filter (\<lambda>c. startsWithCI (ic_manufacturer c) manufacturer) l)"

definition findByDescription :: "string \<Rightarrow> CAircraftIcaoCode list \<Rightarrow> CAircraftIcaoCode list" where
  "findByDescription description l =
     (if description = [] then [] else filter (\<lambda>c. startsWithCI (ic_modelDescription c) description) l)"

definition findMatchingByAnyDescription :: "string \<Rightarrow> CAircraftIcaoCode list \<Rightarrow> CAircraftIcaoCode list" where
  "findMatchingByAnyDescription description l = filter (matchesAnyDescription description) l"

definition findWithIataCode :: "bool \<Rightarrow> CAircraftIcaoCode list \<Rightarrow> CAircraftIcaoCode list" where
  "findWithIataCode removeWhenSame l =
     filter (\<lambda>c. ic_iataCode c \<noteq> [] \<and> (\<not> removeWhenSame \<or> \<not> isIataSameAsDesignator c)) l"

definition findWithFamily :: "bool \<Rightarrow> CAircraftIcaoCode list \<Rightarrow> CAircraftIcaoCode list" where
  "findWithFamily removeWhenSame l =
     filter (\<lambda>c. ic_family c \<noteq> [] \<and> (\<not> removeWhenSame \<or> \<not> isFamilySameAsDesignator c)) l"

definition icaos_findByMilitaryFlag :: "bool \<Rightarrow> CAircraftIcaoCode list \<Rightarrow> CAircraftIcaoCode list" where
  "icaos_findByMilitaryFlag military l = filter (\<lambda>c. ic_military c = military) l"

definition icaos_containsDesignator :: "string \<Rightarrow> CAircraftIcaoCode list \<Rightarrow> bool" where
  "icaos_containsDesignator designator l \<longleftrightarrow> designator \<noteq> [] \<and> list_ex (\<lambda>c. ic_designator c = designator) l"

definition removeInvalidCombinedCodes :: "CAircraftIcaoCode list \<Rightarrow> CAircraftIcaoCode list" where
  "removeInvalidCombinedCodes l = filter hasValidCombinedType l"

definition removeDbDuplicates :: "CAircraftIcaoCode list \<Rightarrow> CAircraftIcaoCode list" where
  "removeDbDuplicates l = filter (\<lambda>c. \<not> isDbDuplicate c) l"

definition allDesignators :: "bool \<Rightarrow> CAircraftIcaoCode list \<Rightarrow> string list" where
  "allDesignators noUnspecified l =
     sortUnique (map ic_designator (filter (\<lambda>c. \<not> (noUnspecified \<and> \<not> hasKnownDesignator c)) l))"

definition allFamilies :: "CAircraftIcaoCode list \<Rightarrow> string list" where
  "allFamilies l = sortUnique (map ic_family (filter (\<lambda>c. ic_family c \<noteq> []) l))"

definition allManufacturers :: "bool \<Rightarrow> CAircraftIcaoCode list \<Rightarrow> string list" where
  "allManufacturers onlyKnownDesignators l =
     sortUnique (filter (\<lambda>m. m \<noteq> [])
       (map ic_manufacturer (filter (\<lambda>c. \<not> (onlyKnownDesignators \<and> \<not> hasKnownDesignator c)) l)))"

definition countManufacturers :: "CAircraftIcaoCode list \<Rightarrow> (string \<times> nat) list" where
  "countManufacturers l =
     (let ms = filter (\<lambda>m. m \<noteq> []) (map ic_manufacturer l) in map (\<lambda>m. (m, count_list ms m)) (sortUnique ms))"

text \<open>\<open>std::max_element\<close> is the first of several.\<close>

fun maxCountFrom :: "(string \<times> nat) \<Rightarrow> (string \<times> nat) list \<Rightarrow> string \<times> nat" where
  "maxCountFrom m [] = m"
| "maxCountFrom m (p # ps) = maxCountFrom (if snd m < snd p then p else m) ps"

definition maxCountManufacturer :: "CAircraftIcaoCode list \<Rightarrow> string \<times> nat" where
  "maxCountManufacturer l = (case countManufacturers l of [] \<Rightarrow> ([], 0) | p # ps \<Rightarrow> maxCountFrom p ps)"

definition sortByRank :: "CAircraftIcaoCode keySorter \<Rightarrow> CAircraftIcaoCode list \<Rightarrow> CAircraftIcaoCode list" where
  "sortByRank srt l = srt ic_rank l"

subsection \<open>The smart search\<close>

text \<open>The types to choose from, or the result when it is found by similarity.\<close>

definition smartIcaoCandidates :: "string \<Rightarrow> CAircraftIcaoCode list \<Rightarrow> CAircraftIcaoCode + CAircraftIcaoCode list" where
  "smartIcaoCandidates designator l =
     (let byDesignator = icaos_findByDesignator designator (-1) l;
          byIata = icaos_findByIataCode designator (-1) l;
          bestMatch = findBestFuzzyMatchOrDefault (left designator 5) 70 l;
          byFamily = icaos_findByFamily designator (-1) l
      in if byDesignator \<noteq> [] then Inr byDesignator
         else if byIata \<noteq> [] then Inr byIata
         else if hasValidDesignator bestMatch then Inl bestMatch
         else if byFamily \<noteq> [] then Inr byFamily
         else Inr (findMatchingByAnyDescription designator l))"

text \<open>The reductions are tried one after the other; a single type ends the search.\<close>

definition smartIcaoReduce ::
  "CAircraftIcaoCode keySorter \<Rightarrow> CAircraftIcaoCode \<Rightarrow> CAircraftIcaoCode list \<Rightarrow> CAircraftIcaoCode" where
  "smartIcaoReduce srt icaoPattern codes0 =
     (let codes1 = sortByRank srt codes0;
          byManufacturer = (ic_manufacturer icaoPattern \<noteq> []
             \<and> list_ex (\<lambda>c. ic_manufacturer c = ic_manufacturer icaoPattern) codes1);
          codes2 = (if byManufacturer then icaos_findByManufacturer (ic_manufacturer icaoPattern) codes1 else codes1);
          byIata = (ic_iataCode icaoPattern \<noteq> [] \<and> list_ex (\<lambda>c. ic_iataCode c = ic_iataCode icaoPattern) codes2);
          codes3 = (if byIata then icaos_findByIataCode (ic_iataCode icaoPattern) (-1) codes2 else codes2);
          byDescription = (ic_modelDescription icaoPattern \<noteq> []
             \<and> list_ex (\<lambda>c. ic_modelDescription c = ic_modelDescription icaoPattern) codes3);
          cm = findByDescription (ic_modelDescription icaoPattern) codes3
      in if byManufacturer \<and> length codes2 = 1 then hd codes2
         else if byIata \<and> length codes3 = 1 then hd codes3
         else if byDescription \<and> length cm = 1 then hd cm
         else frontOrDefault CAircraftIcaoCode_default codes3)"

definition smartAircraftIcaoSelector ::
  "CAircraftIcaoCode keySorter \<Rightarrow> CAircraftIcaoCode \<Rightarrow> CAircraftIcaoCode list \<Rightarrow> CAircraftIcaoCode" where
  "smartAircraftIcaoSelector srt icaoPattern l =
     (let c = findFirstByOrDefault CAircraftIcaoCode_default (\<lambda>c. ic_dbKey c = ic_dbKey icaoPattern) l
      in if hasValidDbKey (ic_dbKey icaoPattern) \<and> hasCompleteData c then c
         else if ic_designator icaoPattern = [] then CAircraftIcaoCode_default
         else case smartIcaoCandidates (ic_designator icaoPattern) l of
                Inl bestMatch \<Rightarrow> bestMatch
              | Inr [] \<Rightarrow> icaoPattern
              | Inr [code] \<Rightarrow> code
              | Inr codes \<Rightarrow> smartIcaoReduce srt icaoPattern codes)"

subsection \<open>Categories\<close>

definition category_getNameDbKey :: "CAircraftCategory \<Rightarrow> string" where
  "category_getNameDbKey c =
     (if hasValidDbKey (cat_dbKey c) then cat_name c @ '' '' @ getDbKeyAsStringInParentheses [] (cat_dbKey c)
      else cat_name c)"

definition matchesName :: "bool \<Rightarrow> string \<Rightarrow> CAircraftCategory \<Rightarrow> bool" where
  "matchesName caseSensitive name c \<longleftrightarrow> stringCompare caseSensitive name (cat_name c)"

definition setLevel :: "int \<Rightarrow> int \<Rightarrow> int \<Rightarrow> CAircraftCategory \<Rightarrow> CAircraftCategory" where
  "setLevel l1 l2 l3 c = c\<lparr>m_l1 := l1, m_l2 := l2, m_l3 := l3\<rparr>"

definition isLevel :: "int list \<Rightarrow> CAircraftCategory \<Rightarrow> bool" where
  "isLevel level c \<longleftrightarrow> level = [m_l1 c, m_l2 c, m_l3 c]"

definition getLevelString :: "CAircraftCategory \<Rightarrow> string" where
  "getLevelString c =
     (if isNullCategory c then []
      else number_base 10 (m_l1 c) @ ''.'' @ number_base 10 (m_l2 c) @ ''.'' @ number_base 10 (m_l3 c))"

definition getLevelAndName :: "CAircraftCategory \<Rightarrow> string" where
  "getLevelAndName c = (if isNullCategory c then [] else getLevelString c @ '' '' @ cat_name c)"

definition findByName :: "bool \<Rightarrow> string \<Rightarrow> CAircraftCategory list \<Rightarrow> CAircraftCategory list" where
  "findByName caseSensitive name cs = filter (matchesName caseSensitive name) cs"

definition getLevelStrings :: "CAircraftCategory list \<Rightarrow> string list" where
  "getLevelStrings cs = sortUnique (map getLevelString cs)"

definition getFirstLevels :: "CAircraftCategory list \<Rightarrow> int list" where
  "getFirstLevels cs = remove1 0 (sortUnique (map m_l1 cs))"

definition getSecondLevels :: "CAircraftCategory list \<Rightarrow> int list" where
  "getSecondLevels cs = remove1 0 (sortUnique (map m_l2 cs))"

text \<open>The map from first levels, as the list of its pairs in the order of the levels.\<close>

fun putHighest :: "CAircraftCategory \<Rightarrow> (int \<times> CAircraftCategory) list \<Rightarrow> (int \<times> CAircraftCategory) list" where
  "putHighest c [] = [(m_l1 c, c)]"
| "putHighest c ((fl, h) # hs) =
     (if m_l1 c < fl then (m_l1 c, c) # (fl, h) # hs
      else if m_l1 c = fl then (fl, if isHigherLevel h c then c else h) # hs
      else (fl, h) # putHighest c hs)"

definition findHighestLevels :: "CAircraftCategory list \<Rightarrow> CAircraftCategory list \<Rightarrow> CAircraftCategory list" where
  "findHighestLevels categories cs = (if categories = [] then [] else map snd (fold putHighest cs []))"

definition findByFirstLevel :: "int \<Rightarrow> CAircraftCategory list \<Rightarrow> CAircraftCategory list" where
  "findByFirstLevel level cs = filter (\<lambda>c. m_l1 c = level) cs"

definition findByLevel :: "int list \<Rightarrow> bool \<Rightarrow> CAircraftCategory list \<Rightarrow> CAircraftCategory list" where
  "findByLevel level noRootNode cs =
     (if level = [] then []
      else filter (\<lambda>c. \<not> (noRootNode \<and> int (length level) = getDepth c) \<and> matchesLevelList level c) cs)"

definition findByFullLevel :: "int list \<Rightarrow> CAircraftCategory list \<Rightarrow> CAircraftCategory" where
  "findByFullLevel level cs =
     (if length level \<noteq> 3 then CAircraftCategory_default
      else findFirstByOrDefault CAircraftCategory_default (isLevel level) cs)"

definition findFirstLevels :: "CAircraftCategory list \<Rightarrow> CAircraftCategory list" where
  "findFirstLevels cs = filter isFirstLevel cs"

definition findSiblings :: "CAircraftCategory \<Rightarrow> CAircraftCategory list \<Rightarrow> CAircraftCategory list" where
  "findSiblings category cs =
     (let levels = getLevel category;
          categories = (if length levels < 2 then findFirstLevels cs else findByLevel (butlast levels) True cs)
      in filter (\<lambda>c. c \<noteq> category) categories)"

text \<open>
  The levels from the first to the last one that occurs. The place of the level that is changed
  has to exist in the list of the category's own levels.
\<close>

definition findInParallelBranch :: "CAircraftCategory \<Rightarrow> CAircraftCategory list \<Rightarrow> CAircraftCategory list option" where
  "findInParallelBranch category cs =
     (if isNullCategory category \<or> cs = [] then Some []
      else if isFirstLevel category then Some []
      else
        let isL2 = (getDepth category = 2);
            loopLevels = (if isL2 then getFirstLevels cs else getSecondLevels cs);
            i = (if isL2 then 0 else 1);
            level = getLevel category
        in if loopLevels = [] then Some []
           else if length level \<le> i then None
           else Some (filter (\<lambda>c. \<not> isNullCategory c)
                  (map (\<lambda>l. findByFullLevel (level[i := l]) cs)
                    (filter (\<lambda>l. \<not> isLevel (level[i := l]) category) [hd loopLevels..last loopLevels]))))"

definition removedLevel :: "int list \<Rightarrow> CAircraftCategory list \<Rightarrow> CAircraftCategory list" where
  "removedLevel level cs = (if level = [] then cs else filter (\<lambda>c. \<not> matchesLevelList level c) cs)"

text \<open>The list that is left and the number of removed categories.\<close>

definition removeIfLevel :: "int list \<Rightarrow> CAircraftCategory list \<Rightarrow> CAircraftCategory list \<times> nat" where
  "removeIfLevel level cs =
     (if level = [] then (cs, 0) else (removedLevel level cs, length cs - length (removedLevel level cs)))"

end
