(* ===== verification/Model_List.thy ===== *)
theory Model_List
  imports Icao_List "HOL-Library.AList"
begin

text \<open>
  Lists of aircraft models, \<open>CAircraftModelList\<close>
  (\<open>src/misc/simulation/aircraftmodellist.cpp\<close>): what a list contains, the models found by an
  attribute, the models that are removed, replaced or changed, the counts, the scores, and the
  checks of distributors and files. An operation that changes the list returns it with the
  source's result. Whether a file exists and the case of file names are parameters; the texts
  for people and the JSON form are left out.
\<close>

subsection \<open>Equality of members\<close>

definition callsign_equal :: "CCallsign \<Rightarrow> CCallsign \<Rightarrow> bool" where
  "callsign_equal a b \<longleftrightarrow> toLower (cs_callsign a) = toLower (cs_callsign b)"

definition livery_equal :: "CLivery \<Rightarrow> CLivery \<Rightarrow> bool" where
  "livery_equal a b \<longleftrightarrow>
     a\<lparr>lv_airline := airline_compared (lv_airline a), lv_combinedCode := toLower (lv_combinedCode a)\<rparr>
     = b\<lparr>lv_airline := airline_compared (lv_airline b), lv_combinedCode := toLower (lv_combinedCode b)\<rparr>"

definition distributor_compared :: "CDistributor \<Rightarrow> CDistributor" where
  "distributor_compared d =
     d\<lparr>di_dbKey := toLower (di_dbKey d), di_alias1 := toLower (di_alias1 d), di_alias2 := toLower (di_alias2 d)\<rparr>"

definition distributor_equal :: "CDistributor \<Rightarrow> CDistributor \<Rightarrow> bool" where
  "distributor_equal a b \<longleftrightarrow> distributor_compared a = distributor_compared b"

definition stringListContains :: "bool \<Rightarrow> string list \<Rightarrow> string \<Rightarrow> bool" where
  "stringListContains caseSensitive xs s \<longleftrightarrow> list_ex (\<lambda>x. stringCompare caseSensitive x s) xs"

subsection \<open>What a list contains\<close>

definition containsModelString :: "bool \<Rightarrow> string \<Rightarrow> CAircraftModel list \<Rightarrow> bool" where
  "containsModelString caseSensitive s ms \<longleftrightarrow> list_ex (matchesModelString caseSensitive s) ms"

definition containsModelStringOrDbKey :: "bool \<Rightarrow> CAircraftModel \<Rightarrow> CAircraftModel list \<Rightarrow> bool" where
  "containsModelStringOrDbKey caseSensitive model ms \<longleftrightarrow>
     list_ex (\<lambda>m. hasValidDbKey (am_dbKey m) \<and> am_dbKey m = am_dbKey model
                  \<or> matchesModelString caseSensitive (am_modelString model) m) ms"

definition models_containsCallsign :: "CCallsign \<Rightarrow> CAircraftModel list \<Rightarrow> bool" where
  "models_containsCallsign cs ms \<longleftrightarrow> list_ex (\<lambda>m. callsign_equal (am_callsign m) cs) ms"

definition containsCombinedType :: "string \<Rightarrow> CAircraftModel list \<Rightarrow> bool" where
  "containsCombinedType combinedType ms \<longleftrightarrow>
     combinedType \<noteq> [] \<and> list_ex (\<lambda>m. ic_combinedType (am_aircraftIcao m) = trimmed (toUpper combinedType)) ms"

definition containsModelsWithAircraftIcaoDesignator :: "string \<Rightarrow> CAircraftModel list \<Rightarrow> bool" where
  "containsModelsWithAircraftIcaoDesignator d ms \<longleftrightarrow> list_ex (\<lambda>m. am_designator m = d) ms"

definition containsModelsWithAircraftAndAirlineIcaoDesignator :: "string \<Rightarrow> string \<Rightarrow> CAircraftModel list \<Rightarrow> bool" where
  "containsModelsWithAircraftAndAirlineIcaoDesignator d airline ms \<longleftrightarrow>
     list_ex (\<lambda>m. am_designator m = d \<and> al_designator (am_airline m) = airline) ms"

definition containsAirlineLivery :: "CAirlineIcaoCode \<Rightarrow> CAircraftModel list \<Rightarrow> bool" where
  "containsAirlineLivery airline ms \<longleftrightarrow>
     hasValidAirline airline \<and> list_ex (\<lambda>m. airline_equal (am_airline m) airline) ms"

definition containsMatchingSimulator :: "CSimulatorInfo \<Rightarrow> CAircraftModel list \<Rightarrow> bool" where
  "containsMatchingSimulator simulators ms \<longleftrightarrow> list_ex (model_matchesSimulator simulators) ms"

definition containsNotMatchingSimulator :: "CSimulatorInfo \<Rightarrow> CAircraftModel list \<Rightarrow> bool" where
  "containsNotMatchingSimulator simulators ms \<longleftrightarrow> list_ex (\<lambda>m. \<not> model_matchesSimulator simulators m) ms"

definition containsMilitary :: "CAircraftModel list \<Rightarrow> bool" where "containsMilitary ms \<longleftrightarrow> list_ex model_isMilitary ms"
definition containsCivilian :: "CAircraftModel list \<Rightarrow> bool" where "containsCivilian ms \<longleftrightarrow> list_ex isCivilian ms"

definition containsCivilianAndMilitary :: "CAircraftModel list \<Rightarrow> bool" where
  "containsCivilianAndMilitary ms \<longleftrightarrow> containsMilitary ms \<and> containsCivilian ms"

definition containsVtol :: "CAircraftModel list \<Rightarrow> bool" where "containsVtol ms \<longleftrightarrow> list_ex model_isVtol ms"
definition containsCategory :: "CAircraftModel list \<Rightarrow> bool" where "containsCategory ms \<longleftrightarrow> list_ex model_hasCategory ms"

definition inFirstLevel :: "int \<Rightarrow> CAircraftModel \<Rightarrow> bool" where
  "inFirstLevel firstLevel m \<longleftrightarrow> model_hasCategory m \<and> m_l1 (ic_category (am_aircraftIcao m)) = firstLevel"

definition containsCategoryLevel :: "int \<Rightarrow> CAircraftModel list \<Rightarrow> bool" where
  "containsCategoryLevel firstLevel ms \<longleftrightarrow> 0 \<le> firstLevel \<and> list_ex (inFirstLevel firstLevel) ms"

subsection \<open>Models by an attribute\<close>

definition findByModelString :: "bool \<Rightarrow> string \<Rightarrow> CAircraftModel list \<Rightarrow> CAircraftModel list" where
  "findByModelString caseSensitive s ms = filter (matchesModelString caseSensitive s) ms"

definition findEmptyModelStrings :: "CAircraftModel list \<Rightarrow> CAircraftModel list" where
  "findEmptyModelStrings ms = filter (\<lambda>m. \<not> model_hasModelString m) ms"

definition findFirstByModelStringOrDefault :: "bool \<Rightarrow> string \<Rightarrow> CAircraftModel list \<Rightarrow> CAircraftModel" where
  "findFirstByModelStringOrDefault caseSensitive s ms =
     (if s = [] then defaultModel else findFirstByOrDefault defaultModel (matchesModelString caseSensitive s) ms)"

definition findFirstByModelStringAliasOrDefault :: "bool \<Rightarrow> string \<Rightarrow> CAircraftModel list \<Rightarrow> CAircraftModel" where
  "findFirstByModelStringAliasOrDefault caseSensitive s ms =
     (if s = [] then defaultModel else findFirstByOrDefault defaultModel (matchesModelStringOrAlias caseSensitive s) ms)"

definition models_findFirstByCallsignOrDefault :: "CCallsign \<Rightarrow> CAircraftModel list \<Rightarrow> CAircraftModel" where
  "models_findFirstByCallsignOrDefault cs ms =
     (if cs_isEmpty cs then defaultModel
      else findFirstByOrDefault defaultModel (\<lambda>m. callsign_equal (am_callsign m) cs) ms)"

definition findByIcaoDesignators :: "CAircraftIcaoCode \<Rightarrow> CAirlineIcaoCode \<Rightarrow> CAircraftModel list \<Rightarrow> CAircraftModel list" where
  "findByIcaoDesignators aircraftIcao airlineIcao ms =
     (let aircraft = ic_designator aircraftIcao; airline = al_designator airlineIcao
      in if airline = [] then filter (\<lambda>m. am_designator m = aircraft) ms
         else if aircraft = [] then filter (\<lambda>m. al_designator (am_airline m) = airline) ms
         else filter (\<lambda>m. al_designator (am_airline m) = airline \<and> am_designator m = aircraft) ms)"

definition findByAircraftAndAirline :: "CAircraftIcaoCode \<Rightarrow> CAirlineIcaoCode \<Rightarrow> CAircraftModel list \<Rightarrow> CAircraftModel list" where
  "findByAircraftAndAirline aircraft airline ms =
     filter (\<lambda>m. am_aircraftIcao m = aircraft \<and> airline_equal (am_airline m) airline) ms"

definition findByAircraftDesignatorAndLiveryCombinedCode ::
  "string \<Rightarrow> string \<Rightarrow> CAircraftModel list \<Rightarrow> CAircraftModel list" where
  "findByAircraftDesignatorAndLiveryCombinedCode aircraftDesignator combinedCode ms =
     (if aircraftDesignator = [] then []
      else filter (\<lambda>m. fst (matchesDesignator aircraftDesignator (-1) (am_aircraftIcao m))
                       \<and> matchesCombinedCode combinedCode (am_livery m)) ms)"

definition findByAircraftAndLivery :: "CAircraftIcaoCode \<Rightarrow> CLivery \<Rightarrow> CAircraftModel list \<Rightarrow> CAircraftModel list" where
  "findByAircraftAndLivery aircraft livery ms =
     filter (\<lambda>m. am_aircraftIcao m = aircraft \<and> livery_equal (am_livery m) livery) ms"

definition findByAirlineGroup :: "CAirlineIcaoCode \<Rightarrow> CAircraftModel list \<Rightarrow> CAircraftModel list" where
  "findByAirlineGroup airline ms =
     (if al_groupId airline < 0 then [] else filter (\<lambda>m. al_groupId (am_airline m) = al_groupId airline) ms)"

text \<open>The telephony designator is compared with the name.\<close>

definition findByAirlineNameAndTelephonyDesignator ::
  "string \<Rightarrow> string \<Rightarrow> bool \<Rightarrow> CAircraftModel list \<Rightarrow> CAircraftModel list" where
  "findByAirlineNameAndTelephonyDesignator name telephony onlyIfExistInModel ms =
     filter (\<lambda>m. let icao = am_airline m
                 in hasAirlineDesignator m \<and> hasValidDbKey (am_dbKey m)
                    \<and> \<not> (name \<noteq> [] \<and> (al_name icao \<noteq> [] \<or> \<not> onlyIfExistInModel) \<and> \<not> containsCI (al_name icao) name)
                    \<and> \<not> (telephony \<noteq> [] \<and> (al_telephony icao \<noteq> [] \<or> \<not> onlyIfExistInModel)
                         \<and> \<not> containsCI (al_telephony icao) name)) ms"

definition findByAirlineNamesOrTelephonyDesignator :: "string \<Rightarrow> CAircraftModel list \<Rightarrow> CAircraftModel list" where
  "findByAirlineNamesOrTelephonyDesignator name ms =
     filter (\<lambda>m. hasAirlineDesignator m \<and> hasValidDbKey (am_dbKey m)
                 \<and> matchesNamesOrTelephonyDesignator name (am_airline m)) ms"

definition findByLiveryCode :: "CLivery \<Rightarrow> CAircraftModel list \<Rightarrow> CAircraftModel list" where
  "findByLiveryCode livery ms =
     (if \<not> hasCombinedCode livery then []
      else filter (\<lambda>m. hasCombinedCode (am_livery m) \<and> lv_combinedCode (am_livery m) = lv_combinedCode livery) ms)"

definition findWithFileName :: "CAircraftModel list \<Rightarrow> CAircraftModel list" where
  "findWithFileName ms = filter (\<lambda>m. am_fileName m \<noteq> []) ms"

definition findByDistributor :: "CDistributor \<Rightarrow> CAircraftModel list \<Rightarrow> CAircraftModel list" where
  "findByDistributor d ms = filter (\<lambda>m. distributor_equal (am_distributor m) d) ms"

definition findByDistributors :: "CDistributor list \<Rightarrow> CAircraftModel list \<Rightarrow> CAircraftModel list" where
  "findByDistributors ds ms = (if ds = [] then [] else filter (matchesAnyDbDistributor ds) ms)"

definition findWithAircraftDesignator :: "CAircraftModel list \<Rightarrow> CAircraftModel list" where
  "findWithAircraftDesignator ms = filter hasAircraftDesignator ms"

definition findWithAircraftDesignators :: "string list \<Rightarrow> CAircraftModel list \<Rightarrow> CAircraftModel list" where
  "findWithAircraftDesignators designators ms =
     (if designators = [] then [] else filter (\<lambda>m. am_designator m \<in> set designators) ms)"

definition findWithKnownAircraftDesignator :: "CAircraftModel list \<Rightarrow> CAircraftModel list" where
  "findWithKnownAircraftDesignator ms = filter hasKnownAircraftDesignator ms"

definition findByManufacturer :: "string \<Rightarrow> CAircraftModel list \<Rightarrow> CAircraftModel list" where
  "findByManufacturer manufacturer ms =
     (if manufacturer = [] then []
      else filter (\<lambda>m. ic_manufacturer (am_aircraftIcao m) = trimmed (toUpper manufacturer)) ms)"

definition findByFamily :: "string \<Rightarrow> CAircraftModel list \<Rightarrow> CAircraftModel list" where
  "findByFamily family ms =
     (if family = [] then []
      else filter (\<lambda>m. ic_family (am_aircraftIcao m) \<noteq> [] \<and> ic_family (am_aircraftIcao m) = trimmed (toUpper family)) ms)"

definition findColorLiveries :: "CAircraftModel list \<Rightarrow> CAircraftModel list" where
  "findColorLiveries ms = filter (\<lambda>m. isColorLivery (am_livery m)) ms"

definition findByFamilyWithColorLivery :: "string \<Rightarrow> CAircraftModel list \<Rightarrow> CAircraftModel list" where
  "findByFamilyWithColorLivery family ms =
     (if family = [] then []
      else filter (\<lambda>m. isColorLivery (am_livery m) \<and> ic_family (am_aircraftIcao m) \<noteq> []
                       \<and> ic_family (am_aircraftIcao m) = trimmed (toUpper family)) ms)"

definition findByDesignatorOrFamilyWithColorLivery :: "CAircraftIcaoCode \<Rightarrow> CAircraftModel list \<Rightarrow> CAircraftModel list" where
  "findByDesignatorOrFamilyWithColorLivery icao ms =
     filter (\<lambda>m. isColorLivery (am_livery m)
                 \<and> (am_designator m = ic_designator icao
                    \<or> ic_family icao \<noteq> [] \<and> ic_family (am_aircraftIcao m) = ic_family icao)) ms"

definition findByDesignatorsOrFamilyWithColorLivery :: "string list \<Rightarrow> CAircraftModel list \<Rightarrow> CAircraftModel list" where
  "findByDesignatorsOrFamilyWithColorLivery designators ms =
     filter (\<lambda>m. isColorLivery (am_livery m)
                 \<and> (am_designator m \<in> set designators
                    \<or> ic_family (am_aircraftIcao m) \<noteq> [] \<and> ic_family (am_aircraftIcao m) \<in> set designators)) ms"

text \<open>The length is that of the argument before it is trimmed, so that a character is never missing.\<close>

definition findByCombinedType :: "string \<Rightarrow> CAircraftModel list \<Rightarrow> CAircraftModel list" where
  "findByCombinedType combinedType ms =
     (if length combinedType \<noteq> 3 then []
      else filter (\<lambda>m. matchesCombinedType (toUpper (trimmed combinedType)) (am_aircraftIcao m) = Some True) ms)"

text \<open>The first character of a category that is all spaces is not there. The second search is in the whole list.\<close>

definition findByCombinedTypeAndWtc :: "string \<Rightarrow> string \<Rightarrow> CAircraftModel list \<Rightarrow> CAircraftModel list option" where
  "findByCombinedTypeAndWtc combinedType wtc ms =
     (if findByCombinedType combinedType ms = [] then Some []
      else if wtc = [] then Some (filter (\<lambda>m. ic_wtc (am_aircraftIcao m) = UNKNOWN) ms)
      else case trimmed (toUpper wtc) of
             [] \<Rightarrow> None
           | letter # _ \<Rightarrow> Some (filter (\<lambda>m. ic_wtc (am_aircraftIcao m) = wtcOfLetter letter) ms))"

definition findByCombinedTypeWithColorLivery :: "string \<Rightarrow> CAircraftModel list \<Rightarrow> CAircraftModel list" where
  "findByCombinedTypeWithColorLivery combinedType ms = findColorLiveries (findByCombinedType combinedType ms)"

text \<open>A pattern with spaces around it is matched as it is: the characters it lacks are not there.\<close>

definition findByCombinedAndManufacturer :: "string \<Rightarrow> string \<Rightarrow> CAircraftModel list \<Rightarrow> CAircraftModel list option" where
  "findByCombinedAndManufacturer combinedType manufacturer ms =
     (if manufacturer = [] then Some (findByCombinedType combinedType ms)
      else if combinedType = [] then Some (findByManufacturer manufacturer ms)
      else if list_ex (\<lambda>m. matchesCombinedType combinedType (am_aircraftIcao m) = None) ms then None
      else Some (filter (\<lambda>m. matchesCombinedTypeAndManufacturer combinedType manufacturer (am_aircraftIcao m) = Some True) ms))"

definition qFuzzyCompare :: "rat \<Rightarrow> rat \<Rightarrow> bool" where
  "qFuzzyCompare a b \<longleftrightarrow> \<bar>a - b\<bar> * 1000000000000 \<le> min \<bar>a\<bar> \<bar>b\<bar>"

fun closestColorLoop ::
  "CRgbColor \<Rightarrow> CRgbColor \<Rightarrow> CAircraftModel list \<Rightarrow> rat \<Rightarrow> CAircraftModel list \<Rightarrow> CAircraftModel list" where
  "closestColorLoop fuselage tail [] distance models = models"
| "closestColorLoop fuselage tail (m # ms) distance models =
     (let d = getColorDistance fuselage tail (am_livery m)
      in if \<not> hasValidColors (am_livery m) then closestColorLoop fuselage tail ms distance models
         else if qFuzzyCompare d distance then closestColorLoop fuselage tail ms distance (models @ [m])
         else if d < distance then closestColorLoop fuselage tail ms d [m]
         else closestColorLoop fuselage tail ms distance models)"

definition findClosestColorDistance :: "CRgbColor \<Rightarrow> CRgbColor \<Rightarrow> CAircraftModel list \<Rightarrow> CAircraftModel list" where
  "findClosestColorDistance fuselage tail ms = closestColorLoop fuselage tail ms 2 []"

definition findByMilitaryFlag :: "bool \<Rightarrow> CAircraftModel list \<Rightarrow> CAircraftModel list" where
  "findByMilitaryFlag military ms = filter (\<lambda>m. model_isMilitary m = military) ms"

definition findByVtolFlag :: "bool \<Rightarrow> CAircraftModel list \<Rightarrow> CAircraftModel list" where
  "findByVtolFlag vtol ms = filter (\<lambda>m. model_isVtol m = vtol) ms"

definition findByModelMode :: "ModelMode \<Rightarrow> CAircraftModel list \<Rightarrow> CAircraftModel list" where
  "findByModelMode mode ms = filter (\<lambda>m. am_modelMode m = mode) ms"

definition findByCategoryFirstLevel :: "int \<Rightarrow> CAircraftModel list \<Rightarrow> CAircraftModel list" where
  "findByCategoryFirstLevel firstLevel ms = (if firstLevel < 0 then [] else filter (inFirstLevel firstLevel) ms)"

definition findByCategories :: "CAircraftCategory list \<Rightarrow> CAircraftModel list \<Rightarrow> CAircraftModel list" where
  "findByCategories categories ms =
     (if categories = [] then []
      else filter (\<lambda>m. model_hasCategory m \<and> ic_category (am_aircraftIcao m) \<in> set categories) ms)"

definition findByCategory :: "CAircraftCategory \<Rightarrow> CAircraftModel list \<Rightarrow> CAircraftModel list" where
  "findByCategory category ms =
     (if isNullCategory category then []
      else filter (\<lambda>m. model_hasCategory m \<and> ic_category (am_aircraftIcao m) = category) ms)"

definition findFsFamilyModels :: "CAircraftModel list \<Rightarrow> CAircraftModel list" where
  "findFsFamilyModels ms = filter (\<lambda>m. isMicrosoftOrPrepare3DSimulator (am_simulator m)) ms"

definition findNonFsFamilyModels :: "CAircraftModel list \<Rightarrow> CAircraftModel list" where
  "findNonFsFamilyModels ms = filter (\<lambda>m. \<not> isMicrosoftOrPrepare3DSimulator (am_simulator m)) ms"

definition findWithValidDbKey :: "CAircraftModel list \<Rightarrow> CAircraftModel list" where
  "findWithValidDbKey ms = filter (\<lambda>m. hasValidDbKey (am_dbKey m)) ms"

definition findWithoutValidDbKey :: "CAircraftModel list \<Rightarrow> CAircraftModel list" where
  "findWithoutValidDbKey ms = filter (\<lambda>m. \<not> hasValidDbKey (am_dbKey m)) ms"

definition findNonDbModelsForAirline :: "string \<Rightarrow> CAircraftModel list \<Rightarrow> CAircraftModel list" where
  "findNonDbModelsForAirline airline ms =
     filter (\<lambda>m. airline_matchesDesignator airline (am_airline m)) (findWithoutValidDbKey ms)"

definition findNonDbModelsForAircraft :: "string \<Rightarrow> CAircraftModel list \<Rightarrow> CAircraftModel list" where
  "findNonDbModelsForAircraft d ms =
     filter (\<lambda>m. fst (matchesDesignator d (-1) (am_aircraftIcao m))) (findWithoutValidDbKey ms)"

definition findNonDbModelsForModelString :: "string \<Rightarrow> CAircraftModel list \<Rightarrow> CAircraftModel list" where
  "findNonDbModelsForModelString s ms = filter (matchesModelString False s) (findWithoutValidDbKey ms)"

definition findAllIncludedModels :: "CAircraftModel list \<Rightarrow> CAircraftModel list" where
  "findAllIncludedModels ms = filter (\<lambda>m. am_modelMode m = Include) ms"

definition findAllExcludedModels :: "CAircraftModel list \<Rightarrow> CAircraftModel list" where
  "findAllExcludedModels ms = filter (\<lambda>m. am_modelMode m = Exclude) ms"

definition models_matchesSimulator :: "CSimulatorInfo \<Rightarrow> CAircraftModel list \<Rightarrow> CAircraftModel list" where
  "models_matchesSimulator simulator ms = filter (model_matchesSimulator simulator) ms"

definition findModelsStartingWith :: "bool \<Rightarrow> string \<Rightarrow> CAircraftModel list \<Rightarrow> CAircraftModel list" where
  "findModelsStartingWith caseSensitive s ms =
     filter (\<lambda>m. if caseSensitive then startsWith (am_modelString m) s else startsWithCI (am_modelString m) s) ms"

definition findByModelStrings :: "bool \<Rightarrow> string list \<Rightarrow> CAircraftModel list \<Rightarrow> CAircraftModel list" where
  "findByModelStrings caseSensitive ss ms = filter (\<lambda>m. stringListContains caseSensitive ss (am_modelString m)) ms"

definition findByNotInModelStrings :: "bool \<Rightarrow> string list \<Rightarrow> CAircraftModel list \<Rightarrow> CAircraftModel list" where
  "findByNotInModelStrings caseSensitive ss ms = filter (\<lambda>m. \<not> stringListContains caseSensitive ss (am_modelString m)) ms"

definition designatorToFamily :: "CAircraftIcaoCode \<Rightarrow> CAircraftModel list \<Rightarrow> string" where
  "designatorToFamily icao ms =
     (if ic_family icao \<noteq> [] then ic_family icao
      else case find (\<lambda>m. ic_family (am_aircraftIcao m) \<noteq> []
                          \<and> fst (matchesDesignator (ic_designator icao) (-1) (am_aircraftIcao m))) ms of
             None \<Rightarrow> [] | Some m \<Rightarrow> ic_family (am_aircraftIcao m))"

subsection \<open>Counts\<close>

text \<open>The map is the list of its pairs; it is looked up by the model string and updated at the text of the mode.\<close>

definition countModelString :: "CAircraftModel \<Rightarrow> (string \<times> nat) list \<Rightarrow> (string \<times> nat) list" where
  "countModelString m counts =
     (let key = modelModeToString (am_modelMode m)
      in if map_of counts (am_modelString m) \<noteq> None
         then AList.update key (case map_of counts key of None \<Rightarrow> 1 | Some n \<Rightarrow> n + 1) counts
         else AList.update key 1 counts)"

definition countPerModelString :: "CAircraftModel list \<Rightarrow> (string \<times> nat) list" where
  "countPerModelString ms = fold countModelString ms []"

definition findDuplicateModelStrings :: "CAircraftModel list \<Rightarrow> CAircraftModel list" where
  "findDuplicateModelStrings ms =
     concat (map (\<lambda>(s, n). if 1 < n then findByModelString False s ms else []) (sort_key fst (countPerModelString ms)))"

text \<open>The airlines in the order of their first model.\<close>

fun countAirline :: "CAirlineIcaoCode \<Rightarrow> (CAirlineIcaoCode \<times> nat) list \<Rightarrow> (CAirlineIcaoCode \<times> nat) list" where
  "countAirline a [] = [(a, 1)]"
| "countAirline a ((b, n) # cs) = (if airline_equal a b then (b, n + 1) # cs else (b, n) # countAirline a cs)"

definition countPerAirlineIcao :: "CAircraftModel list \<Rightarrow> (CAirlineIcaoCode \<times> nat) list" where
  "countPerAirlineIcao ms = fold countAirline (map am_airline (filter hasAirlineDesignator ms)) []"

text \<open>The order of the keys in the map is a parameter.\<close>

definition getAirlineWithMaxCount ::
  "((CAirlineIcaoCode \<times> nat) list \<Rightarrow> (CAirlineIcaoCode \<times> nat) list) \<Rightarrow> CAircraftModel list \<Rightarrow> CAirlineIcaoCode" where
  "getAirlineWithMaxCount keyOrder ms =
     (let ac = keyOrder (countPerAirlineIcao ms)
      in case ac of
           [] \<Rightarrow> CAirlineIcaoCode_default
         | _ \<Rightarrow> fst (findFirstByOrDefault (CAirlineIcaoCode_default, 0) (\<lambda>p. snd p = Max (snd ` set ac)) ac))"

definition countPerSimulator :: "CAircraftModel list \<Rightarrow> CCountPerSimulator" where
  "countPerSimulator ms = fold (\<lambda>m. increaseSimulatorCounts (am_simulator m)) ms emptyCounts"

definition simulatorsWithMaxEntries :: "CAircraftModel list \<Rightarrow> CSimulatorInfo" where
  "simulatorsWithMaxEntries ms =
     (let counts = countPerSimulator ms
      in if ms = [] \<or> simulatorsRepresented counts < 1 then NoSimulator
         else fold (\<lambda>i s. s OR simulatorOfIndex i)
                (filter (\<lambda>i. counts ! i = Max (set counts)) [0..<length counts]) NoSimulator)"

definition simulatorsSupported :: "CAircraftModel list \<Rightarrow> CSimulatorInfo" where
  "simulatorsSupported ms = fold (\<lambda>m s. if s = AllSimulators then s else s OR am_simulator m) ms NoSimulator"

definition isLikely :: "int \<Rightarrow> nat \<Rightarrow> bool" where
  "isLikely n totalCount \<longleftrightarrow> 0 < totalCount \<and> 95 / 100 < (of_int n / of_nat totalCount :: rat)"

definition isLikelyFsFamilyModelList :: "CAircraftModel list \<Rightarrow> bool" where
  "isLikelyFsFamilyModelList ms \<longleftrightarrow>
     ms \<noteq> [] \<and> isLikely (getCountForFsFamilySimulators (countPerSimulator ms)) (length ms)"

definition isLikelyFsxFamilyModelList :: "CAircraftModel list \<Rightarrow> bool" where
  "isLikelyFsxFamilyModelList ms \<longleftrightarrow>
     ms \<noteq> [] \<and> isLikely (getCountForFsxFamilySimulators (countPerSimulator ms)) (length ms)"

definition isLikelyXPlaneModelList :: "CAircraftModel list \<Rightarrow> bool" where
  "isLikelyXPlaneModelList ms \<longleftrightarrow> ms \<noteq> [] \<and> isLikely (simCount XPLANE (countPerSimulator ms)) (length ms)"

definition countBy :: "(CAircraftModel \<Rightarrow> bool) \<Rightarrow> CAircraftModel list \<Rightarrow> nat" where
  "countBy p ms = length (filter p ms)"

definition countModelsWithColorLivery :: "CAircraftModel list \<Rightarrow> nat" where
  "countModelsWithColorLivery ms = countBy (\<lambda>m. isColorLivery (am_livery m)) ms"

definition countModelsWithAirlineLivery :: "CAircraftModel list \<Rightarrow> nat" where
  "countModelsWithAirlineLivery ms = countBy (\<lambda>m. isAirlineLivery (am_livery m)) ms"

definition countVtolAircraft :: "CAircraftModel list \<Rightarrow> nat" where "countVtolAircraft ms = countBy model_isVtol ms"
definition countByMode :: "32 word \<Rightarrow> CAircraftModel list \<Rightarrow> nat" where "countByMode mode ms = countBy (matchesMode mode) ms"
definition countMilitaryAircraft :: "CAircraftModel list \<Rightarrow> nat" where "countMilitaryAircraft ms = countBy model_isMilitary ms"
definition countCivilianAircraft :: "CAircraftModel list \<Rightarrow> nat" where "countCivilianAircraft ms = countBy isCivilian ms"
definition countAliases :: "CAircraftModel list \<Rightarrow> nat" where "countAliases ms = countBy hasModelStringAlias ms"

subsection \<open>Sets of attributes\<close>

definition getModelStringList :: "CAircraftModel list \<Rightarrow> string list" where
  "getModelStringList ms = map am_modelString (filter model_hasModelString ms)"

definition getAircraftDesignators :: "CAircraftModel list \<Rightarrow> string list" where
  "getAircraftDesignators ms = sortUnique (map am_designator (filter hasAircraftDesignator ms))"

definition getAirlineDesignators :: "CAircraftModel list \<Rightarrow> string list" where
  "getAirlineDesignators ms = sortUnique (map (\<lambda>m. al_designator (am_airline m)) (filter hasAirlineDesignator ms))"

definition getAirlineVDesignators :: "CAircraftModel list \<Rightarrow> string list" where
  "getAirlineVDesignators ms = sortUnique (map (\<lambda>m. getVDesignator (am_airline m)) (filter hasAirlineDesignator ms))"

definition getAircraftDesignatorsForAirline :: "CAirlineIcaoCode \<Rightarrow> CAircraftModel list \<Rightarrow> string list" where
  "getAircraftDesignatorsForAirline airline ms =
     (if \<not> hasValidAirline airline then []
      else sortUnique (map am_designator (filter (\<lambda>m. airline_equal (am_airline m) airline) ms)))"

definition getAicraftIcaoCodesForAirline :: "CAirlineIcaoCode \<Rightarrow> CAircraftModel list \<Rightarrow> CAircraftIcaoCode list" where
  "getAicraftIcaoCodesForAirline airline ms =
     (if \<not> hasValidAirline airline then []
      else map am_aircraftIcao (filter (\<lambda>m. airline_equal (am_airline m) airline) ms))"

fun firstPerKey :: "('a \<Rightarrow> int) \<Rightarrow> int list \<Rightarrow> 'a list \<Rightarrow> 'a list" where
  "firstPerKey key keys [] = []"
| "firstPerKey key keys (x # xs) =
     (if \<not> hasValidDbKey (key x) \<or> key x \<in> set keys then firstPerKey key keys xs
      else x # firstPerKey key (key x # keys) xs)"

definition getAircraftIcaoCodesFromDb :: "CAircraftModel list \<Rightarrow> CAircraftIcaoCode list" where
  "getAircraftIcaoCodesFromDb ms = firstPerKey ic_dbKey [] (map am_aircraftIcao ms)"

definition getAirlineIcaoCodesFromDb :: "CAircraftModel list \<Rightarrow> CAirlineIcaoCode list" where
  "getAirlineIcaoCodesFromDb ms = firstPerKey al_dbKey [] (map am_airline ms)"

definition getAirlineIcaoCodesForGroup :: "int \<Rightarrow> CAircraftModel list \<Rightarrow> CAirlineIcaoCode list" where
  "getAirlineIcaoCodesForGroup groupId ms =
     (if groupId < 0 then [] else filter (\<lambda>a. al_groupId a = groupId) (map am_airline ms))"

definition getCombinedTypes :: "CAircraftModel list \<Rightarrow> string list" where
  "getCombinedTypes ms = sortUnique (filter (\<lambda>t. t \<noteq> []) (map (\<lambda>m. ic_combinedType (am_aircraftIcao m)) ms))"

definition models_getDistributors :: "bool \<Rightarrow> CAircraftModel list \<Rightarrow> CDistributor list" where
  "models_getDistributors onlyDbDistributors ms =
     fold (\<lambda>m ds. if onlyDbDistributors \<and> \<not> distributor_hasValidDbKey (am_distributor m) then ds
                  else if list_ex (\<lambda>d. distributor_equal d (am_distributor m)) ds then ds
                  else ds @ [am_distributor m]) ms []"

subsection \<open>Changing a list\<close>

text \<open>A member is set in the models that do not have it yet; the result is their number.\<close>

definition setWhere :: "(CAircraftModel \<Rightarrow> bool) \<Rightarrow> (CAircraftModel \<Rightarrow> CAircraftModel) \<Rightarrow> CAircraftModel list
   \<Rightarrow> CAircraftModel list \<times> nat" where
  "setWhere same upd ms = (map (\<lambda>m. if same m then m else upd m) ms, length (filter (\<lambda>m. \<not> same m) ms))"

definition models_setSimulatorInfo :: "CSimulatorInfo \<Rightarrow> CAircraftModel list \<Rightarrow> CAircraftModel list \<times> nat" where
  "models_setSimulatorInfo info ms = setWhere (\<lambda>m. am_simulator m = info) (am_simulator_update (\<lambda>_. info)) ms"

definition models_setModelMode :: "ModelMode \<Rightarrow> CAircraftModel list \<Rightarrow> CAircraftModel list \<times> nat" where
  "models_setModelMode mode ms = setWhere (\<lambda>m. am_modelMode m = mode) (am_modelMode_update (\<lambda>_. mode)) ms"

definition models_setModelType :: "ModelType \<Rightarrow> CAircraftModel list \<Rightarrow> CAircraftModel list \<times> nat" where
  "models_setModelType t ms = setWhere (\<lambda>m. am_modelType m = t) (am_modelType_update (\<lambda>_. t)) ms"

definition models_setCG :: "PQ \<Rightarrow> CAircraftModel list \<Rightarrow> CAircraftModel list \<times> nat" where
  "models_setCG cg ms = setWhere (\<lambda>m. equals (am_cg m) cg) (am_cg_update (\<lambda>_. cg)) ms"

definition keepModelsWithString :: "bool \<Rightarrow> string list \<Rightarrow> CAircraftModel list \<Rightarrow> CAircraftModel list \<times> nat" where
  "keepModelsWithString caseSensitive ss ms =
     (let ms' = findByModelStrings caseSensitive ss ms in (ms', length ms - length ms'))"

definition removeModelWithString :: "bool \<Rightarrow> string \<Rightarrow> CAircraftModel list \<Rightarrow> CAircraftModel list \<times> bool" where
  "removeModelWithString caseSensitive s ms =
     (if s = [] \<or> ms = [] then (ms, False)
      else (filter (\<lambda>m. \<not> matchesModelString caseSensitive s m) ms, list_ex (matchesModelString caseSensitive s) ms))"

definition removeModelStrings :: "bool \<Rightarrow> string list \<Rightarrow> CAircraftModel list \<Rightarrow> CAircraftModel list \<times> nat" where
  "removeModelStrings caseSensitive ss ms =
     (if ss = [] then (ms, 0)
      else let ms' = findByNotInModelStrings caseSensitive ss ms in (ms', length ms - length ms'))"

definition removeModelsWithString :: "bool \<Rightarrow> CAircraftModel list \<Rightarrow> CAircraftModel list \<Rightarrow> CAircraftModel list \<times> nat" where
  "removeModelsWithString caseSensitive models ms =
     (if models = [] then (ms, 0) else removeModelStrings caseSensitive (getModelStringList models) ms)"

definition removeIfNotMatchingSimulator :: "CSimulatorInfo \<Rightarrow> CAircraftModel list \<Rightarrow> CAircraftModel list \<times> int" where
  "removeIfNotMatchingSimulator needToMatch ms =
     (if ms = [] then (ms, 0)
      else
        let models = filter (model_matchesSimulator needToMatch) ms;
            diff = int (length models) - int (length ms)
        in (if 0 < diff then models else ms, diff))"

definition keepIf :: "(CAircraftModel \<Rightarrow> bool) \<Rightarrow> CAircraftModel list \<Rightarrow> CAircraftModel list \<times> int" where
  "keepIf p ms =
     (if ms = [] then (ms, 0)
      else
        let kept = filter p ms;
            diff = int (length ms) - int (length kept)
        in if diff < 1 then (ms, 0) else (kept, diff))"

definition removeAllWithoutModelString :: "CAircraftModel list \<Rightarrow> CAircraftModel list \<times> int" where
  "removeAllWithoutModelString ms = keepIf model_hasModelString ms"

definition removeIfExcluded :: "CAircraftModel list \<Rightarrow> CAircraftModel list \<times> int" where
  "removeIfExcluded ms = keepIf (\<lambda>m. am_modelMode m \<noteq> Exclude) ms"

definition removeIfNotFsFamily :: "CAircraftModel list \<Rightarrow> CAircraftModel list \<times> int" where
  "removeIfNotFsFamily ms = keepIf (\<lambda>m. isMicrosoftOrPrepare3DSimulator (am_simulator m)) ms"

definition removeObjectsWithoutDbKey :: "CAircraftModel list \<Rightarrow> CAircraftModel list \<times> int" where
  "removeObjectsWithoutDbKey ms =
     (let kept = filter (\<lambda>m. hasValidDbKey (am_dbKey m)) ms in (kept, int (length ms) - int (length kept)))"

definition removeByDistributor :: "CDistributor \<Rightarrow> CAircraftModel list \<Rightarrow> CAircraftModel list" where
  "removeByDistributor d ms = filter (\<lambda>m. \<not> distributor_equal (am_distributor m) d) ms"

definition removeByAircraftAndLivery :: "CAircraftIcaoCode \<Rightarrow> CLivery \<Rightarrow> CAircraftModel list \<Rightarrow> CAircraftModel list" where
  "removeByAircraftAndLivery aircraft livery ms =
     filter (\<lambda>m. \<not> (am_aircraftIcao m = aircraft \<and> livery_equal (am_livery m) livery)) ms"

definition removeByAircraftAndAirline :: "CAircraftIcaoCode \<Rightarrow> CAirlineIcaoCode \<Rightarrow> CAircraftModel list \<Rightarrow> CAircraftModel list" where
  "removeByAircraftAndAirline aircraft airline ms =
     filter (\<lambda>m. \<not> (am_aircraftIcao m = aircraft \<and> airline_equal (am_airline m) airline)) ms"

definition replaceOrAddModelWithString :: "bool \<Rightarrow> CAircraftModel \<Rightarrow> CAircraftModel list \<Rightarrow> CAircraftModel list \<times> bool" where
  "replaceOrAddModelWithString caseSensitive model ms =
     (let (ms', r) = (if ms \<noteq> [] then removeModelWithString caseSensitive (am_modelString model) ms else (ms, False))
      in (ms' @ [model], r))"

definition replaceOrAddModelsWithString :: "bool \<Rightarrow> CAircraftModel list \<Rightarrow> CAircraftModel list \<Rightarrow> CAircraftModel list \<times> int" where
  "replaceOrAddModelsWithString caseSensitive addOrReplaceList ms =
     (if addOrReplaceList = [] then (ms, 0)
      else if ms = [] then (addOrReplaceList, int (length addOrReplaceList))
      else
        let rest = fst (removeModelStrings caseSensitive (getModelStringList addOrReplaceList) ms);
            new = rest @ addOrReplaceList
        in (new, int (length new) - int (length rest)))"

definition updateDistributor :: "CDistributor \<Rightarrow> CAircraftModel list \<Rightarrow> CAircraftModel list" where
  "updateDistributor d ms = map (\<lambda>m. m\<lparr>am_distributor := d\<rparr>) ms"

definition updateAircraftIcao :: "CAircraftIcaoCode \<Rightarrow> CAircraftModel list \<Rightarrow> CAircraftModel list" where
  "updateAircraftIcao icao ms = map (\<lambda>m. fst (model_setAircraftIcaoCode icao m)) ms"

definition updateLivery :: "CLivery \<Rightarrow> CAircraftModel list \<Rightarrow> CAircraftModel list" where
  "updateLivery livery ms = map (\<lambda>m. m\<lparr>am_livery := livery\<rparr>) ms"

definition updateDistributorOrder :: "CDistributor list \<Rightarrow> CAircraftModel list \<Rightarrow> CAircraftModel list \<times> nat" where
  "updateDistributorOrder ds ms =
     (if ds = [] then (ms, 0)
      else (map (\<lambda>m. fst (setDistributorOrderOf ds m)) ms, length (filter (\<lambda>m. snd (setDistributorOrderOf ds m)) ms)))"

subsection \<open>Scores\<close>

text \<open>The scored models, in the order they were put into the map.\<close>

definition scoreFull :: "CAircraftModel \<Rightarrow> bool \<Rightarrow> bool \<Rightarrow> CAircraftModel list \<Rightarrow> (int \<times> CAircraftModel) list" where
  "scoreFull remoteModel preferColorLiveries ignoreZeroScores ms =
     filter (\<lambda>p. \<not> (ignoreZeroScores \<and> fst p < 1))
       (map (\<lambda>m. (model_calculateScore remoteModel preferColorLiveries m, m)) ms)"

subsection \<open>Checks\<close>

definition addAsValidOrInvalidModel ::
  "CAircraftModel \<Rightarrow> bool \<Rightarrow> CAircraftModel list \<times> CAircraftModel list \<Rightarrow> CAircraftModel list \<times> CAircraftModel list" where
  "addAsValidOrInvalidModel model ok lists0 =
     (let (validModels, invalidModels) = lists0
      in if ok then (validModels @ [model], fst (removeModelWithString False (am_modelString model) invalidModels))
         else (fst (removeModelWithString False (am_modelString model) validModels), invalidModels @ [model]))"

text \<open>The models without a distributor are reported by their model strings.\<close>

definition validateDistributors ::
  "CDistributor list \<Rightarrow> CAircraftModel list \<Rightarrow> CAircraftModel list \<times> CAircraftModel list
   \<Rightarrow> string list \<times> CAircraftModel list \<times> CAircraftModel list" where
  "validateDistributors distributors ms lists0 =
     (let fromDb = distributorsFromDb distributors
      in if fromDb = [] then
           ([''No DB distributors for validation''], fold (\<lambda>m. addAsValidOrInvalidModel m False) ms lists0)
         else
           let ok = (\<lambda>m. hasDbDistributor m \<or> matchesAnyDbDistributor fromDb m)
           in (map am_modelString (filter (\<lambda>m. \<not> ok m) ms), fold (\<lambda>m. addAsValidOrInvalidModel m (ok m)) ms lists0))"

text \<open>The files that failed and the files that were found so far, and the number of failures.\<close>

record FileCheck =
  fc_failedFiles :: "string list"
  fc_workingFiles :: "string list"
  fc_failedCount :: nat

definition fileNameForCheck :: "bool \<Rightarrow> CAircraftModel \<Rightarrow> string" where
  "fileNameForCheck caseSensitive m = (if caseSensitive then am_fileName m else toLower (am_fileName m))"

definition failFile :: "string \<Rightarrow> FileCheck \<Rightarrow> FileCheck" where
  "failFile fn c = c\<lparr>fc_failedFiles := fn # fc_failedFiles c, fc_failedCount := fc_failedCount c + 1\<rparr>"

definition checkFile ::
  "(string \<Rightarrow> bool) \<Rightarrow> bool \<Rightarrow> string option \<Rightarrow> CAircraftModel \<Rightarrow> FileCheck \<Rightarrow> bool \<times> FileCheck" where
  "checkFile exists caseSensitive simRootDir m c =
     (let fn = fileNameForCheck caseSensitive m
      in if \<not> model_hasModelString m then (False, c)
         else if am_fileName m = [] then (False, c)
         else if fn \<in> set (fc_failedFiles c) then (False, c)
         else if fn \<in> set (fc_workingFiles c) \<or> exists (am_fileName m) then
           (case simRootDir of
              Some rootDir \<Rightarrow> if \<not> containsStr fn rootDir then (False, failFile fn c)
                           else (True, c\<lparr>fc_workingFiles := fn # fc_workingFiles c\<rparr>)
            | None \<Rightarrow> (True, c\<lparr>fc_workingFiles := fn # fc_workingFiles c\<rparr>))
         else (False, failFile fn c))"

text \<open>The models in the order of their file names; the result says whether the check was stopped.\<close>

fun validateFilesLoop ::
  "(string \<Rightarrow> bool) \<Rightarrow> bool \<Rightarrow> string option \<Rightarrow> nat \<Rightarrow> CAircraftModel list \<Rightarrow> FileCheck
   \<Rightarrow> CAircraftModel list \<times> CAircraftModel list \<Rightarrow> bool \<times> CAircraftModel list \<times> CAircraftModel list" where
  "validateFilesLoop exists caseSensitive simRootDir stopAt [] c lists0 = (False, lists0)"
| "validateFilesLoop exists caseSensitive simRootDir stopAt (m # ms) c lists0 =
     (let (ok, c') = checkFile exists caseSensitive simRootDir m c;
          lists1 = addAsValidOrInvalidModel m ok lists0
      in if 0 < stopAt \<and> stopAt \<le> fc_failedCount c' then (True, lists1)
         else validateFilesLoop exists caseSensitive simRootDir stopAt ms c' lists1)"

definition validateFiles ::
  "(string \<Rightarrow> bool) \<Rightarrow> bool \<Rightarrow> string option \<Rightarrow> nat \<Rightarrow> CAircraftModel list
   \<Rightarrow> CAircraftModel list \<times> CAircraftModel list \<Rightarrow> bool \<times> CAircraftModel list \<times> CAircraftModel list" where
  "validateFiles exists caseSensitive simRootDir stopAt sortedModels lists0 =
     validateFilesLoop exists caseSensitive simRootDir stopAt sortedModels
       \<lparr>fc_failedFiles = [], fc_workingFiles = [], fc_failedCount = 0\<rparr> lists0"

end
