(* ===== verification/Matcher_Setup.thy ===== *)
theory Matcher_Setup
  imports Simulator_Info
begin

text \<open>
  The settings of the aircraft matcher, \<open>CAircraftMatcherSetup\<close>
  (\<open>src/misc/simulation/aircraftmatchersetup.cpp\<close>): algorithm, mode flags, force flags, pick
  strategy and the two scripts. Flags are an \<open>int\<close>; a flag of the mode can be made of several
  bits, and the flags of the ICAO data all have the bit of \<open>ByIcaoData\<close>.
\<close>

unbundle bit_operations_syntax

datatype MatchingAlgorithm =
  MatchingScoreBased | MatchingStepwiseReducePlusScoreBased | MatchingStepwiseReduce

datatype PickSimilarStrategy = PickFirst | PickRandom | PickByOrder

type_synonym MatchingMode = "32 word"

definition ByModelString :: MatchingMode where "ByModelString = push_bit 0 1"
definition ByIcaoData :: MatchingMode where "ByIcaoData = push_bit 1 1"
definition ByFamily :: MatchingMode where "ByFamily = push_bit 2 1"
definition ByLivery :: MatchingMode where "ByLivery = push_bit 3 1"
definition ByCombinedType :: MatchingMode where "ByCombinedType = push_bit 4 1"
definition ByManufacturer :: MatchingMode where "ByManufacturer = push_bit 5 1"
definition ByMilitary :: MatchingMode where "ByMilitary = push_bit 6 1"
definition ByCivilian :: MatchingMode where "ByCivilian = push_bit 7 1"
definition ByMilOrCivilian :: MatchingMode where "ByMilOrCivilian = ByCivilian OR ByMilitary"
definition ByVtol :: MatchingMode where "ByVtol = push_bit 8 1"
definition ByIcaoOrderAircraftFirst :: MatchingMode where "ByIcaoOrderAircraftFirst = push_bit 9 1 OR ByIcaoData"
definition ByIcaoOrderAirlineFirst :: MatchingMode where "ByIcaoOrderAirlineFirst = push_bit 10 1 OR ByIcaoData"
definition ByAirlineGroupSameAsAirline :: MatchingMode where "ByAirlineGroupSameAsAirline = push_bit 11 1 OR ByIcaoData"
definition ByAirlineGroupIfNoAirline :: MatchingMode where "ByAirlineGroupIfNoAirline = push_bit 12 1 OR ByIcaoData"
definition ExcludeNoDbData :: MatchingMode where "ExcludeNoDbData = push_bit 13 1"
definition ExcludeNoExcluded :: MatchingMode where "ExcludeNoExcluded = push_bit 14 1"
definition ExcludeDefault :: MatchingMode where "ExcludeDefault = ExcludeNoExcluded OR ExcludeNoDbData"
definition ModelSetRemoveFailedModel :: MatchingMode where "ModelSetRemoveFailedModel = push_bit 15 1"
definition ModelVerificationAtStartup :: MatchingMode where "ModelVerificationAtStartup = push_bit 16 1"
definition ModelFailoverIfNoModelCanBeAdded :: MatchingMode where "ModelFailoverIfNoModelCanBeAdded = push_bit 17 1"
definition ModelVerificationOnlyWarnError :: MatchingMode where "ModelVerificationOnlyWarnError = push_bit 18 1"
definition ByCategoryGlider :: MatchingMode where "ByCategoryGlider = push_bit 20 1"
definition ByCategoryMilitary :: MatchingMode where "ByCategoryMilitary = push_bit 21 1"
definition ByCategorySmallAircraft :: MatchingMode where "ByCategorySmallAircraft = push_bit 22 1"
definition ReverseLookupModelString :: MatchingMode where "ReverseLookupModelString = push_bit 25 1"
definition ReverseLookupSwiftLiveryIds :: MatchingMode where "ReverseLookupSwiftLiveryIds = push_bit 26 1"

definition ReverseLookupDefault :: MatchingMode where
  "ReverseLookupDefault = ReverseLookupModelString OR ReverseLookupSwiftLiveryIds"

definition ScoreIgnoreZeros :: MatchingMode where "ScoreIgnoreZeros = push_bit 28 1"
definition ScorePreferColorLiveries :: MatchingMode where "ScorePreferColorLiveries = push_bit 29 1"
definition ModeNone :: MatchingMode where "ModeNone = 0"
definition ModeByFLags :: MatchingMode where "ModeByFLags = ByMilOrCivilian OR ByVtol"

definition ModeDefaultSet :: MatchingMode where
  "ModeDefaultSet = ModelSetRemoveFailedModel OR ModelVerificationAtStartup
     OR ModelVerificationOnlyWarnError OR ModelFailoverIfNoModelCanBeAdded"

definition ModeDefaultScore :: MatchingMode where
  "ModeDefaultScore = ScoreIgnoreZeros OR ScorePreferColorLiveries OR ExcludeDefault OR ReverseLookupDefault"

definition ModeDefaultReduce :: MatchingMode where
  "ModeDefaultReduce = ModeByFLags OR ByModelString OR ByFamily OR ByManufacturer OR ByCombinedType
     OR ByIcaoOrderAircraftFirst OR ByAirlineGroupIfNoAirline OR ReverseLookupDefault OR ExcludeDefault OR ByLivery"

definition ModeDefaultReducePlusScore :: MatchingMode where
  "ModeDefaultReducePlusScore = ModeByFLags OR ByModelString OR ByFamily OR ByManufacturer OR ByCombinedType
     OR ByIcaoOrderAircraftFirst OR ByAirlineGroupIfNoAirline OR ReverseLookupDefault OR ExcludeDefault OR ModeDefaultScore"

definition ForceNothing :: "32 word" where "ForceNothing = 0"
definition ForceType :: "32 word" where "ForceType = push_bit 0 1"
definition ForceEnginecount :: "32 word" where "ForceEnginecount = push_bit 1 1"
definition ForceEngine :: "32 word" where "ForceEngine = push_bit 2 1"

lemmas mode_simple_flags = ByModelString_def ByIcaoData_def ByFamily_def ByLivery_def ByCombinedType_def
  ByManufacturer_def ByMilitary_def ByCivilian_def ByVtol_def ExcludeNoDbData_def ExcludeNoExcluded_def
  ModelSetRemoveFailedModel_def ModelVerificationAtStartup_def ModelFailoverIfNoModelCanBeAdded_def
  ModelVerificationOnlyWarnError_def ByCategoryGlider_def ByCategoryMilitary_def ByCategorySmallAircraft_def
  ReverseLookupModelString_def ReverseLookupSwiftLiveryIds_def ScoreIgnoreZeros_def ScorePreferColorLiveries_def
  ModeNone_def

lemmas mode_compound_flags = ByMilOrCivilian_def ByIcaoOrderAircraftFirst_def ByIcaoOrderAirlineFirst_def
  ByAirlineGroupSameAsAirline_def ByAirlineGroupIfNoAirline_def ExcludeDefault_def ReverseLookupDefault_def
  ModeByFLags_def ModeDefaultSet_def ModeDefaultScore_def ModeDefaultReduce_def ModeDefaultReducePlusScore_def

text \<open>\<open>setFlag\<close> of \<open>QFlags\<close>.\<close>

definition setFlag :: "32 word \<Rightarrow> bool \<Rightarrow> 32 word \<Rightarrow> 32 word" where
  "setFlag flag on flags = (if on then flags OR flag else flags AND NOT flag)"

record CAircraftMatcherSetup =
  ms_algorithm :: MatchingAlgorithm
  ms_mode :: MatchingMode
  ms_strategy :: PickSimilarStrategy
  ms_force :: "32 word"
  ms_msReverseLookupFile :: string
  ms_msMatchingStageFile :: string
  ms_msReverseEnabled :: bool
  ms_msMatchingEnabled :: bool

definition resetAlgorithm :: "MatchingAlgorithm \<Rightarrow> CAircraftMatcherSetup \<Rightarrow> CAircraftMatcherSetup" where
  "resetAlgorithm algorithm s =
     s\<lparr>ms_algorithm := algorithm,
       ms_mode := (case algorithm of
                     MatchingStepwiseReduce \<Rightarrow> ModeDefaultReduce
                   | MatchingScoreBased \<Rightarrow> ModeDefaultScore
                   | MatchingStepwiseReducePlusScoreBased \<Rightarrow> ModeDefaultReducePlusScore) OR ModeDefaultSet,
       ms_strategy := PickByOrder\<rparr>"

definition setup_reset :: "CAircraftMatcherSetup \<Rightarrow> CAircraftMatcherSetup" where
  "setup_reset s =
     (resetAlgorithm MatchingStepwiseReducePlusScoreBased s)
       \<lparr>ms_msReverseLookupFile := [], ms_msMatchingStageFile := [], ms_msReverseEnabled := False,
        ms_msMatchingEnabled := False\<rparr>"

definition setup_members :: CAircraftMatcherSetup where
  "setup_members = \<lparr>ms_algorithm = MatchingStepwiseReducePlusScoreBased, ms_mode = ModeDefaultReducePlusScore,
     ms_strategy = PickByOrder, ms_force = ForceNothing, ms_msReverseLookupFile = [], ms_msMatchingStageFile = [],
     ms_msReverseEnabled = False, ms_msMatchingEnabled = False\<rparr>"

definition CAircraftMatcherSetup_default :: CAircraftMatcherSetup where
  "CAircraftMatcherSetup_default = setup_reset setup_members"

definition CAircraftMatcherSetup_ofAlgorithm :: "MatchingAlgorithm \<Rightarrow> CAircraftMatcherSetup" where
  "CAircraftMatcherSetup_ofAlgorithm algorithm = resetAlgorithm algorithm setup_members"

definition setMatchingAlgorithm :: "MatchingAlgorithm \<Rightarrow> bool \<Rightarrow> CAircraftMatcherSetup \<Rightarrow> bool \<times> CAircraftMatcherSetup" where
  "setMatchingAlgorithm algorithm doReset s =
     (if ms_algorithm s = algorithm then (False, s)
      else if doReset then (True, resetAlgorithm algorithm s)
      else (True, s\<lparr>ms_algorithm := algorithm\<rparr>))"

definition setMatchingMode :: "MatchingMode \<Rightarrow> CAircraftMatcherSetup \<Rightarrow> CAircraftMatcherSetup" where
  "setMatchingMode mode s = s\<lparr>ms_mode := mode\<rparr>"

definition CAircraftMatcherSetup_of ::
  "MatchingAlgorithm \<Rightarrow> MatchingMode \<Rightarrow> PickSimilarStrategy \<Rightarrow> CAircraftMatcherSetup" where
  "CAircraftMatcherSetup_of algorithm mode pickStrategy =
     setMatchingMode mode (snd (setMatchingAlgorithm algorithm False (setup_members\<lparr>ms_strategy := pickStrategy\<rparr>)))"

definition inMode :: "MatchingMode \<Rightarrow> CAircraftMatcherSetup \<Rightarrow> bool" where
  "inMode flag s \<longleftrightarrow> testFlag (ms_mode s) flag"

definition isReverseLookupModelString :: "CAircraftMatcherSetup \<Rightarrow> bool" where
  "isReverseLookupModelString s \<longleftrightarrow> inMode ReverseLookupModelString s"

definition isReverseLookupSwiftLiveryIds :: "CAircraftMatcherSetup \<Rightarrow> bool" where
  "isReverseLookupSwiftLiveryIds s \<longleftrightarrow> inMode ReverseLookupSwiftLiveryIds s"

text \<open>Despite its name, it switches the lookup on.\<close>

definition resetReverseLookup :: "CAircraftMatcherSetup \<Rightarrow> CAircraftMatcherSetup" where
  "resetReverseLookup s = setMatchingMode (setFlag ReverseLookupDefault True (ms_mode s)) s"

definition isDbDataOnly :: "CAircraftMatcherSetup \<Rightarrow> bool" where "isDbDataOnly s \<longleftrightarrow> inMode ExcludeNoDbData s"

definition doRunMsReverseLookupScript :: "CAircraftMatcherSetup \<Rightarrow> bool" where
  "doRunMsReverseLookupScript s \<longleftrightarrow> ms_msReverseEnabled s \<and> ms_msReverseLookupFile s \<noteq> []"

definition doRunMsMatchingStageScript :: "CAircraftMatcherSetup \<Rightarrow> bool" where
  "doRunMsMatchingStageScript s \<longleftrightarrow> ms_msMatchingEnabled s \<and> ms_msMatchingStageFile s \<noteq> []"

definition doVerificationAtStartup :: "CAircraftMatcherSetup \<Rightarrow> bool" where
  "doVerificationAtStartup s \<longleftrightarrow> inMode ModelVerificationAtStartup s"

definition onlyShowVerificationWarningsAndErrors :: "CAircraftMatcherSetup \<Rightarrow> bool" where
  "onlyShowVerificationWarningsAndErrors s \<longleftrightarrow> inMode ModelVerificationOnlyWarnError s"

definition doModelAddFailover :: "CAircraftMatcherSetup \<Rightarrow> bool" where
  "doModelAddFailover s \<longleftrightarrow> inMode ModelFailoverIfNoModelCanBeAdded s"

definition removeFromSetIfFailed :: "CAircraftMatcherSetup \<Rightarrow> bool" where
  "removeFromSetIfFailed s \<longleftrightarrow> inMode ModelSetRemoveFailedModel s"

definition setVerificationAtStartup :: "bool \<Rightarrow> CAircraftMatcherSetup \<Rightarrow> CAircraftMatcherSetup" where
  "setVerificationAtStartup verify s = setMatchingMode (setFlag ModelVerificationAtStartup verify (ms_mode s)) s"

definition setOnlyShowVerificationWarningsAndErrors :: "bool \<Rightarrow> CAircraftMatcherSetup \<Rightarrow> CAircraftMatcherSetup" where
  "setOnlyShowVerificationWarningsAndErrors only s =
     setMatchingMode (setFlag ModelVerificationOnlyWarnError only (ms_mode s)) s"

definition setAirlineGroupBehaviour :: "bool \<Rightarrow> bool \<Rightarrow> CAircraftMatcherSetup \<Rightarrow> CAircraftMatcherSetup" where
  "setAirlineGroupBehaviour ifNoAirline sameAsAirline s =
     (let icao = testFlag (ms_mode s) ByIcaoData;
          m = setFlag ByAirlineGroupIfNoAirline ifNoAirline (ms_mode s);
          m = setFlag ByAirlineGroupSameAsAirline sameAsAirline m;
          m = setFlag ByIcaoData icao m
      in setMatchingMode m s)"

definition useCategoryMatching :: "CAircraftMatcherSetup \<Rightarrow> bool" where
  "useCategoryMatching s \<longleftrightarrow> inMode ByCategoryGlider s \<or> inMode ByCategoryMilitary s"

subsection \<open>Texts\<close>

definition algorithmToString :: "MatchingAlgorithm \<Rightarrow> string" where
  "algorithmToString algorithm =
     (case algorithm of
        MatchingStepwiseReduce \<Rightarrow> ''stepwise reduce''
      | MatchingScoreBased \<Rightarrow> ''score based''
      | MatchingStepwiseReducePlusScoreBased \<Rightarrow> ''reduce + score based'')"

definition modeFlagToString :: "MatchingMode \<Rightarrow> string" where
  "modeFlagToString f =
     (case map_of
        [(ReverseLookupModelString, ''reverse model lookup''), (ReverseLookupSwiftLiveryIds, ''reverse livery ids''),
         (ByModelString, ''by model string''), (ByIcaoData, ''by ICAO''), (ByFamily, ''by family''),
         (ByLivery, ''by livery''), (ByCombinedType, ''by combined code''),
         (ByIcaoOrderAircraftFirst, ''by ICAO aircraft first''), (ByIcaoOrderAirlineFirst, ''by ICAO airline first''),
         (ByCivilian, ''by civilian''), (ByMilitary, ''by military''), (ByVtol, ''VTOL''),
         (ByCategoryGlider, ''glider categories''), (ByCategoryMilitary, ''military categories''),
         (ByCategorySmallAircraft, ''small aircraft categories''),
         (ScoreIgnoreZeros, ''scoring, ignore zero scores''),
         (ScorePreferColorLiveries, ''scoring, prefer color liveries''), (ExcludeNoDbData, ''excl.without DB data''),
         (ExcludeNoExcluded, ''excl.excluded''), (ModelSetRemoveFailedModel, ''rem.from model set''),
         (ModelVerificationAtStartup, ''Verify models at startup''),
         (ByAirlineGroupIfNoAirline, ''group if no airline''), (ByAirlineGroupSameAsAirline, ''group as airline''),
         (ModelVerificationOnlyWarnError, ''Show only validation warnings/errors''),
         (ModelFailoverIfNoModelCanBeAdded, ''Replace models failed to be added'')] f of
        None \<Rightarrow> ''unknown'' | Some t \<Rightarrow> t)"

definition modeTextOrder :: "MatchingMode list" where
  "modeTextOrder =
     [ReverseLookupModelString, ReverseLookupSwiftLiveryIds, ByModelString, ByIcaoData, ByIcaoOrderAircraftFirst,
      ByIcaoOrderAirlineFirst, ByFamily, ByLivery, ByCombinedType, ByCivilian, ByMilitary, ByCategoryGlider,
      ByCategoryMilitary, ByCategorySmallAircraft, ByVtol, ScoreIgnoreZeros, ScorePreferColorLiveries,
      ModelSetRemoveFailedModel, ModelVerificationAtStartup, ByAirlineGroupIfNoAirline, ByAirlineGroupSameAsAirline,
      ModelVerificationOnlyWarnError, ModelFailoverIfNoModelCanBeAdded]"

definition setup_modeToString :: "MatchingMode \<Rightarrow> string" where
  "setup_modeToString mode = qjoin '', '' (map modeFlagToString (filter (testFlag mode) modeTextOrder))"

definition forceFlagToString :: "32 word \<Rightarrow> string" where
  "forceFlagToString f =
     (if f = ForceType then ''type'' else if f = ForceEnginecount then ''engine count''
      else if f = ForceEngine then ''engine'' else ''nothing'')"

definition forceToString :: "32 word \<Rightarrow> string" where
  "forceToString force =
     (if testFlag force ForceNothing then ''nothing''
      else qjoin '', '' (map forceFlagToString (filter (testFlag force) [ForceType, ForceEnginecount, ForceEngine])))"

definition strategyToString :: "PickSimilarStrategy \<Rightarrow> string" where
  "strategyToString strategy =
     (case strategy of PickFirst \<Rightarrow> ''first'' | PickByOrder \<Rightarrow> ''order'' | PickRandom \<Rightarrow> ''random'')"

definition boolToOnOff :: "bool \<Rightarrow> string" where "boolToOnOff v = (if v then ''on'' else ''off'')"

definition setup_toString :: "CAircraftMatcherSetup \<Rightarrow> string" where
  "setup_toString s =
     ''algorithm: '' @ [CHR 0x27] @ algorithmToString (ms_algorithm s) @ [CHR 0x27] @ '' mode: '' @ [CHR 0x27]
     @ setup_modeToString (ms_mode s) @ [CHR 0x27] @ '' force: '' @ [CHR 0x27] @ forceToString (ms_force s)
     @ [CHR 0x27] @ '' strategy: '' @ [CHR 0x27] @ strategyToString (ms_strategy s) @ [CHR 0x27]
     @ '' matching script: '' @ boolToOnOff (ms_msReverseEnabled s) @ ''/'' @ boolToOnOff (ms_msMatchingEnabled s)"

subsection \<open>Mode by flags\<close>

definition addMode :: "bool \<Rightarrow> MatchingMode \<Rightarrow> MatchingMode \<Rightarrow> MatchingMode" where
  "addMode b flag mode = (if b then mode OR flag else mode)"

definition matchingMode ::
  "bool \<Rightarrow> bool \<Rightarrow> bool \<Rightarrow> bool \<Rightarrow> bool \<Rightarrow> bool \<Rightarrow> bool \<Rightarrow> bool \<Rightarrow> bool \<Rightarrow> bool \<Rightarrow> bool \<Rightarrow> bool \<Rightarrow> bool \<Rightarrow> bool
   \<Rightarrow> bool \<Rightarrow> bool \<Rightarrow> bool \<Rightarrow> bool \<Rightarrow> bool \<Rightarrow> bool \<Rightarrow> bool \<Rightarrow> bool \<Rightarrow> MatchingMode" where
  "matchingMode revModelString revLiveryIds byModelString byIcaoDataAircraft1st byIcaoDataAirline1st byFamily
     byLivery byCombinedType byMilitary byCivilian byVtol byGliderCategory byMilitaryCategory
     bySmallAircraftCategory scoreIgnoreZeros scorePreferColorLiveries excludeNoDbData excludeNoExcluded
     modelVerification modelVerificationWarnError modelSetRemoveFailedModel modelFailover =
     fold (\<lambda>(b, flag). addMode b flag)
       [(byIcaoDataAircraft1st, ByIcaoOrderAircraftFirst), (byIcaoDataAirline1st, ByIcaoOrderAirlineFirst),
        (byFamily, ByFamily), (byLivery, ByLivery), (byCombinedType, ByCombinedType), (byMilitary, ByMilitary),
        (byCivilian, ByCivilian), (byVtol, ByVtol), (byGliderCategory, ByCategoryGlider),
        (byMilitaryCategory, ByCategoryMilitary), (bySmallAircraftCategory, ByCategorySmallAircraft),
        (scoreIgnoreZeros, ScoreIgnoreZeros), (scorePreferColorLiveries, ScorePreferColorLiveries),
        (excludeNoDbData, ExcludeNoDbData), (excludeNoExcluded, ExcludeNoExcluded),
        (modelFailover \<or> modelSetRemoveFailedModel, ModelSetRemoveFailedModel),
        (modelVerification, ModelVerificationAtStartup), (modelVerificationWarnError, ModelVerificationOnlyWarnError),
        (modelFailover, ModelFailoverIfNoModelCanBeAdded), (revModelString, ReverseLookupModelString),
        (revLiveryIds, ReverseLookupSwiftLiveryIds)]
       (if byModelString then ByModelString else ModeNone)"

end
