(* ===== verification/Category_Matcher.thy ===== *)
theory Category_Matcher
  imports Model_List Matcher_Setup
begin

text \<open>
  The category matcher, \<open>CCategoryMatcher\<close> (\<open>src/misc/simulation/categorymatcher.cpp\<close>): the
  categories of gliders and of military aircraft, and the reduction of models by the category of
  the remote aircraft. Of the remote aircraft only its model is used; the messages of the log are
  left out. The library's sort by level is a parameter. The result is \<^const>\<open>None\<close> where the
  search in the parallel branch is.
\<close>

record CCategoryMatcher =
  cm_all :: "CAircraftCategory list"
  cm_gliders :: "CAircraftCategory list"
  cm_militaryWingAircraft :: "CAircraftCategory list"
  cm_militaryRotorAircraft :: "CAircraftCategory list"

definition CCategoryMatcher_default :: CCategoryMatcher where
  "CCategoryMatcher_default =
     \<lparr>cm_all = [], cm_gliders = [], cm_militaryWingAircraft = [], cm_militaryRotorAircraft = []\<rparr>"

text \<open>The branch of the first category with the name; a branch that is not found is kept as it was.\<close>

definition branchOf ::
  "(CAircraftCategory list \<Rightarrow> CAircraftCategory list) \<Rightarrow> string \<Rightarrow> CAircraftCategory list \<Rightarrow> CAircraftCategory list option" where
  "branchOf sortByLevel name categories =
     (case findFirstLevels (findByName False name categories) of
        [] \<Rightarrow> None
      | c # _ \<Rightarrow> Some (sortByLevel (findByFirstLevel (m_l1 c) categories)))"

definition orOld :: "'a list \<Rightarrow> 'a list option \<Rightarrow> 'a list" where
  "orOld old new = (case new of None \<Rightarrow> old | Some xs \<Rightarrow> xs)"

definition setCategories ::
  "(CAircraftCategory list \<Rightarrow> CAircraftCategory list) \<Rightarrow> CAircraftCategory list \<Rightarrow> CCategoryMatcher \<Rightarrow> CCategoryMatcher" where
  "setCategories sortByLevel categories c =
     c\<lparr>cm_all := sortByLevel categories,
       cm_gliders := orOld (cm_gliders c) (branchOf sortByLevel ''glider'' categories),
       cm_militaryWingAircraft := orOld (cm_militaryWingAircraft c) (branchOf sortByLevel ''wing military'' categories),
       cm_militaryRotorAircraft := orOld (cm_militaryRotorAircraft c) (branchOf sortByLevel ''rotor military'' categories)\<rparr>"

definition gliderDesignator :: string where "gliderDesignator = ''GLID''"

definition gliderFirstLevel :: "CCategoryMatcher \<Rightarrow> int" where
  "gliderFirstLevel c = (case cm_gliders c of [] \<Rightarrow> -1 | g # _ \<Rightarrow> m_l1 g)"

definition isGlider :: "CAircraftIcaoCode \<Rightarrow> CCategoryMatcher \<Rightarrow> bool" where
  "isGlider icao c \<longleftrightarrow>
     ic_designator icao = gliderDesignator
     \<or> 0 \<le> gliderFirstLevel c \<and> hasCategory icao \<and> m_l1 (ic_category icao) = gliderFirstLevel c"

definition substituteIcaos :: "string list" where "substituteIcaos = [''UHEL'', ''GLID'', ''ULAC'']"

text \<open>With gliders in the set: the same category, else the parallel branch, else the siblings, else all gliders.\<close>

definition reduceGliders ::
  "CAircraftCategory \<Rightarrow> CAircraftModel list \<Rightarrow> CAircraftModel list \<Rightarrow> CCategoryMatcher \<Rightarrow> CAircraftModel list option" where
  "reduceGliders category gliders modelSet c =
     (let sameGliders = findByCategory category gliders
      in if sameGliders \<noteq> [] then Some sameGliders
         else case findInParallelBranch category (cm_gliders c) of
                None \<Rightarrow> None
              | Some otherBranches \<Rightarrow>
                  let otherBranchGliders = findByCategories otherBranches gliders;
                      siblingGliders = findByCategories (findSiblings category (cm_gliders c)) modelSet
                  in Some (if otherBranches \<noteq> [] \<and> otherBranchGliders \<noteq> [] then otherBranchGliders
                           else if siblingGliders \<noteq> [] then siblingGliders
                           else gliders))"

definition substituteGliders :: "CAircraftModel list \<Rightarrow> CAircraftModel list \<times> bool" where
  "substituteGliders alreadyMatchedModels =
     (let substitutes = findByDesignatorsOrFamilyWithColorLivery substituteIcaos alreadyMatchedModels;
          l1p = findByCombinedType ''L1P'' alreadyMatchedModels
      in if substitutes \<noteq> [] then (substitutes, True)
         else if l1p \<noteq> [] then (l1p, True)
         else (alreadyMatchedModels, False))"

definition reduceByCategories ::
  "CAircraftModel list \<Rightarrow> CAircraftModel list \<Rightarrow> CAircraftMatcherSetup \<Rightarrow> CAircraftModel \<Rightarrow> CCategoryMatcher
   \<Rightarrow> (CAircraftModel list \<times> bool) option" where
  "reduceByCategories alreadyMatchedModels modelSet stp remote c =
     (let icao = am_aircraftIcao remote
      in if \<not> useCategoryMatching stp \<or> cm_all c = [] \<or> \<not> hasCategory icao then Some (alreadyMatchedModels, False)
         else if cm_gliders c \<noteq> [] \<and> inMode ByCategoryGlider stp \<and> isGlider icao c then
           let gliders = findByCategoryFirstLevel (gliderFirstLevel c) modelSet
           in if gliders \<noteq> [] then map_option (\<lambda>ms. (ms, True)) (reduceGliders (ic_category icao) gliders modelSet c)
              else Some (substituteGliders alreadyMatchedModels)
         else Some (alreadyMatchedModels, False))"

end
