(* ===== verification/Matcher_Reduce.thy ===== *)
theory Matcher_Reduce
  imports Category_Matcher "HOL-Library.Monad_Syntax"
begin

text \<open>
  The reductions of \<open>CAircraftMatcher\<close> (\<open>src/core/aircraftmatcher.cpp\<close>): from the models of
  the set to the candidates for a remote aircraft, step by step or by score. Of the remote
  aircraft only its model is used. A reduction returns the models and whether it reduced them,
  the variable \<open>reduced\<close> of the source. The messages of the log are left out, but not the
  effect of logging: a step that the source only runs with a log has a flag for it. A pattern of
  a combined type that is too short makes the result \<^const>\<open>None\<close>.
\<close>

type_synonym reduction = "CAircraftModel list \<times> bool"

definition UsePseudoFamily :: bool where "UsePseudoFamily = True"

text \<open>The arguments of the search are swapped in the source.\<close>

definition ifPossibleReduceByLiveryAndAircraftIcaoCode :: "CAircraftModel \<Rightarrow> CAircraftModel list \<Rightarrow> reduction" where
  "ifPossibleReduceByLiveryAndAircraftIcaoCode remote inList =
     (if \<not> hasCombinedCode (am_livery remote) then (inList, False)
      else
        let byLivery = findByAircraftDesignatorAndLiveryCombinedCode
                         (lv_combinedCode (am_livery remote)) (am_designator remote) inList
        in if byLivery = [] then (inList, False) else (byLivery, True))"

definition ifPossibleReduceByFamilyName ::
  "CAircraftModel \<Rightarrow> string \<Rightarrow> bool \<Rightarrow> CAircraftModel list \<Rightarrow> reduction option" where
  "ifPossibleReduceByFamilyName remote family allowPseudoFamily inList =
     (if family = [] \<and> \<not> allowPseudoFamily \<or> inList = [] then Some (inList, False)
      else
        let icao = am_aircraftIcao remote;
            foundByFamily = findByFamily family inList
        in if foundByFamily = [] \<and> \<not> allowPseudoFamily then Some (inList, False)
           else do {
             foundByCM \<leftarrow> (if allowPseudoFamily
                           then findByCombinedAndManufacturer (ic_combinedType icao) (ic_manufacturer icao) inList
                           else Some []);
             Some (if foundByCM = [] \<and> foundByFamily = [] then (inList, False)
                   else (foundByFamily
                         @ (if foundByFamily \<noteq> []
                            then fst (removeModelStrings False (getModelStringList foundByFamily) foundByCM)
                            else foundByCM), True))
           })"

definition ifPossibleReduceByFamily :: "CAircraftModel \<Rightarrow> bool \<Rightarrow> CAircraftModel list \<Rightarrow> reduction option" where
  "ifPossibleReduceByFamily remote allowPseudoFamily inList =
     (let family = ic_family (am_aircraftIcao remote)
      in do {
        (models, reduced) \<leftarrow> (if family \<noteq> [] then ifPossibleReduceByFamilyName remote family allowPseudoFamily inList
                              else Some (inList, False));
        if reduced then Some (models, True)
        else ifPossibleReduceByFamilyName remote (am_designator remote) allowPseudoFamily inList
      })"

definition ifPossibleReduceByManufacturer :: "CAircraftModel \<Rightarrow> CAircraftModel list \<Rightarrow> reduction" where
  "ifPossibleReduceByManufacturer remote inList =
     (let m = ic_manufacturer (am_aircraftIcao remote); outList = findByManufacturer m inList
      in if inList = [] \<or> m = [] \<or> outList = [] then (inList, False) else (outList, True))"

definition ifPossibleReduceAircraftIcaoByManufacturer ::
  "CAircraftIcaoCode \<Rightarrow> CAircraftIcaoCode list \<Rightarrow> CAircraftIcaoCode list \<times> bool" where
  "ifPossibleReduceAircraftIcaoByManufacturer icaoCode inList =
     (let m = ic_manufacturer icaoCode; outList = icaos_findByManufacturer m inList
      in if inList = [] \<or> m = [] \<or> outList = [] then (inList, False) else (outList, True))"

definition ifPossibleReduceByAircraft :: "CAircraftModel \<Rightarrow> CAircraftModel list \<Rightarrow> reduction" where
  "ifPossibleReduceByAircraft remote inList =
     (let outList = findByIcaoDesignators (am_aircraftIcao remote) CAirlineIcaoCode_default inList
      in if inList = [] \<or> \<not> hasAircraftDesignator remote \<or> outList = [] then (inList, False) else (outList, True))"

definition ifPossibleReduceByAircraftOrFamily ::
  "CAircraftModel \<Rightarrow> bool \<Rightarrow> CAircraftModel list \<Rightarrow> CAircraftMatcherSetup \<Rightarrow> reduction option" where
  "ifPossibleReduceByAircraftOrFamily remote allowPseudoFamily inList stp =
     (let (outList, reduced) = ifPossibleReduceByAircraft remote inList
      in if reduced \<or> \<not> inMode ByFamily stp then Some (outList, reduced)
         else ifPossibleReduceByFamily remote allowPseudoFamily inList)"

text \<open>The models of the airline, with those of its group when the mode or the lack of models asks for them.\<close>

definition modelsOfAirlineOrGroup ::
  "CAirlineIcaoCode \<Rightarrow> CAircraftMatcherSetup \<Rightarrow> CAircraftModel list \<Rightarrow> CAircraftModel list" where
  "modelsOfAirlineOrGroup airline stp inList =
     (let outList = findByIcaoDesignators CAircraftIcaoCode_default airline inList
      in if (inMode ByAirlineGroupSameAsAirline stp \<or> outList = [] \<or> inMode ByAirlineGroupIfNoAirline stp)
            \<and> hasGroupMembership airline
         then fst (replaceOrAddModelsWithString False (findByAirlineGroup airline inList) outList)
         else outList)"

definition ifPossibleReduceByAirline ::
  "CAircraftModel \<Rightarrow> CAircraftModel list \<Rightarrow> CAircraftMatcherSetup \<Rightarrow> reduction" where
  "ifPossibleReduceByAirline remote inList stp =
     (let outList = modelsOfAirlineOrGroup (am_airline remote) stp inList
      in if inList = [] \<or> \<not> hasAirlineDesignator remote \<or> outList = [] then (inList, False) else (outList, True))"

text \<open>The second step searches in the whole list again.\<close>

definition ifPossibleReduceModelsByAirlineNameTelephonyDesignator ::
  "string \<Rightarrow> string \<Rightarrow> CAircraftModel list \<Rightarrow> reduction" where
  "ifPossibleReduceModelsByAirlineNameTelephonyDesignator airlineName telephony inList =
     (if inList = [] \<or> telephony = [] \<and> airlineName = [] then (inList, False)
      else
        let byName = findByAirlineNamesOrTelephonyDesignator airlineName inList;
            byTelephony = findByAirlineNamesOrTelephonyDesignator telephony inList;
            (step1Data, reduced) = (if byName = [] \<or> length byName = length inList then (inList, False) else (byName, True))
        in if length step1Data = 1 then (step1Data, reduced)
           else if byTelephony = [] \<or> length byTelephony = length inList then (step1Data, reduced)
           else (byTelephony, True))"

definition ifPossibleReduceByCombinedType ::
  "CAircraftModel \<Rightarrow> CAircraftModel list \<Rightarrow> CAircraftMatcherSetup \<Rightarrow> reduction" where
  "ifPossibleReduceByCombinedType remote inList stp =
     (let icao = am_aircraftIcao remote; models = findByCombinedType (ic_combinedType icao) inList
      in if \<not> hasValidCombinedType icao \<or> models = [] then (inList, False)
         else if 1 < length models
         then (fst (ifPossibleReduceByManufacturer remote (fst (ifPossibleReduceByAirline remote models stp))), True)
         else (models, False))"

definition ifPossibleReduceByMilitaryFlag :: "CAircraftModel \<Rightarrow> CAircraftModel list \<Rightarrow> reduction" where
  "ifPossibleReduceByMilitaryFlag remote inList =
     (let byMilitaryFlag = findByMilitaryFlag (model_isMilitary remote) inList
      in (if byMilitaryFlag = [] then inList else byMilitaryFlag, False))"

definition ifPossibleReduceByVTOLFlag :: "CAircraftModel list \<Rightarrow> reduction" where
  "ifPossibleReduceByVTOLFlag inList = (if \<not> containsVtol inList then inList else findByVtolFlag True inList, False)"

text \<open>
  By the airline and the aircraft, in the order of the mode. On an empty list the variable
  \<open>reduced\<close> keeps its value. The models of the airline in the family are returned with
  \<open>reduced\<close> false.
\<close>

definition ifPossibleReduceByIcaoData ::
  "CAircraftModel \<Rightarrow> CAircraftModel list \<Rightarrow> CAircraftMatcherSetup \<Rightarrow> bool \<Rightarrow> reduction option" where
  "ifPossibleReduceByIcaoData remote inList stp reduced =
     (if inList = [] then Some (inList, reduced)
      else if inMode ByIcaoOrderAirlineFirst stp then do {
        let (models1, r1) = ifPossibleReduceByAirline remote inList stp;
        (models2, r2) \<leftarrow> ifPossibleReduceByAircraftOrFamily remote UsePseudoFamily models1 stp;
        Some (if r1 \<or> r2 then (models2, True) else (inList, False))
      }
      else if inMode ByIcaoData stp then do {
        (models1, r1) \<leftarrow> ifPossibleReduceByAircraftOrFamily remote UsePseudoFamily inList stp;
        let (models2, r2) = ifPossibleReduceByAirline remote models1 stp;
        let found = (if r1 \<or> r2 then (models2, True) else (inList, False));
        if hasAirlineDesignator remote \<and> \<not> r2 \<and> inMode ByFamily stp then do {
          (models3, _) \<leftarrow> ifPossibleReduceByFamily remote UsePseudoFamily inList;
          let (models2nd, r3) = ifPossibleReduceByAirline remote models3 stp;
          Some (if r3 then (models2nd, False) else found)
        }
        else Some found
      }
      else Some (inList, False))"

subsection \<open>The steps together\<close>

text \<open>The second step: by the ICAO data, or, only with a log, by the family.\<close>

definition reduceByIcaoOrFamily ::
  "bool \<Rightarrow> CAircraftModel \<Rightarrow> CAircraftMatcherSetup \<Rightarrow> CAircraftModel list \<Rightarrow> (reduction \<times> bool) option" where
  "reduceByIcaoOrFamily stepLog remote stp models =
     (if inMode ByIcaoData stp then map_option (\<lambda>r. (r, False)) (ifPossibleReduceByIcaoData remote models stp False)
      else if stepLog \<and> inMode ByFamily stp
      then map_option (\<lambda>r. (r, snd r)) (ifPossibleReduceByFamily remote UsePseudoFamily models)
      else Some ((models, False), False))"

definition reduceByVtol :: "CAircraftModel \<Rightarrow> CAircraftMatcherSetup \<Rightarrow> reduction \<Rightarrow> CAircraftModel list" where
  "reduceByVtol remote stp r =
     (if \<not> snd r \<and> model_isVtol remote \<and> containsVtol (fst r) \<and> inMode ByVtol stp then findByVtolFlag True (fst r)
      else fst r)"

definition reduceByMilitary :: "CAircraftModel \<Rightarrow> CAircraftMatcherSetup \<Rightarrow> CAircraftModel list \<Rightarrow> CAircraftModel list" where
  "reduceByMilitary remote stp models =
     (if inMode ByMilitary stp \<and> model_isMilitary remote \<or> inMode ByCivilian stp \<and> \<not> model_isMilitary remote
      then fst (ifPossibleReduceByMilitaryFlag remote models) else models)"

definition reduceByCombined :: "CAircraftModel \<Rightarrow> CAircraftMatcherSetup \<Rightarrow> CAircraftModel list \<Rightarrow> CAircraftModel list" where
  "reduceByCombined remote stp models =
     (if inMode ByCombinedType stp then fst (ifPossibleReduceByCombinedType remote models stp) else models)"

text \<open>The steps of the loop that is left at the first sufficient one.\<close>

definition reduceSteps ::
  "bool \<Rightarrow> CAircraftModel list \<Rightarrow> CAircraftMatcherSetup \<Rightarrow> CCategoryMatcher \<Rightarrow> CAircraftModel \<Rightarrow> CAircraftModel list option" where
  "reduceSteps stepLog modelSet stp categoryMatcher remote =
     (let byLivery = (if inMode ByLivery stp then ifPossibleReduceByLiveryAndAircraftIcaoCode remote modelSet
                      else (modelSet, False))
      in if snd byLivery then Some (fst byLivery)
         else do {
           (byIcao, stop) \<leftarrow> reduceByIcaoOrFamily stepLog remote stp (fst byLivery);
           if stop then Some (fst byIcao)
           else do {
             byCategory \<leftarrow> (if useCategoryMatching stp
                            then reduceByCategories (fst byIcao) modelSet stp remote categoryMatcher
                            else Some byIcao);
             Some (reduceByCombined remote stp (reduceByMilitary remote stp (reduceByVtol remote stp byCategory)))
           }
         })"

definition getClosestMatchStepwiseReduceImplementation ::
  "bool \<Rightarrow> CAircraftModel list \<Rightarrow> CAircraftMatcherSetup \<Rightarrow> CCategoryMatcher \<Rightarrow> CAircraftModel \<Rightarrow> CAircraftModel list option" where
  "getClosestMatchStepwiseReduceImplementation stepLog modelSet stp categoryMatcher remote =
     map_option (\<lambda>models. if 1 < length models \<and> inMode ByManufacturer stp
                          then fst (ifPossibleReduceByManufacturer remote models) else models)
       (reduceSteps stepLog modelSet stp categoryMatcher remote)"

subsection \<open>By score, by the exact string, by the combined type\<close>

text \<open>The models with the highest score; of the values of a key the one inserted last is the first.\<close>

definition getClosestMatchScoreImplementation ::
  "CAircraftModel list \<Rightarrow> CAircraftMatcherSetup \<Rightarrow> CAircraftModel \<Rightarrow> CAircraftModel list" where
  "getClosestMatchScoreImplementation modelSet stp remote =
     (let scores = scoreFull remote (inMode ScorePreferColorLiveries stp) (inMode ScoreIgnoreZeros stp) modelSet;
          maxScore = Max (fst ` set scores)
      in if scores = [] then [] else rev (map snd (filter (\<lambda>p. fst p = maxScore) scores)))"

text \<open>The search without the color liveries is in the list that was just found empty.\<close>

definition getCombinedTypeDefaultModel ::
  "CAircraftModel list \<Rightarrow> CAircraftModel \<Rightarrow> CAircraftModel \<Rightarrow> CAircraftModel" where
  "getCombinedTypeDefaultModel modelSet remote dflt =
     (let combinedType = ic_combinedType (am_aircraftIcao remote);
          withColor = findByCombinedTypeWithColorLivery combinedType modelSet;
          matchedModels = (if withColor \<noteq> [] then withColor else findByCombinedType combinedType withColor)
      in if combinedType = [] \<or> modelSet = [] then dflt
         else case matchedModels of [] \<Rightarrow> dflt | m # _ \<Rightarrow> m)"

definition matchByExactModelString :: "CCallsign \<Rightarrow> CAircraftModel \<Rightarrow> CAircraftModel list \<Rightarrow> CAircraftModel" where
  "matchByExactModelString cs remote models =
     (if am_modelString remote = [] then defaultModel
      else setModelCallsign cs
             ((findFirstByModelStringAliasOrDefault False (am_modelString remote) models)
                \<lparr>am_modelType := TypeModelMatching\<rparr>))"

end
