(* ===== verification/Reverse_Lookup.thy ===== *)
theory Reverse_Lookup
  imports Matcher_Reduce
begin

text \<open>
  The reverse lookup of \<open>CAircraftMatcher\<close> (\<open>src/core/aircraftmatcher.cpp\<close>): from what the
  network says of an aircraft to the data of the database, with the reads of the web data
  services that it uses (\<open>src/core/webdataservices.cpp\<close>, \<open>db/modeldatareader.cpp\<close>,
  \<open>db/icaodatareader.cpp\<close>). The data of the services are the lists of their caches; they are
  \<^const>\<open>None\<close> without an application, without the services, or when the application shuts down.
  Both readers of the services exist. The library's sort and the order of the keys of a map are
  parameters; the messages of the log are left out.
\<close>

record WebData =
  wd_models :: "CAircraftModel list"
  wd_liveries :: "CLivery list"
  wd_aircraftIcaos :: "CAircraftIcaoCode list"
  wd_airlineIcaos :: "CAirlineIcaoCode list"

subsection \<open>Reads of the services\<close>

definition getModelForModelString :: "string \<Rightarrow> WebData \<Rightarrow> CAircraftModel" where
  "getModelForModelString s wd =
     (if s = [] then defaultModel else findFirstByModelStringOrDefault False s (wd_models wd))"

definition db_containsModelString :: "string \<Rightarrow> WebData \<Rightarrow> bool" where
  "db_containsModelString s wd \<longleftrightarrow> s \<noteq> [] \<and> containsModelString False s (wd_models wd)"

definition getModelForDbKey :: "int \<Rightarrow> WebData \<Rightarrow> CAircraftModel" where
  "getModelForDbKey key wd =
     (if key < 0 then defaultModel else findFirstByOrDefault defaultModel (\<lambda>m. am_dbKey m = key) (wd_models wd))"

definition db_getAicraftIcaoCodesForAirline :: "CAirlineIcaoCode \<Rightarrow> WebData \<Rightarrow> CAircraftIcaoCode list" where
  "db_getAicraftIcaoCodesForAirline airline wd =
     (if \<not> hasValidAirline airline then [] else getAicraftIcaoCodesForAirline airline (wd_models wd))"

definition getLiveryForCombinedCode :: "string \<Rightarrow> WebData \<Rightarrow> CLivery" where
  "getLiveryForCombinedCode code wd =
     (if \<not> isValidCombinedCode code then CLivery_default else liveries_findByCombinedCode code (wd_liveries wd))"

definition getStdLiveryForAirlineCode :: "CAirlineIcaoCode \<Rightarrow> WebData \<Rightarrow> CLivery" where
  "getStdLiveryForAirlineCode airline wd =
     (if \<not> hasValidAirline airline then CLivery_default
      else findStdLiveryByAirlineIcaoVDesignator airline (wd_liveries wd))"

definition getLiveryForDbKey :: "int \<Rightarrow> WebData \<Rightarrow> CLivery" where
  "getLiveryForDbKey key wd =
     (if key < 0 then CLivery_default else findFirstByOrDefault CLivery_default (\<lambda>l. lv_dbKey l = key) (wd_liveries wd))"

definition getAircraftIcaoCodesForDesignator :: "string \<Rightarrow> WebData \<Rightarrow> CAircraftIcaoCode list" where
  "getAircraftIcaoCodesForDesignator d wd = icaos_findByDesignator d (-1) (wd_aircraftIcaos wd)"

text \<open>The library sorts by rank and id.\<close>

definition findFirstByDesignatorAndRank ::
  "(CAircraftIcaoCode list \<Rightarrow> CAircraftIcaoCode list) \<Rightarrow> string \<Rightarrow> CAircraftIcaoCode list \<Rightarrow> CAircraftIcaoCode" where
  "findFirstByDesignatorAndRank sortByRankAndKey d l =
     (let codes = icaos_findByDesignator d (-1) l
      in if \<not> isValidDesignator d \<or> codes = [] then CAircraftIcaoCode_default
         else if length codes < 2 then hd codes
         else hd (sortByRankAndKey codes))"

definition getAircraftIcaoCodeForDesignator ::
  "(CAircraftIcaoCode list \<Rightarrow> CAircraftIcaoCode list) \<Rightarrow> string \<Rightarrow> WebData \<Rightarrow> CAircraftIcaoCode" where
  "getAircraftIcaoCodeForDesignator sortByRankAndKey d wd =
     findFirstByDesignatorAndRank sortByRankAndKey d (wd_aircraftIcaos wd)"

definition getAircraftIcaoCodeForDbKey :: "int \<Rightarrow> WebData \<Rightarrow> CAircraftIcaoCode" where
  "getAircraftIcaoCodeForDbKey key wd =
     findFirstByOrDefault CAircraftIcaoCode_default (\<lambda>c. ic_dbKey c = key) (wd_aircraftIcaos wd)"

definition containsAircraftIcaoDesignator :: "string \<Rightarrow> WebData \<Rightarrow> bool" where
  "containsAircraftIcaoDesignator d wd \<longleftrightarrow> d \<noteq> [] \<and> icaos_containsDesignator d (wd_aircraftIcaos wd)"

definition getAirlineIcaoCodesForDesignator :: "string \<Rightarrow> WebData \<Rightarrow> CAirlineIcaoCode list" where
  "getAirlineIcaoCodesForDesignator d wd = findByVDesignator d (wd_airlineIcaos wd)"

definition containsAirlineIcaoDesignator :: "string \<Rightarrow> WebData \<Rightarrow> bool" where
  "containsAirlineIcaoDesignator d wd \<longleftrightarrow> d \<noteq> [] \<and> containsVDesignator d (wd_airlineIcaos wd)"

definition getAirlineIcaoCodeForUniqueDesignatorOrDefault :: "string \<Rightarrow> bool \<Rightarrow> WebData \<Rightarrow> CAirlineIcaoCode" where
  "getAirlineIcaoCodeForUniqueDesignatorOrDefault d preferOperatingAirlines wd =
     (if d = [] then CAirlineIcaoCode_default
      else findByUniqueVDesignatorOrDefault d preferOperatingAirlines (wd_airlineIcaos wd))"

definition getAirlineIcaoCodeForDbKey :: "int \<Rightarrow> WebData \<Rightarrow> CAirlineIcaoCode" where
  "getAirlineIcaoCodeForDbKey key wd =
     findFirstByOrDefault CAirlineIcaoCode_default (\<lambda>c. al_dbKey c = key) (wd_airlineIcaos wd)"

definition getAirlineNames :: "WebData \<Rightarrow> string list" where
  "getAirlineNames wd = filter (\<lambda>n. n \<noteq> []) (map al_name (wd_airlineIcaos wd))"

definition getTelephonyDesignators :: "WebData \<Rightarrow> string list" where
  "getTelephonyDesignators wd = filter (\<lambda>n. n \<noteq> []) (map al_telephony (wd_airlineIcaos wd))"

definition db_findBestMatchByCallsign :: "CCallsign \<Rightarrow> WebData \<Rightarrow> CAirlineIcaoCode" where
  "db_findBestMatchByCallsign cs wd =
     (if cs_isEmpty cs then CAirlineIcaoCode_default else findBestMatchByCallsign cs (wd_airlineIcaos wd))"

subsection \<open>Airline designators\<close>

definition isValidAirlineIcaoDesignator :: "WebData option \<Rightarrow> string \<Rightarrow> bool \<Rightarrow> bool" where
  "isValidAirlineIcaoDesignator web d checkAgainstSwiftDb \<longleftrightarrow>
     isValidAirlineDesignator d
     \<and> (checkAgainstSwiftDb \<longrightarrow> (case web of None \<Rightarrow> True | Some wd \<Rightarrow> containsAirlineIcaoDesignator d wd))"

definition stringToAirlineIcaoObject ::
  "WebData option \<Rightarrow> string \<Rightarrow> string \<Rightarrow> string \<Rightarrow> bool \<Rightarrow> CAirlineIcaoCode" where
  "stringToAirlineIcaoObject web d airlineName airlineTelephony useSwiftDbData =
     (case (if useSwiftDbData then web else None) of
        None \<Rightarrow> mkAirline d
      | Some wd \<Rightarrow>
          (case getAirlineIcaoCodesForDesignator d wd of
             [] \<Rightarrow> mkAirline d
           | [code] \<Rightarrow> code
           | codes \<Rightarrow> frontOrDefault CAirlineIcaoCode_default
                        (fst (ifPossibleReduceNameTelephonyCountry airlineName airlineTelephony [] codes))))"

text \<open>The airline prefix of the callsign, when it has a flight number too.\<close>

definition splitCallsign :: "CCallsign \<Rightarrow> string option" where
  "splitCallsign cs =
     (case getAirlinePrefix cs of (airlinePrefix, flightNumber, _) \<Rightarrow>
        if airlinePrefix = [] \<or> flightNumber = [] then None else Some airlinePrefix)"

definition failoverValidAirlineIcaoDesignator ::
  "WebData option \<Rightarrow> CCallsign \<Rightarrow> string \<Rightarrow> string \<Rightarrow> bool \<Rightarrow> string \<Rightarrow> string \<Rightarrow> bool \<Rightarrow> CAirlineIcaoCode" where
  "failoverValidAirlineIcaoDesignator web cs primaryIcao secondaryIcao airlineFromCallsign airlineName
     airlineTelephony useWebServices =
     (let ok = (\<lambda>d. isValidAirlineIcaoDesignator web d useWebServices);
          code = (\<lambda>d. stringToAirlineIcaoObject web d airlineName airlineTelephony useWebServices)
      in if ok primaryIcao then code primaryIcao
         else if ok secondaryIcao then code secondaryIcao
         else if airlineFromCallsign then
           (case splitCallsign cs of
              None \<Rightarrow> CAirlineIcaoCode_default
            | Some prefix \<Rightarrow> if ok prefix then code prefix else CAirlineIcaoCode_default)
         else CAirlineIcaoCode_default)"

type_synonym airlineKeyOrder = "(CAirlineIcaoCode \<times> nat) list \<Rightarrow> (CAirlineIcaoCode \<times> nat) list"

definition airlineFromModels ::
  "airlineKeyOrder \<Rightarrow> string \<Rightarrow> string \<Rightarrow> CAircraftModel list \<Rightarrow> string \<Rightarrow> CAirlineIcaoCode option" where
  "airlineFromModels keyOrder airlineName airlineTelephony models d =
     (let found = findByIcaoDesignators CAircraftIcaoCode_default (mkAirline d) models;
          counts = countPerAirlineIcao found
      in if length counts = 1 then Some (fst (hd counts))
         else if found = [] then None
         else Some (getAirlineWithMaxCount keyOrder
                (if 1 < length found
                 then fst (ifPossibleReduceModelsByAirlineNameTelephonyDesignator airlineName airlineTelephony found)
                 else found)))"

definition failoverAirlineFromModels ::
  "airlineKeyOrder \<Rightarrow> CCallsign \<Rightarrow> string \<Rightarrow> string \<Rightarrow> bool \<Rightarrow> string \<Rightarrow> string \<Rightarrow> CAircraftModel list \<Rightarrow> CAirlineIcaoCode" where
  "failoverAirlineFromModels keyOrder cs primaryIcao secondaryIcao airlineFromCallsign airlineName
     airlineTelephony models =
     (let find = airlineFromModels keyOrder airlineName airlineTelephony models;
          primary = (if primaryIcao = [] then None else find primaryIcao);
          secondary = (if secondaryIcao = [] then None else find secondaryIcao);
          fromCallsign = (if airlineFromCallsign then Option.bind (splitCallsign cs) find else None)
      in if models = [] then CAirlineIcaoCode_default
         else case primary of
                Some code \<Rightarrow> code
              | None \<Rightarrow> (case secondary of
                           Some code \<Rightarrow> code
                         | None \<Rightarrow> (case fromCallsign of None \<Rightarrow> CAirlineIcaoCode_default | Some code \<Rightarrow> code)))"

definition failoverValidAirlineIcaoDesignatorModelsFirst ::
  "airlineKeyOrder \<Rightarrow> WebData option \<Rightarrow> CCallsign \<Rightarrow> string \<Rightarrow> string \<Rightarrow> bool \<Rightarrow> string \<Rightarrow> string \<Rightarrow> CAircraftModel list
   \<Rightarrow> CAirlineIcaoCode" where
  "failoverValidAirlineIcaoDesignatorModelsFirst keyOrder web cs primaryIcao secondaryIcao airlineFromCallsign
     airlineName airlineTelephony models =
     (let airline = failoverAirlineFromModels keyOrder cs primaryIcao secondaryIcao airlineFromCallsign airlineName
                      airlineTelephony models
      in if models \<noteq> [] \<and> hasValidDbKey (al_dbKey airline) then airline
         else failoverValidAirlineIcaoDesignator web cs primaryIcao secondaryIcao airlineFromCallsign airlineName
                airlineTelephony True)"

definition callsignToAirline :: "WebData option \<Rightarrow> CCallsign \<Rightarrow> CAirlineIcaoCode" where
  "callsignToAirline web cs =
     (case web of None \<Rightarrow> CAirlineIcaoCode_default | Some wd \<Rightarrow> db_findBestMatchByCallsign cs wd)"

subsection \<open>Lookups of single values\<close>

definition fromDbModel :: "CCallsign \<Rightarrow> CAircraftModel \<Rightarrow> CAircraftModel" where
  "fromDbModel cs m = (setModelCallsign cs m)\<lparr>am_modelType := TypeReverseLookup\<rparr>"

definition reverseLookupModelStringInDB :: "WebData option \<Rightarrow> string \<Rightarrow> CCallsign \<Rightarrow> bool \<Rightarrow> CAircraftModel" where
  "reverseLookupModelStringInDB web modelString cs doLookupString =
     (case web of
        None \<Rightarrow> defaultModel
      | Some wd \<Rightarrow>
          let model = getModelForModelString modelString wd
          in if doLookupString \<and> hasValidDbKey (am_dbKey model) then fromDbModel cs model else defaultModel)"

definition reverseLookupModelStringInSet ::
  "WebData option \<Rightarrow> string \<Rightarrow> CCallsign \<Rightarrow> CAircraftModel list \<Rightarrow> bool \<Rightarrow> CAircraftModel" where
  "reverseLookupModelStringInSet web modelString cs modelSet useNonDbEntries =
     (let model = findFirstByModelStringOrDefault False modelString modelSet;
          isDBModel = hasValidDbKey (am_dbKey model)
      in if web = None \<or> modelString = [] \<or> modelSet = [] \<or> \<not> model_hasModelString model
            \<or> \<not> isDBModel \<and> \<not> useNonDbEntries
         then defaultModel
         else (setModelCallsign cs model)
                \<lparr>am_modelType := if isDBModel then TypeReverseLookup else TypeOwnSimulatorModel\<rparr>)"

definition reverseLookupModelId :: "WebData option \<Rightarrow> int \<Rightarrow> CCallsign \<Rightarrow> CAircraftModel" where
  "reverseLookupModelId web key cs =
     (case web of None \<Rightarrow> defaultModel | Some wd \<Rightarrow> fromDbModel cs (getModelForDbKey key wd))"

definition reverseLookupAircraftIcaoId :: "WebData option \<Rightarrow> int \<Rightarrow> CAircraftIcaoCode" where
  "reverseLookupAircraftIcaoId web key =
     (case web of None \<Rightarrow> CAircraftIcaoCode_default | Some wd \<Rightarrow> getAircraftIcaoCodeForDbKey key wd)"

definition reverseLookupLiveryId :: "WebData option \<Rightarrow> int \<Rightarrow> CLivery" where
  "reverseLookupLiveryId web key = (case web of None \<Rightarrow> CLivery_default | Some wd \<Rightarrow> getLiveryForDbKey key wd)"

definition reverseLookupAirlineIcao :: "WebData option \<Rightarrow> CAirlineIcaoCode \<Rightarrow> CCallsign \<Rightarrow> CAirlineIcaoCode" where
  "reverseLookupAirlineIcao web icaoPattern cs =
     (case web of None \<Rightarrow> CAirlineIcaoCode_default
                | Some wd \<Rightarrow> smartAirlineIcaoSelector icaoPattern cs (wd_airlineIcaos wd))"

definition reverseLookupStandardLivery :: "WebData option \<Rightarrow> CAirlineIcaoCode \<Rightarrow> CLivery" where
  "reverseLookupStandardLivery web airline =
     (case web of None \<Rightarrow> CLivery_default
                | Some wd \<Rightarrow> if \<not> hasValidAirline airline then CLivery_default else getStdLiveryForAirlineCode airline wd)"

text \<open>The number of values that were found, and the values.\<close>

definition reverseLookupByIds ::
  "WebData option \<Rightarrow> DBTripleIds \<Rightarrow> CAircraftIcaoCode \<Rightarrow> CLivery \<Rightarrow> int \<times> CAircraftIcaoCode \<times> CLivery" where
  "reverseLookupByIds web ids aircraftIcao livery =
     (let l = (if 0 \<le> id_livery ids then reverseLookupLiveryId web (id_livery ids) else livery);
          a = (if 0 \<le> id_aircraft ids then reverseLookupAircraftIcaoId web (id_aircraft ids) else aircraftIcao)
      in ((if 0 \<le> id_livery ids \<and> hasValidDbKey (lv_dbKey l) then 1 else 0)
          + (if 0 \<le> id_aircraft ids \<and> hasValidDbKey (ic_dbKey a) then 1 else 0), a, l))"

definition knownName :: "(WebData \<Rightarrow> string list) \<Rightarrow> WebData option \<Rightarrow> string \<Rightarrow> string" where
  "knownName names web candidate =
     (case web of
        None \<Rightarrow> []
      | Some wd \<Rightarrow> if candidate \<noteq> [] \<and> stringListContains False (names wd) candidate then candidate else [])"

definition reverseLookupAirlineName :: "WebData option \<Rightarrow> string \<Rightarrow> string" where
  "reverseLookupAirlineName web candidate = knownName getAirlineNames web candidate"

definition reverseLookupTelephonyDesignator :: "WebData option \<Rightarrow> string \<Rightarrow> string" where
  "reverseLookupTelephonyDesignator web candidate = knownName getTelephonyDesignators web candidate"

definition isKnownAircraftDesignator :: "WebData option \<Rightarrow> string \<Rightarrow> bool" where
  "isKnownAircraftDesignator web candidate \<longleftrightarrow>
     (case web of None \<Rightarrow> False
                | Some wd \<Rightarrow> isValidDesignator candidate \<and> containsAircraftIcaoDesignator candidate wd)"

definition isKnownModelString :: "WebData option \<Rightarrow> string \<Rightarrow> bool" where
  "isKnownModelString web candidate \<longleftrightarrow>
     (case web of None \<Rightarrow> False | Some wd \<Rightarrow> db_containsModelString candidate wd)"

definition searchAmongAirlineAircraft :: "WebData option \<Rightarrow> string \<Rightarrow> CAirlineIcaoCode \<Rightarrow> CAircraftIcaoCode" where
  "searchAmongAirlineAircraft web candidateString airline =
     (case web of
        None \<Rightarrow> CAircraftIcaoCode_default
      | Some wd \<Rightarrow>
          let aircraft = db_getAicraftIcaoCodesForAirline airline wd;
              code = findBestFuzzyMatchOrDefault candidateString 50 aircraft
          in if \<not> hasValidDbKey (al_dbKey airline) then CAircraftIcaoCode_default
             else case aircraft of
                    [] \<Rightarrow> CAircraftIcaoCode_default
                  | a # _ \<Rightarrow> if hasValidDesignator code then code else a)"

subsection \<open>The aircraft type\<close>

text \<open>The parts of a text are tried until one is found in the database; the last result is kept.\<close>

fun smartByParts ::
  "CAircraftIcaoCode keySorter \<Rightarrow> CAircraftIcaoCode list \<Rightarrow> string list \<Rightarrow> CAircraftIcaoCode \<Rightarrow> CAircraftIcaoCode" where
  "smartByParts srt l [] icao = icao"
| "smartByParts srt l (p # ps) icao =
     (let found = smartAircraftIcaoSelector srt (mkShortIcao p []) l
      in if hasValidDbKey (ic_dbKey found) then found else smartByParts srt l ps found)"

text \<open>The best rank of the most frequent manufacturer; without one there is no first element.\<close>

definition bestOfManufacturer ::
  "CAircraftIcaoCode keySorter \<Rightarrow> CAircraftIcaoCode list \<Rightarrow> CAircraftIcaoCode option" where
  "bestOfManufacturer srt foundIcaos =
     (let maxManufacturer = maxCountManufacturer foundIcaos;
          icaos = (if snd maxManufacturer < length foundIcaos
                   then icaos_findByManufacturer (fst maxManufacturer) foundIcaos else foundIcaos)
      in case sortByRank srt icaos of [] \<Rightarrow> None | icao # _ \<Rightarrow> Some icao)"

definition reverseLookupAircraftIcao ::
  "CAircraftIcaoCode keySorter \<Rightarrow> WebData option \<Rightarrow> CAircraftIcaoCode \<Rightarrow> CAircraftIcaoCode option" where
  "reverseLookupAircraftIcao srt web icaoCandidate =
     (case web of
        None \<Rightarrow> Some CAircraftIcaoCode_default
      | Some wd \<Rightarrow>
          let d = ic_designator icaoCandidate;
              smart = (if isValidDesignator d then smartAircraftIcaoSelector srt icaoCandidate (wd_aircraftIcaos wd)
                       else smartByParts srt (wd_aircraftIcaos wd) (qsplit CHR '' '' d) (mkShortIcao d []))
          in case getAircraftIcaoCodesForDesignator d wd of
               [] \<Rightarrow> Some (if hasValidDbKey (ic_dbKey smart) then smart else icaoCandidate)
             | [icao] \<Rightarrow> Some icao
             | foundIcaos \<Rightarrow> bestOfManufacturer srt foundIcaos)"

subsection \<open>The model\<close>

text \<open>A model that is found as a whole: by its string in the database or the set, or by its id.\<close>

definition reverseLookupByString ::
  "WebData option \<Rightarrow> CAircraftMatcherSetup \<Rightarrow> CAircraftModel list \<Rightarrow> CAircraftModel \<Rightarrow> CAircraftModel option" where
  "reverseLookupByString web stp modelSet modelToLookup =
     (let modelString = am_modelString modelToLookup;
          cs = am_callsign modelToLookup;
          fromDb = reverseLookupModelStringInDB web modelString cs (isReverseLookupModelString stp);
          fromSet = reverseLookupModelStringInSet web modelString cs modelSet True
      in if \<not> model_hasModelString modelToLookup \<or> \<not> isReverseLookupModelString stp then None
         else if hasValidDbKey (am_dbKey fromDb) then Some fromDb
         else if model_hasModelString fromSet then Some fromSet
         else None)"

definition reverseLookupById ::
  "WebData option \<Rightarrow> CAircraftMatcherSetup \<Rightarrow> DBTripleIds \<Rightarrow> CAircraftModel \<Rightarrow> CAircraftModel option" where
  "reverseLookupById web stp ids modelToLookup =
     (let fromDb = reverseLookupModelId web (id_model ids) (am_callsign modelToLookup)
      in if isReverseLookupSwiftLiveryIds stp \<and> 0 \<le> id_model ids \<and> \<not> model_hasModelString modelToLookup
            \<and> hasValidDbKey (am_dbKey fromDb)
         then Some fromDb else None)"

text \<open>The aircraft type and the livery by the ids; they are used with any setup.\<close>

definition lookupPartsByIds :: "WebData option \<Rightarrow> DBTripleIds \<Rightarrow> CAircraftModel \<Rightarrow> CAircraftModel" where
  "lookupPartsByIds web ids m =
     (let icao = reverseLookupAircraftIcaoId web (id_aircraft ids);
          livery = reverseLookupLiveryId web (id_livery ids);
          m1 = (if \<not> hasValidDbKey (ic_dbKey (am_aircraftIcao m)) \<and> 0 \<le> id_aircraft ids \<and> hasValidDbKey (ic_dbKey icao)
                then fst (model_setAircraftIcaoCode icao m) else m)
      in if \<not> hasValidDbKey (lv_dbKey (am_livery m)) \<and> 0 \<le> id_livery ids \<and> hasValidDbKey (lv_dbKey livery)
         then m1\<lparr>am_livery := livery\<rparr> else m1)"

definition lookupAircraftIcao ::
  "CAircraftIcaoCode keySorter \<Rightarrow> WebData option \<Rightarrow> CAircraftModel \<Rightarrow> CAircraftModel option" where
  "lookupAircraftIcao srt web m =
     (if hasValidDbKey (ic_dbKey (am_aircraftIcao m)) then Some m
      else map_option (\<lambda>icao. if hasValidDbKey (ic_dbKey icao) then fst (model_setAircraftIcaoCode icao m) else m)
             (reverseLookupAircraftIcao srt web (am_aircraftIcao m)))"

definition generatedLivery :: "CAirlineIcaoCode \<Rightarrow> CLivery" where
  "generatedLivery airline =
     mkLivery (-1) (getStandardCode airline) airline ''Generated'' CRgbColor_default CRgbColor_default False"

text \<open>
  The livery by its code, else the standard livery of the airline, else a generated one.
\<close>

definition lookupLivery :: "WebData \<Rightarrow> string \<Rightarrow> CAircraftModel \<Rightarrow> CAircraftModel" where
  "lookupLivery wd networkLiveryInfo m =
     (if hasValidDbKey (lv_dbKey (am_livery m)) then m
      else
        let airline = (if hasValidDbKey (al_dbKey (am_airline m)) then am_airline m
                       else reverseLookupAirlineIcao (Some wd) (am_airline m) (am_callsign m));
            liveryCode = (if networkLiveryInfo = [] \<and> hasValidAirline airline then getStandardCode airline
                          else networkLiveryInfo);
            byCode = getLiveryForCombinedCode liveryCode wd;
            stdLivery = getStdLiveryForAirlineCode airline wd
        in if isValidCombinedCode liveryCode \<and> hasValidDbKey (lv_dbKey byCode) then m\<lparr>am_livery := byCode\<rparr>
           else if hasValidDbKey (am_dbKey m) \<or> \<not> hasValidAirline airline then m
           else if hasValidDbKey (al_dbKey airline) \<and> hasValidDbKey (lv_dbKey stdLivery) then m\<lparr>am_livery := stdLivery\<rparr>
           else m\<lparr>am_livery := generatedLivery airline\<rparr>)"

definition reverseLookupParts ::
  "CAircraftIcaoCode keySorter \<Rightarrow> WebData \<Rightarrow> string \<Rightarrow> DBTripleIds \<Rightarrow> CAircraftModel \<Rightarrow> CAircraftModel option" where
  "reverseLookupParts srt wd networkLiveryInfo ids m =
     map_option (lookupLivery wd networkLiveryInfo)
       (lookupAircraftIcao srt (Some wd) (lookupPartsByIds (Some wd) ids m))"

definition reverseLookupModel ::
  "CAircraftIcaoCode keySorter \<Rightarrow> WebData option \<Rightarrow> CAircraftModel \<Rightarrow> string \<Rightarrow> CAircraftMatcherSetup \<Rightarrow> CAircraftModel list
   \<Rightarrow> CAircraftModel option" where
  "reverseLookupModel srt web modelToLookup networkLiveryInfo stp modelSet =
     (case web of
        None \<Rightarrow> Some defaultModel
      | Some wd \<Rightarrow>
          if hasValidDbKey (am_dbKey modelToLookup) then Some modelToLookup
          else
            let ids = parseNetworkLiveryString networkLiveryInfo;
                found = (case reverseLookupByString web stp modelSet modelToLookup of
                           Some m \<Rightarrow> Some m
                         | None \<Rightarrow> (case reverseLookupById web stp ids modelToLookup of
                                      Some m \<Rightarrow> Some m
                                    | None \<Rightarrow> reverseLookupParts srt wd networkLiveryInfo ids modelToLookup))
            in map_option (\<lambda>m. (setModelCallsign (am_callsign modelToLookup) m)
                                  \<lparr>am_modelType := am_modelType modelToLookup\<rparr>) found)"

definition reverseLookupModelOfNetwork ::
  "CAircraftIcaoCode keySorter \<Rightarrow> WebData option \<Rightarrow> CCallsign \<Rightarrow> CAircraftIcaoCode \<Rightarrow> CAirlineIcaoCode \<Rightarrow> string \<Rightarrow> string
   \<Rightarrow> CAircraftMatcherSetup \<Rightarrow> CAircraftModel list \<Rightarrow> ModelType \<Rightarrow> CAircraftModel option" where
  "reverseLookupModelOfNetwork srt web cs networkAircraftIcao networkAirlineIcao networkLiveryInfo networkModelString
     stp modelSet type =
     (let livery = fst (livery_setAirlineIcaoCode networkAirlineIcao CLivery_default);
          model = mkModel networkModelString type NoSimulator [] [] networkAircraftIcao livery
      in map_option (\<lambda>m. m\<lparr>am_modelType := TypeReverseLookup\<rparr>)
           (reverseLookupModel srt web (setModelCallsign cs model) networkLiveryInfo stp modelSet))"

end
