(* ===== verification/Matching_Script.thy ===== *)
theory Matching_Script
  imports Reverse_Lookup
begin

text \<open>
  The matching scripts: the values a script reads and writes, \<open>MSInOutValues\<close>, and what it asks
  of the model set, \<open>MSModelSet\<close> (\<open>src/misc/simulation/matchingscript.cpp\<close>), and the use of its
  result in \<open>CAircraftMatcher::matchingScript\<close> and in the reverse lookup
  (\<open>src/core/aircraftmatcher.cpp\<close>). The files and the JavaScript engine are parameters: the
  engine gets the text of the script and its objects and gives an error, an object, a text or
  something else. The signals of the objects are those of the engine and are left out. The
  colors of a text are read by the library, which is a parameter.
\<close>

subsection \<open>The objects of a script\<close>

record MSInOutValues =
  io_callsign :: string
  io_callsignAsSet :: string
  io_flightNumber :: string
  io_aircraftIcao :: string
  io_aircraftFamily :: string
  io_combinedType :: string
  io_airlineIcao :: string
  io_vAirlineIcao :: string
  io_livery :: string
  io_modelString :: string
  io_dbAircraftIcaoId :: int
  io_dbAirlineIcaoId :: int
  io_dbLiveryId :: int
  io_dbModelId :: int
  io_logMessage :: string
  io_modifiedAircraftDesignator :: bool
  io_modifiedAircraftFamily :: bool
  io_modifiedAirlineDesignator :: bool
  io_modified :: bool
  io_rerun :: bool

definition mkInOutValues ::
  "string \<Rightarrow> string \<Rightarrow> string \<Rightarrow> string \<Rightarrow> string \<Rightarrow> string \<Rightarrow> int \<Rightarrow> string \<Rightarrow> string \<Rightarrow> int \<Rightarrow> string \<Rightarrow> int
   \<Rightarrow> string \<Rightarrow> bool \<Rightarrow> bool \<Rightarrow> MSInOutValues" where
  "mkInOutValues cs csAsSet flightNumber aircraftIcao aircraftFamily combinedType idAircraftIcao airlineIcao
     virtualAirlineIcao idAirlineIcao livery liveryId logMsg modified rerun =
     \<lparr>io_callsign = toUpper (trimmed cs), io_callsignAsSet = csAsSet, io_flightNumber = flightNumber,
      io_aircraftIcao = toUpper (trimmed aircraftIcao), io_aircraftFamily = toUpper (trimmed aircraftFamily),
      io_combinedType = toUpper (trimmed combinedType), io_airlineIcao = toUpper (trimmed airlineIcao),
      io_vAirlineIcao = virtualAirlineIcao, io_livery = toUpper (trimmed livery), io_modelString = [],
      io_dbAircraftIcaoId = idAircraftIcao, io_dbAirlineIcaoId = idAirlineIcao, io_dbLiveryId = liveryId,
      io_dbModelId = -1, io_logMessage = logMsg, io_modifiedAircraftDesignator = False,
      io_modifiedAircraftFamily = False, io_modifiedAirlineDesignator = False, io_modified = modified,
      io_rerun = rerun\<rparr>"

text \<open>The model string and the id of the model are not taken from the model.\<close>

definition inOutOfModel :: "CAircraftModel \<Rightarrow> MSInOutValues" where
  "inOutOfModel m =
     (let cs = am_callsign m; icao = am_aircraftIcao m; livery = am_livery m; airline = am_airline m
      in mkInOutValues (cs_callsign cs) (cs_callsignAsSet cs) (getFlightNumber cs) (ic_designator icao) (ic_family icao)
           (ic_combinedType icao) (ic_dbKey icao) (al_designator airline) (getVDesignator airline) (al_dbKey airline)
           (lv_combinedCode livery) (lv_dbKey livery) [] False False)"

text \<open>The copy has the combined type as family and the family as combined type.\<close>

definition copyInOut :: "MSInOutValues \<Rightarrow> MSInOutValues" where
  "copyInOut sv =
     mkInOutValues (io_callsign sv) (io_callsignAsSet sv) (io_flightNumber sv) (io_aircraftIcao sv) (io_combinedType sv)
       (io_aircraftFamily sv) (io_dbAircraftIcaoId sv) (io_airlineIcao sv) (io_vAirlineIcao sv)
       (io_dbAirlineIcaoId sv) (io_livery sv) (io_dbLiveryId sv) (io_logMessage sv) (io_modified sv) (io_rerun sv)"

definition io_setCombinedType :: "string \<Rightarrow> MSInOutValues \<Rightarrow> MSInOutValues" where
  "io_setCombinedType type v =
     (if type = io_combinedType v then v else v\<lparr>io_combinedType := toUpper (trimmed type)\<rparr>)"

definition evaluateChanges :: "CAircraftIcaoCode \<Rightarrow> CAirlineIcaoCode \<Rightarrow> MSInOutValues \<Rightarrow> MSInOutValues" where
  "evaluateChanges aircraft airline v =
     v\<lparr>io_modifiedAircraftDesignator := ic_designator aircraft \<noteq> io_aircraftIcao v,
       io_modifiedAircraftFamily := ic_family aircraft \<noteq> io_aircraftFamily v,
       io_modifiedAirlineDesignator :=
         (if al_isVa airline then getVDesignator airline \<noteq> io_vAirlineIcao v
          else al_designator airline \<noteq> io_airlineIcao v)\<rparr>"

definition hasUnmodifiedDesignators :: "MSInOutValues \<Rightarrow> bool" where
  "hasUnmodifiedDesignators v \<longleftrightarrow> \<not> io_modifiedAirlineDesignator v \<and> \<not> io_modifiedAircraftDesignator v"

text \<open>Every branch of the source says that the type is changed.\<close>

definition hasChangedAircraftIcao :: "CAircraftIcaoCode \<Rightarrow> MSInOutValues \<Rightarrow> bool" where
  "hasChangedAircraftIcao icao v \<longleftrightarrow>
     (if hasValidDbKey (ic_dbKey icao) \<and> ic_dbKey icao \<noteq> io_dbAircraftIcaoId v then True
      else if ic_designator icao \<noteq> [] \<and> ic_designator icao \<noteq> io_aircraftIcao v then True
      else True)"

definition changedId :: "int \<Rightarrow> int \<Rightarrow> bool" where
  "changedId key newId \<longleftrightarrow> hasValidDbKey key \<and> 0 \<le> newId \<and> newId \<noteq> key"

definition hasChangedAircraftIcaoId :: "CAircraftIcaoCode \<Rightarrow> MSInOutValues \<Rightarrow> bool" where
  "hasChangedAircraftIcaoId icao v \<longleftrightarrow> changedId (ic_dbKey icao) (io_dbAircraftIcaoId v)"

definition hasChangedAirlineIcao :: "CAirlineIcaoCode \<Rightarrow> MSInOutValues \<Rightarrow> bool" where
  "hasChangedAirlineIcao airline v \<longleftrightarrow>
     (if hasValidDbKey (al_dbKey airline) \<and> al_dbKey airline \<noteq> io_dbAirlineIcaoId v then True
      else if hasValidAirline airline \<and> al_designator airline \<noteq> io_airlineIcao v then True
      else hasValidAirline airline \<and> getVDesignator airline \<noteq> io_vAirlineIcao v)"

definition hasChangedAirlineIcaoId :: "CAirlineIcaoCode \<Rightarrow> MSInOutValues \<Rightarrow> bool" where
  "hasChangedAirlineIcaoId airline v \<longleftrightarrow> changedId (al_dbKey airline) (io_dbAirlineIcaoId v)"

definition hasChangedLiveryId :: "CLivery \<Rightarrow> MSInOutValues \<Rightarrow> bool" where
  "hasChangedLiveryId livery v \<longleftrightarrow> changedId (lv_dbKey livery) (io_dbLiveryId v)"

definition hasChangedModelId :: "CAircraftModel \<Rightarrow> MSInOutValues \<Rightarrow> bool" where
  "hasChangedModelId m v \<longleftrightarrow> changedId (am_dbKey m) (io_dbModelId v)"

definition hasChangedModelString :: "string \<Rightarrow> MSInOutValues \<Rightarrow> bool" where
  "hasChangedModelString s v \<longleftrightarrow> \<not> stringCompare False (io_modelString v) s"

definition hasChangedModel :: "CAircraftModel \<Rightarrow> MSInOutValues \<Rightarrow> bool" where
  "hasChangedModel m v \<longleftrightarrow> hasChangedModelString (am_modelString m) v \<or> hasChangedModelId m v"

record MSModelSet =
  mset_simulator :: string
  mset_available :: bool
  mset_inputAircraftAndAirlineCount :: int
  mset_modelSet :: "CAircraftModel list"

text \<open>The count of a new object is not initialised: it is an argument.\<close>

definition initByModelSet :: "int \<Rightarrow> CAircraftModel list \<Rightarrow> MSModelSet" where
  "initByModelSet uninitialised modelSet =
     \<lparr>mset_simulator = [], mset_available = (modelSet \<noteq> []), mset_inputAircraftAndAirlineCount = uninitialised,
      mset_modelSet = modelSet\<rparr>"

definition mset_setSimulator :: "string \<Rightarrow> MSModelSet \<Rightarrow> MSModelSet" where
  "mset_setSimulator simulator s =
     (if mset_simulator s = simulator then s else s\<lparr>mset_simulator := toUpper (trimmed simulator)\<rparr>)"

definition initByAircraftAndAirline :: "CAircraftIcaoCode \<Rightarrow> CAirlineIcaoCode \<Rightarrow> MSModelSet \<Rightarrow> MSModelSet" where
  "initByAircraftAndAirline aircraft airline s =
     s\<lparr>mset_inputAircraftAndAirlineCount :=
         (if mset_modelSet s = [] \<or> ic_designator aircraft = [] \<or> \<not> hasValidAirline airline then 0
          else int (length (findByAircraftAndAirline aircraft airline (mset_modelSet s))))\<rparr>"

text \<open>The counts that a script can read as properties; two of them read the count of another one.\<close>

definition script_countDifferentAirlines :: "MSModelSet \<Rightarrow> nat" where
  "script_countDifferentAirlines s = countVtolAircraft (mset_modelSet s)"

definition script_countVtolAircraft :: "MSModelSet \<Rightarrow> nat" where
  "script_countVtolAircraft s = countCivilianAircraft (mset_modelSet s)"

definition firstModelString :: "CAircraftModel list \<Rightarrow> string" where
  "firstModelString ms = (case ms of [] \<Rightarrow> [] | m # _ \<Rightarrow> am_modelString m)"

definition findCombinedTypeWithClosestColorLivery :: "(string \<Rightarrow> CRgbColor) \<Rightarrow> string \<Rightarrow> string \<Rightarrow> MSModelSet \<Rightarrow> string" where
  "findCombinedTypeWithClosestColorLivery readColor combinedType rgbColor s =
     (if combinedType = [] \<or> rgbColor = [] then []
      else firstModelString (findClosestColorDistance (readColor rgbColor) (readColor rgbColor)
             (findByCombinedTypeWithColorLivery combinedType (mset_modelSet s))))"

definition findClosestCombinedTypeWithClosestColorLivery ::
  "(string \<Rightarrow> CRgbColor) \<Rightarrow> string \<Rightarrow> string \<Rightarrow> MSModelSet \<Rightarrow> string" where
  "findClosestCombinedTypeWithClosestColorLivery readColor combinedType rgbColor s =
     (let found = findCombinedTypeWithClosestColorLivery readColor combinedType rgbColor s
      in if found \<noteq> [] \<or> length combinedType \<noteq> 3 then found
         else findCombinedTypeWithClosestColorLivery readColor (combinedType[1 := CHR ''*'']) rgbColor s)"

definition findAircraftFamilyWithClosestColorLivery :: "(string \<Rightarrow> CRgbColor) \<Rightarrow> string \<Rightarrow> string \<Rightarrow> MSModelSet \<Rightarrow> string" where
  "findAircraftFamilyWithClosestColorLivery readColor family rgbColor s =
     (if family = [] \<or> rgbColor = [] then []
      else firstModelString (findClosestColorDistance (readColor rgbColor) (readColor rgbColor)
             (findByFamilyWithColorLivery family (mset_modelSet s))))"

subsection \<open>Running a script\<close>

datatype scriptOutcome = ScriptError | ScriptObject MSInOutValues | ScriptText string | ScriptOther

type_synonym scriptEngine = "string \<Rightarrow> MSInOutValues \<Rightarrow> MSInOutValues \<Rightarrow> MSInOutValues \<Rightarrow> MSModelSet \<Rightarrow> scriptOutcome"

record MatchingScriptReturnValues =
  rv_model :: CAircraftModel
  rv_modified :: bool
  rv_rerun :: bool
  rv_runScript :: bool

definition noScript :: "CAircraftModel \<Rightarrow> MatchingScriptReturnValues" where
  "noScript model = \<lparr>rv_model = model, rv_modified = False, rv_rerun = False, rv_runScript = False\<rparr>"

definition runScriptAndModified :: "MatchingScriptReturnValues \<Rightarrow> bool" where
  "runScriptAndModified rv \<longleftrightarrow> rv_modified rv \<and> rv_runScript rv"

definition runScriptModifiedAndRerun :: "MatchingScriptReturnValues \<Rightarrow> bool" where
  "runScriptModifiedAndRerun rv \<longleftrightarrow> rv_modified rv \<and> rv_rerun rv \<and> rv_runScript rv"

text \<open>A whole model that the script names, by its id or by its string.\<close>

definition scriptModel ::
  "WebData \<Rightarrow> CAircraftModel list \<Rightarrow> CAircraftModel \<Rightarrow> MSInOutValues \<Rightarrow> CAircraftModel option" where
  "scriptModel wd modelSet inModel v =
     (let byId = getModelForDbKey (io_dbModelId v) wd;
          byString = getModelForModelString (io_modelString v) wd;
          fromSet = reverseLookupModelStringInSet (Some wd) (io_modelString v) (am_callsign inModel) modelSet True;
          changed = hasChangedModelString (am_modelString inModel) v
      in if hasChangedModelId inModel v \<and> hasValidDbKey (am_dbKey byId) then Some byId
         else if changed \<and> hasValidDbKey (am_dbKey byString) then Some byString
         else if changed \<and> model_hasModelString fromSet then Some fromSet
         else None)"

definition scriptIcao ::
  "WebData \<Rightarrow> CAircraftModel \<Rightarrow> MSInOutValues \<Rightarrow> MatchingScriptReturnValues \<Rightarrow> MatchingScriptReturnValues" where
  "scriptIcao wd matchedModel v rv =
     (if hasChangedAircraftIcao (am_aircraftIcao matchedModel) v then
        let icao = (if hasChangedAircraftIcaoId (am_aircraftIcao matchedModel) v
                    then getAircraftIcaoCodeForDbKey (io_dbAircraftIcaoId v) wd else mkShortIcao (io_aircraftIcao v) [])
        in rv\<lparr>rv_modified := True, rv_model := fst (model_setAircraftIcaoCode icao (rv_model rv))\<rparr>
      else rv)"

definition scriptLivery ::
  "WebData \<Rightarrow> CAircraftModel \<Rightarrow> MSInOutValues \<Rightarrow> MatchingScriptReturnValues \<Rightarrow> MatchingScriptReturnValues" where
  "scriptLivery wd matchedModel v rv =
     (let airline = (if hasChangedAirlineIcaoId (am_airline matchedModel) v
                     then getAirlineIcaoCodeForDbKey (io_dbAirlineIcaoId v) wd
                     else getAirlineIcaoCodeForUniqueDesignatorOrDefault (io_airlineIcao v) True wd)
      in if hasChangedLiveryId (am_livery matchedModel) v
         then rv\<lparr>rv_model := (rv_model rv)\<lparr>am_livery := getLiveryForDbKey (io_dbLiveryId v) wd\<rparr>, rv_modified := True\<rparr>
         else if hasChangedAirlineIcao (am_airline matchedModel) v
         then rv\<lparr>rv_model := (rv_model rv)\<lparr>am_livery := getStdLiveryForAirlineCode airline wd\<rparr>, rv_modified := True\<rparr>
         else rv)"

text \<open>The model of the result starts as the one of the network, in both uses of a script.\<close>

definition applyScriptObject ::
  "WebData \<Rightarrow> CAircraftModel list \<Rightarrow> CAircraftModel \<Rightarrow> CAircraftModel \<Rightarrow> MSInOutValues \<Rightarrow> MatchingScriptReturnValues" where
  "applyScriptObject wd modelSet inModel matchedModel v =
     (let rv = (noScript inModel)\<lparr>rv_runScript := True\<rparr>; rv1 = rv\<lparr>rv_rerun := io_rerun v\<rparr>
      in if \<not> io_modified v then rv
         else case scriptModel wd modelSet inModel v of
                Some m \<Rightarrow> rv1\<lparr>rv_model := m, rv_modified := True\<rparr>
              | None \<Rightarrow> scriptLivery wd matchedModel v (scriptIcao wd matchedModel v rv1))"

definition matchingScript ::
  "WebData option \<Rightarrow> scriptEngine \<Rightarrow> string \<Rightarrow> CAircraftModel \<Rightarrow> CAircraftModel \<Rightarrow> CAircraftModel list
   \<Rightarrow> MatchingScriptReturnValues" where
  "matchingScript web engine js inModel matchedModel modelSet =
     (case web of
        None \<Rightarrow> noScript inModel
      | Some wd \<Rightarrow>
          let matchedObject = evaluateChanges (am_aircraftIcao inModel) (am_airline inModel) (inOutOfModel matchedModel);
              setObject = initByAircraftAndAirline (am_aircraftIcao inModel) (am_airline inModel) (initByModelSet 0 modelSet)
          in if js = [] then noScript inModel
             else case engine js (inOutOfModel inModel) matchedObject (inOutOfModel matchedModel) setObject of
                    ScriptObject v \<Rightarrow> applyScriptObject wd modelSet inModel matchedModel v
                  | _ \<Rightarrow> (noScript inModel)\<lparr>rv_runScript := True\<rparr>)"

definition reverseLookupScript ::
  "WebData option \<Rightarrow> (string \<Rightarrow> string) \<Rightarrow> scriptEngine \<Rightarrow> CAircraftModel \<Rightarrow> CAircraftMatcherSetup \<Rightarrow> CAircraftModel list
   \<Rightarrow> MatchingScriptReturnValues" where
  "reverseLookupScript web readFile engine inModel stp modelSet =
     (if \<not> doRunMsReverseLookupScript stp then noScript inModel
      else matchingScript web engine (readFile (ms_msReverseLookupFile stp)) inModel inModel modelSet)"

definition matchingStageScript ::
  "WebData option \<Rightarrow> (string \<Rightarrow> string) \<Rightarrow> scriptEngine \<Rightarrow> CAircraftModel \<Rightarrow> CAircraftModel \<Rightarrow> CAircraftMatcherSetup
   \<Rightarrow> CAircraftModel list \<Rightarrow> MatchingScriptReturnValues" where
  "matchingStageScript web readFile engine inModel matchedModel stp modelSet =
     (if \<not> doRunMsMatchingStageScript stp then noScript inModel
      else matchingScript web engine (readFile (ms_msMatchingStageFile stp)) inModel matchedModel modelSet)"

definition reverseLookupModelMs ::
  "CAircraftIcaoCode keySorter \<Rightarrow> WebData option \<Rightarrow> (string \<Rightarrow> string) \<Rightarrow> scriptEngine \<Rightarrow> CAircraftModel \<Rightarrow> string
   \<Rightarrow> CAircraftMatcherSetup \<Rightarrow> CAircraftModel list \<Rightarrow> CAircraftModel option" where
  "reverseLookupModelMs srt web readFile engine modelToLookup networkLiveryInfo stp modelSet =
     do {
       reverseModel \<leftarrow> reverseLookupModel srt web modelToLookup networkLiveryInfo stp modelSet;
       let rv = reverseLookupScript web readFile engine reverseModel stp modelSet;
       if \<not> doRunMsReverseLookupScript stp then Some reverseModel
       else if runScriptModifiedAndRerun rv
       then reverseLookupModel srt web (rv_model rv) networkLiveryInfo (resetReverseLookup stp) modelSet
       else Some (if runScriptAndModified rv then rv_model rv else reverseModel)
     }"

end
