(* ===== verification/Aircraft_Matcher.thy ===== *)
theory Aircraft_Matcher
  imports Matching_Script
begin

text \<open>
  The aircraft matcher, \<open>CAircraftMatcher\<close> (\<open>src/core/aircraftmatcher.cpp\<close>): its model set, the
  models that are disabled, the default model, the statistics, and the closest match for a
  remote aircraft. Of \<open>CSimulatedAircraft\<close> the callsign and the current model are used. The
  random choice, the web data, the scripts and the presence of a log are in a record of
  surroundings. The result is \<^const>\<open>None\<close> where a reduction reads what is not there.
  The statistics are \<open>CMatchingStatistics\<close> (\<open>src/misc/simulation/matchingstatistics.cpp\<close>).
\<close>

subsection \<open>Statistics\<close>

datatype EntryType = Missing | Found

record CMatchingStatisticsEntry =
  st_entryType :: EntryType
  st_sessionId :: string
  st_modelSetId :: string
  st_aircraftDesignator :: string
  st_airlineDesignator :: string
  st_description :: string
  st_count :: int

definition mkStatisticsEntry :: "EntryType \<Rightarrow> string \<Rightarrow> string \<Rightarrow> string \<Rightarrow> string \<Rightarrow> string \<Rightarrow> CMatchingStatisticsEntry" where
  "mkStatisticsEntry type sessionId modelSetId description aircraftDesignator airlineDesignator =
     \<lparr>st_entryType = type, st_sessionId = trimmed sessionId, st_modelSetId = trimmed modelSetId,
      st_aircraftDesignator = toUpper (trimmed aircraftDesignator),
      st_airlineDesignator = toUpper (trimmed airlineDesignator), st_description = description, st_count = 1\<rparr>"

definition statistics_matches :: "EntryType \<Rightarrow> string \<Rightarrow> string \<Rightarrow> string \<Rightarrow> CMatchingStatisticsEntry \<Rightarrow> bool" where
  "statistics_matches type sessionId aircraftDesignator airlineDesignator e \<longleftrightarrow>
     st_entryType e = type \<and> sessionId = st_sessionId e \<and> aircraftDesignator = st_aircraftDesignator e
     \<and> airlineDesignator = st_airlineDesignator e"

definition findMissingOnly :: "CMatchingStatisticsEntry list \<Rightarrow> CMatchingStatisticsEntry list" where
  "findMissingOnly es = filter (\<lambda>e. st_entryType e = Missing) es"

definition findBySessionId :: "string \<Rightarrow> CMatchingStatisticsEntry list \<Rightarrow> CMatchingStatisticsEntry list" where
  "findBySessionId sessionId es = filter (\<lambda>e. st_sessionId e = sessionId) es"

text \<open>Without an aircraft designator the airline is not compared.\<close>

definition containsAircraftAirlineCombination :: "string \<Rightarrow> string \<Rightarrow> CMatchingStatisticsEntry list \<Rightarrow> bool" where
  "containsAircraftAirlineCombination aircraftDesignator airlineDesignator es \<longleftrightarrow>
     list_ex (\<lambda>e. st_aircraftDesignator e = aircraftDesignator
                  \<and> (aircraftDesignator = [] \<or> st_airlineDesignator e = airlineDesignator)) es"

definition increaseCountIfFound ::
  "EntryType \<Rightarrow> string \<Rightarrow> string \<Rightarrow> string \<Rightarrow> CMatchingStatisticsEntry list \<Rightarrow> bool \<times> CMatchingStatisticsEntry list" where
  "increaseCountIfFound type sessionId aircraftDesignator airlineDesignator es =
     (let p = statistics_matches type sessionId aircraftDesignator airlineDesignator
      in (list_ex p es, map (\<lambda>e. if p e then e\<lparr>st_count := st_count e + 1\<rparr> else e) es))"

definition addAircraftAirlineCombination ::
  "EntryType \<Rightarrow> string \<Rightarrow> string \<Rightarrow> string \<Rightarrow> string \<Rightarrow> string \<Rightarrow> bool \<Rightarrow> CMatchingStatisticsEntry list
   \<Rightarrow> CMatchingStatisticsEntry list" where
  "addAircraftAirlineCombination type sessionId modelSetId description aircraftDesignator airlineDesignator
     avoidDuplicates es =
     (let (didIncrease, es') = increaseCountIfFound type sessionId aircraftDesignator airlineDesignator es
      in if avoidDuplicates \<and> didIncrease then es'
         else es @ [mkStatisticsEntry type sessionId modelSetId description aircraftDesignator airlineDesignator])"

subsection \<open>State\<close>

record CAircraftMatcher =
  mt_setup :: CAircraftMatcherSetup
  mt_defaultModel :: CAircraftModel
  mt_modelSet :: "CAircraftModel list"
  mt_disabledModels :: "CAircraftModel list"
  mt_simulator :: CSimulatorInfo
  mt_statistics :: "CMatchingStatisticsEntry list"
  mt_categoryMatcher :: CCategoryMatcher
  mt_modelSetInfo :: string

record MatcherEnv =
  mv_web :: "WebData option"
  mv_readFile :: "string \<Rightarrow> string"
  mv_engine :: scriptEngine
  mv_random :: "CAircraftModel list \<Rightarrow> CAircraftModel"
  mv_reduceLog :: bool

text \<open>The result says whether the signal \<open>setupChanged\<close> is sent.\<close>

definition setSetup :: "CAircraftMatcherSetup \<Rightarrow> CAircraftMatcher \<Rightarrow> bool \<times> CAircraftMatcher" where
  "setSetup stp mt = (if mt_setup mt = stp then (False, mt) else (True, mt\<lparr>mt_setup := stp\<rparr>))"

definition setDefaultModel :: "CAircraftModel \<Rightarrow> CAircraftMatcher \<Rightarrow> CAircraftMatcher" where
  "setDefaultModel dflt mt = mt\<lparr>mt_defaultModel := dflt\<lparr>am_modelType := TypeModelMatchingDefaultModel\<rparr>\<rparr>"

text \<open>What the user is told when a set is taken.\<close>

datatype modelSetMessage =
    noModelsForMatching CSimulatorInfo
  | duplicateStrings "CAircraftModel list"
  | removedModels int int
  | setModels nat CSimulatorInfo

definition setModelSet ::
  "CAircraftModel list \<Rightarrow> CSimulatorInfo \<Rightarrow> bool \<Rightarrow> CAircraftMatcher \<Rightarrow> nat \<times> modelSetMessage option \<times> CAircraftMatcher" where
  "setModelSet models simulator forced mt =
     (let (ms1, r1) = removeAllWithoutModelString models;
          (modelsCleaned, r2) = removeIfExcluded ms1;
          duplicateModels = findDuplicateModelStrings modelsCleaned;
          message = (if modelsCleaned = [] then noModelsForMatching simulator
                     else if duplicateModels \<noteq> [] then duplicateStrings duplicateModels
                     else if 0 < r1 + r2 then removedModels r1 r2
                     else setModels (length modelsCleaned) simulator)
      in if \<not> isSingleSimulator simulator then (0, None, mt)
         else if \<not> forced \<and> mt_simulator mt = simulator \<and> length (mt_modelSet mt) = length modelsCleaned
         then (length (mt_modelSet mt), None, mt)
         else (length models, Some message,
               mt\<lparr>mt_modelSet := modelsCleaned, mt_simulator := simulator,
                  mt_modelSetInfo := ''Set: '' @ [CHR 0x27] @ simulatorToString simulator @ [CHR 0x27] @ '' entries: ''
                                     @ number_base 10 (int (length modelsCleaned))\<rparr>))"

text \<open>The disabled models are kept when they are restored.\<close>

definition restoreDisabledModels :: "CAircraftMatcher \<Rightarrow> CAircraftMatcher" where
  "restoreDisabledModels mt =
     mt\<lparr>mt_modelSet := fst (replaceOrAddModelsWithString False (mt_disabledModels mt) (mt_modelSet mt))\<rparr>"

definition disableModelsForMatching :: "CAircraftModel list \<Rightarrow> bool \<Rightarrow> CAircraftMatcher \<Rightarrow> CAircraftMatcher" where
  "disableModelsForMatching removed incremental mt =
     (if incremental then
        mt\<lparr>mt_modelSet := fst (removeModelsWithString False removed (mt_modelSet mt)),
           mt_disabledModels := mt_disabledModels mt @ removed\<rparr>
      else
        let mt' = restoreDisabledModels mt
        in mt'\<lparr>mt_disabledModels := removed, mt_modelSet := fst (removeModelsWithString False removed (mt_modelSet mt'))\<rparr>)"

definition addingRemoteModelFailed :: "CCallsign \<Rightarrow> CAircraftModel \<Rightarrow> CAircraftMatcher \<Rightarrow> CAircraftMatcher" where
  "addingRemoteModelFailed cs remote mt =
     (if removeFromSetIfFailed (mt_setup mt) \<and> \<not> cs_isEmpty cs \<and> model_hasModelString remote
      then disableModelsForMatching [remote] True mt else mt)"

definition evaluateStatisticsEntry ::
  "(CAircraftIcaoCode list \<Rightarrow> CAircraftIcaoCode list) \<Rightarrow> WebData \<Rightarrow> string \<Rightarrow> string \<Rightarrow> string \<Rightarrow> CAircraftMatcher
   \<Rightarrow> CAircraftMatcher" where
  "evaluateStatisticsEntry sortByRankAndKey wd sessionId aircraftIcao airlineIcao mt =
     (let known = hasValidDbKey (ic_dbKey (getAircraftIcaoCodeForDesignator sortByRankAndKey aircraftIcao wd));
          description = (if known then [] else ''ICAO: '' @ [CHR 0x27] @ aircraftIcao @ [CHR 0x27] @ '' not known, typo?'');
          type = (if containsModelsWithAircraftAndAirlineIcaoDesignator aircraftIcao airlineIcao (mt_modelSet mt)
                  then Found else Missing)
      in if mt_modelSet mt = [] \<or> sessionId = [] \<or> aircraftIcao = [] then mt
         else mt\<lparr>mt_statistics := addAircraftAirlineCombination type sessionId (mt_modelSetInfo mt) description
                  aircraftIcao airlineIcao True (mt_statistics mt)\<rparr>)"

subsection \<open>The closest match\<close>

text \<open>A manually set model, an empty set, or the exact string decide before any search.\<close>

definition matchInPrephase :: "CCallsign \<Rightarrow> CAircraftModel \<Rightarrow> CAircraftMatcher \<Rightarrow> CAircraftModel option" where
  "matchInPrephase cs remote mt =
     (let exact = matchByExactModelString cs remote (mt_modelSet mt)
      in if hasManuallySetString remote then Some remote
         else if mt_modelSet mt = [] then Some (mt_defaultModel mt)
         else if model_hasModelString remote \<and> inMode ByModelString (mt_setup mt) \<and> model_hasModelString exact
         then Some exact
         else None)"

definition modelsForMatching :: "CAircraftMatcher \<Rightarrow> CAircraftModel list" where
  "modelsForMatching mt =
     (let stp = mt_setup mt;
          ms1 = fst (removeAllWithoutModelString (mt_modelSet mt));
          ms2 = (if inMode ExcludeNoDbData stp then fst (removeObjectsWithoutDbKey ms1) else ms1)
      in if inMode ExcludeNoExcluded stp then fst (removeIfExcluded ms2) else ms2)"

definition matchingCandidates ::
  "MatcherEnv \<Rightarrow> CAircraftModel \<Rightarrow> CAircraftMatcher \<Rightarrow> CAircraftModel list \<Rightarrow> CAircraftModel list option" where
  "matchingCandidates env remote mt modelSet =
     (let stp = mt_setup mt;
          reducedModels = getClosestMatchStepwiseReduceImplementation (mv_reduceLog env) modelSet stp
                            (mt_categoryMatcher mt) remote
      in case ms_algorithm stp of
           MatchingStepwiseReduce \<Rightarrow> reducedModels
         | MatchingScoreBased \<Rightarrow> Some (getClosestMatchScoreImplementation modelSet stp remote)
         | MatchingStepwiseReducePlusScoreBased \<Rightarrow>
             map_option (\<lambda>ms. getClosestMatchScoreImplementation ms stp remote) reducedModels)"

definition pickCandidate :: "MatcherEnv \<Rightarrow> PickSimilarStrategy \<Rightarrow> CAircraftModel list \<Rightarrow> CAircraftModel" where
  "pickCandidate env strategy candidates =
     (if strategy = PickRandom then mv_random env candidates
      else if strategy = PickByOrder \<and> \<not> needsOrder am_order candidates
      then minOrderOrDefault am_order defaultModel candidates
      else hd candidates)"

text \<open>The model set that was used and the model that was found.\<close>

definition findMatch ::
  "MatcherEnv \<Rightarrow> CCallsign \<Rightarrow> CAircraftModel \<Rightarrow> CAircraftMatcher \<Rightarrow> (CAircraftModel list \<times> CAircraftModel) option" where
  "findMatch env cs remote mt =
     (case matchInPrephase cs remote mt of
        Some m \<Rightarrow> Some (mt_modelSet mt, m)
      | None \<Rightarrow>
          let modelSet = modelsForMatching mt
          in map_option (\<lambda>candidates. (modelSet,
                 if candidates = [] then getCombinedTypeDefaultModel modelSet remote (mt_defaultModel mt)
                 else pickCandidate env (ms_strategy (mt_setup mt)) candidates))
               (matchingCandidates env remote mt modelSet))"

definition asMatched :: "CCallsign \<Rightarrow> CAircraftModel \<Rightarrow> CAircraftModel" where
  "asMatched cs m = (setModelCallsign cs m)\<lparr>am_modelType := TypeModelMatching\<rparr>"

text \<open>A model without a string is replaced by the default model, when that has one.\<close>

definition orDefaultModel :: "CCallsign \<Rightarrow> CAircraftMatcher \<Rightarrow> CAircraftModel \<Rightarrow> CAircraftModel" where
  "orDefaultModel cs mt m =
     (if model_hasModelString m \<or> \<not> model_hasModelString (mt_defaultModel mt) then m
      else setModelCallsign cs (mt_defaultModel mt))"

definition getClosestMatchNoScript ::
  "MatcherEnv \<Rightarrow> CCallsign \<Rightarrow> CAircraftModel \<Rightarrow> CAircraftMatcher \<Rightarrow> CAircraftModel option" where
  "getClosestMatchNoScript env cs remote mt =
     map_option (\<lambda>(_, m). orDefaultModel cs mt (asMatched cs m)) (findMatch env cs remote mt)"

text \<open>The callsign of an aircraft whose model is set.\<close>

definition callsignAfterSetModel :: "CCallsign \<Rightarrow> CAircraftModel \<Rightarrow> CCallsign" where
  "callsignAfterSetModel cs m = (if isValidAircraftCallsign (cs_callsign cs) then cs else am_callsign m)"

text \<open>The change of a script that does not ask for a second run is not used.\<close>

definition applyMatchingScript ::
  "MatcherEnv \<Rightarrow> CCallsign \<Rightarrow> CAircraftModel \<Rightarrow> CAircraftMatcher \<Rightarrow> CAircraftModel list \<Rightarrow> CAircraftModel
   \<Rightarrow> CAircraftModel option" where
  "applyMatchingScript env cs remote mt modelSet matchedModel =
     (let rv = matchingStageScript (mv_web env) (mv_readFile env) (mv_engine env) remote matchedModel (mt_setup mt) modelSet;
          rerunCs = callsignAfterSetModel cs (rv_model rv);
          rerunModel = setModelCallsign rerunCs (rv_model rv)
      in if \<not> runScriptModifiedAndRerun rv then Some matchedModel
         else map_option (\<lambda>m. if model_hasModelString m then setModelCallsign cs m else matchedModel)
                (getClosestMatchNoScript env rerunCs rerunModel mt))"

definition getClosestMatch ::
  "MatcherEnv \<Rightarrow> CCallsign \<Rightarrow> CAircraftModel \<Rightarrow> bool \<Rightarrow> CAircraftMatcher \<Rightarrow> CAircraftModel option" where
  "getClosestMatch env cs remote useMatchingScript mt =
     do {
       (modelSet, found) \<leftarrow> findMatch env cs remote mt;
       let matchedModel = asMatched cs found;
       scripted \<leftarrow> (if useMatchingScript \<and> doRunMsMatchingStageScript (mt_setup mt)
                    then applyMatchingScript env cs remote mt modelSet matchedModel
                    else Some matchedModel);
       Some (orDefaultModel cs mt (asMatched cs scripted))
     }"

end
