(* ===== verification/Model_Laws.thy ===== *)
theory Model_Laws
  imports Model_List
begin

text \<open>
  What the operations on models, liveries and their lists guarantee: the order numbers after a
  move, as a locale over anything that has an order number; the bounds of the scores; the ids in
  the livery string of the network; the normal form of the texts of a model.
\<close>

subsection \<open>Order numbers\<close>

lemma upto_shift: "map (\<lambda>n. n + s) [i..j] = [i + s..j + s :: int]"
proof (induction i j rule: upto.induct)
  case (1 i j)
  show ?case
  proof (cases "i \<le> j")
    case True
    then show ?thesis using 1 by (simp add: upto_rec1 algebra_simps)
  qed simp
qed

lemma upto_with_gap:
  assumes "0 \<le> t" and "t \<le> k" and "0 \<le> s"
  shows "mset (map (\<lambda>n. if n < t then n else n + s) [0..k - 1] @ [t..t + s - 1]) = mset [0..k + s - 1 :: int]"
proof -
  have split: "[0..k - 1] = [0..t - 1] @ [t..k - 1]"
    using assms upto_split1 [of 0 t "k - 1"] by (cases "t = k") auto
  have all: "[0..k + s - 1] = [0..t - 1] @ [t..t + s - 1] @ [t + s..k + s - 1]"
    using assms upto_split1 [of 0 t "k + s - 1"] upto_split1 [of t "t + s" "k + s - 1"]
    by (cases "t = k"; cases "s = 0") auto
  have low: "map (\<lambda>n. if n < t then n else n + s) [0..t - 1] = [0..t - 1]"
    by (rule map_idI) auto
  have high: "map (\<lambda>n. if n < t then n else n + s) [t..k - 1] = [t + s..k + s - 1]"
    by (subst upto_shift [of s t "k - 1", symmetric, simplified add_diff_eq diff_add_eq]) (auto simp: algebra_simps)
  show ?thesis by (simp add: split all low high)
qed

locale orderable =
  fixes getOrder :: "'a \<Rightarrow> int" and setOrder :: "int \<Rightarrow> 'a \<Rightarrow> 'a"
  assumes get_set: "getOrder (setOrder n x) = n"
begin

lemma length_resetOrder: "length (resetOrder setOrder k xs) = length xs"
  by (induction xs arbitrary: k) auto

lemma orders_resetOrder: "map getOrder (resetOrder setOrder k xs) = [k..k + int (length xs) - 1]"
  by (induction xs arbitrary: k) (auto simp: get_set upto_rec1)

lemma orders_freezeOrderDown: "map getOrder (freezeOrderDown setOrder k xs) = rev [k - int (length xs) + 1..k]"
proof (induction xs arbitrary: k)
  case (Cons x xs)
  have "[k - int (length xs)..k] = [k - int (length xs)..k - 1] @ [k]" by (rule upto_rec2) simp
  then show ?case by (simp add: Cons get_set)
qed simp

lemma no_order_missing: "\<not> needsOrder getOrder (resetOrder setOrder 0 xs)"
proof -
  have "\<forall>n \<in> set (map getOrder (resetOrder setOrder 0 xs)). 0 \<le> n" by (subst orders_resetOrder) auto
  then show ?thesis by (auto simp: needsOrder_def hasValidOrder_def list_ex_iff)
qed

lemma moveTo_orders:
  assumes "items \<noteq> []" and "keySorts srt"
      and "0 \<le> t" and "t \<le> int (length (withoutItemsOfSameOrder getOrder items xs))"
  shows "mset (map getOrder (moveTo srt getOrder setOrder items t xs))
         = mset [0..int (length (moveTo srt getOrder setOrder items t xs)) - 1]"
    and "map getOrder (drop (length (withoutItemsOfSameOrder getOrder items xs)) (moveTo srt getOrder setOrder items t xs))
         = [t..t + int (length items) - 1]"
proof -
  let ?ys = "srt getOrder (withoutItemsOfSameOrder getOrder items xs)" and ?is = "srt getOrder items"
  let ?move = "\<lambda>x. if getOrder x < t then x else setOrder (getOrder x + int (length items)) x"
  have lens: "length (srt getOrder zs) = length zs" for zs
    using assms(2) by (metis keySorts_def size_mset)
  have split: "moveTo srt getOrder setOrder items t xs
    = map ?move (resetOrder setOrder 0 ?ys) @ resetOrder setOrder t ?is"
    using assms(1) by (simp add: moveTo_def Let_def)
  have "getOrder (?move x) = (\<lambda>n. if n < t then n else n + int (length items)) (getOrder x)" for x
    by (simp add: get_set)
  then have "map (getOrder \<circ> ?move) (resetOrder setOrder 0 ?ys)
    = map (\<lambda>n. if n < t then n else n + int (length items)) (map getOrder (resetOrder setOrder 0 ?ys))"
    by simp
  then have moved: "map (getOrder \<circ> ?move) (resetOrder setOrder 0 ?ys)
    = map (\<lambda>n. if n < t then n else n + int (length items))
        [0..int (length (withoutItemsOfSameOrder getOrder items xs)) - 1]"
    by (simp only: orders_resetOrder) (simp add: lens)
  have items: "map getOrder (resetOrder setOrder t ?is) = [t..t + int (length items) - 1]"
    by (simp add: orders_resetOrder lens)
  show "mset (map getOrder (moveTo srt getOrder setOrder items t xs))
         = mset [0..int (length (moveTo srt getOrder setOrder items t xs)) - 1]"
    using upto_with_gap [OF assms(3,4), of "int (length items)"]
    by (simp add: split moved items length_resetOrder lens)
  show "map getOrder (drop (length (withoutItemsOfSameOrder getOrder items xs)) (moveTo srt getOrder setOrder items t xs))
         = [t..t + int (length items) - 1]"
    by (simp add: split items length_resetOrder lens)
qed

end

definition setModelOrder :: "int \<Rightarrow> CAircraftModel \<Rightarrow> CAircraftModel" where
  "setModelOrder n m = m\<lparr>am_order := n\<rparr>"

definition setOrderOfDistributor :: "int \<Rightarrow> CDistributor \<Rightarrow> CDistributor" where
  "setOrderOfDistributor n d = d\<lparr>di_order := n\<rparr>"

interpretation model_order: orderable am_order setModelOrder
  by unfold_locales (simp add: setModelOrder_def)

interpretation distributor_order: orderable di_order setOrderOfDistributor
  by unfold_locales (simp add: setOrderOfDistributor_def)

subsection \<open>Scores\<close>

text \<open>The components of a color have at most 16 bits.\<close>

definition color_16bit :: "CRgbColor \<Rightarrow> bool" where
  "color_16bit c \<longleftrightarrow> rgb_r c < 65536 \<and> rgb_g c < 65536 \<and> rgb_b c < 65536"

definition livery_16bit :: "CLivery \<Rightarrow> bool" where
  "livery_16bit l \<longleftrightarrow> color_16bit (lv_colorFuselage l) \<and> color_16bit (lv_colorTail l)"

lemma normalized_bounds:
  assumes "color_isValid c" and "color_16bit c"
  shows "0 \<le> normalizedRed c \<and> normalizedRed c \<le> 1"
    and "0 \<le> normalizedGreen c \<and> normalizedGreen c \<le> 1"
    and "0 \<le> normalizedBlue c \<and> normalizedBlue c \<le> 1"
  using assms
  by (auto simp: normalizedRed_def normalizedGreen_def normalizedBlue_def colorRange_def color_isValid_def
      color_16bit_def)

lemma square_diff_bounds:
  fixes a b :: rat
  assumes "0 \<le> a \<and> a \<le> 1" and "0 \<le> b \<and> b \<le> 1"
  shows "0 \<le> (a - b) * (a - b) \<and> (a - b) * (a - b) \<le> 1"
proof -
  have "\<bar>a - b\<bar> \<le> 1" using assms by auto
  then have "\<bar>a - b\<bar> * \<bar>a - b\<bar> \<le> 1 * 1" by (intro mult_mono) auto
  then show ?thesis by (simp flip: abs_mult)
qed

lemma colorDistance_bounds:
  assumes "color_16bit c" and "color_16bit d"
  shows "0 \<le> colorDistance c d \<and> colorDistance c d \<le> 1"
proof (cases "color_isValid c \<and> color_isValid d")
  case True
  have valid: "color_isValid c" "color_isValid d" using True by auto
  note r = square_diff_bounds [OF normalized_bounds(1) normalized_bounds(1), OF valid(1) assms(1) valid(2) assms(2)]
  note g = square_diff_bounds [OF normalized_bounds(2) normalized_bounds(2), OF valid(1) assms(1) valid(2) assms(2)]
  note b = square_diff_bounds [OF normalized_bounds(3) normalized_bounds(3), OF valid(1) assms(1) valid(2) assms(2)]
  show ?thesis using True r g b by (simp add: colorDistance_def Let_def)
qed (auto simp: colorDistance_def)

lemma liveryDistance_bounds:
  assumes "livery_16bit l" and "livery_16bit other"
  shows "0 \<le> liveryDistance l other \<and> liveryDistance l other \<le> 1"
proof -
  have sq: "0 \<le> x * x \<and> x * x \<le> 1" if "0 \<le> x \<and> x \<le> 1" for x :: rat
    using that square_diff_bounds [of x 0] by simp
  have f: "0 \<le> colorDistance (lv_colorFuselage l) (lv_colorFuselage other)
      \<and> colorDistance (lv_colorFuselage l) (lv_colorFuselage other) \<le> 1"
    and t: "0 \<le> colorDistance (lv_colorTail l) (lv_colorTail other)
      \<and> colorDistance (lv_colorTail l) (lv_colorTail other) \<le> 1"
    using assms by (simp_all add: livery_16bit_def colorDistance_bounds)
  show ?thesis
    using sq [OF f] sq [OF t] by (auto simp: liveryDistance_def getColorDistance_def Let_def)
qed

lemma airline_score_bounds: "0 \<le> airline_calculateScore a b \<and> airline_calculateScore a b \<le> 100"
  by (simp add: airline_calculateScore_def airline_nameScore_def)

lemma truncRat_bounds: "of_int a \<le> x \<Longrightarrow> x \<le> of_int b \<Longrightarrow> 0 \<le> a \<Longrightarrow> a \<le> truncRat x \<and> truncRat x \<le> b"
proof -
  assume "of_int a \<le> x" and "x \<le> of_int b" and "0 \<le> a"
  then have "0 \<le> x" by (meson of_int_0_le_iff order_trans)
  then show ?thesis
    using \<open>of_int a \<le> x\<close> \<open>x \<le> of_int b\<close> by (simp add: truncRat_def le_floor_iff) (simp add: floor_le_iff)
qed

lemma qRound_bounds: "of_int a \<le> x \<Longrightarrow> x \<le> of_int b \<Longrightarrow> 0 \<le> a \<Longrightarrow> a \<le> qRound x \<and> qRound x \<le> b"
proof -
  assume x: "of_int a \<le> x" "x \<le> of_int b" and a: "0 \<le> a"
  have "0 \<le> x" using x(1) a by (meson of_int_0_le_iff order_trans)
  then have "qRound x = \<lfloor>x + 1 / 2\<rfloor>" by (simp add: qRound_def)
  then show ?thesis using x by (simp add: le_floor_iff floor_le_iff)
qed

lemma livery_score_bounds:
  assumes "livery_16bit l" and "livery_16bit other"
  shows "0 \<le> livery_calculateScore other pcl l \<and> livery_calculateScore other pcl l \<le> 100"
proof -
  let ?d = "liveryDistance l other"
  let ?a = "qRound (of_int (airline_calculateScore (lv_airline l) (lv_airline other)) / 2)"
  have d: "0 \<le> ?d \<and> ?d \<le> 1" by (rule liveryDistance_bounds [OF assms])
  have a: "0 \<le> ?a \<and> ?a \<le> 50"
    using airline_score_bounds [of "lv_airline l" "lv_airline other"] by (intro qRound_bounds) auto
  have color: "0 \<le> truncRat (25 + 60 * (1 - ?d)) \<and> truncRat (25 + 60 * (1 - ?d)) \<le> 85"
    using d by (intro truncRat_bounds) auto
  have airline: "0 \<le> truncRat (of_int ?a + 25 * (1 - ?d)) \<and> truncRat (of_int ?a + 25 * (1 - ?d)) \<le> 75"
    using a d by (intro truncRat_bounds) auto
  have mixed: "0 \<le> truncRat ((if pcl then 25 else 0) + 25 * (1 - ?d))
      \<and> truncRat ((if pcl then 25 else 0) + 25 * (1 - ?d)) \<le> 50"
    using d by (intro truncRat_bounds) auto
  show ?thesis using color airline mixed by (auto simp: livery_calculateScore_def Let_def)
qed

lemma model_score_bounds:
  assumes "0 \<le> ic_rank (am_aircraftIcao m)" and "livery_16bit (am_livery m)" and "livery_16bit (am_livery remote)"
  shows "0 \<le> model_calculateScore remote pcl m \<and> model_calculateScore remote pcl m \<le> 100"
proof -
  have i: "0 \<le> calculateScore (am_aircraftIcao m) (am_aircraftIcao remote)"
    "calculateScore (am_aircraftIcao m) (am_aircraftIcao remote) \<le> 100"
    using calculateScore_bounds [OF assms(1), of "am_aircraftIcao remote"] by (auto split: if_splits)
  have l: "0 \<le> livery_calculateScore (am_livery remote) pcl (am_livery m)"
    "livery_calculateScore (am_livery remote) pcl (am_livery m) \<le> 100"
    using livery_score_bounds [OF assms(2,3), of pcl] by auto
  show ?thesis
    unfolding model_calculateScore_def Let_def using i l by (intro qRound_bounds) (auto simp flip: of_int_add)
qed

subsection \<open>The livery string of the network\<close>

lemma number_digits: "0 \<le> n \<Longrightarrow> c \<in> set (number n) \<Longrightarrow> isDigitC c"
  using nat_digits_chars [of 10 c "nat n"]
  by (auto simp: number_base_def isDigitC_def of_char_digit_char Let_def)

lemma digits_take_drop:
  assumes "0 \<le> n" and "rest = [] \<or> \<not> isDigitC (hd rest)"
  shows "takeWhile isDigitC (number n @ rest) = number n" and "dropWhile isDigitC (number n @ rest) = rest"
proof -
  have digits: "\<forall>c \<in> set (number n). isDigitC c" using number_digits [OF assms(1)] by blast
  then have *: "takeWhile isDigitC (number n @ rest) = number n @ takeWhile isDigitC rest"
    "dropWhile isDigitC (number n @ rest) = dropWhile isDigitC rest"
    by (simp_all add: takeWhile_append2 dropWhile_append2)
  show "takeWhile isDigitC (number n @ rest) = number n" and "dropWhile isDigitC (number n @ rest) = rest"
    unfolding * using assms(2) by (cases rest; simp)+
qed

lemma parseTripleIds_part:
  assumes "letter \<in> set ''mal''" and "0 \<le> n" and "int32 n" and "rest = [] \<or> \<not> isDigitC (hd rest)"
  shows "parseTripleIds (letter # number n @ rest) ids = parseTripleIds rest (setTripleId letter n ids)"
  using assms(1,3) digits_take_drop [OF assms(2,4)] by simp

lemma parse_idPart:
  assumes "letter \<in> set ''mal''" and "int32 key" and "rest = [] \<or> \<not> isDigitC (hd rest)"
  shows "parseTripleIds (idPart True letter key @ rest) ids
    = parseTripleIds rest (if hasValidDbKey key then setTripleId letter key ids else ids)"
  using assms parseTripleIds_part [OF assms(1) _ assms(2,3)] by (simp add: idPart_def hasValidDbKey_def)

lemma idPart_no_upper: "letter \<in> set ''mal'' \<Longrightarrow> c \<in> set (idPart wanted letter key) \<Longrightarrow> \<not> isUpperC c"
  using number_digits [of key c]
  by (auto simp: idPart_def hasValidDbKey_def isUpperC_def isDigitC_def Let_def split: if_splits)

lemma idPart_hd: "letter \<in> set ''mal'' \<Longrightarrow> idPart wanted letter key = [] \<or> \<not> isDigitC (hd (idPart wanted letter key))"
  by (auto simp: idPart_def isDigitC_def)

definition validIdOr :: "int \<Rightarrow> int" where
  "validIdOr key = (if hasValidDbKey key then key else -1)"

lemma parse_livery_string:
  assumes "int32 (am_dbKey m)" and "int32 (lv_dbKey (am_livery m))" and "int32 (ic_dbKey (am_aircraftIcao m))"
  shows "parseNetworkLiveryString (getSwiftLiveryString True True True m)
    = \<lparr>id_model = validIdOr (am_dbKey m), id_livery = validIdOr (lv_dbKey (am_livery m)),
       id_aircraft = validIdOr (ic_dbKey (am_aircraftIcao m))\<rparr>"
proof -
  let ?p = "\<lambda>c k. idPart True c k"
  let ?l = "?p CHR ''l'' (lv_dbKey (am_livery m))" and ?a = "?p CHR ''a'' (ic_dbKey (am_aircraftIcao m))"
    and ?m = "?p CHR ''m'' (am_dbKey m)"
  let ?s = "?l @ ?a @ ?m"
  have lower: "toLower ?s = ?s"
    using idPart_no_upper [of "CHR ''l''"] idPart_no_upper [of "CHR ''a''"] idPart_no_upper [of "CHR ''m''"]
    by (intro map_idI) (auto simp: toLowerC_def)
  have bm: "?m = [] \<or> \<not> isDigitC (hd ?m)" and ba: "?a = [] \<or> \<not> isDigitC (hd ?a)"
    by (rule idPart_hd; simp)+
  then have b: "?a @ ?m = [] \<or> \<not> isDigitC (hd (?a @ ?m))" by (cases "?a = []") auto
  have parsed: "parseTripleIds ?s DBTripleIds_default
    = \<lparr>id_model = validIdOr (am_dbKey m), id_livery = validIdOr (lv_dbKey (am_livery m)),
       id_aircraft = validIdOr (ic_dbKey (am_aircraftIcao m))\<rparr>"
    using parse_idPart [OF _ assms(2) b] parse_idPart [OF _ assms(3) bm] parse_idPart [OF _ assms(1), of _ "[]"]
    by (simp add: setTripleId_def validIdOr_def DBTripleIds_default_def)
  show ?thesis
  proof (cases "?s = []")
    case True
    then have "getSwiftLiveryString True True True m = []" by (simp add: getSwiftLiveryString_def)
    then show ?thesis using parsed True by (simp add: parseNetworkLiveryString_def isSwiftLiveryString_def)
  next
    case False
    then have str: "getSwiftLiveryString True True True m = liveryStringPrefix @ ?s"
      by (simp only: getSwiftLiveryString_def Let_def) simp
    have "isSwiftLiveryString (liveryStringPrefix @ ?s)"
      using False by (simp add: isSwiftLiveryString_def startsWithCI_def startsWith_iff)
    moreover have "mid (liveryStringPrefix @ ?s) (length liveryStringPrefix) = ?s" by (simp add: mid_def)
    ultimately show ?thesis
      by (simp only: str parseNetworkLiveryString_def not_True_eq_False if_False lower parsed)
  qed
qed

subsection \<open>Texts in normal form\<close>

definition normalText :: "string \<Rightarrow> bool" where "normalText s \<longleftrightarrow> toUpper (trimmed s) = s"
definition trimmedText :: "string \<Rightarrow> bool" where "trimmedText s \<longleftrightarrow> trimmed s = s"

lemma normalText_simps [simp]:
  "normalText []" "normalText (toUpper (trimmed s))" "normalText (trimmed (toUpper s))"
  "trimmedText []" "trimmedText (trimmed s)"
  by (simp_all add: normalText_def trimmedText_def trimmed_map_toUpper)

definition wf_icao :: "CAircraftIcaoCode \<Rightarrow> bool" where
  "wf_icao c \<longleftrightarrow> normalText (ic_designator c) \<and> normalText (ic_iataCode c) \<and> normalText (ic_family c)
     \<and> normalText (ic_combinedType c) \<and> trimmedText (ic_manufacturer c) \<and> trimmedText (ic_modelDescription c)
     \<and> trimmedText (ic_modelIataDescription c) \<and> trimmedText (ic_modelSwiftDescription c)
     \<and> 0 \<le> ic_rank c \<and> ic_rank c \<le> 10"

definition wf_livery :: "CLivery \<Rightarrow> bool" where "wf_livery l \<longleftrightarrow> normalText (lv_combinedCode l)"

definition wf_model :: "CAircraftModel \<Rightarrow> bool" where
  "wf_model m \<longleftrightarrow> normalText (am_modelString m) \<and> normalText (am_modelStringAlias m) \<and> trimmedText (am_name m)
     \<and> trimmedText (am_description m) \<and> cleanUpPartsString (am_supportedParts m) = am_supportedParts m
     \<and> wf_icao (am_aircraftIcao m) \<and> wf_livery (am_livery m)"

lemmas wf_defs = wf_icao_def wf_livery_def wf_model_def

text \<open>A let of a well-formed value, and a change under a condition.\<close>

lemma wf_let: "P e \<Longrightarrow> (\<And>x. P x \<Longrightarrow> Q (f x)) \<Longrightarrow> Q (let x = e in f x)"
  by (simp add: Let_def)

lemma wf_cond: "P x \<Longrightarrow> (P x \<Longrightarrow> P y) \<Longrightarrow> P (if b then y else x)"
  by simp

lemma limitRank_bounds: "0 \<le> limitRank n \<and> limitRank n \<le> 10"
  by (simp add: limitRank_def)

lemma wf_updateMissingParts: "wf_icao c \<Longrightarrow> wf_icao other \<Longrightarrow> wf_icao (updateMissingParts c other)"
  unfolding updateMissingParts_def
  by (intro wf_let [where P = wf_icao and Q = wf_icao] wf_cond [where P = wf_icao]; assumption?)
     (simp add: wf_icao_def setDesignator_def setCombinedType_def setManufacturer_def setModelDescription_def
       setModelIataDescription_def setModelSwiftDescription_def setFamily_def setIataCode_def setRank_def
       limitRank_bounds)+

lemma wf_livery_fillParts: "wf_livery l \<Longrightarrow> wf_livery other \<Longrightarrow> wf_livery (livery_fillParts l other)"
  unfolding livery_fillParts_def
  by (intro wf_let [where P = wf_livery and Q = wf_livery] wf_cond [where P = wf_livery]; assumption?)
     (simp add: wf_livery_def setCombinedCode_def)+

lemma wf_livery_updateMissingParts: "wf_livery l \<Longrightarrow> wf_livery other \<Longrightarrow> wf_livery (livery_updateMissingParts l other)"
  by (simp add: livery_updateMissingParts_def wf_livery_fillParts)

lemma wf_model_fillParts: "wf_model m \<Longrightarrow> wf_model other \<Longrightarrow> wf_model (model_fillParts m other)"
  unfolding model_fillParts_def
  apply (intro wf_let [where P = wf_model and Q = wf_model] wf_cond [where P = wf_model]; assumption?)
          apply (simp_all add: wf_model_def setModelCallsign_def setModelString_def wf_updateMissingParts
      wf_livery_updateMissingParts)
  done

lemma wf_model_updateParts: "wf_model m \<Longrightarrow> wf_model other \<Longrightarrow> wf_model (model_updateParts m other)"
proof -
  assume m: "wf_model m" and other: "wf_model other"
  have "wf_model (updateFileTimestamp (updateLocalFileNames m other) other)"
    using m by (simp add: wf_model_def updateFileTimestamp_def updateLocalFileNames_def setFileTimestamp_def)
  then show ?thesis
    unfolding model_updateParts_def
    by (intro wf_let [where P = wf_model and Q = wf_model]) (simp_all add: other wf_model_fillParts)
qed

lemma wf_model_updateMissingParts:
  "wf_model m \<Longrightarrow> wf_model other \<Longrightarrow> wf_model (model_updateMissingParts m dbModelPriority other)"
  by (simp add: model_updateMissingParts_def wf_model_updateParts)

lemma cleanUpPartsString_idem: "cleanUpPartsString (cleanUpPartsString p) = cleanUpPartsString p"
proof -
  let ?keep = "\<lambda>c. \<not> c \<notin> set supportedParts"
  have upper: "toUpper xs = xs" if "set xs \<subseteq> set supportedParts" for xs
    using that by (intro map_idI) (auto simp: supportedParts_def toUpperC_def isLowerC_def)
  have set: "set (sort (filter ?keep (toUpper p))) \<subseteq> set supportedParts" by auto
  have "sort (filter ?keep (toUpper (sort (filter ?keep (toUpper p))))) = sort (filter ?keep (toUpper p))"
    unfolding upper [OF set] using set by (simp add: filter_id_conv subset_iff sorted_sort_id)
  then show ?thesis by (simp add: cleanUpPartsString_def removeChars_def)
qed

text \<open>The values that the constructors, the setters and the merges make.\<close>

inductive builtIcao :: "CAircraftIcaoCode \<Rightarrow> bool" where
  icao_short: "builtIcao (mkShortIcao d t)"
| icao_full: "builtIcao (mkIcao d iata family t manufacturer model modelIata modelSwift wtc isReal legacy mil rank)"
| icao_designator: "builtIcao c \<Longrightarrow> builtIcao (setDesignator s c)"
| icao_family: "builtIcao c \<Longrightarrow> builtIcao (setFamily s c)"
| icao_iata: "builtIcao c \<Longrightarrow> builtIcao (setIataCode s c)"
| icao_combined: "builtIcao c \<Longrightarrow> builtIcao (setCombinedType s c)"
| icao_manufacturer: "builtIcao c \<Longrightarrow> builtIcao (setManufacturer s c)"
| icao_rank: "builtIcao c \<Longrightarrow> builtIcao (setRank n c)"
| icao_merged: "builtIcao c \<Longrightarrow> builtIcao d \<Longrightarrow> builtIcao (updateMissingParts c d)"

inductive builtLivery :: "CLivery \<Rightarrow> bool" where
  livery_default: "builtLivery CLivery_default"
| livery_made: "builtLivery (mkLivery key code airline description fuselage tail mil)"
| livery_code: "builtLivery l \<Longrightarrow> builtLivery (setCombinedCode s l)"
| livery_airline: "builtLivery l \<Longrightarrow> builtLivery (fst (livery_setAirlineIcaoCode airline l))"
| livery_merged: "builtLivery l \<Longrightarrow> builtLivery k \<Longrightarrow> builtLivery (livery_updateMissingParts l k)"

inductive builtModel :: "CAircraftModel \<Rightarrow> bool" where
  model_default: "builtModel defaultModel"
| model_made: "builtIcao icao \<Longrightarrow> builtLivery livery \<Longrightarrow> builtModel (mkModel s type sim name description icao livery)"
| model_string: "builtModel m \<Longrightarrow> builtModel (setModelString s m)"
| model_alias: "builtModel m \<Longrightarrow> builtModel (setModelStringAlias s m)"
| model_parts: "builtModel m \<Longrightarrow> builtModel (setSupportedParts s m)"
| model_callsign: "builtModel m \<Longrightarrow> builtModel (setModelCallsign cs m)"
| model_ordered: "builtModel m \<Longrightarrow> builtModel (setModelOrder n m)"
| model_icao: "builtModel m \<Longrightarrow> builtIcao icao \<Longrightarrow> builtModel (fst (model_setAircraftIcaoCode icao m))"
| model_livery: "builtModel m \<Longrightarrow> builtLivery livery \<Longrightarrow> builtModel (m\<lparr>am_livery := livery\<rparr>)"
| model_merged: "builtModel m \<Longrightarrow> builtModel n \<Longrightarrow> builtModel (model_updateMissingParts m dbModelPriority n)"

lemma builtIcao_wf: "builtIcao c \<Longrightarrow> wf_icao c"
proof (induction rule: builtIcao.induct)
  case (icao_merged c d)
  then show ?case by (simp add: wf_updateMissingParts)
qed (simp_all add: wf_icao_def mkShortIcao_def mkIcao_def CAircraftIcaoCode_default_def setDesignator_def
    setFamily_def setIataCode_def setCombinedType_def setManufacturer_def setRank_def limitRank_bounds)

lemma builtLivery_wf: "builtLivery l \<Longrightarrow> wf_livery l"
proof (induction rule: builtLivery.induct)
  case (livery_merged l k)
  then show ?case by (simp add: wf_livery_updateMissingParts)
qed (simp_all add: wf_livery_def CLivery_default_def mkLivery_def setCombinedCode_def livery_setAirlineIcaoCode_def)

lemma wf_defaultModel: "wf_model defaultModel"
  by (simp add: wf_defs defaultModel_def CAircraftIcaoCode_default_def CLivery_default_def cleanUpPartsString_def)

lemma builtModel_wf: "builtModel m \<Longrightarrow> wf_model m"
proof (induction rule: builtModel.induct)
  case model_default
  show ?case by (rule wf_defaultModel)
next
  case (model_made icao livery s type sim name description)
  then show ?case
    using wf_defaultModel builtIcao_wf builtLivery_wf by (simp add: wf_model_def mkModel_def)
next
  case (model_merged m n dbModelPriority)
  then show ?case by (simp add: wf_model_updateMissingParts)
qed (simp_all add: wf_model_def setModelString_def setModelStringAlias_def setSupportedParts_def setModelCallsign_def
    setModelOrder_def model_setAircraftIcaoCode_def builtIcao_wf builtLivery_wf cleanUpPartsString_idem)

end
