(* ===== verification/Matcher_Laws.thy ===== *)
theory Matcher_Laws
  imports Aircraft_Matcher Model_Laws
begin

text \<open>
  What the matcher guarantees: a reduction never adds a model and never loses all of them, as a
  locale that every step of the code is shown to satisfy; the models with the best score; where
  the closest match comes from, and when there is one; the reverse lookup.
\<close>

subsection \<open>Searches are part of the list\<close>

named_theorems found_subset

lemmas [found_subset] = filter_is_subset

lemma findByAircraftDesignatorAndLiveryCombinedCode_subset [found_subset]:
  "set (findByAircraftDesignatorAndLiveryCombinedCode d c ms) \<subseteq> set ms"
  by (simp add: findByAircraftDesignatorAndLiveryCombinedCode_def filter_is_subset)

lemma findByFamily_subset [found_subset]: "set (findByFamily f ms) \<subseteq> set ms"
  by (simp add: findByFamily_def filter_is_subset)

lemma findByManufacturer_subset [found_subset]: "set (findByManufacturer s ms) \<subseteq> set ms"
  by (simp add: findByManufacturer_def filter_is_subset)

lemma findByCombinedType_subset [found_subset]: "set (findByCombinedType t ms) \<subseteq> set ms"
  by (simp add: findByCombinedType_def filter_is_subset)

lemma findByIcaoDesignators_subset [found_subset]: "set (findByIcaoDesignators a b ms) \<subseteq> set ms"
  by (simp add: findByIcaoDesignators_def Let_def filter_is_subset)

lemma findByAirlineGroup_subset [found_subset]: "set (findByAirlineGroup a ms) \<subseteq> set ms"
  by (simp add: findByAirlineGroup_def filter_is_subset)

lemma findByMilitaryFlag_subset [found_subset]: "set (findByMilitaryFlag b ms) \<subseteq> set ms"
  by (simp add: findByMilitaryFlag_def filter_is_subset)

lemma findByVtolFlag_subset [found_subset]: "set (findByVtolFlag b ms) \<subseteq> set ms"
  by (simp add: findByVtolFlag_def filter_is_subset)

lemma findByCategoryFirstLevel_subset [found_subset]: "set (findByCategoryFirstLevel l ms) \<subseteq> set ms"
  by (simp add: findByCategoryFirstLevel_def filter_is_subset)

lemma findByCategory_subset [found_subset]: "set (findByCategory c ms) \<subseteq> set ms"
  by (simp add: findByCategory_def filter_is_subset)

lemma findByCategories_subset [found_subset]: "set (findByCategories cs ms) \<subseteq> set ms"
  by (simp add: findByCategories_def filter_is_subset)

lemma findByDesignatorsOrFamily_subset [found_subset]: "set (findByDesignatorsOrFamilyWithColorLivery ds ms) \<subseteq> set ms"
  by (simp add: findByDesignatorsOrFamilyWithColorLivery_def filter_is_subset)

lemma removeModelStrings_subset [found_subset]: "set (fst (removeModelStrings b ss ms)) \<subseteq> set ms"
  by (simp add: removeModelStrings_def findByNotInModelStrings_def Let_def filter_is_subset)

lemma findByCombinedAndManufacturer_subset:
  "findByCombinedAndManufacturer t s ms = Some found \<Longrightarrow> set found \<subseteq> set ms"
  using findByCombinedType_subset [of t ms] findByManufacturer_subset [of s ms]
  by (auto simp: findByCombinedAndManufacturer_def split: if_splits)

lemma replaceOrAddModelsWithString_subset:
  "set (fst (replaceOrAddModelsWithString b new ms)) \<subseteq> set new \<union> set ms"
  using removeModelStrings_subset [of b "getModelStringList new" ms]
  by (auto simp: replaceOrAddModelsWithString_def Let_def)

lemma modelsOfAirlineOrGroup_subset [found_subset]: "set (modelsOfAirlineOrGroup airline stp ms) \<subseteq> set ms"
  using replaceOrAddModelsWithString_subset [of False "findByAirlineGroup airline ms"
      "findByIcaoDesignators CAircraftIcaoCode_default airline ms"]
    findByAirlineGroup_subset [of airline ms] findByIcaoDesignators_subset [of CAircraftIcaoCode_default airline ms]
  by (auto simp: modelsOfAirlineOrGroup_def Let_def)

subsection \<open>Reductions\<close>

definition reduces :: "'a list \<Rightarrow> 'a list \<Rightarrow> bool" where
  "reduces xs ys \<longleftrightarrow> set ys \<subseteq> set xs \<and> (xs \<noteq> [] \<longrightarrow> ys \<noteq> [])"

lemma reduces_refl [simp]: "reduces xs xs"
  by (simp add: reduces_def)

lemma reduces_trans [trans]: "reduces xs ys \<Longrightarrow> reduces ys zs \<Longrightarrow> reduces xs zs"
  by (auto simp: reduces_def)

lemma reduces_if: "set ys \<subseteq> set xs \<Longrightarrow> reduces xs (fst (if b \<or> ys = [] then (xs, False) else (ys, r)))"
  by (auto simp: reduces_def)

text \<open>A step that may fail, and one that does not.\<close>

locale reduction =
  fixes step :: "'a list \<Rightarrow> ('a list \<times> bool) option"
  assumes step_reduces: "step xs = Some r \<Longrightarrow> reduces xs (fst r)"
begin

lemma after_reduces: "reduces as xs \<Longrightarrow> step xs = Some r \<Longrightarrow> reduces as (fst r)"
  by (rule reduces_trans [OF _ step_reduces])

lemma nothing_added: "step xs = Some (ys, b) \<Longrightarrow> y \<in> set ys \<Longrightarrow> y \<in> set xs"
  using step_reduces by (fastforce simp: reduces_def)

lemma not_emptied: "step xs = Some ([], b) \<Longrightarrow> xs = []"
  using step_reduces by (fastforce simp: reduces_def)

end

locale total_reduction =
  fixes f :: "'a list \<Rightarrow> 'a list \<times> bool"
  assumes f_reduces: "reduces xs (fst (f xs))"
begin

lemma after_f: "reduces as xs \<Longrightarrow> reduces as (fst (f xs))"
  by (rule reduces_trans [OF _ f_reduces])

end

sublocale total_reduction \<subseteq> partial: reduction "\<lambda>xs. Some (f xs)"
  by unfold_locales (auto simp: f_reduces)

interpretation by_livery: total_reduction "ifPossibleReduceByLiveryAndAircraftIcaoCode remote"
  by unfold_locales
     (auto simp: ifPossibleReduceByLiveryAndAircraftIcaoCode_def Let_def reduces_def
       dest: subsetD [OF findByAircraftDesignatorAndLiveryCombinedCode_subset])

interpretation by_manufacturer: total_reduction "ifPossibleReduceByManufacturer remote"
  by unfold_locales
     (auto simp: ifPossibleReduceByManufacturer_def Let_def reduces_def dest: subsetD [OF findByManufacturer_subset])

interpretation by_aircraft: total_reduction "ifPossibleReduceByAircraft remote"
  by unfold_locales
     (auto simp: ifPossibleReduceByAircraft_def Let_def reduces_def dest: subsetD [OF findByIcaoDesignators_subset])

interpretation by_airline: total_reduction "\<lambda>ms. ifPossibleReduceByAirline remote ms stp"
  by unfold_locales
     (auto simp: ifPossibleReduceByAirline_def Let_def reduces_def dest: subsetD [OF modelsOfAirlineOrGroup_subset])

interpretation by_military: total_reduction "ifPossibleReduceByMilitaryFlag remote"
  by unfold_locales
     (auto simp: ifPossibleReduceByMilitaryFlag_def Let_def reduces_def dest: subsetD [OF findByMilitaryFlag_subset])

interpretation by_vtol: total_reduction ifPossibleReduceByVTOLFlag
  by unfold_locales
     (auto simp: ifPossibleReduceByVTOLFlag_def reduces_def containsVtol_def findByVtolFlag_def list_ex_iff
       filter_empty_conv)

interpretation by_name: total_reduction "ifPossibleReduceModelsByAirlineNameTelephonyDesignator airlineName telephony"
  by unfold_locales
     (auto simp: ifPossibleReduceModelsByAirlineNameTelephonyDesignator_def Let_def reduces_def
       findByAirlineNamesOrTelephonyDesignator_def)

interpretation by_combined: total_reduction "\<lambda>ms. ifPossibleReduceByCombinedType remote ms stp"
proof unfold_locales
  fix ms
  let ?t = "ic_combinedType (am_aircraftIcao remote)"
  show "reduces ms (fst (ifPossibleReduceByCombinedType remote ms stp))"
  proof (cases "\<not> hasValidCombinedType (am_aircraftIcao remote) \<or> findByCombinedType ?t ms = []")
    case True
    then show ?thesis by (auto simp: ifPossibleReduceByCombinedType_def Let_def)
  next
    case False
    have found: "reduces ms (findByCombinedType ?t ms)"
      using False findByCombinedType_subset [of ?t ms] by (simp add: reduces_def)
    have "reduces ms (fst (ifPossibleReduceByManufacturer remote
        (fst (ifPossibleReduceByAirline remote (findByCombinedType ?t ms) stp))))"
      by (rule by_manufacturer.after_f [OF by_airline.after_f [OF found]])
    then show ?thesis using False found by (simp add: ifPossibleReduceByCombinedType_def Let_def)
  qed
qed

lemma family_name_cases:
  assumes "ifPossibleReduceByFamilyName remote family pseudo ms = Some r"
  obtains "r = (ms, False)"
    | found rest where "set found \<subseteq> set ms" and "set rest \<subseteq> set ms" and "found @ rest \<noteq> []" and "r = (found @ rest, True)"
proof -
  let ?F = "findByFamily family ms"
  let ?cm = "if pseudo then findByCombinedAndManufacturer (ic_combinedType (am_aircraftIcao remote))
      (ic_manufacturer (am_aircraftIcao remote)) ms else Some []"
  let ?rest = "\<lambda>cm. if ?F \<noteq> [] then fst (removeModelStrings False (getModelStringList ?F) cm) else cm"
  have F: "set ?F \<subseteq> set ms" by (rule found_subset)
  show thesis
  proof (cases "r = (ms, False)")
    case True
    then show thesis by (rule that(1))
  next
    case False
    then obtain cm where cm: "?cm = Some cm" and some: "\<not> (cm = [] \<and> ?F = [])" and r: "r = (?F @ ?rest cm, True)"
      using assms by (cases ?cm) (auto simp: ifPossibleReduceByFamilyName_def Let_def split: if_splits)
    have "set cm \<subseteq> set ms"
      using cm findByCombinedAndManufacturer_subset by (auto split: if_splits)
    then have "set (?rest cm) \<subseteq> set ms"
      using removeModelStrings_subset [of False "getModelStringList ?F" cm] by auto
    then show thesis using F some r by (intro that(2) [of ?F "?rest cm"]) auto
  qed
qed

interpretation by_family_name: reduction "ifPossibleReduceByFamilyName remote family pseudo"
  by unfold_locales (auto elim!: family_name_cases simp: reduces_def)

interpretation by_family: reduction "ifPossibleReduceByFamily remote pseudo"
proof unfold_locales
  fix ms r
  let ?family = "ic_family (am_aircraftIcao remote)"
  let ?first = "if ?family \<noteq> [] then ifPossibleReduceByFamilyName remote ?family pseudo ms else Some (ms, False)"
  assume r: "ifPossibleReduceByFamily remote pseudo ms = Some r"
  then obtain ms1 b where first: "?first = Some (ms1, b)"
    by (cases ?first) (auto simp: ifPossibleReduceByFamily_def Let_def)
  show "reduces ms (fst r)"
  proof (cases b)
    case True
    then have "r = (ms1, True)" using r by (simp add: ifPossibleReduceByFamily_def Let_def first)
    moreover have "ifPossibleReduceByFamilyName remote ?family pseudo ms = Some (ms1, b)"
      using first True by (auto split: if_splits)
    ultimately show ?thesis using by_family_name.step_reduces by fastforce
  next
    case False
    then have "ifPossibleReduceByFamilyName remote (am_designator remote) pseudo ms = Some r"
      using r by (simp add: ifPossibleReduceByFamily_def Let_def first)
    then show ?thesis by (rule by_family_name.step_reduces)
  qed
qed

interpretation by_aircraft_or_family: reduction "\<lambda>ms. ifPossibleReduceByAircraftOrFamily remote pseudo ms stp"
proof unfold_locales
  fix ms r
  assume r: "ifPossibleReduceByAircraftOrFamily remote pseudo ms stp = Some r"
  then have "r = ifPossibleReduceByAircraft remote ms \<or> ifPossibleReduceByFamily remote pseudo ms = Some r"
    by (auto simp: ifPossibleReduceByAircraftOrFamily_def split: prod.splits if_splits)
  then show "reduces ms (fst r)"
    using by_family.step_reduces [of remote pseudo ms r] by_aircraft.f_reduces [of ms remote] by blast
qed

text \<open>By the ICAO data: each of the results is that of two steps, or the list itself.\<close>

lemma icao_data_cases:
  assumes "ifPossibleReduceByIcaoData remote ms stp b = Some r"
  obtains "fst r = ms"
    | r1 where "ifPossibleReduceByAircraftOrFamily remote UsePseudoFamily
        (fst (ifPossibleReduceByAirline remote ms stp)) stp = Some r1" and "fst r = fst r1"
    | r1 where "ifPossibleReduceByAircraftOrFamily remote UsePseudoFamily ms stp = Some r1"
        and "fst r = fst (ifPossibleReduceByAirline remote (fst r1) stp)"
    | r1 where "ifPossibleReduceByFamily remote UsePseudoFamily ms = Some r1"
        and "fst r = fst (ifPossibleReduceByAirline remote (fst r1) stp)"
proof (cases "ms = []")
  case True
  then have "fst r = ms" using assms by (auto simp: ifPossibleReduceByIcaoData_def)
  then show thesis by (rule that(1))
next
  case ne: False
  show thesis
  proof (cases "inMode ByIcaoOrderAirlineFirst stp")
    case True
    obtain ms1 b1 where a: "ifPossibleReduceByAirline remote ms stp = (ms1, b1)" by fastforce
    then obtain r1 where f: "ifPossibleReduceByAircraftOrFamily remote UsePseudoFamily ms1 stp = Some r1"
      using assms ne True by (auto simp: ifPossibleReduceByIcaoData_def bind_eq_Some_conv)
    then have "fst r = ms \<or> fst r = fst r1"
      using assms ne True a by (cases r1) (auto simp: ifPossibleReduceByIcaoData_def split: if_splits)
    then show thesis using that(1) that(2) [of r1] a f by auto
  next
    case notFirst: False
    show thesis
    proof (cases "inMode ByIcaoData stp")
      case False
      then have "fst r = ms" using assms ne notFirst by (auto simp: ifPossibleReduceByIcaoData_def)
      then show thesis by (rule that(1))
    next
      case True
      obtain r1 where f: "ifPossibleReduceByAircraftOrFamily remote UsePseudoFamily ms stp = Some r1"
        using assms ne notFirst True by (auto simp: ifPossibleReduceByIcaoData_def bind_eq_Some_conv)
      obtain ms1 b1 where r1: "r1 = (ms1, b1)" by fastforce
      obtain ms2 b2 where a: "ifPossibleReduceByAirline remote ms1 stp = (ms2, b2)" by fastforce
      show thesis
      proof (cases "hasAirlineDesignator remote \<and> \<not> b2 \<and> inMode ByFamily stp")
        case False
        then have "fst r = ms \<or> fst r = ms2"
          using assms ne notFirst True f r1 a by (auto simp: ifPossibleReduceByIcaoData_def Let_def split: if_splits)
        then show thesis using that(1) that(3) [OF f] a r1 by auto
      next
        case again: True
        then obtain r2 where f2: "ifPossibleReduceByFamily remote UsePseudoFamily ms = Some r2"
          using assms ne notFirst True f r1 a
          by (auto simp: ifPossibleReduceByIcaoData_def Let_def bind_eq_Some_conv split: if_splits)
        obtain ms3 b3 where r2: "r2 = (ms3, b3)" by fastforce
        obtain ms4 b4 where a2: "ifPossibleReduceByAirline remote ms3 stp = (ms4, b4)" by fastforce
        have "fst r = ms \<or> fst r = ms2 \<or> fst r = ms4"
          using assms ne notFirst True f r1 a again f2 r2 a2
          by (auto simp: ifPossibleReduceByIcaoData_def Let_def split: if_splits)
        then show thesis using that(1) that(3) [OF f] that(4) [OF f2] a r1 a2 r2 by auto
      qed
    qed
  qed
qed

interpretation by_icao_data: reduction "\<lambda>ms. ifPossibleReduceByIcaoData remote ms stp b"
proof unfold_locales
  fix ms r
  assume "ifPossibleReduceByIcaoData remote ms stp b = Some r"
  then show "reduces ms (fst r)"
  proof (cases rule: icao_data_cases)
    case 1
    then show ?thesis by simp
  next
    case (2 r1)
    then show ?thesis
      using by_aircraft_or_family.after_reduces [OF by_airline.f_reduces [of ms remote stp]] by simp
  next
    case (3 r1)
    then show ?thesis using by_airline.after_f [OF by_aircraft_or_family.step_reduces] by simp
  next
    case (4 r1)
    then show ?thesis using by_airline.after_f [OF by_family.step_reduces] by simp
  qed
qed

subsection \<open>The steps together\<close>

lemma reduceGliders_subset:
  assumes "reduceGliders category gliders modelSet c = Some ms" and "set gliders \<subseteq> set modelSet"
  shows "set ms \<subseteq> set modelSet"
  using assms findByCategory_subset findByCategories_subset
  by (fastforce simp: reduceGliders_def Let_def split: if_splits option.splits)

lemma reduceGliders_nonempty:
  "reduceGliders category gliders modelSet c = Some ms \<Longrightarrow> gliders \<noteq> [] \<Longrightarrow> ms \<noteq> []"
  by (auto simp: reduceGliders_def Let_def split: if_splits option.splits)

lemma substituteGliders_reduces: "reduces ms (fst (substituteGliders ms))"
  using findByCombinedType_subset [of "''L1P''" ms] findByDesignatorsOrFamily_subset [of substituteIcaos ms]
  by (auto simp: substituteGliders_def Let_def reduces_def)

text \<open>Gliders are searched in the whole set.\<close>

lemma categories_reduce:
  assumes "reduceByCategories ms modelSet stp remote c = Some r" and "reduces modelSet ms"
  shows "reduces modelSet (fst r)"
proof -
  let ?g = "findByCategoryFirstLevel (gliderFirstLevel c) modelSet"
  let ?category = "ic_category (am_aircraftIcao remote)"
  consider "fst r = ms" | "fst r = fst (substituteGliders ms)"
    | found where "?g \<noteq> []" and "reduceGliders ?category ?g modelSet c = Some found" and "fst r = found"
    using assms(1) by (auto simp: reduceByCategories_def Let_def split: if_splits)
  then show ?thesis
  proof cases
    case 1
    then show ?thesis using assms(2) by simp
  next
    case 2
    then show ?thesis using reduces_trans [OF assms(2) substituteGliders_reduces] by simp
  next
    case (3 found)
    have "set ?g \<subseteq> set modelSet" by (rule found_subset)
    then show ?thesis
      using 3 reduceGliders_subset [OF 3(2)] reduceGliders_nonempty [OF 3(2)] by (simp add: reduces_def)
  qed
qed

lemma vtol_reduces: "reduces (fst r) (reduceByVtol remote stp r)"
  using by_vtol.f_reduces [of "fst r"] by (auto simp: reduceByVtol_def ifPossibleReduceByVTOLFlag_def split: if_splits)

lemma military_reduces: "reduces ms (reduceByMilitary remote stp ms)"
  by (simp add: reduceByMilitary_def by_military.f_reduces)

lemma combined_reduces: "reduces ms (reduceByCombined remote stp ms)"
  by (simp add: reduceByCombined_def by_combined.f_reduces)

lemma icao_or_family_reduces:
  assumes "reduceByIcaoOrFamily stepLog remote stp ms = Some r"
  shows "reduces ms (fst (fst r))"
  using assms by_icao_data.step_reduces by_family.step_reduces
  by (fastforce simp: reduceByIcaoOrFamily_def split: if_splits)

lemma steps_reduce:
  assumes "reduceSteps stepLog modelSet stp c remote = Some ms"
  shows "reduces modelSet ms"
proof -
  define l where "l = (if inMode ByLivery stp then ifPossibleReduceByLiveryAndAircraftIcaoCode remote modelSet
                       else (modelSet, False))"
  have l: "reduces modelSet (fst l)" by (simp add: l_def by_livery.f_reduces)
  show ?thesis
  proof (cases "snd l")
    case True
    then show ?thesis using assms l by (simp add: reduceSteps_def flip: l_def)
  next
    case False
    then obtain i stop where i: "reduceByIcaoOrFamily stepLog remote stp (fst l) = Some (i, stop)"
      using assms by (auto simp: reduceSteps_def bind_eq_Some_conv simp flip: l_def)
    then have ri: "reduces modelSet (fst i)"
      using reduces_trans [OF l icao_or_family_reduces] by fastforce
    show ?thesis
    proof (cases stop)
      case True
      then show ?thesis using assms False i ri by (simp add: reduceSteps_def flip: l_def)
    next
      case go: False
      let ?c = "if useCategoryMatching stp then reduceByCategories (fst i) modelSet stp remote c else Some i"
      obtain k where k: "?c = Some k"
        and ms: "ms = reduceByCombined remote stp (reduceByMilitary remote stp (reduceByVtol remote stp k))"
        using assms False i go by (cases ?c) (auto simp: reduceSteps_def simp flip: l_def)
      have "reduces modelSet (fst k)"
        using k categories_reduce [OF _ ri] ri by (auto split: if_splits)
      also have "reduces (fst k) (reduceByVtol remote stp k)" by (rule vtol_reduces)
      also have "reduces (reduceByVtol remote stp k) ms"
        unfolding ms by (rule reduces_trans [OF military_reduces combined_reduces])
      finally show ?thesis .
    qed
  qed
qed

lemma stepwise_reduces:
  assumes "getClosestMatchStepwiseReduceImplementation stepLog modelSet stp c remote = Some ms"
  shows "reduces modelSet ms"
  using assms steps_reduce [of stepLog modelSet stp c remote]
  by (auto simp: getClosestMatchStepwiseReduceImplementation_def by_manufacturer.after_f)

subsection \<open>The best score\<close>

lemma scoreFull_set:
  "(n, m) \<in> set (scoreFull remote pcl ignoreZeros ms)
    \<longleftrightarrow> m \<in> set ms \<and> n = model_calculateScore remote pcl m \<and> (ignoreZeros \<longrightarrow> 1 \<le> n)"
  by (auto simp: scoreFull_def)

definition scoredModels :: "CAircraftModel list \<Rightarrow> CAircraftMatcherSetup \<Rightarrow> CAircraftModel \<Rightarrow> CAircraftModel set" where
  "scoredModels ms stp remote =
     {m \<in> set ms. inMode ScoreIgnoreZeros stp \<longrightarrow> 1 \<le> model_calculateScore remote (inMode ScorePreferColorLiveries stp) m}"

lemma score_implementation_set:
  "m \<in> set (getClosestMatchScoreImplementation ms stp remote) \<longleftrightarrow>
     m \<in> scoredModels ms stp remote
     \<and> (\<forall>k \<in> scoredModels ms stp remote. model_calculateScore remote (inMode ScorePreferColorLiveries stp) k
          \<le> model_calculateScore remote (inMode ScorePreferColorLiveries stp) m)"
proof -
  let ?score = "model_calculateScore remote (inMode ScorePreferColorLiveries stp)"
  let ?l = "scoreFull remote (inMode ScorePreferColorLiveries stp) (inMode ScoreIgnoreZeros stp) ms"
  have l: "(n, k) \<in> set ?l \<longleftrightarrow> k \<in> scoredModels ms stp remote \<and> n = ?score k" for n k
    unfolding scoreFull_set by (auto simp: scoredModels_def)
  have fin: "finite (fst ` set ?l)" by simp
  show ?thesis
  proof (cases "?l = []")
    case True
    then have "scoredModels ms stp remote = {}" using l by (metis empty_iff empty_set equals0I)
    then show ?thesis using True by (simp add: getClosestMatchScoreImplementation_def)
  next
    case False
    then have ne: "fst ` set ?l \<noteq> {}" by simp
    have mem: "m \<in> set (getClosestMatchScoreImplementation ms stp remote)
      \<longleftrightarrow> m \<in> scoredModels ms stp remote \<and> ?score m = Max (fst ` set ?l)"
      using False l by (force simp: getClosestMatchScoreImplementation_def Let_def)
    have max: "?score m = Max (fst ` set ?l) \<longleftrightarrow> (\<forall>k \<in> scoredModels ms stp remote. ?score k \<le> ?score m)"
      if "m \<in> scoredModels ms stp remote"
    proof -
      have "?score m \<in> fst ` set ?l" using that l by force
      moreover have "(\<forall>n \<in> fst ` set ?l. n \<le> ?score m) \<longleftrightarrow> (\<forall>k \<in> scoredModels ms stp remote. ?score k \<le> ?score m)"
        using l by force
      ultimately show ?thesis using Max_eq_iff [OF fin ne, of "?score m"] by auto
    qed
    show ?thesis using mem max by blast
  qed
qed

lemma score_implementation_empty:
  "getClosestMatchScoreImplementation ms stp remote = [] \<Longrightarrow> scoredModels ms stp remote = {}"
proof -
  let ?l = "scoreFull remote (inMode ScorePreferColorLiveries stp) (inMode ScoreIgnoreZeros stp) ms"
  assume none: "getClosestMatchScoreImplementation ms stp remote = []"
  have "?l = []"
  proof (rule ccontr)
    assume "?l \<noteq> []"
    then have "Max (fst ` set ?l) \<in> fst ` set ?l" by (intro Max_in) auto
    then have "filter (\<lambda>p. fst p = Max (fst ` set ?l)) ?l \<noteq> []" by (force simp: filter_empty_conv)
    then show False using none \<open>?l \<noteq> []\<close> by (simp add: getClosestMatchScoreImplementation_def Let_def)
  qed
  have "m \<notin> scoredModels ms stp remote" for m
  proof
    assume "m \<in> scoredModels ms stp remote"
    then have "(model_calculateScore remote (inMode ScorePreferColorLiveries stp) m, m) \<in> set ?l"
      by (simp only: scoreFull_set scoredModels_def mem_Collect_eq) blast
    then show False using \<open>?l = []\<close> by simp
  qed
  then show ?thesis by blast
qed

subsection \<open>Where the match comes from\<close>

lemma keepIf_filter: "fst (keepIf p ms) = filter p ms"
proof -
  have "length (filter p ms) < length ms \<or> filter p ms = ms"
    by (metis filter_True length_filter_less)
  then show ?thesis by (auto simp: keepIf_def Let_def)
qed

text \<open>The models of the set that the setup does not exclude.\<close>

definition usableModel :: "CAircraftMatcher \<Rightarrow> CAircraftModel \<Rightarrow> bool" where
  "usableModel mt m \<longleftrightarrow> m \<in> set (mt_modelSet mt) \<and> model_hasModelString m
     \<and> (inMode ExcludeNoDbData (mt_setup mt) \<longrightarrow> hasValidDbKey (am_dbKey m))
     \<and> (inMode ExcludeNoExcluded (mt_setup mt) \<longrightarrow> am_modelMode m \<noteq> Exclude)"

lemma set_modelsForMatching: "m \<in> set (modelsForMatching mt) \<longleftrightarrow> usableModel mt m"
  by (auto simp: modelsForMatching_def removeAllWithoutModelString_def removeIfExcluded_def
      removeObjectsWithoutDbKey_def Let_def keepIf_filter usableModel_def)

definition randomPicks :: "MatcherEnv \<Rightarrow> bool" where
  "randomPicks env \<longleftrightarrow> (\<forall>ms. ms \<noteq> [] \<longrightarrow> mv_random env ms \<in> set ms)"

lemma minOrderFrom_mem: "minOrderFrom f m xs \<in> insert m (set xs)"
  by (induction xs arbitrary: m) (fastforce split: if_splits)+

lemma pickCandidate_mem:
  assumes "randomPicks env" and "candidates \<noteq> []"
  shows "pickCandidate env strategy candidates \<in> set candidates"
proof -
  obtain m ms where c: "candidates = m # ms" using assms(2) by (cases candidates) auto
  have "minOrderOrDefault am_order defaultModel candidates \<in> set candidates"
    using minOrderFrom_mem [of am_order m ms] by (simp add: minOrderOrDefault_def c)
  then show ?thesis using assms by (auto simp: pickCandidate_def randomPicks_def)
qed

lemma candidates_subset:
  assumes "matchingCandidates env remote mt ms = Some candidates"
  shows "set candidates \<subseteq> set ms"
proof -
  have "set ks \<subseteq> set ms" if "getClosestMatchStepwiseReduceImplementation (mv_reduceLog env) ms (mt_setup mt)
      (mt_categoryMatcher mt) remote = Some ks" for ks
    using stepwise_reduces [OF that] by (simp add: reduces_def)
  then show ?thesis
    using assms score_implementation_set [of _ _ "mt_setup mt" remote]
    by (fastforce simp: matchingCandidates_def Let_def scoredModels_def split: MatchingAlgorithm.splits)
qed

lemma combinedTypeDefault_mem: "getCombinedTypeDefaultModel ms remote dflt \<in> insert dflt (set ms)"
proof -
  let ?t = "ic_combinedType (am_aircraftIcao remote)"
  have "set (findByCombinedTypeWithColorLivery ?t ms) \<subseteq> set ms"
    using findByCombinedType_subset [of ?t ms]
    by (auto simp: findByCombinedTypeWithColorLivery_def findColorLiveries_def)
  moreover have "set (findByCombinedType ?t []) = {}" using findByCombinedType_subset [of ?t "[]"] by auto
  ultimately show ?thesis by (auto simp: getCombinedTypeDefaultModel_def Let_def split: list.splits)
qed

text \<open>The model before it gets the callsign of the remote aircraft.\<close>

definition matchSource :: "CAircraftMatcher \<Rightarrow> CAircraftModel \<Rightarrow> CAircraftModel \<Rightarrow> bool" where
  "matchSource mt remote k \<longleftrightarrow>
     (if hasManuallySetString remote then k = remote
      else k = mt_defaultModel mt \<or> usableModel mt k
           \<or> k \<in> set (mt_modelSet mt) \<and> matchesModelStringOrAlias False (am_modelString remote) k)"

lemma findFirst_mem:
  "findFirstByOrDefault d p xs \<noteq> d \<Longrightarrow> findFirstByOrDefault d p xs \<in> set xs \<and> p (findFirstByOrDefault d p xs)"
proof -
  have mem: "x \<in> set xs \<and> p x" if "find p xs = Some x" for x using that by (auto simp: find_Some_iff)
  show "findFirstByOrDefault d p xs \<noteq> d \<Longrightarrow> ?thesis"
    by (cases "find p xs") (auto simp: findFirstByOrDefault_def dest: mem)
qed

lemma asMatched_idem [simp]: "asMatched cs (asMatched cs m) = asMatched cs m"
  by (simp add: asMatched_def setModelCallsign_def)

lemma asMatched_string [simp]:
  "am_modelString (asMatched cs m) = am_modelString m" "model_hasModelString (asMatched cs m) = model_hasModelString m"
  by (simp_all add: asMatched_def setModelCallsign_def model_hasModelString_def)

lemma exact_asMatched:
  assumes "am_modelString remote \<noteq> []"
  shows "matchByExactModelString cs remote ms
    = asMatched cs (findFirstByModelStringAliasOrDefault False (am_modelString remote) ms)"
  using assms by (simp add: matchByExactModelString_def asMatched_def setModelCallsign_def)

lemma exact_source:
  assumes "model_hasModelString (matchByExactModelString cs remote ms)"
  obtains k where "k \<in> set ms" and "matchesModelStringOrAlias False (am_modelString remote) k"
    and "matchByExactModelString cs remote ms = asMatched cs k"
proof -
  let ?s = "am_modelString remote"
  have s: "?s \<noteq> []"
    using assms by (auto simp: matchByExactModelString_def model_hasModelString_def defaultModel_def)
  let ?k = "findFirstByModelStringAliasOrDefault False ?s ms"
  have e: "matchByExactModelString cs remote ms = asMatched cs ?k" by (rule exact_asMatched [OF s])
  then have "model_hasModelString ?k" using assms by simp
  then have "?k \<noteq> defaultModel" by (auto simp: model_hasModelString_def defaultModel_def)
  then have "?k \<in> set ms \<and> matchesModelStringOrAlias False ?s ?k"
    using findFirst_mem [of defaultModel "matchesModelStringOrAlias False ?s" ms] s
    by (simp add: findFirstByModelStringAliasOrDefault_def)
  then show thesis using that e by blast
qed

lemma findMatch_source:
  assumes "findMatch env cs remote mt = Some (ms, m)" and "randomPicks env"
  shows "\<exists>k. matchSource mt remote k \<and> asMatched cs m = asMatched cs k"
proof (cases "matchInPrephase cs remote mt")
  case (Some p)
  then have "m = p" using assms(1) by (simp add: findMatch_def)
  with Some show ?thesis
    by (auto simp: matchInPrephase_def Let_def matchSource_def split: if_splits elim!: exact_source) 
next
  case None
  then have manual: "\<not> hasManuallySetString remote" by (auto simp: matchInPrephase_def Let_def)
  obtain candidates where c: "matchingCandidates env remote mt (modelsForMatching mt) = Some candidates"
    and m: "m = (if candidates = [] then getCombinedTypeDefaultModel (modelsForMatching mt) remote (mt_defaultModel mt)
                 else pickCandidate env (ms_strategy (mt_setup mt)) candidates)"
    using assms(1) None by (auto simp: findMatch_def Let_def)
  have "m = mt_defaultModel mt \<or> m \<in> set (modelsForMatching mt)"
    using m pickCandidate_mem [OF assms(2)] candidates_subset [OF c]
      combinedTypeDefault_mem [of "modelsForMatching mt" remote "mt_defaultModel mt"]
    by (auto split: if_splits)
  then show ?thesis using manual by (auto simp: matchSource_def set_modelsForMatching)
qed

text \<open>Without a script, or with one that is not run.\<close>

definition noScriptRun :: "bool \<Rightarrow> CAircraftMatcher \<Rightarrow> bool" where
  "noScriptRun useMatchingScript mt \<longleftrightarrow> \<not> (useMatchingScript \<and> doRunMsMatchingStageScript (mt_setup mt))"

lemma closest_no_script:
  "noScriptRun useMatchingScript mt \<Longrightarrow> getClosestMatch env cs remote useMatchingScript mt
    = map_option (\<lambda>(ms, m). orDefaultModel cs mt (asMatched cs m)) (findMatch env cs remote mt)"
  by (cases "findMatch env cs remote mt") (auto simp: getClosestMatch_def noScriptRun_def)

lemma orDefault_cases: "orDefaultModel cs mt m = m \<or> orDefaultModel cs mt m = setModelCallsign cs (mt_defaultModel mt)"
  by (simp add: orDefaultModel_def)

lemma closest_source:
  assumes "getClosestMatch env cs remote useMatchingScript mt = Some m" and "noScriptRun useMatchingScript mt"
      and "randomPicks env"
  shows "m = setModelCallsign cs (mt_defaultModel mt) \<or> (\<exists>k. matchSource mt remote k \<and> m = asMatched cs k)"
proof -
  obtain ms f where f: "findMatch env cs remote mt = Some (ms, f)" and m: "m = orDefaultModel cs mt (asMatched cs f)"
    using assms(1,2) by (auto simp: closest_no_script)
  obtain k where "matchSource mt remote k" and "asMatched cs f = asMatched cs k"
    using findMatch_source [OF f assms(3)] by blast
  then show ?thesis using m orDefault_cases [of cs mt "asMatched cs f"] by metis
qed

text \<open>With any script the callsign is that of the remote aircraft.\<close>

lemma closest_callsign:
  assumes "getClosestMatch env cs remote useMatchingScript mt = Some m"
  shows "am_callsign m = cs\<lparr>cs_typeHint := Aircraft\<rparr>"
proof -
  obtain f where "m = orDefaultModel cs mt (asMatched cs f)"
    using assms by (auto simp: getClosestMatch_def Let_def bind_eq_Some_conv)
  then show ?thesis by (simp add: orDefaultModel_def asMatched_def setModelCallsign_def)
qed

subsection \<open>There is a match\<close>

text \<open>The levels of a category: a level is only used below the one above it.\<close>

definition levelledCategory :: "CAircraftCategory \<Rightarrow> bool" where
  "levelledCategory c \<longleftrightarrow> 0 < m_l1 c \<and> 0 \<le> m_l2 c \<and> 0 \<le> m_l3 c \<and> (0 < m_l3 c \<longrightarrow> 0 < m_l2 c)"

lemma matchesCombinedType_total: "normalText t \<Longrightarrow> matchesCombinedType t icao \<noteq> None"
proof -
  assume "normalText t"
  then have "trimmed (toUpper t) = t" by (simp add: normalText_def trimmed_map_toUpper)
  moreover have "length (wildcards t) = length t" by (simp add: wildcards_def)
  ultimately show ?thesis by (simp add: matchesCombinedType_def Let_def del: not_None_eq)
qed

lemma combinedAndManufacturer_total: "normalText t \<Longrightarrow> \<exists>found. findByCombinedAndManufacturer t s ms = Some found"
  using matchesCombinedType_total [of t] by (simp add: findByCombinedAndManufacturer_def list_ex_iff del: not_None_eq)

lemma family_name_total:
  "normalText (ic_combinedType (am_aircraftIcao remote)) \<Longrightarrow> \<exists>r. ifPossibleReduceByFamilyName remote family pseudo ms = Some r"
  using combinedAndManufacturer_total [of "ic_combinedType (am_aircraftIcao remote)"
      "ic_manufacturer (am_aircraftIcao remote)" ms]
  by (auto simp: ifPossibleReduceByFamilyName_def Let_def)

lemma family_total:
  assumes "normalText (ic_combinedType (am_aircraftIcao remote))"
  shows "\<exists>r. ifPossibleReduceByFamily remote pseudo ms = Some r"
proof -
  let ?family = "ic_family (am_aircraftIcao remote)"
  obtain a where a: "ifPossibleReduceByFamilyName remote ?family pseudo ms = Some a"
    using family_name_total [OF assms] by blast
  obtain b where b: "ifPossibleReduceByFamilyName remote (am_designator remote) pseudo ms = Some b"
    using family_name_total [OF assms] by blast
  have "ifPossibleReduceByFamily remote pseudo ms \<noteq> None"
    using a b by (cases a) (simp add: ifPossibleReduceByFamily_def Let_def del: not_None_eq)
  then show ?thesis by blast
qed

lemma aircraft_or_family_total:
  "normalText (ic_combinedType (am_aircraftIcao remote)) \<Longrightarrow>
    \<exists>r. ifPossibleReduceByAircraftOrFamily remote pseudo ms stp = Some r"
  using family_total [of remote pseudo ms]
  by (auto simp: ifPossibleReduceByAircraftOrFamily_def split: prod.splits)

lemma icao_data_total:
  assumes "normalText (ic_combinedType (am_aircraftIcao remote))"
  shows "\<exists>r. ifPossibleReduceByIcaoData remote ms stp b = Some r"
proof -
  note af = aircraft_or_family_total [OF assms, of UsePseudoFamily]
  obtain a1 b1 where a: "ifPossibleReduceByAirline remote ms stp = (a1, b1)" by fastforce
  obtain a2 b2 where f: "ifPossibleReduceByAircraftOrFamily remote UsePseudoFamily ms stp = Some (a2, b2)"
    using af [of ms stp] by auto
  obtain a3 b3 where fa: "ifPossibleReduceByAircraftOrFamily remote UsePseudoFamily a1 stp = Some (a3, b3)"
    using af [of a1 stp] by auto
  obtain a4 b4 where fam: "ifPossibleReduceByFamily remote UsePseudoFamily ms = Some (a4, b4)"
    using family_total [OF assms] by fastforce
  have "ifPossibleReduceByIcaoData remote ms stp b \<noteq> None"
    by (simp add: ifPossibleReduceByIcaoData_def a f fa fam Let_def split: prod.split del: not_None_eq)
  then show ?thesis by blast
qed

lemma parallel_branch_total: "levelledCategory category \<Longrightarrow> \<exists>cs'. findInParallelBranch category cs = Some cs'"
  by (auto simp: findInParallelBranch_def Let_def levelledCategory_def getLevel_def getDepth_def isFirstLevel_def)

lemma categories_total:
  assumes "hasCategory (am_aircraftIcao remote) \<longrightarrow> levelledCategory (ic_category (am_aircraftIcao remote))"
  shows "\<exists>r. reduceByCategories ms modelSet stp remote c = Some r"
proof (cases "hasCategory (am_aircraftIcao remote)")
  case True
  let ?category = "ic_category (am_aircraftIcao remote)"
  obtain cs' where "findInParallelBranch ?category (cm_gliders c) = Some cs'"
    using parallel_branch_total assms True by blast
  then have "\<exists>found. reduceGliders ?category gliders modelSet c = Some found" for gliders
    by (simp add: reduceGliders_def Let_def)
  then show ?thesis by (fastforce simp: reduceByCategories_def Let_def)
next
  case False
  then have "reduceByCategories ms modelSet stp remote c = Some (ms, False)" by (simp add: reduceByCategories_def)
  then show ?thesis by blast
qed

definition regularType :: "CAircraftIcaoCode \<Rightarrow> bool" where
  "regularType icao \<longleftrightarrow> wf_icao icao \<and> (hasCategory icao \<longrightarrow> levelledCategory (ic_category icao))"

lemma regularType_combined: "regularType icao \<Longrightarrow> normalText (ic_combinedType icao)"
  by (simp add: regularType_def wf_icao_def)

lemma icao_or_family_total:
  assumes "regularType (am_aircraftIcao remote)"
  shows "\<exists>r. reduceByIcaoOrFamily stepLog remote stp ms = Some r"
  using icao_data_total [OF regularType_combined [OF assms], of ms stp False]
    family_total [OF regularType_combined [OF assms], of UsePseudoFamily ms]
  by (auto simp: reduceByIcaoOrFamily_def)

lemma steps_total:
  assumes "regularType (am_aircraftIcao remote)"
  shows "\<exists>ms'. reduceSteps stepLog ms stp c remote = Some ms'"
proof -
  define l where "l = (if inMode ByLivery stp then ifPossibleReduceByLiveryAndAircraftIcaoCode remote ms else (ms, False))"
  obtain i stop where i: "reduceByIcaoOrFamily stepLog remote stp (fst l) = Some (i, stop)"
    using icao_or_family_total [OF assms] by fastforce
  obtain k where "reduceByCategories (fst i) ms stp remote c = Some k"
    using categories_total [of remote "fst i" ms stp c] assms by (fastforce simp: regularType_def)
  then show ?thesis by (simp add: reduceSteps_def i flip: l_def)
qed

lemma candidates_total:
  assumes "regularType (am_aircraftIcao remote)"
  shows "\<exists>candidates. matchingCandidates env remote mt ms = Some candidates"
  using steps_total [OF assms, of "mv_reduceLog env" ms "mt_setup mt" "mt_categoryMatcher mt"]
  by (auto simp: matchingCandidates_def Let_def getClosestMatchStepwiseReduceImplementation_def
      split: MatchingAlgorithm.splits)

lemma findMatch_total:
  assumes "regularType (am_aircraftIcao remote)"
  shows "\<exists>r. findMatch env cs remote mt = Some r"
  using candidates_total [OF assms] by (auto simp: findMatch_def Let_def split: option.splits)

lemma orDefault_hasString: "model_hasModelString (mt_defaultModel mt) \<Longrightarrow> model_hasModelString (orDefaultModel cs mt m)"
  by (auto simp: orDefaultModel_def model_hasModelString_def setModelCallsign_def)

lemma closest_total:
  assumes "regularType (am_aircraftIcao remote)" and "noScriptRun useMatchingScript mt"
      and "model_hasModelString (mt_defaultModel mt)"
  shows "\<exists>m. getClosestMatch env cs remote useMatchingScript mt = Some m \<and> model_hasModelString m"
proof -
  obtain ms f where "findMatch env cs remote mt = Some (ms, f)" using findMatch_total [OF assms(1)] by fastforce
  then show ?thesis using assms(2,3) by (simp add: closest_no_script orDefault_hasString)
qed

subsection \<open>The exact string\<close>

lemma closest_exact:
  assumes "am_modelString remote \<noteq> []" and "\<not> hasManuallySetString remote" and "inMode ByModelString (mt_setup mt)"
      and "find (matchesModelStringOrAlias False (am_modelString remote)) (mt_modelSet mt) = Some k"
      and "model_hasModelString k" and "noScriptRun useMatchingScript mt"
  shows "getClosestMatch env cs remote useMatchingScript mt = Some (asMatched cs k)"
proof -
  have "matchByExactModelString cs remote (mt_modelSet mt) = asMatched cs k"
    using assms(1,4)
    by (simp add: exact_asMatched findFirstByModelStringAliasOrDefault_def findFirstByOrDefault_def)
  moreover have "mt_modelSet mt \<noteq> []" using assms(4) by auto
  ultimately have "matchInPrephase cs remote mt = Some (asMatched cs k)"
    using assms by (simp add: matchInPrephase_def Let_def model_hasModelString_def)
  then show ?thesis
    using assms(5,6) by (simp add: closest_no_script findMatch_def orDefaultModel_def)
qed

subsection \<open>Disabled models\<close>

lemma removed_not_in_set:
  assumes "k \<in> set (fst (removeModelsWithString False removed ms))" and "r \<in> set removed" and "model_hasModelString r"
  shows "\<not> caseInsensitiveStringCompare (am_modelString r) (am_modelString k)"
proof -
  have ss: "am_modelString r \<in> set (getModelStringList removed)"
    using assms(2,3) by (auto simp: getModelStringList_def)
  then have "getModelStringList removed \<noteq> []" and "removed \<noteq> []" using assms(2) by auto
  then have "k \<in> set (findByNotInModelStrings False (getModelStringList removed) ms)"
    using assms(1) by (simp add: removeModelsWithString_def removeModelStrings_def Let_def)
  then show ?thesis
    using ss by (auto simp: findByNotInModelStrings_def stringListContains_def list_ex_iff stringCompare_def)
qed

lemma failed_not_in_set:
  assumes "removeFromSetIfFailed (mt_setup mt)" and "\<not> cs_isEmpty cs" and "model_hasModelString failed"
      and "k \<in> set (mt_modelSet (addingRemoteModelFailed cs failed mt))"
  shows "\<not> caseInsensitiveStringCompare (am_modelString failed) (am_modelString k)"
  using assms removed_not_in_set [of k "[failed]" "mt_modelSet mt" failed]
  by (simp add: addingRemoteModelFailed_def disableModelsForMatching_def)

lemma failed_keeps [simp]:
  "mt_setup (addingRemoteModelFailed cs failed mt) = mt_setup mt"
  "mt_defaultModel (addingRemoteModelFailed cs failed mt) = mt_defaultModel mt"
  by (simp_all add: addingRemoteModelFailed_def disableModelsForMatching_def)

subsection \<open>The reverse lookup of a type\<close>

lemma keySorts_empty: "keySorts srt \<Longrightarrow> srt f xs = [] \<longleftrightarrow> xs = []"
  by (metis keySorts_def mset_zero_iff)

lemma maxCountFrom_mem: "maxCountFrom p ps \<in> insert p (set ps)"
  by (induction ps arbitrary: p) (fastforce split: if_splits)+

lemma maxCount_some:
  assumes "c \<in> set l" and "ic_manufacturer c \<noteq> []"
  shows "\<exists>k \<in> set l. fst (maxCountManufacturer l) = ic_manufacturer k \<and> ic_manufacturer k \<noteq> []"
proof -
  let ?ms = "filter (\<lambda>m. m \<noteq> []) (map ic_manufacturer l)"
  have "ic_manufacturer c \<in> set ?ms" using assms by simp
  then have "ic_manufacturer c \<in> set (sortUnique ?ms)" by (simp add: sortUnique_def)
  then have "sortUnique ?ms \<noteq> []" by auto
  then obtain p ps where cnt: "countManufacturers l = p # ps"
    by (cases "sortUnique ?ms") (simp_all add: countManufacturers_def Let_def)
  have "maxCountManufacturer l \<in> set (countManufacturers l)"
    using maxCountFrom_mem [of p ps] by (simp add: maxCountManufacturer_def cnt)
  then have "fst (maxCountManufacturer l) \<in> set ?ms"
    by (auto simp: countManufacturers_def Let_def sortUnique_def)
  then show ?thesis by auto
qed

lemma maxCount_none: "\<forall>c \<in> set l. ic_manufacturer c = [] \<Longrightarrow> maxCountManufacturer l = ([], 0)"
  by (simp add: maxCountManufacturer_def countManufacturers_def sortUnique_def filter_empty_conv)

lemma bestOfManufacturer_none:
  assumes "keySorts srt" and "l \<noteq> []"
  shows "bestOfManufacturer srt l = None \<longleftrightarrow> (\<forall>c \<in> set l. ic_manufacturer c = [])"
proof (cases "\<forall>c \<in> set l. ic_manufacturer c = []")
  case True
  have "sortByRank srt [] = []" by (simp add: sortByRank_def keySorts_empty [OF assms(1)])
  then show ?thesis
    using True assms(2) by (simp add: bestOfManufacturer_def maxCount_none icaos_findByManufacturer_def)
next
  case False
  then obtain k where k: "k \<in> set l" and m: "fst (maxCountManufacturer l) = ic_manufacturer k" "ic_manufacturer k \<noteq> []"
    using maxCount_some by blast
  have "startsWithCI (ic_manufacturer k) (ic_manufacturer k)" by (simp add: startsWithCI_def startsWith_def)
  then have "k \<in> set (icaos_findByManufacturer (fst (maxCountManufacturer l)) l)"
    using k m by (simp add: icaos_findByManufacturer_def)
  then have "icaos_findByManufacturer (fst (maxCountManufacturer l)) l \<noteq> []" by auto
  then obtain b bs where "sortByRank srt (if snd (maxCountManufacturer l) < length l
      then icaos_findByManufacturer (fst (maxCountManufacturer l)) l else l) = b # bs"
    using assms(2) keySorts_empty [OF assms(1)] by (metis neq_Nil_conv sortByRank_def)
  then have "bestOfManufacturer srt l = Some b" by (simp only: bestOfManufacturer_def Let_def list.case)
  then show ?thesis using False by simp
qed

lemma reverse_icao_none:
  assumes "keySorts srt"
  shows "reverseLookupAircraftIcao srt (Some wd) icao = None \<longleftrightarrow>
    1 < length (getAircraftIcaoCodesForDesignator (ic_designator icao) wd)
    \<and> (\<forall>c \<in> set (getAircraftIcaoCodesForDesignator (ic_designator icao) wd). ic_manufacturer c = [])"
proof (cases "getAircraftIcaoCodesForDesignator (ic_designator icao) wd")
  case Nil
  then show ?thesis by (simp add: reverseLookupAircraftIcao_def Let_def)
next
  case (Cons c cs)
  note c = Cons
  show ?thesis
  proof (cases cs)
    case Nil
    then show ?thesis using c by (simp add: reverseLookupAircraftIcao_def Let_def)
  next
    case (Cons d ds)
    then show ?thesis
      using c bestOfManufacturer_none [OF assms, of "c # d # ds"] by (simp add: reverseLookupAircraftIcao_def Let_def)
  qed
qed

subsection \<open>The reverse lookup of a model\<close>

lemma reverse_by_string:
  assumes "model_hasModelString m" and "isReverseLookupModelString stp"
      and "hasValidDbKey (am_dbKey (getModelForModelString (am_modelString m) wd))"
  shows "reverseLookupByString (Some wd) stp modelSet m
    = Some (fromDbModel (am_callsign m) (getModelForModelString (am_modelString m) wd))"
  using assms
  by (simp add: reverseLookupByString_def Let_def reverseLookupModelStringInDB_def fromDbModel_def setModelCallsign_def)

lemma reverse_model:
  assumes "\<not> hasValidDbKey (am_dbKey m)" and "reverseLookupModel srt (Some wd) m info stp modelSet = Some r"
  shows "am_callsign r = (am_callsign m)\<lparr>cs_typeHint := Aircraft\<rparr>" and "am_modelType r = am_modelType m"
    and "model_hasModelString m \<Longrightarrow> isReverseLookupModelString stp
      \<Longrightarrow> hasValidDbKey (am_dbKey (getModelForModelString (am_modelString m) wd))
      \<Longrightarrow> r = (setModelCallsign (am_callsign m) (getModelForModelString (am_modelString m) wd))
               \<lparr>am_modelType := am_modelType m\<rparr>"
  using assms reverse_by_string [of m stp wd modelSet]
  by (auto simp: reverseLookupModel_def Let_def setModelCallsign_def fromDbModel_def)

subsection \<open>What the code does not do\<close>

text \<open>Without a log there is no reduction by the family alone.\<close>

lemma no_log_no_family:
  "\<not> inMode ByIcaoData stp \<Longrightarrow> reduceByIcaoOrFamily False remote stp ms = Some ((ms, False), False)"
  by (simp add: reduceByIcaoOrFamily_def)

text \<open>The duplicates of a set are never found: the counts are kept under the texts of the modes.\<close>

definition modeCounts :: "(string \<times> nat) list \<Rightarrow> bool" where
  "modeCounts counts \<longleftrightarrow> (\<forall>(s, n) \<in> set counts. s \<in> {''Include'', ''Exclude''} \<and> n = 1)"

lemma set_AList_update: "set (AList.update k v l) \<subseteq> insert (k, v) (set l)"
  by (induction l) auto

lemma countModelString_modes:
  assumes "am_modelString m \<notin> {''Include'', ''Exclude''}" and "modeCounts counts"
  shows "modeCounts (countModelString m counts)"
proof -
  have "map_of counts (am_modelString m) = None"
    using assms by (auto simp: modeCounts_def map_of_eq_None_iff)
  moreover have "modelModeToString (am_modelMode m) \<in> {''Include'', ''Exclude''}" by (cases "am_modelMode m") auto
  ultimately show ?thesis
    using assms(2) set_AList_update [of "modelModeToString (am_modelMode m)" 1 counts]
    by (auto simp: modeCounts_def countModelString_def)
qed

lemma countPerModelString_modes:
  assumes "\<forall>m \<in> set ms. am_modelString m \<notin> {''Include'', ''Exclude''}"
  shows "modeCounts (countPerModelString ms)"
proof -
  have "modeCounts counts \<Longrightarrow> modeCounts (fold countModelString ms counts)" for counts
    using assms by (induction ms arbitrary: counts) (simp_all add: countModelString_modes)
  moreover have "modeCounts []" by (simp add: modeCounts_def)
  ultimately show ?thesis unfolding countPerModelString_def by blast
qed

lemma no_duplicates_found:
  assumes "\<forall>m \<in> set ms. wf_model m"
  shows "findDuplicateModelStrings ms = []"
proof -
  have "\<not> normalText ''Include''" and "\<not> normalText ''Exclude''" by code_simp+
  then have "\<forall>m \<in> set ms. am_modelString m \<notin> {''Include'', ''Exclude''}"
    using assms by (auto simp: wf_model_def)
  then have "modeCounts (countPerModelString ms)" by (rule countPerModelString_modes)
  then show ?thesis by (auto simp: findDuplicateModelStrings_def modeCounts_def)
qed

text \<open>A script that never asks for a second run has no effect.\<close>

definition neverReruns :: "scriptEngine \<Rightarrow> bool" where
  "neverReruns engine \<longleftrightarrow> (\<forall>js a b c d v. engine js a b c d = ScriptObject v \<longrightarrow> \<not> io_rerun v)"

lemma applyScriptObject_rerun: "rv_rerun (applyScriptObject wd ms i m v) \<longrightarrow> io_rerun v"
  by (auto simp: applyScriptObject_def Let_def noScript_def scriptLivery_def scriptIcao_def split: option.splits)

lemma script_no_rerun:
  assumes "neverReruns engine"
  shows "\<not> runScriptModifiedAndRerun (matchingStageScript web readFile engine inModel matched stp ms)"
proof -
  have "\<not> rv_rerun (matchingScript web engine js inModel matched ms)" for js
  proof (cases web)
    case (Some wd)
    have "\<not> rv_rerun (applyScriptObject wd ms inModel matched v)" if "engine js a b c d = ScriptObject v" for a b c d v
      using that assms applyScriptObject_rerun unfolding neverReruns_def by blast
    then show ?thesis by (auto simp: matchingScript_def Let_def noScript_def Some split: scriptOutcome.splits)
  qed (simp add: matchingScript_def noScript_def)
  then show ?thesis by (simp add: matchingStageScript_def runScriptModifiedAndRerun_def noScript_def)
qed

lemma script_without_rerun:
  assumes "neverReruns (mv_engine env)"
  shows "getClosestMatch env cs remote True mt = getClosestMatch env cs remote False mt"
proof -
  have "applyMatchingScript env cs remote mt ms m = Some m" for ms m
    using script_no_rerun [OF assms] by (simp add: applyMatchingScript_def Let_def)
  then show ?thesis
    by (cases "findMatch env cs remote mt") (auto simp: getClosestMatch_def Let_def)
qed

end
