(* ===== verification/Flight_Plan_Laws.thy ===== *)
theory Flight_Plan_Laws
  imports Flight_Plan
begin

text \<open>
  What the remarks of a flight plan promise: a value is read back from the text it was
  written to, the voice capability that was set is the one that is parsed, and the texts of a
  plan hold no colon, the separator of the network protocol.
\<close>

subsection \<open>Searching and replacing\<close>

lemma indexOfStr_split:
  "indexOfStr s p = Some i \<Longrightarrow> i \<le> length s \<and> startsWith (drop i s) p"
  by (induction s arbitrary: i) (auto simp: startsWith_def split: if_splits)

lemma indexOfStr_None: "indexOfStr s p = None \<longleftrightarrow> \<not> containsStr s p"
  by (induction s) auto

lemma containsStr_append_right: "containsStr s p \<Longrightarrow> containsStr (a @ s) p"
  by (induction a) auto

lemma containsStr_prefix: "containsStr (p @ s) p"
  using startsWith_append [of p s] by (cases "p @ s") auto

lemma startsWith_prefix: "startsWith a p \<Longrightarrow> startsWith (a @ b) p"
  by (auto simp: startsWith_iff)

lemma containsStr_append_left: "containsStr s p \<Longrightarrow> containsStr (s @ a) p"
proof (induction s)
  case Nil
  then show ?case by (cases a) (auto simp: startsWith_def)
next
  case (Cons c cs)
  then show ?case using startsWith_prefix [of "c # cs" p a] by auto
qed

lemma set_replaceFrom: "set (replaceFrom n P b after s) \<subseteq> set after \<union> set s"
proof (induction n P b after s rule: replaceFrom.induct)
  case (2 fuel P b after s)
  show ?case
  proof (cases s)
    case (Cons c cs)
    show ?thesis
    proof (cases "b \<noteq> [] \<and> P s b")
      case True
      have "set (replaceFrom fuel P b after (drop (length b) s)) \<subseteq> set after \<union> set s"
        using 2(1) [OF Cons True] set_drop_subset [of "length b" s] by blast
      then show ?thesis using True Cons by auto
    next
      case False
      then show ?thesis using 2(2) [OF Cons False] Cons by auto
    qed
  qed simp
qed simp

lemma replaceFrom_contains:
  assumes "containsStr (toLower s) (toLower b)" and "b \<noteq> []" and "length s \<le> n"
  shows "containsStr (replaceFrom n startsWithCI b after s) after"
  using assms(1,3)
proof (induction s arbitrary: n)
  case Nil
  then show ?case using assms(2) by simp
next
  case (Cons c cs)
  then obtain k where k: "n = Suc k" by (cases n) auto
  show ?case
  proof (cases "startsWithCI (c # cs) b")
    case True
    then show ?thesis using k assms(2) containsStr_prefix by simp
  next
    case False
    then have "containsStr (toLower cs) (toLower b)" using Cons.prems by (auto simp: startsWithCI_def)
    then show ?thesis using Cons.IH [of k] Cons.prems(2) k False by simp
  qed
qed

lemma replaceStrCI_contains:
  "containsCI s b \<Longrightarrow> b \<noteq> [] \<Longrightarrow> containsStr (replaceStrCI b after s) after"
  unfolding replaceStrCI_def containsCI_def by (rule replaceFrom_contains) auto

subsection \<open>Reading a value\<close>

text \<open>A value of the remarks: no slash in it, and no white space at its end.\<close>

definition remarkValue :: "string \<Rightarrow> bool" where
  "remarkValue v \<longleftrightarrow> v \<noteq> [] \<and> CHR ''/'' \<notin> set v \<and> simplified v = v \<and> \<not> isSpace (last v)"

text \<open>What may follow a value: nothing, or white space and the next marker.\<close>

definition endsValue :: "string \<Rightarrow> bool" where
  "endsValue post \<longleftrightarrow> post = [] \<or> startsMarker post"

lemma dropWhile_slash:
  assumes "CHR ''/'' \<notin> set v" and "v \<noteq> []" and "\<not> isSpace (last v)" and "endsValue post"
  shows "\<not> startsMarker (v @ post)"
proof -
  have slash: "\<not> isWordChar CHR ''/''" "\<not> isSpace CHR ''/''" by (simp_all add: isWordChar_def isLetterOrNumber_def
      isUpperC_def isLowerC_def isDigitC_def isSpace_def)
  have space: "\<not> isWordChar c" if "isSpace c" for c
    using that isSpace_not_isLetterOrNumber by (auto simp: isWordChar_def isSpace_def)
  obtain u l where v: "v = u @ [l]" using assms(2) by (metis append_butlast_last_id)
  have l: "\<not> isSpace l" using assms(3) v by simp
  have "dropWhile isSpace (v @ post) = dropWhile isSpace v @ post" "dropWhile isSpace v \<noteq> []"
    using v l by (auto simp: dropWhile_append1 dropWhile_append3)
  moreover have "CHR ''/'' \<notin> set (dropWhile isSpace v)" using assms(1) by (meson set_dropWhileD)
  ultimately obtain w where w: "dropWhile isSpace (v @ post) = w @ post" "w \<noteq> []" "CHR ''/'' \<notin> set w" by blast
  have "\<not> startsWith (dropWhile isWordChar (w @ post)) ''/''"
  proof (cases "\<forall>c \<in> set w. isWordChar c")
    case True
    then have w0: "dropWhile isWordChar (w @ post) = dropWhile isWordChar post" by (simp add: dropWhile_append2)
    show ?thesis
    proof (cases "post = []")
      case True
      then show ?thesis unfolding w0 by (simp add: startsWith_def)
    next
      case False
      then obtain d ds where d: "post = d # ds" "isSpace d"
        using assms(4) by (cases post) (auto simp: endsValue_def startsMarker_def)
      then have "dropWhile isWordChar post = post" using space by simp
      then show ?thesis unfolding w0 using d slash by (auto simp: startsWith_def)
    qed
  next
    case False
    then obtain x where x: "x \<in> set w" "\<not> isWordChar x" by blast
    then have "dropWhile isWordChar (w @ post) = dropWhile isWordChar w @ post" by (simp add: dropWhile_append1)
    moreover have "dropWhile isWordChar w \<noteq> []" using x by (auto simp: dropWhile_eq_Nil_conv)
    moreover have "set (dropWhile isWordChar w) \<subseteq> set w" by (rule set_dropWhile_subset)
    ultimately show ?thesis using w(3) by (cases "dropWhile isWordChar w") (auto simp: startsWith_def)
  qed
  then show ?thesis unfolding startsMarker_def w(1) by blast
qed

lemma nextMarker_value:
  assumes "CHR ''/'' \<notin> set v" and "v = [] \<or> \<not> isSpace (last v)" and "endsValue post"
  shows "nextMarker (v @ post) = length v"
  using assms(1,2)
proof (induction v)
  case Nil
  then show ?case using assms(3) by (cases post) (auto simp: endsValue_def)
next
  case (Cons c cs)
  then have "\<not> startsMarker ((c # cs) @ post)" by (intro dropWhile_slash [OF _ _ _ assms(3)]) auto
  moreover have "nextMarker (cs @ post) = length cs" using Cons by (cases "cs = []") auto
  ultimately show ?case by simp
qed

lemma valueLength_value:
  assumes "remarkValue v" and "endsValue post"
  shows "valueLength (v @ post) = length v"
proof -
  obtain c cs where v: "v = c # cs" using assms(1) by (cases v) (auto simp: remarkValue_def)
  have "nextMarker (cs @ post) = length cs"
    using assms v by (intro nextMarker_value) (auto simp: remarkValue_def split: if_splits)
  moreover have "length cs \<le> length (takeWhile (\<lambda>c. c \<noteq> CHR ''/'') (cs @ post))"
    using assms v by (simp add: remarkValue_def takeWhile_append)
  ultimately show ?thesis by (simp add: valueLength_def v)
qed

text \<open>
  The value of the first marker of its kind is read, but for a single character at the end
  of the remarks, which the bounds check drops.
\<close>

lemma getRemark_value:
  assumes "indexOfStr (pre @ marker @ v @ post) marker = Some (length pre)"
    and "remarkValue v" and "endsValue post"
  shows "getRemark (pre @ marker @ v @ post) marker = (if post = [] \<and> length v = 1 then [] else v)"
proof -
  have "post \<noteq> [] \<Longrightarrow> 2 \<le> length (v @ post)"
    using assms(2) by (cases v; cases post) (auto simp: remarkValue_def)
  moreover have "1 \<le> length v" using assms(2) by (cases v) (auto simp: remarkValue_def)
  ultimately show ?thesis
    using assms(1) valueLength_value [OF assms(2,3)] assms(2)
    by (auto simp: getRemark_def Let_def remarkValue_def)
qed

subsection \<open>Voice capabilities\<close>

lemma voice_remarks_roundtrip: "voiceOfRemarks (toFlightPlanRemarks vc) = vc"
  by (cases vc) (simp_all add: voiceOfRemarks_def trimmed_def isSpace_def startsWith_def toUpperC_def isLowerC_def Let_def)

text \<open>The text of the capability to listen is read as the one for text only.\<close>

lemma voice_text:
  "voiceOfText (voice_toQString vc) = (if vc = VoiceReceivingOnly then TextOnly else vc)"
  by (cases vc; hypsubst; code_simp)

lemma trimmed_contains:
  assumes "containsStr s p" and "p \<noteq> []" and "\<forall>c \<in> set p. \<not> isSpace c"
  shows "containsStr (trimmed s) p"
proof -
  have drop: "containsStr (dropWhile isSpace t) p" if "containsStr t p" for t
    using that
  proof (induction t)
    case (Cons c cs)
    then show ?case using assms(2,3) by (cases p) (auto simp: startsWith_def)
  qed simp
  have "\<exists>a b. t = a @ p @ b" if "containsStr t p" for t
    using that
  proof (induction t)
    case (Cons c cs)
    show ?case
    proof (cases "startsWith (c # cs) p")
      case True
      then obtain r where "c # cs = p @ r" by (auto simp: startsWith_iff)
      then show ?thesis by (metis append_Nil)
    next
      case False
      then obtain a b where "cs = a @ p @ b" using Cons by auto
      then show ?thesis by (metis append_Cons)
    qed
  qed (use assms(2) in simp)
  then obtain a b where ab: "dropWhile isSpace s = a @ p @ b" using drop [OF assms(1)] by blast
  have "rev (dropWhile isSpace (rev (a @ p @ b))) = a @ p @ rev (dropWhile isSpace (rev b))"
  proof (cases "\<forall>c \<in> set b. isSpace c")
    case True
    obtain q l where "p = q @ [l]" using assms(2) by (metis append_butlast_last_id)
    moreover have "\<not> isSpace l" using assms(3) calculation by simp
    ultimately show ?thesis using True by (simp add: dropWhile_append dropWhile_eq_Nil_conv)
  next
    case False
    then obtain x where "x \<in> set (rev b)" "\<not> isSpace x" by auto
    then show ?thesis by (simp add: dropWhile_append1)
  qed
  then show ?thesis
    unfolding trimmed_def ab using containsStr_append_right [OF containsStr_prefix] by simp
qed

lemma voiceOfRemarks_iff:
  "voiceOfRemarks s =
     (if s = [] then UnknownVoice
      else if containsStr (toUpper s) ''/V/'' then Voice else if containsStr (toUpper s) ''/T/'' then TextOnly
      else if containsStr (toUpper s) ''/R/'' then VoiceReceivingOnly
      else if containsStr (toUpper s) ''/VOICE/'' then Voice else if containsStr (toUpper s) ''/TEXT/'' then TextOnly
      else UnknownVoice)"
proof -
  have sub: "containsStr (trimmed t) p \<Longrightarrow> containsStr t p" for t p
  proof -
    assume c: "containsStr (trimmed t) p"
    have "containsStr (dropWhile isSpace t) p"
    proof -
      obtain w where "dropWhile isSpace t = trimmed t @ w"
        unfolding trimmed_def by (metis append.assoc rev_append rev_rev_ident takeWhile_dropWhile_id)
      then show ?thesis using containsStr_append_left [OF c] by simp
    qed
    then show "containsStr t p"
      using containsStr_append_right [of "dropWhile isSpace t" p "takeWhile isSpace t"] by simp
  qed
  have eq: "containsStr (trimmed t) p \<longleftrightarrow> containsStr t p" if "p \<noteq> []" "\<forall>c \<in> set p. \<not> isSpace c" for t p
    using sub trimmed_contains that by blast
  have "containsStr (trimmed t) p \<longleftrightarrow> containsStr t p"
    if "p \<in> set [''/V/'', ''/T/'', ''/R/'', ''/VOICE/'', ''/TEXT/'']" for t p
    using that by (intro eq) (auto simp: isSpace_def)
  then show ?thesis by (simp add: voiceOfRemarks_def Let_def)
qed

text \<open>
  Setting a capability: voice is always read back; the others when the remarks had no mark of
  a capability before.
\<close>

lemma startsWith_map: "startsWith s p \<Longrightarrow> startsWith (map f s) (map f p)"
  by (metis length_map startsWith_def take_map)

lemma containsStr_map: "containsStr s p \<Longrightarrow> containsStr (map f s) (map f p)"
proof (induction s)
  case (Cons c cs)
  then show ?case using startsWith_map [of "c # cs" p f] by auto
qed simp

definition voiceMarks :: "string list" where "voiceMarks = [''/V/'', ''/R/'', ''/T/'']"

lemma upper_marks: "m \<in> set voiceMarks \<Longrightarrow> toUpper m = m"
  by (auto simp: voiceMarks_def toUpperC_def isLowerC_def)

lemma replaced_contains_new:
  "vc \<noteq> UnknownVoice \<Longrightarrow>
     containsStr (replaceVoiceCapabilities (toFlightPlanRemarks vc) s) (toFlightPlanRemarks vc)"
proof -
  assume "vc \<noteq> UnknownVoice"
  then have "toFlightPlanRemarks vc \<noteq> []" by (cases vc) auto
  then show ?thesis
    using containsStr_prefix [of "toFlightPlanRemarks vc" "[]"] containsStr_prefix
    by (auto simp: replaceVoiceCapabilities_def replaceStrCI_contains)
qed

lemma voice_always_read: "voiceOfRemarks (replaceVoiceCapabilities ''/V/'' s) = Voice"
proof -
  have "containsStr (replaceVoiceCapabilities ''/V/'' s) ''/V/''" using replaced_contains_new [of Voice s] by simp
  then have "containsStr (toUpper (replaceVoiceCapabilities ''/V/'' s)) ''/V/''"
    using containsStr_map [of _ "''/V/''" toUpperC] upper_marks [of "''/V/''"] by (simp add: voiceMarks_def)
  then show ?thesis unfolding voiceOfRemarks_iff by auto
qed

lemma contains_after_mark:
  assumes "m \<in> set voiceMarks" and "m' \<in> set voiceMarks" and "m \<noteq> m'" and "\<not> containsStr s m"
  shows "\<not> containsStr (m' @ '' '' @ s) m"
  using assms by (auto simp: voiceMarks_def startsWith_def)

lemma toLowerC_upper: "isUpperC c \<Longrightarrow> isLowerC (toLowerC c)"
  by (simp add: isUpperC_def isLowerC_def of_char_toLowerC Let_def)

lemma upper_lower: "toUpperC (toLowerC c) = toUpperC c" "toLowerC (toUpperC c) = toLowerC c"
proof -
  have "toUpperC (toLowerC c) = c" if "isUpperC c"
  proof -
    have "(of_char (toUpperC (toLowerC c)) :: nat) = of_char c"
      using that toLowerC_upper [OF that] by (simp add: of_char_toUpperC of_char_toLowerC)
    then show ?thesis by simp
  qed
  moreover have "\<not> isLowerC c" if "isUpperC c" using that by (rule isUpperC_not_isLowerC)
  ultimately show "toUpperC (toLowerC c) = toUpperC c" by (cases "isUpperC c") (auto simp: toLowerC_def)
  have "isUpperC (toUpperC c) \<and> toLowerC (toUpperC c) = c" if "isLowerC c"
  proof -
    have u: "isUpperC (toUpperC c)" using that by (auto simp: isUpperC_def isLowerC_def of_char_toUpperC Let_def)
    have "(of_char (toLowerC (toUpperC c)) :: nat) = of_char c"
      using that u by (auto simp: of_char_toUpperC of_char_toLowerC isLowerC_def Let_def)
    then show ?thesis using u by simp
  qed
  moreover have "toLowerC c = c" if "isLowerC c" using that isUpperC_not_isLowerC by (auto simp: toLowerC_def)
  ultimately show "toLowerC (toUpperC c) = toLowerC c" by (cases "isLowerC c") auto
qed

lemma containsCI_upper: "containsCI s p \<longleftrightarrow> containsStr (toUpper s) (toUpper p)"
proof -
  have low: "toUpper (toLower t) = toUpper t" "toLower (toUpper t) = toLower t" for t
    by (simp_all add: upper_lower)
  show ?thesis
    unfolding containsCI_def
    using containsStr_map [of "toLower s" "toLower p" toUpperC] containsStr_map [of "toUpper s" "toUpper p" toLowerC] low
    by metis
qed

lemma marks_toFlightPlanRemarks: "vc \<noteq> UnknownVoice \<Longrightarrow> toFlightPlanRemarks vc \<in> set voiceMarks"
  by (cases vc) (auto simp: voiceMarks_def)

lemma voice_read_back:
  assumes vc: "vc \<noteq> UnknownVoice" and new: "\<forall>m \<in> set voiceMarks. \<not> containsCI s m"
  shows "voiceOfRemarks (replaceVoiceCapabilities (toFlightPlanRemarks vc) s) = vc"
proof (cases "s = []")
  case True
  then show ?thesis using voice_remarks_roundtrip [of vc] vc by (cases vc) (simp_all add: replaceVoiceCapabilities_def)
next
  case False
  have none: "\<not> containsStr (toUpper s) m" if "m \<in> set voiceMarks" for m
    using new that upper_marks [OF that] unfolding containsCI_upper by metis
  let ?r = "toFlightPlanRemarks vc @ '' '' @ s"
  have r: "replaceVoiceCapabilities (toFlightPlanRemarks vc) s = ?r"
    using False new vc by (cases vc) (auto simp: replaceVoiceCapabilities_def voiceMarks_def)
  have u: "toUpper ?r = toFlightPlanRemarks vc @ '' '' @ toUpper s"
    using upper_marks [OF marks_toFlightPlanRemarks [OF vc]] by (simp add: toUpperC_def isLowerC_def)
  have "containsStr (toUpper ?r) m \<longleftrightarrow> m = toFlightPlanRemarks vc" if "m \<in> set voiceMarks" for m
    unfolding u using contains_after_mark [OF that marks_toFlightPlanRemarks [OF vc] _ none [OF that]] containsStr_prefix
    by blast
  then show ?thesis
    unfolding r voiceOfRemarks_iff using vc by (cases vc) (auto simp: voiceMarks_def)
qed

subsection \<open>SELCAL\<close>

text \<open>
  A code is appended with its marker. It is read back when the remarks had no such marker
  before; otherwise the value of the first marker is removed, but not the marker.
\<close>

lemma indexOfStr_append:
  assumes "\<not> containsStr (s @ butlast p) p" and "p \<noteq> []"
  shows "indexOfStr (s @ p @ t) p = Some (length s)"
  using assms(1)
proof (induction s)
  case Nil
  then show ?case using assms(2) startsWith_append [of p t] by (cases p) auto
next
  case (Cons c cs)
  have "\<not> startsWith (c # cs @ p @ t) p"
  proof
    assume "startsWith (c # cs @ p @ t) p"
    then have "take (length p) (c # cs @ p @ t) = p" by (simp add: startsWith_def)
    moreover have "take (length p) (c # cs @ p @ t) = take (length p) (c # cs @ butlast p)"
    proof -
      obtain k where k: "length p = Suc k" using assms(2) by (cases p) auto
      have p: "p @ t = butlast p @ (last p # t)" using assms(2) by simp
      have "take k (cs @ p @ t) = take k (cs @ butlast p)"
        unfolding p using k by (simp flip: append_assoc)
      then show ?thesis using k by simp
    qed
    ultimately have "startsWith (c # cs @ butlast p) p" by (simp add: startsWith_def)
    then show False using Cons.prems by simp
  qed
  moreover have "\<not> containsStr (cs @ butlast p) p" using Cons.prems by simp
  ultimately show ?case using Cons.IH by simp
qed

lemma selcal_value: "length v = 4 \<Longrightarrow> \<forall>c \<in> set v. isUpperC c \<Longrightarrow> remarkValue v"
proof -
  assume v: "length v = 4" "\<forall>c \<in> set v. isUpperC c"
  have ns: "\<forall>c \<in> set v. \<not> isSpace c" using v(2) by (auto simp: isSpace_def isUpperC_def Let_def)
  have sq: "squeeze w = w" if "\<forall>c \<in> set w. \<not> isSpace c" for w using that by (induction w) auto
  have "simplified v = v" using ns sq trimmed_filter_not_space by (simp add: simplified_def)
  moreover have "v \<noteq> []" using v(1) by auto
  ultimately show "remarkValue v" using v(2) ns by (auto simp: remarkValue_def isUpperC_def)
qed

lemma selcal_read_back:
  assumes "length v = 4" and "\<forall>c \<in> set v. isUpperC c" and "\<not> containsStr (s @ '' SEL'') ''SEL/''"
    and "\<not> containsStr s ''SEL/''"
  shows "getRemark (replaceRemark s ''SEL/'' (''SEL/'' @ v)) ''SEL/'' = v"
proof -
  let ?pre = "if s = [] then [] else s @ '' ''"
  have none: "indexOfStr s ''SEL/'' = None" using assms(4) indexOfStr_None by simp
  have r: "replaceRemark s ''SEL/'' (''SEL/'' @ v) = ?pre @ ''SEL/'' @ v @ []"
    by (simp add: replaceRemark_def none)
  have "\<not> containsStr (?pre @ butlast ''SEL/'') ''SEL/''"
    using assms(3) by (cases "s = []") (auto simp: startsWith_def)
  then have "indexOfStr (?pre @ ''SEL/'' @ v @ []) ''SEL/'' = Some (length ?pre)"
    by (intro indexOfStr_append) auto
  then show ?thesis
    unfolding r using getRemark_value [OF _ selcal_value [OF assms(1,2)], of ?pre "''SEL/''" "[]"] assms(1)
    by (simp add: endsValue_def)
qed

text \<open>A second code is lost: what is read is not a code.\<close>

lemma selcal_replaced_lost:
  "getRemark (fr_remarks (snd (setSelcalCode ''ABCD'' (mkRemarks ''RT/KESTREL SEL/FPES PER/C'' True)))) ''SEL/'' = ''PER''"
  by code_simp

subsection \<open>Texts of a plan on the network\<close>

lemma set_squeeze: "set (squeeze s) \<subseteq> insert CHR '' '' (set s)"
  by (induction s) (auto split: list.splits if_splits)

lemma set_trimmed: "set (trimmed s) \<subseteq> set s"
  by (auto simp: trimmed_def dest!: set_dropWhileD)

lemma asciiOnly_chars: "c \<in> set (asciiOnlyString s) \<Longrightarrow> c = CHR '' '' \<or> c \<in> set s"
  using set_squeeze [of "trimmed s"] set_trimmed [of s]
  by (auto simp: asciiOnlyString_def simplified_def set_removeChars)

lemma accent_no_colon: "c \<noteq> CHR '':'' \<Longrightarrow> CHR '':'' \<notin> set (simplifyAccent c)"
proof -
  have "CHR '':'' \<notin> set (concat accentTable)" by (simp add: accentTable_def)
  then have "CHR '':'' \<notin> set (accentTable ! i)" if "i < length accentTable" for i using that nth_mem by fastforce
  then show "c \<noteq> CHR '':'' \<Longrightarrow> CHR '':'' \<notin> set (simplifyAccent c)"
    by (auto simp: simplifyAccent_def Let_def)
qed

lemma cleanRemarks_no_colon: "CHR '':'' \<notin> set (cleanRemarks s)"
proof -
  let ?r = "replaceChar CHR '':'' CHR '' '' s"
  have "CHR '':'' \<notin> set (simplifyAccent c)" if "c \<in> set ?r" for c
    using that by (intro accent_no_colon) (auto simp: replaceChar_def)
  then have "CHR '':'' \<notin> set (simplifyAccents ?r)" by (simp add: simplifyAccents_def)
  then show ?thesis unfolding cleanRemarks_def using asciiOnly_chars by fastforce
qed

lemma toUpper_colon: "CHR '':'' \<in> set (toUpper s) \<longleftrightarrow> CHR '':'' \<in> set s"
proof -
  have "toUpperC c = CHR '':'' \<longleftrightarrow> c = CHR '':''" for c
  proof (cases "isLowerC c")
    case True
    then have "(of_char (toUpperC c) :: nat) \<noteq> 58" by (auto simp: of_char_toUpperC isLowerC_def Let_def)
    moreover have "c \<noteq> CHR '':''" using True by (auto simp: isLowerC_def)
    ultimately show ?thesis by auto
  next
    case False
    show ?thesis unfolding toUpperC_id [OF False] by (rule refl)
  qed
  then show ?thesis unfolding set_map image_iff by metis
qed

lemma route_on_wire:
  "CHR '':'' \<notin> set (fp_route (setRoute route p)) \<and> length (fp_route (setRoute route p)) \<le> MaxRouteLength"
proof -
  have "CHR '':'' \<notin> set (replaceChar CHR '':'' CHR '' '' route)" by (auto simp: replaceChar_def)
  then have "CHR '':'' \<notin> set (asciiOnlyString (replaceChar CHR '':'' CHR '' '' route))"
    using asciiOnly_chars by fastforce
  then have "CHR '':'' \<notin> set (left (asciiOnlyString (replaceChar CHR '':'' CHR '' '' route)) MaxRouteLength)"
    unfolding left_def using in_set_takeD by metis
  then have "CHR '':'' \<notin> set (fp_route (setRoute route p))"
    unfolding setRoute_def using toUpper_colon by simp
  then show ?thesis by (simp add: setRoute_def left_def)
qed

lemma voiceMark_no_colon: "CHR '':'' \<notin> set (toFlightPlanRemarks vc)"
  by (cases vc) auto

lemma replaceVoice_no_colon:
  "CHR '':'' \<notin> set s \<Longrightarrow> CHR '':'' \<notin> set (replaceVoiceCapabilities (toFlightPlanRemarks vc) s)"
  using set_replaceFrom [of "length s" startsWithCI _ "toFlightPlanRemarks vc" s] voiceMark_no_colon [of vc]
  by (auto simp: replaceVoiceCapabilities_def replaceStrCI_def)

lemma parse_keeps_remarks: "fr_remarks (parseFlightPlanRemarks force r) = fr_remarks r"
  by (simp add: parseFlightPlanRemarks_def Let_def)

lemma remarks_on_wire:
  "CHR '':'' \<notin> set (fr_remarks (mkRemarks s parse))"
  "CHR '':'' \<notin> set (fr_remarks r) \<Longrightarrow> CHR '':'' \<notin> set (fr_remarks (remarks_setVoiceCapabilities vc r))"
  using cleanRemarks_no_colon replaceVoice_no_colon
  by (auto simp: mkRemarks_def Let_def parse_keeps_remarks remarks_setVoiceCapabilities_def)

lemma flightRules_roundtrip: "stringToFlightRules (flightRulesToString r) = r"
  by (cases r; hypsubst; code_simp)

end
