(* ===== verification/Network_Client.thy ===== *)
theory Network_Client
  imports Network_User Fsd_Capabilities Aircraft_Situation
begin

text \<open>
  The other clients, \<open>CClient\<close> (\<open>src/misc/network/client.cpp\<close>) and \<open>CClientProvider\<close>
  (\<open>clientprovider.cpp\<close>): for each callsign its user, capabilities, model string, server and
  voice capabilities. The provider holds its lock in each operation, so an operation is one
  step. A hash table is a map from the normalised callsign; the order of its values is a
  parameter. A map of property indexes is the list of the properties that are set.
\<close>

record CClient =
  cl_user :: CUser
  cl_capabilities :: ClientCapabilities
  cl_swift :: bool
  cl_modelString :: string
  cl_server :: string
  cl_voiceCapabilities :: CVoiceCapabilities

definition CClient_default :: CClient where
  "CClient_default = \<lparr>cl_user = CUser_default, cl_capabilities = 0, cl_swift = False, cl_modelString = [],
     cl_server = [], cl_voiceCapabilities = UnknownVoice\<rparr>"

definition mkClient :: "CCallsign \<Rightarrow> string \<Rightarrow> CClient" where
  "mkClient callsign modelString =
     CClient_default\<lparr>cl_user := userOfCallsign callsign, cl_modelString := trimmed modelString\<rparr>"

definition client_getCallsign :: "CClient \<Rightarrow> CCallsign" where
  "client_getCallsign c = us_callsign (cl_user c)"

definition client_isValid :: "CClient \<Rightarrow> bool" where "client_isValid c \<longleftrightarrow> user_hasCallsign (cl_user c)"

definition client_isAtc :: "CClient \<Rightarrow> bool" where "client_isAtc c \<longleftrightarrow> isAtcAlikeCallsign (client_getCallsign c)"

text \<open>\<open>testFlag\<close> of a single bit.\<close>

definition hasCapability :: "ClientCapabilities \<Rightarrow> CClient \<Rightarrow> bool" where
  "hasCapability capability c \<longleftrightarrow> cl_capabilities c AND capability \<noteq> 0"

definition addCapability :: "ClientCapabilities \<Rightarrow> CClient \<Rightarrow> CClient" where
  "addCapability capability c = c\<lparr>cl_capabilities := cl_capabilities c OR capability\<rparr>"

definition removeCapability :: "ClientCapabilities \<Rightarrow> CClient \<Rightarrow> CClient" where
  "removeCapability capability c = c\<lparr>cl_capabilities := cl_capabilities c AND NOT capability\<rparr>"

definition getCapabilitiesAsString :: "CClient \<Rightarrow> string" where
  "getCapabilitiesAsString c =
     (let sl = (if hasCapability FsdAtisCanBeReceived c then [''ATIS''] else [])
             @ (if hasCapability FsdWithInterimPositions c then [''interim pos.''] else [])
             @ (if hasCapability FsdWithIcaoCodes c then [''ICAO''] else [])
             @ (if hasCapability FsdWithAircraftConfig c then [''aircraft config''] else [])
             @ (if hasCapability FsdWithGroundFlag c then [''gnd.flag''] else [])
             @ (if hasCapability FsdModelString c then [''modelstring''] else [])
             @ (if hasCapability FsdWithVisualPositions c then [''visual pos.''] else [])
      in if sl = [] then [] else qjoin '', '' sl)"

definition hasGndFlagCapability :: "CClient \<Rightarrow> bool" where
  "hasGndFlagCapability c \<longleftrightarrow> hasCapability FsdWithGroundFlag c"

definition hasAircraftPartsCapability :: "CClient \<Rightarrow> bool" where
  "hasAircraftPartsCapability c \<longleftrightarrow> hasCapability FsdWithAircraftConfig c"

definition setUserCallsign :: "CCallsign \<Rightarrow> CClient \<Rightarrow> bool \<times> CClient" where
  "setUserCallsign callsign c =
     (case user_setCallsign callsign (cl_user c) of (changed, u) \<Rightarrow> (changed, c\<lparr>cl_user := u\<rparr>))"

definition client_setQueriedModelString :: "string \<Rightarrow> CClient \<Rightarrow> CClient" where
  "client_setQueriedModelString modelString c =
     (let c1 = c\<lparr>cl_modelString := trimmed modelString\<rparr>
      in if modelString \<noteq> [] then addCapability FsdModelString c1 else c1)"

definition hasSpecifiedVoiceCapabilities :: "CClient \<Rightarrow> bool" where
  "hasSpecifiedVoiceCapabilities c \<longleftrightarrow> cl_voiceCapabilities c \<noteq> UnknownVoice"

definition client_toQString :: "CClient \<Rightarrow> string" where
  "client_toQString c =
     user_toQString (cl_user c) @ '' capabilites: '' @ getCapabilitiesAsString c @ '' model: '' @ cl_modelString c
     @ (if cl_server c = [] then [] else ''server: '' @ cl_server c)"

subsection \<open>Properties by index\<close>

datatype clientProperty =
    IndexCapabilities ClientCapabilities
  | IndexModelString string
  | IndexServer string
  | IndexUserRealName string
  | IndexVoiceCapabilities CVoiceCapabilities

definition client_setProperty :: "(string \<Rightarrow> string) \<Rightarrow> clientProperty \<Rightarrow> CClient \<Rightarrow> CClient" where
  "client_setProperty decrypt p c =
     (case p of
        IndexCapabilities caps \<Rightarrow> c\<lparr>cl_capabilities := caps\<rparr>
      | IndexModelString s \<Rightarrow> c\<lparr>cl_modelString := s\<rparr>
      | IndexServer s \<Rightarrow> c\<lparr>cl_server := s\<rparr>
      | IndexUserRealName s \<Rightarrow> c\<lparr>cl_user := setRealName decrypt s (cl_user c)\<rparr>
      | IndexVoiceCapabilities vc \<Rightarrow> c\<lparr>cl_voiceCapabilities := vc\<rparr>)"

definition client_equalsProperty :: "clientProperty \<Rightarrow> CClient \<Rightarrow> bool" where
  "client_equalsProperty p c \<longleftrightarrow>
     (case p of
        IndexCapabilities caps \<Rightarrow> cl_capabilities c = caps
      | IndexModelString s \<Rightarrow> cl_modelString c = s
      | IndexServer s \<Rightarrow> cl_server c = s
      | IndexUserRealName s \<Rightarrow> us_realname (cl_user c) = s
      | IndexVoiceCapabilities vc \<Rightarrow> cl_voiceCapabilities c = vc)"

text \<open>The number of the values that were set, and the object.\<close>

fun client_apply :: "(string \<Rightarrow> string) \<Rightarrow> bool \<Rightarrow> clientProperty list \<Rightarrow> CClient \<Rightarrow> nat \<times> CClient" where
  "client_apply decrypt skipEqualValues [] c = (0, c)"
| "client_apply decrypt skipEqualValues (p # ps) c =
     (if skipEqualValues \<and> client_equalsProperty p c then client_apply decrypt skipEqualValues ps c
      else case client_apply decrypt skipEqualValues ps (client_setProperty decrypt p c) of (n, c1) \<Rightarrow> (Suc n, c1))"

subsection \<open>The provider\<close>

type_synonym CClientPerCallsign = "string \<rightharpoonup> CClient"

definition getClients :: "string list \<Rightarrow> CClientPerCallsign \<Rightarrow> CClient list" where
  "getClients order clients = List.map_filter clients order"

definition asCallsignHash :: "CClient list \<Rightarrow> CClientPerCallsign" where
  "asCallsignHash clients =
     fold (\<lambda>c m. if cs_isEmpty (client_getCallsign c) then m else m(cs_callsign (client_getCallsign c) \<mapsto> c))
       clients Map.empty"

definition setClients :: "CClient list \<Rightarrow> CClientPerCallsign \<Rightarrow> CClientPerCallsign" where
  "setClients clients m = asCallsignHash clients"

definition clearClients :: "CClientPerCallsign \<Rightarrow> CClientPerCallsign" where
  "clearClients m = Map.empty"

definition getClientsForCallsigns :: "string list \<Rightarrow> string set \<Rightarrow> CClientPerCallsign \<Rightarrow> CClient list" where
  "getClientsForCallsigns order callsigns m =
     (if callsigns = {} then []
      else filter (\<lambda>c. cs_callsign (client_getCallsign c) \<in> callsigns) (getClients order m))"

definition getClientOrDefaultForCallsign :: "CCallsign \<Rightarrow> CClientPerCallsign \<Rightarrow> CClient" where
  "getClientOrDefaultForCallsign callsign m =
     (if cs_isEmpty callsign then CClient_default
      else case m (cs_callsign callsign) of None \<Rightarrow> CClient_default | Some c \<Rightarrow> c)"

definition setOtherClient :: "CClient \<Rightarrow> CClientPerCallsign \<Rightarrow> bool \<times> CClientPerCallsign" where
  "setOtherClient client m =
     (if cs_isEmpty (client_getCallsign client) then (False, m)
      else (True, m(cs_callsign (client_getCallsign client) \<mapsto> client)))"

definition hasClientInfo :: "CCallsign \<Rightarrow> CClientPerCallsign \<Rightarrow> bool" where
  "hasClientInfo callsign m \<longleftrightarrow> \<not> cs_isEmpty callsign \<and> m (cs_callsign callsign) \<noteq> None"

definition addNewClient :: "CClient \<Rightarrow> CClientPerCallsign \<Rightarrow> bool \<times> CClientPerCallsign" where
  "addNewClient client m =
     (let callsign = client_getCallsign client
      in if cs_isEmpty callsign then (False, m)
         else if hasClientInfo callsign m then (False, m)
         else (True, m(cs_callsign callsign \<mapsto> client)))"

definition updateOrAddClient ::
  "(string \<Rightarrow> string) \<Rightarrow> CCallsign \<Rightarrow> clientProperty list \<Rightarrow> bool \<Rightarrow> CClientPerCallsign \<Rightarrow> nat \<times> CClientPerCallsign" where
  "updateOrAddClient decrypt callsign vm skipEqualValues m =
     (if cs_isEmpty callsign then (0, m)
      else let (c, client) =
                 (case m (cs_callsign callsign) of
                    Some client \<Rightarrow> client_apply decrypt skipEqualValues vm client
                  | None \<Rightarrow> client_apply decrypt False vm (mkClient callsign []))
           in (c, m(cs_callsign callsign \<mapsto> client)))"

definition removeClient :: "CCallsign \<Rightarrow> CClientPerCallsign \<Rightarrow> nat \<times> CClientPerCallsign" where
  "removeClient callsign m =
     ((if m (cs_callsign callsign) = None then 0 else 1), m(cs_callsign callsign := None))"

definition setClientGndCapability :: "CCallsign \<Rightarrow> bool \<Rightarrow> CClientPerCallsign \<Rightarrow> bool \<times> CClientPerCallsign" where
  "setClientGndCapability callsign supportGndFlag m =
     (if cs_isEmpty callsign then (False, m)
      else
        let client = getClientOrDefaultForCallsign callsign m
        in if \<not> client_isValid client then (False, m)
           else if hasGndFlagCapability client = supportGndFlag then (True, m)
           else (True, m(cs_callsign callsign \<mapsto>
                  (if supportGndFlag then addCapability FsdWithGroundFlag client
                   else removeCapability FsdWithGroundFlag client))))"

definition addClientGndCapability :: "CCallsign \<Rightarrow> CClientPerCallsign \<Rightarrow> bool \<times> CClientPerCallsign" where
  "addClientGndCapability callsign m = setClientGndCapability callsign True m"

definition autoAdjustCientGndCapability ::
  "'p CAircraftSituation \<Rightarrow> CClientPerCallsign \<Rightarrow> bool \<times> CClientPerCallsign" where
  "autoAdjustCientGndCapability situation m =
     (if s_callsign situation = [] then (False, m)
      else if \<not> isOnGround situation then (False, m)
      else if gi_details (s_onGroundInfo situation) \<noteq> InFromNetwork then (False, m)
      else addClientGndCapability (mkCallsign (s_callsign situation) NoHint) m)"

definition markAsSwiftClient :: "CCallsign \<Rightarrow> CClientPerCallsign \<Rightarrow> CClientPerCallsign" where
  "markAsSwiftClient callsign m =
     (if cs_isEmpty callsign then m
      else case m (cs_callsign callsign) of
             None \<Rightarrow> m
           | Some c \<Rightarrow> m(cs_callsign callsign \<mapsto> c\<lparr>cl_swift := True\<rparr>))"

end
