(* ===== verification/Airspace_Aircraft.thy ===== *)
theory Airspace_Aircraft
  imports Remote_Aircraft
begin

text \<open>
  The aircraft as an object, \<open>CSimulatedAircraft\<close> (\<open>src/misc/simulation/simulatedaircraft.cpp\<close>), and
  the operation of the provider that sets properties of an aircraft in range by index
  (\<open>updateAircraftInRange\<close> of \<open>remoteaircraftprovider.cpp\<close>). The key of an aircraft is the normal
  form of its callsign, the object with its hint is kept beside it.
\<close>

definition nullCoordinate :: "'p CCoordinateGeodetic" where
  "nullCoordinate = \<lparr>co_vector = None, co_height = None, co_aboveGround = False\<rparr>"

definition CAircraftSituation_default :: "'p CAircraftSituation" where
  "CAircraftSituation_default = \<lparr>m_timestampMSecsSinceEpoch = -1, m_timeOffsetMs = 0, s_callsign = [],
     s_position = nullCoordinate, s_groundElevationPlane = nullPlane, s_pitch = None, s_bank = None,
     s_groundSpeed = None, s_cg = None, s_hasVelocity = False, s_isElvInfoTransferred = False,
     s_elvInfo = NoElevationInfo, s_onGroundInfo = COnGroundInfo_default\<rparr>"

definition CAircraftParts_default :: CAircraftParts where
  "CAircraftParts_default = \<lparr>m_timestampMSecsSinceEpoch = -1, m_timeOffsetMs = 0, ap_isOnGround = False\<rparr>"

definition CComSystem_default :: CComSystem where
  "CComSystem_default = mkComSystem [] (Some 0) (Some 0)"

definition CSimulatedAircraft_default :: "'p CSimulatedAircraftFull" where
  "CSimulatedAircraft_default = \<lparr>ra_callsign = [], ra_callsignObject = emptyCallsign, ra_pilot = CUser_default, ra_situation = CAircraftSituation_default,
     ra_com1 = CComSystem_default, ra_com2 = CComSystem_default, ra_transponder = transponder_default,
     ra_parts = CAircraftParts_default, ra_model = defaultModel, ra_networkModel = defaultModel,
     ra_enabled = True, ra_rendered = False, ra_fastPositionUpdates = False, ra_partsSynchronized = False,
     ra_supportsGndFlag = False, ra_relativeDistance = None, ra_relativeBearing = None\<rparr>"

definition aircraft_setCallsign :: "CCallsign \<Rightarrow> 'p CSimulatedAircraftFull \<Rightarrow> 'p CSimulatedAircraftFull" where
  "aircraft_setCallsign callsign a =
     a\<lparr>ra_callsign := cs_callsign callsign, ra_callsignObject := callsign, ra_model := setModelCallsign callsign (ra_model a),
       ra_networkModel := setModelCallsign callsign (ra_networkModel a),
       ra_pilot := snd (user_setCallsign callsign (ra_pilot a))\<rparr>"

definition aircraft_getCallsign :: "'p CSimulatedAircraftFull \<Rightarrow> CCallsign" where
  "aircraft_getCallsign a = ra_callsignObject a"

definition aircraft_hasValidCallsign :: "'p CSimulatedAircraftFull \<Rightarrow> bool" where
  "aircraft_hasValidCallsign a \<longleftrightarrow> isValidAircraftCallsign (ra_callsign a)"

definition setModel :: "CAircraftModel \<Rightarrow> 'p CSimulatedAircraftFull \<Rightarrow> 'p CSimulatedAircraftFull" where
  "setModel model a =
     aircraft_setCallsign
       (if aircraft_hasValidCallsign a then aircraft_getCallsign a else am_callsign model) (a\<lparr>ra_model := model\<rparr>)"

definition setNetworkModel :: "CAircraftModel \<Rightarrow> 'p CSimulatedAircraftFull \<Rightarrow> 'p CSimulatedAircraftFull" where
  "setNetworkModel model a = a\<lparr>ra_networkModel := model\<rparr>"

definition resetToNetworkModel :: "'p CSimulatedAircraftFull \<Rightarrow> 'p CSimulatedAircraftFull" where
  "resetToNetworkModel a = a\<lparr>ra_model := ra_networkModel a\<rparr>"

definition setPilot :: "CUser \<Rightarrow> 'p CSimulatedAircraftFull \<Rightarrow> 'p CSimulatedAircraftFull" where
  "setPilot user a = a\<lparr>ra_pilot := snd (user_setCallsign (aircraft_getCallsign a) user)\<rparr>"

definition aircraft_hasModelString :: "'p CSimulatedAircraftFull \<Rightarrow> bool" where
  "aircraft_hasModelString a \<longleftrightarrow> model_hasModelString (ra_model a)"

definition aircraft_isEnabled :: "'p CSimulatedAircraftFull \<Rightarrow> bool" where
  "aircraft_isEnabled a \<longleftrightarrow> aircraft_hasModelString a \<and> ra_enabled a"

definition aircraft_hasAircraftDesignator :: "'p CSimulatedAircraftFull \<Rightarrow> bool" where
  "aircraft_hasAircraftDesignator a \<longleftrightarrow> ic_designator (am_aircraftIcao (ra_model a)) \<noteq> []"

definition hasNetworkModel :: "'p CSimulatedAircraftFull \<Rightarrow> bool" where
  "hasNetworkModel a \<longleftrightarrow>
     model_hasModelString (ra_networkModel a) \<or> \<not> cs_isEmpty (am_callsign (ra_networkModel a))"

definition isValidForLogin :: "'p CSimulatedAircraftFull \<Rightarrow> bool" where
  "isValidForLogin a \<longleftrightarrow> ra_callsign a \<noteq> [] \<and> \<not> user_isNull (ra_pilot a)"

definition setCom1ActiveFrequency :: "CFrequency \<Rightarrow> 'p CSimulatedAircraftFull \<Rightarrow> bool \<times> 'p CSimulatedAircraftFull" where
  "setCom1ActiveFrequency frequency a =
     (if \<not> isValidComFrequency frequency then (False, a)
      else (True, a\<lparr>ra_com1 := setFrequencyActive frequency (ra_com1 a)\<rparr>))"

definition hasComActiveFrequency :: "CFrequency \<Rightarrow> 'p CSimulatedAircraftFull \<Rightarrow> bool" where
  "hasComActiveFrequency comFrequency a \<longleftrightarrow>
     isActiveFrequencySameFrequency (ra_com1 a) comFrequency \<or> isActiveFrequencySameFrequency (ra_com2 a) comFrequency"

subsection \<open>Comparison of values\<close>

definition models_equal :: "CAircraftModel \<Rightarrow> CAircraftModel \<Rightarrow> bool" where
  "models_equal m n \<longleftrightarrow>
     am_dbKey m = am_dbKey n \<and> am_timestamp m = am_timestamp n \<and> am_order m = am_order n
     \<and> cs_equal (am_callsign m) (am_callsign n) \<and> am_aircraftIcao m = am_aircraftIcao n
     \<and> am_livery m = am_livery n \<and> am_simulator m = am_simulator n \<and> am_distributor m = am_distributor n
     \<and> equals (am_cg m) (am_cg n) \<and> am_supportedParts m = am_supportedParts n
     \<and> caseInsensitiveStringCompare (am_modelString m) (am_modelString n)
     \<and> caseInsensitiveStringCompare (am_modelStringAlias m) (am_modelStringAlias n)
     \<and> am_name m = am_name n \<and> am_modelType m = am_modelType n \<and> am_modelMode m = am_modelMode n"

definition coordinates_equal ::
  "'p Geo \<Rightarrow> ('p, 'y) CCoordinateGeodetic_scheme \<Rightarrow> ('p, 'z) CCoordinateGeodetic_scheme \<Rightarrow> bool" where
  "coordinates_equal G a b \<longleftrightarrow>
     (case co_vector a of
        None \<Rightarrow> co_vector b = None
      | Some v \<Rightarrow> (case co_vector b of None \<Rightarrow> False | Some w \<Rightarrow> g_equal G v w))
     \<and> equals (co_height a) (co_height b) \<and> co_aboveGround a = co_aboveGround b"

definition situations_equal :: "'p Geo \<Rightarrow> 'p CAircraftSituation \<Rightarrow> 'p CAircraftSituation \<Rightarrow> bool" where
  "situations_equal G s t \<longleftrightarrow>
     m_timestampMSecsSinceEpoch s = m_timestampMSecsSinceEpoch t \<and> m_timeOffsetMs s = m_timeOffsetMs t
     \<and> s_callsign s = s_callsign t \<and> coordinates_equal G (s_position s) (s_position t)
     \<and> coordinates_equal G (s_groundElevationPlane s) (s_groundElevationPlane t)
     \<and> equals (ep_radius (s_groundElevationPlane s)) (ep_radius (s_groundElevationPlane t))
     \<and> equals (s_pitch s) (s_pitch t) \<and> equals (s_bank s) (s_bank t)
     \<and> equals (s_groundSpeed s) (s_groundSpeed t) \<and> equals (s_cg s) (s_cg t)
     \<and> s_hasVelocity s = s_hasVelocity t \<and> s_isElvInfoTransferred s = s_isElvInfoTransferred t
     \<and> s_elvInfo s = s_elvInfo t \<and> s_onGroundInfo s = s_onGroundInfo t"

subsection \<open>Properties by index\<close>

datatype 'p aircraftProperty =
    IndexTransponder CTransponder
  | IndexSituation "'p CAircraftSituation"
  | IndexRelativeDistance PQ
  | IndexRelativeBearing PQ
  | IndexPilotRealName string
  | IndexCom1ActiveFrequency CFrequency
  | IndexModel CAircraftModel
  | IndexNetworkModel CAircraftModel

definition aircraft_setProperty ::
  "(string \<Rightarrow> string) \<Rightarrow> 'p aircraftProperty \<Rightarrow> 'p CSimulatedAircraftFull \<Rightarrow> 'p CSimulatedAircraftFull" where
  "aircraft_setProperty decrypt p a =
     (case p of
        IndexTransponder t \<Rightarrow> a\<lparr>ra_transponder := t\<rparr>
      | IndexSituation s \<Rightarrow> a\<lparr>ra_situation := s\<rparr>
      | IndexRelativeDistance d \<Rightarrow> a\<lparr>ra_relativeDistance := d\<rparr>
      | IndexRelativeBearing b \<Rightarrow> a\<lparr>ra_relativeBearing := b\<rparr>
      | IndexPilotRealName n \<Rightarrow> a\<lparr>ra_pilot := setRealName decrypt n (ra_pilot a)\<rparr>
      | IndexCom1ActiveFrequency f \<Rightarrow> a\<lparr>ra_com1 := (ra_com1 a)\<lparr>m_frequencyActive := f\<rparr>\<rparr>
      | IndexModel m \<Rightarrow> setModel m (a\<lparr>ra_model := m\<rparr>)
      | IndexNetworkModel m \<Rightarrow> a\<lparr>ra_networkModel := m\<rparr>)"

definition aircraft_equalsProperty :: "'p Geo \<Rightarrow> 'p aircraftProperty \<Rightarrow> 'p CSimulatedAircraftFull \<Rightarrow> bool" where
  "aircraft_equalsProperty G p a \<longleftrightarrow>
     (case p of
        IndexTransponder t \<Rightarrow> ra_transponder a = t
      | IndexSituation s \<Rightarrow> situations_equal G (ra_situation a) s
      | IndexRelativeDistance d \<Rightarrow> equals (ra_relativeDistance a) d
      | IndexRelativeBearing b \<Rightarrow> equals (ra_relativeBearing a) b
      | IndexPilotRealName n \<Rightarrow> us_realname (ra_pilot a) = n
      | IndexCom1ActiveFrequency f \<Rightarrow> m_frequencyActive (ra_com1 a) = f
      | IndexModel m \<Rightarrow> models_equal (ra_model a) m
      | IndexNetworkModel m \<Rightarrow> models_equal (ra_networkModel a) m)"

fun aircraft_apply ::
  "'p Geo \<Rightarrow> (string \<Rightarrow> string) \<Rightarrow> bool \<Rightarrow> 'p aircraftProperty list \<Rightarrow> 'p CSimulatedAircraftFull
   \<Rightarrow> nat \<times> 'p CSimulatedAircraftFull" where
  "aircraft_apply G decrypt skipEqualValues [] a = (0, a)"
| "aircraft_apply G decrypt skipEqualValues (p # ps) a =
     (if skipEqualValues \<and> aircraft_equalsProperty G p a then aircraft_apply G decrypt skipEqualValues ps a
      else case aircraft_apply G decrypt skipEqualValues ps (aircraft_setProperty decrypt p a) of (n, a1) \<Rightarrow> (Suc n, a1))"

definition updateAircraftInRange ::
  "'p Geo \<Rightarrow> (string \<Rightarrow> string) \<Rightarrow> string \<Rightarrow> 'p aircraftProperty list \<Rightarrow> bool \<Rightarrow> 'p CRemoteAircraftProvider
   \<Rightarrow> nat \<times> 'p CRemoteAircraftProvider" where
  "updateAircraftInRange G decrypt callsign vm skipEqualValues p =
     (case m_aircraftInRange p callsign of
        None \<Rightarrow> (0, p)
      | Some a \<Rightarrow>
          case aircraft_apply G decrypt skipEqualValues vm a of (c, a1) \<Rightarrow>
            let p1 = p\<lparr>m_aircraftInRange := (m_aircraftInRange p)(callsign \<mapsto> a1)\<rparr>
            in (c, if 0 < c then sendSignal changedAircraftInRange p1 else p1))"

definition updateAircraftModel ::
  "'p Geo \<Rightarrow> (string \<Rightarrow> string) \<Rightarrow> bool \<Rightarrow> string \<Rightarrow> CAircraftModel \<Rightarrow> 'p CRemoteAircraftProvider
   \<Rightarrow> bool \<times> 'p CRemoteAircraftProvider" where
  "updateAircraftModel G decrypt isMyIdentifier callsign model p =
     (if isMyIdentifier then (False, p)
      else case updateAircraftInRange G decrypt callsign [IndexModel model] True p of (c, p1) \<Rightarrow> (0 < c, p1))"

definition updateAircraftNetworkModel ::
  "'p Geo \<Rightarrow> (string \<Rightarrow> string) \<Rightarrow> bool \<Rightarrow> string \<Rightarrow> CAircraftModel \<Rightarrow> 'p CRemoteAircraftProvider
   \<Rightarrow> bool \<times> 'p CRemoteAircraftProvider" where
  "updateAircraftNetworkModel G decrypt isMyIdentifier callsign model p =
     (if isMyIdentifier then (False, p)
      else case updateAircraftInRange G decrypt callsign [IndexNetworkModel model] True p of (c, p1) \<Rightarrow> (0 < c, p1))"

text \<open>The aircraft of a callsign, or the default one.\<close>

definition getAircraftInRangeForCallsign :: "string \<Rightarrow> 'p CRemoteAircraftProvider \<Rightarrow> 'p CSimulatedAircraftFull" where
  "getAircraftInRangeForCallsign callsign p =
     (case m_aircraftInRange p callsign of None \<Rightarrow> CSimulatedAircraft_default | Some a \<Rightarrow> a)"

definition getAircraftInRange :: "string list \<Rightarrow> 'p CRemoteAircraftProvider \<Rightarrow> 'p CSimulatedAircraftFull list" where
  "getAircraftInRange order p = List.map_filter (m_aircraftInRange p) order"

subsection \<open>Parts as a packet\<close>

text \<open>
  An object of the network: whether it is a full one, and the parts it makes of the parts before;
  \<open>None\<close> where the conversion throws, which leaves the parts as they were.
\<close>

record partsPacket =
  pp_isFull :: bool
  pp_convert :: "CAircraftParts \<Rightarrow> CAircraftParts option"

definition partsOfPacket :: "partsPacket \<Rightarrow> CAircraftParts list \<Rightarrow> CAircraftParts" where
  "partsOfPacket packet known =
     (let parts = (if pp_isFull packet then CAircraftParts_default else frontOrDefault CAircraftParts_default known)
      in case pp_convert packet parts of None \<Rightarrow> parts | Some parts1 \<Rightarrow> parts1)"

definition storeAircraftPartsPacket ::
  "'p providerEnv \<Rightarrow> int \<Rightarrow> string \<Rightarrow> partsPacket \<Rightarrow> int \<Rightarrow> 'p CRemoteAircraftProvider \<Rightarrow> 'p CRemoteAircraftProvider" where
  "storeAircraftPartsPacket env currentTime callsign packet currentOffsetMs p =
     (let remoteAircraft = getAircraftInRangeForCallsign callsign p
      in if \<not> aircraft_hasValidCallsign remoteAircraft then p
         else if \<not> ra_partsSynchronized remoteAircraft \<and> \<not> pp_isFull packet then p
         else storeAircraftParts env currentTime callsign
                ((partsOfPacket packet (remoteAircraftParts callsign p))
                   \<lparr>m_timestampMSecsSinceEpoch := currentTime, m_timeOffsetMs := currentOffsetMs\<rparr>) False p)"

end
