(* ===== verification/Atc_Station.thy ===== *)
theory Atc_Station
  imports Airspace_Aircraft
begin

text \<open>
  ATC stations, \<open>CAtcStation\<close> and \<open>CAtcStationList\<close> (\<open>src/misc/aviation/atcstation.cpp\<close>,
  \<open>atcstationlist.cpp\<close>), with the messages of a station (\<open>informationmessage.h\<close>) and the list
  operations by callsign and by distance (\<open>callsignobjectlist.h\<close>, \<open>src/misc/geo/geoobjectlist.h\<close>).
  Distances are lengths in feet; the distance and the bearing of two positions are parameters. At the
  end: what \<open>splitPerSuffix\<close> returns, for grouped and for other lists.
\<close>

subsection \<open>Messages\<close>

datatype InformationType = Unspecified | ATIS | METAR | TAF

record CInformationMessage =
  im_timestamp :: int
  im_type :: InformationType
  im_message :: string

definition mkInformationMessage :: "InformationType \<Rightarrow> string \<Rightarrow> CInformationMessage" where
  "mkInformationMessage t message = \<lparr>im_timestamp = -1, im_type = t, im_message = message\<rparr>"

definition im_setMessage :: "int \<Rightarrow> string \<Rightarrow> CInformationMessage \<Rightarrow> CInformationMessage" where
  "im_setMessage currentTime message m = m\<lparr>im_timestamp := currentTime, im_message := message\<rparr>"

definition im_appendMessage :: "int \<Rightarrow> string \<Rightarrow> CInformationMessage \<Rightarrow> CInformationMessage" where
  "im_appendMessage currentTime messagePart m = m\<lparr>im_timestamp := currentTime, im_message := im_message m @ messagePart\<rparr>"

definition hasMessage :: "CInformationMessage \<Rightarrow> bool" where "hasMessage m \<longleftrightarrow> im_message m \<noteq> []"

fun getTypeAsString :: "InformationType \<Rightarrow> string" where
  "getTypeAsString ATIS = ''ATIS''" | "getTypeAsString METAR = ''METAR''" | "getTypeAsString TAF = ''TAF''"
| "getTypeAsString Unspecified = ''unknown''"

subsection \<open>Stations\<close>

record 'p Surface = "'p Geo" +
  g_bearing :: "'p \<Rightarrow> 'p \<Rightarrow> rat"

record 'p CAtcStation =
  st_callsign :: CCallsign
  st_controller :: CUser
  st_frequency :: CFrequency
  st_position :: "'p CCoordinateGeodetic"
  st_range :: PQ
  st_isOnline :: bool
  st_isAfvCrossCoupled :: bool
  st_logoffTimeUtc :: "int option"
  st_atis :: CInformationMessage
  st_metar :: CInformationMessage
  st_relativeDistance :: PQ
  st_relativeBearing :: PQ

definition CAtcStation_default :: "'p CAtcStation" where
  "CAtcStation_default = \<lparr>st_callsign = emptyCallsign, st_controller = CUser_default, st_frequency = Some 0,
     st_position = nullCoordinate, st_range = Some 0, st_isOnline = False, st_isAfvCrossCoupled = False,
     st_logoffTimeUtc = None, st_atis = mkInformationMessage ATIS [], st_metar = mkInformationMessage METAR [],
     st_relativeDistance = None, st_relativeBearing = None\<rparr>"

definition stationOfText :: "string \<Rightarrow> 'p CAtcStation" where
  "stationOfText callsign = CAtcStation_default\<lparr>st_callsign := (mkCallsign callsign NoHint)\<lparr>cs_typeHint := Atc\<rparr>\<rparr>"

definition mkAtcStation ::
  "CCallsign \<Rightarrow> CUser \<Rightarrow> CFrequency \<Rightarrow> 'p CCoordinateGeodetic \<Rightarrow> PQ \<Rightarrow> bool \<Rightarrow> int option
   \<Rightarrow> CInformationMessage \<Rightarrow> CInformationMessage \<Rightarrow> 'p CAtcStation" where
  "mkAtcStation callsign controller frequency pos rng isOnline logoffTimeUtc atis metar =
     (let cs = callsign\<lparr>cs_typeHint := Atc\<rparr>
      in CAtcStation_default\<lparr>st_callsign := cs,
           st_controller := (if \<not> user_hasCallsign controller \<and> \<not> cs_isEmpty callsign
                             then snd (user_setCallsign cs controller) else controller),
           st_frequency := frequency, st_position := pos, st_range := rng, st_isOnline := isOnline,
           st_logoffTimeUtc := logoffTimeUtc, st_atis := atis, st_metar := metar\<rparr>)"

definition station_setCallsign :: "CCallsign \<Rightarrow> 'p CAtcStation \<Rightarrow> 'p CAtcStation" where
  "station_setCallsign callsign s =
     s\<lparr>st_callsign := callsign, st_controller := snd (user_setCallsign callsign (st_controller s)),
       st_isAfvCrossCoupled := startsWith (cs_callsignAsSet callsign) ''*''\<rparr>"

definition setController :: "CUser \<Rightarrow> 'p CAtcStation \<Rightarrow> 'p CAtcStation" where
  "setController controller s = s\<lparr>st_controller := snd (user_setCallsign (st_callsign s) controller)\<rparr>"

definition station_setFrequency :: "CFrequency \<Rightarrow> 'p CAtcStation \<Rightarrow> 'p CAtcStation" where
  "station_setFrequency frequency s = s\<lparr>st_frequency := frequency\<rparr>"

definition setOnline :: "bool \<Rightarrow> 'p CAtcStation \<Rightarrow> bool \<times> 'p CAtcStation" where
  "setOnline online s = (if online = st_isOnline s then (False, s) else (True, s\<lparr>st_isOnline := online\<rparr>))"

definition hasLogoffTimeUtc :: "'p CAtcStation \<Rightarrow> bool" where "hasLogoffTimeUtc s \<longleftrightarrow> st_logoffTimeUtc s \<noteq> None"
definition hasAtis :: "'p CAtcStation \<Rightarrow> bool" where "hasAtis s \<longleftrightarrow> hasMessage (st_atis s)"
definition hasMetar :: "'p CAtcStation \<Rightarrow> bool" where "hasMetar s \<longleftrightarrow> hasMessage (st_metar s)"

definition getCallsignAsStringCrossCoupled :: "'p CAtcStation \<Rightarrow> string" where
  "getCallsignAsStringCrossCoupled s =
     (if \<not> st_isAfvCrossCoupled s then cs_callsign (st_callsign s) else ''*'' @ cs_callsign (st_callsign s))"

definition getCallsignSuffix :: "'p CAtcStation \<Rightarrow> string" where
  "getCallsignSuffix s = getSuffix (st_callsign s)"

definition station_getSuffixSortOrder :: "'p CAtcStation \<Rightarrow> int" where
  "station_getSuffixSortOrder s = getSuffixSortOrder (st_callsign s)"

definition getCallsignAndControllerRealName :: "'p CAtcStation \<Rightarrow> string" where
  "getCallsignAndControllerRealName s =
     (if cs_isEmpty (st_callsign s) then us_realname (st_controller s)
      else if \<not> hasRealName (st_controller s) then cs_callsign (st_callsign s)
      else cs_callsign (st_callsign s) @ '' '' @ us_realname (st_controller s))"

definition station_isInRange :: "'p CAtcStation \<Rightarrow> bool" where
  "station_isInRange s \<longleftrightarrow> st_range s \<noteq> None \<and> st_relativeDistance s \<noteq> None
     \<and> \<not> lessThan (st_range s) (st_relativeDistance s)"

definition isComUnitTunedToFrequency :: "CComSystem \<Rightarrow> 'p CAtcStation \<Rightarrow> bool" where
  "isComUnitTunedToFrequency comUnit s = isActiveFrequencySameFrequency comUnit (st_frequency s)"

definition isAtcStationFrequency :: "CFrequency \<Rightarrow> 'p CAtcStation \<Rightarrow> bool" where
  "isAtcStationFrequency frequency s = isSameFrequency frequency (st_frequency s)"

definition hasValidFrequency :: "'p CAtcStation \<Rightarrow> bool" where
  "hasValidFrequency s = isValidCivilAviationFrequency (st_frequency s)"

definition getInformationMessage :: "InformationType \<Rightarrow> 'p CAtcStation \<Rightarrow> CInformationMessage" where
  "getInformationMessage t s =
     (case t of ATIS \<Rightarrow> st_atis s | METAR \<Rightarrow> st_metar s | _ \<Rightarrow> mkInformationMessage Unspecified [])"

definition station_setMessage :: "CInformationMessage \<Rightarrow> 'p CAtcStation \<Rightarrow> bool \<times> 'p CAtcStation" where
  "station_setMessage message s =
     (case im_type message of
        ATIS \<Rightarrow> (True, s\<lparr>st_atis := message\<rparr>)
      | METAR \<Rightarrow> (True, s\<lparr>st_metar := message\<rparr>)
      | _ \<Rightarrow> (False, s))"

definition calculateBearing ::
  "'p Surface \<Rightarrow> ('p, 'y) CCoordinateGeodetic_scheme \<Rightarrow> ('p, 'z) CCoordinateGeodetic_scheme \<Rightarrow> PQ" where
  "calculateBearing G a b =
     (if isNullCoordinate a \<or> isNullCoordinate b then None
      else Some (g_bearing G (the (co_vector a)) (the (co_vector b))))"

text \<open>The geometry without the bearings.\<close>

definition geoOf :: "'p Surface \<Rightarrow> 'p Geo" where
  "geoOf G = \<lparr>g_distance = g_distance G, g_equal = g_equal G\<rparr>"

definition calculcateAndUpdateRelativeDistanceAndBearing ::
  "'p Surface \<Rightarrow> ('p, 'z) CCoordinateGeodetic_scheme \<Rightarrow> 'p CAtcStation \<Rightarrow> 'p CAtcStation" where
  "calculcateAndUpdateRelativeDistanceAndBearing G position s =
     s\<lparr>st_relativeDistance := calculateGreatCircleDistance (geoOf G) (st_position s) position,
       st_relativeBearing := calculateBearing G (st_position s) position\<rparr>"

subsection \<open>Properties by index\<close>

datatype 'p stationProperty =
    IndexFrequency CFrequency
  | IndexPosition "'p CCoordinateGeodetic"
  | IndexRange PQ
  | IndexControllerRealName string
  | IndexLogoffTime "int option"
  | IndexIsOnline bool

definition station_setProperty :: "(string \<Rightarrow> string) \<Rightarrow> 'p stationProperty \<Rightarrow> 'p CAtcStation \<Rightarrow> 'p CAtcStation" where
  "station_setProperty decrypt p s =
     (case p of
        IndexFrequency f \<Rightarrow> s\<lparr>st_frequency := f\<rparr>
      | IndexPosition pos \<Rightarrow> s\<lparr>st_position := pos\<rparr>
      | IndexRange r \<Rightarrow> s\<lparr>st_range := r\<rparr>
      | IndexControllerRealName n \<Rightarrow> s\<lparr>st_controller := setRealName decrypt n (st_controller s)\<rparr>
      | IndexLogoffTime t \<Rightarrow> s\<lparr>st_logoffTimeUtc := t\<rparr>
      | IndexIsOnline b \<Rightarrow> snd (setOnline b s))"

definition station_equalsProperty :: "'p stationProperty \<Rightarrow> 'p CAtcStation \<Rightarrow> bool" where
  "station_equalsProperty p s \<longleftrightarrow>
     (case p of
        IndexFrequency f \<Rightarrow> st_frequency s = f
      | IndexPosition pos \<Rightarrow> st_position s = pos
      | IndexRange r \<Rightarrow> equals (st_range s) r
      | IndexControllerRealName n \<Rightarrow> us_realname (st_controller s) = n
      | IndexLogoffTime t \<Rightarrow> st_logoffTimeUtc s = t
      | IndexIsOnline b \<Rightarrow> st_isOnline s = b)"

fun station_apply ::
  "(string \<Rightarrow> string) \<Rightarrow> bool \<Rightarrow> 'p stationProperty list \<Rightarrow> 'p CAtcStation \<Rightarrow> nat \<times> 'p CAtcStation" where
  "station_apply decrypt skipEqualValues [] s = (0, s)"
| "station_apply decrypt skipEqualValues (p # ps) s =
     (if skipEqualValues \<and> station_equalsProperty p s then station_apply decrypt skipEqualValues ps s
      else case station_apply decrypt skipEqualValues ps (station_setProperty decrypt p s) of (n, s1) \<Rightarrow> (Suc n, s1))"

subsection \<open>Lists\<close>

definition stationIs :: "CCallsign \<Rightarrow> 'p CAtcStation \<Rightarrow> bool" where
  "stationIs callsign s \<longleftrightarrow> cs_equal (st_callsign s) callsign"

definition stations_containsCallsign :: "CCallsign \<Rightarrow> 'p CAtcStation list \<Rightarrow> bool" where
  "stations_containsCallsign callsign stations \<longleftrightarrow> list_ex (stationIs callsign) stations"

definition stations_findByCallsign :: "CCallsign \<Rightarrow> 'p CAtcStation list \<Rightarrow> 'p CAtcStation list" where
  "stations_findByCallsign callsign stations = filter (stationIs callsign) stations"

definition stations_findFirstByCallsign :: "CCallsign \<Rightarrow> 'p CAtcStation list \<Rightarrow> 'p CAtcStation" where
  "stations_findFirstByCallsign callsign stations =
     frontOrDefault CAtcStation_default (filter (stationIs callsign) stations)"

definition stations_removeByCallsign :: "CCallsign \<Rightarrow> 'p CAtcStation list \<Rightarrow> nat \<times> 'p CAtcStation list" where
  "stations_removeByCallsign callsign stations =
     (length (filter (stationIs callsign) stations), filter (\<lambda>s. \<not> stationIs callsign s) stations)"

text \<open>How many stations were changed.\<close>

fun applyIfCallsign ::
  "(string \<Rightarrow> string) \<Rightarrow> CCallsign \<Rightarrow> 'p stationProperty list \<Rightarrow> bool \<Rightarrow> 'p CAtcStation list
   \<Rightarrow> nat \<times> 'p CAtcStation list" where
  "applyIfCallsign decrypt callsign vm skipEqualValues [] = (0, [])"
| "applyIfCallsign decrypt callsign vm skipEqualValues (s # ss) =
     (let (n, ss1) = applyIfCallsign decrypt callsign vm skipEqualValues ss
      in if stationIs callsign s
         then case station_apply decrypt skipEqualValues vm s of (c, s1) \<Rightarrow> ((if 0 < c then Suc n else n), s1 # ss1)
         else (n, s # ss1))"

definition replaceOrAddObjectByCallsign :: "'p CAtcStation \<Rightarrow> 'p CAtcStation list \<Rightarrow> nat \<times> 'p CAtcStation list" where
  "replaceOrAddObjectByCallsign otherObject stations =
     (if cs_isEmpty (st_callsign otherObject) then (0, stations)
      else (1, snd (stations_removeByCallsign (st_callsign otherObject) stations) @ [otherObject]))"

definition findIfComUnitTunedInChannelSpacing :: "CComSystem \<Rightarrow> 'p CAtcStation list \<Rightarrow> 'p CAtcStation list" where
  "findIfComUnitTunedInChannelSpacing comUnit stations = filter (isComUnitTunedToFrequency comUnit) stations"

definition hasComUnitTunedInChannelSpacing :: "CComSystem \<Rightarrow> 'p CAtcStation list \<Rightarrow> bool" where
  "hasComUnitTunedInChannelSpacing comUnit stations \<longleftrightarrow> list_ex (isComUnitTunedToFrequency comUnit) stations"

definition stations_findIfFrequencyIsWithinSpacing :: "CFrequency \<Rightarrow> 'p CAtcStation list \<Rightarrow> 'p CAtcStation list" where
  "stations_findIfFrequencyIsWithinSpacing frequency stations =
     (if frequency = None then [] else filter (isAtcStationFrequency frequency) stations)"

text \<open>The first station with the callsign: whether its message is another one, and the stations.\<close>

fun updateIfMessageChanged ::
  "CInformationMessage \<Rightarrow> CCallsign \<Rightarrow> bool \<Rightarrow> 'p CAtcStation list \<Rightarrow> bool \<times> 'p CAtcStation list" where
  "updateIfMessageChanged im callsign overrideWithNewer [] = (False, [])"
| "updateIfMessageChanged im callsign overrideWithNewer (s # ss) =
     (if \<not> stationIs callsign s
      then case updateIfMessageChanged im callsign overrideWithNewer ss of (unequal, ss1) \<Rightarrow> (unequal, s # ss1)
      else
        let m = getInformationMessage (im_type im) s
        in if im_type m = Unspecified then (False, s # ss)
           else if im_message m = im_message im
             then (if \<not> overrideWithNewer \<or> \<not> im_timestamp m < im_timestamp im then (False, s # ss)
                   else (False, snd (station_setMessage im s) # ss))
             else (True, snd (station_setMessage im s) # ss))"

fun stations_setOnline :: "CCallsign \<Rightarrow> bool \<Rightarrow> 'p CAtcStation list \<Rightarrow> nat \<times> 'p CAtcStation list" where
  "stations_setOnline callsign online [] = (0, [])"
| "stations_setOnline callsign online (s # ss) =
     (let (n, ss1) = stations_setOnline callsign online ss
      in if stationIs callsign s
         then case setOnline online s of (changed, s1) \<Rightarrow> ((if changed then Suc n else n), s1 # ss1)
         else (n, s # ss1))"

definition stationsWithValidFrequency :: "'p CAtcStation list \<Rightarrow> 'p CAtcStation list" where
  "stationsWithValidFrequency stations = filter hasValidFrequency stations"

definition getControllers :: "'p CAtcStation list \<Rightarrow> CUser list" where
  "getControllers stations = filter (\<lambda>u. \<not> user_isNull u) (map st_controller stations)"

definition stations_removeIfOutsideRange :: "'p CAtcStation list \<Rightarrow> nat \<times> 'p CAtcStation list" where
  "stations_removeIfOutsideRange stations =
     (length (filter (\<lambda>s. \<not> station_isInRange s) stations), filter station_isInRange stations)"

definition findInRange :: "'p CAtcStation list \<Rightarrow> 'p CAtcStation list" where
  "findInRange stations = (if stations = [] then [] else snd (stations_removeIfOutsideRange stations))"

text \<open>By the order of the suffix, then by distance; the sort is a parameter.\<close>

definition suffixThenDistance :: "'p CAtcStation \<Rightarrow> 'p CAtcStation \<Rightarrow> bool" where
  "suffixThenDistance a b \<longleftrightarrow>
     station_getSuffixSortOrder a < station_getSuffixSortOrder b
     \<or> (station_getSuffixSortOrder a = station_getSuffixSortOrder b
        \<and> lessThan (st_relativeDistance a) (st_relativeDistance b))"

type_synonym 'p stationSort = "('p CAtcStation \<Rightarrow> 'p CAtcStation \<Rightarrow> bool) \<Rightarrow> 'p CAtcStation list \<Rightarrow> 'p CAtcStation list"

definition sortedByAtcSuffixSortOrderAndDistance :: "'p stationSort \<Rightarrow> 'p CAtcStation list \<Rightarrow> 'p CAtcStation list" where
  "sortedByAtcSuffixSortOrderAndDistance srt stations = srt suffixThenDistance stations"

definition sortByDistanceToReferencePosition :: "'p stationSort \<Rightarrow> 'p CAtcStation list \<Rightarrow> 'p CAtcStation list" where
  "sortByDistanceToReferencePosition srt stations =
     srt (\<lambda>a b. lessThan (st_relativeDistance a) (st_relativeDistance b)) stations"

text \<open>One turn of the loop: the suffix of the station before and the table.\<close>

definition splitStep ::
  "'p CAtcStation \<Rightarrow> string \<times> (string \<rightharpoonup> 'p CAtcStation list) \<Rightarrow> string \<times> (string \<rightharpoonup> 'p CAtcStation list)" where
  "splitStep s = (\<lambda>(suffix, split).
     let currentSuffix = getCallsignSuffix s;
         split1 = (if suffix \<noteq> currentSuffix then split(currentSuffix \<mapsto> []) else split)
     in (currentSuffix, split1(currentSuffix \<mapsto> (case split1 currentSuffix of None \<Rightarrow> [] | Some l \<Rightarrow> l) @ [s])))"

definition splitPerSuffix ::
  "'p stationSort \<Rightarrow> bool \<Rightarrow> 'p CAtcStation list \<Rightarrow> (string \<rightharpoonup> 'p CAtcStation list)" where
  "splitPerSuffix srt sortFirst stations =
     (if stations = [] then Map.empty
      else snd (fold splitStep
             (if sortFirst then sortedByAtcSuffixSortOrderAndDistance srt stations else stations) ([], Map.empty)))"

text \<open>
  \<open>getClosestObjects\<close> of a list with relative positions: the partial sort of the library is a
  parameter, as is the number.
\<close>

definition getClosestObjects ::
  "(int \<Rightarrow> 'p CAtcStation list \<Rightarrow> 'p CAtcStation list) \<Rightarrow> int \<Rightarrow> 'p CAtcStation list \<Rightarrow> 'p CAtcStation list" where
  "getClosestObjects partiallySort k stations =
     (if k < 1 then []
      else if k \<le> int (length stations) then stations
      else partiallySort k stations)"

definition stations_updateDistances ::
  "'p Surface \<Rightarrow> ('p, 'z) CCoordinateGeodetic_scheme \<Rightarrow> 'p CAtcStation list \<Rightarrow> 'p CAtcStation list" where
  "stations_updateDistances G position stations = map (calculcateAndUpdateRelativeDistanceAndBearing G position) stations"

subsection \<open>What splitting returns\<close>

text \<open>The last block of consecutive stations with the suffix.\<close>

definition lastRun :: "string \<Rightarrow> 'p CAtcStation list \<Rightarrow> 'p CAtcStation list" where
  "lastRun suffix ss =
     rev (takeWhile (\<lambda>s. getCallsignSuffix s = suffix) (dropWhile (\<lambda>s. getCallsignSuffix s \<noteq> suffix) (rev ss)))"

lemma lastRun_snoc:
  "lastRun x (ss @ [s]) =
     (if getCallsignSuffix s = x
      then (if ss \<noteq> [] \<and> getCallsignSuffix (last ss) = x then lastRun x ss else []) @ [s] else lastRun x ss)"
  by (cases ss rule: rev_cases) (auto simp: lastRun_def)

definition splitTable :: "'p CAtcStation list \<Rightarrow> string \<Rightarrow> 'p CAtcStation list option" where
  "splitTable ss x = (if x \<in> getCallsignSuffix ` set ss then Some (lastRun x ss) else None)"

lemma fold_splitStep:
  "fold splitStep ss ([], Map.empty) = (if ss = [] then [] else getCallsignSuffix (last ss), splitTable ss)"
proof (induction ss rule: rev_induct)
  case Nil
  show ?case by (simp add: splitTable_def fun_eq_iff)
next
  case (snoc s ss)
  let ?x = "getCallsignSuffix s" and ?before = "if ss = [] then [] else getCallsignSuffix (last ss)"
  let ?split = "if ?before \<noteq> ?x then (splitTable ss)(?x \<mapsto> []) else splitTable ss"
  have old: "(case ?split ?x of None \<Rightarrow> [] | Some l \<Rightarrow> l)
      = (if ss \<noteq> [] \<and> getCallsignSuffix (last ss) = ?x then lastRun ?x ss else [])"
    by (cases "ss = []") (simp_all add: splitTable_def image_iff, metis last_in_set)
  have "?split(?x \<mapsto> (case ?split ?x of None \<Rightarrow> [] | Some l \<Rightarrow> l) @ [s]) = splitTable (ss @ [s])"
    unfolding old by (rule ext) (simp add: splitTable_def lastRun_snoc)
  then have "splitStep s (?before, splitTable ss) = (?x, splitTable (ss @ [s]))"
    by (simp only: splitStep_def Let_def prod.case)
  then show ?case unfolding fold_append comp_apply snoc.IH by simp
qed

text \<open>Stations with the same suffix follow each other.\<close>

fun grouped :: "('a \<Rightarrow> 'b) \<Rightarrow> 'a list \<Rightarrow> bool" where
  "grouped f (x # y # xs) \<longleftrightarrow> (f x = f y \<or> f x \<notin> f ` set (y # xs)) \<and> grouped f (y # xs)"
| "grouped f xs \<longleftrightarrow> True"

lemma grouped_tail: "grouped f (x # xs) \<Longrightarrow> grouped f xs"
  by (cases xs) simp_all

lemma grouped_filter:
  assumes "grouped f xs"
  shows "takeWhile (\<lambda>s. f s = x) (dropWhile (\<lambda>s. f s \<noteq> x) xs) = filter (\<lambda>s. f s = x) xs"
  using assms
proof (induction xs)
  case (Cons a xs)
  note ih = Cons.IH [OF grouped_tail [OF Cons.prems]]
  show ?case
  proof (cases "f a = x")
    case True
    show ?thesis
    proof (cases xs)
      case (Cons b ys)
      with Cons.prems True consider "f b = x" | "x \<notin> f ` set xs" by auto
      then show ?thesis
      proof cases
        case 1
        with ih True Cons show ?thesis by simp
      next
        case 2
        then have "filter (\<lambda>s. f s = x) xs = []" "takeWhile (\<lambda>s. f s = x) xs = []"
          using Cons by (auto simp: filter_empty_conv)
        with True show ?thesis by simp
      qed
    qed (use True in simp)
  qed (use ih in simp)
qed simp

lemma split_unsorted: "ss \<noteq> [] \<Longrightarrow> splitPerSuffix srt False ss x = splitTable ss x"
  by (simp add: splitPerSuffix_def fold_splitStep)

lemma split_grouped:
  assumes "grouped getCallsignSuffix (rev ss)" "x \<in> getCallsignSuffix ` set ss"
  shows "splitTable ss x = Some (filter (\<lambda>s. getCallsignSuffix s = x) ss)"
  using assms grouped_filter [OF assms(1), of x]
  by (simp add: splitTable_def lastRun_def rev_filter [symmetric])

end
