(* ===== verification/Airspace_Monitor.thy ===== *)
theory Airspace_Monitor
  imports Network_Client Atc_Station Flight_Plan Matching_Script
begin

text \<open>
  The state of the airspace monitor, \<open>CAirspaceMonitor\<close> (\<open>src/core/airspacemonitor.cpp\<close>,
  \<open>airspacemonitor.h\<close>), with what it uses of its surroundings, its queries and the search of the
  model of an aircraft in the data of the network. Tables by callsign are maps from the normal
  form. What the monitor sends, the requests to the network client and the signals but those of
  the provider, is a list in order; a single shot timer is an entry with the time it is due. The
  record of the surroundings holds the clock, the services and what other components answer.
  Messages of logs are left out.
\<close>

subsection \<open>Readiness for the matching\<close>

datatype MatchingReadinessFlag =
    NotReady | ReceivedIcaoCodes | ReceivedFsInnPacket | ReadyForMatchingSent | RecursiveCall | ReceivedAll | Verified

fun flagBits :: "MatchingReadinessFlag \<Rightarrow> 32 word" where
  "flagBits NotReady = 0" | "flagBits ReceivedIcaoCodes = 1" | "flagBits ReceivedFsInnPacket = 2"
| "flagBits ReadyForMatchingSent = 4" | "flagBits RecursiveCall = 8" | "flagBits ReceivedAll = 3"
| "flagBits Verified = 16"

unbundle bit_operations_syntax

definition readiness_testFlag :: "32 word \<Rightarrow> MatchingReadinessFlag \<Rightarrow> bool" where
  "readiness_testFlag r flag \<longleftrightarrow> r AND flagBits flag = flagBits flag \<and> (flagBits flag \<noteq> 0 \<or> r = 0)"

record Readiness =
  rd_ts :: int
  rd_readyness :: "32 word"

definition Readiness_default :: Readiness where
  "Readiness_default = \<lparr>rd_ts = -1, rd_readyness = 0\<rparr>"

definition addFlag :: "int \<Rightarrow> MatchingReadinessFlag \<Rightarrow> Readiness \<Rightarrow> Readiness" where
  "addFlag currentTime flag r =
     (if flag = RecursiveCall then r
      else \<lparr>rd_ts = (if rd_ts r < 0 then currentTime else rd_ts r), rd_readyness = rd_readyness r OR flagBits flag\<rparr>)"

definition readiness_setFlag :: "int \<Rightarrow> MatchingReadinessFlag \<Rightarrow> Readiness \<Rightarrow> Readiness" where
  "readiness_setFlag currentTime flag r =
     (if flag = RecursiveCall then r else addFlag currentTime flag (r\<lparr>rd_readyness := 0\<rparr>))"

definition receivedAll :: "Readiness \<Rightarrow> bool" where
  "receivedAll r \<longleftrightarrow> readiness_testFlag (rd_readyness r) ReceivedIcaoCodes \<and> readiness_testFlag (rd_readyness r) ReceivedFsInnPacket"

definition receivedIcaoCodes :: "Readiness \<Rightarrow> bool" where
  "receivedIcaoCodes r \<longleftrightarrow> readiness_testFlag (rd_readyness r) ReceivedIcaoCodes"

definition wasMatchingSent :: "Readiness \<Rightarrow> bool" where
  "wasMatchingSent r \<longleftrightarrow> readiness_testFlag (rd_readyness r) ReadyForMatchingSent"

definition wasVerified :: "Readiness \<Rightarrow> bool" where
  "wasVerified r \<longleftrightarrow> readiness_testFlag (rd_readyness r) Verified"

definition getAgeMs :: "int \<Rightarrow> Readiness \<Rightarrow> int" where
  "getAgeMs currentTime r = (if rd_ts r < 0 then -1 else currentTime - rd_ts r)"

fun enumFlagToString :: "MatchingReadinessFlag \<Rightarrow> string" where
  "enumFlagToString NotReady = ''not ready''" | "enumFlagToString ReceivedIcaoCodes = ''rec. ICAO''"
| "enumFlagToString ReceivedFsInnPacket = ''rec. FsInn''" | "enumFlagToString ReadyForMatchingSent = ''ready sent''"
| "enumFlagToString RecursiveCall = ''recursive''" | "enumFlagToString _ = ''????''"

definition readinessToString :: "32 word \<Rightarrow> string" where
  "readinessToString r = qjoin '', '' (map enumFlagToString (filter (readiness_testFlag r)
     [NotReady, ReceivedIcaoCodes, ReceivedFsInnPacket, ReadyForMatchingSent, RecursiveCall]))"

definition MMCheckAgainMs :: int where "MMCheckAgainMs = 2000"
definition MMMaxAgeMs :: int where "MMMaxAgeMs = MMCheckAgainMs * 3"
definition MMMaxAgeThresholdMs :: int where "MMMaxAgeThresholdMs = MMCheckAgainMs * 10"
definition MMVerifyMs :: int where "MMVerifyMs = MMCheckAgainMs * 12"

subsection \<open>State\<close>

record FsInnPacket =
  fi_aircraftIcaoDesignator :: string
  fi_airlineIcaoDesignator :: string
  fi_combinedCode :: string
  fi_modelString :: string

definition mkFsInnPacket :: "string \<Rightarrow> string \<Rightarrow> string \<Rightarrow> string \<Rightarrow> FsInnPacket" where
  "mkFsInnPacket aircraftIcao airlineIcao combinedCode modelString =
     \<lparr>fi_aircraftIcaoDesignator = toUpper (trimmed aircraftIcao), fi_airlineIcaoDesignator = toUpper (trimmed airlineIcao),
      fi_combinedCode = toUpper (trimmed combinedCode), fi_modelString = trimmed modelString\<rparr>"

datatype 'p monitorTimer =
    CheckMatchingAgain CCallsign MatchingReadinessFlag
  | VerifyIcaoData CCallsign
  | ReInitializeAircraft "'p CSimulatedAircraftFull" bool

datatype 'p monitorEffect =
    ChangedAtcStationsOnline
  | AtcStationDisconnected "'p CAtcStation"
  | RequestedNewAircraft CCallsign string string string
  | ReadyForModelMatching "'p CSimulatedAircraftFull"
  | ChangedAtisReceived CCallsign
  | QueryRealName CCallsign
  | QueryAtis CCallsign
  | QueryCapabilities CCallsign
  | QueryServer CCallsign
  | QueryCom1Freq CCallsign
  | QueryFlightPlan CCallsign
  | QueryAircraftConfig CCallsign
  | PlaneInfoRequest CCallsign
  | PlaneInfoRequestFsinn CCallsign
  | InterimPositionReceiver CCallsign bool
  | RequestElevation "'p CAircraftSituation"

record 'p CAirspaceMonitor =
  mo_provider :: "'p CRemoteAircraftProvider"
  mo_clients :: CClientPerCallsign
  m_atcStationsOnline :: "'p CAtcStation list"
  m_tempFsInnPackets :: "string \<rightharpoonup> FsInnPacket"
  m_flightPlanCache :: "string \<rightharpoonup> CFlightPlanFull"
  m_readiness :: "string \<rightharpoonup> Readiness"
  m_queryAtis :: "CCallsign list"
  m_queryPilot :: "CCallsign list"
  m_maxDistanceNM :: int
  m_maxDistanceNMHysteresis :: int
  m_foundInNonMovingAircraft :: int
  m_foundInElevationsOnGnd :: int
  mo_timers :: "(int \<times> 'p monitorTimer) list"
  mo_effects :: "'p monitorEffect list"

text \<open>The surroundings at an event.\<close>

record 'p monitorEnv =
  me_now :: int
  me_shuttingDown :: bool
  me_isConnected :: bool
  me_provider :: "'p providerEnv"
  me_surface :: "'p Surface"
  me_decrypt :: "string \<Rightarrow> string"
  me_webData :: "WebData option"
  me_srt :: "CAircraftIcaoCode keySorter"
  me_keyOrder :: airlineKeyOrder
  me_readFile :: "string \<Rightarrow> string"
  me_engine :: scriptEngine
  me_setup :: CAircraftMatcherSetup
  me_modelSet :: "CAircraftModel list"
  me_vatsim :: bool
  me_hasDataFile :: bool
  me_voiceCapability :: "CCallsign \<Rightarrow> CVoiceCapabilities"
  me_dataFileStations :: "CCallsign \<Rightarrow> 'p CAtcStation list"
  me_dataFileRemarks :: "CCallsign \<Rightarrow> CFlightPlanRemarks"
  me_dataFileAircraft :: "'p CSimulatedAircraftFull \<Rightarrow> 'p CSimulatedAircraftFull"
  me_dataFileUsers :: "CCallsign \<Rightarrow> CUser list"
  me_ownAircraft :: "'p CSimulatedAircraftFull"
  me_observer :: bool
  me_closestElevation :: "'p CAircraftSituation \<Rightarrow> PQ \<Rightarrow> 'p CElevationPlane"
  me_averageElevationOnGround :: "'p CAircraftSituation \<Rightarrow> PQ \<Rightarrow> nat \<Rightarrow> nat \<Rightarrow> 'p CElevationPlane"
  me_simulatorOrDbCG :: "string \<Rightarrow> PQ \<Rightarrow> PQ"
  me_maxRangeNm :: int
  me_aircraftOrder :: "string list"
  me_clientOrder :: "string list"
  me_elevationOrder :: "string list"

definition initialMonitor :: "'p CRemoteAircraftProvider \<Rightarrow> 'p CAirspaceMonitor" where
  "initialMonitor provider =
     \<lparr>mo_provider = provider, mo_clients = Map.empty, m_atcStationsOnline = [], m_tempFsInnPackets = Map.empty,
      m_flightPlanCache = Map.empty, m_readiness = Map.empty, m_queryAtis = [], m_queryPilot = [],
      m_maxDistanceNM = 125, m_maxDistanceNMHysteresis = qRound (11 / 10 * 125), m_foundInNonMovingAircraft = 0,
      m_foundInElevationsOnGnd = 0, mo_timers = [], mo_effects = []\<rparr>"

text \<open>The data of the web services, when there are any.\<close>

definition hasWebServices :: "'p monitorEnv \<Rightarrow> bool" where "hasWebServices E \<longleftrightarrow> me_webData E \<noteq> None"

text \<open>Helpers: an effect, a timer, a new provider, new clients.\<close>

definition sends :: "'p monitorEffect list \<Rightarrow> 'p CAirspaceMonitor \<Rightarrow> 'p CAirspaceMonitor" where
  "sends es m = m\<lparr>mo_effects := mo_effects m @ es\<rparr>"

definition singleShot :: "int \<Rightarrow> int \<Rightarrow> 'p monitorTimer \<Rightarrow> 'p CAirspaceMonitor \<Rightarrow> 'p CAirspaceMonitor" where
  "singleShot currentTime ms t m = m\<lparr>mo_timers := mo_timers m @ [(currentTime + ms, t)]\<rparr>"

definition onProvider ::
  "('p CRemoteAircraftProvider \<Rightarrow> 'p CRemoteAircraftProvider) \<Rightarrow> 'p CAirspaceMonitor \<Rightarrow> 'p CAirspaceMonitor" where
  "onProvider f m = m\<lparr>mo_provider := f (mo_provider m)\<rparr>"

definition onClients ::
  "(CClientPerCallsign \<Rightarrow> CClientPerCallsign) \<Rightarrow> 'p CAirspaceMonitor \<Rightarrow> 'p CAirspaceMonitor" where
  "onClients f m = m\<lparr>mo_clients := f (mo_clients m)\<rparr>"

definition isConnectedAndNotShuttingDown :: "'p monitorEnv \<Rightarrow> bool" where
  "isConnectedAndNotShuttingDown E \<longleftrightarrow> \<not> me_shuttingDown E \<and> me_isConnected E"

definition connectedToVatsim :: "'p monitorEnv \<Rightarrow> bool" where
  "connectedToVatsim E \<longleftrightarrow> me_isConnected E \<and> me_vatsim E"

definition supportsVatsimDataFile :: "'p monitorEnv \<Rightarrow> bool" where
  "supportsVatsimDataFile E \<longleftrightarrow> hasWebServices E \<and> me_hasDataFile E \<and> connectedToVatsim E"

definition monitorGeo :: "'p monitorEnv \<Rightarrow> 'p Geo" where
  "monitorGeo E = geoOf (me_surface E)"

definition ownPosition :: "'p monitorEnv \<Rightarrow> 'p CCoordinateGeodetic" where
  "ownPosition E = s_position (ra_situation (me_ownAircraft E))"

definition mo_isAircraftInRange :: "CCallsign \<Rightarrow> 'p CAirspaceMonitor \<Rightarrow> bool" where
  "mo_isAircraftInRange callsign m \<longleftrightarrow> isAircraftInRange (cs_callsign callsign) (mo_provider m)"

definition calculateDistanceToOwnAircraft :: "'p monitorEnv \<Rightarrow> 'p CAircraftSituation \<Rightarrow> PQ" where
  "calculateDistanceToOwnAircraft E situation =
     calculateGreatCircleDistance (monitorGeo E) (ownPosition E) (s_position situation)"

definition calculateBearingToOwnAircraft :: "'p monitorEnv \<Rightarrow> 'p CAircraftSituation \<Rightarrow> PQ" where
  "calculateBearingToOwnAircraft E situation =
     calculateBearing (me_surface E) (ownPosition E) (s_position situation)"

definition isCopilotAircraft :: "'p monitorEnv \<Rightarrow> CCallsign \<Rightarrow> bool" where
  "isCopilotAircraft E callsign \<longleftrightarrow>
     \<not> me_shuttingDown E \<and> me_observer E \<and> isMaybeCopilotCallsign (aircraft_getCallsign (me_ownAircraft E)) callsign"

subsection \<open>Queries\<close>

definition sendInitialAtcQueries :: "'p monitorEnv \<Rightarrow> CCallsign \<Rightarrow> 'p CAirspaceMonitor \<Rightarrow> 'p CAirspaceMonitor" where
  "sendInitialAtcQueries E callsign m =
     (if \<not> isConnectedAndNotShuttingDown E then m
      else sends [QueryRealName callsign, QueryAtis callsign, QueryCapabilities callsign, QueryServer callsign] m)"

definition sendInitialPilotQueries ::
  "'p monitorEnv \<Rightarrow> CCallsign \<Rightarrow> bool \<Rightarrow> bool \<Rightarrow> 'p CAirspaceMonitor \<Rightarrow> 'p CAirspaceMonitor" where
  "sendInitialPilotQueries E callsign withIcaoQuery withFsInn m =
     (if \<not> isConnectedAndNotShuttingDown E then m
      else sends ((if withIcaoQuery then [PlaneInfoRequest callsign] else [])
                  @ (if withFsInn then [PlaneInfoRequestFsinn callsign] else [])
                  @ [QueryCom1Freq callsign, QueryRealName callsign, QueryCapabilities callsign, QueryServer callsign]) m)"

definition getAtcStationsOnlineRecalculated :: "'p monitorEnv \<Rightarrow> 'p CAirspaceMonitor \<Rightarrow> 'p CAirspaceMonitor" where
  "getAtcStationsOnlineRecalculated E m =
     m\<lparr>m_atcStationsOnline := stations_updateDistances (me_surface E) (ownPosition E) (m_atcStationsOnline m)\<rparr>"

definition queryAllOnlineAtcStations :: "'p monitorEnv \<Rightarrow> 'p CAirspaceMonitor \<Rightarrow> 'p CAirspaceMonitor" where
  "queryAllOnlineAtcStations E m =
     (if \<not> isConnectedAndNotShuttingDown E then m
      else let m1 = getAtcStationsOnlineRecalculated E m
           in sends (map QueryRealName (filter (\<lambda>cs. \<not> cs_isEmpty cs) (map st_callsign (m_atcStationsOnline m1)))) m1)"

text \<open>A callsign is put into a queue when it is not in it.\<close>

definition enqueueNew :: "CCallsign \<Rightarrow> CCallsign list \<Rightarrow> CCallsign list" where
  "enqueueNew callsign queue = (if list_ex (cs_equal callsign) queue then queue else queue @ [callsign])"

definition requestAircraftDataUpdates :: "'p monitorEnv \<Rightarrow> 'p CAirspaceMonitor \<Rightarrow> 'p CAirspaceMonitor" where
  "requestAircraftDataUpdates E m =
     (if \<not> isConnectedAndNotShuttingDown E then m
      else m\<lparr>m_queryPilot := fold enqueueNew
             (map aircraft_getCallsign (getAircraftInRange (me_aircraftOrder E) (mo_provider m))) (m_queryPilot m)\<rparr>)"

definition requestAtisUpdates :: "'p monitorEnv \<Rightarrow> 'p CAirspaceMonitor \<Rightarrow> 'p CAirspaceMonitor" where
  "requestAtisUpdates E m =
     (if \<not> isConnectedAndNotShuttingDown E then m
      else m\<lparr>m_queryAtis := fold enqueueNew (map st_callsign (m_atcStationsOnline m)) (m_queryAtis m)\<rparr>)"

definition sendNextStaggeredAtisQuery :: "'p monitorEnv \<Rightarrow> 'p CAirspaceMonitor \<Rightarrow> bool \<times> 'p CAirspaceMonitor" where
  "sendNextStaggeredAtisQuery E m =
     (case m_queryAtis m of
        [] \<Rightarrow> (False, m)
      | callsign # queue \<Rightarrow>
          if \<not> isConnectedAndNotShuttingDown E then (False, m)
          else let m1 = m\<lparr>m_queryAtis := queue\<rparr>
               in if \<not> stations_containsCallsign callsign (m_atcStationsOnline m1) then (False, m1)
                  else (True, sends [QueryAtis callsign] m1))"

definition sendNextStaggeredPilotDataQuery :: "'p monitorEnv \<Rightarrow> 'p CAirspaceMonitor \<Rightarrow> bool \<times> 'p CAirspaceMonitor" where
  "sendNextStaggeredPilotDataQuery E m =
     (case m_queryPilot m of
        [] \<Rightarrow> (False, m)
      | callsign # queue \<Rightarrow>
          if \<not> isConnectedAndNotShuttingDown E then (False, m)
          else let m1 = m\<lparr>m_queryPilot := queue\<rparr>
               in if \<not> mo_isAircraftInRange callsign m1 then (False, m1)
                  else (True, sends (QueryCom1Freq callsign
                          # (if aircraft_hasAircraftDesignator (getAircraftInRangeForCallsign (cs_callsign callsign) (mo_provider m1))
                             then [] else [PlaneInfoRequest callsign])) m1))"

definition fastProcessing :: "'p monitorEnv \<Rightarrow> 'p CAirspaceMonitor \<Rightarrow> 'p CAirspaceMonitor" where
  "fastProcessing E m =
     (if \<not> isConnectedAndNotShuttingDown E then m
      else case sendNextStaggeredAtisQuery E m of (sent, m1) \<Rightarrow>
             if sent then m1 else snd (sendNextStaggeredPilotDataQuery E m1))"

definition slowProcessing :: "'p monitorEnv \<Rightarrow> 'p CAirspaceMonitor \<Rightarrow> 'p CAirspaceMonitor" where
  "slowProcessing E m = (if \<not> isConnectedAndNotShuttingDown E then m else queryAllOnlineAtcStations E m)"

subsection \<open>Range\<close>

definition feetPerNM :: rat where "feetPerNM = 1852 * 10000 / 3048"

definition valueIntegerNM :: "PQ \<Rightarrow> int" where
  "valueIntegerNM d = qRound (pqValue d / feetPerNM)"

definition setMaxRange :: "PQ \<Rightarrow> 'p CAirspaceMonitor \<Rightarrow> 'p CAirspaceMonitor" where
  "setMaxRange rng m =
     (if rng = None \<or> isNegativeWithEpsilonConsidered rng \<or> isZeroEpsilonConsidered rng
      then m\<lparr>m_maxDistanceNM := -1, m_maxDistanceNMHysteresis := -1\<rparr>
      else let rIntNM = valueIntegerNM rng
           in m\<lparr>m_maxDistanceNM := rIntNM, m_maxDistanceNMHysteresis := qRound (of_int rIntNM * (11 / 10))\<rparr>)"

definition handleMaxRange :: "'p monitorEnv \<Rightarrow> 'p CAircraftSituation \<Rightarrow> 'p CAirspaceMonitor \<Rightarrow> bool \<times> 'p CAirspaceMonitor" where
  "handleMaxRange E situation m =
     (if isNullSituation situation then (False, m)
      else if m_maxDistanceNM m < 0 then (True, m)
      else
        let distanceNM = valueIntegerNM (calculateDistanceToOwnAircraft E situation)
        in if m_maxDistanceNMHysteresis m < distanceNM
           then (False, onProvider (\<lambda>p. snd (removeAircraft (s_callsign situation) p)) m)
           else (distanceNM \<le> m_maxDistanceNM m, m))"

subsection \<open>Removing\<close>

definition removeAllOnlineAtcStations :: "'p CAirspaceMonitor \<Rightarrow> 'p CAirspaceMonitor" where
  "removeAllOnlineAtcStations m = m\<lparr>m_atcStationsOnline := [], m_queryAtis := []\<rparr>"

definition mo_removeAllAircraft :: "'p monitorEnv \<Rightarrow> 'p CAirspaceMonitor \<Rightarrow> 'p CAirspaceMonitor" where
  "mo_removeAllAircraft E m =
     (onProvider (removeAllAircraft (filter (\<lambda>cs. m_aircraftInRange (mo_provider m) cs \<noteq> None) (me_aircraftOrder E))) m)
       \<lparr>m_flightPlanCache := Map.empty, m_readiness := Map.empty, m_queryPilot := []\<rparr>"

definition removeFromAircraftCachesAndLogs :: "CCallsign \<Rightarrow> 'p CAirspaceMonitor \<Rightarrow> 'p CAirspaceMonitor" where
  "removeFromAircraftCachesAndLogs callsign m =
     (if cs_isEmpty callsign then m
      else (onProvider (removeReverseLookupMessages (cs_callsign callsign)) m)
             \<lparr>m_flightPlanCache := (m_flightPlanCache m)(cs_callsign callsign := None),
              m_readiness := (m_readiness m)(cs_callsign callsign := None)\<rparr>)"

definition clearMonitor :: "'p monitorEnv \<Rightarrow> 'p CAirspaceMonitor \<Rightarrow> 'p CAirspaceMonitor" where
  "clearMonitor E m =
     (onClients clearClients (mo_removeAllAircraft E (removeAllOnlineAtcStations
        (m\<lparr>m_flightPlanCache := Map.empty, m_tempFsInnPackets := Map.empty, m_readiness := Map.empty\<rparr>))))
       \<lparr>m_foundInNonMovingAircraft := 0, m_foundInElevationsOnGnd := 0\<rparr>"

subsection \<open>Users\<close>

definition userWithCallsign :: "CCallsign \<Rightarrow> CUser \<Rightarrow> CUser" where
  "userWithCallsign callsign u = (if user_hasCallsign u then u else snd (user_setCallsign callsign u))"

definition getUsers :: "'p monitorEnv \<Rightarrow> 'p CAirspaceMonitor \<Rightarrow> CUser list" where
  "getUsers E m =
     map (\<lambda>s. userWithCallsign (st_callsign s) (st_controller s)) (m_atcStationsOnline m)
     @ map (\<lambda>a. userWithCallsign (aircraft_getCallsign a) (ra_pilot a))
         (getAircraftInRange (me_aircraftOrder E) (mo_provider m))"

text \<open>The callsigns that are searched, in the order of the set: those found are taken out.\<close>

fun takeUsers :: "(CCallsign \<times> CUser) list \<Rightarrow> CCallsign list \<Rightarrow> CUser list \<times> CCallsign list" where
  "takeUsers [] searchList = ([], searchList)"
| "takeUsers ((callsign, user) # known) searchList =
     (if list_ex (cs_equal callsign) searchList
      then case takeUsers known (filter (\<lambda>cs. \<not> cs_equal callsign cs) searchList) of (us, rest) \<Rightarrow> (user # us, rest)
      else takeUsers known searchList)"

definition getUsersForCallsigns :: "'p monitorEnv \<Rightarrow> CCallsign list \<Rightarrow> 'p CAirspaceMonitor \<Rightarrow> CUser list" where
  "getUsersForCallsigns E callsigns m =
     (let own = me_ownAircraft E;
          known = (if ra_callsign own = [] then [] else [(aircraft_getCallsign own, ra_pilot own)])
            @ map (\<lambda>a. (aircraft_getCallsign a, ra_pilot a)) (getAircraftInRange (me_aircraftOrder E) (mo_provider m))
            @ map (\<lambda>s. (st_callsign s, st_controller s)) (m_atcStationsOnline m);
          (users, searchList) = takeUsers known callsigns
      in users @ map (\<lambda>cs. frontOrDefault (userOfCallsign cs) (me_dataFileUsers E cs)) searchList)"

definition getAtcStationForComUnit :: "'p stationSort \<Rightarrow> CComSystem \<Rightarrow> 'p CAirspaceMonitor \<Rightarrow> 'p CAtcStation" where
  "getAtcStationForComUnit srt comSystem m =
     frontOrDefault CAtcStation_default
       (let stations = findIfComUnitTunedInChannelSpacing comSystem (m_atcStationsOnline m)
        in if stations = [] then [] else sortByDistanceToReferencePosition srt stations)"

subsection \<open>Flight plans\<close>

definition onFlightPlanReceived :: "'p monitorEnv \<Rightarrow> CCallsign \<Rightarrow> CFlightPlanFull \<Rightarrow> 'p CAirspaceMonitor \<Rightarrow> 'p CAirspaceMonitor" where
  "onFlightPlanReceived E callsign flightPlan m =
     (if \<not> isConnectedAndNotShuttingDown E \<or> cs_isEmpty callsign then m
      else m\<lparr>m_flightPlanCache :=
             (m_flightPlanCache m)(cs_callsign callsign \<mapsto> setWhenLastSentOrLoaded (me_now E) flightPlan)\<rparr>)"

definition tryToGetFlightPlanRemarks :: "'p monitorEnv \<Rightarrow> CCallsign \<Rightarrow> 'p CAirspaceMonitor \<Rightarrow> CFlightPlanRemarks" where
  "tryToGetFlightPlanRemarks E callsign m =
     (if cs_isEmpty callsign then CFlightPlanRemarks_default
      else case m_flightPlanCache m (cs_callsign callsign) of
             Some plan \<Rightarrow> fp_remarks plan
           | None \<Rightarrow> if supportsVatsimDataFile E then me_dataFileRemarks E callsign else CFlightPlanRemarks_default)"

text \<open>
  The wait for an answer: the surroundings when it comes and the plan, or none in the time. Only
  the answer is handled in the wait.
\<close>

definition loadFlightPlanFromNetwork ::
  "'p monitorEnv \<Rightarrow> CCallsign \<Rightarrow> ('p monitorEnv \<times> CFlightPlanFull) option \<Rightarrow> 'p CAirspaceMonitor
   \<Rightarrow> CFlightPlanFull \<times> 'p CAirspaceMonitor" where
  "loadFlightPlanFromNetwork E callsign answer m =
     (let cached = m_flightPlanCache m (cs_callsign callsign);
          plan = (case cached of None \<Rightarrow> CFlightPlan_default | Some p \<Rightarrow> p);
          ownAircraft = cs_equal (aircraft_getCallsign (me_ownAircraft E)) callsign
      in if ownAircraft \<or> \<not> wasSentOrLoaded plan \<or> 30 * 1000 < timeDiffSentOrLoadedMs (me_now E) plan
         then
           let m1 = sends [QueryFlightPlan callsign]
                      (m\<lparr>m_flightPlanCache := (m_flightPlanCache m)(cs_callsign callsign := None)\<rparr>)
           in case answer of
                None \<Rightarrow> (CFlightPlan_default, m1)
              | Some (E1, received) \<Rightarrow>
                  let m2 = onFlightPlanReceived E1 callsign received m1
                  in if me_shuttingDown E1 then (CFlightPlan_default, m2)
                     else ((case m_flightPlanCache m2 (cs_callsign callsign) of
                              None \<Rightarrow> CFlightPlan_default | Some p \<Rightarrow> p), m2)
         else (plan, m))"

end
