(* ===== verification/Airspace_Lookup.thy ===== *)
theory Airspace_Lookup
  imports Airspace_Monitor
begin

text \<open>
  The model of an aircraft from what the network says of it and its flight plan,
  \<open>reverseLookupModelWithFlightplanData\<close> and \<open>addOrUpdateAircraftInRange\<close> of
  \<open>src/core/airspacemonitor.cpp\<close>. \<^term>\<open>None\<close> is a search that reads outside of a list.
\<close>

definition networkAircraftIcao ::
  "WebData option \<Rightarrow> string \<Rightarrow> CAirlineIcaoCode \<Rightarrow> CAircraftIcaoCode \<Rightarrow> CAircraftIcaoCode" where
  "networkAircraftIcao web aircraftIcaoString airlineIcao aircraftIcao =
     (if hasValidDbKey (ic_dbKey aircraftIcao) then aircraftIcao
      else
        let icao = mkShortIcao aircraftIcaoString []
        in if hasValidDbKey (al_dbKey airlineIcao) \<and> \<not> isKnownAircraftDesignator web aircraftIcaoString
           then let foundIcao = searchAmongAirlineAircraft web aircraftIcaoString airlineIcao
                in if hasValidDbKey (ic_dbKey foundIcao) then foundIcao else icao
           else icao)"

text \<open>Telephony, name and code of the airline in the remarks; empty without remarks.\<close>

definition airlineOfRemarks :: "WebData option \<Rightarrow> CFlightPlanRemarks \<Rightarrow> string \<times> string \<times> string" where
  "airlineOfRemarks web remarks =
     (if fr_remarks remarks = [] then ([], [], [])
      else (reverseLookupTelephonyDesignator web (fr_radioTelephony remarks),
            reverseLookupAirlineName web (fr_flightOperator remarks), al_designator (fr_airlineIcao remarks)))"

definition lookupAirlineIcao :: "'p monitorEnv \<Rightarrow> CFlightPlanRemarks \<Rightarrow> CCallsign \<Rightarrow> string \<Rightarrow> CAirlineIcaoCode" where
  "lookupAirlineIcao E remarks callsign airlineIcaoString =
     (let web = me_webData E;
          (telephonyFromFp, airlineNameFromFp, airlineIcaoFromFp) = airlineOfRemarks web remarks;
          airlineNameLookup = (if fr_remarks remarks = [] then [] else reverseLookupAirlineName web airlineNameFromFp);
          telephonyLookup = (if fr_remarks remarks = [] then []
                             else reverseLookupTelephonyDesignator web telephonyFromFp);
          airlineIcao = failoverValidAirlineIcaoDesignatorModelsFirst (me_keyOrder E) web callsign airlineIcaoString
                          airlineIcaoFromFp True airlineNameFromFp telephonyFromFp (me_modelSet E)
      in if hasValidDbKey (al_dbKey airlineIcao) then airlineIcao
         else
           let a1 = (if hasValidAirline airlineIcao then airlineIcao
                     else airline_setDesignator
                       (if airlineIcaoString = [] then fst (getAirlinePrefix callsign) else airlineIcaoString) airlineIcao);
               a2 = (if airlineNameLookup \<noteq> [] then airline_setName airlineNameLookup a1 else a1);
               a3 = (if telephonyLookup \<noteq> [] then setTelephonyDesignator telephonyLookup a2 else a2)
           in reverseLookupAirlineIcao web a3 callsign)"

definition networkModel ::
  "'p monitorEnv \<Rightarrow> CFlightPlanRemarks \<Rightarrow> CCallsign \<Rightarrow> string \<Rightarrow> string \<Rightarrow> string \<Rightarrow> string \<Rightarrow> ModelType
   \<Rightarrow> CAircraftModel option" where
  "networkModel E remarks callsign aircraftIcaoString airlineIcaoString liveryString modelString type =
     (let web = me_webData E; setup = me_setup E; ids = parseNetworkLiveryString liveryString;
          byString = reverseLookupModelStringInDB web modelString callsign (isReverseLookupModelString setup);
          useIds = (isReverseLookupSwiftLiveryIds setup \<and> hasAnyId ids);
          byId = reverseLookupModelId web (id_model ids) callsign;
          (aircraftOfIds, livery) = (if useIds then snd (reverseLookupByIds web ids CAircraftIcaoCode_default CLivery_default)
                                     else (CAircraftIcaoCode_default, CLivery_default));
          airlineOfIds = (if hasValidDbKey (lv_dbKey livery) then lv_airline livery else CAirlineIcaoCode_default)
      in if modelString \<noteq> [] \<and> hasValidDbKey (am_dbKey byString) then Some byString
         else if useIds \<and> 0 \<le> id_model ids \<and> hasValidDbKey (am_dbKey byId) then Some byId
         else if useIds \<and> hasValidDbKey (ic_dbKey aircraftOfIds) \<and> hasValidDbKey (lv_dbKey livery)
         then Some (mkModel modelString type NoSimulator [] ''By DB livery and aircraft ICAO'' aircraftOfIds livery)
         else
           let aircraftIcao = networkAircraftIcao web aircraftIcaoString airlineOfIds aircraftOfIds;
               airlineIcao = (if \<not> hasValidDbKey (al_dbKey airlineOfIds) \<and> \<not> hasValidDbKey (lv_dbKey livery)
                              then lookupAirlineIcao E remarks callsign airlineIcaoString else airlineOfIds)
           in reverseLookupModelOfNetwork (me_srt E) web callsign aircraftIcao airlineIcao liveryString modelString
                setup (me_modelSet E) type)"

text \<open>A client whose livery text has an id of the database is marked.\<close>

definition markByLivery :: "CCallsign \<Rightarrow> string \<Rightarrow> 'p CAirspaceMonitor \<Rightarrow> 'p CAirspaceMonitor" where
  "markByLivery callsign liveryString m =
     (if hasAnyId (parseNetworkLiveryString liveryString) then onClients (markAsSwiftClient callsign) m else m)"

definition lookupWithoutScript ::
  "'p monitorEnv \<Rightarrow> CCallsign \<Rightarrow> string \<Rightarrow> string \<Rightarrow> string \<Rightarrow> string \<Rightarrow> ModelType \<Rightarrow> 'p CAirspaceMonitor
   \<Rightarrow> (CAircraftModel \<times> 'p CAirspaceMonitor) option" where
  "lookupWithoutScript E callsign aircraftIcaoString airlineIcaoString liveryString modelString type m =
     map_option (\<lambda>model. (setModelCallsign callsign model, markByLivery callsign liveryString m))
       (networkModel E (tryToGetFlightPlanRemarks E callsign m) callsign aircraftIcaoString airlineIcaoString
          liveryString modelString type)"

text \<open>The second search, when the script asks for it, runs no script.\<close>

definition reverseLookupModelWithFlightplanData ::
  "'p monitorEnv \<Rightarrow> CCallsign \<Rightarrow> string \<Rightarrow> string \<Rightarrow> string \<Rightarrow> string \<Rightarrow> ModelType \<Rightarrow> 'p CAirspaceMonitor
   \<Rightarrow> (CAircraftModel \<times> 'p CAirspaceMonitor) option" where
  "reverseLookupModelWithFlightplanData E callsign aircraftIcaoString airlineIcaoString liveryString modelString type m =
     do {
       (lookupModel, m1) \<leftarrow>
         lookupWithoutScript E callsign aircraftIcaoString airlineIcaoString liveryString modelString type m;
       let rv = reverseLookupScript (me_webData E) (me_readFile E) (me_engine E) lookupModel (me_setup E) (me_modelSet E);
       if \<not> doRunMsReverseLookupScript (me_setup E) \<or> \<not> runScriptAndModified rv then Some (lookupModel, m1)
       else if rv_rerun rv
       then lookupWithoutScript E callsign (am_designator (rv_model rv)) (getVDesignator (am_airline (rv_model rv)))
              (lv_combinedCode (am_livery (rv_model rv))) modelString type m1
       else Some (setModelCallsign callsign (rv_model rv), m1)
     }"

definition addOrUpdateAircraftInRange ::
  "'p monitorEnv \<Rightarrow> CCallsign \<Rightarrow> string \<Rightarrow> string \<Rightarrow> string \<Rightarrow> string \<Rightarrow> ModelType \<Rightarrow> 'p CAirspaceMonitor
   \<Rightarrow> 'p CAirspaceMonitor option" where
  "addOrUpdateAircraftInRange E callsign aircraftIcao airlineIcao livery modelString modelType m =
     (let aircraft = getAircraftInRangeForCallsign (cs_callsign callsign) (mo_provider m)
      in if aircraft_hasValidCallsign aircraft \<and> \<not> hasValidDbKey (am_dbKey (ra_model aircraft))
         then do {
           (lookupModel, m1) \<leftarrow>
             reverseLookupModelWithFlightplanData E callsign aircraftIcao airlineIcao livery modelString modelType m;
           let model = model_updateMissingParts lookupModel True (ra_model aircraft);
           let update = (\<lambda>f p. snd (f (monitorGeo E) (me_decrypt E) False (cs_callsign callsign) model p));
           Some (onProvider (\<lambda>p. update updateAircraftNetworkModel (update updateAircraftModel p)) m1)
         }
         else Some m)"

end
