(* ===== verification/Airspace_Situations.thy ===== *)
theory Airspace_Situations
  imports Airspace_Lookup
begin

text \<open>
  A situation of another aircraft in the airspace monitor (\<open>src/core/airspacemonitor.cpp\<close>): the
  elevation of the ground it is given before it is stored, from situations of the aircraft
  before, from the cache of the simulator, the average of aircraft on the ground or by
  extrapolation; the flag for the ground; the center of gravity.
\<close>

definition getDistancePerTime :: "int \<Rightarrow> PQ \<Rightarrow> 'p CAircraftSituation \<Rightarrow> PQ" where
  "getDistancePerTime ms minDistance s =
     (case s_groundSpeed s of
        None \<Rightarrow> minDistance
      | Some kts \<Rightarrow>
          let d = Some (feet (of_int ms / 1000 * (kts * 1852 / 3600)))
          in if minDistance \<noteq> None \<and> lessThan d minDistance then minDistance else d)"

definition minorAirportRadius :: PQ where "minorAirportRadius = Some (feet 500)"

text \<open>An elevation below the situation itself; a null one resets.\<close>

definition setGroundElevationAltitude ::
  "PQ \<Rightarrow> bool \<Rightarrow> GndElevationInfo \<Rightarrow> bool \<Rightarrow> 'p CAircraftSituation \<Rightarrow> bool \<times> 'p CAircraftSituation" where
  "setGroundElevationAltitude altitude aboveGround info transferred s =
     (if altitude = None then
        (False, s\<lparr>s_groundElevationPlane := nullPlane, s_isElvInfoTransferred := False, s_elvInfo := NoElevationInfo\<rparr>)
      else
        (True, s\<lparr>s_groundElevationPlane := \<lparr>co_vector = co_vector (s_position s), co_height = altitude,
                   co_aboveGround = aboveGround, ep_radius = singlePointRadius\<rparr>,
                 s_isElvInfoTransferred := transferred, s_elvInfo := info\<rparr>))"

text \<open>The flag says whether an elevation was written, or was to be written.\<close>

definition extrapolateElevation ::
  "'p Geo \<Rightarrow> 'p CAircraftSituation \<Rightarrow> 'p CAircraftSituation \<Rightarrow> CAircraftSituationChange \<Rightarrow> 'p CAircraftSituation
   \<Rightarrow> bool \<times> 'p CAircraftSituation" where
  "extrapolateElevation G oldSituation olderSituation oldChange s =
     (if hasGroundElevation s then (False, s)
      else case transferGroundElevationToMe G oldSituation singlePointRadius True s of (transferred, s1) \<Rightarrow>
        if transferred then (True, s1)
        else if isNullSituation oldSituation \<or> isNullSituation olderSituation then (False, s1)
        else if isNullChange oldChange then (False, s1)
        else if m_constOnGround oldChange \<and> hasAltitudeDevWithinAllowedRange oldChange
                \<and> hasElevationDevWithinAllowedRange oldChange
                \<and> \<bar>pqValue (getAltitude s1) - pqValue (getAltitude olderSituation)\<bar> \<le> pqValue allowedAltitudeDeviation
        then (True, snd (setGroundElevationAltitude (getGroundElevation oldSituation)
                (co_aboveGround (s_groundElevationPlane oldSituation)) Extrapolated False s1))
        else (False, s1))"

text \<open>\<open>transferGroundElevationFromMe\<close> of the closest situation, if there is one.\<close>

definition transferFromHistory ::
  "'p Geo \<Rightarrow> PQ \<Rightarrow> 'p CAircraftSituation list \<Rightarrow> 'p CAircraftSituation \<Rightarrow> bool \<times> 'p CAircraftSituation" where
  "transferFromHistory G dpt history s =
     (case findClosestElevationWithinRange G (s_position s) dpt history of
        None \<Rightarrow> (False, s)
      | Some situationWithElevation \<Rightarrow> transferGroundElevationToMe G situationWithElevation dpt True s)"

text \<open>The aircraft is too fast to be on the ground.\<close>

definition tooFast :: "CAircraftIcaoCode \<Rightarrow> 'p CAircraftSituation \<Rightarrow> bool" where
  "tooFast icao situation \<longleftrightarrow>
     (if isVtol icao then 60 < pqValue (s_groundSpeed situation)
      else let rotateSpeed = snd (guessModelParameters icao (None, None))
           in rotateSpeed \<noteq> None \<and> lessThan (pqTimes (125 / 100) rotateSpeed) (s_groundSpeed situation))"

text \<open>Average or extrapolation: the situation and the two counters.\<close>

definition guessElevation ::
  "'p monitorEnv \<Rightarrow> 'p CAircraftSituation \<Rightarrow> 'p CAircraftSituation list \<Rightarrow> CAircraftSituationChange
   \<Rightarrow> 'p CAirspaceMonitor \<Rightarrow> 'p CAircraftSituation \<Rightarrow> 'p CAircraftSituation \<times> 'p CAirspaceMonitor" where
  "guessElevation E situation history change m s =
     (let onGround = me_averageElevationOnGround E situation minorAirportRadius 2 3;
          nonMoving = averageElevationOfNonMovingAircraft (me_provider E)
            (List.map_filter (m_latestOnGroundProviderElevation (mo_provider m)) (me_elevationOrder E))
            situation minorAirportRadius 2 3
      in if \<not> isNullPlane onGround
         then (snd (setGroundElevation onGround Average False s),
               m\<lparr>m_foundInElevationsOnGnd := m_foundInElevationsOnGnd m + 1\<rparr>)
         else if \<not> isNullPlane nonMoving
         then (snd (setGroundElevation nonMoving Average False s),
               m\<lparr>m_foundInNonMovingAircraft := m_foundInNonMovingAircraft m + 1\<rparr>)
         else case history of
                old # older # _ \<Rightarrow> (snd (extrapolateElevation (monitorGeo E) old older change s), m)
              | _ \<Rightarrow> (s, m))"

text \<open>
  The block that leaves by \<open>break\<close>: the situation, whether an elevation has to be asked for,
  whether the ground can be left out, and the monitor with its counters.
\<close>

definition findElevation ::
  "'p monitorEnv \<Rightarrow> 'p CAircraftSituation \<Rightarrow> 'p CAircraftSituation \<Rightarrow> 'p CAirspaceMonitor
   \<Rightarrow> 'p CAircraftSituation \<times> bool \<times> bool \<times> 'p CAirspaceMonitor" where
  "findElevation E situation corrected m =
     (let G = monitorGeo E; p = mo_provider m; callsign = s_callsign situation;
          skip = canLikelySkipNearGroundInterpolation corrected;
          c1 = resetGroundElevation corrected;
          icao = am_aircraftIcao (getAircraftInRangeModelForCallsign callsign p);
          change = frontOrDefault CAircraftSituationChange_default (remoteAircraftSituationChanges callsign p);
          ascending = (\<not> isNullChange change \<and> m_constAscending change);
          history = remoteAircraftSituations callsign p
      in if skip \<or> hasGroundElevation corrected then (corrected, False, skip, m)
         else if ic_designator icao = [] \<or> tooFast icao situation then (c1, False, skip, m)
         else if ascending then (c1, False, True, m)
         else
           let dpt = getDistancePerTime 100 singlePointRadius c1;
               (transferred, c2) = transferFromHistory G dpt history c1;
               ep = me_closestElevation E c2 (getDistancePerTime 250 singlePointRadius c2);
               c3 = (if transferred then c2 else snd (setGroundElevation ep FromCache False c2))
           in if hasGroundElevation c3 then (c3, \<not> transferred \<and> isNullPlane ep, False, m)
              else case guessElevation E situation history change m c3 of (c4, m1) \<Rightarrow>
                     (c4, \<not> hasGroundElevation c4 \<or> \<not> transferred \<and> isNullPlane ep, False, m1))"

text \<open>The flag for the ground, when the situation has no details: from the network or from the parts.\<close>

definition groundFlag ::
  "'p CAircraftSituation \<Rightarrow> 'p CAirspaceMonitor \<Rightarrow> 'p CAircraftSituation \<Rightarrow> 'p CAircraftSituation" where
  "groundFlag situation m s =
     (if gi_details (s_onGroundInfo situation) \<noteq> NotSetGroundDetails then s
      else
        let client = (case mo_clients m (s_callsign situation) of None \<Rightarrow> CClient_default | Some c \<Rightarrow> c);
            parts = remoteAircraftParts (s_callsign situation) (mo_provider m)
        in if hasCapability FsdWithGroundFlag client then setOnGroundDetails InFromNetwork s
           else if hasCapability FsdWithAircraftConfig client \<and> parts \<noteq> []
           then snd (adjustGroundFlagByList parts True (1 / 10) s)
           else s)"

text \<open>The elevation is asked for when one of the cache, or of the simulator when moving, would be better.\<close>

definition wantsElevation :: "'p CAircraftSituation \<Rightarrow> bool" where
  "wantsElevation s \<longleftrightarrow> isOtherElevationInfoBetter FromCache False s
     \<or> isMoving s \<and> isOtherElevationInfoBetter FromProvider False s"

definition mo_storeAircraftSituation ::
  "'p monitorEnv \<Rightarrow> 'p CAircraftSituation \<Rightarrow> bool \<Rightarrow> 'p CAirspaceMonitor
   \<Rightarrow> 'p CAircraftSituation \<times> 'p CAirspaceMonitor" where
  "mo_storeAircraftSituation E situation allowTestOffset m =
     (let callsign = s_callsign situation
      in if callsign = [] then (situation, m)
         else
           let corrected = (if allowTestOffset then addTestAltitudeOffsetToSituation (mo_provider m) situation
                            else situation);
               (c1, request, skip, m1) = findElevation E situation corrected m;
               c2 = groundFlag situation m1 c1;
               cg = me_simulatorOrDbCG E callsign (getCGFromDB callsign (mo_provider m1));
               c3 = (if cg \<noteq> None then c2\<lparr>s_cg := cg\<rparr> else c2);
               (c4, p) = storeAircraftSituation (me_provider E) False (me_now E) c3 (mo_provider m1);
               m2 = m1\<lparr>mo_provider := p\<rparr>
           in (c4, if request \<and> \<not> skip \<and> wantsElevation c4 then sends [RequestElevation c4] m2 else m2))"

end
