(* ===== verification/Airspace_Handlers.thy ===== *)
theory Airspace_Handlers
  imports Airspace_Situations Fsd_Client
begin

text \<open>
  What the airspace monitor does at each event (\<open>src/core/airspacemonitor.cpp\<close>): the slots for
  aircraft, ATC stations and clients, the timers for the matching, and the monitor as a machine.
  An operation is \<^term>\<open>None\<close> when the search of a model reads outside of a list.
\<close>

subsection \<open>Matching\<close>

definition readinessOf :: "CCallsign \<Rightarrow> 'p CAirspaceMonitor \<Rightarrow> Readiness" where
  "readinessOf callsign m =
     (case m_readiness m (cs_callsign callsign) of None \<Rightarrow> Readiness_default | Some r \<Rightarrow> r)"

definition setReadiness :: "CCallsign \<Rightarrow> Readiness option \<Rightarrow> 'p CAirspaceMonitor \<Rightarrow> 'p CAirspaceMonitor" where
  "setReadiness callsign r m = m\<lparr>m_readiness := (m_readiness m)(cs_callsign callsign := r)\<rparr>"

definition addMatchingReadinessFlag ::
  "'p monitorEnv \<Rightarrow> CCallsign \<Rightarrow> MatchingReadinessFlag \<Rightarrow> 'p CAirspaceMonitor \<Rightarrow> 'p CAirspaceMonitor" where
  "addMatchingReadinessFlag E callsign mrf m =
     setReadiness callsign (Some (addFlag (me_now E) mrf (readinessOf callsign m))) m"

definition completeForMatching :: "CCallsign \<Rightarrow> Readiness \<Rightarrow> 'p CAirspaceMonitor \<Rightarrow> bool" where
  "completeForMatching callsign r m \<longleftrightarrow>
     (let remoteAircraft = getAircraftInRangeForCallsign (cs_callsign callsign) (mo_provider m)
      in aircraft_hasValidCallsign remoteAircraft
         \<and> 1 < remoteAircraftSituationsCount (cs_callsign callsign) (mo_provider m)
         \<and> (receivedAll r \<or> aircraft_hasModelString remoteAircraft))"

definition sendReadyForModelMatching ::
  "'p monitorEnv \<Rightarrow> CCallsign \<Rightarrow> MatchingReadinessFlag \<Rightarrow> 'p CAirspaceMonitor \<Rightarrow> 'p CAirspaceMonitor" where
  "sendReadyForModelMatching E callsign rf m =
     (if \<not> isConnectedAndNotShuttingDown E then m
      else
        let m1 = addMatchingReadinessFlag E callsign rf m;
            r = readinessOf callsign m1;
            ageMs = getAgeMs (me_now E) r;
            remoteAircraft = getAircraftInRangeForCallsign (cs_callsign callsign) (mo_provider m1);
            validRemoteCs = aircraft_hasValidCallsign remoteAircraft
        in if wasMatchingSent r \<and> ageMs < MMMaxAgeThresholdMs then m1
           else if rf \<noteq> Verified \<and> validRemoteCs \<and> ageMs \<le> MMMaxAgeMs \<and> \<not> completeForMatching callsign r m1
           then singleShot (me_now E) MMCheckAgainMs (CheckMatchingAgain callsign rf) m1
           else if validRemoteCs
           then sends [ReadyForModelMatching remoteAircraft]
                  (setReadiness callsign (Some (readiness_setFlag (me_now E) ReadyForMatchingSent r)) m1)
           else setReadiness callsign None m1)"

definition verifyReceivedIcaoData :: "'p monitorEnv \<Rightarrow> CCallsign \<Rightarrow> 'p CAirspaceMonitor \<Rightarrow> 'p CAirspaceMonitor" where
  "verifyReceivedIcaoData E callsign m =
     (if cs_isEmpty callsign \<or> \<not> mo_isAircraftInRange callsign m then m
      else
        let r = readinessOf callsign m; m1 = setReadiness callsign (Some r) m
        in if wasMatchingSent r then m1
           else if wasVerified r then sendReadyForModelMatching E callsign Verified m1
           else
             let r1 = addFlag (me_now E) Verified r; m2 = setReadiness callsign (Some r1) m1
             in if \<not> receivedIcaoCodes r1
                then singleShot (me_now E) MMVerifyMs (VerifyIcaoData callsign)
                       (sendInitialPilotQueries E callsign True True m2)
                else sendReadyForModelMatching E callsign Verified m2)"

text \<open>The override of the provider's operation.\<close>

definition mo_addNewAircraftInRange ::
  "'p monitorEnv \<Rightarrow> 'p CSimulatedAircraftFull \<Rightarrow> 'p CAirspaceMonitor \<Rightarrow> bool \<times> 'p CAirspaceMonitor" where
  "mo_addNewAircraftInRange E aircraft m =
     (if me_shuttingDown E \<or> \<not> hasWebServices E then (False, m)
      else
        let position = s_position (ra_situation aircraft);
            a1 = aircraft\<lparr>ra_rendered := False,
                   ra_relativeDistance := calculateGreatCircleDistance (monitorGeo E) position (ownPosition E),
                   ra_relativeBearing := calculateBearing (me_surface E) position (ownPosition E)\<rparr>;
            a2 = (if connectedToVatsim E then me_dataFileAircraft E a1 else a1);
            (added, p) = addNewAircraftInRange a2 (mo_provider m);
            m1 = m\<lparr>mo_provider := p\<rparr>
        in if \<not> added then (False, m1)
           else
             let m2 = singleShot (me_now E) MMVerifyMs (VerifyIcaoData (aircraft_getCallsign aircraft)) m1;
                 modelString = am_modelString (ra_model aircraft);
                 model = (case me_webData E of None \<Rightarrow> defaultModel | Some wd \<Rightarrow> getModelForModelString modelString wd);
                 cg = (if hasValidDbKey (am_dbKey model) then am_cg model else None)
             in (True, if aircraft_hasModelString aircraft
                       then onProvider (\<lambda>p. rememberCGFromDB cg (ra_callsign aircraft)
                              (rememberCGFromDBForModelString cg modelString p)) m2
                       else m2))"

subsection \<open>Packets about the model\<close>

definition onCustomFSInnPacketReceived ::
  "'p monitorEnv \<Rightarrow> CCallsign \<Rightarrow> string \<Rightarrow> string \<Rightarrow> string \<Rightarrow> string \<Rightarrow> 'p CAirspaceMonitor
   \<Rightarrow> 'p CAirspaceMonitor option" where
  "onCustomFSInnPacketReceived E callsign airlineIcao aircraftIcao combinedAircraftType modelString m =
     (if \<not> cs_isValid callsign \<or> \<not> isConnectedAndNotShuttingDown E then Some m
      else
        let isAircraft = mo_isAircraftInRange callsign m;
            isAtc = stations_containsCallsign callsign (m_atcStationsOnline m);
            m1 = onClients (\<lambda>c. snd (updateOrAddClient (me_decrypt E) callsign [IndexModelString modelString] True c)) m;
            m2 = addMatchingReadinessFlag E callsign ReceivedFsInnPacket m1;
            usedModelString =
              (if modelString \<noteq> [] \<and> \<not> isReverseLookupModelString (me_setup E) then []
               else if \<not> isKnownModelString (me_webData E) modelString then [] else modelString)
        in if \<not> isAircraft \<and> \<not> isAtc
           then Some (m\<lparr>m_tempFsInnPackets := (m_tempFsInnPackets m)(cs_callsign callsign \<mapsto>
                  mkFsInnPacket aircraftIcao airlineIcao combinedAircraftType modelString)\<rparr>)
           else if \<not> isAircraft then Some m1
           else map_option (sendReadyForModelMatching E callsign ReceivedFsInnPacket)
                  (if usedModelString \<noteq> []
                   then addOrUpdateAircraftInRange E callsign aircraftIcao airlineIcao [] usedModelString TypeFSInnData m2
                   else Some m2))"

text \<open>The stored packet as if it came now; the flag says whether there was one.\<close>

definition recallFsInnPacket ::
  "'p monitorEnv \<Rightarrow> CCallsign \<Rightarrow> 'p CAirspaceMonitor \<Rightarrow> (bool \<times> 'p CAirspaceMonitor) option" where
  "recallFsInnPacket E callsign m =
     (case m_tempFsInnPackets m (cs_callsign callsign) of
        None \<Rightarrow> Some (False, m)
      | Some packet \<Rightarrow>
          map_option (Pair True) (onCustomFSInnPacketReceived E callsign (fi_airlineIcaoDesignator packet)
            (fi_aircraftIcaoDesignator packet) (fi_combinedCode packet) (fi_modelString packet)
            (m\<lparr>m_tempFsInnPackets := (m_tempFsInnPackets m)(cs_callsign callsign := None)\<rparr>)))"

definition onIcaoCodesReceived ::
  "'p monitorEnv \<Rightarrow> CCallsign \<Rightarrow> string \<Rightarrow> string \<Rightarrow> string \<Rightarrow> 'p CAirspaceMonitor \<Rightarrow> 'p CAirspaceMonitor option" where
  "onIcaoCodesReceived E callsign aircraftIcao airlineIcao livery m =
     (if \<not> isConnectedAndNotShuttingDown E \<or> \<not> cs_isValid callsign \<or> \<not> mo_isAircraftInRange callsign m then Some m
      else
        let client = getClientOrDefaultForCallsign callsign (mo_clients m)
        in map_option
             (\<lambda>m1. sends [RequestedNewAircraft callsign aircraftIcao airlineIcao livery]
                     (sendReadyForModelMatching E callsign ReceivedIcaoCodes m1))
             (addOrUpdateAircraftInRange E callsign aircraftIcao airlineIcao livery (cl_modelString client)
                TypeQueriedFromNetwork m))"

subsection \<open>Timers\<close>

text \<open>The check of the matching after two seconds.\<close>

definition onCheckMatchingAgain ::
  "'p monitorEnv \<Rightarrow> CCallsign \<Rightarrow> MatchingReadinessFlag \<Rightarrow> 'p CAirspaceMonitor \<Rightarrow> 'p CAirspaceMonitor option" where
  "onCheckMatchingAgain E callsign rf m =
     (if me_shuttingDown E \<or> \<not> mo_isAircraftInRange callsign m then Some m
      else do {
        (recalled, m1) \<leftarrow> (if rf \<noteq> ReceivedFsInnPacket then recallFsInnPacket E callsign m else Some (False, m));
        Some (if recalled then m1 else sendReadyForModelMatching E callsign RecursiveCall m1)
      })"

definition onReInitializeAircraft ::
  "'p monitorEnv \<Rightarrow> 'p CSimulatedAircraftFull \<Rightarrow> bool \<Rightarrow> 'p CAirspaceMonitor \<Rightarrow> 'p CAirspaceMonitor" where
  "onReInitializeAircraft E aircraft readyForModelMatching m =
     (let m1 = snd (mo_addNewAircraftInRange E aircraft m); callsign = aircraft_getCallsign aircraft
      in if \<not> readyForModelMatching then m1
         else sendReadyForModelMatching E callsign ReceivedAll (setReadiness callsign None m1))"

fun onTimer :: "'p monitorEnv \<Rightarrow> 'p monitorTimer \<Rightarrow> 'p CAirspaceMonitor \<Rightarrow> 'p CAirspaceMonitor option" where
  "onTimer E (CheckMatchingAgain callsign rf) m = onCheckMatchingAgain E callsign rf m"
| "onTimer E (VerifyIcaoData callsign) m =
     Some (if me_shuttingDown E then m else verifyReceivedIcaoData E callsign m)"
| "onTimer E (ReInitializeAircraft aircraft ready) m = Some (onReInitializeAircraft E aircraft ready m)"

text \<open>One timer after the other, 25 ms apart.\<close>

definition asyncReInitializeAllAircraft ::
  "'p monitorEnv \<Rightarrow> 'p CSimulatedAircraftFull list \<Rightarrow> bool \<Rightarrow> 'p CAirspaceMonitor \<Rightarrow> 'p CAirspaceMonitor" where
  "asyncReInitializeAllAircraft E aircraft ready m =
     (if aircraft = [] \<or> me_shuttingDown E then m
      else snd (fold (\<lambda>ac (c, m1). (c + 1, singleShot (me_now E) (c * 25) (ReInitializeAircraft ac ready) m1))
             aircraft (1, m)))"

definition reInitializeAllAircraft :: "'p monitorEnv \<Rightarrow> 'p CAirspaceMonitor \<Rightarrow> nat \<times> 'p CAirspaceMonitor" where
  "reInitializeAllAircraft E m =
     (let aircraft = getAircraftInRange (me_aircraftOrder E) (mo_provider m);
          keys = filter (\<lambda>cs. m_aircraftInRange (mo_provider m) cs \<noteq> None) (me_aircraftOrder E)
      in (length aircraft, asyncReInitializeAllAircraft E aircraft True (onProvider (removeAllAircraft keys) m)))"

subsection \<open>Aircraft\<close>

definition situationCallsign :: "'p CAircraftSituation \<Rightarrow> CCallsign" where
  "situationCallsign s = \<lparr>cs_callsignAsSet = s_callsign s, cs_callsign = s_callsign s, cs_telephonyDesignator = [],
     cs_typeHint = Aircraft\<rparr>"

definition mo_updateAircraftInRange ::
  "'p monitorEnv \<Rightarrow> CCallsign \<Rightarrow> 'p aircraftProperty list \<Rightarrow> 'p CAirspaceMonitor \<Rightarrow> 'p CAirspaceMonitor" where
  "mo_updateAircraftInRange E callsign vm m =
     onProvider (\<lambda>p. snd (updateAircraftInRange (monitorGeo E) (me_decrypt E) (cs_callsign callsign) vm True p)) m"

definition newAircraft :: "CCallsign \<Rightarrow> 'p CAircraftSituation \<Rightarrow> CTransponder \<Rightarrow> 'p CSimulatedAircraftFull" where
  "newAircraft callsign situation transponder =
     (setSituation situation (aircraft_setCallsign callsign CSimulatedAircraft_default))\<lparr>ra_transponder := transponder\<rparr>"

definition onAircraftUpdateReceived ::
  "'p monitorEnv \<Rightarrow> 'p CAircraftSituation \<Rightarrow> CTransponder \<Rightarrow> 'p CAirspaceMonitor \<Rightarrow> 'p CAirspaceMonitor" where
  "onAircraftUpdateReceived E situation transponder m =
     (let callsign = situationCallsign situation
      in if \<not> isConnectedAndNotShuttingDown E \<or> isCopilotAircraft E callsign then m
         else
           let (validMaxRange, m1) = handleMaxRange E situation m;
               existsInRange = mo_isAircraftInRange callsign m1;
               m2 = onClients (\<lambda>c. snd (autoAdjustCientGndCapability situation c)) m1;
               m3 = snd (mo_storeAircraftSituation E situation True m2)
           in if \<not> validMaxRange \<and> \<not> existsInRange then m1
              else if existsInRange
              then mo_updateAircraftInRange E callsign
                     [IndexTransponder transponder, IndexSituation situation,
                      IndexRelativeDistance (calculateDistanceToOwnAircraft E situation),
                      IndexRelativeBearing (calculateBearingToOwnAircraft E situation)] m3
              else
                let hasFsInnPacket = (m_tempFsInnPackets m3 (cs_callsign callsign) \<noteq> None);
                    m4 = snd (mo_addNewAircraftInRange E (newAircraft callsign situation transponder) m3);
                    m5 = sendInitialPilotQueries E callsign True (\<not> hasFsInnPacket) m4
                in onClients (\<lambda>c. snd (addNewClient (mkClient callsign []) c)) m5)"

definition samePosition :: "'p Geo \<Rightarrow> 'p CAircraftSituation \<Rightarrow> 'p CAircraftSituation \<Rightarrow> bool" where
  "samePosition G s t \<longleftrightarrow>
     (case co_vector (s_position s) of
        None \<Rightarrow> co_vector (s_position t) = None
      | Some v \<Rightarrow> (case co_vector (s_position t) of None \<Rightarrow> False | Some w \<Rightarrow> g_equal G v w))"

text \<open>Interim and visual positions are handled alike.\<close>

definition onAircraftInterimUpdateReceived ::
  "'p monitorEnv \<Rightarrow> 'p CAircraftSituation \<Rightarrow> 'p CAirspaceMonitor \<Rightarrow> 'p CAirspaceMonitor" where
  "onAircraftInterimUpdateReceived E situation m =
     (let callsign = situationCallsign situation
      in if \<not> isConnectedAndNotShuttingDown E \<or> isCopilotAircraft E callsign \<or> \<not> mo_isAircraftInRange callsign m then m
         else case latestObject (remoteAircraftSituations (cs_callsign callsign) (mo_provider m)) of
                None \<Rightarrow> m
              | Some lastSituation \<Rightarrow>
                  let interimSituation = situation\<lparr>m_timestampMSecsSinceEpoch := me_now E,
                                           s_groundSpeed := s_groundSpeed lastSituation\<rparr>;
                      m1 = snd (mo_storeAircraftSituation E interimSituation True m)
                  in if samePosition (monitorGeo E) lastSituation interimSituation then m1
                     else onProvider (\<lambda>p. snd (updateAircraftInRangeDistanceBearing (cs_callsign callsign)
                            interimSituation (calculateDistanceToOwnAircraft E interimSituation)
                            (calculateBearingToOwnAircraft E interimSituation) p)) m1)"

definition onAircraftVisualUpdateReceived ::
  "'p monitorEnv \<Rightarrow> 'p CAircraftSituation \<Rightarrow> 'p CAirspaceMonitor \<Rightarrow> 'p CAirspaceMonitor" where
  "onAircraftVisualUpdateReceived E situation m =
     (let callsign = situationCallsign situation
      in if \<not> isConnectedAndNotShuttingDown E \<or> isCopilotAircraft E callsign \<or> \<not> mo_isAircraftInRange callsign m then m
         else case latestObject (remoteAircraftSituations (cs_callsign callsign) (mo_provider m)) of
                None \<Rightarrow> m
              | Some lastSituation \<Rightarrow>
                  let visualSituation = situation\<lparr>m_timestampMSecsSinceEpoch := me_now E,
                                          s_groundSpeed := s_groundSpeed lastSituation\<rparr>;
                      m1 = snd (mo_storeAircraftSituation E visualSituation True m)
                  in if samePosition (monitorGeo E) lastSituation visualSituation then m1
                     else onProvider (\<lambda>p. snd (updateAircraftInRangeDistanceBearing (cs_callsign callsign)
                            visualSituation (calculateDistanceToOwnAircraft E visualSituation)
                            (calculateBearingToOwnAircraft E visualSituation) p)) m1)"

definition onAircraftConfigReceived ::
  "'p monitorEnv \<Rightarrow> CCallsign \<Rightarrow> partsPacket \<Rightarrow> int \<Rightarrow> 'p CAirspaceMonitor \<Rightarrow> 'p CAirspaceMonitor" where
  "onAircraftConfigReceived E callsign packet currentOffsetMs m =
     (if cs_isEmpty callsign then m
      else
        let m1 = onProvider (storeAircraftPartsPacket (me_provider E) (me_now E) (cs_callsign callsign) packet
                   currentOffsetMs) m;
            client = snd (setUserCallsign callsign (getClientOrDefaultForCallsign callsign (mo_clients m1)))
        in if hasCapability FsdWithAircraftConfig client then m1
           else onClients (\<lambda>c. snd (setOtherClient (addCapability FsdWithAircraftConfig client) c)) m1)"

definition onAircraftSimDataUpdateReceived ::
  "'p monitorEnv \<Rightarrow> 'p CAircraftSituation \<Rightarrow> partsPacket \<Rightarrow> int \<Rightarrow> string \<Rightarrow> string \<Rightarrow> 'p CAirspaceMonitor
   \<Rightarrow> 'p CAirspaceMonitor option" where
  "onAircraftSimDataUpdateReceived E situation packet currentOffsetMs aircraftIcao airlineIcao m =
     (let callsign = situationCallsign situation;
          m1 = onAircraftUpdateReceived E situation (mkTransponder 2000 ModeC) m;
          aircraft = getAircraftInRangeForCallsign (cs_callsign callsign) (mo_provider m1)
      in map_option (onAircraftConfigReceived E callsign packet currentOffsetMs)
           (if am_designator (ra_networkModel aircraft) \<noteq> aircraftIcao
            then onIcaoCodesReceived E callsign aircraftIcao airlineIcao airlineIcao m1 else Some m1))"

definition onPilotDisconnected :: "'p monitorEnv \<Rightarrow> CCallsign \<Rightarrow> 'p CAirspaceMonitor \<Rightarrow> 'p CAirspaceMonitor" where
  "onPilotDisconnected E callsign m =
     (let m1 = removeFromAircraftCachesAndLogs callsign m;
          (removed, p) = removeAircraft (cs_callsign callsign) (mo_provider m1);
          m2 = onClients (\<lambda>c. snd (removeClient callsign c)) (m1\<lparr>mo_provider := p\<rparr>)
      in if removed then onProvider (sendSignal (removedAircraft (cs_callsign callsign))) m2 else m2)"

definition onFrequencyReceived ::
  "'p monitorEnv \<Rightarrow> CCallsign \<Rightarrow> CFrequency \<Rightarrow> 'p CAirspaceMonitor \<Rightarrow> 'p CAirspaceMonitor" where
  "onFrequencyReceived E callsign frequency m = mo_updateAircraftInRange E callsign [IndexCom1ActiveFrequency frequency] m"

definition mo_updateFastPositionEnabled ::
  "'p monitorEnv \<Rightarrow> CCallsign \<Rightarrow> bool \<Rightarrow> 'p CAirspaceMonitor \<Rightarrow> bool \<times> 'p CAirspaceMonitor" where
  "mo_updateFastPositionEnabled E callsign enableFastPositonUpdates m =
     (let (r, p) = updateFastPositionEnabled (cs_callsign callsign) enableFastPositonUpdates (mo_provider m);
          m1 = m\<lparr>mo_provider := p\<rparr>
      in (r, if me_shuttingDown E then m1 else sends [InterimPositionReceiver callsign enableFastPositonUpdates] m1))"

subsection \<open>Stations\<close>

definition updateOnlineStation ::
  "'p monitorEnv \<Rightarrow> CCallsign \<Rightarrow> 'p stationProperty list \<Rightarrow> bool \<Rightarrow> bool \<Rightarrow> 'p CAirspaceMonitor
   \<Rightarrow> nat \<times> 'p CAirspaceMonitor" where
  "updateOnlineStation E callsign vm skipEqualValues sendIt m =
     (case applyIfCallsign (me_decrypt E) callsign vm skipEqualValues (m_atcStationsOnline m) of (c, stations) \<Rightarrow>
        let m1 = m\<lparr>m_atcStationsOnline := stations\<rparr>
        in (c, if 0 < c \<and> sendIt then sends [ChangedAtcStationsOnline] m1 else m1))"

definition newStation ::
  "'p monitorEnv \<Rightarrow> CCallsign \<Rightarrow> CFrequency \<Rightarrow> 'p CCoordinateGeodetic \<Rightarrow> PQ \<Rightarrow> 'p CAtcStation" where
  "newStation E callsign frequency position rng =
     (let station = (if connectedToVatsim E then frontOrDefault CAtcStation_default (me_dataFileStations E callsign)
                     else CAtcStation_default);
          s1 = (station_setFrequency frequency ((station_setCallsign callsign station)\<lparr>st_range := rng\<rparr>))
                 \<lparr>st_position := position\<rparr>
      in calculcateAndUpdateRelativeDistanceAndBearing (me_surface E) (ownPosition E) (snd (setOnline True s1)))"

definition onAtcPositionUpdate ::
  "'p monitorEnv \<Rightarrow> CCallsign \<Rightarrow> CFrequency \<Rightarrow> 'p CCoordinateGeodetic \<Rightarrow> PQ \<Rightarrow> 'p CAirspaceMonitor \<Rightarrow> 'p CAirspaceMonitor" where
  "onAtcPositionUpdate E callsign frequency position rng m =
     (if \<not> isConnectedAndNotShuttingDown E then m
      else if stations_findByCallsign callsign (m_atcStationsOnline m) = []
      then
        let m1 = m\<lparr>m_atcStationsOnline := m_atcStationsOnline m @ [newStation E callsign frequency position rng]\<rparr>;
            m2 = getAtcStationsOnlineRecalculated E (sendInitialAtcQueries E callsign m1)
        in sends [ChangedAtcStationsOnline] m2
      else snd (updateOnlineStation E callsign [IndexFrequency frequency, IndexPosition position, IndexRange rng]
                  True True m))"

definition onAtcControllerDisconnected :: "'p monitorEnv \<Rightarrow> CCallsign \<Rightarrow> 'p CAirspaceMonitor \<Rightarrow> 'p CAirspaceMonitor" where
  "onAtcControllerDisconnected E callsign m =
     (if \<not> isConnectedAndNotShuttingDown E then m
      else
        let m1 = onClients (\<lambda>c. snd (removeClient callsign c)) m; stations = m_atcStationsOnline m1
        in if \<not> stations_containsCallsign callsign stations then m1
           else sends [ChangedAtcStationsOnline, AtcStationDisconnected (stations_findFirstByCallsign callsign stations)]
                  (m1\<lparr>m_atcStationsOnline := snd (stations_removeByCallsign callsign stations)\<rparr>))"

definition onAtisReceived ::
  "'p monitorEnv \<Rightarrow> CCallsign \<Rightarrow> CInformationMessage \<Rightarrow> 'p CAirspaceMonitor \<Rightarrow> 'p CAirspaceMonitor" where
  "onAtisReceived E callsign atisMessage m =
     (if \<not> isConnectedAndNotShuttingDown E \<or> cs_isEmpty callsign then m
      else case updateIfMessageChanged atisMessage callsign True (m_atcStationsOnline m) of (changedAtis, stations) \<Rightarrow>
             let m1 = m\<lparr>m_atcStationsOnline := stations\<rparr>
             in if changedAtis then sends [ChangedAtisReceived callsign] m1 else m1)"

text \<open>The time of day today; a time that is none is midnight.\<close>

definition logoffDateTime :: "int \<Rightarrow> int \<Rightarrow> int \<Rightarrow> int" where
  "logoffDateTime currentTime h mn =
     (let midnight = currentTime - currentTime mod (24 * 60 * 60 * 1000)
      in if 0 \<le> h \<and> h < 24 \<and> 0 \<le> mn \<and> mn < 60 then midnight + (h * 60 + mn) * 60 * 1000 else midnight)"

definition onAtisLogoffTimeReceived ::
  "'p monitorEnv \<Rightarrow> CCallsign \<Rightarrow> string \<Rightarrow> 'p CAirspaceMonitor \<Rightarrow> 'p CAirspaceMonitor" where
  "onAtisLogoffTimeReceived E callsign zuluTime m =
     (if \<not> isConnectedAndNotShuttingDown E \<or> length zuluTime \<noteq> 5 then m
      else let view = take 4 zuluTime
           in case toInt_ok (left view 2) of
                None \<Rightarrow> m
              | Some h \<Rightarrow> (case toInt_ok (right view 2) of
                    None \<Rightarrow> m
                  | Some mn \<Rightarrow> snd (updateOnlineStation E callsign
                      [IndexLogoffTime (Some (logoffDateTime (me_now E) h mn))] True True m)))"

subsection \<open>Clients\<close>

definition updateClient :: "'p monitorEnv \<Rightarrow> CCallsign \<Rightarrow> clientProperty list \<Rightarrow> bool \<Rightarrow> 'p CAirspaceMonitor \<Rightarrow> 'p CAirspaceMonitor" where
  "updateClient E callsign vm skipEqualValues m =
     onClients (\<lambda>c. snd (updateOrAddClient (me_decrypt E) callsign vm skipEqualValues c)) m"

definition onRealNameReplyReceived :: "'p monitorEnv \<Rightarrow> CCallsign \<Rightarrow> string \<Rightarrow> 'p CAirspaceMonitor \<Rightarrow> 'p CAirspaceMonitor" where
  "onRealNameReplyReceived E callsign realname m =
     (if \<not> isConnectedAndNotShuttingDown E \<or> realname = [] \<or> \<not> hasWebServices E then m
      else
        let rn = beautifyRealName realname;
            (c1, m1) = (if hasSuffix callsign
                        then updateOnlineStation E callsign [IndexControllerRealName rn] False True m else (0, m));
            m2 = (if 0 < c1 then m1 else mo_updateAircraftInRange E callsign [IndexPilotRealName rn] m1)
        in updateClient E callsign [IndexUserRealName rn, IndexVoiceCapabilities (me_voiceCapability E callsign)] False m2)"

definition onCapabilitiesReplyReceived ::
  "'p monitorEnv \<Rightarrow> CCallsign \<Rightarrow> ClientCapabilities \<Rightarrow> 'p CAirspaceMonitor \<Rightarrow> 'p CAirspaceMonitor" where
  "onCapabilitiesReplyReceived E callsign clientCaps m =
     (if \<not> isConnectedAndNotShuttingDown E \<or> cs_isEmpty callsign then m
      else
        let m1 = updateClient E callsign
                   [IndexCapabilities clientCaps, IndexVoiceCapabilities (me_voiceCapability E callsign)] False m
        in if clientCaps AND FsdWithAircraftConfig \<noteq> 0 then sends [QueryAircraftConfig callsign] m1 else m1)"

definition onServerReplyReceived :: "'p monitorEnv \<Rightarrow> CCallsign \<Rightarrow> string \<Rightarrow> 'p CAirspaceMonitor \<Rightarrow> 'p CAirspaceMonitor" where
  "onServerReplyReceived E callsign server m =
     (if \<not> isConnectedAndNotShuttingDown E \<or> cs_isEmpty callsign \<or> server = [] then m
      else updateClient E callsign [IndexServer server] True m)"

definition withVoiceOfDataFile :: "'p monitorEnv \<Rightarrow> CClient \<Rightarrow> CClient" where
  "withVoiceOfDataFile E client =
     (let vc = me_voiceCapability E (client_getCallsign client)
      in if hasSpecifiedVoiceCapabilities client \<or> vc = UnknownVoice then client else client\<lparr>cl_voiceCapabilities := vc\<rparr>)"

definition onReceivedVatsimDataFile :: "'p monitorEnv \<Rightarrow> 'p CAirspaceMonitor \<Rightarrow> 'p CAirspaceMonitor" where
  "onReceivedVatsimDataFile E m =
     (if me_shuttingDown E \<or> \<not> hasWebServices E then m
      else
        let clients = getClients (me_clientOrder E) (mo_clients m);
            clients1 = map (withVoiceOfDataFile E) clients
        in if clients1 = clients then m else onClients (setClients clients1) m)"

definition mo_onConnectionStatusChanged :: "'p monitorEnv \<Rightarrow> ConnectionStatus \<Rightarrow> 'p CAirspaceMonitor \<Rightarrow> 'p CAirspaceMonitor" where
  "mo_onConnectionStatusChanged E newStatus m =
     (let m1 = (if newStatus = Connecting then setMaxRange (Some (of_int (me_maxRangeNm E) * feetPerNM)) m else m)
      in if newStatus = Disconnected then clearMonitor E m1 else m1)"

subsection \<open>The monitor as a machine\<close>

datatype 'p monitorEvent =
    AircraftUpdate "'p CAircraftSituation" CTransponder
  | AircraftInterimUpdate "'p CAircraftSituation"
  | AircraftVisualUpdate "'p CAircraftSituation"
  | AircraftSimDataUpdate "'p CAircraftSituation" partsPacket int string string
  | AircraftConfig CCallsign partsPacket int
  | PilotDisconnected CCallsign
  | Frequency CCallsign CFrequency
  | FastPositionEnabled CCallsign bool
  | CustomFSInnPacket CCallsign string string string string
  | IcaoCodes CCallsign string string string
  | AtcPositionUpdate CCallsign CFrequency "'p CCoordinateGeodetic" PQ
  | AtcControllerDisconnected CCallsign
  | Atis CCallsign CInformationMessage
  | AtisLogoffTime CCallsign string
  | RealNameReply CCallsign string
  | CapabilitiesReply CCallsign ClientCapabilities
  | ServerReply CCallsign string
  | FlightPlanReceived CCallsign CFlightPlanFull
  | VatsimDataFile
  | ConnectionStatusChange ConnectionStatus
  | MaxRange PQ
  | FastTimer
  | SlowTimer
  | AircraftDataUpdates
  | AtisUpdates
  | ReInitializeAll
  | Timeout nat

fun monitor_step :: "'p monitorEnv \<Rightarrow> 'p monitorEvent \<Rightarrow> 'p CAirspaceMonitor \<Rightarrow> 'p CAirspaceMonitor option" where
  "monitor_step E (AircraftUpdate s t) m = Some (onAircraftUpdateReceived E s t m)"
| "monitor_step E (AircraftInterimUpdate s) m = Some (onAircraftInterimUpdateReceived E s m)"
| "monitor_step E (AircraftVisualUpdate s) m = Some (onAircraftVisualUpdateReceived E s m)"
| "monitor_step E (AircraftSimDataUpdate s p os ac al) m = onAircraftSimDataUpdateReceived E s p os ac al m"
| "monitor_step E (AircraftConfig cs p os) m = Some (onAircraftConfigReceived E cs p os m)"
| "monitor_step E (PilotDisconnected cs) m = Some (onPilotDisconnected E cs m)"
| "monitor_step E (Frequency cs f) m = Some (onFrequencyReceived E cs f m)"
| "monitor_step E (FastPositionEnabled cs b) m = Some (snd (mo_updateFastPositionEnabled E cs b m))"
| "monitor_step E (CustomFSInnPacket cs al ac ct ms) m = onCustomFSInnPacketReceived E cs al ac ct ms m"
| "monitor_step E (IcaoCodes cs ac al lv) m = onIcaoCodesReceived E cs ac al lv m"
| "monitor_step E (AtcPositionUpdate cs f pos r) m = Some (onAtcPositionUpdate E cs f pos r m)"
| "monitor_step E (AtcControllerDisconnected cs) m = Some (onAtcControllerDisconnected E cs m)"
| "monitor_step E (Atis cs msg) m = Some (onAtisReceived E cs msg m)"
| "monitor_step E (AtisLogoffTime cs z) m = Some (onAtisLogoffTimeReceived E cs z m)"
| "monitor_step E (RealNameReply cs n) m = Some (onRealNameReplyReceived E cs n m)"
| "monitor_step E (CapabilitiesReply cs caps) m = Some (onCapabilitiesReplyReceived E cs caps m)"
| "monitor_step E (ServerReply cs s) m = Some (onServerReplyReceived E cs s m)"
| "monitor_step E (FlightPlanReceived cs fp) m = Some (onFlightPlanReceived E cs fp m)"
| "monitor_step E VatsimDataFile m = Some (onReceivedVatsimDataFile E m)"
| "monitor_step E (ConnectionStatusChange st) m = Some (mo_onConnectionStatusChanged E st m)"
| "monitor_step E (MaxRange r) m = Some (setMaxRange r m)"
| "monitor_step E FastTimer m = Some (fastProcessing E m)"
| "monitor_step E SlowTimer m = Some (slowProcessing E m)"
| "monitor_step E AircraftDataUpdates m = Some (requestAircraftDataUpdates E m)"
| "monitor_step E AtisUpdates m = Some (requestAtisUpdates E m)"
| "monitor_step E ReInitializeAll m = Some (snd (reInitializeAllAircraft E m))"
| "monitor_step E (Timeout i) m =
     (if i < length (mo_timers m) \<and> fst (mo_timers m ! i) \<le> me_now E
      then onTimer E (snd (mo_timers m ! i))
             (m\<lparr>mo_timers := take i (mo_timers m) @ drop (Suc i) (mo_timers m)\<rparr>)
      else Some m)"

text \<open>A run, each event with the surroundings it meets.\<close>

fun monitor_run :: "('p monitorEnv \<times> 'p monitorEvent) list \<Rightarrow> 'p CAirspaceMonitor \<Rightarrow> 'p CAirspaceMonitor option" where
  "monitor_run [] m = Some m"
| "monitor_run ((E, ev) # es) m = Option.bind (monitor_step E ev m) (monitor_run es)"

end
