(* ===== verification/Airspace_Monitor_Laws.thy ===== *)
theory Airspace_Monitor_Laws
  imports Airspace_Handlers Remote_Aircraft_Laws
begin

text \<open>
  The invariant of the airspace monitor: one station per callsign, queues without repetition, the
  range below its hysteresis, clients and aircraft under their own callsign. Every operation keeps
  it, so every run does.
\<close>

subsection \<open>Tables keyed by what they hold\<close>

definition keyed_by :: "('v \<Rightarrow> string) \<Rightarrow> (string \<rightharpoonup> 'v) \<Rightarrow> bool" where
  "keyed_by key m \<longleftrightarrow> (\<forall>k v. m k = Some v \<longrightarrow> key v = k)"

lemma keyed_by_empty [simp]: "keyed_by key Map.empty"
  by (simp add: keyed_by_def)

lemma keyed_by_upd: "keyed_by key m \<Longrightarrow> key v = k \<Longrightarrow> keyed_by key (m(k \<mapsto> v))"
  by (simp add: keyed_by_def)

lemma keyed_by_del: "keyed_by key m \<Longrightarrow> keyed_by key (m(k := None))"
  by (simp add: keyed_by_def)

lemma keyed_byD: "keyed_by key m \<Longrightarrow> m k = Some v \<Longrightarrow> key v = k"
  by (simp add: keyed_by_def)

subsection \<open>Clients\<close>

abbreviation clientKey :: "CClient \<Rightarrow> string" where
  "clientKey c \<equiv> cs_callsign (client_getCallsign c)"

lemma callsign_setRealName [simp]: "us_callsign (setRealName decrypt n u) = us_callsign u"
  by (simp add: setRealName_def Let_def split: option.split)

lemma callsign_derive [simp]: "us_callsign (deriveHomeBaseFromCallsign u) = us_callsign u"
  by (simp add: deriveHomeBaseFromCallsign_def)

lemma callsign_userOfCallsign [simp]: "us_callsign (userOfCallsign callsign) = callsign"
  by (simp add: userOfCallsign_def)

lemma callsign_mkClient [simp]: "client_getCallsign (mkClient callsign s) = callsign"
  by (simp add: mkClient_def client_getCallsign_def)

lemma callsign_setProperty [simp]: "client_getCallsign (client_setProperty decrypt p c) = client_getCallsign c"
  by (cases p) (simp_all add: client_setProperty_def client_getCallsign_def)

lemma callsign_client_apply [simp]: "client_getCallsign (snd (client_apply decrypt skip vm c)) = client_getCallsign c"
  by (induction vm arbitrary: c) (simp_all split: prod.split, metis callsign_setProperty snd_conv)

lemma callsign_capability [simp]:
  "client_getCallsign (addCapability cap c) = client_getCallsign c"
  "client_getCallsign (removeCapability cap c) = client_getCallsign c"
  by (simp_all add: addCapability_def removeCapability_def client_getCallsign_def)

named_theorems clients_intro \<open>operations that keep the clients under their callsign\<close>

lemma clients_hash [clients_intro]: "keyed_by clientKey (asCallsignHash cs)"
proof -
  have "keyed_by clientKey m \<Longrightarrow> keyed_by clientKey (fold (\<lambda>c m. if cs_isEmpty (client_getCallsign c) then m
      else m(cs_callsign (client_getCallsign c) \<mapsto> c)) cs m)" for m
    by (induction cs arbitrary: m) (simp_all add: keyed_by_upd)
  from this [of Map.empty] show ?thesis by (simp add: asCallsignHash_def)
qed

lemma clients_set [clients_intro]: "keyed_by clientKey (setClients cs m)"
  by (simp add: setClients_def clients_hash)

lemma clients_clear [clients_intro]: "keyed_by clientKey (clearClients m)"
  by (simp add: clearClients_def)

lemma clients_setOther [clients_intro]: "keyed_by clientKey m \<Longrightarrow> keyed_by clientKey (snd (setOtherClient c m))"
  by (simp add: setOtherClient_def keyed_by_upd)

lemma clients_addNew [clients_intro]: "keyed_by clientKey m \<Longrightarrow> keyed_by clientKey (snd (addNewClient c m))"
  by (simp add: addNewClient_def Let_def keyed_by_upd)

lemma clients_update [clients_intro]:
  assumes "keyed_by clientKey m"
  shows "keyed_by clientKey (snd (updateOrAddClient decrypt callsign vm skip m))"
proof (cases "m (cs_callsign callsign)")
  case None
  obtain n c where "client_apply decrypt False vm (mkClient callsign []) = (n, c)" by fastforce
  with callsign_client_apply [of decrypt False vm "mkClient callsign []"] have "client_getCallsign c = callsign" by simp
  with None assms \<open>client_apply decrypt False vm (mkClient callsign []) = (n, c)\<close> show ?thesis
    by (simp add: updateOrAddClient_def keyed_by_upd)
next
  case (Some c0)
  obtain n c where a: "client_apply decrypt skip vm c0 = (n, c)" by fastforce
  with callsign_client_apply [of decrypt skip vm c0] have "client_getCallsign c = client_getCallsign c0" by simp
  with a Some assms keyed_byD [OF assms Some] show ?thesis
    by (simp add: updateOrAddClient_def keyed_by_upd)
qed

lemma clients_remove [clients_intro]: "keyed_by clientKey m \<Longrightarrow> keyed_by clientKey (snd (removeClient callsign m))"
  by (simp add: removeClient_def keyed_by_del)

lemma clients_gnd:
  assumes "keyed_by clientKey m"
  shows "keyed_by clientKey (snd (setClientGndCapability callsign b m))"
proof (cases "m (cs_callsign callsign)")
  case (Some c)
  with keyed_byD [OF assms Some] assms show ?thesis
    by (simp add: setClientGndCapability_def getClientOrDefaultForCallsign_def Let_def keyed_by_upd)
qed (use assms in \<open>simp add: setClientGndCapability_def getClientOrDefaultForCallsign_def Let_def client_isValid_def
      user_hasCallsign_def CClient_default_def CUser_default_def emptyCallsign_def cs_isEmpty_def\<close>)

lemma clients_auto [clients_intro]: "keyed_by clientKey m \<Longrightarrow> keyed_by clientKey (snd (autoAdjustCientGndCapability s m))"
  by (simp add: autoAdjustCientGndCapability_def addClientGndCapability_def clients_gnd)

lemma clients_mark [clients_intro]: "keyed_by clientKey m \<Longrightarrow> keyed_by clientKey (markAsSwiftClient callsign m)"
  by (auto simp: markAsSwiftClient_def client_getCallsign_def keyed_by_def split: option.split)

subsection \<open>Stations\<close>

abbreviation upperCallsign :: "CCallsign \<Rightarrow> string" where
  "upperCallsign callsign \<equiv> toUpper (cs_callsign callsign)"

definition stations_ok :: "'p CAtcStation list \<Rightarrow> bool" where
  "stations_ok ss \<longleftrightarrow> distinct (map (\<lambda>s. upperCallsign (st_callsign s)) ss)"

lemma stations_ok_callsigns: "stations_ok ss \<longleftrightarrow> distinct (map upperCallsign (map st_callsign ss))"
  by (simp add: stations_ok_def comp_def)

lemma stations_ok_same: "map st_callsign ss = map st_callsign ts \<Longrightarrow> stations_ok ss = stations_ok ts"
  by (simp only: stations_ok_callsigns)

lemma callsign_station_apply [simp]: "st_callsign (snd (station_apply decrypt skip vm s)) = st_callsign s"
proof (induction vm arbitrary: s)
  case (Cons p vm)
  have "st_callsign (station_setProperty decrypt p s) = st_callsign s"
    by (cases p) (simp_all add: station_setProperty_def setOnline_def)
  then show ?case by (simp add: case_prod_unfold) (metis Cons.IH)
qed simp

lemma callsigns_applyIf [simp]:
  "map st_callsign (snd (applyIfCallsign decrypt callsign vm skip ss)) = map st_callsign ss"
proof (induction ss)
  case (Cons s ss)
  obtain n ts where "applyIfCallsign decrypt callsign vm skip ss = (n, ts)" by fastforce
  moreover obtain c s1 where "station_apply decrypt skip vm s = (c, s1)" by fastforce
  ultimately show ?case using Cons.IH callsign_station_apply [of decrypt skip vm s] by simp
qed simp

lemma callsigns_message [simp]:
  "map st_callsign (snd (updateIfMessageChanged im callsign b ss)) = map st_callsign ss"
proof (induction ss)
  case (Cons s ss)
  have "st_callsign (snd (station_setMessage im s)) = st_callsign s"
    by (simp add: station_setMessage_def split: InformationType.split)
  with Cons.IH show ?case by (simp add: Let_def case_prod_unfold)
qed simp

lemma callsigns_distances [simp]: "map st_callsign (stations_updateDistances G pos ss) = map st_callsign ss"
  by (simp add: stations_updateDistances_def calculcateAndUpdateRelativeDistanceAndBearing_def)

lemma stations_add:
  assumes "stations_ok ss" "stations_findByCallsign (st_callsign s) ss = []"
  shows "stations_ok (ss @ [s])"
  using assms by (auto simp: stations_ok_def stations_findByCallsign_def stationIs_def cs_equal_def filter_empty_conv)

lemma stations_filter: "stations_ok ss \<Longrightarrow> stations_ok (filter P ss)"
  by (simp add: stations_ok_def distinct_map_filter)

lemma stationsOk_remove: "stations_ok ss \<Longrightarrow> stations_ok (snd (stations_removeByCallsign callsign ss))"
  by (simp add: stations_removeByCallsign_def stations_filter)

lemma callsign_newStation [simp]: "st_callsign (newStation E callsign f pos r) = callsign"
  by (simp add: newStation_def Let_def calculcateAndUpdateRelativeDistanceAndBearing_def setOnline_def
      station_setFrequency_def station_setCallsign_def)

subsection \<open>Queues\<close>

definition queue_ok :: "CCallsign list \<Rightarrow> bool" where
  "queue_ok q \<longleftrightarrow> distinct (map upperCallsign q)"

lemma queue_enqueueNew: "queue_ok q \<Longrightarrow> queue_ok (enqueueNew callsign q)"
  by (auto simp: queue_ok_def enqueueNew_def cs_equal_def list_ex_iff)

lemma queue_fold: "queue_ok q \<Longrightarrow> queue_ok (fold enqueueNew cs q)"
  by (induction cs arbitrary: q) (simp_all add: queue_enqueueNew)

lemma queue_tl: "queue_ok (c # q) \<Longrightarrow> queue_ok q"
  by (simp add: queue_ok_def)

end
