(* ===== verification/Airspace_Monitor_Runs.thy ===== *)
theory Airspace_Monitor_Runs
  imports Airspace_Monitor_Laws
begin

text \<open>
  Every operation of the airspace monitor keeps its invariant: the aircraft, the clients, the
  stations, the queues and the range, each with its own lemmas, and the machine of the events.
\<close>

subsection \<open>Aircraft under their own callsign\<close>

definition callsigns :: "'p CRemoteAircraftProvider \<Rightarrow> (string \<rightharpoonup> string \<times> CCallsign)" where
  "callsigns p = (\<lambda>cs. map_option (\<lambda>a. (ra_callsign a, ra_callsignObject a)) (m_aircraftInRange p cs))"

definition aircraft_ok :: "'p CRemoteAircraftProvider \<Rightarrow> bool" where
  "aircraft_ok p \<longleftrightarrow> provider_inv p \<and> (\<forall>cs n ob. callsigns p cs = Some (n, ob) \<longrightarrow> cs_callsign ob = cs)"

lemma aircraft_ok_same:
  "aircraft_ok p \<Longrightarrow> provider_inv q \<Longrightarrow> callsigns q = callsigns p \<Longrightarrow> aircraft_ok q"
  by (simp add: aircraft_ok_def)

lemma callsigns_other_fields [simp]:
  "callsigns (m_situationsAdded_update f p) = callsigns p"
  "callsigns (m_partsAdded_update f p) = callsigns p"
  "callsigns (m_situationsLastModified_update g p) = callsigns p"
  "callsigns (m_partsLastModified_update g p) = callsigns p"
  "callsigns (m_situationsByCallsign_update h p) = callsigns p"
  "callsigns (m_latestSituationByCallsign_update h1 p) = callsigns p"
  "callsigns (m_partsByCallsign_update h2 p) = callsigns p"
  "callsigns (m_aircraftWithParts_update h3 p) = callsigns p"
  "callsigns (m_dbCGPerCallsign_update h4 p) = callsigns p"
  "callsigns (m_dbCGPerModelString_update h4 p) = callsigns p"
  "callsigns (m_changesByCallsign_update k p) = callsigns p"
  "callsigns (m_reverseLookupMessages_update l p) = callsigns p"
  "callsigns (sendSignal sig p) = callsigns p"
  by (simp_all add: callsigns_def sendSignal_def)

lemma callsigns_updateAircraft:
  assumes "\<And>a. ra_callsign (snd (f a)) = ra_callsign a" "\<And>a. ra_callsignObject (snd (f a)) = ra_callsignObject a"
  shows "callsigns (snd (updateAircraft cs f p)) = callsigns p"
proof (cases "m_aircraftInRange p cs")
  case (Some a)
  obtain ok a1 where f: "f a = (ok, a1)" by fastforce
  with assms [of a] Some show ?thesis by (simp add: updateAircraft_def callsigns_def fun_eq_iff)
qed (simp add: updateAircraft_def)

lemma objects_setters [simp]:
  "ra_callsignObject (setCG cg a) = ra_callsignObject a"
  "ra_callsignObject (setSituation s a) = ra_callsignObject a" "ra_callsign (setSituation s a) = ra_callsign a"
  "ra_callsignObject (snd (setFastPositionUpdates b a)) = ra_callsignObject a"
  "ra_callsign (snd (setFastPositionUpdates b a)) = ra_callsign a"
  by (simp_all add: setCG_def setSituation_def setFastPositionUpdates_def)

lemma callsigns_updateCG [simp]: "callsigns (snd (updateCG cs cg p)) = callsigns p"
  unfolding updateCG_def by (rule callsigns_updateAircraft) simp_all

lemma callsigns_storeChange [simp]: "callsigns (storeChange env change p) = callsigns p"
  by (simp add: storeChange_def Let_def)

lemma callsigns_storeSituation [simp]: "callsigns (snd (storeAircraftSituation env b t s p)) = callsigns p"
  by (simp add: storeAircraftSituation_def Let_def split: option.split)

lemma callsigns_storeParts [simp]: "callsigns (storeAircraftParts env t cs parts b p) = callsigns p"
proof -
  have up: "callsigns (snd (updateAircraft cs (\<lambda>a. (True, a\<lparr>ra_parts := parts, ra_partsSynchronized := True\<rparr>)) q)) = callsigns q"
    for q :: "'a CRemoteAircraftProvider"
    by (rule callsigns_updateAircraft) simp_all
  show ?thesis by (simp add: storeAircraftParts_def Let_def up split: prod.split)
qed

lemma aircraft_storeSituation:
  "aircraft_ok p \<Longrightarrow> sorts (pe_sort env) \<Longrightarrow> aircraft_ok (snd (storeAircraftSituation env b t s p))"
  by (rule aircraft_ok_same) (simp_all add: aircraft_ok_def inv_storeSituation)

lemma aircraft_storePacket:
  "aircraft_ok p \<Longrightarrow> sorts (pe_sortParts env) \<Longrightarrow> aircraft_ok (storeAircraftPartsPacket env t cs packet ms p)"
  by (rule aircraft_ok_same [where p = p])
     (simp_all add: aircraft_ok_def inv_storeParts storeAircraftPartsPacket_def Let_def)

lemma aircraft_remove: "aircraft_ok p \<Longrightarrow> aircraft_ok (snd (removeAircraft cs p))"
  unfolding aircraft_ok_def by (simp add: inv_remove) (simp add: removeAircraft_def callsigns_def)

lemma aircraft_removeAll: "aircraft_ok (removeAllAircraft css p)"
proof -
  have "callsigns (fold (\<lambda>cs. sendSignal (removedAircraft cs)) css q) = callsigns q" for q :: "'a CRemoteAircraftProvider"
    by (induction css arbitrary: q) simp_all
  then show ?thesis
    by (simp add: aircraft_ok_def inv_removeAll) (simp add: removeAllAircraft_def callsigns_def)
qed

definition named_aircraft :: "'p CSimulatedAircraftFull \<Rightarrow> bool" where
  "named_aircraft a \<longleftrightarrow> ra_callsign a \<noteq> [] \<and> cs_callsign (ra_callsignObject a) = ra_callsign a"

lemma aircraft_add: "aircraft_ok p \<Longrightarrow> named_aircraft a \<Longrightarrow> aircraft_ok (snd (addNewAircraftInRange a p))"
  by (auto simp: aircraft_ok_def named_aircraft_def inv_add)
     (auto simp: addNewAircraftInRange_def callsigns_def sendSignal_def split: if_splits)

lemma aircraft_signal: "aircraft_ok p \<Longrightarrow> aircraft_ok (sendSignal sig p)"
  by (simp add: aircraft_ok_def)

lemma aircraft_named: "aircraft_ok p \<Longrightarrow> m_aircraftInRange p cs = Some a \<Longrightarrow> named_aircraft a \<and> ra_callsign a = cs"
  by (auto simp: aircraft_ok_def named_aircraft_def callsigns_def provider_inv_def)

text \<open>Properties by index: only a model of an aircraft without a valid callsign could rename it.\<close>

lemma named_setProperty:
  assumes "named_aircraft a" "\<forall>mo. p = IndexModel mo \<longrightarrow> isValidAircraftCallsign (ra_callsign a)"
  shows "ra_callsign (aircraft_setProperty decrypt p a) = ra_callsign a"
    and "ra_callsignObject (aircraft_setProperty decrypt p a) = ra_callsignObject a"
  using assms by (cases p; simp add: aircraft_setProperty_def setModel_def aircraft_setCallsign_def
      aircraft_hasValidCallsign_def aircraft_getCallsign_def named_aircraft_def)+

definition keeps_callsign :: "string \<Rightarrow> 'p aircraftProperty list \<Rightarrow> bool" where
  "keeps_callsign callsign vm \<longleftrightarrow> list_all (\<lambda>p. case p of IndexModel _ \<Rightarrow> isValidAircraftCallsign callsign | _ \<Rightarrow> True) vm"

lemma named_apply:
  "named_aircraft a \<Longrightarrow> keeps_callsign (ra_callsign a) vm \<Longrightarrow>
   ra_callsign (snd (aircraft_apply G decrypt skip vm a)) = ra_callsign a
   \<and> ra_callsignObject (snd (aircraft_apply G decrypt skip vm a)) = ra_callsignObject a"
proof (induction vm arbitrary: a)
  case (Cons p vm)
  then have *: "\<forall>mo. p = IndexModel mo \<longrightarrow> isValidAircraftCallsign (ra_callsign a)"
    and rest: "keeps_callsign (ra_callsign a) vm" by (auto simp: keeps_callsign_def)
  let ?a = "aircraft_setProperty decrypt p a"
  have same: "ra_callsign ?a = ra_callsign a" "ra_callsignObject ?a = ra_callsignObject a"
    using named_setProperty [OF Cons.prems(1) *] by simp_all
  then have "named_aircraft ?a" "keeps_callsign (ra_callsign ?a) vm"
    using Cons.prems(1) rest by (simp_all add: named_aircraft_def)
  from Cons.IH [OF this] Cons.IH [OF Cons.prems(1) rest] same show ?case
    by (auto simp: case_prod_unfold)
qed simp

lemma aircraft_update:
  assumes "aircraft_ok p" "\<And>a. m_aircraftInRange p cs = Some a \<Longrightarrow> keeps_callsign (ra_callsign a) vm"
  shows "aircraft_ok (snd (updateAircraftInRange G decrypt cs vm skip p))"
proof (cases "m_aircraftInRange p cs")
  case (Some a)
  obtain c a1 where ap: "aircraft_apply G decrypt skip vm a = (c, a1)" by fastforce
  note nm = aircraft_named [OF assms(1) Some]
  from named_apply [of a vm G decrypt skip] nm assms(2) [OF Some] ap
  have a1: "ra_callsign a1 = ra_callsign a" "ra_callsignObject a1 = ra_callsignObject a" by auto
  let ?p = "p\<lparr>m_aircraftInRange := (m_aircraftInRange p)(cs \<mapsto> a1)\<rparr>"
  have "provider_inv ?p" using assms(1) nm a1 by (auto simp: aircraft_ok_def provider_inv_def named_aircraft_def)
  moreover have "callsigns ?p = callsigns p" using Some a1 by (auto simp: callsigns_def fun_eq_iff)
  ultimately have "aircraft_ok ?p" using assms(1) by (rule aircraft_ok_same [rotated])
  then show ?thesis using Some ap by (simp add: updateAircraftInRange_def Let_def aircraft_signal)
qed (use assms in \<open>simp add: updateAircraftInRange_def\<close>)

lemma aircraft_updateAircraft:
  assumes "aircraft_ok p"
    and "\<And>a. ra_callsign (snd (f a)) = ra_callsign a" "\<And>a. ra_callsignObject (snd (f a)) = ra_callsignObject a"
  shows "aircraft_ok (snd (updateAircraft cs f p))"
  using assms by (intro aircraft_ok_same [OF assms(1)] inv_updateAircraft callsigns_updateAircraft)
    (simp_all add: aircraft_ok_def)

lemma aircraft_distance: "aircraft_ok p \<Longrightarrow> aircraft_ok (snd (updateAircraftInRangeDistanceBearing cs s d b p))"
  unfolding updateAircraftInRangeDistanceBearing_def by (rule aircraft_updateAircraft) (simp_all add: Let_def)

lemma aircraft_fast: "aircraft_ok p \<Longrightarrow> aircraft_ok (snd (updateFastPositionEnabled cs b p))"
  unfolding updateFastPositionEnabled_def by (rule aircraft_updateAircraft) simp_all

lemma aircraft_remember:
  "aircraft_ok p \<Longrightarrow> aircraft_ok (rememberCGFromDB cg cs p)"
  "aircraft_ok p \<Longrightarrow> aircraft_ok (rememberCGFromDBForModelString cg ms p)"
  "aircraft_ok p \<Longrightarrow> aircraft_ok (removeReverseLookupMessages cs p)"
  by (simp_all add: aircraft_ok_def rememberCGFromDB_def rememberCGFromDBForModelString_def
      removeReverseLookupMessages_def provider_inv_def)

subsection \<open>The invariant\<close>

definition named_timer :: "'p monitorTimer \<Rightarrow> bool" where
  "named_timer t = (case t of ReInitializeAircraft a _ \<Rightarrow> named_aircraft a | _ \<Rightarrow> True)"

definition monitor_inv :: "'p CAirspaceMonitor \<Rightarrow> bool" where
  "monitor_inv m \<longleftrightarrow> aircraft_ok (mo_provider m) \<and> keyed_by clientKey (mo_clients m)
     \<and> stations_ok (m_atcStationsOnline m) \<and> queue_ok (m_queryAtis m) \<and> queue_ok (m_queryPilot m)
     \<and> m_maxDistanceNM m \<le> m_maxDistanceNMHysteresis m
     \<and> (\<forall>(d, t) \<in> set (mo_timers m). named_timer t)"

text \<open>Sorts that sort, and data of the network that leave an aircraft its callsign.\<close>

definition env_ok :: "'p monitorEnv \<Rightarrow> bool" where
  "env_ok E \<longleftrightarrow> sorts (pe_sort (me_provider E)) \<and> sorts (pe_sortParts (me_provider E))
     \<and> (\<forall>a. ra_callsign (me_dataFileAircraft E a) = ra_callsign a
            \<and> ra_callsignObject (me_dataFileAircraft E a) = ra_callsignObject a)"

lemma inv_fields [simp]:
  "monitor_inv (mo_effects_update f m) = monitor_inv m"
  "monitor_inv (m_flightPlanCache_update g m) = monitor_inv m"
  "monitor_inv (m_readiness_update h m) = monitor_inv m"
  "monitor_inv (m_tempFsInnPackets_update k m) = monitor_inv m"
  "monitor_inv (m_foundInNonMovingAircraft_update i m) = monitor_inv m"
  "monitor_inv (m_foundInElevationsOnGnd_update i m) = monitor_inv m"
  "monitor_inv (sends es m) = monitor_inv m"
  "monitor_inv (setReadiness callsign r m) = monitor_inv m"
  "monitor_inv (addMatchingReadinessFlag E callsign mrf m) = monitor_inv m"
  by (simp_all add: monitor_inv_def sends_def setReadiness_def addMatchingReadinessFlag_def)

named_theorems inv_intro \<open>operations that keep the invariant\<close>

lemma inv_provider [inv_intro]:
  "monitor_inv m \<Longrightarrow> aircraft_ok (f (mo_provider m)) \<Longrightarrow> monitor_inv (onProvider f m)"
  by (simp add: monitor_inv_def onProvider_def)

lemma inv_clients [inv_intro]:
  "monitor_inv m \<Longrightarrow> keyed_by clientKey (f (mo_clients m)) \<Longrightarrow> monitor_inv (onClients f m)"
  by (simp add: monitor_inv_def onClients_def)

lemma inv_stations [inv_intro]:
  "monitor_inv m \<Longrightarrow> stations_ok ss \<Longrightarrow> monitor_inv (m\<lparr>m_atcStationsOnline := ss\<rparr>)"
  by (simp add: monitor_inv_def)

lemma inv_singleShot [inv_intro]: "monitor_inv m \<Longrightarrow> named_timer t \<Longrightarrow> monitor_inv (singleShot n ms t m)"
  by (auto simp: monitor_inv_def singleShot_def)

lemma inv_aircraft: "monitor_inv m \<Longrightarrow> aircraft_ok (mo_provider m)"
  and inv_keyed: "monitor_inv m \<Longrightarrow> keyed_by clientKey (mo_clients m)"
  and inv_stationList: "monitor_inv m \<Longrightarrow> stations_ok (m_atcStationsOnline m)"
  by (simp_all add: monitor_inv_def)

lemma named_plain [simp]: "named_timer (CheckMatchingAgain callsign rf)" "named_timer (VerifyIcaoData callsign)"
  by (simp_all add: named_timer_def)

lemma qRound_above: "0 \<le> r \<Longrightarrow> r \<le> qRound (of_int r * 11 / 10)"
  by (simp add: qRound_def le_floor_iff)

lemma qRound_nonneg: "0 \<le> x \<Longrightarrow> 0 \<le> qRound x"
  by (simp add: qRound_def)

lemma inv_setMaxRange [inv_intro]:
  assumes "monitor_inv m"
  shows "monitor_inv (setMaxRange r m)"
proof (cases "r = None \<or> isNegativeWithEpsilonConsidered r \<or> isZeroEpsilonConsidered r")
  case False
  then have "0 \<le> pqValue r" by (auto simp: isNegativeWithEpsilonConsidered_def)
  then have "0 \<le> valueIntegerNM r" by (simp add: valueIntegerNM_def qRound_nonneg feetPerNM_def)
  with False assms show ?thesis by (simp add: setMaxRange_def Let_def monitor_inv_def qRound_above)
qed (use assms in \<open>auto simp: setMaxRange_def monitor_inv_def\<close>)

lemma inv_handleMaxRange [inv_intro]: "monitor_inv m \<Longrightarrow> monitor_inv (snd (handleMaxRange E s m))"
  by (auto simp: handleMaxRange_def Let_def inv_aircraft intro!: inv_provider aircraft_remove)

subsection \<open>Queries and removal\<close>

lemma inv_initialAtc [inv_intro]: "monitor_inv m \<Longrightarrow> monitor_inv (sendInitialAtcQueries E callsign m)"
  by (simp add: sendInitialAtcQueries_def)

lemma inv_initialPilot [inv_intro]: "monitor_inv m \<Longrightarrow> monitor_inv (sendInitialPilotQueries E callsign a b m)"
  by (simp add: sendInitialPilotQueries_def)

lemma inv_recalculated [inv_intro]: "monitor_inv m \<Longrightarrow> monitor_inv (getAtcStationsOnlineRecalculated E m)"
  unfolding getAtcStationsOnlineRecalculated_def
  by (rule inv_stations) (simp_all only: stations_ok_same [OF callsigns_distances] inv_stationList)

lemma inv_queryAll [inv_intro]: "monitor_inv m \<Longrightarrow> monitor_inv (queryAllOnlineAtcStations E m)"
  by (simp add: queryAllOnlineAtcStations_def Let_def inv_recalculated)

lemma inv_requests [inv_intro]:
  "monitor_inv m \<Longrightarrow> monitor_inv (requestAircraftDataUpdates E m)"
  "monitor_inv m \<Longrightarrow> monitor_inv (requestAtisUpdates E m)"
  by (simp_all add: requestAircraftDataUpdates_def requestAtisUpdates_def monitor_inv_def queue_fold)

lemma inv_nextAtis [inv_intro]: "monitor_inv m \<Longrightarrow> monitor_inv (snd (sendNextStaggeredAtisQuery E m))"
  by (cases "m_queryAtis m")
     (auto simp: sendNextStaggeredAtisQuery_def Let_def monitor_inv_def sends_def queue_ok_def)

lemma inv_nextPilot [inv_intro]: "monitor_inv m \<Longrightarrow> monitor_inv (snd (sendNextStaggeredPilotDataQuery E m))"
  by (cases "m_queryPilot m")
     (auto simp: sendNextStaggeredPilotDataQuery_def Let_def monitor_inv_def sends_def queue_ok_def)

lemma inv_fast [inv_intro]: "monitor_inv m \<Longrightarrow> monitor_inv (fastProcessing E m)"
  using inv_nextAtis [of m E] by (auto simp: fastProcessing_def case_prod_unfold intro: inv_nextPilot)

lemma inv_slow [inv_intro]: "monitor_inv m \<Longrightarrow> monitor_inv (slowProcessing E m)"
  by (simp add: slowProcessing_def inv_queryAll)

lemma inv_removeStations [inv_intro]: "monitor_inv m \<Longrightarrow> monitor_inv (removeAllOnlineAtcStations m)"
  by (simp add: removeAllOnlineAtcStations_def monitor_inv_def stations_ok_def queue_ok_def)

lemma inv_removeAllAircraft [inv_intro]: "monitor_inv m \<Longrightarrow> monitor_inv (mo_removeAllAircraft E m)"
  by (simp add: mo_removeAllAircraft_def onProvider_def monitor_inv_def aircraft_removeAll queue_ok_def)

lemma inv_clear [inv_intro]: "monitor_inv m \<Longrightarrow> monitor_inv (clearMonitor E m)"
  unfolding clearMonitor_def by (simp add: inv_clients clients_clear inv_removeAllAircraft inv_removeStations)

lemma inv_removeCaches [inv_intro]: "monitor_inv m \<Longrightarrow> monitor_inv (removeFromAircraftCachesAndLogs callsign m)"
  by (simp add: removeFromAircraftCachesAndLogs_def inv_provider aircraft_remember inv_aircraft)

lemma inv_flightPlan [inv_intro]: "monitor_inv m \<Longrightarrow> monitor_inv (onFlightPlanReceived E callsign fp m)"
  by (simp add: onFlightPlanReceived_def)

subsection \<open>Matching\<close>

lemma inv_sendReady [inv_intro]: "monitor_inv m \<Longrightarrow> monitor_inv (sendReadyForModelMatching E callsign rf m)"
  by (simp add: sendReadyForModelMatching_def Let_def inv_singleShot)

lemma inv_verify [inv_intro]: "monitor_inv m \<Longrightarrow> monitor_inv (verifyReceivedIcaoData E callsign m)"
  by (simp add: verifyReceivedIcaoData_def Let_def inv_singleShot inv_sendReady inv_initialPilot)

lemma inv_addNew [inv_intro]:
  assumes "monitor_inv m" "env_ok E" "named_aircraft a"
  shows "monitor_inv (snd (mo_addNewAircraftInRange E a m))"
proof -
  let ?a1 = "a\<lparr>ra_rendered := False,
    ra_relativeDistance := calculateGreatCircleDistance (monitorGeo E) (s_position (ra_situation a)) (ownPosition E),
    ra_relativeBearing := calculateBearing (me_surface E) (s_position (ra_situation a)) (ownPosition E)\<rparr>"
  let ?a2 = "if connectedToVatsim E then me_dataFileAircraft E ?a1 else ?a1"
  have "named_aircraft ?a2" using assms(2,3) by (simp add: named_aircraft_def env_ok_def)
  with inv_aircraft [OF assms(1)] have "aircraft_ok (snd (addNewAircraftInRange ?a2 (mo_provider m)))" by (rule aircraft_add)
  with assms(1) have "monitor_inv (m\<lparr>mo_provider := snd (addNewAircraftInRange ?a2 (mo_provider m))\<rparr>)"
    by (simp add: monitor_inv_def)
  then show ?thesis
    using assms(1)
    by (simp add: mo_addNewAircraftInRange_def Let_def case_prod_unfold inv_singleShot inv_provider
        aircraft_remember inv_aircraft)
qed

lemma inv_mark [inv_intro]: "monitor_inv m \<Longrightarrow> monitor_inv (markByLivery callsign livery m)"
  by (simp add: markByLivery_def inv_clients clients_mark inv_keyed)

lemma provider_mark [simp]: "mo_provider (markByLivery callsign livery m) = mo_provider m"
  by (simp add: markByLivery_def onClients_def)

lemma lookup_marks:
  assumes "reverseLookupModelWithFlightplanData E callsign ac al lv ms type m = Some (model, m1)"
  shows "mo_provider m1 = mo_provider m" and "monitor_inv m \<Longrightarrow> monitor_inv m1"
  using assms
  by (auto simp: reverseLookupModelWithFlightplanData_def lookupWithoutScript_def Let_def inv_mark
      split: Option.bind_splits if_splits)

lemma inv_addOrUpdate:
  assumes "monitor_inv m" "addOrUpdateAircraftInRange E callsign ac al lv ms type m = Some m1"
  shows "monitor_inv m1"
proof -
  let ?cs = "cs_callsign callsign"
  let ?a = "getAircraftInRangeForCallsign ?cs (mo_provider m)"
  show ?thesis
  proof (cases "aircraft_hasValidCallsign ?a \<and> \<not> hasValidDbKey (am_dbKey (ra_model ?a))")
    case True
    then obtain lookup m2 where l: "reverseLookupModelWithFlightplanData E callsign ac al lv ms type m = Some (lookup, m2)"
      using assms(2) by (auto simp: addOrUpdateAircraftInRange_def Let_def split: Option.bind_splits)
    let ?model = "model_updateMissingParts lookup True (ra_model ?a)"
    let ?u = "\<lambda>vm p. snd (updateAircraftInRange (monitorGeo E) (me_decrypt E) ?cs vm True p)"
    have m1: "m1 = onProvider (\<lambda>p. ?u [IndexNetworkModel ?model] (?u [IndexModel ?model] p)) m2"
      using assms(2) True l
      by (simp add: addOrUpdateAircraftInRange_def Let_def updateAircraftModel_def updateAircraftNetworkModel_def
          case_prod_unfold)
    have valid: "m_aircraftInRange (mo_provider m2) ?cs = Some a \<Longrightarrow> isValidAircraftCallsign (ra_callsign a)" for a
      using True lookup_marks(1) [OF l] by (simp add: getAircraftInRangeForCallsign_def aircraft_hasValidCallsign_def)
    note m2 = lookup_marks(2) [OF l assms(1)]
    have "aircraft_ok (?u [IndexModel ?model] (mo_provider m2))"
      by (rule aircraft_update [OF inv_aircraft [OF m2]]) (simp add: keeps_callsign_def valid)
    then have "aircraft_ok (?u [IndexNetworkModel ?model] (?u [IndexModel ?model] (mo_provider m2)))"
      by (rule aircraft_update) (simp add: keeps_callsign_def)
    with m2 show ?thesis unfolding m1 by (rule inv_provider)
  next
    case False
    with assms show ?thesis by (auto simp: addOrUpdateAircraftInRange_def Let_def)
  qed
qed

subsection \<open>Situations\<close>

lemma guess_fields:
  assumes "guessElevation E situation history change m s = (s1, m1)"
  shows "s_callsign s1 = s_callsign s" and "mo_provider m1 = mo_provider m" and "mo_clients m1 = mo_clients m"
    and "monitor_inv m \<Longrightarrow> monitor_inv m1"
proof -
  have set: "s_callsign (snd (setGroundElevation ep info b t)) = s_callsign t" for ep info b and t :: "'a CAircraftSituation"
    by (simp add: setGroundElevation_def)
  have alt: "s_callsign (snd (setGroundElevationAltitude al ag info b t)) = s_callsign t" for al ag info b and t :: "'a CAircraftSituation"
    by (simp add: setGroundElevationAltitude_def)
  have to_me: "s_callsign (snd (transferGroundElevationToMe G f r b t)) = s_callsign t" for G f r b and t :: "'a CAircraftSituation"
    by (simp add: transferGroundElevationToMe_def set)
  have ex: "s_callsign (snd (extrapolateElevation G old older ch t)) = s_callsign t" for G old older ch and t :: "'a CAircraftSituation"
    using to_me [of G old singlePointRadius True t] by (simp add: extrapolateElevation_def alt case_prod_unfold)
  show "s_callsign s1 = s_callsign s" "mo_provider m1 = mo_provider m" "mo_clients m1 = mo_clients m"
    "monitor_inv m \<Longrightarrow> monitor_inv m1"
    using assms by (auto simp: guessElevation_def Let_def set ex split: if_splits list.splits)
qed

lemma findElevation_fields:
  assumes "findElevation E situation c m = (s1, request, skip, m1)"
  shows "mo_provider m1 = mo_provider m" and "monitor_inv m \<Longrightarrow> monitor_inv m1"
  using assms
  by (auto simp: findElevation_def Let_def split: if_splits prod.splits dest: guess_fields(2) guess_fields(4))

lemma inv_storeSituationMonitor [inv_intro]:
  assumes "monitor_inv m" "env_ok E"
  shows "monitor_inv (snd (mo_storeAircraftSituation E s b m))"
proof (cases "s_callsign s = []")
  case False
  let ?c = "if b then addTestAltitudeOffsetToSituation (mo_provider m) s else s"
  obtain c1 request skip m1 where f: "findElevation E s ?c m = (c1, request, skip, m1)" by (metis prod_cases4)
  note m1 = findElevation_fields(2) [OF f assms(1)]
  have "aircraft_ok (snd (storeAircraftSituation (me_provider E) False (me_now E) t (mo_provider m1)))" for t
    using inv_aircraft [OF m1] assms(2) by (simp add: aircraft_storeSituation env_ok_def)
  with m1 have "monitor_inv (m1\<lparr>mo_provider := snd (storeAircraftSituation (me_provider E) False (me_now E) t (mo_provider m1))\<rparr>)" for t
    by (simp add: monitor_inv_def)
  with False f show ?thesis by (simp add: mo_storeAircraftSituation_def Let_def case_prod_unfold)
qed (use assms in \<open>simp add: mo_storeAircraftSituation_def\<close>)

subsection \<open>Handlers\<close>

lemma inv_fsinn:
  assumes "monitor_inv m" "onCustomFSInnPacketReceived E callsign al ac ct ms m = Some m1"
  shows "monitor_inv m1"
proof -
  have client: "monitor_inv (onClients (\<lambda>c. snd (updateOrAddClient (me_decrypt E) callsign [IndexModelString ms] True c)) m)"
    using assms(1) by (intro inv_clients clients_update inv_keyed)
  show ?thesis
    using assms client
    by (auto simp: onCustomFSInnPacketReceived_def Let_def intro: inv_sendReady inv_addOrUpdate split: if_splits)
       (metis inv_addOrUpdate inv_sendReady inv_fields(9))
qed

lemma inv_icao:
  assumes "monitor_inv m" "onIcaoCodesReceived E callsign ac al lv m = Some m1"
  shows "monitor_inv m1"
  using assms by (auto simp: onIcaoCodesReceived_def Let_def intro!: inv_sendReady split: if_splits intro: inv_addOrUpdate)

lemma inv_updateMonitor [inv_intro]:
  "monitor_inv m \<Longrightarrow> list_all (\<lambda>p. \<forall>mo. p \<noteq> IndexModel mo) vm \<Longrightarrow> monitor_inv (mo_updateAircraftInRange E callsign vm m)"
  unfolding mo_updateAircraftInRange_def
  by (rule inv_provider, assumption, rule aircraft_update)
     (auto simp: inv_aircraft keeps_callsign_def list_all_iff split: aircraftProperty.split)

lemma named_newAircraft: "s_callsign s \<noteq> [] \<Longrightarrow> named_aircraft (newAircraft (situationCallsign s) s t)"
  by (simp add: newAircraft_def named_aircraft_def setSituation_def aircraft_setCallsign_def situationCallsign_def)

lemma inv_aircraftUpdate [inv_intro]:
  assumes "monitor_inv m" "env_ok E" "s_callsign s \<noteq> []"
  shows "monitor_inv (onAircraftUpdateReceived E s t m)"
proof -
  let ?m1 = "snd (handleMaxRange E s m)"
  let ?m2 = "onClients (\<lambda>c. snd (autoAdjustCientGndCapability s c)) ?m1"
  let ?m3 = "snd (mo_storeAircraftSituation E s True ?m2)"
  have m1: "monitor_inv ?m1" using assms(1) by (rule inv_handleMaxRange)
  then have "monitor_inv ?m2" by (intro inv_clients clients_auto inv_keyed)
  then have m3: "monitor_inv ?m3" using assms(2) by (rule inv_storeSituationMonitor)
  let ?m4 = "snd (mo_addNewAircraftInRange E (newAircraft (situationCallsign s) s t) ?m3)"
  have m4: "monitor_inv ?m4" using m3 assms(2) named_newAircraft [OF assms(3)] by (rule inv_addNew)
  have m5: "monitor_inv (onClients (\<lambda>c. snd (addNewClient (mkClient (situationCallsign s) []) c))
      (sendInitialPilotQueries E (situationCallsign s) True b ?m4))" for b
    using m4 by (intro inv_clients clients_addNew inv_keyed inv_initialPilot)
  show ?thesis
    using assms(1) m1 m3 m5 by (simp add: onAircraftUpdateReceived_def Let_def case_prod_unfold inv_updateMonitor)
qed

lemma inv_interim [inv_intro]:
  "monitor_inv m \<Longrightarrow> env_ok E \<Longrightarrow> monitor_inv (onAircraftInterimUpdateReceived E s m)"
  "monitor_inv m \<Longrightarrow> env_ok E \<Longrightarrow> monitor_inv (onAircraftVisualUpdateReceived E s m)"
  by (auto simp: onAircraftInterimUpdateReceived_def onAircraftVisualUpdateReceived_def Let_def
      inv_storeSituationMonitor inv_aircraft aircraft_distance intro!: inv_provider split: option.split)

lemma inv_config [inv_intro]:
  assumes "monitor_inv m" "env_ok E"
  shows "monitor_inv (onAircraftConfigReceived E callsign packet ms m)"
proof -
  have "monitor_inv (onProvider (storeAircraftPartsPacket (me_provider E) (me_now E) (cs_callsign callsign) packet ms) m)"
    using assms by (intro inv_provider aircraft_storePacket inv_aircraft) (simp_all add: env_ok_def)
  then show ?thesis
    using assms(1) by (simp add: onAircraftConfigReceived_def Let_def inv_clients clients_setOther inv_keyed)
qed

lemma inv_simData:
  assumes "monitor_inv m" "env_ok E" "s_callsign s \<noteq> []"
    and "onAircraftSimDataUpdateReceived E s packet ms ac al m = Some m1"
  shows "monitor_inv m1"
proof -
  have m0: "monitor_inv (onAircraftUpdateReceived E s t m)" for t using assms(1-3) by (rule inv_aircraftUpdate)
  show ?thesis
    using assms(2,4) inv_icao [OF m0] m0
    by (auto simp: onAircraftSimDataUpdateReceived_def Let_def intro!: inv_config split: if_splits)
qed

lemma inv_pilotDisconnected [inv_intro]: "monitor_inv m \<Longrightarrow> monitor_inv (onPilotDisconnected E callsign m)"
proof -
  assume "monitor_inv m"
  then have m1: "monitor_inv (removeFromAircraftCachesAndLogs callsign m)" by (rule inv_removeCaches)
  let ?m1 = "removeFromAircraftCachesAndLogs callsign m"
  have "monitor_inv (?m1\<lparr>mo_provider := snd (removeAircraft (cs_callsign callsign) (mo_provider ?m1))\<rparr>)"
    using m1 by (simp add: monitor_inv_def aircraft_remove)
  then have "monitor_inv (onClients (\<lambda>c. snd (removeClient callsign c))
      (?m1\<lparr>mo_provider := snd (removeAircraft (cs_callsign callsign) (mo_provider ?m1))\<rparr>))"
    by (intro inv_clients clients_remove inv_keyed)
  then show ?thesis
    by (simp add: onPilotDisconnected_def Let_def case_prod_unfold inv_provider aircraft_signal inv_aircraft)
qed

lemma inv_fastPosition [inv_intro]: "monitor_inv m \<Longrightarrow> monitor_inv (snd (mo_updateFastPositionEnabled E callsign b m))"
  using aircraft_fast [of "mo_provider m" "cs_callsign callsign" b]
  by (simp add: mo_updateFastPositionEnabled_def Let_def case_prod_unfold monitor_inv_def sends_def)

lemma inv_updateStation [inv_intro]:
  assumes "monitor_inv m"
  shows "monitor_inv (snd (updateOnlineStation E callsign vm skip b m))"
proof -
  have "stations_ok (snd (applyIfCallsign (me_decrypt E) callsign vm skip (m_atcStationsOnline m)))"
    using assms by (simp only: stations_ok_same [OF callsigns_applyIf] inv_stationList)
  with assms have "monitor_inv (m\<lparr>m_atcStationsOnline :=
      snd (applyIfCallsign (me_decrypt E) callsign vm skip (m_atcStationsOnline m))\<rparr>)"
    by (rule inv_stations)
  then show ?thesis by (simp add: updateOnlineStation_def case_prod_unfold Let_def)
qed

lemma inv_atcUpdate [inv_intro]:
  assumes "monitor_inv m"
  shows "monitor_inv (onAtcPositionUpdate E callsign f pos r m)"
proof -
  have "monitor_inv (m\<lparr>m_atcStationsOnline := m_atcStationsOnline m @ [newStation E callsign f pos r]\<rparr>)"
    if "stations_findByCallsign callsign (m_atcStationsOnline m) = []"
    using assms that by (intro inv_stations stations_add) (simp_all add: inv_stationList)
  then show ?thesis
    using assms by (simp add: onAtcPositionUpdate_def Let_def inv_recalculated inv_initialAtc inv_updateStation)
qed

lemma inv_atcDisconnected [inv_intro]:
  assumes "monitor_inv m"
  shows "monitor_inv (onAtcControllerDisconnected E callsign m)"
proof -
  have m1: "monitor_inv (onClients (\<lambda>c. snd (removeClient callsign c)) m)"
    using assms by (intro inv_clients clients_remove inv_keyed)
  then show ?thesis
    using assms by (simp add: onAtcControllerDisconnected_def Let_def inv_stations stationsOk_remove inv_stationList)
qed

lemma inv_atis [inv_intro]:
  assumes "monitor_inv m"
  shows "monitor_inv (onAtisReceived E callsign msg m)"
proof -
  have "stations_ok (snd (updateIfMessageChanged msg callsign True (m_atcStationsOnline m)))"
    using assms by (simp only: stations_ok_same [OF callsigns_message] inv_stationList)
  with assms show ?thesis by (simp add: onAtisReceived_def case_prod_unfold Let_def inv_stations)
qed

lemma inv_logoff [inv_intro]: "monitor_inv m \<Longrightarrow> monitor_inv (onAtisLogoffTimeReceived E callsign z m)"
  by (simp add: onAtisLogoffTimeReceived_def Let_def inv_updateStation split: option.split)

lemma inv_updateClient [inv_intro]: "monitor_inv m \<Longrightarrow> monitor_inv (updateClient E callsign vm skip m)"
  by (simp add: updateClient_def inv_clients clients_update inv_keyed)

lemma inv_realName [inv_intro]: "monitor_inv m \<Longrightarrow> monitor_inv (onRealNameReplyReceived E callsign n m)"
  by (simp add: onRealNameReplyReceived_def Let_def case_prod_unfold inv_updateClient inv_updateMonitor inv_updateStation)

lemma inv_replies [inv_intro]:
  "monitor_inv m \<Longrightarrow> monitor_inv (onCapabilitiesReplyReceived E callsign caps m)"
  "monitor_inv m \<Longrightarrow> monitor_inv (onServerReplyReceived E callsign server m)"
  "monitor_inv m \<Longrightarrow> monitor_inv (onReceivedVatsimDataFile E m)"
  "monitor_inv m \<Longrightarrow> monitor_inv (mo_onConnectionStatusChanged E st m)"
  by (simp_all add: onCapabilitiesReplyReceived_def onServerReplyReceived_def onReceivedVatsimDataFile_def Let_def
      mo_onConnectionStatusChanged_def inv_updateClient inv_clients clients_set inv_setMaxRange inv_clear)

subsection \<open>Timers and runs\<close>

lemma inv_recall:
  assumes "monitor_inv m" "recallFsInnPacket E callsign m = Some (b, m1)"
  shows "monitor_inv m1"
proof (cases "m_tempFsInnPackets m (cs_callsign callsign)")
  case (Some packet)
  with assms(2) have "onCustomFSInnPacketReceived E callsign (fi_airlineIcaoDesignator packet)
      (fi_aircraftIcaoDesignator packet) (fi_combinedCode packet) (fi_modelString packet)
      (m\<lparr>m_tempFsInnPackets := (m_tempFsInnPackets m)(cs_callsign callsign := None)\<rparr>) = Some m1"
    by (auto simp: recallFsInnPacket_def)
  from inv_fsinn [OF _ this] assms(1) show ?thesis by simp
qed (use assms in \<open>simp add: recallFsInnPacket_def\<close>)

lemma inv_checkAgain:
  assumes "monitor_inv m" "onCheckMatchingAgain E callsign rf m = Some m1"
  shows "monitor_inv m1"
  using assms
  by (auto simp: onCheckMatchingAgain_def inv_sendReady dest!: inv_recall [OF assms(1)]
      split: if_split_asm Option.bind_splits)

lemma inv_timer:
  assumes "monitor_inv m" "env_ok E" "named_timer t" "onTimer E t m = Some m1"
  shows "monitor_inv m1"
proof (cases t)
  case (CheckMatchingAgain callsign rf)
  with assms show ?thesis by (simp add: inv_checkAgain)
next
  case (VerifyIcaoData callsign)
  with assms show ?thesis by (auto simp: inv_verify split: if_splits)
next
  case (ReInitializeAircraft a ready)
  with assms have "monitor_inv (snd (mo_addNewAircraftInRange E a m))" by (simp add: inv_addNew named_timer_def)
  with assms ReInitializeAircraft show ?thesis by (auto simp: onReInitializeAircraft_def Let_def inv_sendReady)
qed

lemma inv_reInitialize:
  assumes "monitor_inv m"
  shows "monitor_inv (snd (reInitializeAllAircraft E m))"
proof -
  have shots: "monitor_inv (snd (fold (\<lambda>ac (c, m1). (c + 1, singleShot (me_now E) (c * 25) (ReInitializeAircraft ac True) m1)) as (c, q)))"
    if "list_all named_aircraft as" "monitor_inv q" for as c q
    using that by (induction as arbitrary: c q) (simp_all add: inv_singleShot named_timer_def)
  have "list_all named_aircraft (getAircraftInRange (me_aircraftOrder E) (mo_provider m))"
    using aircraft_named [OF inv_aircraft [OF assms]]
    by (auto simp: getAircraftInRange_def list_all_iff List.map_filter_def)
  moreover have "monitor_inv (onProvider (removeAllAircraft keys) m)" for keys
    using assms by (simp add: inv_provider aircraft_removeAll)
  ultimately show ?thesis
    by (simp add: reInitializeAllAircraft_def asyncReInitializeAllAircraft_def Let_def shots)
qed

text \<open>Positions come with a callsign, as the code asserts.\<close>

definition monitor_event_ok :: "'p monitorEvent \<Rightarrow> bool" where
  "monitor_event_ok ev = (case ev of AircraftUpdate s _ \<Rightarrow> s_callsign s \<noteq> []
     | AircraftSimDataUpdate s _ _ _ _ \<Rightarrow> s_callsign s \<noteq> [] | _ \<Rightarrow> True)"

lemma inv_timeout:
  assumes "monitor_inv m" "env_ok E" "monitor_step E (Timeout i) m = Some m1"
  shows "monitor_inv m1"
proof (cases "i < length (mo_timers m) \<and> fst (mo_timers m ! i) \<le> me_now E")
  case True
  let ?m = "m\<lparr>mo_timers := take i (mo_timers m) @ drop (Suc i) (mo_timers m)\<rparr>"
  have "set (take i (mo_timers m) @ drop (Suc i) (mo_timers m)) \<subseteq> set (mo_timers m)"
    by (auto dest: in_set_takeD in_set_dropD)
  then have "monitor_inv ?m" using assms(1) by (auto simp: monitor_inv_def)
  moreover have "named_timer (snd (mo_timers m ! i))"
    using assms(1) True nth_mem [of i "mo_timers m"] by (auto simp: monitor_inv_def case_prod_unfold)
  ultimately show ?thesis using assms True by (auto intro: inv_timer)
qed (use assms in auto)

lemma inv_monitor_step:
  assumes "monitor_inv m" "env_ok E" "monitor_event_ok ev" "monitor_step E ev m = Some m1"
  shows "monitor_inv m1"
proof (cases ev)
  case (Timeout i)
  with assms inv_timeout show ?thesis by blast
next
  case (AircraftSimDataUpdate s p os ac al)
  with assms show ?thesis by (auto simp: monitor_event_ok_def intro: inv_simData)
next
  case (CustomFSInnPacket cs al ac ct ms)
  with assms inv_fsinn show ?thesis by force
next
  case (IcaoCodes cs ac al lv)
  with assms inv_icao show ?thesis by force
qed (use assms in \<open>auto simp: monitor_event_ok_def onFrequencyReceived_def intro!: inv_intro inv_reInitialize\<close>)

lemma inv_initial: "aircraft_ok p \<Longrightarrow> monitor_inv (initialMonitor p)"
  by (simp add: monitor_inv_def initialMonitor_def stations_ok_def queue_ok_def qRound_def le_floor_iff)

lemma aircraft_empty: "aircraft_ok emptyProvider"
  by (simp add: aircraft_ok_def inv_empty) (simp add: callsigns_def emptyProvider_def)

definition monitor_machine :: "'p CAirspaceMonitor \<Rightarrow> 'p monitorEnv \<times> 'p monitorEvent \<Rightarrow> 'p CAirspaceMonitor" where
  "monitor_machine m = (\<lambda>(E, ev). if env_ok E \<and> monitor_event_ok ev
     then (case monitor_step E ev m of None \<Rightarrow> m | Some m1 \<Rightarrow> m1) else m)"

interpretation monitor: invariant_machine monitor_machine monitor_inv
  by unfold_locales (auto simp: monitor_machine_def intro: inv_monitor_step split: option.split)

lemma monitor_run_machine:
  "list_all (\<lambda>(E, ev). env_ok E \<and> monitor_event_ok ev) es \<Longrightarrow> monitor_run es m = Some m1 \<Longrightarrow> foldl monitor_machine m es = m1"
  by (induction es arbitrary: m) (auto simp: monitor_machine_def split: Option.bind_splits)

lemma monitor_run_inv:
  assumes "monitor_inv m" "list_all (\<lambda>(E, ev). env_ok E \<and> monitor_event_ok ev) es" "monitor_run es m = Some m1"
  shows "monitor_inv m1"
  using monitor.run_inv [OF assms(1), of es] monitor_run_machine [OF assms(2,3)] by simp

end
