(* ===== verification/Airspace_Matching_Laws.thy ===== *)
theory Airspace_Matching_Laws
  imports Airspace_Monitor_Runs
begin

text \<open>
  No aircraft in range is forgotten by the matching: its model was asked for, or a timer is pending
  that will do it. The relation \<open>pending_frame\<close> holds between the states before and after an
  operation that adds no aircraft and drops no such timer; most operations are in it.
\<close>

definition aircraftKeys :: "'p CAirspaceMonitor \<Rightarrow> string set" where
  "aircraftKeys m = dom (m_aircraftInRange (mo_provider m))"

definition matchingSent :: "string \<Rightarrow> 'p CAirspaceMonitor \<Rightarrow> bool" where
  "matchingSent cs m \<longleftrightarrow> (\<exists>r. m_readiness m cs = Some r \<and> wasMatchingSent r)"

definition verifyPending :: "string \<Rightarrow> 'p CAirspaceMonitor \<Rightarrow> bool" where
  "verifyPending cs m \<longleftrightarrow> (\<exists>d callsign. (d, VerifyIcaoData callsign) \<in> set (mo_timers m)
     \<and> cs_callsign callsign = cs \<and> \<not> cs_isEmpty callsign)"

definition reinitializing :: "'p CAirspaceMonitor \<Rightarrow> bool" where
  "reinitializing m \<longleftrightarrow> (\<exists>d a b. (d, ReInitializeAircraft a b) \<in> set (mo_timers m))"

definition none_forgotten :: "'p CAirspaceMonitor \<Rightarrow> bool" where
  "none_forgotten m \<longleftrightarrow> \<not> reinitializing m
     \<and> (\<forall>cs \<in> aircraftKeys m. isValidAircraftCallsign cs \<longrightarrow> matchingSent cs m \<or> verifyPending cs m)"

definition pending_frame :: "'p CAirspaceMonitor \<Rightarrow> 'p CAirspaceMonitor \<Rightarrow> bool" where
  "pending_frame m m1 \<longleftrightarrow> aircraftKeys m1 \<subseteq> aircraftKeys m
     \<and> (\<forall>cs \<in> aircraftKeys m1. isValidAircraftCallsign cs \<longrightarrow> matchingSent cs m \<longrightarrow> matchingSent cs m1)
     \<and> (\<forall>cs. verifyPending cs m \<longrightarrow> verifyPending cs m1) \<and> (reinitializing m1 \<longrightarrow> reinitializing m)"

lemma pending_refl [simp]: "pending_frame m m"
  by (simp add: pending_frame_def)

lemma frame_trans: "pending_frame m m1 \<Longrightarrow> pending_frame m1 m2 \<Longrightarrow> pending_frame m m2"
  by (auto simp: pending_frame_def)

lemma frame_forgotten: "none_forgotten m \<Longrightarrow> pending_frame m m1 \<Longrightarrow> none_forgotten m1"
  by (auto simp: none_forgotten_def pending_frame_def)

subsection \<open>What the frame does not look at\<close>

lemma frame_fields:
  assumes "aircraftKeys m1 \<subseteq> aircraftKeys m" "m_readiness m1 = m_readiness m" "mo_timers m1 = mo_timers m"
  shows "pending_frame m m1"
  using assms by (auto simp: pending_frame_def matchingSent_def verifyPending_def reinitializing_def)

lemma frame_simps [simp]:
  "pending_frame m (mo_effects_update f m)" "pending_frame m (m_flightPlanCache_update g m)"
  "pending_frame m (m_tempFsInnPackets_update k m)" "pending_frame m (m_atcStationsOnline_update ss m)"
  "pending_frame m (m_queryAtis_update q m)" "pending_frame m (m_queryPilot_update q m)"
  "pending_frame m (m_foundInNonMovingAircraft_update i m)" "pending_frame m (m_foundInElevationsOnGnd_update i m)"
  "pending_frame m (sends es m)" "pending_frame m (onClients c m)" "pending_frame m (setMaxRange r m)"
  by (rule frame_fields; simp add: aircraftKeys_def sends_def onClients_def setMaxRange_def Let_def)+

lemma frame_provider:
  "dom (m_aircraftInRange (f (mo_provider m))) \<subseteq> aircraftKeys m \<Longrightarrow> pending_frame m (onProvider f m)"
  by (rule frame_fields) (simp_all add: aircraftKeys_def onProvider_def)

lemma frame_setProvider: "dom (m_aircraftInRange p) \<subseteq> aircraftKeys m \<Longrightarrow> pending_frame m (m\<lparr>mo_provider := p\<rparr>)"
  by (rule frame_fields) (simp_all add: aircraftKeys_def)

lemma frame_singleShot: "\<forall>a b. t \<noteq> ReInitializeAircraft a b \<Longrightarrow> pending_frame m (singleShot n ms t m)"
  by (simp add: pending_frame_def singleShot_def aircraftKeys_def matchingSent_def verifyPending_def reinitializing_def) blast

lemma keys_callsigns: "dom (m_aircraftInRange p) = dom (callsigns p)"
  by (auto simp: callsigns_def dom_def)

lemma keys_provider:
  "dom (m_aircraftInRange (snd (storeAircraftSituation env b t s p))) = dom (m_aircraftInRange p)"
  "dom (m_aircraftInRange (storeAircraftParts env t cs parts b p)) = dom (m_aircraftInRange p)"
  "dom (m_aircraftInRange (sendSignal sig p)) = dom (m_aircraftInRange p)"
  by (simp_all add: keys_callsigns)

lemma keys_update [simp]:
  "dom (m_aircraftInRange (snd (updateAircraftInRange G decrypt cs vm skip p))) = dom (m_aircraftInRange p)"
  by (auto simp: updateAircraftInRange_def sendSignal_def Let_def split: option.splits prod.splits)

lemma keys_updateAircraft [simp]: "dom (m_aircraftInRange (snd (updateAircraft cs f p))) = dom (m_aircraftInRange p)"
  by (auto simp: updateAircraft_def split: option.splits prod.splits)

lemma keys_remove: "dom (m_aircraftInRange (snd (removeAircraft cs p))) = dom (m_aircraftInRange p) - {cs}"
  by (auto simp: removeAircraft_def)

lemma keys_packet: "dom (m_aircraftInRange (storeAircraftPartsPacket env t cs packet ms p)) = dom (m_aircraftInRange p)"
  by (simp add: storeAircraftPartsPacket_def Let_def keys_provider)

subsection \<open>Readiness\<close>

unbundle bit_operations_syntax

lemma flags_kept: "r AND k = k \<Longrightarrow> (r OR x) AND k = k" for k :: "32 word"
  by (simp add: bit_eq_iff bit_and_iff bit_or_iff) blast

lemma sent_addFlag [simp]: "wasMatchingSent r \<Longrightarrow> wasMatchingSent (addFlag n flag r)"
  by (simp add: wasMatchingSent_def readiness_testFlag_def addFlag_def flags_kept)

lemma sent_setFlag [simp]: "wasMatchingSent (readiness_setFlag n ReadyForMatchingSent r)"
  by (simp add: wasMatchingSent_def readiness_testFlag_def readiness_setFlag_def addFlag_def)

lemma readinessOf_set [simp]: "readinessOf callsign (setReadiness callsign (Some r) m) = r"
  by (simp add: readinessOf_def setReadiness_def)

lemma sent_readinessOf: "matchingSent (cs_callsign callsign) m \<longleftrightarrow> wasMatchingSent (readinessOf callsign m)"
  by (auto simp: matchingSent_def readinessOf_def wasMatchingSent_def readiness_testFlag_def Readiness_default_def split: option.split)

lemma frame_setReadiness:
  assumes "matchingSent (cs_callsign callsign) m \<Longrightarrow> cs_callsign callsign \<in> aircraftKeys m
      \<Longrightarrow> isValidAircraftCallsign (cs_callsign callsign) \<Longrightarrow> \<exists>r. v = Some r \<and> wasMatchingSent r"
  shows "pending_frame m (setReadiness callsign v m)"
proof -
  have "aircraftKeys (setReadiness callsign v m) = aircraftKeys m" "mo_timers (setReadiness callsign v m) = mo_timers m"
    by (simp_all add: aircraftKeys_def setReadiness_def)
  then show ?thesis
    using assms by (auto simp: pending_frame_def verifyPending_def reinitializing_def)
      (auto simp: matchingSent_def setReadiness_def)
qed

lemma frame_addReadiness: "pending_frame m (addMatchingReadinessFlag E callsign mrf m)"
  unfolding addMatchingReadinessFlag_def by (rule frame_setReadiness) (simp add: sent_readinessOf)

lemma valid_getAircraft:
  assumes "monitor_inv m"
  shows "aircraft_hasValidCallsign (getAircraftInRangeForCallsign cs (mo_provider m))
    \<longleftrightarrow> cs \<in> aircraftKeys m \<and> isValidAircraftCallsign cs"
proof (cases "m_aircraftInRange (mo_provider m) cs")
  case None
  have "\<not> isValidAircraftCallsign []" by (simp add: isValidAircraftCallsign_def)
  with None show ?thesis
    by (auto simp: getAircraftInRangeForCallsign_def aircraft_hasValidCallsign_def CSimulatedAircraft_default_def aircraftKeys_def)
next
  case (Some a)
  with aircraft_named [OF inv_aircraft [OF assms] Some] show ?thesis
    by (auto simp: getAircraftInRangeForCallsign_def aircraft_hasValidCallsign_def aircraftKeys_def)
qed

lemma frame_sendReady:
  assumes "monitor_inv m"
  shows "pending_frame m (sendReadyForModelMatching E callsign rf m)"
proof -
  let ?m1 = "addMatchingReadinessFlag E callsign rf m"
  note m1 = frame_addReadiness [of m E callsign rf]
  have inv: "monitor_inv ?m1" using assms by simp
  have shot: "pending_frame ?m1 (singleShot n ms (CheckMatchingAgain callsign rf) ?m1)" for n ms
    by (rule frame_singleShot) simp
  have sent: "pending_frame ?m1 (sends es (setReadiness callsign (Some (readiness_setFlag n ReadyForMatchingSent r)) ?m1))" for es n r
    by (rule frame_trans [OF frame_setReadiness frame_simps(9)]) simp
  have removed: "pending_frame ?m1 (setReadiness callsign None ?m1)"
    if "\<not> aircraft_hasValidCallsign (getAircraftInRangeForCallsign (cs_callsign callsign) (mo_provider ?m1))"
    using that valid_getAircraft [OF inv, of "cs_callsign callsign"] by (intro frame_setReadiness) auto
  show ?thesis
    using m1 frame_trans [OF m1 shot] frame_trans [OF m1 sent] frame_trans [OF m1 removed]
    by (simp add: sendReadyForModelMatching_def Let_def)
qed

text \<open>The call after a verification sends, when the aircraft is there and the client connected.\<close>

lemma verified_sends:
  assumes "monitor_inv m" "isConnectedAndNotShuttingDown E"
    and "cs_callsign callsign \<in> aircraftKeys m" "isValidAircraftCallsign (cs_callsign callsign)"
  shows "matchingSent (cs_callsign callsign) (sendReadyForModelMatching E callsign Verified m)"
proof -
  let ?m1 = "addMatchingReadinessFlag E callsign Verified m"
  have "aircraft_hasValidCallsign (getAircraftInRangeForCallsign (cs_callsign callsign) (mo_provider ?m1))"
    using assms valid_getAircraft [of ?m1 "cs_callsign callsign"]
    by (simp add: aircraftKeys_def addMatchingReadinessFlag_def setReadiness_def)
  then show ?thesis
    using assms(2) by (simp add: sendReadyForModelMatching_def Let_def sent_readinessOf)
      (simp add: readinessOf_def sends_def setReadiness_def)
qed

lemma verify_progress:
  assumes "monitor_inv m" "isConnectedAndNotShuttingDown E" "\<not> cs_isEmpty callsign"
    and "cs_callsign callsign \<in> aircraftKeys m" "isValidAircraftCallsign (cs_callsign callsign)"
  shows "matchingSent (cs_callsign callsign) (verifyReceivedIcaoData E callsign m)
      \<or> verifyPending (cs_callsign callsign) (verifyReceivedIcaoData E callsign m)"
proof -
  have range: "mo_isAircraftInRange callsign m"
    using assms(4,5) by (auto simp: isValidAircraftCallsign_def mo_isAircraftInRange_def isAircraftInRange_def aircraftKeys_def)
  have keys: "aircraftKeys (setReadiness callsign v q) = aircraftKeys q" for v q
    by (simp add: aircraftKeys_def setReadiness_def)
  have sends: "matchingSent (cs_callsign callsign)
      (sendReadyForModelMatching E callsign Verified (setReadiness callsign v q))"
    if "monitor_inv q" "aircraftKeys q = aircraftKeys m" for v q
    using that assms by (intro verified_sends) (simp_all add: keys)
  have pend: "verifyPending (cs_callsign callsign) (singleShot n ms (VerifyIcaoData callsign) q)" for n ms q
    using assms(3) by (auto simp: verifyPending_def singleShot_def)
  show ?thesis
    using range assms(1,3) sends
    by (simp add: verifyReceivedIcaoData_def Let_def sent_readinessOf keys pend)
qed

subsection \<open>The operations that are in the frame\<close>

lemma frame_verify:
  assumes "monitor_inv m"
  shows "pending_frame m (verifyReceivedIcaoData E callsign m)"
proof -
  let ?r = "readinessOf callsign m"
  have set: "pending_frame m (setReadiness callsign (Some ?r) m)"
    by (rule frame_setReadiness) (simp add: sent_readinessOf)
  have add: "pending_frame m (setReadiness callsign (Some (addFlag n Verified ?r)) (setReadiness callsign (Some ?r) m))" for n
    by (rule frame_trans [OF set], rule frame_setReadiness) (simp add: sent_readinessOf)
  have shot: "pending_frame q (singleShot n ms (VerifyIcaoData callsign) (sendInitialPilotQueries E callsign True True q))"
    for n ms q
    by (rule frame_trans [OF _ frame_singleShot]) (simp_all add: sendInitialPilotQueries_def)
  have ready: "pending_frame q (sendReadyForModelMatching E callsign Verified q)" if "monitor_inv q" for q
    using that by (rule frame_sendReady)
  show ?thesis
    using assms set add frame_trans [OF add shot] frame_trans [OF add ready] frame_trans [OF set ready]
    by (simp add: verifyReceivedIcaoData_def Let_def)
qed

lemma frame_handleMaxRange: "pending_frame m (snd (handleMaxRange E s m))"
proof -
  have "pending_frame m (onProvider (\<lambda>p. snd (removeAircraft cs p)) m)" for cs
    by (rule frame_provider) (auto simp only: keys_remove aircraftKeys_def)
  then show ?thesis by (simp add: handleMaxRange_def Let_def)
qed

lemma frame_guess: "guessElevation E s history change m t = (s1, m1) \<Longrightarrow> pending_frame m m1"
  by (auto simp: guessElevation_def Let_def split: if_splits list.splits)

lemma frame_findElevation: "findElevation E s c m = (s1, request, skip, m1) \<Longrightarrow> pending_frame m m1"
  by (auto simp: findElevation_def Let_def split: if_splits prod.splits dest: frame_guess)

lemma frame_storeSituation: "pending_frame m (snd (mo_storeAircraftSituation E s b m))"
proof (cases "s_callsign s = []")
  case False
  let ?c = "if b then addTestAltitudeOffsetToSituation (mo_provider m) s else s"
  obtain c1 request skip m1 where f: "findElevation E s ?c m = (c1, request, skip, m1)" by (metis prod_cases4)
  have "pending_frame m1 (m1\<lparr>mo_provider := snd (storeAircraftSituation (me_provider E) False (me_now E) t (mo_provider m1))\<rparr>)" for t
    by (rule frame_setProvider) (simp add: keys_provider aircraftKeys_def)
  note stored = frame_trans [OF frame_findElevation [OF f] this]
  then have "pending_frame m (m1\<lparr>mo_provider := snd (storeAircraftSituation (me_provider E) False (me_now E) t (mo_provider m1))\<rparr>)"
    "pending_frame m (sends es (m1\<lparr>mo_provider := snd (storeAircraftSituation (me_provider E) False (me_now E) t (mo_provider m1))\<rparr>))"
    for t es
    using stored frame_trans [OF stored frame_simps(9)] by blast+
  with False f show ?thesis by (simp add: mo_storeAircraftSituation_def Let_def case_prod_unfold)
qed (simp add: mo_storeAircraftSituation_def)

lemma frame_updateAircraft [simp]: "pending_frame m (mo_updateAircraftInRange E callsign vm m)"
  unfolding mo_updateAircraftInRange_def by (rule frame_provider) (simp add: aircraftKeys_def)

lemma frame_interim:
  "pending_frame m (onAircraftInterimUpdateReceived E s m)"
  "pending_frame m (onAircraftVisualUpdateReceived E s m)"
proof -
  have up: "pending_frame q (onProvider (\<lambda>p. snd (updateAircraftInRangeDistanceBearing cs t d b p)) q)" for cs t d b and q :: "'a CAirspaceMonitor"
    by (rule frame_provider) (simp add: aircraftKeys_def updateAircraftInRangeDistanceBearing_def)
  show "pending_frame m (onAircraftInterimUpdateReceived E s m)" "pending_frame m (onAircraftVisualUpdateReceived E s m)"
    using frame_storeSituation frame_trans [OF frame_storeSituation up]
    by (auto simp: onAircraftInterimUpdateReceived_def onAircraftVisualUpdateReceived_def Let_def split: option.split)
qed

lemma frame_config: "pending_frame m (onAircraftConfigReceived E callsign packet ms m)"
proof -
  have "pending_frame m (onProvider (storeAircraftPartsPacket (me_provider E) (me_now E) (cs_callsign callsign) packet ms) m)"
    by (rule frame_provider) (simp add: aircraftKeys_def keys_packet)
  then show ?thesis by (auto simp: onAircraftConfigReceived_def Let_def intro: frame_trans)
qed

lemma frame_twice [simp]: "pending_frame m (onClients c (onClients d m))"
  by (rule frame_trans [OF frame_simps(10) frame_simps(10)])

lemma frame_lookup:
  "reverseLookupModelWithFlightplanData E callsign ac al lv ms type m = Some (model, m1) \<Longrightarrow> pending_frame m m1"
  by (auto simp: reverseLookupModelWithFlightplanData_def lookupWithoutScript_def Let_def markByLivery_def
      split: Option.bind_splits if_splits)

lemma frame_addOrUpdate:
  assumes "addOrUpdateAircraftInRange E callsign ac al lv ms type m = Some m1"
  shows "pending_frame m m1"
proof -
  have "pending_frame q (onProvider (\<lambda>p. snd (updateAircraftNetworkModel G d sk cs mo (snd (updateAircraftModel G d sk cs mo p)))) q)"
    for G d sk cs mo and q :: "'a CAirspaceMonitor"
    by (rule frame_provider) (simp add: aircraftKeys_def updateAircraftNetworkModel_def updateAircraftModel_def case_prod_unfold)
  with assms show ?thesis
    by (auto simp: addOrUpdateAircraftInRange_def Let_def split: Option.bind_splits if_splits
        dest!: frame_lookup intro: frame_trans)
qed

lemma frame_removeCaches:
  assumes "cs_callsign callsign = cs"
  shows "pending_frame m (snd (let m1 = removeFromAircraftCachesAndLogs callsign m
    in ((), m1\<lparr>mo_provider := snd (removeAircraft cs (mo_provider m1))\<rparr>)))"
  using assms
  by (auto simp: removeFromAircraftCachesAndLogs_def Let_def pending_frame_def aircraftKeys_def keys_remove onProvider_def
      matchingSent_def verifyPending_def reinitializing_def removeReverseLookupMessages_def)

lemma frame_pilotDisconnected: "pending_frame m (onPilotDisconnected E callsign m)"
proof -
  let ?m1 = "removeFromAircraftCachesAndLogs callsign m"
  let ?m2 = "?m1\<lparr>mo_provider := snd (removeAircraft (cs_callsign callsign) (mo_provider ?m1))\<rparr>"
  let ?m3 = "onClients (\<lambda>c. snd (removeClient callsign c)) ?m2"
  have "pending_frame m ?m2" using frame_removeCaches [of callsign "cs_callsign callsign" m] by (simp add: Let_def)
  then have m3: "pending_frame m ?m3" by (rule frame_trans) (rule frame_simps(10))
  have "pending_frame ?m3 (onProvider (sendSignal sig) ?m3)" for sig
    by (rule frame_provider) (simp only: aircraftKeys_def keys_provider order_refl)
  from m3 frame_trans [OF m3 this] show ?thesis
    by (simp add: onPilotDisconnected_def Let_def case_prod_unfold)
qed

subsection \<open>Packets and timers\<close>

lemma frame_fsinn:
  assumes "monitor_inv m" "onCustomFSInnPacketReceived E callsign al ac ct ms m = Some m1"
  shows "pending_frame m m1"
proof -
  let ?m1 = "onClients (\<lambda>c. snd (updateOrAddClient (me_decrypt E) callsign [IndexModelString ms] True c)) m"
  let ?m2 = "addMatchingReadinessFlag E callsign ReceivedFsInnPacket ?m1"
  have i1: "monitor_inv ?m1" using assms(1) by (intro inv_clients clients_update inv_keyed)
  have f2: "pending_frame m ?m2" by (rule frame_trans [OF frame_simps(10) frame_addReadiness])
  have ready: "pending_frame m (sendReadyForModelMatching E callsign ReceivedFsInnPacket q)"
    if "monitor_inv q" "pending_frame m q" for q
    using that by (blast intro: frame_trans frame_sendReady)
  have "pending_frame m (sendReadyForModelMatching E callsign ReceivedFsInnPacket q)"
    if "addOrUpdateAircraftInRange E callsign ac al [] u TypeFSInnData ?m2 = Some q" for u q
    using that i1 by (intro ready inv_addOrUpdate [OF _ that] frame_trans [OF f2 frame_addOrUpdate]) simp_all
  moreover have "pending_frame m (sendReadyForModelMatching E callsign ReceivedFsInnPacket ?m2)"
    using i1 f2 by (intro ready) simp_all
  ultimately show ?thesis
    using assms(2) by (auto simp: onCustomFSInnPacketReceived_def Let_def split: if_splits)
qed

lemma frame_icao:
  assumes "monitor_inv m" "onIcaoCodesReceived E callsign ac al lv m = Some m1"
  shows "pending_frame m m1"
proof -
  have "pending_frame m (sends es (sendReadyForModelMatching E callsign ReceivedIcaoCodes q))"
    if "addOrUpdateAircraftInRange E callsign ac al lv ms TypeQueriedFromNetwork m = Some q" for es ms q
    using frame_trans [OF frame_trans [OF frame_addOrUpdate [OF that] frame_sendReady [OF inv_addOrUpdate [OF assms(1) that]]]
        frame_simps(9)] .
  with assms(2) show ?thesis by (auto simp: onIcaoCodesReceived_def Let_def split: if_splits)
qed

lemma frame_checkAgain:
  assumes "monitor_inv m" "onCheckMatchingAgain E callsign rf m = Some m1"
  shows "pending_frame m m1"
proof -
  have recall: "pending_frame m q" if "recallFsInnPacket E callsign m = Some (b, q)" for b q
  proof (cases "m_tempFsInnPackets m (cs_callsign callsign)")
    case (Some packet)
    let ?m = "m\<lparr>m_tempFsInnPackets := (m_tempFsInnPackets m)(cs_callsign callsign := None)\<rparr>"
    from that Some have "onCustomFSInnPacketReceived E callsign (fi_airlineIcaoDesignator packet)
        (fi_aircraftIcaoDesignator packet) (fi_combinedCode packet) (fi_modelString packet) ?m = Some q"
      by (auto simp: recallFsInnPacket_def)
    then have "pending_frame ?m q" by (rule frame_fsinn [rotated]) (simp add: assms(1))
    then show ?thesis by (rule frame_trans [OF frame_simps(3)])
  qed (use that in \<open>simp add: recallFsInnPacket_def\<close>)
  have "pending_frame m (sendReadyForModelMatching E callsign RecursiveCall q)"
    if "recallFsInnPacket E callsign m = Some (b, q)" for b q
    using recall [OF that] inv_recall [OF assms(1) that] frame_sendReady by (blast intro: frame_trans)
  with assms(2) recall show ?thesis
    by (auto simp: onCheckMatchingAgain_def assms(1) frame_sendReady split: if_splits Option.bind_splits)
qed

lemma keys_add:
  "aircraftKeys (m\<lparr>mo_provider := snd (addNewAircraftInRange a (mo_provider m))\<rparr>) \<subseteq> insert (ra_callsign a) (aircraftKeys m)"
  by (auto simp: aircraftKeys_def addNewAircraftInRange_def sendSignal_def split: if_splits)

lemma keys_add_refused:
  "\<not> fst (addNewAircraftInRange a p) \<Longrightarrow> m_aircraftInRange (snd (addNewAircraftInRange a p)) = m_aircraftInRange p"
  by (auto simp: addNewAircraftInRange_def split: if_splits)

text \<open>A new aircraft has its timer.\<close>

lemma forgotten_one_more:
  assumes "none_forgotten m" "aircraftKeys q \<subseteq> insert k (aircraftKeys m)" "\<not> reinitializing q"
    and "\<And>cs. matchingSent cs q = matchingSent cs m" "\<And>cs. verifyPending cs m \<Longrightarrow> verifyPending cs q" "verifyPending k q"
  shows "none_forgotten q"
  using assms unfolding none_forgotten_def by blast

lemma forgotten_addNew:
  assumes "none_forgotten m" "env_ok E" "named_aircraft a" "\<not> cs_isEmpty (aircraft_getCallsign a)"
  shows "none_forgotten (snd (mo_addNewAircraftInRange E a m))"
proof -
  let ?a1 = "a\<lparr>ra_rendered := False,
    ra_relativeDistance := calculateGreatCircleDistance (monitorGeo E) (s_position (ra_situation a)) (ownPosition E),
    ra_relativeBearing := calculateBearing (me_surface E) (s_position (ra_situation a)) (ownPosition E)\<rparr>"
  let ?a2 = "if connectedToVatsim E then me_dataFileAircraft E ?a1 else ?a1"
  let ?m1 = "m\<lparr>mo_provider := snd (addNewAircraftInRange ?a2 (mo_provider m))\<rparr>"
  let ?m2 = "singleShot (me_now E) MMVerifyMs (VerifyIcaoData (aircraft_getCallsign a)) ?m1"
  have name: "ra_callsign ?a2 = ra_callsign a" using assms(2) by (simp add: env_ok_def)
  have own: "verifyPending (ra_callsign a) ?m2"
    using assms(3,4) by (auto simp: verifyPending_def singleShot_def named_aircraft_def aircraft_getCallsign_def)
  have "aircraftKeys ?m2 \<subseteq> insert (ra_callsign a) (aircraftKeys m)"
    using keys_add [of ?a2 m] name by (simp add: aircraftKeys_def singleShot_def)
  moreover have "\<not> reinitializing ?m2" "matchingSent cs ?m2 = matchingSent cs m" "verifyPending cs m \<Longrightarrow> verifyPending cs ?m2" for cs
    using assms(1) by (auto simp: none_forgotten_def reinitializing_def matchingSent_def verifyPending_def singleShot_def)
  ultimately have m2: "none_forgotten ?m2" using own by (intro forgotten_one_more [OF assms(1)])
  have cg: "pending_frame q (onProvider (\<lambda>p. rememberCGFromDB c cs (rememberCGFromDBForModelString c ms p)) q)" for c cs ms
    and q :: "'a CAirspaceMonitor"
    by (rule frame_provider) (simp add: aircraftKeys_def rememberCGFromDB_def rememberCGFromDBForModelString_def)
  have "pending_frame m ?m1" if "\<not> fst (addNewAircraftInRange ?a2 (mo_provider m))"
    using keys_add_refused [OF that] by (intro frame_setProvider) (simp add: aircraftKeys_def)
  note refused = frame_forgotten [OF assms(1) this]
  show ?thesis
    using assms(1) m2 refused frame_forgotten [OF m2 cg]
    by (simp add: mo_addNewAircraftInRange_def Let_def case_prod_unfold)
qed

lemma forgotten_update:
  assumes "none_forgotten m" "env_ok E" "s_callsign s \<noteq> []"
  shows "none_forgotten (onAircraftUpdateReceived E s t m)"
proof -
  let ?m1 = "snd (handleMaxRange E s m)"
  let ?m2 = "onClients (\<lambda>c. snd (autoAdjustCientGndCapability s c)) ?m1"
  let ?m3 = "snd (mo_storeAircraftSituation E s True ?m2)"
  have m1: "none_forgotten ?m1" using assms(1) frame_handleMaxRange by (rule frame_forgotten)
  have m3: "none_forgotten ?m3" using m1 frame_trans [OF frame_simps(10) frame_storeSituation] by (rule frame_forgotten)
  let ?m4 = "snd (mo_addNewAircraftInRange E (newAircraft (situationCallsign s) s t) ?m3)"
  have m4: "none_forgotten ?m4" using m3 assms(2) named_newAircraft [OF assms(3)]
    by (rule forgotten_addNew)
       (use assms(3) in \<open>simp add: newAircraft_def setSituation_def aircraft_setCallsign_def situationCallsign_def
          aircraft_getCallsign_def cs_isEmpty_def\<close>)
  have "pending_frame ?m4 (sendInitialPilotQueries E (situationCallsign s) True b ?m4)" for b
    by (simp add: sendInitialPilotQueries_def)
  then have m5: "none_forgotten (onClients (\<lambda>c. snd (addNewClient (mkClient (situationCallsign s) []) c))
      (sendInitialPilotQueries E (situationCallsign s) True b ?m4))" for b
    using m4 by (blast intro: frame_forgotten frame_trans frame_simps(10))
  show ?thesis
    using assms(1) m1 m5 frame_forgotten [OF m3 frame_updateAircraft]
    by (simp add: onAircraftUpdateReceived_def Let_def case_prod_unfold)
qed

text \<open>A timer that is due: the verification of one aircraft may end, its model is asked for then.\<close>

lemma forgotten_timeout:
  assumes inv: "monitor_inv m" and all: "none_forgotten m" and E: "isConnectedAndNotShuttingDown E"
    and run: "monitor_step E (Timeout i) m = Some m1"
  shows "none_forgotten m1"
proof (cases "i < length (mo_timers m) \<and> fst (mo_timers m ! i) \<le> me_now E")
  case True
  let ?q = "m\<lparr>mo_timers := take i (mo_timers m) @ drop (Suc i) (mo_timers m)\<rparr>"
  let ?t = "snd (mo_timers m ! i)"
  have whole: "set (mo_timers m) = insert (mo_timers m ! i) (set (mo_timers ?q))"
    using True by (subst id_take_nth_drop [of i "mo_timers m"]) auto
  have q: "monitor_inv ?q" using inv whole by (auto simp: monitor_inv_def)
  have same: "aircraftKeys ?q = aircraftKeys m" "matchingSent cs ?q = matchingSent cs m" for cs
    by (simp_all add: aircraftKeys_def matchingSent_def)
  have other: "verifyPending cs ?q"
    if "verifyPending cs m" "\<And>callsign. ?t = VerifyIcaoData callsign \<Longrightarrow> cs_callsign callsign = cs \<Longrightarrow> cs_isEmpty callsign" for cs
  proof -
    from that(1) obtain d callsign where c: "(d, VerifyIcaoData callsign) \<in> set (mo_timers m)"
      "cs_callsign callsign = cs" "\<not> cs_isEmpty callsign" by (auto simp: verifyPending_def)
    with that(2) [of callsign] have "mo_timers m ! i \<noteq> (d, VerifyIcaoData callsign)" by auto
    with c whole show ?thesis by (auto simp: verifyPending_def)
  qed
  have quiet: "\<not> reinitializing ?q" "\<And>a b. ?t \<noteq> ReInitializeAircraft a b"
    using all whole by (auto simp: none_forgotten_def reinitializing_def) (metis prod.collapse)
  have timer: "onTimer E ?t ?q = Some m1" using run True by simp
  show ?thesis
  proof (cases ?t)
    case (CheckMatchingAgain callsign rf)
    with all other quiet(1) have "none_forgotten ?q" by (auto simp: none_forgotten_def same)
    moreover have "pending_frame ?q m1" using timer CheckMatchingAgain q by (auto intro: frame_checkAgain)
    ultimately show ?thesis by (rule frame_forgotten)
  next
    case (VerifyIcaoData callsign)
    have m1: "m1 = verifyReceivedIcaoData E callsign ?q"
      using timer VerifyIcaoData E by (auto simp: isConnectedAndNotShuttingDown_def)
    have frame: "pending_frame ?q m1" unfolding m1 using q by (rule frame_verify)
    have "matchingSent cs m1 \<or> verifyPending cs m1" if cs: "cs \<in> aircraftKeys m1" "isValidAircraftCallsign cs" for cs
    proof (cases "cs_callsign callsign = cs \<and> \<not> cs_isEmpty callsign")
      case True
      from cs(1) frame have "cs \<in> aircraftKeys ?q" by (auto simp: pending_frame_def)
      with True cs(2) show ?thesis unfolding m1 using verify_progress [OF q E, of callsign] by blast
    next
      case False
      from cs(1) frame have "cs \<in> aircraftKeys m" by (auto simp: pending_frame_def same)
      with cs(2) all consider "matchingSent cs m" | "verifyPending cs m" by (auto simp: none_forgotten_def)
      then show ?thesis
      proof cases
        case 1
        with frame cs show ?thesis by (auto simp: pending_frame_def same)
      next
        case 2
        with False VerifyIcaoData have "verifyPending cs ?q" by (intro other) auto
        with frame show ?thesis by (auto simp: pending_frame_def)
      qed
    qed
    moreover have "\<not> reinitializing m1" using frame quiet(1) by (auto simp: pending_frame_def)
    ultimately show ?thesis by (simp add: none_forgotten_def)
  next
    case (ReInitializeAircraft a b)
    with quiet(2) show ?thesis by blast
  qed
qed (use all run in auto)

subsection \<open>Every event\<close>

lemma pending_stations [simp]:
  "pending_frame m (getAtcStationsOnlineRecalculated E m)" "pending_frame m (queryAllOnlineAtcStations E m)"
  "pending_frame m (snd (updateOnlineStation E callsign vm skip b m))" "pending_frame m (removeAllOnlineAtcStations m)"
  by (auto simp: getAtcStationsOnlineRecalculated_def queryAllOnlineAtcStations_def updateOnlineStation_def Let_def sends_def
      removeAllOnlineAtcStations_def aircraftKeys_def case_prod_unfold intro!: frame_fields)

lemma frame_queries [simp]:
  "pending_frame m (requestAircraftDataUpdates E m)" "pending_frame m (requestAtisUpdates E m)"
  "pending_frame m (fastProcessing E m)" "pending_frame m (slowProcessing E m)"
  "pending_frame m (onFlightPlanReceived E callsign fp m)"
  by (auto simp: requestAircraftDataUpdates_def requestAtisUpdates_def slowProcessing_def onFlightPlanReceived_def
      fastProcessing_def sendNextStaggeredAtisQuery_def sendNextStaggeredPilotDataQuery_def Let_def sends_def
      aircraftKeys_def mo_isAircraftInRange_def intro!: frame_fields split: list.split)

lemma frame_atc [simp]:
  "pending_frame m (onAtcPositionUpdate E callsign f pos r m)" "pending_frame m (onAtcControllerDisconnected E callsign m)"
  "pending_frame m (onAtisReceived E callsign msg m)" "pending_frame m (onAtisLogoffTimeReceived E callsign z m)"
  by (auto simp: onAtcPositionUpdate_def onAtcControllerDisconnected_def onAtisReceived_def onAtisLogoffTimeReceived_def
      Let_def sends_def onClients_def getAtcStationsOnlineRecalculated_def sendInitialAtcQueries_def aircraftKeys_def
      updateOnlineStation_def case_prod_unfold intro!: frame_fields split: option.split)

lemma frame_replies [simp]:
  "pending_frame m (updateClient E callsign vm skip m)" "pending_frame m (onCapabilitiesReplyReceived E callsign caps m)"
  "pending_frame m (onServerReplyReceived E callsign server m)" "pending_frame m (onReceivedVatsimDataFile E m)"
  by (auto simp: updateClient_def onCapabilitiesReplyReceived_def onServerReplyReceived_def onReceivedVatsimDataFile_def
      Let_def sends_def onClients_def aircraftKeys_def intro!: frame_fields)

lemma frame_realName: "pending_frame m (onRealNameReplyReceived E callsign n m)"
proof -
  have step: "pending_frame m (updateClient E callsign vm skip q)" if "pending_frame m q" for vm skip q
    using that by (rule frame_trans) simp
  have "pending_frame m (mo_updateAircraftInRange E callsign vm q)" if "pending_frame m q" for vm q
    using that by (rule frame_trans) simp
  then show ?thesis by (auto simp: onRealNameReplyReceived_def Let_def case_prod_unfold intro!: step)
qed

lemma frame_fastPosition: "pending_frame m (snd (mo_updateFastPositionEnabled E callsign b m))"
proof -
  have "pending_frame m (m\<lparr>mo_provider := snd (updateFastPositionEnabled (cs_callsign callsign) b (mo_provider m))\<rparr>)"
    by (rule frame_setProvider) (simp add: aircraftKeys_def updateFastPositionEnabled_def)
  from this frame_trans [OF this frame_simps(9)] show ?thesis
    by (simp add: mo_updateFastPositionEnabled_def Let_def case_prod_unfold)
qed

lemma keys_removeAll: "dom (m_aircraftInRange (removeAllAircraft css p)) = {}"
proof -
  have "m_aircraftInRange (fold (\<lambda>cs. sendSignal (removedAircraft cs)) css q) = m_aircraftInRange q" for q :: "'a CRemoteAircraftProvider"
    by (induction css arbitrary: q) (simp_all add: sendSignal_def)
  then show ?thesis by (simp add: removeAllAircraft_def)
qed

lemma frame_connection: "pending_frame m (mo_onConnectionStatusChanged E st m)"
proof -
  have "pending_frame m (clearMonitor E q)" if "mo_timers q = mo_timers m" for q
    using that
    by (simp add: pending_frame_def clearMonitor_def mo_removeAllAircraft_def aircraftKeys_def onClients_def onProvider_def
        removeAllOnlineAtcStations_def keys_removeAll verifyPending_def reinitializing_def)
  then show ?thesis
    by (simp add: mo_onConnectionStatusChanged_def Let_def)
qed

text \<open>
  Timers expire when the client is connected, and the aircraft are not initialized again: these are
  the events for which nothing is forgotten.
\<close>

definition matching_event :: "'p monitorEnv \<Rightarrow> 'p monitorEvent \<Rightarrow> bool" where
  "matching_event E ev \<longleftrightarrow> env_ok E \<and> monitor_event_ok ev
     \<and> (case ev of Timeout _ \<Rightarrow> isConnectedAndNotShuttingDown E | ReInitializeAll \<Rightarrow> False | _ \<Rightarrow> True)"

lemma forgotten_step:
  assumes "monitor_inv m" "none_forgotten m" "matching_event E ev" "monitor_step E ev m = Some m1"
  shows "none_forgotten m1"
proof -
  note ok = assms(3) [unfolded matching_event_def]
  show ?thesis
  proof (cases ev)
    case (AircraftUpdate s t)
    with assms ok show ?thesis by (auto simp: monitor_event_ok_def intro: forgotten_update)
  next
    case (AircraftSimDataUpdate s p os ac al)
    have i: "monitor_inv (onAircraftUpdateReceived E s t m)" and f: "none_forgotten (onAircraftUpdateReceived E s t m)" for t
      using assms(1,2) ok AircraftSimDataUpdate by (auto simp: monitor_event_ok_def intro: forgotten_update inv_aircraftUpdate)
    have "none_forgotten (onAircraftConfigReceived E cs p os q)" if "none_forgotten q" for cs q
      using that frame_config by (rule frame_forgotten)
    with assms(4) AircraftSimDataUpdate f show ?thesis
      by (auto simp: onAircraftSimDataUpdateReceived_def Let_def split: if_splits
          dest!: frame_icao [OF i] frame_forgotten [OF f])
  next
    case (Timeout i)
    with assms ok show ?thesis by (auto intro: forgotten_timeout)
  next
    case (CustomFSInnPacket cs al ac ct ms)
    with assms frame_fsinn show ?thesis by (force intro: frame_forgotten)
  next
    case (IcaoCodes cs ac al lv)
    with assms frame_icao show ?thesis by (force intro: frame_forgotten)
  qed (use assms(2,4) ok in \<open>auto simp: onFrequencyReceived_def frame_interim frame_config frame_pilotDisconnected
      frame_fastPosition frame_realName frame_connection intro: frame_forgotten\<close>)
qed

definition matching_machine :: "'p CAirspaceMonitor \<Rightarrow> 'p monitorEnv \<times> 'p monitorEvent \<Rightarrow> 'p CAirspaceMonitor" where
  "matching_machine m = (\<lambda>(E, ev). if matching_event E ev
     then (case monitor_step E ev m of None \<Rightarrow> m | Some m1 \<Rightarrow> m1) else m)"

interpretation matching: invariant_machine matching_machine "\<lambda>m. monitor_inv m \<and> none_forgotten m"
  by unfold_locales
     (auto simp: matching_machine_def matching_event_def intro: inv_monitor_step split: option.split
       dest: forgotten_step [unfolded matching_event_def])

lemma matching_run:
  "list_all (\<lambda>(E, ev). matching_event E ev) es \<Longrightarrow> monitor_run es m = Some m1 \<Longrightarrow> foldl matching_machine m es = m1"
  by (induction es arbitrary: m) (auto simp: matching_machine_def split: Option.bind_splits)

end
