(* ===== verification/Airspace_Monitor_Facts.thy ===== *)
theory Airspace_Monitor_Facts
  imports Airspace_Matching_Laws
begin

text \<open>
  Single operations of the airspace monitor: what two verifications do, what is left after a
  disconnection, which aircraft are let in by distance, and how long the queues of queries last.
\<close>

subsection \<open>Two verifications ask for the model\<close>

definition asksFor :: "string \<Rightarrow> 'p CAirspaceMonitor \<Rightarrow> 'p CAirspaceMonitor \<Rightarrow> bool" where
  "asksFor cs m m1 \<longleftrightarrow> (\<exists>es a. mo_effects m1 = mo_effects m @ es \<and> ReadyForModelMatching a \<in> set es \<and> ra_callsign a = cs)"

unbundle bit_operations_syntax

lemma sent_verified: "wasMatchingSent (addFlag n Verified r) = wasMatchingSent r"
  by (simp add: wasMatchingSent_def readiness_testFlag_def addFlag_def bit.conj_disj_distrib2)

lemma verified_asks:
  assumes "monitor_inv m" "isConnectedAndNotShuttingDown E" "\<not> matchingSent (cs_callsign callsign) m"
    and "cs_callsign callsign \<in> aircraftKeys m" "isValidAircraftCallsign (cs_callsign callsign)"
  shows "asksFor (cs_callsign callsign) m (sendReadyForModelMatching E callsign Verified m)"
proof -
  let ?m1 = "addMatchingReadinessFlag E callsign Verified m"
  let ?a = "getAircraftInRangeForCallsign (cs_callsign callsign) (mo_provider ?m1)"
  have provider: "mo_provider ?m1 = mo_provider m" "mo_effects ?m1 = mo_effects m"
    by (simp_all add: addMatchingReadinessFlag_def setReadiness_def)
  have valid: "aircraft_hasValidCallsign ?a"
    using assms(1,4,5) valid_getAircraft [of m "cs_callsign callsign"] by (simp add: provider)
  have named: "ra_callsign ?a = cs_callsign callsign"
    using assms(4) aircraft_named [OF inv_aircraft [OF assms(1)]]
    by (auto simp: provider getAircraftInRangeForCallsign_def aircraftKeys_def)
  have "\<not> wasMatchingSent (readinessOf callsign ?m1)"
    using assms(3) by (simp add: sent_readinessOf addMatchingReadinessFlag_def sent_verified)
  then have "sendReadyForModelMatching E callsign Verified m
      = sends [ReadyForModelMatching ?a] (setReadiness callsign (Some (readiness_setFlag (me_now E) ReadyForMatchingSent
          (readinessOf callsign ?m1))) ?m1)"
    using assms(2) valid by (simp add: sendReadyForModelMatching_def Let_def)
  with named show ?thesis
    by (auto simp: asksFor_def sends_def setReadiness_def provider)
qed

lemma asks_after: "asksFor cs q m1 \<Longrightarrow> mo_effects q = mo_effects m @ es \<Longrightarrow> asksFor cs m m1"
  by (auto simp: asksFor_def)

lemma sent_other_fields [simp]:
  "matchingSent cs (singleShot n ms t m) = matchingSent cs m" "matchingSent cs (sends es m) = matchingSent cs m"
  by (simp_all add: matchingSent_def singleShot_def sends_def)

lemma verified_flag: "wasVerified (addFlag n Verified r)"
  by (simp add: wasVerified_def readiness_testFlag_def addFlag_def)

lemma verify_asks:
  assumes "monitor_inv m" "isConnectedAndNotShuttingDown E" "\<not> cs_isEmpty callsign"
    and "cs_callsign callsign \<in> aircraftKeys m" "isValidAircraftCallsign (cs_callsign callsign)"
    and "\<not> matchingSent (cs_callsign callsign) m" and m1: "m1 = verifyReceivedIcaoData E callsign m"
  shows "asksFor (cs_callsign callsign) m m1
    \<or> \<not> matchingSent (cs_callsign callsign) m1 \<and> wasVerified (readinessOf callsign m1) \<and> (\<exists>es. mo_effects m1 = mo_effects m @ es)
      \<and> cs_callsign callsign \<in> aircraftKeys m1"
    and "wasVerified (readinessOf callsign m) \<Longrightarrow> asksFor (cs_callsign callsign) m m1"
proof -
  let ?cs = "cs_callsign callsign"
  let ?r = "readinessOf callsign m"
  have range: "mo_isAircraftInRange callsign m"
    using assms(4,5) by (auto simp: isValidAircraftCallsign_def mo_isAircraftInRange_def isAircraftInRange_def aircraftKeys_def)
  have fresh: "\<not> wasMatchingSent ?r" using assms(6) by (simp add: sent_readinessOf)
  have asks: "asksFor ?cs m (sendReadyForModelMatching E callsign Verified q)"
    if "monitor_inv q" "aircraftKeys q = aircraftKeys m" "\<not> wasMatchingSent (readinessOf callsign q)" "mo_effects q = mo_effects m" for q
    using that assms by (intro asks_after [OF verified_asks, where es = "[]"]) (simp_all add: sent_readinessOf)
  have set: "aircraftKeys (setReadiness callsign v q) = aircraftKeys q" "mo_effects (setReadiness callsign v q) = mo_effects q" for v q
    by (simp_all add: aircraftKeys_def setReadiness_def)
  have query: "mo_effects (singleShot n ms t (sendInitialPilotQueries E callsign b c q)) = mo_effects q
        @ mo_effects (sendInitialPilotQueries E callsign b c (q\<lparr>mo_effects := []\<rparr>))"
    "m_readiness (singleShot n ms t (sendInitialPilotQueries E callsign b c q)) = m_readiness q"
    "aircraftKeys (singleShot n ms t (sendInitialPilotQueries E callsign b c q)) = aircraftKeys q" for n ms t b c q
    by (simp_all add: singleShot_def sendInitialPilotQueries_def sends_def aircraftKeys_def)
  have r: "readinessOf callsign q = readinessOf callsign p" if "m_readiness q = m_readiness p" for q p :: "'a CAirspaceMonitor"
    using that by (simp add: readinessOf_def)
  show "wasVerified ?r \<Longrightarrow> asksFor ?cs m m1"
    unfolding m1 using range assms(1,3) fresh
    by (simp add: verifyReceivedIcaoData_def Let_def) (rule asks; simp add: set)
  show "asksFor ?cs m m1 \<or> \<not> matchingSent ?cs m1 \<and> wasVerified (readinessOf callsign m1)
      \<and> (\<exists>es. mo_effects m1 = mo_effects m @ es) \<and> ?cs \<in> aircraftKeys m1"
  proof (cases "wasVerified ?r \<or> receivedIcaoCodes (addFlag (me_now E) Verified ?r)")
    case True
    then have "asksFor ?cs m m1"
      unfolding m1 using range assms(1,3) fresh
      by (auto simp: verifyReceivedIcaoData_def Let_def sent_verified set intro!: asks)
    then show ?thesis ..
  next
    case False
    let ?q = "setReadiness callsign (Some (addFlag (me_now E) Verified ?r)) (setReadiness callsign (Some ?r) m)"
    have m1': "m1 = singleShot (me_now E) MMVerifyMs (VerifyIcaoData callsign) (sendInitialPilotQueries E callsign True True ?q)"
      unfolding m1 using range assms(3) fresh False by (simp add: verifyReceivedIcaoData_def Let_def)
    have "readinessOf callsign m1 = addFlag (me_now E) Verified ?r"
      unfolding m1' by (subst r [OF query(2)]) simp
    then show ?thesis
      using fresh assms(4) by (simp add: sent_readinessOf sent_verified verified_flag) (simp add: m1' query set)
  qed
qed

lemma verify_twice:
  assumes "monitor_inv m" "isConnectedAndNotShuttingDown E" "isConnectedAndNotShuttingDown F" "\<not> cs_isEmpty callsign"
    and "cs_callsign callsign \<in> aircraftKeys m" "isValidAircraftCallsign (cs_callsign callsign)"
    and "\<not> matchingSent (cs_callsign callsign) m"
  shows "asksFor (cs_callsign callsign) m (verifyReceivedIcaoData F callsign (verifyReceivedIcaoData E callsign m))"
proof -
  let ?cs = "cs_callsign callsign"
  let ?m1 = "verifyReceivedIcaoData E callsign m"
  have i1: "monitor_inv ?m1" using assms(1) by (rule inv_verify)
  from verify_asks(1) [OF assms(1,2,4,5,6,7) refl] show ?thesis
  proof
    assume asked: "asksFor ?cs m ?m1"
    have more: "\<exists>es. mo_effects (verifyReceivedIcaoData F callsign q) = mo_effects q @ es" for q :: "'a CAirspaceMonitor"
      by (simp add: verifyReceivedIcaoData_def sendReadyForModelMatching_def addMatchingReadinessFlag_def Let_def
          setReadiness_def singleShot_def sends_def sendInitialPilotQueries_def)
    then obtain es where "mo_effects (verifyReceivedIcaoData F callsign ?m1) = mo_effects ?m1 @ es" by blast
    with asked show ?thesis by (auto simp: asksFor_def)
  next
    assume *: "\<not> matchingSent ?cs ?m1 \<and> wasVerified (readinessOf callsign ?m1)
      \<and> (\<exists>es. mo_effects ?m1 = mo_effects m @ es) \<and> ?cs \<in> aircraftKeys ?m1"
    then have "asksFor ?cs ?m1 (verifyReceivedIcaoData F callsign ?m1)"
      using verify_asks(2) [OF i1 assms(3,4) _ assms(6) _ refl] by blast
    with * show ?thesis by (blast intro: asks_after)
  qed
qed

lemma forgotten_initial: "none_forgotten (initialMonitor emptyProvider)"
  by (simp add: none_forgotten_def reinitializing_def initialMonitor_def aircraftKeys_def emptyProvider_def)

lemma no_aircraft_lost:
  assumes "list_all (\<lambda>(E, ev). matching_event E ev) es" "monitor_run es (initialMonitor emptyProvider) = Some m"
  shows "monitor_inv m \<and> none_forgotten m"
proof -
  have "monitor_inv (initialMonitor emptyProvider) \<and> none_forgotten (initialMonitor emptyProvider)"
    using inv_initial [OF aircraft_empty] forgotten_initial by (rule conjI)
  from matching.run_inv [OF this, of es] show ?thesis unfolding matching_run [OF assms] .
qed

subsection \<open>After a disconnection\<close>

definition forgotten_all :: "'p CAirspaceMonitor \<Rightarrow> bool" where
  "forgotten_all m \<longleftrightarrow> aircraftKeys m = {} \<and> m_atcStationsOnline m = [] \<and> mo_clients m = Map.empty
     \<and> m_readiness m = Map.empty \<and> m_flightPlanCache m = Map.empty \<and> m_tempFsInnPackets m = Map.empty
     \<and> m_queryAtis m = [] \<and> m_queryPilot m = []"

lemma clear_forgets: "forgotten_all (clearMonitor E m)"
  by (simp add: forgotten_all_def clearMonitor_def mo_removeAllAircraft_def aircraftKeys_def onClients_def onProvider_def
      removeAllOnlineAtcStations_def keys_removeAll clearClients_def)

fun aboutMatching :: "'p monitorTimer \<Rightarrow> bool" where
  "aboutMatching (CheckMatchingAgain callsign rf) = True"
| "aboutMatching (VerifyIcaoData callsign) = True"
| "aboutMatching (ReInitializeAircraft a ready) = False"

text \<open>A timer that was started before finds nothing to do.\<close>

lemma stale_timer:
  assumes "forgotten_all m" "aboutMatching t"
  shows "onTimer E t m = Some m"
  using assms
  by (cases t) (simp_all add: onCheckMatchingAgain_def verifyReceivedIcaoData_def mo_isAircraftInRange_def isAircraftInRange_def
      forgotten_all_def aircraftKeys_def)

subsection \<open>Distance\<close>

lemma keys_handleMaxRange:
  "aircraftKeys (snd (handleMaxRange E s m)) =
     (if isNullSituation s \<or> m_maxDistanceNM m < 0
         \<or> valueIntegerNM (calculateDistanceToOwnAircraft E s) \<le> m_maxDistanceNMHysteresis m
      then aircraftKeys m else aircraftKeys m - {s_callsign s})"
  by (simp add: handleMaxRange_def Let_def aircraftKeys_def onProvider_def keys_remove)

lemma findElevation_provider:
  "findElevation E s c m = (s1, request, skip, m1) \<Longrightarrow> mo_provider m1 = mo_provider m"
  by (rule findElevation_fields(1))

lemma keys_updateMonitor: "aircraftKeys (mo_updateAircraftInRange E callsign vm m) = aircraftKeys m"
  by (simp add: mo_updateAircraftInRange_def aircraftKeys_def onProvider_def)

lemma keys_onClients: "aircraftKeys (onClients f m) = aircraftKeys m"
  by (simp add: aircraftKeys_def onClients_def)

lemma keys_stored:
  "aircraftKeys (snd (mo_storeAircraftSituation E s b m)) = aircraftKeys m"
proof (cases "s_callsign s = []")
  case False
  let ?c = "if b then addTestAltitudeOffsetToSituation (mo_provider m) s else s"
  obtain c1 request skip m1 where f: "findElevation E s ?c m = (c1, request, skip, m1)" by (metis prod_cases4)
  from False f findElevation_provider [OF f] show ?thesis
    by (simp add: mo_storeAircraftSituation_def Let_def case_prod_unfold aircraftKeys_def sends_def keys_provider)
qed (simp add: mo_storeAircraftSituation_def)

text \<open>Where the callsign of a position is after it came.\<close>

lemma update_keys:
  assumes "isConnectedAndNotShuttingDown E" "\<not> isCopilotAircraft E (situationCallsign s)" "\<not> isNullSituation s"
    and "0 \<le> m_maxDistanceNM m" "s_callsign s \<noteq> []" and d: "d = valueIntegerNM (calculateDistanceToOwnAircraft E s)"
  shows "m_maxDistanceNM m \<le> m_maxDistanceNMHysteresis m \<Longrightarrow> m_maxDistanceNMHysteresis m < d \<Longrightarrow>
      s_callsign s \<notin> aircraftKeys (onAircraftUpdateReceived E s t m)"
    and "m_maxDistanceNM m < d \<Longrightarrow> s_callsign s \<notin> aircraftKeys m \<Longrightarrow>
      s_callsign s \<notin> aircraftKeys (onAircraftUpdateReceived E s t m)"
    and "d \<le> m_maxDistanceNMHysteresis m \<Longrightarrow> s_callsign s \<in> aircraftKeys m \<Longrightarrow>
      s_callsign s \<in> aircraftKeys (onAircraftUpdateReceived E s t m)"
proof -
  let ?m1 = "snd (handleMaxRange E s m)"
  have valid: "fst (handleMaxRange E s m) \<longleftrightarrow> d \<le> m_maxDistanceNMHysteresis m \<and> d \<le> m_maxDistanceNM m"
    using assms by (auto simp: handleMaxRange_def Let_def)
  have inside: "mo_isAircraftInRange (situationCallsign s) q \<longleftrightarrow> s_callsign s \<in> aircraftKeys q" for q :: "'a CAirspaceMonitor"
    using assms(5) by (auto simp: mo_isAircraftInRange_def isAircraftInRange_def aircraftKeys_def situationCallsign_def)
  have keys: "aircraftKeys ?m1 = (if d \<le> m_maxDistanceNMHysteresis m then aircraftKeys m else aircraftKeys m - {s_callsign s})"
    using assms by (simp add: keys_handleMaxRange)
  have plain: "aircraftKeys (onAircraftUpdateReceived E s t m) = aircraftKeys ?m1" if "\<not> fst (handleMaxRange E s m) \<or> s_callsign s \<in> aircraftKeys ?m1"
    using that assms(1,2)
    by (auto simp: onAircraftUpdateReceived_def Let_def case_prod_unfold inside keys_updateMonitor keys_stored keys_onClients)
  show "m_maxDistanceNM m \<le> m_maxDistanceNMHysteresis m \<Longrightarrow> m_maxDistanceNMHysteresis m < d \<Longrightarrow>
      s_callsign s \<notin> aircraftKeys (onAircraftUpdateReceived E s t m)"
    "m_maxDistanceNM m < d \<Longrightarrow> s_callsign s \<notin> aircraftKeys m \<Longrightarrow>
      s_callsign s \<notin> aircraftKeys (onAircraftUpdateReceived E s t m)"
    "d \<le> m_maxDistanceNMHysteresis m \<Longrightarrow> s_callsign s \<in> aircraftKeys m \<Longrightarrow>
      s_callsign s \<in> aircraftKeys (onAircraftUpdateReceived E s t m)"
    using plain by (auto simp: keys valid split: if_splits)
qed

lemma keys_addNew:
  assumes "env_ok E" "\<not> me_shuttingDown E" "hasWebServices E" "ra_callsign a \<noteq> []"
  shows "ra_callsign a \<in> aircraftKeys (snd (mo_addNewAircraftInRange E a m))"
proof -
  have add: "ra_callsign b \<in> dom (m_aircraftInRange (snd (addNewAircraftInRange b p)))" if "ra_callsign b \<noteq> []" for b p
    using that by (auto simp: addNewAircraftInRange_def isAircraftInRange_def sendSignal_def split: if_splits)
  let ?a1 = "a\<lparr>ra_rendered := False,
    ra_relativeDistance := calculateGreatCircleDistance (monitorGeo E) (s_position (ra_situation a)) (ownPosition E),
    ra_relativeBearing := calculateBearing (me_surface E) (s_position (ra_situation a)) (ownPosition E)\<rparr>"
  let ?a2 = "if connectedToVatsim E then me_dataFileAircraft E ?a1 else ?a1"
  have "ra_callsign ?a2 = ra_callsign a" using assms(1) by (simp add: env_ok_def)
  with add [of ?a2 "mo_provider m"] assms(4)
  have "ra_callsign a \<in> dom (m_aircraftInRange (snd (addNewAircraftInRange ?a2 (mo_provider m))))" by simp
  with assms(2,3) show ?thesis
    by (cases "connectedToVatsim E") (simp_all add: mo_addNewAircraftInRange_def Let_def case_prod_unfold aircraftKeys_def
        singleShot_def onProvider_def rememberCGFromDB_def rememberCGFromDBForModelString_def)
qed

lemma update_adds:
  assumes "isConnectedAndNotShuttingDown E" "\<not> isCopilotAircraft E (situationCallsign s)" "env_ok E" "hasWebServices E"
    and "s_callsign s \<noteq> []" "fst (handleMaxRange E s m)"
  shows "s_callsign s \<in> aircraftKeys (onAircraftUpdateReceived E s t m)"
proof -
  let ?m1 = "snd (handleMaxRange E s m)"
  have inside: "mo_isAircraftInRange (situationCallsign s) q \<longleftrightarrow> s_callsign s \<in> aircraftKeys q" for q :: "'a CAirspaceMonitor"
    using assms(5) by (auto simp: mo_isAircraftInRange_def isAircraftInRange_def aircraftKeys_def situationCallsign_def)
  have name: "ra_callsign (newAircraft (situationCallsign s) s t) = s_callsign s"
    by (simp add: newAircraft_def setSituation_def aircraft_setCallsign_def situationCallsign_def)
  have new: "s_callsign s \<in> aircraftKeys (snd (mo_addNewAircraftInRange E (newAircraft (situationCallsign s) s t) q))" for q
    using keys_addNew [of E "newAircraft (situationCallsign s) s t" q] assms(1,3-5)
    by (simp add: name isConnectedAndNotShuttingDown_def)
  have "aircraftKeys (sendInitialPilotQueries E callsign a b q) = aircraftKeys q" for callsign a b q
    by (simp add: sendInitialPilotQueries_def sends_def aircraftKeys_def)
  with new show ?thesis
    using assms(1,2,6)
    by (simp add: onAircraftUpdateReceived_def Let_def case_prod_unfold inside keys_updateMonitor keys_stored keys_onClients)
qed

subsection \<open>The queues of queries\<close>

definition queued :: "'p CAirspaceMonitor \<Rightarrow> nat" where
  "queued m = length (m_queryAtis m) + length (m_queryPilot m)"

text \<open>A call takes one callsign, or two when that of the station has gone; it sends at most two queries.\<close>

lemma fast_queues:
  assumes "isConnectedAndNotShuttingDown E"
  shows "queued (fastProcessing E m) \<le> queued m - 1"
    and "length (mo_effects (fastProcessing E m)) \<le> length (mo_effects m) + 2"
  using assms
  by (cases "m_queryAtis m"; cases "m_queryPilot m";
      simp add: queued_def fastProcessing_def sendNextStaggeredAtisQuery_def sendNextStaggeredPilotDataQuery_def Let_def sends_def)+

lemma fast_empties:
  "list_all isConnectedAndNotShuttingDown Es \<Longrightarrow> queued (fold fastProcessing Es m) \<le> queued m - length Es"
proof (induction Es arbitrary: m)
  case (Cons E Es)
  then have "queued (fold fastProcessing Es (fastProcessing E m)) \<le> queued (fastProcessing E m) - length Es" by simp
  with fast_queues(1) [of E m] Cons.prems show ?case by simp
qed simp

lemma fast_effects:
  "list_all isConnectedAndNotShuttingDown Es \<Longrightarrow>
   length (mo_effects (fold fastProcessing Es m)) \<le> length (mo_effects m) + 2 * length Es"
proof (induction Es arbitrary: m)
  case (Cons E Es)
  then have "length (mo_effects (fold fastProcessing Es (fastProcessing E m)))
      \<le> length (mo_effects (fastProcessing E m)) + 2 * length Es" by simp
  with fast_queues(2) [of E m] Cons.prems show ?case by simp
qed simp

end
