(* ===== verification/Spec2Isabelle.thy ===== *)
theory Spec2Isabelle
  imports Fsd_Samples Aviation_Selcal Aircraft_Lights Value_Cache_Progress Afv_Serializer Airspace_Analyzer
    Remote_Aircraft_Laws Matcher_Laws Flight_Plan_Laws Airspace_Monitor_Facts
begin

text \<open>
  The pilot client \<open>swift\<close>: its network client, the settings its processes share, the
  encryption of voice packets, flight plans, the monitor of the aircraft and stations around, the
  matching of their models and the analysis of the airspace, a model of its own code with proofs.

  \<^bold>\<open>The program.\<close> \<open>src/core/fsd\<close> is the FSD protocol: a client logs in at a server,
  sends its position several times a second and receives those of the others, talks to them by
  text messages and asks them for information. A message is one line: a command, tokens
  separated by colons, and a line end. One class per message turns its fields into tokens and
  back. \<open>CFSDClient\<close> (\<open>fsdclient.cpp\<close>) owns the transport, the timers, the queue of
  outgoing lines and what is remembered of the other stations; it takes its own position and
  radios from the application and reports what it receives by signals. It uses the value
  classes of \<open>src/misc/aviation\<close> (callsign, transponder, radios, SELCAL, lights), of
  \<open>src/misc/network\<close> (text messages, client capabilities) and the token bucket of
  \<open>src/misc\<close>.

  \<^bold>\<open>The theories.\<close> From the bottom to the top:
  \<^item> \<open>Fsd_Prelude\<close>, \<open>Qt_Base\<close>, \<open>Qt_Number\<close>: the collections of simplification rules, list
    access that may fail, and the part of Qt's strings and numbers the program uses.
  \<^item> \<open>Fsd_Enums\<close> (\<open>enums.h\<close>, \<open>serializer.cpp\<close>), \<open>Fsd_Double\<close>, \<open>Fsd_Pbh\<close> (\<open>pbh.h\<close>):
    enumerations with their texts, the interface to floating point numbers, packed attitudes.
  \<^item> \<open>Fsd_Message\<close> (\<open>messagebase.h\<close>): the frame of a line, the command table, and the locales
    of the codecs. \<open>Fsd_Session_Messages\<close>, \<open>Fsd_Info_Messages\<close>, \<open>Fsd_Position_Messages\<close>:
    the message classes, each an interpretation of \<open>token_codec\<close>. \<open>Fsd_Any_Message\<close>: their sum.
  \<^item> \<open>Fsd_Queue\<close>, \<open>Fsd_Offset_Times\<close>, \<open>Fsd_Capabilities\<close>, \<open>Fsd_Raw_Log\<close>,
    \<open>Token_Bucket\<close>, \<open>Aviation_Callsign\<close>, \<open>Aviation_Transponder\<close>, \<open>Aviation_Com\<close>,
    \<open>Aviation_Selcal\<close>, \<open>Aircraft_Lights\<close>, \<open>Network_Text_Message\<close>: the components of
    which the client is made, each with its operations and laws.
  \<^item> \<open>Fsd_Client\<close> (state, life cycle), \<open>Fsd_Sending\<close> (all \<open>send...\<close> functions),
    \<open>Fsd_Handlers\<close> and \<open>Fsd_Parse\<close> (all \<open>handle...\<close> functions, \<open>parseMessage\<close>, the two
    read loops, and the client as a machine that takes a step per event).
  \<^item> \<open>Fsd_Client_Laws\<close>, \<open>Fsd_Client_Runs\<close>: the frame locales of the client's operations and
    their interpretations, from which the invariants of runs follow; \<open>Fsd_Sending_Laws\<close>,
    \<open>Fsd_Dialogue\<close>: which packets an operation queues, and exchanges between two clients.
  \<^item> \<open>Replica_Protocol\<close>, \<open>Value_Cache\<close>, \<open>Value_Cache_Runs\<close>, \<open>Value_Cache_Progress\<close>
    (\<open>src/misc/valuecache.cpp\<close>, \<open>changeSettings\<close> of \<open>src/core/context\<close>): a value that
    several clients may change is kept alike by counting the own changes that have not come
    back. The protocol is a locale, proved once; the elements of the caches and of the pages
    interpret it. The system of pages, caches and processes with the messages between them takes a
    step per event.
  \<^item> \<open>Afv_Channel\<close>, \<open>Afv_Serializer\<close> (\<open>src/core/afv/crypto\<close>): the window against
    replays as a refinement of the set of accepted numbers, and the packets, with the libraries as
    the parameter record \<open>Crypto\<close> and their documented behaviour as \<open>crypto_laws\<close>.
  \<^item> \<open>Timestamp_List\<close>, \<open>Timestamp_List_Laws\<close> (\<open>src/misc/timestampobjectlist.h\<close>,
    \<open>timestampbased.h\<close>): lists of objects with a time stamp and an offset, their operations as
    a contract over the content of a list.
  \<^item> \<open>Physical_Quantity\<close> (\<open>src/misc/pq/physicalquantity.cpp\<close>): rational numbers or null,
    compared up to the epsilon of the unit.
  \<^item> \<open>Aircraft_Situation\<close>, \<open>Situation_List\<close>, \<open>Situation_Change\<close> (\<open>src/misc/aviation\<close>):
    where an aircraft is, whether it is on the ground, the elevation below it; lists of situations
    and what changes in them.
  \<^item> \<open>Aircraft_Icao\<close>, \<open>Aircraft_Icao_Laws\<close> (\<open>src/misc/aviation/aircrafticaocode.cpp\<close>): types
    of aircraft with their checks, matching and score.
  \<^item> \<open>Remote_Aircraft\<close>, \<open>Remote_Aircraft_Laws\<close> (\<open>src/misc/simulation/remoteaircraftprovider.cpp\<close>):
    the provider of the aircraft around as a machine whose state is a map per callsign.
  \<^item> \<open>Airspace_Analyzer\<close> (\<open>src/core/airspaceanalyzer.cpp\<close>): the watchdog and the snapshots.
  \<^item> \<open>Airline_Icao\<close>, \<open>Aircraft_Livery\<close>, \<open>Simulator_Info\<close>, \<open>Aircraft_Distributor\<close>,
    \<open>Aircraft_Model\<close>, \<open>Icao_List\<close>, \<open>Model_List\<close> (\<open>src/misc/aviation\<close>, \<open>src/misc/simulation\<close>): what an
    aircraft model is made of, and the searches, counts, merges and scores of models and their lists.
    \<open>Model_Laws\<close>: order numbers as a locale, bounds of scores, the livery string of the
    network, the normal form of texts.
  \<^item> \<open>Matcher_Setup\<close>, \<open>Category_Matcher\<close>, \<open>Matcher_Reduce\<close>, \<open>Reverse_Lookup\<close>, \<open>Matching_Script\<close>,
    \<open>Aircraft_Matcher\<close> (\<open>src/core/aircraftmatcher.cpp\<close> and what it uses of \<open>src/misc/simulation\<close>): the
    matcher that finds for the aircraft of another pilot a model that is installed here: first the
    reverse lookup of what the network says in the data base, then exact strings, the stepwise
    reduction, the score, the script of the user, and the default model. \<open>Matcher_Laws\<close>: reductions
    as a locale that each step interprets, and what follows for the match.
  \<^item> \<open>Flight_Equipment\<close>, \<open>Flight_Aircraft_Info\<close>, \<open>Flight_Plan\<close> (\<open>comnavequipment.cpp\<close>,
    \<open>ssrequipment.cpp\<close>, \<open>flightplanaircraftinfo.cpp\<close>, \<open>flightplan.cpp\<close> of \<open>src/misc/aviation\<close>,
    \<open>voicecapabilities.cpp\<close>): the aircraft of a flight plan in the forms of ICAO and FAA, the
    remarks with their markers, the plan itself. \<open>Flight_Plan_Laws\<close>: what is read back from them.
  \<^item> \<open>Network_User\<close>, \<open>Network_Client\<close> (\<open>user.cpp\<close>, \<open>obfuscation.cpp\<close>, \<open>client.cpp\<close>,
    \<open>clientprovider.cpp\<close> of \<open>src/misc/network\<close>), \<open>Airspace_Aircraft\<close> (\<open>simulatedaircraft.cpp\<close>),
    \<open>Atc_Station\<close> (\<open>atcstation.cpp\<close>, \<open>atcstationlist.cpp\<close>, \<open>geoobjectlist.h\<close>): the pilots,
    aircraft and stations the monitor keeps, and how stations are grouped.
  \<^item> \<open>Airspace_Monitor\<close>, \<open>Airspace_Lookup\<close>, \<open>Airspace_Situations\<close>, \<open>Airspace_Handlers\<close>
    (\<open>src/core/airspacemonitor.cpp\<close>): the monitor as a machine. Its state \<open>CAirspaceMonitor\<close> holds the
    provider of the aircraft, the clients, the stations, the flight plans, the queues of queries,
    what is known of each aircraft for the matching (\<open>Readiness\<close>) and the timers that run; \<open>monitor_step\<close> takes
    one of its events, that is a signal of the network client or a timer, through the slot that
    handles it. \<open>Airspace_Monitor_Laws\<close>, \<open>Airspace_Monitor_Runs\<close>: the invariant;
    \<open>Airspace_Matching_Laws\<close>: how an aircraft gets to its model, over a locale of relations that
    every operation keeps; \<open>Airspace_Monitor_Facts\<close>: single operations.
  \<^item> \<open>Fsd_Samples\<close>: concrete clients for the examples at the end of each property.

  \<^bold>\<open>The correspondence.\<close> Names are those of the source; a class \<open>X\<close> of \<open>src/core/fsd\<close> is the
  record \<open>X\<close> with \<open>mkX\<close> (constructor), \<open>X_default\<close> (default constructor), \<open>X_pdu\<close>,
  \<open>X_toTokens\<close> and \<open>X_fromTokens\<close>. A \<open>QString\<close> is a list of characters with the character
  classes of ASCII. A read beyond a list is \<^term>\<open>None\<close>. A \<open>double\<close> is a type parameter with
  the operations of the record \<open>dbl\<close>; \<open>dbl_rat\<close> is the instance over the rational numbers that
  the examples use, and properties of exact arithmetic say so. An \<open>int\<close> of the protocol is an
  integer with its range as a condition or the conversion \<open>wrap32\<close>, bit fields and the packet
  counter are words. A \<open>QHash\<close> that is iterated is any list with the same entries. Effects,
  that is writing to the transport and emitting signals, are appended to the field \<open>c_out\<close>. The
  environment (clock, own aircraft, JSON reader, range check) is the record \<open>ClientEnv\<close>.

  \<^bold>\<open>The lemmas.\<close> Every message survives its line, and no line is that of two messages; the
  tables of the enumerations are inverse where they can be. Every operation of the client keeps
  its invariant, and an operation that receives only adds to the queue; a client that is
  disconnected is silent; the sender delivers the queue in order. Dialogues (ping, capabilities,
  text, ATIS) end with the answer at the client that asked. The components: the rate of the
  token bucket, the offset times, rounding to channels, normal forms of callsigns, relay and
  consolidation of text messages, masking of passwords. The caches of all processes agree when no message is under way, whatever
  was changed at the same time, and delivering the messages always comes to an end. Of an encrypted
  channel: no number is accepted twice, packets are read as they were sent. Of the airspace: the
  nearest aircraft are rendered, silent callsigns are reported. Of the aircraft around: whatever
  arrives, the history of a callsign is bounded and in order, a removed aircraft is forgotten, the
  knowledge of elevations only improves, an altitude is corrected to the ground; types of
  aircraft are scored, matched and repaired. Of the matcher: every aircraft of a regular type has a
  match, it comes from the set or is the default, reductions never empty a set, the best score
  wins, failed models stay away, the ids of the livery string come back. Of flight plans: the forms of
  an aircraft and the voice capability are read back as they were written, no text of a plan breaks
  the line it is sent in. Of the monitor: its parts stay consistent in every run, no aircraft in range
  is lost on its way to a model, the queues of queries empty themselves, nothing survives a
  disconnection.

  \<^bold>\<open>Bounds.\<close> \<open>drainWebSocket\<close> runs with the length of the buffer as fuel: a pass takes at least
  one character, and that no complete line is left is a property. \<open>removeAll\<close> runs with the
  length of its text. All other loops are structural.

  The smart selectors and reductions are compositions of filters; the loops over nested results
  are structural.

  \<^bold>\<open>Not modelled.\<close> The closed authentication library of VATSIM and the exchange of tokens over
  HTTPS; load balancing, statistics, log files and translation of messages; locks, as the client
  runs in one thread; fractions of a kHz; conversions between units and the geometry on the sphere, which is the parameter
  \<open>Geo\<close>; the files and texts of the caches; the
  messages that the matcher logs, those of the monitor, its commands and its test functions, the JavaScript engine (a function from the inputs of a script to its
  outcome) and the readers of the web data (the record \<open>WebData\<close> holds what they have read); the user interface,
  simulator plugins, audio devices, contexts and D-Bus, which are bindings to libraries and devices.
\<close>

subsection \<open>Messages on the wire\<close>



text \<open>Two messages that survive the protocol have different lines: no message can be taken
  for another, of its own or of another class.\<close>

theorem message_unambiguous:
  assumes "deliverable D a" and "deliverable D b" and "messageLine D a = messageLine D b"
  shows "a = b"
  using assms by (rule line_inj)

theorem message_unambiguous_witness:
  "MsgPing (mkPing ''DLH1'' ''SERVER'' ''5'') = MsgPing (mkPing ''DLH1'' ''SERVER'' ''5'')
   \<and> deliverable dbl_rat (MsgPing (mkPing ''DLH1'' ''SERVER'' ''5''))"
proof -
  have d: "deliverable dbl_rat (MsgPing (mkPing ''DLH1'' ''SERVER'' ''5''))"
    by (simp add: ping.sendable_def Ping_defs tokens_wire_def isSpace_def)
  show ?thesis using message_unambiguous [OF d d refl] d by blast
qed


subsection \<open>The session\<close>





text \<open>C5: The ticks of the sender move packets from the queue to the transport in order, none
  lost or doubled, and as many ticks as there are packets are enough for all of them.\<close>

theorem sender_delivers:
  assumes "\<not> c_unitTestMode c" and "[] \<notin> set (c_queue c)" and "c_sendTimer c"
    and "length (c_queue c) \<le> n"
  shows "\<exists>c'. client_run D table (replicate n (env, SendTimer)) c = Some c'
     \<and> c_queue c' = [] \<and> wire c' = wire c @ c_queue c"
  using send_ticks [OF assms(1-3), of D table n env] assms(4) by auto

theorem sender_delivers_witness:
  "\<exists>c'. client_run dbl_rat messageTypeMapping (replicate 2 (sampleEnv 0 0, SendTimer))
      ((sampleClient ''DLH1'')\<lparr>c_queue := [''a'', ''b'']\<rparr>) = Some c'
     \<and> c_queue c' = [] \<and> wire c' = [''a'', ''b'']"
  using sender_delivers [of "(sampleClient ''DLH1'')\<lparr>c_queue := [''a'', ''b'']\<rparr>" 2 dbl_rat messageTypeMapping "sampleEnv 0 0"]
  by (simp add: wire_def)

text \<open>A ping is answered: the packet a client queues makes the peer queue a pong, and the
  pong makes the client report the peer and the time that has passed since the ping.\<close>

theorem ping_pong:
  assumes "mset table = mset messageTypeMapping"
    and "plain (ownCallsignString a)" and "plain (ownCallsignString b)"
    and "\<not> c_unitTestMode a" and "\<not> c_unitTestMode b"
    and "-9223372036854775808 \<le> e_now env" and "e_now env \<le> 9223372036854775807"
  shows "\<exists>ping pong b' a'.
     c_queue (sendPing env (ownCallsignString b) a) = c_queue a @ [ping]
     \<and> parseMessage D envb table ping b = Some b' \<and> c_queue b' = c_queue b @ [pong]
     \<and> parseMessage D enva table pong a = Some a'
     \<and> last (c_out a') = Emit (PongReceived (ownCallsignString b) (e_now enva - e_now env))"
  using assms by (rule ping_dialogue)

theorem ping_pong_witness:
  "\<exists>ping pong b' a'.
     c_queue (sendPing (sampleEnv 1000 0) ''BAW12'' (sampleClient ''DLH1'')) = [ping]
     \<and> parseMessage dbl_rat (sampleEnv 1020 0) messageTypeMapping ping (sampleClient ''BAW12'') = Some b'
     \<and> c_queue b' = [pong]
     \<and> parseMessage dbl_rat (sampleEnv 1040 0) messageTypeMapping pong (sampleClient ''DLH1'') = Some a'
     \<and> last (c_out a') = Emit (PongReceived ''BAW12'' 40)"
  using ping_pong [of messageTypeMapping "sampleClient ''DLH1''" "sampleClient ''BAW12''"
      "sampleEnv 1000 0" dbl_rat "sampleEnv 1020 0" "sampleEnv 1040 0"] by simp

text \<open>C6: A client that asks another one for its capabilities is told exactly those the other
  one announces; flags that are not part of the protocol are dropped.\<close>

theorem capability_exchange:
  assumes "mset table = mset messageTypeMapping"
    and "plain (ownCallsignString a)" and "plain (ownCallsignString b)"
    and "\<not> c_unitTestMode a" and "\<not> c_unitTestMode b"
    and "getFsdCallsignString receiver = ownCallsignString b"
  shows "\<exists>query response b' a'.
     c_queue (sendClientQuery now QCapabilities receiver [] a) = c_queue a @ [query]
     \<and> parseMessage D envb table query b = Some b' \<and> c_queue b' = c_queue b @ [response]
     \<and> parseMessage D enva table response a = Some a'
     \<and> last (c_out a') = Emit (CapabilityResponseReceived (ownCallsignString b)
          (clientCapabilities ((c_capabilities b AND 0x7FE) OR CapNone)))"
  using assms by (rule capability_dialogue)

theorem capability_exchange_witness:
  "\<exists>query response b' a'.
     c_queue (sendClientQuery 0 QCapabilities (mkCallsign ''BAW12'' Aircraft) [] (sampleClient ''DLH1'')) = [query]
     \<and> parseMessage dbl_rat (sampleEnv 0 0) messageTypeMapping query (sampleClient ''BAW12'') = Some b'
     \<and> c_queue b' = [response]
     \<and> parseMessage dbl_rat (sampleEnv 0 0) messageTypeMapping response (sampleClient ''DLH1'') = Some a'
     \<and> last (c_out a') = Emit (CapabilityResponseReceived ''BAW12'' (clientCapabilities ((0x7FE AND 0x7FE) OR CapNone)))"
proof -
  have "getFsdCallsignString (mkCallsign ''BAW12'' Aircraft) = ''BAW12''"
    by code_simp
  then show ?thesis
    using capability_exchange [of messageTypeMapping "sampleClient ''DLH1''" "sampleClient ''BAW12''"
        "mkCallsign ''BAW12'' Aircraft" 0 dbl_rat "sampleEnv 0 0" "sampleEnv 0 0"] by simp
qed







text \<open>A login or logoff that is still pending when the check runs 7.5 seconds after the
  login was started ends disconnected; an established connection is left alone.\<close>

theorem pending_timeout:
  assumes "c_loginSince c + PendingConnectionTimeoutMs \<le> now"
  shows "pendingTimeoutCheck now c = (if isPendingConnection c then disconnectFromServer c else c)
    \<and> \<not> isPendingConnection (pendingTimeoutCheck now c)"
  using assms by (simp add: pendingTimeoutCheck_def isPendingConnection_def disconnect_result)

theorem pending_timeout_witness:
  "\<not> isPendingConnection (pendingTimeoutCheck 8500 ((sampleClient ''DLH1'')\<lparr>c_connectionStatus := Connecting\<rparr>))"
proof -
  have "c_loginSince ((sampleClient ''DLH1'')\<lparr>c_connectionStatus := Connecting\<rparr>) + PendingConnectionTimeoutMs \<le> 8500"
    by (simp add: PendingConnectionTimeoutMs_def)
  from pending_timeout [OF this] show ?thesis ..
qed

text \<open>A server error ends the session if its code is one of the fatal ones, and only then.\<close>

theorem server_error_ends_session:
  assumes "ServerError_fromTokens tokens = Some m"
  shows "handleServerError tokens c =
     Some (if er_errorNumber m \<in> set [CallsignInUse, InvalidCallsign, AlreadyRegistered, InvalidCidPassword,
             InvalidRevision, RequestedLevelTooHigh, ServerFull, CidSuspended, RatingTooLow, InvalidClient, AuthTimeout]
           then disconnectFromServer c else c)"
  using assms unfolding handleServerError_def isFatalError_def by simp

theorem server_error_ends_session_witness:
  "handleServerError [''server'', ''DLH1'', ''1'', [], ''in use''] (sampleClient ''DLH1'')
     = Some (disconnectFromServer (sampleClient ''DLH1''))"
proof -
  have "toInt ''1'' = 1" by code_simp
  then obtain m where m: "ServerError_fromTokens [''server'', ''DLH1'', ''1'', [], ''in use''] = Some m"
      "er_errorNumber m = CallsignInUse"
    by (simp add: ServerError_defs serverErrorCode_of_int_def serverErrorCodes_def)
  show ?thesis using server_error_ends_session [OF m(1), of "sampleClient ''DLH1''"] m(2) by simp
qed

text \<open>The logoff of a controller is reported with its CID, and only a station whose callsign
  is that CID is taken from the list: a station with the callsign of the sender stays.\<close>

theorem delete_atc_keeps_station:
  assumes "DeleteAtc_fromTokens tokens = Some m" and "s \<in> set (c_atcStations c)"
    and "\<not> cs_equal (as_callsign s) (mkCallsign (da_cid m) NoHint)"
  shows "\<exists>c'. handleDeleteATC tokens c = Some c' \<and> s \<in> set (c_atcStations c')
     \<and> last (c_out c') = Emit (DeleteAtcReceived (da_cid m))"
  using assms by (auto simp: handleDeleteATC_def removeStation_def emitSignal_def Let_def)

theorem delete_atc_keeps_station_witness:
  "\<exists>c'. handleDeleteATC [''EDDF_TWR'', ''1234567'']
       ((sampleClient ''DLH1'')\<lparr>c_atcStations := [\<lparr>as_callsign = mkCallsign ''EDDF_TWR'' Atc, as_frequencykHz = 119900\<rparr>]\<rparr>) = Some c'
     \<and> \<lparr>as_callsign = mkCallsign ''EDDF_TWR'' Atc, as_frequencykHz = 119900\<rparr> \<in> set (c_atcStations c')"
proof -
  have m: "DeleteAtc_fromTokens [''EDDF_TWR'', ''1234567''] = Some (mkDeleteAtc ''EDDF_TWR'' ''1234567'')"
    by (simp add: DeleteAtc_defs)
  have "\<not> cs_equal (mkCallsign ''EDDF_TWR'' Atc) (mkCallsign ''1234567'' NoHint)" by code_simp
  then show ?thesis
    using delete_atc_keeps_station [OF m, of "\<lparr>as_callsign = mkCallsign ''EDDF_TWR'' Atc, as_frequencykHz = 119900\<rparr>"
        "(sampleClient ''DLH1'')\<lparr>c_atcStations := [\<lparr>as_callsign = mkCallsign ''EDDF_TWR'' Atc, as_frequencykHz = 119900\<rparr>]\<rparr>"]
    by (auto simp: mkDeleteAtc_def)
qed

subsection \<open>What the timers send\<close>

text \<open>While the aircraft moves, every tick of the visual position timer queues one packet,
  and the packets whose running number, a 32 bit counter, is a multiple of 25 are the periodic
  ones.\<close>

theorem visual_positions_in_flight:
  assumes "visual_ready c" and "c_serverWantsVisualPositions c"
    and "\<forall>env \<in> set envs. \<not> (isSlow D (e_velocity env) \<and> isSlow D (e_rotation env))"
  shows "c_queue (fold (\<lambda>env. sendVisualPilotDataUpdate D env False) envs c)
       = c_queue c @ map (\<lambda>(k, env). moving_packet D env c (c_visualPositionUpdateSentCount c + of_nat k))
           (zip [0..<length envs] envs)"
  using assms by (rule visual_flight)

theorem visual_positions_in_flight_witness:
  "c_queue (fold (\<lambda>env. sendVisualPilotDataUpdate dbl_rat env False) [sampleEnv 0 70, sampleEnv 200 70] (sampleClient ''DLH1''))
     = [moving_packet dbl_rat (sampleEnv 0 70) (sampleClient ''DLH1'') 0,
        moving_packet dbl_rat (sampleEnv 200 70) (sampleClient ''DLH1'') 1]"
  using visual_positions_in_flight [of "sampleClient ''DLH1''" "[sampleEnv 0 70, sampleEnv 200 70]" dbl_rat] by simp

text \<open>The lines of an ATIS, however many, followed by the line count, are delivered once, as
  the non-empty lines joined, and forgotten; provided no line is a placeholder.\<close>

theorem atis_delivered:
  assumes "c_mapAtisMessages c cs = None"
    and "\<forall>l \<in> set (atisLines (l0 # lines)). \<not> isPlaceholder l"
  shows "let c' = updateAtisMap cs LineCount x (fold (updateAtisMap cs AtisTextMessage) (l0 # lines) c)
         in c_mapAtisMessages c' cs = None
            \<and> c_out c' = c_out c @ [Emit (AtisLogoffTimeReplyReceived (mkCallsign cs Atc) []),
                Emit (AtisReplyReceived (mkCallsign cs Atc) (qjoin [newline] (atisLines (l0 # lines))))]"
  using assms by (rule atis_reply)

theorem atis_delivered_witness:
  "let c' = updateAtisMap ''EDDF_ATIS'' LineCount ''2'' (fold (updateAtisMap ''EDDF_ATIS'' AtisTextMessage) [''info A'', ''rwy 25''] (sampleClient ''DLH1''))
   in c_mapAtisMessages c' ''EDDF_ATIS'' = None
      \<and> c_out c' = c_out (sampleClient ''DLH1'') @ [Emit (AtisLogoffTimeReplyReceived (mkCallsign ''EDDF_ATIS'' Atc) []),
          Emit (AtisReplyReceived (mkCallsign ''EDDF_ATIS'' Atc) (qjoin [newline] (atisLines [''info A'', ''rwy 25''])))]"
  by (rule atis_delivered) (simp, code_simp)

subsection \<open>The aircraft around\<close>

definition sampleGeo :: "rat Geo" where
  "sampleGeo = \<lparr>g_distance = (\<lambda>a b. \<bar>a - b\<bar>), g_equal = (=)\<rparr>"

definition sampleProviderEnv :: "rat providerEnv" where
  "sampleProviderEnv = \<lparr>pe_geo = sampleGeo, pe_sqrt = (\<lambda>x. x), pe_sort = sort_key, pe_sortParts = sort_key,
     pe_sortChanges = sort_key\<rparr>"

definition sampleSituation :: "string \<Rightarrow> int \<Rightarrow> rat \<Rightarrow> rat CAircraftSituation" where
  "sampleSituation cs t kts = \<lparr>m_timestampMSecsSinceEpoch = t, m_timeOffsetMs = 6000, s_callsign = cs,
     s_position = \<lparr>co_vector = Some 0, co_height = Some 120, co_aboveGround = False\<rparr>,
     s_groundElevationPlane = nullPlane, s_pitch = Some 2, s_bank = Some 0, s_groundSpeed = Some kts, s_cg = None,
     s_hasVelocity = True, s_isElvInfoTransferred = False, s_elvInfo = NoElevationInfo,
     s_onGroundInfo = COnGroundInfo_default\<rparr>"





text \<open>Whether the aircraft of a new situation is on the ground is guessed by its speed alone, for
  aircraft that do not start vertically, at attitudes that are not extreme: neither its history
  nor its height above the ground has an influence, as the change is computed from a list that is
  still empty and the test of the distance to the ground never succeeds.\<close>

theorem guess_by_speed_alone:
  assumes "shouldGuessOnGround front" and "\<not> isVtol (am_aircraftIcao model)"
    and "\<bar>pqValue (s_pitch front)\<bar> \<le> 20" and "\<bar>pqValue (s_bank front)\<bar> \<le> 10"
  shows "onGroundOf (hd (guessFront env model s (front # rest))) =
    (if isNegativeWithEpsilonConsidered (s_groundSpeed front) \<or> \<not> isMoving front
        \<or> (\<not> lessThan (pqTimes (125 / 100) (snd (guessedCgAndSpeed model front))) (s_groundSpeed front)
           \<and> lessThan (s_groundSpeed front) (snd (guessedCgAndSpeed model front)))
     then OnGround else NotOnGround)"
  using guess_by_speed [OF assms] by (simp add: guessFront_alone)

theorem guess_by_speed_alone_witness:
  "onGroundOf (hd (guessFront sampleProviderEnv defaultModel (sampleSituation ''BAW1'' 1000 1) [sampleSituation ''BAW1'' 1000 1])) = OnGround"
  using guess_by_speed_alone [of "sampleSituation ''BAW1'' 1000 1" defaultModel sampleProviderEnv
      "sampleSituation ''BAW1'' 1000 1" "[]"]
  by (simp add: sampleSituation_def defaultModel_def CAircraftIcaoCode_default_def isVtol_def shouldGuessOnGround_def
      hasInboundGroundDetails_def COnGroundInfo_default_def pqValue_def isMoving_def)

text \<open>A removed aircraft leaves no situations, no parts and no center of gravity, and the other
  aircraft stay as they are; but its changes and its test offset stay, so that they meet a later
  aircraft of the same callsign.\<close>

theorem removed_aircraft:
  assumes "removeAircraft cs p = (removed, q)"
  shows "\<not> isAircraftInRange cs q \<and> remoteAircraftSituations cs q = [] \<and> remoteAircraftParts cs q = []
    \<and> \<not> isRemoteAircraftSupportingParts cs q \<and> getCGFromDB cs q = None
    \<and> remoteAircraftSituationChanges cs q = remoteAircraftSituationChanges cs p
    \<and> m_testOffset q = m_testOffset p
    \<and> (\<forall>cs'. cs' \<noteq> cs \<longrightarrow> m_aircraftInRange q cs' = m_aircraftInRange p cs'
         \<and> remoteAircraftSituations cs' q = remoteAircraftSituations cs' p)"
  using removed_forgotten [of cs p q] assms by simp

theorem removed_aircraft_witness:
  "remoteAircraftSituationChanges ''BAW1'' (snd (removeAircraft ''BAW1''
      (storeChange sampleProviderEnv (CAircraftSituationChange_default\<lparr>ch_correspondingCallsign := ''BAW1''\<rparr>)
        (emptyProvider :: rat CRemoteAircraftProvider)))) \<noteq> []"
  using removed_aircraft [of "''BAW1''" "storeChange sampleProviderEnv
      (CAircraftSituationChange_default\<lparr>ch_correspondingCallsign := ''BAW1''\<rparr>) (emptyProvider :: rat CRemoteAircraftProvider)",
      OF prod.collapse [symmetric]]
  by (simp add: storeChange_def Let_def emptyProvider_def remoteAircraftSituationChanges_def valuesOr_def
      push_frontKeepLatestAdjustedFirst_def)

text \<open>A corrected altitude is never below the elevation of the ground plus the center of gravity
  (up to the epsilon of lengths), and correcting it again changes nothing.\<close>

theorem altitude_corrected:
  assumes "hasGroundElevation s" and "\<not> co_aboveGround (s_position s)"
    and "withOffset cg (getGroundElevation s) = Some g"
    and "fst (getCorrectedAltitude cg drag s) = Some a"
  shows "g - getEpsilon \<le> a
    \<and> fst (getCorrectedAltitude cg drag (setAltitude (Some a) s)) = Some a"
  using corrected_above_ground [OF assms] corrected_twice [of cg drag s] assms(4) by simp

theorem altitude_corrected_witness:
  "getEpsilon \<ge> 0 \<and> 125 - getEpsilon \<le> (125 :: rat)
   \<and> fst (getCorrectedAltitude (Some 5) True (setAltitude (Some 125) ((sampleSituation ''BAW1'' 0 0)
       \<lparr>s_groundElevationPlane := nullPlane\<lparr>co_height := Some 120\<rparr>\<rparr>))) = Some 125"
  using altitude_corrected [of "(sampleSituation ''BAW1'' 0 0)\<lparr>s_groundElevationPlane := nullPlane\<lparr>co_height := Some 120\<rparr>\<rparr>"
      "Some 5" 125 True 125]
  by (simp add: sampleSituation_def nullPlane_def hasGroundElevation_def getGroundElevation_def withOffset_def
      isZeroEpsilonConsidered_def getEpsilon_def pqPlus_def pqValue_def getCorrectedAltitude_def getAltitude_def
      Let_def pqMinus_def isNegativeWithEpsilonConsidered_def)

text \<open>C12: A checked elevation never makes the knowledge of the elevation worse: at every position of a
  history the rank of the information is at least what it was.\<close>

theorem elevations_improve:
  assumes "\<forall>s \<in> set xs. elevation_wf s"
  shows "list_all2 (\<lambda>s s'. elevation_wf s' \<and> elevationRank (getGroundElevationInfo s) \<le> elevationRank (getGroundElevationInfo s'))
    xs (snd (setGroundElevationCheckedAll G ep info newerThan xs))"
  by (rule checked_all [OF assms])

theorem elevations_improve_witness:
  "length (snd (setGroundElevationCheckedAll sampleGeo
     (nullPlane\<lparr>co_vector := Some 0, co_height := Some 90, ep_radius := Some 10\<rparr>) FromProvider (-1)
     [sampleSituation ''BAW1'' 0 0])) = 1"
  using elevations_improve [of "[sampleSituation ''BAW1'' 0 0]" sampleGeo
      "nullPlane\<lparr>co_vector := Some 0, co_height := Some 90, ep_radius := Some 10\<rparr>" FromProvider "-1"]
  by (auto simp: sampleSituation_def elevation_wf_def hasGroundElevation_def getGroundElevation_def nullPlane_def
      dest!: list_all2_lengthD)

subsection \<open>Types of aircraft\<close>

definition sampleJet :: CAircraftIcaoCode where
  "sampleJet = mkIcao ''B738'' ''738'' '''' ''L2J'' ''BOEING'' ''737-800'' '''' '''' MEDIUM True False False 0"



text \<open>A pattern of three characters, none of the outer two a space, matches a valid combined type
  exactly when each position does: by a wildcard (asterisk or dash) or by the character itself,
  without regard to case.\<close>

theorem combined_type_positions:
  assumes "hasValidCombinedType c" and "length p = 3" and "no_outer_space p"
  shows "matchesCombinedType p c
    = Some (list_all2 (\<lambda>q x. q \<in> {CHR ''*'', CHR ''-'', CHR '' ''} \<or> toUpperC q = x) p (ic_combinedType c))"
  using matches_positions [OF assms] by (simp add: positionMatches_def [abs_def])

theorem combined_type_positions_witness: "matchesCombinedType ''L-J'' sampleJet = Some True"
  using combined_type_positions [of sampleJet "''L-J''"]
  by (simp add: sampleJet_def mkIcao_def hasValidCombinedType_def isValidCombinedType_def isDigitC_def no_outer_space_def
      trimmed_def isSpace_def toUpperC_def isLowerC_def)

text \<open>A type without errors repairs any type that is not the unassigned one: with the missing
  parts taken over, the type has no errors and is complete, and taking over the parts again
  changes nothing.\<close>

theorem icao_repaired:
  assumes "icao_wf other" and "hasKnownDesignator other" and "validateIcao other = []"
    and "ic_designator c \<noteq> getUnassignedDesignator"
  shows "validateIcao (updateMissingParts c other) = [] \<and> hasCompleteData (updateMissingParts c other)
    \<and> updateMissingParts (updateMissingParts c other) other = updateMissingParts c other"
  using update_repairs [OF assms] update_twice [OF assms(1)] by simp

theorem icao_repaired_witness: "validateIcao (updateMissingParts (mkShortIcao ''B7'' '''') sampleJet) = []"
proof -
  have "icao_wf sampleJet" by (simp only: sampleJet_def mkIcao_wf)
  moreover have "hasKnownDesignator sampleJet" "validateIcao sampleJet = []"
    by (simp_all add: sampleJet_def mkIcao_def hasKnownDesignator_def hasValidDesignator_def isValidDesignator_def
        containsChar_def isUpperC_def isDigitC_def getUnassignedDesignator_def validateIcao_def hasValidDbKey_def
        hasValidCombinedType_def isValidCombinedType_def trimmed_def isSpace_def toUpperC_def isLowerC_def)
  moreover have "ic_designator (mkShortIcao ''B7'' '''') \<noteq> getUnassignedDesignator"
    by (simp add: mkShortIcao_def CAircraftIcaoCode_default_def getUnassignedDesignator_def trimmed_def isSpace_def
        toUpperC_def isLowerC_def)
  ultimately show ?thesis using icao_repaired by blast
qed

subsection \<open>The airspace monitor\<close>

definition sampleSurface :: "rat Surface" where
  "sampleSurface = \<lparr>g_distance = (\<lambda>a b. \<bar>a - b\<bar>), g_equal = (=), g_bearing = (\<lambda>a b. if a \<le> b then 0 else 180)\<rparr>"

definition sampleOwnAircraft :: "rat CSimulatedAircraftFull" where
  "sampleOwnAircraft = setSituation (sampleSituation ''DLH1'' 0 300)
     (aircraft_setCallsign (mkCallsign ''DLH1'' Aircraft) CSimulatedAircraft_default)"

definition sampleMonitorEnv :: "int \<Rightarrow> rat monitorEnv" where
  "sampleMonitorEnv t = \<lparr>me_now = t, me_shuttingDown = False, me_isConnected = True, me_provider = sampleProviderEnv,
     me_surface = sampleSurface, me_decrypt = (\<lambda>s. s),
     me_webData = Some \<lparr>wd_models = [], wd_liveries = [], wd_aircraftIcaos = [], wd_airlineIcaos = []\<rparr>,
     me_srt = sort_key, me_keyOrder = (\<lambda>xs. xs), me_readFile = (\<lambda>_. ''''), me_engine = (\<lambda>_ _ _ _ _. ScriptOther),
     me_setup = CAircraftMatcherSetup_default, me_modelSet = [], me_vatsim = False, me_hasDataFile = False,
     me_voiceCapability = (\<lambda>_. UnknownVoice), me_dataFileStations = (\<lambda>_. []),
     me_dataFileRemarks = (\<lambda>_. CFlightPlanRemarks_default), me_dataFileAircraft = (\<lambda>a. a), me_dataFileUsers = (\<lambda>_. []),
     me_ownAircraft = sampleOwnAircraft, me_observer = False, me_closestElevation = (\<lambda>_ _. nullPlane),
     me_averageElevationOnGround = (\<lambda>_ _ _ _. nullPlane), me_simulatorOrDbCG = (\<lambda>_ _. None), me_maxRangeNm = 100,
     me_aircraftOrder = [''BAW1'', ''DLH2''], me_clientOrder = [], me_elevationOrder = []\<rparr>"

lemma sample_monitorEnv:
  "env_ok (sampleMonitorEnv t)" "isConnectedAndNotShuttingDown (sampleMonitorEnv t)"
  "\<not> isCopilotAircraft (sampleMonitorEnv t) callsign"
  by (simp_all add: env_ok_def sampleMonitorEnv_def sampleProviderEnv_def isConnectedAndNotShuttingDown_def isCopilotAircraft_def)





text \<open>C16: Whatever events the airspace monitor handles, an aircraft, and a client, is kept under its own
  callsign, no station and no callsign of a queue is there twice, up to the case of the letters, and the
  distance at which an aircraft is given up is not below the one up to which it is accepted.\<close>

theorem monitor_invariant:
  assumes "list_all (\<lambda>(E, ev). env_ok E \<and> monitor_event_ok ev) es" and "monitor_run es (initialMonitor emptyProvider) = Some m"
  shows "(\<forall>cs a. m_aircraftInRange (mo_provider m) cs = Some a \<longrightarrow> ra_callsign a = cs \<and> cs_callsign (aircraft_getCallsign a) = cs)
    \<and> (\<forall>cs c. mo_clients m cs = Some c \<longrightarrow> cs_callsign (client_getCallsign c) = cs)
    \<and> distinct (map (\<lambda>s. upperCallsign (st_callsign s)) (m_atcStationsOnline m))
    \<and> distinct (map upperCallsign (m_queryAtis m)) \<and> distinct (map upperCallsign (m_queryPilot m))
    \<and> m_maxDistanceNM m \<le> m_maxDistanceNMHysteresis m"
proof -
  have inv: "monitor_inv m" using monitor_run_inv [OF inv_initial [OF aircraft_empty] assms] .
  have "ra_callsign a = cs \<and> cs_callsign (aircraft_getCallsign a) = cs" if "m_aircraftInRange (mo_provider m) cs = Some a" for cs a
    using aircraft_named [OF inv_aircraft [OF inv] that] by (simp add: named_aircraft_def aircraft_getCallsign_def)
  with inv show ?thesis
    by (auto simp: monitor_inv_def keyed_by_def stations_ok_def queue_ok_def)
qed

theorem monitor_invariant_witness:
  "\<exists>m. monitor_run [(sampleMonitorEnv 0, ConnectionStatusChange Connecting),
      (sampleMonitorEnv 5, AircraftUpdate (sampleSituation ''BAW1'' 5 200) (mkTransponder 2000 ModeC))]
      (initialMonitor emptyProvider) = Some m
    \<and> m_maxDistanceNM m \<le> m_maxDistanceNMHysteresis m"
proof -
  let ?es = "[(sampleMonitorEnv 0, ConnectionStatusChange Connecting),
      (sampleMonitorEnv 5, AircraftUpdate (sampleSituation ''BAW1'' 5 200) (mkTransponder 2000 ModeC))]"
  have run: "monitor_run ?es (initialMonitor emptyProvider) = Some (onAircraftUpdateReceived (sampleMonitorEnv 5)
      (sampleSituation ''BAW1'' 5 200) (mkTransponder 2000 ModeC)
      (mo_onConnectionStatusChanged (sampleMonitorEnv 0) Connecting (initialMonitor emptyProvider)))" by simp
  have "list_all (\<lambda>(E, ev). env_ok E \<and> monitor_event_ok ev) ?es"
    using sample_monitorEnv(1) by (simp add: monitor_event_ok_def sampleSituation_def)
  from monitor_invariant [OF this run] run show ?thesis by blast
qed

text \<open>C17: Aircraft by distance: a position farther away than the distance with its hysteresis removes the
  aircraft, one beyond the distance never brings in a new aircraft, one within the hysteresis keeps an
  aircraft, and one within the distance brings it in.\<close>

theorem aircraft_by_distance:
  assumes "isConnectedAndNotShuttingDown E" and "\<not> isCopilotAircraft E (situationCallsign s)" and "\<not> isNullSituation s"
    and "env_ok E" and "hasWebServices E" and "s_callsign s \<noteq> []"
    and "0 \<le> m_maxDistanceNM m" and "m_maxDistanceNM m \<le> m_maxDistanceNMHysteresis m"
    and "d = valueIntegerNM (calculateDistanceToOwnAircraft E s)" and "m1 = onAircraftUpdateReceived E s t m"
  shows "isAircraftInRange (s_callsign s) (mo_provider m1) \<longleftrightarrow>
    d \<le> m_maxDistanceNM m \<or> isAircraftInRange (s_callsign s) (mo_provider m) \<and> d \<le> m_maxDistanceNMHysteresis m"
proof -
  have range: "isAircraftInRange (s_callsign s) (mo_provider q) \<longleftrightarrow> s_callsign s \<in> aircraftKeys q" for q :: "'a CAirspaceMonitor"
    using assms(6) by (auto simp: isAircraftInRange_def aircraftKeys_def)
  note keys = update_keys [OF assms(1-3,7,6,9), of t]
  have "d \<le> m_maxDistanceNM m \<Longrightarrow> fst (handleMaxRange E s m)"
    using assms by (simp add: handleMaxRange_def Let_def)
  with keys update_adds [OF assms(1,2,4-6), of m t] assms(8) show ?thesis
    unfolding range assms(10) by (meson le_less_trans not_le)
qed

theorem aircraft_by_distance_witness:
  "isAircraftInRange ''BAW1'' (mo_provider (onAircraftUpdateReceived (sampleMonitorEnv 0) (sampleSituation ''BAW1'' 0 200)
     (mkTransponder 2000 ModeC) (initialMonitor emptyProvider)))"
proof -
  have "valueIntegerNM (calculateDistanceToOwnAircraft (sampleMonitorEnv 0) (sampleSituation ''BAW1'' 0 200)) = 0"
    "\<not> isNullSituation (sampleSituation ''BAW1'' 0 200)"
    "m_maxDistanceNM (initialMonitor (emptyProvider :: rat CRemoteAircraftProvider)) = 125"
    "m_maxDistanceNMHysteresis (initialMonitor (emptyProvider :: rat CRemoteAircraftProvider)) = 138"
    by code_simp+
  then show ?thesis
    using aircraft_by_distance [of "sampleMonitorEnv 0" "sampleSituation ''BAW1'' 0 200"
        "initialMonitor (emptyProvider :: rat CRemoteAircraftProvider)", OF _ _ _ _ _ _ _ _ refl refl, of "mkTransponder 2000 ModeC"]
      sample_monitorEnv
    by (simp add: sampleSituation_def hasWebServices_def sampleMonitorEnv_def)
qed



text \<open>C19: The queries of the airspace monitor are staggered: while it is connected, a tick of its fast timer
  sends at most two queries, and as many ticks as there are callsigns in the two queues empty
  them.\<close>

theorem queries_staggered:
  assumes "list_all isConnectedAndNotShuttingDown Es"
  shows "length (m_queryAtis (fold fastProcessing Es m)) + length (m_queryPilot (fold fastProcessing Es m))
      \<le> length (m_queryAtis m) + length (m_queryPilot m) - length Es
    \<and> length (mo_effects (fold fastProcessing Es m)) \<le> length (mo_effects m) + 2 * length Es"
  using fast_empties [OF assms, of m] fast_effects [OF assms, of m] by (simp add: queued_def)

theorem queries_staggered_witness:
  "m_queryPilot (fold fastProcessing [sampleMonitorEnv 0] ((initialMonitor emptyProvider)\<lparr>m_queryPilot := [mkCallsign ''BAW1'' Aircraft]\<rparr>)) = []"
  using queries_staggered [of "[sampleMonitorEnv 0]" "(initialMonitor emptyProvider)\<lparr>m_queryPilot := [mkCallsign ''BAW1'' Aircraft]\<rparr>"]
    sample_monitorEnv(2) by (simp add: initialMonitor_def)



subsection \<open>Flight plans\<close>

text \<open>C21: What a flight plan says of an aircraft in the form of ICAO is read back: the type, the category of
  the wake turbulence (the medium one where it is unknown) and the codes of the equipment.\<close>

theorem icao_form_roundtrip:
  assumes "isValidDesignator (ic_designator (fi_aircraftIcao i))"
    and "fi_aircraftIcao i = mkShortIcao (ic_designator (fi_aircraftIcao i)) []"
    and "cn_equipment (fi_comNavEquipment i) \<noteq> {} \<or> cn_satcom (fi_comNavEquipment i) \<noteq> {}"
    and "fi_ssrEquipment i \<noteq> {}"
  shows "mkAircraftInfo (asIcaoString i) = i\<lparr>fi_wtc := if fi_wtc i = UNKNOWN then MEDIUM else fi_wtc i\<rparr>"
  by (rule icao_string_read [OF assms])

theorem icao_form_roundtrip_witness:
  "fi_wtc (mkAircraftInfo (asIcaoString \<lparr>fi_aircraftIcao = mkShortIcao ''B738'' [], fi_comNavEquipment = CComNavEquipment_default,
     fi_ssrEquipment = {ModeAC}, fi_wtc = UNKNOWN\<rparr>)) = MEDIUM"
proof -
  have d: "isValidDesignator ''B738''" "ic_designator (mkShortIcao ''B738'' []) = ''B738''" by code_simp+
  show ?thesis
    by (subst icao_form_roundtrip) (simp_all add: d CComNavEquipment_default_def)
qed

text \<open>C22: The form of the FAA keeps less, but what it keeps stays: writing an aircraft, reading the text and
  writing again gives the same text.\<close>

theorem faa_form_stable:
  assumes "isValidDesignator (ic_designator (fi_aircraftIcao i))"
  shows "asFaaString (mkAircraftInfo (asFaaString i)) = asFaaString i"
  by (rule faa_string_stable [OF assms])

theorem faa_form_stable_witness:
  "asFaaString (mkAircraftInfo (asFaaString \<lparr>fi_aircraftIcao = mkShortIcao ''B738'' [], fi_comNavEquipment = CComNavEquipment_default,
     fi_ssrEquipment = {ModeAC}, fi_wtc = HEAVY\<rparr>))
   = asFaaString \<lparr>fi_aircraftIcao = mkShortIcao ''B738'' [], fi_comNavEquipment = CComNavEquipment_default,
     fi_ssrEquipment = {ModeAC}, fi_wtc = HEAVY\<rparr>"
  by (rule faa_form_stable) code_simp

text \<open>C23: The value of the first marker of its kind in the remarks of a flight plan is read to its end, the
  next marker or the end of the remarks; a value of a single character at the end of the remarks
  is lost.\<close>

theorem remark_value_read:
  assumes "indexOfStr (pre @ marker @ v @ post) marker = Some (length pre)"
    and "v \<noteq> []" and "CHR ''/'' \<notin> set v" and "simplified v = v" and "\<not> isSpace (last v)"
    and "post = [] \<or> startsMarker post"
  shows "getRemark (pre @ marker @ v @ post) marker = (if post = [] \<and> length v = 1 then [] else v)"
  using getRemark_value [OF assms(1)] assms(2-6) by (simp add: remarkValue_def endsValue_def)

theorem remark_value_read_witness:
  "getRemark ''PBN/A1 RT/SPEED BIRD SEL/ABCD'' ''RT/'' = ''SPEED BIRD''"
proof -
  have "indexOfStr (''PBN/A1 '' @ ''RT/'' @ ''SPEED BIRD'' @ '' SEL/ABCD'') ''RT/'' = Some (length ''PBN/A1 '')"
    "simplified ''SPEED BIRD'' = ''SPEED BIRD''" "startsMarker '' SEL/ABCD''"
    by code_simp+
  from remark_value_read [OF this(1) _ _ this(2)] this(3) show ?thesis by (simp add: isSpace_def)
qed

text \<open>C24: The voice capability that is set in the remarks of a flight plan is the one that is read from
  them, when no other was in them; voice is read back always.\<close>

theorem voice_capability_read_back:
  assumes "vc \<noteq> UnknownVoice" and "vc = Voice \<or> \<not> (containsCI s ''/V/'' \<or> containsCI s ''/R/'' \<or> containsCI s ''/T/'')"
  shows "voiceOfRemarks (replaceVoiceCapabilities (toFlightPlanRemarks vc) s) = vc"
  using voice_read_back [OF assms(1), of s] voice_always_read [of s] assms(2)
  by (cases "vc = Voice") (simp_all add: voiceMarks_def)

theorem voice_capability_read_back_witness:
  "voiceOfRemarks (replaceVoiceCapabilities ''/T/'' ''PBN/A1 SEL/ABCD'') = TextOnly"
proof -
  have "\<not> (containsCI ''PBN/A1 SEL/ABCD'' ''/V/'' \<or> containsCI ''PBN/A1 SEL/ABCD'' ''/R/'' \<or> containsCI ''PBN/A1 SEL/ABCD'' ''/T/'')"
    by code_simp
  then show ?thesis using voice_capability_read_back [of TextOnly "''PBN/A1 SEL/ABCD''"] by simp
qed


subsection \<open>The aircraft matcher\<close>

definition sampleModel :: "string \<Rightarrow> CAircraftModel" where
  "sampleModel s = mkModel s TypeOwnSimulatorModel NoSimulator '''' '''' sampleJet CLivery_default"

definition sampleMatcher :: CAircraftMatcher where
  "sampleMatcher = \<lparr>mt_setup = CAircraftMatcherSetup_default, mt_defaultModel = sampleModel ''A320 GRAY'',
     mt_modelSet = [sampleModel ''B738 KLM'', sampleModel ''B738 DLH''], mt_disabledModels = [],
     mt_simulator = NoSimulator, mt_statistics = [], mt_categoryMatcher = CCategoryMatcher_default,
     mt_modelSetInfo = ''''\<rparr>"

definition sampleMatcherEnv :: MatcherEnv where
  "sampleMatcherEnv = \<lparr>mv_web = None, mv_readFile = (\<lambda>_. ''''), mv_engine = (\<lambda>_ _ _ _ _. ScriptOther), mv_random = hd,
     mv_reduceLog = False\<rparr>"

definition sampleRemote :: CAircraftModel where
  "sampleRemote = mkModel ''B738 XYZ'' TypeQueriedFromNetwork NoSimulator '''' '''' sampleJet CLivery_default"


lemma sample_regular: "regularType (am_aircraftIcao sampleRemote)"
proof -
  have "wf_icao sampleJet" unfolding sampleJet_def by (intro builtIcao_wf builtIcao.intros)
  moreover have "\<not> hasCategory sampleJet" by code_simp
  ultimately show ?thesis by (simp add: regularType_def sampleRemote_def mkModel_def)
qed






text \<open>When the setup matches by model string, the first model of the set with the string of the
  remote aircraft, or with it as alias, is the match, even when the setup excludes this
  model from the models for matching.\<close>

theorem exact_string_wins:
  assumes "am_modelString remote \<noteq> []" and "\<not> hasManuallySetString remote" and "inMode ByModelString (mt_setup mt)"
    and "find (matchesModelStringOrAlias False (am_modelString remote)) (mt_modelSet mt) = Some k"
    and "model_hasModelString k" and "noScriptRun useMatchingScript mt"
  shows "getClosestMatch env cs remote useMatchingScript mt = Some (asMatched cs k)"
  by (rule closest_exact [OF assms])

theorem exact_string_wins_witness:
  "getClosestMatch sampleMatcherEnv CCallsign_default (setModelString ''b738 dlh'' sampleRemote) False sampleMatcher
    = Some (asMatched CCallsign_default (sampleModel ''B738 DLH''))"
proof (rule exact_string_wins)
  let ?remote = "setModelString ''b738 dlh'' sampleRemote"
  show "am_modelString ?remote \<noteq> []" "\<not> hasManuallySetString ?remote" "inMode ByModelString (mt_setup sampleMatcher)"
    "model_hasModelString (sampleModel ''B738 DLH'')"
    by code_simp+
  have "matchesModelStringOrAlias False (am_modelString ?remote) (sampleModel ''B738 DLH'')"
    "\<not> matchesModelStringOrAlias False (am_modelString ?remote) (sampleModel ''B738 KLM'')"
    by code_simp+
  then show "find (matchesModelStringOrAlias False (am_modelString ?remote)) (mt_modelSet sampleMatcher)
      = Some (sampleModel ''B738 DLH'')"
    by (simp add: sampleMatcher_def)
  show "noScriptRun False sampleMatcher" by (simp add: noScriptRun_def)
qed



text \<open>C29: Matching by score keeps exactly the models with the best score, without those of score zero
  when these are to be ignored; it keeps one whenever there is such a model, and all the scores are
  between 0 and 100.\<close>

theorem best_scores_picked:
  assumes "\<forall>m \<in> set ms. 0 \<le> ic_rank (am_aircraftIcao m) \<and> livery_16bit (am_livery m)" and "livery_16bit (am_livery remote)"
  shows "set (getClosestMatchScoreImplementation ms stp remote)
      = {m \<in> scoredModels ms stp remote. \<forall>k \<in> scoredModels ms stp remote.
           model_calculateScore remote (inMode ScorePreferColorLiveries stp) k
             \<le> model_calculateScore remote (inMode ScorePreferColorLiveries stp) m}
    \<and> (getClosestMatchScoreImplementation ms stp remote = [] \<longleftrightarrow> scoredModels ms stp remote = {})
    \<and> model_calculateScore remote pcl ` set ms \<subseteq> {0..100}"
proof -
  have "scoredModels ms stp remote = {}" if "getClosestMatchScoreImplementation ms stp remote = []"
    using score_implementation_empty that by blast
  moreover have "getClosestMatchScoreImplementation ms stp remote = []" if "scoredModels ms stp remote = {}"
    using score_implementation_set [of _ ms stp remote] that by (cases "getClosestMatchScoreImplementation ms stp remote") auto
  ultimately have empty: "getClosestMatchScoreImplementation ms stp remote = [] \<longleftrightarrow> scoredModels ms stp remote = {}"
    by blast
  have "model_calculateScore remote pcl m \<in> {0..100}" if "m \<in> set ms" for m
    using model_score_bounds [OF _ _ assms(2), of m pcl] assms(1) that by simp
  then have scores: "model_calculateScore remote pcl ` set ms \<subseteq> {0..100}" by blast
  show ?thesis
    by (intro conjI set_eqI empty scores) (simp only: mem_Collect_eq score_implementation_set)
qed

theorem best_scores_picked_witness:
  "model_calculateScore sampleRemote True (sampleModel ''B738 KLM'') \<in> {0..100}"
proof -
  have "0 \<le> ic_rank (am_aircraftIcao (sampleModel ''B738 KLM''))" "livery_16bit (am_livery (sampleModel ''B738 KLM''))"
    "livery_16bit (am_livery sampleRemote)"
    by code_simp+
  then show ?thesis
    using best_scores_picked [of "[sampleModel ''B738 KLM'']" sampleRemote "mt_setup sampleMatcher" True, THEN conjunct2, THEN conjunct2]
    by simp
qed

text \<open>C30: The stepwise reduction never adds a model and never loses all of them: whatever the setup is,
  its result is a part of the set, and empty only when the set was.\<close>

theorem stepwise_reduction_safe:
  assumes "getClosestMatchStepwiseReduceImplementation stepLog modelSet stp c remote = Some ms"
  shows "set ms \<subseteq> set modelSet \<and> (modelSet \<noteq> [] \<longrightarrow> ms \<noteq> [])"
  using stepwise_reduces [OF assms] by (simp add: reduces_def)

theorem stepwise_reduction_safe_witness:
  "\<exists>ms. getClosestMatchStepwiseReduceImplementation True [sampleModel ''B738 KLM''] CAircraftMatcherSetup_default
      CCategoryMatcher_default sampleRemote = Some ms \<and> set ms = {sampleModel ''B738 KLM''}"
proof -
  obtain ms where ms: "getClosestMatchStepwiseReduceImplementation True [sampleModel ''B738 KLM'']
      CAircraftMatcherSetup_default CCategoryMatcher_default sampleRemote = Some ms"
    using steps_total [OF sample_regular]
    by (fastforce simp: getClosestMatchStepwiseReduceImplementation_def)
  then show ?thesis using stepwise_reduction_safe [OF ms] by (cases ms) auto
qed

text \<open>C31: The ids of model, livery and type that are sent in the livery string of the network are read
  back by the receiver; an id that is not known is none.\<close>

theorem livery_string_roundtrip:
  assumes "int32 (am_dbKey m)" and "int32 (lv_dbKey (am_livery m))" and "int32 (ic_dbKey (am_aircraftIcao m))"
  shows "parseNetworkLiveryString (getSwiftLiveryString True True True m)
    = \<lparr>id_model = validIdOr (am_dbKey m), id_livery = validIdOr (lv_dbKey (am_livery m)),
       id_aircraft = validIdOr (ic_dbKey (am_aircraftIcao m))\<rparr>"
  by (rule parse_livery_string [OF assms])

theorem livery_string_roundtrip_witness:
  "id_model (parseNetworkLiveryString (getSwiftLiveryString True True True (sampleRemote\<lparr>am_dbKey := 4711\<rparr>))) = 4711"
proof -
  have "int32 (am_dbKey (sampleRemote\<lparr>am_dbKey := 4711\<rparr>))" "int32 (lv_dbKey (am_livery (sampleRemote\<lparr>am_dbKey := 4711\<rparr>)))"
    "int32 (ic_dbKey (am_aircraftIcao (sampleRemote\<lparr>am_dbKey := 4711\<rparr>)))"
    by code_simp+
  from livery_string_roundtrip [OF this] show ?thesis by (simp add: validIdOr_def hasValidDbKey_def)
qed

text \<open>After models were moved to a position, the order numbers of the set are 0, 1, 2 and so on,
  each exactly once, and the models that were moved have those from the position on.\<close>

theorem moved_models_ordered:
  assumes "items \<noteq> []" and "keySorts srt"
    and "0 \<le> t" and "t \<le> int (length (withoutItemsOfSameOrder am_order items xs))"
  shows "mset (map am_order (moveTo srt am_order setModelOrder items t xs))
      = mset [0..int (length (moveTo srt am_order setModelOrder items t xs)) - 1]
    \<and> map am_order (drop (length (withoutItemsOfSameOrder am_order items xs)) (moveTo srt am_order setModelOrder items t xs))
      = [t..t + int (length items) - 1]"
  using model_order.moveTo_orders [OF assms] by blast

theorem moved_models_ordered_witness:
  "map am_order (drop 1 (moveTo sort_key am_order setModelOrder [setModelOrder 1 (sampleModel ''A'')] 0
      [setModelOrder 0 (sampleModel ''B''), setModelOrder 1 (sampleModel ''A'')])) = [0]"
proof -
  let ?items = "[setModelOrder 1 (sampleModel ''A'')]"
  let ?xs = "[setModelOrder 0 (sampleModel ''B''), setModelOrder 1 (sampleModel ''A'')]"
  have "length (withoutItemsOfSameOrder am_order ?items ?xs) = 1" by code_simp
  then show ?thesis using moved_models_ordered [of ?items sort_key 0 ?xs] by (simp add: keySorts_def)
qed



text \<open>The reverse lookup of a model whose string is in the data base gives the model of the data base,
  with the callsign and the kind of the model that was looked up, whatever its type, livery and
  the livery string of the network say.\<close>

theorem reverse_lookup_of_known_string:
  assumes "\<not> hasValidDbKey (am_dbKey m)" and "model_hasModelString m" and "isReverseLookupModelString stp"
    and "hasValidDbKey (am_dbKey (getModelForModelString (am_modelString m) wd))"
  shows "reverseLookupModel srt (Some wd) m info stp modelSet
    = Some ((setModelCallsign (am_callsign m) (getModelForModelString (am_modelString m) wd))\<lparr>am_modelType := am_modelType m\<rparr>)"
  using assms reverse_by_string [OF assms(2-4), of modelSet]
  by (simp add: reverseLookupModel_def Let_def fromDbModel_def setModelCallsign_def)

theorem reverse_lookup_of_known_string_witness:
  "map_option am_dbKey (reverseLookupModel sort_key
      (Some \<lparr>wd_models = [(sampleModel ''B738 XYZ'')\<lparr>am_dbKey := 7\<rparr>], wd_liveries = [], wd_aircraftIcaos = [], wd_airlineIcaos = []\<rparr>)
      sampleRemote '''' CAircraftMatcherSetup_default []) = Some 7"
proof -
  let ?wd = "\<lparr>wd_models = [(sampleModel ''B738 XYZ'')\<lparr>am_dbKey := 7\<rparr>], wd_liveries = [], wd_aircraftIcaos = [], wd_airlineIcaos = []\<rparr>"
  have key: "am_dbKey (getModelForModelString (am_modelString sampleRemote) ?wd) = 7" by code_simp
  then have "hasValidDbKey (am_dbKey (getModelForModelString (am_modelString sampleRemote) ?wd))"
    by (simp add: hasValidDbKey_def)
  moreover have "\<not> hasValidDbKey (am_dbKey sampleRemote)" "model_hasModelString sampleRemote"
    "isReverseLookupModelString CAircraftMatcherSetup_default"
    by code_simp+
  ultimately show ?thesis
    using reverse_lookup_of_known_string [of sampleRemote CAircraftMatcherSetup_default ?wd sort_key "''''" "[]"]
    by (simp add: key setModelCallsign_def)
qed

text \<open>C33: The reverse lookup of a type reads the front of an empty list exactly when the data base has
  several types of the designator and none of them has a manufacturer.\<close>

theorem reverse_lookup_undefined:
  assumes "keySorts srt"
  shows "reverseLookupAircraftIcao srt (Some wd) icao = None \<longleftrightarrow>
    1 < length (getAircraftIcaoCodesForDesignator (ic_designator icao) wd)
    \<and> (\<forall>c \<in> set (getAircraftIcaoCodesForDesignator (ic_designator icao) wd). ic_manufacturer c = [])"
  by (rule reverse_icao_none [OF assms])

theorem reverse_lookup_undefined_witness:
  "reverseLookupAircraftIcao sort_key (Some \<lparr>wd_models = [], wd_liveries = [],
      wd_aircraftIcaos = [mkShortIcao ''B738'' ''L2J'', mkShortIcao ''B738'' ''''], wd_airlineIcaos = []\<rparr>)
     (mkShortIcao ''B738'' '''') = None"
proof -
  let ?wd = "\<lparr>wd_models = [], wd_liveries = [], wd_aircraftIcaos = [mkShortIcao ''B738'' ''L2J'', mkShortIcao ''B738'' ''''],
    wd_airlineIcaos = []\<rparr>"
  have "getAircraftIcaoCodesForDesignator (ic_designator (mkShortIcao ''B738'' '''')) ?wd
    = [mkShortIcao ''B738'' ''L2J'', mkShortIcao ''B738'' '''']"
    by code_simp
  moreover have "ic_manufacturer (mkShortIcao d t) = []" for d t
    by (simp add: mkShortIcao_def CAircraftIcaoCode_default_def)
  ultimately show ?thesis
    using reverse_lookup_undefined [of sort_key ?wd "mkShortIcao ''B738'' ''''"] by (simp add: keySorts_def)
qed

subsection \<open>Settings shared by processes\<close>

text \<open>C34: Processes that start with the same settings and connect to the core process agree after
  every sequence of events, once all messages are delivered: their caches hold the same value and
  time stamp for every key, with nothing pending, and a page shows the value of its cache
  if its validator accepts it. This holds whatever changes were made at the same time, and in whatever
  order the messages were delivered.\<close>

theorem caches_agree:
  assumes "\<forall>k. e_pendingChanges (getElement k els) = 0" and "\<forall>event \<in> set events. event_ok event"
    and "prs = caches_run events (map (freshProcess els) pagess)" and "\<forall>pr \<in> set prs. quiet_process pr"
    and "pr \<in> set prs" and "pr' \<in> set prs"
  shows "elementContent (getElement k (pr_elements pr)) = elementContent (getElement k (pr_elements pr'))
    \<and> e_pendingChanges (getElement k (pr_elements pr)) = 0
    \<and> (\<forall>l \<in> set (pr_links pr). \<forall>e. pg_elements (l_page l) k = Some e
         \<and> validate (pg_validator (l_page l) k) (e_value (getElement k (pr_elements pr)))
         \<longrightarrow> elementContent e = elementContent (getElement k (pr_elements pr)))"
proof -
  have inv: "caches_inv prs" using assms(1-3) by (simp add: caches_inv_run fresh_inv)
  have "pr_hub pr" "pr_hub pr'" using run_connected assms(3,5,6) by blast+
  then show ?thesis
    using quiet_caches [OF inv assms(5,6)] quiet_page [OF inv assms(5)] assms(4-6) by blast
qed

theorem caches_agree_witness:
  "\<exists>a b. caches_run [SetValue 0 0 7 ''k'' (Some True) 0 False, SetValue 1 0 8 ''k'' (Some False) 0 False,
       PageToCache 0 0, PageToCache 1 0, CacheToHub 1, CacheToHub 0, HubToCache 0, HubToCache 1,
       HubToCache 1, HubToCache 0, CacheToPage 0 0, CacheToPage 1 0, CacheToPage 0 0, CacheToPage 1 0]
       (map (freshProcess Map.empty) (replicate 2 [(\<lambda>_ _. True, [(''k'', Some True)])])) = [a, b]
     \<and> elementContent (getElement ''k'' (pr_elements a)) = elementContent (getElement ''k'' (pr_elements b))"
proof -
  let ?events = "[SetValue 0 0 7 ''k'' (Some True) 0 False, SetValue 1 0 8 ''k'' (Some False) 0 False,
       PageToCache 0 0, PageToCache 1 0, CacheToHub 1, CacheToHub 0, HubToCache 0, HubToCache 1,
       HubToCache 1, HubToCache 0, CacheToPage 0 0, CacheToPage 1 0, CacheToPage 0 0, CacheToPage 1 0]"
  let ?prs = "caches_run ?events (map (freshProcess Map.empty) (replicate 2 [(\<lambda>_ _. True, [(''k'', Some True)])]))"
  have len: "length ?prs = 2" by code_simp
  have "list_all (\<lambda>pr. pr_toHub pr = [] \<and> pr_fromHub pr = []
      \<and> list_all (\<lambda>l. l_toCache l = [] \<and> l_fromCache l = []) (pr_links pr)) ?prs" by code_simp
  then have q: "\<forall>pr \<in> set ?prs. quiet_process pr" by (simp add: list_all_iff quiet_process_def)
  obtain a b where ab: "?prs = [a, b]" using len by (auto simp: numeral_2_eq_2 length_Suc_conv)
  have start: "\<forall>k. e_pendingChanges (getElement k Map.empty) = 0" by (simp add: getElement_def newElement_def)
  have ok: "\<forall>event \<in> set ?events. event_ok event" by simp
  have mem: "a \<in> set ?prs" "b \<in> set ?prs" unfolding ab by simp_all
  show ?thesis using ab caches_agree [OF start ok refl q mem, of "''k''"] by blast
qed

text \<open>C35: From every state that can be reached, delivering the messages that are under way, and those
  that the deliveries cause, comes to an end: every delivery makes the load smaller, as long as
  there are messages one can be delivered, and so all are delivered after at most as many
  deliveries as the load.\<close>

theorem caches_settle:
  assumes "\<forall>k. e_pendingChanges (getElement k els) = 0" and "\<forall>event \<in> set events. event_ok event"
    and "length pagess \<le> M" and "\<forall>pages \<in> set pagess. length pages \<le> P"
  defines "prs \<equiv> caches_run events (map (freshProcess els) pagess)"
  shows "(delivers event prs \<longrightarrow> load P M (caches_step event prs) < load P M prs)
    \<and> ((\<exists>event. delivers event prs) \<longleftrightarrow> \<not> (\<forall>pr \<in> set prs. quiet_process pr))
    \<and> (\<exists>deliveries. (\<forall>event \<in> set deliveries. is_delivery event) \<and> length deliveries \<le> load P M prs
        \<and> (\<forall>pr \<in> set (caches_run deliveries prs). quiet_process pr))"
proof -
  have inv: "caches_inv prs" using assms(1,2) by (simp add: caches_inv_run fresh_inv prs_def)
  have size: "sized P M prs"
    unfolding prs_def by (rule sized_run) (use assms(3,4) in \<open>auto simp: sized_def freshProcess_def\<close>)
  show ?thesis
    using delivery_load [OF inv size] some_delivery [of prs] delivers_busy [of _ prs]
      delivery_ends [OF inv size] by blast
qed

theorem caches_settle_witness:
  "\<exists>deliveries. length deliveries \<le> 9 \<and> (\<forall>pr \<in> set (caches_run deliveries
     (caches_run [SetValue 0 0 7 ''k'' (Some True) 0 False]
       (map (freshProcess Map.empty) [[(\<lambda>_ _. True, [(''k'', None)])], []]))). quiet_process pr)"
proof -
  let ?pagess = "[[(\<lambda>_ _. True, [(''k'', None)])], []]"
    and ?events = "[SetValue 0 0 7 ''k'' (Some True) 0 False]"
  have load: "load 1 2 (caches_run ?events (map (freshProcess Map.empty) ?pagess)) \<le> 9" by code_simp
  have start: "\<forall>k. e_pendingChanges (getElement k Map.empty) = 0" by (simp add: getElement_def newElement_def)
  have ok: "\<forall>event \<in> set ?events. event_ok event" by simp
  have size: "length ?pagess \<le> 2" "\<forall>pages \<in> set ?pagess. length pages \<le> 1" by simp_all
  from caches_settle [OF start ok size, THEN conjunct2, THEN conjunct2] load show ?thesis
    by (meson le_trans)
qed

subsection \<open>Encrypted voice packets\<close>

text \<open>C36: The window against replays keeps what it promises: after any received numbers, a number is
  accepted exactly when it was not accepted before and fewer accepted numbers than the size of
  the window exceed it. No number is ever accepted twice.\<close>

theorem replay_window:
  assumes "mkChannel cfg n = Inr ch" and "checkAll ss ch = (accepted, ch')"
  shows "(fst (checkReceivedSequence s ch') \<longleftrightarrow> admissible (nat (max n 1)) (set accepted) s)
    \<and> distinct accepted"
proof -
  note r = checkAll_represents [OF mkChannel_represents(1) [OF assms(1)] _ assms(2), simplified]
  then show ?thesis
    using check_refines(1) [of ch' "set accepted" s] mkChannel_represents(2) [OF assms(1)] by simp
qed

theorem replay_window_witness:
  "\<exists>ch ch'. mkChannel \<lparr>cfg_channelTag = ''voice'', cfg_aeadReceiveKey = replicate 32 1,
        cfg_aeadTransmitKey = replicate 32 2, cfg_hmacKey = []\<rparr> 2 = Inr ch
     \<and> checkAll [5, 7, 5, 9] ch = ([5, 7, 9], ch')
     \<and> fst (checkReceivedSequence 8 ch') \<and> \<not> fst (checkReceivedSequence 6 ch')"
proof -
  let ?cfg = "\<lparr>cfg_channelTag = ''voice'', cfg_aeadReceiveKey = replicate 32 (1 :: 8 word),
        cfg_aeadTransmitKey = replicate 32 2, cfg_hmacKey = []\<rparr>"
  obtain ch where ch: "mkChannel ?cfg 2 = Inr ch" by (simp add: mkChannel_def KEYBYTES_def Let_def)
  obtain acc ch' where r: "checkAll [5, 7, 5, 9] ch = (acc, ch')" by fastforce
  have "map_sum (\<lambda>_. ()) (\<lambda>ch. fst (checkAll [5, 7, 5, 9] ch)) (mkChannel ?cfg 2) = Inr [5, 7, 9]" by code_simp
  then have acc: "acc = [5, 7, 9]" by (simp add: ch r del: checkAll.simps)
  have "{a \<in> {5, 7, 9}. (8 :: 32 word) < a} = {9}" "{a \<in> {5, 7, 9}. (6 :: 32 word) < a} = {7, 9}" by auto
  then have "fst (checkReceivedSequence 8 ch')" "\<not> fst (checkReceivedSequence 6 ch')"
    using replay_window [OF ch r] by (simp_all add: acc admissible_def)
  with ch r acc show ?thesis by blast
qed

text \<open>C37: A voice packet is read by the peer as it was sent, with the header, the name and the data,
  as long as the name and the data have at most 496 bytes; a longer packet writes beyond the
  buffer of the receiver.\<close>

theorem packet_read_as_sent:
  assumes "crypto_laws C" and "m_aeadTransmitKey sender = m_aeadReceiveKey receiver"
    and "header = \<lparr>h_ChannelTag = m_channelTag sender, h_Sequence = ucast (m_transmitSequence sender),
            h_Mode = AEAD_ChaCha20Poly1305\<rparr>"
    and "length (packHeader C header) < 65536" and "length name < 65536" and "length dto < 65536"
  shows "deserialize C receiver (fst (serializeOn C AEAD_ChaCha20Poly1305 name dto sender)) False =
    (if 496 < length name + length dto then Inl BufferOverflow
     else Inr \<lparr>d_header = header, d_dtoNameBuffer = name, d_dataBuffer = dto, d_verified = True\<rparr>)"
  using deserialize_sent [OF assms(1,4,3) _ assms(5,6), of _ False receiver] assms(2)
  by (simp add: serializeOn_def getTransmitKeySequence_def)

theorem packet_read_as_sent_witness:
  "\<exists>ch. mkChannel \<lparr>cfg_channelTag = ''voice'', cfg_aeadReceiveKey = replicate 32 1,
        cfg_aeadTransmitKey = replicate 32 1, cfg_hmacKey = []\<rparr> 50 = Inr ch
     \<and> deserialize sampleCrypto ch (fst (serializeOn sampleCrypto AEAD_ChaCha20Poly1305 [65, 84] [1, 2, 3] ch)) False
       = Inr \<lparr>d_header = \<lparr>h_ChannelTag = ''voice'', h_Sequence = 0, h_Mode = AEAD_ChaCha20Poly1305\<rparr>,
              d_dtoNameBuffer = [65, 84], d_dataBuffer = [1, 2, 3], d_verified = True\<rparr>"
proof -
  let ?cfg = "\<lparr>cfg_channelTag = ''voice'', cfg_aeadReceiveKey = replicate 32 (1 :: 8 word),
        cfg_aeadTransmitKey = replicate 32 1, cfg_hmacKey = []\<rparr>"
  obtain ch where ch: "mkChannel ?cfg 50 = Inr ch"
    and f: "m_channelTag ch = ''voice''" "m_transmitSequence ch = 0" "m_aeadTransmitKey ch = m_aeadReceiveKey ch"
    by (simp add: mkChannel_def KEYBYTES_def Let_def)
  have "length (packHeader sampleCrypto \<lparr>h_ChannelTag = ''voice'', h_Sequence = 0, h_Mode = AEAD_ChaCha20Poly1305\<rparr>) < 65536"
    by (simp add: sample_header)
  with packet_read_as_sent [OF sample_laws f(3) refl, of "[65, 84]" "[1, 2, 3]"] ch f show ?thesis by simp
qed

subsection \<open>The airspace\<close>



text \<open>A check of the watchdog reports exactly the aircraft and stations that have been silent for the
  timeout, each once, and forgets them; the others keep their time stamps.\<close>

theorem watchdog_reports_silent:
  assumes "tables_ok an" and "an_enabledWatchdog an" and "runs now an"
  shows "snd (watchdogCheckTimeouts now an) =
      map TimeoutAircraft (silentSince (now - an_timeoutAircraftMs an) (an_aircraftCallsignTimestamps an))
      @ map TimeoutAtc (silentSince (now - an_timeoutAtcMs an) (an_atcCallsignTimestamps an))
    \<and> an_aircraftCallsignTimestamps (fst (watchdogCheckTimeouts now an))
      = heardSince (now - an_timeoutAircraftMs an) (an_aircraftCallsignTimestamps an)
    \<and> an_atcCallsignTimestamps (fst (watchdogCheckTimeouts now an))
      = heardSince (now - an_timeoutAtcMs an) (an_atcCallsignTimestamps an)"
  by (simp add: watchdog_enabled [OF assms])

theorem watchdog_reports_silent_witness:
  "snd (watchdogCheckTimeouts 27500 (watchdogTouchAircraftCallsign 20000 ''DLH1''
     (watchdogTouchAircraftCallsign 9000 ''BAW12'' (mkAnalyzer 20000)))) = [TimeoutAircraft ''BAW12'']"
  using watchdog_reports_silent [of "watchdogTouchAircraftCallsign 20000 ''DLH1''
     (watchdogTouchAircraftCallsign 9000 ''BAW12'' (mkAnalyzer 20000))" 27500]
  by (simp add: tables_touch runs_def) (simp add: watchdogTouchAircraftCallsign_def mkAnalyzer_def silentSince_def)

text \<open>Switching the watchdog off does not excuse ATC stations: a silent station is still reported,
  and its callsign is entered in the table of the aircraft with a recent time stamp.\<close>

theorem disabled_watchdog_reports_atc:
  assumes "\<not> an_enabledWatchdog an" and "runs now an" and "an_aircraftCallsignTimestamps an = []"
    and "an_atcCallsignTimestamps an = [(cs, tsv)]" and "tsv \<le> now - an_timeoutAtcMs an"
  shows "snd (watchdogCheckTimeouts now an) = [TimeoutAtc cs]
    \<and> an_aircraftCallsignTimestamps (fst (watchdogCheckTimeouts now an))
      = [(cs, now - an_timeoutAtcMs an + 1000)]"
  using watchdog_disabled [OF assms] by blast

theorem disabled_watchdog_reports_atc_witness:
  "snd (watchdogCheckTimeouts 60000 ((watchdogTouchAtcCallsign 5000 ''EDDF_TWR''
     (mkAnalyzer 55000))\<lparr>an_enabledWatchdog := False\<rparr>)) = [TimeoutAtc ''EDDF_TWR'']"
  using disabled_watchdog_reports_atc [of "(watchdogTouchAtcCallsign 5000 ''EDDF_TWR''
     (mkAnalyzer 55000))\<lparr>an_enabledWatchdog := False\<rparr>" 60000 "''EDDF_TWR''" 5000]
  by (simp add: runs_def watchdogTouchAtcCallsign_def mkAnalyzer_def)
subsection \<open>Rates and offsets\<close>

text \<open>C39: The tokens a bucket grants over a sequence of requests, at times that do not run
  backwards, are at most its stock and what its interval refills until the last request.\<close>

theorem bucket_rate:
  assumes "bucket_policy tb" and "0 \<le> m_availableTokens tb" and "m_lastReplenishmentTime tb \<le> t"
    and "0 < t" and "times_from t rs" and "lastTime t rs \<le> u"
    and "m_numTokensToRefill tb * (u - m_lastReplenishmentTime tb) div m_intervalMs tb < 2 ^ 31"
  shows "fst (consumeAll tb rs) \<le>
     m_availableTokens tb + m_numTokensToRefill tb * (u - m_lastReplenishmentTime tb) div m_intervalMs tb"
proof -
  have "refill_fits tb u" using assms(7) by (simp add: refill_fits_def)
  from consumeAll_bound [OF assms(1,3-6)] consumeAll_potential [OF assms(1,3-6) this assms(2)]
  show ?thesis by (simp add: potential_def)
qed

theorem bucket_rate_witness:
  "fst (consumeAll (mkTokenBucket 1000 10 5000 1) [(6, 2000), (6, 3000), (5, 12000)]) \<le> 12"
  using bucket_rate [of "mkTokenBucket 1000 10 5000 1" 1000 "[(6, 2000), (6, 3000), (5, 12000)]" 12000]
  by (simp add: bucket_policy_def mkTokenBucket_def lastTime_def)

text \<open>The offset of a position is 6 s, or 1.5 s when the last (at most four) distances of a
  known aircraft are on average below 1.5 s and at least three of them are known, plus the
  additional offset of the configuration.\<close>

theorem position_offset:
  assumes "offsets_inv ot" and "m_lastPositionUpdate ot cs = Some old" and "0 \<le> ts"
  shows "fst (receivedPositionFixTsAndGetOffsetTime clock add cs ts ot) =
     add + (let used = take 4 (\<bar>ts - old\<bar> # offsets_of ot cs)
            in if qRound_quot (sum_list used) (length used) < 1500 \<and> 3 \<le> length used then 1500 else 6000)"
  using received_result [OF assms] by (simp add: Let_def)

theorem position_offset_witness:
  "fst (receivedPositionFixTsAndGetOffsetTime 0 0 ''DLH1'' 9000
      \<lparr>m_lastPositionUpdate = [''DLH1'' \<mapsto> 8000], m_lastOffsetTimes = [''DLH1'' \<mapsto> [1000, 1100]]\<rparr>) = 1500"
proof -
  let ?ot = "\<lparr>m_lastPositionUpdate = [''DLH1'' \<mapsto> 8000], m_lastOffsetTimes = [''DLH1'' \<mapsto> [1000, 1100]]\<rparr>"
  have "offsets_inv ?ot" by (simp add: offsets_inv_def offsets_of_def c_maxOffsetTimes_def)
  from position_offset [OF this, of "''DLH1''" 8000 9000 0 0] show ?thesis
    by (simp add: offsets_of_def qRound_quot_def numeral_eq_Suc)
qed

subsection \<open>Packed attitude, flags and lost fields\<close>

text \<open>Packing the attitude into 32 bits keeps the on-ground flag, whole degrees of pitch and
  bank in (-180, 180], and the heading up to less than 360/1024 degrees (in exact arithmetic).\<close>

theorem attitude_quantised:
  fixes p b :: int and h :: rat
  assumes "-180 < p" and "p \<le> 180" and "-180 < b" and "b \<le> 180" and "0 \<le> h" and "h < 360"
  shows "case unpackPBH dbl_rat (packPBH dbl_rat (of_int p) (of_int b) h g) of (p', b', h', g') \<Rightarrow>
     p' = of_int p \<and> b' = of_int b \<and> h' \<le> h \<and> h - h' < 360 / 1024 \<and> g' = g"
  using pitch_roundtrip_rat [OF assms(1,2), of "of_int b" h g]
    bank_roundtrip_rat [OF assms(3,4), of "of_int p" h g]
    heading_error_rat [OF assms(5,6), of "of_int p" "of_int b" g]
    onground_pack [of dbl_rat "of_int p" "of_int b" h g]
  by (simp add: case_prod_beta)

theorem attitude_quantised_witness:
  "fst (unpackPBH dbl_rat (packPBH dbl_rat (of_int (-3)) (of_int 20) 271 True)) = -3"
  using attitude_quantised [of "-3" 20 271 True] by (auto split: prod.splits)

subsection \<open>Callsigns, transponder codes, frequencies, SELCAL\<close>

text \<open>A callsign is normalised once and for all: normalising again changes nothing, the
  result is upper case and holds no character that the protocol uses, and the callsigns the
  validity checks accept are left alone.\<close>

theorem callsign_normal_form:
  "unifyCallsign (unifyCallsign s hint) hint = unifyCallsign s hint
   \<and> CHR '':'' \<notin> set (unifyCallsign s hint) \<and> no_outer_space (unifyCallsign s hint)
   \<and> (\<forall>c \<in> set (unifyCallsign s hint). \<not> isLowerC c)
   \<and> (isValidAircraftCallsign s \<longrightarrow> unifyCallsign s hint = s)
   \<and> (isValidAtcCallsign s \<longrightarrow> unifyCallsign s Atc = s)"
  using unify_unify unify_token unify_upper valid_aircraft_unify valid_atc_unify by blast

theorem callsign_normal_form_witness:
  "unifyCallsign ''DLH123'' Aircraft = ''DLH123'' \<and> unifyCallsign ''EDDF_TWR'' Atc = ''EDDF_TWR''"
proof -
  have "isValidAircraftCallsign ''DLH123''" "isValidAtcCallsign ''EDDF_TWR''" by code_simp+
  then show ?thesis
    using callsign_normal_form [of "''DLH123''" Aircraft] callsign_normal_form [of "''EDDF_TWR''" Atc] by blast
qed

text \<open>Rounding a civil frequency to the 8.33 kHz raster gives a channel of the raster, inside
  the civil band, and no channel is nearer.\<close>

theorem channel_rounding:
  assumes "118000 \<le> f" and "f \<le> 136990"
  shows "isValid8_33kHzChannel (round8_33kHzChannel f)
    \<and> 118000 \<le> round8_33kHzChannel f \<and> round8_33kHzChannel f \<le> 136990
    \<and> (\<forall>c. isValid8_33kHzChannel c \<and> 0 \<le> c \<longrightarrow> \<bar>round8_33kHzChannel f - f\<bar> \<le> \<bar>c - f\<bar>)"
  using round_nearest [OF assms] by blast

theorem channel_rounding_witness: "isValid8_33kHzChannel (round8_33kHzChannel 121523)"
  using channel_rounding [of 121523] by simp

subsection \<open>Text messages, raw log, lights\<close>

text \<open>A message that is relayed to the partner and turned back into a private message has
  its text, sender and recipient again.\<close>

theorem relay_roundtrip:
  assumes "relayable (m_senderCallsign tm)" and "relayable (m_recipientCallsign tm)"
    and "m_message tm \<noteq> []" and "\<not> startsWith (m_message tm) swiftRelayMessage"
  shows "relayedMessageToPrivateMessage (makeRelayedMessage partner tm) =
     (True, tm\<lparr>m_relayedMessage := True,
       m_senderCallsign := mkCallsign (cs_callsign (m_senderCallsign tm)) NoHint,
       m_recipientCallsign := mkCallsign (cs_callsign (m_recipientCallsign tm)) NoHint\<rparr>)"
  using assms by (rule relay_restore)

theorem relay_roundtrip_witness:
  "m_message (snd (relayedMessageToPrivateMessage (makeRelayedMessage (mkCallsign ''DLH2'' Aircraft)
      (mkPrivateMessage ''hello'' (mkCallsign ''BAW12'' NoHint) (mkCallsign ''DLH1'' NoHint))))) = ''hello''"
proof -
  let ?tm = "mkPrivateMessage ''hello'' (mkCallsign ''BAW12'' NoHint) (mkCallsign ''DLH1'' NoHint)"
  have "relayable (m_senderCallsign ?tm)" "relayable (m_recipientCallsign ?tm)"
    "m_message ?tm = ''hello''" "\<not> startsWith (m_message ?tm) swiftRelayMessage" by code_simp+
  with relay_roundtrip [of ?tm "mkCallsign ''DLH2'' Aircraft"] show ?thesis by simp
qed

text \<open>C40: The list of ATC stations behaves as a map from callsigns, compared without case, to
  frequencies: an update sets the entry of its callsign and a logoff clears it, and nothing else.\<close>

theorem stations_refine_map:
  assumes "\<not> cs_isEmpty (as_callsign s)"
  shows "stationMap (replaceOrAddStation s ss) = (stationMap ss)(stationKey (as_callsign s) \<mapsto> as_frequencykHz s)
    \<and> stationMap (removeStation cs ss) = (stationMap ss)(stationKey cs := None)"
  using stationMap_replace [OF assms] stationMap_remove by blast

theorem stations_refine_map_witness:
  "stationMap (replaceOrAddStation \<lparr>as_callsign = mkCallsign ''EDDF_TWR'' Atc, as_frequencykHz = 119900\<rparr> [])
     = [stationKey (mkCallsign ''EDDF_TWR'' Atc) \<mapsto> 119900]"
proof -
  have "\<not> cs_isEmpty (mkCallsign ''EDDF_TWR'' Atc)" by code_simp
  then have "\<not> cs_isEmpty (as_callsign \<lparr>as_callsign = mkCallsign ''EDDF_TWR'' Atc, as_frequencykHz = 119900\<rparr>)"
    by simp
  from stations_refine_map [OF this, of "[]"] show ?thesis by (simp add: stationMap_def)
qed

text \<open>A pilot who connects is logged in once the transport is up: the login packet, with the
  credentials of the server's configuration, is the first and only packet of the queue, the client
  is connected and the sender runs.\<close>

theorem login_is_first_packet:
  assumes "pilot_setup c"
  shows "\<exists>c'. client_run D table [(env, ConnectToServer host), (env', TransportConnected)] c = Some c'
     \<and> c_queue c' = [login_packet c] \<and> c_connectionStatus c' = Connected \<and> c_sendTimer c'"
  using assms by (rule login_first)

theorem login_is_first_packet_witness:
  "\<exists>c'. client_run dbl_rat messageTypeMapping
       [(sampleEnv 0 0, ConnectToServer ''sim''), (sampleEnv 90 0, TransportConnected)]
       ((sampleClient ''DLH1'')\<lparr>c_transportOpen := False, c_queue := [''stale'']\<rparr>) = Some c'
     \<and> c_queue c' = [login_packet ((sampleClient ''DLH1'')\<lparr>c_transportOpen := False, c_queue := [''stale'']\<rparr>)]
     \<and> c_connectionStatus c' = Connected \<and> c_sendTimer c'"
  by (rule login_is_first_packet)
     (simp add: pilot_setup_def sampleClient_def sampleServer_def PROTOCOL_REVISION_CLASSIC_def)

end
